(* ===== verification/Edm_Prelude.thy ===== *)
theory Edm_Prelude
  imports Main "HOL-Library.Word" "HOL-Library.AList" "HOL-Library.Multiset"
    "HOL-Library.Char_ord" "HOL-Library.List_Lexorder"
begin

text \<open>
  What every other theory of the development uses: the names of the model's
  base types, the collections of simplification rules, the C++ containers as
  HOL data (a \<open>std::vector\<close> is a list, a \<open>std::map\<close> or
  \<open>std::unordered_map\<close> is an association list whose order stands for the
  unspecified iteration order), and the erase/remove loops of the standard
  library that the code is full of.
\<close>

named_theorems edm_codes \<open>unfolding rules for numeric constants of the code base\<close>
named_theorems edm_state \<open>unfolding rules for state transformers\<close>

type_synonym err_code = int
type_synonym user_id = int
type_synonym u32 = "32 word"
type_synonym ('k, 'v) amap = "('k \<times> 'v) list"

subsection \<open>Maps as association lists\<close>

text \<open>\<open>m.insert(\<dots>)\<close> of the C++ maps keeps an existing entry, \<open>m[k] = v\<close>
  replaces it.\<close>

definition al_insert :: "'k \<Rightarrow> 'v \<Rightarrow> ('k, 'v) amap \<Rightarrow> ('k, 'v) amap" where
  "al_insert k v m = (if map_of m k = None then AList.update k v m else m)"

definition al_keys_distinct :: "('k, 'v) amap \<Rightarrow> bool" where
  "al_keys_distinct m = distinct (map fst m)"

lemma map_of_update [simp]:
  "map_of (AList.update k v m) = (map_of m)(k \<mapsto> v)"
  by (rule update_conv')

lemma map_of_delete [simp]:
  "map_of (AList.delete k m) = (map_of m)(k := None)"
  by (rule delete_conv')

lemma map_of_al_insert:
  "map_of (al_insert k v m) = (if map_of m k = None then (map_of m)(k \<mapsto> v) else map_of m)"
  by (simp add: al_insert_def)

lemma al_keys_distinct_update [simp, intro]:
  "al_keys_distinct m \<Longrightarrow> al_keys_distinct (AList.update k v m)"
  by (simp add: al_keys_distinct_def distinct_update)

lemma al_keys_distinct_delete [simp, intro]:
  "al_keys_distinct m \<Longrightarrow> al_keys_distinct (AList.delete k m)"
  by (simp add: al_keys_distinct_def distinct_delete)

lemma al_keys_distinct_insert [simp, intro]:
  "al_keys_distinct m \<Longrightarrow> al_keys_distinct (al_insert k v m)"
  by (simp add: al_insert_def)

lemma al_keys_distinct_Nil [simp]: "al_keys_distinct []"
  by (simp add: al_keys_distinct_def)

lemma al_keys_distinct_single [simp]: "al_keys_distinct [x]"
  by (simp add: al_keys_distinct_def)

lemma al_in_set_conv:
  "al_keys_distinct m \<Longrightarrow> (k, v) \<in> set m \<longleftrightarrow> map_of m k = Some v"
  by (simp add: al_keys_distinct_def)

text \<open>A property of every entry, computed over the list and stated through \<open>map_of\<close>.\<close>

definition al_all :: "('k \<Rightarrow> 'v \<Rightarrow> bool) \<Rightarrow> ('k, 'v) amap \<Rightarrow> bool" where
  "al_all P m = list_all (\<lambda>(k, v). P k v) m"

lemma al_all_iff:
  "al_keys_distinct m \<Longrightarrow> al_all P m \<longleftrightarrow> (\<forall>k v. map_of m k = Some v \<longrightarrow> P k v)"
  by (auto simp: al_all_def list_all_iff al_keys_distinct_def)

lemma al_all_lookup: "al_all P m \<Longrightarrow> map_of m k = Some v \<Longrightarrow> P k v"
  by (auto simp: al_all_def list_all_iff dest: map_of_SomeD)

lemma al_all_update [simp, intro]: "al_all P m \<Longrightarrow> P k v \<Longrightarrow> al_all P (AList.update k v m)"
  by (induction m) (auto simp: al_all_def)

lemma al_all_delete [simp, intro]: "al_all P m \<Longrightarrow> al_all P (AList.delete k m)"
  by (auto simp: al_all_def list_all_iff AList.delete_eq)

lemma al_all_Nil [simp]: "al_all P []"
  by (simp add: al_all_def)

lemma AList_update_eq_Nil [simp]: "AList.update k v m \<noteq> []"
  by (cases m) auto

text \<open>\<open>operator==\<close> of two maps: the same keys with the same values.\<close>

definition al_eq :: "('k, 'v) amap \<Rightarrow> ('k, 'v) amap \<Rightarrow> bool" where
  "al_eq m n = list_all (\<lambda>(k, _). map_of m k = map_of n k) (m @ n)"

lemma al_eq_iff: "al_eq m n \<longleftrightarrow> map_of m = map_of n"
proof
  assume eq: "al_eq m n"
  show "map_of m = map_of n"
  proof
    fix k
    show "map_of m k = map_of n k"
    proof (cases "k \<in> fst ` set (m @ n)")
      case True
      then show ?thesis using eq by (auto simp: al_eq_def list_all_iff)
    next
      case False
      then have "map_of m k = None" and "map_of n k = None"
        by (auto simp: map_of_eq_None_iff image_Un)
      then show ?thesis by simp
    qed
  qed
qed (auto simp: al_eq_def list_all_iff)

subsection \<open>Vectors\<close>

text \<open>\<open>std::find(b, e, x) != e\<close> is \<open>x \<in> set\<close>; the erase-while-iterating loop
  is the following recursion.\<close>

fun erase_loop :: "('a \<Rightarrow> bool) \<Rightarrow> 'a list \<Rightarrow> 'a list" where
  "erase_loop p [] = []"
| "erase_loop p (x # xs) = (if p x then erase_loop p xs else x # erase_loop p xs)"

lemma erase_loop_filter [simp]: "erase_loop p xs = filter (\<lambda>x. \<not> p x) xs"
  by (induction xs) auto

text \<open>A permutation of an image is the image of a permutation.\<close>

lemma mset_map_preimage:
  "mset xs = mset (map f ys) \<Longrightarrow> \<exists>zs. xs = map f zs \<and> mset zs = mset ys"
proof (induction xs arbitrary: ys)
  case (Cons x xs)
  then have "x \<in> set (map f ys)" by (metis list.set_intros(1) set_mset_mset)
  then obtain y where y: "y \<in> set ys" "x = f y" by auto
  have "mset xs = mset (map f (remove1 y ys))"
    using Cons.prems y by (simp add: image_mset_Diff)
      (metis add_mset_remove_trivial image_mset_add_mset insert_DiffM set_mset_mset)
  with Cons.IH obtain zs where "xs = map f zs" "mset zs = mset (remove1 y ys)" by blast
  with y show ?case by (intro exI [of _ "y # zs"]) simp
qed simp

end
