(* ===== verification/Func_Code.thy ===== *)
theory Func_Code
  imports Edm_Prelude
begin

unbundle bit_operations_syntax

text \<open>
  \<open>common/native/include/func_code.h\<close> and
  \<open>interfaces/inner_api/plugin_kits/src/utils/func_code_utils.cpp\<close>: the layout of
  an IPC request code (system flag, operate type, policy code) and the small
  array helpers the plugins share.
\<close>

datatype func_flag = SERVICE_FLAG | POLICY_FLAG | FLAG_UNKNOWN
datatype func_operate_type = OP_GET | OP_SET | OP_REMOVE | OP_UNKNOWN

definition func_flag_code :: "func_flag \<Rightarrow> u32" where
  "func_flag_code f = (case f of SERVICE_FLAG \<Rightarrow> 0 | POLICY_FLAG \<Rightarrow> 1 | FLAG_UNKNOWN \<Rightarrow> 15)"

definition operate_type_code :: "func_operate_type \<Rightarrow> u32" where
  "operate_type_code t = (case t of OP_GET \<Rightarrow> 0 | OP_SET \<Rightarrow> 1 | OP_REMOVE \<Rightarrow> 2 | OP_UNKNOWN \<Rightarrow> 15)"

text \<open>The macros of the header.\<close>

definition FUNC_TO_FLAG :: "u32 \<Rightarrow> u32" where
  "FUNC_TO_FLAG c = drop_bit 20 (c AND 0x00300000)"

definition FUNC_TO_OPERATE :: "u32 \<Rightarrow> u32" where
  "FUNC_TO_OPERATE c = drop_bit 16 (c AND 0x000F0000)"

definition FUNC_TO_POLICY :: "u32 \<Rightarrow> u32" where
  "FUNC_TO_POLICY c = c AND 0x0000FFFF"

definition FUNC_TO_NEW_FLAG :: "u32 \<Rightarrow> u32" where
  "FUNC_TO_NEW_FLAG c = (drop_bit 22 c) AND 1"

definition IS_NEW_INTERFACE :: "u32 \<Rightarrow> bool" where
  "IS_NEW_INTERFACE c = (FUNC_TO_NEW_FLAG c = 1)"

definition CREATE_FUNC_CODE :: "u32 \<Rightarrow> u32 \<Rightarrow> u32 \<Rightarrow> u32" where
  "CREATE_FUNC_CODE flag op policy = (push_bit 20 flag OR push_bit 16 op) OR policy"

definition POLICY_FUNC_CODE :: "u32 \<Rightarrow> u32 \<Rightarrow> u32" where
  "POLICY_FUNC_CODE op policy = CREATE_FUNC_CODE 1 op policy"

text \<open>The functions of \<open>FuncCodeUtils\<close>.\<close>

definition ConvertSystemFlag :: "u32 \<Rightarrow> func_flag" where
  "ConvertSystemFlag flag =
     (if flag = 0 then SERVICE_FLAG else if flag = 1 then POLICY_FLAG else FLAG_UNKNOWN)"

definition GetSystemFlag :: "u32 \<Rightarrow> func_flag" where
  "GetSystemFlag c = ConvertSystemFlag (FUNC_TO_FLAG c)"

definition ConvertOperateType :: "u32 \<Rightarrow> func_operate_type" where
  "ConvertOperateType t =
     (if t = 0 then OP_GET else if t = 1 then OP_SET else if t = 2 then OP_REMOVE else OP_UNKNOWN)"

definition GetOperateType :: "u32 \<Rightarrow> func_operate_type" where
  "GetOperateType c = ConvertOperateType (FUNC_TO_OPERATE c)"

definition GetPolicyCode :: "u32 \<Rightarrow> u32" where
  "GetPolicyCode c = FUNC_TO_POLICY c"

definition CreateFuncCode :: "u32 \<Rightarrow> u32 \<Rightarrow> u32 \<Rightarrow> u32" where
  "CreateFuncCode flag op policy = CREATE_FUNC_CODE flag op policy"

definition IsServiceFlag :: "u32 \<Rightarrow> bool" where
  "IsServiceFlag c = (GetSystemFlag c = SERVICE_FLAG)"

definition IsPolicyFlag :: "u32 \<Rightarrow> bool" where
  "IsPolicyFlag c = (GetSystemFlag c = POLICY_FLAG)"

text \<open>\<open>std::bitset<32>\<close> prints the most significant bit first.\<close>

definition PrintFuncCode :: "u32 \<Rightarrow> string" where
  "PrintFuncCode c = map (\<lambda>i. if bit c i then CHR ''1'' else CHR ''0'') (rev [0..<32])"

subsection \<open>Array helpers\<close>

definition ArrayStringContains :: "string list \<Rightarrow> string \<Rightarrow> bool" where
  "ArrayStringContains array item = list_ex (\<lambda>x. x = item) array"

definition RemovePolicy :: "string list \<Rightarrow> string list \<Rightarrow> string list" where
  "RemovePolicy removeData currentData = erase_loop (ArrayStringContains removeData) currentData"

definition RemovePolicyMaps :: "(string, string) amap list \<Rightarrow> (string, string) amap list
    \<Rightarrow> (string, string) amap list" where
  "RemovePolicyMaps removeData currentData =
     erase_loop (\<lambda>m. list_ex (\<lambda>item. al_eq item m) removeData) currentData"

lemma ArrayStringContains_iff [simp]: "ArrayStringContains a x \<longleftrightarrow> x \<in> set a"
  by (auto simp: ArrayStringContains_def list_ex_iff)

lemma RemovePolicy_eq: "RemovePolicy r c = filter (\<lambda>x. x \<notin> set r) c"
  by (simp add: RemovePolicy_def)

subsection \<open>Layout of the code\<close>

lemma bit_small_u32:
  fixes w :: u32
  assumes "unat w < 2 ^ k" "bit w n"
  shows "n < k"
proof -
  have "take_bit k w = w"
    using assms(1) by (metis take_bit_nat_eq_self_iff unsigned_take_bit_eq unsigned_word_eqI)
  then show ?thesis using assms(2) by (metis bit_take_bit_iff)
qed

lemma field_masks:
  "(0x00300000 :: u32) = push_bit 20 (mask 2)"
  "(0x000F0000 :: u32) = push_bit 16 (mask 4)"
  "(0x0000FFFF :: u32) = mask 16"
  by (simp_all add: mask_eq_exp_minus_1 push_bit_eq_mult)

lemmas field_bits = bit_and_iff bit_or_iff bit_push_bit_iff bit_drop_bit_eq bit_mask_iff

lemma create_func_code_bits:
  assumes "flag < 4" "op < 16" "policy < 0x10000"
  shows "FUNC_TO_FLAG (CREATE_FUNC_CODE flag op policy) = flag"
    and "FUNC_TO_OPERATE (CREATE_FUNC_CODE flag op policy) = op"
    and "FUNC_TO_POLICY (CREATE_FUNC_CODE flag op policy) = policy"
    and "FUNC_TO_NEW_FLAG (CREATE_FUNC_CODE flag op policy) = 0"
proof -
  have f: "\<not> bit flag n" if "2 \<le> n" for n
    using bit_small_u32 [of flag 2 n] assms(1) that by (auto simp: word_less_nat_alt)
  have o: "\<not> bit op n" if "4 \<le> n" for n
    using bit_small_u32 [of op 4 n] assms(2) that by (auto simp: word_less_nat_alt)
  have p: "\<not> bit policy n" if "16 \<le> n" for n
    using bit_small_u32 [of policy 16 n] assms(3) that by (auto simp: word_less_nat_alt)
  have f': "n < 2" if "bit flag n" for n using f that by (meson not_le)
  have o': "n < 4" if "bit op n" for n using o that by (meson not_le)
  have o'': "n < 16" if "bit op n" for n using o' [OF that] by simp
  have p': "n < 16" if "bit policy n" for n using p that by (meson not_le)
  have f'': "n < 12" if "bit flag n" for n using f' [OF that] by simp
  note bits = FUNC_TO_FLAG_def FUNC_TO_OPERATE_def FUNC_TO_POLICY_def FUNC_TO_NEW_FLAG_def
    CREATE_FUNC_CODE_def field_masks field_bits
  show "FUNC_TO_FLAG (CREATE_FUNC_CODE flag op policy) = flag"
    by (rule bit_word_eqI) (auto simp: bits f o p intro: f' f'' o' o'' p')
  show "FUNC_TO_OPERATE (CREATE_FUNC_CODE flag op policy) = op"
    by (rule bit_word_eqI) (auto simp: bits f o p intro: f' f'' o' o'' p')
  show "FUNC_TO_POLICY (CREATE_FUNC_CODE flag op policy) = policy"
    by (rule bit_word_eqI) (auto simp: bits f o p intro: f' f'' o' o'' p')
  show "FUNC_TO_NEW_FLAG (CREATE_FUNC_CODE flag op policy) = 0"
    by (rule bit_word_eqI) (auto simp: bits bit_1_iff f o p)
qed

text \<open>Decoding and encoding again gives the code back when only the three fields are used.\<close>

lemma create_func_code_of_fields:
  assumes "c < 0x400000"
  shows "CREATE_FUNC_CODE (FUNC_TO_FLAG c) (FUNC_TO_OPERATE c) (FUNC_TO_POLICY c) = c"
proof -
  have c: "\<not> bit c n" if "22 \<le> n" for n
    using bit_small_u32 [of c 22 n] assms that by (auto simp: word_less_nat_alt)
  show ?thesis
  proof (rule bit_word_eqI)
    fix n assume "n < LENGTH(32)"
    then show "bit (CREATE_FUNC_CODE (FUNC_TO_FLAG c) (FUNC_TO_OPERATE c) (FUNC_TO_POLICY c)) n
      \<longleftrightarrow> bit c n"
      by (cases "n < 16"; cases "n < 20"; cases "n < 22")
        (auto simp: c FUNC_TO_FLAG_def FUNC_TO_OPERATE_def FUNC_TO_POLICY_def
          CREATE_FUNC_CODE_def field_masks field_bits)
  qed
qed

lemma GetSystemFlag_create [simp]:
  assumes "f \<noteq> FLAG_UNKNOWN" "t \<noteq> OP_UNKNOWN" "policy < 0x10000"
  defines "c \<equiv> CreateFuncCode (func_flag_code f) (operate_type_code t) policy"
  shows "GetSystemFlag c = f" "GetOperateType c = t" "GetPolicyCode c = policy"
proof -
  have b: "func_flag_code f < 4" "operate_type_code t < 16"
    using assms by (auto simp: func_flag_code_def operate_type_code_def
        split: func_flag.splits func_operate_type.splits)
  note fields = create_func_code_bits [OF b assms(3)]
  show "GetSystemFlag c = f"
    unfolding c_def GetSystemFlag_def CreateFuncCode_def fields using assms(1)
    by (cases f) (simp_all add: ConvertSystemFlag_def func_flag_code_def)
  show "GetOperateType c = t"
    unfolding c_def GetOperateType_def CreateFuncCode_def fields using assms(2)
    by (cases t) (simp_all add: ConvertOperateType_def operate_type_code_def)
  show "GetPolicyCode c = policy"
    by (simp add: c_def GetPolicyCode_def CreateFuncCode_def fields)
qed

lemma PrintFuncCode_inj: "PrintFuncCode c = PrintFuncCode d \<Longrightarrow> c = d"
proof (rule bit_word_eqI)
  fix n assume eq: "PrintFuncCode c = PrintFuncCode d" and n: "n < LENGTH(32)"
  have "PrintFuncCode x ! (31 - n) = (if bit x n then CHR ''1'' else CHR ''0'')" for x
    using n by (simp add: PrintFuncCode_def rev_nth)
  from this [of c] this [of d] eq show "bit c n \<longleftrightarrow> bit d n"
    by (auto split: if_splits)
qed

text \<open>C10: A request code built from a system flag, an operate type and a 16 bit policy code is
  decoded by the three getters of \<open>FuncCodeUtils\<close> to exactly these parts, it is recognised by
  the matching one of \<open>IsServiceFlag\<close> and \<open>IsPolicyFlag\<close> only, is not mistaken for a code of
  the new interface, and codes of different parts are different.\<close>

theorem func_code_roundtrip:
  assumes "f \<noteq> FLAG_UNKNOWN" "t \<noteq> OP_UNKNOWN" "policy < 0x10000"
    and c: "c = CreateFuncCode (func_flag_code f) (operate_type_code t) policy"
  shows "GetSystemFlag c = f \<and> GetOperateType c = t \<and> GetPolicyCode c = policy
    \<and> IsServiceFlag c = (f = SERVICE_FLAG) \<and> IsPolicyFlag c = (f = POLICY_FLAG)
    \<and> \<not> IS_NEW_INTERFACE c
    \<and> CreateFuncCode (FUNC_TO_FLAG c) (FUNC_TO_OPERATE c) (FUNC_TO_POLICY c) = c"
proof -
  have b: "func_flag_code f < 4" "operate_type_code t < 16"
    using assms by (auto simp: func_flag_code_def operate_type_code_def
        split: func_flag.splits func_operate_type.splits)
  note fields = create_func_code_bits [OF b assms(3)]
  show ?thesis
    unfolding c using assms(1-3)
    by (simp add: IsServiceFlag_def IsPolicyFlag_def)
      (simp add: IS_NEW_INTERFACE_def CreateFuncCode_def fields)
qed

theorem func_code_roundtrip_witness:
  "GetSystemFlag (CreateFuncCode 1 1 1062) = POLICY_FLAG
    \<and> GetOperateType (CreateFuncCode 1 1 1062) = OP_SET
    \<and> GetPolicyCode (CreateFuncCode 1 1 1062) = 1062"
  using func_code_roundtrip [of POLICY_FLAG OP_SET 1062 "CreateFuncCode 1 1 1062"]
  by (simp add: func_flag_code_def operate_type_code_def)

end
