(* ===== verification/Edm_Codes.thy ===== *)
theory Edm_Codes
  imports Edm_Prelude
begin

text \<open>
  The numeric and string constants of the headers: the error codes of
  \<open>common/native/include/edm_errors.h\<close>, the interface codes of
  \<open>interfaces/inner_api/common/include/edm_ipc_interface_code.h\<close> (prefix \<open>IC_\<close>), the policy
  codes, policy names and permission names of \<open>common/native/include/edm_constants.h\<close>
  (prefix \<open>PC_\<close> for the policy codes that are added to \<open>POLICY_CODE_END\<close>). They are input
  abbreviations: a statement that names one is a statement about the number or the string.
\<close>

subsection \<open>Error codes\<close>

abbreviation (input) ERR_OK :: err_code where "ERR_OK \<equiv> 0"
abbreviation (input) ERR_EDM_SERVICE_NOT_READY :: err_code where "ERR_EDM_SERVICE_NOT_READY \<equiv> 33554433"
abbreviation (input) ERR_EDM_PARAM_ERROR :: err_code where "ERR_EDM_PARAM_ERROR \<equiv> 33554434"
abbreviation (input) ERR_EDM_PERMISSION_ERROR :: err_code where "ERR_EDM_PERMISSION_ERROR \<equiv> 33554435"
abbreviation (input) ERR_EDM_ADD_ADMIN_FAILED :: err_code where "ERR_EDM_ADD_ADMIN_FAILED \<equiv> 33554436"
abbreviation (input) ERR_EDM_DEL_ADMIN_FAILED :: err_code where "ERR_EDM_DEL_ADMIN_FAILED \<equiv> 33554437"
abbreviation (input) ERR_EDM_GET_PERMISSION_REQ :: err_code where "ERR_EDM_GET_PERMISSION_REQ \<equiv> 33554438"
abbreviation (input) ERR_EDM_GET_PLUGIN_MGR_FAILED :: err_code where "ERR_EDM_GET_PLUGIN_MGR_FAILED \<equiv> 33554439"
abbreviation (input) ERR_EDM_GET_ADMIN_MGR_FAILED :: err_code where "ERR_EDM_GET_ADMIN_MGR_FAILED \<equiv> 33554440"
abbreviation (input) ERR_EDM_HANDLE_POLICY_FAILED :: err_code where "ERR_EDM_HANDLE_POLICY_FAILED \<equiv> 33554441"
abbreviation (input) ERR_EDM_GET_POLICY_FAILED :: err_code where "ERR_EDM_GET_POLICY_FAILED \<equiv> 33554442"
abbreviation (input) ERR_EDM_BMS_ERROR :: err_code where "ERR_EDM_BMS_ERROR \<equiv> 33554443"
abbreviation (input) ERR_EDM_DEL_SUPER_ADMIN_FAILED :: err_code where "ERR_EDM_DEL_SUPER_ADMIN_FAILED \<equiv> 33554444"
abbreviation (input) ERR_GET_STORAGE_RDB_FAILED :: err_code where "ERR_GET_STORAGE_RDB_FAILED \<equiv> 33554449"
abbreviation (input) ERR_SET_PARENT_ADMIN_FAILED :: err_code where "ERR_SET_PARENT_ADMIN_FAILED \<equiv> 33554451"
abbreviation (input) ERR_CANNOT_FIND_QUERY_FAILED :: err_code where "ERR_CANNOT_FIND_QUERY_FAILED \<equiv> 33554452"
abbreviation (input) ERR_EDM_UNKNOWN_ADMIN :: err_code where "ERR_EDM_UNKNOWN_ADMIN \<equiv> 33685509"
abbreviation (input) ERR_EDM_SUPER_ADMIN_NOT_FOUND :: err_code where "ERR_EDM_SUPER_ADMIN_NOT_FOUND \<equiv> 33685510"
abbreviation (input) ERR_EDM_POLICY_NOT_FIND :: err_code where "ERR_EDM_POLICY_NOT_FIND \<equiv> 33751044"
abbreviation (input) ERR_EDM_POLICY_SET_FAILED :: err_code where "ERR_EDM_POLICY_SET_FAILED \<equiv> 33751045"
abbreviation (input) ERR_EDM_POLICY_NOT_FOUND :: err_code where "ERR_EDM_POLICY_NOT_FOUND \<equiv> 33751046"
abbreviation (input) ERR_EDM_POLICY_DEL_FAILED :: err_code where "ERR_EDM_POLICY_DEL_FAILED \<equiv> 33751047"
abbreviation (input) ERR_EDM_POLICY_REPLACE_FAILED :: err_code where "ERR_EDM_POLICY_REPLACE_FAILED \<equiv> 33751048"
abbreviation (input) ERR_EDM_OPERATE_JSON :: err_code where "ERR_EDM_OPERATE_JSON \<equiv> 33816577"
abbreviation (input) ERR_EDM_OPERATE_PARCEL :: err_code where "ERR_EDM_OPERATE_PARCEL \<equiv> 33816580"
abbreviation (input) ERR_EDM_NOT_EXIST_FUNC :: err_code where "ERR_EDM_NOT_EXIST_FUNC \<equiv> 33816582"
abbreviation (input) PARAM_ERROR :: err_code where "PARAM_ERROR \<equiv> 401"
abbreviation (input) PERMISSION_DENIED :: err_code where "PERMISSION_DENIED \<equiv> 201"
abbreviation (input) SYSTEM_API_DENIED :: err_code where "SYSTEM_API_DENIED \<equiv> 202"
abbreviation (input) INTERFACE_UNSUPPORTED :: err_code where "INTERFACE_UNSUPPORTED \<equiv> 801"
abbreviation (input) ADMIN_INACTIVE :: err_code where "ADMIN_INACTIVE \<equiv> 9200001"
abbreviation (input) ADMIN_EDM_PERMISSION_DENIED :: err_code where "ADMIN_EDM_PERMISSION_DENIED \<equiv> 9200002"
abbreviation (input) COMPONENT_INVALID :: err_code where "COMPONENT_INVALID \<equiv> 9200003"
abbreviation (input) ENABLE_ADMIN_FAILED :: err_code where "ENABLE_ADMIN_FAILED \<equiv> 9200004"
abbreviation (input) DISABLE_ADMIN_FAILED :: err_code where "DISABLE_ADMIN_FAILED \<equiv> 9200005"
abbreviation (input) UID_INVALID :: err_code where "UID_INVALID \<equiv> 9200006"
abbreviation (input) SYSTEM_ABNORMALLY :: err_code where "SYSTEM_ABNORMALLY \<equiv> 9200007"
abbreviation (input) MANAGED_EVENTS_INVALID :: err_code where "MANAGED_EVENTS_INVALID \<equiv> 9200008"
abbreviation (input) AUTHORIZE_PERMISSION_FAILED :: err_code where "AUTHORIZE_PERMISSION_FAILED \<equiv> 9200009"
abbreviation (input) CONFIGURATION_CONFLICT_FAILED :: err_code where "CONFIGURATION_CONFLICT_FAILED \<equiv> 9200010"
abbreviation (input) REPLACE_ADMIN_FAILED :: err_code where "REPLACE_ADMIN_FAILED \<equiv> 9200011"
abbreviation (input) PARAMETER_VERIFICATION_FAILED :: err_code where "PARAMETER_VERIFICATION_FAILED \<equiv> 9200012"

text \<open>\<open>FAILED\<close> and \<open>SUCCEEDED\<close> of the OpenHarmony base header.\<close>

abbreviation (input) FAILED :: "err_code \<Rightarrow> bool" where "FAILED e \<equiv> e \<noteq> 0"
abbreviation (input) SUCCEEDED :: "err_code \<Rightarrow> bool" where "SUCCEEDED e \<equiv> e = 0"

subsection \<open>Users and sizes\<close>

abbreviation (input) DEFAULT_USER_ID :: user_id where "DEFAULT_USER_ID \<equiv> 100"
abbreviation (input) EDM_UID :: int where "EDM_UID \<equiv> 3057"
abbreviation (input) BLUETOOTH_SERVICE_UID :: int where "BLUETOOTH_SERVICE_UID \<equiv> 1002"
abbreviation (input) USERIAM_SERVICE_UID :: int where "USERIAM_SERVICE_UID \<equiv> 1088"
abbreviation (input) USB_SERVICE_UID :: int where "USB_SERVICE_UID \<equiv> 1018"
abbreviation (input) SAMGR_SERVICE_UID :: int where "SAMGR_SERVICE_UID \<equiv> 5555"
abbreviation (input) DEFAULT_LOOP_MAX_SIZE :: nat where "DEFAULT_LOOP_MAX_SIZE \<equiv> 10000"
abbreviation (input) POLICIES_MAX_SIZE :: nat where "POLICIES_MAX_SIZE \<equiv> 200"

abbreviation (input) CONST_TRUE :: string where "CONST_TRUE \<equiv> ''true''"
abbreviation (input) CONST_FALSE :: string where "CONST_FALSE \<equiv> ''false''"
abbreviation (input) PERMISSION_TAG_VERSION_11 :: string where "PERMISSION_TAG_VERSION_11 \<equiv> ''version_11''"
abbreviation (input) PERMISSION_TAG_VERSION_12 :: string where "PERMISSION_TAG_VERSION_12 \<equiv> ''version_12''"
abbreviation (input) PERMISSION_TAG_VERSION_23 :: string where "PERMISSION_TAG_VERSION_23 \<equiv> ''version_23''"
abbreviation (input) PERMISSION_TAG_SYSTEM_API :: string where "PERMISSION_TAG_SYSTEM_API \<equiv> ''system''"

subsection \<open>Interface codes\<close>

abbreviation (input) IC_REMOVE_DEVICE_ADMIN :: u32 where "IC_REMOVE_DEVICE_ADMIN \<equiv> 2"
abbreviation (input) IC_SUBSCRIBE_MANAGED_EVENT :: u32 where "IC_SUBSCRIBE_MANAGED_EVENT \<equiv> 10"
abbreviation (input) IC_UNSUBSCRIBE_MANAGED_EVENT :: u32 where "IC_UNSUBSCRIBE_MANAGED_EVENT \<equiv> 11"
abbreviation (input) IC_AUTHORIZE_ADMIN :: u32 where "IC_AUTHORIZE_ADMIN \<equiv> 12"
abbreviation (input) IC_SET_DELEGATED_POLICIES :: u32 where "IC_SET_DELEGATED_POLICIES \<equiv> 14"
abbreviation (input) IC_GET_DELEGATED_POLICIES :: u32 where "IC_GET_DELEGATED_POLICIES \<equiv> 15"
abbreviation (input) IC_GET_DELEGATED_BUNDLE_NAMES :: u32 where "IC_GET_DELEGATED_BUNDLE_NAMES \<equiv> 16"
abbreviation (input) IC_IS_BYOD_ADMIN :: u32 where "IC_IS_BYOD_ADMIN \<equiv> 22"
abbreviation (input) IC_ENABLE_DEVICE_ADMIN :: u32 where "IC_ENABLE_DEVICE_ADMIN \<equiv> 25"
abbreviation (input) IC_DISABLE_DEVICE_ADMIN :: u32 where "IC_DISABLE_DEVICE_ADMIN \<equiv> 26"
abbreviation (input) IC_GET_ADMIN_INFOS :: u32 where "IC_GET_ADMIN_INFOS \<equiv> 31"
abbreviation (input) IC_SET_DATETIME :: u32 where "IC_SET_DATETIME \<equiv> 1001"
abbreviation (input) IC_GET_DEVICE_SERIAL :: u32 where "IC_GET_DEVICE_SERIAL \<equiv> 1002"
abbreviation (input) IC_GET_DEVICE_NAME :: u32 where "IC_GET_DEVICE_NAME \<equiv> 1004"
abbreviation (input) IC_RESET_FACTORY :: u32 where "IC_RESET_FACTORY \<equiv> 1005"
abbreviation (input) IC_DISALLOW_ADD_LOCAL_ACCOUNT :: u32 where "IC_DISALLOW_ADD_LOCAL_ACCOUNT \<equiv> 1006"
abbreviation (input) IC_IS_WIFI_ACTIVE :: u32 where "IC_IS_WIFI_ACTIVE \<equiv> 1007"
abbreviation (input) IC_GET_NETWORK_INTERFACES :: u32 where "IC_GET_NETWORK_INTERFACES \<equiv> 1008"
abbreviation (input) IC_GET_IP_ADDRESS :: u32 where "IC_GET_IP_ADDRESS \<equiv> 1009"
abbreviation (input) IC_GET_MAC :: u32 where "IC_GET_MAC \<equiv> 1010"
abbreviation (input) IC_ALLOWED_INSTALL_BUNDLES :: u32 where "IC_ALLOWED_INSTALL_BUNDLES \<equiv> 1011"
abbreviation (input) IC_DISALLOW_MODIFY_DATETIME :: u32 where "IC_DISALLOW_MODIFY_DATETIME \<equiv> 1012"
abbreviation (input) IC_SET_WIFI_PROFILE :: u32 where "IC_SET_WIFI_PROFILE \<equiv> 1013"
abbreviation (input) IC_DISALLOW_RUNNING_BUNDLES :: u32 where "IC_DISALLOW_RUNNING_BUNDLES \<equiv> 1015"
abbreviation (input) IC_DISABLED_NETWORK_INTERFACE :: u32 where "IC_DISABLED_NETWORK_INTERFACE \<equiv> 1016"
abbreviation (input) IC_DISALLOWED_INSTALL_BUNDLES :: u32 where "IC_DISALLOWED_INSTALL_BUNDLES \<equiv> 1017"
abbreviation (input) IC_SCREEN_OFF_TIME :: u32 where "IC_SCREEN_OFF_TIME \<equiv> 1018"
abbreviation (input) IC_DISALLOWED_UNINSTALL_BUNDLES :: u32 where "IC_DISALLOWED_UNINSTALL_BUNDLES \<equiv> 1019"
abbreviation (input) IC_UNINSTALL :: u32 where "IC_UNINSTALL \<equiv> 1020"
abbreviation (input) IC_DISABLED_PRINTER :: u32 where "IC_DISABLED_PRINTER \<equiv> 1021"
abbreviation (input) IC_DISABLED_HDC :: u32 where "IC_DISABLED_HDC \<equiv> 1022"
abbreviation (input) IC_IPTABLES_RULE :: u32 where "IC_IPTABLES_RULE \<equiv> 1023"
abbreviation (input) IC_SET_BROWSER_POLICIES :: u32 where "IC_SET_BROWSER_POLICIES \<equiv> 1024"
abbreviation (input) IC_GLOBAL_PROXY :: u32 where "IC_GLOBAL_PROXY \<equiv> 1025"
abbreviation (input) IC_USB_READ_ONLY :: u32 where "IC_USB_READ_ONLY \<equiv> 1026"
abbreviation (input) IC_INSTALL_CERTIFICATE :: u32 where "IC_INSTALL_CERTIFICATE \<equiv> 1027"
abbreviation (input) IC_INSTALL :: u32 where "IC_INSTALL \<equiv> 1028"
abbreviation (input) IC_POWER_POLICY :: u32 where "IC_POWER_POLICY \<equiv> 1029"
abbreviation (input) IC_NTP_SERVER :: u32 where "IC_NTP_SERVER \<equiv> 1030"
abbreviation (input) IC_LOCK_SCREEN :: u32 where "IC_LOCK_SCREEN \<equiv> 1033"
abbreviation (input) IC_FIREWALL_RULE :: u32 where "IC_FIREWALL_RULE \<equiv> 1034"
abbreviation (input) IC_DOMAIN_FILTER_RULE :: u32 where "IC_DOMAIN_FILTER_RULE \<equiv> 1035"
abbreviation (input) IC_SHUTDOWN :: u32 where "IC_SHUTDOWN \<equiv> 1036"
abbreviation (input) IC_REBOOT :: u32 where "IC_REBOOT \<equiv> 1037"
abbreviation (input) IC_DISALLOW_ADD_OS_ACCOUNT_BY_USER :: u32 where "IC_DISALLOW_ADD_OS_ACCOUNT_BY_USER \<equiv> 1038"
abbreviation (input) IC_ADD_OS_ACCOUNT :: u32 where "IC_ADD_OS_ACCOUNT \<equiv> 1039"
abbreviation (input) IC_GET_BLUETOOTH_INFO :: u32 where "IC_GET_BLUETOOTH_INFO \<equiv> 1040"
abbreviation (input) IC_LOCATION_POLICY :: u32 where "IC_LOCATION_POLICY \<equiv> 1042"
abbreviation (input) IC_DISABLE_USB :: u32 where "IC_DISABLE_USB \<equiv> 1043"
abbreviation (input) IC_ALLOWED_USB_DEVICES :: u32 where "IC_ALLOWED_USB_DEVICES \<equiv> 1044"
abbreviation (input) IC_MANAGE_AUTO_START_APPS :: u32 where "IC_MANAGE_AUTO_START_APPS \<equiv> 1045"
abbreviation (input) IC_DISABLE_WIFI :: u32 where "IC_DISABLE_WIFI \<equiv> 1046"
abbreviation (input) IC_DISABLE_MICROPHONE :: u32 where "IC_DISABLE_MICROPHONE \<equiv> 1047"
abbreviation (input) IC_DISABLE_BLUETOOTH :: u32 where "IC_DISABLE_BLUETOOTH \<equiv> 1048"
abbreviation (input) IC_FINGERPRINT_AUTH :: u32 where "IC_FINGERPRINT_AUTH \<equiv> 1049"
abbreviation (input) IC_GET_DEVICE_INFO :: u32 where "IC_GET_DEVICE_INFO \<equiv> 1050"
abbreviation (input) IC_PASSWORD_POLICY :: u32 where "IC_PASSWORD_POLICY \<equiv> 1051"
abbreviation (input) IC_ALLOWED_BLUETOOTH_DEVICES :: u32 where "IC_ALLOWED_BLUETOOTH_DEVICES \<equiv> 1052"
abbreviation (input) IC_OPERATE_DEVICE :: u32 where "IC_OPERATE_DEVICE \<equiv> 1053"
abbreviation (input) IC_CLIPBOARD_POLICY :: u32 where "IC_CLIPBOARD_POLICY \<equiv> 1054"
abbreviation (input) IC_SET_OTA_UPDATE_POLICY :: u32 where "IC_SET_OTA_UPDATE_POLICY \<equiv> 1055"
abbreviation (input) IC_NOTIFY_UPGRADE_PACKAGES :: u32 where "IC_NOTIFY_UPGRADE_PACKAGES \<equiv> 1056"
abbreviation (input) IC_DISALLOWED_TETHERING :: u32 where "IC_DISALLOWED_TETHERING \<equiv> 1057"
abbreviation (input) IC_INACTIVE_USER_FREEZE :: u32 where "IC_INACTIVE_USER_FREEZE \<equiv> 1058"
abbreviation (input) IC_DISALLOWED_USB_DEVICES :: u32 where "IC_DISALLOWED_USB_DEVICES \<equiv> 1059"
abbreviation (input) IC_SNAPSHOT_SKIP :: u32 where "IC_SNAPSHOT_SKIP \<equiv> 1060"
abbreviation (input) IC_WATERMARK_IMAGE :: u32 where "IC_WATERMARK_IMAGE \<equiv> 1061"
abbreviation (input) IC_DISABLE_CAMERA :: u32 where "IC_DISABLE_CAMERA \<equiv> 1062"
abbreviation (input) IC_MANAGE_KEEP_ALIVE_APPS :: u32 where "IC_MANAGE_KEEP_ALIVE_APPS \<equiv> 1063"
abbreviation (input) IC_MANAGED_BROWSER_POLICY :: u32 where "IC_MANAGED_BROWSER_POLICY \<equiv> 1064"
abbreviation (input) IC_DISABLE_MTP_CLIENT :: u32 where "IC_DISABLE_MTP_CLIENT \<equiv> 1066"
abbreviation (input) IC_DISABLE_MTP_SERVER :: u32 where "IC_DISABLE_MTP_SERVER \<equiv> 1067"
abbreviation (input) IC_DOMAIN_ACCOUNT_POLICY :: u32 where "IC_DOMAIN_ACCOUNT_POLICY \<equiv> 1068"
abbreviation (input) IC_DISABLE_MAINTENANCE_MODE :: u32 where "IC_DISABLE_MAINTENANCE_MODE \<equiv> 1069"
abbreviation (input) IC_ALLOWED_WIFI_LIST :: u32 where "IC_ALLOWED_WIFI_LIST \<equiv> 1070"
abbreviation (input) IC_DISALLOWED_WIFI_LIST :: u32 where "IC_DISALLOWED_WIFI_LIST \<equiv> 1071"
abbreviation (input) IC_SWITCH_BLUETOOTH :: u32 where "IC_SWITCH_BLUETOOTH \<equiv> 1072"
abbreviation (input) IC_DISALLOWED_SMS :: u32 where "IC_DISALLOWED_SMS \<equiv> 1073"
abbreviation (input) IC_DISALLOWED_MMS :: u32 where "IC_DISALLOWED_MMS \<equiv> 1074"
abbreviation (input) IC_GET_BUNDLE_INFO_LIST :: u32 where "IC_GET_BUNDLE_INFO_LIST \<equiv> 1075"
abbreviation (input) IC_DISABLE_BACKUP_AND_RESTORE :: u32 where "IC_DISABLE_BACKUP_AND_RESTORE \<equiv> 1076"
abbreviation (input) IC_SWITCH_WIFI :: u32 where "IC_SWITCH_WIFI \<equiv> 1077"
abbreviation (input) IC_DISALLOWED_BLUETOOTH_PROTOCOLS :: u32 where "IC_DISALLOWED_BLUETOOTH_PROTOCOLS \<equiv> 1078"
abbreviation (input) IC_DISALLOWED_BLUETOOTH_DEVICES :: u32 where "IC_DISALLOWED_BLUETOOTH_DEVICES \<equiv> 1079"
abbreviation (input) IC_DISALLOW_MODIFY_APN :: u32 where "IC_DISALLOW_MODIFY_APN \<equiv> 1080"
abbreviation (input) IC_TURNONOFF_MOBILE_DATA :: u32 where "IC_TURNONOFF_MOBILE_DATA \<equiv> 1081"
abbreviation (input) IC_DISABLE_REMOTE_DESK :: u32 where "IC_DISABLE_REMOTE_DESK \<equiv> 1082"
abbreviation (input) IC_DISABLE_REMOTE_DIAGNOSIS :: u32 where "IC_DISABLE_REMOTE_DIAGNOSIS \<equiv> 1083"
abbreviation (input) IC_CLEAR_UP_APPLICATION_DATA :: u32 where "IC_CLEAR_UP_APPLICATION_DATA \<equiv> 1084"
abbreviation (input) IC_DISABLE_USER_MTP_CLIENT :: u32 where "IC_DISABLE_USER_MTP_CLIENT \<equiv> 1085"
abbreviation (input) IC_SET_APN_INFO :: u32 where "IC_SET_APN_INFO \<equiv> 1086"
abbreviation (input) IC_DISALLOWED_SIM :: u32 where "IC_DISALLOWED_SIM \<equiv> 1087"
abbreviation (input) IC_DISALLOWED_MOBILE_DATA :: u32 where "IC_DISALLOWED_MOBILE_DATA \<equiv> 1088"
abbreviation (input) IC_DISALLOW_MODIFY_ETHERNET_IP :: u32 where "IC_DISALLOW_MODIFY_ETHERNET_IP \<equiv> 1089"
abbreviation (input) IC_DISABLE_SET_BIOMETRICS_AND_SCREENLOCK :: u32 where "IC_DISABLE_SET_BIOMETRICS_AND_SCREENLOCK \<equiv> 1090"
abbreviation (input) IC_DISABLE_SET_DEVICE_NAME :: u32 where "IC_DISABLE_SET_DEVICE_NAME \<equiv> 1091"
abbreviation (input) IC_DISABLE_SAMBA_CLIENT :: u32 where "IC_DISABLE_SAMBA_CLIENT \<equiv> 1092"
abbreviation (input) IC_DISABLE_SAMBA_SERVER :: u32 where "IC_DISABLE_SAMBA_SERVER \<equiv> 1093"
abbreviation (input) IC_SET_KIOSK_FEATURE :: u32 where "IC_SET_KIOSK_FEATURE \<equiv> 1094"
abbreviation (input) IC_DISALLOW_POWER_LONG_PRESS :: u32 where "IC_DISALLOW_POWER_LONG_PRESS \<equiv> 1095"
abbreviation (input) IC_ALLOWED_KIOSK_APPS :: u32 where "IC_ALLOWED_KIOSK_APPS \<equiv> 1096"
abbreviation (input) IC_IS_APP_KIOSK_ALLOWED :: u32 where "IC_IS_APP_KIOSK_ALLOWED \<equiv> 1097"
abbreviation (input) IC_DISALLOWED_AIRPLANE_MODE :: u32 where "IC_DISALLOWED_AIRPLANE_MODE \<equiv> 1099"
abbreviation (input) IC_ALLOWED_INSTALL_APP_TYPE :: u32 where "IC_ALLOWED_INSTALL_APP_TYPE \<equiv> 1100"
abbreviation (input) IC_DISALLOW_VPN :: u32 where "IC_DISALLOW_VPN \<equiv> 1101"
abbreviation (input) IC_SET_AUTO_UNLOCK_AFTER_REBOOT :: u32 where "IC_SET_AUTO_UNLOCK_AFTER_REBOOT \<equiv> 1102"
abbreviation (input) IC_DISALLOWED_USB_STORAGE_DEVICE_WRITE :: u32 where "IC_DISALLOWED_USB_STORAGE_DEVICE_WRITE \<equiv> 1103"
abbreviation (input) IC_DISALLOWED_DISTRIBUTED_TRANSMISSION :: u32 where "IC_DISALLOWED_DISTRIBUTED_TRANSMISSION \<equiv> 1104"
abbreviation (input) IC_DISALLOWED_SUDO :: u32 where "IC_DISALLOWED_SUDO \<equiv> 1105"
abbreviation (input) IC_SET_INSTALL_LOCAL_ENTERPRISE_APP_ENABLED :: u32 where "IC_SET_INSTALL_LOCAL_ENTERPRISE_APP_ENABLED \<equiv> 1106"
abbreviation (input) IC_DISALLOWED_NOTIFICATION :: u32 where "IC_DISALLOWED_NOTIFICATION \<equiv> 1107"
abbreviation (input) IC_TELEPHONY_CALL_POLICY :: u32 where "IC_TELEPHONY_CALL_POLICY \<equiv> 1108"
abbreviation (input) IC_DISALLOWED_TELEPHONY_CALL :: u32 where "IC_DISALLOWED_TELEPHONY_CALL \<equiv> 1109"
abbreviation (input) IC_DISALLOWED_NEARLINK_PROTOCOLS :: u32 where "IC_DISALLOWED_NEARLINK_PROTOCOLS \<equiv> 1110"
abbreviation (input) IC_DISABLE_PRIVATE_SPACE :: u32 where "IC_DISABLE_PRIVATE_SPACE \<equiv> 1111"
abbreviation (input) IC_DISALLOWED_EXPORT_RECOVERY_KEY :: u32 where "IC_DISALLOWED_EXPORT_RECOVERY_KEY \<equiv> 1112"
abbreviation (input) IC_DISABLED_PRINT :: u32 where "IC_DISABLED_PRINT \<equiv> 1113"
abbreviation (input) IC_PERMISSION_MANAGED_STATE :: u32 where "IC_PERMISSION_MANAGED_STATE \<equiv> 1114"
abbreviation (input) IC_SET_WALL_PAPER :: u32 where "IC_SET_WALL_PAPER \<equiv> 1115"
abbreviation (input) IC_DISABLED_APP_CLONE :: u32 where "IC_DISABLED_APP_CLONE \<equiv> 1116"
abbreviation (input) IC_DISALLOWED_RANDOM_MAC_ADDRESS :: u32 where "IC_DISALLOWED_RANDOM_MAC_ADDRESS \<equiv> 1117"
abbreviation (input) IC_DISALLOWED_EXTERNAL_STORAGE_CARD :: u32 where "IC_DISALLOWED_EXTERNAL_STORAGE_CARD \<equiv> 1118"
abbreviation (input) IC_ALLOW_RUNNING_BUNDLES :: u32 where "IC_ALLOW_RUNNING_BUNDLES \<equiv> 1119"
abbreviation (input) IC_DISALLOW_UNMUTE_DEVICE :: u32 where "IC_DISALLOW_UNMUTE_DEVICE \<equiv> 1120"
abbreviation (input) IC_DISABLED_HDC_REMOTE :: u32 where "IC_DISABLED_HDC_REMOTE \<equiv> 1121"
abbreviation (input) IC_INSTALL_MARKET_APPS :: u32 where "IC_INSTALL_MARKET_APPS \<equiv> 1122"
abbreviation (input) IC_DISABLE_RUNNING_BINARY_APP :: u32 where "IC_DISABLE_RUNNING_BINARY_APP \<equiv> 1123"
abbreviation (input) IC_DISALLOW_VIRTUAL_SERVICE :: u32 where "IC_DISALLOW_VIRTUAL_SERVICE \<equiv> 1124"
abbreviation (input) IC_MANAGE_USER_NON_STOP_APPS :: u32 where "IC_MANAGE_USER_NON_STOP_APPS \<equiv> 1125"
abbreviation (input) IC_HANG_UP_CALLING :: u32 where "IC_HANG_UP_CALLING \<equiv> 1126"
abbreviation (input) IC_MANAGE_FREEZE_EXEMPTED_APPS :: u32 where "IC_MANAGE_FREEZE_EXEMPTED_APPS \<equiv> 1127"
abbreviation (input) IC_SET_EYE_COMFORT_MODE :: u32 where "IC_SET_EYE_COMFORT_MODE \<equiv> 1128"
abbreviation (input) IC_SET_NETWORK_INTERFACE_CONFIG :: u32 where "IC_SET_NETWORK_INTERFACE_CONFIG \<equiv> 1129"
abbreviation (input) IC_DISALLOWED_FILEBOOST_OPEN :: u32 where "IC_DISALLOWED_FILEBOOST_OPEN \<equiv> 1130"
abbreviation (input) IC_SET_DEFAULT_INPUT_METHOD :: u32 where "IC_SET_DEFAULT_INPUT_METHOD \<equiv> 1131"
abbreviation (input) IC_INSTALL_ENTERPRISE_RE_SIGNATURE_CERTIFICATE :: u32 where "IC_INSTALL_ENTERPRISE_RE_SIGNATURE_CERTIFICATE \<equiv> 1132"
abbreviation (input) IC_DISALLOW_MODIFY_WALLPAPER :: u32 where "IC_DISALLOW_MODIFY_WALLPAPER \<equiv> 1133"
abbreviation (input) IC_SET_ABILITY_ENABLED :: u32 where "IC_SET_ABILITY_ENABLED \<equiv> 1134"
abbreviation (input) IC_SET_KEY_CODE_POLICYS :: u32 where "IC_SET_KEY_CODE_POLICYS \<equiv> 1135"
abbreviation (input) IC_DISALLOW_USB_SERIAL :: u32 where "IC_DISALLOW_USB_SERIAL \<equiv> 1136"
abbreviation (input) IC_SET_DEVICE_NAME :: u32 where "IC_SET_DEVICE_NAME \<equiv> 1137"
abbreviation (input) IC_SET_FLOATING_NAVIGATION :: u32 where "IC_SET_FLOATING_NAVIGATION \<equiv> 1138"
abbreviation (input) IC_DISABLED_ACTIVATION_LOCK :: u32 where "IC_DISABLED_ACTIVATION_LOCK \<equiv> 1139"
abbreviation (input) IC_MANAGE_SIM :: u32 where "IC_MANAGE_SIM \<equiv> 1140"
abbreviation (input) IC_GET_EXT_INFO :: u32 where "IC_GET_EXT_INFO \<equiv> 1141"
abbreviation (input) IC_SET_DEFAULT_DATA_SIM :: u32 where "IC_SET_DEFAULT_DATA_SIM \<equiv> 1142"
abbreviation (input) IC_INSTALL_LOCAL_ENTERPRISE_APP_ENABLED_FOR_ACCOUNT :: u32 where "IC_INSTALL_LOCAL_ENTERPRISE_APP_ENABLED_FOR_ACCOUNT \<equiv> 1143"
abbreviation (input) IC_ADD_DOCK_APP :: u32 where "IC_ADD_DOCK_APP \<equiv> 1144"
abbreviation (input) IC_HIDDEN_SETTINGS_MENU :: u32 where "IC_HIDDEN_SETTINGS_MENU \<equiv> 1145"
abbreviation (input) IC_SET_SWITCH_STATUS :: u32 where "IC_SET_SWITCH_STATUS \<equiv> 1146"
abbreviation (input) IC_ALLOWED_NOTIFICATION_BUNDLES :: u32 where "IC_ALLOWED_NOTIFICATION_BUNDLES \<equiv> 1147"
abbreviation (input) IC_DISALLOWED_P2P :: u32 where "IC_DISALLOWED_P2P \<equiv> 1148"
abbreviation (input) IC_QUERY_TRAFFIC_STATS :: u32 where "IC_QUERY_TRAFFIC_STATS \<equiv> 1149"
abbreviation (input) IC_DISALLOWED_MULTI_WINDOW :: u32 where "IC_DISALLOWED_MULTI_WINDOW \<equiv> 1150"
abbreviation (input) IC_QUERY_BUNDLE_STATS_INFOS :: u32 where "IC_QUERY_BUNDLE_STATS_INFOS \<equiv> 1152"
abbreviation (input) IC_DISALLOWED_UINPUT :: u32 where "IC_DISALLOWED_UINPUT \<equiv> 1153"
abbreviation (input) IC_DISALLOW_CORE_DUMP :: u32 where "IC_DISALLOW_CORE_DUMP \<equiv> 1154"
abbreviation (input) IC_SCREEN_WATERMARK_IMAGE :: u32 where "IC_SCREEN_WATERMARK_IMAGE \<equiv> 1155"
abbreviation (input) IC_DISALLOWED_DISTRIBUTED_TRANSMISSION_FULL :: u32 where "IC_DISALLOWED_DISTRIBUTED_TRANSMISSION_FULL \<equiv> 1156"
abbreviation (input) IC_DISABLE_SCREEN_LOCK :: u32 where "IC_DISABLE_SCREEN_LOCK \<equiv> 1157"
abbreviation (input) IC_ENABLE_SELF_DEVICE_ADMIN :: u32 where "IC_ENABLE_SELF_DEVICE_ADMIN \<equiv> 1158"
abbreviation (input) IC_DISALLOWED_DEVICE_SUDO :: u32 where "IC_DISALLOWED_DEVICE_SUDO \<equiv> 1159"
abbreviation (input) IC_GET_APPLICATION_WINDOW_STATES :: u32 where "IC_GET_APPLICATION_WINDOW_STATES \<equiv> 1160"
abbreviation (input) IC_ALLOWED_COLLABORATION_SERVICE_BUNDLES :: u32 where "IC_ALLOWED_COLLABORATION_SERVICE_BUNDLES \<equiv> 1161"
abbreviation (input) IC_DISALLOW_RS232 :: u32 where "IC_DISALLOW_RS232 \<equiv> 1162"
abbreviation (input) IC_OTA_UPDATE_NONCE :: u32 where "IC_OTA_UPDATE_NONCE \<equiv> 1163"
abbreviation (input) IC_MANAGE_NORMAL_OS_ACCOUNT :: u32 where "IC_MANAGE_NORMAL_OS_ACCOUNT \<equiv> 1164"
abbreviation (input) IC_DISALLOWED_TRAFFIC_REDIRECTION :: u32 where "IC_DISALLOWED_TRAFFIC_REDIRECTION \<equiv> 1165"
abbreviation (input) IC_DISALLOWED_PERMISSIVE_USB_DEVICES :: u32 where "IC_DISALLOWED_PERMISSIVE_USB_DEVICES \<equiv> 1166"
abbreviation (input) IC_DISALLOWED_PERMISSION :: u32 where "IC_DISALLOWED_PERMISSION \<equiv> 1167"
abbreviation (input) IC_ALLOWED_PERMISSION_BUNDLE :: u32 where "IC_ALLOWED_PERMISSION_BUNDLE \<equiv> 1168"
abbreviation (input) IC_ACTIVATE_NORMAL_OS_ACCOUNT :: u32 where "IC_ACTIVATE_NORMAL_OS_ACCOUNT \<equiv> 1169"
abbreviation (input) IC_LOCAL_HOTA_DOMAIN :: u32 where "IC_LOCAL_HOTA_DOMAIN \<equiv> 1170"
abbreviation (input) IC_USER_EXT_SESSION :: u32 where "IC_USER_EXT_SESSION \<equiv> 1171"
abbreviation (input) IC_USER_EXT_CREDENTIAL :: u32 where "IC_USER_EXT_CREDENTIAL \<equiv> 1172"
abbreviation (input) IC_UNLOCK_POLICY :: u32 where "IC_UNLOCK_POLICY \<equiv> 1173"
abbreviation (input) IC_DEVICE_SECURITY_LEVEL_POLICY :: u32 where "IC_DEVICE_SECURITY_LEVEL_POLICY \<equiv> 1174"
abbreviation (input) IC_DISALLOW_X_KEY :: u32 where "IC_DISALLOW_X_KEY \<equiv> 1175"
abbreviation (input) IC_PUBLISH_FORM_TO_DESKTOP :: u32 where "IC_PUBLISH_FORM_TO_DESKTOP \<equiv> 1176"
abbreviation (input) IC_EXEMPTION_RESOURCE :: u32 where "IC_EXEMPTION_RESOURCE \<equiv> 1177"
abbreviation (input) IC_GET_USB_SERIAL_NUMBER :: u32 where "IC_GET_USB_SERIAL_NUMBER \<equiv> 1179"
abbreviation (input) IC_ALLOWED_PRINTER_IP_ADDRESS_FOR_DEVICE :: u32 where "IC_ALLOWED_PRINTER_IP_ADDRESS_FOR_DEVICE \<equiv> 1180"
abbreviation (input) IC_ALLOWED_PRINTER_IP_ADDRESS_FOR_ACCOUNT :: u32 where "IC_ALLOWED_PRINTER_IP_ADDRESS_FOR_ACCOUNT \<equiv> 1181"
abbreviation (input) IC_DISABLE_SATA_ODD_BURN :: u32 where "IC_DISABLE_SATA_ODD_BURN \<equiv> 1182"
abbreviation (input) IC_ALLOWED_ODD_BURN_USB_DEVICES :: u32 where "IC_ALLOWED_ODD_BURN_USB_DEVICES \<equiv> 1183"
abbreviation (input) IC_EXTERNAL_STORAGE_INTERCEPT_ENABLE :: u32 where "IC_EXTERNAL_STORAGE_INTERCEPT_ENABLE \<equiv> 1184"
abbreviation (input) IC_EXTERNAL_STORAGE_DEVICE_MOUNT_POLICY :: u32 where "IC_EXTERNAL_STORAGE_DEVICE_MOUNT_POLICY \<equiv> 1185"
abbreviation (input) IC_DISALLOWED_PACKET_FILTERING :: u32 where "IC_DISALLOWED_PACKET_FILTERING \<equiv> 1186"
abbreviation (input) IC_GET_EXTERNAL_STORAGE_DEVICE_INFOS :: u32 where "IC_GET_EXTERNAL_STORAGE_DEVICE_INFOS \<equiv> 1187"
abbreviation (input) IC_IS_ALLOWED_ODD_BURN :: u32 where "IC_IS_ALLOWED_ODD_BURN \<equiv> 1188"
abbreviation (input) IC_POLICY_CODE_END :: u32 where "IC_POLICY_CODE_END \<equiv> 3000"

subsection \<open>Policy codes beyond the interface codes\<close>

abbreviation (input) PC_DISALLOW_SCREEN_SHOT :: u32 where "PC_DISALLOW_SCREEN_SHOT \<equiv> 11"
abbreviation (input) PC_DISALLOW_SCREEN_RECORD :: u32 where "PC_DISALLOW_SCREEN_RECORD \<equiv> 12"
abbreviation (input) PC_DISABLE_DISK_RECOVERY_KEY :: u32 where "PC_DISABLE_DISK_RECOVERY_KEY \<equiv> 17"
abbreviation (input) PC_DISALLOW_NEAR_LINK :: u32 where "PC_DISALLOW_NEAR_LINK \<equiv> 18"
abbreviation (input) PC_DISABLE_DEVELOPER_MODE :: u32 where "PC_DISABLE_DEVELOPER_MODE \<equiv> 20"
abbreviation (input) PC_DISABLE_RESET_FACTORY :: u32 where "PC_DISABLE_RESET_FACTORY \<equiv> 21"
abbreviation (input) PC_DISABLE_OTA :: u32 where "PC_DISABLE_OTA \<equiv> 23"
abbreviation (input) PC_DISALLOWED_NFC :: u32 where "PC_DISALLOWED_NFC \<equiv> 24"
abbreviation (input) PC_DISALLOW_REMOTE_DESK :: u32 where "PC_DISALLOW_REMOTE_DESK \<equiv> 25"
abbreviation (input) PC_DISALLOW_REMOTE_DIAGNOSIS :: u32 where "PC_DISALLOW_REMOTE_DIAGNOSIS \<equiv> 26"
abbreviation (input) PC_START_COLLECT_LOG :: u32 where "PC_START_COLLECT_LOG \<equiv> 30"
abbreviation (input) PC_HIDDEN_SETTINGS_MENU :: u32 where "PC_HIDDEN_SETTINGS_MENU \<equiv> 34"
abbreviation (input) PC_DISABLE_SUPERHUB :: u32 where "PC_DISABLE_SUPERHUB \<equiv> 36"
abbreviation (input) PC_HIDE_LAUNCHER_ICON :: u32 where "PC_HIDE_LAUNCHER_ICON \<equiv> 37"
abbreviation (input) PC_DISABLE_SECURE_ERASE :: u32 where "PC_DISABLE_SECURE_ERASE \<equiv> 39"
abbreviation (input) PC_DISALLOWED_SYSTEM_ROLLBACK :: u32 where "PC_DISALLOWED_SYSTEM_ROLLBACK \<equiv> 42"
abbreviation (input) PC_DISABLE_SUPER_PRIVACY :: u32 where "PC_DISABLE_SUPER_PRIVACY \<equiv> 44"

subsection \<open>Policy names\<close>

abbreviation (input) POLICY_ALLOWED_BLUETOOTH_DEVICES :: string where "POLICY_ALLOWED_BLUETOOTH_DEVICES \<equiv> ''allowed_bluetooth_devices''"
abbreviation (input) POLICY_ALLOWED_INSTALL_BUNDLES :: string where "POLICY_ALLOWED_INSTALL_BUNDLES \<equiv> ''allowed_install_bundles''"
abbreviation (input) POLICY_ALLOWED_USB_DEVICES :: string where "POLICY_ALLOWED_USB_DEVICES \<equiv> ''allowed_usb_devices''"
abbreviation (input) POLICY_CLIPBOARD_POLICY :: string where "POLICY_CLIPBOARD_POLICY \<equiv> ''clipboard_policy''"
abbreviation (input) POLICY_DISABLED_BLUETOOTH :: string where "POLICY_DISABLED_BLUETOOTH \<equiv> ''disabled_bluetooth''"
abbreviation (input) POLICY_DISABLE_CAMERA :: string where "POLICY_DISABLE_CAMERA \<equiv> ''disable_camera''"
abbreviation (input) POLICY_DISABLED_HDC :: string where "POLICY_DISABLED_HDC \<equiv> ''disabled_hdc''"
abbreviation (input) POLICY_DISABLE_MICROPHONE :: string where "POLICY_DISABLE_MICROPHONE \<equiv> ''disable_microphone''"
abbreviation (input) POLICY_DISABLED_MTP_SERVER :: string where "POLICY_DISABLED_MTP_SERVER \<equiv> ''disabled_mtp_server''"
abbreviation (input) POLICY_DISABLED_PRINTER :: string where "POLICY_DISABLED_PRINTER \<equiv> ''disabled_printer''"
abbreviation (input) POLICY_DISABLE_USB :: string where "POLICY_DISABLE_USB \<equiv> ''disable_usb''"
abbreviation (input) POLICY_DISABLED_NETWORK_INTERFACE :: string where "POLICY_DISABLED_NETWORK_INTERFACE \<equiv> ''disabled_network_interface''"
abbreviation (input) POLICY_DISALLOW_ADD_LOCAL_ACCOUNT :: string where "POLICY_DISALLOW_ADD_LOCAL_ACCOUNT \<equiv> ''disallow_add_local_account''"
abbreviation (input) POLICY_DISALLOW_ADD_OS_ACCOUNT_BY_USER :: string where "POLICY_DISALLOW_ADD_OS_ACCOUNT_BY_USER \<equiv> ''disallow_add_os_account_by_user''"
abbreviation (input) POLICY_DISALLOW_MODIFY_DATETIME :: string where "POLICY_DISALLOW_MODIFY_DATETIME \<equiv> ''disallow_modify_datetime''"
abbreviation (input) POLICY_DISALLOW_UNMUTE_DEVICE :: string where "POLICY_DISALLOW_UNMUTE_DEVICE \<equiv> ''disallow_unmute_device''"
abbreviation (input) POLICY_DISALLOW_VIRTUAL_SERVICE :: string where "POLICY_DISALLOW_VIRTUAL_SERVICE \<equiv> ''disallow_virtual_service''"
abbreviation (input) POLICY_DISALLOWED_INSTALL_BUNDLES :: string where "POLICY_DISALLOWED_INSTALL_BUNDLES \<equiv> ''disallowed_install_bundles''"
abbreviation (input) POLICY_DISALLOW_RUNNING_BUNDLES :: string where "POLICY_DISALLOW_RUNNING_BUNDLES \<equiv> ''disallow_running_bundles''"
abbreviation (input) POLICY_DISALLOWED_TETHERING :: string where "POLICY_DISALLOWED_TETHERING \<equiv> ''disallowed_tethering''"
abbreviation (input) POLICY_DISALLOWED_SMS :: string where "POLICY_DISALLOWED_SMS \<equiv> ''disallowed_sms''"
abbreviation (input) POLICY_DISALLOWED_UNINSTALL_BUNDLES :: string where "POLICY_DISALLOWED_UNINSTALL_BUNDLES \<equiv> ''disallowed_uninstall_bundles''"
abbreviation (input) POLICY_DISALLOWED_USB_DEVICES :: string where "POLICY_DISALLOWED_USB_DEVICES \<equiv> ''disallowed_usb_devices''"
abbreviation (input) POLICY_FINGERPRINT_AUTH :: string where "POLICY_FINGERPRINT_AUTH \<equiv> ''fingerprint_auth''"
abbreviation (input) POLICY_GET_DEVICE_INFO :: string where "POLICY_GET_DEVICE_INFO \<equiv> ''get_device_info''"
abbreviation (input) POLICY_GLOBAL_PROXY :: string where "POLICY_GLOBAL_PROXY \<equiv> ''global_proxy''"
abbreviation (input) POLICY_INACTIVE_USER_FREEZE :: string where "POLICY_INACTIVE_USER_FREEZE \<equiv> ''inactive_user_freeze''"
abbreviation (input) POLICY_LOCATION_POLICY :: string where "POLICY_LOCATION_POLICY \<equiv> ''location_policy''"
abbreviation (input) POLICY_MANAGE_AUTO_START_APPS :: string where "POLICY_MANAGE_AUTO_START_APPS \<equiv> ''manage_auto_start_apps''"
abbreviation (input) POLICY_MANAGED_BROWSER_POLICY :: string where "POLICY_MANAGED_BROWSER_POLICY \<equiv> ''managed_browser_policy''"
abbreviation (input) POLICY_NOTIFY_UPGRADE_PACKAGES :: string where "POLICY_NOTIFY_UPGRADE_PACKAGES \<equiv> ''notify_upgrade_packages''"
abbreviation (input) POLICY_NTP_SERVER :: string where "POLICY_NTP_SERVER \<equiv> ''ntp_server''"
abbreviation (input) POLICY_PASSWORD_POLICY :: string where "POLICY_PASSWORD_POLICY \<equiv> ''password_policy''"
abbreviation (input) POLICY_SET_BROWSER_POLICIES :: string where "POLICY_SET_BROWSER_POLICIES \<equiv> ''set_browser_policies''"
abbreviation (input) POLICY_SET_UPDATE_POLICY :: string where "POLICY_SET_UPDATE_POLICY \<equiv> ''set_update_policy''"
abbreviation (input) POLICY_DISABLE_WIFI :: string where "POLICY_DISABLE_WIFI \<equiv> ''disable_wifi''"
abbreviation (input) POLICY_SNAPSHOT_SKIP :: string where "POLICY_SNAPSHOT_SKIP \<equiv> ''snapshot_skip''"
abbreviation (input) POLICY_USB_READ_ONLY :: string where "POLICY_USB_READ_ONLY \<equiv> ''usb_read_only''"
abbreviation (input) POLICY_WATERMARK_IMAGE_POLICY :: string where "POLICY_WATERMARK_IMAGE_POLICY \<equiv> ''watermark_image_policy''"
abbreviation (input) POLICY_SCREEN_WATERMARK_IMAGE :: string where "POLICY_SCREEN_WATERMARK_IMAGE \<equiv> ''screen_watermark_image''"
abbreviation (input) POLICY_DISALLOWED_MMS :: string where "POLICY_DISALLOWED_MMS \<equiv> ''disallowed_mms''"
abbreviation (input) POLICY_DISABLE_BACKUP_AND_RESTORE :: string where "POLICY_DISABLE_BACKUP_AND_RESTORE \<equiv> ''disable_backup_and_restore''"
abbreviation (input) POLICY_INSTALLED_BUNDLE_INFO_LIST :: string where "POLICY_INSTALLED_BUNDLE_INFO_LIST \<equiv> ''installed_bundle_info_list''"
abbreviation (input) POLICY_CLEAR_UP_APPLICATION_DATA :: string where "POLICY_CLEAR_UP_APPLICATION_DATA \<equiv> ''clear_up_application_data''"
abbreviation (input) POLICY_DISABLED_HDC_REMOTE :: string where "POLICY_DISABLED_HDC_REMOTE \<equiv> ''disabled_hdc_remote''"
abbreviation (input) POLICY_DISALLOW_USB_SERIAL :: string where "POLICY_DISALLOW_USB_SERIAL \<equiv> ''disallow_usb_serial''"
abbreviation (input) POLICY_SET_SWITCH_STATUS :: string where "POLICY_SET_SWITCH_STATUS \<equiv> ''set_switch_status''"
abbreviation (input) POLICY_POLICY_SCREEN_SHOT :: string where "POLICY_POLICY_SCREEN_SHOT \<equiv> ''policy_screen_shot''"
abbreviation (input) POLICY_POLICY_SCREEN_RECORD :: string where "POLICY_POLICY_SCREEN_RECORD \<equiv> ''policy_screen_record''"
abbreviation (input) POLICY_ALLOW_ALL :: string where "POLICY_ALLOW_ALL \<equiv> ''allow_all''"
abbreviation (input) POLICY_DISALLOWED_P2P :: string where "POLICY_DISALLOWED_P2P \<equiv> ''disallowed_p2p''"

subsection \<open>Permission names\<close>

abbreviation (input) PERMISSION_NAME_DENIED :: string where "PERMISSION_NAME_DENIED \<equiv> ''PERMISSION_DENIED''"
abbreviation (input) PERMISSION_ENTERPRISE_SET_DATETIME :: string where "PERMISSION_ENTERPRISE_SET_DATETIME \<equiv> ''ohos.permission.ENTERPRISE_SET_DATETIME''"
abbreviation (input) PERMISSION_ENTERPRISE_SUBSCRIBE_MANAGED_EVENT :: string where "PERMISSION_ENTERPRISE_SUBSCRIBE_MANAGED_EVENT \<equiv> ''ohos.permission.ENTERPRISE_SUBSCRIBE_MANAGED_EVENT''"
abbreviation (input) PERMISSION_SET_ENTERPRISE_INFO :: string where "PERMISSION_SET_ENTERPRISE_INFO \<equiv> ''ohos.permission.SET_ENTERPRISE_INFO''"
abbreviation (input) PERMISSION_MANAGE_ENTERPRISE_DEVICE_ADMIN :: string where "PERMISSION_MANAGE_ENTERPRISE_DEVICE_ADMIN \<equiv> ''ohos.permission.MANAGE_ENTERPRISE_DEVICE_ADMIN''"
abbreviation (input) PERMISSION_ENTERPRISE_SET_SCREEN_OFF_TIME :: string where "PERMISSION_ENTERPRISE_SET_SCREEN_OFF_TIME \<equiv> ''ohos.permission.ENTERPRISE_SET_SCREENOFF_TIME''"
abbreviation (input) PERMISSION_ENTERPRISE_RESTRICT_POLICY :: string where "PERMISSION_ENTERPRISE_RESTRICT_POLICY \<equiv> ''ohos.permission.ENTERPRISE_RESTRICT_POLICY''"
abbreviation (input) PERMISSION_ENTERPRISE_GET_SETTINGS :: string where "PERMISSION_ENTERPRISE_GET_SETTINGS \<equiv> ''ohos.permission.ENTERPRISE_GET_SETTINGS''"
abbreviation (input) PERMISSION_ENTERPRISE_RESET_DEVICE :: string where "PERMISSION_ENTERPRISE_RESET_DEVICE \<equiv> ''ohos.permission.ENTERPRISE_RESET_DEVICE''"
abbreviation (input) PERMISSION_ENTERPRISE_SET_BUNDLE_INSTALL_POLICY :: string where "PERMISSION_ENTERPRISE_SET_BUNDLE_INSTALL_POLICY \<equiv> ''ohos.permission.ENTERPRISE_SET_BUNDLE_INSTALL_POLICY''"
abbreviation (input) PERMISSION_ENTERPRISE_GET_DEVICE_INFO :: string where "PERMISSION_ENTERPRISE_GET_DEVICE_INFO \<equiv> ''ohos.permission.ENTERPRISE_GET_DEVICE_INFO''"
abbreviation (input) PERMISSION_ENTERPRISE_GET_NETWORK_INFO :: string where "PERMISSION_ENTERPRISE_GET_NETWORK_INFO \<equiv> ''ohos.permission.ENTERPRISE_GET_NETWORK_INFO''"
abbreviation (input) PERMISSION_ENTERPRISE_SET_NETWORK :: string where "PERMISSION_ENTERPRISE_SET_NETWORK \<equiv> ''ohos.permission.ENTERPRISE_SET_NETWORK''"
abbreviation (input) PERMISSION_ENTERPRISE_MANAGE_NETWORK :: string where "PERMISSION_ENTERPRISE_MANAGE_NETWORK \<equiv> ''ohos.permission.ENTERPRISE_MANAGE_NETWORK''"
abbreviation (input) PERMISSION_ENTERPRISE_INSTALL_BUNDLE :: string where "PERMISSION_ENTERPRISE_INSTALL_BUNDLE \<equiv> ''ohos.permission.ENTERPRISE_INSTALL_BUNDLE''"
abbreviation (input) PERMISSION_ENTERPRISE_MANAGE_SET_APP_RUNNING_POLICY :: string where "PERMISSION_ENTERPRISE_MANAGE_SET_APP_RUNNING_POLICY \<equiv> ''ohos.permission.ENTERPRISE_MANAGE_SET_APP_RUNNING_POLICY''"
abbreviation (input) PERMISSION_ENTERPRISE_SET_ACCOUNT_POLICY :: string where "PERMISSION_ENTERPRISE_SET_ACCOUNT_POLICY \<equiv> ''ohos.permission.ENTERPRISE_SET_ACCOUNT_POLICY''"
abbreviation (input) PERMISSION_ENTERPRISE_SET_WIFI :: string where "PERMISSION_ENTERPRISE_SET_WIFI \<equiv> ''ohos.permission.ENTERPRISE_SET_WIFI''"
abbreviation (input) PERMISSION_ENTERPRISE_MANAGE_USB :: string where "PERMISSION_ENTERPRISE_MANAGE_USB \<equiv> ''ohos.permission.ENTERPRISE_MANAGE_USB''"
abbreviation (input) PERMISSION_ENTERPRISE_MANAGE_CERTIFICATE :: string where "PERMISSION_ENTERPRISE_MANAGE_CERTIFICATE \<equiv> ''ohos.permission.ENTERPRISE_MANAGE_CERTIFICATE''"
abbreviation (input) PERMISSION_ENTERPRISE_SET_BROWSER_POLICY :: string where "PERMISSION_ENTERPRISE_SET_BROWSER_POLICY \<equiv> ''ohos.permission.ENTERPRISE_SET_BROWSER_POLICY''"
abbreviation (input) PERMISSION_ENTERPRISE_LOCK_DEVICE :: string where "PERMISSION_ENTERPRISE_LOCK_DEVICE \<equiv> ''ohos.permission.ENTERPRISE_LOCK_DEVICE''"
abbreviation (input) PERMISSION_ENTERPRISE_REBOOT :: string where "PERMISSION_ENTERPRISE_REBOOT \<equiv> ''ohos.permission.ENTERPRISE_REBOOT''"
abbreviation (input) PERMISSION_ENTERPRISE_MANAGE_SETTINGS :: string where "PERMISSION_ENTERPRISE_MANAGE_SETTINGS \<equiv> ''ohos.permission.ENTERPRISE_MANAGE_SETTINGS''"
abbreviation (input) PERMISSION_ENTERPRISE_MANAGE_SECURITY :: string where "PERMISSION_ENTERPRISE_MANAGE_SECURITY \<equiv> ''ohos.permission.ENTERPRISE_MANAGE_SECURITY''"
abbreviation (input) PERMISSION_ENTERPRISE_MANAGE_BLUETOOTH :: string where "PERMISSION_ENTERPRISE_MANAGE_BLUETOOTH \<equiv> ''ohos.permission.ENTERPRISE_MANAGE_BLUETOOTH''"
abbreviation (input) PERMISSION_ENTERPRISE_MANAGE_LOCATION :: string where "PERMISSION_ENTERPRISE_MANAGE_LOCATION \<equiv> ''ohos.permission.ENTERPRISE_MANAGE_LOCATION''"
abbreviation (input) PERMISSION_ENTERPRISE_MANAGE_WIFI :: string where "PERMISSION_ENTERPRISE_MANAGE_WIFI \<equiv> ''ohos.permission.ENTERPRISE_MANAGE_WIFI''"
abbreviation (input) PERMISSION_ENTERPRISE_MANAGE_RESTRICTIONS :: string where "PERMISSION_ENTERPRISE_MANAGE_RESTRICTIONS \<equiv> ''ohos.permission.ENTERPRISE_MANAGE_RESTRICTIONS''"
abbreviation (input) PERMISSION_ENTERPRISE_MANAGE_APPLICATION :: string where "PERMISSION_ENTERPRISE_MANAGE_APPLICATION \<equiv> ''ohos.permission.ENTERPRISE_MANAGE_APPLICATION''"
abbreviation (input) PERMISSION_ENTERPRISE_MANAGE_SYSTEM :: string where "PERMISSION_ENTERPRISE_MANAGE_SYSTEM \<equiv> ''ohos.permission.ENTERPRISE_MANAGE_SYSTEM''"
abbreviation (input) PERMISSION_ENTERPRISE_OPERATE_DEVICE :: string where "PERMISSION_ENTERPRISE_OPERATE_DEVICE \<equiv> ''ohos.permission.ENTERPRISE_OPERATE_DEVICE''"
abbreviation (input) PERMISSION_ENTERPRISE_MANAGE_DELEGATED_POLICY :: string where "PERMISSION_ENTERPRISE_MANAGE_DELEGATED_POLICY \<equiv> ''ohos.permission.ENTERPRISE_MANAGE_DELEGATED_POLICY''"
abbreviation (input) PERMISSION_PERSONAL_MANAGE_RESTRICTIONS :: string where "PERMISSION_PERSONAL_MANAGE_RESTRICTIONS \<equiv> ''ohos.permission.PERSONAL_MANAGE_RESTRICTIONS''"
abbreviation (input) PERMISSION_GET_ADMINPROVISION_INFO :: string where "PERMISSION_GET_ADMINPROVISION_INFO \<equiv> ''ohos.permission.START_PROVISIONING_MESSAGE''"
abbreviation (input) PERMISSION_ENTERPRISE_SET_USER_RESTRICTION :: string where "PERMISSION_ENTERPRISE_SET_USER_RESTRICTION \<equiv> ''ohos.permission.ENTERPRISE_SET_USER_RESTRICTION''"
abbreviation (input) PERMISSION_ENTERPRISE_GET_ALL_BUNDLE_INFO :: string where "PERMISSION_ENTERPRISE_GET_ALL_BUNDLE_INFO \<equiv> ''ohos.permission.ENTERPRISE_GET_ALL_BUNDLE_INFO''"
abbreviation (input) PERMISSION_ENTERPRISE_MANAGE_APN :: string where "PERMISSION_ENTERPRISE_MANAGE_APN \<equiv> ''ohos.permission.ENTERPRISE_MANAGE_APN''"
abbreviation (input) PERMISSION_ENTERPRISE_MANAGE_TELEPHONY :: string where "PERMISSION_ENTERPRISE_MANAGE_TELEPHONY \<equiv> ''ohos.permission.ENTERPRISE_MANAGE_TELEPHONY''"
abbreviation (input) PERMISSION_ENTERPRISE_SET_KIOSK :: string where "PERMISSION_ENTERPRISE_SET_KIOSK \<equiv> ''ohos.permission.ENTERPRISE_SET_KIOSK''"
abbreviation (input) PERMISSION_ENTERPRISE_MANAGE_USER_GRANT_PERMISSION :: string where "PERMISSION_ENTERPRISE_MANAGE_USER_GRANT_PERMISSION \<equiv> ''ohos.permission.ENTERPRISE_MANAGE_USER_GRANT_PERMISSION''"
abbreviation (input) PERMISSION_ENTERPRISE_SET_WALLPAPER :: string where "PERMISSION_ENTERPRISE_SET_WALLPAPER \<equiv> ''ohos.permission.ENTERPRISE_SET_WALLPAPER''"
abbreviation (input) PERMISSION_ENTERPRISE_MANAGE_DEVICE_ADMIN :: string where "PERMISSION_ENTERPRISE_MANAGE_DEVICE_ADMIN \<equiv> ''ohos.permission.ENTERPRISE_MANAGE_DEVICE_ADMIN''"
abbreviation (input) PERMISSION_MANAGE_EDM_POLICY :: string where "PERMISSION_MANAGE_EDM_POLICY \<equiv> ''ohos.permission.MANAGE_EDM_POLICY''"
abbreviation (input) PERMISSION_ENTERPRISE_DEACTIVATE_DEVICE_ADMIN :: string where "PERMISSION_ENTERPRISE_DEACTIVATE_DEVICE_ADMIN \<equiv> ''ohos.permission.ENTERPRISE_DEACTIVATE_DEVICE_ADMIN''"
abbreviation (input) PERMISSION_ENTERPRISE_ACTIVATE_DEVICE_ADMIN :: string where "PERMISSION_ENTERPRISE_ACTIVATE_DEVICE_ADMIN \<equiv> ''ohos.permission.ENTERPRISE_ACTIVATE_DEVICE_ADMIN''"

end
