(* ===== verification/Admin.thy ===== *)
theory Admin
  imports Edm_Codes Func_Code
begin

text \<open>
  \<open>services/edm/include/admin/admin.h\<close> and \<open>services/edm/src/admin/*.cpp\<close>: an administrator
  is an \<open>AdminInfo\<close> inside an object of one of the subclasses of \<open>Admin\<close>; the virtual
  methods are functions that dispatch on the dynamic class. The build flag
  \<open>FEATURE_PC_ONLY\<close> is the argument \<open>pc_only\<close>. The static tables of \<open>PermissionChecker\<close>
  (\<open>services/edm/src/permission_checker.cpp\<close>) are here as well, because
  \<open>VirtualDeviceAdmin\<close> reads them.
\<close>

subsection \<open>Data\<close>

datatype admin_type = NORMAL | ENT | SUB_SUPER_ADMIN | VIRTUAL_ADMIN | BYOD | ADMIN_TYPE_UNKNOWN
  | ADMIN_TYPE_OTHER int

text \<open>\<open>static_cast<AdminType>\<close> of a stored integer and its inverse. A value outside the
  enumerators stays what it is.\<close>

definition admin_type_of_int :: "int \<Rightarrow> admin_type" where
  "admin_type_of_int n = (if n = 0 then NORMAL else if n = 1 then ENT else if n = 2 then SUB_SUPER_ADMIN
     else if n = 3 then VIRTUAL_ADMIN else if n = 4 then BYOD else if n = 99 then ADMIN_TYPE_UNKNOWN
     else ADMIN_TYPE_OTHER n)"

definition admin_type_to_int :: "admin_type \<Rightarrow> int" where
  "admin_type_to_int t = (case t of NORMAL \<Rightarrow> 0 | ENT \<Rightarrow> 1 | SUB_SUPER_ADMIN \<Rightarrow> 2 | VIRTUAL_ADMIN \<Rightarrow> 3
     | BYOD \<Rightarrow> 4 | ADMIN_TYPE_UNKNOWN \<Rightarrow> 99 | ADMIN_TYPE_OTHER n \<Rightarrow> n)"

lemma admin_type_to_of_int [simp]: "admin_type_to_int (admin_type_of_int n) = n"
  by (simp add: admin_type_of_int_def admin_type_to_int_def)

text \<open>The remaining enumerations are kept as the integers the code casts them to and from.\<close>

type_synonym managed_event = u32

abbreviation (input) EVENT_POLICIES_CHANGED :: managed_event where "EVENT_POLICIES_CHANGED \<equiv> 11"

type_synonym running_mode = int
type_synonym enable_source = int

abbreviation (input) RUNNING_MODE_DEFAULT :: running_mode where "RUNNING_MODE_DEFAULT \<equiv> 0"
abbreviation (input) RUNNING_MODE_MULTI_USER :: running_mode where "RUNNING_MODE_MULTI_USER \<equiv> 1"
abbreviation (input) ENABLE_SOURCE_DEPLOY :: enable_source where "ENABLE_SOURCE_DEPLOY \<equiv> 0"
abbreviation (input) ENABLE_SOURCE_SUPER_ADMIN :: enable_source where "ENABLE_SOURCE_SUPER_ADMIN \<equiv> 1"
abbreviation (input) ENABLE_SOURCE_SELF :: enable_source where "ENABLE_SOURCE_SELF \<equiv> 2"
abbreviation (input) ENABLE_SOURCE_REPLACE :: enable_source where "ENABLE_SOURCE_REPLACE \<equiv> 3"
abbreviation (input) ENABLE_SOURCE_USER :: enable_source where "ENABLE_SOURCE_USER \<equiv> 4"

record ent_info =
  enterpriseName :: string
  description :: string

record admin_info =
  packageName :: string
  className :: string
  entInfo :: ent_info
  permission :: "string list"
  managedEvents :: "managed_event list"
  parentAdminName :: string
  accessiblePolicies :: "string list"
  adminType :: admin_type
  isDebug :: bool
  runningMode :: running_mode
  enableSource :: enable_source

text \<open>An \<open>AdminInfo\<close> with the default member initialisers.\<close>

definition AdminInfo0 :: admin_info where
  "AdminInfo0 = \<lparr> packageName = [], className = [],
     entInfo = \<lparr> enterpriseName = [], description = [] \<rparr>, permission = [], managedEvents = [],
     parentAdminName = [], accessiblePolicies = [], adminType = ADMIN_TYPE_UNKNOWN, isDebug = False,
     runningMode = RUNNING_MODE_DEFAULT, enableSource = ENABLE_SOURCE_DEPLOY \<rparr>"

datatype admin_class = DeviceAdminC | SubSuperDeviceAdminC | SuperDeviceAdminC
  | VirtualDeviceAdminC | ByodAdminC

record admin =
  admin_cls :: admin_class
  adminInfo :: admin_info

subsection \<open>Tables of the permission checker\<close>

definition supportAdminNullPolicyCode :: "u32 list" where
  "supportAdminNullPolicyCode = [
    IC_DISALLOW_ADD_OS_ACCOUNT_BY_USER, IC_DISALLOW_ADD_LOCAL_ACCOUNT, IC_DISABLE_BLUETOOTH,
    IC_ALLOWED_BLUETOOTH_DEVICES, IC_DISALLOWED_BLUETOOTH_DEVICES, IC_SET_BROWSER_POLICIES,
    IC_MANAGED_BROWSER_POLICY, IC_DISALLOW_MODIFY_DATETIME, IC_LOCATION_POLICY,
    IC_FINGERPRINT_AUTH, IC_DISABLE_MICROPHONE, IC_DISABLED_PRINTER, IC_DISABLED_HDC,
    IC_DISABLE_USB, IC_DISALLOWED_USB_DEVICES, IC_DISALLOWED_PERMISSIVE_USB_DEVICES,
    IC_USB_READ_ONLY, IC_ALLOWED_USB_DEVICES, IC_ALLOWED_ODD_BURN_USB_DEVICES,
    IC_IS_ALLOWED_ODD_BURN, IC_DISABLE_WIFI, IC_DISABLE_MTP_CLIENT, IC_DISABLE_MTP_SERVER,
    IC_DISABLE_SAMBA_CLIENT, IC_DISABLE_SAMBA_SERVER, IC_DISALLOWED_TETHERING,
    IC_INACTIVE_USER_FREEZE, IC_DISABLE_CAMERA, IC_PASSWORD_POLICY,
    IC_DISABLE_SET_BIOMETRICS_AND_SCREENLOCK, IC_DISABLE_SET_DEVICE_NAME,
    IC_DISABLE_MAINTENANCE_MODE, IC_DISALLOWED_SMS, IC_DISALLOWED_MMS,
    IC_DISABLE_BACKUP_AND_RESTORE, IC_IS_APP_KIOSK_ALLOWED, IC_DISALLOWED_MOBILE_DATA,
    IC_DISALLOWED_SUDO, IC_DISALLOW_MODIFY_ETHERNET_IP, IC_DISALLOWED_AIRPLANE_MODE,
    IC_DISALLOW_VPN, IC_DISALLOWED_TELEPHONY_CALL, IC_DISABLE_PRIVATE_SPACE,
    IC_DISALLOWED_EXTERNAL_STORAGE_CARD, IC_DISABLED_APP_CLONE, IC_DISALLOW_UNMUTE_DEVICE,
    IC_INSTALL_MARKET_APPS, IC_DISALLOW_VIRTUAL_SERVICE,
    IC_POLICY_CODE_END + PC_DISALLOW_SCREEN_SHOT, IC_POLICY_CODE_END + PC_DISALLOW_SCREEN_RECORD,
    IC_POLICY_CODE_END + PC_DISABLE_DISK_RECOVERY_KEY, IC_POLICY_CODE_END + PC_DISALLOW_NEAR_LINK,
    IC_POLICY_CODE_END + PC_DISABLE_DEVELOPER_MODE, IC_POLICY_CODE_END + PC_DISABLE_RESET_FACTORY,
    IC_POLICY_CODE_END + PC_DISABLE_SECURE_ERASE,
    IC_POLICY_CODE_END + PC_DISALLOWED_SYSTEM_ROLLBACK, IC_DISALLOWED_NOTIFICATION,
    IC_DISABLED_PRINT, IC_DISALLOWED_RANDOM_MAC_ADDRESS, IC_POLICY_CODE_END + PC_DISABLE_OTA,
    IC_POLICY_CODE_END + PC_DISALLOWED_NFC, IC_POLICY_CODE_END + PC_DISALLOW_REMOTE_DESK,
    IC_POLICY_CODE_END + PC_DISALLOW_REMOTE_DIAGNOSIS, IC_DISABLED_HDC_REMOTE,
    IC_DISALLOW_MODIFY_WALLPAPER, IC_DISALLOW_USB_SERIAL, IC_DISALLOWED_UINPUT,
    IC_SET_INSTALL_LOCAL_ENTERPRISE_APP_ENABLED,
    IC_INSTALL_LOCAL_ENTERPRISE_APP_ENABLED_FOR_ACCOUNT, IC_ALLOWED_NOTIFICATION_BUNDLES,
    IC_DISALLOWED_BLUETOOTH_PROTOCOLS, IC_DISALLOW_CORE_DUMP, IC_DISALLOW_RS232,
    IC_DISALLOW_X_KEY, IC_DISABLE_SATA_ODD_BURN, IC_DISALLOWED_TRAFFIC_REDIRECTION,
    IC_DISALLOWED_PACKET_FILTERING, IC_POLICY_CODE_END + PC_HIDE_LAUNCHER_ICON, IC_DISALLOWED_P2P,
    IC_DEVICE_SECURITY_LEVEL_POLICY, IC_DISALLOWED_MULTI_WINDOW,
    IC_POLICY_CODE_END + PC_DISABLE_SUPERHUB, IC_DISALLOWED_DISTRIBUTED_TRANSMISSION_FULL,
    IC_ALLOWED_COLLABORATION_SERVICE_BUNDLES, IC_DISALLOWED_PERMISSION,
    IC_ALLOWED_PERMISSION_BUNDLE, IC_DISALLOW_RUNNING_BUNDLES, IC_ALLOW_RUNNING_BUNDLES,
    IC_MANAGE_AUTO_START_APPS, IC_MANAGE_KEEP_ALIVE_APPS, IC_ALLOWED_KIOSK_APPS,
    IC_MANAGE_USER_NON_STOP_APPS, IC_MANAGE_FREEZE_EXEMPTED_APPS, IC_SET_ABILITY_ENABLED,
    IC_ALLOWED_INSTALL_BUNDLES, IC_DISALLOWED_INSTALL_BUNDLES, IC_DISALLOWED_UNINSTALL_BUNDLES,
    IC_ALLOWED_INSTALL_APP_TYPE, IC_DISABLED_NETWORK_INTERFACE, IC_CLIPBOARD_POLICY,
    IC_DISABLE_RUNNING_BINARY_APP, IC_SET_AUTO_UNLOCK_AFTER_REBOOT, IC_SET_KEY_CODE_POLICYS,
    IC_TELEPHONY_CALL_POLICY, IC_ALLOWED_WIFI_LIST, IC_DISALLOWED_WIFI_LIST, IC_PASSWORD_POLICY,
    IC_DISALLOWED_DEVICE_SUDO, IC_DISALLOW_MODIFY_APN, IC_DISALLOW_POWER_LONG_PRESS,
    IC_DISABLE_USER_MTP_CLIENT, IC_DISALLOWED_USB_STORAGE_DEVICE_WRITE,
    IC_DISALLOWED_EXPORT_RECOVERY_KEY, IC_DISALLOWED_DISTRIBUTED_TRANSMISSION,
    IC_DISALLOWED_FILEBOOST_OPEN, IC_ALLOWED_PRINTER_IP_ADDRESS_FOR_DEVICE,
    IC_ALLOWED_PRINTER_IP_ADDRESS_FOR_ACCOUNT, IC_POLICY_CODE_END + PC_DISABLE_SUPER_PRIVACY]"

definition allowDelegatedPolicies :: "string list" where
  "allowDelegatedPolicies = [
    POLICY_DISALLOW_ADD_LOCAL_ACCOUNT, POLICY_DISALLOW_ADD_OS_ACCOUNT_BY_USER,
    POLICY_DISALLOW_RUNNING_BUNDLES, POLICY_MANAGE_AUTO_START_APPS,
    POLICY_ALLOWED_BLUETOOTH_DEVICES, POLICY_SET_BROWSER_POLICIES, POLICY_ALLOWED_INSTALL_BUNDLES,
    POLICY_DISALLOWED_INSTALL_BUNDLES, POLICY_DISALLOWED_UNINSTALL_BUNDLES, POLICY_SNAPSHOT_SKIP,
    POLICY_LOCATION_POLICY, POLICY_DISABLED_NETWORK_INTERFACE, POLICY_GLOBAL_PROXY,
    POLICY_DISABLED_BLUETOOTH, POLICY_DISALLOW_MODIFY_DATETIME, POLICY_DISABLED_PRINTER,
    POLICY_POLICY_SCREEN_SHOT, POLICY_DISABLED_HDC, POLICY_DISABLE_MICROPHONE,
    POLICY_FINGERPRINT_AUTH, POLICY_DISABLE_USB, POLICY_DISABLE_WIFI, POLICY_DISALLOWED_TETHERING,
    POLICY_INACTIVE_USER_FREEZE, POLICY_PASSWORD_POLICY, POLICY_CLIPBOARD_POLICY,
    POLICY_NTP_SERVER, POLICY_SET_UPDATE_POLICY, POLICY_NOTIFY_UPGRADE_PACKAGES,
    POLICY_ALLOWED_USB_DEVICES, POLICY_USB_READ_ONLY, POLICY_DISALLOWED_USB_DEVICES,
    POLICY_GET_DEVICE_INFO, POLICY_WATERMARK_IMAGE_POLICY, POLICY_POLICY_SCREEN_RECORD,
    POLICY_DISALLOWED_SMS, POLICY_DISALLOWED_MMS, POLICY_DISABLE_BACKUP_AND_RESTORE,
    POLICY_INSTALLED_BUNDLE_INFO_LIST, POLICY_CLEAR_UP_APPLICATION_DATA, POLICY_ALLOW_ALL,
    POLICY_DISABLED_HDC_REMOTE, POLICY_DISALLOW_UNMUTE_DEVICE, POLICY_DISALLOW_VIRTUAL_SERVICE,
    POLICY_DISALLOW_USB_SERIAL]"

definition checker_permissions :: "string list" where
  "checker_permissions = [
    PERMISSION_ENTERPRISE_SET_DATETIME, PERMISSION_ENTERPRISE_SUBSCRIBE_MANAGED_EVENT,
    PERMISSION_SET_ENTERPRISE_INFO, PERMISSION_MANAGE_ENTERPRISE_DEVICE_ADMIN,
    PERMISSION_ENTERPRISE_SET_SCREEN_OFF_TIME, PERMISSION_ENTERPRISE_RESTRICT_POLICY,
    PERMISSION_ENTERPRISE_GET_SETTINGS, PERMISSION_ENTERPRISE_RESET_DEVICE,
    PERMISSION_ENTERPRISE_SET_BUNDLE_INSTALL_POLICY, PERMISSION_ENTERPRISE_GET_DEVICE_INFO,
    PERMISSION_ENTERPRISE_GET_NETWORK_INFO, PERMISSION_ENTERPRISE_SET_NETWORK,
    PERMISSION_ENTERPRISE_MANAGE_NETWORK, PERMISSION_ENTERPRISE_INSTALL_BUNDLE,
    PERMISSION_ENTERPRISE_SET_BROWSER_POLICY, PERMISSION_ENTERPRISE_SET_ACCOUNT_POLICY,
    PERMISSION_ENTERPRISE_SET_WIFI, PERMISSION_ENTERPRISE_MANAGE_USB,
    PERMISSION_ENTERPRISE_MANAGE_CERTIFICATE, PERMISSION_ENTERPRISE_MANAGE_SET_APP_RUNNING_POLICY,
    PERMISSION_ENTERPRISE_LOCK_DEVICE, PERMISSION_ENTERPRISE_REBOOT,
    PERMISSION_ENTERPRISE_MANAGE_SETTINGS, PERMISSION_ENTERPRISE_MANAGE_SECURITY,
    PERMISSION_ENTERPRISE_MANAGE_BLUETOOTH, PERMISSION_ENTERPRISE_MANAGE_LOCATION,
    PERMISSION_ENTERPRISE_MANAGE_WIFI, PERMISSION_ENTERPRISE_MANAGE_RESTRICTIONS,
    PERMISSION_ENTERPRISE_MANAGE_APPLICATION, PERMISSION_ENTERPRISE_MANAGE_SYSTEM,
    PERMISSION_ENTERPRISE_OPERATE_DEVICE, PERMISSION_ENTERPRISE_MANAGE_DELEGATED_POLICY,
    PERMISSION_PERSONAL_MANAGE_RESTRICTIONS, PERMISSION_GET_ADMINPROVISION_INFO,
    PERMISSION_ENTERPRISE_SET_USER_RESTRICTION, PERMISSION_ENTERPRISE_MANAGE_APN,
    PERMISSION_ENTERPRISE_GET_ALL_BUNDLE_INFO, PERMISSION_ENTERPRISE_MANAGE_TELEPHONY,
    PERMISSION_ENTERPRISE_SET_KIOSK, PERMISSION_ENTERPRISE_SET_WALLPAPER,
    PERMISSION_ENTERPRISE_MANAGE_USER_GRANT_PERMISSION, PERMISSION_ENTERPRISE_MANAGE_DEVICE_ADMIN]"

definition IsAllowDelegatedPolicy :: "string \<Rightarrow> bool" where
  "IsAllowDelegatedPolicy policy = (policy \<in> set allowDelegatedPolicies)"

subsection \<open>Constructors\<close>

text \<open>Each subclass constructor copies the information and sets the type of its class;
  \<open>ByodAdmin\<close> also replaces the accessible policies by its fixed list.\<close>

abbreviation (input) BYOD_POLICY_DISABLE_RESET_FACTORY :: string where
  "BYOD_POLICY_DISABLE_RESET_FACTORY \<equiv> ''disable_reset_factory''"
abbreviation (input) BYOD_POLICY_DISABLE_NEAR_LINK :: string where
  "BYOD_POLICY_DISABLE_NEAR_LINK \<equiv> ''policy_near_link''"
abbreviation (input) BYOD_POLICY_DISABLE_SCREEN_RECORD :: string where
  "BYOD_POLICY_DISABLE_SCREEN_RECORD \<equiv> ''policy_screen_record''"
abbreviation (input) BYOD_POLICY_DISABLE_SCREEN_SHOT :: string where
  "BYOD_POLICY_DISABLE_SCREEN_SHOT \<equiv> ''policy_screen_shot''"

definition byodAccessiblePolicies :: "string list" where
  "byodAccessiblePolicies = [
     POLICY_DISABLED_BLUETOOTH, POLICY_DISABLE_CAMERA, POLICY_DISABLED_HDC,
     POLICY_DISABLE_MICROPHONE, POLICY_DISABLE_USB, POLICY_DISALLOWED_TETHERING,
     POLICY_DISABLE_WIFI, POLICY_SET_SWITCH_STATUS,
     BYOD_POLICY_DISABLE_RESET_FACTORY, BYOD_POLICY_DISABLE_NEAR_LINK,
     BYOD_POLICY_DISABLE_SCREEN_RECORD, BYOD_POLICY_DISABLE_SCREEN_SHOT,
     POLICY_USB_READ_ONLY, POLICY_DISABLED_MTP_SERVER, POLICY_DISALLOWED_P2P]"

definition DeviceAdmin :: "admin_info \<Rightarrow> admin" where
  "DeviceAdmin i = \<lparr> admin_cls = DeviceAdminC, adminInfo = i\<lparr>adminType := NORMAL\<rparr> \<rparr>"

definition SubSuperDeviceAdmin :: "admin_info \<Rightarrow> admin" where
  "SubSuperDeviceAdmin i =
     \<lparr> admin_cls = SubSuperDeviceAdminC, adminInfo = i\<lparr>adminType := SUB_SUPER_ADMIN\<rparr> \<rparr>"

definition SuperDeviceAdmin :: "admin_info \<Rightarrow> admin" where
  "SuperDeviceAdmin i = \<lparr> admin_cls = SuperDeviceAdminC, adminInfo = i\<lparr>adminType := ENT\<rparr> \<rparr>"

definition VirtualDeviceAdmin :: "admin_info \<Rightarrow> admin" where
  "VirtualDeviceAdmin i =
     \<lparr> admin_cls = VirtualDeviceAdminC, adminInfo = i\<lparr>adminType := VIRTUAL_ADMIN\<rparr> \<rparr>"

definition ByodAdmin :: "admin_info \<Rightarrow> admin" where
  "ByodAdmin i = \<lparr> admin_cls = ByodAdminC,
     adminInfo = i\<lparr>adminType := BYOD, accessiblePolicies := byodAccessiblePolicies\<rparr> \<rparr>"

subsection \<open>Virtual methods\<close>

definition GetAdminType :: "admin \<Rightarrow> admin_type" where
  "GetAdminType a = adminType (adminInfo a)"

definition GetParentAdminName :: "admin \<Rightarrow> string" where
  "GetParentAdminName a = parentAdminName (adminInfo a)"

definition Admin_IsSuperAdmin :: "admin \<Rightarrow> bool" where
  "Admin_IsSuperAdmin a = (adminType (adminInfo a) = ENT)"

text \<open>One definition per method body, named after its class; the virtual call selects by the class
  of the object, a class without an override takes the body of \<open>Admin\<close>. \<open>pc_only\<close> stands for
  \<open>FEATURE_PC_ONLY\<close>.\<close>

definition Admin_IsDisallowedUninstall :: bool where "Admin_IsDisallowedUninstall = False"
definition Super_IsDisallowedUninstall :: bool where "Super_IsDisallowedUninstall = True"
definition Byod_IsDisallowedUninstall :: bool where "Byod_IsDisallowedUninstall = True"

definition IsDisallowedUninstall :: "admin \<Rightarrow> bool" where
  "IsDisallowedUninstall a = (case admin_cls a of SuperDeviceAdminC \<Rightarrow> Super_IsDisallowedUninstall
     | ByodAdminC \<Rightarrow> Byod_IsDisallowedUninstall | _ \<Rightarrow> Admin_IsDisallowedUninstall)"

definition Admin_IsEnterpriseAdminKeepAlive :: bool where "Admin_IsEnterpriseAdminKeepAlive = False"
definition Super_IsEnterpriseAdminKeepAlive :: bool where "Super_IsEnterpriseAdminKeepAlive = True"
definition SubSuper_IsEnterpriseAdminKeepAlive :: bool where "SubSuper_IsEnterpriseAdminKeepAlive = True"
definition Device_IsEnterpriseAdminKeepAlive :: bool where "Device_IsEnterpriseAdminKeepAlive = True"

definition IsEnterpriseAdminKeepAlive :: "admin \<Rightarrow> bool" where
  "IsEnterpriseAdminKeepAlive a = (case admin_cls a of
       SuperDeviceAdminC \<Rightarrow> Super_IsEnterpriseAdminKeepAlive
     | SubSuperDeviceAdminC \<Rightarrow> SubSuper_IsEnterpriseAdminKeepAlive
     | DeviceAdminC \<Rightarrow> Device_IsEnterpriseAdminKeepAlive
     | _ \<Rightarrow> Admin_IsEnterpriseAdminKeepAlive)"

definition Admin_IsAllowedAcrossAccount :: bool where "Admin_IsAllowedAcrossAccount = False"
definition Super_IsAllowedAcrossAccount :: bool where "Super_IsAllowedAcrossAccount = True"
definition SubSuper_IsAllowedAcrossAccount :: bool where "SubSuper_IsAllowedAcrossAccount = True"
definition Device_IsAllowedAcrossAccount :: bool where "Device_IsAllowedAcrossAccount = True"
definition Virtual_IsAllowedAcrossAccount :: bool where "Virtual_IsAllowedAcrossAccount = True"

definition IsAllowedAcrossAccountSetPolicy :: "admin \<Rightarrow> bool" where
  "IsAllowedAcrossAccountSetPolicy a = (case admin_cls a of
       SuperDeviceAdminC \<Rightarrow> Super_IsAllowedAcrossAccount
     | SubSuperDeviceAdminC \<Rightarrow> SubSuper_IsAllowedAcrossAccount
     | DeviceAdminC \<Rightarrow> Device_IsAllowedAcrossAccount
     | VirtualDeviceAdminC \<Rightarrow> Virtual_IsAllowedAcrossAccount
     | ByodAdminC \<Rightarrow> Admin_IsAllowedAcrossAccount)"

definition Admin_HasPermissionToCallServiceCode :: "u32 \<Rightarrow> bool" where
  "Admin_HasPermissionToCallServiceCode interfaceCode = False"

definition Byod_HasPermissionToCallServiceCode :: "u32 \<Rightarrow> bool" where
  "Byod_HasPermissionToCallServiceCode interfaceCode =
     (interfaceCode \<in> set [IC_REMOVE_DEVICE_ADMIN, IC_IS_BYOD_ADMIN])"

definition Device_HasPermissionToCallServiceCode :: "u32 \<Rightarrow> bool" where
  "Device_HasPermissionToCallServiceCode interfaceCode =
     (interfaceCode \<in> set [IC_REMOVE_DEVICE_ADMIN, IC_SUBSCRIBE_MANAGED_EVENT,
        IC_UNSUBSCRIBE_MANAGED_EVENT, IC_GET_ADMIN_INFOS])"

definition SubSuper_HasPermissionToCallServiceCode :: "u32 \<Rightarrow> bool" where
  "SubSuper_HasPermissionToCallServiceCode interfaceCode =
     (interfaceCode \<in> set [IC_SUBSCRIBE_MANAGED_EVENT, IC_UNSUBSCRIBE_MANAGED_EVENT])"

definition Super_HasPermissionToCallServiceCode :: "bool \<Rightarrow> u32 \<Rightarrow> bool" where
  "Super_HasPermissionToCallServiceCode pc_only interfaceCode =
     (interfaceCode \<in> set ([IC_REMOVE_DEVICE_ADMIN, IC_SUBSCRIBE_MANAGED_EVENT,
        IC_UNSUBSCRIBE_MANAGED_EVENT, IC_AUTHORIZE_ADMIN, IC_SET_DELEGATED_POLICIES,
        IC_GET_DELEGATED_POLICIES, IC_GET_DELEGATED_BUNDLE_NAMES, IC_GET_ADMIN_INFOS]
        @ (if pc_only then [IC_ENABLE_DEVICE_ADMIN, IC_DISABLE_DEVICE_ADMIN] else [])))"

definition HasPermissionToCallServiceCode :: "bool \<Rightarrow> admin \<Rightarrow> u32 \<Rightarrow> bool" where
  "HasPermissionToCallServiceCode pc_only a code = (case admin_cls a of
       ByodAdminC \<Rightarrow> Byod_HasPermissionToCallServiceCode code
     | DeviceAdminC \<Rightarrow> Device_HasPermissionToCallServiceCode code
     | SubSuperDeviceAdminC \<Rightarrow> SubSuper_HasPermissionToCallServiceCode code
     | SuperDeviceAdminC \<Rightarrow> Super_HasPermissionToCallServiceCode pc_only code
     | VirtualDeviceAdminC \<Rightarrow> Admin_HasPermissionToCallServiceCode code)"

definition Admin_HasPermissionToHandlePolicy :: "string \<Rightarrow> func_operate_type \<Rightarrow> bool" where
  "Admin_HasPermissionToHandlePolicy policyName operateType = False"

definition Super_HasPermissionToHandlePolicy :: "string \<Rightarrow> func_operate_type \<Rightarrow> bool" where
  "Super_HasPermissionToHandlePolicy policyName operateType = True"

definition SubSuper_HasPermissionToHandlePolicy :: "string \<Rightarrow> func_operate_type \<Rightarrow> bool" where
  "SubSuper_HasPermissionToHandlePolicy policyName operateType = True"

definition Byod_HasPermissionToHandlePolicy :: "admin \<Rightarrow> string \<Rightarrow> func_operate_type \<Rightarrow> bool" where
  "Byod_HasPermissionToHandlePolicy a policyName operateType =
     (policyName \<in> set (accessiblePolicies (adminInfo a)))"

definition Device_HasPermissionToHandlePolicy :: "bool \<Rightarrow> string \<Rightarrow> func_operate_type \<Rightarrow> bool" where
  "Device_HasPermissionToHandlePolicy pc_only policyName operateType =
     (if pc_only then True
      else if policyName = POLICY_SET_BROWSER_POLICIES \<or> policyName = POLICY_MANAGED_BROWSER_POLICY
      then operateType = OP_GET else False)"

definition Virtual_HasPermissionToHandlePolicy :: "admin \<Rightarrow> string \<Rightarrow> func_operate_type \<Rightarrow> bool" where
  "Virtual_HasPermissionToHandlePolicy a policyName operateType =
     list_ex (\<lambda>policy. (policy = POLICY_ALLOW_ALL \<and> IsAllowDelegatedPolicy policyName)
       \<or> policy = policyName) (accessiblePolicies (adminInfo a))"

definition HasPermissionToHandlePolicy
    :: "bool \<Rightarrow> admin \<Rightarrow> string \<Rightarrow> func_operate_type \<Rightarrow> bool" where
  "HasPermissionToHandlePolicy pc_only a policyName operateType = (case admin_cls a of
       ByodAdminC \<Rightarrow> Byod_HasPermissionToHandlePolicy a policyName operateType
     | DeviceAdminC \<Rightarrow> Device_HasPermissionToHandlePolicy pc_only policyName operateType
     | SubSuperDeviceAdminC \<Rightarrow> SubSuper_HasPermissionToHandlePolicy policyName operateType
     | SuperDeviceAdminC \<Rightarrow> Super_HasPermissionToHandlePolicy policyName operateType
     | VirtualDeviceAdminC \<Rightarrow> Virtual_HasPermissionToHandlePolicy a policyName operateType)"

definition Admin_GetDisableSelfPermission :: string where
  "Admin_GetDisableSelfPermission = PERMISSION_NAME_DENIED"

definition Byod_GetDisableSelfPermission :: string where
  "Byod_GetDisableSelfPermission = PERMISSION_GET_ADMINPROVISION_INFO"

definition Super_GetDisableSelfPermission :: string where
  "Super_GetDisableSelfPermission = PERMISSION_ENTERPRISE_DEACTIVATE_DEVICE_ADMIN"

definition Device_GetDisableSelfPermission :: "bool \<Rightarrow> string" where
  "Device_GetDisableSelfPermission pc_only =
     (if pc_only then PERMISSION_ENTERPRISE_DEACTIVATE_DEVICE_ADMIN else PERMISSION_NAME_DENIED)"

definition GetDisableSelfPermission :: "bool \<Rightarrow> admin \<Rightarrow> string" where
  "GetDisableSelfPermission pc_only a = (case admin_cls a of
       ByodAdminC \<Rightarrow> Byod_GetDisableSelfPermission
     | SuperDeviceAdminC \<Rightarrow> Super_GetDisableSelfPermission
     | DeviceAdminC \<Rightarrow> Device_GetDisableSelfPermission pc_only
     | _ \<Rightarrow> Admin_GetDisableSelfPermission)"

definition Admin_HasPermissionSubscribeManagedEvents :: "u32 list \<Rightarrow> bool" where
  "Admin_HasPermissionSubscribeManagedEvents events = False"

definition Super_HasPermissionSubscribeManagedEvents :: "u32 list \<Rightarrow> bool" where
  "Super_HasPermissionSubscribeManagedEvents events = True"

definition Device_HasPermissionSubscribeManagedEvents :: "u32 list \<Rightarrow> bool" where
  "Device_HasPermissionSubscribeManagedEvents events = (EVENT_POLICIES_CHANGED \<notin> set events)"

definition SubSuper_HasPermissionSubscribeManagedEvents :: "u32 list \<Rightarrow> bool" where
  "SubSuper_HasPermissionSubscribeManagedEvents events = (EVENT_POLICIES_CHANGED \<notin> set events)"

definition HasPermissionSubscribeManagedEvents :: "admin \<Rightarrow> u32 list \<Rightarrow> bool" where
  "HasPermissionSubscribeManagedEvents a events = (case admin_cls a of
       SuperDeviceAdminC \<Rightarrow> Super_HasPermissionSubscribeManagedEvents events
     | DeviceAdminC \<Rightarrow> Device_HasPermissionSubscribeManagedEvents events
     | SubSuperDeviceAdminC \<Rightarrow> SubSuper_HasPermissionSubscribeManagedEvents events
     | _ \<Rightarrow> Admin_HasPermissionSubscribeManagedEvents events)"

definition Admin_ShouldNotifyPolicyChanged :: bool where "Admin_ShouldNotifyPolicyChanged = False"

definition Super_ShouldNotifyPolicyChanged :: "admin \<Rightarrow> bool" where
  "Super_ShouldNotifyPolicyChanged a = (EVENT_POLICIES_CHANGED \<in> set (managedEvents (adminInfo a)))"

definition ShouldNotifyPolicyChanged :: "admin \<Rightarrow> bool" where
  "ShouldNotifyPolicyChanged a = (case admin_cls a of
       SuperDeviceAdminC \<Rightarrow> Super_ShouldNotifyPolicyChanged a
     | _ \<Rightarrow> Admin_ShouldNotifyPolicyChanged)"

lemmas admin_method_defs = Admin_IsDisallowedUninstall_def Super_IsDisallowedUninstall_def
  Byod_IsDisallowedUninstall_def Admin_IsEnterpriseAdminKeepAlive_def Super_IsEnterpriseAdminKeepAlive_def
  SubSuper_IsEnterpriseAdminKeepAlive_def Device_IsEnterpriseAdminKeepAlive_def
  Admin_IsAllowedAcrossAccount_def Super_IsAllowedAcrossAccount_def SubSuper_IsAllowedAcrossAccount_def
  Device_IsAllowedAcrossAccount_def Virtual_IsAllowedAcrossAccount_def
  Admin_HasPermissionToCallServiceCode_def Byod_HasPermissionToCallServiceCode_def
  Device_HasPermissionToCallServiceCode_def SubSuper_HasPermissionToCallServiceCode_def
  Super_HasPermissionToCallServiceCode_def Admin_HasPermissionToHandlePolicy_def
  Super_HasPermissionToHandlePolicy_def SubSuper_HasPermissionToHandlePolicy_def
  Byod_HasPermissionToHandlePolicy_def Device_HasPermissionToHandlePolicy_def
  Admin_GetDisableSelfPermission_def Byod_GetDisableSelfPermission_def Super_GetDisableSelfPermission_def
  Device_GetDisableSelfPermission_def Admin_HasPermissionSubscribeManagedEvents_def
  Super_HasPermissionSubscribeManagedEvents_def Device_HasPermissionSubscribeManagedEvents_def
  SubSuper_HasPermissionSubscribeManagedEvents_def Admin_ShouldNotifyPolicyChanged_def
  Super_ShouldNotifyPolicyChanged_def

subsection \<open>What the class says about the type\<close>

text \<open>The class an admin type is represented by; \<open>CreateAdmin\<close> (theory \<open>Admin_Container\<close>)
  establishes it and the code relies on it when it tests \<open>adminType_\<close> in one place and calls a
  virtual method in another.\<close>

definition cls_of_type :: "admin_type \<Rightarrow> admin_class option" where
  "cls_of_type t = (case t of NORMAL \<Rightarrow> Some DeviceAdminC | ENT \<Rightarrow> Some SuperDeviceAdminC
     | SUB_SUPER_ADMIN \<Rightarrow> Some SubSuperDeviceAdminC | VIRTUAL_ADMIN \<Rightarrow> Some VirtualDeviceAdminC
     | BYOD \<Rightarrow> Some ByodAdminC | _ \<Rightarrow> None)"

definition admin_wf :: "admin \<Rightarrow> bool" where
  "admin_wf a = (cls_of_type (adminType (adminInfo a)) = Some (admin_cls a))"

text \<open>A BYOD administrator that a constructor has just made has the fixed policy list.\<close>

definition byod_ok :: "admin \<Rightarrow> bool" where
  "byod_ok a = (admin_cls a = ByodAdminC
     \<longrightarrow> accessiblePolicies (adminInfo a) = byodAccessiblePolicies)"

lemma admin_wf_constructors [simp, intro]:
  "admin_wf (DeviceAdmin i)" "admin_wf (SubSuperDeviceAdmin i)" "admin_wf (SuperDeviceAdmin i)"
  "admin_wf (VirtualDeviceAdmin i)" "admin_wf (ByodAdmin i)"
  by (simp_all add: admin_wf_def cls_of_type_def DeviceAdmin_def SubSuperDeviceAdmin_def
      SuperDeviceAdmin_def VirtualDeviceAdmin_def ByodAdmin_def)

lemma byod_ok_constructors [simp, intro]:
  "byod_ok (DeviceAdmin i)" "byod_ok (SubSuperDeviceAdmin i)" "byod_ok (SuperDeviceAdmin i)"
  "byod_ok (VirtualDeviceAdmin i)" "byod_ok (ByodAdmin i)"
  by (simp_all add: byod_ok_def DeviceAdmin_def SubSuperDeviceAdmin_def
      SuperDeviceAdmin_def VirtualDeviceAdmin_def ByodAdmin_def)

lemmas admin_constructor_defs = DeviceAdmin_def SubSuperDeviceAdmin_def SuperDeviceAdmin_def
  VirtualDeviceAdmin_def ByodAdmin_def

lemma admin_wf_type_cases:
  assumes "admin_wf a"
  obtains "adminType (adminInfo a) = NORMAL" "admin_cls a = DeviceAdminC"
  | "adminType (adminInfo a) = ENT" "admin_cls a = SuperDeviceAdminC"
  | "adminType (adminInfo a) = SUB_SUPER_ADMIN" "admin_cls a = SubSuperDeviceAdminC"
  | "adminType (adminInfo a) = VIRTUAL_ADMIN" "admin_cls a = VirtualDeviceAdminC"
  | "adminType (adminInfo a) = BYOD" "admin_cls a = ByodAdminC"
  using assms by (auto simp: admin_wf_def cls_of_type_def split: admin_type.splits)

lemma across_account_iff:
  "admin_wf a \<Longrightarrow> IsAllowedAcrossAccountSetPolicy a \<longleftrightarrow> adminType (adminInfo a) \<noteq> BYOD"
  by (erule admin_wf_type_cases) (simp_all add: IsAllowedAcrossAccountSetPolicy_def admin_method_defs)

lemma virtual_handle_iff:
  "Virtual_HasPermissionToHandlePolicy a p ot \<longleftrightarrow>
     p \<in> set (accessiblePolicies (adminInfo a))
     \<or> (POLICY_ALLOW_ALL \<in> set (accessiblePolicies (adminInfo a)) \<and> IsAllowDelegatedPolicy p)"
  by (auto simp: Virtual_HasPermissionToHandlePolicy_def list_ex_iff)

end
