(* ===== verification/Admin_Container.thy ===== *)
theory Admin_Container
  imports Admin
begin

unbundle bit_operations_syntax

text \<open>
  \<open>services/edm/src/admin_container.cpp\<close>: the table of administrators per user. The
  \<open>std::unordered_map\<close> is an association list. The objects behind the \<open>shared_ptr\<close>s are owned by
  the container alone (every getter hands out copies made by \<open>CreateAdmin\<close>), so an admin is a
  value; an in-place update of the objects of a vector is a map over the list. Every method takes
  the container lock, so a method is one atomic step.
\<close>

type_synonym container = "(user_id, admin list) amap"

subsection \<open>Operations\<close>

definition CreateAdmin :: "admin_info \<Rightarrow> admin option" where
  "CreateAdmin i = (case adminType i of
       ENT \<Rightarrow> Some (SuperDeviceAdmin i)
     | NORMAL \<Rightarrow> Some (DeviceAdmin i)
     | BYOD \<Rightarrow> Some (ByodAdmin i)
     | VIRTUAL_ADMIN \<Rightarrow> Some (VirtualDeviceAdmin i)
     | SUB_SUPER_ADMIN \<Rightarrow> Some (SubSuperDeviceAdmin i)
     | _ \<Rightarrow> None)"

text \<open>The private getter: the flag and the vector (cleared when the user is unknown).\<close>

definition Container_GetAdminByUserId :: "user_id \<Rightarrow> container \<Rightarrow> bool \<times> admin list" where
  "Container_GetAdminByUserId userId c =
     (case map_of c userId of None \<Rightarrow> (False, []) | Some as \<Rightarrow> (True, as))"

definition SetAdminByUserId :: "user_id \<Rightarrow> admin_info \<Rightarrow> container \<Rightarrow> container" where
  "SetAdminByUserId userId adminItem c =
     (let userAdmin = snd (Container_GetAdminByUserId userId c) in
      case CreateAdmin adminItem of
        Some admin \<Rightarrow> AList.update userId (userAdmin @ [admin]) c
      | None \<Rightarrow> c)"

definition Container_DeleteAdmin :: "string \<Rightarrow> user_id \<Rightarrow> container \<Rightarrow> bool \<times> container" where
  "Container_DeleteAdmin pkg userId c =
     (case map_of c userId of
        None \<Rightarrow> (False, c)
      | Some as \<Rightarrow>
          let rest = filter (\<lambda>a. packageName (adminInfo a) \<noteq> pkg) as in
          (True, if rest = [] then AList.delete userId c else AList.update userId rest c))"

definition copy_admins :: "admin list \<Rightarrow> admin list" where
  "copy_admins as = List.map_filter (\<lambda>a. CreateAdmin (adminInfo a)) as"

definition GetAdminCopyByUserId :: "user_id \<Rightarrow> container \<Rightarrow> bool \<times> admin list" where
  "GetAdminCopyByUserId userId c =
     (case map_of c userId of None \<Rightarrow> (False, []) | Some as \<Rightarrow> (True, copy_admins as))"

fun GetAdminCopyBySubscribeEvent :: "managed_event \<Rightarrow> container
    \<Rightarrow> (user_id, admin list) amap \<Rightarrow> (user_id, admin list) amap" where
  "GetAdminCopyBySubscribeEvent event [] subscribeAdmins = subscribeAdmins"
| "GetAdminCopyBySubscribeEvent event ((u, as) # rest) subscribeAdmins =
     (let subAdmin = copy_admins (filter (\<lambda>a. event \<in> set (managedEvents (adminInfo a))) as) in
      GetAdminCopyBySubscribeEvent event rest
        (if subAdmin \<noteq> [] then AList.update u subAdmin subscribeAdmins else subscribeAdmins))"

fun Container_GetAllAdmins :: "container \<Rightarrow> (user_id, admin list) amap
    \<Rightarrow> (user_id, admin list) amap" where
  "Container_GetAllAdmins [] allAdmins = allAdmins"
| "Container_GetAllAdmins ((u, as) # rest) allAdmins =
     Container_GetAllAdmins rest
       (if copy_admins as \<noteq> [] then AList.update u (copy_admins as) allAdmins else allAdmins)"

definition HasAdmin :: "user_id \<Rightarrow> container \<Rightarrow> bool" where
  "HasAdmin userId c = (map_of c userId \<noteq> None)"

definition Container_IsAdminExist :: "container \<Rightarrow> bool" where
  "Container_IsAdminExist c = (c \<noteq> [])"

text \<open>The update code is a bit set of the fields to copy.\<close>

abbreviation (input) UC_PACKAGE_NAME :: u32 where "UC_PACKAGE_NAME \<equiv> 1"
abbreviation (input) UC_CLASS_NAME :: u32 where "UC_CLASS_NAME \<equiv> 2"
abbreviation (input) UC_ENT_INFO :: u32 where "UC_ENT_INFO \<equiv> 4"
abbreviation (input) UC_PERMISSION :: u32 where "UC_PERMISSION \<equiv> 8"
abbreviation (input) UC_MANAGED_EVENTS :: u32 where "UC_MANAGED_EVENTS \<equiv> 16"
abbreviation (input) UC_PARENT_ADMIN_NAME :: u32 where "UC_PARENT_ADMIN_NAME \<equiv> 32"
abbreviation (input) UC_ACCESSIBLE_POLICIES :: u32 where "UC_ACCESSIBLE_POLICIES \<equiv> 64"
abbreviation (input) UC_ADMIN_TYPE :: u32 where "UC_ADMIN_TYPE \<equiv> 128"
abbreviation (input) UC_IS_DEBUG :: u32 where "UC_IS_DEBUG \<equiv> 256"
abbreviation (input) UC_RUNNING_MODE :: u32 where "UC_RUNNING_MODE \<equiv> 512"
abbreviation (input) UC_ENABLE_SOURCE :: u32 where "UC_ENABLE_SOURCE \<equiv> 1024"

abbreviation (input) uc_has :: "u32 \<Rightarrow> u32 \<Rightarrow> bool" where "uc_has code b \<equiv> code AND b \<noteq> 0"

definition update_info :: "u32 \<Rightarrow> admin_info \<Rightarrow> admin_info \<Rightarrow> admin_info" where
  "update_info code new i =
     (let i = (if uc_has code UC_PACKAGE_NAME then i\<lparr>packageName := packageName new\<rparr> else i);
          i = (if uc_has code UC_CLASS_NAME then i\<lparr>className := className new\<rparr> else i);
          i = (if uc_has code UC_ENT_INFO then i\<lparr>entInfo := entInfo new\<rparr> else i);
          i = (if uc_has code UC_PERMISSION then i\<lparr>permission := permission new\<rparr> else i);
          i = (if uc_has code UC_MANAGED_EVENTS then i\<lparr>managedEvents := managedEvents new\<rparr> else i);
          i = (if uc_has code UC_PARENT_ADMIN_NAME
               then i\<lparr>parentAdminName := parentAdminName new\<rparr> else i);
          i = (if uc_has code UC_ACCESSIBLE_POLICIES
               then i\<lparr>accessiblePolicies := accessiblePolicies new\<rparr> else i);
          i = (if uc_has code UC_ADMIN_TYPE then i\<lparr>adminType := adminType new\<rparr> else i);
          i = (if uc_has code UC_IS_DEBUG then i\<lparr>isDebug := isDebug new\<rparr> else i);
          i = (if uc_has code UC_RUNNING_MODE then i\<lparr>runningMode := runningMode new\<rparr> else i);
          i = (if uc_has code UC_ENABLE_SOURCE then i\<lparr>enableSource := enableSource new\<rparr> else i)
      in i)"

definition Container_UpdateAdmin :: "user_id \<Rightarrow> string \<Rightarrow> u32 \<Rightarrow> admin_info \<Rightarrow> container \<Rightarrow> container" where
  "Container_UpdateAdmin userId pkg code new c =
     (case map_of c userId of
        None \<Rightarrow> c
      | Some as \<Rightarrow> AList.update userId
          (map (\<lambda>a. if packageName (adminInfo a) = pkg
                    then a\<lparr>adminInfo := update_info code new (adminInfo a)\<rparr> else a) as) c)"

definition UpdateParentAdminName :: "user_id \<Rightarrow> string \<Rightarrow> string \<Rightarrow> container \<Rightarrow> container" where
  "UpdateParentAdminName userId parentName updateName c =
     (case map_of c userId of
        None \<Rightarrow> c
      | Some as \<Rightarrow> AList.update userId
          (map (\<lambda>a. if (GetAdminType a = SUB_SUPER_ADMIN \<or> GetAdminType a = VIRTUAL_ADMIN)
                       \<and> parentAdminName (adminInfo a) = parentName
                    then a\<lparr>adminInfo := (adminInfo a)\<lparr>parentAdminName := updateName\<rparr>\<rparr> else a) as) c)"

fun InitAdmins :: "(user_id, admin_info list) amap \<Rightarrow> container \<Rightarrow> container" where
  "InitAdmins [] c = c"
| "InitAdmins ((u, is) # rest) c =
     InitAdmins rest (AList.update u (List.map_filter CreateAdmin is) c)"

definition ClearAdmins :: "container \<Rightarrow> container" where
  "ClearAdmins c = []"

definition InsertAdmins :: "user_id \<Rightarrow> admin list \<Rightarrow> container \<Rightarrow> container" where
  "InsertAdmins userId admins c = AList.update userId admins c"

definition IsExistTargetAdmin :: "bool \<Rightarrow> container \<Rightarrow> bool" where
  "IsExistTargetAdmin debug c =
     list_ex (\<lambda>entry. list_ex (\<lambda>a. isDebug (adminInfo a) = debug) (snd entry)) c"

definition GetSuperDeviceAdminAndDeviceAdminCount :: "container \<Rightarrow> int" where
  "GetSuperDeviceAdminAndDeviceAdminCount c =
     (case map_of c DEFAULT_USER_ID of
        None \<Rightarrow> 0
      | Some as \<Rightarrow> int (length (filter
          (\<lambda>a. adminType (adminInfo a) = ENT \<or> adminType (adminInfo a) = NORMAL) as)))"

subsection \<open>Invariant\<close>

text \<open>Keys are unique, every object is of the class its \<open>adminType_\<close> says. That no user has an
  empty vector holds after every operation except \<open>InitAdmins\<close> (which may drop entries of an
  unknown type) and \<open>InsertAdmins\<close>, so it is a second predicate.\<close>

definition container_wf :: "container \<Rightarrow> bool" where
  "container_wf c = (al_keys_distinct c \<and> al_all (\<lambda>_ as. list_all admin_wf as) c)"

definition container_nonempty :: "container \<Rightarrow> bool" where
  "container_nonempty c = al_all (\<lambda>_ as. as \<noteq> []) c"

text \<open>The stored objects of a user, and what the getters return of one object.\<close>

definition admins_of :: "container \<Rightarrow> user_id \<Rightarrow> admin list" where
  "admins_of c u = (case map_of c u of None \<Rightarrow> [] | Some as \<Rightarrow> as)"

definition copy_admin :: "admin \<Rightarrow> admin" where
  "copy_admin a = (if admin_cls a = ByodAdminC
     then a\<lparr>adminInfo := (adminInfo a)\<lparr>accessiblePolicies := byodAccessiblePolicies\<rparr>\<rparr> else a)"

lemma CreateAdmin_wf: "CreateAdmin i = Some a \<Longrightarrow> admin_wf a \<and> byod_ok a"
  by (auto simp: CreateAdmin_def split: admin_type.splits)

lemma CreateAdmin_fields:
  "CreateAdmin i = Some a \<Longrightarrow> adminType (adminInfo a) = adminType i
     \<and> packageName (adminInfo a) = packageName i \<and> isDebug (adminInfo a) = isDebug i"
  by (auto simp: CreateAdmin_def admin_constructor_defs split: admin_type.splits)

lemma CreateAdmin_copy: "admin_wf a \<Longrightarrow> CreateAdmin (adminInfo a) = Some (copy_admin a)"
  by (erule admin_wf_type_cases) (simp_all add: CreateAdmin_def copy_admin_def admin_constructor_defs)

lemma copy_admin_simps [simp]:
  "packageName (adminInfo (copy_admin a)) = packageName (adminInfo a)"
  "adminType (adminInfo (copy_admin a)) = adminType (adminInfo a)"
  "isDebug (adminInfo (copy_admin a)) = isDebug (adminInfo a)"
  "parentAdminName (adminInfo (copy_admin a)) = parentAdminName (adminInfo a)"
  "managedEvents (adminInfo (copy_admin a)) = managedEvents (adminInfo a)"
  "admin_cls (copy_admin a) = admin_cls a"
  "admin_wf (copy_admin a) = admin_wf a"
  "byod_ok (copy_admin a)"
  by (simp_all add: copy_admin_def admin_wf_def byod_ok_def)

lemma copy_admin_id: "byod_ok a \<Longrightarrow> copy_admin a = a"
  by (simp add: copy_admin_def byod_ok_def)

lemma copy_admins_map: "list_all admin_wf as \<Longrightarrow> copy_admins as = map copy_admin as"
  by (induction as) (auto simp: copy_admins_def List.map_filter_def CreateAdmin_copy)

lemma container_wf_admins_of: "container_wf c \<Longrightarrow> list_all admin_wf (admins_of c u)"
  by (auto simp: container_wf_def admins_of_def split: option.splits dest: al_all_lookup)

lemma copies_of: "container_wf c \<Longrightarrow>
   snd (GetAdminCopyByUserId u c) = map copy_admin (admins_of c u)"
  using container_wf_admins_of [of c u]
  by (auto simp: GetAdminCopyByUserId_def admins_of_def copy_admins_map split: option.splits)

lemma admins_of_update [simp]:
  "admins_of (AList.update u as c) = (admins_of c)(u := as)"
  by (auto simp: admins_of_def fun_eq_iff)

lemma admins_of_delete [simp]:
  "admins_of (AList.delete u c) = (admins_of c)(u := [])"
  by (auto simp: admins_of_def fun_eq_iff)

subsection \<open>Every operation as a function on the administrators of a user\<close>

lemma admins_of_SetAdminByUserId:
  "admins_of (SetAdminByUserId u i c) =
     (case CreateAdmin i of None \<Rightarrow> admins_of c | Some a \<Rightarrow> (admins_of c)(u := admins_of c u @ [a]))"
  by (auto simp: SetAdminByUserId_def Let_def Container_GetAdminByUserId_def admins_of_def
      split: option.splits)

lemma admins_of_DeleteAdmin:
  "admins_of (snd (Container_DeleteAdmin p u c)) =
     (admins_of c)(u := filter (\<lambda>a. packageName (adminInfo a) \<noteq> p) (admins_of c u))"
  by (auto simp: Container_DeleteAdmin_def admins_of_def Let_def fun_eq_iff split: option.splits)

lemma admins_of_UpdateAdmin:
  "admins_of (Container_UpdateAdmin u p code new c) =
     (admins_of c)(u := map (\<lambda>a. if packageName (adminInfo a) = p
        then a\<lparr>adminInfo := update_info code new (adminInfo a)\<rparr> else a) (admins_of c u))"
  by (auto simp: Container_UpdateAdmin_def admins_of_def fun_eq_iff split: option.splits)

lemma admins_of_UpdateParentAdminName:
  "admins_of (UpdateParentAdminName u p n c) =
     (admins_of c)(u := map (\<lambda>a. if (GetAdminType a = SUB_SUPER_ADMIN \<or> GetAdminType a = VIRTUAL_ADMIN)
          \<and> parentAdminName (adminInfo a) = p
        then a\<lparr>adminInfo := (adminInfo a)\<lparr>parentAdminName := n\<rparr>\<rparr> else a) (admins_of c u))"
  by (auto simp: UpdateParentAdminName_def admins_of_def fun_eq_iff split: option.splits)

lemma admins_of_InsertAdmins: "admins_of (InsertAdmins u as c) = (admins_of c)(u := as)"
  by (simp add: InsertAdmins_def)

lemma admins_of_ClearAdmins: "admins_of (ClearAdmins c) = (\<lambda>_. [])"
  by (simp add: ClearAdmins_def admins_of_def fun_eq_iff)

lemma admins_of_InitAdmins:
  "al_keys_distinct m \<Longrightarrow> admins_of (InitAdmins m c) u =
     (case map_of m u of Some is \<Rightarrow> List.map_filter CreateAdmin is | None \<Rightarrow> admins_of c u)"
proof (induction m c rule: InitAdmins.induct)
  case (2 v "is" rest c)
  then show ?case
    by (auto simp: al_keys_distinct_def split: option.splits dest: map_of_SomeD
        intro: rev_image_eqI)
qed (simp add: admins_of_def)

lemmas admins_of_simps = admins_of_SetAdminByUserId admins_of_DeleteAdmin admins_of_UpdateAdmin
  admins_of_UpdateParentAdminName admins_of_InsertAdmins admins_of_ClearAdmins

subsection \<open>Preservation of the invariant, one lemma per operation\<close>

lemma container_wf_lookup: "container_wf c \<Longrightarrow> map_of c u = Some as \<Longrightarrow> list_all admin_wf as"
  by (auto simp: container_wf_def dest: al_all_lookup)

lemma container_wf_elem:
  "container_wf c \<Longrightarrow> map_of c u = Some as \<Longrightarrow> a \<in> set as \<Longrightarrow> admin_wf a"
  using container_wf_lookup by (auto simp: list_all_iff)

lemma container_wf_update: "container_wf c \<Longrightarrow> list_all admin_wf as \<Longrightarrow> container_wf (AList.update u as c)"
  by (simp add: container_wf_def)

lemma container_wf_delete: "container_wf c \<Longrightarrow> container_wf (AList.delete u c)"
  by (simp add: container_wf_def)

lemma container_wf_empty [simp]: "container_wf []"
  by (simp add: container_wf_def)

lemma container_wf_Set: "container_wf c \<Longrightarrow> container_wf (SetAdminByUserId u i c)"
  by (auto simp: SetAdminByUserId_def Container_GetAdminByUserId_def Let_def list_all_iff
      split: option.splits intro!: container_wf_update dest: container_wf_elem CreateAdmin_wf)

lemma container_wf_Delete: "container_wf c \<Longrightarrow> container_wf (snd (Container_DeleteAdmin p u c))"
  by (auto simp: Container_DeleteAdmin_def Let_def list_all_iff split: option.splits
      intro!: container_wf_update container_wf_delete dest: container_wf_elem)

lemma admin_wf_with_info:
  "admin_wf a \<Longrightarrow> adminType i = adminType (adminInfo a) \<Longrightarrow> admin_wf (a\<lparr>adminInfo := i\<rparr>)"
  by (simp add: admin_wf_def)

lemma update_info_type [simp]:
  "\<not> uc_has code UC_ADMIN_TYPE \<Longrightarrow> adminType (update_info code new i) = adminType i"
  by (simp add: update_info_def Let_def)

lemma container_wf_Update:
  "container_wf c \<Longrightarrow> \<not> uc_has code UC_ADMIN_TYPE \<Longrightarrow> container_wf (Container_UpdateAdmin u p code new c)"
  by (auto simp: Container_UpdateAdmin_def list_all_iff split: option.splits
      intro!: container_wf_update admin_wf_with_info dest: container_wf_elem)

lemma container_wf_UpdateParent:
  "container_wf c \<Longrightarrow> container_wf (UpdateParentAdminName u p n c)"
  by (auto simp: UpdateParentAdminName_def list_all_iff split: option.splits
      intro!: container_wf_update admin_wf_with_info dest: container_wf_elem)

lemma container_wf_map_filter: "list_all admin_wf (List.map_filter CreateAdmin is)"
  by (induction "is") (auto simp: List.map_filter_def dest: CreateAdmin_wf)

lemma container_wf_Init: "container_wf c \<Longrightarrow> container_wf (InitAdmins m c)"
  by (induction m c rule: InitAdmins.induct)
    (simp_all add: container_wf_update container_wf_map_filter)

lemma container_wf_Insert:
  "container_wf c \<Longrightarrow> list_all admin_wf as \<Longrightarrow> container_wf (InsertAdmins u as c)"
  by (simp add: InsertAdmins_def container_wf_update)

lemmas container_wf_intros = container_wf_Set container_wf_Delete container_wf_Update
  container_wf_UpdateParent container_wf_Init container_wf_Insert

subsection \<open>The contract the manager relies on\<close>

text \<open>What \<open>AdminManager\<close> needs of a table of administrators: how the list of a user changes
  under the three operations it calls, and that an invariant is kept.\<close>

locale admin_table =
  fixes view :: "'s \<Rightarrow> user_id \<Rightarrow> admin list"
    and inv :: "'s \<Rightarrow> bool"
    and add :: "user_id \<Rightarrow> admin_info \<Rightarrow> 's \<Rightarrow> 's"
    and remove :: "string \<Rightarrow> user_id \<Rightarrow> 's \<Rightarrow> 's"
    and change :: "user_id \<Rightarrow> string \<Rightarrow> u32 \<Rightarrow> admin_info \<Rightarrow> 's \<Rightarrow> 's"
  assumes view_wf: "inv s \<Longrightarrow> list_all admin_wf (view s u)"
    and view_add: "inv s \<Longrightarrow> CreateAdmin i = Some a \<Longrightarrow> view (add u i s) = (view s)(u := view s u @ [a])"
    and view_remove: "inv s \<Longrightarrow>
      view (remove p u s) = (view s)(u := filter (\<lambda>a. packageName (adminInfo a) \<noteq> p) (view s u))"
    and view_change: "inv s \<Longrightarrow> view (change u p code i s) =
      (view s)(u := map (\<lambda>a. if packageName (adminInfo a) = p
        then a\<lparr>adminInfo := update_info code i (adminInfo a)\<rparr> else a) (view s u))"
    and inv_add: "inv s \<Longrightarrow> inv (add u i s)"
    and inv_remove: "inv s \<Longrightarrow> inv (remove p u s)"
    and inv_change: "inv s \<Longrightarrow> \<not> uc_has code UC_ADMIN_TYPE \<Longrightarrow> inv (change u p code i s)"
begin

definition names :: "'s \<Rightarrow> user_id \<Rightarrow> string list" where
  "names s u = map (\<lambda>a. packageName (adminInfo a)) (view s u)"

lemma names_add:
  assumes "inv s" "CreateAdmin i = Some a"
  shows "names (add u i s) v = (if v = u then names s u @ [packageName i] else names s v)"
  using assms by (simp add: names_def view_add CreateAdmin_fields)

lemma names_remove:
  assumes "inv s"
  shows "names (remove p u s) v = (if v = u then filter (\<lambda>n. n \<noteq> p) (names s u) else names s v)"
  using assms by (simp add: names_def view_remove filter_map o_def)

lemma names_change:
  assumes "inv s" "\<not> uc_has code UC_PACKAGE_NAME"
  shows "names (change u p code i s) v = names s v"
  using assms by (simp add: names_def view_change update_info_def Let_def)

text \<open>Unique names per user survive: a name is added only when it is new.\<close>

lemma unique_names_kept:
  assumes "inv s" "\<forall>v. distinct (names s v)"
  shows "packageName i \<notin> set (names s u) \<Longrightarrow> CreateAdmin i = Some a \<Longrightarrow> distinct (names (add u i s) v)"
    and "distinct (names (remove p u s) v)"
    and "\<not> uc_has code UC_PACKAGE_NAME \<Longrightarrow> distinct (names (change u p code i s) v)"
  using assms by (simp_all add: names_add names_remove names_change)

lemma removed_is_gone: "inv s \<Longrightarrow> p \<notin> set (names (remove p u s) u)"
  by (simp add: names_remove)

lemma removal_keeps_others:
  "inv s \<Longrightarrow> a \<in> set (view s v) \<Longrightarrow> v \<noteq> u \<or> packageName (adminInfo a) \<noteq> p
    \<Longrightarrow> a \<in> set (view (remove p u s) v)"
  by (auto simp: view_remove)

end

interpretation adm: admin_table admins_of container_wf SetAdminByUserId
  "\<lambda>p u c. snd (Container_DeleteAdmin p u c)" Container_UpdateAdmin
  by unfold_locales
    (simp_all add: container_wf_admins_of admins_of_simps container_wf_intros)

subsection \<open>The container as a state machine\<close>

text \<open>One step is one method call of the service. The service never passes the
  \<open>ADMIN_TYPE\<close> bit and inserts only vectors of constructed objects.\<close>

inductive container_step :: "container \<Rightarrow> container \<Rightarrow> bool" where
  step_set: "container_step c (SetAdminByUserId u i c)"
| step_delete: "container_step c (snd (Container_DeleteAdmin p u c))"
| step_update: "\<not> uc_has code UC_ADMIN_TYPE \<Longrightarrow> container_step c (Container_UpdateAdmin u p code new c)"
| step_parent: "container_step c (UpdateParentAdminName u p n c)"
| step_init: "container_step c (InitAdmins m c)"
| step_clear: "container_step c (ClearAdmins c)"
| step_insert: "list_all admin_wf as \<Longrightarrow> container_step c (InsertAdmins u as c)"

inductive_cases container_step_cases: "container_step c d"

lemma container_step_wf: "container_step c d \<Longrightarrow> container_wf c \<Longrightarrow> container_wf d"
  by (erule container_step_cases) (simp_all add: container_wf_intros ClearAdmins_def)

lemma container_reachable_wf: "container_step\<^sup>*\<^sup>* [] c \<Longrightarrow> container_wf c"
  by (induction rule: rtranclp_induct) (auto intro: container_step_wf)

lemma subscribe_lookup:
  assumes "al_keys_distinct c"
  shows "map_of (GetAdminCopyBySubscribeEvent e c acc) u =
    (case map_of c u of
       Some as \<Rightarrow>
         (let sub = copy_admins (filter (\<lambda>a. e \<in> set (managedEvents (adminInfo a))) as) in
          if sub = [] then map_of acc u else Some sub)
     | None \<Rightarrow> map_of acc u)"
  using assms
proof (induction e c acc rule: GetAdminCopyBySubscribeEvent.induct)
  case (2 event v as rest acc)
  then show ?case
    by (auto simp: al_keys_distinct_def Let_def split: option.splits dest: map_of_SomeD
        intro: rev_image_eqI)
qed simp

lemma all_admins_lookup:
  assumes "al_keys_distinct c"
  shows "map_of (Container_GetAllAdmins c acc) u =
    (case map_of c u of
       Some as \<Rightarrow> (if copy_admins as = [] then map_of acc u else Some (copy_admins as))
     | None \<Rightarrow> map_of acc u)"
  using assms
proof (induction c acc rule: Container_GetAllAdmins.induct)
  case (2 v as rest acc)
  then show ?case
    by (auto simp: al_keys_distinct_def Let_def split: option.splits dest: map_of_SomeD
        intro: rev_image_eqI)
qed simp



end
