(* ===== verification/Decimal.thy ===== *)
theory Decimal
  imports Edm_Prelude
begin

text \<open>
  Decimal printing and reading of integers: \<open>std::to_string\<close>, and the digit loop that
  \<open>strtol\<close>, \<open>strtoll\<close> and \<open>std::from_chars\<close> share. The serializers and the database layer
  use them; that printing is injective and that reading undoes it is proved once here.
\<close>

definition digit_char :: "nat \<Rightarrow> char" where
  "digit_char n = char_of (48 + n)"

definition char_digit :: "char \<Rightarrow> nat option" where
  "char_digit c = (let n = of_char c :: nat in if 48 \<le> n \<and> n \<le> 57 then Some (n - 48) else None)"

fun nat_to_string :: "nat \<Rightarrow> string" where
  "nat_to_string n =
     (if n < 10 then [digit_char n] else nat_to_string (n div 10) @ [digit_char (n mod 10)])"

declare nat_to_string.simps [simp del]

definition int_to_string :: "int \<Rightarrow> string" where
  "int_to_string i = (if i < 0 then CHR ''-'' # nat_to_string (nat (- i)) else nat_to_string (nat i))"

text \<open>The digits at the front of a string, and what follows them.\<close>

fun read_digits :: "nat \<Rightarrow> string \<Rightarrow> nat \<times> string" where
  "read_digits acc [] = (acc, [])"
| "read_digits acc (c # cs) =
     (case char_digit c of Some d \<Rightarrow> read_digits (acc * 10 + d) cs | None \<Rightarrow> (acc, c # cs))"

lemma char_digit_digit_char [simp]: "n < 10 \<Longrightarrow> char_digit (digit_char n) = Some n"
  by (simp add: char_digit_def digit_char_def)

lemma nat_to_string_nonempty [simp]: "nat_to_string n \<noteq> []"
  by (subst nat_to_string.simps) simp

definition digits :: "string \<Rightarrow> bool" where
  "digits s = list_all (\<lambda>c. char_digit c \<noteq> None) s"

lemma digits_nat_to_string [simp]: "digits (nat_to_string n)"
  by (induction n rule: nat_to_string.induct) (subst nat_to_string.simps, auto simp: digits_def)

lemma read_digits_append:
  "digits s \<Longrightarrow> read_digits acc (s @ t) = read_digits (fst (read_digits acc s)) t"
  by (induction s arbitrary: acc) (auto simp: digits_def split: option.splits)

lemma read_nat_to_string_acc:
  "read_digits acc (nat_to_string n @ t)
     = read_digits (acc * 10 ^ length (nat_to_string n) + n) t"
proof (induction n arbitrary: acc t rule: nat_to_string.induct)
  case (1 n)
  show ?case
  proof (cases "n < 10")
    case True
    then show ?thesis by (simp add: nat_to_string.simps [of n])
  next
    case False
    have s: "nat_to_string n = nat_to_string (n div 10) @ [digit_char (n mod 10)]"
      using False by (subst nat_to_string.simps) simp
    have "read_digits acc (nat_to_string n @ t)
        = read_digits (acc * 10 ^ length (nat_to_string (n div 10)) + n div 10)
            (digit_char (n mod 10) # t)"
      using 1 [OF False, of acc "digit_char (n mod 10) # t"] by (simp add: s)
    also have "\<dots> = read_digits ((acc * 10 ^ length (nat_to_string (n div 10)) + n div 10) * 10 + n mod 10) t"
      by simp
    also have "(acc * 10 ^ length (nat_to_string (n div 10)) + n div 10) * 10 + n mod 10
        = acc * 10 ^ length (nat_to_string n) + n"
      by (simp add: s algebra_simps)
    finally show ?thesis .
  qed
qed

lemma read_nat_to_string: "read_digits 0 (nat_to_string n) = (n, [])"
  using read_nat_to_string_acc [of 0 n "[]"] by simp

lemma nat_to_string_inj [simp]: "nat_to_string m = nat_to_string n \<longleftrightarrow> m = n"
  by (metis prod.inject read_nat_to_string)

lemma hd_digits: "digits s \<Longrightarrow> s \<noteq> [] \<Longrightarrow> char_digit (hd s) \<noteq> None"
  by (cases s) (auto simp: digits_def)

lemma minus_not_digit [simp]: "char_digit CHR ''-'' = None"
  by (simp add: char_digit_def)

lemma nat_to_string_not_minus [simp]: "nat_to_string n \<noteq> CHR ''-'' # s"
  using hd_digits [OF digits_nat_to_string nat_to_string_nonempty, of n]
  by (metis list.sel(1) minus_not_digit)

lemma minus_not_nat_to_string [simp]: "CHR ''-'' # s \<noteq> nat_to_string n"
  using nat_to_string_not_minus [of n s] by metis

lemma int_to_string_inj [simp]: "int_to_string i = int_to_string j \<longleftrightarrow> i = j"
  by (auto simp: int_to_string_def)

lemma int_to_string_nonempty [simp]: "int_to_string i \<noteq> []"
  by (simp add: int_to_string_def)

end
