(* ===== verification/Rdb.thy ===== *)
theory Rdb
  imports Decimal Edm_Codes
begin

text \<open>
  \<open>services/edm/src/database/edm_rdb_data_manager.cpp\<close> over the relational store of the platform.
  \<open>NativeRdb::RdbStore\<close> is not part of the repository: it is the record \<open>rdb\<close> of operations,
  an argument of every definition, on a store state of any type. What the code relies on (a
  statement either takes effect or leaves the tables alone, which rows a predicate selects, what a
  query returns) is the predicate \<open>rdb_laws\<close>, stated for an abstract view of the store as the rows
  of each table. \<open>list_rdb\<close> is a concrete store that satisfies it.
\<close>

subsection \<open>Values, buckets, predicates\<close>

datatype db_value = VNull | VInt int | VText string

type_synonym values_bucket = "(string, db_value) amap"
type_synonym db_row = "string \<Rightarrow> db_value"

record predicates =
  pr_table :: string
  pr_equal :: "(string \<times> string) list"
  pr_distinct :: bool

definition Predicates :: "string \<Rightarrow> predicates" where
  "Predicates t = \<lparr> pr_table = t, pr_equal = [], pr_distinct = False \<rparr>"

definition EqualTo :: "string \<Rightarrow> string \<Rightarrow> predicates \<Rightarrow> predicates" where
  "EqualTo field value p = p\<lparr>pr_equal := pr_equal p @ [(field, value)]\<rparr>"

definition Distinct :: "predicates \<Rightarrow> predicates" where
  "Distinct p = p\<lparr>pr_distinct := True\<rparr>"

definition PutInt :: "string \<Rightarrow> int \<Rightarrow> values_bucket \<Rightarrow> values_bucket" where
  "PutInt field n vb = AList.update field (VInt n) vb"

definition PutString :: "string \<Rightarrow> string \<Rightarrow> values_bucket \<Rightarrow> values_bucket" where
  "PutString field t vb = AList.update field (VText t) vb"

definition PutBool :: "string \<Rightarrow> bool \<Rightarrow> values_bucket \<Rightarrow> values_bucket" where
  "PutBool field b vb = AList.update field (VInt (if b then 1 else 0)) vb"

lemmas bucket_defs = PutInt_def PutString_def PutBool_def

subsection \<open>The store of the platform\<close>

text \<open>A result set is the rows its cursor walks over and the answer of \<open>HasBlock\<close>.\<close>

record result_set =
  has_block :: bool
  rs_rows :: "db_value list list"

record 's rdb =
  rdb_open :: "'s \<Rightarrow> bool \<times> 's"
  rdb_exec :: "string \<Rightarrow> 's \<Rightarrow> int \<times> 's"
  rdb_insert :: "string \<Rightarrow> values_bucket \<Rightarrow> 's \<Rightarrow> int \<times> 's"
  rdb_delete :: "predicates \<Rightarrow> 's \<Rightarrow> int \<times> 's"
  rdb_update :: "values_bucket \<Rightarrow> predicates \<Rightarrow> 's \<Rightarrow> int \<times> 's"
  rdb_query :: "predicates \<Rightarrow> string list \<Rightarrow> 's \<Rightarrow> result_set option"
  rs_int :: "db_value \<Rightarrow> int"
  rs_string :: "db_value \<Rightarrow> string"

subsection \<open>EdmRdbDataManager and the table flags\<close>

text \<open>The static members of the three storage classes: whether the store is open and which
  tables have been created.\<close>

record 's edm_db =
  rdbStore :: bool
  isAdminPoliciesTableInit :: bool
  isDeviceAdminTableInit :: bool
  isCombinedPoliciesTableInit :: bool
  store :: 's

definition edm_db0 :: "'s \<Rightarrow> 's edm_db" where
  "edm_db0 s = \<lparr> rdbStore = False, isAdminPoliciesTableInit = False, isDeviceAdminTableInit = False,
     isCombinedPoliciesTableInit = False, store = s \<rparr>"

definition GetRdbStore :: "'s rdb \<Rightarrow> 's edm_db \<Rightarrow> bool \<times> 's edm_db" where
  "GetRdbStore R d =
     (if \<not> rdbStore d then
        (let (ok, s) = rdb_open R (store d) in (ok, d\<lparr>rdbStore := ok, store := s\<rparr>))
      else (True, d))"

definition CreateTable :: "'s rdb \<Rightarrow> string \<Rightarrow> 's edm_db \<Rightarrow> bool \<times> 's edm_db" where
  "CreateTable R createTableSql d =
     (let (ok, d) = GetRdbStore R d in
      if \<not> ok then (False, d)
      else if createTableSql = [] then (False, d)
      else (let (ret, s) = rdb_exec R createTableSql (store d) in (ret = 0, d\<lparr>store := s\<rparr>)))"

definition Rdb_Insert :: "'s rdb \<Rightarrow> string \<Rightarrow> values_bucket \<Rightarrow> 's edm_db \<Rightarrow> bool \<times> 's edm_db" where
  "Rdb_Insert R tableName vb d =
     (let (ok, d) = GetRdbStore R d in
      if \<not> ok then (False, d)
      else (let (ret, s) = rdb_insert R tableName vb (store d) in (ret = 0, d\<lparr>store := s\<rparr>)))"

definition Rdb_Delete :: "'s rdb \<Rightarrow> predicates \<Rightarrow> 's edm_db \<Rightarrow> bool \<times> 's edm_db" where
  "Rdb_Delete R p d =
     (let (ok, d) = GetRdbStore R d in
      if \<not> ok then (False, d)
      else (let (ret, s) = rdb_delete R p (store d) in (ret = 0, d\<lparr>store := s\<rparr>)))"

definition Rdb_Update :: "'s rdb \<Rightarrow> values_bucket \<Rightarrow> predicates \<Rightarrow> 's edm_db \<Rightarrow> bool \<times> 's edm_db" where
  "Rdb_Update R vb p d =
     (let (ok, d) = GetRdbStore R d in
      if \<not> ok then (False, d)
      else (let (ret, s) = rdb_update R vb p (store d) in (ret = 0, d\<lparr>store := s\<rparr>)))"

definition Rdb_Query :: "'s rdb \<Rightarrow> predicates \<Rightarrow> string list \<Rightarrow> 's edm_db
    \<Rightarrow> db_value list list option \<times> 's edm_db" where
  "Rdb_Query R p columns d =
     (let (ok, d) = GetRdbStore R d in
      if \<not> ok then (None, d)
      else (case rdb_query R p columns (store d) of
              None \<Rightarrow> (None, d)
            | Some rs \<Rightarrow> if \<not> has_block rs then (None, d) else (Some (rs_rows rs), d)))"

subsection \<open>The schema\<close>

text \<open>The columns of the three tables in the order of the \<open>CREATE TABLE\<close> statements, without the
  autoincrement key \<open>id\<close> of column 0 that no code reads.\<close>

definition T_ADMIN :: string where "T_ADMIN = ''admin_policies''"
definition T_DEVICE_ADMIN :: string where "T_DEVICE_ADMIN = ''device_admin_policies''"
definition T_COMBINED :: string where "T_COMBINED = ''device_combined_policies''"

definition columns_of :: "string \<Rightarrow> string list" where
  "columns_of t =
     (if t = T_ADMIN then [''user_id'', ''admin_type'', ''package_name'', ''class_name'', ''ent_name'',
        ''ent_desc'', ''permissions'', ''subscribe_events'', ''parent_admin'', ''is_debug'',
        ''accessible_policies'', ''running_mode'', ''enable_source'']
      else if t = T_DEVICE_ADMIN then [''user_id'', ''admin_name'', ''policy_name'', ''policy_value'']
      else if t = T_COMBINED then [''user_id'', ''policy_name'', ''policy_value'']
      else [])"

lemma table_names_distinct [simp]:
  "T_ADMIN \<noteq> T_DEVICE_ADMIN" "T_ADMIN \<noteq> T_COMBINED" "T_DEVICE_ADMIN \<noteq> T_COMBINED"
  "T_DEVICE_ADMIN \<noteq> T_ADMIN" "T_COMBINED \<noteq> T_ADMIN" "T_COMBINED \<noteq> T_DEVICE_ADMIN"
  by (simp_all add: T_ADMIN_def T_DEVICE_ADMIN_def T_COMBINED_def)

subsection \<open>What the store is documented to do\<close>

definition default_row :: "string \<Rightarrow> db_row" where
  "default_row t = (\<lambda>c. if t = T_ADMIN \<and> c = ''enable_source'' then VInt 0 else VNull)"

definition overlay :: "values_bucket \<Rightarrow> db_row \<Rightarrow> db_row" where
  "overlay vb r = (\<lambda>c. case map_of vb c of Some v \<Rightarrow> v | None \<Rightarrow> r c)"

definition cell_matches :: "db_value \<Rightarrow> string \<Rightarrow> bool" where
  "cell_matches v s = (case v of VNull \<Rightarrow> False | VInt n \<Rightarrow> int_to_string n = s | VText t \<Rightarrow> t = s)"

definition row_matches :: "predicates \<Rightarrow> db_row \<Rightarrow> bool" where
  "row_matches p r = list_all (\<lambda>(c, s). cell_matches (r c) s) (pr_equal p)"

definition selected :: "('s \<Rightarrow> string \<Rightarrow> db_row list) \<Rightarrow> predicates \<Rightarrow> 's \<Rightarrow> db_row list" where
  "selected view p s = filter (row_matches p) (view s (pr_table p))"

definition law_open :: "'s rdb \<Rightarrow> ('s \<Rightarrow> string \<Rightarrow> db_row list) \<Rightarrow> bool" where
  "law_open R view = (\<forall>s. view (snd (rdb_open R s)) = view s)"

definition law_create :: "'s rdb \<Rightarrow> ('s \<Rightarrow> string \<Rightarrow> db_row list) \<Rightarrow> bool" where
  "law_create R view = (\<forall>sql s. take 27 sql = ''CREATE TABLE IF NOT EXISTS '' \<longrightarrow>
     view (snd (rdb_exec R sql s)) = view s)"

definition law_insert :: "'s rdb \<Rightarrow> ('s \<Rightarrow> string \<Rightarrow> db_row list) \<Rightarrow> bool" where
  "law_insert R view = (\<forall>t vb s. view (snd (rdb_insert R t vb s)) =
     (if fst (rdb_insert R t vb s) = 0
      then (view s)(t := view s t @ [overlay vb (default_row t)]) else view s))"

definition law_delete :: "'s rdb \<Rightarrow> ('s \<Rightarrow> string \<Rightarrow> db_row list) \<Rightarrow> bool" where
  "law_delete R view = (\<forall>p s. view (snd (rdb_delete R p s)) =
     (if fst (rdb_delete R p s) = 0
      then (view s)(pr_table p := filter (\<lambda>r. \<not> row_matches p r) (view s (pr_table p))) else view s))"

definition law_update :: "'s rdb \<Rightarrow> ('s \<Rightarrow> string \<Rightarrow> db_row list) \<Rightarrow> bool" where
  "law_update R view = (\<forall>vb p s. view (snd (rdb_update R vb p s)) =
     (if fst (rdb_update R vb p s) = 0
      then (view s)(pr_table p :=
        map (\<lambda>r. if row_matches p r then overlay vb r else r) (view s (pr_table p))) else view s))"

text \<open>A query without columns is \<open>SELECT *\<close>; the order of the rows is not promised.\<close>

definition law_query :: "'s rdb \<Rightarrow> ('s \<Rightarrow> string \<Rightarrow> db_row list) \<Rightarrow> bool" where
  "law_query R view = (\<forall>p s rs. rdb_query R p [] s = Some rs \<longrightarrow> has_block rs \<longrightarrow>
     mset (map tl (rs_rows rs)) = mset (map (\<lambda>r. map r (columns_of (pr_table p))) (selected view p s)))"

definition law_query_distinct :: "'s rdb \<Rightarrow> ('s \<Rightarrow> string \<Rightarrow> db_row list) \<Rightarrow> bool" where
  "law_query_distinct R view = (\<forall>p cols s rs. rdb_query R p cols s = Some rs \<longrightarrow> has_block rs \<longrightarrow>
     cols \<noteq> [] \<longrightarrow> pr_distinct p \<longrightarrow>
     distinct (rs_rows rs) \<and> set (rs_rows rs) = set (map (\<lambda>r. map r cols) (selected view p s)))"

definition law_cells :: "'s rdb \<Rightarrow> bool" where
  "law_cells R = ((\<forall>n. rs_int R (VInt n) = n) \<and> rs_int R VNull = 0
     \<and> (\<forall>t. rs_string R (VText t) = t) \<and> rs_string R VNull = [])"

definition rdb_laws :: "'s rdb \<Rightarrow> ('s \<Rightarrow> string \<Rightarrow> db_row list) \<Rightarrow> bool" where
  "rdb_laws R view = (law_open R view \<and> law_create R view \<and> law_insert R view
     \<and> law_delete R view \<and> law_update R view \<and> law_query R view \<and> law_query_distinct R view
     \<and> law_cells R)"

lemmas law_defs = law_open_def law_create_def law_insert_def law_delete_def law_update_def
  law_query_def law_query_distinct_def law_cells_def

lemma rdb_lawsD:
  assumes "rdb_laws R view"
  shows "view (snd (rdb_open R s)) = view s"
    and "take 27 sql = ''CREATE TABLE IF NOT EXISTS '' \<Longrightarrow> view (snd (rdb_exec R sql s)) = view s"
    and "view (snd (rdb_insert R t vb s)) =
        (if fst (rdb_insert R t vb s) = 0
         then (view s)(t := view s t @ [overlay vb (default_row t)]) else view s)"
    and "view (snd (rdb_delete R p s)) =
        (if fst (rdb_delete R p s) = 0
         then (view s)(pr_table p := filter (\<lambda>r. \<not> row_matches p r) (view s (pr_table p))) else view s)"
    and "view (snd (rdb_update R vb p s)) =
        (if fst (rdb_update R vb p s) = 0
         then (view s)(pr_table p :=
           map (\<lambda>r. if row_matches p r then overlay vb r else r) (view s (pr_table p))) else view s)"
    and "rdb_query R p [] s = Some rs \<Longrightarrow> has_block rs \<Longrightarrow>
        mset (map tl (rs_rows rs)) = mset (map (\<lambda>r. map r (columns_of (pr_table p))) (selected view p s))"
    and "rs_int R (VInt n) = n" "rs_int R VNull = 0" "rs_string R (VText x) = x" "rs_string R VNull = []"
  using assms unfolding rdb_laws_def by (simp_all add: law_defs)

text \<open>The view of the tables through the open store.\<close>

definition db_view :: "('s \<Rightarrow> string \<Rightarrow> db_row list) \<Rightarrow> 's edm_db \<Rightarrow> string \<Rightarrow> db_row list" where
  "db_view view d = view (store d)"

lemma GetRdbStore_view:
  assumes "rdb_laws R view" "GetRdbStore R d = (ok, d')"
  shows "db_view view d' = db_view view d"
  using assms(2) rdb_lawsD(1) [OF assms(1), of "store d"]
  by (auto simp: GetRdbStore_def db_view_def Let_def split: if_splits prod.splits)

lemma CreateTable_view:
  assumes "rdb_laws R view" "take 27 sql = ''CREATE TABLE IF NOT EXISTS ''" "CreateTable R sql d = (ok, d')"
  shows "db_view view d' = db_view view d"
  using assms(3) GetRdbStore_view [OF assms(1)] rdb_lawsD(2) [OF assms(1,2)]
  by (auto simp: CreateTable_def db_view_def Let_def split: if_splits prod.splits) (metis snd_conv)+

lemma Rdb_Insert_view:
  assumes "rdb_laws R view" "Rdb_Insert R t vb d = (ok, d')"
  shows "db_view view d' = (if ok then (db_view view d)(t := db_view view d t @ [overlay vb (default_row t)])
     else db_view view d)"
proof -
  obtain o1 d1 where g: "GetRdbStore R d = (o1, d1)" by (rule prod.exhaust)
  note v = GetRdbStore_view [OF assms(1) g]
  show ?thesis
    using assms(2) v rdb_lawsD(3) [OF assms(1), of t vb "store d1"]
    by (auto simp: Rdb_Insert_def g db_view_def Let_def split: if_splits prod.splits)
qed

lemma Rdb_Delete_view:
  assumes "rdb_laws R view" "Rdb_Delete R p d = (ok, d')"
  shows "db_view view d' = (if ok then (db_view view d)(pr_table p :=
      filter (\<lambda>r. \<not> row_matches p r) (db_view view d (pr_table p))) else db_view view d)"
proof -
  obtain o1 d1 where g: "GetRdbStore R d = (o1, d1)" by (rule prod.exhaust)
  note v = GetRdbStore_view [OF assms(1) g]
  show ?thesis
    using assms(2) v rdb_lawsD(4) [OF assms(1), of p "store d1"]
    by (auto simp: Rdb_Delete_def g db_view_def Let_def split: if_splits prod.splits)
qed

lemma Rdb_Update_view:
  assumes "rdb_laws R view" "Rdb_Update R vb p d = (ok, d')"
  shows "db_view view d' = (if ok then (db_view view d)(pr_table p :=
      map (\<lambda>r. if row_matches p r then overlay vb r else r) (db_view view d (pr_table p)))
      else db_view view d)"
proof -
  obtain o1 d1 where g: "GetRdbStore R d = (o1, d1)" by (rule prod.exhaust)
  note v = GetRdbStore_view [OF assms(1) g]
  show ?thesis
    using assms(2) v rdb_lawsD(5) [OF assms(1), of vb p "store d1"]
    by (auto simp: Rdb_Update_def g db_view_def Let_def split: if_splits prod.splits)
qed

lemma Rdb_Query_view:
  assumes "rdb_laws R view" "Rdb_Query R p [] d = (rs, d')"
  shows "db_view view d' = db_view view d"
    and "rs = Some rows \<Longrightarrow> mset (map tl rows) =
      mset (map (\<lambda>r. map r (columns_of (pr_table p)))
        (filter (row_matches p) (db_view view d (pr_table p))))"
proof -
  obtain o1 d1 where g: "GetRdbStore R d = (o1, d1)" by (rule prod.exhaust)
  note v = GetRdbStore_view [OF assms(1) g]
  show "db_view view d' = db_view view d"
    using assms(2) v by (auto simp: Rdb_Query_def g split: if_splits option.splits)
  show "rs = Some rows \<Longrightarrow> mset (map tl rows) =
      mset (map (\<lambda>r. map r (columns_of (pr_table p)))
        (filter (row_matches p) (db_view view d (pr_table p))))"
    using assms(2) v rdb_lawsD(6) [OF assms(1), of p "store d1"]
    by (auto simp: Rdb_Query_def g db_view_def selected_def split: if_splits option.splits)
qed

subsection \<open>A store that satisfies the laws\<close>

text \<open>The tables as lists of rows; queries return the rows in order. The first part of the state
  says for which tables every write fails, which the laws allow.\<close>

type_synonym list_store = "(string \<Rightarrow> bool) \<times> (string \<Rightarrow> db_row list)"

definition list_rdb :: "list_store rdb" where
  "list_rdb = \<lparr>
     rdb_open = (\<lambda>s. (True, s)),
     rdb_exec = (\<lambda>sql s. (0, s)),
     rdb_insert = (\<lambda>t vb (broken, tabs). if broken t then (1, (broken, tabs)) else
       (0, (broken, tabs(t := tabs t @ [overlay vb (default_row t)])))),
     rdb_delete = (\<lambda>p (broken, tabs). if broken (pr_table p) then (1, (broken, tabs)) else
       (0, (broken, tabs(pr_table p := filter (\<lambda>r. \<not> row_matches p r) (tabs (pr_table p)))))),
     rdb_update = (\<lambda>vb p (broken, tabs). if broken (pr_table p) then (1, (broken, tabs)) else
       (0, (broken, tabs(pr_table p :=
         map (\<lambda>r. if row_matches p r then overlay vb r else r) (tabs (pr_table p)))))),
     rdb_query = (\<lambda>p cols (broken, tabs).
       Some \<lparr> has_block = True, rs_rows =
         (let rows = filter (row_matches p) (tabs (pr_table p)) in
          if cols = [] then map (\<lambda>r. VNull # map r (columns_of (pr_table p))) rows
          else if pr_distinct p then remdups (map (\<lambda>r. map r cols) rows)
          else map (\<lambda>r. map r cols) rows) \<rparr>),
     rs_int = (\<lambda>v. case v of VInt n \<Rightarrow> n | _ \<Rightarrow> 0),
     rs_string = (\<lambda>v. case v of VText t \<Rightarrow> t | VInt n \<Rightarrow> int_to_string n | VNull \<Rightarrow> []) \<rparr>"

lemma list_rdb_laws: "rdb_laws list_rdb snd"
  by (auto simp: rdb_laws_def law_defs list_rdb_def selected_def Let_def o_def
      image_mset.compositionality)

text \<open>An empty store with some broken tables.\<close>

definition empty_store :: "string list \<Rightarrow> list_store" where
  "empty_store broken = (\<lambda>t. t \<in> set broken, \<lambda>_. [])"

end
