(* ===== verification/Cjson.thy ===== *)
theory Cjson
  imports Decimal
begin

text \<open>
  The JSON library the service calls. cJSON is not part of the repository: the record \<open>cjson\<close>
  holds the calls the code makes, an argument of the definitions that use it, and \<open>cjson_laws\<close> the
  documented behaviour the code relies on: items are created, and what is printed is parsed
  back. \<open>plain_cjson\<close> is a concrete printer and parser for arrays of strings and numbers that
  satisfies it.
\<close>

text \<open>A cJSON item. A number is kept as a \<open>double\<close>, of which the model has the whole numbers; \<open>valueint\<close> is the same
  number in the range of \<open>int\<close>.\<close>

datatype json = JNull | JBool bool | JNumber int | JString string | JArray "json list"
  | JObject "(string \<times> json) list"

definition valueint :: "int \<Rightarrow> int" where
  "valueint n = max (- (2 ^ 31)) (min (2 ^ 31 - 1) n)"

record cjson =
  cj_create_array :: bool
  cj_create_object :: bool
  cj_create_string :: "string \<Rightarrow> json option"
  cj_create_number :: "int \<Rightarrow> json option"
  cj_print :: "json \<Rightarrow> string option"
  cj_parse :: "string \<Rightarrow> json option"

text \<open>\<open>cJSON_ArrayForEach\<close> walks over the children of an array or object, \<open>cJSON_GetArraySize\<close>
  counts them.\<close>

definition json_children :: "json \<Rightarrow> json list" where
  "json_children j = (case j of JArray xs \<Rightarrow> xs | JObject kvs \<Rightarrow> map snd kvs | _ \<Rightarrow> [])"

text \<open>A loop that creates an item per element and gives up at the first null pointer.\<close>

fun create_all :: "('a \<Rightarrow> json option) \<Rightarrow> 'a list \<Rightarrow> json list option" where
  "create_all f [] = Some []"
| "create_all f (x # xs) =
     (case f x of None \<Rightarrow> None
      | Some j \<Rightarrow> (case create_all f xs of None \<Rightarrow> None | Some js \<Rightarrow> Some (j # js)))"

definition string_array :: "string list \<Rightarrow> json" where
  "string_array ss = JArray (map JString ss)"

definition number_array :: "int list \<Rightarrow> json" where
  "number_array ns = JArray (map JNumber ns)"

text \<open>Numbers are promised only in the range of \<open>int\<close>, where \<open>valueint\<close> is exact.\<close>

definition int_range :: "int \<Rightarrow> bool" where
  "int_range n = (- (2 ^ 31) \<le> n \<and> n < 2 ^ 31)"

lemma valueint_in_range: "int_range n \<Longrightarrow> valueint n = n"
  by (simp add: int_range_def valueint_def)

definition cjson_laws :: "cjson \<Rightarrow> bool" where
  "cjson_laws J \<longleftrightarrow> cj_create_array J \<and> cj_create_object J
     \<and> (\<forall>s. cj_create_string J s = Some (JString s))
     \<and> (\<forall>n. int_range n \<longrightarrow> cj_create_number J n = Some (JNumber n))
     \<and> (\<forall>ss. \<exists>t. cj_print J (string_array ss) = Some t \<and> cj_parse J t = Some (string_array ss)
          \<and> t \<noteq> [] \<and> t \<noteq> ''null'')
     \<and> (\<forall>ns. list_all int_range ns \<longrightarrow> (\<exists>t. cj_print J (number_array ns) = Some t \<and> cj_parse J t = Some (number_array ns)
          \<and> t \<noteq> [] \<and> t \<noteq> ''null''))"

lemma cjson_lawsD:
  assumes "cjson_laws J"
  shows "cj_create_array J" "cj_create_string J s = Some (JString s)"
    "int_range n \<Longrightarrow> cj_create_number J n = Some (JNumber n)" "cj_create_object J"
  using assms by (simp_all add: cjson_laws_def)

lemma cjson_print_strings:
  assumes "cjson_laws J"
  obtains t where "cj_print J (string_array ss) = Some t" "cj_parse J t = Some (string_array ss)"
    "t \<noteq> []" "t \<noteq> ''null''"
  using assms unfolding cjson_laws_def by blast

lemma cjson_print_numbers:
  assumes "cjson_laws J" "list_all int_range ns"
  obtains t where "cj_print J (number_array ns) = Some t" "cj_parse J t = Some (number_array ns)"
    "t \<noteq> []" "t \<noteq> ''null''"
  using assms unfolding cjson_laws_def by blast

lemma create_all_Some: "(\<And>x. x \<in> set xs \<Longrightarrow> f x = Some (g x)) \<Longrightarrow> create_all f xs = Some (map g xs)"
  by (induction xs) simp_all

subsection \<open>A concrete library\<close>

text \<open>Strings in quotes with the quote and the backslash escaped, numbers in decimal, a comma
  after every element.\<close>

abbreviation (input) quote :: char where "quote \<equiv> CHR 0x22"
abbreviation (input) backslash :: char where "backslash \<equiv> CHR 0x5C"

fun escape :: "string \<Rightarrow> string" where
  "escape [] = [quote]"
| "escape (c # cs) = (if c = quote \<or> c = backslash then backslash # c # escape cs else c # escape cs)"

fun unescape :: "string \<Rightarrow> (string \<times> string) option" where
  "unescape [] = None"
| "unescape (c # cs) =
     (if c = quote then Some ([], cs)
      else if c = backslash then
        (case cs of [] \<Rightarrow> None
         | d # ds \<Rightarrow> map_option (\<lambda>(s, r). (d # s, r)) (unescape ds))
      else map_option (\<lambda>(s, r). (c # s, r)) (unescape cs))"

lemma unescape_escape: "unescape (escape s @ r) = Some (s, r)"
  by (induction s rule: escape.induct) auto

fun print_item :: "json \<Rightarrow> string" where
  "print_item (JString s) = quote # escape s"
| "print_item (JNumber n) = int_to_string n"
| "print_item _ = []"

definition plain_print :: "json \<Rightarrow> string option" where
  "plain_print j = (case j of JArray xs \<Rightarrow> Some (CHR ''['' # concat (map (\<lambda>x. print_item x @ '','') xs) @ '']'')
     | _ \<Rightarrow> None)"

definition parse_item :: "string \<Rightarrow> (json \<times> string) option" where
  "parse_item s = (case s of [] \<Rightarrow> None
     | c # cs \<Rightarrow> if c = quote then map_option (\<lambda>(t, r). (JString t, r)) (unescape cs)
         else if c = CHR ''-'' then (let (n, r) = read_digits 0 cs in Some (JNumber (- int n), r))
         else (let (n, r) = read_digits 0 s in Some (JNumber (int n), r)))"

text \<open>Fuel: every element takes at least one character.\<close>

fun parse_items :: "nat \<Rightarrow> string \<Rightarrow> json list option" where
  "parse_items 0 s = None"
| "parse_items (Suc k) s =
     (if s = '']'' then Some []
      else (case parse_item s of None \<Rightarrow> None
            | Some (j, r) \<Rightarrow> (case r of [] \<Rightarrow> None
                | c # cs \<Rightarrow> if c = CHR '','' then map_option (Cons j) (parse_items k cs) else None)))"

definition plain_parse :: "string \<Rightarrow> json option" where
  "plain_parse s = (case s of [] \<Rightarrow> None
     | c # cs \<Rightarrow> if c = CHR ''['' then map_option JArray (parse_items (Suc (length cs)) cs) else None)"

definition plain_cjson :: cjson where
  "plain_cjson = \<lparr> cj_create_array = True, cj_create_object = True, cj_create_string = (\<lambda>s. Some (JString s)),
     cj_create_number = (\<lambda>n. Some (JNumber n)), cj_print = plain_print, cj_parse = plain_parse \<rparr>"

lemma comma_not_digit [simp]: "char_digit CHR '','' = None"
  by (simp add: char_digit_def)

lemma nat_to_string_hd:
  obtains c cs where "nat_to_string n = c # cs" "char_digit c \<noteq> None"
  using hd_digits [OF digits_nat_to_string nat_to_string_nonempty, of n]
  by (cases "nat_to_string n") auto

lemma parse_item_print:
  assumes "(\<exists>s. j = JString s) \<or> (\<exists>n. j = JNumber n)"
  shows "parse_item (print_item j @ CHR '','' # r) = Some (j, CHR '','' # r)
    \<and> print_item j @ t \<noteq> '']''"
  using assms
proof (elim disjE exE)
  fix s assume j: "j = JString s"
  show ?thesis by (simp add: j parse_item_def unescape_escape)
next
  fix n assume j: "j = JNumber n"
  obtain c cs where c: "nat_to_string (nat \<bar>n\<bar>) = c # cs" "char_digit c \<noteq> None"
    by (rule nat_to_string_hd)
  have nq: "c \<noteq> quote" "c \<noteq> CHR ''-''" "c \<noteq> CHR '']''"
    using c(2) by (auto simp: char_digit_def)
  have rd: "read_digits 0 (c # cs @ CHR '','' # r) = (nat \<bar>n\<bar>, CHR '','' # r)"
    using read_nat_to_string_acc [of 0 "nat \<bar>n\<bar>" "CHR '','' # r"] by (simp add: c(1))
  have "parse_item (print_item j @ CHR '','' # r) = Some (j, CHR '','' # r)"
    using c nq rd by (auto simp: j parse_item_def int_to_string_def simp del: read_digits.simps)
  moreover have "print_item j @ t \<noteq> '']''"
    using c nq by (auto simp: j int_to_string_def)
  ultimately show ?thesis by blast
qed

lemma parse_items_print:
  assumes "\<forall>j \<in> set xs. (\<exists>s. j = JString s) \<or> (\<exists>n. j = JNumber n)"
    "length xs < k"
  shows "parse_items k (concat (map (\<lambda>x. print_item x @ '','') xs) @ '']'') = Some xs"
  using assms
proof (induction xs arbitrary: k)
  case Nil
  then show ?case by (cases k) auto
next
  case (Cons x xs)
  obtain k' where k: "k = Suc k'" "length xs < k'" using Cons.prems by (cases k) auto
  have x: "(\<exists>s. x = JString s) \<or> (\<exists>n. x = JNumber n)" using Cons.prems by simp
  let ?r = "concat (map (\<lambda>x. print_item x @ '','') xs) @ '']''"
  have "parse_items k' ?r = Some xs" using Cons.IH k(2) Cons.prems by simp
  moreover have "parse_item (print_item x @ CHR '','' # ?r) = Some (x, CHR '','' # ?r)"
    "print_item x @ (CHR '','' # ?r) \<noteq> '']''"
    using parse_item_print [OF x] by blast+
  ultimately show ?case by (simp add: k(1))
qed

lemma plain_roundtrip:
  assumes "\<forall>j \<in> set xs. (\<exists>s. j = JString s) \<or> (\<exists>n. j = JNumber n)"
  shows "\<exists>t. plain_print (JArray xs) = Some t \<and> plain_parse t = Some (JArray xs)
    \<and> t \<noteq> [] \<and> t \<noteq> ''null''"
proof -
  let ?r = "concat (map (\<lambda>x. print_item x @ '','') xs) @ '']''"
  have "length xs \<le> length (concat (map (\<lambda>x. print_item x @ '','') xs))"
    by (induction xs) auto
  then have "parse_items (Suc (length ?r)) ?r = Some xs"
    by (intro parse_items_print [OF assms]) simp
  then show ?thesis by (simp add: plain_print_def plain_parse_def del: parse_items.simps length_append)
qed

lemma plain_cjson_laws: "cjson_laws plain_cjson"
  using plain_roundtrip [of "map JString ss" for ss] plain_roundtrip [of "map JNumber ns" for ns]
  by (auto simp: cjson_laws_def plain_cjson_def string_array_def number_array_def)

end
