(* ===== verification/Admin_Policies_Storage.thy ===== *)
theory Admin_Policies_Storage
  imports Rdb Cjson Admin
begin

text \<open>
  \<open>services/edm/src/admin_policies_storage_rdb.cpp\<close>: the table of administrators. The cJSON and
  relational store calls are the parameters \<open>J\<close> and \<open>R\<close>.
\<close>

subsection \<open>Table and instance\<close>

definition admin_policies_sql :: string where
  "admin_policies_sql = ''CREATE TABLE IF NOT EXISTS '' @ T_ADMIN @ '' (''
     @ ''id INTEGER PRIMARY KEY AUTOINCREMENT,''
     @ ''user_id INTEGER NOT NULL,''
     @ ''admin_type INTEGER NOT NULL,''
     @ ''package_name TEXT NOT NULL,''
     @ ''class_name TEXT NOT NULL,''
     @ ''ent_name TEXT,''
     @ ''ent_desc TEXT,''
     @ ''permissions TEXT,''
     @ ''subscribe_events TEXT,''
     @ ''parent_admin TEXT,''
     @ ''is_debug INTEGER,''
     @ ''accessible_policies TEXT,''
     @ ''running_mode INTEGER,''
     @ ''enable_source INTEGER DEFAULT 0);''"

definition CreateAdminPoliciesTable :: "'s rdb \<Rightarrow> 's edm_db \<Rightarrow> bool \<times> 's edm_db" where
  "CreateAdminPoliciesTable R d = CreateTable R admin_policies_sql d"

definition AdminPolicies_GetInstance :: "'s rdb \<Rightarrow> 's edm_db \<Rightarrow> bool \<times> 's edm_db" where
  "AdminPolicies_GetInstance R d =
     (let d = (if \<not> isAdminPoliciesTableInit d
               then (let (ok, d') = CreateAdminPoliciesTable R d in d'\<lparr>isAdminPoliciesTableInit := ok\<rparr>)
               else d)
      in (isAdminPoliciesTableInit d, d))"

subsection \<open>Writing\<close>

text \<open>The two array columns. The outer option is the early return of the CJSON macros, the inner
  one a null result of \<open>cJSON_PrintUnformatted\<close>.\<close>

definition strings_to_text :: "cjson \<Rightarrow> string list \<Rightarrow> string option option" where
  "strings_to_text J ss =
     (if \<not> cj_create_array J then None
      else (case create_all (cj_create_string J) ss of
              None \<Rightarrow> None
            | Some js \<Rightarrow> Some (cj_print J (JArray js))))"

definition put_text :: "string \<Rightarrow> string option \<Rightarrow> values_bucket \<Rightarrow> values_bucket" where
  "put_text field t vb = (case t of Some s \<Rightarrow> PutString field s vb | None \<Rightarrow> vb)"

definition CreateUpdateValuesBucket :: "cjson \<Rightarrow> user_id \<Rightarrow> admin_info \<Rightarrow> values_bucket \<Rightarrow> values_bucket" where
  "CreateUpdateValuesBucket J userId admin vb =
     (let vb = (if enterpriseName (entInfo admin) \<noteq> []
                then PutString ''ent_name'' (enterpriseName (entInfo admin)) vb else vb);
          vb = (if description (entInfo admin) \<noteq> []
                then PutString ''ent_desc'' (description (entInfo admin)) vb else vb);
          vb = (if className admin \<noteq> [] then PutString ''class_name'' (className admin) vb else vb)
      in case strings_to_text J (permission admin) of
           None \<Rightarrow> vb
         | Some perms \<Rightarrow>
             (let vb = put_text ''permissions'' perms vb;
                  add_mode = (\<lambda>vb. if runningMode admin \<noteq> RUNNING_MODE_DEFAULT
                    then PutInt ''running_mode'' (runningMode admin) vb else vb)
              in if adminType admin = VIRTUAL_ADMIN then
                   (case strings_to_text J (accessiblePolicies admin) of
                      None \<Rightarrow> vb
                    | Some pols \<Rightarrow> add_mode (put_text ''accessible_policies'' pols vb))
                 else add_mode vb))"

definition CreateInsertValuesBucket :: "cjson \<Rightarrow> user_id \<Rightarrow> admin_info \<Rightarrow> values_bucket" where
  "CreateInsertValuesBucket J userId admin =
     (let vb = PutInt ''enable_source'' (enableSource admin)
                 (PutInt ''running_mode'' (runningMode admin) []);
          vb = CreateUpdateValuesBucket J userId admin vb;
          vb = PutInt ''user_id'' userId vb;
          vb = PutString ''package_name'' (packageName admin) vb;
          vb = PutString ''class_name'' (className admin) vb;
          vb = PutInt ''admin_type'' (admin_type_to_int (adminType admin)) vb;
          vb = PutString ''parent_admin'' (parentAdminName admin) vb;
          vb = PutBool ''is_debug'' (isDebug admin) vb
      in vb)"

definition admin_predicates :: "user_id \<Rightarrow> string \<Rightarrow> predicates" where
  "admin_predicates userId pkg =
     EqualTo ''package_name'' pkg (EqualTo ''user_id'' (int_to_string userId) (Predicates T_ADMIN))"

definition InsertAdmin :: "'s rdb \<Rightarrow> cjson \<Rightarrow> user_id \<Rightarrow> admin_info \<Rightarrow> 's edm_db \<Rightarrow> bool \<times> 's edm_db" where
  "InsertAdmin R J userId admin d = Rdb_Insert R T_ADMIN (CreateInsertValuesBucket J userId admin) d"

definition Storage_UpdateAdmin :: "'s rdb \<Rightarrow> cjson \<Rightarrow> user_id \<Rightarrow> admin_info \<Rightarrow> 's edm_db \<Rightarrow> bool \<times> 's edm_db" where
  "Storage_UpdateAdmin R J userId admin d =
     Rdb_Update R (CreateUpdateValuesBucket J userId admin []) (admin_predicates userId (packageName admin)) d"

definition ReplaceAdmin :: "'s rdb \<Rightarrow> cjson \<Rightarrow> string \<Rightarrow> user_id \<Rightarrow> admin_info \<Rightarrow> 's edm_db
    \<Rightarrow> bool \<times> 's edm_db" where
  "ReplaceAdmin R J pkg userId newAdminInfo d =
     Rdb_Update R (CreateInsertValuesBucket J userId newAdminInfo) (admin_predicates userId pkg) d"

definition UpdateParentName :: "'s rdb \<Rightarrow> string \<Rightarrow> string \<Rightarrow> string \<Rightarrow> 's edm_db \<Rightarrow> bool \<times> 's edm_db" where
  "UpdateParentName R pkg currentParentName targetParentName d =
     Rdb_Update R (PutString ''parent_admin'' targetParentName [])
       (EqualTo ''package_name'' pkg (EqualTo ''parent_admin'' currentParentName (Predicates T_ADMIN))) d"

definition Storage_DeleteAdmin :: "'s rdb \<Rightarrow> user_id \<Rightarrow> string \<Rightarrow> 's edm_db \<Rightarrow> bool \<times> 's edm_db" where
  "Storage_DeleteAdmin R userId pkg d = Rdb_Delete R (admin_predicates userId pkg) d"

definition UpdateEntInfo :: "'s rdb \<Rightarrow> user_id \<Rightarrow> string \<Rightarrow> ent_info \<Rightarrow> 's edm_db \<Rightarrow> bool \<times> 's edm_db" where
  "UpdateEntInfo R userId pkg ent d =
     Rdb_Update R (PutString ''ent_desc'' (description ent) (PutString ''ent_name'' (enterpriseName ent) []))
       (admin_predicates userId pkg) d"

definition UpdateManagedEvents :: "'s rdb \<Rightarrow> cjson \<Rightarrow> user_id \<Rightarrow> string \<Rightarrow> managed_event list \<Rightarrow> 's edm_db
    \<Rightarrow> bool \<times> 's edm_db" where
  "UpdateManagedEvents R J userId pkg events d =
     (if \<not> cj_create_array J then (False, d)
      else (case create_all (cj_create_number J) (map uint events) of
              None \<Rightarrow> (False, d)
            | Some js \<Rightarrow> Rdb_Update R (put_text ''subscribe_events'' (cj_print J (JArray js)) [])
                (admin_predicates userId pkg) d))"

subsection \<open>Reading\<close>

definition SetAdminStringInfo :: "cjson \<Rightarrow> string \<Rightarrow> string list \<Rightarrow> string list" where
  "SetAdminStringInfo J stringInfo info =
     (if stringInfo = [] \<or> stringInfo = ''null'' then info
      else (case cj_parse J stringInfo of
              None \<Rightarrow> info
            | Some j \<Rightarrow> (case j of
                JArray xs \<Rightarrow>
                  (if length xs > DEFAULT_LOOP_MAX_SIZE then info
                   else info @ List.map_filter (\<lambda>e. case e of JString s \<Rightarrow> Some s | _ \<Rightarrow> None) xs)
              | _ \<Rightarrow> info)))"

definition SetManagedEventStr :: "'s rdb \<Rightarrow> cjson \<Rightarrow> db_value list \<Rightarrow> admin_info \<Rightarrow> admin_info" where
  "SetManagedEventStr R J row i =
     (let text = rs_string R (row ! 8) in
      if text = [] \<or> text = ''null'' then i
      else (case cj_parse J text of
              None \<Rightarrow> i
            | Some j \<Rightarrow>
                (if length (json_children j) > DEFAULT_LOOP_MAX_SIZE then i
                 else i\<lparr>managedEvents := managedEvents i @
                   List.map_filter (\<lambda>e. case e of JNumber n \<Rightarrow> Some (word_of_int (valueint n)) | _ \<Rightarrow> None)
                     (json_children j)\<rparr>)))"

definition SetAdminItems :: "'s rdb \<Rightarrow> cjson \<Rightarrow> db_value list \<Rightarrow> admin_info \<Rightarrow> admin_info" where
  "SetAdminItems R J row i =
     (let i = i\<lparr>adminType := admin_type_of_int (rs_int R (row ! 2)),
                packageName := rs_string R (row ! 3),
                className := rs_string R (row ! 4),
                entInfo := \<lparr> enterpriseName = rs_string R (row ! 5), description = rs_string R (row ! 6) \<rparr>\<rparr>;
          i = (if row ! 7 \<noteq> VNull
               then i\<lparr>permission := SetAdminStringInfo J (rs_string R (row ! 7)) (permission i)\<rparr> else i);
          i = (if row ! 8 \<noteq> VNull then SetManagedEventStr R J row i else i);
          i = i\<lparr>parentAdminName := rs_string R (row ! 9), isDebug := rs_int R (row ! 10) \<noteq> 0\<rparr>;
          i = (if row ! 11 \<noteq> VNull
               then i\<lparr>accessiblePolicies := SetAdminStringInfo J (rs_string R (row ! 11)) (accessiblePolicies i)\<rparr>
               else i)
      in i\<lparr>runningMode := rs_int R (row ! 12), enableSource := rs_int R (row ! 13)\<rparr>)"

fun read_admin_rows :: "'s rdb \<Rightarrow> cjson \<Rightarrow> db_value list list \<Rightarrow> (user_id, admin_info list) amap
    \<Rightarrow> (user_id, admin_info list) amap" where
  "read_admin_rows R J [] admins = admins"
| "read_admin_rows R J (row # rows) admins =
     (let item = SetAdminItems R J row AdminInfo0;
          userId = rs_int R (row ! 1)
      in read_admin_rows R J rows
           (case map_of admins userId of
              Some items \<Rightarrow> AList.update userId (items @ [item]) admins
            | None \<Rightarrow> AList.update userId [item] admins))"

definition QueryAllAdmin :: "'s rdb \<Rightarrow> cjson \<Rightarrow> 's edm_db \<Rightarrow> (user_id, admin_info list) amap \<times> 's edm_db" where
  "QueryAllAdmin R J d =
     (case Rdb_Query R (Predicates T_ADMIN) [] d of
        (None, d) \<Rightarrow> ([], d)
      | (Some rows, d) \<Rightarrow> (read_admin_rows R J rows [], d))"

subsection \<open>Rows as administrators\<close>

definition cell_num :: "db_value \<Rightarrow> int" where
  "cell_num v = (case v of VInt n \<Rightarrow> n | _ \<Rightarrow> 0)"

definition cell_str :: "db_value \<Rightarrow> string" where
  "cell_str v = (case v of VText t \<Rightarrow> t | _ \<Rightarrow> [])"

definition is_num :: "db_value \<Rightarrow> bool" where "is_num v = (case v of VText _ \<Rightarrow> False | _ \<Rightarrow> True)"
definition is_str :: "db_value \<Rightarrow> bool" where "is_str v = (case v of VInt _ \<Rightarrow> False | _ \<Rightarrow> True)"

lemma cells_read:
  assumes "rdb_laws R view"
  shows "is_num v \<Longrightarrow> rs_int R v = cell_num v" "is_str v \<Longrightarrow> rs_string R v = cell_str v"
  using rdb_lawsD(7-10) [OF assms]
  by (cases v; simp add: is_num_def is_str_def cell_num_def cell_str_def)+

text \<open>A row conforms to the schema of \<open>admin_policies\<close>.\<close>

definition admin_row_ok :: "db_row \<Rightarrow> bool" where
  "admin_row_ok r = ((\<exists>u. r ''user_id'' = VInt u) \<and> is_num (r ''admin_type'') \<and> (\<exists>p. r ''package_name'' = VText p)
     \<and> is_str (r ''class_name'') \<and> is_str (r ''ent_name'') \<and> is_str (r ''ent_desc'') \<and> is_str (r ''permissions'')
     \<and> is_str (r ''subscribe_events'') \<and> is_str (r ''parent_admin'') \<and> is_num (r ''is_debug'')
     \<and> is_str (r ''accessible_policies'') \<and> is_num (r ''running_mode'') \<and> is_num (r ''enable_source''))"

definition text_list :: "cjson \<Rightarrow> db_value \<Rightarrow> string list" where
  "text_list J v = (if v = VNull then [] else SetAdminStringInfo J (cell_str v) [])"

definition event_list :: "cjson \<Rightarrow> db_value \<Rightarrow> managed_event list" where
  "event_list J v =
     (let text = cell_str v in
      if v = VNull \<or> text = [] \<or> text = ''null'' then []
      else (case cj_parse J text of None \<Rightarrow> []
            | Some j \<Rightarrow> (if length (json_children j) > DEFAULT_LOOP_MAX_SIZE then []
                else List.map_filter (\<lambda>e. case e of JNumber n \<Rightarrow> Some (word_of_int (valueint n)) | _ \<Rightarrow> None)
                       (json_children j))))"

definition info_of_row :: "cjson \<Rightarrow> db_row \<Rightarrow> admin_info" where
  "info_of_row J r = \<lparr> packageName = cell_str (r ''package_name''), className = cell_str (r ''class_name''),
     entInfo = \<lparr> enterpriseName = cell_str (r ''ent_name''), description = cell_str (r ''ent_desc'') \<rparr>,
     permission = text_list J (r ''permissions''), managedEvents = event_list J (r ''subscribe_events''),
     parentAdminName = cell_str (r ''parent_admin''),
     accessiblePolicies = text_list J (r ''accessible_policies''),
     adminType = admin_type_of_int (cell_num (r ''admin_type'')), isDebug = (cell_num (r ''is_debug'') \<noteq> 0),
     runningMode = cell_num (r ''running_mode''), enableSource = cell_num (r ''enable_source'') \<rparr>"

lemma cell_simps [simp]:
  "cell_num (VInt n) = n" "cell_num VNull = 0" "cell_str (VText t) = t" "cell_str VNull = []"
  "is_num (VInt n)" "is_num VNull" "is_str (VText t)" "is_str VNull"
  "text_list J VNull = []" "event_list J VNull = []"
  by (simp_all add: cell_num_def cell_str_def is_num_def is_str_def text_list_def event_list_def)

lemma SetManagedEventStr_events:
  assumes "rs_string R (row ! 8) = cell_str (row ! 8)" "row ! 8 \<noteq> VNull"
  shows "SetManagedEventStr R J row i = i\<lparr>managedEvents := managedEvents i @ event_list J (row ! 8)\<rparr>"
  using assms by (simp add: SetManagedEventStr_def event_list_def Let_def split: option.splits)

lemma SetAdminItems_row:
  assumes "rdb_laws R view" "admin_row_ok r"
  shows "SetAdminItems R J (x # map r (columns_of T_ADMIN)) AdminInfo0 = info_of_row J r"
proof -
  let ?row = "x # map r (columns_of T_ADMIN)"
  have cells: "?row ! 2 = r ''admin_type''" "?row ! 3 = r ''package_name''" "?row ! 4 = r ''class_name''"
    "?row ! 5 = r ''ent_name''" "?row ! 6 = r ''ent_desc''" "?row ! 7 = r ''permissions''"
    "?row ! 8 = r ''subscribe_events''" "?row ! 9 = r ''parent_admin''" "?row ! 10 = r ''is_debug''"
    "?row ! 11 = r ''accessible_policies''" "?row ! 12 = r ''running_mode''" "?row ! 13 = r ''enable_source''"
    by (simp_all add: columns_of_def)
  have "is_str (r ''package_name'')"
    using assms(2) by (auto simp: admin_row_ok_def is_str_def)
  then have reads: "rs_int R (r ''admin_type'') = cell_num (r ''admin_type'')"
    "rs_string R (r ''package_name'') = cell_str (r ''package_name'')"
    "rs_string R (r ''class_name'') = cell_str (r ''class_name'')"
    "rs_string R (r ''ent_name'') = cell_str (r ''ent_name'')"
    "rs_string R (r ''ent_desc'') = cell_str (r ''ent_desc'')"
    "rs_string R (r ''permissions'') = cell_str (r ''permissions'')"
    "rs_string R (r ''subscribe_events'') = cell_str (r ''subscribe_events'')"
    "rs_string R (r ''parent_admin'') = cell_str (r ''parent_admin'')"
    "rs_int R (r ''is_debug'') = cell_num (r ''is_debug'')"
    "rs_string R (r ''accessible_policies'') = cell_str (r ''accessible_policies'')"
    "rs_int R (r ''running_mode'') = cell_num (r ''running_mode'')"
    "rs_int R (r ''enable_source'') = cell_num (r ''enable_source'')"
    using assms(2) by (simp_all add: admin_row_ok_def cells_read [OF assms(1)])
  have ev: "(if ?row ! 8 \<noteq> VNull then SetManagedEventStr R J ?row i else i)
      = i\<lparr>managedEvents := managedEvents i @ event_list J (r ''subscribe_events'')\<rparr>" for i
    using SetManagedEventStr_events [of R ?row J i] reads(7)
    by (simp only: cells) (simp add: event_list_def)
  show ?thesis
    unfolding SetAdminItems_def ev unfolding cells reads
    by (simp add: Let_def info_of_row_def AdminInfo0_def text_list_def)
qed

text \<open>The stored administrators of a user, in table order.\<close>

definition user_rows :: "user_id \<Rightarrow> db_row list \<Rightarrow> db_row list" where
  "user_rows u rows = filter (\<lambda>r. r ''user_id'' = VInt u) rows"

definition stored :: "('s \<Rightarrow> string \<Rightarrow> db_row list) \<Rightarrow> cjson \<Rightarrow> 's edm_db \<Rightarrow> user_id \<Rightarrow> admin_info list" where
  "stored view J d u = map (info_of_row J) (user_rows u (db_view view d T_ADMIN))"

definition admins_typed :: "('s \<Rightarrow> string \<Rightarrow> db_row list) \<Rightarrow> 's edm_db \<Rightarrow> bool" where
  "admins_typed view d = (\<forall>r \<in> set (db_view view d T_ADMIN). admin_row_ok r)"

text \<open>What writing and reading back keeps of an \<open>AdminInfo\<close>.\<close>

definition persisted :: "admin_info \<Rightarrow> admin_info" where
  "persisted i = i\<lparr>managedEvents := [],
     accessiblePolicies := (if adminType i = VIRTUAL_ADMIN then accessiblePolicies i else [])\<rparr>"

definition storable :: "admin_info \<Rightarrow> bool" where
  "storable i = (length (permission i) \<le> DEFAULT_LOOP_MAX_SIZE
     \<and> length (accessiblePolicies i) \<le> DEFAULT_LOOP_MAX_SIZE
     \<and> cls_of_type (adminType i) \<noteq> None)"

lemma admin_type_of_to_int: "cls_of_type t \<noteq> None \<Longrightarrow> admin_type_of_int (admin_type_to_int t) = t"
  by (cases t) (simp_all add: cls_of_type_def admin_type_of_int_def admin_type_to_int_def)

lemma strings_to_text_laws:
  assumes "cjson_laws J"
  obtains t where "strings_to_text J ss = Some (Some t)" "t \<noteq> []" "t \<noteq> ''null''"
    "cj_parse J t = Some (string_array ss)"
proof -
  obtain t where "cj_print J (string_array ss) = Some t" "cj_parse J t = Some (string_array ss)"
    "t \<noteq> []" "t \<noteq> ''null''" by (rule cjson_print_strings [OF assms])
  moreover have "create_all (cj_create_string J) ss = Some (map JString ss)"
    by (rule create_all_Some) (rule cjson_lawsD(2) [OF assms])
  ultimately show thesis
    using cjson_lawsD(1) [OF assms] that by (simp add: strings_to_text_def string_array_def)
qed

lemma map_filter_strings:
  "List.map_filter (\<lambda>e. case e of JString s \<Rightarrow> Some s | _ \<Rightarrow> None) (map JString ss) = ss"
  by (induction ss) (simp_all add: List.map_filter_def)

lemma text_list_print:
  assumes "t \<noteq> []" "t \<noteq> ''null''" "cj_parse J t = Some (string_array ss)" "length ss \<le> DEFAULT_LOOP_MAX_SIZE"
  shows "text_list J (VText t) = ss"
  using assms by (simp add: text_list_def SetAdminStringInfo_def cell_str_def string_array_def map_filter_strings)

subsection \<open>What the statements do\<close>

lemma bucket_lookup:
  "map_of (PutInt f n vb) c = (if c = f then Some (VInt n) else map_of vb c)"
  "map_of (PutString f t vb) c = (if c = f then Some (VText t) else map_of vb c)"
  "map_of (PutBool f b vb) c = (if c = f then Some (VInt (if b then 1 else 0)) else map_of vb c)"
  by (simp_all add: bucket_defs)

text \<open>The columns an update bucket sets, one condition per column.\<close>

definition update_cell :: "string \<Rightarrow> string \<Rightarrow> admin_info \<Rightarrow> string \<Rightarrow> db_value option" where
  "update_cell pt qt i c =
     (if c = ''ent_name'' then (if enterpriseName (entInfo i) \<noteq> [] then Some (VText (enterpriseName (entInfo i))) else None)
      else if c = ''ent_desc'' then (if description (entInfo i) \<noteq> [] then Some (VText (description (entInfo i))) else None)
      else if c = ''class_name'' then (if className i \<noteq> [] then Some (VText (className i)) else None)
      else if c = ''permissions'' then Some (VText pt)
      else if c = ''accessible_policies'' then (if adminType i = VIRTUAL_ADMIN then Some (VText qt) else None)
      else if c = ''running_mode'' then (if runningMode i \<noteq> RUNNING_MODE_DEFAULT then Some (VInt (runningMode i)) else None)
      else None)"

lemma map_of_if: "map_of (if b then x else y) c = (if b then map_of x c else map_of y c)"
  by simp

lemma CreateUpdateValuesBucket_laws:
  assumes "cjson_laws J"
  obtains pt qt where "pt \<noteq> []" "pt \<noteq> ''null''" "cj_parse J pt = Some (string_array (permission i))"
    "qt \<noteq> []" "qt \<noteq> ''null''" "cj_parse J qt = Some (string_array (accessiblePolicies i))"
    "\<And>u vb c. map_of (CreateUpdateValuesBucket J u i vb) c =
      (case update_cell pt qt i c of Some v \<Rightarrow> Some v | None \<Rightarrow> map_of vb c)"
proof -
  obtain pt where p: "strings_to_text J (permission i) = Some (Some pt)" "pt \<noteq> []" "pt \<noteq> ''null''"
    "cj_parse J pt = Some (string_array (permission i))"
    by (rule strings_to_text_laws [OF assms])
  obtain qt where q: "strings_to_text J (accessiblePolicies i) = Some (Some qt)" "qt \<noteq> []" "qt \<noteq> ''null''"
    "cj_parse J qt = Some (string_array (accessiblePolicies i))"
    by (rule strings_to_text_laws [OF assms])
  have "map_of (CreateUpdateValuesBucket J u i vb) c =
      (case update_cell pt qt i c of Some v \<Rightarrow> Some v | None \<Rightarrow> map_of vb c)" for u vb c
    by (cases "c = ''ent_name''"; cases "c = ''ent_desc''"; cases "c = ''class_name''";
        cases "c = ''permissions''"; cases "c = ''accessible_policies''"; cases "c = ''running_mode''";
        simp add: CreateUpdateValuesBucket_def p(1) q(1) put_text_def Let_def bucket_lookup map_of_if update_cell_def)
  then show thesis by (rule that [OF p(2-4) q(2-4)])
qed

lemma matches_admin:
  assumes "admin_row_ok r"
  shows "row_matches (admin_predicates u p) r \<longleftrightarrow> r ''user_id'' = VInt u \<and> cell_str (r ''package_name'') = p"
  using assms by (auto simp: row_matches_def admin_predicates_def EqualTo_def Predicates_def
      cell_matches_def admin_row_ok_def cell_str_def)

lemma pr_table_admin [simp]: "pr_table (admin_predicates u p) = T_ADMIN"
  by (simp add: admin_predicates_def EqualTo_def Predicates_def)

definition new_row :: "cjson \<Rightarrow> user_id \<Rightarrow> admin_info \<Rightarrow> db_row" where
  "new_row J u i = overlay (CreateInsertValuesBucket J u i) (default_row T_ADMIN)"

lemma new_row_reads:
  assumes "cjson_laws J" "storable i"
  shows "admin_row_ok (new_row J u i)" "new_row J u i ''user_id'' = VInt u"
    "info_of_row J (new_row J u i) = persisted i"
proof -
  obtain pt qt where t: "pt \<noteq> []" "pt \<noteq> ''null''" "cj_parse J pt = Some (string_array (permission i))"
    "qt \<noteq> []" "qt \<noteq> ''null''" "cj_parse J qt = Some (string_array (accessiblePolicies i))"
    and vb: "\<And>u vb c. map_of (CreateUpdateValuesBucket J u i vb) c =
      (case update_cell pt qt i c of Some v \<Rightarrow> Some v | None \<Rightarrow> map_of vb c)"
    using CreateUpdateValuesBucket_laws [OF assms(1), of i] by blast
  let ?r = "new_row J u i"
  have cell: "?r c = (case map_of (CreateInsertValuesBucket J u i) c of Some v \<Rightarrow> v | None \<Rightarrow> default_row T_ADMIN c)" for c
    by (simp add: new_row_def overlay_def)
  have cells: "?r ''user_id'' = VInt u" "?r ''admin_type'' = VInt (admin_type_to_int (adminType i))"
    "?r ''package_name'' = VText (packageName i)" "?r ''class_name'' = VText (className i)"
    "?r ''ent_name'' = (if enterpriseName (entInfo i) \<noteq> [] then VText (enterpriseName (entInfo i)) else VNull)"
    "?r ''ent_desc'' = (if description (entInfo i) \<noteq> [] then VText (description (entInfo i)) else VNull)"
    "?r ''permissions'' = VText pt" "?r ''subscribe_events'' = VNull"
    "?r ''parent_admin'' = VText (parentAdminName i)" "?r ''is_debug'' = VInt (if isDebug i then 1 else 0)"
    "?r ''accessible_policies'' = (if adminType i = VIRTUAL_ADMIN then VText qt else VNull)"
    "?r ''running_mode'' = VInt (runningMode i)" "?r ''enable_source'' = VInt (enableSource i)"
    unfolding cell CreateInsertValuesBucket_def Let_def
    by (simp_all add: bucket_lookup vb update_cell_def default_row_def)
  show "admin_row_ok ?r" "?r ''user_id'' = VInt u"
    by (simp_all add: admin_row_ok_def cells)
  have lists: "text_list J (VText pt) = permission i" "text_list J (VText qt) = accessiblePolicies i"
    using text_list_print t assms(2) by (simp_all add: storable_def)
  show "info_of_row J ?r = persisted i"
    unfolding info_of_row_def cells persisted_def
    by (rule admin_info.equality; cases "entInfo i")
      (use assms(2) in \<open>simp_all add: lists admin_type_of_to_int storable_def\<close>)
qed

lemma InsertAdmin_stored:
  assumes "rdb_laws R view" "cjson_laws J" "storable i" "admins_typed view d" "InsertAdmin R J u i d = (ok, d')"
  shows "admins_typed view d'"
    "stored view J d' = (if ok then (stored view J d)(u := stored view J d u @ [persisted i]) else stored view J d)"
proof -
  note v = Rdb_Insert_view [OF assms(1) assms(5) [unfolded InsertAdmin_def], folded new_row_def]
  note n = new_row_reads [OF assms(2,3), of u]
  show "admins_typed view d'"
    using v assms(4) n(1) by (auto simp: admins_typed_def split: if_splits)
  show "stored view J d' = (if ok then (stored view J d)(u := stored view J d u @ [persisted i]) else stored view J d)"
    using v n by (auto simp: stored_def user_rows_def fun_eq_iff)
qed

lemma DeleteAdmin_stored:
  assumes "rdb_laws R view" "admins_typed view d" "Storage_DeleteAdmin R u p d = (ok, d')"
  shows "admins_typed view d'"
    "stored view J d' = (if ok then (stored view J d)(u := filter (\<lambda>i. packageName i \<noteq> p) (stored view J d u))
       else stored view J d)"
proof -
  note v = Rdb_Delete_view [OF assms(1) assms(3) [unfolded Storage_DeleteAdmin_def]]
  show "admins_typed view d'"
    using v assms(2) by (auto simp: admins_typed_def split: if_splits)
  have f: "filter (\<lambda>r. r ''user_id'' = VInt w) (filter (\<lambda>r. \<not> row_matches (admin_predicates u p) r) rows)
     = (if w = u then filter (\<lambda>r. cell_str (r ''package_name'') \<noteq> p) (user_rows u rows) else user_rows w rows)"
    if "\<forall>r \<in> set rows. admin_row_ok r" for rows w
    using that by (induction rows) (auto simp: user_rows_def matches_admin)
  show "stored view J d' = (if ok then (stored view J d)(u := filter (\<lambda>i. packageName i \<noteq> p) (stored view J d u))
       else stored view J d)"
    using v assms(2) f [of "db_view view d T_ADMIN"]
    by (auto simp: stored_def admins_typed_def fun_eq_iff filter_map o_def info_of_row_def user_rows_def)
qed

text \<open>An update of selected rows that leaves user and name alone maps over the user's list.\<close>

lemma update_stored:
  assumes "rdb_laws R view" "admins_typed view d" "Rdb_Update R vb (admin_predicates u p) d = (ok, d')"
    and keep: "\<And>r. admin_row_ok r \<Longrightarrow> admin_row_ok (overlay vb r) \<and> overlay vb r ''user_id'' = r ''user_id''
      \<and> info_of_row J (overlay vb r) = f (info_of_row J r)"
  shows "admins_typed view d'"
    "stored view J d' = (if ok then (stored view J d)(u := map (\<lambda>i. if packageName i = p then f i else i) (stored view J d u))
       else stored view J d)"
proof -
  note v = Rdb_Update_view [OF assms(1,3)]
  show "admins_typed view d'"
    using v assms(2) keep by (auto simp: admins_typed_def split: if_splits)
  have g: "user_rows w (map (\<lambda>r. if row_matches (admin_predicates u p) r then overlay vb r else r) rows)
     = map (\<lambda>r. if w = u \<and> cell_str (r ''package_name'') = p then overlay vb r else r) (user_rows w rows)"
    if "\<forall>r \<in> set rows. admin_row_ok r" for rows w
    using that keep by (induction rows) (auto simp: user_rows_def matches_admin)
  have "\<forall>r \<in> set (user_rows w (db_view view d T_ADMIN)). admin_row_ok r" for w
    using assms(2) by (auto simp: admins_typed_def user_rows_def)
  then have h: "map (info_of_row J) (map (\<lambda>r. if w = u \<and> cell_str (r ''package_name'') = p then overlay vb r else r)
       (user_rows w (db_view view d T_ADMIN)))
     = map (\<lambda>i. if w = u \<and> packageName i = p then f i else i) (stored view J d w)" for w
    using keep by (auto simp: stored_def info_of_row_def)
  show "stored view J d' = (if ok then (stored view J d)(u := map (\<lambda>i. if packageName i = p then f i else i) (stored view J d u))
       else stored view J d)"
  proof (cases ok)
    case True
    have "stored view J d' w = map (\<lambda>i. if w = u \<and> packageName i = p then f i else i) (stored view J d w)" for w
      using v True g [of "db_view view d T_ADMIN" w] h [of w] assms(2)
      by (simp add: stored_def admins_typed_def)
    with True show ?thesis by (auto simp: fun_eq_iff)
  next
    case False
    with v show ?thesis by (simp add: stored_def fun_eq_iff)
  qed
qed

text \<open>What \<open>UpdateAdmin\<close> of the storage keeps: name, description and class only when they are not
  empty, the running mode only when it is not the default, the accessible policies only of a
  virtual administrator.\<close>

definition persist_update :: "admin_info \<Rightarrow> admin_info \<Rightarrow> admin_info" where
  "persist_update new i = i\<lparr>
     entInfo := \<lparr> enterpriseName = (if enterpriseName (entInfo new) \<noteq> [] then enterpriseName (entInfo new)
                    else enterpriseName (entInfo i)),
                  description = (if description (entInfo new) \<noteq> [] then description (entInfo new)
                    else description (entInfo i)) \<rparr>,
     className := (if className new \<noteq> [] then className new else className i),
     permission := permission new,
     accessiblePolicies := (if adminType new = VIRTUAL_ADMIN then accessiblePolicies new else accessiblePolicies i),
     runningMode := (if runningMode new \<noteq> RUNNING_MODE_DEFAULT then runningMode new else runningMode i)\<rparr>"

lemma UpdateAdmin_stored:
  assumes "rdb_laws R view" "cjson_laws J" "length (permission i) \<le> DEFAULT_LOOP_MAX_SIZE"
    "length (accessiblePolicies i) \<le> DEFAULT_LOOP_MAX_SIZE"
    "admins_typed view d" "Storage_UpdateAdmin R J u i d = (ok, d')"
  shows "admins_typed view d'"
    "stored view J d' = (if ok then (stored view J d)(u :=
       map (\<lambda>j. if packageName j = packageName i then persist_update i j else j) (stored view J d u))
       else stored view J d)"
proof -
  obtain pt qt where t: "pt \<noteq> []" "pt \<noteq> ''null''" "cj_parse J pt = Some (string_array (permission i))"
    "qt \<noteq> []" "qt \<noteq> ''null''" "cj_parse J qt = Some (string_array (accessiblePolicies i))"
    and vb: "\<And>u vb c. map_of (CreateUpdateValuesBucket J u i vb) c =
      (case update_cell pt qt i c of Some v \<Rightarrow> Some v | None \<Rightarrow> map_of vb c)"
    using CreateUpdateValuesBucket_laws [OF assms(2), of i] by blast
  have cell: "overlay (CreateUpdateValuesBucket J u i []) r c
      = (case update_cell pt qt i c of Some v \<Rightarrow> v | None \<Rightarrow> r c)" for r c
    by (simp add: overlay_def vb split: option.splits)
  have lists: "text_list J (VText pt) = permission i" "text_list J (VText qt) = accessiblePolicies i"
    using text_list_print t assms(3,4) by simp_all
  have "admin_row_ok (overlay (CreateUpdateValuesBucket J u i []) r)
      \<and> overlay (CreateUpdateValuesBucket J u i []) r ''user_id'' = r ''user_id''
      \<and> info_of_row J (overlay (CreateUpdateValuesBucket J u i []) r) = persist_update i (info_of_row J r)"
    if "admin_row_ok r" for r
  proof (intro conjI)
    show "admin_row_ok (overlay (CreateUpdateValuesBucket J u i []) r)"
      using that unfolding admin_row_ok_def cell by (simp add: update_cell_def)
    show "overlay (CreateUpdateValuesBucket J u i []) r ''user_id'' = r ''user_id''"
      unfolding cell by (simp add: update_cell_def)
    show "info_of_row J (overlay (CreateUpdateValuesBucket J u i []) r) = persist_update i (info_of_row J r)"
      unfolding info_of_row_def cell persist_update_def
      by (rule admin_info.equality) (simp_all add: update_cell_def lists)
  qed
  from update_stored [OF assms(1,5) assms(6) [unfolded Storage_UpdateAdmin_def] this]
  show "admins_typed view d'"
    "stored view J d' = (if ok then (stored view J d)(u :=
       map (\<lambda>j. if packageName j = packageName i then persist_update i j else j) (stored view J d u))
       else stored view J d)"
    by simp_all
qed

lemma UpdateEntInfo_stored:
  assumes "rdb_laws R view" "admins_typed view d" "UpdateEntInfo R u p e d = (ok, d')"
  shows "admins_typed view d'"
    "stored view J d' = (if ok then (stored view J d)(u :=
       map (\<lambda>j. if packageName j = p then j\<lparr>entInfo := e\<rparr> else j) (stored view J d u)) else stored view J d)"
proof -
  let ?vb = "PutString ''ent_desc'' (description e) (PutString ''ent_name'' (enterpriseName e) [])"
  have cell: "overlay ?vb r c = (if c = ''ent_desc'' then VText (description e)
      else if c = ''ent_name'' then VText (enterpriseName e) else r c)" for r c
    by (simp add: overlay_def bucket_lookup)
  have "admin_row_ok (overlay ?vb r) \<and> overlay ?vb r ''user_id'' = r ''user_id''
      \<and> info_of_row J (overlay ?vb r) = (info_of_row J r)\<lparr>entInfo := e\<rparr>" if "admin_row_ok r" for r
    using that unfolding admin_row_ok_def info_of_row_def cell by (cases e) simp
  from update_stored [OF assms(1,2) assms(3) [unfolded UpdateEntInfo_def] this]
  show "admins_typed view d'"
    "stored view J d' = (if ok then (stored view J d)(u :=
       map (\<lambda>j. if packageName j = p then j\<lparr>entInfo := e\<rparr> else j) (stored view J d u)) else stored view J d)"
    by simp_all
qed

definition events_storable :: "managed_event list \<Rightarrow> bool" where
  "events_storable es = (list_all (\<lambda>e. int_range (uint e)) es \<and> length es \<le> DEFAULT_LOOP_MAX_SIZE)"

lemma map_filter_numbers:
  "list_all (\<lambda>e. int_range (uint e)) es \<Longrightarrow>
     List.map_filter (\<lambda>e. case e of JNumber n \<Rightarrow> Some (word_of_int (valueint n)) | _ \<Rightarrow> None) (map (JNumber \<circ> uint) es)
     = (es :: managed_event list)"
  by (induction es) (simp_all add: map_filter_simps valueint_in_range)

lemma UpdateManagedEvents_stored:
  assumes "rdb_laws R view" "cjson_laws J" "events_storable es" "admins_typed view d"
    "UpdateManagedEvents R J u p es d = (ok, d')"
  shows "admins_typed view d'"
    "stored view J d' = (if ok then (stored view J d)(u :=
       map (\<lambda>j. if packageName j = p then j\<lparr>managedEvents := es\<rparr> else j) (stored view J d u))
       else stored view J d)"
proof -
  have range: "list_all int_range (map uint es)"
    using assms(3) by (simp add: events_storable_def list_all_iff)
  obtain t where t: "cj_print J (number_array (map uint es)) = Some t"
    "cj_parse J t = Some (number_array (map uint es))" "t \<noteq> []" "t \<noteq> ''null''"
    by (rule cjson_print_numbers [OF assms(2) range])
  have js: "create_all (cj_create_number J) (map uint es) = Some (map JNumber (map uint es))"
    by (rule create_all_Some) (use range cjson_lawsD(3) [OF assms(2)] in \<open>auto simp: list_all_iff\<close>)
  let ?vb = "PutString ''subscribe_events'' t []"
  have upd: "Rdb_Update R ?vb (admin_predicates u p) d = (ok, d')"
    using assms(5) t(1) cjson_lawsD(1) [OF assms(2)] js
    by (simp add: UpdateManagedEvents_def number_array_def put_text_def)
  have cell: "overlay ?vb r c = (if c = ''subscribe_events'' then VText t else r c)" for r c
    by (simp add: overlay_def bucket_lookup)
  have ev: "event_list J (VText t) = es"
    using t assms(3) map_filter_numbers [of es]
    by (simp add: event_list_def cell_str_def number_array_def json_children_def events_storable_def)
  have "admin_row_ok (overlay ?vb r) \<and> overlay ?vb r ''user_id'' = r ''user_id''
      \<and> info_of_row J (overlay ?vb r) = (info_of_row J r)\<lparr>managedEvents := es\<rparr>" if "admin_row_ok r" for r
    using that unfolding admin_row_ok_def info_of_row_def cell by (simp add: ev)
  from update_stored [OF assms(1,4) upd this]
  show "admins_typed view d'"
    "stored view J d' = (if ok then (stored view J d)(u :=
       map (\<lambda>j. if packageName j = p then j\<lparr>managedEvents := es\<rparr> else j) (stored view J d u))
       else stored view J d)"
    by simp_all
qed

text \<open>Reading everything: per user the same administrators, in an order that is not promised.\<close>

lemma read_admin_rows_lookup:
  "map_of (read_admin_rows R J rows m) u =
    (let items = map (\<lambda>row. SetAdminItems R J row AdminInfo0) (filter (\<lambda>row. rs_int R (row ! 1) = u) rows) in
     case map_of m u of Some is \<Rightarrow> Some (is @ items)
     | None \<Rightarrow> if items = [] then None else Some items)"
  by (induction rows arbitrary: m) (auto simp: Let_def split: option.splits)

lemma read_admin_rows_distinct:
  "al_keys_distinct m \<Longrightarrow> al_keys_distinct (read_admin_rows R J rows m)"
  by (induction rows arbitrary: m) (auto simp: Let_def split: option.splits)

definition items_of :: "(user_id, admin_info list) amap \<Rightarrow> user_id \<Rightarrow> admin_info list" where
  "items_of m u = (case map_of m u of None \<Rightarrow> [] | Some is \<Rightarrow> is)"

lemma QueryAllAdmin_result:
  assumes "rdb_laws R view" "admins_typed view d" "QueryAllAdmin R J d = (m, d')"
  shows "db_view view d' = db_view view d" "al_keys_distinct m"
    "fst (Rdb_Query R (Predicates T_ADMIN) [] d) \<noteq> None \<Longrightarrow> mset (items_of m u) = mset (stored view J d u)"
proof -
  obtain rs d1 where q: "Rdb_Query R (Predicates T_ADMIN) [] d = (rs, d1)" by (rule prod.exhaust)
  show "db_view view d' = db_view view d"
    using assms(3) Rdb_Query_view(1) [OF assms(1) q] by (auto simp: QueryAllAdmin_def q split: option.splits)
  show "al_keys_distinct m"
    using assms(3) by (auto simp: QueryAllAdmin_def q read_admin_rows_distinct split: option.splits)
  assume "fst (Rdb_Query R (Predicates T_ADMIN) [] d) \<noteq> None"
  then obtain rows where rows: "rs = Some rows" by (auto simp: q)
  have m: "m = read_admin_rows R J rows []" using assms(3) by (simp add: QueryAllAdmin_def q rows)
  let ?tab = "db_view view d T_ADMIN"
  have all: "filter (row_matches (Predicates T_ADMIN)) ?tab = ?tab"
    by (simp add: row_matches_def Predicates_def)
  have "mset (map tl rows) = mset (map (\<lambda>r. map r (columns_of T_ADMIN)) ?tab)"
    using Rdb_Query_view(2) [OF assms(1) q rows] by (simp add: all del: filter_True) (simp add: Predicates_def row_matches_def)
  then obtain rs' where rs': "map tl rows = map (\<lambda>r. map r (columns_of T_ADMIN)) rs'" "mset rs' = mset ?tab"
    using mset_map_preimage by blast
  have typed: "\<forall>r \<in> set rs'. admin_row_ok r"
    using assms(2) mset_eq_setD [OF rs'(2)] by (simp add: admins_typed_def)
  have "map (\<lambda>row. SetAdminItems R J row AdminInfo0) (filter (\<lambda>row. rs_int R (row ! 1) = u) rows)
      = map (info_of_row J) (user_rows u rs')"
    using rs'(1) typed
  proof (induction rs' arbitrary: rows)
    case (Cons r rs')
    then obtain row rest where rows: "rows = row # rest" "tl row = map r (columns_of T_ADMIN)"
      "map tl rest = map (\<lambda>r. map r (columns_of T_ADMIN)) rs'" by (cases rows) auto
    then obtain x where row: "row = x # map r (columns_of T_ADMIN)"
      by (cases row) (auto simp: columns_of_def)
    obtain w where w: "r ''user_id'' = VInt w" using Cons.prems(2) by (auto simp: admin_row_ok_def)
    have "row ! 1 = VInt w" by (simp add: row columns_of_def w)
    then have "rs_int R (row ! 1) = w" using rdb_lawsD(7) [OF assms(1)] by simp
    moreover have "SetAdminItems R J row AdminInfo0 = info_of_row J r"
      unfolding row by (rule SetAdminItems_row [OF assms(1)]) (use Cons.prems(2) in simp)
    ultimately show ?case
      using Cons.IH [OF rows(3)] Cons.prems(2) by (simp add: rows(1) user_rows_def w)
  qed (simp add: user_rows_def)
  then have "items_of m u = map (info_of_row J) (user_rows u rs')"
    by (auto simp: items_of_def m read_admin_rows_lookup Let_def)
  moreover have "mset (user_rows u rs') = mset (user_rows u ?tab)"
    using rs'(2) by (simp add: user_rows_def)
  ultimately show "mset (items_of m u) = mset (stored view J d u)"
    by (simp add: stored_def)
qed

end
