(* ===== verification/Admin_Manager.thy ===== *)
theory Admin_Manager
  imports Admin_Container Admin_Policies_Storage
begin

unbundle bit_operations_syntax

text \<open>
  \<open>services/edm/src/admin_manager.cpp\<close>: the table of administrators in memory together with the
  database. The observers of the manager are told of every addition and removal; the
  notifications are the trace \<open>notices\<close>, one entry per event (every registered observer gets it).
\<close>

subsection \<open>State\<close>

datatype admin_notice = AdminAdd string user_id bool | AdminRemove string user_id admin_type

record 's admin_mgr =
  adminTable :: container
  db :: "'s edm_db"
  notices :: "admin_notice list"

definition notify :: "admin_notice list \<Rightarrow> 's admin_mgr \<Rightarrow> 's admin_mgr" where
  "notify ns s = s\<lparr>notices := notices s @ ns\<rparr>"

subsection \<open>Queries on the container\<close>

definition GetAdminByUserId :: "user_id \<Rightarrow> container \<Rightarrow> bool \<times> admin list" where
  "GetAdminByUserId userId c = GetAdminCopyByUserId userId c"

definition GetAdminBySubscribeEvent :: "managed_event \<Rightarrow> (user_id, admin list) amap \<Rightarrow> container
    \<Rightarrow> (user_id, admin list) amap" where
  "GetAdminBySubscribeEvent event subscribeAdmins c = GetAdminCopyBySubscribeEvent event c subscribeAdmins"

definition GetAllAdmins :: "(user_id, admin list) amap \<Rightarrow> container \<Rightarrow> (user_id, admin list) amap" where
  "GetAllAdmins allAdmins c = Container_GetAllAdmins c allAdmins"

definition GetAllowedAcrossAccountSetPolicyAdmin :: "string \<Rightarrow> container \<Rightarrow> err_code \<times> admin option" where
  "GetAllowedAcrossAccountSetPolicyAdmin subAdminName c =
     (let (found, userAdmin) = GetAdminByUserId DEFAULT_USER_ID c in
      if \<not> found then (ERR_EDM_SUPER_ADMIN_NOT_FOUND, None)
      else (case find (\<lambda>a. packageName (adminInfo a) = subAdminName \<and> IsAllowedAcrossAccountSetPolicy a) userAdmin of
              None \<Rightarrow> (ERR_EDM_SUPER_ADMIN_NOT_FOUND, None)
            | Some a \<Rightarrow> (ERR_OK, Some a)))"

definition GetAdminByPkgName :: "string \<Rightarrow> user_id \<Rightarrow> container \<Rightarrow> admin option" where
  "GetAdminByPkgName pkg userId c =
     (let (err, across) = GetAllowedAcrossAccountSetPolicyAdmin pkg c in
      if userId \<noteq> DEFAULT_USER_ID \<and> SUCCEEDED err then across
      else (let (found, userAdmin) = GetAdminByUserId userId c in
            if \<not> found then None
            else find (\<lambda>a. packageName (adminInfo a) = pkg) userAdmin))"

definition IsSuperAdminExist :: "container \<Rightarrow> bool" where
  "IsSuperAdminExist c =
     (let (ret, userAdmin) = GetAdminByUserId DEFAULT_USER_ID c in
      if \<not> ret then False
      else list_ex (\<lambda>a. adminType (adminInfo a) = ENT \<and> \<not> isDebug (adminInfo a)) userAdmin)"

definition IsByodAdminExist :: "container \<Rightarrow> bool" where
  "IsByodAdminExist c =
     (let (ret, userAdmin) = GetAdminByUserId DEFAULT_USER_ID c in
      if \<not> ret then False else list_ex (\<lambda>a. adminType (adminInfo a) = BYOD) userAdmin)"

definition IsSuperAdmin :: "string \<Rightarrow> container \<Rightarrow> bool" where
  "IsSuperAdmin bundleName c =
     (case GetAdminByPkgName bundleName DEFAULT_USER_ID c of
        None \<Rightarrow> False | Some a \<Rightarrow> adminType (adminInfo a) = ENT)"

definition IsAdminExist :: "container \<Rightarrow> bool" where
  "IsAdminExist c = Container_IsAdminExist c"

definition IsByodAdmin :: "string \<Rightarrow> user_id \<Rightarrow> container \<Rightarrow> bool" where
  "IsByodAdmin bundleName userId c =
     (case GetAdminByPkgName bundleName userId c of
        None \<Rightarrow> False | Some a \<Rightarrow> adminType (adminInfo a) = BYOD)"

definition IsSuperOrSubSuperAdmin :: "string \<Rightarrow> container \<Rightarrow> bool" where
  "IsSuperOrSubSuperAdmin bundleName c =
     (case GetAdminByPkgName bundleName DEFAULT_USER_ID c of
        None \<Rightarrow> False
      | Some a \<Rightarrow> adminType (adminInfo a) = ENT \<or> adminType (adminInfo a) = SUB_SUPER_ADMIN)"

definition GetEnabledAdmin :: "admin_type \<Rightarrow> user_id \<Rightarrow> container \<Rightarrow> string list" where
  "GetEnabledAdmin role userId c =
     (let (ret, userAdmin) = GetAdminByUserId userId c in
      if \<not> ret then []
      else if admin_type_to_int role > admin_type_to_int BYOD
        \<or> admin_type_to_int role < admin_type_to_int NORMAL then []
      else map (\<lambda>a. packageName (adminInfo a) @ ''/'' @ className (adminInfo a))
             (filter (\<lambda>a. adminType (adminInfo a) = role) userAdmin))"

definition GetAdmins :: "admin list \<Rightarrow> user_id \<Rightarrow> container \<Rightarrow> admin list" where
  "GetAdmins admins currentUserId c =
     (let defaultUserAdmins = snd (GetAdminByUserId DEFAULT_USER_ID c) in
      if currentUserId = DEFAULT_USER_ID then
        admins @ filter (\<lambda>a. adminType (adminInfo a) = ENT \<or> adminType (adminInfo a) = BYOD
          \<or> adminType (adminInfo a) = NORMAL) defaultUserAdmins
      else
        (let currentUserAdmins = snd (GetAdminByUserId currentUserId c) in
         admins @ filter (\<lambda>a. adminType (adminInfo a) = ENT \<or> adminType (adminInfo a) = NORMAL) defaultUserAdmins
           @ filter (\<lambda>a. adminType (adminInfo a) = BYOD) currentUserAdmins))"

definition GetAdminPackageNames :: "string list \<Rightarrow> user_id \<Rightarrow> container \<Rightarrow> string list" where
  "GetAdminPackageNames names currentUserId c =
     names @ map (\<lambda>a. packageName (adminInfo a)) (GetAdmins [] currentUserId c)"

definition GetDisallowedCrossAccountAdmins :: "user_id \<Rightarrow> container \<Rightarrow> string list" where
  "GetDisallowedCrossAccountAdmins userId c =
     map (\<lambda>a. packageName (adminInfo a))
       (filter (\<lambda>a. \<not> IsAllowedAcrossAccountSetPolicy a) (snd (GetAdminByUserId userId c)))"

definition GetSubSuperAdmins :: "user_id \<Rightarrow> container \<Rightarrow> admin list" where
  "GetSubSuperAdmins userId c =
     (let (found, userAdmin) = GetAdminByUserId userId c in
      if \<not> found then [] else filter (\<lambda>a. GetAdminType a = SUB_SUPER_ADMIN) userAdmin)"

definition GetSubSuperAdminsByParentName :: "string \<Rightarrow> container \<Rightarrow> err_code \<times> string list" where
  "GetSubSuperAdminsByParentName parentName c =
     (let (found, userAdmin) = GetAdminByUserId DEFAULT_USER_ID c in
      if \<not> found then (ERR_EDM_SUPER_ADMIN_NOT_FOUND, [])
      else (ERR_OK, map (\<lambda>a. packageName (adminInfo a))
        (filter (\<lambda>a. (GetAdminType a = SUB_SUPER_ADMIN \<or> GetAdminType a = VIRTUAL_ADMIN)
           \<and> GetParentAdminName a = parentName) userAdmin)))"

definition GetPoliciesByVirtualAdmin :: "string \<Rightarrow> string \<Rightarrow> container \<Rightarrow> err_code \<times> string list" where
  "GetPoliciesByVirtualAdmin bundleName parentName c =
     (case GetAdminByPkgName bundleName DEFAULT_USER_ID c of
        None \<Rightarrow> (PARAM_ERROR, [])
      | Some virtualAdmin \<Rightarrow>
          (if GetAdminType virtualAdmin \<noteq> VIRTUAL_ADMIN \<or> GetParentAdminName virtualAdmin \<noteq> parentName
           then (ADMIN_EDM_PERMISSION_DENIED, [])
           else (ERR_OK, accessiblePolicies (adminInfo virtualAdmin))))"

definition GetVirtualAdminsByPolicy :: "string \<Rightarrow> string \<Rightarrow> container \<Rightarrow> string list" where
  "GetVirtualAdminsByPolicy policyName parentName c =
     map (\<lambda>a. packageName (adminInfo a))
       (filter (\<lambda>a. \<not> (GetAdminType a \<noteq> VIRTUAL_ADMIN \<or> GetParentAdminName a \<noteq> parentName)
          \<and> policyName \<in> set (accessiblePolicies (adminInfo a)))
        (snd (GetAdminByUserId DEFAULT_USER_ID c)))"

definition GetSuperAdmin :: "container \<Rightarrow> admin option" where
  "GetSuperAdmin c =
     (let (found, userAdmin) = GetAdminCopyByUserId DEFAULT_USER_ID c in
      if found then find (\<lambda>a. GetAdminType a = ENT) userAdmin else None)"

definition GetAdminTypeByName :: "string \<Rightarrow> user_id \<Rightarrow> container \<Rightarrow> admin_type" where
  "GetAdminTypeByName bundleName userId c =
     (case GetAdminByPkgName bundleName userId c of
        None \<Rightarrow> ADMIN_TYPE_UNKNOWN | Some a \<Rightarrow> adminType (adminInfo a))"

definition IsExistTargetAdminOfUser :: "bool \<Rightarrow> user_id \<Rightarrow> container \<Rightarrow> bool" where
  "IsExistTargetAdminOfUser debug userId c =
     (let admins = snd (GetAdminByUserId DEFAULT_USER_ID c) in
      if userId = DEFAULT_USER_ID then list_ex (\<lambda>a. isDebug (adminInfo a) = debug) admins
      else if list_ex (\<lambda>a. IsAllowedAcrossAccountSetPolicy a \<and> isDebug (adminInfo a) = debug) admins then True
      else (let admins = snd (GetAdminByUserId userId c) in
            list_ex (\<lambda>a. isDebug (adminInfo a) = debug) admins))"

subsection \<open>Updates of memory and database\<close>

definition Mgr_UpdateAdmin :: "'s rdb \<Rightarrow> cjson \<Rightarrow> user_id \<Rightarrow> admin_info \<Rightarrow> u32 \<Rightarrow> 's admin_mgr
    \<Rightarrow> err_code \<times> 's admin_mgr" where
  "Mgr_UpdateAdmin R J userId adminItem code s =
     (let (inst, d) = AdminPolicies_GetInstance R (db s); s = s\<lparr>db := d\<rparr> in
      if \<not> inst then (ERR_GET_STORAGE_RDB_FAILED, s)
      else (let (ok, d) = Storage_UpdateAdmin R J userId adminItem (db s); s = s\<lparr>db := d\<rparr> in
            if \<not> ok then (SYSTEM_ABNORMALLY, s)
            else (ERR_OK, s\<lparr>adminTable := Container_UpdateAdmin userId (packageName adminItem) code adminItem (adminTable s)\<rparr>)))"

definition SetAdminValue_code :: u32 where
  "SetAdminValue_code = UC_CLASS_NAME OR UC_ENT_INFO OR UC_PERMISSION OR UC_ACCESSIBLE_POLICIES OR UC_RUNNING_MODE"

definition SetAdminValue :: "'s rdb \<Rightarrow> cjson \<Rightarrow> user_id \<Rightarrow> admin_info \<Rightarrow> 's admin_mgr \<Rightarrow> err_code \<times> 's admin_mgr" where
  "SetAdminValue R J userId adminItem s =
     (if GetAdminByPkgName (packageName adminItem) userId (adminTable s) \<noteq> None
      then Mgr_UpdateAdmin R J userId adminItem SetAdminValue_code s
      else
        (let (inst, d) = AdminPolicies_GetInstance R (db s); s = s\<lparr>db := d\<rparr> in
         if \<not> inst then (ERR_GET_STORAGE_RDB_FAILED, s)
         else (let (ok, d) = InsertAdmin R J userId adminItem (db s); s = s\<lparr>db := d\<rparr> in
               if \<not> ok then (SYSTEM_ABNORMALLY, s)
               else (ERR_OK, notify [AdminAdd (packageName adminItem) userId (isDebug adminItem)]
                       (s\<lparr>adminTable := SetAdminByUserId userId adminItem (adminTable s)\<rparr>)))))"

definition Mgr_DeleteAdmin :: "'s rdb \<Rightarrow> string \<Rightarrow> user_id \<Rightarrow> admin_type \<Rightarrow> 's admin_mgr \<Rightarrow> err_code \<times> 's admin_mgr" where
  "Mgr_DeleteAdmin R pkg userId type s =
     (if \<not> HasAdmin userId (adminTable s) then (ERR_EDM_UNKNOWN_ADMIN, s)
      else
        (let (inst, d) = AdminPolicies_GetInstance R (db s); s = s\<lparr>db := d\<rparr> in
         if \<not> inst then (ERR_GET_STORAGE_RDB_FAILED, s)
         else (let (ok, d) = Storage_DeleteAdmin R userId pkg (db s); s = s\<lparr>db := d\<rparr> in
               if \<not> ok then (ERR_EDM_DEL_ADMIN_FAILED, s)
               else (ERR_OK, notify [AdminRemove pkg userId type]
                       (s\<lparr>adminTable := snd (Container_DeleteAdmin pkg userId (adminTable s))\<rparr>)))))"

definition UpdateAdminPermission :: "'s rdb \<Rightarrow> cjson \<Rightarrow> string \<Rightarrow> user_id \<Rightarrow> string list \<Rightarrow> 's admin_mgr
    \<Rightarrow> err_code \<times> 's admin_mgr" where
  "UpdateAdminPermission R J bundleName userId permissionList s =
     Mgr_UpdateAdmin R J userId (AdminInfo0\<lparr>packageName := bundleName, permission := permissionList\<rparr>) UC_PERMISSION s"

fun update_parents :: "'s rdb \<Rightarrow> string list \<Rightarrow> string \<Rightarrow> string \<Rightarrow> 's edm_db \<Rightarrow> bool \<times> 's edm_db" where
  "update_parents R [] pkg newName d = (True, d)"
| "update_parents R (sub # subs) pkg newName d =
     (let (ok, d) = UpdateParentName R sub pkg newName d in
      if \<not> ok then (False, d) else update_parents R subs pkg newName d)"

definition ReplaceSuperAdminByPackageName :: "'s rdb \<Rightarrow> cjson \<Rightarrow> string \<Rightarrow> admin_info \<Rightarrow> 's admin_mgr
    \<Rightarrow> err_code \<times> 's admin_mgr" where
  "ReplaceSuperAdminByPackageName R J pkg newAdminInfo s =
     (let (inst, d) = AdminPolicies_GetInstance R (db s); s = s\<lparr>db := d\<rparr> in
      if \<not> inst then (ERR_GET_STORAGE_RDB_FAILED, s)
      else
        (let subAdmins = snd (GetSubSuperAdminsByParentName pkg (adminTable s));
             (ok, d) = update_parents R subAdmins pkg (packageName newAdminInfo) (db s); s = s\<lparr>db := d\<rparr>
         in if \<not> ok then (ERR_SET_PARENT_ADMIN_FAILED, s)
            else
              (let (ok, d) = ReplaceAdmin R J pkg DEFAULT_USER_ID newAdminInfo (db s); s = s\<lparr>db := d\<rparr> in
               if \<not> ok then (SYSTEM_ABNORMALLY, s)
               else
                 (let c = Container_UpdateAdmin DEFAULT_USER_ID pkg
                            (UC_PACKAGE_NAME OR UC_CLASS_NAME OR UC_ENABLE_SOURCE) newAdminInfo (adminTable s);
                      c = UpdateParentAdminName DEFAULT_USER_ID pkg (packageName newAdminInfo) c
                  in (ERR_OK, notify [AdminAdd (packageName newAdminInfo) DEFAULT_USER_ID False,
                                      AdminRemove pkg DEFAULT_USER_ID ENT] (s\<lparr>adminTable := c\<rparr>))))))"

definition Mgr_SetEntInfo :: "'s rdb \<Rightarrow> admin \<Rightarrow> ent_info \<Rightarrow> user_id \<Rightarrow> 's admin_mgr \<Rightarrow> err_code \<times> 's admin_mgr" where
  "Mgr_SetEntInfo R admin ent userId s =
     (let (inst, d) = AdminPolicies_GetInstance R (db s); s = s\<lparr>db := d\<rparr> in
      if \<not> inst then (ERR_GET_STORAGE_RDB_FAILED, s)
      else (let (ok, d) = UpdateEntInfo R userId (packageName (adminInfo admin)) ent (db s); s = s\<lparr>db := d\<rparr> in
            if ok then (ERR_OK, s\<lparr>adminTable := Container_UpdateAdmin userId (packageName (adminInfo admin)) UC_ENT_INFO
                          (AdminInfo0\<lparr>entInfo := ent\<rparr>) (adminTable s)\<rparr>)
            else (ERR_EDM_UNKNOWN_ADMIN, s)))"

fun add_events :: "u32 list \<Rightarrow> managed_event list \<Rightarrow> managed_event list" where
  "add_events [] managed = managed"
| "add_events (e # es) managed = add_events es (if e \<in> set managed then managed else managed @ [e])"

definition SaveSubscribeEvents :: "'s rdb \<Rightarrow> cjson \<Rightarrow> u32 list \<Rightarrow> string \<Rightarrow> user_id \<Rightarrow> 's admin_mgr
    \<Rightarrow> err_code \<times> 's admin_mgr" where
  "SaveSubscribeEvents R J events bundleName userId s =
     (case GetAdminByPkgName bundleName userId (adminTable s) of
        None \<Rightarrow> (ERR_EDM_UNKNOWN_ADMIN, s)
      | Some admin \<Rightarrow>
          (let (inst, d) = AdminPolicies_GetInstance R (db s); s = s\<lparr>db := d\<rparr> in
           if \<not> inst then (ERR_GET_STORAGE_RDB_FAILED, s)
           else
             (let info = adminInfo admin;
                  eventsNumber = length (managedEvents info);
                  info' = info\<lparr>managedEvents := add_events events (managedEvents info)\<rparr>;
                  (ok, d) = (if length (managedEvents info') > eventsNumber
                             then UpdateManagedEvents R J userId (packageName info') (managedEvents info') (db s)
                             else (True, db s));
                  s = s\<lparr>db := d\<rparr>
              in if \<not> ok then (ERR_EDM_UNKNOWN_ADMIN, s)
                 else (ERR_OK, s\<lparr>adminTable := Container_UpdateAdmin userId (packageName info') UC_MANAGED_EVENTS
                        info' (adminTable s)\<rparr>))))"

definition RemoveSubscribeEvents :: "'s rdb \<Rightarrow> cjson \<Rightarrow> u32 list \<Rightarrow> string \<Rightarrow> user_id \<Rightarrow> 's admin_mgr
    \<Rightarrow> err_code \<times> 's admin_mgr" where
  "RemoveSubscribeEvents R J events bundleName userId s =
     (case GetAdminByPkgName bundleName userId (adminTable s) of
        None \<Rightarrow> (ERR_EDM_UNKNOWN_ADMIN, s)
      | Some admin \<Rightarrow>
          (let (inst, d) = AdminPolicies_GetInstance R (db s); s = s\<lparr>db := d\<rparr> in
           if \<not> inst then (ERR_GET_STORAGE_RDB_FAILED, s)
           else
             (let info = adminInfo admin;
                  eventsNumber = length (managedEvents info);
                  info' = info\<lparr>managedEvents := filter (\<lambda>e. e \<notin> set events) (managedEvents info)\<rparr>;
                  (ok, d) = (if length (managedEvents info') < eventsNumber
                             then UpdateManagedEvents R J userId (packageName info') (managedEvents info') (db s)
                             else (True, db s));
                  s = s\<lparr>db := d\<rparr>
              in if \<not> ok then (ERR_EDM_UNKNOWN_ADMIN, s)
                 else (ERR_OK, s\<lparr>adminTable := Container_UpdateAdmin userId (packageName info') UC_MANAGED_EVENTS
                        info' (adminTable s)\<rparr>))))"

definition Mgr_Init :: "'s rdb \<Rightarrow> cjson \<Rightarrow> 's admin_mgr \<Rightarrow> 's admin_mgr" where
  "Mgr_Init R J s =
     (let (inst, d) = AdminPolicies_GetInstance R (db s); s = s\<lparr>db := d\<rparr> in
      if inst then (let (m, d) = QueryAllAdmin R J (db s)
                    in s\<lparr>db := d, adminTable := InitAdmins m (adminTable s)\<rparr>)
      else s)"


text \<open>The remaining wrappers of the container.\<close>

definition Mgr_ClearAdmins :: "'s admin_mgr \<Rightarrow> 's admin_mgr" where
  "Mgr_ClearAdmins s = s\<lparr>adminTable := ClearAdmins (adminTable s)\<rparr>"

definition Mgr_InsertAdmins :: "user_id \<Rightarrow> admin list \<Rightarrow> 's admin_mgr \<Rightarrow> 's admin_mgr" where
  "Mgr_InsertAdmins userId as s = s\<lparr>adminTable := InsertAdmins userId as (adminTable s)\<rparr>"

definition Mgr_IsExistTargetAdmin :: "bool \<Rightarrow> container \<Rightarrow> bool" where
  "Mgr_IsExistTargetAdmin debug c = IsExistTargetAdmin debug c"

definition Mgr_GetSuperDeviceAdminAndDeviceAdminCount :: "container \<Rightarrow> int" where
  "Mgr_GetSuperDeviceAdminAndDeviceAdminCount c = GetSuperDeviceAdminAndDeviceAdminCount c"

end
