(* ===== verification/Admin_Agreement.thy ===== *)
theory Admin_Agreement
  imports Admin_Manager
begin

unbundle bit_operations_syntax

text \<open>
  The administrators in memory against the rows of the database. \<open>mgr_ok\<close> says that a restart would
  bring back exactly the administrators that the getters show now; every operation of
  \<open>admin_manager.cpp\<close> is checked against it, its failures included.
\<close>

subsection \<open>Memory against database\<close>

text \<open>The administrators of a user that the service would have after a restart: the rows of the
  user, each turned into an object by \<open>CreateAdmin\<close>.\<close>

definition reload :: "('s \<Rightarrow> string \<Rightarrow> db_row list) \<Rightarrow> cjson \<Rightarrow> 's edm_db \<Rightarrow> user_id \<Rightarrow> admin list" where
  "reload view J d u = List.map_filter CreateAdmin (stored view J d u)"

definition visible :: "container \<Rightarrow> user_id \<Rightarrow> admin list" where
  "visible c u = snd (GetAdminCopyByUserId u c)"

definition mgr_ok :: "('s \<Rightarrow> string \<Rightarrow> db_row list) \<Rightarrow> cjson \<Rightarrow> 's admin_mgr \<Rightarrow> bool" where
  "mgr_ok view J s = (container_wf (adminTable s) \<and> admins_typed view (db s)
     \<and> (\<forall>u. distinct (adm.names (adminTable s) u))
     \<and> (\<forall>u. mset (visible (adminTable s) u) = mset (reload view J (db s) u)))"

lemma visible_copies: "container_wf c \<Longrightarrow> visible c u = map copy_admin (admins_of c u)"
  by (simp add: visible_def copies_of)

lemma mgr_okD:
  assumes "mgr_ok view J s"
  shows "container_wf (adminTable s)" "admins_typed view (db s)" "distinct (adm.names (adminTable s) u)"
    "mset (map copy_admin (admins_of (adminTable s) u)) = mset (reload view J (db s) u)"
  using assms visible_copies by (auto simp: mgr_ok_def)

lemma mgr_okI:
  assumes "container_wf (adminTable s)" "admins_typed view (db s)" "\<And>u. distinct (adm.names (adminTable s) u)"
    "\<And>u. mset (map copy_admin (admins_of (adminTable s) u)) = mset (reload view J (db s) u)"
  shows "mgr_ok view J s"
  using assms visible_copies by (auto simp: mgr_ok_def)

lemma mgr_ok_notify [simp]: "mgr_ok view J (notify ns s) = mgr_ok view J s"
  by (simp add: mgr_ok_def notify_def)

text \<open>Opening the table changes neither rows nor memory.\<close>

lemma AdminPolicies_GetInstance_view:
  assumes "rdb_laws R view" "AdminPolicies_GetInstance R d = (ok, d')"
  shows "db_view view d' = db_view view d"
proof -
  have sql: "take 27 admin_policies_sql = ''CREATE TABLE IF NOT EXISTS ''"
    by (simp add: admin_policies_sql_def)
  obtain o1 d1 where c: "CreateAdminPoliciesTable R d = (o1, d1)" by (rule prod.exhaust)
  have "db_view view d1 = db_view view d"
    using CreateTable_view [OF assms(1) sql] c by (simp add: CreateAdminPoliciesTable_def)
  then show ?thesis
    using assms(2) by (auto simp: AdminPolicies_GetInstance_def c db_view_def split: if_splits)
qed

lemma mgr_ok_same_view:
  assumes "mgr_ok view J s" "db_view view d = db_view view (db s)"
  shows "mgr_ok view J (s\<lparr>db := d\<rparr>)"
  using assms by (simp add: mgr_ok_def admins_typed_def reload_def stored_def)

lemma mgr_ok_same_stored:
  assumes "mgr_ok view J s" "admins_typed view d" "stored view J d = stored view J (db s)"
  shows "mgr_ok view J (s\<lparr>db := d\<rparr>)"
  using assms by (simp add: mgr_ok_def reload_def)

text \<open>Rewriting the administrators named \<open>p\<close> on both sides: \<open>f\<close> in the rows, \<open>g\<close> in memory.\<close>

lemma reload_rewrite:
  assumes agree: "mset (map copy_admin as) = mset (List.map_filter CreateAdmin is)"
    and F: "\<And>i. CreateAdmin (f i) = map_option (\<lambda>b. copy_admin (b\<lparr>adminInfo := f (adminInfo b)\<rparr>)) (CreateAdmin i)"
    and G: "\<And>a. a \<in> set as \<Longrightarrow> packageName (adminInfo a) = p \<Longrightarrow>
      copy_admin (copy_admin a\<lparr>adminInfo := f (adminInfo (copy_admin a))\<rparr>) = copy_admin (a\<lparr>adminInfo := g (adminInfo a)\<rparr>)"
  shows "mset (map copy_admin (map (\<lambda>a. if packageName (adminInfo a) = p then a\<lparr>adminInfo := g (adminInfo a)\<rparr> else a) as))
    = mset (List.map_filter CreateAdmin (map (\<lambda>i. if packageName i = p then f i else i) is))"
proof -
  let ?K = "\<lambda>b. if packageName (adminInfo b) = p then copy_admin (b\<lparr>adminInfo := f (adminInfo b)\<rparr>) else b"
  have "List.map_filter CreateAdmin (map (\<lambda>i. if packageName i = p then f i else i) is)
      = map ?K (List.map_filter CreateAdmin is)"
  proof (induction "is")
    case (Cons i "is")
    then show ?case
      using CreateAdmin_fields [of i] by (cases "CreateAdmin i") (simp_all add: map_filter_simps F)
  qed (simp add: map_filter_simps)
  moreover have "map copy_admin (map (\<lambda>a. if packageName (adminInfo a) = p
        then a\<lparr>adminInfo := g (adminInfo a)\<rparr> else a) as) = map ?K (map copy_admin as)"
    using G by simp
  ultimately show ?thesis by (simp only: mset_map [of ?K] agree)
qed

lemma reload_remove:
  assumes "mset (map copy_admin as) = mset (List.map_filter CreateAdmin is)"
  shows "mset (map copy_admin (filter (\<lambda>a. packageName (adminInfo a) \<noteq> p) as))
    = mset (List.map_filter CreateAdmin (filter (\<lambda>i. packageName i \<noteq> p) is))"
proof -
  have "List.map_filter CreateAdmin (filter (\<lambda>i. packageName i \<noteq> p) is)
      = filter (\<lambda>b. packageName (adminInfo b) \<noteq> p) (List.map_filter CreateAdmin is)"
  proof (induction "is")
    case (Cons i "is")
    then show ?case
      using CreateAdmin_fields [of i] by (cases "CreateAdmin i") (simp_all add: map_filter_simps)
  qed (simp add: map_filter_simps)
  moreover have "map copy_admin (filter (\<lambda>a. packageName (adminInfo a) \<noteq> p) as)
      = filter (\<lambda>b. packageName (adminInfo b) \<noteq> p) (map copy_admin as)"
    by (simp add: filter_map o_def)
  ultimately show ?thesis by (simp only: mset_filter assms)
qed

text \<open>An update of the named administrators on both sides keeps the agreement; when the statement
  fails, memory is left alone.\<close>

lemma mgr_ok_rewrite:
  assumes ok: "mgr_ok view J s" and typed: "admins_typed view d"
    and st: "stored view J d = (stored view J (db s))(u :=
      map (\<lambda>j. if packageName j = p then f j else j) (stored view J (db s) u))"
    and F: "\<And>i. CreateAdmin (f i) = map_option (\<lambda>b. copy_admin (b\<lparr>adminInfo := f (adminInfo b)\<rparr>)) (CreateAdmin i)"
    and G: "\<And>a. a \<in> set (admins_of (adminTable s) u) \<Longrightarrow> packageName (adminInfo a) = p \<Longrightarrow>
      copy_admin (copy_admin a\<lparr>adminInfo := f (adminInfo (copy_admin a))\<rparr>)
        = copy_admin (a\<lparr>adminInfo := update_info code new (adminInfo a)\<rparr>)"
    and code: "\<not> uc_has code UC_PACKAGE_NAME" "\<not> uc_has code UC_ADMIN_TYPE"
  shows "mgr_ok view J (s\<lparr>db := d, adminTable := Container_UpdateAdmin u p code new (adminTable s)\<rparr>)"
proof (rule mgr_okI)
  note wf = mgr_okD(1) [OF ok]
  show "container_wf (adminTable (s\<lparr>db := d, adminTable := Container_UpdateAdmin u p code new (adminTable s)\<rparr>))"
    using adm.inv_change [OF wf code(2)] by simp
  show "admins_typed view (db (s\<lparr>db := d, adminTable := Container_UpdateAdmin u p code new (adminTable s)\<rparr>))"
    using typed by simp
  fix v
  show "distinct (adm.names (adminTable (s\<lparr>db := d, adminTable := Container_UpdateAdmin u p code new (adminTable s)\<rparr>)) v)"
    using adm.names_change [OF wf code(1)] mgr_okD(3) [OF ok] by simp
  show "mset (map copy_admin (admins_of (adminTable (s\<lparr>db := d,
      adminTable := Container_UpdateAdmin u p code new (adminTable s)\<rparr>)) v))
    = mset (reload view J (db (s\<lparr>db := d, adminTable := Container_UpdateAdmin u p code new (adminTable s)\<rparr>)) v)"
  proof (cases "v = u")
    case True
    show ?thesis
      using reload_rewrite [OF mgr_okD(4) [OF ok, of u, unfolded reload_def] F G]
      by (simp add: True st reload_def admins_of_UpdateAdmin del: mset_map)
  next
    case False
    then show ?thesis
      using mgr_okD(4) [OF ok, of v] by (simp add: st reload_def admins_of_UpdateAdmin del: mset_map)
  qed
qed

lemma CreateAdmin_rewrites:
  "CreateAdmin (i\<lparr>entInfo := e\<rparr>)
     = map_option (\<lambda>b. copy_admin (b\<lparr>adminInfo := (adminInfo b)\<lparr>entInfo := e\<rparr>\<rparr>)) (CreateAdmin i)"
  "CreateAdmin (i\<lparr>managedEvents := es\<rparr>)
     = map_option (\<lambda>b. copy_admin (b\<lparr>adminInfo := (adminInfo b)\<lparr>managedEvents := es\<rparr>\<rparr>)) (CreateAdmin i)"
  "CreateAdmin (persist_update new i)
     = map_option (\<lambda>b. copy_admin (b\<lparr>adminInfo := persist_update new (adminInfo b)\<rparr>)) (CreateAdmin i)"
  by (auto simp: CreateAdmin_def admin_constructor_defs copy_admin_def persist_update_def split: admin_type.splits)

lemma update_info_single:
  "update_info UC_ENT_INFO new i = i\<lparr>entInfo := entInfo new\<rparr>"
  "update_info UC_PERMISSION new i = i\<lparr>permission := permission new\<rparr>"
  "update_info UC_MANAGED_EVENTS new i = i\<lparr>managedEvents := managedEvents new\<rparr>"
  by (simp_all add: update_info_def)

lemma mgr_ok_SetEntInfo:
  assumes "rdb_laws R view" "mgr_ok view J s" "Mgr_SetEntInfo R a e u s = (err, s')"
  shows "mgr_ok view J s'"
proof -
  obtain inst d where i: "AdminPolicies_GetInstance R (db s) = (inst, d)" by (rule prod.exhaust)
  note s1 = mgr_ok_same_view [OF assms(2) AdminPolicies_GetInstance_view [OF assms(1) i]]
  obtain ok d2 where upd: "UpdateEntInfo R u (packageName (adminInfo a)) e d = (ok, d2)" by (rule prod.exhaust)
  note st = UpdateEntInfo_stored [OF assms(1) _ upd]
  have typed: "admins_typed view d" using mgr_okD(2) [OF s1] by simp
  have "mgr_ok view J (s\<lparr>db := d, db := d2, adminTable := Container_UpdateAdmin u (packageName (adminInfo a)) UC_ENT_INFO
      (AdminInfo0\<lparr>entInfo := e\<rparr>) (adminTable s)\<rparr>)" if ok
    using mgr_ok_rewrite [OF s1 st(1) [OF typed], where u = u and p = "packageName (adminInfo a)"
        and f = "\<lambda>j. j\<lparr>entInfo := e\<rparr>" and code = UC_ENT_INFO and new = "AdminInfo0\<lparr>entInfo := e\<rparr>"] st(2) [OF typed, of J] that
    by (simp add: CreateAdmin_rewrites update_info_single copy_admin_def)
  moreover have "mgr_ok view J (s\<lparr>db := d2\<rparr>)" if "\<not> ok"
    using mgr_ok_same_stored [OF s1 st(1) [OF typed]] st(2) [OF typed, of J] that by simp
  ultimately show ?thesis
    using assms(3) s1 by (auto simp: Mgr_SetEntInfo_def i upd Let_def split: if_splits)
qed

text \<open>\<open>UpdateAdmin\<close> keeps the agreement only when the new values survive the rules of
  \<open>CreateUpdateValuesBucket\<close>: \<open>writable code new i\<close> says that they do for an administrator \<open>i\<close>.\<close>

definition writable :: "u32 \<Rightarrow> admin_info \<Rightarrow> admin_info \<Rightarrow> bool" where
  "writable code new i = (adminType i = BYOD \<and>
       (persist_update new i)\<lparr>accessiblePolicies := []\<rparr> = (update_info code new i)\<lparr>accessiblePolicies := []\<rparr>
     \<or> persist_update new i = update_info code new i)"

lemma writable_copy:
  assumes "admin_wf a" "writable code new (adminInfo a)" "\<not> uc_has code UC_ADMIN_TYPE"
  shows "copy_admin (copy_admin a\<lparr>adminInfo := persist_update new (adminInfo (copy_admin a))\<rparr>)
    = copy_admin (a\<lparr>adminInfo := update_info code new (adminInfo a)\<rparr>)"
proof (cases "adminType (adminInfo a) = BYOD")
  case True
  then have c: "admin_cls a = ByodAdminC" using assms(1) by (auto elim: admin_wf_type_cases)
  have eq: "(persist_update new (adminInfo a))\<lparr>accessiblePolicies := []\<rparr>
      = (update_info code new (adminInfo a))\<lparr>accessiblePolicies := []\<rparr>"
    using assms(2) by (auto simp: writable_def)
  then have "(persist_update new (adminInfo a))\<lparr>accessiblePolicies := byodAccessiblePolicies\<rparr>
      = (update_info code new (adminInfo a))\<lparr>accessiblePolicies := byodAccessiblePolicies\<rparr>"
    by (drule_tac f = "\<lambda>x. x\<lparr>accessiblePolicies := byodAccessiblePolicies\<rparr>" in arg_cong) simp
  moreover have "(persist_update new (j\<lparr>accessiblePolicies := x\<rparr>))\<lparr>accessiblePolicies := y\<rparr>
      = (persist_update new j)\<lparr>accessiblePolicies := y\<rparr>" for j x y
    by (simp add: persist_update_def)
  ultimately show ?thesis by (simp add: copy_admin_def c)
next
  case False
  then have "admin_cls a \<noteq> ByodAdminC" using assms(1) by (auto elim: admin_wf_type_cases)
  then show ?thesis using assms(2) False by (simp add: copy_admin_def writable_def)
qed

lemma mgr_ok_UpdateAdmin:
  assumes "rdb_laws R view" "cjson_laws J" "mgr_ok view J s"
    "length (permission i) \<le> DEFAULT_LOOP_MAX_SIZE" "length (accessiblePolicies i) \<le> DEFAULT_LOOP_MAX_SIZE"
    "\<not> uc_has code UC_PACKAGE_NAME" "\<not> uc_has code UC_ADMIN_TYPE"
    "\<And>a. a \<in> set (admins_of (adminTable s) u) \<Longrightarrow> packageName (adminInfo a) = packageName i
      \<Longrightarrow> writable code i (adminInfo a)"
    "Mgr_UpdateAdmin R J u i code s = (err, s')"
  shows "mgr_ok view J s'"
proof -
  obtain inst d where i: "AdminPolicies_GetInstance R (db s) = (inst, d)" by (rule prod.exhaust)
  note s1 = mgr_ok_same_view [OF assms(3) AdminPolicies_GetInstance_view [OF assms(1) i]]
  obtain ok d2 where upd: "Storage_UpdateAdmin R J u i d = (ok, d2)" by (rule prod.exhaust)
  have typed: "admins_typed view d" using mgr_okD(2) [OF s1] by simp
  note st = UpdateAdmin_stored [OF assms(1,2,4,5) typed upd]
  have wf: "a \<in> set (admins_of (adminTable s) u) \<Longrightarrow> admin_wf a" for a
    using container_wf_admins_of [OF mgr_okD(1) [OF s1], of u] by (simp add: list_all_iff)
  have "mgr_ok view J (s\<lparr>db := d, db := d2, adminTable := Container_UpdateAdmin u (packageName i) code i (adminTable s)\<rparr>)" if ok
    using mgr_ok_rewrite [OF s1 st(1), where u = u and p = "packageName i" and f = "persist_update i"
        and code = code and new = i] st(2) that writable_copy [OF wf assms(8) assms(7)] assms(6,7)
    by (simp add: CreateAdmin_rewrites(3))
  moreover have "mgr_ok view J (s\<lparr>db := d2\<rparr>)" if "\<not> ok"
    using mgr_ok_same_stored [OF s1 st(1)] st(2) that by simp
  ultimately show ?thesis
    using assms(9) s1 by (auto simp: Mgr_UpdateAdmin_def i upd Let_def split: if_splits)
qed

text \<open>A new administrator is read back as it is when it is \<open>fresh\<close>: no events yet, and a list of
  accessible policies only for a virtual administrator (a BYOD one gets its fixed list).\<close>

definition fresh :: "admin_info \<Rightarrow> bool" where
  "fresh i = (storable i \<and> managedEvents i = []
     \<and> (accessiblePolicies i = [] \<or> adminType i = VIRTUAL_ADMIN \<or> adminType i = BYOD))"

lemma fresh_reload:
  assumes "fresh i"
  obtains a where "CreateAdmin i = Some a" "CreateAdmin (persisted i) = Some a" "copy_admin a = a"
  using assms
  by (cases "adminType i") (auto simp: fresh_def storable_def cls_of_type_def CreateAdmin_def persisted_def
      admin_constructor_defs copy_admin_def)

lemma find_name_None:
  "container_wf c \<Longrightarrow> GetAdminByPkgName p u c = None \<Longrightarrow> p \<notin> set (adm.names c u)"
  by (auto simp: GetAdminByPkgName_def GetAdminByUserId_def Let_def adm.names_def admins_of_def
      GetAdminCopyByUserId_def copy_admins_map container_wf_lookup find_None_iff
      GetAllowedAcrossAccountSetPolicyAdmin_def split: if_splits option.splits prod.splits)

lemma map_filter_append_one:
  "List.map_filter f (xs @ [x]) = List.map_filter f xs @ (case f x of None \<Rightarrow> [] | Some y \<Rightarrow> [y])"
  by (induction xs) (simp_all add: map_filter_simps split: option.split)

lemma mgr_ok_add:
  assumes "rdb_laws R view" "cjson_laws J" "mgr_ok view J s" "fresh i" "packageName i \<notin> set (adm.names (adminTable s) u)"
    "admins_typed view d" "stored view J d = (stored view J (db s))(u := stored view J (db s) u @ [persisted i])"
  shows "mgr_ok view J (s\<lparr>db := d, adminTable := SetAdminByUserId u i (adminTable s)\<rparr>)"
proof -
  note wf = mgr_okD(1) [OF assms(3)]
  obtain a where a: "CreateAdmin i = Some a" "CreateAdmin (persisted i) = Some a" "copy_admin a = a"
    by (rule fresh_reload [OF assms(4)])
  show ?thesis
    by (rule mgr_okI)
      (use adm.inv_add [OF wf] adm.names_add [OF wf a(1)] assms(5,6,7) mgr_okD(3,4) [OF assms(3)] a in
        \<open>simp_all add: reload_def admins_of_SetAdminByUserId map_filter_append_one\<close>)
qed

lemma mgr_ok_SetAdminValue:
  assumes "rdb_laws R view" "cjson_laws J" "mgr_ok view J s"
    "GetAdminByPkgName (packageName i) u (adminTable s) = None \<Longrightarrow> fresh i"
    "GetAdminByPkgName (packageName i) u (adminTable s) \<noteq> None \<Longrightarrow> storable i
       \<and> (\<forall>a \<in> set (admins_of (adminTable s) u). packageName (adminInfo a) = packageName i
            \<longrightarrow> writable SetAdminValue_code i (adminInfo a))"
    "SetAdminValue R J u i s = (err, s')"
  shows "mgr_ok view J s'"
proof (cases "GetAdminByPkgName (packageName i) u (adminTable s) = None")
  case True
  obtain inst d where g: "AdminPolicies_GetInstance R (db s) = (inst, d)" by (rule prod.exhaust)
  note s1 = mgr_ok_same_view [OF assms(3) AdminPolicies_GetInstance_view [OF assms(1) g]]
  obtain ok d2 where ins: "InsertAdmin R J u i d = (ok, d2)" by (rule prod.exhaust)
  have st: "storable i" "admins_typed view d" using assms(4) True mgr_okD(2) [OF s1] by (simp_all add: fresh_def)
  note st' = InsertAdmin_stored [OF assms(1,2) st ins]
  have "mgr_ok view J (s\<lparr>db := d, db := d2, adminTable := SetAdminByUserId u i (adminTable s)\<rparr>)" if ok
    using mgr_ok_add [OF assms(1,2) s1 assms(4) _ st'(1)] True st'(2) that
      find_name_None [OF mgr_okD(1) [OF s1]] by simp
  moreover have "mgr_ok view J (s\<lparr>db := d2\<rparr>)" if "\<not> ok"
    using mgr_ok_same_stored [OF s1 st'(1)] st'(2) that by simp
  ultimately show ?thesis
    using assms(6) True s1 by (auto simp: SetAdminValue_def g ins Let_def split: if_splits)
next
  case False
  then have upd: "Mgr_UpdateAdmin R J u i SetAdminValue_code s = (err, s')"
    using assms(6) by (simp add: SetAdminValue_def)
  show ?thesis
    by (rule mgr_ok_UpdateAdmin [OF assms(1-3) _ _ _ _ _ upd])
      (use assms(5) False in \<open>auto simp: storable_def SetAdminValue_code_def\<close>)
qed

lemma mgr_ok_DeleteAdmin:
  assumes "rdb_laws R view" "mgr_ok view J s" "Mgr_DeleteAdmin R p u t s = (err, s')"
  shows "mgr_ok view J s'"
proof -
  obtain inst d where g: "AdminPolicies_GetInstance R (db s) = (inst, d)" by (rule prod.exhaust)
  note s1 = mgr_ok_same_view [OF assms(2) AdminPolicies_GetInstance_view [OF assms(1) g]]
  obtain ok d2 where del: "Storage_DeleteAdmin R u p d = (ok, d2)" by (rule prod.exhaust)
  have typed: "admins_typed view d" using mgr_okD(2) [OF s1] by simp
  note st = DeleteAdmin_stored [OF assms(1) typed del]
  note wf = mgr_okD(1) [OF s1]
  have "mgr_ok view J (s\<lparr>db := d2, adminTable := snd (Container_DeleteAdmin p u (adminTable s))\<rparr>)" if ok
  proof (rule mgr_okI, goal_cases)
    case 1
    then show ?case using adm.inv_remove [OF wf] by simp
  next
    case 2
    then show ?case using st(1) by simp
  next
    case (3 v)
    then show ?case using adm.names_remove [OF wf, of p u v] mgr_okD(3) [OF s1] by simp
  next
    case (4 v)
    show ?case
      using reload_remove [OF mgr_okD(4) [OF s1, of u, unfolded reload_def], of p] mgr_okD(4) [OF s1, of v] that
      by (cases "v = u") (simp_all add: st(2) reload_def admins_of_DeleteAdmin del: mset_map mset_filter)
  qed
  moreover have "mgr_ok view J (s\<lparr>db := d2\<rparr>)" if "\<not> ok"
    using mgr_ok_same_stored [OF s1 st(1)] st(2) [of J] that by simp
  ultimately show ?thesis
    using assms(2,3) s1 by (auto simp: Mgr_DeleteAdmin_def g del Let_def split: if_splits)
qed

subsection \<open>Subscribed events\<close>

lemma add_events_append: "\<exists>new. add_events es m = m @ new"
proof (induction es arbitrary: m)
  case (Cons e es)
  then show ?case by (cases "e \<in> set m") (auto, metis append_assoc)
qed simp

lemma add_events_set: "set (add_events es m) = set m \<union> set es"
  by (induction es arbitrary: m) auto

lemma add_events_distinct: "distinct m \<Longrightarrow> distinct (add_events es m)"
  by (induction es arbitrary: m) simp_all

lemma events_unchanged:
  "\<not> length m < length (add_events es m) \<Longrightarrow> add_events es m = m"
  "\<not> length (filter P m) < length m \<Longrightarrow> filter P m = m"
  using add_events_append [of es m] by auto (metis filter_id_conv length_filter_less)

text \<open>Which administrator a name means: the one of the user, unless an administrator of the default
  user that may act across accounts has the name.\<close>

definition own_name :: "string \<Rightarrow> user_id \<Rightarrow> container \<Rightarrow> bool" where
  "own_name p u c = (u = DEFAULT_USER_ID \<or> fst (GetAllowedAcrossAccountSetPolicyAdmin p c) \<noteq> ERR_OK)"

lemma found_is_own:
  assumes "container_wf c" "own_name p u c" "GetAdminByPkgName p u c = Some a" "distinct (adm.names c u)"
    "b \<in> set (admins_of c u)" "packageName (adminInfo b) = p"
  shows "a = copy_admin b"
proof -
  have "find (\<lambda>a. packageName (adminInfo a) = p) (map copy_admin (admins_of c u)) = Some a"
    using assms(2,3) copies_of [OF assms(1), of u]
    by (auto simp: own_name_def GetAdminByPkgName_def GetAdminByUserId_def Let_def split: prod.splits if_splits)
  then obtain b' where b': "b' \<in> set (admins_of c u)" "packageName (adminInfo b') = p" "a = copy_admin b'"
    by (auto simp: find_Some_iff) (metis copy_admin_simps(1) nth_map nth_mem)
  have "inj_on (\<lambda>a. packageName (adminInfo a)) (set (admins_of c u))"
    using assms(4) by (simp add: adm.names_def distinct_map)
  then have "b' = b" using b'(1,2) assms(5,6) by (auto dest: inj_onD)
  with b'(3) show ?thesis by simp
qed

lemma found_name: "container_wf c \<Longrightarrow> GetAdminByPkgName p u c = Some a \<Longrightarrow> packageName (adminInfo a) = p"
  by (auto simp: GetAdminByPkgName_def GetAdminByUserId_def GetAllowedAcrossAccountSetPolicyAdmin_def Let_def
      find_Some_iff split: if_splits option.splits prod.splits)

lemma mgr_ok_events:
  assumes "rdb_laws R view" "cjson_laws J" "mgr_ok view J s" "managedEvents new = es"
    "(if changed then UpdateManagedEvents R J u p es (db s) else (True, db s)) = (ok, d)"
    "changed \<Longrightarrow> events_storable es"
    "\<not> changed \<Longrightarrow> \<forall>a \<in> set (admins_of (adminTable s) u). packageName (adminInfo a) = p \<longrightarrow> managedEvents (adminInfo a) = es"
  shows "ok \<Longrightarrow> mgr_ok view J (s\<lparr>db := d, adminTable := Container_UpdateAdmin u p UC_MANAGED_EVENTS new (adminTable s)\<rparr>)"
    "\<not> ok \<Longrightarrow> mgr_ok view J (s\<lparr>db := d\<rparr>)"
proof -
  have typed: "admins_typed view (db s)" by (rule mgr_okD(2) [OF assms(3)])
  note st = UpdateManagedEvents_stored [OF assms(1,2) assms(6) typed, of u p ok d]
  show "mgr_ok view J (s\<lparr>db := d, adminTable := Container_UpdateAdmin u p UC_MANAGED_EVENTS new (adminTable s)\<rparr>)" if ok
  proof (cases changed)
    case True
    then show ?thesis
      using mgr_ok_rewrite [OF assms(3) st(1), where u = u and p = p and f = "\<lambda>j. j\<lparr>managedEvents := es\<rparr>"
          and code = UC_MANAGED_EVENTS and new = new] st(2) that assms(4,5)
      by (simp add: CreateAdmin_rewrites update_info_single copy_admin_def)
  next
    case False
    have F: "CreateAdmin i = map_option (\<lambda>b. copy_admin (b\<lparr>adminInfo := adminInfo b\<rparr>)) (CreateAdmin i)" for i
      using CreateAdmin_wf [of i] by (cases "CreateAdmin i") (auto simp: copy_admin_id)
    have G: "copy_admin (copy_admin a\<lparr>adminInfo := adminInfo (copy_admin a)\<rparr>)
        = copy_admin (a\<lparr>adminInfo := update_info UC_MANAGED_EVENTS new (adminInfo a)\<rparr>)"
      if "a \<in> set (admins_of (adminTable s) u)" "packageName (adminInfo a) = p" for a
    proof -
      have "managedEvents (adminInfo a) = es" using assms(7) False that by blast
      then have "update_info UC_MANAGED_EVENTS new (adminInfo a) = adminInfo a"
        by (simp add: update_info_single assms(4))
      then show ?thesis by (simp add: copy_admin_id)
    qed
    have id: "stored view J (db s) = (stored view J (db s))(u :=
        map (\<lambda>j. if packageName j = p then j else j) (stored view J (db s) u))" by simp
    have d: "d = db s" using assms(5) False by simp
    show ?thesis unfolding d by (rule mgr_ok_rewrite [OF assms(3) typed id F G]) simp_all
  qed
  show "mgr_ok view J (s\<lparr>db := d\<rparr>)" if "\<not> ok"
    using mgr_ok_same_stored [OF assms(3) st(1)] st(2) that assms(5) by (auto split: if_splits)
qed

lemma own_events:
  assumes "container_wf c" "own_name p u c" "GetAdminByPkgName p u c = Some a" "distinct (adm.names c u)"
  shows "\<forall>b \<in> set (admins_of c u). packageName (adminInfo b) = p \<longrightarrow> managedEvents (adminInfo b) = managedEvents (adminInfo a)"
  using found_is_own [OF assms] by auto

lemma mgr_ok_SaveSubscribeEvents:
  assumes "rdb_laws R view" "cjson_laws J" "mgr_ok view J s" "own_name p u (adminTable s)"
    "\<And>a. GetAdminByPkgName p u (adminTable s) = Some a \<Longrightarrow> events_storable (add_events es (managedEvents (adminInfo a)))"
    "SaveSubscribeEvents R J es p u s = (err, s')"
  shows "mgr_ok view J s'"
proof (cases "GetAdminByPkgName p u (adminTable s)")
  case None
  then show ?thesis using assms(3,6) by (simp add: SaveSubscribeEvents_def)
next
  case (Some a)
  note wf = mgr_okD(1) [OF assms(3)]
  have name: "packageName (adminInfo a) = p" by (rule found_name [OF wf Some])
  obtain inst d where g: "AdminPolicies_GetInstance R (db s) = (inst, d)" by (rule prod.exhaust)
  note s1 = mgr_ok_same_view [OF assms(3) AdminPolicies_GetInstance_view [OF assms(1) g]]
  let ?old = "managedEvents (adminInfo a)" and ?new = "add_events es (managedEvents (adminInfo a))"
  obtain ok d2 where upd: "(if length ?old < length ?new then UpdateManagedEvents R J u p ?new d else (True, d)) = (ok, d2)"
    by (rule prod.exhaust)
  have same: "\<not> length ?old < length ?new \<Longrightarrow> \<forall>b \<in> set (admins_of (adminTable (s\<lparr>db := d\<rparr>)) u).
      packageName (adminInfo b) = p \<longrightarrow> managedEvents (adminInfo b) = ?new"
    using own_events [OF wf assms(4) Some mgr_okD(3) [OF assms(3)]] by (simp add: events_unchanged)
  have upd': "(if length ?old < length ?new then UpdateManagedEvents R J u p ?new (db (s\<lparr>db := d\<rparr>)) else (True, db (s\<lparr>db := d\<rparr>))) = (ok, d2)"
    using upd by (auto split: if_splits)
  note fin = mgr_ok_events [OF assms(1,2) s1, where new = "adminInfo a\<lparr>managedEvents := ?new\<rparr>" and es = ?new,
      OF _ upd' assms(5) [OF Some] same, simplified]
  show ?thesis
    using assms(6) s1 fin upd by (auto simp: SaveSubscribeEvents_def Some g name Let_def split: if_splits)
qed

lemma mgr_ok_RemoveSubscribeEvents:
  assumes "rdb_laws R view" "cjson_laws J" "mgr_ok view J s" "own_name p u (adminTable s)"
    "\<And>a. GetAdminByPkgName p u (adminTable s) = Some a \<Longrightarrow> events_storable (managedEvents (adminInfo a))"
    "RemoveSubscribeEvents R J es p u s = (err, s')"
  shows "mgr_ok view J s'"
proof (cases "GetAdminByPkgName p u (adminTable s)")
  case None
  then show ?thesis using assms(3,6) by (simp add: RemoveSubscribeEvents_def)
next
  case (Some a)
  note wf = mgr_okD(1) [OF assms(3)]
  have name: "packageName (adminInfo a) = p" by (rule found_name [OF wf Some])
  obtain inst d where g: "AdminPolicies_GetInstance R (db s) = (inst, d)" by (rule prod.exhaust)
  note s1 = mgr_ok_same_view [OF assms(3) AdminPolicies_GetInstance_view [OF assms(1) g]]
  let ?old = "managedEvents (adminInfo a)" and ?new = "filter (\<lambda>e. e \<notin> set es) (managedEvents (adminInfo a))"
  obtain ok d2 where upd: "(if length ?new < length ?old then UpdateManagedEvents R J u p ?new d else (True, d)) = (ok, d2)"
    by (rule prod.exhaust)
  have same: "\<not> length ?new < length ?old \<Longrightarrow> \<forall>b \<in> set (admins_of (adminTable (s\<lparr>db := d\<rparr>)) u).
      packageName (adminInfo b) = p \<longrightarrow> managedEvents (adminInfo b) = ?new"
    using own_events [OF wf assms(4) Some mgr_okD(3) [OF assms(3)]] by (simp add: events_unchanged(2))
  have st: "events_storable ?new"
    using assms(5) [OF Some] length_filter_le [of "\<lambda>e. e \<notin> set es" ?old]
    by (auto simp: events_storable_def list_all_iff simp del: length_filter_le)
  have upd': "(if length ?new < length ?old then UpdateManagedEvents R J u p ?new (db (s\<lparr>db := d\<rparr>)) else (True, db (s\<lparr>db := d\<rparr>))) = (ok, d2)"
    using upd by (auto split: if_splits)
  note fin = mgr_ok_events [OF assms(1,2) s1, where new = "adminInfo a\<lparr>managedEvents := ?new\<rparr>" and es = ?new,
      OF _ upd' st same, simplified]
  show ?thesis
    using assms(6) s1 fin upd by (auto simp: RemoveSubscribeEvents_def Some g name Let_def split: if_splits)
qed

lemma mgr_ok_UpdateAdminPermission:
  assumes "rdb_laws R view" "cjson_laws J" "mgr_ok view J s" "length ps \<le> DEFAULT_LOOP_MAX_SIZE"
    "UpdateAdminPermission R J p u ps s = (err, s')"
  shows "mgr_ok view J s'"
  by (rule mgr_ok_UpdateAdmin [OF assms(1-3) _ _ _ _ _ assms(5) [unfolded UpdateAdminPermission_def]])
    (simp_all add: assms(4) AdminInfo0_def writable_def persist_update_def update_info_single)

subsection \<open>The manager as a state machine\<close>

text \<open>The calls of the service, with what the service guarantees of the arguments.\<close>

inductive mgr_step :: "'s rdb \<Rightarrow> cjson \<Rightarrow> 's admin_mgr \<Rightarrow> 's admin_mgr \<Rightarrow> bool" for R J where
  enable: "GetAdminByPkgName (packageName i) u (adminTable s) = None \<Longrightarrow> fresh i
    \<Longrightarrow> mgr_step R J s (snd (SetAdminValue R J u i s))"
| refresh: "GetAdminByPkgName (packageName i) u (adminTable s) \<noteq> None \<Longrightarrow> storable i
    \<Longrightarrow> \<forall>a \<in> set (admins_of (adminTable s) u). packageName (adminInfo a) = packageName i
          \<longrightarrow> writable SetAdminValue_code i (adminInfo a)
    \<Longrightarrow> mgr_step R J s (snd (SetAdminValue R J u i s))"
| disable: "mgr_step R J s (snd (Mgr_DeleteAdmin R p u t s))"
| permissions: "length ps \<le> DEFAULT_LOOP_MAX_SIZE
    \<Longrightarrow> mgr_step R J s (snd (UpdateAdminPermission R J p u ps s))"
| ent_info: "mgr_step R J s (snd (Mgr_SetEntInfo R a e u s))"
| subscribe: "own_name p u (adminTable s)
    \<Longrightarrow> \<forall>a. GetAdminByPkgName p u (adminTable s) = Some a
          \<longrightarrow> events_storable (add_events es (managedEvents (adminInfo a)))
    \<Longrightarrow> mgr_step R J s (snd (SaveSubscribeEvents R J es p u s))"
| unsubscribe: "own_name p u (adminTable s)
    \<Longrightarrow> \<forall>a. GetAdminByPkgName p u (adminTable s) = Some a \<longrightarrow> events_storable (managedEvents (adminInfo a))
    \<Longrightarrow> mgr_step R J s (snd (RemoveSubscribeEvents R J es p u s))"

inductive_cases mgr_step_cases: "mgr_step R J s s'"

lemma mgr_step_ok:
  assumes "rdb_laws R view" "cjson_laws J" "mgr_step R J s s'" "mgr_ok view J s"
  shows "mgr_ok view J s'"
  using assms(3,4)
proof cases
  case (enable i u)
  then have call: "SetAdminValue R J u i s = (fst (SetAdminValue R J u i s), s')" by simp
  show ?thesis by (rule mgr_ok_SetAdminValue [OF assms(1,2,4) _ _ call]) (use enable in simp_all)
next
  case (refresh i u)
  then have call: "SetAdminValue R J u i s = (fst (SetAdminValue R J u i s), s')" by simp
  show ?thesis by (rule mgr_ok_SetAdminValue [OF assms(1,2,4) _ _ call]) (use refresh in simp_all)
next
  case (disable p u t)
  then have call: "Mgr_DeleteAdmin R p u t s = (fst (Mgr_DeleteAdmin R p u t s), s')" by simp
  show ?thesis by (rule mgr_ok_DeleteAdmin [OF assms(1,4) call])
next
  case (permissions ps p u)
  then have call: "UpdateAdminPermission R J p u ps s = (fst (UpdateAdminPermission R J p u ps s), s')" by simp
  show ?thesis by (rule mgr_ok_UpdateAdminPermission [OF assms(1,2,4) _ call]) (use permissions in simp_all)
next
  case (ent_info a e u)
  then have call: "Mgr_SetEntInfo R a e u s = (fst (Mgr_SetEntInfo R a e u s), s')" by simp
  show ?thesis by (rule mgr_ok_SetEntInfo [OF assms(1,4) call])
next
  case (subscribe p u es)
  then have call: "SaveSubscribeEvents R J es p u s = (fst (SaveSubscribeEvents R J es p u s), s')" by simp
  show ?thesis by (rule mgr_ok_SaveSubscribeEvents [OF assms(1,2,4) _ _ call]) (use subscribe in simp_all)
next
  case (unsubscribe p u es)
  then have call: "RemoveSubscribeEvents R J es p u s = (fst (RemoveSubscribeEvents R J es p u s), s')" by simp
  show ?thesis by (rule mgr_ok_RemoveSubscribeEvents [OF assms(1,2,4) _ _ call]) (use unsubscribe in simp_all)
qed

definition mgr0 :: "'s \<Rightarrow> 's admin_mgr" where
  "mgr0 st = \<lparr> adminTable = [], db = edm_db0 st, notices = [] \<rparr>"

text \<open>A new process over the tables the old one left.\<close>

definition mgr_restart :: "'s rdb \<Rightarrow> cjson \<Rightarrow> 's admin_mgr \<Rightarrow> 's admin_mgr" where
  "mgr_restart R J s = Mgr_Init R J (mgr0 (store (db s)))"

definition admins_readable :: "'s rdb \<Rightarrow> 's \<Rightarrow> bool" where
  "admins_readable R st = (let (inst, d) = AdminPolicies_GetInstance R (edm_db0 st) in
     inst \<and> fst (Rdb_Query R (Predicates T_ADMIN) [] d) \<noteq> None)"

lemma mgr_ok_mgr0: "view st T_ADMIN = [] \<Longrightarrow> mgr_ok view J (mgr0 st)"
  by (rule mgr_okI) (simp_all add: mgr0_def admins_typed_def db_view_def edm_db0_def reload_def stored_def
      user_rows_def admins_of_def adm.names_def map_filter_simps)

lemma mgr_reachable_ok:
  assumes "rdb_laws R view" "cjson_laws J" "(mgr_step R J)\<^sup>*\<^sup>* s s'" "mgr_ok view J s"
  shows "mgr_ok view J s'"
  using assms(3,4) by (induction rule: rtranclp_induct) (auto intro: mgr_step_ok [OF assms(1,2)])

lemma mset_map_filter_cong: "mset xs = mset ys \<Longrightarrow> mset (List.map_filter f xs) = mset (List.map_filter f ys)"
  by (simp add: List.map_filter_def)

lemma visible_restart:
  assumes "rdb_laws R view" "mgr_ok view J s" "admins_readable R (store (db s))"
  shows "mset (visible (adminTable (mgr_restart R J s)) u) = mset (reload view J (db s) u)"
proof -
  let ?d0 = "edm_db0 (store (db s))"
  obtain inst d where g: "AdminPolicies_GetInstance R ?d0 = (inst, d)" by (rule prod.exhaust)
  obtain m d2 where q: "QueryAllAdmin R J d = (m, d2)" by (rule prod.exhaust)
  have inst: "inst" "fst (Rdb_Query R (Predicates T_ADMIN) [] d) \<noteq> None"
    using assms(3) g by (simp_all add: admins_readable_def)
  have v: "db_view view d = db_view view (db s)"
    using AdminPolicies_GetInstance_view [OF assms(1) g] by (simp add: db_view_def edm_db0_def)
  have typed: "admins_typed view d" using mgr_okD(2) [OF assms(2)] v by (simp add: admins_typed_def)
  note r = QueryAllAdmin_result [OF assms(1) typed q]
  have st: "stored view J d = stored view J (db s)" by (simp add: stored_def fun_eq_iff v)
  have tab: "adminTable (mgr_restart R J s) = InitAdmins m []"
    by (simp add: mgr_restart_def Mgr_Init_def mgr0_def g inst(1) q)
  have "admins_of (InitAdmins m []) u = List.map_filter CreateAdmin (items_of m u)"
    unfolding admins_of_InitAdmins [OF r(2)]
    by (simp add: items_of_def admins_of_def map_filter_simps split: option.split)
  moreover have "map copy_admin (List.map_filter CreateAdmin is) = List.map_filter CreateAdmin is" for "is"
    by (induction "is") (auto simp: map_filter_simps copy_admin_id dest: CreateAdmin_wf split: option.splits)
  ultimately have "visible (InitAdmins m []) u = List.map_filter CreateAdmin (items_of m u)"
    by (simp add: visible_copies container_wf_Init)
  then show ?thesis
    using mset_map_filter_cong [OF r(3) [OF inst(2)], of CreateAdmin u] by (simp add: tab reload_def st)
qed



subsection \<open>Failures\<close>

definition unchanged :: "('s \<Rightarrow> string \<Rightarrow> db_row list) \<Rightarrow> 's admin_mgr \<Rightarrow> 's admin_mgr \<Rightarrow> bool" where
  "unchanged view s s' = (adminTable s' = adminTable s \<and> notices s' = notices s
     \<and> db_view view (db s') = db_view view (db s))"

lemma failed_statement_view:
  assumes "rdb_laws R view"
  shows "Rdb_Insert R t vb d = (False, d') \<Longrightarrow> db_view view d' = db_view view d"
    "Rdb_Delete R p d = (False, d') \<Longrightarrow> db_view view d' = db_view view d"
    "Rdb_Update R vb p d = (False, d') \<Longrightarrow> db_view view d' = db_view view d"
  using Rdb_Insert_view [OF assms, of t vb d False d'] Rdb_Delete_view [OF assms, of p d False d']
    Rdb_Update_view [OF assms, of vb p d False d'] by simp_all

lemmas storage_statement_defs = InsertAdmin_def Storage_UpdateAdmin_def Storage_DeleteAdmin_def UpdateEntInfo_def

lemma failed_events_view:
  assumes "rdb_laws R view" "UpdateManagedEvents R J u p es d = (False, d')"
  shows "db_view view d' = db_view view d"
  using assms(2) by (auto simp: UpdateManagedEvents_def split: if_splits option.splits
      dest: failed_statement_view(3) [OF assms(1)])

lemma UpdateAdmin_failed:
  assumes "rdb_laws R view" "Mgr_UpdateAdmin R J u i code s = (err, s')" "err \<noteq> ERR_OK"
  shows "unchanged view s s'"
proof -
  obtain inst d where g: "AdminPolicies_GetInstance R (db s) = (inst, d)" by (rule prod.exhaust)
  obtain ok d2 where upd: "Storage_UpdateAdmin R J u i d = (ok, d2)" by (rule prod.exhaust)
  show ?thesis
    using assms(2,3) AdminPolicies_GetInstance_view [OF assms(1) g] upd
      failed_statement_view [OF assms(1)]
    by (auto simp: Mgr_UpdateAdmin_def g upd Let_def unchanged_def storage_statement_defs split: if_splits)
qed



end
