(* ===== verification/Admin_Lookup.thy ===== *)
theory Admin_Lookup
  imports Admin_Agreement
begin

unbundle bit_operations_syntax

text \<open>
  What a name means to \<open>AdminManager\<close>: \<open>GetAdminByPkgName\<close> across accounts, the subscribed events of
  the administrator it finds, and the calls after which memory and database disagree.
\<close>

subsection \<open>Lookup by package name\<close>

lemma visible_eq: "snd (GetAdminByUserId u c) = visible c u"
  by (simp add: GetAdminByUserId_def visible_def)

lemma visible_wf: "container_wf c \<Longrightarrow> a \<in> set (visible c u) \<Longrightarrow> admin_wf a"
  using container_wf_admins_of [of c u] by (auto simp: visible_copies list_all_iff)

definition across :: "container \<Rightarrow> string \<Rightarrow> admin option" where
  "across c p = find (\<lambda>a. packageName (adminInfo a) = p \<and> IsAllowedAcrossAccountSetPolicy a) (visible c DEFAULT_USER_ID)"

lemma GetAdminCopy_pair: "GetAdminByUserId u c = (HasAdmin u c, visible c u)"
  by (auto simp: GetAdminByUserId_def visible_def GetAdminCopyByUserId_def HasAdmin_def split: option.splits)

lemma visible_none: "\<not> HasAdmin u c \<Longrightarrow> visible c u = []"
  by (auto simp: visible_def GetAdminCopyByUserId_def HasAdmin_def split: option.splits)

lemma GetAdminByPkgName_alt:
  "GetAdminByPkgName p u c = (if u \<noteq> DEFAULT_USER_ID \<and> across c p \<noteq> None then across c p
     else find (\<lambda>a. packageName (adminInfo a) = p) (visible c u))"
  by (auto simp: GetAdminByPkgName_def GetAdminCopy_pair GetAllowedAcrossAccountSetPolicyAdmin_def
      across_def visible_none split: option.splits)



subsection \<open>Subscribed events\<close>

lemma own_name_across: "own_name p u c \<Longrightarrow> u = DEFAULT_USER_ID \<or> across c p = None"
  using visible_none [of DEFAULT_USER_ID c]
  by (cases "HasAdmin DEFAULT_USER_ID c"; cases "across c p")
    (simp_all add: own_name_def GetAllowedAcrossAccountSetPolicyAdmin_def GetAdminCopy_pair across_def)

lemma GetAdminByPkgName_own: "own_name p u c \<Longrightarrow> GetAdminByPkgName p u c = find (\<lambda>a. packageName (adminInfo a) = p) (visible c u)"
  using own_name_across [of p u c] by (auto simp: GetAdminByPkgName_alt)

lemma find_rewritten:
  "(\<And>a. nm (K a) = nm a) \<Longrightarrow> find (\<lambda>a. nm a = p) (map (\<lambda>a. if nm a = p then K a else a) xs)
     = map_option K (find (\<lambda>a. nm a = p) xs)"
  by (induction xs) simp_all

lemma find_after_events:
  assumes "container_wf c" "own_name p u c" "GetAdminByPkgName p u c = Some a"
  shows "find (\<lambda>a. packageName (adminInfo a) = p) (visible (Container_UpdateAdmin u p UC_MANAGED_EVENTS new c) u)
    = Some (a\<lparr>adminInfo := (adminInfo a)\<lparr>managedEvents := managedEvents new\<rparr>\<rparr>)"
proof -
  let ?K = "\<lambda>a. a\<lparr>adminInfo := (adminInfo a)\<lparr>managedEvents := managedEvents new\<rparr>\<rparr>"
  have wf': "container_wf (Container_UpdateAdmin u p UC_MANAGED_EVENTS new c)"
    by (rule container_wf_Update [OF assms(1)]) simp
  have one: "copy_admin (if packageName (adminInfo a) = p
        then a\<lparr>adminInfo := update_info UC_MANAGED_EVENTS new (adminInfo a)\<rparr> else a)
      = (if packageName (adminInfo (copy_admin a)) = p then ?K (copy_admin a) else copy_admin a)" for a
    by (simp add: update_info_single copy_admin_def)
  have "visible (Container_UpdateAdmin u p UC_MANAGED_EVENTS new c) u
      = map (\<lambda>a. if packageName (adminInfo a) = p then ?K a else a) (visible c u)"
    unfolding visible_copies [OF assms(1)] visible_copies [OF wf'] admins_of_UpdateAdmin
    by (simp only: fun_upd_same map_map o_def one)
  moreover have "find (\<lambda>a. packageName (adminInfo a) = p) (visible c u) = Some a"
    using assms(3) by (simp add: GetAdminByPkgName_own [OF assms(2)])
  ultimately show ?thesis
    by (simp add: find_rewritten [where nm = "\<lambda>a. packageName (adminInfo a)" and K = ?K])
qed

text \<open>C9: A successful subscription adds the given events to those of the administrator, once each and
  nothing else; a successful unsubscription removes exactly the given events. All other fields of
  the administrator stay.\<close>

theorem subscribe_events_set:
  assumes "container_wf (adminTable s)" "own_name p u (adminTable s)" "GetAdminByPkgName p u (adminTable s) = Some a"
    "SaveSubscribeEvents R J es p u s = (ERR_OK, s1)" "RemoveSubscribeEvents R J es p u s = (ERR_OK, s2)"
    "distinct (managedEvents (adminInfo a))"
  shows "(\<exists>new. find (\<lambda>b. packageName (adminInfo b) = p) (snd (GetAdminByUserId u (adminTable s1)))
        = Some (a\<lparr>adminInfo := (adminInfo a)\<lparr>managedEvents := new\<rparr>\<rparr>)
      \<and> distinct new \<and> set new = set (managedEvents (adminInfo a)) \<union> set es)
    \<and> (\<exists>new. find (\<lambda>b. packageName (adminInfo b) = p) (snd (GetAdminByUserId u (adminTable s2)))
        = Some (a\<lparr>adminInfo := (adminInfo a)\<lparr>managedEvents := new\<rparr>\<rparr>)
      \<and> distinct new \<and> set new = set (managedEvents (adminInfo a)) - set es)"
proof -
  have name: "packageName (adminInfo a) = p" by (rule found_name [OF assms(1,3)])
  have "adminTable s1 = Container_UpdateAdmin u p UC_MANAGED_EVENTS
      (adminInfo a\<lparr>managedEvents := add_events es (managedEvents (adminInfo a))\<rparr>) (adminTable s)"
    using assms(4) by (auto simp: SaveSubscribeEvents_def assms(3) name Let_def split: if_splits prod.splits)
  moreover have "adminTable s2 = Container_UpdateAdmin u p UC_MANAGED_EVENTS
      (adminInfo a\<lparr>managedEvents := filter (\<lambda>e. e \<notin> set es) (managedEvents (adminInfo a))\<rparr>) (adminTable s)"
    using assms(5) by (auto simp: RemoveSubscribeEvents_def assms(3) name Let_def split: if_splits prod.splits)
  ultimately have found: "find (\<lambda>b. packageName (adminInfo b) = p) (visible (adminTable s1) u)
      = Some (a\<lparr>adminInfo := (adminInfo a)\<lparr>managedEvents := add_events es (managedEvents (adminInfo a))\<rparr>\<rparr>)"
    "find (\<lambda>b. packageName (adminInfo b) = p) (visible (adminTable s2) u)
      = Some (a\<lparr>adminInfo := (adminInfo a)\<lparr>managedEvents := filter (\<lambda>e. e \<notin> set es) (managedEvents (adminInfo a))\<rparr>\<rparr>)"
    by (simp_all add: find_after_events [OF assms(1-3)])
  have sets: "set (filter (\<lambda>e. e \<notin> set es) (managedEvents (adminInfo a))) = set (managedEvents (adminInfo a)) - set es"
    by auto
  show ?thesis unfolding visible_eq found
  proof (rule conjI)
    show "\<exists>new. Some (a\<lparr>adminInfo := (adminInfo a)\<lparr>managedEvents := add_events es (managedEvents (adminInfo a))\<rparr>\<rparr>)
        = Some (a\<lparr>adminInfo := (adminInfo a)\<lparr>managedEvents := new\<rparr>\<rparr>)
      \<and> distinct new \<and> set new = set (managedEvents (adminInfo a)) \<union> set es"
      by (rule exI, rule conjI, rule refl) (simp add: add_events_set add_events_distinct assms(6))
    show "\<exists>new. Some (a\<lparr>adminInfo := (adminInfo a)\<lparr>managedEvents := filter (\<lambda>e. e \<notin> set es) (managedEvents (adminInfo a))\<rparr>\<rparr>)
        = Some (a\<lparr>adminInfo := (adminInfo a)\<lparr>managedEvents := new\<rparr>\<rparr>)
      \<and> distinct new \<and> set new = set (managedEvents (adminInfo a)) - set es"
      by (rule exI, rule conjI, rule refl) (simp add: sets assms(6) del: set_filter)
  qed
qed

theorem subscribe_events_set_witness:
  "let s = snd (SetAdminValue list_rdb plain_cjson 100 (AdminInfo0\<lparr>packageName := ''a'', adminType := ENT\<rparr>)
         (mgr0 (empty_store [])));
       s1 = snd (SaveSubscribeEvents list_rdb plain_cjson [7, 8] ''a'' 100 s)
   in \<exists>new. find (\<lambda>b. packageName (adminInfo b) = ''a'') (snd (GetAdminByUserId 100 (adminTable s1)))
        = Some (SuperDeviceAdmin (AdminInfo0\<lparr>packageName := ''a'', managedEvents := new\<rparr>))
      \<and> distinct new \<and> set new = {7, 8}"
proof -
  let ?s = "snd (SetAdminValue list_rdb plain_cjson 100 (AdminInfo0\<lparr>packageName := ''a'', adminType := ENT\<rparr>)
    (mgr0 (empty_store [])))"
  let ?a = "SuperDeviceAdmin (AdminInfo0\<lparr>packageName := ''a''\<rparr>)"
  let ?r1 = "SaveSubscribeEvents list_rdb plain_cjson [7, 8] ''a'' 100 ?s"
  let ?r2 = "RemoveSubscribeEvents list_rdb plain_cjson [7, 8] ''a'' 100 ?s"
  have wf: "container_wf (adminTable ?s)" by code_simp
  have own: "own_name ''a'' 100 (adminTable ?s)" by code_simp
  have found: "GetAdminByPkgName ''a'' 100 (adminTable ?s) = Some ?a" by code_simp
  have "fst ?r1 = ERR_OK" "fst ?r2 = ERR_OK" by code_simp+
  then have r: "?r1 = (ERR_OK, snd ?r1)" "?r2 = (ERR_OK, snd ?r2)" by (simp_all add: prod_eq_iff)
  have ev: "managedEvents (adminInfo ?a) = []" by code_simp
  have eq: "?a\<lparr>adminInfo := (adminInfo ?a)\<lparr>managedEvents := new\<rparr>\<rparr>
      = SuperDeviceAdmin (AdminInfo0\<lparr>packageName := ''a'', managedEvents := new\<rparr>)" for new
    by (simp add: SuperDeviceAdmin_def)
  from subscribe_events_set [OF wf own found r, unfolded eq] ev show ?thesis
    unfolding Let_def by simp
qed

subsection \<open>Where memory and database part\<close>

text \<open>Setting the running mode back to the default is not persistent:
  \<open>SetAdminRunningMode\<close> reaches \<open>SetAdminValue\<close>, which reports success and changes the mode in memory,
  but \<open>CreateUpdateValuesBucket\<close> does not write a default mode, so the old mode is back after a
  restart.\<close>

theorem running_mode_reset_lost:
  "let i = AdminInfo0\<lparr>packageName := ''a'', className := ''c'', adminType := ENT\<rparr>;
       s1 = snd (SetAdminValue list_rdb plain_cjson 100 (i\<lparr>runningMode := RUNNING_MODE_MULTI_USER\<rparr>) (mgr0 (empty_store [])));
       (err, s2) = SetAdminValue list_rdb plain_cjson 100 (i\<lparr>runningMode := RUNNING_MODE_DEFAULT\<rparr>) s1
   in err = ERR_OK
      \<and> map (\<lambda>a. runningMode (adminInfo a)) (snd (GetAdminByUserId 100 (adminTable s2))) = [RUNNING_MODE_DEFAULT]
      \<and> map (\<lambda>a. runningMode (adminInfo a)) (snd (GetAdminByUserId 100 (adminTable (mgr_restart list_rdb plain_cjson s2))))
          = [RUNNING_MODE_MULTI_USER]"
  by code_simp

text \<open>Replacing the super administrator with its policies kept writes the whole new record to the
  database but only name, class and source to memory: until the next restart the getters show the
  new administrator with the old one's permissions and running mode, afterwards with its own.\<close>

theorem replaced_admin_differs_after_restart:
  "let old = AdminInfo0\<lparr>packageName := ''a'', className := ''c'', adminType := ENT, permission := [''p'']\<rparr>;
       new = AdminInfo0\<lparr>packageName := ''b'', className := ''d'', adminType := ENT, permission := [''q''],
               enableSource := ENABLE_SOURCE_REPLACE\<rparr>;
       s1 = snd (SetAdminValue list_rdb plain_cjson 100 old (mgr0 (empty_store [])));
       (err, s2) = ReplaceSuperAdminByPackageName list_rdb plain_cjson ''a'' new s1;
       shown = (\<lambda>s. map (\<lambda>a. (packageName (adminInfo a), permission (adminInfo a))) (snd (GetAdminByUserId 100 (adminTable s))))
   in err = ERR_OK \<and> shown s2 = [(''b'', [''p''])] \<and> shown (mgr_restart list_rdb plain_cjson s2) = [(''b'', [''q''])]"
  by code_simp

text \<open>\<open>SetAdminRunningMode\<close> looks the administrator up for the current user but writes it for the
  default user. For a BYOD administrator of another user the record is not found there, and
  \<open>SetAdminValue\<close> enables a second administrator of the same name for the default user.\<close>

theorem running_mode_duplicates_byod:
  "let s1 = snd (SetAdminValue list_rdb plain_cjson 101 (AdminInfo0\<lparr>packageName := ''a'', adminType := BYOD\<rparr>)
             (mgr0 (empty_store [])))
   in (case GetAdminByPkgName ''a'' 101 (adminTable s1) of
         None \<Rightarrow> False
       | Some a \<Rightarrow> (let (err, s2) = SetAdminValue list_rdb plain_cjson DEFAULT_USER_ID
                      (adminInfo a\<lparr>runningMode := RUNNING_MODE_MULTI_USER\<rparr>) s1
           in err = ERR_OK \<and> snd (GetAdminByUserId DEFAULT_USER_ID (adminTable s1)) = []
              \<and> map (\<lambda>b. (packageName (adminInfo b), adminType (adminInfo b)))
                  (snd (GetAdminByUserId DEFAULT_USER_ID (adminTable s2))) = [(''a'', BYOD)]))"
  by code_simp

end
