(* ===== verification/Permission_Checker.thy ===== *)
theory Permission_Checker
  imports Admin_Manager
begin

text \<open>
  \<open>services/edm/src/permission_checker.cpp\<close> and the token queries of
  \<open>common/external/src/edm_access_token_manager_impl.cpp\<close>. What the system knows of the calling
  process is the record \<open>caller\<close>: its uid and token, the granted permissions, the answers of the
  bundle manager and the account manager.
\<close>

subsection \<open>The calling process\<close>

datatype token_type = TOKEN_HAP | TOKEN_NATIVE | TOKEN_SHELL | TOKEN_INVALID

record caller =
  callingUid :: int
  callingTokenType :: token_type
  systemAppToken :: bool
  developerMode :: bool
  granted :: "string \<Rightarrow> bool"
  nameForUid :: "int \<Rightarrow> string option"
  hapBundleName :: "string option"
  activeOsAccounts :: "user_id list option"
  requestedPermissions :: "string \<Rightarrow> user_id \<Rightarrow> string list option"

definition TokenManager_IsDebug :: "caller \<Rightarrow> bool" where
  "TokenManager_IsDebug ca = (callingTokenType ca = TOKEN_SHELL \<and> developerMode ca)"

definition TokenManager_IsSystemAppOrNative :: "caller \<Rightarrow> bool" where
  "TokenManager_IsSystemAppOrNative ca =
     (systemAppToken ca \<or> callingTokenType ca = TOKEN_NATIVE \<or> callingTokenType ca = TOKEN_SHELL)"

definition TokenManager_IsNativeCall :: "caller \<Rightarrow> bool" where
  "TokenManager_IsNativeCall ca = (callingTokenType ca = TOKEN_NATIVE)"

definition TokenManager_IsSystemAppCall :: "caller \<Rightarrow> bool" where
  "TokenManager_IsSystemAppCall ca = systemAppToken ca"

definition TokenManager_VerifyCallingPermission :: "caller \<Rightarrow> string \<Rightarrow> bool" where
  "TokenManager_VerifyCallingPermission ca permissionName = granted ca permissionName"

definition TokenManager_GetHapTokenBundleName :: "caller \<Rightarrow> string" where
  "TokenManager_GetHapTokenBundleName ca = (case hapBundleName ca of None \<Rightarrow> [] | Some n \<Rightarrow> n)"

subsection \<open>Checks on the caller\<close>

definition CheckIsDebug :: "caller \<Rightarrow> bool" where
  "CheckIsDebug ca = TokenManager_IsDebug ca"

definition CheckIsSystemAppOrNative :: "caller \<Rightarrow> bool" where
  "CheckIsSystemAppOrNative ca = TokenManager_IsSystemAppOrNative ca"

definition CheckIsSystemApp :: "caller \<Rightarrow> bool" where
  "CheckIsSystemApp ca = TokenManager_IsSystemAppCall ca"

definition VerifyCallingPermission :: "caller \<Rightarrow> string \<Rightarrow> bool" where
  "VerifyCallingPermission ca permissionName = TokenManager_VerifyCallingPermission ca permissionName"

definition GetHapTokenBundleName :: "caller \<Rightarrow> string" where
  "GetHapTokenBundleName ca = TokenManager_GetHapTokenBundleName ca"

definition CheckCallingUid :: "caller \<Rightarrow> string \<Rightarrow> err_code" where
  "CheckCallingUid ca bundleName =
     (case nameForUid ca (callingUid ca) of
        None \<Rightarrow> ERR_EDM_PERMISSION_ERROR
      | Some callingBundleName \<Rightarrow>
          (if bundleName = callingBundleName then ERR_OK else ERR_EDM_PERMISSION_ERROR))"

definition CheckCallerPermission :: "caller \<Rightarrow> string \<Rightarrow> string \<Rightarrow> bool" where
  "CheckCallerPermission ca bundleName permissionName =
     (if \<not> TokenManager_VerifyCallingPermission ca permissionName then False
      else if FAILED (CheckCallingUid ca bundleName) then False
      else True)"

datatype api_type = API_PUBLIC | API_SYSTEM | API_UNKNOWN

definition CheckSystemCalling :: "caller \<Rightarrow> api_type \<Rightarrow> string \<Rightarrow> err_code" where
  "CheckSystemCalling ca apiType permissionTag =
     (let isCheckSystem = (apiType = API_SYSTEM \<or> permissionTag = PERMISSION_TAG_SYSTEM_API) in
      if isCheckSystem \<and> \<not> CheckIsSystemAppOrNative ca then SYSTEM_API_DENIED else ERR_OK)"

definition GetAdminGrantedPermission :: "string list \<Rightarrow> string list" where
  "GetAdminGrantedPermission perms = filter (\<lambda>p. p \<in> set checker_permissions) perms"

definition GetAllPermissionsByAdmin :: "caller \<Rightarrow> string \<Rightarrow> user_id \<Rightarrow> err_code \<times> string list" where
  "GetAllPermissionsByAdmin ca bundleInfoName userId =
     (case requestedPermissions ca bundleInfoName userId of
        None \<Rightarrow> (ERR_EDM_PARAM_ERROR, [])
      | Some reqPermissions \<Rightarrow> (ERR_OK, GetAdminGrantedPermission reqPermissions))"

definition GetCurrentUserId :: "caller \<Rightarrow> user_id" where
  "GetCurrentUserId ca = (case activeOsAccounts ca of None \<Rightarrow> -1 | Some ids \<Rightarrow> (case ids of [] \<Rightarrow> -1 | i # _ \<Rightarrow> i))"

datatype permission_type = NORMAL_DEVICE_ADMIN | SUPER_DEVICE_ADMIN | BYOD_DEVICE_ADMIN | PT_UNKNOWN

definition AdminTypeToPermissionType :: "admin_type \<Rightarrow> permission_type" where
  "AdminTypeToPermissionType t = (if t = BYOD then BYOD_DEVICE_ADMIN else SUPER_DEVICE_ADMIN)"

abbreviation (input) NONE_PERMISSION_MATCH :: string where "NONE_PERMISSION_MATCH \<equiv> ''NA''"

definition CheckHandlePolicyPermission :: "bool \<Rightarrow> caller \<Rightarrow> func_operate_type \<Rightarrow> admin option
    \<Rightarrow> string \<Rightarrow> string \<Rightarrow> user_id \<Rightarrow> err_code" where
  "CheckHandlePolicyPermission pc_only ca operateType deviceAdmin policyName permissionName userId =
     (if operateType = OP_SET \<and> permissionName = [] then PERMISSION_DENIED
      else if permissionName = NONE_PERMISSION_MATCH then SYSTEM_ABNORMALLY
      else (case deviceAdmin of
        None \<Rightarrow> ADMIN_INACTIVE
      | Some a \<Rightarrow>
          (if FAILED (CheckCallingUid ca (packageName (adminInfo a))) then PERMISSION_DENIED
           else if operateType = OP_SET \<and> \<not> IsAllowedAcrossAccountSetPolicy a \<and> userId \<noteq> GetCurrentUserId ca
           then ADMIN_EDM_PERMISSION_DENIED
           else if permissionName \<noteq> [] \<and> \<not> VerifyCallingPermission ca permissionName then PERMISSION_DENIED
           else if \<not> HasPermissionToHandlePolicy pc_only a policyName operateType then ADMIN_EDM_PERMISSION_DENIED
           else ERR_OK)))"

definition CheckSpecialPolicyCallQuery :: "caller \<Rightarrow> u32 \<Rightarrow> bool" where
  "CheckSpecialPolicyCallQuery ca code =
     (if TokenManager_IsSystemAppCall ca then True
      else if TokenManager_IsNativeCall ca then
        (if code = IC_ALLOWED_BLUETOOTH_DEVICES \<or> code = IC_DISALLOWED_BLUETOOTH_DEVICES
         then callingUid ca = BLUETOOTH_SERVICE_UID
         else if code = IC_PASSWORD_POLICY then callingUid ca = USERIAM_SERVICE_UID
         else if code = IC_DISABLE_USB then callingUid ca = USB_SERVICE_UID
         else if code = IC_INSTALL_MARKET_APPS then callingUid ca = SAMGR_SERVICE_UID
         else False)
      else False)"

definition CheckElementNullPermission :: "caller \<Rightarrow> u32 \<Rightarrow> string \<Rightarrow> bool" where
  "CheckElementNullPermission ca funcCode permissionName =
     (let code = GetPolicyCode funcCode in
      if code \<notin> set supportAdminNullPolicyCode then False
      else if permissionName = [] then True
      else if CheckSpecialPolicyCallQuery ca code then True
      else VerifyCallingPermission ca permissionName)"

definition CheckElementNullPermissionNew :: "caller \<Rightarrow> u32 \<Rightarrow> string \<Rightarrow> bool" where
  "CheckElementNullPermissionNew ca funcCode permissionName =
     (let code = GetPolicyCode funcCode in
      if permissionName = [] then True
      else if CheckSpecialPolicyCallQuery ca code then True
      else VerifyCallingPermission ca permissionName)"

definition CheckSystemTimerPermission :: "caller \<Rightarrow> container \<Rightarrow> string \<Rightarrow> user_id \<Rightarrow> err_code" where
  "CheckSystemTimerPermission ca c bundleName userId =
     (case GetAdminByPkgName bundleName userId c of
        None \<Rightarrow> ADMIN_INACTIVE
      | Some a \<Rightarrow>
          (if GetAdminType a = BYOD then ADMIN_EDM_PERMISSION_DENIED
           else if FAILED (CheckCallingUid ca (packageName (adminInfo a))) then PERMISSION_DENIED
           else if \<not> VerifyCallingPermission ca PERMISSION_ENTERPRISE_MANAGE_SYSTEM then PERMISSION_DENIED
           else ERR_OK))"

end
