(* ===== verification/Device_Policies_Storage.thy ===== *)
theory Device_Policies_Storage
  imports Rdb
begin

text \<open>
  \<open>services/edm/src/device_policies_storage_rdb.cpp\<close>: the tables of the policies each
  administrator has set and of the merged policies, per user. The operations are translated
  statement by statement; their effect is then read off an abstract table, a list of keys and
  values (\<open>adm_entries\<close>, \<open>comb_entries\<close>), which is what the policy managers above rely on.
\<close>

subsection \<open>Tables and instance\<close>

definition device_admin_policies_sql :: string where
  "device_admin_policies_sql = ''CREATE TABLE IF NOT EXISTS '' @ T_DEVICE_ADMIN @ '' (''
     @ ''id INTEGER PRIMARY KEY AUTOINCREMENT,''
     @ ''user_id INTEGER NOT NULL,''
     @ ''admin_name TEXT NOT NULL,''
     @ ''policy_name TEXT,''
     @ ''policy_value TEXT);''"

definition device_combined_policies_sql :: string where
  "device_combined_policies_sql = ''CREATE TABLE IF NOT EXISTS '' @ T_COMBINED @ '' (''
     @ ''id INTEGER PRIMARY KEY AUTOINCREMENT,''
     @ ''user_id INTEGER NOT NULL,''
     @ ''policy_name TEXT,''
     @ ''policy_value TEXT);''"

definition CreateDeviceAdminPoliciesTable :: "'s rdb \<Rightarrow> 's edm_db \<Rightarrow> bool \<times> 's edm_db" where
  "CreateDeviceAdminPoliciesTable R d = CreateTable R device_admin_policies_sql d"

definition CreateDeviceCombinedPoliciesTable :: "'s rdb \<Rightarrow> 's edm_db \<Rightarrow> bool \<times> 's edm_db" where
  "CreateDeviceCombinedPoliciesTable R d = CreateTable R device_combined_policies_sql d"

text \<open>The result says whether the instance pointer is not null.\<close>

definition DevicePolicies_GetInstance :: "'s rdb \<Rightarrow> 's edm_db \<Rightarrow> bool \<times> 's edm_db" where
  "DevicePolicies_GetInstance R d =
     (let d = (if \<not> isDeviceAdminTableInit d
               then (let (ok, d') = CreateDeviceAdminPoliciesTable R d in d'\<lparr>isDeviceAdminTableInit := ok\<rparr>)
               else d);
          d = (if \<not> isCombinedPoliciesTableInit d
               then (let (ok, d') = CreateDeviceCombinedPoliciesTable R d in d'\<lparr>isCombinedPoliciesTableInit := ok\<rparr>)
               else d)
      in (isDeviceAdminTableInit d \<and> isCombinedPoliciesTableInit d, d))"

subsection \<open>Policies of administrators\<close>

definition InsertAdminPolicy :: "'s rdb \<Rightarrow> user_id \<Rightarrow> string \<Rightarrow> string \<Rightarrow> string \<Rightarrow> 's edm_db
    \<Rightarrow> bool \<times> 's edm_db" where
  "InsertAdminPolicy R userId adminName policyName policyValue d =
     (let vb = PutString ''policy_value'' policyValue (PutString ''policy_name'' policyName
                 (PutString ''admin_name'' adminName (PutInt ''user_id'' userId [])))
      in Rdb_Insert R T_DEVICE_ADMIN vb d)"

definition admin_policy_predicates :: "user_id \<Rightarrow> string \<Rightarrow> string \<Rightarrow> predicates" where
  "admin_policy_predicates userId adminName policyName =
     EqualTo ''policy_name'' policyName (EqualTo ''admin_name'' adminName
       (EqualTo ''user_id'' (int_to_string userId) (Predicates T_DEVICE_ADMIN)))"

definition UpdateAdminPolicy :: "'s rdb \<Rightarrow> user_id \<Rightarrow> string \<Rightarrow> string \<Rightarrow> string \<Rightarrow> 's edm_db
    \<Rightarrow> bool \<times> 's edm_db" where
  "UpdateAdminPolicy R userId adminName policyName policyValue d =
     Rdb_Update R (PutString ''policy_value'' policyValue [])
       (admin_policy_predicates userId adminName policyName) d"

definition ReplaceAdminPolicy :: "'s rdb \<Rightarrow> user_id \<Rightarrow> string \<Rightarrow> string \<Rightarrow> 's edm_db
    \<Rightarrow> bool \<times> 's edm_db" where
  "ReplaceAdminPolicy R userId adminName newAdminName d =
     Rdb_Update R (PutString ''admin_name'' newAdminName [])
       (EqualTo ''admin_name'' adminName
         (EqualTo ''user_id'' (int_to_string userId) (Predicates T_DEVICE_ADMIN))) d"

definition Storage_DeleteAdminPolicy :: "'s rdb \<Rightarrow> user_id \<Rightarrow> string \<Rightarrow> string \<Rightarrow> 's edm_db
    \<Rightarrow> bool \<times> 's edm_db" where
  "Storage_DeleteAdminPolicy R userId adminName policyName d =
     Rdb_Delete R (admin_policy_predicates userId adminName policyName) d"

type_synonym policy_items = "(string, string) amap"
type_synonym policy_table = "(string, policy_items) amap"

text \<open>\<open>PraseAdminPolicies\<close> files a value under administrator and policy, \<open>PrasePolicyAdmins\<close> under
  policy and administrator; an entry that is already there stays.\<close>

definition PraseAdminPolicies :: "string \<Rightarrow> string \<Rightarrow> string \<Rightarrow> policy_table \<Rightarrow> policy_table" where
  "PraseAdminPolicies adminName policyName policyValue adminPolicies =
     (case map_of adminPolicies adminName of
        None \<Rightarrow> al_insert adminName (al_insert policyName policyValue []) adminPolicies
      | Some items \<Rightarrow> AList.update adminName (al_insert policyName policyValue items) adminPolicies)"

definition PrasePolicyAdmins :: "string \<Rightarrow> string \<Rightarrow> string \<Rightarrow> policy_table \<Rightarrow> policy_table" where
  "PrasePolicyAdmins adminName policyName policyValue policyAdmins =
     (case map_of policyAdmins policyName of
        None \<Rightarrow> al_insert policyName (al_insert adminName policyValue []) policyAdmins
      | Some items \<Rightarrow> AList.update policyName (al_insert adminName policyValue items) policyAdmins)"

fun read_admin_policy_rows :: "'s rdb \<Rightarrow> db_value list list \<Rightarrow> policy_table \<times> policy_table
    \<Rightarrow> policy_table \<times> policy_table" where
  "read_admin_policy_rows R [] t = t"
| "read_admin_policy_rows R (row # rows) (adminPolicies, policyAdmins) =
     (let adminName = rs_string R (row ! 2);
          policyName = rs_string R (row ! 3);
          policyValue = rs_string R (row ! 4)
      in read_admin_policy_rows R rows
           (PraseAdminPolicies adminName policyName policyValue adminPolicies,
            PrasePolicyAdmins adminName policyName policyValue policyAdmins))"

definition QueryAdminPolicy :: "'s rdb \<Rightarrow> user_id \<Rightarrow> policy_table \<times> policy_table \<Rightarrow> 's edm_db
    \<Rightarrow> bool \<times> (policy_table \<times> policy_table) \<times> 's edm_db" where
  "QueryAdminPolicy R userId t d =
     (case Rdb_Query R (EqualTo ''user_id'' (int_to_string userId) (Predicates T_DEVICE_ADMIN)) [] d of
        (None, d) \<Rightarrow> (False, t, d)
      | (Some rows, d) \<Rightarrow> (True, read_admin_policy_rows R rows t, d))"

subsection \<open>Combined policies\<close>

definition InsertCombinedPolicy :: "'s rdb \<Rightarrow> user_id \<Rightarrow> string \<Rightarrow> string \<Rightarrow> 's edm_db
    \<Rightarrow> bool \<times> 's edm_db" where
  "InsertCombinedPolicy R userId policyName policyValue d =
     (let vb = PutString ''policy_value'' policyValue (PutString ''policy_name'' policyName
                 (PutInt ''user_id'' userId []))
      in Rdb_Insert R T_COMBINED vb d)"

definition combined_policy_predicates :: "user_id \<Rightarrow> string \<Rightarrow> predicates" where
  "combined_policy_predicates userId policyName =
     EqualTo ''policy_name'' policyName (EqualTo ''user_id'' (int_to_string userId) (Predicates T_COMBINED))"

definition UpdateCombinedPolicy :: "'s rdb \<Rightarrow> user_id \<Rightarrow> string \<Rightarrow> string \<Rightarrow> 's edm_db
    \<Rightarrow> bool \<times> 's edm_db" where
  "UpdateCombinedPolicy R userId policyName policyValue d =
     Rdb_Update R (PutString ''policy_value'' policyValue [])
       (combined_policy_predicates userId policyName) d"

definition Storage_DeleteCombinedPolicy :: "'s rdb \<Rightarrow> user_id \<Rightarrow> string \<Rightarrow> 's edm_db
    \<Rightarrow> bool \<times> 's edm_db" where
  "Storage_DeleteCombinedPolicy R userId policyName d =
     Rdb_Delete R (combined_policy_predicates userId policyName) d"

fun read_combined_policy_rows :: "'s rdb \<Rightarrow> db_value list list \<Rightarrow> policy_items \<Rightarrow> policy_items" where
  "read_combined_policy_rows R [] items = items"
| "read_combined_policy_rows R (row # rows) items =
     read_combined_policy_rows R rows
       (al_insert (rs_string R (row ! 2)) (rs_string R (row ! 3)) items)"

definition QueryCombinedPolicy :: "'s rdb \<Rightarrow> user_id \<Rightarrow> policy_items \<Rightarrow> 's edm_db
    \<Rightarrow> bool \<times> policy_items \<times> 's edm_db" where
  "QueryCombinedPolicy R userId items d =
     (case Rdb_Query R (EqualTo ''user_id'' (int_to_string userId) (Predicates T_COMBINED)) [] d of
        (None, d) \<Rightarrow> (False, items, d)
      | (Some rows, d) \<Rightarrow> (True, read_combined_policy_rows R rows items, d))"

definition QueryAllUserId :: "'s rdb \<Rightarrow> user_id list \<Rightarrow> 's edm_db \<Rightarrow> bool \<times> user_id list \<times> 's edm_db" where
  "QueryAllUserId R userIds d =
     (case Rdb_Query R (Distinct (Predicates T_DEVICE_ADMIN)) [''user_id''] d of
        (None, d) \<Rightarrow> (False, userIds, d)
      | (Some rows, d) \<Rightarrow> (True, userIds @ map (\<lambda>row. rs_int R (row ! 0)) rows, d))"

subsection \<open>The tables as lists of entries\<close>

type_synonym adm_key = "user_id \<times> string \<times> string"
type_synonym comb_key = "user_id \<times> string"

definition cell_int :: "db_value \<Rightarrow> int" where
  "cell_int v = (case v of VInt n \<Rightarrow> n | _ \<Rightarrow> 0)"

definition cell_text :: "db_value \<Rightarrow> string" where
  "cell_text v = (case v of VText t \<Rightarrow> t | _ \<Rightarrow> [])"

fun enc_adm :: "adm_key \<times> string \<Rightarrow> db_row" where
  "enc_adm ((u, a, p), v) = (\<lambda>_. VNull)(''user_id'' := VInt u, ''admin_name'' := VText a,
     ''policy_name'' := VText p, ''policy_value'' := VText v)"

definition dec_adm :: "db_row \<Rightarrow> adm_key \<times> string" where
  "dec_adm r = ((cell_int (r ''user_id''), cell_text (r ''admin_name''), cell_text (r ''policy_name'')),
     cell_text (r ''policy_value''))"

fun enc_comb :: "comb_key \<times> string \<Rightarrow> db_row" where
  "enc_comb ((u, p), v) = (\<lambda>_. VNull)(''user_id'' := VInt u,
     ''policy_name'' := VText p, ''policy_value'' := VText v)"

definition dec_comb :: "db_row \<Rightarrow> comb_key \<times> string" where
  "dec_comb r = ((cell_int (r ''user_id''), cell_text (r ''policy_name'')), cell_text (r ''policy_value''))"

lemma dec_enc [simp]: "dec_adm (enc_adm e) = e" "dec_comb (enc_comb f) = f"
  by (cases e rule: enc_adm.cases; simp add: dec_adm_def cell_int_def cell_text_def)
    (cases f rule: enc_comb.cases; simp add: dec_comb_def cell_int_def cell_text_def)

type_synonym 's db_viewer = "'s \<Rightarrow> string \<Rightarrow> db_row list"

definition adm_entries :: "'s db_viewer \<Rightarrow> 's edm_db \<Rightarrow> (adm_key \<times> string) list" where
  "adm_entries view d = map dec_adm (db_view view d T_DEVICE_ADMIN)"

definition comb_entries :: "'s db_viewer \<Rightarrow> 's edm_db \<Rightarrow> (comb_key \<times> string) list" where
  "comb_entries view d = map dec_comb (db_view view d T_COMBINED)"

text \<open>Every row conforms to the schema.\<close>

definition policies_typed :: "'s db_viewer \<Rightarrow> 's edm_db \<Rightarrow> bool" where
  "policies_typed view d =
     ((\<forall>r \<in> set (db_view view d T_DEVICE_ADMIN). enc_adm (dec_adm r) = r)
      \<and> (\<forall>r \<in> set (db_view view d T_COMBINED). enc_comb (dec_comb r) = r))"

lemma typed_rows:
  assumes "policies_typed view d"
  shows "db_view view d T_DEVICE_ADMIN = map enc_adm (adm_entries view d)"
    and "db_view view d T_COMBINED = map enc_comb (comb_entries view d)"
  using assms by (auto simp: adm_entries_def comb_entries_def policies_typed_def
      intro!: map_idI [symmetric])

lemma policies_typedI:
  assumes "db_view view d T_DEVICE_ADMIN = map enc_adm es" "db_view view d T_COMBINED = map enc_comb cs"
  shows "policies_typed view d \<and> adm_entries view d = es \<and> comb_entries view d = cs"
  by (simp add: policies_typed_def adm_entries_def comb_entries_def assms o_def)

lemma matches_adm [simp]:
  "row_matches (admin_policy_predicates u a p) (enc_adm e) \<longleftrightarrow> fst e = (u, a, p)"
  by (cases e rule: enc_adm.cases)
    (auto simp: row_matches_def admin_policy_predicates_def EqualTo_def Predicates_def cell_matches_def)

lemma matches_comb [simp]:
  "row_matches (combined_policy_predicates u p) (enc_comb e) \<longleftrightarrow> fst e = (u, p)"
  by (cases e rule: enc_comb.cases)
    (auto simp: row_matches_def combined_policy_predicates_def EqualTo_def Predicates_def cell_matches_def)

lemma pr_table_simps [simp]:
  "pr_table (EqualTo f v p) = pr_table p" "pr_table (Predicates t) = t"
  "pr_table (Distinct p) = pr_table p"
  "pr_table (admin_policy_predicates u a q) = T_DEVICE_ADMIN"
  "pr_table (combined_policy_predicates u q) = T_COMBINED"
  by (simp_all add: EqualTo_def Predicates_def Distinct_def admin_policy_predicates_def
      combined_policy_predicates_def)

text \<open>What each statement does to the entries; a failing one changes nothing.\<close>

definition adm_step :: "'s db_viewer \<Rightarrow> 's edm_db \<Rightarrow> bool \<Rightarrow> (adm_key \<times> string) list \<Rightarrow> 's edm_db \<Rightarrow> bool" where
  "adm_step view d ok es d' = (policies_typed view d'
     \<and> adm_entries view d' = (if ok then es else adm_entries view d)
     \<and> comb_entries view d' = comb_entries view d
     \<and> db_view view d' T_ADMIN = db_view view d T_ADMIN)"

definition comb_step :: "'s db_viewer \<Rightarrow> 's edm_db \<Rightarrow> bool \<Rightarrow> (comb_key \<times> string) list \<Rightarrow> 's edm_db \<Rightarrow> bool" where
  "comb_step view d ok cs d' = (policies_typed view d'
     \<and> comb_entries view d' = (if ok then cs else comb_entries view d)
     \<and> adm_entries view d' = adm_entries view d
     \<and> db_view view d' T_ADMIN = db_view view d T_ADMIN)"

lemma adm_stepI:
  assumes "policies_typed view d"
    and "db_view view d' = (if ok then (db_view view d)(T_DEVICE_ADMIN := map enc_adm es) else db_view view d)"
  shows "adm_step view d ok es d'"
proof (cases ok)
  case True
  then have "policies_typed view d' \<and> adm_entries view d' = es \<and> comb_entries view d' = comb_entries view d"
    using assms(2) typed_rows(2) [OF assms(1)] by (intro policies_typedI) simp_all
  with True assms(2) show ?thesis by (simp add: adm_step_def)
next
  case False
  with assms show ?thesis
    by (simp add: adm_step_def policies_typed_def adm_entries_def comb_entries_def)
qed

lemma comb_stepI:
  assumes "policies_typed view d"
    and "db_view view d' = (if ok then (db_view view d)(T_COMBINED := map enc_comb cs) else db_view view d)"
  shows "comb_step view d ok cs d'"
proof (cases ok)
  case True
  then have "policies_typed view d' \<and> adm_entries view d' = adm_entries view d \<and> comb_entries view d' = cs"
    using assms(2) typed_rows(1) [OF assms(1)] by (intro policies_typedI) simp_all
  with True assms(2) show ?thesis by (simp add: comb_step_def)
next
  case False
  with assms show ?thesis
    by (simp add: comb_step_def policies_typed_def adm_entries_def comb_entries_def)
qed

text \<open>How the rows the statements write look.\<close>

lemma overlay_insert_adm:
  "overlay (PutString ''policy_value'' v (PutString ''policy_name'' p
     (PutString ''admin_name'' a (PutInt ''user_id'' u [])))) (default_row T_DEVICE_ADMIN)
   = enc_adm ((u, a, p), v)"
  by (auto simp: overlay_def bucket_defs default_row_def)

lemma overlay_value_adm:
  "overlay (PutString ''policy_value'' v []) (enc_adm e) = enc_adm (fst e, v)"
  by (cases e rule: enc_adm.cases) (auto simp: overlay_def bucket_defs)

lemma overlay_insert_comb:
  "overlay (PutString ''policy_value'' v (PutString ''policy_name'' p (PutInt ''user_id'' u [])))
     (default_row T_COMBINED) = enc_comb ((u, p), v)"
  by (auto simp: overlay_def bucket_defs default_row_def)

lemma overlay_value_comb:
  "overlay (PutString ''policy_value'' v []) (enc_comb e) = enc_comb (fst e, v)"
  by (cases e rule: enc_comb.cases) (auto simp: overlay_def bucket_defs)

lemma InsertAdminPolicy_step:
  assumes "rdb_laws R view" "policies_typed view d" "InsertAdminPolicy R u a p v d = (ok, d')"
  shows "adm_step view d ok (adm_entries view d @ [((u, a, p), v)]) d'"
  using Rdb_Insert_view [OF assms(1) assms(3) [unfolded InsertAdminPolicy_def Let_def]]
  by (intro adm_stepI [OF assms(2)]) (simp add: overlay_insert_adm typed_rows(1) [OF assms(2)])

lemma UpdateAdminPolicy_step:
  assumes "rdb_laws R view" "policies_typed view d" "UpdateAdminPolicy R u a p v d = (ok, d')"
  shows "adm_step view d ok (map (\<lambda>e. if fst e = (u, a, p) then ((u, a, p), v) else e) (adm_entries view d)) d'"
  using Rdb_Update_view [OF assms(1) assms(3) [unfolded UpdateAdminPolicy_def]]
  by (intro adm_stepI [OF assms(2)])
    (simp add: overlay_value_adm typed_rows(1) [OF assms(2)] o_def if_distrib [of enc_adm] cong: if_cong)

lemma ReplaceAdminPolicy_step:
  assumes "rdb_laws R view" "policies_typed view d" "ReplaceAdminPolicy R u a n d = (ok, d')"
  shows "adm_step view d ok (map (\<lambda>((u', a', p), v). ((u', if u' = u \<and> a' = a then n else a', p), v))
           (adm_entries view d)) d'"
proof (rule adm_stepI [OF assms(2)])
  let ?f = "\<lambda>((u', a', p), v). ((u', if u' = u \<and> a' = a then n else a', p), v)"
  have m: "row_matches (EqualTo ''admin_name'' a (EqualTo ''user_id'' (int_to_string u)
      (Predicates T_DEVICE_ADMIN))) (enc_adm ((u', a', p), v)) \<longleftrightarrow> u' = u \<and> a' = a" for u' a' p v
    by (auto simp: row_matches_def EqualTo_def Predicates_def cell_matches_def)
  have o: "overlay (PutString ''admin_name'' n []) (enc_adm ((u', a', p), v)) = enc_adm ((u', n, p), v)"
    for u' a' p v by (auto simp: overlay_def bucket_defs)
  have "(if row_matches (EqualTo ''admin_name'' a (EqualTo ''user_id'' (int_to_string u)
      (Predicates T_DEVICE_ADMIN))) (enc_adm e)
      then overlay (PutString ''admin_name'' n []) (enc_adm e) else enc_adm e) = enc_adm (?f e)" for e
    by (cases e rule: enc_adm.cases) (simp add: m o del: enc_adm.simps)
  then show "db_view view d' = (if ok then (db_view view d)(T_DEVICE_ADMIN :=
      map enc_adm (map ?f (adm_entries view d))) else db_view view d)"
    using Rdb_Update_view [OF assms(1) assms(3) [unfolded ReplaceAdminPolicy_def]]
    by (simp add: typed_rows(1) [OF assms(2)] o_def)
qed

lemma DeleteAdminPolicy_step:
  assumes "rdb_laws R view" "policies_typed view d" "Storage_DeleteAdminPolicy R u a p d = (ok, d')"
  shows "adm_step view d ok (filter (\<lambda>e. fst e \<noteq> (u, a, p)) (adm_entries view d)) d'"
  using Rdb_Delete_view [OF assms(1) assms(3) [unfolded Storage_DeleteAdminPolicy_def]]
  by (intro adm_stepI [OF assms(2)]) (simp add: typed_rows(1) [OF assms(2)] filter_map o_def)

lemma InsertCombinedPolicy_step:
  assumes "rdb_laws R view" "policies_typed view d" "InsertCombinedPolicy R u p v d = (ok, d')"
  shows "comb_step view d ok (comb_entries view d @ [((u, p), v)]) d'"
  using Rdb_Insert_view [OF assms(1) assms(3) [unfolded InsertCombinedPolicy_def Let_def]]
  by (intro comb_stepI [OF assms(2)]) (simp add: overlay_insert_comb typed_rows(2) [OF assms(2)])

lemma UpdateCombinedPolicy_step:
  assumes "rdb_laws R view" "policies_typed view d" "UpdateCombinedPolicy R u p v d = (ok, d')"
  shows "comb_step view d ok (map (\<lambda>e. if fst e = (u, p) then ((u, p), v) else e) (comb_entries view d)) d'"
  using Rdb_Update_view [OF assms(1) assms(3) [unfolded UpdateCombinedPolicy_def]]
  by (intro comb_stepI [OF assms(2)])
    (simp add: overlay_value_comb typed_rows(2) [OF assms(2)] o_def if_distrib [of enc_comb] cong: if_cong)

lemma DeleteCombinedPolicy_step:
  assumes "rdb_laws R view" "policies_typed view d" "Storage_DeleteCombinedPolicy R u p d = (ok, d')"
  shows "comb_step view d ok (filter (\<lambda>e. fst e \<noteq> (u, p)) (comb_entries view d)) d'"
  using Rdb_Delete_view [OF assms(1) assms(3) [unfolded Storage_DeleteCombinedPolicy_def]]
  by (intro comb_stepI [OF assms(2)]) (simp add: typed_rows(2) [OF assms(2)] filter_map o_def)

lemma instance_view:
  assumes "rdb_laws R view" "DevicePolicies_GetInstance R d = (ok, d')"
  shows "db_view view d' = db_view view d"
proof -
  have sql: "take 27 device_admin_policies_sql = ''CREATE TABLE IF NOT EXISTS ''"
    "take 27 device_combined_policies_sql = ''CREATE TABLE IF NOT EXISTS ''"
    by (simp_all add: device_admin_policies_sql_def device_combined_policies_sql_def)
  have flag: "db_view view (e\<lparr>isDeviceAdminTableInit := x\<rparr>) = db_view view e"
    "db_view view (e\<lparr>isCombinedPoliciesTableInit := x\<rparr>) = db_view view e" for e x
    by (simp_all add: db_view_def)
  show ?thesis
    using assms(2) CreateTable_view [OF assms(1) sql(1)] CreateTable_view [OF assms(1) sql(2)]
    by (auto simp: DevicePolicies_GetInstance_def CreateDeviceAdminPoliciesTable_def
        CreateDeviceCombinedPoliciesTable_def Let_def flag split: if_splits prod.splits)
qed

subsection \<open>The contract of a table of values\<close>

text \<open>What a client that keeps a cache in memory relies on: a table from keys to values with
  insert, update and delete, each of which reports whether it took effect and changes nothing
  when it did not.\<close>

locale value_table =
  fixes look :: "'st \<Rightarrow> 'k \<Rightarrow> string option"
    and inv :: "'st \<Rightarrow> bool"
    and ins :: "'k \<Rightarrow> string \<Rightarrow> 'st \<Rightarrow> bool \<times> 'st"
    and upd :: "'k \<Rightarrow> string \<Rightarrow> 'st \<Rightarrow> bool \<times> 'st"
    and del :: "'k \<Rightarrow> 'st \<Rightarrow> bool \<times> 'st"
  assumes ins_law: "inv s \<Longrightarrow> look s k = None \<Longrightarrow> ins k v s = (ok, s') \<Longrightarrow>
      inv s' \<and> look s' = (if ok then (look s)(k \<mapsto> v) else look s)"
    and upd_law: "inv s \<Longrightarrow> look s k \<noteq> None \<Longrightarrow> upd k v s = (ok, s') \<Longrightarrow>
      inv s' \<and> look s' = (if ok then (look s)(k \<mapsto> v) else look s)"
    and del_law: "inv s \<Longrightarrow> del k s = (ok, s') \<Longrightarrow>
      inv s' \<and> look s' = (if ok then (look s)(k := None) else look s)"
begin

text \<open>Write-through of a cache that agrees with the table: insert or update, as the cache says.\<close>

definition write_through :: "('k \<Rightarrow> string option) \<Rightarrow> 'k \<Rightarrow> string \<Rightarrow> 'st \<Rightarrow> bool \<times> 'st" where
  "write_through cache k v s = (if cache k \<noteq> None then upd k v s else ins k v s)"

lemma write_through_coherent:
  assumes "inv s" "cache k = look s k" "write_through cache k v s = (ok, s')"
  shows "inv s'" and "look s' = (if ok then (look s)(k \<mapsto> v) else look s)"
  using assms ins_law [of s k v ok s'] upd_law [of s k v ok s']
  by (auto simp: write_through_def split: if_splits)

lemma delete_coherent:
  assumes "inv s" "del k s = (ok, s')"
  shows "inv s'" and "look s' = (if ok then (look s)(k := None) else look s)"
  using del_law [OF assms] by auto

text \<open>Whatever the outcome, other keys keep their value.\<close>

lemma write_through_frame:
  assumes "inv s" "cache k = look s k" "write_through cache k v s = (ok, s')" "k' \<noteq> k"
  shows "look s' k' = look s k'"
  using write_through_coherent(2) [OF assms(1-3)] assms(4) by (auto split: if_splits)

end

text \<open>A state of the interface is the store operations, the view and the database together; its
  invariant says that the store keeps its laws, the rows conform to the schema and keys are
  unique.\<close>

type_synonym 's policy_db = "'s rdb \<times> 's db_viewer \<times> 's edm_db"

definition policies_ok :: "'s policy_db \<Rightarrow> bool" where
  "policies_ok = (\<lambda>(R, view, d). rdb_laws R view \<and> policies_typed view d
     \<and> distinct (map fst (adm_entries view d)) \<and> distinct (map fst (comb_entries view d)))"

definition adm_look :: "'s policy_db \<Rightarrow> adm_key \<Rightarrow> string option" where
  "adm_look = (\<lambda>(R, view, d). map_of (adm_entries view d))"

definition comb_look :: "'s policy_db \<Rightarrow> comb_key \<Rightarrow> string option" where
  "comb_look = (\<lambda>(R, view, d). map_of (comb_entries view d))"

definition on_db :: "('s rdb \<Rightarrow> 's edm_db \<Rightarrow> bool \<times> 's edm_db) \<Rightarrow> 's policy_db \<Rightarrow> bool \<times> 's policy_db" where
  "on_db f = (\<lambda>(R, view, d). let (ok, d') = f R d in (ok, (R, view, d')))"

lemma map_of_snoc: "map_of es k = None \<Longrightarrow> map_of (es @ [(k, v)]) = (map_of es)(k \<mapsto> v)"
  by (auto simp: map_add_def fun_eq_iff split: option.splits)

lemma set_value_absent:
  "map_of es k = None \<Longrightarrow> map (\<lambda>e. if fst e = k then (k, v) else e) es = es"
  by (induction es) (auto split: if_splits)

lemma map_of_set_value:
  "map_of es k \<noteq> None \<Longrightarrow> map_of (map (\<lambda>e. if fst e = k then (k, v) else e) es) = (map_of es)(k \<mapsto> v)"
proof (induction es)
  case (Cons e es)
  then show ?case
    by (cases e; cases "map_of es k = None") (auto simp: set_value_absent fun_eq_iff split: if_splits)
qed simp

lemma map_of_drop_key: "map_of (filter (\<lambda>e. fst e \<noteq> k) es) = (map_of es)(k := None)"
  by (induction es) (auto simp: fun_eq_iff)

lemma distinct_set_value:
  "distinct (map fst (map (\<lambda>e. if fst e = k then (k, v) else e) es)) = distinct (map fst es)"
proof -
  have "map fst (map (\<lambda>e. if fst e = k then (k, v) else e) es) = map fst es"
    by (induction es) auto
  then show ?thesis by (rule arg_cong)
qed

interpretation adm_tab: value_table adm_look policies_ok
  "\<lambda>(u, a, p) v. on_db (\<lambda>R. InsertAdminPolicy R u a p v)"
  "\<lambda>(u, a, p) v. on_db (\<lambda>R. UpdateAdminPolicy R u a p v)"
  "\<lambda>(u, a, p). on_db (\<lambda>R. Storage_DeleteAdminPolicy R u a p)"
proof (unfold_locales, goal_cases)
  case (1 s k v ok s')
  then show ?case
    by (auto simp: policies_ok_def adm_look_def on_db_def map_of_snoc map_of_eq_None_iff
        simp del: map_of_append split: prod.splits dest!: InsertAdminPolicy_step simp: adm_step_def)
next
  case (2 s k v ok s')
  then show ?case
    by (auto simp: policies_ok_def adm_look_def on_db_def map_of_set_value distinct_set_value
        simp del: map_map split: prod.splits dest!: UpdateAdminPolicy_step simp: adm_step_def)
next
  case (3 s k ok s')
  then show ?case
    by (auto simp: policies_ok_def adm_look_def on_db_def map_of_drop_key distinct_map_filter
        split: prod.splits dest!: DeleteAdminPolicy_step simp: adm_step_def)
qed

interpretation comb_tab: value_table comb_look policies_ok
  "\<lambda>(u, p) v. on_db (\<lambda>R. InsertCombinedPolicy R u p v)"
  "\<lambda>(u, p) v. on_db (\<lambda>R. UpdateCombinedPolicy R u p v)"
  "\<lambda>(u, p). on_db (\<lambda>R. Storage_DeleteCombinedPolicy R u p)"
proof (unfold_locales, goal_cases)
  case (1 s k v ok s')
  then show ?case
    by (auto simp: policies_ok_def comb_look_def on_db_def map_of_snoc map_of_eq_None_iff
        simp del: map_of_append split: prod.splits dest!: InsertCombinedPolicy_step simp: comb_step_def)
next
  case (2 s k v ok s')
  then show ?case
    by (auto simp: policies_ok_def comb_look_def on_db_def map_of_set_value distinct_set_value
        simp del: map_map split: prod.splits dest!: UpdateCombinedPolicy_step simp: comb_step_def)
next
  case (3 s k ok s')
  then show ?case
    by (auto simp: policies_ok_def comb_look_def on_db_def map_of_drop_key distinct_map_filter
        split: prod.splits dest!: DeleteCombinedPolicy_step simp: comb_step_def)
qed

subsection \<open>What the queries return\<close>

definition lookup2 :: "policy_table \<Rightarrow> string \<Rightarrow> string \<Rightarrow> string option" where
  "lookup2 t a b = (case map_of t a of None \<Rightarrow> None | Some m \<Rightarrow> map_of m b)"

text \<open>Two-level tables: unique keys on both levels and no empty inner map.\<close>

definition tab_ok :: "policy_table \<Rightarrow> bool" where
  "tab_ok t = (al_keys_distinct t \<and> al_all (\<lambda>_ m. al_keys_distinct m \<and> m \<noteq> []) t)"

lemma lookup2_Nil [simp]: "lookup2 [] a b = None" and tab_ok_Nil [simp]: "tab_ok []"
  by (simp_all add: lookup2_def tab_ok_def)

lemma al_insert_not_Nil [simp]: "al_insert k v m \<noteq> []"
  by (auto simp: al_insert_def)

lemma Prase_swap: "PrasePolicyAdmins a p v t = PraseAdminPolicies p a v t"
  by (simp add: PraseAdminPolicies_def PrasePolicyAdmins_def)

lemma lookup2_Prase:
  "lookup2 (PraseAdminPolicies a p v t) a' p' =
     (if a' = a \<and> p' = p \<and> lookup2 t a p = None then Some v else lookup2 t a' p')"
  by (auto simp: PraseAdminPolicies_def lookup2_def map_of_al_insert split: option.splits)

lemma tab_ok_Prase: "tab_ok t \<Longrightarrow> tab_ok (PraseAdminPolicies a p v t)"
  by (auto simp: PraseAdminPolicies_def tab_ok_def al_insert_def split: option.splits
      intro!: al_all_update dest: al_all_lookup)

text \<open>The loop over the rows, on the three cells it reads.\<close>

fun load_entries :: "((string \<times> string) \<times> string) list \<Rightarrow> policy_table \<times> policy_table
    \<Rightarrow> policy_table \<times> policy_table" where
  "load_entries [] t = t"
| "load_entries (((a, p), v) # es) (ap, pa) =
     load_entries es (PraseAdminPolicies a p v ap, PrasePolicyAdmins a p v pa)"

lemma load_entries_lookup:
  "load_entries es (ap, pa) = (ap', pa') \<Longrightarrow>
     lookup2 ap' a p = (case lookup2 ap a p of Some v \<Rightarrow> Some v | None \<Rightarrow> map_of es (a, p))
     \<and> lookup2 pa' p a = (case lookup2 pa p a of Some v \<Rightarrow> Some v | None \<Rightarrow> map_of es (a, p))
     \<and> (tab_ok ap \<longrightarrow> tab_ok ap') \<and> (tab_ok pa \<longrightarrow> tab_ok pa')"
proof (induction es "(ap, pa)" arbitrary: ap pa rule: load_entries.induct)
  case (2 a' p' v es ap pa)
  then show ?case
    by (auto simp: Prase_swap lookup2_Prase tab_ok_Prase split: option.splits if_splits)
qed (simp split: option.splits)

fun load_combined :: "(string \<times> string) list \<Rightarrow> policy_items \<Rightarrow> policy_items" where
  "load_combined [] items = items"
| "load_combined ((p, v) # es) items = load_combined es (al_insert p v items)"

lemma load_combined_lookup:
  "map_of (load_combined es items) p = (case map_of items p of Some v \<Rightarrow> Some v | None \<Rightarrow> map_of es p)"
  by (induction es items rule: load_combined.induct) (auto simp: map_of_al_insert split: option.splits)

lemma load_combined_distinct: "al_keys_distinct items \<Longrightarrow> al_keys_distinct (load_combined es items)"
  by (induction es items rule: load_combined.induct) auto

lemma read_rows_load:
  assumes "map tl rows = map (\<lambda>((a, p), v). [u, VText a, VText p, VText v]) es" "rdb_laws R view"
  shows "read_admin_policy_rows R rows t = load_entries es t"
  using assms(1)
proof (induction es arbitrary: rows t)
  case (Cons e es)
  obtain a p v where e: "e = ((a, p), v)" by (metis prod.exhaust)
  from Cons.prems obtain row rows' where rows: "rows = row # rows'"
    and row: "tl row = [u, VText a, VText p, VText v]"
    and rest: "map tl rows' = map (\<lambda>((a, p), v). [u, VText a, VText p, VText v]) es"
    by (auto simp: e)
  from row obtain x where "row = [x, u, VText a, VText p, VText v]" by (cases row) auto
  then show ?case
    by (cases t) (simp add: rows e rdb_lawsD(9) [OF assms(2)] Cons.IH [OF rest])
qed simp

lemma read_combined_load:
  assumes "map tl rows = map (\<lambda>(p, v). [u, VText p, VText v]) es" "rdb_laws R view"
  shows "read_combined_policy_rows R rows t = load_combined es t"
  using assms(1)
proof (induction es arbitrary: rows t)
  case (Cons e es)
  obtain p v where e: "e = (p, v)" by (metis prod.exhaust)
  from Cons.prems obtain row rows' where rows: "rows = row # rows'"
    and row: "tl row = [u, VText p, VText v]"
    and rest: "map tl rows' = map (\<lambda>(p, v). [u, VText p, VText v]) es"
    by (auto simp: e)
  from row obtain x where "row = [x, u, VText p, VText v]" by (cases row) auto
  then show ?case
    by (simp add: rows e rdb_lawsD(9) [OF assms(2)] Cons.IH [OF rest])
qed simp

text \<open>The entries of one user, and the maps that any permutation of them stands for.\<close>

definition adm_of_user :: "user_id \<Rightarrow> (adm_key \<times> string) list \<Rightarrow> ((string \<times> string) \<times> string) list" where
  "adm_of_user u es = map (\<lambda>((u', a, p), v). ((a, p), v)) (filter (\<lambda>e. fst (fst e) = u) es)"

definition comb_of_user :: "user_id \<Rightarrow> (comb_key \<times> string) list \<Rightarrow> (string \<times> string) list" where
  "comb_of_user u es = map (\<lambda>((u', p), v). (p, v)) (filter (\<lambda>e. fst (fst e) = u) es)"

lemma map_of_adm_of_user: "map_of (adm_of_user u es) (a, p) = map_of es (u, a, p)"
  by (induction es) (auto simp: adm_of_user_def)

lemma map_of_comb_of_user: "map_of (comb_of_user u es) p = map_of es (u, p)"
  by (induction es) (auto simp: comb_of_user_def)

lemma distinct_adm_of_user: "distinct (map fst es) \<Longrightarrow> distinct (map fst (adm_of_user u es))"
  by (induction es) (auto simp: adm_of_user_def intro: rev_image_eqI)

lemma distinct_comb_of_user: "distinct (map fst es) \<Longrightarrow> distinct (map fst (comb_of_user u es))"
  by (induction es) (auto simp: comb_of_user_def intro: rev_image_eqI)

lemma map_of_mset_eq:
  assumes "mset xs = mset ys" "distinct (map fst ys)"
  shows "map_of xs = map_of ys"
proof -
  have "mset (map fst xs) = mset (map fst ys)" using assms(1) by simp
  then have "distinct (map fst xs)" using assms(2) mset_eq_imp_distinct_iff by blast
  then show ?thesis using assms map_of_inject_set mset_eq_setD by blast
qed

text \<open>Reading one user's policies into empty maps gives exactly the stored values.\<close>

lemma selected_adm_rows:
  assumes "policies_typed view d"
  shows "map (\<lambda>r. map r (columns_of T_DEVICE_ADMIN))
      (filter (row_matches (EqualTo ''user_id'' (int_to_string u) (Predicates T_DEVICE_ADMIN)))
        (db_view view d T_DEVICE_ADMIN))
    = map (\<lambda>((a, p), v). [VInt u, VText a, VText p, VText v]) (adm_of_user u (adm_entries view d))"
proof -
  have m: "row_matches (EqualTo ''user_id'' (int_to_string u) (Predicates T_DEVICE_ADMIN)) (enc_adm e)
      \<longleftrightarrow> fst (fst e) = u" for e
    by (cases e rule: enc_adm.cases) (auto simp: row_matches_def EqualTo_def Predicates_def cell_matches_def)
  have "map (\<lambda>r. map r (columns_of T_DEVICE_ADMIN))
      (filter (row_matches (EqualTo ''user_id'' (int_to_string u) (Predicates T_DEVICE_ADMIN))) (map enc_adm es))
    = map (\<lambda>((a, p), v). [VInt u, VText a, VText p, VText v]) (adm_of_user u es)" for es
    by (induction es) (auto simp: adm_of_user_def m columns_of_def simp del: enc_adm.simps, auto)
  then show ?thesis using typed_rows(1) [OF assms] by metis
qed

lemma selected_comb_rows:
  assumes "policies_typed view d"
  shows "map (\<lambda>r. map r (columns_of T_COMBINED))
      (filter (row_matches (EqualTo ''user_id'' (int_to_string u) (Predicates T_COMBINED)))
        (db_view view d T_COMBINED))
    = map (\<lambda>(p, v). [VInt u, VText p, VText v]) (comb_of_user u (comb_entries view d))"
proof -
  have m: "row_matches (EqualTo ''user_id'' (int_to_string u) (Predicates T_COMBINED)) (enc_comb e)
      \<longleftrightarrow> fst (fst e) = u" for e
    by (cases e rule: enc_comb.cases) (auto simp: row_matches_def EqualTo_def Predicates_def cell_matches_def)
  have "map (\<lambda>r. map r (columns_of T_COMBINED))
      (filter (row_matches (EqualTo ''user_id'' (int_to_string u) (Predicates T_COMBINED))) (map enc_comb es))
    = map (\<lambda>(p, v). [VInt u, VText p, VText v]) (comb_of_user u es)" for es
    by (induction es) (auto simp: comb_of_user_def m columns_of_def simp del: enc_comb.simps, auto)
  then show ?thesis using typed_rows(2) [OF assms] by metis
qed

lemma QueryAdminPolicy_result:
  assumes "policies_ok (R, view, d)" "QueryAdminPolicy R u ([], []) d = (ok, (ap, pa), d')"
  shows "db_view view d' = db_view view d"
    and "ok \<Longrightarrow> tab_ok ap \<and> tab_ok pa
      \<and> lookup2 ap a p = adm_look (R, view, d) (u, a, p) \<and> lookup2 pa p a = adm_look (R, view, d) (u, a, p)"
    and "\<not> ok \<Longrightarrow> ap = [] \<and> pa = []"
proof -
  let ?p = "EqualTo ''user_id'' (int_to_string u) (Predicates T_DEVICE_ADMIN)"
  obtain rs d1 where q: "Rdb_Query R ?p [] d = (rs, d1)" by (rule prod.exhaust)
  have laws: "rdb_laws R view" and typed: "policies_typed view d"
    and dist: "distinct (map fst (adm_entries view d))"
    using assms(1) by (auto simp: policies_ok_def)
  show "db_view view d' = db_view view d"
    using assms(2) Rdb_Query_view(1) [OF laws q] by (auto simp: QueryAdminPolicy_def q split: option.splits)
  show "\<not> ok \<Longrightarrow> ap = [] \<and> pa = []"
    using assms(2) by (auto simp: QueryAdminPolicy_def q split: option.splits)
  assume ok
  then obtain rows where rows: "rs = Some rows" and load: "(ap, pa) = read_admin_policy_rows R rows ([], [])"
    using assms(2) by (auto simp: QueryAdminPolicy_def q split: option.splits)
  have "mset (map tl rows) =
      mset (map (\<lambda>((a, p), v). [VInt u, VText a, VText p, VText v]) (adm_of_user u (adm_entries view d)))"
    using Rdb_Query_view(2) [OF laws q rows] selected_adm_rows [OF typed, of u] by simp
  then obtain es where es: "map tl rows = map (\<lambda>((a, p), v). [VInt u, VText a, VText p, VText v]) es"
    and perm: "mset es = mset (adm_of_user u (adm_entries view d))"
    using mset_map_preimage by blast
  have "map_of es = map_of (adm_of_user u (adm_entries view d))"
    by (rule map_of_mset_eq [OF perm distinct_adm_of_user [OF dist]])
  then show "tab_ok ap \<and> tab_ok pa
      \<and> lookup2 ap a p = adm_look (R, view, d) (u, a, p) \<and> lookup2 pa p a = adm_look (R, view, d) (u, a, p)"
    using load_entries_lookup [of es "[]" "[]" ap pa a p] load read_rows_load [OF es laws]
    by (simp add: map_of_adm_of_user adm_look_def)
qed

lemma QueryCombinedPolicy_result:
  assumes "policies_ok (R, view, d)" "QueryCombinedPolicy R u [] d = (ok, items, d')"
  shows "db_view view d' = db_view view d"
    and "ok \<Longrightarrow> al_keys_distinct items \<and> map_of items p = comb_look (R, view, d) (u, p)"
    and "\<not> ok \<Longrightarrow> items = []"
proof -
  let ?p = "EqualTo ''user_id'' (int_to_string u) (Predicates T_COMBINED)"
  obtain rs d1 where q: "Rdb_Query R ?p [] d = (rs, d1)" by (rule prod.exhaust)
  have laws: "rdb_laws R view" and typed: "policies_typed view d"
    and dist: "distinct (map fst (comb_entries view d))"
    using assms(1) by (auto simp: policies_ok_def)
  show "db_view view d' = db_view view d"
    using assms(2) Rdb_Query_view(1) [OF laws q] by (auto simp: QueryCombinedPolicy_def q split: option.splits)
  show "\<not> ok \<Longrightarrow> items = []"
    using assms(2) by (auto simp: QueryCombinedPolicy_def q split: option.splits)
  assume ok
  then obtain rows where rows: "rs = Some rows" and load: "items = read_combined_policy_rows R rows []"
    using assms(2) by (auto simp: QueryCombinedPolicy_def q split: option.splits)
  have "mset (map tl rows) =
      mset (map (\<lambda>(p, v). [VInt u, VText p, VText v]) (comb_of_user u (comb_entries view d)))"
    using Rdb_Query_view(2) [OF laws q rows] selected_comb_rows [OF typed, of u] by simp
  then obtain es where es: "map tl rows = map (\<lambda>(p, v). [VInt u, VText p, VText v]) es"
    and perm: "mset es = mset (comb_of_user u (comb_entries view d))"
    using mset_map_preimage by blast
  have "map_of es = map_of (comb_of_user u (comb_entries view d))"
    by (rule map_of_mset_eq [OF perm distinct_comb_of_user [OF dist]])
  then show "al_keys_distinct items \<and> map_of items p = comb_look (R, view, d) (u, p)"
    using load_combined_lookup [of es "[]" p] load read_combined_load [OF es laws]
      load_combined_distinct [of "[]" es]
    by (simp add: map_of_comb_of_user comb_look_def)
qed

end
