(* ===== verification/User_Policy_Manager.thy ===== *)
theory User_Policy_Manager
  imports Device_Policies_Storage
begin

text \<open>
  \<open>services/edm/src/user_policy_manager.cpp\<close>: the policies of one user in memory, kept three times
  (\<open>combinedPolicies_\<close>, \<open>adminPolicies_\<close> by administrator and policy, \<open>policyAdmins_\<close> by policy and
  administrator) and written through to the database.
\<close>

record upm =
  userIdState :: user_id
  combinedPolicies :: policy_items
  adminPolicies :: policy_table
  policyAdmins :: policy_table

definition UserPolicyManager :: "user_id \<Rightarrow> upm" where
  "UserPolicyManager userId =
     \<lparr> userIdState = userId, combinedPolicies = [], adminPolicies = [], policyAdmins = [] \<rparr>"

subsection \<open>Reading\<close>

text \<open>An output parameter is the argument and the second result; it keeps its value on failure.\<close>

definition Upm_GetAdminByPolicyName :: "string \<Rightarrow> policy_items \<Rightarrow> upm \<Rightarrow> err_code \<times> policy_items" where
  "Upm_GetAdminByPolicyName policyName adminValueItems m =
     (case map_of (policyAdmins m) policyName of
        Some items \<Rightarrow> (ERR_OK, items)
      | None \<Rightarrow> (ERR_EDM_POLICY_NOT_FOUND, adminValueItems))"

definition Upm_GetAllPolicyByAdmin :: "string \<Rightarrow> policy_items \<Rightarrow> upm \<Rightarrow> err_code \<times> policy_items" where
  "Upm_GetAllPolicyByAdmin adminName allAdminPolicy m =
     (case map_of (adminPolicies m) adminName of
        Some items \<Rightarrow> (ERR_OK, items)
      | None \<Rightarrow> (ERR_EDM_POLICY_NOT_FIND, allAdminPolicy))"

definition GetAdminPolicy :: "string \<Rightarrow> string \<Rightarrow> string \<Rightarrow> upm \<Rightarrow> err_code \<times> string" where
  "GetAdminPolicy adminName policyName policyValue m =
     (case map_of (adminPolicies m) adminName of
        Some policyItem \<Rightarrow>
          (case map_of policyItem policyName of
             Some v \<Rightarrow> (ERR_OK, v)
           | None \<Rightarrow> (ERR_EDM_POLICY_NOT_FIND, policyValue))
      | None \<Rightarrow> (ERR_EDM_POLICY_NOT_FIND, policyValue))"

definition GetCombinedPolicy :: "string \<Rightarrow> string \<Rightarrow> upm \<Rightarrow> err_code \<times> string" where
  "GetCombinedPolicy policyName policyValue m =
     (case map_of (combinedPolicies m) policyName of
        Some v \<Rightarrow> (ERR_OK, v)
      | None \<Rightarrow> (ERR_EDM_POLICY_NOT_FIND, policyValue))"

definition Upm_GetPolicy :: "string \<Rightarrow> string \<Rightarrow> string \<Rightarrow> upm \<Rightarrow> err_code \<times> string" where
  "Upm_GetPolicy adminName policyName policyValue m =
     (if adminName = [] then GetCombinedPolicy policyName policyValue m
      else GetAdminPolicy adminName policyName policyValue m)"

subsection \<open>Writing\<close>

definition SetAdminList :: "string \<Rightarrow> string \<Rightarrow> string \<Rightarrow> upm \<Rightarrow> upm" where
  "SetAdminList adminName policyName policyValue m =
     (case map_of (policyAdmins m) policyName of
        None \<Rightarrow> m\<lparr>policyAdmins :=
          al_insert policyName (al_insert adminName policyValue []) (policyAdmins m)\<rparr>
      | Some adminValueRef \<Rightarrow> m\<lparr>policyAdmins :=
          AList.update policyName (AList.update adminName policyValue adminValueRef) (policyAdmins m)\<rparr>)"

definition SetAdminPolicy :: "'s rdb \<Rightarrow> string \<Rightarrow> string \<Rightarrow> string \<Rightarrow> upm \<times> 's edm_db
    \<Rightarrow> err_code \<times> upm \<times> 's edm_db" where
  "SetAdminPolicy R adminName policyName policyValue = (\<lambda>(m, d).
     (let (inst, d) = DevicePolicies_GetInstance R d in
      if \<not> inst then (ERR_GET_STORAGE_RDB_FAILED, m, d)
      else
        (let m = SetAdminList adminName policyName policyValue m in
         case map_of (adminPolicies m) adminName of
           None \<Rightarrow>
             (let (ok, d) = InsertAdminPolicy R (userIdState m) adminName policyName policyValue d in
              if ok then (ERR_OK, m\<lparr>adminPolicies :=
                al_insert adminName (al_insert policyName policyValue []) (adminPolicies m)\<rparr>, d)
              else (ERR_EDM_POLICY_SET_FAILED, m, d))
         | Some policyItem \<Rightarrow>
             (if map_of policyItem policyName \<noteq> None then
               (let (ok, d) = UpdateAdminPolicy R (userIdState m) adminName policyName policyValue d in
                if ok then (ERR_OK, m\<lparr>adminPolicies :=
                  AList.update adminName (AList.update policyName policyValue policyItem) (adminPolicies m)\<rparr>, d)
                else (ERR_EDM_POLICY_SET_FAILED, m, d))
              else
               (let (ok, d) = InsertAdminPolicy R (userIdState m) adminName policyName policyValue d in
                if ok then (ERR_OK, m\<lparr>adminPolicies :=
                  AList.update adminName (al_insert policyName policyValue policyItem) (adminPolicies m)\<rparr>, d)
                else (ERR_EDM_POLICY_SET_FAILED, m, d))))))"

definition SetCombinedPolicy :: "'s rdb \<Rightarrow> string \<Rightarrow> string \<Rightarrow> upm \<times> 's edm_db
    \<Rightarrow> err_code \<times> upm \<times> 's edm_db" where
  "SetCombinedPolicy R policyName policyValue = (\<lambda>(m, d).
     (let (inst, d) = DevicePolicies_GetInstance R d in
      if \<not> inst then (ERR_GET_STORAGE_RDB_FAILED, m, d)
      else if map_of (combinedPolicies m) policyName \<noteq> None then
        (let (ok, d) = UpdateCombinedPolicy R (userIdState m) policyName policyValue d in
         if ok then (ERR_OK, m\<lparr>combinedPolicies :=
           AList.update policyName policyValue (combinedPolicies m)\<rparr>, d)
         else (ERR_EDM_POLICY_SET_FAILED, m, d))
      else
        (let (ok, d) = InsertCombinedPolicy R (userIdState m) policyName policyValue d in
         if ok then (ERR_OK, m\<lparr>combinedPolicies :=
           al_insert policyName policyValue (combinedPolicies m)\<rparr>, d)
         else (ERR_EDM_POLICY_SET_FAILED, m, d))))"

definition DeleteAdminList :: "string \<Rightarrow> string \<Rightarrow> upm \<Rightarrow> upm" where
  "DeleteAdminList adminName policyName m =
     (case map_of (policyAdmins m) policyName of
        None \<Rightarrow> m
      | Some adminValueRef \<Rightarrow>
          (if map_of adminValueRef adminName = None then m
           else
             (let rest = AList.delete adminName adminValueRef in
              m\<lparr>policyAdmins := (if rest = [] then AList.delete policyName (policyAdmins m)
                 else AList.update policyName rest (policyAdmins m))\<rparr>)))"

definition DeleteAdminPolicy :: "'s rdb \<Rightarrow> string \<Rightarrow> string \<Rightarrow> upm \<times> 's edm_db
    \<Rightarrow> err_code \<times> upm \<times> 's edm_db" where
  "DeleteAdminPolicy R adminName policyName = (\<lambda>(m, d).
     (let (inst, d) = DevicePolicies_GetInstance R d in
      if \<not> inst then (ERR_GET_STORAGE_RDB_FAILED, m, d)
      else
        (let (ok, d) = Storage_DeleteAdminPolicy R (userIdState m) adminName policyName d in
         if \<not> ok then (ERR_EDM_POLICY_DEL_FAILED, m, d)
         else
           (case map_of (adminPolicies m) adminName of
              None \<Rightarrow> (ERR_OK, m, d)
            | Some policyItem \<Rightarrow>
                (let rest = AList.delete policyName policyItem;
                     m = m\<lparr>adminPolicies := (if rest = [] then AList.delete adminName (adminPolicies m)
                            else AList.update adminName rest (adminPolicies m))\<rparr>
                 in (ERR_OK, DeleteAdminList adminName policyName m, d))))))"

definition DeleteCombinedPolicy :: "'s rdb \<Rightarrow> string \<Rightarrow> upm \<times> 's edm_db
    \<Rightarrow> err_code \<times> upm \<times> 's edm_db" where
  "DeleteCombinedPolicy R policyName = (\<lambda>(m, d).
     (let (inst, d) = DevicePolicies_GetInstance R d in
      if \<not> inst then (ERR_GET_STORAGE_RDB_FAILED, m, d)
      else
        (let (ok, d) = Storage_DeleteCombinedPolicy R (userIdState m) policyName d in
         if \<not> ok then (ERR_EDM_POLICY_DEL_FAILED, m, d)
         else (ERR_OK, m\<lparr>combinedPolicies := AList.delete policyName (combinedPolicies m)\<rparr>, d))))"

text \<open>The loop over all inner maps of \<open>policyAdmins_\<close>.\<close>

fun rename_admin :: "string \<Rightarrow> string \<Rightarrow> policy_table \<Rightarrow> policy_table" where
  "rename_admin adminName newAdminName [] = []"
| "rename_admin adminName newAdminName ((policy, adminMap) # rest) =
     (policy, (case map_of adminMap adminName of
                 None \<Rightarrow> adminMap
               | Some v \<Rightarrow> AList.update newAdminName v (AList.delete adminName adminMap)))
     # rename_admin adminName newAdminName rest"

definition ReplacePolicyByAdminName :: "'s rdb \<Rightarrow> user_id \<Rightarrow> string \<Rightarrow> string \<Rightarrow> upm \<times> 's edm_db
    \<Rightarrow> err_code \<times> upm \<times> 's edm_db" where
  "ReplacePolicyByAdminName R userId adminName newAdminName = (\<lambda>(m, d).
     (let (inst, d) = DevicePolicies_GetInstance R d in
      if \<not> inst then (ERR_GET_STORAGE_RDB_FAILED, m, d)
      else
        (let (ok, d) = ReplaceAdminPolicy R userId adminName newAdminName d in
         if \<not> ok then (ERR_EDM_POLICY_REPLACE_FAILED, m, d)
         else
           (let m = (case map_of (adminPolicies m) adminName of
                       None \<Rightarrow> m
                     | Some policyMap \<Rightarrow> m\<lparr>adminPolicies :=
                         AList.update newAdminName policyMap (AList.delete adminName (adminPolicies m))\<rparr>);
                m = m\<lparr>policyAdmins := rename_admin adminName newAdminName (policyAdmins m)\<rparr>
            in (ERR_OK, m, d)))))"

definition Upm_SetPolicy :: "'s rdb \<Rightarrow> string \<Rightarrow> string \<Rightarrow> string \<Rightarrow> string \<Rightarrow> upm \<times> 's edm_db
    \<Rightarrow> err_code \<times> upm \<times> 's edm_db" where
  "Upm_SetPolicy R adminName policyName adminPolicy mergedPolicy md =
     (if policyName = [] then (ERR_EDM_POLICY_SET_FAILED, md)
      else
        (let (err, md) = (if mergedPolicy = [] then DeleteCombinedPolicy R policyName md
                          else SetCombinedPolicy R policyName mergedPolicy md);
             (err, md) = (if adminName \<noteq> [] then
                            (if adminPolicy = [] then DeleteAdminPolicy R adminName policyName md
                             else SetAdminPolicy R adminName policyName adminPolicy md)
                          else (err, md))
         in (err, md)))"

definition Upm_Init :: "'s rdb \<Rightarrow> upm \<times> 's edm_db \<Rightarrow> upm \<times> 's edm_db" where
  "Upm_Init R = (\<lambda>(m, d).
     (let (inst, d) = DevicePolicies_GetInstance R d in
      if \<not> inst then (m, d)
      else
        (let (ok, (ap, pa), d) = QueryAdminPolicy R (userIdState m) (adminPolicies m, policyAdmins m) d;
             m = m\<lparr>adminPolicies := ap, policyAdmins := pa\<rparr>
         in if \<not> ok then (m, d)
            else
              (let (ok, items, d) = QueryCombinedPolicy R (userIdState m) (combinedPolicies m) d
               in (m\<lparr>combinedPolicies := items\<rparr>, d)))))"

subsection \<open>Two-level lookups\<close>

lemma lookup2_update:
  "lookup2 (AList.update a m t) a' b = (if a' = a then map_of m b else lookup2 t a' b)"
  by (simp add: lookup2_def)

lemma lookup2_delete: "lookup2 (AList.delete a t) a' b = (if a' = a then None else lookup2 t a' b)"
  by (simp add: lookup2_def)

lemma lookup2_Some_outer: "lookup2 t a b = Some v \<Longrightarrow> \<exists>m. map_of t a = Some m \<and> map_of m b = Some v"
  by (auto simp: lookup2_def split: option.splits)

lemma tab_ok_inner:
  "tab_ok t \<Longrightarrow> map_of t a = Some m \<Longrightarrow> al_keys_distinct m \<and> m \<noteq> []"
  by (auto simp: tab_ok_def dest: al_all_lookup)

lemma tab_ok_update:
  "tab_ok t \<Longrightarrow> al_keys_distinct m \<Longrightarrow> m \<noteq> [] \<Longrightarrow> tab_ok (AList.update a m t)"
  by (auto simp: tab_ok_def intro!: al_all_update)

lemma tab_ok_delete: "tab_ok t \<Longrightarrow> tab_ok (AList.delete a t)"
  by (auto simp: tab_ok_def)

text \<open>Writing and erasing one value, as the two sides of the cache do.\<close>

definition put2 :: "string \<Rightarrow> string \<Rightarrow> string \<Rightarrow> policy_table \<Rightarrow> policy_table" where
  "put2 a b v t = AList.update a
     (AList.update b v (case map_of t a of None \<Rightarrow> [] | Some m \<Rightarrow> m)) t"

definition del2 :: "string \<Rightarrow> string \<Rightarrow> policy_table \<Rightarrow> policy_table" where
  "del2 a b t = (case map_of t a of None \<Rightarrow> t
     | Some m \<Rightarrow> (if map_of m b = None then t else
         (if AList.delete b m = [] then AList.delete a t else AList.update a (AList.delete b m) t)))"

lemma lookup2_put2: "lookup2 (put2 a b v t) a' b' = (if a' = a \<and> b' = b then Some v else lookup2 t a' b')"
  by (auto simp: put2_def lookup2_def split: option.splits)

lemma tab_ok_put2: "tab_ok t \<Longrightarrow> tab_ok (put2 a b v t)"
  by (auto simp: put2_def intro!: tab_ok_update split: option.splits dest: tab_ok_inner)

lemma delete_Nil_lookup: "AList.delete b m = [] \<Longrightarrow> b' \<noteq> b \<Longrightarrow> map_of m b' = None"
proof -
  assume e: "AList.delete b m = []" and n: "b' \<noteq> b"
  have "((map_of m)(b := None)) b' = map_of (AList.delete b m) b'" by simp
  then show "map_of m b' = None" using e n by simp
qed

lemma lookup2_del2: "lookup2 (del2 a b t) a' b' = (if a' = a \<and> b' = b then None else lookup2 t a' b')"
  by (auto simp: del2_def lookup2_def delete_Nil_lookup split: option.splits)

lemma tab_ok_del2: "tab_ok t \<Longrightarrow> tab_ok (del2 a b t)"
  by (auto simp: del2_def intro!: tab_ok_update tab_ok_delete split: option.splits dest: tab_ok_inner)

lemma SetAdminList_put2: "SetAdminList a p v m = m\<lparr>policyAdmins := put2 p a v (policyAdmins m)\<rparr>"
  by (auto simp: SetAdminList_def put2_def al_insert_def split: option.splits)

lemma DeleteAdminList_del2: "DeleteAdminList a p m = m\<lparr>policyAdmins := del2 p a (policyAdmins m)\<rparr>"
  by (auto simp: DeleteAdminList_def del2_def Let_def split: option.splits)

subsection \<open>Agreement of memory and database\<close>

text \<open>The cache holds exactly the rows of its user.\<close>

definition upm_agrees :: "'s rdb \<Rightarrow> 's db_viewer \<Rightarrow> upm \<times> 's edm_db \<Rightarrow> bool" where
  "upm_agrees R view = (\<lambda>(m, d). policies_ok (R, view, d)
     \<and> tab_ok (adminPolicies m) \<and> tab_ok (policyAdmins m) \<and> al_keys_distinct (combinedPolicies m)
     \<and> (\<forall>a p. lookup2 (adminPolicies m) a p = adm_look (R, view, d) (userIdState m, a, p))
     \<and> (\<forall>p. map_of (combinedPolicies m) p = comb_look (R, view, d) (userIdState m, p)))"

text \<open>The reverse index says the same as the index.\<close>

definition index_ok :: "upm \<Rightarrow> bool" where
  "index_ok m = (\<forall>a p. lookup2 (policyAdmins m) p a = lookup2 (adminPolicies m) a p)"

lemma policies_ok_db_view:
  "db_view view d' = db_view view d \<Longrightarrow> policies_ok (R, view, d') = policies_ok (R, view, d)
     \<and> adm_look (R, view, d') = adm_look (R, view, d) \<and> comb_look (R, view, d') = comb_look (R, view, d)"
  by (simp add: policies_ok_def policies_typed_def adm_look_def comb_look_def adm_entries_def comb_entries_def)

lemma policies_ok_laws: "policies_ok (R, view, d) \<Longrightarrow> rdb_laws R view \<and> policies_typed view d"
  by (simp add: policies_ok_def)

lemma instance_policies:
  assumes "policies_ok (R, view, d)" "DevicePolicies_GetInstance R d = (ok, d')"
  shows "policies_ok (R, view, d')" "adm_look (R, view, d') = adm_look (R, view, d)"
    "comb_look (R, view, d') = comb_look (R, view, d)"
  using policies_ok_db_view [OF instance_view [OF conjunct1 [OF policies_ok_laws [OF assms(1)]] assms(2)], of R]
    assms(1) by simp_all

text \<open>The two write-throughs and the two deletions on the database.\<close>

lemma adm_write:
  assumes "policies_ok (R, view, d)" "c = adm_look (R, view, d) (u, a, p)"
    "(if c \<noteq> None then UpdateAdminPolicy R u a p v d else InsertAdminPolicy R u a p v d) = (ok, d')"
  shows "policies_ok (R, view, d')"
    "adm_look (R, view, d') = (if ok then (adm_look (R, view, d))((u, a, p) \<mapsto> v) else adm_look (R, view, d))"
    "comb_look (R, view, d') = comb_look (R, view, d)"
proof -
  note laws = policies_ok_laws [OF assms(1), THEN conjunct1] policies_ok_laws [OF assms(1), THEN conjunct2]
  have wt: "adm_tab.write_through (\<lambda>_. c) (u, a, p) v (R, view, d) = (ok, (R, view, d'))"
    unfolding adm_tab.write_through_def using assms(3) by (auto simp: on_db_def split: if_splits)
  show "policies_ok (R, view, d')"
    "adm_look (R, view, d') = (if ok then (adm_look (R, view, d))((u, a, p) \<mapsto> v) else adm_look (R, view, d))"
    using adm_tab.write_through_coherent [OF assms(1) assms(2) wt] by simp_all
  show "comb_look (R, view, d') = comb_look (R, view, d)"
    using assms(3) InsertAdminPolicy_step [OF laws, of u a p v ok d']
      UpdateAdminPolicy_step [OF laws, of u a p v ok d']
    by (simp add: comb_look_def adm_step_def split: if_splits)
qed

lemma comb_write:
  assumes "policies_ok (R, view, d)" "c = comb_look (R, view, d) (u, p)"
    "(if c \<noteq> None then UpdateCombinedPolicy R u p v d else InsertCombinedPolicy R u p v d) = (ok, d')"
  shows "policies_ok (R, view, d')"
    "comb_look (R, view, d') = (if ok then (comb_look (R, view, d))((u, p) \<mapsto> v) else comb_look (R, view, d))"
    "adm_look (R, view, d') = adm_look (R, view, d)"
proof -
  note laws = policies_ok_laws [OF assms(1), THEN conjunct1] policies_ok_laws [OF assms(1), THEN conjunct2]
  have wt: "comb_tab.write_through (\<lambda>_. c) (u, p) v (R, view, d) = (ok, (R, view, d'))"
    unfolding comb_tab.write_through_def using assms(3) by (auto simp: on_db_def split: if_splits)
  show "policies_ok (R, view, d')"
    "comb_look (R, view, d') = (if ok then (comb_look (R, view, d))((u, p) \<mapsto> v) else comb_look (R, view, d))"
    using comb_tab.write_through_coherent [OF assms(1) assms(2) wt] by simp_all
  show "adm_look (R, view, d') = adm_look (R, view, d)"
    using assms(3) InsertCombinedPolicy_step [OF laws, of u p v ok d']
      UpdateCombinedPolicy_step [OF laws, of u p v ok d']
    by (simp add: adm_look_def comb_step_def split: if_splits)
qed

lemma adm_erase:
  assumes "policies_ok (R, view, d)" "Storage_DeleteAdminPolicy R u a p d = (ok, d')"
  shows "policies_ok (R, view, d')"
    "adm_look (R, view, d') = (if ok then (adm_look (R, view, d))((u, a, p) := None) else adm_look (R, view, d))"
    "comb_look (R, view, d') = comb_look (R, view, d)"
  using adm_tab.delete_coherent [OF assms(1), of "(u, a, p)" ok "(R, view, d')"] assms(2)
    DeleteAdminPolicy_step [OF _ _ assms(2)] policies_ok_laws [OF assms(1)]
  by (auto simp: on_db_def comb_look_def adm_step_def)

lemma comb_erase:
  assumes "policies_ok (R, view, d)" "Storage_DeleteCombinedPolicy R u p d = (ok, d')"
  shows "policies_ok (R, view, d')"
    "comb_look (R, view, d') = (if ok then (comb_look (R, view, d))((u, p) := None) else comb_look (R, view, d))"
    "adm_look (R, view, d') = adm_look (R, view, d)"
  using comb_tab.delete_coherent [OF assms(1), of "(u, p)" ok "(R, view, d')"] assms(2)
    DeleteCombinedPolicy_step [OF _ _ assms(2)] policies_ok_laws [OF assms(1)]
  by (auto simp: on_db_def adm_look_def comb_step_def)

subsection \<open>The operations against the database\<close>

lemma instance_agrees:
  assumes "upm_agrees R view (m, d)" "DevicePolicies_GetInstance R d = (inst, d')"
  shows "upm_agrees R view (m, d')" "adm_look (R, view, d') = adm_look (R, view, d)"
    "comb_look (R, view, d') = comb_look (R, view, d)"
  using assms(1) instance_policies [OF _ assms(2), of view] by (simp_all add: upm_agrees_def)

text \<open>\<open>SetAdminPolicy\<close> with the cache update in one place.\<close>

lemma SetAdminPolicy_alt:
  "SetAdminPolicy R a p v (m, d) =
     (let (inst, d) = DevicePolicies_GetInstance R d in
      if \<not> inst then (ERR_GET_STORAGE_RDB_FAILED, m, d)
      else
        (let m = m\<lparr>policyAdmins := put2 p a v (policyAdmins m)\<rparr>;
             c = lookup2 (adminPolicies m) a p;
             (ok, d) = (if c \<noteq> None then UpdateAdminPolicy R (userIdState m) a p v d
                        else InsertAdminPolicy R (userIdState m) a p v d)
         in if ok then (ERR_OK, m\<lparr>adminPolicies := put2 a p v (adminPolicies m)\<rparr>, d)
            else (ERR_EDM_POLICY_SET_FAILED, m, d)))"
  by (auto simp: SetAdminPolicy_def SetAdminList_put2 Let_def lookup2_def put2_def al_insert_def
      split: prod.splits option.splits)

lemma SetAdminPolicy_spec:
  assumes "upm_agrees R view (m, d)" "SetAdminPolicy R a p v (m, d) = (err, m', d')"
  shows "upm_agrees R view (m', d')"
    "userIdState m' = userIdState m \<and> combinedPolicies m' = combinedPolicies m"
    "adm_look (R, view, d') = (if err = ERR_OK
       then (adm_look (R, view, d))((userIdState m, a, p) \<mapsto> v) else adm_look (R, view, d))"
    "comb_look (R, view, d') = comb_look (R, view, d)"
    "index_ok m \<Longrightarrow> err = ERR_OK \<or> err = ERR_GET_STORAGE_RDB_FAILED \<Longrightarrow> index_ok m'"
proof -
  let ?u = "userIdState m"
  obtain inst d1 where i: "DevicePolicies_GetInstance R d = (inst, d1)" by (rule prod.exhaust)
  note a1 = instance_agrees [OF assms(1) i]
  let ?c = "lookup2 (adminPolicies m) a p"
  obtain ok d2 where w: "(if ?c \<noteq> None then UpdateAdminPolicy R ?u a p v d1
     else InsertAdminPolicy R ?u a p v d1) = (ok, d2)" by (rule prod.exhaust)
  have ok1: "policies_ok (R, view, d1)" and c: "?c = adm_look (R, view, d1) (?u, a, p)"
    using a1(1) by (simp_all add: upm_agrees_def)
  note w1 = adm_write [OF ok1 c w]
  have res: "(err, m', d') =
     (if \<not> inst then (ERR_GET_STORAGE_RDB_FAILED, m, d1)
      else if ok then (ERR_OK, m\<lparr>policyAdmins := put2 p a v (policyAdmins m),
             adminPolicies := put2 a p v (adminPolicies m)\<rparr>, d2)
      else (ERR_EDM_POLICY_SET_FAILED, m\<lparr>policyAdmins := put2 p a v (policyAdmins m)\<rparr>, d2))"
    using assms(2) w by (auto simp: SetAdminPolicy_alt i Let_def split: if_splits)
  show "upm_agrees R view (m', d')"
    using res a1(1) w1 by (auto simp: upm_agrees_def lookup2_put2 tab_ok_put2 split: if_splits)
  show "userIdState m' = userIdState m \<and> combinedPolicies m' = combinedPolicies m"
    using res by (auto split: if_splits)
  show "adm_look (R, view, d') = (if err = ERR_OK
       then (adm_look (R, view, d))((?u, a, p) \<mapsto> v) else adm_look (R, view, d))"
    "comb_look (R, view, d') = comb_look (R, view, d)"
    using res a1 w1 by (auto split: if_splits)
  show "index_ok m \<Longrightarrow> err = ERR_OK \<or> err = ERR_GET_STORAGE_RDB_FAILED \<Longrightarrow> index_ok m'"
    using res by (auto simp: index_ok_def lookup2_put2 split: if_splits)
qed

lemma SetCombinedPolicy_spec:
  assumes "upm_agrees R view (m, d)" "SetCombinedPolicy R p v (m, d) = (err, m', d')"
  shows "upm_agrees R view (m', d')"
    "userIdState m' = userIdState m \<and> adminPolicies m' = adminPolicies m \<and> policyAdmins m' = policyAdmins m"
    "comb_look (R, view, d') = (if err = ERR_OK
       then (comb_look (R, view, d))((userIdState m, p) \<mapsto> v) else comb_look (R, view, d))"
    "adm_look (R, view, d') = adm_look (R, view, d)"
proof -
  let ?u = "userIdState m"
  obtain inst d1 where i: "DevicePolicies_GetInstance R d = (inst, d1)" by (rule prod.exhaust)
  note a1 = instance_agrees [OF assms(1) i]
  let ?c = "map_of (combinedPolicies m) p"
  obtain ok d2 where w: "(if ?c \<noteq> None then UpdateCombinedPolicy R ?u p v d1
     else InsertCombinedPolicy R ?u p v d1) = (ok, d2)" by (rule prod.exhaust)
  have ok1: "policies_ok (R, view, d1)" and c: "?c = comb_look (R, view, d1) (?u, p)"
    using a1(1) by (simp_all add: upm_agrees_def)
  note w1 = comb_write [OF ok1 c w]
  have res: "(err, m', d') =
     (if \<not> inst then (ERR_GET_STORAGE_RDB_FAILED, m, d1)
      else if ok then (ERR_OK, m\<lparr>combinedPolicies := AList.update p v (combinedPolicies m)\<rparr>, d2)
      else (ERR_EDM_POLICY_SET_FAILED, m, d2))"
    using assms(2) w by (auto simp: SetCombinedPolicy_def i al_insert_def Let_def split: if_splits)
  show "upm_agrees R view (m', d')"
    using res a1(1) w1 by (auto simp: upm_agrees_def split: if_splits)
  show "userIdState m' = userIdState m \<and> adminPolicies m' = adminPolicies m \<and> policyAdmins m' = policyAdmins m"
    using res by (auto split: if_splits)
  show "comb_look (R, view, d') = (if err = ERR_OK
       then (comb_look (R, view, d))((?u, p) \<mapsto> v) else comb_look (R, view, d))"
    "adm_look (R, view, d') = adm_look (R, view, d)"
    using res a1 w1 by (auto split: if_splits)
qed

lemma DeleteAdminPolicy_spec:
  assumes "upm_agrees R view (m, d)" "DeleteAdminPolicy R a p (m, d) = (err, m', d')"
  shows "upm_agrees R view (m', d')"
    "userIdState m' = userIdState m \<and> combinedPolicies m' = combinedPolicies m"
    "adm_look (R, view, d') = (if err = ERR_OK
       then (adm_look (R, view, d))((userIdState m, a, p) := None) else adm_look (R, view, d))"
    "comb_look (R, view, d') = comb_look (R, view, d)"
    "index_ok m \<Longrightarrow> index_ok m'"
proof -
  let ?u = "userIdState m"
  obtain inst d1 where i: "DevicePolicies_GetInstance R d = (inst, d1)" by (rule prod.exhaust)
  note a1 = instance_agrees [OF assms(1) i]
  obtain ok d2 where w: "Storage_DeleteAdminPolicy R ?u a p d1 = (ok, d2)" by (rule prod.exhaust)
  have ok1: "policies_ok (R, view, d1)" and tabs: "tab_ok (adminPolicies m)"
    using a1(1) by (simp_all add: upm_agrees_def)
  note w1 = adm_erase [OF ok1 w]
  let ?drop = "map_of (adminPolicies m) a \<noteq> None"
  have upd: "(case map_of (adminPolicies m) a of None \<Rightarrow> (ERR_OK, m, d2)
      | Some policyItem \<Rightarrow>
          (let rest = AList.delete p policyItem;
               m = m\<lparr>adminPolicies := (if rest = [] then AList.delete a (adminPolicies m)
                      else AList.update a rest (adminPolicies m))\<rparr>
           in (ERR_OK, DeleteAdminList a p m, d2)))
    = (ERR_OK, (if ?drop then m\<lparr>adminPolicies := (case map_of (adminPolicies m) a of Some it \<Rightarrow>
          (if AList.delete p it = [] then AList.delete a (adminPolicies m)
           else AList.update a (AList.delete p it) (adminPolicies m))),
        policyAdmins := del2 p a (policyAdmins m)\<rparr> else m), d2)"
    by (auto simp: DeleteAdminList_del2 Let_def split: option.splits)
  define ap' where "ap' = (case map_of (adminPolicies m) a of None \<Rightarrow> adminPolicies m
     | Some it \<Rightarrow> (if AList.delete p it = [] then AList.delete a (adminPolicies m)
           else AList.update a (AList.delete p it) (adminPolicies m)))"
  have look': "lookup2 ap' a' p' = (if a' = a \<and> p' = p then None else lookup2 (adminPolicies m) a' p')" for a' p'
    by (auto simp: ap'_def lookup2_def delete_Nil_lookup split: option.splits)
  have tab': "tab_ok ap'"
    using tabs by (auto simp: ap'_def intro!: tab_ok_update tab_ok_delete split: option.splits dest: tab_ok_inner)
  have res: "(err, m', d') =
     (if \<not> inst then (ERR_GET_STORAGE_RDB_FAILED, m, d1)
      else if \<not> ok then (ERR_EDM_POLICY_DEL_FAILED, m, d2)
      else (ERR_OK, (if ?drop then m\<lparr>adminPolicies := ap', policyAdmins := del2 p a (policyAdmins m)\<rparr> else m), d2))"
    using assms(2) w by (auto simp: DeleteAdminPolicy_def i upd ap'_def DeleteAdminList_del2 Let_def
        split: option.splits)
  have absent: "\<not> ?drop \<Longrightarrow> lookup2 (adminPolicies m) a b = None" for b by (simp add: lookup2_def)
  show "upm_agrees R view (m', d')"
    using res a1(1) w1 look' tab' absent by (auto simp: upm_agrees_def tab_ok_del2 split: if_splits)
  show "userIdState m' = userIdState m \<and> combinedPolicies m' = combinedPolicies m"
    using res by (auto split: if_splits)
  show "adm_look (R, view, d') = (if err = ERR_OK
       then (adm_look (R, view, d))((?u, a, p) := None) else adm_look (R, view, d))"
    "comb_look (R, view, d') = comb_look (R, view, d)"
    using res a1 w1 by (auto split: if_splits)
  show "index_ok m \<Longrightarrow> index_ok m'"
    using res look' by (auto simp: index_ok_def lookup2_del2 split: if_splits)
qed

lemma DeleteCombinedPolicy_spec:
  assumes "upm_agrees R view (m, d)" "DeleteCombinedPolicy R p (m, d) = (err, m', d')"
  shows "upm_agrees R view (m', d')"
    "userIdState m' = userIdState m \<and> adminPolicies m' = adminPolicies m \<and> policyAdmins m' = policyAdmins m"
    "comb_look (R, view, d') = (if err = ERR_OK
       then (comb_look (R, view, d))((userIdState m, p) := None) else comb_look (R, view, d))"
    "adm_look (R, view, d') = adm_look (R, view, d)"
proof -
  obtain inst d1 where i: "DevicePolicies_GetInstance R d = (inst, d1)" by (rule prod.exhaust)
  note a1 = instance_agrees [OF assms(1) i]
  obtain ok d2 where w: "Storage_DeleteCombinedPolicy R (userIdState m) p d1 = (ok, d2)" by (rule prod.exhaust)
  have ok1: "policies_ok (R, view, d1)" using a1(1) by (simp add: upm_agrees_def)
  note w1 = comb_erase [OF ok1 w]
  have res: "(err, m', d') =
     (if \<not> inst then (ERR_GET_STORAGE_RDB_FAILED, m, d1)
      else if \<not> ok then (ERR_EDM_POLICY_DEL_FAILED, m, d2)
      else (ERR_OK, m\<lparr>combinedPolicies := AList.delete p (combinedPolicies m)\<rparr>, d2))"
    using assms(2) w by (auto simp: DeleteCombinedPolicy_def i Let_def split: if_splits)
  show "upm_agrees R view (m', d')"
    using res a1(1) w1 by (auto simp: upm_agrees_def split: if_splits)
  show "userIdState m' = userIdState m \<and> adminPolicies m' = adminPolicies m \<and> policyAdmins m' = policyAdmins m"
    using res by (auto split: if_splits)
  show "comb_look (R, view, d') = (if err = ERR_OK
       then (comb_look (R, view, d))((userIdState m, p) := None) else comb_look (R, view, d))"
    "adm_look (R, view, d') = adm_look (R, view, d)"
    using res a1 w1 by (auto split: if_splits)
qed

lemma Upm_SetPolicy_spec:
  assumes "upm_agrees R view (m, d)" "Upm_SetPolicy R a p av mv (m, d) = (err, m', d')"
  shows "upm_agrees R view (m', d')" "userIdState m' = userIdState m"
    "\<exists>cerr. comb_look (R, view, d') = (if p \<noteq> [] \<and> cerr = ERR_OK
       then (comb_look (R, view, d))((userIdState m, p) := (if mv = [] then None else Some mv))
       else comb_look (R, view, d)) \<and> (a = [] \<and> p \<noteq> [] \<longrightarrow> cerr = err)"
    "adm_look (R, view, d') = (if p \<noteq> [] \<and> a \<noteq> [] \<and> err = ERR_OK
       then (adm_look (R, view, d))((userIdState m, a, p) := (if av = [] then None else Some av))
       else adm_look (R, view, d))"
    "index_ok m \<Longrightarrow> a = [] \<or> err = ERR_OK \<or> err = ERR_GET_STORAGE_RDB_FAILED \<or> av = [] \<Longrightarrow> index_ok m'"
proof -
  let ?u = "userIdState m"
  obtain e1 m1 d1 where c: "(if mv = [] then DeleteCombinedPolicy R p (m, d)
      else SetCombinedPolicy R p mv (m, d)) = (e1, m1, d1)" by (metis prod.exhaust)
  have c1: "upm_agrees R view (m1, d1)" "userIdState m1 = ?u"
    "adminPolicies m1 = adminPolicies m" "policyAdmins m1 = policyAdmins m"
    "comb_look (R, view, d1) = (if e1 = ERR_OK
       then (comb_look (R, view, d))((?u, p) := (if mv = [] then None else Some mv)) else comb_look (R, view, d))"
    "adm_look (R, view, d1) = adm_look (R, view, d)"
    using c DeleteCombinedPolicy_spec [OF assms(1), of p e1 m1 d1]
      SetCombinedPolicy_spec [OF assms(1), of p mv e1 m1 d1] by (auto split: if_splits)
  obtain e2 m2 d2 where w: "(if av = [] then DeleteAdminPolicy R a p (m1, d1)
      else SetAdminPolicy R a p av (m1, d1)) = (e2, m2, d2)" by (metis prod.exhaust)
  have w1: "upm_agrees R view (m2, d2)" "userIdState m2 = ?u"
    "adm_look (R, view, d2) = (if e2 = ERR_OK
       then (adm_look (R, view, d))((?u, a, p) := (if av = [] then None else Some av)) else adm_look (R, view, d))"
    "comb_look (R, view, d2) = comb_look (R, view, d1)"
    "index_ok m1 \<Longrightarrow> e2 = ERR_OK \<or> e2 = ERR_GET_STORAGE_RDB_FAILED \<or> av = [] \<Longrightarrow> index_ok m2"
    using w c1 DeleteAdminPolicy_spec [OF c1(1), of a p e2 m2 d2]
      SetAdminPolicy_spec [OF c1(1), of a p av e2 m2 d2] by (auto split: if_splits)
  have res: "(err, m', d') = (if p = [] then (ERR_EDM_POLICY_SET_FAILED, m, d)
      else if a \<noteq> [] then (e2, m2, d2) else (e1, m1, d1))"
    using assms(2) c w by (auto simp: Upm_SetPolicy_def Let_def split: if_splits)
  have idx: "index_ok m \<Longrightarrow> index_ok m1" using c1 by (simp add: index_ok_def)
  show "upm_agrees R view (m', d')" "userIdState m' = ?u"
    using res assms(1) c1 w1 by (auto split: if_splits)
  show "\<exists>cerr. comb_look (R, view, d') = (if p \<noteq> [] \<and> cerr = ERR_OK
       then (comb_look (R, view, d))((?u, p) := (if mv = [] then None else Some mv))
       else comb_look (R, view, d)) \<and> (a = [] \<and> p \<noteq> [] \<longrightarrow> cerr = err)"
    by (rule exI [of _ e1]) (use res c1 w1 in \<open>auto split: if_splits\<close>)
  show "adm_look (R, view, d') = (if p \<noteq> [] \<and> a \<noteq> [] \<and> err = ERR_OK
       then (adm_look (R, view, d))((?u, a, p) := (if av = [] then None else Some av))
       else adm_look (R, view, d))"
    using res c1 w1 by (auto split: if_splits)
  show "index_ok m \<Longrightarrow> a = [] \<or> err = ERR_OK \<or> err = ERR_GET_STORAGE_RDB_FAILED \<or> av = [] \<Longrightarrow> index_ok m'"
    using res idx w1(5) by (auto split: if_splits)
qed

text \<open>Reading on a state that agrees is reading the database.\<close>

lemma Upm_GetPolicy_agrees:
  assumes "upm_agrees R view (m, d)"
  shows "Upm_GetPolicy a p v0 m =
    (case (if a = [] then comb_look (R, view, d) (userIdState m, p)
           else adm_look (R, view, d) (userIdState m, a, p)) of
       Some v \<Rightarrow> (ERR_OK, v) | None \<Rightarrow> (ERR_EDM_POLICY_NOT_FIND, v0))"
proof -
  have l: "lookup2 (adminPolicies m) a p = adm_look (R, view, d) (userIdState m, a, p)"
    "map_of (combinedPolicies m) p = comb_look (R, view, d) (userIdState m, p)"
    using assms by (simp_all add: upm_agrees_def)
  show ?thesis
    by (simp add: Upm_GetPolicy_def GetCombinedPolicy_def GetAdminPolicy_def l(2) flip: l(1))
      (simp add: lookup2_def split: option.splits)
qed

text \<open>\<open>Init\<close> of a new manager. It reports nothing; when a query fails the memory stays empty.\<close>

definition queries_answer :: "'s rdb \<Rightarrow> bool" where
  "queries_answer R = ((\<forall>s. fst (rdb_open R s)) \<and> (\<forall>sql s. fst (rdb_exec R sql s) = 0)
     \<and> (\<forall>p cols s. \<exists>rs. rdb_query R p cols s = Some rs \<and> has_block rs))"

lemma GetRdbStore_answers:
  assumes "queries_answer R"
  obtains d' where "GetRdbStore R d = (True, d')"
    "isDeviceAdminTableInit d' = isDeviceAdminTableInit d"
proof -
  have "fst (rdb_open R (store d))" using assms by (simp add: queries_answer_def)
  then obtain s where "rdb_open R (store d) = (True, s)" by (metis (full_types) prod.collapse)
  then show thesis
    by (intro that [of "if rdbStore d then d else d\<lparr>rdbStore := True, store := s\<rparr>"])
      (simp_all add: GetRdbStore_def)
qed

lemma CreateTable_answers:
  assumes "queries_answer R" "sql \<noteq> []"
  obtains d' where "CreateTable R sql d = (True, d')"
    "isDeviceAdminTableInit d' = isDeviceAdminTableInit d"
proof -
  obtain d1 where g: "GetRdbStore R d = (True, d1)"
    "isDeviceAdminTableInit d1 = isDeviceAdminTableInit d"
    by (rule GetRdbStore_answers [OF assms(1)])
  have "fst (rdb_exec R sql (store d1)) = 0" using assms(1) by (simp add: queries_answer_def)
  then obtain s where "rdb_exec R sql (store d1) = (0, s)" by (metis prod.collapse)
  then show thesis
    using that [of "d1\<lparr>store := s\<rparr>"] g assms(2) by (simp add: CreateTable_def)
qed

lemma sql_nonempty [simp]: "device_admin_policies_sql \<noteq> []" "device_combined_policies_sql \<noteq> []"
  by (simp_all add: device_admin_policies_sql_def device_combined_policies_sql_def)

lemma instance_answers:
  assumes "queries_answer R"
  obtains d' where "DevicePolicies_GetInstance R d = (True, d')"
proof -
  obtain d1 where 1: "CreateTable R device_admin_policies_sql d = (True, d1)"
    by (rule CreateTable_answers [OF assms sql_nonempty(1)])
  define e where "e = (if isDeviceAdminTableInit d then d else d1\<lparr>isDeviceAdminTableInit := True\<rparr>)"
  obtain d2 where 2: "CreateTable R device_combined_policies_sql e = (True, d2)"
    "isDeviceAdminTableInit d2 = isDeviceAdminTableInit e"
    by (rule CreateTable_answers [OF assms sql_nonempty(2)])
  show thesis
    by (rule that [of "if isCombinedPoliciesTableInit e then e else d2\<lparr>isCombinedPoliciesTableInit := True\<rparr>"])
      (use 1 2 in \<open>cases "isDeviceAdminTableInit d"; simp add: DevicePolicies_GetInstance_def
         CreateDeviceAdminPoliciesTable_def CreateDeviceCombinedPoliciesTable_def Let_def e_def\<close>)
qed

lemma Rdb_Query_answers:
  assumes "queries_answer R"
  obtains rows d' where "Rdb_Query R p cols d = (Some rows, d')"
proof -
  obtain d1 where g: "GetRdbStore R d = (True, d1)" by (rule GetRdbStore_answers [OF assms])
  obtain rs where "rdb_query R p cols (store d1) = Some rs" "has_block rs"
    using assms unfolding queries_answer_def by blast
  with g have "Rdb_Query R p cols d = (Some (rs_rows rs), d1)" by (simp add: Rdb_Query_def)
  then show thesis by (rule that)
qed

lemma QueryAdminPolicy_answers:
  assumes "queries_answer R"
  obtains ap pa d' where "QueryAdminPolicy R u t d = (True, (ap, pa), d')"
proof -
  obtain rows d' where "Rdb_Query R (EqualTo ''user_id'' (int_to_string u) (Predicates T_DEVICE_ADMIN)) [] d
      = (Some rows, d')" by (rule Rdb_Query_answers [OF assms])
  then show thesis
    using that [of "fst (read_admin_policy_rows R rows t)" "snd (read_admin_policy_rows R rows t)" d']
    by (simp add: QueryAdminPolicy_def)
qed

lemma QueryCombinedPolicy_answers:
  assumes "queries_answer R"
  obtains items d' where "QueryCombinedPolicy R u t d = (True, items, d')"
proof -
  obtain rows d' where "Rdb_Query R (EqualTo ''user_id'' (int_to_string u) (Predicates T_COMBINED)) [] d
      = (Some rows, d')" by (rule Rdb_Query_answers [OF assms])
  then show thesis using that by (simp add: QueryCombinedPolicy_def)
qed

lemma Upm_Init_spec:
  assumes "policies_ok (R, view, d)" "queries_answer R" "Upm_Init R (UserPolicyManager u, d) = (m, d')"
  shows "upm_agrees R view (m, d')" "index_ok m" "userIdState m = u"
    "adm_look (R, view, d') = adm_look (R, view, d)" "comb_look (R, view, d') = comb_look (R, view, d)"
proof -
  obtain d1 where i: "DevicePolicies_GetInstance R d = (True, d1)"
    by (rule instance_answers [OF assms(2)])
  note i1 = instance_policies [OF assms(1) i]
  obtain ap pa d2 where q: "QueryAdminPolicy R u ([], []) d1 = (True, (ap, pa), d2)"
    by (rule QueryAdminPolicy_answers [OF assms(2)])
  note q1 = QueryAdminPolicy_result [OF i1(1) q]
  note v2 = policies_ok_db_view [OF q1(1), of R]
  have ok2: "policies_ok (R, view, d2)" using v2 i1 by simp
  obtain items d3 where c: "QueryCombinedPolicy R u [] d2 = (True, items, d3)"
    by (rule QueryCombinedPolicy_answers [OF assms(2)])
  note c1 = QueryCombinedPolicy_result [OF ok2 c]
  note v3 = policies_ok_db_view [OF c1(1), of R]
  have res: "m = \<lparr> userIdState = u, combinedPolicies = items, adminPolicies = ap, policyAdmins = pa \<rparr>"
    "d' = d3"
    using assms(3) by (simp_all add: Upm_Init_def UserPolicyManager_def i q c)
  show "upm_agrees R view (m, d')" "index_ok m" "userIdState m = u"
    "adm_look (R, view, d') = adm_look (R, view, d)" "comb_look (R, view, d') = comb_look (R, view, d)"
    using q1(2) c1(2) v2 v3 i1 by (simp_all add: res upm_agrees_def index_ok_def)
qed

subsection \<open>Replacing an administrator\<close>

text \<open>All entries of one administrator of one user move to a name that has none.\<close>

definition moved :: "user_id \<Rightarrow> string \<Rightarrow> string \<Rightarrow> (adm_key \<Rightarrow> string option) \<Rightarrow> adm_key \<Rightarrow> string option" where
  "moved u a n f = (\<lambda>(u', a', p). if u' = u \<and> a' = n then f (u, a, p)
     else if u' = u \<and> a' = a then None else f (u', a', p))"

fun move_key :: "user_id \<Rightarrow> string \<Rightarrow> string \<Rightarrow> adm_key \<Rightarrow> adm_key" where
  "move_key u a n (u', a', p) = (u', if u' = u \<and> a' = a then n else a', p)"

definition move_entry :: "user_id \<Rightarrow> string \<Rightarrow> string \<Rightarrow> adm_key \<times> string \<Rightarrow> adm_key \<times> string" where
  "move_entry u a n e = (move_key u a n (fst e), snd e)"

lemma move_entry_lambda:
  "(\<lambda>((u', a', p), v). ((u', if u' = u \<and> a' = a then n else a', p), v)) = move_entry u a n"
  by (rule ext) (auto simp: move_entry_def split: prod.splits)

lemma move_key_inj:
  assumes "\<forall>p. k \<noteq> (u, n, p)" "\<forall>p. k' \<noteq> (u, n, p)" "move_key u a n k = move_key u a n k'"
  shows "k = k'"
  using assms by (cases k; cases k') (auto split: if_splits)

lemma moved_key:
  assumes "\<forall>p. k \<noteq> (u, n, p)" "n \<noteq> a"
  shows "moved u a n (f(k \<mapsto> v)) = (moved u a n f)(move_key u a n k \<mapsto> v)"
proof (rule ext)
  fix x show "moved u a n (f(k \<mapsto> v)) x = ((moved u a n f)(move_key u a n k \<mapsto> v)) x"
    using assms by (cases x; cases k) (auto simp: moved_def)
qed

lemma map_of_move:
  assumes "\<forall>p. map_of es (u, n, p) = None" "n \<noteq> a"
  shows "map_of (map (move_entry u a n) es) = moved u a n (map_of es)"
  using assms(1)
proof (induction es)
  case Nil
  then show ?case by (auto simp: moved_def fun_eq_iff)
next
  case (Cons e es)
  have e: "\<forall>p. fst e \<noteq> (u, n, p)" and es: "\<forall>p. map_of es (u, n, p) = None"
    using Cons.prems by (cases e; auto split: if_splits)+
  have eq: "map_of (e # es) = (map_of es)(fst e \<mapsto> snd e)"
    "map_of (map (move_entry u a n) (e # es)) = (map_of (map (move_entry u a n) es))(move_key u a n (fst e) \<mapsto> snd e)"
    by (simp_all add: move_entry_def)
  show ?case
    unfolding eq moved_key [OF e assms(2)] Cons.IH [OF es] by (rule refl)
qed

lemma distinct_move:
  assumes "distinct (map fst es)" "\<forall>p. map_of es (u, n, p) = None"
  shows "distinct (map fst (map (move_entry u a n) es))"
proof -
  have no: "k \<in> set (map fst es) \<Longrightarrow> \<forall>p. k \<noteq> (u, n, p)" for k
    using assms(2) by (metis map_of_eq_None_iff set_map)
  have "inj_on (move_key u a n) (set (map fst es))"
    by (rule inj_onI) (rule move_key_inj [OF no no])
  moreover have "map fst (map (move_entry u a n) es) = map (move_key u a n) (map fst es)"
    by (simp add: move_entry_def)
  ultimately show ?thesis using assms(1) by (simp only: distinct_map)
qed

lemma lookup2_rename_admin:
  assumes "n \<noteq> a"
  shows "lookup2 (rename_admin a n t) p b =
    (if b = n \<and> lookup2 t p a \<noteq> None then lookup2 t p a else if b = a then None else lookup2 t p b)"
  using assms by (induction t) (auto simp: lookup2_def split: option.splits)

lemma tab_ok_rename_admin: "tab_ok t \<Longrightarrow> tab_ok (rename_admin a n t)"
proof -
  have keys: "map fst (rename_admin a n t) = map fst t" for t
    by (induction t) auto
  have "al_all (\<lambda>_ m. al_keys_distinct m \<and> m \<noteq> []) t
      \<Longrightarrow> al_all (\<lambda>_ m. al_keys_distinct m \<and> m \<noteq> []) (rename_admin a n t)"
    by (induction t) (auto simp: al_all_def split: option.splits)
  then show "tab_ok t \<Longrightarrow> tab_ok (rename_admin a n t)"
    by (simp add: tab_ok_def al_keys_distinct_def keys)
qed

lemma ReplacePolicyByAdminName_spec:
  assumes "upm_agrees R view (m, d)" "index_ok m" "n \<noteq> a"
    and fresh: "\<forall>p. adm_look (R, view, d) (userIdState m, n, p) = None"
    and run: "ReplacePolicyByAdminName R (userIdState m) a n (m, d) = (err, m', d')"
  shows "upm_agrees R view (m', d') \<and> index_ok m'"
    "adm_look (R, view, d') = (if err = ERR_OK then moved (userIdState m) a n (adm_look (R, view, d))
       else adm_look (R, view, d))"
    "comb_look (R, view, d') = comb_look (R, view, d)"
proof -
  let ?u = "userIdState m"
  obtain inst d1 where i: "DevicePolicies_GetInstance R d = (inst, d1)" by (rule prod.exhaust)
  note a1 = instance_agrees [OF assms(1) i]
  obtain ok d2 where w: "ReplaceAdminPolicy R ?u a n d1 = (ok, d2)" by (rule prod.exhaust)
  have laws: "rdb_laws R view" "policies_typed view d1"
    and dist: "distinct (map fst (adm_entries view d1))" "distinct (map fst (comb_entries view d1))"
    and look: "\<forall>a p. lookup2 (adminPolicies m) a p = adm_look (R, view, d1) (?u, a, p)"
    and tab: "tab_ok (adminPolicies m)" "tab_ok (policyAdmins m)"
    using a1(1) by (simp_all add: upm_agrees_def policies_ok_def)
  note st = ReplaceAdminPolicy_step [OF laws w, unfolded move_entry_lambda]
  have fresh1: "\<forall>p. map_of (adm_entries view d1) (?u, n, p) = None"
    using fresh a1(2) by (simp add: adm_look_def)
  have w1: "policies_ok (R, view, d2)"
    "adm_look (R, view, d2) = (if ok then moved ?u a n (adm_look (R, view, d1)) else adm_look (R, view, d1))"
    "comb_look (R, view, d2) = comb_look (R, view, d1)"
    using st laws dist map_of_move [OF fresh1 assms(3)] distinct_move [OF dist(1) fresh1, of a]
    by (simp_all add: adm_step_def policies_ok_def adm_look_def comb_look_def del: map_map)
  define ap' where "ap' = (case map_of (adminPolicies m) a of None \<Rightarrow> adminPolicies m
     | Some policyMap \<Rightarrow> AList.update n policyMap (AList.delete a (adminPolicies m)))"
  have fresh2: "lookup2 (adminPolicies m) n p = None" for p using look fresh a1(2) by simp
  have look': "lookup2 ap' b p = (if b = n then lookup2 (adminPolicies m) a p
      else if b = a then None else lookup2 (adminPolicies m) b p)" for b p
    using fresh2 [of p] by (auto simp: ap'_def lookup2_def split: option.splits)
  have tab': "tab_ok ap'"
    using tab by (auto simp: ap'_def intro!: tab_ok_update tab_ok_delete split: option.splits dest: tab_ok_inner)
  have res: "(err, m', d') = (if \<not> inst then (ERR_GET_STORAGE_RDB_FAILED, m, d1)
      else if \<not> ok then (ERR_EDM_POLICY_REPLACE_FAILED, m, d2)
      else (ERR_OK, m\<lparr>adminPolicies := ap', policyAdmins := rename_admin a n (policyAdmins m)\<rparr>, d2))"
    using run w by (auto simp: ReplacePolicyByAdminName_def i ap'_def Let_def split: option.splits if_splits)
  have idx: "index_ok (m\<lparr>adminPolicies := ap', policyAdmins := rename_admin a n (policyAdmins m)\<rparr>)"
    using assms(2,3) fresh2 by (auto simp: index_ok_def look' lookup2_rename_admin)
  show "upm_agrees R view (m', d') \<and> index_ok m'"
    using res a1(1) w1 assms(2) idx tab' tab tab_ok_rename_admin
    by (auto simp: upm_agrees_def look' moved_def split: if_splits)
  show "adm_look (R, view, d') = (if err = ERR_OK then moved ?u a n (adm_look (R, view, d))
       else adm_look (R, view, d))"
    "comb_look (R, view, d') = comb_look (R, view, d)"
    using res a1 w1 by (auto split: if_splits)
qed

end
