(* ===== verification/Policy_Manager.thy ===== *)
theory Policy_Manager
  imports User_Policy_Manager
begin

text \<open>
  \<open>services/edm/src/policy_manager.cpp\<close>: one \<open>UserPolicyManager\<close> per user, the one of the default
  user in a member of its own, each loaded from the database when it is first asked for. The
  shared pointers alias only the entries of this table, so an operation reads a manager out, runs
  on it and stores it back.
\<close>

record policy_mgr =
  defaultPolicyMgr :: "upm option"
  policyMgrMap :: "(user_id, upm) amap"

definition policy_mgr0 :: policy_mgr where
  "policy_mgr0 = \<lparr> defaultPolicyMgr = None, policyMgrMap = [] \<rparr>"

subsection \<open>Operations\<close>

definition GetUserPolicyMgr :: "'s rdb \<Rightarrow> user_id \<Rightarrow> policy_mgr \<times> 's edm_db
    \<Rightarrow> upm \<times> policy_mgr \<times> 's edm_db" where
  "GetUserPolicyMgr R userId = (\<lambda>(pm, d).
     (if userId = DEFAULT_USER_ID then
        (case defaultPolicyMgr pm of
           None \<Rightarrow>
             (let (m, d) = Upm_Init R (UserPolicyManager userId, d)
              in (m, pm\<lparr>defaultPolicyMgr := Some m\<rparr>, d))
         | Some m \<Rightarrow> (m, pm, d))
      else
        (case map_of (policyMgrMap pm) userId of
           Some m \<Rightarrow> (m, pm, d)
         | None \<Rightarrow>
             (let (m, d) = Upm_Init R (UserPolicyManager userId, d)
              in (m, pm\<lparr>policyMgrMap := al_insert userId m (policyMgrMap pm)\<rparr>, d)))))"

text \<open>The update of the shared object.\<close>

definition store_mgr :: "user_id \<Rightarrow> upm \<Rightarrow> policy_mgr \<Rightarrow> policy_mgr" where
  "store_mgr userId m pm =
     (if userId = DEFAULT_USER_ID then pm\<lparr>defaultPolicyMgr := Some m\<rparr>
      else pm\<lparr>policyMgrMap := AList.update userId m (policyMgrMap pm)\<rparr>)"

definition PolicyManager_GetAdminByPolicyName :: "'s rdb \<Rightarrow> string \<Rightarrow> policy_items \<Rightarrow> user_id
    \<Rightarrow> policy_mgr \<times> 's edm_db \<Rightarrow> err_code \<times> policy_items \<times> policy_mgr \<times> 's edm_db" where
  "PolicyManager_GetAdminByPolicyName R policyName items userId s =
     (let (m, s) = GetUserPolicyMgr R userId s;
          (err, items) = Upm_GetAdminByPolicyName policyName items m
      in (err, items, s))"

definition PolicyManager_GetPolicy :: "'s rdb \<Rightarrow> string \<Rightarrow> string \<Rightarrow> string \<Rightarrow> user_id
    \<Rightarrow> policy_mgr \<times> 's edm_db \<Rightarrow> err_code \<times> string \<times> policy_mgr \<times> 's edm_db" where
  "PolicyManager_GetPolicy R adminName policyName policyValue userId s =
     (let (m, s) = GetUserPolicyMgr R userId s;
          (err, v) = Upm_GetPolicy adminName policyName policyValue m
      in (err, v, s))"

definition PolicyManager_GetAllPolicyByAdmin :: "'s rdb \<Rightarrow> string \<Rightarrow> policy_items \<Rightarrow> user_id
    \<Rightarrow> policy_mgr \<times> 's edm_db \<Rightarrow> err_code \<times> policy_items \<times> policy_mgr \<times> 's edm_db" where
  "PolicyManager_GetAllPolicyByAdmin R adminName items userId s =
     (let (m, s) = GetUserPolicyMgr R userId s;
          (err, items) = Upm_GetAllPolicyByAdmin adminName items m
      in (err, items, s))"

fun PolicyManager_Init :: "'s rdb \<Rightarrow> user_id list \<Rightarrow> policy_mgr \<times> 's edm_db
    \<Rightarrow> policy_mgr \<times> 's edm_db" where
  "PolicyManager_Init R [] s = s"
| "PolicyManager_Init R (userId # userIds) (pm, d) =
     (let (m, d) = Upm_Init R (UserPolicyManager userId, d) in
      PolicyManager_Init R userIds
        (if userId = DEFAULT_USER_ID then (pm\<lparr>defaultPolicyMgr := Some m\<rparr>, d)
         else (pm\<lparr>policyMgrMap := al_insert userId m (policyMgrMap pm)\<rparr>, d)))"

definition PolicyManager_SetPolicy :: "'s rdb \<Rightarrow> string \<Rightarrow> string \<Rightarrow> string \<Rightarrow> string \<Rightarrow> user_id
    \<Rightarrow> policy_mgr \<times> 's edm_db \<Rightarrow> err_code \<times> policy_mgr \<times> 's edm_db" where
  "PolicyManager_SetPolicy R adminName policyName adminPolicyValue mergedPolicyValue userId s =
     (let (m, pm, d) = GetUserPolicyMgr R userId s;
          (err, m, d) = Upm_SetPolicy R adminName policyName adminPolicyValue mergedPolicyValue (m, d)
      in (err, store_mgr userId m pm, d))"

definition PolicyManager_ReplaceAllPolicy :: "'s rdb \<Rightarrow> user_id \<Rightarrow> string \<Rightarrow> string
    \<Rightarrow> policy_mgr \<times> 's edm_db \<Rightarrow> err_code \<times> policy_mgr \<times> 's edm_db" where
  "PolicyManager_ReplaceAllPolicy R userId adminName newAdminName s =
     (let (m, pm, d) = GetUserPolicyMgr R userId s;
          (err, m, d) = ReplacePolicyByAdminName R userId adminName newAdminName (m, d)
      in (err, store_mgr userId m pm, d))"

definition GetPolicyUserIds :: "user_id list \<Rightarrow> policy_mgr \<Rightarrow> user_id list" where
  "GetPolicyUserIds userIds pm = userIds @ map fst (policyMgrMap pm)"

subsection \<open>Every loaded manager agrees with the database\<close>

definition mgr_of :: "user_id \<Rightarrow> policy_mgr \<Rightarrow> upm option" where
  "mgr_of u pm = (if u = DEFAULT_USER_ID then defaultPolicyMgr pm else map_of (policyMgrMap pm) u)"

definition pm_agrees :: "'s rdb \<Rightarrow> 's db_viewer \<Rightarrow> policy_mgr \<times> 's edm_db \<Rightarrow> bool" where
  "pm_agrees R view = (\<lambda>(pm, d). policies_ok (R, view, d)
     \<and> (\<forall>u m. mgr_of u pm = Some m \<longrightarrow> upm_agrees R view (m, d) \<and> userIdState m = u))"

lemma mgr_of_store [simp]: "mgr_of u (store_mgr v m pm) = (if u = v then Some m else mgr_of u pm)"
  by (simp add: mgr_of_def store_mgr_def)

text \<open>A manager keeps agreeing while only keys of other users change.\<close>

lemma upm_agrees_frame:
  assumes "upm_agrees R view (m, d)" "policies_ok (R, view, d')"
    "\<forall>a p. adm_look (R, view, d') (userIdState m, a, p) = adm_look (R, view, d) (userIdState m, a, p)"
    "\<forall>p. comb_look (R, view, d') (userIdState m, p) = comb_look (R, view, d) (userIdState m, p)"
  shows "upm_agrees R view (m, d')"
  using assms by (simp add: upm_agrees_def)

lemma upm_agrees_ok: "upm_agrees R view (m, d) \<Longrightarrow> policies_ok (R, view, d)"
  by (simp add: upm_agrees_def)

lemma pm_agreesD:
  "pm_agrees R view (pm, d) \<Longrightarrow> mgr_of u pm = Some m \<Longrightarrow> upm_agrees R view (m, d)"
  "pm_agrees R view (pm, d) \<Longrightarrow> mgr_of u pm = Some m \<Longrightarrow> userIdState m = u"
  "pm_agrees R view (pm, d) \<Longrightarrow> policies_ok (R, view, d)"
  by (simp_all add: pm_agrees_def)

lemma pm_agreesI:
  "policies_ok (R, view, d) \<Longrightarrow>
   (\<And>u m. mgr_of u pm = Some m \<Longrightarrow> upm_agrees R view (m, d) \<and> userIdState m = u) \<Longrightarrow>
   pm_agrees R view (pm, d)"
  unfolding pm_agrees_def split by blast

lemma pm_agrees_frame:
  assumes "pm_agrees R view (pm, d)" "policies_ok (R, view, d')"
    "adm_look (R, view, d') = adm_look (R, view, d)" "comb_look (R, view, d') = comb_look (R, view, d)"
  shows "pm_agrees R view (pm, d')"
proof (rule pm_agreesI [OF assms(2)])
  fix u m assume m: "mgr_of u pm = Some m"
  show "upm_agrees R view (m, d') \<and> userIdState m = u"
    using pm_agreesD [OF assms(1)] m
    by (intro conjI upm_agrees_frame [OF _ assms(2), of m d]) (simp_all add: assms(3,4))
qed

lemma GetUserPolicyMgr_spec:
  assumes "pm_agrees R view (pm, d)" "queries_answer R" "GetUserPolicyMgr R u (pm, d) = (m, pm', d')"
  shows "pm_agrees R view (pm', d')" "mgr_of u pm' = Some m" "upm_agrees R view (m, d')" "userIdState m = u"
    "adm_look (R, view, d') = adm_look (R, view, d)" "comb_look (R, view, d') = comb_look (R, view, d)"
    "mgr_of u pm = None \<Longrightarrow> index_ok m" "\<And>v. v \<noteq> u \<Longrightarrow> mgr_of v pm' = mgr_of v pm"
proof -
  obtain mi di where i: "Upm_Init R (UserPolicyManager u, d) = (mi, di)" by (rule prod.exhaust)
  have ok: "policies_ok (R, view, d)" using assms(1) by (simp add: pm_agrees_def)
  note i1 = Upm_Init_spec [OF ok assms(2) i]
  have get: "(m, pm', d') = (case mgr_of u pm of Some m \<Rightarrow> (m, pm, d)
     | None \<Rightarrow> (mi, store_mgr u mi pm, di))"
    using assms(3) i by (auto simp: GetUserPolicyMgr_def mgr_of_def store_mgr_def al_insert_def
        split: option.splits if_splits)
  have frame: "upm_agrees R view (m2, di)" if "upm_agrees R view (m2, d)" for m2
    using that upm_agrees_ok [OF i1(1)] i1(4,5) by (intro upm_agrees_frame [OF that]) simp_all
  show "pm_agrees R view (pm', d')" "mgr_of u pm' = Some m" "upm_agrees R view (m, d')" "userIdState m = u"
    "adm_look (R, view, d') = adm_look (R, view, d)" "comb_look (R, view, d') = comb_look (R, view, d)"
    "mgr_of u pm = None \<Longrightarrow> index_ok m" "\<And>v. v \<noteq> u \<Longrightarrow> mgr_of v pm' = mgr_of v pm"
    using get assms(1) i1 frame upm_agrees_ok [OF i1(1)]
    by (auto simp: pm_agrees_def split: option.splits if_splits)
qed

lemma pm_agrees_store:
  assumes "pm_agrees R view (pm, d)" "upm_agrees R view (m, d')" "userIdState m = u"
    "\<And>v a p. v \<noteq> u \<Longrightarrow> adm_look (R, view, d') (v, a, p) = adm_look (R, view, d) (v, a, p)"
    "\<And>v p. v \<noteq> u \<Longrightarrow> comb_look (R, view, d') (v, p) = comb_look (R, view, d) (v, p)"
  shows "pm_agrees R view (store_mgr u m pm, d')"
proof -
  have ok: "policies_ok (R, view, d')" by (rule upm_agrees_ok [OF assms(2)])
  have "upm_agrees R view (mv, d') \<and> userIdState mv = v" if mv: "mgr_of v (store_mgr u m pm) = Some mv" for v mv
  proof (cases "v = u")
    case True
    with mv assms(2,3) show ?thesis by simp
  next
    case False
    with mv have "upm_agrees R view (mv, d)" "userIdState mv = v"
      using assms(1) by (simp_all add: pm_agrees_def)
    moreover have "upm_agrees R view (mv, d')"
      by (rule upm_agrees_frame [OF calculation(1) ok])
        (simp_all add: calculation(2) assms(4) [OF False] assms(5) [OF False])
    ultimately show ?thesis by simp
  qed
  with ok show ?thesis unfolding pm_agrees_def split by blast
qed

lemma PolicyManager_SetPolicy_spec:
  assumes "pm_agrees R view (pm, d)" "queries_answer R"
    "PolicyManager_SetPolicy R a p av mv u (pm, d) = (err, pm', d')"
  shows "pm_agrees R view (pm', d')"
    "adm_look (R, view, d') = (if p \<noteq> [] \<and> a \<noteq> [] \<and> err = ERR_OK
       then (adm_look (R, view, d))((u, a, p) := (if av = [] then None else Some av))
       else adm_look (R, view, d))"
    "\<exists>cerr. comb_look (R, view, d') = (if p \<noteq> [] \<and> cerr = ERR_OK
       then (comb_look (R, view, d))((u, p) := (if mv = [] then None else Some mv))
       else comb_look (R, view, d)) \<and> (a = [] \<and> p \<noteq> [] \<longrightarrow> cerr = err)"
proof -
  obtain m pm1 d1 where g: "GetUserPolicyMgr R u (pm, d) = (m, pm1, d1)" by (metis prod.exhaust)
  note g1 = GetUserPolicyMgr_spec [OF assms(1,2) g]
  obtain e m2 d2 where s: "Upm_SetPolicy R a p av mv (m, d1) = (e, m2, d2)" by (metis prod.exhaust)
  note s1 = Upm_SetPolicy_spec [OF g1(3) s]
  have res: "err = e" "pm' = store_mgr u m2 pm1" "d' = d2"
    using assms(3) g s by (simp_all add: PolicyManager_SetPolicy_def)
  show "adm_look (R, view, d') = (if p \<noteq> [] \<and> a \<noteq> [] \<and> err = ERR_OK
       then (adm_look (R, view, d))((u, a, p) := (if av = [] then None else Some av))
       else adm_look (R, view, d))"
    using s1(4) g1 by (simp add: res)
  show c: "\<exists>cerr. comb_look (R, view, d') = (if p \<noteq> [] \<and> cerr = ERR_OK
       then (comb_look (R, view, d))((u, p) := (if mv = [] then None else Some mv))
       else comb_look (R, view, d)) \<and> (a = [] \<and> p \<noteq> [] \<longrightarrow> cerr = err)"
    using s1(3) unfolding res g1(4) g1(6) by simp
  show "pm_agrees R view (pm', d')"
    unfolding res
  proof (rule pm_agrees_store [OF g1(1) s1(1)])
    show "userIdState m2 = u" using s1(2) g1(4) by simp
    show "adm_look (R, view, d2) (v, b, q) = adm_look (R, view, d1) (v, b, q)" if "v \<noteq> u" for v b q
      using that s1(4) g1(4) by auto
    show "comb_look (R, view, d2) (v, q) = comb_look (R, view, d1) (v, q)" if "v \<noteq> u" for v q
    proof -
      from s1(3) obtain cerr where "comb_look (R, view, d2) = (if p \<noteq> [] \<and> cerr = ERR_OK
         then (comb_look (R, view, d1))((userIdState m, p) := (if mv = [] then None else Some mv))
         else comb_look (R, view, d1))" by blast
      then show ?thesis using that g1(4) by (simp split: if_splits)
    qed
  qed
qed

lemma PolicyManager_GetPolicy_spec:
  assumes "pm_agrees R view (pm, d)" "queries_answer R"
    "PolicyManager_GetPolicy R a p v0 u (pm, d) = (err, v, pm', d')"
  shows "pm_agrees R view (pm', d')"
    "adm_look (R, view, d') = adm_look (R, view, d)" "comb_look (R, view, d') = comb_look (R, view, d)"
    "(err, v) = (case (if a = [] then comb_look (R, view, d) (u, p) else adm_look (R, view, d) (u, a, p)) of
       Some w \<Rightarrow> (ERR_OK, w) | None \<Rightarrow> (ERR_EDM_POLICY_NOT_FIND, v0))"
proof -
  obtain m pm1 d1 where g: "GetUserPolicyMgr R u (pm, d) = (m, pm1, d1)" by (metis prod.exhaust)
  note g1 = GetUserPolicyMgr_spec [OF assms(1,2) g]
  have res: "(err, v) = Upm_GetPolicy a p v0 m" "pm' = pm1" "d' = d1"
    using assms(3) g by (auto simp: PolicyManager_GetPolicy_def split: prod.splits)
  show "pm_agrees R view (pm', d')"
    "adm_look (R, view, d') = adm_look (R, view, d)" "comb_look (R, view, d') = comb_look (R, view, d)"
    using g1 by (simp_all add: res)
  show "(err, v) = (case (if a = [] then comb_look (R, view, d) (u, p) else adm_look (R, view, d) (u, a, p)) of
       Some w \<Rightarrow> (ERR_OK, w) | None \<Rightarrow> (ERR_EDM_POLICY_NOT_FIND, v0))"
    using Upm_GetPolicy_agrees [OF g1(3), of a p v0] g1(4-6) by (simp add: res(1))
qed

lemma pm_agrees_initial: "policies_ok (R, view, d) \<Longrightarrow> pm_agrees R view (policy_mgr0, d)"
  by (simp add: pm_agrees_def policy_mgr0_def mgr_of_def)

lemma policies_ok_empty:
  "rdb_laws R view \<Longrightarrow> view (store d) = (\<lambda>_. []) \<Longrightarrow> policies_ok (R, view, d)"
  by (simp add: policies_ok_def policies_typed_def adm_entries_def comb_entries_def db_view_def)

lemma PolicyManager_Replace_spec:
  assumes "pm_agrees R view (pm, d)" "queries_answer R" "n \<noteq> a"
    "\<forall>m. mgr_of u pm = Some m \<longrightarrow> index_ok m"
    "\<forall>p. adm_look (R, view, d) (u, n, p) = None"
    "PolicyManager_ReplaceAllPolicy R u a n (pm, d) = (err, pm', d')"
  shows "pm_agrees R view (pm', d')"
    "adm_look (R, view, d') = (if err = ERR_OK then moved u a n (adm_look (R, view, d))
       else adm_look (R, view, d))"
    "comb_look (R, view, d') = comb_look (R, view, d)"
proof -
  obtain m pm1 d1 where g: "GetUserPolicyMgr R u (pm, d) = (m, pm1, d1)" by (metis prod.exhaust)
  note g1 = GetUserPolicyMgr_spec [OF assms(1,2) g]
  have idx: "index_ok m"
  proof (cases "mgr_of u pm")
    case None
    then show ?thesis by (rule g1(7))
  next
    case (Some m0)
    then have "m = m0" using g by (auto simp: GetUserPolicyMgr_def mgr_of_def split: if_splits)
    with Some assms(4) show ?thesis by blast
  qed
  obtain e m2 d2 where s: "ReplacePolicyByAdminName R u a n (m, d1) = (e, m2, d2)" by (metis prod.exhaust)
  have s1: "upm_agrees R view (m2, d2) \<and> index_ok m2"
    "adm_look (R, view, d2) = (if e = ERR_OK then moved u a n (adm_look (R, view, d)) else adm_look (R, view, d))"
    "comb_look (R, view, d2) = comb_look (R, view, d)"
    using ReplacePolicyByAdminName_spec [OF g1(3) idx assms(3), of e m2 d2] assms(5) s g1(4-6) by simp_all
  have res: "err = e" "pm' = store_mgr u m2 pm1" "d' = d2"
    using assms(6) g s by (simp_all add: PolicyManager_ReplaceAllPolicy_def)
  have uid: "userIdState m2 = u"
    using s g1(4) by (auto simp: ReplacePolicyByAdminName_def Let_def split: if_splits prod.splits option.splits)
  show "adm_look (R, view, d') = (if err = ERR_OK then moved u a n (adm_look (R, view, d))
       else adm_look (R, view, d))" "comb_look (R, view, d') = comb_look (R, view, d)"
    using s1 by (simp_all add: res)
  show "pm_agrees R view (pm', d')"
    unfolding res
    by (rule pm_agrees_store [OF g1(1) conjunct1 [OF s1(1)] uid])
      (simp_all add: s1(2,3) g1(5,6) moved_def)
qed

lemma PolicyManager_Init_agrees:
  assumes "pm_agrees R view (pm, d)" "queries_answer R" "PolicyManager_Init R us (pm, d) = (pm', d')"
  shows "pm_agrees R view (pm', d') \<and> adm_look (R, view, d') = adm_look (R, view, d)
    \<and> comb_look (R, view, d') = comb_look (R, view, d)"
  using assms
proof (induction us arbitrary: pm d)
  case (Cons u us)
  obtain m d1 where i: "Upm_Init R (UserPolicyManager u, d) = (m, d1)" by (metis prod.exhaust)
  have ok: "policies_ok (R, view, d)" using Cons.prems(1) by (simp add: pm_agrees_def)
  note i1 = Upm_Init_spec [OF ok Cons.prems(2) i]
  have base: "pm_agrees R view (pm, d1)"
    by (rule pm_agrees_frame [OF Cons.prems(1) upm_agrees_ok [OF i1(1)] i1(4,5)])
  define pm1 where "pm1 = (if u = DEFAULT_USER_ID then pm\<lparr>defaultPolicyMgr := Some m\<rparr>
     else pm\<lparr>policyMgrMap := al_insert u m (policyMgrMap pm)\<rparr>)"
  have "mgr_of v pm1 = (if v = u \<and> (u = DEFAULT_USER_ID \<or> mgr_of u pm = None) then Some m else mgr_of v pm)" for v
    by (auto simp: pm1_def mgr_of_def map_of_al_insert)
  then have "pm_agrees R view (pm1, d1)"
    using pm_agreesD [OF base] i1(1,3) by (intro pm_agreesI) (auto split: if_splits)
  moreover have "PolicyManager_Init R us (pm1, d1) = (pm', d')"
    using Cons.prems(3) by (simp add: i pm1_def split: if_splits)
  ultimately show ?case
    using Cons.IH [of pm1 d1] Cons.prems(2) i1(4,5) by simp
qed simp

subsection \<open>Reachable states\<close>

text \<open>The calls the rest of the service makes, each taking the manager's lock.\<close>

inductive pm_step :: "'s rdb \<Rightarrow> policy_mgr \<times> 's edm_db \<Rightarrow> policy_mgr \<times> 's edm_db \<Rightarrow> bool"
  for R :: "'s rdb" where
  pm_get: "PolicyManager_GetPolicy R a p v0 u s = (err, v, s') \<Longrightarrow> pm_step R s s'"
| pm_by_policy: "PolicyManager_GetAdminByPolicyName R p items u s = (err, items', s') \<Longrightarrow> pm_step R s s'"
| pm_by_admin: "PolicyManager_GetAllPolicyByAdmin R a items u s = (err, items', s') \<Longrightarrow> pm_step R s s'"
| pm_set: "PolicyManager_SetPolicy R a p av mv u s = (err, s') \<Longrightarrow> pm_step R s s'"
| pm_init: "PolicyManager_Init R us s = s' \<Longrightarrow> pm_step R s s'"

inductive_cases pm_stepE: "pm_step R s s'"

lemma pm_step_agrees:
  assumes "pm_step R s s'" "queries_answer R" "pm_agrees R view s"
  shows "pm_agrees R view s'"
proof -
  obtain pm d where s: "s = (pm, d)" by (rule prod.exhaust)
  obtain pm' d' where s': "s' = (pm', d')" by (rule prod.exhaust)
  note ag = assms(3) [unfolded s]
  note get = GetUserPolicyMgr_spec(1) [OF ag assms(2)]
  from assms(1) show ?thesis
  proof (elim pm_stepE)
    fix a p v0 u err v assume 1: "PolicyManager_GetPolicy R a p v0 u s = (err, v, s')"
    then show "pm_agrees R view s'"
      using PolicyManager_GetPolicy_spec(1) [OF ag assms(2), of a p v0 u err v pm' d'] by (simp add: s s')
  next
    fix p items u err items'
    assume 2: "PolicyManager_GetAdminByPolicyName R p items u s = (err, items', s')"
    then show "pm_agrees R view s'" using get [of u _ pm' d']
      by (auto simp: PolicyManager_GetAdminByPolicyName_def s s' split: prod.splits)
  next
    fix a items u err items'
    assume 3: "PolicyManager_GetAllPolicyByAdmin R a items u s = (err, items', s')"
    then show "pm_agrees R view s'" using get [of u _ pm' d']
      by (auto simp: PolicyManager_GetAllPolicyByAdmin_def s s' split: prod.splits)
  next
    fix a p av mv u err assume 4: "PolicyManager_SetPolicy R a p av mv u s = (err, s')"
    then show "pm_agrees R view s'"
      using PolicyManager_SetPolicy_spec(1) [OF ag assms(2), of a p av mv u err pm' d'] by (simp add: s s')
  next
    fix us assume 5: "PolicyManager_Init R us s = s'"
    then show "pm_agrees R view s'"
      using PolicyManager_Init_agrees [OF ag assms(2), of us pm' d'] by (simp add: s s')
  qed
qed

lemma pm_reachable_agrees:
  assumes "(pm_step R)\<^sup>*\<^sup>* s s'" "queries_answer R" "pm_agrees R view s"
  shows "pm_agrees R view s'"
  using assms(1) by induction (auto intro: pm_step_agrees assms(2,3))

text \<open>A restart of the service: the objects are gone, the store stays.\<close>

definition restart :: "policy_mgr \<times> 's edm_db \<Rightarrow> policy_mgr \<times> 's edm_db" where
  "restart = (\<lambda>(pm, d). (policy_mgr0, edm_db0 (store d)))"

lemma restart_agrees:
  assumes "pm_agrees R view (pm, d)"
  shows "pm_agrees R view (policy_mgr0, edm_db0 (store d))"
    "adm_look (R, view, edm_db0 (store d)) = adm_look (R, view, d)"
    "comb_look (R, view, edm_db0 (store d)) = comb_look (R, view, d)"
proof -
  have v: "db_view view (edm_db0 (store d)) = db_view view d"
    by (simp add: db_view_def edm_db0_def)
  note policies_ok_db_view [OF v, of R]
  then show "pm_agrees R view (policy_mgr0, edm_db0 (store d))"
    "adm_look (R, view, edm_db0 (store d)) = adm_look (R, view, d)"
    "comb_look (R, view, edm_db0 (store d)) = comb_look (R, view, d)"
    using pm_agreesD(3) [OF assms] by (simp_all add: pm_agrees_initial)
qed

lemma list_rdb_answers: "queries_answer list_rdb"
  by (auto simp: queries_answer_def list_rdb_def)



text \<open>C2: A restart of the service loses nothing. In every state that reading, setting and
  initialising can reach, failed writes included, \<open>GetPolicy\<close> gives for every user,
  administrator and policy the same answer as a newly started service on the same database.\<close>

theorem restart_transparent:
  assumes "(pm_step R)\<^sup>*\<^sup>* (policy_mgr0, d0) s" "policies_ok (R, view, d0)" "queries_answer R"
    and "PolicyManager_GetPolicy R b q v0 w s = (err, v, s1)"
    and "PolicyManager_GetPolicy R b q v0 w (restart s) = (err', v', s2)"
  shows "(err', v') = (err, v)"
proof -
  obtain pm d where s: "s = (pm, d)" by (rule prod.exhaust)
  obtain pm1 d1 where s1: "s1 = (pm1, d1)" by (rule prod.exhaust)
  obtain pm2 d2 where s2: "s2 = (pm2, d2)" by (rule prod.exhaust)
  have ag: "pm_agrees R view (pm, d)"
    using pm_reachable_agrees [OF assms(1,3) pm_agrees_initial [OF assms(2)]] by (simp add: s)
  note r = restart_agrees [OF ag]
  show ?thesis
    using PolicyManager_GetPolicy_spec(4) [OF ag assms(3) assms(4) [unfolded s s1]]
      PolicyManager_GetPolicy_spec(4) [OF r(1) assms(3) assms(5) [unfolded s s2 restart_def split]]
    by (simp add: r)
qed

theorem restart_transparent_witness:
  "fst (PolicyManager_GetPolicy list_rdb ''com.a'' ''p'' [] 101 (restart (snd
     (PolicyManager_SetPolicy list_rdb ''com.a'' ''p'' ''v'' [] 101 (policy_mgr0, edm_db0 (empty_store [T_COMBINED]))))))
   = ERR_OK"
proof -
  let ?s0 = "(policy_mgr0, edm_db0 (empty_store [T_COMBINED]))"
  let ?set = "PolicyManager_SetPolicy list_rdb ''com.a'' ''p'' ''v'' [] 101 ?s0"
  have step: "(pm_step list_rdb)\<^sup>*\<^sup>* ?s0 (snd ?set)"
    by (rule r_into_rtranclp, rule pm_set, rule prod.collapse [symmetric])
  have ok: "policies_ok (list_rdb, snd, edm_db0 (empty_store [T_COMBINED]))"
    by (rule policies_ok_empty [OF list_rdb_laws]) (simp add: edm_db0_def empty_store_def)
  have "fst (PolicyManager_GetPolicy list_rdb ''com.a'' ''p'' [] 101 (snd ?set)) = ERR_OK" by code_simp
  with restart_transparent [OF step ok list_rdb_answers, of "''com.a''" "''p''" "[]" 101]
  show ?thesis by (metis (no_types, lifting) fst_conv prod.collapse)
qed



subsection \<open>The reverse index and lost errors\<close>



text \<open>Two ways \<open>SetPolicy\<close> and the memory disagree with the database when a write fails. With
  the combined table broken, \<open>SetPolicy\<close> for a named administrator still returns \<open>ERR_OK\<close> although
  the merged value was not stored; with the administrator table broken it returns
  \<open>ERR_EDM_POLICY_SET_FAILED\<close> but \<open>GetAdminByPolicyName\<close> already lists the administrator with the
  value that \<open>GetPolicy\<close> denies.\<close>

theorem set_policy_partial_failure:
  "(let (err, s) = PolicyManager_SetPolicy list_rdb ''com.a'' ''p'' ''v'' ''v'' 100
          (policy_mgr0, edm_db0 (empty_store [T_COMBINED]));
        (gerr, _, _) = PolicyManager_GetPolicy list_rdb [] ''p'' [] 100 s
    in err = ERR_OK \<and> gerr = ERR_EDM_POLICY_NOT_FIND)
   \<and> (let (err, s) = PolicyManager_SetPolicy list_rdb ''com.a'' ''p'' ''v'' ''v'' 100
          (policy_mgr0, edm_db0 (empty_store [T_DEVICE_ADMIN]));
        (gerr, _, _) = PolicyManager_GetPolicy list_rdb ''com.a'' ''p'' [] 100 s;
        (ierr, items, _) = PolicyManager_GetAdminByPolicyName list_rdb ''p'' [] 100 s
    in err = ERR_EDM_POLICY_SET_FAILED \<and> gerr = ERR_EDM_POLICY_NOT_FIND
       \<and> ierr = ERR_OK \<and> items = [(''com.a'', ''v'')])
   \<and> rdb_laws list_rdb snd"
proof (intro conjI)
  show "rdb_laws list_rdb snd" by (rule list_rdb_laws)
qed code_simp+

end
