(* ===== verification/Plugin.thy ===== *)
theory Plugin
  imports Permission_Checker Policy_Manager
begin

text \<open>
  \<open>interfaces/inner_api/plugin_kits\<close>: what a policy plugin is (\<open>iplugin.h\<close>, \<open>iplugin.cpp\<close>). A plugin is
  a record of its attributes and of its overridden methods. A method can read the policies of the
  service, which is how conflicting policies are found; \<open>'w\<close> stands for everything outside of the
  service that it touches: the two IPC parcels, the event and the system services it configures.
\<close>

subsection \<open>Ordered keys\<close>

text \<open>\<open>permissionMap_\<close> is a \<open>std::map\<close> over operate types: their order is that of the codes.\<close>

instantiation func_operate_type :: linorder
begin

definition less_eq_func_operate_type :: "func_operate_type \<Rightarrow> func_operate_type \<Rightarrow> bool" where
  "less_eq_func_operate_type a b = (operate_type_code a \<le> operate_type_code b)"

definition less_func_operate_type :: "func_operate_type \<Rightarrow> func_operate_type \<Rightarrow> bool" where
  "less_func_operate_type a b = (operate_type_code a < operate_type_code b)"

instance
proof
  fix a b :: func_operate_type
  show "a \<le> b \<Longrightarrow> b \<le> a \<Longrightarrow> a = b"
    by (cases a; cases b) (simp_all add: less_eq_func_operate_type_def operate_type_code_def word_le_nat_alt)
qed (auto simp: less_eq_func_operate_type_def less_func_operate_type_def)

end

text \<open>\<open>std::map::insert\<close>: the entries stay in key order, an existing key keeps its value.\<close>

fun ordered_insert :: "'k::linorder \<Rightarrow> 'v \<Rightarrow> ('k, 'v) amap \<Rightarrow> ('k, 'v) amap" where
  "ordered_insert k v [] = [(k, v)]"
| "ordered_insert k v ((k', v') # m) =
     (if k < k' then (k, v) # (k', v') # m
      else if k = k' then (k', v') # m
      else (k', v') # ordered_insert k v m)"

lemma ordered_insert_lookup:
  "sorted (map fst m) \<Longrightarrow> map_of (ordered_insert k v m) j =
     (if j = k \<and> map_of m k = None then Some v else map_of m j)"
proof (induction m)
  case (Cons kv m)
  obtain k' v' where kv: "kv = (k', v')" by (rule prod.exhaust)
  have "k < k' \<Longrightarrow> map_of m k = None"
    using Cons.prems by (force simp: kv map_of_eq_None_iff)
  then show ?case using Cons.IH Cons.prems by (auto simp: kv)
qed simp

lemma ordered_insert_keys: "set (map fst (ordered_insert k v m)) = insert k (set (map fst m))"
  by (induction k v m rule: ordered_insert.induct) auto

lemma ordered_insert_sorted: "sorted (map fst m) \<Longrightarrow> sorted (map fst (ordered_insert k v m))"
proof (induction m)
  case (Cons kv m)
  then show ?case
    using ordered_insert_keys [of k v m] by (cases kv) (auto simp: less_imp_le image_iff)
qed simp

subsection \<open>Attributes\<close>

record permission_config =
  tagPermissions :: "(string, (permission_type, string) amap) amap"
  typePermissions :: "(permission_type, string) amap"
  apiType :: api_type

definition PolicyPermissionConfig0 :: permission_config where
  "PolicyPermissionConfig0 = \<lparr> tagPermissions = [], typePermissions = [], apiType = API_UNKNOWN \<rparr>"

definition PolicyPermissionConfig :: "string \<Rightarrow> permission_type \<Rightarrow> api_type \<Rightarrow> permission_config" where
  "PolicyPermissionConfig perm permissionType api =
     \<lparr> tagPermissions = [], typePermissions = [(permissionType, perm)], apiType = api \<rparr>"

record handle_policy_data =
  policyData :: string
  mergePolicyData :: string
  isChanged :: bool

datatype plugin_type = PLUGIN_BASIC | PLUGIN_EXTENSION

datatype execute_strategy = STRATEGY_SINGLE | STRATEGY_ENHANCE | STRATEGY_REPLACE

type_synonym plugin_id = nat
type_synonym 's pm_state = "policy_mgr \<times> 's edm_db"

text \<open>\<open>extensionPlugin_\<close> is a shared pointer: plugins live in a store and point to each other by
  \<open>plugin_id\<close>. \<open>strategy_\<close> is \<open>None\<close> for the base class, whose methods only return \<open>ERR_OK\<close>.
  \<open>othersMerge\<close> is \<open>GetOthersMergePolicyData\<close> after the administrators of the policy have been read,
  \<open>None\<close> where the method is not overridden.\<close>

record ('s, 'w) plugin =
  policyCode :: u32
  policyName :: string
  basicPluginCode :: u32
  permissionConfig :: permission_config
  permissionMap :: "(func_operate_type, permission_config) amap"
  extensionPlugin :: "plugin_id option"
  strategy :: "execute_strategy option"
  needSave :: bool
  isGlobal :: bool
  pluginType :: plugin_type
  pluginUnloadFlag :: bool
  onHandlePolicyPrepare :: "u32 \<Rightarrow> handle_policy_data \<Rightarrow> user_id \<Rightarrow> 's pm_state \<times> 'w \<Rightarrow> err_code \<times> handle_policy_data \<times> 's pm_state \<times> 'w"
  onHandlePolicy :: "u32 \<Rightarrow> handle_policy_data \<Rightarrow> user_id \<Rightarrow> 's pm_state \<times> 'w \<Rightarrow> err_code \<times> handle_policy_data \<times> 's pm_state \<times> 'w"
  othersMerge :: "(string \<Rightarrow> (string, string) amap \<Rightarrow> string \<Rightarrow> err_code \<times> string) option"
  onHandlePolicyDone :: "u32 \<Rightarrow> string \<Rightarrow> bool \<Rightarrow> user_id \<Rightarrow> 's pm_state \<times> 'w \<Rightarrow> 's pm_state \<times> 'w"
  onAdminRemove :: "string \<Rightarrow> string \<Rightarrow> string \<Rightarrow> user_id \<Rightarrow> 's pm_state \<times> 'w \<Rightarrow> err_code \<times> 's pm_state \<times> 'w"
  onAdminRemoveDone :: "string \<Rightarrow> string \<Rightarrow> user_id \<Rightarrow> 's pm_state \<times> 'w \<Rightarrow> 's pm_state \<times> 'w"
  onGetPolicy :: "string \<Rightarrow> user_id \<Rightarrow> 's pm_state \<times> 'w \<Rightarrow> err_code \<times> string \<times> 's pm_state \<times> 'w"
  onOtherServiceStart :: "int \<Rightarrow> 's pm_state \<times> 'w \<Rightarrow> 's pm_state \<times> 'w"
  onOtherServiceStartForAdmin :: "string \<Rightarrow> user_id \<Rightarrow> 's pm_state \<times> 'w \<Rightarrow> 's pm_state \<times> 'w"
  onPluginEvent :: "string \<Rightarrow> handle_policy_data \<Rightarrow> user_id \<Rightarrow> 's pm_state \<times> 'w \<Rightarrow> handle_policy_data \<times> 's pm_state \<times> 'w"
  subscribeEvent :: "'s pm_state \<times> 'w \<Rightarrow> 's pm_state \<times> 'w"
  unsubscribeEvent :: "'s pm_state \<times> 'w \<Rightarrow> 's pm_state \<times> 'w"

subsection \<open>The base class\<close>

definition IPlugin_OnHandlePolicy :: "u32 \<Rightarrow> handle_policy_data \<Rightarrow> user_id \<Rightarrow> 'w \<Rightarrow> err_code \<times> handle_policy_data \<times> 'w" where
  "IPlugin_OnHandlePolicy funcCode pd userId w = (ERR_OK, pd, w)"

definition IPlugin_OnHandlePolicyPrepare :: "u32 \<Rightarrow> handle_policy_data \<Rightarrow> user_id \<Rightarrow> 'w \<Rightarrow> err_code \<times> handle_policy_data \<times> 'w" where
  "IPlugin_OnHandlePolicyPrepare funcCode pd userId w = (ERR_OK, pd, w)"

definition IPlugin_OnHandlePolicyDone :: "u32 \<Rightarrow> string \<Rightarrow> bool \<Rightarrow> user_id \<Rightarrow> 's pm_state \<times> 'w \<Rightarrow> 's pm_state \<times> 'w" where
  "IPlugin_OnHandlePolicyDone funcCode adminName isGlobalChanged userId s = s"

definition IPlugin_OnAdminRemove :: "string \<Rightarrow> string \<Rightarrow> string \<Rightarrow> user_id \<Rightarrow> 'w \<Rightarrow> err_code \<times> 'w" where
  "IPlugin_OnAdminRemove adminName value mergeJsonData userId w = (ERR_OK, w)"

definition IPlugin_OnAdminRemoveDone :: "string \<Rightarrow> string \<Rightarrow> user_id \<Rightarrow> 'w \<Rightarrow> 'w" where
  "IPlugin_OnAdminRemoveDone adminName currentJsonData userId w = w"

definition IPlugin_OnGetPolicy :: "string \<Rightarrow> user_id \<Rightarrow> 'w \<Rightarrow> err_code \<times> string \<times> 'w" where
  "IPlugin_OnGetPolicy value userId w = (ERR_OK, value, w)"

definition IPlugin :: "('s, 'w) plugin" where
  "IPlugin = \<lparr> policyCode = 0, policyName = [], basicPluginCode = 0,
     permissionConfig = PolicyPermissionConfig0, permissionMap = [], extensionPlugin = None, strategy = None,
     needSave = True, isGlobal = True, pluginType = PLUGIN_BASIC, pluginUnloadFlag = True,
     onHandlePolicyPrepare = IPlugin_OnHandlePolicyPrepare, onHandlePolicy = IPlugin_OnHandlePolicy,
     othersMerge = None, onHandlePolicyDone = IPlugin_OnHandlePolicyDone,
     onAdminRemove = IPlugin_OnAdminRemove, onAdminRemoveDone = IPlugin_OnAdminRemoveDone,
     onGetPolicy = IPlugin_OnGetPolicy, onOtherServiceStart = (\<lambda>_ w. w),
     onOtherServiceStartForAdmin = (\<lambda>_ _ w. w), onPluginEvent = (\<lambda>_ pd _ w. (pd, w)),
     subscribeEvent = (\<lambda>w. w), unsubscribeEvent = (\<lambda>w. w) \<rparr>"

definition Plugin_GetPolicyName :: "('s, 'w) plugin \<Rightarrow> string" where
  "Plugin_GetPolicyName p = policyName p"

definition NeedSavePolicy :: "('s, 'w) plugin \<Rightarrow> bool" where "NeedSavePolicy p = needSave p"
definition IsGlobalPolicy :: "('s, 'w) plugin \<Rightarrow> bool" where "IsGlobalPolicy p = isGlobal p"
definition GetCode :: "('s, 'w) plugin \<Rightarrow> u32" where "GetCode p = policyCode p"
definition GetBasicPluginCode :: "('s, 'w) plugin \<Rightarrow> u32" where "GetBasicPluginCode p = basicPluginCode p"
definition Plugin_GetPluginType :: "('s, 'w) plugin \<Rightarrow> plugin_type" where "Plugin_GetPluginType p = pluginType p"
definition GetExtensionPlugin :: "('s, 'w) plugin \<Rightarrow> plugin_id option" where "GetExtensionPlugin p = extensionPlugin p"
definition GetExecuteStrategy :: "('s, 'w) plugin \<Rightarrow> execute_strategy option" where "GetExecuteStrategy p = strategy p"

definition SetBasicPluginCode :: "u32 \<Rightarrow> ('s, 'w) plugin \<Rightarrow> ('s, 'w) plugin" where
  "SetBasicPluginCode c p = p\<lparr>basicPluginCode := c\<rparr>"
definition SetExtensionPlugin :: "plugin_id option \<Rightarrow> ('s, 'w) plugin \<Rightarrow> ('s, 'w) plugin" where
  "SetExtensionPlugin e p = p\<lparr>extensionPlugin := e\<rparr>"
definition ResetExtensionPlugin :: "('s, 'w) plugin \<Rightarrow> ('s, 'w) plugin" where
  "ResetExtensionPlugin p = (if extensionPlugin p \<noteq> None then p\<lparr>extensionPlugin := None\<rparr> else p)"
definition SetExecuteStrategy :: "execute_strategy \<Rightarrow> ('s, 'w) plugin \<Rightarrow> ('s, 'w) plugin" where
  "SetExecuteStrategy st p = p\<lparr>strategy := Some st\<rparr>"
definition SetPluginType :: "plugin_type \<Rightarrow> ('s, 'w) plugin \<Rightarrow> ('s, 'w) plugin" where
  "SetPluginType t p = p\<lparr>pluginType := t\<rparr>"

definition GetAllPermission :: "('s, 'w) plugin \<Rightarrow> permission_config list" where
  "GetAllPermission p = (if permissionMap p \<noteq> [] then map snd (permissionMap p) else [permissionConfig p])"

text \<open>One level of the lookup: a single entry answers every type, several are searched.\<close>

definition permission_of_types :: "permission_type \<Rightarrow> (permission_type, string) amap \<Rightarrow> string option" where
  "permission_of_types permissionType types =
     (if length types = 1 then Some (snd (hd types))
      else if length types > 1 then map_of types permissionType else None)"

definition CheckAndGetPermissionFromConfig :: "permission_type \<Rightarrow> string
    \<Rightarrow> (string, (permission_type, string) amap) amap \<Rightarrow> (permission_type, string) amap \<Rightarrow> string" where
  "CheckAndGetPermissionFromConfig permissionType tag tags types =
     (let from_types = (case permission_of_types permissionType types of
            Some perm \<Rightarrow> perm | None \<Rightarrow> NONE_PERMISSION_MATCH)
      in if tag \<noteq> [] \<and> tags \<noteq> [] then
           (case map_of tags tag of
              None \<Rightarrow> NONE_PERMISSION_MATCH
            | Some typesForTag \<Rightarrow>
                (case permission_of_types permissionType typesForTag of
                   Some perm \<Rightarrow> perm | None \<Rightarrow> from_types))
         else from_types)"

definition Plugin_GetPermission :: "func_operate_type \<Rightarrow> permission_type \<Rightarrow> string \<Rightarrow> ('s, 'w) plugin \<Rightarrow> string" where
  "Plugin_GetPermission operaType permissionType tag p =
     (case map_of (permissionMap p) operaType of
        Some config \<Rightarrow> CheckAndGetPermissionFromConfig permissionType tag (tagPermissions config) (typePermissions config)
      | None \<Rightarrow> CheckAndGetPermissionFromConfig permissionType tag
          (tagPermissions (permissionConfig p)) (typePermissions (permissionConfig p)))"

definition GetApiType :: "func_operate_type \<Rightarrow> ('s, 'w) plugin \<Rightarrow> api_type" where
  "GetApiType operaType p =
     (case map_of (permissionMap p) operaType of
        Some config \<Rightarrow> (if apiType (permissionConfig p) = API_UNKNOWN then apiType config else apiType (permissionConfig p))
      | None \<Rightarrow> apiType (permissionConfig p))"

text \<open>The attributes that plugin constructors set.\<close>

definition InitAttribute :: "u32 \<Rightarrow> string \<Rightarrow> permission_config \<Rightarrow> bool \<Rightarrow> bool \<Rightarrow> ('s, 'w) plugin \<Rightarrow> ('s, 'w) plugin" where
  "InitAttribute code name config save global p = p\<lparr>policyCode := code, policyName := name,
     permissionConfig := config, needSave := save, isGlobal := global\<rparr>"

definition InitAttribute_permission :: "u32 \<Rightarrow> string \<Rightarrow> string \<Rightarrow> permission_type \<Rightarrow> bool \<Rightarrow> bool
    \<Rightarrow> ('s, 'w) plugin \<Rightarrow> ('s, 'w) plugin" where
  "InitAttribute_permission code name perm permissionType save global =
     InitAttribute code name (PolicyPermissionConfig perm permissionType API_PUBLIC) save global"

definition InitAttribute_plain :: "u32 \<Rightarrow> string \<Rightarrow> bool \<Rightarrow> bool \<Rightarrow> ('s, 'w) plugin \<Rightarrow> ('s, 'w) plugin" where
  "InitAttribute_plain code name save global p = p\<lparr>policyCode := code, policyName := name,
     needSave := save, isGlobal := global\<rparr>"

definition InitPermission :: "func_operate_type \<Rightarrow> permission_config \<Rightarrow> ('s, 'w) plugin \<Rightarrow> ('s, 'w) plugin" where
  "InitPermission operateType config p =
     (if OP_GET \<le> operateType \<and> operateType \<le> OP_REMOVE
      then p\<lparr>permissionMap := ordered_insert operateType config (permissionMap p)\<rparr> else p)"

definition InitPermission_single :: "func_operate_type \<Rightarrow> string \<Rightarrow> permission_type \<Rightarrow> ('s, 'w) plugin \<Rightarrow> ('s, 'w) plugin" where
  "InitPermission_single operateType perm permissionType =
     InitPermission operateType (PolicyPermissionConfig perm permissionType API_PUBLIC)"

lemma InitPermission_GetPermission:
  assumes "sorted (map fst (permissionMap p))" "map_of (permissionMap p) ot = None" "ot \<noteq> OP_UNKNOWN"
  shows "Plugin_GetPermission ot pt tag (InitPermission_single ot perm pt' p) = perm"
    and "ot' \<noteq> ot \<Longrightarrow> Plugin_GetPermission ot' pt tag (InitPermission_single ot perm pt' p) = Plugin_GetPermission ot' pt tag p"
  using assms ordered_insert_lookup [OF assms(1)]
  by (cases ot; auto simp: InitPermission_single_def InitPermission_def less_eq_func_operate_type_def
      operate_type_code_def word_le_nat_alt Plugin_GetPermission_def PolicyPermissionConfig_def
      CheckAndGetPermissionFromConfig_def permission_of_types_def split: option.splits)+

end
