(* ===== verification/Conflict_Groups.thy ===== *)
theory Conflict_Groups
  imports Edm_Codes
begin

text \<open>
  \<open>services/edm/src/conflict_group_registry.cpp\<close>: the policies that read each other's values are put
  in groups; \<open>UpdateDevicePolicy\<close> takes the lock \<open>policyStripes_[group]\<close> while it checks and stores.
\<close>

datatype conflict_group_id = GROUP_NONE | GROUP_USB | GROUP_BLUETOOTH | GROUP_SUDO | GROUP_NOTIFICATION
  | GROUP_DISTRIBUTED | GROUP_MTP | GROUP_WIFI | GROUP_PRINTER | GROUP_RUNNING_BUNDLES
  | GROUP_FACTORY_RESET | GROUP_SUPERHUB | GROUP_UPDATE_POLICY | GROUP_END

fun group_code :: "conflict_group_id \<Rightarrow> int" where
  "group_code GROUP_NONE = 0"
| "group_code GROUP_USB = 1"
| "group_code GROUP_BLUETOOTH = 2"
| "group_code GROUP_SUDO = 3"
| "group_code GROUP_NOTIFICATION = 4"
| "group_code GROUP_DISTRIBUTED = 5"
| "group_code GROUP_MTP = 6"
| "group_code GROUP_WIFI = 7"
| "group_code GROUP_PRINTER = 8"
| "group_code GROUP_RUNNING_BUNDLES = 9"
| "group_code GROUP_FACTORY_RESET = 10"
| "group_code GROUP_SUPERHUB = 11"
| "group_code GROUP_UPDATE_POLICY = 12"
| "group_code GROUP_END = 13"

type_synonym group_map = "(u32, int) amap"

text \<open>\<open>policyToGroup_[code] = group\<close> for each code in turn.\<close>

definition assign_group :: "conflict_group_id \<Rightarrow> u32 list \<Rightarrow> group_map \<Rightarrow> group_map" where
  "assign_group g codes m = fold (\<lambda>c. AList.update c (group_code g)) codes m"

definition RegisterConflictGroupUsb :: "group_map \<Rightarrow> group_map" where
  "RegisterConflictGroupUsb = assign_group GROUP_USB
     [IC_DISABLE_USB, IC_ALLOWED_USB_DEVICES, IC_USB_READ_ONLY, IC_DISALLOWED_USB_DEVICES,
      IC_DISALLOWED_PERMISSIVE_USB_DEVICES, IC_DISALLOW_USB_SERIAL,
      IC_DISALLOWED_USB_STORAGE_DEVICE_WRITE]"

definition RegisterConflictGroupBluetooth :: "group_map \<Rightarrow> group_map" where
  "RegisterConflictGroupBluetooth = assign_group GROUP_BLUETOOTH
     [IC_DISABLE_BLUETOOTH, IC_ALLOWED_BLUETOOTH_DEVICES, IC_DISALLOWED_BLUETOOTH_DEVICES]"

definition RegisterConflictGroupSudo :: "group_map \<Rightarrow> group_map" where
  "RegisterConflictGroupSudo = assign_group GROUP_SUDO
     [IC_DISALLOWED_SUDO, IC_DISALLOWED_DEVICE_SUDO]"

definition RegisterConflictGroupNotification :: "group_map \<Rightarrow> group_map" where
  "RegisterConflictGroupNotification = assign_group GROUP_NOTIFICATION
     [IC_DISALLOWED_NOTIFICATION, IC_ALLOWED_NOTIFICATION_BUNDLES]"

definition RegisterConflictGroupDistribute :: "group_map \<Rightarrow> group_map" where
  "RegisterConflictGroupDistribute = assign_group GROUP_DISTRIBUTED
     [IC_DISALLOWED_DISTRIBUTED_TRANSMISSION, IC_DISALLOWED_DISTRIBUTED_TRANSMISSION_FULL]"

definition RegisterConflictGroupMTP :: "group_map \<Rightarrow> group_map" where
  "RegisterConflictGroupMTP = assign_group GROUP_MTP
     [IC_DISABLE_MTP_CLIENT, IC_DISABLE_USER_MTP_CLIENT]"

definition RegisterConflictGroupWifi :: "group_map \<Rightarrow> group_map" where
  "RegisterConflictGroupWifi = assign_group GROUP_WIFI
     [IC_DISABLE_WIFI, IC_ALLOWED_WIFI_LIST, IC_DISALLOWED_WIFI_LIST]"

definition RegisterConflictGroupPrinter :: "group_map \<Rightarrow> group_map" where
  "RegisterConflictGroupPrinter = assign_group GROUP_PRINTER
     [IC_ALLOWED_PRINTER_IP_ADDRESS_FOR_DEVICE, IC_ALLOWED_PRINTER_IP_ADDRESS_FOR_ACCOUNT]"

definition RegisterConflictGroupRunningBundles :: "group_map \<Rightarrow> group_map" where
  "RegisterConflictGroupRunningBundles = assign_group GROUP_RUNNING_BUNDLES
     [IC_DISALLOW_RUNNING_BUNDLES, IC_ALLOW_RUNNING_BUNDLES, IC_MANAGE_KEEP_ALIVE_APPS]"

definition RegisterConflictGroupResetFactory :: "group_map \<Rightarrow> group_map" where
  "RegisterConflictGroupResetFactory = assign_group GROUP_FACTORY_RESET
     [IC_OPERATE_DEVICE, IC_RESET_FACTORY, IC_POLICY_CODE_END + PC_DISABLE_RESET_FACTORY,
      IC_POLICY_CODE_END + PC_DISABLE_SECURE_ERASE]"

definition RegisterConflictGroupSuperHub :: "group_map \<Rightarrow> group_map" where
  "RegisterConflictGroupSuperHub = assign_group GROUP_SUPERHUB
     [IC_MANAGE_USER_NON_STOP_APPS, IC_POLICY_CODE_END + PC_DISABLE_SUPERHUB,
      IC_POLICY_CODE_END + PC_HIDDEN_SETTINGS_MENU]"

definition RegisterConflictGroupUpdatePolicy :: "group_map \<Rightarrow> group_map" where
  "RegisterConflictGroupUpdatePolicy = assign_group GROUP_UPDATE_POLICY
     [IC_SET_OTA_UPDATE_POLICY, IC_NOTIFY_UPGRADE_PACKAGES]"

definition ConflictGroupRegistry :: group_map where
  "ConflictGroupRegistry =
     RegisterConflictGroupUpdatePolicy (RegisterConflictGroupSuperHub (RegisterConflictGroupResetFactory
     (RegisterConflictGroupRunningBundles (RegisterConflictGroupPrinter (RegisterConflictGroupWifi
     (RegisterConflictGroupMTP (RegisterConflictGroupDistribute (RegisterConflictGroupNotification
     (RegisterConflictGroupSudo (RegisterConflictGroupBluetooth (RegisterConflictGroupUsb [])))))))))))"

definition GetConflictGroupId :: "group_map \<Rightarrow> u32 \<Rightarrow> int" where
  "GetConflictGroupId m policyCode =
     (case map_of m policyCode of Some g \<Rightarrow> g | None \<Rightarrow> group_code GROUP_NONE)"

subsection \<open>Locks\<close>

lemma assign_group_lookup:
  "map_of (assign_group g codes m) c = (if c \<in> set codes then Some (group_code g) else map_of m c)"
  unfolding assign_group_def by (induction codes arbitrary: m) auto

lemma assign_group_range:
  "group_code g \<in> G \<Longrightarrow> set (map snd m) \<subseteq> G \<Longrightarrow> set (map snd (assign_group g codes m)) \<subseteq> G"
proof (unfold assign_group_def, induction codes arbitrary: m)
  case (Cons c codes)
  have "set (map snd (AList.update c (group_code g) m)) \<subseteq> G"
    using Cons.prems by (induction m) auto
  then show ?case using Cons by simp
qed simp

lemmas register_defs =
  RegisterConflictGroupUsb_def RegisterConflictGroupBluetooth_def RegisterConflictGroupSudo_def
  RegisterConflictGroupNotification_def RegisterConflictGroupDistribute_def RegisterConflictGroupMTP_def
  RegisterConflictGroupWifi_def RegisterConflictGroupPrinter_def RegisterConflictGroupRunningBundles_def
  RegisterConflictGroupResetFactory_def RegisterConflictGroupSuperHub_def RegisterConflictGroupUpdatePolicy_def

lemma registry_range: "set (map snd ConflictGroupRegistry) \<subseteq> {1..12}"
  unfolding ConflictGroupRegistry_def register_defs
  by (intro assign_group_range) simp_all

text \<open>Every policy code, whatever its 32 bits, selects an existing lock of \<open>policyStripes_\<close>, and
  exactly the 35 registered codes select one of their own group; the others share lock 0.\<close>

theorem conflict_group_lock:
  "0 \<le> GetConflictGroupId ConflictGroupRegistry c
   \<and> GetConflictGroupId ConflictGroupRegistry c < group_code GROUP_END
   \<and> (GetConflictGroupId ConflictGroupRegistry c = group_code GROUP_NONE
      \<longleftrightarrow> c \<notin> set (map fst ConflictGroupRegistry))
   \<and> length ConflictGroupRegistry = 35"
proof -
  have r: "1 \<le> g \<and> g \<le> 12" if "map_of ConflictGroupRegistry c = Some g" for g
    using map_of_SomeD [OF that] registry_range by fastforce
  have "length ConflictGroupRegistry = 35" by code_simp
  moreover have "c \<in> set (map fst ConflictGroupRegistry) \<longleftrightarrow> map_of ConflictGroupRegistry c \<noteq> None"
    by (simp add: map_of_eq_None_iff)
  ultimately show ?thesis
    using r by (cases "map_of ConflictGroupRegistry c") (auto simp: GetConflictGroupId_def simp del: set_map)
qed

end
