(* ===== verification/Plugin_Manager.thy ===== *)
theory Plugin_Manager
  imports Plugin Conflict_Groups
begin

text \<open>
  \<open>services/edm/src/plugin_manager.cpp\<close>, first part: which library holds the plugin of a policy code,
  and how libraries are loaded, register their plugins and are unloaded again after three idle minutes.
  Plugins are objects in \<open>objects\<close>; the tables hold their indexes, as the code holds shared pointers.
\<close>

subsection \<open>Libraries and their policy codes\<close>

definition deviceCoreSoCodes :: "u32 list" where
  "deviceCoreSoCodes = [
    IC_DISALLOW_ADD_LOCAL_ACCOUNT, IC_ALLOWED_INSTALL_BUNDLES, IC_DISALLOW_MODIFY_DATETIME,
    IC_DISALLOWED_INSTALL_BUNDLES, IC_SCREEN_OFF_TIME, IC_DISALLOWED_UNINSTALL_BUNDLES, IC_UNINSTALL,
    IC_DISABLED_PRINTER, IC_DISABLED_HDC, IC_INSTALL, IC_POWER_POLICY, IC_NTP_SERVER, IC_LOCK_SCREEN,
    IC_SHUTDOWN, IC_DISABLE_SCREEN_LOCK, IC_REBOOT, IC_DISALLOW_ADD_OS_ACCOUNT_BY_USER,
    IC_ADD_OS_ACCOUNT, IC_GET_BLUETOOTH_INFO, IC_DISABLE_MICROPHONE, IC_DISABLE_BLUETOOTH,
    IC_ALLOWED_BLUETOOTH_DEVICES, IC_INACTIVE_USER_FREEZE, IC_SNAPSHOT_SKIP, IC_DISABLE_CAMERA,
    IC_DOMAIN_ACCOUNT_POLICY, IC_DISABLE_MAINTENANCE_MODE, IC_SWITCH_BLUETOOTH, IC_GET_BUNDLE_INFO_LIST,
    IC_DISABLE_BACKUP_AND_RESTORE, IC_DISALLOWED_BLUETOOTH_DEVICES, IC_DISABLE_USER_MTP_CLIENT,
    IC_DISABLE_MTP_CLIENT, IC_DISABLE_MTP_SERVER, IC_SET_KIOSK_FEATURE,
    IC_DISALLOWED_BLUETOOTH_PROTOCOLS, IC_DISABLE_REMOTE_DESK, IC_DISABLE_REMOTE_DIAGNOSIS,
    IC_DISALLOW_POWER_LONG_PRESS, IC_DISABLE_SET_BIOMETRICS_AND_SCREENLOCK, IC_DISABLE_SET_DEVICE_NAME,
    IC_SET_AUTO_UNLOCK_AFTER_REBOOT, IC_ALLOWED_KIOSK_APPS, IC_DISALLOWED_SUDO,
    IC_ALLOWED_INSTALL_APP_TYPE, IC_DISABLE_PRIVATE_SPACE, IC_SET_INSTALL_LOCAL_ENTERPRISE_APP_ENABLED,
    IC_DISALLOWED_NEARLINK_PROTOCOLS, IC_DISALLOWED_EXPORT_RECOVERY_KEY,
    IC_DISALLOWED_USB_STORAGE_DEVICE_WRITE, IC_DISABLED_PRINT, IC_DISALLOWED_DISTRIBUTED_TRANSMISSION,
    IC_DISALLOWED_DISTRIBUTED_TRANSMISSION_FULL, IC_ALLOWED_COLLABORATION_SERVICE_BUNDLES,
    IC_DISABLED_APP_CLONE, IC_DISABLED_HDC_REMOTE, IC_DISALLOW_UNMUTE_DEVICE,
    IC_DISABLE_RUNNING_BINARY_APP, IC_DISALLOW_VIRTUAL_SERVICE, IC_SET_EYE_COMFORT_MODE,
    IC_SET_DEFAULT_INPUT_METHOD, IC_DISALLOW_MODIFY_WALLPAPER,
    IC_INSTALL_ENTERPRISE_RE_SIGNATURE_CERTIFICATE, IC_DISALLOWED_FILEBOOST_OPEN,
    IC_SET_ABILITY_ENABLED, IC_SET_DEVICE_NAME, IC_SET_FLOATING_NAVIGATION,
    IC_INSTALL_LOCAL_ENTERPRISE_APP_ENABLED_FOR_ACCOUNT, IC_DISALLOWED_MULTI_WINDOW,
    IC_DISALLOW_CORE_DUMP, IC_UNLOCK_POLICY, IC_GET_APPLICATION_WINDOW_STATES,
    IC_DEVICE_SECURITY_LEVEL_POLICY, IC_MANAGE_NORMAL_OS_ACCOUNT, IC_PUBLISH_FORM_TO_DESKTOP,
    IC_ACTIVATE_NORMAL_OS_ACCOUNT, IC_DISALLOW_RS232, IC_DISALLOWED_DEVICE_SUDO, IC_DISALLOW_X_KEY,
    IC_EXEMPTION_RESOURCE, IC_DISABLE_SATA_ODD_BURN]"

definition communicationSoCodes :: "u32 list" where
  "communicationSoCodes = [
    IC_IS_WIFI_ACTIVE, IC_GET_NETWORK_INTERFACES, IC_GET_IP_ADDRESS, IC_GET_MAC, IC_SET_WIFI_PROFILE,
    IC_DISABLED_NETWORK_INTERFACE, IC_IPTABLES_RULE, IC_SET_BROWSER_POLICIES, IC_GLOBAL_PROXY,
    IC_USB_READ_ONLY, IC_FIREWALL_RULE, IC_DOMAIN_FILTER_RULE, IC_DISABLE_USB, IC_ALLOWED_USB_DEVICES,
    IC_DISABLE_WIFI, IC_DISALLOWED_TETHERING, IC_DISALLOWED_USB_DEVICES, IC_MANAGED_BROWSER_POLICY,
    IC_ALLOWED_WIFI_LIST, IC_DISALLOWED_WIFI_LIST, IC_DISALLOWED_SMS, IC_DISALLOWED_MMS, IC_SWITCH_WIFI,
    IC_DISALLOW_MODIFY_APN, IC_DISABLE_SAMBA_CLIENT, IC_DISABLE_SAMBA_SERVER, IC_TURNONOFF_MOBILE_DATA,
    IC_SET_APN_INFO, IC_DISALLOWED_SIM, IC_DISALLOWED_MOBILE_DATA, IC_DISALLOW_MODIFY_ETHERNET_IP,
    IC_DISALLOWED_AIRPLANE_MODE, IC_TELEPHONY_CALL_POLICY, IC_DISALLOWED_TELEPHONY_CALL,
    IC_DISALLOW_VPN, IC_DISALLOWED_EXTERNAL_STORAGE_CARD, IC_DISALLOWED_RANDOM_MAC_ADDRESS,
    IC_HANG_UP_CALLING, IC_SET_NETWORK_INTERFACE_CONFIG, IC_DISALLOW_USB_SERIAL, IC_MANAGE_SIM,
    IC_SET_DEFAULT_DATA_SIM, IC_DISALLOWED_P2P, IC_QUERY_TRAFFIC_STATS,
    IC_DISALLOWED_TRAFFIC_REDIRECTION, IC_DISALLOWED_PACKET_FILTERING,
    IC_DISALLOWED_PERMISSIVE_USB_DEVICES, IC_GET_USB_SERIAL_NUMBER, IC_ALLOWED_ODD_BURN_USB_DEVICES,
    IC_EXTERNAL_STORAGE_INTERCEPT_ENABLE, IC_EXTERNAL_STORAGE_DEVICE_MOUNT_POLICY,
    IC_GET_EXTERNAL_STORAGE_DEVICE_INFOS]"

definition sysServiceSoCodes :: "u32 list" where
  "sysServiceSoCodes = [
    IC_SET_DATETIME, IC_RESET_FACTORY, IC_DISALLOW_RUNNING_BUNDLES, IC_INSTALL_CERTIFICATE,
    IC_LOCATION_POLICY, IC_MANAGE_AUTO_START_APPS, IC_FINGERPRINT_AUTH, IC_PASSWORD_POLICY,
    IC_CLIPBOARD_POLICY, IC_MANAGE_KEEP_ALIVE_APPS, IC_CLEAR_UP_APPLICATION_DATA,
    IC_DISALLOWED_NOTIFICATION, IC_PERMISSION_MANAGED_STATE, IC_ALLOW_RUNNING_BUNDLES,
    IC_MANAGE_FREEZE_EXEMPTED_APPS, IC_MANAGE_USER_NON_STOP_APPS, IC_ALLOWED_NOTIFICATION_BUNDLES,
    IC_QUERY_BUNDLE_STATS_INFOS, IC_DISALLOWED_PERMISSION, IC_ALLOWED_PERMISSION_BUNDLE,
    IC_USER_EXT_SESSION, IC_USER_EXT_CREDENTIAL, IC_ALLOWED_PRINTER_IP_ADDRESS_FOR_DEVICE,
    IC_ALLOWED_PRINTER_IP_ADDRESS_FOR_ACCOUNT]"

definition needExtraSoCodes :: "u32 list" where
  "needExtraSoCodes = [
    IC_GET_DEVICE_SERIAL, IC_GET_DEVICE_NAME, IC_GET_DEVICE_INFO, IC_OPERATE_DEVICE,
    IC_SET_OTA_UPDATE_POLICY, IC_NOTIFY_UPGRADE_PACKAGES, IC_GET_EXT_INFO, IC_SET_WALL_PAPER,
    IC_INSTALL_MARKET_APPS, IC_SET_KEY_CODE_POLICYS, IC_DISABLED_ACTIVATION_LOCK, IC_SET_SWITCH_STATUS,
    IC_HIDDEN_SETTINGS_MENU, IC_ADD_DOCK_APP, IC_ENABLE_SELF_DEVICE_ADMIN, IC_OTA_UPDATE_NONCE,
    IC_DISALLOWED_UINPUT, IC_LOCAL_HOTA_DOMAIN]"

definition watermarkSoCodes :: "u32 list" where
  "watermarkSoCodes = [
    IC_WATERMARK_IMAGE, IC_SCREEN_WATERMARK_IMAGE]"

definition DEVICE_CORE_PLUGIN_SO :: string where "DEVICE_CORE_PLUGIN_SO = ''libdevice_core_plugin.z.so''"
definition COMMUNICATION_PLUGIN_SO :: string where "COMMUNICATION_PLUGIN_SO = ''libcommunication_plugin.z.so''"
definition SYS_SERVICE_PLUGIN_SO :: string where "SYS_SERVICE_PLUGIN_SO = ''libsys_service_plugin.z.so''"
definition NEED_EXTRA_PLUGIN_SO :: string where "NEED_EXTRA_PLUGIN_SO = ''libneed_extra_plugin.z.so''"
definition WATERMARK_PLUGIN_SO :: string where "WATERMARK_PLUGIN_SO = ''libwatermark_plugin.z.so''"
definition OLD_EDM_PLUGIN_SO :: string where "OLD_EDM_PLUGIN_SO = ''libedmplugin.z.so''"

lemmas so_names = DEVICE_CORE_PLUGIN_SO_def COMMUNICATION_PLUGIN_SO_def SYS_SERVICE_PLUGIN_SO_def
  NEED_EXTRA_PLUGIN_SO_def WATERMARK_PLUGIN_SO_def OLD_EDM_PLUGIN_SO_def

definition TIMER_TIMEOUT :: int where "TIMER_TIMEOUT = 180000"

definition GetSoNameByCode :: "u32 \<Rightarrow> string option" where
  "GetSoNameByCode code =
     (if code \<in> set deviceCoreSoCodes then Some DEVICE_CORE_PLUGIN_SO
      else if code \<in> set communicationSoCodes then Some COMMUNICATION_PLUGIN_SO
      else if code \<in> set sysServiceSoCodes then Some SYS_SERVICE_PLUGIN_SO
      else if code \<in> set needExtraSoCodes then Some NEED_EXTRA_PLUGIN_SO
      else if code \<in> set watermarkSoCodes then Some WATERMARK_PLUGIN_SO
      else None)"

definition IsExtraPlugin :: "string \<Rightarrow> bool" where
  "IsExtraPlugin soName = (soName \<noteq> DEVICE_CORE_PLUGIN_SO \<and> soName \<noteq> COMMUNICATION_PLUGIN_SO
     \<and> soName \<noteq> SYS_SERVICE_PLUGIN_SO \<and> soName \<noteq> NEED_EXTRA_PLUGIN_SO
     \<and> soName \<noteq> WATERMARK_PLUGIN_SO \<and> soName \<noteq> OLD_EDM_PLUGIN_SO)"

subsection \<open>State\<close>

record so_load_state =
  pluginHasInit :: bool
  notifySignal :: bool
  lastCallTime :: int
  pluginHandles :: bool

definition SoLoadState :: so_load_state where
  "SoLoadState = \<lparr> pluginHasInit = False, notifySignal = False, lastCallTime = 0, pluginHandles = False \<rparr>"

record ('s, 'w) plugin_mgr =
  objects :: "('s, 'w) plugin list"
  pluginsCode :: "(u32, plugin_id) amap"
  pluginsName :: "(string, plugin_id) amap"
  extensionPluginMap :: "(u32, u32) amap"
  executeStrategyMap :: "(u32, execute_strategy) amap"
  soLoadStateMap :: "(string, so_load_state) amap"

definition PluginManager :: "('s, 'w) plugin_mgr" where
  "PluginManager = \<lparr> objects = [], pluginsCode = [], pluginsName = [], extensionPluginMap = [],
     executeStrategyMap = [], soLoadStateMap = [] \<rparr>"

text \<open>The system around the manager, as one operation finds it: \<open>dlopen\<close> gives for a library the
  registration calls of its static constructors, \<open>None\<close> when it cannot be opened; \<open>pluginDir\<close> lists the
  plugin directory with a flag for regular files, \<open>None\<close> when it cannot be read; \<open>now\<close> is the clock in
  milliseconds.\<close>

datatype ('s, 'w) registration =
    RegisterPlugin "('s, 'w) plugin"
  | RegisterExtension "('s, 'w) plugin" u32 execute_strategy

record ('s, 'w) plugin_env =
  dlopen :: "string \<Rightarrow> ('s, 'w) registration list option"
  pluginDir :: "(string \<times> bool) list option"
  now :: int

definition plugin_at :: "('s, 'w) plugin_mgr \<Rightarrow> plugin_id \<Rightarrow> ('s, 'w) plugin" where
  "plugin_at M i = objects M ! i"

definition change_plugin :: "plugin_id \<Rightarrow> (('s, 'w) plugin \<Rightarrow> ('s, 'w) plugin) \<Rightarrow> ('s, 'w) plugin_mgr \<Rightarrow> ('s, 'w) plugin_mgr" where
  "change_plugin i f M = M\<lparr>objects := (objects M)[i := f (plugin_at M i)]\<rparr>"

definition new_plugin :: "('s, 'w) plugin \<Rightarrow> ('s, 'w) plugin_mgr \<Rightarrow> plugin_id \<times> ('s, 'w) plugin_mgr" where
  "new_plugin p M = (length (objects M), M\<lparr>objects := objects M @ [p]\<rparr>)"

subsection \<open>Registration\<close>

definition GetPluginByCode :: "u32 \<Rightarrow> ('s, 'w) plugin_mgr \<Rightarrow> plugin_id option" where
  "GetPluginByCode code M = map_of (pluginsCode M) code"

definition GetPluginByPolicyName :: "string \<Rightarrow> ('s, 'w) plugin_mgr \<Rightarrow> plugin_id option" where
  "GetPluginByPolicyName name M = map_of (pluginsName M) name"

definition AddPlugin :: "plugin_id option \<Rightarrow> ('s, 'w) plugin_mgr \<Rightarrow> bool \<times> ('s, 'w) plugin_mgr" where
  "AddPlugin plugin M =
     (case plugin of
        None \<Rightarrow> (False, M)
      | Some i \<Rightarrow>
          (let p = plugin_at M i; code = GetCode p in
           if GetAllPermission p = [] then (False, M)
           else
             (let M = M\<lparr>pluginsCode := ordered_insert code i (pluginsCode M)\<rparr>;
                  M = M\<lparr>pluginsName := ordered_insert (Plugin_GetPolicyName p) i (pluginsName M)\<rparr>;
                  M = (case map_of (extensionPluginMap M) code of
                         Some ext \<Rightarrow> change_plugin i (SetExtensionPlugin (GetPluginByCode ext M)) M
                       | None \<Rightarrow> M);
                  M = (case map_of (executeStrategyMap M) code of
                         Some st \<Rightarrow> change_plugin i (SetExecuteStrategy st) M
                       | None \<Rightarrow> change_plugin i (SetExecuteStrategy STRATEGY_SINGLE) M)
              in (True, M))))"

definition AddExtensionPlugin :: "plugin_id option \<Rightarrow> u32 \<Rightarrow> execute_strategy \<Rightarrow> ('s, 'w) plugin_mgr
    \<Rightarrow> bool \<times> ('s, 'w) plugin_mgr" where
  "AddExtensionPlugin extension basicCode st M =
     (let (ok, M) = AddPlugin extension M in
      case extension of
        Some i \<Rightarrow>
          (if ok then
             (let M = (case GetPluginByCode basicCode M of
                         Some b \<Rightarrow> change_plugin b (SetExecuteStrategy st) (change_plugin b (SetExtensionPlugin (Some i)) M)
                       | None \<Rightarrow> M);
                  M = change_plugin i (SetBasicPluginCode basicCode) M;
                  M = change_plugin i (SetPluginType PLUGIN_EXTENSION) M;
                  M = M\<lparr>extensionPluginMap := ordered_insert basicCode (GetCode (plugin_at M i)) (extensionPluginMap M)\<rparr>;
                  M = M\<lparr>executeStrategyMap := ordered_insert basicCode st (executeStrategyMap M)\<rparr>
              in (True, M))
           else (False, M))
      | None \<Rightarrow> (False, M))"

fun do_register :: "('s, 'w) registration \<Rightarrow> ('s, 'w) plugin_mgr \<Rightarrow> ('s, 'w) plugin_mgr" where
  "do_register (RegisterPlugin p) M = (let (i, M) = new_plugin p M in snd (AddPlugin (Some i) M))"
| "do_register (RegisterExtension p basicCode st) M =
     (let (i, M) = new_plugin p M in snd (AddExtensionPlugin (Some i) basicCode st M))"

subsection \<open>Loading\<close>

definition DlopenPlugin :: "('s, 'w) plugin_env \<Rightarrow> string \<Rightarrow> so_load_state \<Rightarrow> ('s, 'w) plugin_mgr
    \<Rightarrow> so_load_state \<times> ('s, 'w) plugin_mgr" where
  "DlopenPlugin E soName st M =
     (case dlopen E soName of
        None \<Rightarrow> (st, M)
      | Some regs \<Rightarrow> (st\<lparr>pluginHandles := True\<rparr>, fold do_register regs M))"

definition LoadPlugin :: "('s, 'w) plugin_env \<Rightarrow> string \<Rightarrow> ('s, 'w) plugin_mgr \<Rightarrow> ('s, 'w) plugin_mgr" where
  "LoadPlugin E soName M =
     (if soName = [] then M
      else
        (let st = (case map_of (soLoadStateMap M) soName of Some st \<Rightarrow> st | None \<Rightarrow> SoLoadState);
             st = st\<lparr>lastCallTime := now E\<rparr>
         in if pluginHasInit st
            then M\<lparr>soLoadStateMap := AList.update soName (st\<lparr>notifySignal := True\<rparr>) (soLoadStateMap M)\<rparr>
            else (let (st, M) = DlopenPlugin E soName st M
                  in M\<lparr>soLoadStateMap := AList.update soName (st\<lparr>pluginHasInit := True\<rparr>) (soLoadStateMap M)\<rparr>)))"

definition LoadExtraPlugin :: "('s, 'w) plugin_env \<Rightarrow> ('s, 'w) plugin_mgr \<Rightarrow> ('s, 'w) plugin_mgr" where
  "LoadExtraPlugin E M =
     (case pluginDir E of
        None \<Rightarrow> M
      | Some entries \<Rightarrow>
          fold (\<lambda>(name, regular) M. if regular \<and> IsExtraPlugin name then LoadPlugin E name M else M) entries M)"

definition LoadAllPlugin :: "('s, 'w) plugin_env \<Rightarrow> ('s, 'w) plugin_mgr \<Rightarrow> ('s, 'w) plugin_mgr" where
  "LoadAllPlugin E M =
     LoadExtraPlugin E (LoadPlugin E NEED_EXTRA_PLUGIN_SO (LoadPlugin E SYS_SERVICE_PLUGIN_SO
       (LoadPlugin E COMMUNICATION_PLUGIN_SO (LoadPlugin E DEVICE_CORE_PLUGIN_SO M))))"

definition LoadPluginByCode :: "('s, 'w) plugin_env \<Rightarrow> u32 \<Rightarrow> ('s, 'w) plugin_mgr \<Rightarrow> err_code \<times> ('s, 'w) plugin_mgr" where
  "LoadPluginByCode E code M =
     (if code > IC_POLICY_CODE_END then (ERR_OK, LoadExtraPlugin E M)
      else
        (case GetSoNameByCode code of
           None \<Rightarrow> (INTERFACE_UNSUPPORTED, M)
         | Some soName \<Rightarrow>
             (let M = (if soName = NEED_EXTRA_PLUGIN_SO then LoadExtraPlugin E M else M)
              in (ERR_OK, LoadPlugin E soName M))))"

definition LoadPluginByFuncCode :: "('s, 'w) plugin_env \<Rightarrow> u32 \<Rightarrow> ('s, 'w) plugin_mgr \<Rightarrow> err_code \<times> ('s, 'w) plugin_mgr" where
  "LoadPluginByFuncCode E funcCode M = LoadPluginByCode E (GetPolicyCode funcCode) M"

definition GetPluginByFuncCode :: "('s, 'w) plugin_env \<Rightarrow> u32 \<Rightarrow> ('s, 'w) plugin_mgr
    \<Rightarrow> plugin_id option \<times> ('s, 'w) plugin_mgr" where
  "GetPluginByFuncCode E funcCode M =
     (let (ret, M) = LoadPluginByFuncCode E funcCode M in
      if ret \<noteq> ERR_OK then (None, M)
      else if GetSystemFlag funcCode = POLICY_FLAG then (map_of (pluginsCode M) (GetPolicyCode funcCode), M)
      else (None, M))"

subsection \<open>Unloading\<close>

definition ExtraHasPersistPlugin :: "u32 list \<Rightarrow> ('s, 'w) plugin_mgr \<Rightarrow> bool" where
  "ExtraHasPersistPlugin codes M = list_ex (\<lambda>code.
     case GetPluginByCode code M of Some i \<Rightarrow> \<not> pluginUnloadFlag (plugin_at M i) | None \<Rightarrow> False) codes"

definition HasPersistPlugin :: "u32 list \<Rightarrow> ('s, 'w) plugin_mgr \<Rightarrow> bool" where
  "HasPersistPlugin codes M = list_ex (\<lambda>code.
     (case map_of (extensionPluginMap M) code of
        Some ext \<Rightarrow> (case GetPluginByCode ext M of Some i \<Rightarrow> \<not> pluginUnloadFlag (plugin_at M i) | None \<Rightarrow> False)
      | None \<Rightarrow> False)
     \<or> (case GetPluginByCode code M of Some i \<Rightarrow> \<not> pluginUnloadFlag (plugin_at M i) | None \<Rightarrow> False)) codes"

definition GetExtraPluginCodeList :: "('s, 'w) plugin_mgr \<Rightarrow> u32 list" where
  "GetExtraPluginCodeList M =
     map fst (filter (\<lambda>(code, _). code > IC_POLICY_CODE_END) (pluginsCode M)) @ map snd (extensionPluginMap M)"

definition RemovePlugin :: "plugin_id option \<Rightarrow> ('s, 'w) plugin_mgr \<Rightarrow> ('s, 'w) plugin_mgr" where
  "RemovePlugin plugin M =
     (case plugin of
        None \<Rightarrow> M
      | Some i \<Rightarrow>
          (let M = M\<lparr>extensionPluginMap := AList.delete (GetCode (plugin_at M i)) (extensionPluginMap M)\<rparr>;
               M = change_plugin i ResetExtensionPlugin M;
               p = plugin_at M i
           in if GetAllPermission p = [] then M
              else
                (let M = M\<lparr>pluginsCode := AList.delete (GetCode p) (pluginsCode M)\<rparr>;
                     M = M\<lparr>pluginsName := AList.delete (Plugin_GetPolicyName p) (pluginsName M)\<rparr>
                 in case GetPluginByCode (GetBasicPluginCode p) M of
                      Some b \<Rightarrow> change_plugin b ResetExtensionPlugin M
                    | None \<Rightarrow> M)))"

definition unload_codes :: "string \<Rightarrow> u32 list \<Rightarrow> ('s, 'w) plugin_mgr \<Rightarrow> bool \<times> ('s, 'w) plugin_mgr" where
  "unload_codes soName codes M =
     (if HasPersistPlugin codes M then (False, M)
      else
        (let M = fold (\<lambda>code M. RemovePlugin (GetPluginByCode code M) M) codes M in
         case map_of (soLoadStateMap M) soName of
           None \<Rightarrow> (True, M)
         | Some st \<Rightarrow>
             (if \<not> pluginHandles st then (True, M)
              else (True, M\<lparr>soLoadStateMap := AList.delete soName (soLoadStateMap M)\<rparr>))))"

definition UnloadPlugin :: "string \<Rightarrow> ('s, 'w) plugin_mgr \<Rightarrow> bool \<times> ('s, 'w) plugin_mgr" where
  "UnloadPlugin soName M =
     (if soName = DEVICE_CORE_PLUGIN_SO then unload_codes soName deviceCoreSoCodes M
      else if soName = COMMUNICATION_PLUGIN_SO then unload_codes soName communicationSoCodes M
      else if soName = SYS_SERVICE_PLUGIN_SO then unload_codes soName sysServiceSoCodes M
      else if soName = NEED_EXTRA_PLUGIN_SO then unload_codes soName needExtraSoCodes M
      else if soName = WATERMARK_PLUGIN_SO then unload_codes soName watermarkSoCodes M
      else
        (let codes = GetExtraPluginCodeList M in
         if ExtraHasPersistPlugin codes M then (False, M)
         else unload_codes soName codes (M\<lparr>extensionPluginMap := [], executeStrategyMap := []\<rparr>)))"

text \<open>One round of a library's timer thread, after its wait has ended by time or by a signal
  (\<open>signalled\<close>). The thread ends when the library is no longer initialised.\<close>

definition UnloadPluginTask :: "('s, 'w) plugin_env \<Rightarrow> string \<Rightarrow> bool \<Rightarrow> ('s, 'w) plugin_mgr \<Rightarrow> ('s, 'w) plugin_mgr" where
  "UnloadPluginTask E soName signalled M =
     (case map_of (soLoadStateMap M) soName of
        None \<Rightarrow> M
      | Some st \<Rightarrow>
          (if \<not> pluginHasInit st then M
           else
             (let M = M\<lparr>soLoadStateMap := AList.update soName (st\<lparr>notifySignal := signalled\<rparr>) (soLoadStateMap M)\<rparr> in
              if now E - lastCallTime st \<ge> TIMER_TIMEOUT then
                (let (unloaded, M) = UnloadPlugin soName M in
                 if unloaded then
                   (case map_of (soLoadStateMap M) soName of
                      Some st \<Rightarrow> M\<lparr>soLoadStateMap := AList.update soName (st\<lparr>pluginHasInit := False\<rparr>) (soLoadStateMap M)\<rparr>
                    | None \<Rightarrow> M)
                 else M)
              else M)))"

definition NotifyUnloadAllPlugin :: "('s, 'w) plugin_mgr \<Rightarrow> ('s, 'w) plugin_mgr" where
  "NotifyUnloadAllPlugin M = M\<lparr>soLoadStateMap := map (\<lambda>(name, st).
     (name, if pluginHasInit st then st\<lparr>pluginHasInit := False, notifySignal := True, lastCallTime := 0\<rparr> else st))
     (soLoadStateMap M)\<rparr>"

subsection \<open>Attributes of a policy's plugin\<close>

definition SetPluginUnloadFlag :: "('s, 'w) plugin_env \<Rightarrow> u32 \<Rightarrow> bool \<Rightarrow> ('s, 'w) plugin_mgr \<Rightarrow> err_code \<times> ('s, 'w) plugin_mgr" where
  "SetPluginUnloadFlag E code unloadFlag M =
     (let (ret, M) = LoadPluginByCode E code M in
      if ret \<noteq> ERR_OK then (INTERFACE_UNSUPPORTED, M)
      else (case GetPluginByCode code M of
              None \<Rightarrow> (INTERFACE_UNSUPPORTED, M)
            | Some i \<Rightarrow> (ERR_OK, change_plugin i (\<lambda>p. p\<lparr>pluginUnloadFlag := unloadFlag\<rparr>) M)))"

definition UnloadCollectLogPlugin :: "('s, 'w) plugin_env \<Rightarrow> ('s, 'w) plugin_mgr \<Rightarrow> err_code \<times> ('s, 'w) plugin_mgr" where
  "UnloadCollectLogPlugin E M =
     (let code = IC_POLICY_CODE_END + PC_START_COLLECT_LOG;
          (ret, M) = LoadPluginByCode E code M
      in if ret \<noteq> ERR_OK then (INTERFACE_UNSUPPORTED, M)
         else (case GetPluginByCode code M of
                 None \<Rightarrow> (INTERFACE_UNSUPPORTED, M)
               | Some i \<Rightarrow> (ERR_OK, change_plugin i (\<lambda>p. p\<lparr>pluginUnloadFlag := True\<rparr>) M)))"

definition PluginManager_GetPermission :: "('s, 'w) plugin_env \<Rightarrow> u32 \<Rightarrow> func_operate_type \<Rightarrow> permission_type \<Rightarrow> string
    \<Rightarrow> ('s, 'w) plugin_mgr \<Rightarrow> string \<times> ('s, 'w) plugin_mgr" where
  "PluginManager_GetPermission E funcCode operateType permissionType permissionTag M =
     (let (plugin, M) = GetPluginByFuncCode E funcCode M in
      case plugin of
        None \<Rightarrow> (NONE_PERMISSION_MATCH, M)
      | Some i \<Rightarrow> (Plugin_GetPermission operateType permissionType permissionTag (plugin_at M i), M))"

definition PluginManager_GetPluginType :: "('s, 'w) plugin_env \<Rightarrow> u32 \<Rightarrow> func_operate_type
    \<Rightarrow> ('s, 'w) plugin_mgr \<Rightarrow> api_type \<times> ('s, 'w) plugin_mgr" where
  "PluginManager_GetPluginType E funcCode operateType M =
     (let (plugin, M) = GetPluginByFuncCode E funcCode M in
      case plugin of None \<Rightarrow> (API_UNKNOWN, M) | Some i \<Rightarrow> (GetApiType operateType (plugin_at M i), M))"

definition PluginManager_GetPolicyName :: "('s, 'w) plugin_env \<Rightarrow> u32 \<Rightarrow> ('s, 'w) plugin_mgr
    \<Rightarrow> string \<times> ('s, 'w) plugin_mgr" where
  "PluginManager_GetPolicyName E funcCode M =
     (let (plugin, M) = GetPluginByFuncCode E funcCode M in
      case plugin of None \<Rightarrow> ([], M) | Some i \<Rightarrow> (Plugin_GetPolicyName (plugin_at M i), M))"

definition GetPluginPermissionByPolicyName :: "('s, 'w) plugin_env \<Rightarrow> string \<Rightarrow> permission_type \<Rightarrow> ('s, 'w) plugin_mgr
    \<Rightarrow> string \<times> ('s, 'w) plugin_mgr" where
  "GetPluginPermissionByPolicyName E name permissionType M =
     (let M = LoadAllPlugin E M in
      case GetPluginByPolicyName name M of
        None \<Rightarrow> ([], M)
      | Some i \<Rightarrow>
          (let permission = Plugin_GetPermission OP_SET permissionType [] (plugin_at M i) in
           (if permission = NONE_PERMISSION_MATCH
            then Plugin_GetPermission OP_SET permissionType PERMISSION_TAG_VERSION_12 (plugin_at M i)
            else permission, M)))"

end
