(* ===== verification/Plugin_Registry.thy ===== *)
theory Plugin_Registry
  imports Plugin_Manager
begin

text \<open>
  What holds of the plugin tables in every state the plugin manager can reach, and what unloading a
  library does to them.
\<close>

subsection \<open>The tables agree with the objects\<close>

definition entries_ok :: "(('s, 'w) plugin \<Rightarrow> 'k \<Rightarrow> bool) \<Rightarrow> ('s, 'w) plugin list \<Rightarrow> ('k::linorder, plugin_id) amap \<Rightarrow> bool" where
  "entries_ok names objs m = (sorted (map fst m) \<and> distinct (map fst m)
     \<and> (\<forall>(k, i)\<in>set m. i < length objs \<and> names (objs ! i) k \<and> strategy (objs ! i) \<noteq> None))"

definition registry_ok :: "('s, 'w) plugin_mgr \<Rightarrow> bool" where
  "registry_ok M = (entries_ok (\<lambda>p c. policyCode p = c) (objects M) (pluginsCode M)
     \<and> entries_ok (\<lambda>p n. policyName p = n) (objects M) (pluginsName M)
     \<and> sorted (map fst (extensionPluginMap M)) \<and> sorted (map fst (executeStrategyMap M))
     \<and> (\<forall>p\<in>set (objects M). \<forall>e. extensionPlugin p = Some e \<longrightarrow> e < length (objects M)))"

lemma registry_ok_initial: "registry_ok PluginManager"
  by (simp add: registry_ok_def entries_ok_def PluginManager_def)

lemma registry_okD:
  assumes "registry_ok M" "GetPluginByCode c M = Some i"
  shows "i < length (objects M)" "policyCode (plugin_at M i) = c" "strategy (plugin_at M i) \<noteq> None"
  using assms map_of_SomeD [of "pluginsCode M" c i]
  by (fastforce simp: registry_ok_def entries_ok_def GetPluginByCode_def plugin_at_def)+

lemma GetAllPermission_nonempty [simp]: "GetAllPermission p \<noteq> []"
  by (simp add: GetAllPermission_def)

lemma ordered_insert_set: "set (ordered_insert k v m) \<subseteq> insert (k, v) (set m)"
  by (induction k v m rule: ordered_insert.induct) auto

lemma ordered_insert_distinct:
  "sorted (map fst m) \<Longrightarrow> distinct (map fst m) \<Longrightarrow> distinct (map fst (ordered_insert k v m))"
proof (induction m)
  case (Cons kv m)
  then show ?case
    using ordered_insert_keys [of k v m] by (cases kv) (auto simp: image_iff)
qed simp

lemma entries_ok_insert:
  assumes "entries_ok names objs m" "i < length objs" "names (objs ! i) k" "strategy (objs ! i) \<noteq> None"
  shows "entries_ok names objs (ordered_insert k i m)"
  using assms ordered_insert_set [of k i m]
  by (auto simp: entries_ok_def ordered_insert_sorted ordered_insert_distinct)

lemma entries_ok_objects:
  assumes "entries_ok names objs m" "length objs \<le> length objs'"
    "\<And>i k. i < length objs \<Longrightarrow> names (objs ! i) k \<Longrightarrow> strategy (objs ! i) \<noteq> None
       \<Longrightarrow> names (objs' ! i) k \<and> strategy (objs' ! i) \<noteq> None"
  shows "entries_ok names objs' m"
  using assms by (fastforce simp: entries_ok_def)

lemma sorted_delete: "sorted (map fst m) \<Longrightarrow> sorted (map fst (AList.delete k m))"
  by (induction m) (auto simp: AList.delete_eq)

lemma nth_update_any: "j < length xs \<Longrightarrow> xs[i := x] ! j = (if i = j then x else xs ! j)"
  by (auto simp: nth_list_update)

lemma entries_ok_delete: "entries_ok names objs m \<Longrightarrow> entries_ok names objs (AList.delete k m)"
  using sorted_delete [of m k] distinct_delete [of m k]
  by (auto simp: entries_ok_def AList.delete_eq)

text \<open>A change of one plugin that keeps its identity.\<close>

definition gentle :: "nat \<Rightarrow> (('s, 'w) plugin \<Rightarrow> ('s, 'w) plugin) \<Rightarrow> bool" where
  "gentle n f = (\<forall>p. policyCode (f p) = policyCode p \<and> policyName (f p) = policyName p
     \<and> (strategy p \<noteq> None \<longrightarrow> strategy (f p) \<noteq> None)
     \<and> (\<forall>e. extensionPlugin (f p) = Some e \<longrightarrow> extensionPlugin p = Some e \<or> e < n))"

lemma gentle_setters [simp]:
  "gentle n (SetExecuteStrategy st)" "gentle n (SetBasicPluginCode c)" "gentle n (SetPluginType t)"
  "gentle n ResetExtensionPlugin" "gentle n (\<lambda>p. p\<lparr>pluginUnloadFlag := b\<rparr>)"
  "\<forall>i. e = Some i \<longrightarrow> i < n \<Longrightarrow> gentle n (SetExtensionPlugin e)"
  by (auto simp: gentle_def SetExecuteStrategy_def SetBasicPluginCode_def SetPluginType_def
      ResetExtensionPlugin_def SetExtensionPlugin_def split: option.splits)

lemma objects_change [simp]: "objects (change_plugin i f M) = (objects M)[i := f (objects M ! i)]"
  and tables_change [simp]: "pluginsCode (change_plugin i f M) = pluginsCode M"
    "pluginsName (change_plugin i f M) = pluginsName M"
    "extensionPluginMap (change_plugin i f M) = extensionPluginMap M"
    "executeStrategyMap (change_plugin i f M) = executeStrategyMap M"
    "soLoadStateMap (change_plugin i f M) = soLoadStateMap M"
  by (simp_all add: change_plugin_def plugin_at_def)

lemma registry_ok_change:
  assumes "registry_ok M" "gentle (length (objects M)) f"
  shows "registry_ok (change_plugin i f M)"
proof -
  have e: "entries_ok names ((objects M)[i := f (objects M ! i)]) m"
    if "entries_ok names (objects M) m" "\<And>p k. names p k \<Longrightarrow> names (f p) k" for names and m :: "('k::linorder, plugin_id) amap"
    by (rule entries_ok_objects [OF that(1)])
      (use assms(2) that(2) in \<open>auto simp: nth_update_any gentle_def\<close>)
  have x: "\<forall>p\<in>set ((objects M)[i := f (objects M ! i)]). \<forall>e. extensionPlugin p = Some e \<longrightarrow> e < length (objects M)"
  proof (cases "i < length (objects M)")
    case True
    then have "\<forall>e. extensionPlugin (f (objects M ! i)) = Some e \<longrightarrow> e < length (objects M)"
      using assms nth_mem [OF True] unfolding gentle_def registry_ok_def by blast
    then show ?thesis
      using assms(1) set_update_subset_insert [of "objects M" i "f (objects M ! i)"]
      unfolding registry_ok_def by blast
  next
    case False
    then show ?thesis using assms(1) by (simp add: registry_ok_def list_update_beyond)
  qed
  show ?thesis
    using assms x by (auto simp: registry_ok_def gentle_def intro!: e)
qed

text \<open>The plugin that \<open>AddPlugin\<close> leaves behind.\<close>

definition linked :: "plugin_id \<Rightarrow> ('s, 'w) plugin_mgr \<Rightarrow> ('s, 'w) plugin" where
  "linked i M = (let p = objects M ! i; c = policyCode p in
     p\<lparr>extensionPlugin := (case map_of (extensionPluginMap M) c of
         Some ext \<Rightarrow> map_of (ordered_insert c i (pluginsCode M)) ext | None \<Rightarrow> extensionPlugin p),
       strategy := Some (case map_of (executeStrategyMap M) c of Some st \<Rightarrow> st | None \<Rightarrow> STRATEGY_SINGLE)\<rparr>)"

lemma AddPlugin_alt:
  assumes "i < length (objects M)"
  shows "AddPlugin (Some i) M = (True, M\<lparr>objects := (objects M)[i := linked i M],
     pluginsCode := ordered_insert (policyCode (objects M ! i)) i (pluginsCode M),
     pluginsName := ordered_insert (policyName (objects M ! i)) i (pluginsName M)\<rparr>)"
  using assms
  by (cases M) (simp add: AddPlugin_def Let_def linked_def plugin_at_def GetCode_def Plugin_GetPolicyName_def
      change_plugin_def SetExtensionPlugin_def SetExecuteStrategy_def GetPluginByCode_def split: option.split)

lemma registry_ok_AddPlugin:
  assumes "registry_ok M" "i < length (objects M)"
  shows "registry_ok (snd (AddPlugin (Some i) M))"
proof -
  let ?objs = "(objects M)[i := linked i M]"
  have l: "policyCode (linked i M) = policyCode (objects M ! i)" "policyName (linked i M) = policyName (objects M ! i)"
    "strategy (linked i M) \<noteq> None" by (simp_all add: linked_def Let_def)
  have e: "entries_ok (\<lambda>p c. policyCode p = c) ?objs (pluginsCode M)"
    "entries_ok (\<lambda>p n. policyName p = n) ?objs (pluginsName M)"
    using assms(1) l unfolding registry_ok_def
    by (auto elim!: entries_ok_objects simp: nth_update_any)
  have "x < length (objects M)" if x: "extensionPlugin (linked i M) = Some x" for x
  proof (cases "map_of (extensionPluginMap M) (policyCode (objects M ! i))")
    case None
    then have "extensionPlugin (objects M ! i) = Some x" using x by (simp add: linked_def Let_def)
    then show ?thesis using assms nth_mem [OF assms(2)] unfolding registry_ok_def by blast
  next
    case (Some ext)
    then have "(ext, x) \<in> set (ordered_insert (policyCode (objects M ! i)) i (pluginsCode M))"
      using x by (simp add: linked_def Let_def map_of_SomeD)
    then have "x = i \<or> (ext, x) \<in> set (pluginsCode M)" using ordered_insert_set by fastforce
    then show ?thesis using assms by (auto simp: registry_ok_def entries_ok_def)
  qed
  then have x: "\<forall>p\<in>set ?objs. \<forall>e. extensionPlugin p = Some e \<longrightarrow> e < length (objects M)"
    using assms(1) set_update_subset_insert [of "objects M" i "linked i M"]
    unfolding registry_ok_def by blast
  show ?thesis
    using assms e x by (simp add: AddPlugin_alt registry_ok_def l entries_ok_insert)
qed

lemma registry_ok_new:
  assumes "registry_ok M" "extensionPlugin p = None" "new_plugin p M = (i, M')"
  shows "registry_ok M'" "i < length (objects M')"
proof -
  have M': "M' = M\<lparr>objects := objects M @ [p]\<rparr>" "i = length (objects M)"
    using assms(3) by (simp_all add: new_plugin_def)
  have e: "entries_ok names (objects M @ [p]) m"
    if "entries_ok names (objects M) m" for names and m :: "('k::linorder, plugin_id) amap"
    by (rule entries_ok_objects [OF that]) (auto simp: nth_append)
  show "registry_ok M'"
    using assms(1,2) by (auto simp: registry_ok_def M' e intro: less_SucI)
  show "i < length (objects M')" by (simp add: M')
qed

lemma registry_ok_maps:
  "registry_ok M \<Longrightarrow> sorted (map fst em) \<Longrightarrow> sorted (map fst xm)
   \<Longrightarrow> registry_ok (M\<lparr>extensionPluginMap := em, executeStrategyMap := xm\<rparr>)"
  "registry_ok M \<Longrightarrow> sorted (map fst em) \<Longrightarrow> registry_ok (M\<lparr>extensionPluginMap := em\<rparr>)"
  "registry_ok M \<Longrightarrow> sorted (map fst xm) \<Longrightarrow> registry_ok (M\<lparr>executeStrategyMap := xm\<rparr>)"
  "registry_ok (M\<lparr>soLoadStateMap := sm\<rparr>) = registry_ok M"
  by (simp_all add: registry_ok_def)

lemma registry_ok_AddExtension:
  assumes "registry_ok M" "i < length (objects M)"
  shows "registry_ok (snd (AddExtensionPlugin (Some i) basicCode st M))"
proof -
  obtain M1 where add: "AddPlugin (Some i) M = (True, M1)" using AddPlugin_alt [OF assms(2)] by blast
  have ok: "registry_ok M1" using registry_ok_AddPlugin [OF assms] by (simp add: add)
  have len: "i < length (objects M1)" using assms(2) add by (auto simp: AddPlugin_alt)
  define M2 where "M2 = (case GetPluginByCode basicCode M1 of
      Some b \<Rightarrow> change_plugin b (SetExecuteStrategy st) (change_plugin b (SetExtensionPlugin (Some i)) M1)
    | None \<Rightarrow> M1)"
  have "registry_ok M2"
    using ok len by (auto simp: M2_def intro!: registry_ok_change split: option.split)
  then have "registry_ok (change_plugin i (SetPluginType PLUGIN_EXTENSION) (change_plugin i (SetBasicPluginCode basicCode) M2))"
    by (intro registry_ok_change) simp_all
  then show ?thesis
    unfolding AddExtensionPlugin_def add
    by (auto simp: Let_def M2_def [symmetric] registry_ok_def ordered_insert_sorted)
qed

text \<open>A constructor leaves \<open>extensionPlugin_\<close> null.\<close>

fun fresh_registration :: "('s, 'w) registration \<Rightarrow> bool" where
  "fresh_registration (RegisterPlugin p) = (extensionPlugin p = None)"
| "fresh_registration (RegisterExtension p basicCode st) = (extensionPlugin p = None)"

definition fresh_libraries :: "('s, 'w) plugin_env \<Rightarrow> bool" where
  "fresh_libraries E = (\<forall>path regs. dlopen E path = Some regs \<longrightarrow> list_all fresh_registration regs)"

lemma registry_ok_register:
  assumes "registry_ok M" "fresh_registration r"
  shows "registry_ok (do_register r M)"
proof (cases r)
  case (RegisterPlugin p)
  obtain i M1 where n: "new_plugin p M = (i, M1)" by (rule prod.exhaust)
  show ?thesis
    using registry_ok_AddPlugin [OF registry_ok_new [OF assms(1) _ n]] assms(2) n by (simp add: RegisterPlugin)
next
  case (RegisterExtension p basicCode st)
  obtain i M1 where n: "new_plugin p M = (i, M1)" by (rule prod.exhaust)
  show ?thesis
    using registry_ok_AddExtension [OF registry_ok_new [OF assms(1) _ n]] assms(2) n by (simp add: RegisterExtension)
qed

lemma registry_ok_registers:
  "registry_ok M \<Longrightarrow> list_all fresh_registration regs \<Longrightarrow> registry_ok (fold do_register regs M)"
  by (induction regs arbitrary: M) (auto simp: registry_ok_register)

subsection \<open>Every operation keeps them so\<close>

lemma registry_ok_Load:
  assumes "registry_ok M" "fresh_libraries E"
  shows "registry_ok (LoadPlugin E soName M)"
proof -
  have "registry_ok (snd (DlopenPlugin E soName st M))" for st
    using assms by (auto simp: DlopenPlugin_def fresh_libraries_def registry_ok_registers split: option.split)
  then show ?thesis
    using assms(1) by (auto simp: LoadPlugin_def Let_def registry_ok_maps split: prod.split)
      (metis snd_conv)+
qed

lemma registry_ok_LoadExtra:
  assumes "registry_ok M" "fresh_libraries E"
  shows "registry_ok (LoadExtraPlugin E M)"
proof -
  have "registry_ok (fold (\<lambda>(name, regular) M. if regular \<and> IsExtraPlugin name then LoadPlugin E name M else M) es M)" for es
    using assms(1) by (induction es arbitrary: M) (auto simp: registry_ok_Load assms(2))
  then show ?thesis using assms(1) by (simp add: LoadExtraPlugin_def split: option.split)
qed

lemma registry_ok_LoadAll:
  "registry_ok M \<Longrightarrow> fresh_libraries E \<Longrightarrow> registry_ok (LoadAllPlugin E M)"
  by (simp add: LoadAllPlugin_def registry_ok_LoadExtra registry_ok_Load)

lemma registry_ok_LoadByCode:
  assumes "registry_ok M" "fresh_libraries E"
  shows "registry_ok (snd (LoadPluginByCode E code M))"
  using assms by (simp add: LoadPluginByCode_def Let_def registry_ok_LoadExtra registry_ok_Load split: option.split)

lemma registry_ok_GetByFuncCode:
  assumes "registry_ok M" "fresh_libraries E" "GetPluginByFuncCode E funcCode M = (plugin, M')"
  shows "registry_ok M'"
proof -
  have "M' = snd (LoadPluginByCode E (GetPolicyCode funcCode) M)"
    using assms(3) by (auto simp: GetPluginByFuncCode_def LoadPluginByFuncCode_def split: prod.splits if_splits)
  then show ?thesis by (simp add: registry_ok_LoadByCode assms(1,2))
qed

lemma registry_ok_Remove:
  assumes "registry_ok M"
  shows "registry_ok (RemovePlugin plugin M)"
proof (cases plugin)
  case (Some i)
  define M1 where "M1 = change_plugin i ResetExtensionPlugin
     (M\<lparr>extensionPluginMap := AList.delete (GetCode (plugin_at M i)) (extensionPluginMap M)\<rparr>)"
  have "registry_ok M1"
    unfolding M1_def using assms
    by (intro registry_ok_change registry_ok_maps) (auto simp: registry_ok_def sorted_delete)
  then have "registry_ok (M1\<lparr>pluginsCode := AList.delete c (pluginsCode M1), pluginsName := AList.delete n (pluginsName M1)\<rparr>)" for c n
    by (simp add: registry_ok_def entries_ok_delete)
  then show ?thesis
    by (auto simp: RemovePlugin_def Some Let_def M1_def [symmetric] intro!: registry_ok_change split: option.split)
qed (simp add: RemovePlugin_def assms)

lemma registry_ok_removes:
  "registry_ok M \<Longrightarrow> registry_ok (fold (\<lambda>code M. RemovePlugin (GetPluginByCode code M) M) codes M)"
  by (induction codes arbitrary: M) (simp_all add: registry_ok_Remove)

lemma registry_ok_unload_codes: "registry_ok M \<Longrightarrow> registry_ok (snd (unload_codes soName codes M))"
  by (auto simp: unload_codes_def Let_def registry_ok_maps registry_ok_removes split: option.split)

lemma registry_ok_Unload: "registry_ok M \<Longrightarrow> registry_ok (snd (UnloadPlugin soName M))"
  by (simp add: UnloadPlugin_def Let_def registry_ok_maps registry_ok_unload_codes)

lemma registry_ok_Task:
  assumes "registry_ok M"
  shows "registry_ok (UnloadPluginTask E soName signalled M)"
proof -
  have "registry_ok (snd (UnloadPlugin soName (M\<lparr>soLoadStateMap := sm\<rparr>)))" for sm
    by (simp add: registry_ok_Unload registry_ok_maps assms)
  then show ?thesis
    using assms by (auto simp: UnloadPluginTask_def Let_def registry_ok_maps split: option.split prod.split)
      (metis snd_conv)+
qed

lemma registry_ok_Flag:
  assumes "registry_ok M" "fresh_libraries E"
  shows "registry_ok (snd (SetPluginUnloadFlag E code b M))" "registry_ok (snd (UnloadCollectLogPlugin E M))"
  using registry_ok_LoadByCode [OF assms]
  by (auto simp: SetPluginUnloadFlag_def UnloadCollectLogPlugin_def Let_def split: prod.split option.split
      intro!: registry_ok_change) (metis snd_conv)+

subsection \<open>Reachable states\<close>

inductive registry_step :: "('s, 'w) plugin_mgr \<Rightarrow> ('s, 'w) plugin_mgr \<Rightarrow> bool" where
  rs_get: "fresh_libraries E \<Longrightarrow> GetPluginByFuncCode E funcCode M = (plugin, M') \<Longrightarrow> registry_step M M'"
| rs_load: "fresh_libraries E \<Longrightarrow> LoadPluginByCode E code M = (err, M') \<Longrightarrow> registry_step M M'"
| rs_load_all: "fresh_libraries E \<Longrightarrow> registry_step M (LoadAllPlugin E M)"
| rs_timer: "registry_step M (UnloadPluginTask E soName signalled M)"
| rs_flag: "fresh_libraries E \<Longrightarrow> SetPluginUnloadFlag E code b M = (err, M') \<Longrightarrow> registry_step M M'"
| rs_collect: "fresh_libraries E \<Longrightarrow> UnloadCollectLogPlugin E M = (err, M') \<Longrightarrow> registry_step M M'"
| rs_notify: "registry_step M (NotifyUnloadAllPlugin M)"

lemma registry_step_ok: "registry_step M M' \<Longrightarrow> registry_ok M \<Longrightarrow> registry_ok M'"
proof (induction rule: registry_step.induct)
  case (rs_load E code M err M')
  then show ?case using registry_ok_LoadByCode [of M E code] by simp
next
  case (rs_flag E code b M err M')
  then show ?case using registry_ok_Flag(1) [of M E code b] by simp
next
  case (rs_collect E M err M')
  then show ?case using registry_ok_Flag(2) [of M E] by simp
next
  case (rs_notify M)
  then show ?case by (simp add: NotifyUnloadAllPlugin_def registry_ok_maps)
qed (simp_all add: registry_ok_GetByFuncCode registry_ok_LoadAll registry_ok_Task)

lemma registry_reachable_ok: "registry_step\<^sup>*\<^sup>* PluginManager M \<Longrightarrow> registry_ok M"
  by (induction rule: rtranclp_induct) (auto simp: registry_ok_initial registry_step_ok)

subsection \<open>What unloading removes\<close>

lemma RemovePlugin_code:
  assumes "registry_ok M"
  shows "GetPluginByCode c' (RemovePlugin (GetPluginByCode c M) M) = (if c' = c then None else GetPluginByCode c' M)"
proof (cases "GetPluginByCode c M")
  case None
  then show ?thesis by (auto simp: RemovePlugin_def)
next
  case (Some i)
  note p = registry_okD [OF assms Some]
  have "policyCode (ResetExtensionPlugin q) = policyCode q" for q :: "('a, 'b) plugin"
    by (simp add: ResetExtensionPlugin_def)
  then have "pluginsCode (RemovePlugin (Some i) M) = AList.delete c (pluginsCode M)"
    using p(1,2) by (simp add: RemovePlugin_def Let_def GetCode_def plugin_at_def split: option.split)
  then show ?thesis unfolding Some by (simp add: GetPluginByCode_def)
qed

lemma RemovePlugins_code:
  "registry_ok M \<Longrightarrow> GetPluginByCode c (fold (\<lambda>code M. RemovePlugin (GetPluginByCode code M) M) codes M)
     = (if c \<in> set codes then None else GetPluginByCode c M)"
  by (induction codes arbitrary: M) (auto simp: registry_ok_Remove RemovePlugin_code)

definition library_codes :: "string \<Rightarrow> ('s, 'w) plugin_mgr \<Rightarrow> u32 list" where
  "library_codes soName M =
     (if soName = DEVICE_CORE_PLUGIN_SO then deviceCoreSoCodes
      else if soName = COMMUNICATION_PLUGIN_SO then communicationSoCodes
      else if soName = SYS_SERVICE_PLUGIN_SO then sysServiceSoCodes
      else if soName = NEED_EXTRA_PLUGIN_SO then needExtraSoCodes
      else if soName = WATERMARK_PLUGIN_SO then watermarkSoCodes
      else GetExtraPluginCodeList M)"

lemma unload_codes_spec:
  assumes "registry_ok M" "unload_codes soName codes M = (ok, M')"
  shows "GetPluginByCode c M' = (if ok \<and> c \<in> set codes then None else GetPluginByCode c M)"
    "ok \<Longrightarrow> c \<in> set codes \<Longrightarrow> GetPluginByCode c M = Some i \<Longrightarrow> pluginUnloadFlag (plugin_at M i)"
proof -
  let ?M1 = "fold (\<lambda>code M. RemovePlugin (GetPluginByCode code M) M) codes M"
  have "pluginsCode M' = (if ok then pluginsCode ?M1 else pluginsCode M)"
    using assms(2) by (auto simp: unload_codes_def Let_def split: if_splits option.splits)
  then have "GetPluginByCode c M' = (if ok then GetPluginByCode c ?M1 else GetPluginByCode c M)"
    by (simp add: GetPluginByCode_def)
  then show "GetPluginByCode c M' = (if ok \<and> c \<in> set codes then None else GetPluginByCode c M)"
    by (simp add: RemovePlugins_code [OF assms(1)])
  show "ok \<Longrightarrow> c \<in> set codes \<Longrightarrow> GetPluginByCode c M = Some i \<Longrightarrow> pluginUnloadFlag (plugin_at M i)"
    using assms(2) by (force simp: unload_codes_def Let_def HasPersistPlugin_def list_ex_iff split: if_splits)
qed

lemma UnloadPlugin_spec:
  assumes "registry_ok M" "UnloadPlugin soName M = (ok, M')"
  shows "GetPluginByCode c M' = (if ok \<and> c \<in> set (library_codes soName M) then None else GetPluginByCode c M)"
    "ok \<Longrightarrow> c \<in> set (library_codes soName M) \<Longrightarrow> GetPluginByCode c M = Some i \<Longrightarrow> pluginUnloadFlag (plugin_at M i)"
proof -
  let ?M0 = "M\<lparr>extensionPluginMap := [], executeStrategyMap := []\<rparr>"
  have ok0: "registry_ok ?M0" by (simp add: registry_ok_maps assms(1))
  have frame: "GetPluginByCode c ?M0 = GetPluginByCode c M" "plugin_at ?M0 i = plugin_at M i" for c i
    by (simp_all add: GetPluginByCode_def plugin_at_def)
  have cases: "(ok, M') = (False, M) \<or> unload_codes soName (library_codes soName M) M = (ok, M')
      \<or> unload_codes soName (library_codes soName M) ?M0 = (ok, M')"
    using assms(2) by (auto simp: UnloadPlugin_def library_codes_def Let_def split: if_splits)
  then show "GetPluginByCode c M' = (if ok \<and> c \<in> set (library_codes soName M) then None else GetPluginByCode c M)"
    using unload_codes_spec(1) [OF assms(1), of soName "library_codes soName M" ok M' c]
      unload_codes_spec(1) [OF ok0, of soName "library_codes soName M" ok M' c] frame(1)
    by (elim disjE) simp_all
  show "pluginUnloadFlag (plugin_at M i)"
    if "ok" "c \<in> set (library_codes soName M)" "GetPluginByCode c M = Some i"
    using cases that unload_codes_spec(2) [OF assms(1), of soName "library_codes soName M" ok M' c i]
      unload_codes_spec(2) [OF ok0, of soName "library_codes soName M" ok M' c i] frame
    by (elim disjE) simp_all
qed

subsection \<open>Properties\<close>

text \<open>C11: Looking a plugin up is safe in every state the manager can reach. When
  \<open>GetPluginByFuncCode\<close> answers with a plugin, the function code has the policy flag and a known
  code, the object exists, it has exactly that policy code, and its execute strategy has been set,
  so that \<open>GetExecuteStrategy()->\<close> never dereferences null.\<close>

theorem plugin_lookup_sound:
  assumes "registry_step\<^sup>*\<^sup>* PluginManager M" "fresh_libraries E"
    and "GetPluginByFuncCode E funcCode M = (Some i, M')"
  shows "GetSystemFlag funcCode = POLICY_FLAG \<and> i < length (objects M')
    \<and> GetCode (plugin_at M' i) = GetPolicyCode funcCode
    \<and> GetExecuteStrategy (plugin_at M' i) \<noteq> None
    \<and> (GetPolicyCode funcCode > IC_POLICY_CODE_END \<or> GetSoNameByCode (GetPolicyCode funcCode) \<noteq> None)"
proof -
  have "registry_ok M'"
    by (rule registry_ok_GetByFuncCode [OF registry_reachable_ok [OF assms(1)] assms(2,3)])
  moreover have "GetPluginByCode (GetPolicyCode funcCode) M' = Some i" "GetSystemFlag funcCode = POLICY_FLAG"
    using assms(3) by (auto simp: GetPluginByFuncCode_def GetPluginByCode_def split: prod.splits if_splits)
  moreover have "GetPolicyCode funcCode > IC_POLICY_CODE_END \<or> GetSoNameByCode (GetPolicyCode funcCode) \<noteq> None"
    using assms(3) by (auto simp: GetPluginByFuncCode_def LoadPluginByFuncCode_def LoadPluginByCode_def
        split: prod.splits if_splits option.splits)
  ultimately show ?thesis
    using registry_okD [of M' "GetPolicyCode funcCode" i] by (simp add: GetCode_def GetExecuteStrategy_def)
qed


subsection \<open>Extensions\<close>

lemma do_register_plugin:
  "\<exists>p'. do_register (RegisterPlugin p) M = M\<lparr>objects := objects M @ [p'],
     pluginsCode := ordered_insert (policyCode p) (length (objects M)) (pluginsCode M),
     pluginsName := ordered_insert (policyName p) (length (objects M)) (pluginsName M)\<rparr>
   \<and> policyCode p' = policyCode p \<and> policyName p' = policyName p
   \<and> (\<forall>st. map_of (executeStrategyMap M) (policyCode p) = Some st \<longrightarrow> strategy p' = Some st)
   \<and> (\<forall>e. map_of (extensionPluginMap M) (policyCode p) = Some e \<longrightarrow>
        extensionPlugin p' = map_of (ordered_insert (policyCode p) (length (objects M)) (pluginsCode M)) e)"
  by (rule exI [of _ "linked (length (objects M)) (M\<lparr>objects := objects M @ [p]\<rparr>)"])
    (simp add: new_plugin_def AddPlugin_alt nth_append list_update_append linked_def Let_def)

text \<open>What a registered extension leaves behind, with its basic plugin registered before or not.\<close>

lemma do_register_extension:
  assumes ok: "sorted (map fst (pluginsCode M))" "sorted (map fst (extensionPluginMap M))"
      "sorted (map fst (executeStrategyMap M))"
    and "policyCode x \<noteq> c" "GetPluginByCode (policyCode x) M = None"
    and "map_of (extensionPluginMap M) c = None" "map_of (executeStrategyMap M) c = None"
    and b: "\<And>b. GetPluginByCode c M = Some b \<Longrightarrow> b < length (objects M)"
    and M': "M' = do_register (RegisterExtension x c st) M"
  shows "GetPluginByCode c M' = GetPluginByCode c M" "GetPluginByCode (policyCode x) M' = Some (length (objects M))"
    "pluginType (plugin_at M' (length (objects M))) = PLUGIN_EXTENSION"
    "basicPluginCode (plugin_at M' (length (objects M))) = c"
    "GetPluginByCode c M = Some b \<Longrightarrow> extensionPlugin (plugin_at M' b) = Some (length (objects M))
       \<and> strategy (plugin_at M' b) = Some st"
    "map_of (extensionPluginMap M') c = Some (policyCode x)" "map_of (executeStrategyMap M') c = Some st"
    "length (objects M') = Suc (length (objects M))" "sorted (map fst (pluginsCode M'))"
proof -
  let ?n = "length (objects M)"
  obtain i M0 where new: "new_plugin x M = (i, M0)" by (rule prod.exhaust)
  obtain x' where reg: "do_register (RegisterPlugin x) M = M\<lparr>objects := objects M @ [x'],
     pluginsCode := ordered_insert (policyCode x) ?n (pluginsCode M),
     pluginsName := ordered_insert (policyName x) ?n (pluginsName M)\<rparr>" and x': "policyCode x' = policyCode x"
    using do_register_plugin [of x M] by blast
  define M1 where "M1 = do_register (RegisterPlugin x) M"
  have M1: "M1 = M\<lparr>objects := objects M @ [x'],
     pluginsCode := ordered_insert (policyCode x) ?n (pluginsCode M),
     pluginsName := ordered_insert (policyName x) ?n (pluginsName M)\<rparr>"
    using reg by (simp only: M1_def)
  have i: "i = ?n" "?n < length (objects M0)" using new by (auto simp: new_plugin_def)
  then have add: "AddPlugin (Some ?n) M0 = (True, M1)"
    using new by (simp add: M1_def AddPlugin_alt)
  have c1: "GetPluginByCode c M1 = GetPluginByCode c M" "GetPluginByCode (policyCode x) M1 = Some ?n"
    using assms(4,5) by (simp_all add: M1 GetPluginByCode_def ordered_insert_lookup [OF ok(1)])
  define M2 where "M2 = (case GetPluginByCode c M1 of
      Some b \<Rightarrow> change_plugin b (SetExecuteStrategy st) (change_plugin b (SetExtensionPlugin (Some ?n)) M1)
    | None \<Rightarrow> M1)"
  define M3 where "M3 = change_plugin ?n (SetPluginType PLUGIN_EXTENSION) (change_plugin ?n (SetBasicPluginCode c) M2)"
  have tab: "pluginsCode M3 = pluginsCode M1" "extensionPluginMap M3 = extensionPluginMap M"
    "executeStrategyMap M3 = executeStrategyMap M" "length (objects M3) = Suc ?n"
    by (simp_all add: M3_def M2_def M1 split: option.split)
  have t2: "extensionPluginMap M2 = extensionPluginMap M3" "executeStrategyMap M2 = executeStrategyMap M3"
    by (simp_all add: M3_def)
  have obj: "objects M1 = objects M @ [x']" by (simp add: M1)
  have at_n: "plugin_at M3 ?n = (objects M2 ! ?n)\<lparr>basicPluginCode := c, pluginType := PLUGIN_EXTENSION\<rparr>"
    by (simp add: M3_def plugin_at_def M2_def obj SetPluginType_def SetBasicPluginCode_def split: option.split)
  have n2: "policyCode (objects M2 ! ?n) = policyCode x"
    using b c1(1) by (auto simp: M2_def obj nth_append nth_list_update x' split: option.split)
  have M': "M' = M3\<lparr>extensionPluginMap := ordered_insert c (policyCode x) (extensionPluginMap M3),
      executeStrategyMap := ordered_insert c st (executeStrategyMap M3)\<rparr>"
    using new i add n2 at_n
    by (simp add: M' AddExtensionPlugin_def Let_def M2_def [symmetric] M3_def [symmetric] GetCode_def t2)
  have frame: "GetPluginByCode k M' = GetPluginByCode k M1" "plugin_at M' j = plugin_at M3 j" for k j
    by (simp_all add: M' GetPluginByCode_def plugin_at_def tab)
  show "GetPluginByCode c M' = GetPluginByCode c M" "GetPluginByCode (policyCode x) M' = Some ?n"
    by (simp_all add: frame c1)
  show "pluginType (plugin_at M' ?n) = PLUGIN_EXTENSION" "basicPluginCode (plugin_at M' ?n) = c"
    by (simp_all add: frame at_n)
  show "map_of (extensionPluginMap M') c = Some (policyCode x)" "map_of (executeStrategyMap M') c = Some st"
    using assms(6,7) by (simp_all add: M' tab ordered_insert_lookup [OF ok(2)] ordered_insert_lookup [OF ok(3)])
  show "length (objects M') = Suc ?n" "sorted (map fst (pluginsCode M'))"
    by (simp_all add: M' tab M1 ordered_insert_sorted [OF ok(1)])
  show "extensionPlugin (plugin_at M' b) = Some ?n \<and> strategy (plugin_at M' b) = Some st"
    if "GetPluginByCode c M = Some b"
    using that b [OF that] c1(1) unfolding frame
    by (simp add: M3_def M2_def plugin_at_def obj nth_append SetExecuteStrategy_def SetExtensionPlugin_def)
qed

text \<open>C13: The order in which libraries are loaded does not matter to an extension. Registering a basic
  plugin and then its extension, or the extension first, gives in both cases a basic plugin that points
  to the extension, with the strategy the extension asked for.\<close>

theorem extension_order_irrelevant:
  assumes "registry_step\<^sup>*\<^sup>* PluginManager M"
    and "GetCode b = c" "GetCode x = e" "c \<noteq> e" "GetPluginByCode c M = None" "GetPluginByCode e M = None"
    and "map_of (extensionPluginMap M) c = None" "map_of (executeStrategyMap M) c = None"
    and "regs = [RegisterPlugin b, RegisterExtension x c st] \<or> regs = [RegisterExtension x c st, RegisterPlugin b]"
    and "M' = fold do_register regs M"
  shows "\<exists>ib ix. GetPluginByCode c M' = Some ib \<and> GetPluginByCode e M' = Some ix
    \<and> GetExtensionPlugin (plugin_at M' ib) = Some ix \<and> GetExecuteStrategy (plugin_at M' ib) = Some st
    \<and> Plugin_GetPluginType (plugin_at M' ix) = PLUGIN_EXTENSION \<and> GetBasicPluginCode (plugin_at M' ix) = c"
proof -
  note defs = GetCode_def GetExtensionPlugin_def GetExecuteStrategy_def Plugin_GetPluginType_def
    GetBasicPluginCode_def
  have ok: "sorted (map fst (pluginsCode M))" "sorted (map fst (extensionPluginMap M))"
    "sorted (map fst (executeStrategyMap M))"
    using registry_reachable_ok [OF assms(1)] by (simp_all add: registry_ok_def entries_ok_def)
  let ?n = "length (objects M)"
  from assms(9) show ?thesis
  proof
    assume regs: "regs = [RegisterPlugin b, RegisterExtension x c st]"
    define M1 where "M1 = do_register (RegisterPlugin b) M"
    obtain b' where M1: "M1 = M\<lparr>objects := objects M @ [b'],
        pluginsCode := ordered_insert (policyCode b) ?n (pluginsCode M),
        pluginsName := ordered_insert (policyName b) ?n (pluginsName M)\<rparr>"
      using do_register_plugin [of b M] by (auto simp: M1_def simp del: do_register.simps)
    have look: "GetPluginByCode k M1 = (if k = c then Some ?n else GetPluginByCode k M)" for k
      using assms(2,5) by (simp add: M1 GetPluginByCode_def ordered_insert_lookup [OF ok(1)] GetCode_def)
    have M': "M' = do_register (RegisterExtension x c st) M1"
      using assms(10) regs by (simp add: M1_def)
    have pre: "sorted (map fst (pluginsCode M1))" "extensionPluginMap M1 = extensionPluginMap M"
      "executeStrategyMap M1 = executeStrategyMap M" "length (objects M1) = Suc ?n"
      by (simp_all add: M1 ordered_insert_sorted [OF ok(1)])
    have "GetPluginByCode c M' = Some ?n" "GetPluginByCode e M' = Some (Suc ?n)"
      "pluginType (plugin_at M' (Suc ?n)) = PLUGIN_EXTENSION" "basicPluginCode (plugin_at M' (Suc ?n)) = c"
      "extensionPlugin (plugin_at M' ?n) = Some (Suc ?n)" "strategy (plugin_at M' ?n) = Some st"
      using do_register_extension(1-5) [OF _ _ _ _ _ _ _ _ M'] pre ok look assms(3-8)
      by (simp_all add: GetCode_def del: do_register.simps)
    then show ?thesis by (auto simp: defs)
  next
    assume regs: "regs = [RegisterExtension x c st, RegisterPlugin b]"
    define M1 where "M1 = do_register (RegisterExtension x c st) M"
    note ext = do_register_extension [OF ok _ _ assms(7,8) _ M1_def]
    have look: "GetPluginByCode c M1 = None" "GetPluginByCode e M1 = Some ?n"
      "pluginType (plugin_at M1 ?n) = PLUGIN_EXTENSION" "basicPluginCode (plugin_at M1 ?n) = c"
      "map_of (extensionPluginMap M1) c = Some e" "map_of (executeStrategyMap M1) c = Some st"
      "length (objects M1) = Suc ?n" "sorted (map fst (pluginsCode M1))"
      using ext assms(2-6) by (simp_all add: GetCode_def)
    have M': "M' = do_register (RegisterPlugin b) M1" using assms(10) regs by (simp add: M1_def)
    obtain b' where M1: "M' = M1\<lparr>objects := objects M1 @ [b'],
        pluginsCode := ordered_insert (policyCode b) (Suc ?n) (pluginsCode M1),
        pluginsName := ordered_insert (policyName b) (Suc ?n) (pluginsName M1)\<rparr>"
      and b': "strategy b' = Some st" "extensionPlugin b' = map_of (ordered_insert c (Suc ?n) (pluginsCode M1)) e"
      using do_register_plugin [of b M1] assms(2) look(5-7)
      by (auto simp: M' GetCode_def simp del: do_register.simps)
    have look': "GetPluginByCode k M' = (if k = c then Some (Suc ?n) else GetPluginByCode k M1)" for k
      using assms(2) look(1) by (simp add: M1 GetPluginByCode_def ordered_insert_lookup [OF look(8)] GetCode_def)
    have "extensionPlugin b' = Some ?n"
      using b'(2) look(2) assms(4) by (simp add: ordered_insert_lookup [OF look(8)] GetPluginByCode_def)
    then show ?thesis
      using look look' b' assms(4)
      by (intro exI [of _ "Suc ?n"] exI [of _ ?n]) (simp add: defs M1 plugin_at_def nth_append)
  qed
qed

subsection \<open>A small installation\<close>

text \<open>One plugin of the device core library, an extension of it in one extra library, and a plugin of
  a second extra library.\<close>

definition sample_plugin :: "u32 \<Rightarrow> string \<Rightarrow> (list_store, unit) plugin" where
  "sample_plugin code name = IPlugin\<lparr>policyCode := code, policyName := name\<rparr>"

definition sample_libraries :: "string \<Rightarrow> (list_store, unit) registration list option" where
  "sample_libraries so =
     (if so = DEVICE_CORE_PLUGIN_SO then Some [RegisterPlugin (sample_plugin IC_DISABLED_HDC ''disabled_hdc'')]
      else if so = ''liba.z.so'' then Some [RegisterExtension (sample_plugin 3101 ''a'') IC_DISABLED_HDC STRATEGY_ENHANCE]
      else if so = ''libb.z.so'' then Some [RegisterPlugin (sample_plugin 3102 ''b'')]
      else None)"

definition sample_env :: "int \<Rightarrow> (list_store, unit) plugin_env" where
  "sample_env t = \<lparr> dlopen = sample_libraries, pluginDir = Some [(''liba.z.so'', True), (''libb.z.so'', True)], now = t \<rparr>"

definition set_code :: "u32 \<Rightarrow> u32" where
  "set_code code = POLICY_FUNC_CODE (operate_type_code OP_SET) code"

lemma sample_fresh: "fresh_libraries (sample_env t)"
  by (auto simp: fresh_libraries_def sample_env_def sample_libraries_def sample_plugin_def IPlugin_def split: if_splits)

theorem plugin_lookup_sound_witness:
  "let (plugin, M) = GetPluginByFuncCode (sample_env 0) (set_code IC_DISABLED_HDC) PluginManager
   in plugin = Some 0 \<and> GetExecuteStrategy (plugin_at M 0) \<noteq> None"
proof -
  obtain plugin M where r: "GetPluginByFuncCode (sample_env 0) (set_code IC_DISABLED_HDC) PluginManager = (plugin, M)"
    by (rule prod.exhaust)
  have "fst (GetPluginByFuncCode (sample_env 0) (set_code IC_DISABLED_HDC) PluginManager) = Some 0" by code_simp
  then have "plugin = Some 0" by (simp add: r)
  with plugin_lookup_sound [OF rtranclp.rtrancl_refl sample_fresh, of 0 "set_code IC_DISABLED_HDC" 0 M] r
  show ?thesis by simp
qed


theorem extension_order_irrelevant_witness:
  "let M = fold do_register [RegisterExtension (sample_plugin 3101 ''a'') 7 STRATEGY_REPLACE,
       RegisterPlugin (sample_plugin 7 ''seven'')] PluginManager
   in \<exists>ib ix. GetPluginByCode 7 M = Some ib \<and> GetPluginByCode 3101 M = Some ix
     \<and> GetExtensionPlugin (plugin_at M ib) = Some ix"
  using extension_order_irrelevant [OF rtranclp.rtrancl_refl, of "sample_plugin 7 ''seven''" 7
      "sample_plugin 3101 ''a''" 3101 _ STRATEGY_REPLACE _, OF _ _ _ _ _ _ _ disjI2 [OF refl] refl]
  by (simp add: sample_plugin_def GetCode_def PluginManager_def GetPluginByCode_def Let_def del: do_register.simps) blast

definition call_at :: "int \<Rightarrow> u32 \<Rightarrow> (list_store, unit) plugin_mgr \<Rightarrow> (list_store, unit) plugin_mgr" where
  "call_at t code M = snd (GetPluginByFuncCode (sample_env t) (set_code code) M)"

definition timer_at :: "int \<Rightarrow> string \<Rightarrow> (list_store, unit) plugin_mgr \<Rightarrow> (list_store, unit) plugin_mgr" where
  "timer_at t soName M = UnloadPluginTask (sample_env t) soName False M"

definition observe :: "u32 \<Rightarrow> ('s, 'w) plugin_mgr \<Rightarrow> (plugin_id option \<times> execute_strategy option) option" where
  "observe code M = map_option (\<lambda>i. (GetExtensionPlugin (plugin_at M i), GetExecuteStrategy (plugin_at M i)))
     (GetPluginByCode code M)"

text \<open>Reloading a basic plugin loses its extension. \<open>RemovePlugin\<close> of the basic plugin erases its
  entry of \<open>extensionPluginMap_\<close>, which only the extension's own library writes. When the basic
  library is unloaded while idle and loaded again, while the extension's library stays loaded, the
  basic plugin keeps the strategy \<open>ENHANCE\<close> but no longer points to the registered extension: its
  checks are silently skipped.\<close>

theorem extension_lost_on_reload:
  "observe IC_DISABLED_HDC (call_at 0 IC_DISABLED_HDC (call_at 0 3101 PluginManager))
     = Some (GetPluginByCode 3101 (call_at 0 3101 PluginManager), Some STRATEGY_ENHANCE)
   \<and> observe IC_DISABLED_HDC (call_at 180001 IC_DISABLED_HDC (timer_at 180000 DEVICE_CORE_PLUGIN_SO
       (call_at 100000 3101 (call_at 0 IC_DISABLED_HDC (call_at 0 3101 PluginManager)))))
     = Some (None, Some STRATEGY_ENHANCE)
   \<and> GetPluginByCode 3101 (call_at 180001 IC_DISABLED_HDC (timer_at 180000 DEVICE_CORE_PLUGIN_SO
       (call_at 100000 3101 (call_at 0 IC_DISABLED_HDC (call_at 0 3101 PluginManager)))))
     = Some 0"
  by (intro conjI) code_simp+

text \<open>Unloading one extra library unregisters the plugins of all of them. When the timer of the
  first extra library unloads it, the plugin of the second one is gone from the tables although its
  library stays loaded; the next call for its policy marks the library as used, finds no plugin and is
  answered as unsupported.\<close>

theorem extra_unload_drops_other_libraries:
  "fst (GetPluginByFuncCode (sample_env 0) (set_code 3102) PluginManager) = Some 1
   \<and> fst (GetPluginByFuncCode (sample_env 180001) (set_code 3102)
        (timer_at 180000 ''liba.z.so'' (call_at 0 3102 PluginManager))) = None
   \<and> map_option (\<lambda>st. (pluginHasInit st, lastCallTime st)) (map_of (soLoadStateMap
        (call_at 180001 3102 (timer_at 180000 ''liba.z.so'' (call_at 0 3102 PluginManager)))) ''libb.z.so'')
      = Some (True, 180001)"
  by (intro conjI) code_simp+

end
