(* ===== verification/Plugin_Dispatch.thy ===== *)
theory Plugin_Dispatch
  imports Plugin_Registry
begin

text \<open>
  \<open>services/edm/src/strategy/*.cpp\<close> and the second part of \<open>plugin_manager.cpp\<close>: running a policy's
  plugin and its extension, and storing what they decide. A state is the plugin manager, the policy
  manager with the database, and \<open>'w\<close> for the parcels and services the plugins act on.
\<close>

subsection \<open>Execute strategies\<close>

text \<open>\<open>extensionPlugin != nullptr && extensionPlugin->GetPluginType() == EXTENSION\<close>.\<close>

definition active_extension :: "('s, 'w) plugin_mgr \<Rightarrow> ('s, 'w) plugin \<Rightarrow> ('s, 'w) plugin option" where
  "active_extension M p =
     (case GetExtensionPlugin p of
        None \<Rightarrow> None
      | Some e \<Rightarrow> (if Plugin_GetPluginType (plugin_at M e) = PLUGIN_EXTENSION then Some (plugin_at M e) else None))"

definition failed_hard :: "err_code \<Rightarrow> bool" where
  "failed_hard ret = (FAILED ret \<and> ret \<noteq> INTERFACE_UNSUPPORTED)"

definition Single_OnGetExecute :: "('s, 'w) plugin_env \<Rightarrow> u32 \<Rightarrow> string \<Rightarrow> user_id \<Rightarrow> ('s, 'w) plugin_mgr \<times> 's pm_state \<times> 'w
    \<Rightarrow> err_code \<times> string \<times> ('s, 'w) plugin_mgr \<times> 's pm_state \<times> 'w" where
  "Single_OnGetExecute E funcCode value userId = (\<lambda>(M, w).
     (let (plugin, M) = GetPluginByFuncCode E funcCode M in
      case plugin of
        None \<Rightarrow> (ERR_EDM_GET_POLICY_FAILED, value, M, w)
      | Some i \<Rightarrow> (let (ret, value, w) = onGetPolicy (plugin_at M i) value userId w in (ret, value, M, w))))"

definition Enhance_OnGetExecute :: "('s, 'w) plugin_env \<Rightarrow> u32 \<Rightarrow> string \<Rightarrow> user_id \<Rightarrow> ('s, 'w) plugin_mgr \<times> 's pm_state \<times> 'w
    \<Rightarrow> err_code \<times> string \<times> ('s, 'w) plugin_mgr \<times> 's pm_state \<times> 'w" where
  "Enhance_OnGetExecute E funcCode value userId = (\<lambda>(M, w).
     (let (plugin, M) = GetPluginByFuncCode E funcCode M in
      case plugin of
        None \<Rightarrow> (ERR_EDM_GET_POLICY_FAILED, value, M, w)
      | Some i \<Rightarrow>
          (let (ret, value, w) = onGetPolicy (plugin_at M i) value userId w in
           if failed_hard ret then (ret, value, M, w)
           else (case active_extension M (plugin_at M i) of
                   Some x \<Rightarrow> (let (ret, value, w) = onGetPolicy x value userId w in (ret, value, M, w))
                 | None \<Rightarrow> (ret, value, M, w)))))"

definition Replace_OnGetExecute :: "('s, 'w) plugin_env \<Rightarrow> u32 \<Rightarrow> string \<Rightarrow> user_id \<Rightarrow> ('s, 'w) plugin_mgr \<times> 's pm_state \<times> 'w
    \<Rightarrow> err_code \<times> string \<times> ('s, 'w) plugin_mgr \<times> 's pm_state \<times> 'w" where
  "Replace_OnGetExecute E funcCode value userId = (\<lambda>(M, w).
     (let (plugin, M) = GetPluginByFuncCode E funcCode M in
      case plugin of
        None \<Rightarrow> (ERR_EDM_GET_POLICY_FAILED, value, M, w)
      | Some i \<Rightarrow>
          (let p = (case active_extension M (plugin_at M i) of Some x \<Rightarrow> x | None \<Rightarrow> plugin_at M i);
               (ret, value, w) = onGetPolicy p value userId w
           in (ret, value, M, w))))"

text \<open>The strategy of a plugin that was never registered is the interface itself, whose methods do
  nothing.\<close>

definition OnGetExecute :: "('s, 'w) plugin_env \<Rightarrow> execute_strategy option \<Rightarrow> u32 \<Rightarrow> string \<Rightarrow> user_id
    \<Rightarrow> ('s, 'w) plugin_mgr \<times> 's pm_state \<times> 'w \<Rightarrow> err_code \<times> string \<times> ('s, 'w) plugin_mgr \<times> 's pm_state \<times> 'w" where
  "OnGetExecute E st funcCode value userId s =
     (case st of
        None \<Rightarrow> (ERR_OK, value, s)
      | Some STRATEGY_SINGLE \<Rightarrow> Single_OnGetExecute E funcCode value userId s
      | Some STRATEGY_ENHANCE \<Rightarrow> Enhance_OnGetExecute E funcCode value userId s
      | Some STRATEGY_REPLACE \<Rightarrow> Replace_OnGetExecute E funcCode value userId s)"

definition Single_OnSetExecute :: "('s, 'w) plugin_env \<Rightarrow> u32 \<Rightarrow> handle_policy_data \<Rightarrow> user_id
    \<Rightarrow> ('s, 'w) plugin_mgr \<times> 's pm_state \<times> 'w \<Rightarrow> err_code \<times> handle_policy_data \<times> ('s, 'w) plugin_mgr \<times> 's pm_state \<times> 'w" where
  "Single_OnSetExecute E funcCode pd userId = (\<lambda>(M, w).
     (let (plugin, M) = GetPluginByFuncCode E funcCode M in
      case plugin of
        None \<Rightarrow> (ERR_EDM_HANDLE_POLICY_FAILED, pd, M, w)
      | Some i \<Rightarrow> (let (ret, pd, w) = onHandlePolicy (plugin_at M i) funcCode pd userId w in (ret, pd, M, w))))"

definition Enhance_OnSetExecute :: "('s, 'w) plugin_env \<Rightarrow> u32 \<Rightarrow> handle_policy_data \<Rightarrow> user_id
    \<Rightarrow> ('s, 'w) plugin_mgr \<times> 's pm_state \<times> 'w \<Rightarrow> err_code \<times> handle_policy_data \<times> ('s, 'w) plugin_mgr \<times> 's pm_state \<times> 'w" where
  "Enhance_OnSetExecute E funcCode pd userId = (\<lambda>(M, w).
     (let (plugin, M) = GetPluginByFuncCode E funcCode M in
      case plugin of
        None \<Rightarrow> (ERR_EDM_HANDLE_POLICY_FAILED, pd, M, w)
      | Some i \<Rightarrow>
          (let p = plugin_at M i;
               extension = active_extension M p;
               (ret, pd, w) = onHandlePolicyPrepare p funcCode pd userId w
           in if failed_hard ret then (ret, pd, M, w)
              else
                (let (ret, pd, w) = (case extension of
                       Some x \<Rightarrow> onHandlePolicyPrepare x funcCode pd userId w
                     | None \<Rightarrow> (ret, pd, w))
                 in if extension \<noteq> None \<and> failed_hard ret then (ret, pd, M, w)
                    else
                      (let (ret, pd, w) = onHandlePolicy p funcCode pd userId w in
                       if failed_hard ret then (ret, pd, M, w)
                       else (case extension of
                               Some x \<Rightarrow> (let (ret, pd, w) = onHandlePolicy x funcCode pd userId w in (ret, pd, M, w))
                             | None \<Rightarrow> (ret, pd, M, w)))))))"

definition Replace_OnSetExecute :: "('s, 'w) plugin_env \<Rightarrow> u32 \<Rightarrow> handle_policy_data \<Rightarrow> user_id
    \<Rightarrow> ('s, 'w) plugin_mgr \<times> 's pm_state \<times> 'w \<Rightarrow> err_code \<times> handle_policy_data \<times> ('s, 'w) plugin_mgr \<times> 's pm_state \<times> 'w" where
  "Replace_OnSetExecute E funcCode pd userId = (\<lambda>(M, w).
     (let (plugin, M) = GetPluginByFuncCode E funcCode M in
      case plugin of
        None \<Rightarrow> (ERR_EDM_HANDLE_POLICY_FAILED, pd, M, w)
      | Some i \<Rightarrow>
          (let p = (case active_extension M (plugin_at M i) of Some x \<Rightarrow> x | None \<Rightarrow> plugin_at M i);
               (ret, pd, w) = onHandlePolicy p funcCode pd userId w
           in (ret, pd, M, w))))"

definition OnSetExecute :: "('s, 'w) plugin_env \<Rightarrow> execute_strategy option \<Rightarrow> u32 \<Rightarrow> handle_policy_data \<Rightarrow> user_id
    \<Rightarrow> ('s, 'w) plugin_mgr \<times> 's pm_state \<times> 'w \<Rightarrow> err_code \<times> handle_policy_data \<times> ('s, 'w) plugin_mgr \<times> 's pm_state \<times> 'w" where
  "OnSetExecute E st funcCode pd userId s =
     (case st of
        None \<Rightarrow> (ERR_OK, pd, s)
      | Some STRATEGY_SINGLE \<Rightarrow> Single_OnSetExecute E funcCode pd userId s
      | Some STRATEGY_ENHANCE \<Rightarrow> Enhance_OnSetExecute E funcCode pd userId s
      | Some STRATEGY_REPLACE \<Rightarrow> Replace_OnSetExecute E funcCode pd userId s)"

definition Single_OnInitExecute :: "('s, 'w) plugin_env \<Rightarrow> u32 \<Rightarrow> string \<Rightarrow> user_id \<Rightarrow> ('s, 'w) plugin_mgr \<times> 's pm_state \<times> 'w
    \<Rightarrow> err_code \<times> ('s, 'w) plugin_mgr \<times> 's pm_state \<times> 'w" where
  "Single_OnInitExecute E funcCode adminName userId = (\<lambda>(M, w).
     (let (plugin, M) = GetPluginByFuncCode E funcCode M in
      case plugin of
        None \<Rightarrow> (ERR_EDM_HANDLE_POLICY_FAILED, M, w)
      | Some i \<Rightarrow> (ERR_OK, M, onOtherServiceStartForAdmin (plugin_at M i) adminName userId w)))"

definition Enhance_OnInitExecute :: "('s, 'w) plugin_env \<Rightarrow> u32 \<Rightarrow> string \<Rightarrow> user_id \<Rightarrow> ('s, 'w) plugin_mgr \<times> 's pm_state \<times> 'w
    \<Rightarrow> err_code \<times> ('s, 'w) plugin_mgr \<times> 's pm_state \<times> 'w" where
  "Enhance_OnInitExecute E funcCode adminName userId = (\<lambda>(M, w).
     (let (plugin, M) = GetPluginByFuncCode E funcCode M in
      case plugin of
        None \<Rightarrow> (ERR_EDM_HANDLE_POLICY_FAILED, M, w)
      | Some i \<Rightarrow> (case active_extension M (plugin_at M i) of
            Some x \<Rightarrow> (ERR_OK, M, onOtherServiceStartForAdmin x adminName userId w)
          | None \<Rightarrow> (ERR_OK, M, onOtherServiceStartForAdmin (plugin_at M i) adminName userId w))))"

definition Replace_OnInitExecute :: "('s, 'w) plugin_env \<Rightarrow> u32 \<Rightarrow> string \<Rightarrow> user_id \<Rightarrow> ('s, 'w) plugin_mgr \<times> 's pm_state \<times> 'w
    \<Rightarrow> err_code \<times> ('s, 'w) plugin_mgr \<times> 's pm_state \<times> 'w" where
  "Replace_OnInitExecute E funcCode adminName userId = (\<lambda>(M, w).
     (let (plugin, M) = GetPluginByFuncCode E funcCode M in
      case plugin of
        None \<Rightarrow> (ERR_EDM_HANDLE_POLICY_FAILED, M, w)
      | Some i \<Rightarrow> (case active_extension M (plugin_at M i) of
            Some x \<Rightarrow> (ERR_OK, M, onOtherServiceStartForAdmin x adminName userId w)
          | None \<Rightarrow> (ERR_OK, M, onOtherServiceStartForAdmin (plugin_at M i) adminName userId w))))"

definition OnInitExecute :: "('s, 'w) plugin_env \<Rightarrow> execute_strategy option \<Rightarrow> u32 \<Rightarrow> string \<Rightarrow> user_id
    \<Rightarrow> ('s, 'w) plugin_mgr \<times> 's pm_state \<times> 'w \<Rightarrow> err_code \<times> ('s, 'w) plugin_mgr \<times> 's pm_state \<times> 'w" where
  "OnInitExecute E st funcCode adminName userId s =
     (case st of
        None \<Rightarrow> (ERR_OK, s)
      | Some STRATEGY_SINGLE \<Rightarrow> Single_OnInitExecute E funcCode adminName userId s
      | Some STRATEGY_ENHANCE \<Rightarrow> Enhance_OnInitExecute E funcCode adminName userId s
      | Some STRATEGY_REPLACE \<Rightarrow> Replace_OnInitExecute E funcCode adminName userId s)"

definition Single_OnAdminRemoveExecute :: "('s, 'w) plugin_env \<Rightarrow> u32 \<Rightarrow> string \<Rightarrow> string \<Rightarrow> string \<Rightarrow> user_id
    \<Rightarrow> ('s, 'w) plugin_mgr \<times> 's pm_state \<times> 'w \<Rightarrow> err_code \<times> ('s, 'w) plugin_mgr \<times> 's pm_state \<times> 'w" where
  "Single_OnAdminRemoveExecute E funcCode adminName policyValue mergedPolicyData userId = (\<lambda>(M, w).
     (let (plugin, M) = GetPluginByFuncCode E funcCode M in
      case plugin of
        None \<Rightarrow> (ERR_EDM_GET_PLUGIN_MGR_FAILED, M, w)
      | Some i \<Rightarrow>
          (let (ret, w) = onAdminRemove (plugin_at M i) adminName policyValue mergedPolicyData userId w
           in (if ret \<noteq> ERR_OK then ERR_EDM_HANDLE_POLICY_FAILED else ERR_OK, M, w))))"

definition Enhance_OnAdminRemoveExecute :: "('s, 'w) plugin_env \<Rightarrow> u32 \<Rightarrow> string \<Rightarrow> string \<Rightarrow> string \<Rightarrow> user_id
    \<Rightarrow> ('s, 'w) plugin_mgr \<times> 's pm_state \<times> 'w \<Rightarrow> err_code \<times> ('s, 'w) plugin_mgr \<times> 's pm_state \<times> 'w" where
  "Enhance_OnAdminRemoveExecute E funcCode adminName policyValue mergedPolicyData userId = (\<lambda>(M, w).
     (let (plugin, M) = GetPluginByFuncCode E funcCode M in
      case plugin of
        None \<Rightarrow> (ERR_EDM_GET_PLUGIN_MGR_FAILED, M, w)
      | Some i \<Rightarrow>
          (let w = (case active_extension M (plugin_at M i) of
                      Some x \<Rightarrow> snd (onAdminRemove x adminName policyValue mergedPolicyData userId w)
                    | None \<Rightarrow> w);
               (ret, w) = onAdminRemove (plugin_at M i) adminName policyValue mergedPolicyData userId w
           in (if ret \<noteq> ERR_OK then ERR_EDM_HANDLE_POLICY_FAILED else ERR_OK, M, w))))"

definition Replace_OnAdminRemoveExecute :: "('s, 'w) plugin_env \<Rightarrow> u32 \<Rightarrow> string \<Rightarrow> string \<Rightarrow> string \<Rightarrow> user_id
    \<Rightarrow> ('s, 'w) plugin_mgr \<times> 's pm_state \<times> 'w \<Rightarrow> err_code \<times> ('s, 'w) plugin_mgr \<times> 's pm_state \<times> 'w" where
  "Replace_OnAdminRemoveExecute E funcCode adminName policyValue mergedPolicyData userId = (\<lambda>(M, w).
     (let (plugin, M) = GetPluginByFuncCode E funcCode M in
      case plugin of
        None \<Rightarrow> (ERR_EDM_GET_PLUGIN_MGR_FAILED, M, w)
      | Some i \<Rightarrow>
          (case active_extension M (plugin_at M i) of
             Some x \<Rightarrow> (ERR_OK, M, snd (onAdminRemove x adminName policyValue mergedPolicyData userId w))
           | None \<Rightarrow>
               (let (ret, w) = onAdminRemove (plugin_at M i) adminName policyValue mergedPolicyData userId w
                in (if ret \<noteq> ERR_OK then ERR_EDM_HANDLE_POLICY_FAILED else ERR_OK, M, w)))))"

definition OnAdminRemoveExecute :: "('s, 'w) plugin_env \<Rightarrow> execute_strategy option \<Rightarrow> u32 \<Rightarrow> string \<Rightarrow> string \<Rightarrow> string
    \<Rightarrow> user_id \<Rightarrow> ('s, 'w) plugin_mgr \<times> 's pm_state \<times> 'w \<Rightarrow> err_code \<times> ('s, 'w) plugin_mgr \<times> 's pm_state \<times> 'w" where
  "OnAdminRemoveExecute E st funcCode adminName policyValue mergedPolicyData userId s =
     (case st of
        None \<Rightarrow> (ERR_OK, s)
      | Some STRATEGY_SINGLE \<Rightarrow> Single_OnAdminRemoveExecute E funcCode adminName policyValue mergedPolicyData userId s
      | Some STRATEGY_ENHANCE \<Rightarrow> Enhance_OnAdminRemoveExecute E funcCode adminName policyValue mergedPolicyData userId s
      | Some STRATEGY_REPLACE \<Rightarrow> Replace_OnAdminRemoveExecute E funcCode adminName policyValue mergedPolicyData userId s)"

definition Single_OnPluginEventExecute :: "('s, 'w) plugin_env \<Rightarrow> string \<Rightarrow> u32 \<Rightarrow> handle_policy_data \<Rightarrow> user_id
    \<Rightarrow> ('s, 'w) plugin_mgr \<times> 's pm_state \<times> 'w \<Rightarrow> handle_policy_data \<times> ('s, 'w) plugin_mgr \<times> 's pm_state \<times> 'w" where
  "Single_OnPluginEventExecute E adminName funcCode pd userId = (\<lambda>(M, w).
     (let (plugin, M) = GetPluginByFuncCode E funcCode M in
      case plugin of
        None \<Rightarrow> (pd, M, w)
      | Some i \<Rightarrow> (let (pd, w) = onPluginEvent (plugin_at M i) adminName pd userId w in (pd, M, w))))"

definition Enhance_OnPluginEventExecute :: "('s, 'w) plugin_env \<Rightarrow> string \<Rightarrow> u32 \<Rightarrow> handle_policy_data \<Rightarrow> user_id
    \<Rightarrow> ('s, 'w) plugin_mgr \<times> 's pm_state \<times> 'w \<Rightarrow> handle_policy_data \<times> ('s, 'w) plugin_mgr \<times> 's pm_state \<times> 'w" where
  "Enhance_OnPluginEventExecute E adminName funcCode pd userId = (\<lambda>(M, w).
     (let (plugin, M) = GetPluginByFuncCode E funcCode M in
      case plugin of
        None \<Rightarrow> (pd, M, w)
      | Some i \<Rightarrow>
          (let (pd, w) = (case active_extension M (plugin_at M i) of
                 Some x \<Rightarrow> onPluginEvent x adminName pd userId w
               | None \<Rightarrow> (pd, w));
               (pd, w) = onPluginEvent (plugin_at M i) adminName pd userId w
           in (pd, M, w))))"

definition Replace_OnPluginEventExecute :: "('s, 'w) plugin_env \<Rightarrow> string \<Rightarrow> u32 \<Rightarrow> handle_policy_data \<Rightarrow> user_id
    \<Rightarrow> ('s, 'w) plugin_mgr \<times> 's pm_state \<times> 'w \<Rightarrow> handle_policy_data \<times> ('s, 'w) plugin_mgr \<times> 's pm_state \<times> 'w" where
  "Replace_OnPluginEventExecute E adminName funcCode pd userId = (\<lambda>(M, w).
     (let (plugin, M) = GetPluginByFuncCode E funcCode M in
      case plugin of
        None \<Rightarrow> (pd, M, w)
      | Some i \<Rightarrow>
          (let p = (case active_extension M (plugin_at M i) of Some x \<Rightarrow> x | None \<Rightarrow> plugin_at M i);
               (pd, w) = onPluginEvent p adminName pd userId w
           in (pd, M, w))))"

definition OnPluginEventExecute :: "('s, 'w) plugin_env \<Rightarrow> execute_strategy option \<Rightarrow> string \<Rightarrow> u32 \<Rightarrow> handle_policy_data
    \<Rightarrow> user_id \<Rightarrow> ('s, 'w) plugin_mgr \<times> 's pm_state \<times> 'w \<Rightarrow> handle_policy_data \<times> ('s, 'w) plugin_mgr \<times> 's pm_state \<times> 'w" where
  "OnPluginEventExecute E st adminName funcCode pd userId s =
     (case st of
        None \<Rightarrow> (pd, s)
      | Some STRATEGY_SINGLE \<Rightarrow> Single_OnPluginEventExecute E adminName funcCode pd userId s
      | Some STRATEGY_ENHANCE \<Rightarrow> Enhance_OnPluginEventExecute E adminName funcCode pd userId s
      | Some STRATEGY_REPLACE \<Rightarrow> Replace_OnPluginEventExecute E adminName funcCode pd userId s)"

subsection \<open>Updating and reading a policy\<close>

type_synonym ('s, 'w) edm_state = "('s, 'w) plugin_mgr \<times> 's pm_state \<times> 'w"

text \<open>The virtual \<open>GetOthersMergePolicyData\<close>: the base class leaves the output alone, the template reads
  the values of all administrators and merges those of the others.\<close>

definition IPlugin_GetOthersMergePolicyData :: "'s rdb \<Rightarrow> ('s, 'w) plugin \<Rightarrow> string \<Rightarrow> user_id \<Rightarrow> string \<Rightarrow> 's pm_state
    \<Rightarrow> err_code \<times> string \<times> 's pm_state" where
  "IPlugin_GetOthersMergePolicyData R p adminName userId others s =
     (case othersMerge p of
        None \<Rightarrow> (ERR_OK, others, s)
      | Some f \<Rightarrow>
          (let (_, adminValues, s) = PolicyManager_GetAdminByPolicyName R (policyName p) [] userId s;
               (err, others) = f adminName adminValues others
           in (err, others, s)))"

definition UpdateDevicePolicy :: "'s rdb \<Rightarrow> ('s, 'w) plugin_env \<Rightarrow> u32 \<Rightarrow> string \<Rightarrow> user_id
    \<Rightarrow> ('s, 'w) edm_state \<Rightarrow> err_code \<times> ('s, 'w) edm_state" where
  "UpdateDevicePolicy R E code bundleName userId = (\<lambda>(M, s, w).
     (let (plugin, M) = GetPluginByFuncCode E code M in
      case plugin of
        None \<Rightarrow> (INTERFACE_UNSUPPORTED, M, s, w)
      | Some i \<Rightarrow>
          (let p = plugin_at M i;
               name = Plugin_GetPolicyName p;
               (_, oldCombinePolicy, s) = PolicyManager_GetPolicy R [] name [] userId s;
               (_, ownPolicy, s) = PolicyManager_GetPolicy R bundleName name [] userId s;
               (_, others, s) = IPlugin_GetOthersMergePolicyData R p bundleName userId [] s;
               pd = \<lparr> policyData = ownPolicy, mergePolicyData = others, isChanged = False \<rparr>;
               (ret, pd, M, s, w) = OnSetExecute E (GetExecuteStrategy p) code pd userId (M, s, w)
           in if FAILED ret then (ret, M, s, w)
              else
                (let (isGlobalChanged, s, w) =
                   (if NeedSavePolicy p \<and> isChanged pd
                    then (let (_, s) = PolicyManager_SetPolicy R bundleName name (policyData pd) (mergePolicyData pd) userId s
                          in (oldCombinePolicy \<noteq> mergePolicyData pd,
                              if mergePolicyData pd = [] then unsubscribeEvent p (s, w) else subscribeEvent p (s, w)))
                    else (False, s, w));
                     (s, w) = onHandlePolicyDone p code bundleName isGlobalChanged userId (s, w)
                 in (ERR_OK, M, s, w)))))"

definition PluginManager_GetPolicy :: "'s rdb \<Rightarrow> ('s, 'w) plugin_env \<Rightarrow> u32 \<Rightarrow> string \<Rightarrow> user_id
    \<Rightarrow> ('s, 'w) edm_state \<Rightarrow> err_code \<times> ('s, 'w) edm_state" where
  "PluginManager_GetPolicy R E funcCode bundleName userId = (\<lambda>(M, s, w).
     (let (plugin, M) = GetPluginByFuncCode E funcCode M in
      case plugin of
        None \<Rightarrow> (INTERFACE_UNSUPPORTED, M, s, w)
      | Some i \<Rightarrow>
          (let p = plugin_at M i;
               (policyValue, s) = (if NeedSavePolicy p
                 then (let (_, v, s) = PolicyManager_GetPolicy R bundleName (Plugin_GetPolicyName p) [] userId s in (v, s))
                 else ([], s));
               (ret, _, M, s, w) = OnGetExecute E (GetExecuteStrategy p) funcCode policyValue userId (M, s, w)
           in (ret, M, s, w))))"

definition RemoveAdminItem :: "'s rdb \<Rightarrow> ('s, 'w) plugin_env \<Rightarrow> string \<Rightarrow> string \<Rightarrow> string \<Rightarrow> user_id
    \<Rightarrow> ('s, 'w) edm_state \<Rightarrow> err_code \<times> ('s, 'w) edm_state" where
  "RemoveAdminItem R E adminName name policyValue userId = (\<lambda>(M, s, w).
     (let M = LoadAllPlugin E M in
      case GetPluginByPolicyName name M of
        None \<Rightarrow> (ERR_EDM_GET_PLUGIN_MGR_FAILED, M, s, w)
      | Some i \<Rightarrow>
          (let p = plugin_at M i;
               funcCode = POLICY_FUNC_CODE (operate_type_code OP_SET) (GetCode p);
               (_, mergedPolicyData, s) = IPlugin_GetOthersMergePolicyData R p adminName userId [] s;
               (_, M, s, w) = OnAdminRemoveExecute E (GetExecuteStrategy p) funcCode adminName policyValue mergedPolicyData
                 userId (M, s, w);
               (setRet, s) =
                 (if NeedSavePolicy p then
                    (let (ret, admins, s) = PolicyManager_GetAdminByPolicyName R name [] userId s in
                     if ret = ERR_EDM_POLICY_NOT_FOUND \<or> admins = []
                     then PolicyManager_SetPolicy R [] name [] [] userId s
                     else PolicyManager_SetPolicy R adminName name [] mergedPolicyData userId s)
                  else (ERR_OK, s))
           in if FAILED setRet then (ERR_EDM_DEL_ADMIN_FAILED, M, s, w)
              else
                (let (s, w) = onAdminRemoveDone p adminName policyValue userId (s, w);
                     (_, currentMerge, s) = PolicyManager_GetPolicy R [] name [] userId s
                 in (ERR_OK, M, if currentMerge = [] then unsubscribeEvent p (s, w) else (s, w))))))"

subsection \<open>Service and plugin events\<close>

definition CallOnOtherServiceStart :: "('s, 'w) plugin_env \<Rightarrow> u32 \<Rightarrow> int \<Rightarrow> ('s, 'w) plugin_mgr \<times> 's pm_state \<times> 'w
    \<Rightarrow> ('s, 'w) plugin_mgr \<times> 's pm_state \<times> 'w" where
  "CallOnOtherServiceStart E interfaceCode systemAbilityId = (\<lambda>(M, w).
     (let (ret, M) = LoadPluginByCode E interfaceCode M in
      if ret \<noteq> ERR_OK then (M, w)
      else (case GetPluginByCode interfaceCode M of
              None \<Rightarrow> (M, w)
            | Some i \<Rightarrow> (M, onOtherServiceStart (plugin_at M i) systemAbilityId w))))"

definition PluginManager_OnInitExecute :: "('s, 'w) plugin_env \<Rightarrow> u32 \<Rightarrow> string list \<Rightarrow> user_id \<Rightarrow> ('s, 'w) plugin_mgr \<times> 's pm_state \<times> 'w
    \<Rightarrow> ('s, 'w) plugin_mgr \<times> 's pm_state \<times> 'w" where
  "PluginManager_OnInitExecute E interfaceCode bundleNames userId = (\<lambda>(M, w).
     (let (ret, M) = LoadPluginByCode E interfaceCode M in
      if ret \<noteq> ERR_OK then (M, w)
      else (case GetPluginByCode interfaceCode M of
              None \<Rightarrow> (M, w)
            | Some i \<Rightarrow>
                (let funcCode = POLICY_FUNC_CODE (operate_type_code OP_SET) interfaceCode in
                 fold (\<lambda>bundleName (M, w).
                   snd (OnInitExecute E (GetExecuteStrategy (plugin_at M i)) funcCode bundleName userId (M, w)))
                   bundleNames (M, w)))))"

fun dispatch_admins :: "'s rdb \<Rightarrow> ('s, 'w) plugin_env \<Rightarrow> plugin_id \<Rightarrow> string \<Rightarrow> u32 \<Rightarrow> user_id \<Rightarrow> (string, string) amap
    \<Rightarrow> ('s, 'w) edm_state \<Rightarrow> ('s, 'w) edm_state" where
  "dispatch_admins R E i name funcCode userId [] s = s"
| "dispatch_admins R E i name funcCode userId ((adminName, value) # admins) (M, s, w) =
     (let p = plugin_at M i;
          (_, oldCombinePolicy, s) = PolicyManager_GetPolicy R [] name [] userId s;
          (_, others, s) = IPlugin_GetOthersMergePolicyData R p adminName userId [] s;
          pd = \<lparr> policyData = value, mergePolicyData = others, isChanged = False \<rparr>;
          (pd, M, s, w) = OnPluginEventExecute E (GetExecuteStrategy p) adminName funcCode pd userId (M, s, w);
          (s, w) = (if NeedSavePolicy p
            then (let (_, s) = PolicyManager_SetPolicy R adminName name (policyData pd) (mergePolicyData pd) userId s
                  in if mergePolicyData pd = [] then unsubscribeEvent p (s, w) else (s, w))
            else (s, w))
      in dispatch_admins R E i name funcCode userId admins (M, s, w))"

definition DispatchForAdmins :: "'s rdb \<Rightarrow> ('s, 'w) plugin_env \<Rightarrow> plugin_id \<Rightarrow> string \<Rightarrow> u32 \<Rightarrow> user_id
    \<Rightarrow> ('s, 'w) edm_state \<Rightarrow> ('s, 'w) edm_state" where
  "DispatchForAdmins R E i name funcCode userId = (\<lambda>(M, s, w).
     (let (_, adminValues, s) = PolicyManager_GetAdminByPolicyName R name [] userId s
      in dispatch_admins R E i name funcCode userId adminValues (M, s, w)))"

definition DispatchWithoutAdmins :: "'s rdb \<Rightarrow> ('s, 'w) plugin_env \<Rightarrow> plugin_id \<Rightarrow> u32 \<Rightarrow> string \<Rightarrow> user_id
    \<Rightarrow> ('s, 'w) edm_state \<Rightarrow> ('s, 'w) edm_state" where
  "DispatchWithoutAdmins R E i funcCode name userId = (\<lambda>(M, s, w).
     (let (_, merged, s) = PolicyManager_GetPolicy R [] name [] userId s;
          pd = \<lparr> policyData = [], mergePolicyData = merged, isChanged = False \<rparr>;
          (_, M, s, w) = OnPluginEventExecute E (GetExecuteStrategy (plugin_at M i)) [] funcCode pd userId (M, s, w)
      in (M, s, w)))"

text \<open>\<open>eventUserId\<close> is the \<open>USER_ID\<close> parameter of the event, when it has one; the rest of the event is
  read by the plugin.\<close>

definition DispatchPluginEvent :: "'s rdb \<Rightarrow> ('s, 'w) plugin_env \<Rightarrow> u32 \<Rightarrow> user_id option \<Rightarrow> bool \<Rightarrow> bool
    \<Rightarrow> ('s, 'w) edm_state \<Rightarrow> ('s, 'w) edm_state" where
  "DispatchPluginEvent R E code eventUserId needAdminIteration useEventUserId = (\<lambda>(M, s, w).
     (let (ret, M) = LoadPluginByCode E code M in
      if ret \<noteq> ERR_OK then (M, s, w)
      else (case map_of (pluginsCode M) code of
              None \<Rightarrow> (M, s, w)
            | Some i \<Rightarrow>
                (let name = Plugin_GetPolicyName (plugin_at M i);
                     userId = (if useEventUserId then
                                 (case eventUserId of Some u \<Rightarrow> u | None \<Rightarrow> DEFAULT_USER_ID) else DEFAULT_USER_ID);
                     funcCode = POLICY_FUNC_CODE (operate_type_code OP_SET) code
                 in if needAdminIteration then DispatchForAdmins R E i name funcCode userId (M, s, w)
                    else DispatchWithoutAdmins R E i funcCode name userId (M, s, w)))))"

definition SubscribePluginEvent :: "('s, 'w) plugin_env \<Rightarrow> u32 \<Rightarrow> ('s, 'w) plugin_mgr \<times> 's pm_state \<times> 'w
    \<Rightarrow> ('s, 'w) plugin_mgr \<times> 's pm_state \<times> 'w" where
  "SubscribePluginEvent E code = (\<lambda>(M, w).
     (let (ret, M) = LoadPluginByCode E code M in
      if ret \<noteq> ERR_OK then (M, w)
      else (case map_of (pluginsCode M) code of
              None \<Rightarrow> (M, w)
            | Some i \<Rightarrow> (M, subscribeEvent (plugin_at M i) w))))"

end
