(* ===== verification/Reliable_Policies.thy ===== *)
theory Reliable_Policies
  imports Policy_Manager
begin

text \<open>
  The policy manager over a database whose writes succeed: both indexes of every loaded manager stay in
  agreement, \<open>SetPolicy\<close> stores both of its values, and \<open>GetAdminByPolicyName\<close> lists exactly the
  administrators with a value.
\<close>

definition writes_succeed :: "'s rdb \<Rightarrow> bool" where
  "writes_succeed R = (queries_answer R \<and> (\<forall>t vb s. fst (rdb_insert R t vb s) = 0)
     \<and> (\<forall>p s. fst (rdb_delete R p s) = 0) \<and> (\<forall>vb p s. fst (rdb_update R vb p s) = 0))"

lemma writes_answer: "writes_succeed R \<Longrightarrow> queries_answer R"
  by (simp add: writes_succeed_def)

lemma Rdb_writes:
  assumes "writes_succeed R"
  shows "fst (Rdb_Insert R t vb d)" "fst (Rdb_Delete R p d)" "fst (Rdb_Update R vb p d)"
proof -
  obtain d1 where g: "GetRdbStore R d = (True, d1)" by (rule GetRdbStore_answers [OF writes_answer [OF assms]])
  have "fst (rdb_insert R t vb (store d1)) = 0" "fst (rdb_delete R p (store d1)) = 0"
    "fst (rdb_update R vb p (store d1)) = 0"
    using assms by (simp_all add: writes_succeed_def)
  then show "fst (Rdb_Insert R t vb d)" "fst (Rdb_Delete R p d)" "fst (Rdb_Update R vb p d)"
    by (simp_all add: Rdb_Insert_def Rdb_Delete_def Rdb_Update_def g split_beta)
qed

lemma writes_err:
  assumes "writes_succeed R"
  shows "fst (SetAdminPolicy R a p v (m, d)) = ERR_OK" "fst (SetCombinedPolicy R p v (m, d)) = ERR_OK"
    "fst (DeleteAdminPolicy R a p (m, d)) = ERR_OK" "fst (DeleteCombinedPolicy R p (m, d)) = ERR_OK"
proof -
  obtain d1 where i: "DevicePolicies_GetInstance R d = (True, d1)"
    by (rule instance_answers [OF writes_answer [OF assms]])
  note w = Rdb_writes [OF assms]
  have ins: "fst (InsertAdminPolicy R u a p v e)" "fst (UpdateAdminPolicy R u a p v e)"
    "fst (InsertCombinedPolicy R u p v e)" "fst (UpdateCombinedPolicy R u p v e)"
    "fst (Storage_DeleteAdminPolicy R u a p e)" "fst (Storage_DeleteCombinedPolicy R u p e)" for u e
    by (simp_all add: InsertAdminPolicy_def UpdateAdminPolicy_def InsertCombinedPolicy_def UpdateCombinedPolicy_def
        Storage_DeleteAdminPolicy_def Storage_DeleteCombinedPolicy_def Let_def w)
  show "fst (SetAdminPolicy R a p v (m, d)) = ERR_OK"
    using ins(1,2) by (auto simp: SetAdminPolicy_def i Let_def split: prod.split option.split) (metis fst_conv)+
  show "fst (SetCombinedPolicy R p v (m, d)) = ERR_OK"
    using ins(3,4) by (auto simp: SetCombinedPolicy_def i Let_def split: prod.split) (metis fst_conv)+
  show "fst (DeleteAdminPolicy R a p (m, d)) = ERR_OK"
    using ins(5) by (auto simp: DeleteAdminPolicy_def i Let_def split: prod.split option.split) (metis fst_conv)+
  show "fst (DeleteCombinedPolicy R p (m, d)) = ERR_OK"
    using ins(6) by (auto simp: DeleteCombinedPolicy_def i Let_def split: prod.split) (metis fst_conv)+
qed

lemma Upm_SetPolicy_writes:
  assumes "writes_succeed R" "upm_agrees R view (m, d)" "Upm_SetPolicy R a p av mv (m, d) = (err, m', d')" "p \<noteq> []"
  shows "err = ERR_OK"
    "comb_look (R, view, d') = (comb_look (R, view, d))((userIdState m, p) := (if mv = [] then None else Some mv))"
proof -
  obtain e1 m1 d1 where c: "(if mv = [] then DeleteCombinedPolicy R p (m, d)
      else SetCombinedPolicy R p mv (m, d)) = (e1, m1, d1)" by (metis prod.exhaust)
  have e1: "e1 = ERR_OK" using c writes_err(2,4) [OF assms(1)] by (auto split: if_splits) (metis fst_conv)+
  have c1: "upm_agrees R view (m1, d1)"
    "comb_look (R, view, d1) = (comb_look (R, view, d))((userIdState m, p) := (if mv = [] then None else Some mv))"
    using c e1 DeleteCombinedPolicy_spec(1,3) [OF assms(2), of p e1 m1 d1]
      SetCombinedPolicy_spec(1,3) [OF assms(2), of p mv e1 m1 d1] by (auto split: if_splits)
  obtain e2 m2 d2 where w: "(if av = [] then DeleteAdminPolicy R a p (m1, d1)
      else SetAdminPolicy R a p av (m1, d1)) = (e2, m2, d2)" by (metis prod.exhaust)
  have e2: "e2 = ERR_OK" using w writes_err(1,3) [OF assms(1)] by (auto split: if_splits) (metis fst_conv)+
  have w1: "comb_look (R, view, d2) = comb_look (R, view, d1)"
    using w DeleteAdminPolicy_spec(4) [OF c1(1), of a p e2 m2 d2]
      SetAdminPolicy_spec(4) [OF c1(1), of a p av e2 m2 d2] by (auto split: if_splits)
  have "(err, m', d') = (if a \<noteq> [] then (e2, m2, d2) else (e1, m1, d1))"
    using assms(3,4) c w by (auto simp: Upm_SetPolicy_def Let_def split: if_splits)
  then show "err = ERR_OK"
    "comb_look (R, view, d') = (comb_look (R, view, d))((userIdState m, p) := (if mv = [] then None else Some mv))"
    using e1 e2 c1(2) w1 by (auto split: if_splits)
qed

subsection \<open>Coherent states\<close>

definition coherent :: "'s rdb \<Rightarrow> 's db_viewer \<Rightarrow> policy_mgr \<times> 's edm_db \<Rightarrow> bool" where
  "coherent R view s = (pm_agrees R view s \<and> (\<forall>u m. mgr_of u (fst s) = Some m \<longrightarrow> index_ok m))"

lemma coherent_initial: "policies_ok (R, view, d) \<Longrightarrow> coherent R view (policy_mgr0, d)"
  using pm_agrees_initial [of R view d] by (simp add: coherent_def) (simp add: policy_mgr0_def mgr_of_def)

lemma coherent_agrees: "coherent R view s \<Longrightarrow> pm_agrees R view s"
  by (simp add: coherent_def)

lemma coherent_GetUserPolicyMgr:
  assumes "coherent R view s" "queries_answer R" "GetUserPolicyMgr R u s = (m, s')"
  shows "coherent R view s'" "mgr_of u (fst s') = Some m" "upm_agrees R view (m, snd s')" "userIdState m = u" "index_ok m"
    "adm_look (R, view, snd s') = adm_look (R, view, snd s)" "comb_look (R, view, snd s') = comb_look (R, view, snd s)"
proof -
  obtain pm d where s: "s = (pm, d)" by (rule prod.exhaust)
  obtain pm' d' where s': "s' = (pm', d')" by (rule prod.exhaust)
  note g = GetUserPolicyMgr_spec [OF coherent_agrees [OF assms(1)[unfolded s]] assms(2) assms(3)[unfolded s s']]
  show idx: "index_ok m"
  proof (cases "mgr_of u pm")
    case None
    then show ?thesis by (rule g(7))
  next
    case (Some m0)
    then have "m = m0" using assms(3) by (auto simp: GetUserPolicyMgr_def mgr_of_def s split: if_splits)
    with Some assms(1) show ?thesis by (simp add: coherent_def s)
  qed
  have "index_ok mv" if "mgr_of v pm' = Some mv" for v mv
    using that assms(1) idx g(2) g(8) [of v] by (cases "v = u") (auto simp: coherent_def s)
  with g(1) show "coherent R view s'" by (simp add: coherent_def s')
  show "mgr_of u (fst s') = Some m" "upm_agrees R view (m, snd s')" "userIdState m = u"
    "adm_look (R, view, snd s') = adm_look (R, view, snd s)" "comb_look (R, view, snd s') = comb_look (R, view, snd s)"
    using g by (simp_all add: s s')
qed

lemma coherent_GetPolicy:
  assumes "coherent R view s" "queries_answer R" "PolicyManager_GetPolicy R a p v0 u s = (err, v, s')"
  shows "coherent R view s'" "adm_look (R, view, snd s') = adm_look (R, view, snd s)"
    "comb_look (R, view, snd s') = comb_look (R, view, snd s)"
    "(err, v) = (case (if a = [] then comb_look (R, view, snd s) (u, p) else adm_look (R, view, snd s) (u, a, p)) of
       Some w \<Rightarrow> (ERR_OK, w) | None \<Rightarrow> (ERR_EDM_POLICY_NOT_FIND, v0))"
proof -
  obtain m s1 where g: "GetUserPolicyMgr R u s = (m, s1)" by (rule prod.exhaust)
  note g1 = coherent_GetUserPolicyMgr [OF assms(1,2) g]
  have s': "s' = s1" using assms(3) g by (auto simp: PolicyManager_GetPolicy_def split: prod.splits)
  show "coherent R view s'" "adm_look (R, view, snd s') = adm_look (R, view, snd s)"
    "comb_look (R, view, snd s') = comb_look (R, view, snd s)"
    using g1 by (simp_all add: s')
  obtain pm d where s: "s = (pm, d)" by (rule prod.exhaust)
  obtain pm' d' where s'': "s' = (pm', d')" by (rule prod.exhaust)
  show "(err, v) = (case (if a = [] then comb_look (R, view, snd s) (u, p) else adm_look (R, view, snd s) (u, a, p)) of
       Some w \<Rightarrow> (ERR_OK, w) | None \<Rightarrow> (ERR_EDM_POLICY_NOT_FIND, v0))"
    using PolicyManager_GetPolicy_spec(4) [OF coherent_agrees [OF assms(1)[unfolded s]] assms(2)
        assms(3)[unfolded s s'']] by (simp add: s)
qed

lemma coherent_GetAdminByPolicyName:
  assumes "coherent R view s" "queries_answer R"
    "PolicyManager_GetAdminByPolicyName R p [] u s = (err, items, s')"
  shows "coherent R view s'" "adm_look (R, view, snd s') = adm_look (R, view, snd s)"
    "comb_look (R, view, snd s') = comb_look (R, view, snd s)"
    "map_of items b = adm_look (R, view, snd s) (u, b, p)" "al_keys_distinct items"
    "err = (if items = [] then ERR_EDM_POLICY_NOT_FOUND else ERR_OK)"
proof -
  obtain m s1 where g: "GetUserPolicyMgr R u s = (m, s1)" by (rule prod.exhaust)
  note g1 = coherent_GetUserPolicyMgr [OF assms(1,2) g]
  have s': "s' = s1" and it: "Upm_GetAdminByPolicyName p [] m = (err, items)"
    using assms(3) g by (auto simp: PolicyManager_GetAdminByPolicyName_def split: prod.splits)
  show "coherent R view s'" "adm_look (R, view, snd s') = adm_look (R, view, snd s)"
    "comb_look (R, view, snd s') = comb_look (R, view, snd s)"
    using g1 by (simp_all add: s')
  have look: "lookup2 (policyAdmins m) p b = adm_look (R, view, snd s) (u, b, p)" for b
    using g1(3-6) by (simp add: index_ok_def upm_agrees_def)
  have tab: "tab_ok (policyAdmins m)" using g1(3) by (simp add: upm_agrees_def)
  show "map_of items b = adm_look (R, view, snd s) (u, b, p)"
    using it by (auto simp: Upm_GetAdminByPolicyName_def lookup2_def simp flip: look split: option.splits)
  show "al_keys_distinct items" "err = (if items = [] then ERR_EDM_POLICY_NOT_FOUND else ERR_OK)"
    using it tab_ok_inner [OF tab] by (auto simp: Upm_GetAdminByPolicyName_def split: option.splits)
qed

lemma coherent_SetPolicy:
  assumes "coherent R view s" "writes_succeed R" "p \<noteq> []" "PolicyManager_SetPolicy R a p av mv u s = (err, s')"
  shows "coherent R view s'" "err = ERR_OK"
    "adm_look (R, view, snd s') = (if a \<noteq> [] then (adm_look (R, view, snd s))((u, a, p) := (if av = [] then None else Some av))
       else adm_look (R, view, snd s))"
    "comb_look (R, view, snd s') = (comb_look (R, view, snd s))((u, p) := (if mv = [] then None else Some mv))"
proof -
  note ans = writes_answer [OF assms(2)]
  obtain m pm1 d1 where g: "GetUserPolicyMgr R u s = (m, pm1, d1)" by (metis prod.exhaust)
  note g1 = coherent_GetUserPolicyMgr [OF assms(1) ans g]
  obtain e m2 d2 where w: "Upm_SetPolicy R a p av mv (m, d1) = (e, m2, d2)" by (metis prod.exhaust)
  have g3: "upm_agrees R view (m, d1)" using g1(3) by simp
  note w1 = Upm_SetPolicy_spec [OF g3 w] and w2 = Upm_SetPolicy_writes [OF assms(2) g3 w assms(3)]
  have res: "err = e" "s' = (store_mgr u m2 pm1, d2)"
    using assms(4) g w by (simp_all add: PolicyManager_SetPolicy_def)
  obtain pm d where s: "s = (pm, d)" by (rule prod.exhaust)
  have "pm_agrees R view s'"
    using PolicyManager_SetPolicy_spec(1) [OF coherent_agrees [OF assms(1)[unfolded s]] ans, of a p av mv u err _ d2]
      assms(4) by (simp add: res s)
  moreover have "index_ok mv" if "mgr_of v (store_mgr u m2 pm1) = Some mv" for v mv
    using that g1(1,5) w1(5) w2(1) by (auto simp: coherent_def split: if_splits)
  ultimately show "coherent R view s'" by (simp add: coherent_def res)
  show "err = ERR_OK" by (simp add: res w2)
  show "adm_look (R, view, snd s') = (if a \<noteq> [] then (adm_look (R, view, snd s))((u, a, p) := (if av = [] then None else Some av))
       else adm_look (R, view, snd s))"
    "comb_look (R, view, snd s') = (comb_look (R, view, snd s))((u, p) := (if mv = [] then None else Some mv))"
    using w1(4) w2 g1(4,6,7) assms(3) by (simp_all add: res)
qed

subsection \<open>A reliable store\<close>

definition reliable_rdb :: "(string \<Rightarrow> db_row list) rdb" where
  "reliable_rdb = \<lparr>
     rdb_open = (\<lambda>s. (True, s)), rdb_exec = (\<lambda>sql s. (0, s)),
     rdb_insert = (\<lambda>t vb s. (0, snd (snd (rdb_insert list_rdb t vb (\<lambda>_. False, s))))),
     rdb_delete = (\<lambda>p s. (0, snd (snd (rdb_delete list_rdb p (\<lambda>_. False, s))))),
     rdb_update = (\<lambda>vb p s. (0, snd (snd (rdb_update list_rdb vb p (\<lambda>_. False, s))))),
     rdb_query = (\<lambda>p cols s. rdb_query list_rdb p cols (\<lambda>_. False, s)),
     rs_int = rs_int list_rdb, rs_string = rs_string list_rdb \<rparr>"

lemma reliable_rdb_laws: "rdb_laws reliable_rdb (\<lambda>s. s)"
  by (auto simp: rdb_laws_def law_defs reliable_rdb_def list_rdb_def selected_def Let_def o_def
      image_mset.compositionality)

lemma reliable_rdb_writes: "writes_succeed reliable_rdb"
  by (auto simp: writes_succeed_def queries_answer_def reliable_rdb_def list_rdb_def)

lemma reliable_start: "coherent reliable_rdb (\<lambda>s. s) (policy_mgr0, edm_db0 (\<lambda>_. []))"
  by (intro coherent_initial policies_ok_empty reliable_rdb_laws) (simp add: edm_db0_def)

end
