(* ===== verification/Policy_Updates.thy ===== *)
theory Policy_Updates
  imports Plugin_Dispatch Reliable_Policies
begin

text \<open>
  What the plugin manager does to the stored policies. Plugins read them; changes go through
  \<open>UpdateDevicePolicy\<close>, \<open>RemoveAdminItem\<close> and the dispatch of events, with two exceptions:
  \<open>DisallowDistributedTransmissionPlugin\<close> and \<open>DisallowedPermissionPlugin\<close> call \<open>SetPolicy\<close> to clear
  the list of exceptions to what they forbid, which is a policy of another plugin.
\<close>

subsection \<open>What plugins change\<close>

text \<open>The policies that plugins write themselves.\<close>

definition plugin_written :: "string set" where
  "plugin_written = {''allowed_collaboration_service_bundles'', ''allowed_permission_bundle''}"

text \<open>From a state that agrees with the database to one that agrees and says the same of the other policies.\<close>

definition keeps :: "'s rdb \<Rightarrow> 's db_viewer \<Rightarrow> 's pm_state \<Rightarrow> 's pm_state \<Rightarrow> bool" where
  "keeps R view s s' = (pm_agrees R view s \<longrightarrow> pm_agrees R view s' \<and> (writes_succeed R \<longrightarrow> coherent R view s \<longrightarrow> coherent R view s')
     \<and> (\<forall>n. n \<notin> plugin_written \<longrightarrow>
          (\<forall>u a. adm_look (R, view, snd s') (u, a, n) = adm_look (R, view, snd s) (u, a, n))
          \<and> (\<forall>u. comb_look (R, view, snd s') (u, n) = comb_look (R, view, snd s) (u, n))))"

lemma keeps_refl [simp, intro]: "keeps R view s s" by (simp add: keeps_def)

lemma keeps_trans [trans]: "keeps R view s s' \<Longrightarrow> keeps R view s' s'' \<Longrightarrow> keeps R view s s''"
  by (auto simp: keeps_def)

lemma keepsD:
  assumes "keeps R view s s'"
  shows "pm_agrees R view s \<Longrightarrow> pm_agrees R view s'" "writes_succeed R \<Longrightarrow> coherent R view s \<Longrightarrow> coherent R view s'"
    "pm_agrees R view s \<Longrightarrow> n \<notin> plugin_written \<Longrightarrow> adm_look (R, view, snd s') (u, a, n) = adm_look (R, view, snd s) (u, a, n)"
    "pm_agrees R view s \<Longrightarrow> n \<notin> plugin_written \<Longrightarrow> comb_look (R, view, snd s') (u, n) = comb_look (R, view, snd s) (u, n)"
  using assms by (auto simp: keeps_def coherent_def)

lemma keeps_GetUserPolicyMgr:
  assumes "queries_answer R" "GetUserPolicyMgr R u s = (m, s')"
  shows "keeps R view s s'"
proof -
  obtain pm d where s: "s = (pm, d)" by (rule prod.exhaust)
  obtain pm' d' where s': "s' = (pm', d')" by (rule prod.exhaust)
  show ?thesis
    using GetUserPolicyMgr_spec(1,5,6) [OF _ assms(1) assms(2)[unfolded s s']]
      coherent_GetUserPolicyMgr(1) [OF _ assms]
    by (simp add: keeps_def s s')
qed

lemma keeps_GetPolicy:
  assumes "queries_answer R" "PolicyManager_GetPolicy R a p v0 u s = (err, v, s')"
  shows "keeps R view s s'"
  using assms keeps_GetUserPolicyMgr [OF assms(1)]
  by (auto simp: PolicyManager_GetPolicy_def split: prod.splits)

lemma keeps_GetAdminByPolicyName:
  assumes "queries_answer R" "PolicyManager_GetAdminByPolicyName R p items u s = (err, items', s')"
  shows "keeps R view s s'"
  using assms keeps_GetUserPolicyMgr [OF assms(1)]
  by (auto simp: PolicyManager_GetAdminByPolicyName_def split: prod.splits)

lemma keeps_others:
  assumes "queries_answer R" "IPlugin_GetOthersMergePolicyData R p a u m0 s = (err, m, s')"
  shows "keeps R view s s'"
  using assms(2) keeps_GetAdminByPolicyName [OF assms(1)]
  by (auto simp: IPlugin_GetOthersMergePolicyData_def split: option.splits prod.splits)

text \<open>No method of a plugin changes other policies.\<close>

definition well_behaved :: "'s rdb \<Rightarrow> 's db_viewer \<Rightarrow> ('s, 'w) plugin \<Rightarrow> bool" where
  "well_behaved R view p =
     ((\<forall>c pd u s w err pd' s' w'. onHandlePolicyPrepare p c pd u (s, w) = (err, pd', s', w') \<longrightarrow> keeps R view s s')
     \<and> (\<forall>c pd u s w err pd' s' w'. onHandlePolicy p c pd u (s, w) = (err, pd', s', w') \<longrightarrow> keeps R view s s')
     \<and> (\<forall>c a g u s w s' w'. onHandlePolicyDone p c a g u (s, w) = (s', w') \<longrightarrow> keeps R view s s')
     \<and> (\<forall>a v m u s w err s' w'. onAdminRemove p a v m u (s, w) = (err, s', w') \<longrightarrow> keeps R view s s')
     \<and> (\<forall>a v u s w s' w'. onAdminRemoveDone p a v u (s, w) = (s', w') \<longrightarrow> keeps R view s s')
     \<and> (\<forall>s w s' w'. subscribeEvent p (s, w) = (s', w') \<longrightarrow> keeps R view s s')
     \<and> (\<forall>s w s' w'. unsubscribeEvent p (s, w) = (s', w') \<longrightarrow> keeps R view s s')
     \<and> (\<forall>v u s w err v' s' w'. onGetPolicy p v u (s, w) = (err, v', s', w') \<longrightarrow> keeps R view s s')
     \<and> (\<forall>i s w s' w'. onOtherServiceStart p i (s, w) = (s', w') \<longrightarrow> keeps R view s s')
     \<and> (\<forall>a u s w s' w'. onOtherServiceStartForAdmin p a u (s, w) = (s', w') \<longrightarrow> keeps R view s s')
     \<and> (\<forall>a pd u s w pd' s' w'. onPluginEvent p a pd u (s, w) = (pd', s', w') \<longrightarrow> keeps R view s s'))"

lemma well_behavedD:
  assumes "well_behaved R view p"
  shows "onHandlePolicyPrepare p c pd u (s, w) = (err, pd', s', w') \<Longrightarrow> keeps R view s s'"
    "onHandlePolicy p c pd u (s, w) = (err, pd', s', w') \<Longrightarrow> keeps R view s s'"
    "onHandlePolicyDone p c a g u (s, w) = (s', w') \<Longrightarrow> keeps R view s s'"
    "onAdminRemove p a v m u (s, w) = (err, s', w') \<Longrightarrow> keeps R view s s'"
    "onAdminRemoveDone p a v u (s, w) = (s', w') \<Longrightarrow> keeps R view s s'"
    "subscribeEvent p (s, w) = (s', w') \<Longrightarrow> keeps R view s s'"
    "unsubscribeEvent p (s, w) = (s', w') \<Longrightarrow> keeps R view s s'"
    "onGetPolicy p v u (s, w) = (err, v', s', w') \<Longrightarrow> keeps R view s s'"
    "onOtherServiceStart p n (s, w) = (s', w') \<Longrightarrow> keeps R view s s'"
    "onOtherServiceStartForAdmin p a u (s, w) = (s', w') \<Longrightarrow> keeps R view s s'"
    "onPluginEvent p a pd u (s, w) = (pd', s', w') \<Longrightarrow> keeps R view s s'"
  using assms unfolding well_behaved_def by - (elim conjE, metis)+

lemma well_behaved_IPlugin: "well_behaved R view IPlugin"
  by (auto simp: well_behaved_def IPlugin_def IPlugin_OnHandlePolicyPrepare_def IPlugin_OnHandlePolicy_def
      IPlugin_OnHandlePolicyDone_def IPlugin_OnAdminRemove_def IPlugin_OnAdminRemoveDone_def IPlugin_OnGetPolicy_def)

lemma well_behaved_setters [simp]:
  "well_behaved R view (p\<lparr>policyCode := c\<rparr>) = well_behaved R view p"
  "well_behaved R view (p\<lparr>policyName := n\<rparr>) = well_behaved R view p"
  "well_behaved R view (p\<lparr>extensionPlugin := e\<rparr>) = well_behaved R view p"
  "well_behaved R view (p\<lparr>strategy := st\<rparr>) = well_behaved R view p"
  "well_behaved R view (p\<lparr>basicPluginCode := c\<rparr>) = well_behaved R view p"
  "well_behaved R view (p\<lparr>pluginType := t\<rparr>) = well_behaved R view p"
  "well_behaved R view (p\<lparr>pluginUnloadFlag := b\<rparr>) = well_behaved R view p"
  "well_behaved R view (p\<lparr>permissionConfig := pc\<rparr>) = well_behaved R view p"
  "well_behaved R view (p\<lparr>permissionMap := pmap\<rparr>) = well_behaved R view p"
  "well_behaved R view (p\<lparr>needSave := b\<rparr>) = well_behaved R view p"
  "well_behaved R view (p\<lparr>isGlobal := b\<rparr>) = well_behaved R view p"
  by (simp_all add: well_behaved_def)

subsection \<open>All plugins of the manager\<close>

definition plugins_ok :: "(('s, 'w) plugin \<Rightarrow> bool) \<Rightarrow> ('s, 'w) plugin_mgr \<Rightarrow> bool" where
  "plugins_ok P M = (\<forall>p\<in>set (objects M). P p)"

fun registers :: "(('s, 'w) plugin \<Rightarrow> bool) \<Rightarrow> ('s, 'w) registration \<Rightarrow> bool" where
  "registers P (RegisterPlugin p) = P p"
| "registers P (RegisterExtension p c st) = P p"

definition libraries_ok :: "(('s, 'w) plugin \<Rightarrow> bool) \<Rightarrow> ('s, 'w) plugin_env \<Rightarrow> bool" where
  "libraries_ok P E = (\<forall>path regs. dlopen E path = Some regs \<longrightarrow> list_all (registers P) regs)"

text \<open>A property of the methods is not touched by what the manager changes in a plugin.\<close>

definition linkage_free :: "(('s, 'w) plugin \<Rightarrow> bool) \<Rightarrow> bool" where
  "linkage_free P = (\<forall>p e st c t b. P p \<longrightarrow> P (p\<lparr>extensionPlugin := e\<rparr>) \<and> P (p\<lparr>strategy := st\<rparr>)
     \<and> P (p\<lparr>basicPluginCode := c\<rparr>) \<and> P (p\<lparr>pluginType := t\<rparr>) \<and> P (p\<lparr>pluginUnloadFlag := b\<rparr>))"

lemma linkage_free_behaved: "linkage_free (well_behaved R view)"
  by (simp add: linkage_free_def)

lemma plugins_ok_change:
  assumes "plugins_ok P M" "\<And>p. P p \<Longrightarrow> P (f p)"
  shows "plugins_ok P (change_plugin i f M)"
proof (cases "i < length (objects M)")
  case True
  then have "P (f (objects M ! i))" using assms nth_mem [OF True] by (auto simp: plugins_ok_def)
  then show ?thesis
    using assms(1) set_update_subset_insert [of "objects M" i "f (objects M ! i)"] by (auto simp: plugins_ok_def)
qed (use assms(1) in \<open>simp add: plugins_ok_def list_update_beyond\<close>)

lemma plugins_ok_tables [simp]:
  "plugins_ok P (M\<lparr>pluginsCode := a\<rparr>) = plugins_ok P M" "plugins_ok P (M\<lparr>pluginsName := n\<rparr>) = plugins_ok P M"
  "plugins_ok P (M\<lparr>extensionPluginMap := c\<rparr>) = plugins_ok P M"
  "plugins_ok P (M\<lparr>executeStrategyMap := d\<rparr>) = plugins_ok P M"
  "plugins_ok P (M\<lparr>soLoadStateMap := e\<rparr>) = plugins_ok P M"
  by (simp_all add: plugins_ok_def)

lemma plugins_ok_setters:
  assumes "linkage_free P" "plugins_ok P M"
  shows "plugins_ok P (change_plugin i (SetExtensionPlugin e) M)" "plugins_ok P (change_plugin i (SetExecuteStrategy st) M)"
    "plugins_ok P (change_plugin i (SetBasicPluginCode c) M)" "plugins_ok P (change_plugin i (SetPluginType t) M)"
  using assms by (auto intro!: plugins_ok_change simp: linkage_free_def SetExtensionPlugin_def SetExecuteStrategy_def
      SetBasicPluginCode_def SetPluginType_def)

lemma plugins_ok_AddPlugin:
  assumes "linkage_free P" "plugins_ok P M"
  shows "plugins_ok P (snd (AddPlugin plugin M))"
  using assms by (simp add: AddPlugin_def Let_def plugins_ok_setters split: option.split)

lemma plugins_ok_AddExtension:
  assumes "linkage_free P" "plugins_ok P M"
  shows "plugins_ok P (snd (AddExtensionPlugin plugin c st M))"
proof -
  obtain ok M1 where a: "AddPlugin plugin M = (ok, M1)" by (rule prod.exhaust)
  have "plugins_ok P M1" using plugins_ok_AddPlugin [OF assms, of plugin] by (simp add: a)
  then show ?thesis
    using assms(1) by (simp add: AddExtensionPlugin_def a Let_def plugins_ok_setters split: option.split)
qed

lemma plugins_ok_register:
  assumes "linkage_free P" "plugins_ok P M" "registers P r"
  shows "plugins_ok P (do_register r M)"
proof -
  have "plugins_ok P (snd (new_plugin p M))" if "P p" for p
    using that assms(2) by (auto simp: plugins_ok_def new_plugin_def)
  then show ?thesis
    using assms by (cases r) (auto simp: plugins_ok_AddPlugin plugins_ok_AddExtension split: prod.split,
      (metis plugins_ok_AddPlugin plugins_ok_AddExtension snd_conv)+)
qed

text \<open>Loading a library registers what the library offers: what registrations and the load states keep,
  loading keeps.\<close>

definition offers :: "('s, 'w) plugin_env \<Rightarrow> ('s, 'w) registration \<Rightarrow> bool" where
  "offers E r = (\<exists>path regs. dlopen E path = Some regs \<and> r \<in> set regs)"

definition kept_by_loading :: "('s, 'w) plugin_env \<Rightarrow> (('s, 'w) plugin_mgr \<Rightarrow> bool) \<Rightarrow> bool" where
  "kept_by_loading E Q = (\<forall>M. Q M \<longrightarrow> (\<forall>r. offers E r \<longrightarrow> Q (do_register r M)) \<and> (\<forall>m. Q (M\<lparr>soLoadStateMap := m\<rparr>)))"

lemma loading_keeps:
  assumes "kept_by_loading E Q" "Q M"
  shows "Q (LoadPlugin E so M)" "Q (LoadExtraPlugin E M)" "Q (LoadAllPlugin E M)" "Q (snd (LoadPluginByCode E code M))"
    "GetPluginByFuncCode E c M = (r, M') \<Longrightarrow> Q M'"
proof -
  have f: "Q (fold do_register regs M)" if "\<forall>r\<in>set regs. offers E r" "Q M" for regs M
    using that assms(1) by (induction regs arbitrary: M) (auto simp: kept_by_loading_def)
  have d: "Q (snd (DlopenPlugin E so st M))" if "Q M" for so st M
    using that f assms(1) by (auto simp: DlopenPlugin_def kept_by_loading_def offers_def split: option.split)
  have l: "Q (LoadPlugin E so M)" if "Q M" for so M
    using that d [OF that, of so] assms(1) by (auto simp: LoadPlugin_def Let_def kept_by_loading_def split: prod.split) (metis snd_conv)+
  show "Q (LoadPlugin E so M)" by (rule l [OF assms(2)])
  have x: "Q (LoadExtraPlugin E M)" if "Q M" for M
  proof -
    have "Q (fold (\<lambda>(name, regular) M. if regular \<and> IsExtraPlugin name then LoadPlugin E name M else M) es M)" for es
      using that by (induction es arbitrary: M) (auto simp: l)
    then show ?thesis using that by (simp add: LoadExtraPlugin_def split: option.split)
  qed
  show "Q (LoadExtraPlugin E M)" by (rule x [OF assms(2)])
  show "Q (LoadAllPlugin E M)" using assms(2) by (simp add: LoadAllPlugin_def x l)
  show c: "Q (snd (LoadPluginByCode E code M))" for code
    using assms(2) by (simp add: LoadPluginByCode_def Let_def x l split: option.split)
  show "Q M'" if "GetPluginByFuncCode E c M = (r, M')"
  proof -
    have "M' = snd (LoadPluginByCode E (GetPolicyCode c) M)"
      using that by (auto simp: GetPluginByFuncCode_def LoadPluginByFuncCode_def split: prod.splits if_splits)
    with c show ?thesis by simp
  qed
qed

lemma plugins_ok_kept:
  assumes "linkage_free P" "libraries_ok P E"
  shows "kept_by_loading E (plugins_ok P)"
  using assms(2) plugins_ok_register [OF assms(1)] unfolding kept_by_loading_def libraries_ok_def offers_def list_all_iff
  by (metis plugins_ok_tables(5))

lemma length_AddPlugin: "length (objects (snd (AddPlugin i M))) = length (objects M)"
  by (simp add: AddPlugin_def change_plugin_def Let_def split: option.split)

lemma length_AddExtensionPlugin: "length (objects (snd (AddExtensionPlugin i c st M))) = length (objects M)"
proof -
  obtain ok M1 where "AddPlugin i M = (ok, M1)" by (rule prod.exhaust)
  then show ?thesis
    using length_AddPlugin [of i M] by (simp add: AddExtensionPlugin_def change_plugin_def Let_def split: option.split)
qed

lemma grows_kept: "kept_by_loading E (\<lambda>M. n \<le> length (objects M))"
proof -
  have "length (objects (do_register r M)) = Suc (length (objects M))" for r and M :: "('a, 'b) plugin_mgr"
    by (cases r) (simp_all add: new_plugin_def length_AddPlugin length_AddExtensionPlugin)
  then show ?thesis by (simp add: kept_by_loading_def)
qed

lemma plugins_ok_at: "plugins_ok P M \<Longrightarrow> i < length (objects M) \<Longrightarrow> P (plugin_at M i)"
  by (simp add: plugins_ok_def plugin_at_def)

lemma plugins_ok_Remove:
  assumes "linkage_free P" "plugins_ok P M"
  shows "plugins_ok P (RemovePlugin r M)"
proof -
  have "P (ResetExtensionPlugin p)" if "P p" for p
    using assms(1) that by (simp add: linkage_free_def ResetExtensionPlugin_def)
  then show ?thesis
    using assms(2) by (auto simp: RemovePlugin_def Let_def plugins_ok_change split: option.split)
qed

lemma plugins_ok_Unload:
  assumes "linkage_free P" "plugins_ok P M"
  shows "plugins_ok P (snd (UnloadPlugin so M))"
proof -
  have f: "plugins_ok P (fold (\<lambda>c M. RemovePlugin (GetPluginByCode c M) M) codes M)" if "plugins_ok P M" for codes M
    using that by (induction codes arbitrary: M) (auto simp: plugins_ok_Remove assms(1))
  have "plugins_ok P (snd (unload_codes so codes M))" if "plugins_ok P M" for so codes M
    using f [OF that] that by (auto simp: unload_codes_def Let_def split: option.split)
  then show ?thesis using assms(2) by (simp add: UnloadPlugin_def Let_def)
qed

lemma plugins_ok_Task:
  assumes "linkage_free P" "plugins_ok P M"
  shows "plugins_ok P (UnloadPluginTask E so signalled M)"
proof -
  have "plugins_ok P M2" if "UnloadPlugin so (M\<lparr>soLoadStateMap := m\<rparr>) = (b, M2)" for m b M2
    using plugins_ok_Unload [OF assms(1), of "M\<lparr>soLoadStateMap := m\<rparr>" so] assms(2) that by simp
  then show ?thesis using assms(2) by (auto simp: UnloadPluginTask_def Let_def split: option.split prod.split)
qed

lemma plugins_ok_Flag:
  assumes "linkage_free P" "plugins_ok P M" "libraries_ok P E"
  shows "plugins_ok P (snd (SetPluginUnloadFlag E code b M))"
proof -
  obtain ret M1 where l: "LoadPluginByCode E code M = (ret, M1)" by (rule prod.exhaust)
  have "plugins_ok P M1" using loading_keeps(4) [OF plugins_ok_kept [OF assms(1,3)] assms(2), of code] by (simp add: l)
  then show ?thesis
    using assms(1) by (auto simp: SetPluginUnloadFlag_def l linkage_free_def intro!: plugins_ok_change split: option.split)
qed

subsection \<open>Loading twice\<close>

text \<open>The strategies look the plugin up again. A library that is loaded is not registered again, so they
  find the same plugin.\<close>

definition loaded :: "string \<Rightarrow> ('s, 'w) plugin_mgr \<Rightarrow> bool" where
  "loaded so M = (so = [] \<or> (\<exists>st. map_of (soLoadStateMap M) so = Some st \<and> pluginHasInit st))"

definition same_registry :: "('s, 'w) plugin_mgr \<Rightarrow> ('s, 'w) plugin_mgr \<Rightarrow> bool" where
  "same_registry M M' = (\<exists>m. M' = M\<lparr>soLoadStateMap := m\<rparr>)"

lemma same_registry_refl [simp]: "same_registry M M"
  unfolding same_registry_def by (rule exI [of _ "soLoadStateMap M"]) simp

lemma same_registry_trans: "same_registry M M' \<Longrightarrow> same_registry M' M'' \<Longrightarrow> same_registry M M''"
  by (auto simp: same_registry_def)

lemma states_AddPlugin: "soLoadStateMap (snd (AddPlugin i M)) = soLoadStateMap M"
  by (simp add: AddPlugin_def change_plugin_def Let_def split: option.split)

lemma states_AddExtensionPlugin: "soLoadStateMap (snd (AddExtensionPlugin i c st M)) = soLoadStateMap M"
proof -
  obtain ok M1 where "AddPlugin i M = (ok, M1)" by (rule prod.exhaust)
  then show ?thesis
    using states_AddPlugin [of i M] by (simp add: AddExtensionPlugin_def change_plugin_def Let_def split: option.split)
qed

lemma states_register: "soLoadStateMap (do_register r M) = soLoadStateMap M"
  by (cases r) (simp_all add: new_plugin_def states_AddPlugin states_AddExtensionPlugin)

lemma states_registers: "soLoadStateMap (fold do_register regs M) = soLoadStateMap M"
  by (induction regs arbitrary: M) (simp_all add: states_register)

lemma states_Dlopen: "soLoadStateMap (snd (DlopenPlugin E so st M)) = soLoadStateMap M"
  by (simp add: DlopenPlugin_def states_registers split: option.split)

lemma LoadPlugin_loaded: "loaded so M \<Longrightarrow> loaded so (LoadPlugin E so' M)" "loaded so (LoadPlugin E so M)"
proof -
  have s: "soLoadStateMap M2 = soLoadStateMap M" if "DlopenPlugin E x st M = (st', M2)" for x st st' M2
    using states_Dlopen [of E x st M] by (simp add: that)
  show "loaded so M \<Longrightarrow> loaded so (LoadPlugin E so' M)" "loaded so (LoadPlugin E so M)"
    by (auto simp: LoadPlugin_def loaded_def Let_def update_conv' s split: prod.split)
qed

lemma LoadPlugin_again:
  assumes "loaded so M"
  shows "same_registry M (LoadPlugin E so M)"
proof (cases "so = []")
  case False
  then show ?thesis using assms by (auto simp: loaded_def LoadPlugin_def same_registry_def Let_def)
qed (simp add: LoadPlugin_def)

lemma same_registry_loaded:
  "same_registry M M' \<Longrightarrow> pluginsCode M' = pluginsCode M \<and> objects M' = objects M"
  by (auto simp: same_registry_def)

abbreviation load_entry :: "('s, 'w) plugin_env \<Rightarrow> string \<times> bool \<Rightarrow> ('s, 'w) plugin_mgr \<Rightarrow> ('s, 'w) plugin_mgr" where
  "load_entry E \<equiv> (\<lambda>(name, regular) M. if regular \<and> IsExtraPlugin name then LoadPlugin E name M else M)"

lemma entries_keep_loaded: "loaded z M \<Longrightarrow> loaded z (fold (load_entry E) es M)"
  by (induction es arbitrary: M) (auto simp: LoadPlugin_loaded)

lemma entries_loaded: "(n, True) \<in> set es \<Longrightarrow> IsExtraPlugin n \<Longrightarrow> loaded n (fold (load_entry E) es M)"
  by (induction es arbitrary: M) (auto simp: LoadPlugin_loaded entries_keep_loaded)

lemma entries_again:
  "\<forall>n. (n, True) \<in> set es \<and> IsExtraPlugin n \<longrightarrow> loaded n M \<Longrightarrow> same_registry M (fold (load_entry E) es M)"
proof (induction es arbitrary: M)
  case (Cons e es)
  obtain n r where e: "e = (n, r)" by (rule prod.exhaust)
  have "same_registry M (load_entry E e M)" using Cons.prems by (auto simp: e LoadPlugin_again)
  moreover have "same_registry (load_entry E e M) (fold (load_entry E) es (load_entry E e M))"
    using Cons.prems by (intro Cons.IH) (auto simp: e LoadPlugin_loaded)
  ultimately show ?case using same_registry_trans by auto
qed simp

definition extras_loaded :: "('s, 'w) plugin_env \<Rightarrow> ('s, 'w) plugin_mgr \<Rightarrow> bool" where
  "extras_loaded E M = (\<forall>es n. pluginDir E = Some es \<and> (n, True) \<in> set es \<and> IsExtraPlugin n \<longrightarrow> loaded n M)"

lemma LoadExtra_loaded: "extras_loaded E (LoadExtraPlugin E M)"
  by (simp add: extras_loaded_def LoadExtraPlugin_def entries_loaded)

lemma LoadExtra_again: "extras_loaded E M \<Longrightarrow> same_registry M (LoadExtraPlugin E M)"
  by (auto simp: extras_loaded_def LoadExtraPlugin_def intro!: entries_again split: option.split)

lemma LoadPlugin_extras: "extras_loaded E M \<Longrightarrow> extras_loaded E (LoadPlugin E so M)"
  unfolding extras_loaded_def using LoadPlugin_loaded(1) by blast

lemma LoadExtra_keep_loaded: "loaded z M \<Longrightarrow> loaded z (LoadExtraPlugin E M)"
  by (simp add: LoadExtraPlugin_def entries_keep_loaded split: option.split)

lemma LoadPluginByCode_again:
  assumes "LoadPluginByCode E code M = (ret, M1)"
  shows "fst (LoadPluginByCode E code M1) = ret" "same_registry M1 (snd (LoadPluginByCode E code M1))"
proof -
  show "fst (LoadPluginByCode E code M1) = ret"
    using assms by (auto simp: LoadPluginByCode_def Let_def split: option.splits if_splits)
  show "same_registry M1 (snd (LoadPluginByCode E code M1))"
  proof (cases "code > IC_POLICY_CODE_END")
    case True
    then show ?thesis using assms by (auto simp: LoadPluginByCode_def LoadExtra_loaded LoadExtra_again)
  next
    case False
    show ?thesis
    proof (cases "GetSoNameByCode code")
      case None
      then show ?thesis using False by (simp add: LoadPluginByCode_def)
    next
      case (Some so)
      have l: "loaded so M1" "so = NEED_EXTRA_PLUGIN_SO \<Longrightarrow> extras_loaded E M1"
        using assms False Some by (auto simp: LoadPluginByCode_def Let_def LoadPlugin_loaded LoadPlugin_extras LoadExtra_loaded)
      show ?thesis
      proof (cases "so = NEED_EXTRA_PLUGIN_SO")
        case True
        have "same_registry M1 (LoadExtraPlugin E M1)" using l(2) [OF True] by (rule LoadExtra_again)
        moreover have "same_registry (LoadExtraPlugin E M1) (LoadPlugin E so (LoadExtraPlugin E M1))"
          by (intro LoadPlugin_again LoadExtra_keep_loaded l(1))
        ultimately show ?thesis using False Some True same_registry_trans by (auto simp: LoadPluginByCode_def)
      qed (use False Some l in \<open>simp add: LoadPluginByCode_def LoadPlugin_again\<close>)
    qed
  qed
qed

lemma GetPluginByFuncCode_again:
  assumes "GetPluginByFuncCode E c M = (r, M1)" "GetPluginByFuncCode E c M1 = (r', M2)"
  shows "r' = r \<and> objects M2 = objects M1"
proof -
  obtain ret where l: "LoadPluginByCode E (GetPolicyCode c) M = (ret, M1)"
    using assms(1) by (auto simp: GetPluginByFuncCode_def LoadPluginByFuncCode_def split: prod.splits if_splits)
  obtain N where l2: "LoadPluginByCode E (GetPolicyCode c) M1 = (ret, N)" "same_registry M1 N"
    using LoadPluginByCode_again [OF l] by (metis prod.collapse)
  show ?thesis
    using assms same_registry_loaded [OF l2(2)]
    by (auto simp: GetPluginByFuncCode_def LoadPluginByFuncCode_def l l2(1) split: if_splits)
qed

subsection \<open>Running the strategies\<close>

definition service_ok :: "'s rdb \<Rightarrow> 's db_viewer \<Rightarrow> ('s, 'w) plugin_env \<Rightarrow> ('s, 'w) plugin_mgr \<Rightarrow> bool" where
  "service_ok R view E M = (registry_ok M \<and> fresh_libraries E \<and> plugins_ok (well_behaved R view) M
     \<and> libraries_ok (well_behaved R view) E)"

lemma service_ok_initial:
  "fresh_libraries E \<Longrightarrow> libraries_ok (well_behaved R view) E \<Longrightarrow> service_ok R view E PluginManager"
  by (simp add: service_ok_def registry_ok_initial) (simp add: plugins_ok_def PluginManager_def)

lemma service_ok_active:
  assumes "service_ok R view E M" "i < length (objects M)" "active_extension M (plugin_at M i) = Some x"
  shows "well_behaved R view x"
proof -
  obtain e where e: "extensionPlugin (plugin_at M i) = Some e" "x = plugin_at M e"
    using assms(3) by (auto simp: active_extension_def GetExtensionPlugin_def split: option.splits if_splits)
  moreover have "plugin_at M i \<in> set (objects M)" using assms(2) by (simp add: plugin_at_def)
  ultimately have "e < length (objects M)" using assms(1) unfolding service_ok_def registry_ok_def by blast
  then show ?thesis using assms(1) e(2) by (simp add: service_ok_def plugins_ok_at)
qed

lemma service_ok_lookup:
  assumes "service_ok R view E M" "GetPluginByFuncCode E c M = (r, M')"
  shows "service_ok R view E M'" "r = Some i \<Longrightarrow> i < length (objects M')"
    "r = Some i \<Longrightarrow> well_behaved R view (plugin_at M' i)"
    "r = Some i \<Longrightarrow> active_extension M' (plugin_at M' i) = Some x \<Longrightarrow> well_behaved R view x"
proof -
  show ok: "service_ok R view E M'"
    using assms registry_ok_GetByFuncCode [OF _ _ assms(2)]
      loading_keeps(5) [OF plugins_ok_kept [OF linkage_free_behaved] _ assms(2)]
    by (auto simp: service_ok_def)
  show len: "i < length (objects M')" if "r = Some i" for i
  proof -
    have "GetPluginByCode (GetPolicyCode c) M' = Some i"
      using assms(2) that by (auto simp: GetPluginByFuncCode_def GetPluginByCode_def split: prod.splits if_splits)
    then show ?thesis using ok registry_okD(1) by (auto simp: service_ok_def)
  qed
  show "well_behaved R view (plugin_at M' i)" if "r = Some i"
    using plugins_ok_at [of "well_behaved R view" M' i] len [OF that] ok by (simp add: service_ok_def)
  show "well_behaved R view x" if "r = Some i" "active_extension M' (plugin_at M' i) = Some x"
    by (rule service_ok_active [OF ok len [OF that(1)] that(2)])
qed

text \<open>Each strategy runs methods of the plugin and of its extension.\<close>

lemma Enhance_OnSetExecute_keeps:
  assumes "service_ok R view E M" "Enhance_OnSetExecute E c pd u (M, s, w) = (err, pd', M', s', w')"
  shows "service_ok R view E M' \<and> keeps R view s s'"
proof -
  obtain r M1 where g: "GetPluginByFuncCode E c M = (r, M1)" by (rule prod.exhaust)
  note ok = service_ok_lookup [OF assms(1) g]
  show ?thesis
  proof (cases r)
    case None
    then show ?thesis using assms(2) ok(1) by (auto simp: Enhance_OnSetExecute_def g)
  next
    case (Some i)
    define p where "p = plugin_at M1 i"
    define x where "x = active_extension M1 p"
    have p: "well_behaved R view p" using ok(3) [OF Some] by (simp add: p_def)
    have x: "well_behaved R view y" if "x = Some y" for y
      using ok(4) [OF Some] that by (simp add: x_def p_def)
    obtain e1 pd1 s1 w1 where 1: "onHandlePolicyPrepare p c pd u (s, w) = (e1, pd1, s1, w1)" by (metis prod.exhaust)
    obtain e2 pd2 s2 w2 where 2: "(case x of Some y \<Rightarrow> onHandlePolicyPrepare y c pd1 u (s1, w1)
        | None \<Rightarrow> (e1, pd1, s1, w1)) = (e2, pd2, s2, w2)" by (metis prod.exhaust)
    obtain e3 pd3 s3 w3 where 3: "onHandlePolicy p c pd2 u (s2, w2) = (e3, pd3, s3, w3)" by (metis prod.exhaust)
    obtain e4 pd4 s4 w4 where 4: "(case x of Some y \<Rightarrow> onHandlePolicy y c pd3 u (s3, w3)
        | None \<Rightarrow> (e3, pd3, s3, w3)) = (e4, pd4, s4, w4)" by (metis prod.exhaust)
    have k: "keeps R view s s1" "keeps R view s1 s2" "keeps R view s2 s3" "keeps R view s3 s4"
      using well_behavedD(1,2) [OF p] 1 2 3 4 well_behavedD(1,2) [OF x] by (auto split: option.splits)
    have "M' = M1 \<and> s' \<in> {s1, s2, s3, s4}"
      using assms(2) 1 2 3 4
      by (auto simp: Enhance_OnSetExecute_def g Some Let_def p_def [symmetric] x_def [symmetric]
          split: if_splits option.splits)
    then show ?thesis using ok(1) k keeps_trans by blast
  qed
qed

lemma OnSetExecute_keeps:
  assumes "service_ok R view E M" "OnSetExecute E st c pd u (M, s, w) = (err, pd', M', s', w')"
  shows "service_ok R view E M' \<and> keeps R view s s'"
proof -
  obtain r M1 where g: "GetPluginByFuncCode E c M = (r, M1)" by (rule prod.exhaust)
  note ok = service_ok_lookup [OF assms(1) g]
  note rd = well_behavedD(2) [OF ok(3)] well_behavedD(2) [OF ok(4)]
  show ?thesis
  proof (cases st)
    case None
    then show ?thesis using assms by (simp add: OnSetExecute_def)
  next
    case (Some st')
    then show ?thesis
      using assms(2) ok(1) rd Enhance_OnSetExecute_keeps [OF assms(1), of c pd u s w err pd' M' s' w']
      by (cases st') (auto simp: OnSetExecute_def Single_OnSetExecute_def Replace_OnSetExecute_def Let_def g
        split: option.splits prod.splits)
  qed
qed

lemma OnAdminRemoveExecute_keeps:
  assumes "service_ok R view E M" "OnAdminRemoveExecute E st c a v m u (M, s, w) = (err, M', s', w')"
  shows "service_ok R view E M' \<and> keeps R view s s'"
proof -
  obtain r M1 where g: "GetPluginByFuncCode E c M = (r, M1)" by (rule prod.exhaust)
  note ok = service_ok_lookup [OF assms(1) g]
  note rd = well_behavedD(4) [OF ok(3)] well_behavedD(4) [OF ok(4)]
  have e: "service_ok R view E M' \<and> keeps R view s s'"
    if "Enhance_OnAdminRemoveExecute E c a v m u (M, s, w) = (err, M', s', w')"
  proof (cases r)
    case None
    then show ?thesis using that ok(1) by (auto simp: Enhance_OnAdminRemoveExecute_def g)
  next
    case (Some i)
    obtain s1 w1 where 1: "(case active_extension M1 (plugin_at M1 i) of
        Some x \<Rightarrow> snd (onAdminRemove x a v m u (s, w)) | None \<Rightarrow> (s, w)) = (s1, w1)" by (rule prod.exhaust)
    have k1: "keeps R view s s1"
      using 1 rd(2) [OF Some] by (auto split: option.splits) (metis prod.collapse snd_conv)
    obtain e2 s2 w2 where 2: "onAdminRemove (plugin_at M1 i) a v m u (s1, w1) = (e2, s2, w2)" by (metis prod.exhaust)
    have "M' = M1" "s' = s2" using that 1 2 by (auto simp: Enhance_OnAdminRemoveExecute_def g Some Let_def)
    then show ?thesis using ok(1) k1 rd(1) [OF Some 2] keeps_trans by blast
  qed
  have x: "service_ok R view E M' \<and> keeps R view s s'"
    if "Replace_OnAdminRemoveExecute E c a v m u (M, s, w) = (err, M', s', w')"
    using that ok(1) rd(1) rd(2) [where s = s and w = w and s' = s' and w' = w']
    by (auto simp: Replace_OnAdminRemoveExecute_def g Let_def split: option.splits prod.splits)
      (metis prod.collapse)+
  show ?thesis
  proof (cases st)
    case None
    then show ?thesis using assms by (simp add: OnAdminRemoveExecute_def)
  next
    case (Some st')
    then show ?thesis
      using assms(2) ok(1) rd(1) e x
      by (cases st') (auto simp: OnAdminRemoveExecute_def Single_OnAdminRemoveExecute_def Let_def g
        split: option.splits prod.splits)
  qed
qed


lemma OnGetExecute_keeps:
  assumes "service_ok R view E M" "OnGetExecute E st c v u (M, s, w) = (err, v', M', s', w')"
  shows "service_ok R view E M' \<and> keeps R view s s'"
proof -
  obtain r M1 where g: "GetPluginByFuncCode E c M = (r, M1)" by (rule prod.exhaust)
  note ok = service_ok_lookup [OF assms(1) g]
  note rd = well_behavedD(8) [OF ok(3)] well_behavedD(8) [OF ok(4)]
  have e: "service_ok R view E M' \<and> keeps R view s s'"
    if "Enhance_OnGetExecute E c v u (M, s, w) = (err, v', M', s', w')"
  proof (cases r)
    case None
    then show ?thesis using that ok(1) by (auto simp: Enhance_OnGetExecute_def g)
  next
    case (Some i)
    obtain e1 v1 s1 w1 where 1: "onGetPolicy (plugin_at M1 i) v u (s, w) = (e1, v1, s1, w1)" by (metis prod.exhaust)
    show ?thesis
      using that ok(1) rd(1) [OF Some 1] rd(2) [OF Some, THEN keeps_trans [OF rd(1) [OF Some 1]]]
      by (auto simp: Enhance_OnGetExecute_def g Some 1 Let_def split: option.splits prod.splits if_splits)
  qed
  show ?thesis
  proof (cases st)
    case None
    then show ?thesis using assms by (simp add: OnGetExecute_def)
  next
    case (Some st')
    then show ?thesis
      using assms(2) ok(1) rd e
      by (cases st') (auto simp: OnGetExecute_def Single_OnGetExecute_def Replace_OnGetExecute_def Let_def g
        split: option.splits prod.splits)
  qed
qed

lemma OnInitExecute_keeps:
  assumes "service_ok R view E M" "OnInitExecute E st c a u (M, s, w) = (err, M', s', w')"
  shows "service_ok R view E M' \<and> keeps R view s s'"
proof -
  obtain r M1 where g: "GetPluginByFuncCode E c M = (r, M1)" by (rule prod.exhaust)
  note ok = service_ok_lookup [OF assms(1) g]
  note rd = well_behavedD(10) [OF ok(3)] well_behavedD(10) [OF ok(4)]
  show ?thesis
  proof (cases st)
    case None
    then show ?thesis using assms by (simp add: OnInitExecute_def)
  next
    case (Some st')
    then show ?thesis
      using assms(2) ok(1)
      by (cases st') (auto dest: rd simp: OnInitExecute_def Single_OnInitExecute_def Enhance_OnInitExecute_def
        Replace_OnInitExecute_def Let_def g split: option.splits)
  qed
qed

lemma OnPluginEventExecute_keeps:
  assumes "service_ok R view E M" "OnPluginEventExecute E st a c pd u (M, s, w) = (pd', M', s', w')"
  shows "service_ok R view E M' \<and> keeps R view s s'"
proof -
  obtain r M1 where g: "GetPluginByFuncCode E c M = (r, M1)" by (rule prod.exhaust)
  note ok = service_ok_lookup [OF assms(1) g]
  note rd = well_behavedD(11) [OF ok(3)] well_behavedD(11) [OF ok(4)]
  have e: "service_ok R view E M' \<and> keeps R view s s'"
    if "Enhance_OnPluginEventExecute E a c pd u (M, s, w) = (pd', M', s', w')"
  proof (cases r)
    case None
    then show ?thesis using that ok(1) by (auto simp: Enhance_OnPluginEventExecute_def g)
  next
    case (Some i)
    obtain pd1 s1 w1 where 1: "(case active_extension M1 (plugin_at M1 i) of
        Some x \<Rightarrow> onPluginEvent x a pd u (s, w) | None \<Rightarrow> (pd, s, w)) = (pd1, s1, w1)" by (metis prod.exhaust)
    have k1: "keeps R view s s1" using 1 rd(2) [OF Some] by (auto split: option.splits)
    obtain pd2 s2 w2 where 2: "onPluginEvent (plugin_at M1 i) a pd1 u (s1, w1) = (pd2, s2, w2)" by (metis prod.exhaust)
    have "M' = M1" "s' = s2" using that 1 2 by (auto simp: Enhance_OnPluginEventExecute_def g Some Let_def)
    then show ?thesis using ok(1) k1 rd(1) [OF Some 2] keeps_trans by blast
  qed
  show ?thesis
  proof (cases st)
    case None
    then show ?thesis using assms by (simp add: OnPluginEventExecute_def)
  next
    case (Some st')
    then show ?thesis
      using assms(2) ok(1) rd e
      by (cases st') (auto simp: OnPluginEventExecute_def Single_OnPluginEventExecute_def
        Replace_OnPluginEventExecute_def Let_def g split: option.splits prod.splits)
  qed
qed

lemma OnPluginEventExecute_grows:
  assumes "OnPluginEventExecute E st a c pd u (M, s, w) = (pd', M', s', w')"
  shows "length (objects M) \<le> length (objects M')"
proof -
  obtain r M1 where g: "GetPluginByFuncCode E c M = (r, M1)" by (rule prod.exhaust)
  have "M' = M \<or> M' = M1"
    using assms
    by (auto simp: OnPluginEventExecute_def Single_OnPluginEventExecute_def Enhance_OnPluginEventExecute_def
        Replace_OnPluginEventExecute_def Let_def g split: option.splits execute_strategy.splits prod.splits)
  moreover have "length (objects M) \<le> length (objects M1)" by (rule loading_keeps(5) [OF grows_kept order_refl g])
  ultimately show ?thesis by auto
qed

end
