(* ===== verification/Update_Policy.thy ===== *)
theory Update_Policy
  imports Policy_Updates
begin

text \<open>
  What \<open>UpdateDevicePolicy\<close> and \<open>RemoveAdminItem\<close> of \<open>plugin_manager.cpp\<close> leave in the policy manager: a
  failed update nothing, a successful one the two values its plugin decided, and a removal the merged
  values of the other administrators.
\<close>

text \<open>What a query of the policy manager answers.\<close>

definition policy_answer :: "'s rdb \<Rightarrow> 's pm_state \<Rightarrow> string \<Rightarrow> string \<Rightarrow> user_id \<Rightarrow> err_code \<times> string" where
  "policy_answer R s adminName name userId =
     (let (err, v, s) = PolicyManager_GetPolicy R adminName name [] userId s in (err, v))"

lemma policy_answer_look:
  assumes "pm_agrees R view s" "queries_answer R"
  shows "policy_answer R s a p u =
    (case (if a = [] then comb_look (R, view, snd s) (u, p) else adm_look (R, view, snd s) (u, a, p)) of
       Some v \<Rightarrow> (ERR_OK, v) | None \<Rightarrow> (ERR_EDM_POLICY_NOT_FIND, []))"
proof -
  obtain pm d where s: "s = (pm, d)" by (rule prod.exhaust)
  obtain err v pm' d' where g: "PolicyManager_GetPolicy R a p [] u (pm, d) = (err, v, pm', d')" by (metis prod.exhaust)
  show ?thesis
    using PolicyManager_GetPolicy_spec(4) [OF assms(1)[unfolded s] assms(2) g] by (simp add: policy_answer_def s g)
qed

lemma keeps_answer:
  assumes "keeps R view s s'" "pm_agrees R view s" "queries_answer R" "p \<notin> plugin_written"
  shows "policy_answer R s' a p u = policy_answer R s a p u"
  using keepsD [OF assms(1)] assms by (simp add: policy_answer_look)

subsection \<open>One update\<close>

definition own_value :: "'s rdb \<Rightarrow> 's db_viewer \<Rightarrow> 's pm_state \<Rightarrow> string \<Rightarrow> string \<Rightarrow> user_id \<Rightarrow> string" where
  "own_value R view s a p u =
     (case (if a = [] then comb_look (R, view, snd s) (u, p) else adm_look (R, view, snd s) (u, a, p)) of
        Some v \<Rightarrow> v | None \<Rightarrow> [])"

lemma GetPolicy_value:
  assumes "pm_agrees R view s" "queries_answer R" "PolicyManager_GetPolicy R a p [] u s = (err, v, s')"
  shows "v = own_value R view s a p u"
  using policy_answer_look [OF assms(1,2), of a p u] assms(3)
  by (cases "a = []") (auto simp: policy_answer_def own_value_def split: option.splits)

lemma UpdateDevicePolicy_run:
  assumes "service_ok R view E M" "queries_answer R" "pm_agrees R view s"
    "UpdateDevicePolicy R E code a u (M, s, w) = (err, M', s', w')"
  obtains (unsupported) "err = INTERFACE_UNSUPPORTED" "service_ok R view E M'" "s' = s" "w' = w"
  | (run) i M1 p s2 e3 others s3 ret pd s4 w4 s5 where
    "GetPluginByFuncCode E code M = (Some i, M1)" "p = plugin_at M1 i" "service_ok R view E M1" "service_ok R view E M'"
    "keeps R view s s2" "IPlugin_GetOthersMergePolicyData R p a u [] s2 = (e3, others, s3)" "keeps R view s2 s3"
    "OnSetExecute E (GetExecuteStrategy p) code
       \<lparr> policyData = own_value R view s a (policyName p) u, mergePolicyData = others, isChanged = False \<rparr> u (M1, s3, w)
       = (ret, pd, M', s4, w4)" "keeps R view s3 s4"
    "err = (if FAILED ret then ret else ERR_OK)"
    "s5 = (if \<not> FAILED ret \<and> needSave p \<and> isChanged pd
       then snd (PolicyManager_SetPolicy R a (policyName p) (policyData pd) (mergePolicyData pd) u s4) else s4)"
    "keeps R view s5 s'"
proof -
  obtain r M1 where g: "GetPluginByFuncCode E code M = (r, M1)" by (rule prod.exhaust)
  note ok = service_ok_lookup [OF assms(1) g]
  show thesis
  proof (cases r)
    case None
    then show thesis
      using assms(4) g ok(1) by (intro unsupported) (auto simp: UpdateDevicePolicy_def)
  next
    case (Some i)
    define p where "p = plugin_at M1 i"
    note rd = well_behavedD [OF ok(3) [OF Some], folded p_def]
    obtain e1 old s1 where 1: "PolicyManager_GetPolicy R [] (policyName p) [] u s = (e1, old, s1)" by (metis prod.exhaust)
    obtain e2 own s2 where 2: "PolicyManager_GetPolicy R a (policyName p) [] u s1 = (e2, own, s2)" by (metis prod.exhaust)
    obtain e3 others s3 where 3: "IPlugin_GetOthersMergePolicyData R p a u [] s2 = (e3, others, s3)" by (metis prod.exhaust)
    define pd0 where "pd0 = \<lparr> policyData = own, mergePolicyData = others, isChanged = False \<rparr>"
    obtain ret pd M4 s4 w4 where 4: "OnSetExecute E (GetExecuteStrategy p) code pd0 u (M1, s3, w) = (ret, pd, M4, s4, w4)"
      by (metis prod.exhaust)
    note k1 = keeps_GetPolicy [OF assms(2) 1, of view] and k2 = keeps_GetPolicy [OF assms(2) 2, of view]
    have own: "own = own_value R view s a (policyName p) u"
      using GetPolicy_value [OF keepsD(1) [OF k1 assms(3)] assms(2) 2]
        PolicyManager_GetPolicy_spec(2,3) [of R view "fst s" "snd s" "[]" "policyName p" "[]" u e1 old "fst s1" "snd s1"] assms(2,3) 1
      by (simp add: own_value_def)
    have k4: "service_ok R view E M4" "keeps R view s3 s4" using OnSetExecute_keeps [OF ok(1) 4] by simp_all
    define go where "go = (\<not> FAILED ret \<and> needSave p \<and> isChanged pd)"
    obtain e5 s5' where 5: "PolicyManager_SetPolicy R a (policyName p) (policyData pd) (mergePolicyData pd) u s4 = (e5, s5')"
      by (rule prod.exhaust)
    define s5 where "s5 = (if go then s5' else s4)"
    obtain s6 w6 where 6: "(if go then if mergePolicyData pd = [] then unsubscribeEvent p (s5, w4) else subscribeEvent p (s5, w4)
       else (s5, w4)) = (s6, w6)" by (metis prod.exhaust)
    have k6: "keeps R view s5 s6" using 6 rd(6,7) by (auto split: if_splits)
    obtain s7 w7 where 7: "onHandlePolicyDone p code a (go \<and> old \<noteq> mergePolicyData pd) u (s6, w6) = (s7, w7)"
      by (rule prod.exhaust)
    have run_eq: "UpdateDevicePolicy R E code a u (M, s, w) = (if FAILED ret then (ret, M4, s4, w4) else (ERR_OK, M4, s7, w7))"
      using 5 6 7
      by (cases "mergePolicyData pd = []"; cases "needSave p"; cases "isChanged pd"; cases "FAILED ret")
        (simp_all add: UpdateDevicePolicy_def g Some p_def [symmetric] Plugin_GetPolicyName_def NeedSavePolicy_def 1 2 3
          pd0_def [symmetric] 4 go_def s5_def)
    have res: "err = (if FAILED ret then ret else ERR_OK)" "M4 = M'"
      using assms(4) by (auto simp: run_eq split: if_splits)
    moreover have "keeps R view s5 s'"
      using assms(4) keeps_trans [OF k6 rd(3) [OF 7]] by (auto simp: run_eq s5_def go_def split: if_splits)
    ultimately show thesis
      using run [OF g [unfolded Some] p_def ok(1) _ keeps_trans [OF k1 k2] 3 keeps_others [OF assms(2) 3]
          4 [unfolded pd0_def own res(2)]] k4 [unfolded res(2)] by (simp add: s5_def go_def 5 cong: if_cong)
  qed
qed

lemma UpdateDevicePolicy_service_ok:
  assumes "service_ok R view E M" "queries_answer R" "pm_agrees R view s"
    "UpdateDevicePolicy R E code a u (M, s, w) = (err, M', s', w')"
  shows "service_ok R view E M'"
  using UpdateDevicePolicy_run [OF assms] by metis

lemma UpdateDevicePolicy_failed:
  assumes "service_ok R view E M" "queries_answer R" "pm_agrees R view s"
    "UpdateDevicePolicy R E code a u (M, s, w) = (err, M', s', w')" "err \<noteq> ERR_OK"
  shows "keeps R view s s'"
proof (cases rule: UpdateDevicePolicy_run [OF assms(1-4), case_names unsupported run])
  case (run i M1 p s2 e3 others s3 ret pd s4 w4 s5)
  then have "keeps R view s4 s'" using assms(5) by (auto split: if_splits)
  with run(5,7,9) show ?thesis by (blast intro: keeps_trans)
qed simp

subsection \<open>One removal\<close>

lemma service_ok_LoadAll:
  assumes "service_ok R view E M"
  shows "service_ok R view E (LoadAllPlugin E M)"
  using assms loading_keeps(3) [OF plugins_ok_kept [OF linkage_free_behaved]]
  by (auto simp: service_ok_def registry_ok_LoadAll)

lemma service_ok_plugin:
  assumes "service_ok R view E M" "GetPluginByPolicyName name M = Some i"
  shows "i < length (objects M)" "well_behaved R view (plugin_at M i)" "policyName (plugin_at M i) = name"
proof -
  show "i < length (objects M)" "policyName (plugin_at M i) = name"
    using assms map_of_SomeD [of "pluginsName M" name i]
    by (fastforce simp: service_ok_def registry_ok_def entries_ok_def GetPluginByPolicyName_def plugin_at_def)+
  then show "well_behaved R view (plugin_at M i)"
    using assms(1) plugins_ok_at by (auto simp: service_ok_def)
qed

lemma RemoveAdminItem_run:
  assumes "service_ok R view E M" "queries_answer R"
    "RemoveAdminItem R E a name v u (M, s, w) = (err, M', s', w')"
  obtains (missing) "err = ERR_EDM_GET_PLUGIN_MGR_FAILED" "service_ok R view E M'" "s' = s" "w' = w"
  | (run) i M1 p e1 merged s0 s1 e2 items s2 err2 s3 where
    "M1 = LoadAllPlugin E M" "GetPluginByPolicyName name M1 = Some i" "p = plugin_at M1 i" "service_ok R view E M'"
    "IPlugin_GetOthersMergePolicyData R p a u [] s = (e1, merged, s0)" "keeps R view s s1" "keeps R view s1 s2"
    "needSave p \<Longrightarrow> PolicyManager_GetAdminByPolicyName R name [] u s1 = (e2, items, s2)"
    "(err2, s3) = (if needSave p
       then if e2 = ERR_EDM_POLICY_NOT_FOUND \<or> items = [] then PolicyManager_SetPolicy R [] name [] [] u s2
            else PolicyManager_SetPolicy R a name [] merged u s2
       else (ERR_OK, s2))"
    "keeps R view s3 s'" "err = (if FAILED err2 then ERR_EDM_DEL_ADMIN_FAILED else ERR_OK)"
proof -
  define M1 where "M1 = LoadAllPlugin E M"
  have ok1: "service_ok R view E M1" unfolding M1_def by (rule service_ok_LoadAll [OF assms(1)])
  show thesis
  proof (cases "GetPluginByPolicyName name M1")
    case None
    then show thesis
      using assms(3) ok1 by (intro missing) (auto simp: RemoveAdminItem_def Let_def M1_def [symmetric])
  next
    case (Some i)
    define p where "p = plugin_at M1 i"
    note rd = well_behavedD [OF service_ok_plugin(2) [OF ok1 Some], folded p_def]
    obtain e1 merged s0 where 1: "IPlugin_GetOthersMergePolicyData R p a u [] s = (e1, merged, s0)" by (metis prod.exhaust)
    define c where "c = POLICY_FUNC_CODE (operate_type_code OP_SET) (GetCode p)"
    obtain ret M2 s1 w1 where 2: "OnAdminRemoveExecute E (GetExecuteStrategy p) c a v merged u (M1, s0, w) = (ret, M2, s1, w1)"
      by (metis prod.exhaust)
    obtain e2 items t2 where 3: "PolicyManager_GetAdminByPolicyName R name [] u s1 = (e2, items, t2)" by (metis prod.exhaust)
    define s2 where "s2 = (if needSave p then t2 else s1)"
    obtain err2 s3 where 4: "(if needSave p
       then if e2 = ERR_EDM_POLICY_NOT_FOUND \<or> items = [] then PolicyManager_SetPolicy R [] name [] [] u s2
            else PolicyManager_SetPolicy R a name [] merged u s2
       else (ERR_OK, s2)) = (err2, s3)" by (rule prod.exhaust)
    obtain s4 w4 where 5: "onAdminRemoveDone p a v u (s3, w1) = (s4, w4)" by (rule prod.exhaust)
    obtain e5 cur s5 where 6: "PolicyManager_GetPolicy R [] name [] u s4 = (e5, cur, s5)" by (metis prod.exhaust)
    obtain s6 w6 where 7: "(if cur = [] then unsubscribeEvent p (s5, w4) else (s5, w4)) = (s6, w6)" by (rule prod.exhaust)
    have eq: "RemoveAdminItem R E a name v u (M, s, w)
      = (if FAILED err2 then (ERR_EDM_DEL_ADMIN_FAILED, M2, s3, w1) else (ERR_OK, M2, s6, w6))"
      using 4 5 6 7
      by (cases "needSave p"; cases "e2 = ERR_EDM_POLICY_NOT_FOUND \<or> items = []"; cases "FAILED err2"; cases "cur = []")
        (simp_all add: RemoveAdminItem_def M1_def [symmetric] Some p_def [symmetric] c_def [symmetric] NeedSavePolicy_def
          1 2 3 s2_def)
    note k2 = OnAdminRemoveExecute_keeps [OF ok1 2]
    have k1: "keeps R view s s1" using keeps_others [OF assms(2) 1] k2 keeps_trans by blast
    have k3: "keeps R view s1 s2" using keeps_GetAdminByPolicyName [OF assms(2) 3] by (simp add: s2_def)
    have "keeps R view s5 s6" using 7 rd(7) by (auto split: if_splits)
    then have k6: "keeps R view s3 s6" using rd(5) [OF 5] keeps_GetPolicy [OF assms(2) 6] keeps_trans by blast
    have "needSave p \<Longrightarrow> PolicyManager_GetAdminByPolicyName R name [] u s1 = (e2, items, s2)" using 3 by (simp add: s2_def)
    moreover have "M' = M2" "keeps R view s3 s'" "err = (if FAILED err2 then ERR_EDM_DEL_ADMIN_FAILED else ERR_OK)"
      using assms(3) k6 by (auto simp: eq split: if_splits)
    ultimately show thesis
      using run [OF M1_def Some p_def _ 1 k1 k3 _ 4 [symmetric]] k2 by blast
  qed
qed

subsection \<open>Dispatching an event\<close>

text \<open>A property of the policies that reading, setting and restarting keep.\<close>

definition stable :: "'s rdb \<Rightarrow> 's db_viewer \<Rightarrow> ('s pm_state \<Rightarrow> bool) \<Rightarrow> bool" where
  "stable R view Q = ((\<forall>s. Q s \<longrightarrow> pm_agrees R view s \<and> Q (restart s)) \<and> (\<forall>s s'. Q s \<longrightarrow> keeps R view s s' \<longrightarrow> Q s')
     \<and> (\<forall>a p av mv u s err s'. Q s \<longrightarrow> PolicyManager_SetPolicy R a p av mv u s = (err, s') \<longrightarrow> Q s'))"

lemma stableD:
  assumes "stable R view Q" "Q s"
  shows "pm_agrees R view s" "Q (restart s)" "keeps R view s s' \<Longrightarrow> Q s'"
    "PolicyManager_SetPolicy R a p av mv u s = (err, s') \<Longrightarrow> Q s'"
  using assms unfolding stable_def by blast+

lemma stable_agrees: "queries_answer R \<Longrightarrow> stable R view (pm_agrees R view)"
  unfolding stable_def using PolicyManager_SetPolicy_spec(1) [of R view] restart_agrees(1) [of R view]
  by (auto simp: restart_def intro: keepsD(1))

lemma stable_coherent:
  assumes "writes_succeed R"
  shows "stable R view (coherent R view)"
proof -
  have "coherent R view s'" if "coherent R view s" "PolicyManager_SetPolicy R a p av mv u s = (err, s')" for a p av mv u s err s'
  proof (cases "p = []")
    case False
    then show ?thesis using coherent_SetPolicy(1) [OF that(1) assms _ that(2)] by blast
  next
    case True
    obtain m pm1 d1 where g: "GetUserPolicyMgr R u s = (m, pm1, d1)" by (metis prod.exhaust)
    note g1 = coherent_GetUserPolicyMgr [OF that(1) writes_answer [OF assms] g]
    have s': "s' = (store_mgr u m pm1, d1)"
      using that(2) True g by (simp add: PolicyManager_SetPolicy_def Upm_SetPolicy_def split: prod.splits)
    have "mgr_of v (store_mgr u m pm1) = mgr_of v pm1" for v using g1(2) by simp
    then show ?thesis using g1(1) by (simp add: coherent_def s' pm_agrees_def)
  qed
  moreover have "coherent R view (restart s)" if "coherent R view s" for s
    using restart_agrees(1) [of R view "fst s" "snd s"] that
    by (simp add: coherent_def restart_def split_beta) (simp add: policy_mgr0_def mgr_of_def)
  ultimately show ?thesis
    unfolding stable_def using coherent_agrees keepsD(2) [OF _ assms] by blast
qed

lemma dispatch_admins_ok:
  assumes "stable R view Q"
  shows
  "service_ok R view E M \<Longrightarrow> queries_answer R \<Longrightarrow> Q s \<Longrightarrow> i < length (objects M)
   \<Longrightarrow> dispatch_admins R E i name c u admins (M, s, w) = (M', s', w')
   \<Longrightarrow> service_ok R view E M' \<and> Q s'"
proof (induction admins arbitrary: M s w)
  case (Cons av admins)
  obtain a v where av: "av = (a, v)" by (rule prod.exhaust)
  define p where "p = plugin_at M i"
  have rp: "well_behaved R view p" using Cons.prems(1,4) by (simp add: service_ok_def plugins_ok_at p_def)
  obtain e1 old s1 where 1: "PolicyManager_GetPolicy R [] name [] u s = (e1, old, s1)" by (metis prod.exhaust)
  obtain e2 others s2 where 2: "IPlugin_GetOthersMergePolicyData R p a u [] s1 = (e2, others, s2)" by (metis prod.exhaust)
  define pd0 where "pd0 = \<lparr> policyData = v, mergePolicyData = others, isChanged = False \<rparr>"
  obtain pd M3 s3 w3 where 3: "OnPluginEventExecute E (GetExecuteStrategy p) a c pd0 u (M, s2, w) = (pd, M3, s3, w3)"
    by (metis prod.exhaust)
  obtain e4 s4 where 4: "PolicyManager_SetPolicy R a name (policyData pd) (mergePolicyData pd) u s3 = (e4, s4)"
    by (rule prod.exhaust)
  obtain s5 w5 where 5: "(if needSave p then if mergePolicyData pd = [] then unsubscribeEvent p (s4, w3) else (s4, w3)
     else (s3, w3)) = (s5, w5)" by (rule prod.exhaust)
  have rest: "dispatch_admins R E i name c u admins (M3, s5, w5) = (M', s', w')"
    using Cons.prems(5) 4 5
    by (cases "needSave p"; cases "mergePolicyData pd = []")
      (simp_all add: av p_def [symmetric] 1 2 pd0_def [symmetric] 3 4 NeedSavePolicy_def)
  note k3 = OnPluginEventExecute_keeps [OF Cons.prems(1) 3]
  have s3: "Q s3"
    using Cons.prems(3) keeps_GetPolicy [OF Cons.prems(2) 1] keeps_others [OF Cons.prems(2) 2] k3 stableD(3) [OF assms] by metis
  have s4: "Q s4" by (rule stableD(4) [OF assms s3 4])
  have "unsubscribeEvent p (s4, w3) = (s5, w5) \<Longrightarrow> Q s5"
    by (rule stableD(3) [OF assms s4 well_behavedD(7) [OF rp]])
  then have s5: "Q s5" using 5 s3 s4 by (auto split: if_splits)
  have len: "i < length (objects M3)" using OnPluginEventExecute_grows [OF 3] Cons.prems(4) by simp
  show ?case by (rule Cons.IH [OF _ Cons.prems(2) s5 len rest]) (use k3 in simp)
qed simp

subsection \<open>The manager only loads\<close>

text \<open>What loading libraries keeps, the operations on policies keep.\<close>

lemma strategies_load:
  assumes "kept_by_loading E Q" "Q M"
  shows "OnSetExecute E st c pd u (M, s, w) = (err, pd', M', s', w') \<Longrightarrow> Q M'"
    "OnGetExecute E st c v u (M, s, w) = (err, v', M', s', w') \<Longrightarrow> Q M'"
    "OnAdminRemoveExecute E st c a v m u (M, s, w) = (err, M', s', w') \<Longrightarrow> Q M'"
proof -
  obtain r M1 where g: "GetPluginByFuncCode E c M = (r, M1)" by (rule prod.exhaust)
  note q = loading_keeps(5) [OF assms g] assms(2)
  show "OnSetExecute E st c pd u (M, s, w) = (err, pd', M', s', w') \<Longrightarrow> Q M'"
    using q by (auto simp: OnSetExecute_def Single_OnSetExecute_def Enhance_OnSetExecute_def Replace_OnSetExecute_def
        Let_def g split: option.splits execute_strategy.splits prod.splits if_splits)
  show "OnGetExecute E st c v u (M, s, w) = (err, v', M', s', w') \<Longrightarrow> Q M'"
    using q by (auto simp: OnGetExecute_def Single_OnGetExecute_def Enhance_OnGetExecute_def Replace_OnGetExecute_def
        Let_def g split: option.splits execute_strategy.splits prod.splits if_splits)
  show "OnAdminRemoveExecute E st c a v m u (M, s, w) = (err, M', s', w') \<Longrightarrow> Q M'"
    using q by (auto simp: OnAdminRemoveExecute_def Single_OnAdminRemoveExecute_def Enhance_OnAdminRemoveExecute_def
        Replace_OnAdminRemoveExecute_def Let_def g split: option.splits execute_strategy.splits prod.splits if_splits)
qed

lemma operations_load:
  assumes "kept_by_loading E Q" "Q M"
  shows "UpdateDevicePolicy R E code a u (M, s, w) = (err, M', s', w') \<Longrightarrow> Q M'"
    "PluginManager_GetPolicy R E code a u (M, s, w) = (err, M', s', w') \<Longrightarrow> Q M'"
    "RemoveAdminItem R E a name v u (M, s, w) = (err, M', s', w') \<Longrightarrow> Q M'"
proof -
  obtain r M1 where g: "GetPluginByFuncCode E code M = (r, M1)" by (rule prod.exhaust)
  note q1 = loading_keeps(5) [OF assms g]
  have *: "Q (fst (snd (snd (OnSetExecute E st code pd u (M1, t, w)))))"
    "Q (fst (snd (snd (OnGetExecute E st code x u (M1, t, w)))))"
    "Q (fst (snd (OnAdminRemoveExecute E st c a v m u (LoadAllPlugin E M, t, w))))" for st pd t x c m
    using strategies_load [OF assms(1) q1] strategies_load(3) [OF assms(1) loading_keeps(3) [OF assms]]
    by (metis prod.collapse)+
  have res: "snd (snd X) = (M', s', w') \<Longrightarrow> Q (fst (snd (snd X))) \<Longrightarrow> Q M'" for X :: "'c \<times> 'd \<times> ('a, 'b) edm_state" and s' w'
    by simp
  show "UpdateDevicePolicy R E code a u (M, s, w) = (err, M', s', w') \<Longrightarrow> Q M'"
    using q1 by (auto simp: * UpdateDevicePolicy_def g Let_def split_beta dest!: res split: option.splits if_splits)
  show "PluginManager_GetPolicy R E code a u (M, s, w) = (err, M', s', w') \<Longrightarrow> Q M'"
    using q1 by (auto simp: * PluginManager_GetPolicy_def g Let_def split_beta dest!: res split: option.splits if_splits)
  show "RemoveAdminItem R E a name v u (M, s, w) = (err, M', s', w') \<Longrightarrow> Q M'"
    using loading_keeps(3) [OF assms]
    by (auto simp: * RemoveAdminItem_def Let_def split_beta split: option.splits if_splits)
qed

subsection \<open>Reachable states\<close>

text \<open>The libraries may change (a library can appear in the plugin directory, time passes) as long as
  their plugins leave other policies than \<open>plugin_written\<close> alone; the parcels and system services change between requests.\<close>

definition libs_ok :: "'s rdb \<Rightarrow> 's db_viewer \<Rightarrow> ('s, 'w) plugin_env \<Rightarrow> bool" where
  "libs_ok R view E = (fresh_libraries E \<and> libraries_ok (well_behaved R view) E)"

inductive edm_step :: "'s rdb \<Rightarrow> 's db_viewer \<Rightarrow> ('s, 'w) edm_state \<Rightarrow> ('s, 'w) edm_state \<Rightarrow> bool" for R view where
  step_update: "libs_ok R view E \<Longrightarrow> UpdateDevicePolicy R E code a u st = (err, st') \<Longrightarrow> edm_step R view st st'"
| step_remove: "libs_ok R view E \<Longrightarrow> RemoveAdminItem R E a name v u st = (err, st') \<Longrightarrow> edm_step R view st st'"
| step_get: "libs_ok R view E \<Longrightarrow> PluginManager_GetPolicy R E code a u st = (err, st') \<Longrightarrow> edm_step R view st st'"
| step_event: "libs_ok R view E \<Longrightarrow> DispatchPluginEvent R E code eu ai ue st = st' \<Longrightarrow> edm_step R view st st'"
| step_flag: "libs_ok R view E \<Longrightarrow> SetPluginUnloadFlag E code b M = (err, M') \<Longrightarrow> edm_step R view (M, s, w) (M', s, w)"
| step_timer: "edm_step R view (M, s, w) (UnloadPluginTask E so signalled M, s, w)"
| step_restart: "edm_step R view (M, s, w) (PluginManager, restart s, w)"
| step_outside: "edm_step R view (M, s, w) (M, s, w')"

definition edm_ok :: "'s rdb \<Rightarrow> 's db_viewer \<Rightarrow> ('s pm_state \<Rightarrow> bool) \<Rightarrow> ('s, 'w) edm_state \<Rightarrow> bool" where
  "edm_ok R view Q = (\<lambda>(M, s, w). registry_ok M \<and> plugins_ok (well_behaved R view) M \<and> Q s)"

lemma edm_ok_service: "edm_ok R view Q (M, s, w) \<Longrightarrow> libs_ok R view E \<Longrightarrow> service_ok R view E M \<and> Q s"
  by (simp add: edm_ok_def libs_ok_def service_ok_def)

lemma service_edm_ok: "service_ok R view E M \<Longrightarrow> Q s \<Longrightarrow> edm_ok R view Q (M, s, w)"
  by (simp add: edm_ok_def service_ok_def)

lemma edm_ok_initial: "policies_ok (R, view, d) \<Longrightarrow> edm_ok R view (pm_agrees R view) (PluginManager, (policy_mgr0, d), w)"
  by (simp add: edm_ok_def registry_ok_initial pm_agrees_initial) (simp add: plugins_ok_def PluginManager_def)

lemma update_agrees:
  assumes "service_ok R view E M" "queries_answer R" "Q s" "stable R view Q"
    "UpdateDevicePolicy R E code a u (M, s, w) = (err, M', s', w')"
  shows "service_ok R view E M' \<and> Q s'"
proof (cases rule: UpdateDevicePolicy_run [OF assms(1,2) stableD(1) [OF assms(4,3)] assms(5), case_names unsupported run])
  case unsupported
  then show ?thesis using assms(3) by simp
next
  case (run i M1 p s2 e3 others s3 ret pd s4 w4 s5)
  have s4: "Q s4" using assms(3) run(5,7,9) stableD(3) [OF assms(4)] by blast
  obtain e t where set: "PolicyManager_SetPolicy R a (policyName p) (policyData pd) (mergePolicyData pd) u s4 = (e, t)"
    by (rule prod.exhaust)
  have "Q s5" using s4 stableD(4) [OF assms(4) s4 set] run(11) by (simp add: set split: if_splits)
  then show ?thesis using run(4,12) stableD(3) [OF assms(4)] by blast
qed

lemma remove_agrees:
  assumes "service_ok R view E M" "queries_answer R" "Q s" "stable R view Q"
    "RemoveAdminItem R E a name v u (M, s, w) = (err, M', s', w')"
  shows "service_ok R view E M' \<and> Q s'"
proof (cases rule: RemoveAdminItem_run [OF assms(1,2,5), case_names missing run])
  case missing
  then show ?thesis using assms(3) by simp
next
  case (run i M1 p e1 merged s0 s1 e2 items s2 err2 s3)
  have s2: "Q s2" using assms(3) run(6,7) stableD(3) [OF assms(4)] by blast
  have "Q s3"
    using run(9) s2 by (auto split: if_splits dest: stableD(4) [OF assms(4) s2 sym])
  then show ?thesis using run(4,10) stableD(3) [OF assms(4)] by blast
qed

lemma get_agrees:
  assumes "service_ok R view E M" "queries_answer R" "PluginManager_GetPolicy R E code a u (M, s, w) = (err, M', s', w')"
  shows "service_ok R view E M' \<and> keeps R view s s'"
proof -
  obtain r M1 where g: "GetPluginByFuncCode E code M = (r, M1)" by (rule prod.exhaust)
  note ok = service_ok_lookup(1) [OF assms(1) g]
  show ?thesis
  proof (cases r)
    case None
    then show ?thesis using assms(3) g ok by (auto simp: PluginManager_GetPolicy_def)
  next
    case (Some i)
    define p where "p = plugin_at M1 i"
    obtain e1 v1 t1 where 1: "PolicyManager_GetPolicy R a (policyName p) [] u s = (e1, v1, t1)" by (metis prod.exhaust)
    define v2 where "v2 = (if needSave p then v1 else [])"
    define s1 where "s1 = (if needSave p then t1 else s)"
    obtain e2 v3 M2 s2 w2 where 2: "OnGetExecute E (GetExecuteStrategy p) code v2 u (M1, s1, w) = (e2, v3, M2, s2, w2)"
      by (metis prod.exhaust)
    have "M' = M2" "s' = s2"
      using assms(3) 2 by (auto simp: PluginManager_GetPolicy_def g Some p_def [symmetric] NeedSavePolicy_def
          Plugin_GetPolicyName_def 1 v2_def s1_def split: if_splits)
    moreover have "keeps R view s s1" using keeps_GetPolicy [OF assms(2) 1] by (simp add: s1_def)
    ultimately show ?thesis using OnGetExecute_keeps [OF ok 2] keeps_trans by blast
  qed
qed

lemma event_agrees:
  assumes "service_ok R view E M" "queries_answer R" "Q s" "stable R view Q"
    "DispatchPluginEvent R E code eu ai ue (M, s, w) = (M', s', w')"
  shows "service_ok R view E M' \<and> Q s'"
proof -
  obtain ret M1 where l: "LoadPluginByCode E code M = (ret, M1)" by (rule prod.exhaust)
  have ok: "service_ok R view E M1"
    using assms(1) loading_keeps(4) [OF plugins_ok_kept [OF linkage_free_behaved], of R view E M code]
      registry_ok_LoadByCode [of M E code] by (simp add: service_ok_def l)
  show ?thesis
  proof (cases "ret = ERR_OK \<and> map_of (pluginsCode M1) code \<noteq> None")
    case False
    then show ?thesis using assms(3,5) ok by (auto simp: DispatchPluginEvent_def l split: if_splits)
  next
    case True
    then obtain i where i: "map_of (pluginsCode M1) code = Some i" by blast
    have len: "i < length (objects M1)"
      using ok registry_okD(1) [of M1 code i] i by (simp add: service_ok_def GetPluginByCode_def)
    define p where "p = plugin_at M1 i"
    define u where "u = (if ue then (case eu of Some u \<Rightarrow> u | None \<Rightarrow> DEFAULT_USER_ID) else DEFAULT_USER_ID)"
    define c where "c = POLICY_FUNC_CODE (operate_type_code OP_SET) code"
    obtain e items s1 where 1: "PolicyManager_GetAdminByPolicyName R (policyName p) [] u s = (e, items, s1)"
      by (metis prod.exhaust)
    obtain e2 merged s2 where 2: "PolicyManager_GetPolicy R [] (policyName p) [] u s = (e2, merged, s2)"
      by (metis prod.exhaust)
    have s1: "Q s1" using keeps_GetAdminByPolicyName [OF assms(2) 1] assms(3) stableD(3) [OF assms(4)] by blast
    note eq = DispatchPluginEvent_def l True i p_def [symmetric] u_def [symmetric] c_def [symmetric]
      Plugin_GetPolicyName_def DispatchForAdmins_def DispatchWithoutAdmins_def 1 2
    show ?thesis
    proof (cases ai)
      case True
      then have "dispatch_admins R E i (policyName p) c u items (M1, s1, w) = (M', s', w')"
        using assms(5) by (simp add: eq)
      then show ?thesis by (rule dispatch_admins_ok [OF assms(4) ok assms(2) s1 len])
    next
      case False
      obtain pd M3 s3 w3 where 3: "OnPluginEventExecute E (GetExecuteStrategy p) [] c
          \<lparr> policyData = [], mergePolicyData = merged, isChanged = False \<rparr> u (M1, s2, w) = (pd, M3, s3, w3)"
        by (metis prod.exhaust)
      have "M' = M3" "s' = s3" using assms(5) False 3 by (simp_all add: eq)
      then show ?thesis
        using OnPluginEventExecute_keeps [OF ok 3] keeps_GetPolicy [OF assms(2) 2] assms(3) stableD(3) [OF assms(4)] by blast
    qed
  qed
qed

lemma edm_step_ok:
  "edm_step R view st st' \<Longrightarrow> queries_answer R \<Longrightarrow> stable R view Q \<Longrightarrow> edm_ok R view Q st \<Longrightarrow> edm_ok R view Q st'"
proof (induction rule: edm_step.induct)
  case (step_update E code a u st err st')
  then show ?case
    by (cases st; cases st') (metis edm_ok_service service_edm_ok update_agrees)
next
  case (step_remove E a name v u st err st')
  then show ?case
    by (cases st; cases st') (metis edm_ok_service service_edm_ok remove_agrees)
next
  case (step_get E code a u st err st')
  obtain M s w M' s' w' where st: "st = (M, s, w)" "st' = (M', s', w')" by (metis prod.exhaust)
  note ok = edm_ok_service [OF step_get.prems(3) [unfolded st] step_get.hyps(1)]
  note g = get_agrees [OF _ step_get.prems(1) step_get.hyps(2) [unfolded st]]
  show ?case
    using ok g stableD(3) [OF step_get.prems(2)] unfolding st by (intro service_edm_ok [of R view E]) blast+
next
  case (step_event E code eu ai ue st st')
  then show ?case
    by (cases st; cases st') (metis edm_ok_service service_edm_ok event_agrees)
next
  case (step_flag E code b M err M' s w)
  then show ?case
    using registry_ok_Flag(1) [of M E code b] plugins_ok_Flag [OF linkage_free_behaved, of R view M E code b]
    by (simp add: edm_ok_def libs_ok_def)
next
  case (step_timer M s w E so signalled)
  then show ?case by (simp add: edm_ok_def registry_ok_Task plugins_ok_Task [OF linkage_free_behaved])
next
  case (step_restart M s w)
  then show ?case
    using stableD(2) [of R view Q s] by (simp add: edm_ok_def registry_ok_initial) (simp add: plugins_ok_def PluginManager_def)
qed (simp add: edm_ok_def)

lemma edm_reachable_ok:
  assumes "(edm_step R view)\<^sup>*\<^sup>* st st'" "queries_answer R" "stable R view Q" "edm_ok R view Q st"
  shows "edm_ok R view Q st'"
  using assms by (induction rule: rtranclp_induct) (auto simp: edm_step_ok)

subsection \<open>What an update leaves alone\<close>

lemma SetPolicy_frame:
  assumes "pm_agrees R view s" "queries_answer R" "PolicyManager_SetPolicy R a p av mv u s = (err, s')"
    "q \<noteq> p \<or> v \<noteq> u \<or> (b \<noteq> a \<and> b \<noteq> [])"
  shows "policy_answer R s' b q v = policy_answer R s b q v"
proof -
  have s: "pm_agrees R view (fst s, snd s)" "PolicyManager_SetPolicy R a p av mv u (fst s, snd s) = (err, fst s', snd s')"
    using assms by simp_all
  note spec = PolicyManager_SetPolicy_spec [OF s(1) assms(2) s(2)]
  have "comb_look (R, view, snd s') (v, q) = comb_look (R, view, snd s) (v, q)" if "q \<noteq> p \<or> v \<noteq> u"
    using spec(3) that by (auto split: if_splits)
  moreover have "adm_look (R, view, snd s') (v, b, q) = adm_look (R, view, snd s) (v, b, q)"
    if "q \<noteq> p \<or> v \<noteq> u \<or> b \<noteq> a"
    using spec(2) that by auto
  ultimately show ?thesis
    using policy_answer_look [OF assms(1,2), of b q v] spec(1) policy_answer_look [of R view s' b q v] assms(2,4)
    by (cases "b = []") auto
qed

definition edm_reachable :: "'s rdb \<Rightarrow> 's db_viewer \<Rightarrow> 's edm_db \<Rightarrow> ('s, 'w) edm_state \<Rightarrow> bool" where
  "edm_reachable R view d st = (policies_ok (R, view, d)
     \<and> (\<exists>w. (edm_step R view)\<^sup>*\<^sup>* (PluginManager, (policy_mgr0, d), w) st))"

lemma reachable_service:
  assumes "edm_reachable R view d (M, s, w)" "queries_answer R" "libs_ok R view E"
  shows "service_ok R view E M" "pm_agrees R view s"
proof -
  obtain w0 where r: "(edm_step R view)\<^sup>*\<^sup>* (PluginManager, (policy_mgr0, d), w0) (M, s, w)" "policies_ok (R, view, d)"
    using assms(1) by (auto simp: edm_reachable_def)
  note edm_reachable_ok [OF r(1) assms(2) stable_agrees [OF assms(2)] edm_ok_initial [OF r(2)]]
  from edm_ok_service [OF this assms(3)] show "service_ok R view E M" "pm_agrees R view s" by blast+
qed

end
