(* ===== verification/Sorted_Sets.thy ===== *)
theory Sorted_Sets
  imports Edm_Prelude "HOL-Library.List_Lexorder" "HOL-Library.Char_ord"
begin

text \<open>
  The algorithms of the C++ standard library on sorted ranges, written as their specification
  steps them, and what they compute on strictly ascending lists. Strings are ordered
  lexicographically by unsigned characters, as \<open>std::string\<close> is.
\<close>

fun set_union :: "'a::linorder list \<Rightarrow> 'a list \<Rightarrow> 'a list" where
  "set_union [] ys = ys"
| "set_union (x # xs) [] = x # xs"
| "set_union (x # xs) (y # ys) =
     (if y < x then y # set_union (x # xs) ys
      else if x < y then x # set_union xs (y # ys)
      else x # set_union xs ys)"

fun set_difference :: "'a::linorder list \<Rightarrow> 'a list \<Rightarrow> 'a list" where
  "set_difference [] ys = []"
| "set_difference (x # xs) [] = x # xs"
| "set_difference (x # xs) (y # ys) =
     (if x < y then x # set_difference xs (y # ys)
      else if y < x then set_difference (x # xs) ys
      else set_difference xs ys)"

fun set_intersection :: "'a::linorder list \<Rightarrow> 'a list \<Rightarrow> 'a list" where
  "set_intersection [] ys = []"
| "set_intersection (x # xs) [] = []"
| "set_intersection (x # xs) (y # ys) =
     (if x < y then set_intersection xs (y # ys)
      else if y < x then set_intersection (x # xs) ys
      else x # set_intersection xs ys)"

text \<open>\<open>std::sort\<close> then \<open>std::unique\<close> and \<open>erase\<close>; a \<open>std::set\<close> filled element by element and
  read from its beginning.\<close>

definition sort_unique :: "'a::linorder list \<Rightarrow> 'a list" where
  "sort_unique xs = remdups_adj (sort xs)"

definition ordered_set :: "'a::linorder list list \<Rightarrow> 'a list" where
  "ordered_set data = fold (fold insort_insert) data []"

subsection \<open>What they compute\<close>

definition strict :: "'a::linorder list \<Rightarrow> bool" where
  "strict xs = (sorted xs \<and> distinct xs)"

lemma strict_Nil [simp]: "strict []" by (simp add: strict_def)

lemma strict_Cons [simp]: "strict (x # xs) \<longleftrightarrow> strict xs \<and> (\<forall>y \<in> set xs. x < y)"
  by (auto simp: strict_def order_less_le)

lemma strict_sort [simp]: "strict xs \<Longrightarrow> sort xs = xs"
  by (simp add: strict_def sorted_sort_id)

lemma strict_unique: "strict xs \<Longrightarrow> strict ys \<Longrightarrow> set xs = set ys \<Longrightarrow> xs = ys"
  by (simp add: strict_def sorted_distinct_set_unique)

lemma set_set_union [simp]: "set (set_union xs ys) = set xs \<union> set ys"
  by (induction xs ys rule: set_union.induct) auto

lemma strict_set_union [simp]: "strict xs \<Longrightarrow> strict ys \<Longrightarrow> strict (set_union xs ys)"
  by (induction xs ys rule: set_union.induct) (auto intro: order.strict_trans)

lemma set_set_difference [simp]: "strict xs \<Longrightarrow> strict ys \<Longrightarrow> set (set_difference xs ys) = set xs - set ys"
proof (induction xs ys rule: set_difference.induct)
  case (3 x xs y ys)
  consider "x < y" | "y < x" | "x = y" by force
  then show ?case
    using 3 by cases (auto dest: order.asym)
qed simp_all

lemma set_difference_subset: "set (set_difference xs ys) \<subseteq> set xs"
  by (induction xs ys rule: set_difference.induct) auto

lemma strict_set_difference [simp]: "strict xs \<Longrightarrow> strict (set_difference xs ys)"
  by (induction xs ys rule: set_difference.induct) (auto dest: set_difference_subset [THEN subsetD])

lemma set_set_intersection [simp]: "strict xs \<Longrightarrow> strict ys \<Longrightarrow> set (set_intersection xs ys) = set xs \<inter> set ys"
proof (induction xs ys rule: set_intersection.induct)
  case (3 x xs y ys)
  consider "x < y" | "y < x" | "x = y" by force
  then show ?case
    using 3 by cases (auto dest: order.asym)
qed simp_all

lemma set_intersection_subset: "set (set_intersection xs ys) \<subseteq> set xs"
  by (induction xs ys rule: set_intersection.induct) auto

lemma strict_set_intersection [simp]: "strict xs \<Longrightarrow> strict (set_intersection xs ys)"
  by (induction xs ys rule: set_intersection.induct) (auto dest: set_intersection_subset [THEN subsetD])

lemma sorted_remdups_adj_distinct: "sorted xs \<Longrightarrow> distinct (remdups_adj xs)"
  by (induction xs rule: remdups_adj.induct) (auto simp: order_le_less)

lemma strict_sort_unique [simp]: "strict (sort_unique xs)" "set (sort_unique xs) = set xs"
  by (simp_all add: strict_def sort_unique_def sorted_remdups_adj sorted_remdups_adj_distinct)

lemma strict_insort_insert: "strict s \<Longrightarrow> strict (insort_insert x s) \<and> set (insort_insert x s) = insert x (set s)"
  by (simp add: strict_def sorted_insort_insert distinct_insort_insert set_insort_insert)

lemma strict_fold_insort: "strict s \<Longrightarrow> strict (fold insort_insert xs s) \<and> set (fold insort_insert xs s) = set xs \<union> set s"
proof (induction xs arbitrary: s)
  case (Cons x xs)
  then show ?case using strict_insort_insert [of s x] by auto
qed simp

lemma ordered_set_from:
  "strict s \<Longrightarrow> strict (fold (fold insort_insert) data s)
     \<and> set (fold (fold insort_insert) data s) = (\<Union>d \<in> set data. set d) \<union> set s"
proof (induction data arbitrary: s)
  case (Cons d data)
  then show ?case using strict_fold_insort [of s d] by auto
qed simp

lemma strict_ordered_set [simp]: "strict (ordered_set data)" "set (ordered_set data) = (\<Union>d \<in> set data. set d)"
  using ordered_set_from [of "[]" data] by (simp_all add: ordered_set_def)

end
