(* ===== verification/Serializers.thy ===== *)
theory Serializers
  imports Sorted_Sets Cjson
begin

text \<open>
  The policy serializers of \<open>plugin_kits/src/utils\<close>: how a value of a policy becomes the string that
  is stored, how it is read back, and how the values of several administrators are merged. Every
  function takes the object the C++ method writes to, since some methods leave it alone or add to it.
\<close>

subsection \<open>Arrays of strings\<close>

definition ArrayString_Deserialize :: "cjson \<Rightarrow> string \<Rightarrow> string list \<Rightarrow> bool \<times> string list" where
  "ArrayString_Deserialize J jsonString dataObj =
     (if jsonString = [] then (True, [])
      else (case cj_parse J jsonString of
              None \<Rightarrow> (False, [])
            | Some (JArray xs) \<Rightarrow> (True, List.map_filter (\<lambda>e. case e of JString s \<Rightarrow> Some s | _ \<Rightarrow> None) xs)
            | Some _ \<Rightarrow> (False, [])))"

definition ArrayString_Serialize :: "cjson \<Rightarrow> string list \<Rightarrow> string \<Rightarrow> bool \<times> string" where
  "ArrayString_Serialize J dataObj jsonString =
     (if dataObj = [] then (True, [])
      else if \<not> cj_create_array J then (False, jsonString)
      else (case create_all (cj_create_string J) dataObj of
              None \<Rightarrow> (False, jsonString)
            | Some js \<Rightarrow> (case cj_print J (JArray js) of None \<Rightarrow> (False, jsonString) | Some s \<Rightarrow> (True, s))))"

text \<open>\<open>GetPolicy\<close> of the arrays: the vector read from the parcel, sorted and without duplicates.\<close>

definition ArrayString_GetPolicy :: "string list option \<Rightarrow> string list \<Rightarrow> bool \<times> string list" where
  "ArrayString_GetPolicy readVector result =
     (case readVector of None \<Rightarrow> (False, result) | Some v \<Rightarrow> (True, sort_unique v))"

definition ArrayString_MergePolicy :: "string list list \<Rightarrow> string list \<Rightarrow> bool \<times> string list" where
  "ArrayString_MergePolicy data result = (True, ordered_set data)"

definition ArrayString_SetUnionPolicyData :: "string list \<Rightarrow> string list \<Rightarrow> string list" where
  "ArrayString_SetUnionPolicyData data currentData = set_union (sort data) (sort currentData)"

definition ArrayString_SetDifferencePolicyData :: "string list \<Rightarrow> string list \<Rightarrow> string list" where
  "ArrayString_SetDifferencePolicyData data currentData = set_difference (sort currentData) (sort data)"

definition ArrayString_SetIntersectionPolicyData :: "string list \<Rightarrow> string list \<Rightarrow> string list" where
  "ArrayString_SetIntersectionPolicyData data currentData = set_intersection (sort currentData) (sort data)"

subsection \<open>Arrays of integers\<close>

type_synonym i32 = "32 word"

text \<open>\<open>std::sort\<close> compares signed numbers.\<close>

definition sort_i32 :: "int list \<Rightarrow> int list" where "sort_i32 = sort"

text \<open>\<open>cj_print\<close> of the argument stands for \<open>cJSON_Print\<close> here. A number that cannot be created is
  added as a null pointer, which \<open>cJSON_AddItemToArray\<close> ignores.\<close>

definition ArrayInt_Deserialize :: "cjson \<Rightarrow> string \<Rightarrow> int list \<Rightarrow> bool \<times> int list" where
  "ArrayInt_Deserialize J jsonString dataObj =
     (case cj_parse J jsonString of
        None \<Rightarrow> (True, dataObj)
      | Some (JArray xs) \<Rightarrow> (True, dataObj @ List.map_filter (\<lambda>e. case e of JNumber n \<Rightarrow> Some (valueint n) | _ \<Rightarrow> None) xs)
      | Some _ \<Rightarrow> (False, dataObj))"

definition ArrayInt_Serialize :: "cjson \<Rightarrow> int list \<Rightarrow> string \<Rightarrow> bool \<times> string" where
  "ArrayInt_Serialize J dataObj jsonString =
     (if dataObj = [] then (True, jsonString)
      else if \<not> cj_create_array J then (False, jsonString)
      else (case cj_print J (JArray (List.map_filter (cj_create_number J) dataObj)) of
              None \<Rightarrow> (False, jsonString) | Some s \<Rightarrow> (True, s)))"

definition ArrayInt_Deduplication :: "int list \<Rightarrow> int list" where
  "ArrayInt_Deduplication dataObj = sort_unique dataObj"

definition ArrayInt_GetPolicy :: "int list option \<Rightarrow> int list \<Rightarrow> bool \<times> int list" where
  "ArrayInt_GetPolicy readVector result =
     (case readVector of None \<Rightarrow> (False, result) | Some v \<Rightarrow> (True, ArrayInt_Deduplication (result @ v)))"

definition ArrayInt_MergePolicy :: "int list list \<Rightarrow> int list \<Rightarrow> bool \<times> int list" where
  "ArrayInt_MergePolicy data result = (True, ArrayInt_Deduplication (ordered_set data))"

definition ArrayInt_SetUnionPolicyData :: "int list \<Rightarrow> int list \<Rightarrow> int list" where
  "ArrayInt_SetUnionPolicyData data currentData = set_union (sort data) (sort currentData)"

definition ArrayInt_SetDifferencePolicyData :: "int list \<Rightarrow> int list \<Rightarrow> int list" where
  "ArrayInt_SetDifferencePolicyData data currentData = set_difference (sort currentData) (sort data)"

definition ArrayInt_SetIntersectionPolicyData :: "int list \<Rightarrow> int list \<Rightarrow> int list" where
  "ArrayInt_SetIntersectionPolicyData data currentData = set_intersection (sort currentData) (sort data)"

subsection \<open>Numbers\<close>

definition is_space :: "char \<Rightarrow> bool" where
  "is_space c = (let n = of_char c :: nat in n = 32 \<or> 9 \<le> n \<and> n \<le> 13)"

text \<open>\<open>strtol\<close> in base ten: the value and what follows it, \<open>None\<close> when there is no digit. The value is
  clamped to \<open>long\<close> with \<open>errno = ERANGE\<close>, the flag here.\<close>

definition strtol :: "string \<Rightarrow> (int \<times> bool \<times> string) option" where
  "strtol s =
     (let s1 = dropWhile is_space s;
          (neg, s2) = (case s1 of c # cs \<Rightarrow> (if c = CHR ''-'' then (True, cs) else if c = CHR ''+'' then (False, cs)
                          else (False, s1)) | [] \<Rightarrow> (False, s1))
      in (case s2 of [] \<Rightarrow> None
          | c # cs \<Rightarrow>
              (if char_digit c = None then None
               else (let (n, rest) = read_digits 0 s2;
                         i = (if neg then - int n else int n);
                         clamped = max (- (2 ^ 63)) (min (2 ^ 63 - 1) i)
                     in Some (clamped, clamped \<noteq> i, rest)))))"

definition Int_Deserialize :: "string \<Rightarrow> i32 \<Rightarrow> bool \<times> i32" where
  "Int_Deserialize jsonString dataObj =
     (if jsonString = [] then (True, 0)
      else (case strtol jsonString of
              None \<Rightarrow> (False, 0)
            | Some (v, erange, rest) \<Rightarrow> (\<not> erange \<and> rest = [], word_of_int v)))"

definition Int_Serialize :: "i32 \<Rightarrow> string \<Rightarrow> bool \<times> string" where
  "Int_Serialize dataObj jsonString = (True, int_to_string (sint dataObj))"

definition Int_MergePolicy :: "i32 list \<Rightarrow> i32 \<Rightarrow> bool \<times> i32" where
  "Int_MergePolicy data result = (True, foldl (\<lambda>r p. if p \<noteq> 0 then p else r) result data)"

text \<open>\<open>std::from_chars\<close> for an unsigned number: digits only; the object keeps its value on an error.\<close>

definition UInt_Deserialize :: "string \<Rightarrow> u32 \<Rightarrow> bool \<times> u32" where
  "UInt_Deserialize jsonString dataObj =
     (case jsonString of
        [] \<Rightarrow> (True, 0)
      | c # cs \<Rightarrow>
          (if char_digit c = None then (False, 0)
           else (let (n, rest) = read_digits 0 jsonString in
                 if n < 2 ^ 32 then (rest = [], of_nat n) else (False, 0))))"

definition UInt_Serialize :: "u32 \<Rightarrow> string \<Rightarrow> bool \<times> string" where
  "UInt_Serialize dataObj jsonString = (True, int_to_string (uint dataObj))"

definition UInt_MergePolicy :: "u32 list \<Rightarrow> u32 \<Rightarrow> bool \<times> u32" where
  "UInt_MergePolicy data result = (True, foldl (\<lambda>r p. if p \<noteq> 0 then p else r) result data)"

definition Bit_MergePolicy :: "u32 list \<Rightarrow> u32 \<Rightarrow> bool \<times> u32" where
  "Bit_MergePolicy data result = (True, foldl (\<lambda>r p. or r p) result data)"

definition Long_Deserialize :: "string \<Rightarrow> 64 word \<Rightarrow> bool \<times> 64 word" where
  "Long_Deserialize jsonString dataObj =
     (case strtol jsonString of
        None \<Rightarrow> (False, 0)
      | Some (v, erange, rest) \<Rightarrow> (\<not> erange \<and> rest = [], word_of_int v))"

definition Long_Serialize :: "64 word \<Rightarrow> string \<Rightarrow> bool \<times> string" where
  "Long_Serialize dataObj jsonString = (True, int_to_string (sint dataObj))"

definition Long_MergePolicy :: "64 word list \<Rightarrow> 64 word \<Rightarrow> bool \<times> 64 word" where
  "Long_MergePolicy data result = (True, if data \<noteq> [] then last data else result)"

subsection \<open>String maps\<close>

text \<open>\<open>emplace\<close> and \<open>insert\<close> keep the value of a key that is there.\<close>

fun read_members :: "(string \<times> json) list \<Rightarrow> (string, string) amap \<Rightarrow> bool \<times> (string, string) amap" where
  "read_members [] dataObj = (True, dataObj)"
| "read_members ((k, j) # rest) dataObj =
     (case j of JString v \<Rightarrow> read_members rest (al_insert k v dataObj) | _ \<Rightarrow> (False, dataObj))"

definition MapString_Deserialize :: "cjson \<Rightarrow> string \<Rightarrow> (string, string) amap \<Rightarrow> bool \<times> (string, string) amap" where
  "MapString_Deserialize J jsonString dataObj =
     (if jsonString = [] then (True, dataObj)
      else (case cj_parse J jsonString of
              None \<Rightarrow> (False, dataObj)
            | Some (JObject kvs) \<Rightarrow> read_members kvs dataObj
            | Some _ \<Rightarrow> (False, dataObj)))"

definition MapString_GetPolicy :: "string list option \<Rightarrow> string list option \<Rightarrow> (string, string) amap
    \<Rightarrow> bool \<times> (string, string) amap" where
  "MapString_GetPolicy keys values result =
     (case keys of None \<Rightarrow> (False, result)
      | Some ks \<Rightarrow> (case values of None \<Rightarrow> (False, result)
         | Some vs \<Rightarrow> (if length ks \<noteq> length vs then (False, result)
             else (True, fold (\<lambda>(k, v). al_insert k v) (zip ks vs) result))))"

definition MapString_MergePolicy :: "(string, string) amap list \<Rightarrow> (string, string) amap \<Rightarrow> bool \<times> (string, string) amap" where
  "MapString_MergePolicy data result = (True, if data \<noteq> [] then last data else result)"

subsection \<open>The contract of a serializer\<close>

text \<open>What the plugin templates rely on: a value that was written is read back, whatever the object
  held before, and the two never fail on such values.\<close>

locale serializer =
  fixes deserialize :: "string \<Rightarrow> 'd \<Rightarrow> bool \<times> 'd"
    and serialize :: "'d \<Rightarrow> string \<Rightarrow> bool \<times> string"
    and valid :: "'d \<Rightarrow> bool"
    and fresh_text :: "string \<Rightarrow> bool"
    and fresh_value :: "'d \<Rightarrow> bool"
  assumes written_is_read: "valid d \<Longrightarrow> fresh_text t \<Longrightarrow> fresh_value d0 \<Longrightarrow>
    \<exists>s. serialize d t = (True, s) \<and> deserialize s d0 = (True, d)"
begin

lemma serialize_ok: "valid d \<Longrightarrow> fresh_text t \<Longrightarrow> fresh_value d0 \<Longrightarrow> fst (serialize d t)"
  using written_is_read by fastforce

lemma read_back: "valid d \<Longrightarrow> fresh_text t \<Longrightarrow> fresh_value d0 \<Longrightarrow> serialize d t = (ok, s) \<Longrightarrow> deserialize s d0 = (True, d)"
  using written_is_read by fastforce

text \<open>Different values have different texts, so comparing texts, as the templates do to set
  \<open>isChanged\<close>, is comparing values.\<close>

lemma texts_differ:
  assumes "valid d" "valid d'" "fresh_text t" "fresh_value d0"
  shows "snd (serialize d t) = snd (serialize d' t) \<longleftrightarrow> d = d'"
  using written_is_read [OF assms(1,3,4)] written_is_read [OF assms(2,3,4)] by fastforce

end



lemma ArrayString_roundtrip:
  assumes "cjson_laws J"
  obtains s where "ArrayString_Serialize J xs t = (True, s)" "ArrayString_Deserialize J s d0 = (True, xs)"
    "s = [] \<longleftrightarrow> xs = []"
proof (cases "xs = []")
  case True
  then show thesis
    using that [of "[]"] by (simp add: ArrayString_Serialize_def ArrayString_Deserialize_def)
next
  case False
  obtain s where s: "cj_print J (string_array xs) = Some s" "cj_parse J s = Some (string_array xs)" "s \<noteq> []" "s \<noteq> ''null''"
    by (rule cjson_print_strings [OF assms])
  have "create_all (cj_create_string J) xs = Some (map JString xs)"
    by (rule create_all_Some) (rule cjson_lawsD(2) [OF assms])
  moreover have "List.map_filter (\<lambda>e. case e of JString s \<Rightarrow> Some s | _ \<Rightarrow> None) (map JString xs) = xs"
    by (induction xs) (simp_all add: map_filter_simps)
  ultimately show thesis
    using that [of s] False s cjson_lawsD(1) [OF assms]
    by (simp add: ArrayString_Serialize_def ArrayString_Deserialize_def string_array_def)
qed

lemma strtol_int_to_string:
  assumes "- (2 ^ 63) \<le> i" "i < 2 ^ 63"
  shows "strtol (int_to_string i) = Some (i, False, [])"
proof -
  have nat: "\<exists>c cs. nat_to_string n = c # cs \<and> char_digit c \<noteq> None \<and> \<not> is_space c \<and> c \<noteq> CHR ''-'' \<and> c \<noteq> CHR ''+''" for n
  proof -
    obtain c cs where c: "nat_to_string n = c # cs" "char_digit c \<noteq> None" by (rule nat_to_string_hd)
    then have "\<not> is_space c \<and> c \<noteq> CHR ''-'' \<and> c \<noteq> CHR ''+''"
      by (auto simp: char_digit_def is_space_def Let_def split: if_splits)
    with c show ?thesis by blast
  qed
  have minus: "\<not> is_space CHR ''-''" by (simp add: is_space_def)
  show ?thesis
  proof (cases "i < 0")
    case True
    obtain c cs where c: "nat_to_string (nat (- i)) = c # cs" "char_digit c \<noteq> None" using nat by blast
    then show ?thesis
      using True assms minus read_nat_to_string [of "nat (- i)"]
      by (simp add: strtol_def int_to_string_def del: read_digits.simps)
  next
    case False
    obtain c cs where c: "nat_to_string (nat i) = c # cs" "char_digit c \<noteq> None" "\<not> is_space c"
      "c \<noteq> CHR ''-''" "c \<noteq> CHR ''+''" using nat by blast
    then show ?thesis
      using False assms read_nat_to_string [of "nat i"]
      by (simp add: strtol_def int_to_string_def del: read_digits.simps)
  qed
qed

lemma Int_roundtrip: "Int_Deserialize (snd (Int_Serialize w t)) w0 = (True, w)"
proof -
  have "- (2 ^ 31) \<le> sint w" "sint w < 2 ^ 31"
    using sint_ge [of w] sint_lt [of w] by simp_all
  then show ?thesis by (simp add: Int_Deserialize_def Int_Serialize_def strtol_int_to_string)
qed

lemma Long_roundtrip: "Long_Deserialize (snd (Long_Serialize w t)) w0 = (True, w)"
proof -
  have "- (2 ^ 63) \<le> sint w" "sint w < 2 ^ 63"
    using sint_ge [of w] sint_lt [of w] by simp_all
  then show ?thesis by (simp add: Long_Deserialize_def Long_Serialize_def strtol_int_to_string)
qed

lemma UInt_roundtrip: "UInt_Deserialize (snd (UInt_Serialize w t)) w0 = (True, w)"
proof -
  have pos: "int_to_string (uint w) = nat_to_string (unat w)" by (simp add: int_to_string_def)
  obtain c cs where c: "nat_to_string (unat w) = c # cs" "char_digit c \<noteq> None" by (rule nat_to_string_hd)
  have "unat w < 2 ^ LENGTH(32)" by (rule unsigned_less)
  then have "unat w < 2 ^ 32" by simp
  then show ?thesis
    using c read_nat_to_string [of "unat w"]
    by (simp add: UInt_Deserialize_def UInt_Serialize_def pos del: read_digits.simps)
qed

lemma ArrayInt_roundtrip:
  assumes "cjson_laws J" "list_all int_range ns"
  obtains s where "ArrayInt_Serialize J ns [] = (True, s)" "ns \<noteq> [] \<Longrightarrow> ArrayInt_Deserialize J s [] = (True, ns)"
    "s = [] \<longleftrightarrow> ns = []"
proof (cases "ns = []")
  case True
  then show thesis using that [of "[]"] by (simp add: ArrayInt_Serialize_def)
next
  case False
  obtain s where s: "cj_print J (number_array ns) = Some s" "cj_parse J s = Some (number_array ns)" "s \<noteq> []" "s \<noteq> ''null''"
    by (rule cjson_print_numbers [OF assms])
  have "List.map_filter (cj_create_number J) ns = map JNumber ns"
    using assms(2) cjson_lawsD(3) [OF assms(1)] by (induction ns) (simp_all add: map_filter_simps)
  moreover have "List.map_filter (\<lambda>e. case e of JNumber n \<Rightarrow> Some (valueint n) | _ \<Rightarrow> None) (map JNumber ns) = ns"
    using assms(2) by (induction ns) (simp_all add: map_filter_simps valueint_in_range)
  ultimately show thesis
    using that [of s] False s cjson_lawsD(1) [OF assms(1)]
    by (simp add: ArrayInt_Serialize_def ArrayInt_Deserialize_def number_array_def)
qed

interpretation int_ser: serializer Int_Deserialize Int_Serialize "\<lambda>_. True" "\<lambda>_. True" "\<lambda>_. True"
  using Int_roundtrip by unfold_locales (auto simp: Int_Serialize_def)

interpretation uint_ser: serializer UInt_Deserialize UInt_Serialize "\<lambda>_. True" "\<lambda>_. True" "\<lambda>_. True"
  using UInt_roundtrip by unfold_locales (auto simp: UInt_Serialize_def)

interpretation long_ser: serializer Long_Deserialize Long_Serialize "\<lambda>_. True" "\<lambda>_. True" "\<lambda>_. True"
  using Long_roundtrip by unfold_locales (auto simp: Long_Serialize_def)

text \<open>The arrays need the JSON library.\<close>

locale json_library =
  fixes J :: cjson
  assumes laws: "cjson_laws J"

sublocale json_library \<subseteq> strings: serializer "ArrayString_Deserialize J" "ArrayString_Serialize J"
  "\<lambda>_. True" "\<lambda>_. True" "\<lambda>_. True"
proof
  fix d t d0 show "\<exists>s. ArrayString_Serialize J d t = (True, s) \<and> ArrayString_Deserialize J s d0 = (True, d)"
    by (rule ArrayString_roundtrip [OF laws, of d t d0]) blast
qed

sublocale json_library \<subseteq> ints: serializer "ArrayInt_Deserialize J" "ArrayInt_Serialize J"
  "\<lambda>ns. ns \<noteq> [] \<and> list_all int_range ns" "\<lambda>t. t = []" "\<lambda>d. d = []"
proof
  fix d :: "int list" and t :: string and d0 :: "int list"
  assume a: "d \<noteq> [] \<and> list_all int_range d" "t = []" "d0 = []"
  obtain s where "ArrayInt_Serialize J d [] = (True, s)" "d \<noteq> [] \<Longrightarrow> ArrayInt_Deserialize J s [] = (True, d)"
    "s = [] \<longleftrightarrow> d = []" by (rule ArrayInt_roundtrip [OF laws, of d]) (use a in simp_all)
  with a show "\<exists>s. ArrayInt_Serialize J d t = (True, s) \<and> ArrayInt_Deserialize J s d0 = (True, d)" by blast
qed

interpretation plain: json_library plain_cjson
  by unfold_locales (rule plain_cjson_laws)

text \<open>C14: Every serializer reads back what it wrote: 32 and 64 bit numbers of either sign, unsigned
  numbers, arrays of strings (whatever the strings contain), and non-empty arrays of numbers.\<close>

theorem serializers_roundtrip:
  assumes "cjson_laws J" "list_all int_range ns" "ns \<noteq> []"
  shows "Int_Deserialize (snd (Int_Serialize i t)) i0 = (True, i)
    \<and> UInt_Deserialize (snd (UInt_Serialize u t)) u0 = (True, u)
    \<and> Long_Deserialize (snd (Long_Serialize l t)) l0 = (True, l)
    \<and> ArrayString_Deserialize J (snd (ArrayString_Serialize J ss t)) ss0 = (True, ss)
    \<and> ArrayInt_Deserialize J (snd (ArrayInt_Serialize J ns [])) [] = (True, ns)"
proof (intro conjI)
  show "ArrayString_Deserialize J (snd (ArrayString_Serialize J ss t)) ss0 = (True, ss)"
    by (rule ArrayString_roundtrip [OF assms(1), of ss t ss0]) simp
  show "ArrayInt_Deserialize J (snd (ArrayInt_Serialize J ns [])) [] = (True, ns)"
    by (rule ArrayInt_roundtrip [OF assms(1,2)]) (simp add: assms(3))
qed (rule Int_roundtrip UInt_roundtrip Long_roundtrip)+

theorem serializers_roundtrip_witness:
  "ArrayInt_Deserialize plain_cjson (snd (ArrayInt_Serialize plain_cjson [- 3, 7] [])) [] = (True, [- 3, 7])"
  using serializers_roundtrip [OF plain_cjson_laws, of "[- 3, 7]" 0 "[]" 0 0 0 0 0 "[]" "[]"]
  by (simp add: int_range_def)

text \<open>A 32 bit number is read with \<open>strtol\<close> into a \<open>long\<close> and then cut to 32 bits: texts
  outside of the range are accepted and wrap, where \<open>UIntSerializer\<close> refuses them.\<close>

theorem int_deserialize_wraps:
  "Int_Deserialize (int_to_string 4294967297) i0 = (True, 1)
   \<and> fst (UInt_Deserialize (int_to_string 4294967297) u0) = False"
proof -
  obtain c cs where c: "nat_to_string 4294967297 = c # cs" "char_digit c \<noteq> None" by (rule nat_to_string_hd)
  have "fst (UInt_Deserialize (int_to_string 4294967297) u0) = False"
    using c read_nat_to_string [of 4294967297]
    by (simp add: UInt_Deserialize_def int_to_string_def del: read_digits.simps)
  then show ?thesis by (simp add: Int_Deserialize_def strtol_int_to_string)
qed

end
