(* ===== verification/Plugin_Template.thy ===== *)
theory Plugin_Template
  imports Plugin Serializers
begin

text \<open>
  \<open>plugin_kits/include/iplugin_template.tpp\<close>: the class template behind most policy plugins. It
  turns typed member functions of a plugin (over the policy's data type \<open>'d\<close>) into the methods on
  strings of \<open>IPlugin\<close>, with a serializer in between.
\<close>

subsection \<open>Registered member functions\<close>

text \<open>The overloads of \<open>SetOnHandlePolicyListener\<close>. A function may change the objects it is given, so it
  returns them.\<close>

datatype ('d, 'w) handle_listener =
    HandleSupplier "'w \<Rightarrow> err_code \<times> 'w"
  | HandleFunction "'d \<Rightarrow> 'w \<Rightarrow> err_code \<times> 'd \<times> 'w"
  | HandleReplyFunction "'d \<Rightarrow> 'w \<Rightarrow> err_code \<times> 'd \<times> 'w"
  | HandleBiFunction "'d \<Rightarrow> 'd \<Rightarrow> 'd \<Rightarrow> user_id \<Rightarrow> 'w \<Rightarrow> err_code \<times> 'd \<times> 'd \<times> 'w"

datatype ('d, 'w) done_listener =
    DoneBoolConsumer "bool \<Rightarrow> 'w \<Rightarrow> 'w"
  | DoneBiBoolConsumer "'d \<Rightarrow> bool \<Rightarrow> user_id \<Rightarrow> 'w \<Rightarrow> 'w"

datatype ('d, 'w) remove_listener =
    RemoveSupplier "'w \<Rightarrow> err_code \<times> 'w"
  | RemoveBiFunction "string \<Rightarrow> 'd \<Rightarrow> 'd \<Rightarrow> user_id \<Rightarrow> 'w \<Rightarrow> err_code \<times> 'w"

datatype ('d, 'w) remove_done_listener =
    RemoveDoneRunner "'w \<Rightarrow> 'w"
  | RemoveDoneBiConsumer "string \<Rightarrow> 'd \<Rightarrow> user_id \<Rightarrow> 'w \<Rightarrow> 'w"

text \<open>\<open>uninit\<close> is the value of an object declared as \<open>DT x;\<close>: the empty container for the class types, an
  arbitrary number for the integer types.\<close>

record ('d, 'w) template =
  tDeserialize :: "string \<Rightarrow> 'd \<Rightarrow> bool \<times> 'd"
  tSerialize :: "'d \<Rightarrow> string \<Rightarrow> bool \<times> string"
  tMergePolicy :: "'d list \<Rightarrow> 'd \<Rightarrow> bool \<times> 'd"
  tGetPolicy :: "'d \<Rightarrow> 'w \<Rightarrow> bool \<times> 'd \<times> 'w"
  uninit :: 'd
  handlePolicyFuncMap :: "(func_operate_type, ('d, 'w) handle_listener) amap"
  handlePolicyDoneFuncMap :: "(func_operate_type, ('d, 'w) done_listener) amap"
  adminRemoveFunc :: "('d, 'w) remove_listener option"
  adminRemoveDoneFunc :: "('d, 'w) remove_done_listener option"

definition SetOnHandlePolicyListener :: "('d, 'w) handle_listener \<Rightarrow> func_operate_type \<Rightarrow> ('d, 'w) template \<Rightarrow> ('d, 'w) template" where
  "SetOnHandlePolicyListener listener type T =
     T\<lparr>handlePolicyFuncMap := ordered_insert type listener (handlePolicyFuncMap T)\<rparr>"

definition SetOnHandlePolicyDoneListener :: "('d, 'w) done_listener \<Rightarrow> func_operate_type \<Rightarrow> ('d, 'w) template \<Rightarrow> ('d, 'w) template" where
  "SetOnHandlePolicyDoneListener listener type T =
     T\<lparr>handlePolicyDoneFuncMap := ordered_insert type listener (handlePolicyDoneFuncMap T)\<rparr>"

definition SetOnAdminRemoveListener :: "('d, 'w) remove_listener \<Rightarrow> ('d, 'w) template \<Rightarrow> ('d, 'w) template" where
  "SetOnAdminRemoveListener listener T = T\<lparr>adminRemoveFunc := Some listener\<rparr>"

definition SetOnAdminRemoveDoneListener :: "('d, 'w) remove_done_listener \<Rightarrow> ('d, 'w) template \<Rightarrow> ('d, 'w) template" where
  "SetOnAdminRemoveDoneListener listener T = T\<lparr>adminRemoveDoneFunc := Some listener\<rparr>"

subsection \<open>Handling a policy\<close>

text \<open>The tail that \<open>Function\<close> and \<open>ReplyFunction\<close> share.\<close>

definition store_handled :: "('d, 'w) template \<Rightarrow> 'd \<Rightarrow> handle_policy_data \<Rightarrow> err_code \<times> handle_policy_data" where
  "store_handled T handleData pd =
     (let (ok, afterHandle) = tSerialize T handleData [] in
      if \<not> ok then (ERR_EDM_OPERATE_JSON, pd)
      else (let changed = (policyData pd \<noteq> afterHandle);
                pd = pd\<lparr>isChanged := changed\<rparr>;
                pd = (if changed then pd\<lparr>policyData := afterHandle\<rparr> else pd)
            in (ERR_OK, pd\<lparr>mergePolicyData := afterHandle\<rparr>)))"

definition HandlePolicy_Function :: "('d, 'w) template \<Rightarrow> ('d \<Rightarrow> 'w \<Rightarrow> err_code \<times> 'd \<times> 'w)
    \<Rightarrow> handle_policy_data \<Rightarrow> 'w \<Rightarrow> err_code \<times> handle_policy_data \<times> 'w" where
  "HandlePolicy_Function T f pd w =
     (let (ok, handleData, w) = tGetPolicy T (uninit T) w in
      if \<not> ok then (ERR_EDM_OPERATE_PARCEL, pd, w)
      else (let (result, handleData, w) = f handleData w in
            if result \<noteq> ERR_OK then (result, pd, w)
            else (let (err, pd) = store_handled T handleData pd in (err, pd, w))))"

definition HandlePolicy_ReplyFunction :: "('d, 'w) template \<Rightarrow> ('d \<Rightarrow> 'w \<Rightarrow> err_code \<times> 'd \<times> 'w)
    \<Rightarrow> handle_policy_data \<Rightarrow> 'w \<Rightarrow> err_code \<times> handle_policy_data \<times> 'w" where
  "HandlePolicy_ReplyFunction T f pd w =
     (let (ok, handleData, w) = tGetPolicy T (uninit T) w in
      if \<not> ok then (ERR_EDM_OPERATE_PARCEL, pd, w)
      else (let (result, handleData, w) = f handleData w in
            if result \<noteq> ERR_OK then (result, pd, w)
            else (let (err, pd) = store_handled T handleData pd in (err, pd, w))))"

definition HandlePolicy_BiFunction :: "('d, 'w) template
    \<Rightarrow> ('d \<Rightarrow> 'd \<Rightarrow> 'd \<Rightarrow> user_id \<Rightarrow> 'w \<Rightarrow> err_code \<times> 'd \<times> 'd \<times> 'w)
    \<Rightarrow> handle_policy_data \<Rightarrow> user_id \<Rightarrow> 'w \<Rightarrow> err_code \<times> handle_policy_data \<times> 'w" where
  "HandlePolicy_BiFunction T f pd userId w =
     (let (ok, handleData, w) = tGetPolicy T (uninit T) w in
      if \<not> ok then (ERR_EDM_OPERATE_PARCEL, pd, w)
      else
        (let (ok, currentData) = (if policyData pd \<noteq> [] then tDeserialize T (policyData pd) (uninit T) else (True, uninit T)) in
         if \<not> ok then (ERR_EDM_OPERATE_JSON, pd, w)
         else
           (let (ok, mergeData) = (if mergePolicyData pd \<noteq> [] then tDeserialize T (mergePolicyData pd) (uninit T) else (True, uninit T)) in
            if \<not> ok then (ERR_EDM_OPERATE_JSON, pd, w)
            else
              (let (result, currentData, mergeData, w) = f handleData currentData mergeData userId w in
               if result \<noteq> ERR_OK then (result, pd, w)
               else
                 (let (ok, afterHandle) = tSerialize T currentData [] in
                  if \<not> ok then (ERR_EDM_OPERATE_JSON, pd, w)
                  else (let (ok, afterMerge) = tSerialize T mergeData [] in
                        if \<not> ok then (ERR_EDM_OPERATE_JSON, pd, w)
                        else (ERR_OK, \<lparr> policyData = afterHandle, mergePolicyData = afterMerge,
                                        isChanged = (policyData pd \<noteq> afterHandle) \<rparr>, w)))))))"

definition Template_OnHandlePolicy :: "('d, 'w) template \<Rightarrow> u32 \<Rightarrow> handle_policy_data \<Rightarrow> user_id \<Rightarrow> 'w
    \<Rightarrow> err_code \<times> handle_policy_data \<times> 'w" where
  "Template_OnHandlePolicy T funcCode pd userId w =
     (case map_of (handlePolicyFuncMap T) (ConvertOperateType (FUNC_TO_OPERATE funcCode)) of
        None \<Rightarrow> (ERR_OK, pd, w)
      | Some (HandleSupplier f) \<Rightarrow> (let (err, w) = f w in (err, pd, w))
      | Some (HandleFunction f) \<Rightarrow> HandlePolicy_Function T f pd w
      | Some (HandleReplyFunction f) \<Rightarrow> HandlePolicy_ReplyFunction T f pd w
      | Some (HandleBiFunction f) \<Rightarrow> HandlePolicy_BiFunction T f pd userId w)"

subsection \<open>Merging the other administrators' values\<close>

fun deserialize_values :: "('d, 'w) template \<Rightarrow> string list \<Rightarrow> 'd list option" where
  "deserialize_values T [] = Some []"
| "deserialize_values T (v # vs) =
     (if v = [] then deserialize_values T vs
      else (let (ok, d) = tDeserialize T v (uninit T) in
            if \<not> ok then None
            else map_option (Cons d) (deserialize_values T vs)))"

definition Template_GetOthersMergePolicyData :: "('d, 'w) template \<Rightarrow> string \<Rightarrow> (string, string) amap \<Rightarrow> string
    \<Rightarrow> err_code \<times> string" where
  "Template_GetOthersMergePolicyData T adminName adminValues othersMergePolicyData =
     (if adminValues = [] then (ERR_OK, othersMergePolicyData)
      else (let adminValues = AList.delete adminName adminValues in
            if adminValues = [] then (ERR_OK, othersMergePolicyData)
            else (case deserialize_values T (map snd adminValues) of
                    None \<Rightarrow> (ERR_EDM_OPERATE_JSON, othersMergePolicyData)
                  | Some data \<Rightarrow>
                      (let (ok, result) = tMergePolicy T data (uninit T) in
                       if \<not> ok then (ERR_EDM_OPERATE_JSON, othersMergePolicyData)
                       else (let (ok, s) = tSerialize T result othersMergePolicyData in
                             if \<not> ok then (ERR_EDM_OPERATE_JSON, s) else (ERR_OK, s))))))"

text \<open>\<open>GetMergePolicyData\<close> asks for the administrators of the default user, whatever user the policy is
  handled for.\<close>

fun deserialize_all :: "('d, 'w) template \<Rightarrow> string list \<Rightarrow> 'd list option" where
  "deserialize_all T [] = Some []"
| "deserialize_all T (v # vs) =
     (let (ok, d) = tDeserialize T v (uninit T) in
      if \<not> ok then None else map_option (Cons d) (deserialize_all T vs))"

definition GetMergePolicyData :: "'s rdb \<Rightarrow> ('d, 'w) template \<Rightarrow> string \<Rightarrow> 'd \<Rightarrow> 's pm_state
    \<Rightarrow> bool \<times> 'd \<times> 's pm_state" where
  "GetMergePolicyData R T name data s =
     (let (err, adminValues, s) = PolicyManager_GetAdminByPolicyName R name [] DEFAULT_USER_ID s in
      case adminValues of
        [] \<Rightarrow> (True, data, s)
      | [(admin, v)] \<Rightarrow> (let (ok, d) = tDeserialize T v data in (ok, d, s))
      | _ \<Rightarrow> (case deserialize_all T (map snd adminValues) of
                None \<Rightarrow> (False, data, s)
              | Some ds \<Rightarrow> (let (ok, d) = tMergePolicy T ds data in (ok, d, s))))"

subsection \<open>The other callbacks\<close>

definition Template_OnHandlePolicyDone :: "'s rdb \<Rightarrow> ('d, 's pm_state \<times> 'w) template \<Rightarrow> string \<Rightarrow> bool \<Rightarrow> u32 \<Rightarrow> string
    \<Rightarrow> bool \<Rightarrow> user_id \<Rightarrow> 's pm_state \<times> 'w \<Rightarrow> 's pm_state \<times> 'w" where
  "Template_OnHandlePolicyDone R T name save funcCode adminName isGlobalChanged userId = (\<lambda>(s, w).
     (case map_of (handlePolicyDoneFuncMap T) (ConvertOperateType (FUNC_TO_OPERATE funcCode)) of
        None \<Rightarrow> (s, w)
      | Some (DoneBoolConsumer f) \<Rightarrow> f isGlobalChanged (s, w)
      | Some (DoneBiBoolConsumer f) \<Rightarrow>
          (if save then
             (let (ok, currentData, s) = GetMergePolicyData R T name (uninit T) s in
              if \<not> ok then (s, w) else f currentData isGlobalChanged userId (s, w))
           else f (uninit T) isGlobalChanged userId (s, w))))"

definition Template_OnAdminRemove :: "('d, 'w) template \<Rightarrow> string \<Rightarrow> string \<Rightarrow> string \<Rightarrow> user_id \<Rightarrow> 'w \<Rightarrow> err_code \<times> 'w" where
  "Template_OnAdminRemove T adminName currentJsonData mergeJsonData userId w =
     (case adminRemoveFunc T of
        None \<Rightarrow> (ERR_OK, w)
      | Some (RemoveSupplier f) \<Rightarrow> f w
      | Some (RemoveBiFunction f) \<Rightarrow>
          (let (ok, currentData) = tDeserialize T currentJsonData (uninit T) in
           if \<not> ok then (ERR_EDM_OPERATE_JSON, w)
           else (let (ok, mergeData) = tDeserialize T mergeJsonData (uninit T) in
                 if \<not> ok then (ERR_EDM_OPERATE_JSON, w)
                 else f adminName currentData mergeData userId w)))"

definition Template_OnAdminRemoveDone :: "('d, 'w) template \<Rightarrow> string \<Rightarrow> string \<Rightarrow> user_id \<Rightarrow> 'w \<Rightarrow> 'w" where
  "Template_OnAdminRemoveDone T adminName currentJsonData userId w =
     (case adminRemoveDoneFunc T of
        None \<Rightarrow> w
      | Some (RemoveDoneRunner f) \<Rightarrow> f w
      | Some (RemoveDoneBiConsumer f) \<Rightarrow>
          (let (ok, currentData) = tDeserialize T currentJsonData (uninit T) in
           if \<not> ok then w else f adminName currentData userId w))"

text \<open>A plugin made from a template: the methods of \<open>base\<close> that the plugin writes itself stay.\<close>

definition IPluginTemplate :: "'s rdb \<Rightarrow> ('d, 's pm_state \<times> 'w) template \<Rightarrow> ('s, 'w) plugin \<Rightarrow> ('s, 'w) plugin" where
  "IPluginTemplate R T base = base\<lparr>
     onHandlePolicy := Template_OnHandlePolicy T,
     othersMerge := Some (Template_GetOthersMergePolicyData T),
     onHandlePolicyDone := Template_OnHandlePolicyDone R T (policyName base) (needSave base),
     onAdminRemove := Template_OnAdminRemove T,
     onAdminRemoveDone := Template_OnAdminRemoveDone T\<rparr>"

lemma BiFunction_error:
  assumes "HandlePolicy_BiFunction T f pd userId w = (err, pd', w')" "err \<noteq> ERR_OK"
  shows "pd' = pd"
  using assms by (auto simp: HandlePolicy_BiFunction_def Let_def split: prod.splits if_splits)

end
