(* ===== verification/Basic_Plugins.thy ===== *)
theory Basic_Plugins
  imports Plugin_Template
begin

text \<open>
  \<open>plugin_kits/src/basic_bool_plugin.cpp\<close>, \<open>basic_array_string_plugin.cpp\<close> and
  \<open>basic_array_int_plugin.cpp\<close>: the base classes of the switches and of the lists. What a concrete plugin
  overrides is a record of hooks; \<open>'v\<close> is the state a hook sees and changes.
\<close>

subsection \<open>Switches\<close>

record 'v bool_hooks =
  checkConflictPolicy :: "user_id \<Rightarrow> 'v \<Rightarrow> err_code \<times> 'v"
  setOtherModulePolicy :: "bool \<Rightarrow> user_id \<Rightarrow> 'v \<Rightarrow> err_code \<times> 'v"
  persistParam :: string
  setParameter :: "string \<Rightarrow> string \<Rightarrow> 'v \<Rightarrow> bool \<times> 'v"
  readBool :: "'v \<Rightarrow> bool \<times> 'v"
  writeBool :: "err_code \<Rightarrow> bool \<Rightarrow> 'v \<Rightarrow> 'v"

text \<open>\<open>CheckConflictPolicy\<close> and \<open>SetOtherModulePolicy\<close> of the base class.\<close>

definition Bool_CheckConflictPolicy :: "user_id \<Rightarrow> 'v \<Rightarrow> err_code \<times> 'v" where
  "Bool_CheckConflictPolicy userId v = (ERR_OK, v)"

definition Bool_SetOtherModulePolicy :: "bool \<Rightarrow> user_id \<Rightarrow> 'v \<Rightarrow> err_code \<times> 'v" where
  "Bool_SetOtherModulePolicy data userId v = (ERR_OK, v)"

definition Bool_OnSetPolicy :: "'v bool_hooks \<Rightarrow> bool \<Rightarrow> bool \<Rightarrow> bool \<Rightarrow> user_id \<Rightarrow> 'v
    \<Rightarrow> err_code \<times> bool \<times> bool \<times> 'v" where
  "Bool_OnSetPolicy H data currentData mergePolicy userId v =
     (if mergePolicy then (ERR_OK, data, mergePolicy, v)
      else
        (let (ret, v) = (if data then checkConflictPolicy H userId v else (ERR_OK, v)) in
         if FAILED ret then (ret, currentData, mergePolicy, v)
         else
           (let (ret, v) = setOtherModulePolicy H data userId v in
            if FAILED ret then (ret, currentData, mergePolicy, v)
            else
              (let (ok, v) = (if persistParam H \<noteq> []
                 then setParameter H (persistParam H) (if data then CONST_TRUE else CONST_FALSE) v else (True, v))
               in if \<not> ok then (SYSTEM_ABNORMALLY, currentData, mergePolicy, v)
                  else (ERR_OK, data, data, v)))))"

definition Bool_OnHandlePolicy :: "'v bool_hooks \<Rightarrow> u32 \<Rightarrow> handle_policy_data \<Rightarrow> user_id \<Rightarrow> 'v
    \<Rightarrow> err_code \<times> handle_policy_data \<times> 'v" where
  "Bool_OnHandlePolicy H funcCode pd userId v =
     (let (handleData, v) = readBool H v;
          (result, currentData, mergeData, v) =
            Bool_OnSetPolicy H handleData (policyData pd = CONST_TRUE) (mergePolicyData pd = CONST_TRUE) userId v
      in if result \<noteq> ERR_OK then (result, pd, v)
         else
           (let afterHandle = (if currentData then CONST_TRUE else []);
                afterMerge = (if mergeData then CONST_TRUE else [])
            in (ERR_OK, \<lparr> policyData = afterHandle, mergePolicyData = afterMerge,
                          isChanged = (policyData pd \<noteq> afterHandle) \<rparr>, v)))"

definition Bool_OnAdminRemove_value :: "'v bool_hooks \<Rightarrow> string \<Rightarrow> bool \<Rightarrow> bool \<Rightarrow> user_id \<Rightarrow> 'v \<Rightarrow> err_code \<times> 'v" where
  "Bool_OnAdminRemove_value H adminName data mergeData userId v =
     (if \<not> mergeData \<and> data then
        (let (ret, v) = setOtherModulePolicy H False userId v in
         if FAILED ret then (ret, v)
         else
           (let (ok, v) = (if persistParam H \<noteq> [] then setParameter H (persistParam H) CONST_FALSE v else (True, v))
            in (if \<not> ok then SYSTEM_ABNORMALLY else ERR_OK, v)))
      else (ERR_OK, v))"

definition Bool_OnAdminRemove :: "'v bool_hooks \<Rightarrow> string \<Rightarrow> string \<Rightarrow> string \<Rightarrow> user_id \<Rightarrow> 'v \<Rightarrow> err_code \<times> 'v" where
  "Bool_OnAdminRemove H adminName policy mergeData userId v =
     Bool_OnAdminRemove_value H adminName (policy = CONST_TRUE) (mergeData = CONST_TRUE) userId v"

definition Bool_OnGetPolicy :: "'v bool_hooks \<Rightarrow> string \<Rightarrow> user_id \<Rightarrow> 'v \<Rightarrow> err_code \<times> string \<times> 'v" where
  "Bool_OnGetPolicy H policy userId v = (ERR_OK, policy, writeBool H ERR_OK (policy = CONST_TRUE) v)"

definition Bool_GetOthersMergePolicyData :: "string \<Rightarrow> (string, string) amap \<Rightarrow> string \<Rightarrow> err_code \<times> string" where
  "Bool_GetOthersMergePolicyData adminName adminValues othersMergePolicyData =
     (let adminValues = AList.delete adminName adminValues in
      if adminValues = [] then (ERR_OK, othersMergePolicyData)
      else (ERR_OK, if list_ex (\<lambda>(_, v). v = CONST_TRUE) adminValues then CONST_TRUE else othersMergePolicyData))"

definition BasicBoolPlugin :: "('s pm_state \<times> 'w) bool_hooks \<Rightarrow> ('s, 'w) plugin \<Rightarrow> ('s, 'w) plugin" where
  "BasicBoolPlugin H base = base\<lparr>
     onHandlePolicy := Bool_OnHandlePolicy H, onAdminRemove := Bool_OnAdminRemove H,
     onGetPolicy := Bool_OnGetPolicy H, othersMerge := Some Bool_GetOthersMergePolicyData\<rparr>"

subsection \<open>Lists\<close>

text \<open>The two classes of lists differ in the element type only. A hook reports the elements it could not
  handle.\<close>

record ('a, 'v) array_hooks =
  setOtherModule :: "'a list \<Rightarrow> user_id \<Rightarrow> 'v \<Rightarrow> err_code \<times> 'a list \<times> 'v"
  removeOtherModule :: "'a list \<Rightarrow> user_id \<Rightarrow> 'v \<Rightarrow> err_code \<times> 'a list \<times> 'v"
  maxListSize :: nat
  overMaxReturnErrCode :: err_code

definition Array_SetOtherModulePolicy :: "'a list \<Rightarrow> user_id \<Rightarrow> 'v \<Rightarrow> err_code \<times> 'a list \<times> 'v" where
  "Array_SetOtherModulePolicy data userId v = (ERR_OK, [], v)"

definition Array_RemoveOtherModulePolicy :: "'a list \<Rightarrow> user_id \<Rightarrow> 'v \<Rightarrow> err_code \<times> 'a list \<times> 'v" where
  "Array_RemoveOtherModulePolicy data userId v = (ERR_OK, [], v)"

text \<open>The set operations of the serializers, for any element type.\<close>

definition data_union :: "'a::linorder list \<Rightarrow> 'a list \<Rightarrow> 'a list" where
  "data_union data currentData = set_union (sort data) (sort currentData)"

definition data_difference :: "'a::linorder list \<Rightarrow> 'a list \<Rightarrow> 'a list" where
  "data_difference data currentData = set_difference (sort currentData) (sort data)"

definition data_intersection :: "'a::linorder list \<Rightarrow> 'a list \<Rightarrow> 'a list" where
  "data_intersection data currentData = set_intersection (sort currentData) (sort data)"

lemma data_operations:
  "ArrayString_SetUnionPolicyData = data_union" "ArrayString_SetDifferencePolicyData = data_difference"
  "ArrayString_SetIntersectionPolicyData = data_intersection"
  "ArrayInt_SetUnionPolicyData = data_union" "ArrayInt_SetDifferencePolicyData = data_difference"
  "ArrayInt_SetIntersectionPolicyData = data_intersection"
  by (simp_all add: fun_eq_iff data_union_def data_difference_def data_intersection_def
      ArrayString_SetUnionPolicyData_def ArrayString_SetDifferencePolicyData_def
      ArrayString_SetIntersectionPolicyData_def ArrayInt_SetUnionPolicyData_def
      ArrayInt_SetDifferencePolicyData_def ArrayInt_SetIntersectionPolicyData_def)

definition OnBasicSetPolicy :: "('a::linorder, 'v) array_hooks \<Rightarrow> 'a list \<Rightarrow> 'a list \<Rightarrow> 'a list \<Rightarrow> user_id \<Rightarrow> 'v
    \<Rightarrow> err_code \<times> 'a list \<times> 'a list \<times> 'v" where
  "OnBasicSetPolicy H data currentData mergeData userId v =
     (if data = [] then (ERR_OK, currentData, mergeData, v)
      else if length data > maxListSize H then (overMaxReturnErrCode H, currentData, mergeData, v)
      else
        (let needAddData = data_difference currentData data;
             needAddMergeData = data_difference mergeData needAddData;
             afterHandle = data_union currentData needAddData;
             afterMerge = data_union mergeData afterHandle
         in if length afterMerge > maxListSize H then (overMaxReturnErrCode H, currentData, mergeData, v)
            else
              (let (ret, failedData, v) =
                 (if needAddMergeData \<noteq> [] then setOtherModule H needAddMergeData userId v else (ERR_OK, [], v))
               in if FAILED ret then (ret, currentData, mergeData, v)
                  else if failedData = [] then (ERR_OK, afterHandle, afterMerge, v)
                  else (ERR_OK, data_difference failedData afterHandle, data_difference failedData afterMerge, v))))"

definition OnBasicRemovePolicy :: "('a::linorder, 'v) array_hooks \<Rightarrow> 'a list \<Rightarrow> 'a list \<Rightarrow> 'a list \<Rightarrow> user_id \<Rightarrow> 'v
    \<Rightarrow> err_code \<times> 'a list \<times> 'a list \<times> 'v" where
  "OnBasicRemovePolicy H data currentData mergeData userId v =
     (if data = [] then (ERR_OK, currentData, mergeData, v)
      else if length data > maxListSize H then (overMaxReturnErrCode H, currentData, mergeData, v)
      else
        (let needRemovePolicy = data_intersection data currentData;
             needRemoveMergePolicy = data_difference mergeData needRemovePolicy;
             (ret, failedData, v) =
               (if needRemoveMergePolicy \<noteq> [] then removeOtherModule H needRemoveMergePolicy userId v
                else (ERR_OK, [], v))
         in if FAILED ret then (ret, currentData, mergeData, v)
            else
              (let currentData =
                 (if failedData = [] then data_difference needRemovePolicy currentData
                  else data_difference (data_difference failedData needRemovePolicy) currentData)
               in (ERR_OK, currentData, data_union mergeData currentData, v))))"

definition OnBasicAdminRemove :: "('a::linorder, 'v) array_hooks \<Rightarrow> string \<Rightarrow> 'a list \<Rightarrow> 'a list \<Rightarrow> user_id \<Rightarrow> 'v
    \<Rightarrow> err_code \<times> 'v" where
  "OnBasicAdminRemove H adminName data mergeData userId v =
     (let (ret, failedData, v) = removeOtherModule H (data_difference mergeData data) userId v in (ret, v))"

text \<open>The class for lists of numbers.\<close>

definition ArrayInt_OnBasicSetPolicy :: "(int, 'v) array_hooks \<Rightarrow> int list \<Rightarrow> int list \<Rightarrow> int list \<Rightarrow> user_id \<Rightarrow> 'v
    \<Rightarrow> err_code \<times> int list \<times> int list \<times> 'v" where
  "ArrayInt_OnBasicSetPolicy = OnBasicSetPolicy"

definition ArrayInt_OnBasicRemovePolicy :: "(int, 'v) array_hooks \<Rightarrow> int list \<Rightarrow> int list \<Rightarrow> int list \<Rightarrow> user_id \<Rightarrow> 'v
    \<Rightarrow> err_code \<times> int list \<times> int list \<times> 'v" where
  "ArrayInt_OnBasicRemovePolicy = OnBasicRemovePolicy"

definition ArrayInt_OnBasicAdminRemove :: "(int, 'v) array_hooks \<Rightarrow> string \<Rightarrow> int list \<Rightarrow> int list \<Rightarrow> user_id \<Rightarrow> 'v
    \<Rightarrow> err_code \<times> 'v" where
  "ArrayInt_OnBasicAdminRemove = OnBasicAdminRemove"

definition ArrayString_BasicGetPolicy :: "cjson \<Rightarrow> (err_code \<Rightarrow> string list \<Rightarrow> 'v \<Rightarrow> 'v) \<Rightarrow> string \<Rightarrow> user_id \<Rightarrow> 'v
    \<Rightarrow> err_code \<times> string \<times> 'v" where
  "ArrayString_BasicGetPolicy J reply policy userId v =
     (ERR_OK, policy, reply ERR_OK (snd (ArrayString_Deserialize J policy [])) v)"

definition ArrayInt_BasicGetPolicy :: "cjson \<Rightarrow> (err_code \<Rightarrow> int list \<Rightarrow> 'v \<Rightarrow> 'v) \<Rightarrow> string \<Rightarrow> user_id \<Rightarrow> 'v
    \<Rightarrow> err_code \<times> string \<times> 'v" where
  "ArrayInt_BasicGetPolicy J reply policy userId v =
     (ERR_OK, policy, reply ERR_OK (snd (ArrayInt_Deserialize J policy [])) v)"

subsection \<open>What they decide\<close>

lemma strict_data [simp]:
  "strict data \<Longrightarrow> strict cur \<Longrightarrow> strict (data_union data cur)"
  "strict cur \<Longrightarrow> strict (data_difference data cur)" "strict cur \<Longrightarrow> strict (data_intersection data cur)"
  by (simp_all add: data_union_def data_difference_def data_intersection_def)

lemma set_data [simp]:
  "strict data \<Longrightarrow> strict cur \<Longrightarrow> set (data_union data cur) = set data \<union> set cur"
  "strict data \<Longrightarrow> strict cur \<Longrightarrow> set (data_difference data cur) = set cur - set data"
  "strict data \<Longrightarrow> strict cur \<Longrightarrow> set (data_intersection data cur) = set cur \<inter> set data"
  by (simp_all add: data_union_def data_difference_def data_intersection_def)

end
