(* ===== verification/Combined_Policy.thy ===== *)
theory Combined_Policy
  imports Update_Policy Basic_Plugins
begin

text \<open>
  The combined value of a policy: next to each administrator's own value the service stores one value
  made from all of them, which the rest of the system obeys. Plugins compute it from the others' merged
  values; here it is compared with its definition, the merge of the set of all stored values.
\<close>

subsection \<open>The contract of a plugin that merges\<close>

text \<open>\<open>merge\<close> is the stored text for a set of stored texts, \<open>valid\<close> what administrators may have stored.
  Given its own value and the merge of the others', the plugin decides a new own value, empty or
  valid, and the merge with it; the merged value of the others is what \<open>GetOthersMergePolicyData\<close>
  computes, which is also used when an administrator is removed.\<close>

locale merging_plugin =
  fixes valid :: "string \<Rightarrow> bool" and merge :: "string set \<Rightarrow> string" and p :: "('s, 'w) plugin"
  assumes merge_none: "merge {} = []"
    and others_merge: "\<forall>v\<in>snd ` set items. valid v \<Longrightarrow> distinct (map fst items) \<Longrightarrow>
      \<exists>f. othersMerge p = Some f \<and> snd (f a items []) = merge (snd ` set (AList.delete a items))"
    and handle_merge: "onHandlePolicy p c \<lparr> policyData = own, mergePolicyData = merge O', isChanged = False \<rparr> u x
        = (ERR_OK, pd, y) \<Longrightarrow> isChanged pd \<Longrightarrow> own = [] \<or> valid own \<Longrightarrow> finite O' \<Longrightarrow> \<forall>v\<in>O'. valid v \<Longrightarrow>
      (policyData pd = [] \<and> mergePolicyData pd = merge O')
      \<or> (valid (policyData pd) \<and> policyData pd \<noteq> [] \<and> mergePolicyData pd = merge (insert (policyData pd) O'))"

subsection \<open>The combined value of the stored ones\<close>

definition admin_values :: "'s rdb \<Rightarrow> 's db_viewer \<Rightarrow> 's pm_state \<Rightarrow> user_id \<Rightarrow> string \<Rightarrow> string set" where
  "admin_values R view s u n = {v. \<exists>a. adm_look (R, view, snd s) (u, a, n) = Some v}"

definition stored :: "string \<Rightarrow> string option" where
  "stored v = (if v = [] then None else Some v)"

definition combined_ok :: "'s rdb \<Rightarrow> 's db_viewer \<Rightarrow> (string \<Rightarrow> bool) \<Rightarrow> (string set \<Rightarrow> string) \<Rightarrow> string \<Rightarrow> 's pm_state \<Rightarrow> bool" where
  "combined_ok R view valid merge n s = (coherent R view s \<and> (\<forall>u. adm_look (R, view, snd s) (u, [], n) = None
     \<and> (\<forall>v\<in>admin_values R view s u n. valid v)
     \<and> comb_look (R, view, snd s) (u, n) = stored (merge (admin_values R view s u n))))"

lemma combined_okD:
  assumes "combined_ok R view valid merge n s"
  shows "coherent R view s" "adm_look (R, view, snd s) (u, [], n) = None" "v \<in> admin_values R view s u n \<Longrightarrow> valid v"
    "comb_look (R, view, snd s) (u, n) = stored (merge (admin_values R view s u n))"
  using assms unfolding combined_ok_def by blast+

lemma keeps_combined:
  assumes "keeps R view s s'" "combined_ok R view valid merge n s" "writes_succeed R" "n \<notin> plugin_written"
  shows "combined_ok R view valid merge n s'"
proof -
  note c = combined_okD(1) [OF assms(2)]
  note k = keepsD(2-4) [OF assms(1)]
  show ?thesis
    using assms(2) k(1) [OF assms(3) c] k(2,3) [OF coherent_agrees [OF c] assms(4)]
    by (simp add: combined_ok_def admin_values_def)
qed

text \<open>The values of the administrators other than \<open>a\<close>.\<close>

definition other_values :: "'s rdb \<Rightarrow> 's db_viewer \<Rightarrow> 's pm_state \<Rightarrow> string \<Rightarrow> user_id \<Rightarrow> string \<Rightarrow> string set" where
  "other_values R view s a u n = {v. \<exists>b. b \<noteq> a \<and> adm_look (R, view, snd s) (u, b, n) = Some v}"

lemma map_of_values: "distinct (map fst items) \<Longrightarrow> snd ` set items = {v. \<exists>b. map_of items b = Some v}"
  by (force simp: image_iff)

lemma listed_others:
  assumes "coherent R view s" "queries_answer R" "PolicyManager_GetAdminByPolicyName R n [] u s = (err, items, s')"
  shows "snd ` set (AList.delete a items) = other_values R view s a u n" "finite (other_values R view s a u n)"
    "snd ` set items = admin_values R view s u n" "distinct (map fst items)"
proof -
  note g = coherent_GetAdminByPolicyName [OF assms]
  show d: "distinct (map fst items)" using g(5) by (simp add: al_keys_distinct_def)
  show "snd ` set items = admin_values R view s u n" using map_of_values [OF d] g(4) by (simp add: admin_values_def)
  show o: "snd ` set (AList.delete a items) = other_values R view s a u n"
    using map_of_values [of "AList.delete a items"] distinct_delete [OF d, of a] g(4)
    by (auto simp: delete_conv other_values_def)
  show "finite (other_values R view s a u n)" unfolding o [symmetric] by simp
qed

context merging_plugin
begin

lemma others_text:
  assumes "coherent R view s" "queries_answer R" "\<forall>v\<in>admin_values R view s u (policyName p). valid v"
    "IPlugin_GetOthersMergePolicyData R p a u [] s = (err, m, s')"
  shows "m = merge (other_values R view s a u (policyName p))"
proof -
  obtain e items s1 where g: "PolicyManager_GetAdminByPolicyName R (policyName p) [] u s = (e, items, s1)"
    by (metis prod.exhaust)
  note l = listed_others [OF assms(1,2) g]
  obtain f where "othersMerge p = Some f" "snd (f a items []) = merge (snd ` set (AList.delete a items))"
    using others_merge [OF _ l(4), of a] assms(3) l(3) by auto
  then show ?thesis using assms(4) g l(1) by (auto simp: IPlugin_GetOthersMergePolicyData_def split: prod.splits)
qed

end

subsection \<open>Storing a merged value\<close>

lemma other_values_sub: "other_values R view s a u n \<subseteq> admin_values R view s u n"
  by (auto simp: admin_values_def other_values_def)

lemma SetPolicy_combined:
  assumes "combined_ok R view valid merge n s" "writes_succeed R" "n \<noteq> []"
    "PolicyManager_SetPolicy R a q av mv u s = (err, s')"
    "q = n \<Longrightarrow> a \<noteq> [] \<and> (av = [] \<or> valid av)
       \<and> mv = merge (other_values R view s a u n \<union> (if av = [] then {} else {av}))"
  shows "combined_ok R view valid merge n s'"
proof (cases "q = n")
  case False
  have c: "coherent R view s" using assms(1) by (simp add: combined_ok_def)
  have ag: "pm_agrees R view (fst s, snd s)" "PolicyManager_SetPolicy R a q av mv u (fst s, snd s) = (err, fst s', snd s')"
    using coherent_agrees [OF c] assms(4) by simp_all
  note sp = PolicyManager_SetPolicy_spec [OF ag(1) writes_answer [OF assms(2)] ag(2)]
  have "adm_look (R, view, snd s') (v, b, n) = adm_look (R, view, snd s) (v, b, n)" for v b using sp(2) False by auto
  moreover have "comb_look (R, view, snd s') (v, n) = comb_look (R, view, snd s) (v, n)" for v
    using sp(3) False by (auto split: if_splits)
  moreover have "coherent R view s'" by (rule stableD(4) [OF stable_coherent [OF assms(2)] c assms(4)])
  ultimately show ?thesis using assms(1) by (simp add: combined_ok_def admin_values_def)
next
  case True
  have c: "coherent R view s" using assms(1) by (simp add: combined_ok_def)
  have a: "a \<noteq> []" "av = [] \<or> valid av" using assms(5) [OF True] by simp_all
  note sp = coherent_SetPolicy [OF c assms(2) _ assms(4), unfolded True, OF assms(3)]
  have look: "adm_look (R, view, snd s') = (adm_look (R, view, snd s))((u, a, n) := stored av)"
    "comb_look (R, view, snd s') = (comb_look (R, view, snd s))((u, n) := stored mv)"
    using sp(3,4) a by (simp_all add: stored_def)
  have vals: "admin_values R view s' u n = other_values R view s a u n \<union> (if av = [] then {} else {av})"
    "v \<noteq> u \<Longrightarrow> admin_values R view s' v n = admin_values R view s v n" for v
    by (auto simp: admin_values_def other_values_def look stored_def)
  have "\<forall>x\<in>other_values R view s a u n. valid x"
    using assms(1) other_values_sub [of R view s a u n] by (auto simp: combined_ok_def)
  then have "(\<forall>x\<in>admin_values R view s' v n. valid x)
      \<and> comb_look (R, view, snd s') (v, n) = stored (merge (admin_values R view s' v n))" for v
    using assms(1) assms(5) [OF True] a vals by (cases "v = u") (auto simp: look combined_ok_def)
  moreover have "adm_look (R, view, snd s') (v, [], n) = None" for v
    using combined_okD(2) [OF assms(1)] a by (simp add: look)
  ultimately show ?thesis using sp(1) by (simp add: combined_ok_def)
qed

lemma ClearPolicy_combined:
  assumes "combined_ok R view valid merge n s" "writes_succeed R" "n \<noteq> []" "merge {} = []"
    "PolicyManager_SetPolicy R [] n [] [] u s = (err, s')" "admin_values R view s u n = {}"
  shows "combined_ok R view valid merge n s'"
proof -
  have c: "coherent R view s" using assms(1) by (simp add: combined_ok_def)
  note sp = coherent_SetPolicy [OF c assms(2,3,5)]
  then show ?thesis
    using assms(1,4,6) by (auto simp: combined_ok_def admin_values_def stored_def)
qed

subsection \<open>Updates and removals keep the combined value right\<close>

text \<open>All plugins of the policy \<open>n\<close> keep the contract.\<close>

definition merges_for :: "string \<Rightarrow> (string \<Rightarrow> bool) \<Rightarrow> (string set \<Rightarrow> string) \<Rightarrow> ('s, 'w) plugin \<Rightarrow> bool" where
  "merges_for n valid merge p = (policyName p = n \<longrightarrow> merging_plugin valid merge p)"

lemma linkage_free_merges: "linkage_free (merges_for n valid merge)"
  by (simp add: linkage_free_def merges_for_def merging_plugin_def)

lemma combined_values_valid:
  "combined_ok R view valid merge n s \<Longrightarrow> \<forall>v\<in>admin_values R view s u n. valid v"
  by (simp add: combined_ok_def)

lemma keeps_values:
  assumes "keeps R view s s'" "pm_agrees R view s" "n \<notin> plugin_written"
  shows "other_values R view s' a u n = other_values R view s a u n" "admin_values R view s' u n = admin_values R view s u n"
  using keepsD(3) [OF assms] by (simp_all add: other_values_def admin_values_def)

lemma Single_result:
  assumes "GetPluginByFuncCode E c M = (Some i, M1)"
    "OnSetExecute E (Some STRATEGY_SINGLE) c pd u (M1, s, w) = (ret, pd', M', s', w')"
  shows "onHandlePolicy (plugin_at M1 i) c pd u (s, w) = (ret, pd', s', w')"
proof -
  obtain r M2 where g: "GetPluginByFuncCode E c M1 = (r, M2)" by (rule prod.exhaust)
  have "r = Some i" "plugin_at M2 i = plugin_at M1 i"
    using GetPluginByFuncCode_again [OF assms(1) g] by (simp_all add: plugin_at_def)
  then show ?thesis using assms(2) by (simp add: OnSetExecute_def Single_OnSetExecute_def g split: prod.splits)
qed

lemma update_combined:
  assumes "service_ok R view E M" "writes_succeed R" "combined_ok R view valid merge n s" "n \<noteq> []" "a \<noteq> []"
    "libraries_ok (merges_for n valid merge) E" "plugins_ok (merges_for n valid merge) M"
    "UpdateDevicePolicy R E code a u (M, s, w) = (err, M', s', w')"
    "\<And>i M1. GetPluginByFuncCode E code M = (Some i, M1) \<Longrightarrow> policyName (plugin_at M1 i) = n
       \<Longrightarrow> GetExecuteStrategy (plugin_at M1 i) = Some STRATEGY_SINGLE" "n \<notin> plugin_written"
  shows "combined_ok R view valid merge n s'"
proof -
  note kc = keeps_combined [OF _ _ assms(2,10)]
  have c: "coherent R view s" using assms(3) by (simp add: combined_ok_def)
  note ans = writes_answer [OF assms(2)]
  show ?thesis
  proof (cases rule: UpdateDevicePolicy_run [OF assms(1) ans coherent_agrees [OF c] assms(8), case_names unsupported run])
    case unsupported
    then show ?thesis using assms(3) by simp
  next
    case (run i M1 p s2 e3 others s3 ret pd s4 w4 s5)
    have k: "keeps R view s s4" "keeps R view s2 s4" using run(5,7,9) keeps_trans by blast+
    note c4 = kc [OF k(1) assms(3)]
    have c5: "combined_ok R view valid merge n s5"
    proof (cases "\<not> FAILED ret \<and> needSave p \<and> isChanged pd")
      case False
      show ?thesis unfolding run(11) if_not_P [OF False] by (rule c4)
    next
      case True
      obtain e t where set: "PolicyManager_SetPolicy R a (policyName p) (policyData pd) (mergePolicyData pd) u s4 = (e, t)"
        by (rule prod.exhaust)
      have "a \<noteq> [] \<and> (policyData pd = [] \<or> valid (policyData pd)) \<and> mergePolicyData pd
          = merge (other_values R view s4 a u n \<union> (if policyData pd = [] then {} else {policyData pd}))"
        if name: "policyName p = n"
      proof -
        have len: "i < length (objects M1)" by (rule service_ok_lookup(2) [OF assms(1) run(1)]) simp
        have "plugins_ok (merges_for n valid merge) M1"
          by (rule loading_keeps(5) [OF plugins_ok_kept [OF linkage_free_merges assms(6)] assms(7) run(1)])
        then have mp: "merging_plugin valid merge p"
          using plugins_ok_at [of "merges_for n valid merge" M1 i] len name run(2) by (simp add: merges_for_def)
        note c2 = kc [OF run(5) assms(3)]
        note coh = c2 [unfolded combined_ok_def, THEN conjunct1] c4 [unfolded combined_ok_def, THEN conjunct1]
        have others: "others = merge (other_values R view s4 a u n)"
          using merging_plugin.others_text [OF mp coh(1) ans _ run(6)] combined_values_valid [OF c2] name
            keeps_values [OF k(2) coherent_agrees [OF coh(1)] assms(10)] by simp
        obtain e6 items6 s6 where g6: "PolicyManager_GetAdminByPolicyName R n [] u s4 = (e6, items6, s6)"
          by (metis prod.exhaust)
        note fin = listed_others(2) [OF coh(2) ans g6, of a]
        define own where "own = own_value R view s a (policyName p) u"
        have own: "own = [] \<or> valid own"
          using combined_values_valid [OF assms(3), of u] assms(5) name
          by (auto simp: own_def own_value_def admin_values_def split: option.split)
        have "OnSetExecute E (Some STRATEGY_SINGLE) code
            \<lparr> policyData = own, mergePolicyData = others, isChanged = False \<rparr> u (M1, s3, w) = (ERR_OK, pd, M', s4, w4)"
          using run(8) True assms(9) [OF run(1)] run(2) name by (simp add: own_def)
        from Single_result [OF run(1) this] have h: "onHandlePolicy p code
            \<lparr> policyData = own, mergePolicyData = merge (other_values R view s4 a u n), isChanged = False \<rparr> u (s3, w)
            = (ERR_OK, pd, s4, w4)" by (simp add: others run(2))
        have "\<forall>v\<in>other_values R view s4 a u n. valid v"
          using combined_values_valid [OF c4] other_values_sub by blast
        from merging_plugin.handle_merge [OF mp h _ own fin this] True assms(5) show ?thesis by auto
      qed
      from SetPolicy_combined [OF c4 assms(2,4) set this] show ?thesis using run(11) True by (simp add: set)
    qed
    show ?thesis by (rule kc [OF run(12) c5])
  qed
qed

lemma remove_combined:
  assumes "service_ok R view E M" "writes_succeed R" "combined_ok R view valid merge n s" "n \<noteq> []"
    "libraries_ok (merges_for n valid merge) E" "plugins_ok (merges_for n valid merge) M"
    "RemoveAdminItem R E a name v u (M, s, w) = (err, M', s', w')" "a \<noteq> []" "n \<notin> plugin_written"
  shows "combined_ok R view valid merge n s'"
proof -
  note kc = keeps_combined [OF _ _ assms(2,9)]
  have c: "coherent R view s" using assms(3) by (simp add: combined_ok_def)
  note ans = writes_answer [OF assms(2)]
  show ?thesis
  proof (cases rule: RemoveAdminItem_run [OF assms(1) ans assms(7), case_names missing run])
    case missing
    then show ?thesis using assms(3) by simp
  next
    case (run i M1 p e1 merged s0 s1 e2 items s2 err2 s3)
    have k: "keeps R view s s2" using run(6,7) keeps_trans by blast
    note c1 = kc [OF run(6) assms(3)] and c2 = kc [OF k assms(3)]
    have coh: "coherent R view s1" using c1 by (simp add: combined_ok_def)
    note ok1 = service_ok_plugin [OF service_ok_LoadAll [OF assms(1)] run(2) [unfolded run(1)], folded run(1) run(3)]
    have c3: "combined_ok R view valid merge n s3"
    proof (cases "needSave p")
      case False
      then show ?thesis using run(9) c2 by simp
    next
      case True
      note l = listed_others [OF coh ans run(8) [OF True]]
      have vals: "admin_values R view s2 u name = snd ` set items" "other_values R view s2 a u name = other_values R view s a u name"
        if "name \<notin> plugin_written"
        using l(3) keeps_values [OF run(7) coherent_agrees [OF coh] that] keeps_values [OF k coherent_agrees [OF c] that] by auto
      have e2: "e2 = ERR_EDM_POLICY_NOT_FOUND \<longleftrightarrow> items = []"
        using coherent_GetAdminByPolicyName(6) [OF coh ans run(8) [OF True]] by auto
      have mp: "merging_plugin valid merge p" if "name = n"
        using that ok1 plugins_ok_at [of "merges_for n valid merge" M1 i] run(1,3)
          loading_keeps(3) [OF plugins_ok_kept [OF linkage_free_merges assms(5)] assms(6)] by (auto simp: merges_for_def)
      show ?thesis
      proof (cases "items = []")
        case none: True
        have set: "PolicyManager_SetPolicy R [] name [] [] u s2 = (err2, s3)" using run(9) True none by simp
        show ?thesis
        proof (cases "name = n")
          case name: True
          show ?thesis
            using ClearPolicy_combined [OF c2 assms(2,4) merging_plugin.merge_none [OF mp [OF name]] set [unfolded name]]
              vals(1) none name assms(9) by simp
        qed (use SetPolicy_combined [OF c2 assms(2,4) set] in blast)
      next
        case some: False
        have set: "PolicyManager_SetPolicy R a name [] merged u s2 = (err2, s3)" using run(9) True some e2 by simp
        have "merged = merge (other_values R view s2 a u n)" if "name = n"
          using merging_plugin.others_text [OF mp [OF that] c ans _ run(5)] combined_values_valid [OF assms(3)] that ok1(3)
            vals(2) assms(9) by simp
        with SetPolicy_combined [OF c2 assms(2,4) set] assms(8) show ?thesis by simp
      qed
    qed
    show ?thesis by (rule kc [OF run(10) c3])
  qed
qed

subsection \<open>Every state the service can reach\<close>

text \<open>Administrators set the policy and are removed, others query, time passes and the service restarts.
  The libraries' plugins for the policy keep the contract and run without an extension.\<close>

definition merge_libs :: "'s rdb \<Rightarrow> 's db_viewer \<Rightarrow> string \<Rightarrow> (string \<Rightarrow> bool) \<Rightarrow> (string set \<Rightarrow> string) \<Rightarrow> ('s, 'w) plugin_env \<Rightarrow> bool" where
  "merge_libs R view n valid merge E = (libs_ok R view E \<and> libraries_ok (merges_for n valid merge) E)"

definition runs_alone :: "string \<Rightarrow> ('s, 'w) plugin_env \<Rightarrow> u32 \<Rightarrow> ('s, 'w) plugin_mgr \<Rightarrow> bool" where
  "runs_alone n E code M = (case GetPluginByFuncCode E code M of
     (Some i, M') \<Rightarrow> policyName (plugin_at M' i) = n \<longrightarrow> GetExecuteStrategy (plugin_at M' i) = Some STRATEGY_SINGLE
   | _ \<Rightarrow> True)"

inductive admin_step :: "'s rdb \<Rightarrow> (('s, 'w) plugin_env \<Rightarrow> bool) \<Rightarrow> string
    \<Rightarrow> ('s, 'w) edm_state \<Rightarrow> ('s, 'w) edm_state \<Rightarrow> bool" for R L n where
  as_update: "L E \<Longrightarrow> runs_alone n E code M \<Longrightarrow> a \<noteq> [] \<Longrightarrow>
    UpdateDevicePolicy R E code a u (M, s, w) = (err, M', s', w') \<Longrightarrow> admin_step R L n (M, s, w) (M', s', w')"
| as_remove: "L E \<Longrightarrow> a \<noteq> [] \<Longrightarrow>
    RemoveAdminItem R E a name v u (M, s, w) = (err, M', s', w') \<Longrightarrow> admin_step R L n (M, s, w) (M', s', w')"
| as_get: "L E \<Longrightarrow>
    PluginManager_GetPolicy R E code a u (M, s, w) = (err, M', s', w') \<Longrightarrow> admin_step R L n (M, s, w) (M', s', w')"
| as_timer: "admin_step R L n (M, s, w) (UnloadPluginTask E so signalled M, s, w)"
| as_restart: "admin_step R L n (M, s, w) (PluginManager, restart s, w)"
| as_outside: "admin_step R L n (M, s, w) (M, s, w')"

definition merge_state :: "'s rdb \<Rightarrow> 's db_viewer \<Rightarrow> string \<Rightarrow> (string \<Rightarrow> bool) \<Rightarrow> (string set \<Rightarrow> string) \<Rightarrow> ('s, 'w) edm_state \<Rightarrow> bool" where
  "merge_state R view n valid merge = (\<lambda>(M, s, w). registry_ok M \<and> plugins_ok (well_behaved R view) M
     \<and> plugins_ok (merges_for n valid merge) M \<and> combined_ok R view valid merge n s)"

lemma merge_state_service:
  assumes "merge_state R view n valid merge (M, s, w)" "merge_libs R view n valid merge E"
  shows "service_ok R view E M" "libraries_ok (merges_for n valid merge) E" "plugins_ok (merges_for n valid merge) M"
    "combined_ok R view valid merge n s" "kept_by_loading E (plugins_ok (merges_for n valid merge))"
  using assms plugins_ok_kept [OF linkage_free_merges]
  by (auto simp: merge_state_def merge_libs_def libs_ok_def service_ok_def)

lemma combined_restart:
  assumes "combined_ok R view valid merge n s" "writes_succeed R"
  shows "combined_ok R view valid merge n (restart s)"
proof -
  have c: "coherent R view s" using assms(1) by (simp add: combined_ok_def)
  have "pm_agrees R view (fst s, snd s)" using coherent_agrees [OF c] by simp
  note r = restart_agrees [OF this]
  have "coherent R view (restart s)" by (rule stableD(2) [OF stable_coherent [OF assms(2)] c])
  moreover have "snd (restart s) = edm_db0 (store (snd s))" by (simp add: restart_def split_beta)
  ultimately show ?thesis using assms(1) r by (simp add: combined_ok_def admin_values_def)
qed

lemma admin_step_keeps:
  "admin_step R L n st st' \<Longrightarrow> (\<And>E. L E \<Longrightarrow> merge_libs R view n valid merge E) \<Longrightarrow> writes_succeed R \<Longrightarrow> n \<noteq> [] \<and> n \<notin> plugin_written
   \<Longrightarrow> merge_state R view n valid merge st \<Longrightarrow> merge_state R view n valid merge st'"
proof (induction rule: admin_step.induct)
  case (as_update E code M a u s w err M' s' w')
  note m = merge_state_service [OF as_update.prems(4) as_update.prems(1) [OF as_update.hyps(1)]]
  have c: "pm_agrees R view s" using m(4) by (simp add: combined_ok_def coherent_agrees)
  have "combined_ok R view valid merge n s'"
  proof (rule update_combined [OF m(1) as_update.prems(2) m(4) conjunct1 [OF as_update.prems(3)] as_update.hyps(3) m(2,3) as_update.hyps(4)])
    show "GetExecuteStrategy (plugin_at M1 i) = Some STRATEGY_SINGLE"
      if "GetPluginByFuncCode E code M = (Some i, M1)" "policyName (plugin_at M1 i) = n" for i M1
      using as_update.hyps(2) that by (simp add: runs_alone_def)
    show "n \<notin> plugin_written" using as_update.prems(3) by simp
  qed
  then show ?case
    using UpdateDevicePolicy_service_ok [OF m(1) writes_answer [OF as_update.prems(2)] c as_update.hyps(4)]
      operations_load(1) [OF m(5,3) as_update.hyps(4)]
    by (simp add: merge_state_def service_ok_def)
next
  case (as_remove E a name v u M s w err M' s' w')
  note m = merge_state_service [OF as_remove.prems(4) as_remove.prems(1) [OF as_remove.hyps(1)]]
  have c: "pm_agrees R view s" using m(4) by (simp add: combined_ok_def coherent_agrees)
  note ans = writes_answer [OF as_remove.prems(2)]
  show ?case
    using remove_combined [OF m(1) as_remove.prems(2) m(4) conjunct1 [OF as_remove.prems(3)] m(2,3) as_remove.hyps(3,2)
        conjunct2 [OF as_remove.prems(3)]]
      remove_agrees [OF m(1) ans c stable_agrees [OF ans] as_remove.hyps(3)] operations_load(3) [OF m(5,3) as_remove.hyps(3)]
    by (simp add: merge_state_def service_ok_def)
next
  case (as_get E code a u M s w err M' s' w')
  note m = merge_state_service [OF as_get.prems(4) as_get.prems(1) [OF as_get.hyps(1)]]
  show ?case
    using get_agrees [OF m(1) writes_answer [OF as_get.prems(2)] as_get.hyps(2)] keeps_combined [OF _ m(4) as_get.prems(2) conjunct2 [OF as_get.prems(3)]]
      operations_load(2) [OF m(5,3) as_get.hyps(2)]
    by (auto simp: merge_state_def service_ok_def)
next
  case (as_timer M s w E so signalled)
  then show ?case
    by (simp add: merge_state_def registry_ok_Task plugins_ok_Task linkage_free_behaved linkage_free_merges)
next
  case (as_restart M s w)
  then show ?case
    by (simp add: merge_state_def registry_ok_initial combined_restart) (simp add: plugins_ok_def PluginManager_def)
qed (simp add: merge_state_def)

text \<open>The first start, on an empty database.\<close>

definition first_start :: "'s rdb \<Rightarrow> 's db_viewer \<Rightarrow> 's edm_db \<Rightarrow> bool" where
  "first_start R view d = (rdb_laws R view \<and> writes_succeed R \<and> view (store d) = (\<lambda>_. []))"

lemma empty_looks:
  assumes "view (store d) = (\<lambda>_. [])"
  shows "adm_look (R, view, d) = (\<lambda>_. None)" "comb_look (R, view, d) = (\<lambda>_. None)"
  using assms by (simp_all add: fun_eq_iff adm_look_def comb_look_def adm_entries_def comb_entries_def db_view_def)

lemma merge_state_initial:
  assumes "first_start R view d" "merge {} = []"
  shows "merge_state R view n valid merge (PluginManager, (policy_mgr0, d), w)"
proof -
  have v: "view (store d) = (\<lambda>_. [])" and l: "rdb_laws R view" using assms(1) by (auto simp: first_start_def)
  note e = empty_looks [of view d R, OF v]
  have "combined_ok R view valid merge n (policy_mgr0, d)"
    using coherent_initial [OF policies_ok_empty [OF l v]] assms(2) by (simp add: combined_ok_def admin_values_def e stored_def)
  then show ?thesis
    by (simp add: merge_state_def registry_ok_initial) (simp add: plugins_ok_def PluginManager_def)
qed

lemma admin_reachable:
  assumes "(admin_step R L n)\<^sup>*\<^sup>* (PluginManager, (policy_mgr0, d), w0) st"
    "\<And>E. L E \<Longrightarrow> merge_libs R view n valid merge E" "first_start R view d" "merge {} = []" "n \<noteq> [] \<and> n \<notin> plugin_written"
  shows "merge_state R view n valid merge st"
  using assms(1)
proof (induction rule: rtranclp_induct)
  case base
  show ?case using assms(3,4) by (rule merge_state_initial)
next
  case (step y z)
  then show ?case using admin_step_keeps [OF step.hyps(2) assms(2)] assms(3,5) by (simp add: first_start_def)
qed

subsection \<open>Switches\<close>

definition bool_merge :: "string set \<Rightarrow> string" where
  "bool_merge V = (if CONST_TRUE \<in> V then CONST_TRUE else [])"

lemma list_ex_values: "list_ex (\<lambda>(_, v). v = x) items = (x \<in> snd ` set items)"
  by (induction items) auto

interpretation switch: merging_plugin "\<lambda>v. v = CONST_TRUE" bool_merge "BasicBoolPlugin H base" for H base
proof
  show "bool_merge {} = []" by (simp add: bool_merge_def)
next
  fix items :: "(string, string) amap" and a
  show "\<exists>f. othersMerge (BasicBoolPlugin H base) = Some f
    \<and> snd (f a items []) = bool_merge (snd ` set (AList.delete a items))"
    by (auto simp: BasicBoolPlugin_def Bool_GetOthersMergePolicyData_def bool_merge_def Let_def list_ex_values)
next
  fix c own V u x pd y
  assume h: "onHandlePolicy (BasicBoolPlugin H base) c \<lparr> policyData = own, mergePolicyData = bool_merge V, isChanged = False \<rparr> u x
    = (ERR_OK, pd, y)"
  obtain b z where r: "readBool H x = (b, z)" by (rule prod.exhaust)
  show "(policyData pd = [] \<and> mergePolicyData pd = bool_merge V)
    \<or> (policyData pd = CONST_TRUE \<and> policyData pd \<noteq> [] \<and> mergePolicyData pd = bool_merge (insert (policyData pd) V))"
    using h by (auto simp: BasicBoolPlugin_def Bool_OnHandlePolicy_def Bool_OnSetPolicy_def r bool_merge_def Let_def
        split: if_splits prod.splits)
qed

text \<open>The libraries' plugins for the policy \<open>n\<close> are subclasses of \<open>BasicBoolPlugin\<close>.\<close>

definition switch_libs :: "'s rdb \<Rightarrow> 's db_viewer \<Rightarrow> string \<Rightarrow> ('s, 'w) plugin_env \<Rightarrow> bool" where
  "switch_libs R view n E = (libs_ok R view E
     \<and> libraries_ok (\<lambda>p. policyName p = n \<longrightarrow> (\<exists>H base. p = BasicBoolPlugin H base)) E)"

lemma libraries_ok_mono: "libraries_ok P E \<Longrightarrow> (\<And>p. P p \<Longrightarrow> P' p) \<Longrightarrow> libraries_ok P' E"
proof -
  assume a: "libraries_ok P E" "\<And>p. P p \<Longrightarrow> P' p"
  have "registers P r \<Longrightarrow> registers P' r" for r by (cases r) (auto simp: a(2))
  then show "libraries_ok P' E" using a(1) by (auto simp: libraries_ok_def list_all_iff)
qed

lemma switch_libs_merge: "switch_libs R view n E \<Longrightarrow> merge_libs R view n (\<lambda>v. v = CONST_TRUE) bool_merge E"
  using switch.merging_plugin_axioms
  by (auto simp: switch_libs_def merge_libs_def merges_for_def elim!: libraries_ok_mono)

end
