(* ===== verification/Plugin_Codes.thy ===== *)
theory Plugin_Codes
  imports Edm_Codes
begin

text \<open>
  More constants of the headers, those that single plugins use: interface codes, policy names,
  permission names, tags and event codes, as in \<open>Edm_Codes\<close>.
\<close>

abbreviation (input) POLICY_DISABLED_APP_CLONE :: string where "POLICY_DISABLED_APP_CLONE \<equiv> ''disabled_app_clone''"
abbreviation (input) POLICY_DISABLED_MAINTENANCE_MODE :: string where "POLICY_DISABLED_MAINTENANCE_MODE \<equiv> ''disabled_maintenance_mode''"
abbreviation (input) POLICY_DISABLED_MTP_CLIENT :: string where "POLICY_DISABLED_MTP_CLIENT \<equiv> ''disabled_mtp_client''"
abbreviation (input) POLICY_DISABLED_USER_MTP_CLIENT :: string where "POLICY_DISABLED_USER_MTP_CLIENT \<equiv> ''disabled_user_mtp_client''"
abbreviation (input) POLICY_DISABLED_PRIVATE_SPACE :: string where "POLICY_DISABLED_PRIVATE_SPACE \<equiv> ''disabled_private_space''"
abbreviation (input) POLICY_DISABLED_SAMBA_CLIENT :: string where "POLICY_DISABLED_SAMBA_CLIENT \<equiv> ''disabled_samba_client''"
abbreviation (input) POLICY_DISABLED_SAMBA_SERVER :: string where "POLICY_DISABLED_SAMBA_SERVER \<equiv> ''disabled_samba_server''"
abbreviation (input) POLICY_DISABLED_SUDO :: string where "POLICY_DISABLED_SUDO \<equiv> ''disabled_sudo''"
abbreviation (input) POLICY_DISALLOW_CORE_DUMP :: string where "POLICY_DISALLOW_CORE_DUMP \<equiv> ''disallow_core_dump''"
abbreviation (input) POLICY_DISALLOW_RS232 :: string where "POLICY_DISALLOW_RS232 \<equiv> ''disallow_rs232''"
abbreviation (input) POLICY_DISALLOWED_EXPORT_RECOVERY_KEY :: string where "POLICY_DISALLOWED_EXPORT_RECOVERY_KEY \<equiv> ''disallowed_export_recovery_key''"
abbreviation (input) POLICY_DISALLOWED_OPEN_FILE_BOOST :: string where "POLICY_DISALLOWED_OPEN_FILE_BOOST \<equiv> ''disallowed_open_file_boost''"
abbreviation (input) POLICY_DISALLOWED_DISTRIBUTED_TRANSMISSION :: string where "POLICY_DISALLOWED_DISTRIBUTED_TRANSMISSION \<equiv> ''disallowed_distributed_transmission''"
abbreviation (input) POLICY_DISALLOWED_DISTRIBUTED_TRANSMISSION_FULL :: string where "POLICY_DISALLOWED_DISTRIBUTED_TRANSMISSION_FULL \<equiv> ''disallowed_distributed_transmission_full''"
abbreviation (input) POLICY_ALLOWED_COLLABORATION_SERVICE_BUNDLES :: string where "POLICY_ALLOWED_COLLABORATION_SERVICE_BUNDLES \<equiv> ''allowed_collaboration_service_bundles''"
abbreviation (input) POLICY_DISALLOW_MODIFY_APN :: string where "POLICY_DISALLOW_MODIFY_APN \<equiv> ''disallow_modify_apn''"
abbreviation (input) POLICY_DISALLOW_POWER_LONG_PRESS :: string where "POLICY_DISALLOW_POWER_LONG_PRESS \<equiv> ''disallow_power_long_press''"
abbreviation (input) POLICY_DISALLOWED_AIRPLANE_MODE :: string where "POLICY_DISALLOWED_AIRPLANE_MODE \<equiv> ''disallowed_airplane_mode''"
abbreviation (input) POLICY_SET_BIOMETRICS_AND_SCREENLOCK :: string where "POLICY_SET_BIOMETRICS_AND_SCREENLOCK \<equiv> ''set_biometrics_and_screenLock''"
abbreviation (input) POLICY_SET_DEVICE_NAME :: string where "POLICY_SET_DEVICE_NAME \<equiv> ''set_device_name''"
abbreviation (input) POLICY_SET_AUTO_UNLOCK_AFTER_REBOOT :: string where "POLICY_SET_AUTO_UNLOCK_AFTER_REBOOT \<equiv> ''set_auto_unlock_after_reboot''"
abbreviation (input) POLICY_DISALLOW_MODIFY_ETHERNET_IP :: string where "POLICY_DISALLOW_MODIFY_ETHERNET_IP \<equiv> ''disallow_modify_ethernet_ip''"
abbreviation (input) POLICY_DISALLOW_VPN :: string where "POLICY_DISALLOW_VPN \<equiv> ''disallow_vpn''"
abbreviation (input) POLICY_DISALLOWED_TELEPHONY_CALL :: string where "POLICY_DISALLOWED_TELEPHONY_CALL \<equiv> ''disallowed_telephony_call''"
abbreviation (input) POLICY_DISALLOW_UINPUT :: string where "POLICY_DISALLOW_UINPUT \<equiv> ''disallow_uinput''"
abbreviation (input) POLICY_DISALLOW_X_KEY :: string where "POLICY_DISALLOW_X_KEY \<equiv> ''disallow_x_key''"
abbreviation (input) POLICY_DISALLOWED_TRAFFIC_REDIRECTION :: string where "POLICY_DISALLOWED_TRAFFIC_REDIRECTION \<equiv> ''disallowed_traffic_redirection''"
abbreviation (input) POLICY_DISALLOWED_RANDOM_MAC_ADDRESS :: string where "POLICY_DISALLOWED_RANDOM_MAC_ADDRESS \<equiv> ''disallowed_random_mac_address''"
abbreviation (input) POLICY_DISABLED_PRINT :: string where "POLICY_DISABLED_PRINT \<equiv> ''disabled_print''"
abbreviation (input) POLICY_DISALLOW_MODIFY_WALLPAPER :: string where "POLICY_DISALLOW_MODIFY_WALLPAPER \<equiv> ''disallow_modify_wallpaper''"
abbreviation (input) POLICY_DISALLOWED_MULTI_WINDOW :: string where "POLICY_DISALLOWED_MULTI_WINDOW \<equiv> ''disallowed_multi_window''"
abbreviation (input) POLICY_DISALLOWED_DEVICE_SUDO :: string where "POLICY_DISALLOWED_DEVICE_SUDO \<equiv> ''disallowed_device_sudo''"
abbreviation (input) POLICY_DISABLE_SATA_ODD_BURN :: string where "POLICY_DISABLE_SATA_ODD_BURN \<equiv> ''disable_sata_odd_burn''"
abbreviation (input) POLICY_DISALLOWED_PACKET_FILTERING :: string where "POLICY_DISALLOWED_PACKET_FILTERING \<equiv> ''disallowed_packet_filtering''"
abbreviation (input) PERMISSION_TAG_VERSION_26 :: string where "PERMISSION_TAG_VERSION_26 \<equiv> ''version_26''"
abbreviation (input) BOOT_COMPLETED :: u32 where "BOOT_COMPLETED \<equiv> 9"

end
