(* ===== verification/Query_Codes.thy ===== *)
theory Query_Codes
  imports Plugin_Codes
begin

text \<open>
  The constants of the headers that only the policy queries use, as in \<open>Edm_Codes\<close>.
\<close>

abbreviation (input) IC_GET_DISPLAY_VERSION :: u32 where "IC_GET_DISPLAY_VERSION \<equiv> 1003"
abbreviation (input) IC_GET_SECURITY_PATCH_TAG :: u32 where "IC_GET_SECURITY_PATCH_TAG \<equiv> 1031"
abbreviation (input) IC_GET_DEVICE_ENCRYPTION_STATUS :: u32 where "IC_GET_DEVICE_ENCRYPTION_STATUS \<equiv> 1032"
abbreviation (input) IC_GET_BUNDLE_STORAGE_STATS :: u32 where "IC_GET_BUNDLE_STORAGE_STATS \<equiv> 1151"
abbreviation (input) POLICY_ALLOWED_KIOSK_APPS :: string where "POLICY_ALLOWED_KIOSK_APPS \<equiv> ''allowed_kiosk_apps''"
abbreviation (input) POLICY_DISALLOWED_BLUETOOTH_DEVICES :: string where "POLICY_DISALLOWED_BLUETOOTH_DEVICES \<equiv> ''disallowed_bluetooth_devices''"
abbreviation (input) POLICY_ALLOWED_ODD_BURN_USB_DEVICES :: string where "POLICY_ALLOWED_ODD_BURN_USB_DEVICES \<equiv> ''allowed_odd_burn_usb_devices''"
abbreviation (input) POLICY_DISALLOWED_PERMISSION :: string where "POLICY_DISALLOWED_PERMISSION \<equiv> ''disallowed_permission''"
abbreviation (input) POLICY_ALLOWED_PERMISSION_BUNDLE :: string where "POLICY_ALLOWED_PERMISSION_BUNDLE \<equiv> ''allowed_permission_bundle''"
abbreviation (input) POLICY_ALLOW_RUNNING_BUNDLES :: string where "POLICY_ALLOW_RUNNING_BUNDLES \<equiv> ''allow_running_bundles''"
abbreviation (input) POLICY_DISALLOWED_USB_STORAGE_DEVICE_WRITE :: string where "POLICY_DISALLOWED_USB_STORAGE_DEVICE_WRITE \<equiv> ''disallowed_usb_storage_device_write''"
abbreviation (input) POLICY_PERMISSION_MANAGED_STATE_POLICY :: string where "POLICY_PERMISSION_MANAGED_STATE_POLICY \<equiv> ''permission_managed_state''"
abbreviation (input) POLICY_ALLOWED_WIFI_LIST :: string where "POLICY_ALLOWED_WIFI_LIST \<equiv> ''allowed_wifi_list''"
abbreviation (input) POLICY_DISALLOWED_WIFI_LIST :: string where "POLICY_DISALLOWED_WIFI_LIST \<equiv> ''disallowed_wifi_list''"
abbreviation (input) POLICY_ALLOWED_INSTALL_APP_TYPE :: string where "POLICY_ALLOWED_INSTALL_APP_TYPE \<equiv> ''allowed_install_app_type''"
abbreviation (input) POLICY_ALLOWED_NOTIFICATION_BUNDLES :: string where "POLICY_ALLOWED_NOTIFICATION_BUNDLES \<equiv> ''allowed_notification_bundles''"
abbreviation (input) POLICY_DISALLOW_MOBILE_DATA :: string where "POLICY_DISALLOW_MOBILE_DATA \<equiv> ''disallow_mobile_data''"
abbreviation (input) POLICY_DISALLOWED_NOTIFICATION :: string where "POLICY_DISALLOWED_NOTIFICATION \<equiv> ''disallowed_notification''"
abbreviation (input) POLICY_SET_INSTALL_LOCAL_ENTERPRISE_APP_ENABLED :: string where "POLICY_SET_INSTALL_LOCAL_ENTERPRISE_APP_ENABLED \<equiv> ''set_install_local_enterprise_app_enabled''"
abbreviation (input) POLICY_TELEPHONY_CALL_POLICY :: string where "POLICY_TELEPHONY_CALL_POLICY \<equiv> ''telephony_call_policy''"
abbreviation (input) POLICY_INSTALL_LOCAL_ENTERPRISE_APP_ENABLED_FOR_ACCOUNT :: string where "POLICY_INSTALL_LOCAL_ENTERPRISE_APP_ENABLED_FOR_ACCOUNT \<equiv> ''install_local_enterprise_app_enabled_for_account''"
abbreviation (input) POLICY_BUNDLE_STORAGE_STATS :: string where "POLICY_BUNDLE_STORAGE_STATS \<equiv> ''bundle_storage_stats''"
abbreviation (input) POLICY_GET_DEVICE_ENCRYPTION_STATUS :: string where "POLICY_GET_DEVICE_ENCRYPTION_STATUS \<equiv> ''get_device_encryption_status''"
abbreviation (input) POLICY_GET_DISPLAY_VERSION :: string where "POLICY_GET_DISPLAY_VERSION \<equiv> ''get_display_version''"
abbreviation (input) POLICY_GET_SECURITY_PATCH_TAG :: string where "POLICY_GET_SECURITY_PATCH_TAG \<equiv> ''get_security_patch_tag''"
abbreviation (input) POLICY_DISALLOWED_EXTERNAL_STORAGE_CARD :: string where "POLICY_DISALLOWED_EXTERNAL_STORAGE_CARD \<equiv> ''disallowed_external_storage_card''"
abbreviation (input) POLICY_DISABLE_RUNNING_BINARY_APP :: string where "POLICY_DISABLE_RUNNING_BINARY_APP \<equiv> ''disable_running_binary_app''"
abbreviation (input) POLICY_QUERY_BUNDLE_STATS_INFOS :: string where "POLICY_QUERY_BUNDLE_STATS_INFOS \<equiv> ''query_bundle_stats_infos''"
abbreviation (input) POLICY_HIDE_LAUNCHER_ICON :: string where "POLICY_HIDE_LAUNCHER_ICON \<equiv> ''hide_launcher_icon''"
abbreviation (input) POLICY_DEVICE_SECURITY_LEVEL_POLICY :: string where "POLICY_DEVICE_SECURITY_LEVEL_POLICY \<equiv> ''device_security_level_policy''"
abbreviation (input) POLICY_ALLOWED_PRINTER_IP_ADDRESSES_FOR_DEVICE :: string where "POLICY_ALLOWED_PRINTER_IP_ADDRESSES_FOR_DEVICE \<equiv> ''allowed_printer_ip_addresses_for_device''"
abbreviation (input) POLICY_ALLOWED_PRINTER_IP_ADDRESSES_FOR_ACCOUNT :: string where "POLICY_ALLOWED_PRINTER_IP_ADDRESSES_FOR_ACCOUNT \<equiv> ''allowed_printer_ip_addresses_for_account''"
abbreviation (input) POLICY_EXTERNAL_STORAGE_INTERCEPT_ENABLE :: string where "POLICY_EXTERNAL_STORAGE_INTERCEPT_ENABLE \<equiv> ''external_storage_intercept_enable''"
abbreviation (input) POLICY_DISABLE_SUPER_PRIVACY_MODE :: string where "POLICY_DISABLE_SUPER_PRIVACY_MODE \<equiv> ''disable_super_privacy_mode''"
abbreviation (input) EXECUTE_TIME_OUT :: err_code where "EXECUTE_TIME_OUT \<equiv> 9200016"

end
