(* ===== verification/Query_Serializers.thy ===== *)
theory Query_Serializers
  imports Query_Codes Plugin Serializers "HOL-Library.Product_Lexorder"
begin

text \<open>
  The serializers of the policies that have a query class of their own, in \<open>interfaces/inner_api/*/src/*_serializer.cpp\<close>: what
  is stored as JSON and how it is read back. A small class with a field-wise \<open>operator<\<close> is the tuple of its fields, a
  \<open>std::map\<close> an association list in key order, a \<open>std::set\<close> a sorted list.
\<close>

subsection \<open>Access to JSON\<close>

text \<open>\<open>cJSON_GetObjectItem\<close> compares keys without regard to case; the children of an array have no key.\<close>

definition to_lower :: "char \<Rightarrow> char" where
  "to_lower c = (let n = of_char c :: nat in if 65 \<le> n \<and> n \<le> 90 then char_of (n + 32) else c)"

definition GetObjectItem :: "json \<Rightarrow> string \<Rightarrow> json option" where
  "GetObjectItem j k =
     (case j of JObject kvs \<Rightarrow> map_option snd (List.find (\<lambda>(k', _). map to_lower k' = map to_lower k) kvs) | _ \<Rightarrow> None)"

definition StringItem :: "json \<Rightarrow> string \<Rightarrow> string option" where
  "StringItem j k = (case GetObjectItem j k of Some (JString s) \<Rightarrow> Some s | _ \<Rightarrow> None)"

definition NumberItem :: "json \<Rightarrow> string \<Rightarrow> int option" where
  "NumberItem j k = (case GetObjectItem j k of Some (JNumber n) \<Rightarrow> Some n | _ \<Rightarrow> None)"

text \<open>A loop that leaves with \<open>false\<close> at the first item that is not accepted; what it has stored stays.\<close>

fun each_item :: "('a \<Rightarrow> 'd \<Rightarrow> 'd option) \<Rightarrow> 'a list \<Rightarrow> 'd \<Rightarrow> bool \<times> 'd" where
  "each_item f [] d = (True, d)"
| "each_item f (x # xs) d = (case f x d of None \<Rightarrow> (False, d) | Some d' \<Rightarrow> each_item f xs d')"

text \<open>\<open>m[k] = v\<close> of a \<open>std::map\<close>.\<close>

definition map_put :: "'k::linorder \<Rightarrow> 'v \<Rightarrow> ('k, 'v) amap \<Rightarrow> ('k, 'v) amap" where
  "map_put k v m = ordered_insert k v (AList.delete k m)"

text \<open>\<open>cJSON_AddStringToObject\<close> and \<open>cJSON_AddNumberToObject\<close>: a member that cannot be created is left out.\<close>

definition AddString :: "cjson \<Rightarrow> string \<Rightarrow> string \<Rightarrow> (string \<times> json) list" where
  "AddString J k s = (case cj_create_string J s of None \<Rightarrow> [] | Some j \<Rightarrow> [(k, j)])"

definition AddNumber :: "cjson \<Rightarrow> string \<Rightarrow> int \<Rightarrow> (string \<times> json) list" where
  "AddNumber J k n = (case cj_create_number J n of None \<Rightarrow> [] | Some j \<Rightarrow> [(k, j)])"

text \<open>An array of objects, printed; a null pointer ends the method with \<open>false\<close>.\<close>

definition print_array :: "cjson \<Rightarrow> ('a \<Rightarrow> json option) \<Rightarrow> 'a list \<Rightarrow> string \<Rightarrow> bool \<times> string" where
  "print_array J f xs text =
     (if \<not> cj_create_array J then (False, text)
      else (case create_all f xs of
              None \<Rightarrow> (False, text)
            | Some js \<Rightarrow> (case cj_print J (JArray js) of None \<Rightarrow> (False, text) | Some s \<Rightarrow> (True, s))))"

definition object_with :: "cjson \<Rightarrow> (string \<times> json) list \<Rightarrow> json option" where
  "object_with J kvs = (if cj_create_object J then Some (JObject kvs) else None)"

subsection \<open>Wireless networks\<close>

text \<open>Name and address of the access point.\<close>

type_synonym wifi_id = "string \<times> string"

definition WifiId_item :: "json \<Rightarrow> wifi_id list \<Rightarrow> wifi_id list option" where
  "WifiId_item item data =
     (case (GetObjectItem item ''ssid'', GetObjectItem item ''bssid'') of
        (Some ssid, Some bssid) \<Rightarrow>
          (case (ssid, bssid) of (JString s, JString b) \<Rightarrow> Some (data @ [(s, b)]) | _ \<Rightarrow> Some data)
      | _ \<Rightarrow> None)"

definition ArrayWifiId_Deserialize :: "cjson \<Rightarrow> string \<Rightarrow> wifi_id list \<Rightarrow> bool \<times> wifi_id list" where
  "ArrayWifiId_Deserialize J jsonString dataObj =
     (case cj_parse J jsonString of None \<Rightarrow> (True, dataObj) | Some root \<Rightarrow> each_item WifiId_item (json_children root) dataObj)"

definition ArrayWifiId_Serialize :: "cjson \<Rightarrow> wifi_id list \<Rightarrow> string \<Rightarrow> bool \<times> string" where
  "ArrayWifiId_Serialize J dataObj jsonString =
     (if dataObj = [] then (True, jsonString)
      else print_array J (\<lambda>(s, b). object_with J (AddString J ''ssid'' s @ AddString J ''bssid'' b)) dataObj jsonString)"

definition ArrayWifiId_SetUnionPolicyData :: "wifi_id list \<Rightarrow> wifi_id list \<Rightarrow> wifi_id list" where
  "ArrayWifiId_SetUnionPolicyData data currentData = set_union (sort data) (sort currentData)"

definition ArrayWifiId_SetDifferencePolicyData :: "wifi_id list \<Rightarrow> wifi_id list \<Rightarrow> wifi_id list" where
  "ArrayWifiId_SetDifferencePolicyData data currentData = set_difference (sort currentData) (sort data)"

definition ArrayWifiId_MergePolicy :: "wifi_id list list \<Rightarrow> wifi_id list \<Rightarrow> bool \<times> wifi_id list" where
  "ArrayWifiId_MergePolicy data result = (True, ordered_set data)"

subsection \<open>USB devices\<close>

text \<open>Vendor and product. An array that is too long, or one item without both numbers, is refused.\<close>

type_synonym usb_device_id = "int \<times> int"

abbreviation (input) ALLOWED_USB_DEVICES_MAX_SIZE :: nat where "ALLOWED_USB_DEVICES_MAX_SIZE \<equiv> 1000"

definition UsbDeviceId_item :: "json \<Rightarrow> usb_device_id list \<Rightarrow> usb_device_id list option" where
  "UsbDeviceId_item item data =
     (case (NumberItem item ''vendorId'', NumberItem item ''productId'') of
        (Some v, Some p) \<Rightarrow> Some (data @ [(valueint v, valueint p)]) | _ \<Rightarrow> None)"

text \<open>The array is resized first, so after a failure it holds empty devices at its end; the callers ignore it then.\<close>

definition ArrayUsbDeviceId_Deserialize :: "cjson \<Rightarrow> string \<Rightarrow> bool \<times> usb_device_id list" where
  "ArrayUsbDeviceId_Deserialize J jsonString =
     (if jsonString = [] then (True, [])
      else (case cj_parse J jsonString of
              Some (JArray xs) \<Rightarrow>
                (if length xs > ALLOWED_USB_DEVICES_MAX_SIZE then (False, [])
                 else (let (ok, data) = each_item UsbDeviceId_item xs []
                       in (ok, data @ replicate (length xs - length data) (-1, -1))))
            | _ \<Rightarrow> (False, [])))"

definition ArrayUsbDeviceId_Serialize :: "cjson \<Rightarrow> usb_device_id list \<Rightarrow> string \<Rightarrow> bool \<times> string" where
  "ArrayUsbDeviceId_Serialize J dataObj jsonString =
     (if dataObj = [] then (True, [])
      else print_array J (\<lambda>(v, p).
        if cj_create_number J v = None \<or> cj_create_number J p = None then None
        else object_with J (AddNumber J ''vendorId'' v @ AddNumber J ''productId'' p)) dataObj jsonString)"

definition ArrayUsbDeviceId_SetUnionPolicyData :: "usb_device_id list \<Rightarrow> usb_device_id list \<Rightarrow> usb_device_id list" where
  "ArrayUsbDeviceId_SetUnionPolicyData data currentData = set_union (sort data) (sort currentData)"

definition ArrayUsbDeviceId_SetDifferencePolicyData :: "usb_device_id list \<Rightarrow> usb_device_id list \<Rightarrow> usb_device_id list" where
  "ArrayUsbDeviceId_SetDifferencePolicyData data currentData = set_difference (sort currentData) (sort data)"

definition ArrayUsbDeviceId_MergePolicy :: "usb_device_id list list \<Rightarrow> usb_device_id list \<Rightarrow> bool \<times> usb_device_id list" where
  "ArrayUsbDeviceId_MergePolicy data result = (True, ordered_set data)"

text \<open>Burners, with a serial number.\<close>

type_synonym odd_burn_device = "int \<times> int \<times> string"

definition OddBurn_item :: "json \<Rightarrow> odd_burn_device list \<Rightarrow> odd_burn_device list option" where
  "OddBurn_item item data =
     (case (NumberItem item ''vendorId'', NumberItem item ''productId'') of
        (Some v, Some p) \<Rightarrow> Some (data @ [(valueint v, valueint p, case StringItem item ''serial'' of Some s \<Rightarrow> s | None \<Rightarrow> [])])
      | _ \<Rightarrow> None)"

definition ArrayOddBurn_Deserialize :: "cjson \<Rightarrow> string \<Rightarrow> bool \<times> odd_burn_device list" where
  "ArrayOddBurn_Deserialize J jsonString =
     (if jsonString = [] then (True, [])
      else (case cj_parse J jsonString of
              Some (JArray xs) \<Rightarrow>
                (let (ok, data) = each_item OddBurn_item xs []
                 in (ok, data @ replicate (length xs - length data) (-1, -1, [])))
            | _ \<Rightarrow> (False, [])))"

definition ArrayOddBurn_Serialize :: "cjson \<Rightarrow> odd_burn_device list \<Rightarrow> string \<Rightarrow> bool \<times> string" where
  "ArrayOddBurn_Serialize J dataObj jsonString =
     (if dataObj = [] then (True, [])
      else print_array J (\<lambda>(v, p, s).
        if cj_create_number J v = None \<or> cj_create_number J p = None \<or> cj_create_string J s = None then None
        else object_with J (AddNumber J ''vendorId'' v @ AddNumber J ''productId'' p @ AddString J ''serial'' s)) dataObj jsonString)"

definition ArrayOddBurn_SetUnionPolicyData :: "odd_burn_device list \<Rightarrow> odd_burn_device list \<Rightarrow> odd_burn_device list" where
  "ArrayOddBurn_SetUnionPolicyData data currentData = set_union (sort data) (sort currentData)"

definition ArrayOddBurn_SetDifferencePolicyData :: "odd_burn_device list \<Rightarrow> odd_burn_device list \<Rightarrow> odd_burn_device list" where
  "ArrayOddBurn_SetDifferencePolicyData data currentData = set_difference (sort currentData) (sort data)"

definition ArrayOddBurn_MergePolicy :: "odd_burn_device list list \<Rightarrow> odd_burn_device list \<Rightarrow> bool \<times> odd_burn_device list" where
  "ArrayOddBurn_MergePolicy data result = (True, ordered_set data)"

subsection \<open>Notifications\<close>

record notification_bundles =
  nbUserId :: user_id
  trustList :: "string list"

definition NotificationBundles_item :: "json \<Rightarrow> notification_bundles list \<Rightarrow> notification_bundles list option" where
  "NotificationBundles_item item data =
     (case (NumberItem item ''userId'', GetObjectItem item ''trustList'') of
        (Some u, Some (JArray bs)) \<Rightarrow> Some (data @ [\<lparr> nbUserId = valueint u,
          trustList = sort_unique (List.map_filter (\<lambda>b. case b of JString s \<Rightarrow> Some s | _ \<Rightarrow> None) bs) \<rparr>])
      | _ \<Rightarrow> None)"

definition NotificationBundles_Deserialize :: "cjson \<Rightarrow> string \<Rightarrow> notification_bundles list \<Rightarrow> bool \<times> notification_bundles list" where
  "NotificationBundles_Deserialize J policy dataObj =
     (if policy = [] then (True, dataObj)
      else (case cj_parse J policy of None \<Rightarrow> (False, dataObj)
            | Some root \<Rightarrow> each_item NotificationBundles_item (json_children root) dataObj))"

definition CreateTrustListArray :: "cjson \<Rightarrow> string list \<Rightarrow> json option" where
  "CreateTrustListArray J bundles =
     (if \<not> cj_create_array J then None
      else (case create_all (cj_create_string J) bundles of None \<Rightarrow> None | Some js \<Rightarrow> Some (JArray js)))"

definition NotificationBundles_Serialize :: "cjson \<Rightarrow> notification_bundles list \<Rightarrow> string \<Rightarrow> bool \<times> string" where
  "NotificationBundles_Serialize J dataObj policy =
     (if dataObj = [] then (True, policy)
      else print_array J (\<lambda>b. case CreateTrustListArray J (trustList b) of
          None \<Rightarrow> None
        | Some js \<Rightarrow> object_with J (AddNumber J ''userId'' (nbUserId b) @ [(''trustList'', js)])) dataObj policy)"

text \<open>\<open>mergedData[userId].insert(...)\<close> for every administrator's bundles, then one element per user.\<close>

definition NotificationBundles_MergePolicy :: "notification_bundles list list \<Rightarrow> notification_bundles list
    \<Rightarrow> bool \<times> notification_bundles list" where
  "NotificationBundles_MergePolicy data result =
     (if data = [] then (True, result)
      else (let m = fold (\<lambda>b m. map_put (nbUserId b)
                      (sort_unique ((case map_of m (nbUserId b) of None \<Rightarrow> [] | Some l \<Rightarrow> l) @ trustList b)) m) (concat data) []
            in (True, map (\<lambda>(u, l). \<lparr> nbUserId = u, trustList = l \<rparr>) m)))"

subsection \<open>Bundles that may be granted a permission\<close>

record application_instance =
  apIdentifier :: string
  apBundleName :: string
  apAccountId :: user_id
  apIndex :: int

type_synonym permission_bundles = "(string, application_instance list) amap"

definition MakeKey_app :: "application_instance \<Rightarrow> string" where
  "MakeKey_app a = apIdentifier a @ ''_'' @ int_to_string (apAccountId a) @ ''_'' @ int_to_string (apIndex a)"

definition IsAppInList :: "application_instance \<Rightarrow> application_instance list \<Rightarrow> bool" where
  "IsAppInList app appList = list_ex (\<lambda>i. apIdentifier app = apIdentifier i \<and> apIndex app = apIndex i) appList"

definition GetAppsNotInList :: "application_instance list \<Rightarrow> application_instance list \<Rightarrow> application_instance list" where
  "GetAppsNotInList sourceList targetList = filter (\<lambda>a. \<not> IsAppInList a targetList) sourceList"

definition GetAppsInList :: "application_instance list \<Rightarrow> application_instance list \<Rightarrow> application_instance list" where
  "GetAppsInList sourceList targetList = filter (\<lambda>a. IsAppInList a targetList) sourceList"

definition merged_apps :: "permission_bundles \<Rightarrow> (string, (string, application_instance) amap) amap
    \<Rightarrow> (string, (string, application_instance) amap) amap" where
  "merged_apps data m =
     fold (\<lambda>(perm, appList). fold (\<lambda>a m. map_put perm
        (map_put (MakeKey_app a) a (case map_of m perm of None \<Rightarrow> [] | Some l \<Rightarrow> l)) m) appList) data m"

definition PermissionBundles_SetUnionPolicyData :: "permission_bundles \<Rightarrow> permission_bundles \<Rightarrow> permission_bundles" where
  "PermissionBundles_SetUnionPolicyData data currentData =
     map (\<lambda>(perm, l). (perm, map snd l)) (filter (\<lambda>(perm, l). l \<noteq> []) (merged_apps currentData (merged_apps data [])))"

definition PermissionBundles_SetDifferencePolicyData :: "permission_bundles \<Rightarrow> permission_bundles \<Rightarrow> permission_bundles" where
  "PermissionBundles_SetDifferencePolicyData data currentData =
     List.map_filter (\<lambda>(perm, appList). case map_of data perm of
        None \<Rightarrow> Some (perm, appList)
      | Some l \<Rightarrow> (let rest = GetAppsNotInList appList l in if rest \<noteq> [] then Some (perm, rest) else None)) currentData"

definition PermissionBundles_SetIntersectionPolicyData :: "permission_bundles \<Rightarrow> permission_bundles \<Rightarrow> permission_bundles" where
  "PermissionBundles_SetIntersectionPolicyData data currentData =
     List.map_filter (\<lambda>(perm, appList). case map_of currentData perm of
        None \<Rightarrow> None
      | Some l \<Rightarrow> (let both = GetAppsInList appList l in if both \<noteq> [] then Some (perm, both) else None)) data"

definition PermissionBundles_SetNeedRemoveMergePolicyData :: "permission_bundles \<Rightarrow> permission_bundles \<Rightarrow> permission_bundles" where
  "PermissionBundles_SetNeedRemoveMergePolicyData mergeData data =
     List.map_filter (\<lambda>(perm, appList). case map_of mergeData perm of
        None \<Rightarrow> (if appList \<noteq> [] then Some (perm, appList) else None)
      | Some l \<Rightarrow> (let rest = GetAppsNotInList appList l in if rest \<noteq> [] then Some (perm, rest) else None)) data"

definition ParseAppItem :: "json \<Rightarrow> application_instance option" where
  "ParseAppItem appItem =
     (case (StringItem appItem ''appIdentifier'', NumberItem appItem ''appIndex'') of
        (Some i, Some n) \<Rightarrow> Some \<lparr> apIdentifier = i,
          apBundleName = (case StringItem appItem ''bundleName'' of Some b \<Rightarrow> b | None \<Rightarrow> []),
          apAccountId = (case NumberItem appItem ''accountId'' of Some a \<Rightarrow> valueint a | None \<Rightarrow> 0),
          apIndex = valueint n \<rparr>
      | _ \<Rightarrow> None)"

definition ParsePermissionArray :: "json \<Rightarrow> application_instance list option" where
  "ParsePermissionArray item = (case item of
        JArray xs \<Rightarrow> (let (ok, appList) = each_item (\<lambda>x l. map_option (\<lambda>a. l @ [a]) (ParseAppItem x)) xs []
                       in if ok then Some appList else None)
      | _ \<Rightarrow> None)"

definition PermissionBundles_item :: "string \<times> json \<Rightarrow> permission_bundles \<Rightarrow> permission_bundles option" where
  "PermissionBundles_item kv data =
     (case ParsePermissionArray (snd kv) of
        None \<Rightarrow> None
      | Some appList \<Rightarrow> Some (if appList \<noteq> [] then map_put (fst kv) appList data else data))"

definition PermissionBundles_Deserialize :: "cjson \<Rightarrow> string \<Rightarrow> permission_bundles \<Rightarrow> bool \<times> permission_bundles" where
  "PermissionBundles_Deserialize J policy dataObj =
     (if policy = [] then (True, dataObj)
      else (case cj_parse J policy of Some (JObject kvs) \<Rightarrow> each_item PermissionBundles_item kvs dataObj | _ \<Rightarrow> (False, dataObj)))"

definition CreateAppObject :: "cjson \<Rightarrow> application_instance \<Rightarrow> json option" where
  "CreateAppObject J a = object_with J (AddString J ''appIdentifier'' (apIdentifier a) @ AddNumber J ''accountId'' (apAccountId a)
     @ AddNumber J ''appIndex'' (apIndex a) @ AddString J ''bundleName'' (apBundleName a))"

definition SerializePermissionApps :: "cjson \<Rightarrow> string \<times> application_instance list \<Rightarrow> (string \<times> json) option" where
  "SerializePermissionApps J kv =
     (if \<not> cj_create_array J then None
      else (case create_all (CreateAppObject J) (snd kv) of None \<Rightarrow> None | Some js \<Rightarrow> Some (fst kv, JArray js)))"

text \<open>When the text cannot be printed the method still returns \<open>true\<close>.\<close>

definition PermissionBundles_Serialize :: "cjson \<Rightarrow> permission_bundles \<Rightarrow> string \<Rightarrow> bool \<times> string" where
  "PermissionBundles_Serialize J dataObj policy =
     (if dataObj = [] then (True, policy)
      else if \<not> cj_create_object J then (False, policy)
      else
        (let entries = filter (\<lambda>(perm, l). l \<noteq> []) dataObj;
             members = map (SerializePermissionApps J) entries
         in if None \<in> set members then (False, policy)
            else (case cj_print J (JObject (List.map_filter (\<lambda>m. m) members)) of None \<Rightarrow> (True, policy) | Some t \<Rightarrow> (True, t))))"

text \<open>Of two administrators' entries with one key the first is kept.\<close>

definition AddAppToMergedMap :: "string \<Rightarrow> application_instance list \<Rightarrow> (string, (string, application_instance) amap) amap
    \<Rightarrow> (string, (string, application_instance) amap) amap" where
  "AddAppToMergedMap perm appList m =
     fold (\<lambda>a m. map_put perm (ordered_insert (MakeKey_app a) a (case map_of m perm of None \<Rightarrow> [] | Some l \<Rightarrow> l)) m) appList m"

definition MergePolicyDataIntoMap :: "permission_bundles list \<Rightarrow> (string, (string, application_instance) amap) amap" where
  "MergePolicyDataIntoMap data = fold (\<lambda>policyMap. fold (\<lambda>(perm, l). AddAppToMergedMap perm l) policyMap) data []"

definition PermissionBundles_MergePolicy :: "permission_bundles list \<Rightarrow> permission_bundles \<Rightarrow> bool \<times> permission_bundles" where
  "PermissionBundles_MergePolicy data result =
     (True, fold (\<lambda>(perm, l) r. if l \<noteq> [] then map_put perm (map snd l) r else r) (MergePolicyDataIntoMap data) result)"

subsection \<open>Clipboard\<close>

text \<open>The policies are the numbers of the enumeration \<open>ClipboardPolicy\<close>: 0 the default, 1 inside of the application, 2 on the device,
  3 across devices, 99 unknown.\<close>

record clipboard_info =
  cbPolicy :: int
  cbUserId :: user_id
  cbBundleName :: string

definition ClipboardInfo0 :: clipboard_info where
  "ClipboardInfo0 = \<lparr> cbPolicy = 0, cbUserId = -1, cbBundleName = [] \<rparr>"

definition ConvertToClipboardPolicy :: "int \<Rightarrow> int" where
  "ConvertToClipboardPolicy policy = (if policy \<in> {0, 1, 2, 3} then policy else 99)"

text \<open>An item of wrong types is skipped, a missing token or policy ends the loop.\<close>

definition Clipboard_item :: "json \<Rightarrow> (int, clipboard_info) amap \<Rightarrow> (int, clipboard_info) amap option" where
  "Clipboard_item item result =
     (case (GetObjectItem item ''tokenId'', GetObjectItem item ''clipboardPolicy'') of
        (Some t, Some p) \<Rightarrow>
          (case (t, p) of
             (JNumber t, JNumber p) \<Rightarrow>
               (let info = ClipboardInfo0\<lparr>cbPolicy := ConvertToClipboardPolicy (valueint p)\<rparr>;
                    user = GetObjectItem item ''userId''; bundle = GetObjectItem item ''bundleName''
                in if user \<noteq> None \<and> NumberItem item ''userId'' = None then Some result
                   else if bundle \<noteq> None \<and> StringItem item ''bundleName'' = None then Some result
                   else Some (ordered_insert (valueint t)
                     (info\<lparr>cbUserId := (case NumberItem item ''userId'' of Some u \<Rightarrow> valueint u | None \<Rightarrow> cbUserId info),
                       cbBundleName := (case StringItem item ''bundleName'' of Some b \<Rightarrow> b | None \<Rightarrow> cbBundleName info)\<rparr>) result))
           | _ \<Rightarrow> Some result)
      | _ \<Rightarrow> None)"

definition Clipboard_Deserialize :: "cjson \<Rightarrow> string \<Rightarrow> (int, clipboard_info) amap \<Rightarrow> bool \<times> (int, clipboard_info) amap" where
  "Clipboard_Deserialize J data result =
     (case cj_parse J data of None \<Rightarrow> (True, result) | Some root \<Rightarrow> each_item Clipboard_item (json_children root) result)"

definition Clipboard_Serialize :: "cjson \<Rightarrow> (int, clipboard_info) amap \<Rightarrow> string \<Rightarrow> bool \<times> string" where
  "Clipboard_Serialize J result data =
     (if result = [] then (True, data)
      else print_array J (\<lambda>(t, i). object_with J (AddNumber J ''tokenId'' t @ AddNumber J ''userId'' (cbUserId i)
        @ AddString J ''bundleName'' (cbBundleName i) @ AddNumber J ''clipboardPolicy'' (cbPolicy i))) result data)"

text \<open>The strictest policy of every token; a default policy among the data ends the merge with \<open>false\<close>.\<close>

definition Clipboard_merge_item :: "int \<times> clipboard_info \<Rightarrow> (int, clipboard_info) amap \<Rightarrow> (int, clipboard_info) amap option" where
  "Clipboard_merge_item kv result =
     (if cbPolicy (snd kv) = 0 then None
      else Some (case map_of result (fst kv) of
          None \<Rightarrow> map_put (fst kv) (snd kv) result
        | Some i \<Rightarrow> (if cbPolicy (snd kv) < cbPolicy i then map_put (fst kv) (snd kv) result else result)))"

definition Clipboard_MergePolicy :: "(int, clipboard_info) amap list \<Rightarrow> (int, clipboard_info) amap
    \<Rightarrow> bool \<times> (int, clipboard_info) amap" where
  "Clipboard_MergePolicy data result = each_item Clipboard_merge_item (concat data) result"

subsection \<open>Fingerprints\<close>

record fingerprint_policy =
  globalDisallow :: bool
  fpAccountIds :: "user_id list"

definition Fingerprint_Deserialize :: "cjson \<Rightarrow> string \<Rightarrow> fingerprint_policy \<Rightarrow> bool \<times> fingerprint_policy" where
  "Fingerprint_Deserialize J data result =
     (case cj_parse J data of
        None \<Rightarrow> (True, result)
      | Some (JBool b) \<Rightarrow> (True, result\<lparr>globalDisallow := b\<rparr>)
      | Some root \<Rightarrow> (True, result\<lparr>fpAccountIds := sort_unique (fpAccountIds result
          @ List.map_filter (\<lambda>e. case e of JNumber n \<Rightarrow> Some (valueint n) | _ \<Rightarrow> None) (json_children root))\<rparr>))"

definition Fingerprint_Serialize :: "cjson \<Rightarrow> fingerprint_policy \<Rightarrow> string \<Rightarrow> bool \<times> string" where
  "Fingerprint_Serialize J result data =
     (if globalDisallow result then (True, CONST_TRUE)
      else if fpAccountIds result = [] then (True, data)
      else if \<not> cj_create_array J then (False, data)
      else (case cj_print J (JArray (List.map_filter (cj_create_number J) (fpAccountIds result))) of
              None \<Rightarrow> (False, data) | Some t \<Rightarrow> (True, t)))"

fun Fingerprint_MergePolicy :: "fingerprint_policy list \<Rightarrow> fingerprint_policy \<Rightarrow> bool \<times> fingerprint_policy" where
  "Fingerprint_MergePolicy [] result = (True, result)"
| "Fingerprint_MergePolicy (d # data) result =
     (if globalDisallow result \<or> globalDisallow d then (True, \<lparr> globalDisallow = True, fpAccountIds = [] \<rparr>)
      else Fingerprint_MergePolicy data (result\<lparr>fpAccountIds := sort_unique (fpAccountIds result @ fpAccountIds d)\<rparr>))"

subsection \<open>Watermarks\<close>

text \<open>The key is bundle and account.\<close>

record watermark_image =
  wmFileName :: string
  wmWidth :: int
  wmHeight :: int
  wmIntervalsRow :: int
  wmIntervalsCol :: int

type_synonym watermarks = "(string \<times> user_id, watermark_image) amap"

definition Watermark_item :: "json \<Rightarrow> watermarks \<Rightarrow> watermarks option" where
  "Watermark_item item data =
     (case (StringItem item ''bundleName'', NumberItem item ''accountId'', StringItem item ''fileName'',
            NumberItem item ''width'', NumberItem item ''height'') of
        (Some b, Some a, Some f, Some w, Some h) \<Rightarrow>
          Some (ordered_insert (b, valueint a) \<lparr> wmFileName = f, wmWidth = valueint w, wmHeight = valueint h,
            wmIntervalsRow = (case NumberItem item ''intervalsRow'' of Some r \<Rightarrow> valueint r | None \<Rightarrow> 0),
            wmIntervalsCol = (case NumberItem item ''intervalsCol'' of Some c \<Rightarrow> valueint c | None \<Rightarrow> 0) \<rparr> data)
      | _ \<Rightarrow> None)"

definition Watermark_Deserialize :: "cjson \<Rightarrow> string \<Rightarrow> watermarks \<Rightarrow> bool \<times> watermarks" where
  "Watermark_Deserialize J policy dataObj =
     (if policy = [] then (True, dataObj)
      else (case cj_parse J policy of None \<Rightarrow> (False, dataObj) | Some root \<Rightarrow> each_item Watermark_item (json_children root) dataObj))"

definition Watermark_Serialize :: "cjson \<Rightarrow> watermarks \<Rightarrow> string \<Rightarrow> bool \<times> string" where
  "Watermark_Serialize J dataObj policy =
     (if dataObj = [] then (True, policy)
      else print_array J (\<lambda>((b, a), i). object_with J (AddString J ''bundleName'' b @ AddNumber J ''accountId'' a
        @ AddString J ''fileName'' (wmFileName i) @ AddNumber J ''width'' (wmWidth i) @ AddNumber J ''height'' (wmHeight i)
        @ AddNumber J ''intervalsRow'' (wmIntervalsRow i) @ AddNumber J ''intervalsCol'' (wmIntervalsCol i))) dataObj policy)"

definition Watermark_MergePolicy :: "watermarks list \<Rightarrow> watermarks \<Rightarrow> bool \<times> watermarks" where
  "Watermark_MergePolicy data result = (True, if data \<noteq> [] then last data else result)"

subsection \<open>Telephone calls\<close>

record telephony_policy =
  tpNumberList :: "string list"
  tpPolicyFlag :: int

text \<open>The members of an object with their keys. The children of an array have no key; \<open>Deserialize\<close> would read a null pointer
  for a non-empty array, which \<open>Serialize\<close> never writes, so arrays are left out.\<close>

definition json_members :: "json \<Rightarrow> (string \<times> json) list" where
  "json_members j = (case j of JObject kvs \<Rightarrow> kvs | _ \<Rightarrow> [])"

definition all_strings :: "json list \<Rightarrow> string list option" where
  "all_strings xs = (if list_all (\<lambda>x. case x of JString _ \<Rightarrow> True | _ \<Rightarrow> False) xs
     then Some (List.map_filter (\<lambda>x. case x of JString s \<Rightarrow> Some s | _ \<Rightarrow> None) xs) else None)"

definition Telephony_item :: "string \<times> json \<Rightarrow> (string, telephony_policy) amap \<Rightarrow> (string, telephony_policy) amap option" where
  "Telephony_item kv data =
     (case (GetObjectItem (snd kv) ''numberList'', NumberItem (snd kv) ''policyFlag'') of
        (Some (JArray xs), Some flag) \<Rightarrow>
          (case all_strings xs of
             None \<Rightarrow> None
           | Some numbers \<Rightarrow> Some (map_put (fst kv) \<lparr> tpNumberList = numbers, tpPolicyFlag = valueint flag \<rparr> data))
      | _ \<Rightarrow> None)"

definition Telephony_Deserialize :: "cjson \<Rightarrow> string \<Rightarrow> (string, telephony_policy) amap \<Rightarrow> bool \<times> (string, telephony_policy) amap" where
  "Telephony_Deserialize J policy dataObj =
     (if policy = [] then (True, dataObj)
      else (case cj_parse J policy of None \<Rightarrow> (False, dataObj) | Some root \<Rightarrow> each_item Telephony_item (json_members root) dataObj))"

definition Telephony_CreateArray :: "cjson \<Rightarrow> string list \<Rightarrow> json option" where
  "Telephony_CreateArray J numberList =
     (if \<not> cj_create_array J then None
      else (case create_all (cj_create_string J) numberList of None \<Rightarrow> None | Some js \<Rightarrow> Some (JArray js)))"

definition Telephony_member :: "cjson \<Rightarrow> string \<times> telephony_policy \<Rightarrow> (string \<times> json) option" where
  "Telephony_member J kv =
     (case Telephony_CreateArray J (tpNumberList (snd kv)) of
        None \<Rightarrow> None
      | Some a \<Rightarrow> Some (fst kv, JObject (AddNumber J ''policyFlag'' (tpPolicyFlag (snd kv)) @ [(''numberList'', a)])))"

definition Telephony_Serialize :: "cjson \<Rightarrow> (string, telephony_policy) amap \<Rightarrow> string \<Rightarrow> bool \<times> string" where
  "Telephony_Serialize J dataObj policy =
     (if \<not> cj_create_object J then (False, policy)
      else (let members = map (Telephony_member J) dataObj in
            if None \<in> set members then (False, policy)
            else (case cj_print J (JObject (List.map_filter (\<lambda>m. m) members)) of None \<Rightarrow> (False, policy) | Some t \<Rightarrow> (True, t))))"

subsection \<open>Passwords\<close>

text \<open>\<open>PasswordAlgs::NONE\<close> is -1.\<close>

record password_policy =
  complexityReg :: string
  validityPeriod :: int
  additionalDescription :: string
  passwordAlgs :: int

definition PasswordPolicy0 :: password_policy where
  "PasswordPolicy0 = \<lparr> complexityReg = [], validityPeriod = 0, additionalDescription = [], passwordAlgs = -1 \<rparr>"

definition Password_Deserialize :: "cjson \<Rightarrow> string \<Rightarrow> password_policy \<Rightarrow> bool \<times> password_policy" where
  "Password_Deserialize J jsonString policy =
     (if jsonString = [] then (True, policy)
      else (case cj_parse J jsonString of
              None \<Rightarrow> (False, policy)
            | Some root \<Rightarrow>
                (case (StringItem root ''complexityReg'', NumberItem root ''validityPeriod'', StringItem root ''additionalDescription'') of
                   (Some c, Some v, Some d) \<Rightarrow>
                     (True, \<lparr> complexityReg = c, validityPeriod = v, additionalDescription = d,
                        passwordAlgs = (case NumberItem root ''pinAlgoType'' of Some a \<Rightarrow> a | None \<Rightarrow> passwordAlgs policy) \<rparr>)
                 | _ \<Rightarrow> (False, policy))))"

definition Password_Serialize :: "cjson \<Rightarrow> password_policy \<Rightarrow> string \<Rightarrow> bool \<times> string" where
  "Password_Serialize J policy jsonString =
     (if \<not> cj_create_object J then (False, jsonString)
      else (case cj_print J (JObject (AddString J ''complexityReg'' (complexityReg policy)
                @ AddNumber J ''validityPeriod'' (validityPeriod policy)
                @ AddString J ''additionalDescription'' (additionalDescription policy)
                @ (if passwordAlgs policy \<noteq> -1 then AddNumber J ''pinAlgoType'' (passwordAlgs policy) else []))) of
              None \<Rightarrow> (True, jsonString) | Some t \<Rightarrow> (True, t)))"

definition Password_MergePolicy :: "password_policy list \<Rightarrow> password_policy \<Rightarrow> bool \<times> password_policy" where
  "Password_MergePolicy data result =
     (True, fold (\<lambda>p r. \<lparr> complexityReg = (if complexityReg p \<noteq> [] then complexityReg p else complexityReg r),
        validityPeriod = (if validityPeriod p \<noteq> 0 then validityPeriod p else validityPeriod r),
        additionalDescription = (if additionalDescription p \<noteq> [] then additionalDescription p else additionalDescription r),
        passwordAlgs = (if passwordAlgs p \<noteq> -1 then passwordAlgs p else passwordAlgs r) \<rparr>) data result)"

subsection \<open>Plain JSON\<close>

definition Cjson_Deserialize :: "cjson \<Rightarrow> string \<Rightarrow> json option \<Rightarrow> bool \<times> json option" where
  "Cjson_Deserialize J jsonString dataObj =
     (if jsonString = [] then (True, dataObj) else (cj_parse J jsonString \<noteq> None, cj_parse J jsonString))"

definition Cjson_Serialize :: "cjson \<Rightarrow> json option \<Rightarrow> string \<Rightarrow> bool \<times> string" where
  "Cjson_Serialize J dataObj jsonString =
     (case dataObj of
        None \<Rightarrow> (False, jsonString)
      | Some j \<Rightarrow> (let t = (case cj_print J j of None \<Rightarrow> jsonString | Some s \<Rightarrow> s) in (t \<noteq> [], t)))"

end
