(* ===== verification/List_Plugins.thy ===== *)
theory List_Plugins
  imports Update_Policy Basic_Plugins Plugin_Codes Query_Codes Query_Serializers
begin

text \<open>
  The policy plugins of \<open>services/edm_plugin/src\<close> that keep a list: the subclasses of \<open>BasicArrayStringPlugin\<close>. Each registers the handlers of its base class, or its own, with the class template, and
  overrides what it does to the rest of the system.
\<close>

abbreviation (input) POLICY_LIST_OVER_SIZE :: err_code where "POLICY_LIST_OVER_SIZE \<equiv> 9200019"
abbreviation (input) PREREQUISITES_NOT_SATISFIED_FAILED :: err_code where "PREREQUISITES_NOT_SATISFIED_FAILED \<equiv> 9201043"
abbreviation (input) CANNOT_DISALLOW_PERMISSION :: err_code where "CANNOT_DISALLOW_PERMISSION \<equiv> 9201045"

abbreviation (input) APPID_MAX_SIZE :: nat where "APPID_MAX_SIZE \<equiv> 200"
abbreviation (input) BLUETOOTH_LIST_MAX_SIZE :: nat where "BLUETOOTH_LIST_MAX_SIZE \<equiv> 1000"
abbreviation (input) ALLOWED_PRINTER_IP_ADDRESSES_MAX_SIZE :: nat where "ALLOWED_PRINTER_IP_ADDRESSES_MAX_SIZE \<equiv> 100"



subsection \<open>The services a list plugin calls\<close>

datatype install_rule = ALLOWED_INSTALL | DISALLOWED_INSTALL | DISALLOWED_UNINSTALL

datatype apl = APL_NORMAL | APL_SYSTEM_BASIC | APL_SYSTEM_CORE

text \<open>The bundle manager and its proxy for application control may be null pointers.\<close>

record 'w list_services =
  ls_ReadStrings :: "'w \<Rightarrow> string list option \<times> 'w"
  ls_BundleManager :: "'w \<Rightarrow> bool"
  ls_AppControlProxy :: "'w \<Rightarrow> bool"
  ls_AddAppRunningControlRule :: "(string \<times> bool) list \<Rightarrow> user_id \<Rightarrow> 'w \<Rightarrow> err_code \<times> 'w"
  ls_DeleteAppRunningControlRule :: "(string \<times> bool) list \<Rightarrow> user_id \<Rightarrow> 'w \<Rightarrow> err_code \<times> 'w"
  ls_AddAppInstallControlRule :: "string list \<Rightarrow> install_rule \<Rightarrow> user_id \<Rightarrow> 'w \<Rightarrow> err_code \<times> 'w"
  ls_DeleteAppInstallControlRule :: "install_rule \<Rightarrow> string list \<Rightarrow> user_id \<Rightarrow> 'w \<Rightarrow> err_code \<times> 'w"
  ls_GetBoolParameter :: "string \<Rightarrow> bool \<Rightarrow> 'w \<Rightarrow> bool"
  ls_PublishCommonEvent :: "string \<Rightarrow> string \<Rightarrow> 'w \<Rightarrow> bool \<times> 'w"
  ls_GetDefPermission :: "string \<Rightarrow> 'w \<Rightarrow> err_code \<times> apl"
  ls_SetUserPolicy :: "(string \<times> bool \<times> (user_id \<times> bool) list) list \<Rightarrow> 'w \<Rightarrow> err_code \<times> 'w"

text \<open>The template over \<open>ArrayStringSerializer\<close>, with no listener.\<close>

definition string_lists :: "cjson \<Rightarrow> 'w list_services \<Rightarrow> (string list, 's pm_state \<times> 'w) template" where
  "string_lists J S = \<lparr> tDeserialize = ArrayString_Deserialize J, tSerialize = ArrayString_Serialize J,
     tMergePolicy = ArrayString_MergePolicy,
     tGetPolicy = (\<lambda>result (s, w). let (v, w) = ls_ReadStrings S w; (ok, d) = ArrayString_GetPolicy v result in (ok, d, s, w)),
     uninit = [], handlePolicyFuncMap = [], handlePolicyDoneFuncMap = [], adminRemoveFunc = None, adminRemoveDoneFunc = None \<rparr>"

text \<open>The hooks of a list that overrides nothing.\<close>

definition list_hooks :: "nat \<Rightarrow> ('a, 'v) array_hooks" where
  "list_hooks maxSize = \<lparr> setOtherModule = Array_SetOtherModulePolicy, removeOtherModule = Array_RemoveOtherModulePolicy,
     maxListSize = maxSize, overMaxReturnErrCode = PARAM_ERROR \<rparr>"

text \<open>Registering the handlers of the base class.\<close>

definition basic_handlers :: "(string, 'v) array_hooks \<Rightarrow> (string list, 'v) template \<Rightarrow> (string list, 'v) template" where
  "basic_handlers H T = SetOnHandlePolicyListener (HandleBiFunction (OnBasicRemovePolicy H)) OP_REMOVE
     (SetOnHandlePolicyListener (HandleBiFunction (OnBasicSetPolicy H)) OP_SET T)"

definition list_attribute :: "u32 \<Rightarrow> string \<Rightarrow> permission_config \<Rightarrow> ('s, 'w) plugin" where
  "list_attribute code name config =
     IPlugin\<lparr>policyCode := code, policyName := name, permissionConfig := config, needSave := True, isGlobal := True\<rparr>"

subsection \<open>Applications that may run\<close>

definition DealAppRunningRules :: "'w list_services \<Rightarrow> string list \<Rightarrow> user_id \<Rightarrow> bool \<Rightarrow> bool \<Rightarrow> 'w \<Rightarrow> err_code \<times> 'w" where
  "DealAppRunningRules S data userId isTrustList isAdd w =
     (let controlRules = map (\<lambda>str. (str, isTrustList)) data in
      if \<not> ls_BundleManager S w then (SYSTEM_ABNORMALLY, w)
      else if \<not> ls_AppControlProxy S w then (SYSTEM_ABNORMALLY, w)
      else
        (let (res, w) = (if isAdd then ls_AddAppRunningControlRule S controlRules userId w
                         else ls_DeleteAppRunningControlRule S controlRules userId w)
         in (if res \<noteq> ERR_OK then SYSTEM_ABNORMALLY else ERR_OK, w)))"

definition AllowedRunningBundles_HasConflictPolicy :: "'s rdb \<Rightarrow> user_id \<Rightarrow> 's pm_state \<Rightarrow> bool \<times> 's pm_state" where
  "AllowedRunningBundles_HasConflictPolicy R userId s =
     (let (_, v, s) = PolicyManager_GetPolicy R [] POLICY_DISALLOW_RUNNING_BUNDLES [] userId s in (v \<noteq> [], s))"

definition AllowedRunningBundles_SetOtherModulePolicy :: "'s rdb \<Rightarrow> 'w list_services \<Rightarrow> string list \<Rightarrow> user_id \<Rightarrow> 's pm_state \<times> 'w
    \<Rightarrow> err_code \<times> string list \<times> 's pm_state \<times> 'w" where
  "AllowedRunningBundles_SetOtherModulePolicy R S data userId = (\<lambda>(s, w).
     (let (conflict, s) = AllowedRunningBundles_HasConflictPolicy R userId s in
      if conflict then (CONFIGURATION_CONFLICT_FAILED, [], s, w)
      else (let (err, w) = DealAppRunningRules S data userId True True w in (err, [], s, w))))"

definition AllowedRunningBundles_RemoveOtherModulePolicy :: "'w list_services \<Rightarrow> string list \<Rightarrow> user_id \<Rightarrow> 's pm_state \<times> 'w
    \<Rightarrow> err_code \<times> string list \<times> 's pm_state \<times> 'w" where
  "AllowedRunningBundles_RemoveOtherModulePolicy S data userId = (\<lambda>(s, w).
     (let (err, w) = DealAppRunningRules S data userId True False w in (err, [], s, w)))"

definition AllowedRunningBundlesPlugin :: "'s rdb \<Rightarrow> cjson \<Rightarrow> 'w list_services \<Rightarrow> ('s, 'w) plugin" where
  "AllowedRunningBundlesPlugin R J S =
     (let H = (list_hooks APPID_MAX_SIZE)\<lparr>setOtherModule := AllowedRunningBundles_SetOtherModulePolicy R S,
            removeOtherModule := AllowedRunningBundles_RemoveOtherModulePolicy S,
            overMaxReturnErrCode := PARAMETER_VERIFICATION_FAILED\<rparr>
      in IPluginTemplate R (SetOnAdminRemoveListener (RemoveBiFunction (OnBasicAdminRemove H)) (basic_handlers H (string_lists J S)))
        (list_attribute IC_ALLOW_RUNNING_BUNDLES POLICY_ALLOW_RUNNING_BUNDLES
           (PolicyPermissionConfig PERMISSION_ENTERPRISE_MANAGE_APPLICATION SUPER_DEVICE_ADMIN API_PUBLIC)))"

definition DisallowedRunningBundles_HasConflictPolicy :: "'s rdb \<Rightarrow> user_id \<Rightarrow> 's pm_state \<Rightarrow> bool \<times> 's pm_state" where
  "DisallowedRunningBundles_HasConflictPolicy R userId s =
     (let (_, v, s) = PolicyManager_GetPolicy R [] POLICY_ALLOW_RUNNING_BUNDLES [] userId s in (v \<noteq> [], s))"

definition DisallowedRunningBundles_SetOtherModulePolicy :: "'s rdb \<Rightarrow> 'w list_services \<Rightarrow> string list \<Rightarrow> user_id \<Rightarrow> 's pm_state \<times> 'w
    \<Rightarrow> err_code \<times> string list \<times> 's pm_state \<times> 'w" where
  "DisallowedRunningBundles_SetOtherModulePolicy R S data userId = (\<lambda>(s, w).
     (let (conflict, s) = DisallowedRunningBundles_HasConflictPolicy R userId s in
      if conflict then (CONFIGURATION_CONFLICT_FAILED, [], s, w)
      else (let (err, w) = DealAppRunningRules S data userId False True w in (err, [], s, w))))"

definition DisallowedRunningBundles_RemoveOtherModulePolicy :: "'w list_services \<Rightarrow> string list \<Rightarrow> user_id \<Rightarrow> 's pm_state \<times> 'w
    \<Rightarrow> err_code \<times> string list \<times> 's pm_state \<times> 'w" where
  "DisallowedRunningBundles_RemoveOtherModulePolicy S data userId = (\<lambda>(s, w).
     (let (err, w) = DealAppRunningRules S data userId False False w in (err, [], s, w)))"

definition DisallowedRunningBundlesPlugin :: "'s rdb \<Rightarrow> cjson \<Rightarrow> 'w list_services \<Rightarrow> ('s, 'w) plugin" where
  "DisallowedRunningBundlesPlugin R J S =
     (let H = (list_hooks APPID_MAX_SIZE)\<lparr>setOtherModule := DisallowedRunningBundles_SetOtherModulePolicy R S,
            removeOtherModule := DisallowedRunningBundles_RemoveOtherModulePolicy S\<rparr>
      in IPluginTemplate R (SetOnAdminRemoveListener (RemoveBiFunction (OnBasicAdminRemove H)) (basic_handlers H (string_lists J S)))
        (list_attribute IC_DISALLOW_RUNNING_BUNDLES POLICY_DISALLOW_RUNNING_BUNDLES
           \<lparr> tagPermissions =
               [(PERMISSION_TAG_VERSION_11, [(SUPER_DEVICE_ADMIN, PERMISSION_ENTERPRISE_MANAGE_SET_APP_RUNNING_POLICY)]),
                (PERMISSION_TAG_VERSION_12, [(SUPER_DEVICE_ADMIN, PERMISSION_ENTERPRISE_MANAGE_APPLICATION)])],
             typePermissions = [], apiType = API_PUBLIC \<rparr>))"

subsection \<open>Applications that may be installed\<close>

definition BundleInstall_SetOtherModulePolicy :: "'w list_services \<Rightarrow> install_rule \<Rightarrow> string list \<Rightarrow> user_id \<Rightarrow> 's pm_state \<times> 'w
    \<Rightarrow> err_code \<times> string list \<times> 's pm_state \<times> 'w" where
  "BundleInstall_SetOtherModulePolicy S rule data userId = (\<lambda>(s, w).
     (if \<not> (ls_BundleManager S w \<and> ls_AppControlProxy S w) then (SYSTEM_ABNORMALLY, [], s, w)
      else (let (res, w) = ls_AddAppInstallControlRule S data rule userId w
            in (if res \<noteq> ERR_OK then SYSTEM_ABNORMALLY else ERR_OK, [], s, w))))"

definition BundleInstall_RemoveOtherModulePolicy :: "'w list_services \<Rightarrow> install_rule \<Rightarrow> string list \<Rightarrow> user_id \<Rightarrow> 's pm_state \<times> 'w
    \<Rightarrow> err_code \<times> string list \<times> 's pm_state \<times> 'w" where
  "BundleInstall_RemoveOtherModulePolicy S rule data userId = (\<lambda>(s, w).
     (if \<not> (ls_BundleManager S w \<and> ls_AppControlProxy S w) then (SYSTEM_ABNORMALLY, [], s, w)
      else (let (res, w) = ls_DeleteAppInstallControlRule S rule data userId w
            in (if res \<noteq> ERR_OK then SYSTEM_ABNORMALLY else ERR_OK, [], s, w))))"

definition install_hooks :: "'w list_services \<Rightarrow> install_rule \<Rightarrow> (string, 's pm_state \<times> 'w) array_hooks" where
  "install_hooks S rule = (list_hooks APPID_MAX_SIZE)\<lparr>setOtherModule := BundleInstall_SetOtherModulePolicy S rule,
     removeOtherModule := BundleInstall_RemoveOtherModulePolicy S rule\<rparr>"

definition AllowedInstallBundlesPlugin :: "'s rdb \<Rightarrow> cjson \<Rightarrow> 'w list_services \<Rightarrow> ('s, 'w) plugin" where
  "AllowedInstallBundlesPlugin R J S =
     (let H = install_hooks S ALLOWED_INSTALL in
      IPluginTemplate R (SetOnAdminRemoveListener (RemoveBiFunction (OnBasicAdminRemove H)) (basic_handlers H (string_lists J S)))
        (list_attribute IC_ALLOWED_INSTALL_BUNDLES POLICY_ALLOWED_INSTALL_BUNDLES
           (PolicyPermissionConfig PERMISSION_ENTERPRISE_SET_BUNDLE_INSTALL_POLICY SUPER_DEVICE_ADMIN API_PUBLIC)))"

definition DisallowedInstallBundlesPlugin :: "'s rdb \<Rightarrow> cjson \<Rightarrow> 'w list_services \<Rightarrow> ('s, 'w) plugin" where
  "DisallowedInstallBundlesPlugin R J S =
     (let H = install_hooks S DISALLOWED_INSTALL in
      IPluginTemplate R (SetOnAdminRemoveListener (RemoveBiFunction (OnBasicAdminRemove H)) (basic_handlers H (string_lists J S)))
        (list_attribute IC_DISALLOWED_INSTALL_BUNDLES POLICY_DISALLOWED_INSTALL_BUNDLES
           (PolicyPermissionConfig PERMISSION_ENTERPRISE_SET_BUNDLE_INSTALL_POLICY SUPER_DEVICE_ADMIN API_PUBLIC)))"

definition DisallowedUninstallBundlesPlugin :: "'s rdb \<Rightarrow> cjson \<Rightarrow> 'w list_services \<Rightarrow> ('s, 'w) plugin" where
  "DisallowedUninstallBundlesPlugin R J S =
     (let H = install_hooks S DISALLOWED_UNINSTALL in
      IPluginTemplate R (SetOnAdminRemoveListener (RemoveBiFunction (OnBasicAdminRemove H)) (basic_handlers H (string_lists J S)))
        (list_attribute IC_DISALLOWED_UNINSTALL_BUNDLES POLICY_DISALLOWED_UNINSTALL_BUNDLES
           (PolicyPermissionConfig PERMISSION_ENTERPRISE_SET_BUNDLE_INSTALL_POLICY SUPER_DEVICE_ADMIN API_PUBLIC)))"

subsection \<open>Bluetooth devices\<close>

definition hex_char :: "char \<Rightarrow> bool" where
  "hex_char c = (let n = of_char c :: nat in (48 \<le> n \<and> n \<le> 57) \<or> (97 \<le> n \<and> n \<le> 102) \<or> (65 \<le> n \<and> n \<le> 70))"

text \<open>The regular expression of a device id: two hexadecimal digits, and five more pairs after colons.\<close>

fun colon_pairs :: "nat \<Rightarrow> string \<Rightarrow> bool" where
  "colon_pairs 0 s = (s = [])"
| "colon_pairs (Suc n) (c # a # b # s) = (c = CHR '':'' \<and> hex_char a \<and> hex_char b \<and> colon_pairs n s)"
| "colon_pairs (Suc n) _ = False"

definition device_id_match :: "string \<Rightarrow> bool" where
  "device_id_match item = (case item of a # b # s \<Rightarrow> hex_char a \<and> hex_char b \<and> colon_pairs 5 s | _ \<Rightarrow> False)"

definition AllowedBluetoothDevices_SetOtherModulePolicy :: "'s rdb \<Rightarrow> 'w list_services \<Rightarrow> string list \<Rightarrow> user_id \<Rightarrow> 's pm_state \<times> 'w
    \<Rightarrow> err_code \<times> string list \<times> 's pm_state \<times> 'w" where
  "AllowedBluetoothDevices_SetOtherModulePolicy R S data userId = (\<lambda>(s, w).
     (let failedData = filter (\<lambda>item. \<not> device_id_match item) data in
      if length failedData = length data then (ERR_OK, failedData, s, w)
      else if ls_GetBoolParameter S ''persist.edm.prohibit_bluetooth'' False w then (CONFIGURATION_CONFLICT_FAILED, failedData, s, w)
      else
        (let (_, v, s) = PolicyManager_GetPolicy R [] POLICY_DISALLOWED_BLUETOOTH_DEVICES [] DEFAULT_USER_ID s
         in (if v \<noteq> [] then CONFIGURATION_CONFLICT_FAILED else ERR_OK, failedData, s, w))))"

definition AllowedBluetoothDevices_NotifyBluetoothDevicesChanged :: "'w list_services \<Rightarrow> 's pm_state \<times> 'w \<Rightarrow> 's pm_state \<times> 'w" where
  "AllowedBluetoothDevices_NotifyBluetoothDevicesChanged S = (\<lambda>(s, w).
     (s, snd (ls_PublishCommonEvent S ''com.ohos.edm.bluetoothdeviceschanged'' [] w)))"

definition AllowedBluetoothDevices_OnChangedPolicyDone :: "'w list_services \<Rightarrow> bool \<Rightarrow> 's pm_state \<times> 'w \<Rightarrow> 's pm_state \<times> 'w" where
  "AllowedBluetoothDevices_OnChangedPolicyDone S isGlobalChanged x =
     (if \<not> isGlobalChanged then x else AllowedBluetoothDevices_NotifyBluetoothDevicesChanged S x)"

definition AllowedBluetoothDevicesPlugin :: "'s rdb \<Rightarrow> cjson \<Rightarrow> 'w list_services \<Rightarrow> ('s, 'w) plugin" where
  "AllowedBluetoothDevicesPlugin R J S =
     (let H = (list_hooks BLUETOOTH_LIST_MAX_SIZE)\<lparr>setOtherModule := AllowedBluetoothDevices_SetOtherModulePolicy R S\<rparr>;
          done = DoneBoolConsumer (AllowedBluetoothDevices_OnChangedPolicyDone S)
      in IPluginTemplate R
        (SetOnAdminRemoveDoneListener (RemoveDoneRunner (AllowedBluetoothDevices_NotifyBluetoothDevicesChanged S))
          (SetOnHandlePolicyDoneListener done OP_REMOVE (SetOnHandlePolicyDoneListener done OP_SET
            (basic_handlers H (string_lists J S)))))
        (list_attribute IC_ALLOWED_BLUETOOTH_DEVICES POLICY_ALLOWED_BLUETOOTH_DEVICES
           (PolicyPermissionConfig PERMISSION_ENTERPRISE_MANAGE_BLUETOOTH SUPER_DEVICE_ADMIN API_PUBLIC)))"

definition DisallowedBluetoothDevices_SetOtherModulePolicy :: "'s rdb \<Rightarrow> 'w list_services \<Rightarrow> string list \<Rightarrow> user_id \<Rightarrow> 's pm_state \<times> 'w
    \<Rightarrow> err_code \<times> string list \<times> 's pm_state \<times> 'w" where
  "DisallowedBluetoothDevices_SetOtherModulePolicy R S data userId = (\<lambda>(s, w).
     (let failedData = filter (\<lambda>item. \<not> device_id_match item) data in
      if length failedData = length data then (ERR_OK, failedData, s, w)
      else if ls_GetBoolParameter S ''persist.edm.prohibit_bluetooth'' False w then (CONFIGURATION_CONFLICT_FAILED, failedData, s, w)
      else
        (let (_, v, s) = PolicyManager_GetPolicy R [] POLICY_ALLOWED_BLUETOOTH_DEVICES [] DEFAULT_USER_ID s
         in (if v \<noteq> [] then CONFIGURATION_CONFLICT_FAILED else ERR_OK, failedData, s, w))))"

definition DisallowedBluetoothDevices_NotifyBluetoothDevicesChanged :: "'w list_services \<Rightarrow> 's pm_state \<times> 'w \<Rightarrow> 's pm_state \<times> 'w" where
  "DisallowedBluetoothDevices_NotifyBluetoothDevicesChanged S = (\<lambda>(s, w).
     (s, snd (ls_PublishCommonEvent S ''com.ohos.edm.disallowedbluetoothdeviceschanged'' [] w)))"

definition DisallowedBluetoothDevices_OnChangedPolicyDone :: "'w list_services \<Rightarrow> bool \<Rightarrow> 's pm_state \<times> 'w \<Rightarrow> 's pm_state \<times> 'w" where
  "DisallowedBluetoothDevices_OnChangedPolicyDone S isGlobalChanged x =
     (if \<not> isGlobalChanged then x else DisallowedBluetoothDevices_NotifyBluetoothDevicesChanged S x)"

definition DisallowedBluetoothDevicesPlugin :: "'s rdb \<Rightarrow> cjson \<Rightarrow> 'w list_services \<Rightarrow> ('s, 'w) plugin" where
  "DisallowedBluetoothDevicesPlugin R J S =
     (let H = (list_hooks BLUETOOTH_LIST_MAX_SIZE)\<lparr>setOtherModule := DisallowedBluetoothDevices_SetOtherModulePolicy R S\<rparr>;
          done = DoneBoolConsumer (DisallowedBluetoothDevices_OnChangedPolicyDone S)
      in IPluginTemplate R
        (SetOnAdminRemoveDoneListener (RemoveDoneRunner (DisallowedBluetoothDevices_NotifyBluetoothDevicesChanged S))
          (SetOnHandlePolicyDoneListener done OP_REMOVE (SetOnHandlePolicyDoneListener done OP_SET
            (basic_handlers H (string_lists J S)))))
        (list_attribute IC_DISALLOWED_BLUETOOTH_DEVICES POLICY_DISALLOWED_BLUETOOTH_DEVICES
           (PolicyPermissionConfig PERMISSION_ENTERPRISE_MANAGE_BLUETOOTH SUPER_DEVICE_ADMIN API_PUBLIC)))"

subsection \<open>Collaboration\<close>

definition AllowedCollaborationServiceBundles_SetOtherModulePolicy :: "'s rdb \<Rightarrow> string list \<Rightarrow> user_id \<Rightarrow> 's pm_state \<times> 'w
    \<Rightarrow> err_code \<times> string list \<times> 's pm_state \<times> 'w" where
  "AllowedCollaborationServiceBundles_SetOtherModulePolicy R data userId = (\<lambda>(s, w).
     (let (_, v, s) = PolicyManager_GetPolicy R [] POLICY_DISALLOWED_DISTRIBUTED_TRANSMISSION [] userId s
      in (if v \<noteq> ''true'' then PREREQUISITES_NOT_SATISFIED_FAILED else ERR_OK, [], s, w)))"

definition AllowedCollaborationServiceBundlesPlugin :: "'s rdb \<Rightarrow> cjson \<Rightarrow> 'w list_services \<Rightarrow> ('s, 'w) plugin" where
  "AllowedCollaborationServiceBundlesPlugin R J S =
     (let H = (list_hooks APPID_MAX_SIZE)\<lparr>setOtherModule := AllowedCollaborationServiceBundles_SetOtherModulePolicy R,
            overMaxReturnErrCode := PARAMETER_VERIFICATION_FAILED\<rparr>
      in IPluginTemplate R (SetOnAdminRemoveListener (RemoveBiFunction (OnBasicAdminRemove H)) (basic_handlers H (string_lists J S)))
        (list_attribute IC_ALLOWED_COLLABORATION_SERVICE_BUNDLES POLICY_ALLOWED_COLLABORATION_SERVICE_BUNDLES
           (PolicyPermissionConfig PERMISSION_ENTERPRISE_MANAGE_APPLICATION SUPER_DEVICE_ADMIN API_PUBLIC)))"

subsection \<open>Permissions\<close>

fun AddOrRemoveAccessTokenPolicy :: "'w list_services \<Rightarrow> string list \<Rightarrow> user_id \<Rightarrow> bool \<Rightarrow> 'w \<Rightarrow> err_code \<times> 'w" where
  "AddOrRemoveAccessTokenPolicy S [] userId isAdd w = (ERR_OK, w)"
| "AddOrRemoveAccessTokenPolicy S (perm # rest) userId isAdd w =
     (let (perReturn, level) = ls_GetDefPermission S perm w in
      if FAILED perReturn then (PARAMETER_VERIFICATION_FAILED, w)
      else if level \<noteq> APL_SYSTEM_BASIC \<and> level \<noteq> APL_NORMAL then (CANNOT_DISALLOW_PERMISSION, w)
      else
        (let (setRet, w) = ls_SetUserPolicy S [(perm, True, [(userId, isAdd)])] w in
         if FAILED setRet then (PARAMETER_VERIFICATION_FAILED, w) else AddOrRemoveAccessTokenPolicy S rest userId isAdd w))"

definition DisallowedPermission_GetCombinedPolicy :: "'s rdb \<Rightarrow> cjson \<Rightarrow> string \<Rightarrow> user_id \<Rightarrow> 's pm_state \<Rightarrow> string \<times> 's pm_state" where
  "DisallowedPermission_GetCombinedPolicy R J permissionName userId s =
     (let (_, allowedPolicy, s) = PolicyManager_GetPolicy R [] POLICY_ALLOWED_PERMISSION_BUNDLE [] userId s in
      if allowedPolicy = [] then ([], s)
      else (let (_, policyMap) = PermissionBundles_Deserialize J allowedPolicy [] in
            (snd (PermissionBundles_Serialize J (AList.delete permissionName policyMap) []), s)))"

fun clear_permission :: "'s rdb \<Rightarrow> cjson \<Rightarrow> string \<Rightarrow> user_id \<Rightarrow> string \<Rightarrow> (string, string) amap \<Rightarrow> 's pm_state \<Rightarrow> 's pm_state" where
  "clear_permission R J permissionName userId combinePolicy [] s = s"
| "clear_permission R J permissionName userId combinePolicy ((admin, adminPolicy) # rest) s =
     clear_permission R J permissionName userId combinePolicy rest
       (if adminPolicy = [] then s
        else (let (_, policyMap) = PermissionBundles_Deserialize J adminPolicy [] in
              if map_of policyMap permissionName = None then s
              else (let updatedPolicy = snd (PermissionBundles_Serialize J (AList.delete permissionName policyMap) [])
                    in snd (PolicyManager_SetPolicy R admin POLICY_ALLOWED_PERMISSION_BUNDLE updatedPolicy combinePolicy userId s))))"

definition CleanAdminAllowedPermissionBundle :: "'s rdb \<Rightarrow> cjson \<Rightarrow> string \<Rightarrow> user_id \<Rightarrow> string \<Rightarrow> 's pm_state \<Rightarrow> err_code \<times> 's pm_state" where
  "CleanAdminAllowedPermissionBundle R J permissionName userId combinePolicy s =
     (let (ret, m, s) = PolicyManager_GetAdminByPolicyName R POLICY_ALLOWED_PERMISSION_BUNDLE [] userId s in
      if ret \<noteq> ERR_OK \<or> m = [] then (ERR_OK, s)
      else (ERR_OK, clear_permission R J permissionName userId combinePolicy m s))"

text \<open>The loop of \<open>RemoveOtherModulePolicy\<close>.\<close>

fun clean_permissions :: "'s rdb \<Rightarrow> cjson \<Rightarrow> string list \<Rightarrow> user_id \<Rightarrow> 's pm_state \<Rightarrow> 's pm_state" where
  "clean_permissions R J [] userId s = s"
| "clean_permissions R J (permissionName # rest) userId s =
     (let (combinePolicy, s) = DisallowedPermission_GetCombinedPolicy R J permissionName userId s
      in clean_permissions R J rest userId (snd (CleanAdminAllowedPermissionBundle R J permissionName userId combinePolicy s)))"

definition DisallowedPermission_SetOtherModulePolicy :: "'w list_services \<Rightarrow> string list \<Rightarrow> user_id \<Rightarrow> 's pm_state \<times> 'w
    \<Rightarrow> err_code \<times> string list \<times> 's pm_state \<times> 'w" where
  "DisallowedPermission_SetOtherModulePolicy S data userId = (\<lambda>(s, w).
     (let (err, w) = AddOrRemoveAccessTokenPolicy S data userId True w in (err, [], s, w)))"

definition DisallowedPermission_RemoveOtherModulePolicy :: "'s rdb \<Rightarrow> cjson \<Rightarrow> 'w list_services \<Rightarrow> string list \<Rightarrow> user_id \<Rightarrow> 's pm_state \<times> 'w
    \<Rightarrow> err_code \<times> string list \<times> 's pm_state \<times> 'w" where
  "DisallowedPermission_RemoveOtherModulePolicy R J S data userId = (\<lambda>(s, w).
     (let (err, w) = AddOrRemoveAccessTokenPolicy S data userId False w in
      if FAILED err then (err, [], s, w) else (ERR_OK, [], clean_permissions R J data userId s, w)))"

definition DisallowedPermissionPlugin :: "'s rdb \<Rightarrow> cjson \<Rightarrow> 'w list_services \<Rightarrow> ('s, 'w) plugin" where
  "DisallowedPermissionPlugin R J S =
     (let H = (list_hooks APPID_MAX_SIZE)\<lparr>setOtherModule := DisallowedPermission_SetOtherModulePolicy S,
            removeOtherModule := DisallowedPermission_RemoveOtherModulePolicy R J S,
            overMaxReturnErrCode := PARAMETER_VERIFICATION_FAILED\<rparr>
      in IPluginTemplate R (SetOnAdminRemoveListener (RemoveBiFunction (OnBasicAdminRemove H)) (basic_handlers H (string_lists J S)))
        (list_attribute IC_DISALLOWED_PERMISSION POLICY_DISALLOWED_PERMISSION
           (PolicyPermissionConfig PERMISSION_ENTERPRISE_MANAGE_SECURITY SUPER_DEVICE_ADMIN API_PUBLIC)))"

subsection \<open>Printers\<close>

datatype printer_policy = DEVICE_TYPE | USER_TYPE

definition IsDeviceLevelPolicySet :: "'s rdb \<Rightarrow> 's pm_state \<Rightarrow> bool \<times> 's pm_state" where
  "IsDeviceLevelPolicySet R s =
     (let (_, v, s) = PolicyManager_GetPolicy R [] POLICY_ALLOWED_PRINTER_IP_ADDRESSES_FOR_DEVICE [] DEFAULT_USER_ID s in (v \<noteq> [], s))"

fun any_user_printers :: "'s rdb \<Rightarrow> user_id list \<Rightarrow> 's pm_state \<Rightarrow> bool \<times> 's pm_state" where
  "any_user_printers R [] s = (False, s)"
| "any_user_printers R (userId # userIds) s =
     (let (_, v, s) = PolicyManager_GetPolicy R [] POLICY_ALLOWED_PRINTER_IP_ADDRESSES_FOR_ACCOUNT [] userId s
      in if v \<noteq> [] then (True, s) else any_user_printers R userIds s)"

definition IsAnyUserLevelPolicySet :: "'s rdb \<Rightarrow> 's pm_state \<Rightarrow> bool \<times> 's pm_state" where
  "IsAnyUserLevelPolicySet R s =
     (let (_, v, s) = PolicyManager_GetPolicy R [] POLICY_ALLOWED_PRINTER_IP_ADDRESSES_FOR_ACCOUNT [] DEFAULT_USER_ID s
      in if v \<noteq> [] then (True, s) else any_user_printers R (GetPolicyUserIds [] (fst s)) s)"

definition Printer_CheckPolicyConflict :: "'s rdb \<Rightarrow> printer_policy \<Rightarrow> 's pm_state \<Rightarrow> err_code \<times> 's pm_state" where
  "Printer_CheckPolicyConflict R type s =
     (let (conflict, s) = (case type of DEVICE_TYPE \<Rightarrow> IsAnyUserLevelPolicySet R s | USER_TYPE \<Rightarrow> IsDeviceLevelPolicySet R s)
      in (if conflict then CONFIGURATION_CONFLICT_FAILED else ERR_OK, s))"

definition Printer_OnSetPolicy :: "'s rdb \<Rightarrow> printer_policy \<Rightarrow> nat \<Rightarrow> err_code \<Rightarrow> string list \<Rightarrow> string list \<Rightarrow> string list \<Rightarrow> user_id
    \<Rightarrow> 's pm_state \<times> 'w \<Rightarrow> err_code \<times> string list \<times> string list \<times> 's pm_state \<times> 'w" where
  "Printer_OnSetPolicy R type maxSize maxReturnErrCode data currentData mergeData userId = (\<lambda>(s, w).
     (let (conflictResult, s) = Printer_CheckPolicyConflict R type s in
      if FAILED conflictResult then (conflictResult, currentData, mergeData, s, w)
      else if data = [] then (ERR_OK, currentData, mergeData, s, w)
      else if length data > maxSize then (maxReturnErrCode, currentData, mergeData, s, w)
      else
        (let needAddData = ArrayString_SetDifferencePolicyData currentData data;
             afterHandle = ArrayString_SetUnionPolicyData currentData needAddData;
             afterMerge = ArrayString_SetUnionPolicyData mergeData afterHandle
         in if length afterMerge > maxSize then (maxReturnErrCode, currentData, mergeData, s, w)
            else (ERR_OK, afterHandle, afterMerge, s, w))))"

definition Printer_OnRemovePolicy :: "nat \<Rightarrow> err_code \<Rightarrow> string list \<Rightarrow> string list \<Rightarrow> string list \<Rightarrow> user_id
    \<Rightarrow> 's pm_state \<times> 'w \<Rightarrow> err_code \<times> string list \<times> string list \<times> 's pm_state \<times> 'w" where
  "Printer_OnRemovePolicy maxSize maxReturnErrCode data currentData mergeData userId x =
     (if data = [] then (ERR_OK, currentData, mergeData, x)
      else if length data > maxSize then (maxReturnErrCode, currentData, mergeData, x)
      else
        (let needRemovePolicy = ArrayString_SetIntersectionPolicyData data currentData;
             afterHandle = ArrayString_SetDifferencePolicyData needRemovePolicy currentData;
             afterMerge = ArrayString_SetUnionPolicyData afterHandle mergeData
         in (ERR_OK, afterHandle, afterMerge, x)))"

text \<open>Everyone is told with user -1, one user with its id.\<close>

definition NotifyPrintPolicyChanged :: "'w list_services \<Rightarrow> user_id \<Rightarrow> printer_policy \<Rightarrow> 's pm_state \<times> 'w \<Rightarrow> 's pm_state \<times> 'w" where
  "NotifyPrintPolicyChanged S userId type = (\<lambda>(s, w).
     (s, snd (ls_PublishCommonEvent S ''edm.event.PRINT_POLICY''
        (if type = DEVICE_TYPE then ''{'' @ [quote] @ ''user_id'' @ [quote] @ '':-1}''
         else ''{'' @ [quote] @ ''user_id'' @ [quote] @ '':'' @ int_to_string userId @ ''}'') w)))"

definition AllowedPrinterIPAddresses_OnChangedPolicyDone :: "'w list_services \<Rightarrow> bool \<Rightarrow> 's pm_state \<times> 'w \<Rightarrow> 's pm_state \<times> 'w" where
  "AllowedPrinterIPAddresses_OnChangedPolicyDone S isGlobalChanged x =
     (if \<not> isGlobalChanged then x else NotifyPrintPolicyChanged S DEFAULT_USER_ID DEVICE_TYPE x)"

definition AllowedPrinterIPAddressesPlugin :: "'s rdb \<Rightarrow> cjson \<Rightarrow> 'w list_services \<Rightarrow> ('s, 'w) plugin" where
  "AllowedPrinterIPAddressesPlugin R J S =
     (let maxSize = ALLOWED_PRINTER_IP_ADDRESSES_MAX_SIZE; done = DoneBoolConsumer (AllowedPrinterIPAddresses_OnChangedPolicyDone S)
      in IPluginTemplate R
        (SetOnAdminRemoveDoneListener (RemoveDoneRunner (NotifyPrintPolicyChanged S DEFAULT_USER_ID DEVICE_TYPE))
          (SetOnAdminRemoveListener (RemoveBiFunction (OnBasicAdminRemove (list_hooks maxSize)))
            (SetOnHandlePolicyDoneListener done OP_REMOVE (SetOnHandlePolicyDoneListener done OP_SET
              (SetOnHandlePolicyListener (HandleBiFunction (Printer_OnRemovePolicy maxSize POLICY_LIST_OVER_SIZE)) OP_REMOVE
                (SetOnHandlePolicyListener (HandleBiFunction (Printer_OnSetPolicy R DEVICE_TYPE maxSize POLICY_LIST_OVER_SIZE)) OP_SET
                  (string_lists J S)))))))
        (list_attribute IC_ALLOWED_PRINTER_IP_ADDRESS_FOR_DEVICE POLICY_ALLOWED_PRINTER_IP_ADDRESSES_FOR_DEVICE
           (PolicyPermissionConfig PERMISSION_ENTERPRISE_MANAGE_SYSTEM SUPER_DEVICE_ADMIN API_PUBLIC)))"

definition AllowedPrinterIPAddressesForAccount_OnChangedPolicyDone :: "'w list_services \<Rightarrow> string list \<Rightarrow> bool \<Rightarrow> user_id \<Rightarrow> 's pm_state \<times> 'w
    \<Rightarrow> 's pm_state \<times> 'w" where
  "AllowedPrinterIPAddressesForAccount_OnChangedPolicyDone S data isGlobalChanged userId x =
     (if \<not> isGlobalChanged then x else NotifyPrintPolicyChanged S userId USER_TYPE x)"

definition AllowedPrinterIPAddressesForAccount_OnAdminRemoveDone :: "'w list_services \<Rightarrow> string \<Rightarrow> string list \<Rightarrow> user_id
    \<Rightarrow> 's pm_state \<times> 'w \<Rightarrow> 's pm_state \<times> 'w" where
  "AllowedPrinterIPAddressesForAccount_OnAdminRemoveDone S adminName data userId = NotifyPrintPolicyChanged S userId USER_TYPE"

definition AllowedPrinterIPAddressesForAccountPlugin :: "'s rdb \<Rightarrow> cjson \<Rightarrow> 'w list_services \<Rightarrow> ('s, 'w) plugin" where
  "AllowedPrinterIPAddressesForAccountPlugin R J S =
     (let maxSize = ALLOWED_PRINTER_IP_ADDRESSES_MAX_SIZE; done = DoneBiBoolConsumer (AllowedPrinterIPAddressesForAccount_OnChangedPolicyDone S)
      in IPluginTemplate R
        (SetOnAdminRemoveDoneListener (RemoveDoneBiConsumer (AllowedPrinterIPAddressesForAccount_OnAdminRemoveDone S))
          (SetOnAdminRemoveListener (RemoveBiFunction (OnBasicAdminRemove (list_hooks maxSize)))
            (SetOnHandlePolicyDoneListener done OP_REMOVE (SetOnHandlePolicyDoneListener done OP_SET
              (SetOnHandlePolicyListener (HandleBiFunction (Printer_OnRemovePolicy maxSize POLICY_LIST_OVER_SIZE)) OP_REMOVE
                (SetOnHandlePolicyListener (HandleBiFunction (Printer_OnSetPolicy R USER_TYPE maxSize POLICY_LIST_OVER_SIZE)) OP_SET
                  (string_lists J S)))))))
        (list_attribute IC_ALLOWED_PRINTER_IP_ADDRESS_FOR_ACCOUNT POLICY_ALLOWED_PRINTER_IP_ADDRESSES_FOR_ACCOUNT
           (PolicyPermissionConfig PERMISSION_ENTERPRISE_MANAGE_SYSTEM SUPER_DEVICE_ADMIN API_PUBLIC)))"

subsection \<open>All of them\<close>

definition list_plugins :: "'s rdb \<Rightarrow> cjson \<Rightarrow> 'w list_services \<Rightarrow> ('s, 'w) plugin list" where
  "list_plugins R J S = [AllowedRunningBundlesPlugin R J S, DisallowedRunningBundlesPlugin R J S,
     AllowedInstallBundlesPlugin R J S, DisallowedInstallBundlesPlugin R J S, DisallowedUninstallBundlesPlugin R J S,
     AllowedBluetoothDevicesPlugin R J S, DisallowedBluetoothDevicesPlugin R J S,
     AllowedCollaborationServiceBundlesPlugin R J S, DisallowedPermissionPlugin R J S,
     AllowedPrinterIPAddressesPlugin R J S, AllowedPrinterIPAddressesForAccountPlugin R J S]"

end
