(* ===== verification/Switch_Plugins.thy ===== *)
theory Switch_Plugins
  imports Update_Policy Basic_Plugins Plugin_Codes
begin

text \<open>
  The policy plugins of \<open>services/edm_plugin/src\<close> that are subclasses of \<open>BasicBoolPlugin\<close>: switches of
  the device. Each is the attributes its constructor sets and the methods it overrides. What they
  change in the system are calls of other services, a record of functions on the outside world.
\<close>

subsection \<open>The services a plugin calls\<close>

text \<open>\<open>None\<close> is a null pointer instead of a client object. Reading a parameter or asking for accounts
  changes nothing.\<close>

record 'w services =
  svc_ReadBool :: "'w \<Rightarrow> bool \<times> 'w"
  svc_WriteBool :: "err_code \<Rightarrow> bool \<Rightarrow> 'w \<Rightarrow> 'w"
  svc_SetParameter :: "string \<Rightarrow> string \<Rightarrow> 'w \<Rightarrow> bool \<times> 'w"
  svc_GetParameter :: "string \<Rightarrow> string \<Rightarrow> 'w \<Rightarrow> string"
  svc_UpdateSettingsData :: "string \<Rightarrow> string \<Rightarrow> 'w \<Rightarrow> err_code \<times> 'w"
  svc_SetSpecificOsAccountConstraints :: "string list \<Rightarrow> bool \<Rightarrow> user_id \<Rightarrow> user_id \<Rightarrow> bool \<Rightarrow> 'w \<Rightarrow> err_code \<times> 'w"
  svc_SetGlobalOsAccountConstraints :: "string list \<Rightarrow> bool \<Rightarrow> user_id \<Rightarrow> bool \<Rightarrow> 'w \<Rightarrow> err_code \<times> 'w"
  svc_QueryActiveOsAccountIds :: "'w \<Rightarrow> err_code \<times> user_id list"
  svc_QueryAllCreatedOsAccounts :: "'w \<Rightarrow> err_code \<times> user_id list"
  svc_DestroyVpn :: "'w \<Rightarrow> int \<times> 'w"
  svc_DisableBt :: "'w \<Rightarrow> bool \<times> 'w"
  svc_SetDisablePolicy :: "string \<Rightarrow> bool \<Rightarrow> 'w \<Rightarrow> int \<times> 'w"
  svc_SetMicrophoneMutePersistent :: "bool \<Rightarrow> 'w \<Rightarrow> int option \<times> 'w"
  svc_SetRandomMacDisabled :: "bool \<Rightarrow> 'w \<Rightarrow> err_code option \<times> 'w"
  svc_DisableWifi :: "'w \<Rightarrow> err_code option \<times> 'w"
  svc_HasP2p :: "'w \<Rightarrow> bool"
  svc_RemoveGroup :: "'w \<Rightarrow> 'w"
  svc_GlobalDisablePacketFilter :: "'w \<Rightarrow> int \<times> 'w"
  svc_GlobalEnablePacketFilter :: "'w \<Rightarrow> int \<times> 'w"
  svc_GlobalDisableTrafficFilter :: "'w \<Rightarrow> int \<times> 'w"
  svc_GlobalEnableTrafficFilter :: "'w \<Rightarrow> int \<times> 'w"
  svc_SetAirplaneMode :: "bool \<Rightarrow> 'w \<Rightarrow> 'w"
  svc_DisableInputEventDispatch :: "bool \<Rightarrow> 'w \<Rightarrow> int option \<times> 'w"
  svc_HasRouter :: "'w \<Rightarrow> bool"
  svc_SubscribeEvent :: "string \<Rightarrow> u32 \<Rightarrow> u32 \<Rightarrow> bool \<Rightarrow> bool \<Rightarrow> 'w \<Rightarrow> 'w"
  svc_UnsubscribeEvent :: "string \<Rightarrow> u32 \<Rightarrow> 'w \<Rightarrow> 'w"

definition on_world :: "('w \<Rightarrow> 'r \<times> 'w) \<Rightarrow> 's pm_state \<times> 'w \<Rightarrow> 'r \<times> 's pm_state \<times> 'w" where
  "on_world f = (\<lambda>(s, w). let (r, w) = f w in (r, s, w))"

text \<open>The hooks of a switch that overrides nothing; \<open>param\<close> is its \<open>persistParam_\<close>.\<close>

definition switch :: "'w services \<Rightarrow> string \<Rightarrow> ('s pm_state \<times> 'w) bool_hooks" where
  "switch S param = \<lparr> checkConflictPolicy = Bool_CheckConflictPolicy, setOtherModulePolicy = Bool_SetOtherModulePolicy,
     persistParam = param, setParameter = (\<lambda>name value. on_world (svc_SetParameter S name value)),
     readBool = on_world (svc_ReadBool S), writeBool = (\<lambda>err b (s, w). (s, svc_WriteBool S err b w)) \<rparr>"

subsection \<open>Helpers of single plugins\<close>

text \<open>The loop of \<open>DisableMtpClientPlugin::CheckConflictPolicy\<close> over the accounts.\<close>

fun mtp_client_conflict :: "'s rdb \<Rightarrow> user_id list \<Rightarrow> 's pm_state \<Rightarrow> err_code \<times> 's pm_state" where
  "mtp_client_conflict R [] s = (ERR_OK, s)"
| "mtp_client_conflict R (u # us) s =
     (let (_, v, s) = PolicyManager_GetPolicy R [] POLICY_DISABLED_USER_MTP_CLIENT [] u s
      in if v = ''true'' then (CONFIGURATION_CONFLICT_FAILED, s) else mtp_client_conflict R us s)"

fun clear_collaboration :: "'s rdb \<Rightarrow> user_id \<Rightarrow> (string, string) amap \<Rightarrow> 's pm_state \<Rightarrow> 's pm_state" where
  "clear_collaboration R userId [] s = s"
| "clear_collaboration R userId ((admin, v) # m) s =
     clear_collaboration R userId m (snd (PolicyManager_SetPolicy R admin POLICY_ALLOWED_COLLABORATION_SERVICE_BUNDLES [] [] userId s))"

definition ClearAllowedCollaborationServiceBundles :: "'s rdb \<Rightarrow> user_id \<Rightarrow> 's pm_state \<Rightarrow> err_code \<times> 's pm_state" where
  "ClearAllowedCollaborationServiceBundles R userId s =
     (let (ret, m, s) = PolicyManager_GetAdminByPolicyName R POLICY_ALLOWED_COLLABORATION_SERVICE_BUNDLES [] userId s
      in if ret \<noteq> ERR_OK \<or> m = [] then (ERR_OK, s) else (ERR_OK, clear_collaboration R userId m s))"

subsection \<open>The plugins\<close>

definition DisallModifyDateTimePlugin :: "'w services \<Rightarrow> ('s, 'w) plugin" where
  "DisallModifyDateTimePlugin S =
     BasicBoolPlugin (switch S '''')
     (IPlugin\<lparr>policyCode := IC_DISALLOW_MODIFY_DATETIME, policyName := POLICY_DISALLOW_MODIFY_DATETIME,
        permissionConfig := \<lparr> tagPermissions = [(PERMISSION_TAG_VERSION_11, [(SUPER_DEVICE_ADMIN, PERMISSION_ENTERPRISE_SET_DATETIME)]), (PERMISSION_TAG_VERSION_12, [(SUPER_DEVICE_ADMIN, PERMISSION_ENTERPRISE_MANAGE_RESTRICTIONS)])],
        typePermissions = [], apiType = API_PUBLIC \<rparr>\<rparr>)"

definition SetAutoUnlockAfterRebootPlugin :: "'w services \<Rightarrow> ('s, 'w) plugin" where
  "SetAutoUnlockAfterRebootPlugin S =
     BasicBoolPlugin (switch S ''persist.edm.auto_unlock_after_reboot'')
     (IPlugin\<lparr>policyCode := IC_SET_AUTO_UNLOCK_AFTER_REBOOT, policyName := POLICY_SET_AUTO_UNLOCK_AFTER_REBOOT,
        permissionConfig := PolicyPermissionConfig PERMISSION_ENTERPRISE_MANAGE_SYSTEM SUPER_DEVICE_ADMIN API_PUBLIC\<rparr>)"

definition DisableAppClonePlugin :: "'w services \<Rightarrow> ('s, 'w) plugin" where
  "DisableAppClonePlugin S =
     BasicBoolPlugin (switch S ''persist.edm.app_clone_disable'')
     (IPlugin\<lparr>policyCode := IC_DISABLED_APP_CLONE, policyName := POLICY_DISABLED_APP_CLONE,
        permissionConfig := \<lparr> tagPermissions = [], typePermissions = [(SUPER_DEVICE_ADMIN, PERMISSION_ENTERPRISE_MANAGE_RESTRICTIONS)], apiType = API_PUBLIC \<rparr>\<rparr>)"

definition DisableBackupAndRestorePlugin :: "'w services \<Rightarrow> ('s, 'w) plugin" where
  "DisableBackupAndRestorePlugin S =
     BasicBoolPlugin (switch S ''persist.edm.backup_and_restore_disable'')
     (IPlugin\<lparr>policyCode := IC_DISABLE_BACKUP_AND_RESTORE, policyName := POLICY_DISABLE_BACKUP_AND_RESTORE,
        permissionConfig := \<lparr> tagPermissions = [], typePermissions = [(SUPER_DEVICE_ADMIN, PERMISSION_ENTERPRISE_MANAGE_RESTRICTIONS)], apiType = API_PUBLIC \<rparr>\<rparr>)"

definition DisableHdcRemotePlugin :: "'w services \<Rightarrow> ('s, 'w) plugin" where
  "DisableHdcRemotePlugin S =
     BasicBoolPlugin (switch S ''persist.edm.hdc_remote_disable'')
     (IPlugin\<lparr>policyCode := IC_DISABLED_HDC_REMOTE, policyName := POLICY_DISABLED_HDC_REMOTE,
        permissionConfig := PolicyPermissionConfig PERMISSION_ENTERPRISE_MANAGE_RESTRICTIONS SUPER_DEVICE_ADMIN API_PUBLIC\<rparr>)"

definition DisableMaintenanceModePlugin :: "'w services \<Rightarrow> ('s, 'w) plugin" where
  "DisableMaintenanceModePlugin S =
     BasicBoolPlugin (switch S ''persist.edm.maintenance_mode'')
     (IPlugin\<lparr>policyCode := IC_DISABLE_MAINTENANCE_MODE, policyName := POLICY_DISABLED_MAINTENANCE_MODE,
        permissionConfig := PolicyPermissionConfig PERMISSION_ENTERPRISE_MANAGE_RESTRICTIONS SUPER_DEVICE_ADMIN API_PUBLIC\<rparr>)"

definition DisableMtpServerPlugin :: "'w services \<Rightarrow> ('s, 'w) plugin" where
  "DisableMtpServerPlugin S =
     BasicBoolPlugin (switch S ''persist.edm.mtp_server_disable'')
     (IPlugin\<lparr>policyCode := IC_DISABLE_MTP_SERVER, policyName := POLICY_DISABLED_MTP_SERVER,
        permissionConfig := \<lparr> tagPermissions = [], typePermissions = [(SUPER_DEVICE_ADMIN, PERMISSION_ENTERPRISE_MANAGE_RESTRICTIONS), (BYOD_DEVICE_ADMIN, PERMISSION_PERSONAL_MANAGE_RESTRICTIONS)], apiType = API_PUBLIC \<rparr>\<rparr>)"

definition DisablePrinterPlugin :: "'w services \<Rightarrow> ('s, 'w) plugin" where
  "DisablePrinterPlugin S =
     BasicBoolPlugin (switch S '''')
     (IPlugin\<lparr>policyCode := IC_DISABLED_PRINTER, policyName := POLICY_DISABLED_PRINTER,
        permissionConfig := \<lparr> tagPermissions = [(PERMISSION_TAG_VERSION_11, [(SUPER_DEVICE_ADMIN, PERMISSION_ENTERPRISE_RESTRICT_POLICY)]), (PERMISSION_TAG_VERSION_12, [(SUPER_DEVICE_ADMIN, PERMISSION_ENTERPRISE_MANAGE_RESTRICTIONS)])],
        typePermissions = [], apiType = API_PUBLIC \<rparr>\<rparr>)"

definition DisablePrivateSpacePlugin :: "'w services \<Rightarrow> ('s, 'w) plugin" where
  "DisablePrivateSpacePlugin S =
     BasicBoolPlugin (switch S ''persist.edm.private_space_disable'')
     (IPlugin\<lparr>policyCode := IC_DISABLE_PRIVATE_SPACE, policyName := POLICY_DISABLED_PRIVATE_SPACE,
        permissionConfig := \<lparr> tagPermissions = [], typePermissions = [(SUPER_DEVICE_ADMIN, PERMISSION_ENTERPRISE_MANAGE_RESTRICTIONS)], apiType = API_PUBLIC \<rparr>\<rparr>)"

definition DisableSambaClientPlugin :: "'w services \<Rightarrow> ('s, 'w) plugin" where
  "DisableSambaClientPlugin S =
     BasicBoolPlugin (switch S ''persist.edm.samba_client_disable'')
     (IPlugin\<lparr>policyCode := IC_DISABLE_SAMBA_CLIENT, policyName := POLICY_DISABLED_SAMBA_CLIENT,
        permissionConfig := PolicyPermissionConfig PERMISSION_ENTERPRISE_MANAGE_RESTRICTIONS SUPER_DEVICE_ADMIN API_PUBLIC\<rparr>)"

definition DisableSambaServerPlugin :: "'w services \<Rightarrow> ('s, 'w) plugin" where
  "DisableSambaServerPlugin S =
     BasicBoolPlugin (switch S ''persist.edm.samba_server_disable'')
     (IPlugin\<lparr>policyCode := IC_DISABLE_SAMBA_SERVER, policyName := POLICY_DISABLED_SAMBA_SERVER,
        permissionConfig := PolicyPermissionConfig PERMISSION_ENTERPRISE_MANAGE_RESTRICTIONS SUPER_DEVICE_ADMIN API_PUBLIC\<rparr>)"

definition DisableSataOddBurnPlugin :: "'w services \<Rightarrow> ('s, 'w) plugin" where
  "DisableSataOddBurnPlugin S =
     BasicBoolPlugin (switch S ''persist.edm.disable_sata_odd_burn'')
     (IPlugin\<lparr>policyCode := IC_DISABLE_SATA_ODD_BURN, policyName := POLICY_DISABLE_SATA_ODD_BURN,
        permissionConfig := PolicyPermissionConfig PERMISSION_ENTERPRISE_MANAGE_RESTRICTIONS SUPER_DEVICE_ADMIN API_PUBLIC\<rparr>)"

definition DisableSetBiometricsAndScreenLockPlugin :: "'w services \<Rightarrow> ('s, 'w) plugin" where
  "DisableSetBiometricsAndScreenLockPlugin S =
     BasicBoolPlugin (switch S ''persist.edm.set_biometrics_and_screenLock_disable'')
     (IPlugin\<lparr>policyCode := IC_DISABLE_SET_BIOMETRICS_AND_SCREENLOCK, policyName := POLICY_SET_BIOMETRICS_AND_SCREENLOCK,
        permissionConfig := \<lparr> tagPermissions = [], typePermissions = [(SUPER_DEVICE_ADMIN, PERMISSION_ENTERPRISE_SET_USER_RESTRICTION)], apiType = API_PUBLIC \<rparr>\<rparr>)"

definition DisableSetDeviceNamePlugin :: "'w services \<Rightarrow> ('s, 'w) plugin" where
  "DisableSetDeviceNamePlugin S =
     BasicBoolPlugin (switch S ''persist.edm.set_device_name_disable'')
     (IPlugin\<lparr>policyCode := IC_DISABLE_SET_DEVICE_NAME, policyName := POLICY_SET_DEVICE_NAME,
        permissionConfig := \<lparr> tagPermissions = [], typePermissions = [(SUPER_DEVICE_ADMIN, PERMISSION_ENTERPRISE_SET_USER_RESTRICTION)], apiType = API_PUBLIC \<rparr>\<rparr>)"

definition DisallowCoreDumpPlugin :: "'w services \<Rightarrow> ('s, 'w) plugin" where
  "DisallowCoreDumpPlugin S =
     BasicBoolPlugin (switch S ''persist.edm.coredump_disable'')
     (IPlugin\<lparr>policyCode := IC_DISALLOW_CORE_DUMP, policyName := POLICY_DISALLOW_CORE_DUMP,
        permissionConfig := PolicyPermissionConfig PERMISSION_ENTERPRISE_MANAGE_RESTRICTIONS SUPER_DEVICE_ADMIN API_PUBLIC\<rparr>)"

definition DisallowModifyAPNPlugin :: "'w services \<Rightarrow> ('s, 'w) plugin" where
  "DisallowModifyAPNPlugin S =
     BasicBoolPlugin (switch S ''persist.edm.disallow_modify_apn'')
     (IPlugin\<lparr>policyCode := IC_DISALLOW_MODIFY_APN, policyName := POLICY_DISALLOW_MODIFY_APN,
        permissionConfig := \<lparr> tagPermissions = [], typePermissions = [(SUPER_DEVICE_ADMIN, PERMISSION_ENTERPRISE_SET_USER_RESTRICTION)], apiType = API_PUBLIC \<rparr>\<rparr>)"

definition DisallowModifyEthernetIpPlugin :: "'w services \<Rightarrow> ('s, 'w) plugin" where
  "DisallowModifyEthernetIpPlugin S =
     BasicBoolPlugin (switch S ''persist.edm.set_ethernet_ip_disable'')
     (IPlugin\<lparr>policyCode := IC_DISALLOW_MODIFY_ETHERNET_IP, policyName := POLICY_DISALLOW_MODIFY_ETHERNET_IP,
        permissionConfig := \<lparr> tagPermissions = [], typePermissions = [(SUPER_DEVICE_ADMIN, PERMISSION_ENTERPRISE_SET_USER_RESTRICTION)], apiType = API_PUBLIC \<rparr>\<rparr>)"

definition DisallowUnmuteDevicePlugin :: "'w services \<Rightarrow> ('s, 'w) plugin" where
  "DisallowUnmuteDevicePlugin S =
     BasicBoolPlugin (switch S ''persist.edm.unmute_device_disallowed'')
     (IPlugin\<lparr>policyCode := IC_DISALLOW_UNMUTE_DEVICE, policyName := POLICY_DISALLOW_UNMUTE_DEVICE,
        permissionConfig := PolicyPermissionConfig PERMISSION_ENTERPRISE_MANAGE_RESTRICTIONS SUPER_DEVICE_ADMIN API_PUBLIC\<rparr>)"

definition DisallowedMMSPlugin :: "'w services \<Rightarrow> ('s, 'w) plugin" where
  "DisallowedMMSPlugin S =
     BasicBoolPlugin (switch S ''persist.edm.mms_disable'')
     (IPlugin\<lparr>policyCode := IC_DISALLOWED_MMS, policyName := POLICY_DISALLOWED_MMS,
        permissionConfig := \<lparr> tagPermissions = [], typePermissions = [(SUPER_DEVICE_ADMIN, PERMISSION_ENTERPRISE_MANAGE_RESTRICTIONS)], apiType = API_PUBLIC \<rparr>\<rparr>)"

definition DisallowedSMSPlugin :: "'w services \<Rightarrow> ('s, 'w) plugin" where
  "DisallowedSMSPlugin S =
     BasicBoolPlugin (switch S ''persist.edm.sms_disable'')
     (IPlugin\<lparr>policyCode := IC_DISALLOWED_SMS, policyName := POLICY_DISALLOWED_SMS,
        permissionConfig := \<lparr> tagPermissions = [], typePermissions = [(SUPER_DEVICE_ADMIN, PERMISSION_ENTERPRISE_MANAGE_RESTRICTIONS)], apiType = API_PUBLIC \<rparr>\<rparr>)"

definition DisallowedTelephonyCallPlugin :: "'w services \<Rightarrow> ('s, 'w) plugin" where
  "DisallowedTelephonyCallPlugin S =
     BasicBoolPlugin (switch S ''persist.edm.telephony_call_disable'')
     (IPlugin\<lparr>policyCode := IC_DISALLOWED_TELEPHONY_CALL, policyName := POLICY_DISALLOWED_TELEPHONY_CALL,
        permissionConfig := \<lparr> tagPermissions = [], typePermissions = [(SUPER_DEVICE_ADMIN, PERMISSION_ENTERPRISE_MANAGE_RESTRICTIONS)], apiType = API_PUBLIC \<rparr>\<rparr>)"

definition InactiveUserFreezePlugin :: "'w services \<Rightarrow> ('s, 'w) plugin" where
  "InactiveUserFreezePlugin S =
     BasicBoolPlugin (switch S ''persist.edm.inactive_user_freeze'')
     (IPlugin\<lparr>policyCode := IC_INACTIVE_USER_FREEZE, policyName := POLICY_INACTIVE_USER_FREEZE,
        permissionConfig := PolicyPermissionConfig PERMISSION_ENTERPRISE_MANAGE_RESTRICTIONS SUPER_DEVICE_ADMIN API_PUBLIC\<rparr>)"

definition DisallowPowerLongPressPlugin_SetOtherModulePolicy :: "'w services \<Rightarrow> bool \<Rightarrow> user_id \<Rightarrow> 's pm_state \<times> 'w \<Rightarrow> err_code \<times> 's pm_state \<times> 'w" where
  "DisallowPowerLongPressPlugin_SetOtherModulePolicy S data userId = on_world (svc_UpdateSettingsData S ''settings.power.block_long_press'' (if data then ''1'' else ''0''))"

definition DisallowPowerLongPressPlugin :: "'w services \<Rightarrow> ('s, 'w) plugin" where
  "DisallowPowerLongPressPlugin S =
     BasicBoolPlugin ((switch S ''persist.edm.disable_power_key_shutdown'')\<lparr>setOtherModulePolicy := DisallowPowerLongPressPlugin_SetOtherModulePolicy S\<rparr>)
     (IPlugin\<lparr>policyCode := IC_DISALLOW_POWER_LONG_PRESS, policyName := POLICY_DISALLOW_POWER_LONG_PRESS,
        permissionConfig := \<lparr> tagPermissions = [], typePermissions = [(SUPER_DEVICE_ADMIN, PERMISSION_ENTERPRISE_SET_USER_RESTRICTION)], apiType = API_PUBLIC \<rparr>\<rparr>)"

definition DisallowRs232Plugin_SetOtherModulePolicy :: "'w services \<Rightarrow> bool \<Rightarrow> user_id \<Rightarrow> 's pm_state \<times> 'w \<Rightarrow> err_code \<times> 's pm_state \<times> 'w" where
  "DisallowRs232Plugin_SetOtherModulePolicy S data userId = on_world (\<lambda>w.
     let (ok, w) = svc_SetParameter S ''persist.edm.rs232_serial_disable'' (if data then ''1'' else ''0'') w
     in (if \<not> ok then SYSTEM_ABNORMALLY else ERR_OK, w))"

definition DisallowRs232Plugin :: "'w services \<Rightarrow> ('s, 'w) plugin" where
  "DisallowRs232Plugin S =
     BasicBoolPlugin ((switch S '''')\<lparr>setOtherModulePolicy := DisallowRs232Plugin_SetOtherModulePolicy S\<rparr>)
     (IPlugin\<lparr>policyCode := IC_DISALLOW_RS232, policyName := POLICY_DISALLOW_RS232,
        permissionConfig := PolicyPermissionConfig PERMISSION_ENTERPRISE_MANAGE_RESTRICTIONS SUPER_DEVICE_ADMIN API_PUBLIC\<rparr>)"

definition DisallowVirtualServicePlugin_SetOtherModulePolicy :: "'w services \<Rightarrow> bool \<Rightarrow> user_id \<Rightarrow> 's pm_state \<times> 'w \<Rightarrow> err_code \<times> 's pm_state \<times> 'w" where
  "DisallowVirtualServicePlugin_SetOtherModulePolicy S data userId = on_world (\<lambda>w.
     if data then (let (ok, w) = svc_SetParameter S ''persist.edm.disallow_virtual_service'' ''anco|linux|win'' w
                   in (if \<not> ok then SYSTEM_ABNORMALLY else ERR_OK, w))
     else (let (ok, w) = svc_SetParameter S ''persist.edm.disallow_virtual_service'' [] w
           in (if \<not> ok then SYSTEM_ABNORMALLY else ERR_OK, w)))"

definition DisallowVirtualServicePlugin :: "'w services \<Rightarrow> ('s, 'w) plugin" where
  "DisallowVirtualServicePlugin S =
     BasicBoolPlugin ((switch S '''')\<lparr>setOtherModulePolicy := DisallowVirtualServicePlugin_SetOtherModulePolicy S\<rparr>)
     (IPlugin\<lparr>policyCode := IC_DISALLOW_VIRTUAL_SERVICE, policyName := POLICY_DISALLOW_VIRTUAL_SERVICE,
        permissionConfig := PolicyPermissionConfig PERMISSION_ENTERPRISE_MANAGE_RESTRICTIONS SUPER_DEVICE_ADMIN API_PUBLIC\<rparr>)"

definition DisallowVPNPlugin_SetOtherModulePolicy :: "'w services \<Rightarrow> bool \<Rightarrow> user_id \<Rightarrow> 's pm_state \<times> 'w \<Rightarrow> err_code \<times> 's pm_state \<times> 'w" where
  "DisallowVPNPlugin_SetOtherModulePolicy S data userId = on_world (\<lambda>w.
     if data then (let (ret, w) = svc_DestroyVpn S w in (if ret = 0 then ERR_OK else SYSTEM_ABNORMALLY, w)) else (ERR_OK, w))"

definition DisallowVPNPlugin :: "'w services \<Rightarrow> ('s, 'w) plugin" where
  "DisallowVPNPlugin S =
     BasicBoolPlugin ((switch S ''persist.edm.vpn_disable'')\<lparr>setOtherModulePolicy := DisallowVPNPlugin_SetOtherModulePolicy S\<rparr>)
     (IPlugin\<lparr>policyCode := IC_DISALLOW_VPN, policyName := POLICY_DISALLOW_VPN,
        permissionConfig := \<lparr> tagPermissions = [], typePermissions = [(SUPER_DEVICE_ADMIN, PERMISSION_ENTERPRISE_MANAGE_RESTRICTIONS)], apiType = API_PUBLIC \<rparr>\<rparr>)"

definition DisallowXKeyPlugin_SetOtherModulePolicy :: "'w services \<Rightarrow> bool \<Rightarrow> user_id \<Rightarrow> 's pm_state \<times> 'w \<Rightarrow> err_code \<times> 's pm_state \<times> 'w" where
  "DisallowXKeyPlugin_SetOtherModulePolicy S data userId = on_world (\<lambda>w.
     (if svc_GetParameter S ''const.quickaccess.function_type'' ''0'' w = ''0'' then INTERFACE_UNSUPPORTED else ERR_OK, w))"

definition DisallowXKeyPlugin :: "'w services \<Rightarrow> ('s, 'w) plugin" where
  "DisallowXKeyPlugin S =
     BasicBoolPlugin ((switch S ''persist.edm.x_key_disable'')\<lparr>setOtherModulePolicy := DisallowXKeyPlugin_SetOtherModulePolicy S\<rparr>)
     (IPlugin\<lparr>policyCode := IC_DISALLOW_X_KEY, policyName := POLICY_DISALLOW_X_KEY,
        permissionConfig := \<lparr> tagPermissions = [], typePermissions = [(SUPER_DEVICE_ADMIN, PERMISSION_ENTERPRISE_MANAGE_RESTRICTIONS)], apiType = API_PUBLIC \<rparr>\<rparr>)"

definition DisallowedDeviceSudoPlugin_CheckConflictPolicy :: "'s rdb \<Rightarrow> user_id \<Rightarrow> 's pm_state \<times> 'w \<Rightarrow> err_code \<times> 's pm_state \<times> 'w" where
  "DisallowedDeviceSudoPlugin_CheckConflictPolicy R userId = (\<lambda>(s, w).
     let (_, v, s) = PolicyManager_GetPolicy R [] POLICY_DISABLED_SUDO [] userId s
     in (if v = CONST_TRUE then CONFIGURATION_CONFLICT_FAILED else ERR_OK, s, w))"

definition DisallowedDeviceSudoPlugin :: "'s rdb \<Rightarrow> 'w services \<Rightarrow> ('s, 'w) plugin" where
  "DisallowedDeviceSudoPlugin R S =
     BasicBoolPlugin ((switch S ''persist.edm.sudo_disable'')\<lparr>checkConflictPolicy := DisallowedDeviceSudoPlugin_CheckConflictPolicy R\<rparr>)
     (IPlugin\<lparr>policyCode := IC_DISALLOWED_DEVICE_SUDO, policyName := POLICY_DISALLOWED_DEVICE_SUDO,
        permissionConfig := PolicyPermissionConfig PERMISSION_ENTERPRISE_MANAGE_RESTRICTIONS SUPER_DEVICE_ADMIN API_PUBLIC\<rparr>)"

definition DisableSudoPlugin_SetOtherModulePolicy :: "'w services \<Rightarrow> bool \<Rightarrow> user_id \<Rightarrow> 's pm_state \<times> 'w \<Rightarrow> err_code \<times> 's pm_state \<times> 'w" where
  "DisableSudoPlugin_SetOtherModulePolicy S data userId = on_world (\<lambda>w.
     let (ret, w) = svc_SetSpecificOsAccountConstraints S [''constraint.sudo''] data userId DEFAULT_USER_ID True w
     in (if FAILED ret then SYSTEM_ABNORMALLY else ERR_OK, w))"

definition DisableSudoPlugin_CheckConflictPolicy :: "'s rdb \<Rightarrow> user_id \<Rightarrow> 's pm_state \<times> 'w \<Rightarrow> err_code \<times> 's pm_state \<times> 'w" where
  "DisableSudoPlugin_CheckConflictPolicy R userId = (\<lambda>(s, w).
     let (_, v, s) = PolicyManager_GetPolicy R [] POLICY_DISALLOWED_DEVICE_SUDO [] DEFAULT_USER_ID s
     in (if v = CONST_TRUE then CONFIGURATION_CONFLICT_FAILED else ERR_OK, s, w))"

definition DisableSudoPlugin :: "'s rdb \<Rightarrow> 'w services \<Rightarrow> ('s, 'w) plugin" where
  "DisableSudoPlugin R S =
     BasicBoolPlugin ((switch S '''')\<lparr>setOtherModulePolicy := DisableSudoPlugin_SetOtherModulePolicy S, checkConflictPolicy := DisableSudoPlugin_CheckConflictPolicy R\<rparr>)
     (IPlugin\<lparr>policyCode := IC_DISALLOWED_SUDO, policyName := POLICY_DISABLED_SUDO,
        permissionConfig := \<lparr> tagPermissions = [], typePermissions = [(SUPER_DEVICE_ADMIN, PERMISSION_ENTERPRISE_MANAGE_RESTRICTIONS)], apiType = API_PUBLIC \<rparr>\<rparr>)"

definition DisablePrintPlugin_SetOtherModulePolicy :: "'w services \<Rightarrow> bool \<Rightarrow> user_id \<Rightarrow> 's pm_state \<times> 'w \<Rightarrow> err_code \<times> 's pm_state \<times> 'w" where
  "DisablePrintPlugin_SetOtherModulePolicy S data userId = on_world (\<lambda>w.
     let (ret, w) = svc_SetSpecificOsAccountConstraints S [''constraint.print''] data userId DEFAULT_USER_ID True w
     in (if FAILED ret then SYSTEM_ABNORMALLY else ERR_OK, w))"

definition DisablePrintPlugin :: "'w services \<Rightarrow> ('s, 'w) plugin" where
  "DisablePrintPlugin S =
     BasicBoolPlugin ((switch S '''')\<lparr>setOtherModulePolicy := DisablePrintPlugin_SetOtherModulePolicy S\<rparr>)
     (IPlugin\<lparr>policyCode := IC_DISABLED_PRINT, policyName := POLICY_DISABLED_PRINT,
        permissionConfig := PolicyPermissionConfig PERMISSION_ENTERPRISE_MANAGE_RESTRICTIONS SUPER_DEVICE_ADMIN API_PUBLIC\<rparr>)"

definition DisallowExportRecoveryKeyPlugin_SetOtherModulePolicy :: "'w services \<Rightarrow> bool \<Rightarrow> user_id \<Rightarrow> 's pm_state \<times> 'w \<Rightarrow> err_code \<times> 's pm_state \<times> 'w" where
  "DisallowExportRecoveryKeyPlugin_SetOtherModulePolicy S data userId = on_world (\<lambda>w.
     let (ret, w) = svc_SetSpecificOsAccountConstraints S [''constraint.recoveryKey''] data userId DEFAULT_USER_ID True w
     in (if FAILED ret then SYSTEM_ABNORMALLY else ERR_OK, w))"

definition DisallowExportRecoveryKeyPlugin :: "'w services \<Rightarrow> ('s, 'w) plugin" where
  "DisallowExportRecoveryKeyPlugin S =
     BasicBoolPlugin ((switch S '''')\<lparr>setOtherModulePolicy := DisallowExportRecoveryKeyPlugin_SetOtherModulePolicy S\<rparr>)
     (IPlugin\<lparr>policyCode := IC_DISALLOWED_EXPORT_RECOVERY_KEY, policyName := POLICY_DISALLOWED_EXPORT_RECOVERY_KEY,
        permissionConfig := \<lparr> tagPermissions = [], typePermissions = [(SUPER_DEVICE_ADMIN, PERMISSION_ENTERPRISE_MANAGE_RESTRICTIONS)], apiType = API_PUBLIC \<rparr>\<rparr>)"

definition DisableModifyWallpaperPlugin_SetOtherModulePolicy :: "'w services \<Rightarrow> bool \<Rightarrow> user_id \<Rightarrow> 's pm_state \<times> 'w \<Rightarrow> err_code \<times> 's pm_state \<times> 'w" where
  "DisableModifyWallpaperPlugin_SetOtherModulePolicy S data userId = on_world (\<lambda>w.
     let (ret, w) = svc_SetSpecificOsAccountConstraints S [''constraint.wallpaper.set''] data userId DEFAULT_USER_ID True w
     in (if FAILED ret then SYSTEM_ABNORMALLY else ERR_OK, w))"

definition DisableModifyWallpaperPlugin :: "'w services \<Rightarrow> ('s, 'w) plugin" where
  "DisableModifyWallpaperPlugin S =
     BasicBoolPlugin ((switch S '''')\<lparr>setOtherModulePolicy := DisableModifyWallpaperPlugin_SetOtherModulePolicy S\<rparr>)
     (IPlugin\<lparr>policyCode := IC_DISALLOW_MODIFY_WALLPAPER, policyName := POLICY_DISALLOW_MODIFY_WALLPAPER,
        permissionConfig := \<lparr> tagPermissions = [], typePermissions = [(SUPER_DEVICE_ADMIN, PERMISSION_ENTERPRISE_SET_USER_RESTRICTION)], apiType = API_PUBLIC \<rparr>\<rparr>)"

definition DisallowMultiWindowPlugin_SetOtherModulePolicy :: "'w services \<Rightarrow> bool \<Rightarrow> user_id \<Rightarrow> 's pm_state \<times> 'w \<Rightarrow> err_code \<times> 's pm_state \<times> 'w" where
  "DisallowMultiWindowPlugin_SetOtherModulePolicy S data userId = on_world (\<lambda>w.
     let (ret, w) = svc_SetSpecificOsAccountConstraints S [''constraint.multiWindow''] data userId DEFAULT_USER_ID True w
     in (if FAILED ret then SYSTEM_ABNORMALLY else ERR_OK, w))"

definition DisallowMultiWindowPlugin :: "'w services \<Rightarrow> ('s, 'w) plugin" where
  "DisallowMultiWindowPlugin S =
     BasicBoolPlugin ((switch S '''')\<lparr>setOtherModulePolicy := DisallowMultiWindowPlugin_SetOtherModulePolicy S\<rparr>)
     (IPlugin\<lparr>policyCode := IC_DISALLOWED_MULTI_WINDOW, policyName := POLICY_DISALLOWED_MULTI_WINDOW,
        permissionConfig := \<lparr> tagPermissions = [], typePermissions = [(SUPER_DEVICE_ADMIN, PERMISSION_ENTERPRISE_MANAGE_RESTRICTIONS)], apiType = API_PUBLIC \<rparr>\<rparr>)"

definition DisallowOpenFileBoostPlugin_SetOtherModulePolicy :: "'w services \<Rightarrow> bool \<Rightarrow> user_id \<Rightarrow> 's pm_state \<times> 'w \<Rightarrow> err_code \<times> 's pm_state \<times> 'w" where
  "DisallowOpenFileBoostPlugin_SetOtherModulePolicy S data userId = on_world (\<lambda>w.
     let (ret, w) = svc_SetSpecificOsAccountConstraints S [''constraint.preview.openFileBoost''] data userId DEFAULT_USER_ID True w
     in (if FAILED ret then SYSTEM_ABNORMALLY else ERR_OK, w))"

definition DisallowOpenFileBoostPlugin :: "'w services \<Rightarrow> ('s, 'w) plugin" where
  "DisallowOpenFileBoostPlugin S =
     BasicBoolPlugin ((switch S '''')\<lparr>setOtherModulePolicy := DisallowOpenFileBoostPlugin_SetOtherModulePolicy S\<rparr>)
     (IPlugin\<lparr>policyCode := IC_DISALLOWED_FILEBOOST_OPEN, policyName := POLICY_DISALLOWED_OPEN_FILE_BOOST,
        permissionConfig := \<lparr> tagPermissions = [], typePermissions = [(SUPER_DEVICE_ADMIN, PERMISSION_ENTERPRISE_MANAGE_RESTRICTIONS)], apiType = API_PUBLIC \<rparr>\<rparr>)"

definition DisallowDistributedTransmissionFullPlugin_SetOtherModulePolicy :: "'w services \<Rightarrow> bool \<Rightarrow> user_id \<Rightarrow> 's pm_state \<times> 'w \<Rightarrow> err_code \<times> 's pm_state \<times> 'w" where
  "DisallowDistributedTransmissionFullPlugin_SetOtherModulePolicy S data userId = on_world (\<lambda>w.
     let (ret, w) = svc_SetSpecificOsAccountConstraints S [''constraint.distributed.transmission''] data userId DEFAULT_USER_ID True w
     in (if FAILED ret then PARAMETER_VERIFICATION_FAILED else ERR_OK, w))"

definition DisallowDistributedTransmissionFullPlugin_CheckConflictPolicy :: "'s rdb \<Rightarrow> user_id \<Rightarrow> 's pm_state \<times> 'w \<Rightarrow> err_code \<times> 's pm_state \<times> 'w" where
  "DisallowDistributedTransmissionFullPlugin_CheckConflictPolicy R userId = (\<lambda>(s, w).
     let (_, v, s) = PolicyManager_GetPolicy R [] POLICY_DISALLOWED_DISTRIBUTED_TRANSMISSION [] userId s
     in (if v \<noteq> [] then CONFIGURATION_CONFLICT_FAILED else ERR_OK, s, w))"

definition DisallowDistributedTransmissionFullPlugin :: "'s rdb \<Rightarrow> 'w services \<Rightarrow> ('s, 'w) plugin" where
  "DisallowDistributedTransmissionFullPlugin R S =
     BasicBoolPlugin ((switch S '''')\<lparr>setOtherModulePolicy := DisallowDistributedTransmissionFullPlugin_SetOtherModulePolicy S, checkConflictPolicy := DisallowDistributedTransmissionFullPlugin_CheckConflictPolicy R\<rparr>)
     (IPlugin\<lparr>policyCode := IC_DISALLOWED_DISTRIBUTED_TRANSMISSION_FULL, policyName := POLICY_DISALLOWED_DISTRIBUTED_TRANSMISSION_FULL,
        permissionConfig := \<lparr> tagPermissions = [], typePermissions = [(SUPER_DEVICE_ADMIN, PERMISSION_ENTERPRISE_MANAGE_RESTRICTIONS)], apiType = API_PUBLIC \<rparr>\<rparr>)"

definition DisableUserMtpClientPlugin_SetOtherModulePolicy :: "'w services \<Rightarrow> bool \<Rightarrow> user_id \<Rightarrow> 's pm_state \<times> 'w \<Rightarrow> err_code \<times> 's pm_state \<times> 'w" where
  "DisableUserMtpClientPlugin_SetOtherModulePolicy S data userId = on_world (\<lambda>w.
     let (ret, w) = svc_SetSpecificOsAccountConstraints S [''constraint.mtp.client.write''] data userId DEFAULT_USER_ID True w
     in (if FAILED ret then SYSTEM_ABNORMALLY else ERR_OK, w))"

definition DisableUserMtpClientPlugin_CheckConflictPolicy :: "'w services \<Rightarrow> user_id \<Rightarrow> 's pm_state \<times> 'w \<Rightarrow> err_code \<times> 's pm_state \<times> 'w" where
  "DisableUserMtpClientPlugin_CheckConflictPolicy S userId = on_world (\<lambda>w.
     (if svc_GetParameter S ''persist.edm.mtp_client_disable'' ''false'' w = ''true'' then CONFIGURATION_CONFLICT_FAILED
      else ERR_OK, w))"

definition DisableUserMtpClientPlugin :: "'w services \<Rightarrow> ('s, 'w) plugin" where
  "DisableUserMtpClientPlugin S =
     BasicBoolPlugin ((switch S '''')\<lparr>setOtherModulePolicy := DisableUserMtpClientPlugin_SetOtherModulePolicy S, checkConflictPolicy := DisableUserMtpClientPlugin_CheckConflictPolicy S\<rparr>)
     (IPlugin\<lparr>policyCode := IC_DISABLE_USER_MTP_CLIENT, policyName := POLICY_DISABLED_USER_MTP_CLIENT,
        permissionConfig := \<lparr> tagPermissions = [], typePermissions = [(SUPER_DEVICE_ADMIN, PERMISSION_ENTERPRISE_MANAGE_RESTRICTIONS)], apiType = API_PUBLIC \<rparr>\<rparr>)"

definition DisallowAddLocalAccountPlugin_SetOtherModulePolicy :: "'w services \<Rightarrow> bool \<Rightarrow> user_id \<Rightarrow> 's pm_state \<times> 'w \<Rightarrow> err_code \<times> 's pm_state \<times> 'w" where
  "DisallowAddLocalAccountPlugin_SetOtherModulePolicy S data userId = on_world (\<lambda>w.
     case snd (svc_QueryActiveOsAccountIds S w) of
       [] \<Rightarrow> (SYSTEM_ABNORMALLY, w)
     | i # _ \<Rightarrow> (let (ret, w) = svc_SetGlobalOsAccountConstraints S [''constraint.os.account.create''] data i True w
                in (if FAILED ret then SYSTEM_ABNORMALLY else ERR_OK, w)))"

definition DisallowAddLocalAccountPlugin :: "'w services \<Rightarrow> ('s, 'w) plugin" where
  "DisallowAddLocalAccountPlugin S =
     BasicBoolPlugin ((switch S '''')\<lparr>setOtherModulePolicy := DisallowAddLocalAccountPlugin_SetOtherModulePolicy S\<rparr>)
     (IPlugin\<lparr>policyCode := IC_DISALLOW_ADD_LOCAL_ACCOUNT, policyName := POLICY_DISALLOW_ADD_LOCAL_ACCOUNT,
        permissionConfig := PolicyPermissionConfig PERMISSION_ENTERPRISE_SET_ACCOUNT_POLICY SUPER_DEVICE_ADMIN API_PUBLIC\<rparr>)"

definition DisableBluetoothPlugin_SetOtherModulePolicy :: "'w services \<Rightarrow> bool \<Rightarrow> user_id \<Rightarrow> 's pm_state \<times> 'w \<Rightarrow> err_code \<times> 's pm_state \<times> 'w" where
  "DisableBluetoothPlugin_SetOtherModulePolicy S data userId = on_world (\<lambda>w.
     if data then (let (_, w) = svc_SetParameter S ''persist.edm.force_enable_bluetooth'' ''false'' w;
                       (ok, w) = svc_DisableBt S w
                   in (if \<not> ok then SYSTEM_ABNORMALLY else ERR_OK, w))
     else (ERR_OK, w))"

definition DisableBluetoothPlugin :: "'w services \<Rightarrow> ('s, 'w) plugin" where
  "DisableBluetoothPlugin S =
     BasicBoolPlugin ((switch S ''persist.edm.prohibit_bluetooth'')\<lparr>setOtherModulePolicy := DisableBluetoothPlugin_SetOtherModulePolicy S\<rparr>)
     (IPlugin\<lparr>policyCode := IC_DISABLE_BLUETOOTH, policyName := POLICY_DISABLED_BLUETOOTH,
        permissionConfig := \<lparr> tagPermissions = [(PERMISSION_TAG_VERSION_11, [(SUPER_DEVICE_ADMIN, PERMISSION_ENTERPRISE_MANAGE_BLUETOOTH)]), (PERMISSION_TAG_VERSION_12, [(SUPER_DEVICE_ADMIN, PERMISSION_ENTERPRISE_MANAGE_RESTRICTIONS), (BYOD_DEVICE_ADMIN, PERMISSION_PERSONAL_MANAGE_RESTRICTIONS)])],
        typePermissions = [], apiType = API_PUBLIC \<rparr>\<rparr>)"

definition DisableCameraPlugin_SetOtherModulePolicy :: "'w services \<Rightarrow> bool \<Rightarrow> user_id \<Rightarrow> 's pm_state \<times> 'w \<Rightarrow> err_code \<times> 's pm_state \<times> 'w" where
  "DisableCameraPlugin_SetOtherModulePolicy S data userId = on_world (\<lambda>w.
     let (ret, w) = svc_SetDisablePolicy S ''ohos.permission.CAMERA'' data w
     in (if ret = 0 then ERR_OK else SYSTEM_ABNORMALLY, w))"

definition DisableCameraPlugin :: "'w services \<Rightarrow> ('s, 'w) plugin" where
  "DisableCameraPlugin S =
     BasicBoolPlugin ((switch S ''persist.edm.camera_disable'')\<lparr>setOtherModulePolicy := DisableCameraPlugin_SetOtherModulePolicy S\<rparr>)
     (IPlugin\<lparr>policyCode := IC_DISABLE_CAMERA, policyName := POLICY_DISABLE_CAMERA,
        permissionConfig := \<lparr> tagPermissions = [], typePermissions = [(SUPER_DEVICE_ADMIN, PERMISSION_ENTERPRISE_MANAGE_RESTRICTIONS), (BYOD_DEVICE_ADMIN, PERMISSION_PERSONAL_MANAGE_RESTRICTIONS)], apiType = API_PUBLIC \<rparr>\<rparr>)"

definition DisableHdcPlugin_SetOtherModulePolicy :: "'w services \<Rightarrow> bool \<Rightarrow> user_id \<Rightarrow> 's pm_state \<times> 'w \<Rightarrow> err_code \<times> 's pm_state \<times> 'w" where
  "DisableHdcPlugin_SetOtherModulePolicy S data userId = on_world (\<lambda>w.
     let (ok, w) = svc_SetParameter S ''persist.hdc.control'' (if data then ''false'' else ''true'') w
     in (if \<not> ok then SYSTEM_ABNORMALLY else ERR_OK, w))"

definition DisableHdcPlugin :: "'w services \<Rightarrow> ('s, 'w) plugin" where
  "DisableHdcPlugin S =
     BasicBoolPlugin ((switch S '''')\<lparr>setOtherModulePolicy := DisableHdcPlugin_SetOtherModulePolicy S\<rparr>)
     (IPlugin\<lparr>policyCode := IC_DISABLED_HDC, policyName := POLICY_DISABLED_HDC,
        permissionConfig := \<lparr> tagPermissions = [(PERMISSION_TAG_VERSION_11, [(SUPER_DEVICE_ADMIN, PERMISSION_ENTERPRISE_RESTRICT_POLICY)]), (PERMISSION_TAG_VERSION_12, [(SUPER_DEVICE_ADMIN, PERMISSION_ENTERPRISE_MANAGE_RESTRICTIONS), (BYOD_DEVICE_ADMIN, PERMISSION_PERSONAL_MANAGE_RESTRICTIONS)])],
        typePermissions = [], apiType = API_PUBLIC \<rparr>\<rparr>)"

definition DisableMicrophonePlugin_SetOtherModulePolicy :: "'w services \<Rightarrow> bool \<Rightarrow> user_id \<Rightarrow> 's pm_state \<times> 'w \<Rightarrow> err_code \<times> 's pm_state \<times> 'w" where
  "DisableMicrophonePlugin_SetOtherModulePolicy S isDisallow userId = on_world (\<lambda>w.
     case svc_SetMicrophoneMutePersistent S isDisallow w of
       (None, w) \<Rightarrow> (SYSTEM_ABNORMALLY, w)
     | (Some ret, w) \<Rightarrow> (if ret = 0 \<or> (\<not> isDisallow \<and> ret = 13100019) then ERR_OK else SYSTEM_ABNORMALLY, w))"

definition DisableMicrophonePlugin :: "'w services \<Rightarrow> ('s, 'w) plugin" where
  "DisableMicrophonePlugin S =
     BasicBoolPlugin ((switch S ''persist.edm.mic_disable'')\<lparr>setOtherModulePolicy := DisableMicrophonePlugin_SetOtherModulePolicy S\<rparr>)
     (IPlugin\<lparr>policyCode := IC_DISABLE_MICROPHONE, policyName := POLICY_DISABLE_MICROPHONE,
        permissionConfig := \<lparr> tagPermissions = [], typePermissions = [(SUPER_DEVICE_ADMIN, PERMISSION_ENTERPRISE_MANAGE_RESTRICTIONS), (BYOD_DEVICE_ADMIN, PERMISSION_PERSONAL_MANAGE_RESTRICTIONS)], apiType = API_PUBLIC \<rparr>\<rparr>)"

definition DisallowRandomMacAddressPlugin_SetOtherModulePolicy :: "'w services \<Rightarrow> bool \<Rightarrow> user_id \<Rightarrow> 's pm_state \<times> 'w \<Rightarrow> err_code \<times> 's pm_state \<times> 'w" where
  "DisallowRandomMacAddressPlugin_SetOtherModulePolicy S data userId = on_world (\<lambda>w.
     case svc_SetRandomMacDisabled S data w of
       (None, w) \<Rightarrow> (SYSTEM_ABNORMALLY, w)
     | (Some ret, w) \<Rightarrow> (if ret \<noteq> ERR_OK then SYSTEM_ABNORMALLY else ERR_OK, w))"

definition DisallowRandomMacAddressPlugin :: "'w services \<Rightarrow> ('s, 'w) plugin" where
  "DisallowRandomMacAddressPlugin S =
     BasicBoolPlugin ((switch S ''persist.edm.random_mac_address_disable'')\<lparr>setOtherModulePolicy := DisallowRandomMacAddressPlugin_SetOtherModulePolicy S\<rparr>)
     (IPlugin\<lparr>policyCode := IC_DISALLOWED_RANDOM_MAC_ADDRESS, policyName := POLICY_DISALLOWED_RANDOM_MAC_ADDRESS,
        permissionConfig := PolicyPermissionConfig PERMISSION_ENTERPRISE_MANAGE_RESTRICTIONS SUPER_DEVICE_ADMIN API_PUBLIC\<rparr>)"

definition DisallowUsbSerialPlugin_SetOtherModulePolicy :: "'w services \<Rightarrow> bool \<Rightarrow> user_id \<Rightarrow> 's pm_state \<times> 'w \<Rightarrow> err_code \<times> 's pm_state \<times> 'w" where
  "DisallowUsbSerialPlugin_SetOtherModulePolicy S data userId = on_world (\<lambda>w.
     let (ok, w) = svc_SetParameter S ''persist.edm.usb_serial_disable'' (if data then ''1'' else ''0'') w
     in (if \<not> ok then SYSTEM_ABNORMALLY else ERR_OK, w))"

definition DisallowUsbSerialPlugin_CheckConflictPolicy :: "'s rdb \<Rightarrow> user_id \<Rightarrow> 's pm_state \<times> 'w \<Rightarrow> err_code \<times> 's pm_state \<times> 'w" where
  "DisallowUsbSerialPlugin_CheckConflictPolicy R userId = (\<lambda>(s, w).
     let (_, disableUsb, s) = PolicyManager_GetPolicy R [] POLICY_DISABLE_USB [] DEFAULT_USER_ID s
     in if disableUsb = ''true'' then (CONFIGURATION_CONFLICT_FAILED, s, w)
        else (let (_, allowUsbDevice, s) = PolicyManager_GetPolicy R [] POLICY_ALLOWED_USB_DEVICES [] DEFAULT_USER_ID s
              in (if allowUsbDevice \<noteq> [] then CONFIGURATION_CONFLICT_FAILED else ERR_OK, s, w)))"

definition DisallowUsbSerialPlugin :: "'s rdb \<Rightarrow> 'w services \<Rightarrow> ('s, 'w) plugin" where
  "DisallowUsbSerialPlugin R S =
     BasicBoolPlugin ((switch S '''')\<lparr>setOtherModulePolicy := DisallowUsbSerialPlugin_SetOtherModulePolicy S, checkConflictPolicy := DisallowUsbSerialPlugin_CheckConflictPolicy R\<rparr>)
     (IPlugin\<lparr>policyCode := IC_DISALLOW_USB_SERIAL, policyName := POLICY_DISALLOW_USB_SERIAL,
        permissionConfig := PolicyPermissionConfig PERMISSION_ENTERPRISE_MANAGE_RESTRICTIONS SUPER_DEVICE_ADMIN API_PUBLIC\<rparr>)"

definition DisallowedAirplaneModePlugin_SetOtherModulePolicy :: "'w services \<Rightarrow> bool \<Rightarrow> user_id \<Rightarrow> 's pm_state \<times> 'w \<Rightarrow> err_code \<times> 's pm_state \<times> 'w" where
  "DisallowedAirplaneModePlugin_SetOtherModulePolicy S data userId = on_world (\<lambda>w. (ERR_OK, if data then svc_SetAirplaneMode S False w else w))"

definition DisallowedAirplaneModePlugin :: "'w services \<Rightarrow> ('s, 'w) plugin" where
  "DisallowedAirplaneModePlugin S =
     BasicBoolPlugin ((switch S ''persist.edm.airplane_mode_disable'')\<lparr>setOtherModulePolicy := DisallowedAirplaneModePlugin_SetOtherModulePolicy S\<rparr>)
     (IPlugin\<lparr>policyCode := IC_DISALLOWED_AIRPLANE_MODE, policyName := POLICY_DISALLOWED_AIRPLANE_MODE,
        permissionConfig := \<lparr> tagPermissions = [(PERMISSION_TAG_VERSION_11, [(SUPER_DEVICE_ADMIN, PERMISSION_ENTERPRISE_MANAGE_NETWORK)]), (PERMISSION_TAG_VERSION_26, [(SUPER_DEVICE_ADMIN, PERMISSION_ENTERPRISE_MANAGE_RESTRICTIONS)])],
        typePermissions = [], apiType = API_PUBLIC \<rparr>\<rparr>)"

definition DisallowedP2PPlugin_SetOtherModulePolicy :: "'w services \<Rightarrow> bool \<Rightarrow> user_id \<Rightarrow> 's pm_state \<times> 'w \<Rightarrow> err_code \<times> 's pm_state \<times> 'w" where
  "DisallowedP2PPlugin_SetOtherModulePolicy S data userId = on_world (\<lambda>w.
     let (ok, w) = svc_SetParameter S ''persist.edm.p2p_disallowed'' (if data then ''true'' else ''false'') w
     in if \<not> ok then (SYSTEM_ABNORMALLY, w)
        else if \<not> svc_HasP2p S w then (SYSTEM_ABNORMALLY, w)
        else (ERR_OK, if data then svc_RemoveGroup S w else w))"

definition DisallowedP2PPlugin :: "'w services \<Rightarrow> ('s, 'w) plugin" where
  "DisallowedP2PPlugin S =
     BasicBoolPlugin ((switch S '''')\<lparr>setOtherModulePolicy := DisallowedP2PPlugin_SetOtherModulePolicy S\<rparr>)
     (IPlugin\<lparr>policyCode := IC_DISALLOWED_P2P, policyName := POLICY_DISALLOWED_P2P,
        permissionConfig := \<lparr> tagPermissions = [], typePermissions = [(SUPER_DEVICE_ADMIN, PERMISSION_ENTERPRISE_MANAGE_RESTRICTIONS), (BYOD_DEVICE_ADMIN, PERMISSION_PERSONAL_MANAGE_RESTRICTIONS)], apiType = API_PUBLIC \<rparr>\<rparr>)"

definition DisallowedPacketFilteringPlugin_SetOtherModulePolicy :: "'w services \<Rightarrow> bool \<Rightarrow> user_id \<Rightarrow> 's pm_state \<times> 'w \<Rightarrow> err_code \<times> 's pm_state \<times> 'w" where
  "DisallowedPacketFilteringPlugin_SetOtherModulePolicy S data userId = on_world (\<lambda>w.
     let (ret, w) = (if data then svc_GlobalDisablePacketFilter S w else svc_GlobalEnablePacketFilter S w)
     in (if ret \<noteq> 0 then PARAMETER_VERIFICATION_FAILED else ERR_OK, w))"

definition DisallowedPacketFilteringPlugin :: "'w services \<Rightarrow> ('s, 'w) plugin" where
  "DisallowedPacketFilteringPlugin S =
     BasicBoolPlugin ((switch S '''')\<lparr>setOtherModulePolicy := DisallowedPacketFilteringPlugin_SetOtherModulePolicy S\<rparr>)
     (IPlugin\<lparr>policyCode := IC_DISALLOWED_PACKET_FILTERING, policyName := POLICY_DISALLOWED_PACKET_FILTERING,
        permissionConfig := PolicyPermissionConfig PERMISSION_ENTERPRISE_MANAGE_RESTRICTIONS SUPER_DEVICE_ADMIN API_PUBLIC\<rparr>)"

definition DisallowedTrafficRedirectionPlugin_SetOtherModulePolicy :: "'w services \<Rightarrow> bool \<Rightarrow> user_id \<Rightarrow> 's pm_state \<times> 'w \<Rightarrow> err_code \<times> 's pm_state \<times> 'w" where
  "DisallowedTrafficRedirectionPlugin_SetOtherModulePolicy S data userId = on_world (\<lambda>w.
     let (ret, w) = (if data then svc_GlobalDisableTrafficFilter S w else svc_GlobalEnableTrafficFilter S w)
     in (if ret \<noteq> 0 then SYSTEM_ABNORMALLY else ERR_OK, w))"

definition DisallowedTrafficRedirectionPlugin :: "'w services \<Rightarrow> ('s, 'w) plugin" where
  "DisallowedTrafficRedirectionPlugin S =
     BasicBoolPlugin ((switch S '''')\<lparr>setOtherModulePolicy := DisallowedTrafficRedirectionPlugin_SetOtherModulePolicy S\<rparr>)
     (IPlugin\<lparr>policyCode := IC_DISALLOWED_TRAFFIC_REDIRECTION, policyName := POLICY_DISALLOWED_TRAFFIC_REDIRECTION,
        permissionConfig := PolicyPermissionConfig PERMISSION_ENTERPRISE_MANAGE_RESTRICTIONS SUPER_DEVICE_ADMIN API_PUBLIC\<rparr>)"

definition SetWifiDisabledPlugin_SetOtherModulePolicy :: "'w services \<Rightarrow> bool \<Rightarrow> user_id \<Rightarrow> 's pm_state \<times> 'w \<Rightarrow> err_code \<times> 's pm_state \<times> 'w" where
  "SetWifiDisabledPlugin_SetOtherModulePolicy S isDisable userId = on_world (\<lambda>w.
     if isDisable then (let (_, w) = svc_SetParameter S ''persist.edm.force_open_wifi'' ''false'' w
       in case svc_DisableWifi S w of
            (None, w) \<Rightarrow> (SYSTEM_ABNORMALLY, w)
          | (Some ret, w) \<Rightarrow> (if FAILED ret then SYSTEM_ABNORMALLY else ERR_OK, w))
     else (ERR_OK, w))"

definition SetWifiDisabledPlugin :: "'w services \<Rightarrow> ('s, 'w) plugin" where
  "SetWifiDisabledPlugin S =
     BasicBoolPlugin ((switch S ''persist.edm.wifi_enable'')\<lparr>setOtherModulePolicy := SetWifiDisabledPlugin_SetOtherModulePolicy S\<rparr>)
     (IPlugin\<lparr>policyCode := IC_DISABLE_WIFI, policyName := POLICY_DISABLE_WIFI,
        permissionConfig := \<lparr> tagPermissions = [(PERMISSION_TAG_VERSION_11, [(SUPER_DEVICE_ADMIN, PERMISSION_ENTERPRISE_MANAGE_WIFI)]), (PERMISSION_TAG_VERSION_12, [(SUPER_DEVICE_ADMIN, PERMISSION_ENTERPRISE_MANAGE_RESTRICTIONS), (BYOD_DEVICE_ADMIN, PERMISSION_PERSONAL_MANAGE_RESTRICTIONS)])],
        typePermissions = [], apiType = API_PUBLIC \<rparr>\<rparr>)"

definition DisableMtpClientPlugin_CheckConflictPolicy :: "'s rdb \<Rightarrow> 'w services \<Rightarrow> user_id \<Rightarrow> 's pm_state \<times> 'w \<Rightarrow> err_code \<times> 's pm_state \<times> 'w" where
  "DisableMtpClientPlugin_CheckConflictPolicy R S userId = (\<lambda>(s, w).
     let (ret, accounts) = svc_QueryAllCreatedOsAccounts S w
     in if FAILED ret \<or> accounts = [] then (SYSTEM_ABNORMALLY, s, w)
        else (let (err, s) = mtp_client_conflict R accounts s in (err, s, w)))"

definition DisableMtpClientPlugin :: "'s rdb \<Rightarrow> 'w services \<Rightarrow> ('s, 'w) plugin" where
  "DisableMtpClientPlugin R S =
     BasicBoolPlugin ((switch S ''persist.edm.mtp_client_disable'')\<lparr>checkConflictPolicy := DisableMtpClientPlugin_CheckConflictPolicy R S\<rparr>)
     (IPlugin\<lparr>policyCode := IC_DISABLE_MTP_CLIENT, policyName := POLICY_DISABLED_MTP_CLIENT,
        permissionConfig := PolicyPermissionConfig PERMISSION_ENTERPRISE_MANAGE_RESTRICTIONS SUPER_DEVICE_ADMIN API_PUBLIC\<rparr>)"

definition DisallowUInputPlugin_SetOtherModulePolicy :: "'w services \<Rightarrow> bool \<Rightarrow> user_id \<Rightarrow> 's pm_state \<times> 'w \<Rightarrow> err_code \<times> 's pm_state \<times> 'w" where
  "DisallowUInputPlugin_SetOtherModulePolicy S data userId = on_world (\<lambda>w.
     case svc_DisableInputEventDispatch S data w of
       (None, w) \<Rightarrow> (SYSTEM_ABNORMALLY, w)
     | (Some ret, w) \<Rightarrow> (if ret \<noteq> 0 then SYSTEM_ABNORMALLY else ERR_OK, w))"

definition DisallowUInputPlugin_SubscribeEvent :: "'w services \<Rightarrow> 's pm_state \<times> 'w \<Rightarrow> 's pm_state \<times> 'w" where
  "DisallowUInputPlugin_SubscribeEvent S = (\<lambda>(s, w).
     (s, if svc_HasRouter S w then svc_SubscribeEvent S POLICY_DISALLOW_UINPUT BOOT_COMPLETED IC_DISALLOWED_UINPUT True False w
         else w))"

definition DisallowUInputPlugin_UnsubscribeEvent :: "'w services \<Rightarrow> 's pm_state \<times> 'w \<Rightarrow> 's pm_state \<times> 'w" where
  "DisallowUInputPlugin_UnsubscribeEvent S = (\<lambda>(s, w).
     (s, if svc_HasRouter S w then svc_UnsubscribeEvent S POLICY_DISALLOW_UINPUT BOOT_COMPLETED w else w))"

definition DisallowUInputPlugin_OnPluginEvent :: "'w services \<Rightarrow> string \<Rightarrow> handle_policy_data \<Rightarrow> user_id \<Rightarrow> 's pm_state \<times> 'w \<Rightarrow> handle_policy_data \<times> 's pm_state \<times> 'w" where
  "DisallowUInputPlugin_OnPluginEvent S adminName pd userId x =
     (let x = (if mergePolicyData pd \<noteq> CONST_TRUE then snd (DisallowUInputPlugin_SetOtherModulePolicy S False userId x) else x)
      in (pd\<lparr>policyData := []\<rparr>, x))"

definition DisallowUInputPlugin :: "'w services \<Rightarrow> ('s, 'w) plugin" where
  "DisallowUInputPlugin S =
     (BasicBoolPlugin ((switch S '''')\<lparr>setOtherModulePolicy := DisallowUInputPlugin_SetOtherModulePolicy S\<rparr>)
     (IPlugin\<lparr>policyCode := IC_DISALLOWED_UINPUT, policyName := POLICY_DISALLOW_UINPUT,
        permissionConfig := PolicyPermissionConfig PERMISSION_ENTERPRISE_MANAGE_RESTRICTIONS SUPER_DEVICE_ADMIN API_PUBLIC\<rparr>))\<lparr>subscribeEvent := DisallowUInputPlugin_SubscribeEvent S, unsubscribeEvent := DisallowUInputPlugin_UnsubscribeEvent S, onPluginEvent := DisallowUInputPlugin_OnPluginEvent S\<rparr>"

definition DisallowDistributedTransmissionPlugin_SetOtherModulePolicy :: "'s rdb \<Rightarrow> 'w services \<Rightarrow> bool \<Rightarrow> user_id \<Rightarrow> 's pm_state \<times> 'w \<Rightarrow> err_code \<times> 's pm_state \<times> 'w" where
  "DisallowDistributedTransmissionPlugin_SetOtherModulePolicy R S policy userId = (\<lambda>(s, w).
     let (ret, w) = svc_SetSpecificOsAccountConstraints S [''constraint.distributed.transmission.outgoing''] policy userId DEFAULT_USER_ID True w
     in if FAILED ret then (SYSTEM_ABNORMALLY, s, w)
        else (ERR_OK, if \<not> policy then snd (ClearAllowedCollaborationServiceBundles R userId s) else s, w))"

definition DisallowDistributedTransmissionPlugin_CheckConflictPolicy :: "'s rdb \<Rightarrow> user_id \<Rightarrow> 's pm_state \<times> 'w \<Rightarrow> err_code \<times> 's pm_state \<times> 'w" where
  "DisallowDistributedTransmissionPlugin_CheckConflictPolicy R userId = (\<lambda>(s, w).
     let (_, v, s) = PolicyManager_GetPolicy R [] POLICY_DISALLOWED_DISTRIBUTED_TRANSMISSION_FULL [] userId s
     in (if v \<noteq> [] then CONFIGURATION_CONFLICT_FAILED else ERR_OK, s, w))"

definition DisallowDistributedTransmissionPlugin :: "'s rdb \<Rightarrow> 'w services \<Rightarrow> ('s, 'w) plugin" where
  "DisallowDistributedTransmissionPlugin R S =
     BasicBoolPlugin ((switch S '''')\<lparr>setOtherModulePolicy := DisallowDistributedTransmissionPlugin_SetOtherModulePolicy R S, checkConflictPolicy := DisallowDistributedTransmissionPlugin_CheckConflictPolicy R\<rparr>)
     (IPlugin\<lparr>policyCode := IC_DISALLOWED_DISTRIBUTED_TRANSMISSION, policyName := POLICY_DISALLOWED_DISTRIBUTED_TRANSMISSION,
        permissionConfig := \<lparr> tagPermissions = [], typePermissions = [(SUPER_DEVICE_ADMIN, PERMISSION_ENTERPRISE_MANAGE_RESTRICTIONS)], apiType = API_PUBLIC \<rparr>\<rparr>)"

subsection \<open>They behave\<close>

text \<open>The switches, in the order of the definitions.\<close>

definition switch_plugins :: "'s rdb \<Rightarrow> 'w services \<Rightarrow> ('s, 'w) plugin list" where
  "switch_plugins R S = [
    DisallModifyDateTimePlugin S, SetAutoUnlockAfterRebootPlugin S, DisableAppClonePlugin S,
    DisableBackupAndRestorePlugin S, DisableHdcRemotePlugin S, DisableMaintenanceModePlugin S,
    DisableMtpServerPlugin S, DisablePrinterPlugin S, DisablePrivateSpacePlugin S,
    DisableSambaClientPlugin S, DisableSambaServerPlugin S, DisableSataOddBurnPlugin S,
    DisableSetBiometricsAndScreenLockPlugin S, DisableSetDeviceNamePlugin S, DisallowCoreDumpPlugin S,
    DisallowModifyAPNPlugin S, DisallowModifyEthernetIpPlugin S, DisallowUnmuteDevicePlugin S,
    DisallowedMMSPlugin S, DisallowedSMSPlugin S, DisallowedTelephonyCallPlugin S,
    InactiveUserFreezePlugin S, DisallowPowerLongPressPlugin S, DisallowRs232Plugin S,
    DisallowVirtualServicePlugin S, DisallowVPNPlugin S, DisallowXKeyPlugin S,
    DisallowedDeviceSudoPlugin R S, DisableSudoPlugin R S, DisablePrintPlugin S,
    DisallowExportRecoveryKeyPlugin S, DisableModifyWallpaperPlugin S, DisallowMultiWindowPlugin S,
    DisallowOpenFileBoostPlugin S, DisallowDistributedTransmissionFullPlugin R S,
    DisableUserMtpClientPlugin S, DisallowAddLocalAccountPlugin S, DisableBluetoothPlugin S,
    DisableCameraPlugin S, DisableHdcPlugin S, DisableMicrophonePlugin S, DisallowRandomMacAddressPlugin S,
    DisallowUsbSerialPlugin R S, DisallowedAirplaneModePlugin S, DisallowedP2PPlugin S,
    DisallowedPacketFilteringPlugin S, DisallowedTrafficRedirectionPlugin S, SetWifiDisabledPlugin S,
    DisableMtpClientPlugin R S, DisallowUInputPlugin S, DisallowDistributedTransmissionPlugin R S]"

definition hooks_behave :: "'s rdb \<Rightarrow> 's db_viewer \<Rightarrow> ('s pm_state \<times> 'w) bool_hooks \<Rightarrow> bool" where
  "hooks_behave R view H =
     ((\<forall>u s w err s' w'. checkConflictPolicy H u (s, w) = (err, s', w') \<longrightarrow> keeps R view s s')
     \<and> (\<forall>b u s w err s' w'. setOtherModulePolicy H b u (s, w) = (err, s', w') \<longrightarrow> keeps R view s s')
     \<and> (\<forall>n v s w ok s' w'. setParameter H n v (s, w) = (ok, s', w') \<longrightarrow> keeps R view s s')
     \<and> (\<forall>s w b s' w'. readBool H (s, w) = (b, s', w') \<longrightarrow> keeps R view s s')
     \<and> (\<forall>err b s w s' w'. writeBool H err b (s, w) = (s', w') \<longrightarrow> keeps R view s s'))"

lemma hooks_behaveD:
  assumes "hooks_behave R view H"
  shows "checkConflictPolicy H u (s, w) = (err, s', w') \<Longrightarrow> keeps R view s s'"
    "setOtherModulePolicy H b u (s, w) = (err, s', w') \<Longrightarrow> keeps R view s s'"
    "setParameter H n v (s, w) = (ok, s', w') \<Longrightarrow> keeps R view s s'"
    "readBool H (s, w) = (b', s', w') \<Longrightarrow> keeps R view s s'"
    "writeBool H err' b'' (s, w) = (s', w') \<Longrightarrow> keeps R view s s'"
  using assms unfolding hooks_behave_def by - (elim conjE, metis)+

lemma Bool_OnSetPolicy_keeps:
  assumes "hooks_behave R view H" "Bool_OnSetPolicy H d c m u (s, w) = (err, c', m', s', w')"
  shows "keeps R view s s'"
proof (cases m)
  case True
  then show ?thesis using assms(2) by (simp add: Bool_OnSetPolicy_def)
next
  case False
  note h = hooks_behaveD [OF assms(1)]
  obtain e1 s1 w1 where 1: "(if d then checkConflictPolicy H u (s, w) else (ERR_OK, s, w)) = (e1, s1, w1)" by (metis prod.exhaust)
  obtain e2 s2 w2 where 2: "setOtherModulePolicy H d u (s1, w1) = (e2, s2, w2)" by (metis prod.exhaust)
  obtain ok s3 w3 where 3: "(if persistParam H \<noteq> [] then setParameter H (persistParam H) (if d then CONST_TRUE else CONST_FALSE) (s2, w2)
     else (True, s2, w2)) = (ok, s3, w3)" by (metis prod.exhaust)
  have k: "keeps R view s s1" "keeps R view s1 s2" "keeps R view s2 s3"
    using h(1) [of u s w e1 s1 w1] h(2) [OF 2] h(3) [of "persistParam H" _ s2 w2 ok s3 w3] 1 3 by (auto split: if_splits)
  have "s' \<in> {s1, s2, s3}"
    using assms(2) False 2 3 unfolding Bool_OnSetPolicy_def 1 by (auto split: if_splits)
  then show ?thesis using k keeps_trans by blast
qed

lemma Bool_OnAdminRemove_keeps:
  assumes "hooks_behave R view H" "Bool_OnAdminRemove H a v m u (s, w) = (err, s', w')"
  shows "keeps R view s s'"
proof -
  note h = hooks_behaveD [OF assms(1)]
  obtain e2 s2 w2 where 2: "setOtherModulePolicy H False u (s, w) = (e2, s2, w2)" by (metis prod.exhaust)
  obtain ok s3 w3 where 3: "(if persistParam H \<noteq> [] then setParameter H (persistParam H) CONST_FALSE (s2, w2)
     else (True, s2, w2)) = (ok, s3, w3)" by (metis prod.exhaust)
  have k: "keeps R view s s2" "keeps R view s2 s3"
    using h(2) [OF 2] h(3) [of "persistParam H" _ s2 w2 ok s3 w3] 3 by (auto split: if_splits)
  have "s' \<in> {s, s2, s3}"
    using assms(2) 2 3 by (auto simp: Bool_OnAdminRemove_def Bool_OnAdminRemove_value_def split: if_splits)
  then show ?thesis using k keeps_trans by blast
qed

lemma well_behaved_switch:
  assumes "hooks_behave R view H" "well_behaved R view base"
  shows "well_behaved R view (BasicBoolPlugin H base)"
proof -
  note h = hooks_behaveD [OF assms(1)]
  have "keeps R view s s'" if a: "Bool_OnHandlePolicy H c pd u (s, w) = (err, pd', s', w')" for c pd u s w err pd' s' w'
  proof -
    obtain b s1 w1 where r: "readBool H (s, w) = (b, s1, w1)" by (metis prod.exhaust)
    obtain e c' m' s2 w2 where o: "Bool_OnSetPolicy H b (policyData pd = CONST_TRUE) (mergePolicyData pd = CONST_TRUE) u (s1, w1)
      = (e, c', m', s2, w2)" by (metis prod.exhaust)
    have "s' = s2" using a by (simp add: Bool_OnHandlePolicy_def r o Let_def split: if_splits)
    then show ?thesis using keeps_trans [OF h(4) [OF r] Bool_OnSetPolicy_keeps [OF assms(1) o]] by simp
  qed
  moreover have "keeps R view s s'" if "Bool_OnGetPolicy H v u (s, w) = (err, v', s', w')" for v u s w err v' s' w'
    using h(5) that unfolding Bool_OnGetPolicy_def by blast
  ultimately show ?thesis
    using assms(2) Bool_OnAdminRemove_keeps [OF assms(1)] unfolding well_behaved_def BasicBoolPlugin_def by simp
qed

lemma on_world_keeps: "on_world f (s, w) = (r, s', w') \<Longrightarrow> s' = s"
  by (auto simp: on_world_def split: prod.splits)

lemma hooks_behave_switch: "hooks_behave R view (switch S param)"
  by (auto simp: hooks_behave_def switch_def Bool_CheckConflictPolicy_def Bool_SetOtherModulePolicy_def dest!: on_world_keeps)

lemma hooks_behave_upd:
  "hooks_behave R view H \<Longrightarrow> (\<And>u s w err s' w'. f u (s, w) = (err, s', w') \<Longrightarrow> keeps R view s s')
     \<Longrightarrow> hooks_behave R view (H\<lparr>checkConflictPolicy := f\<rparr>)"
  "hooks_behave R view H \<Longrightarrow> (\<And>b u s w err s' w'. g b u (s, w) = (err, s', w') \<Longrightarrow> keeps R view s s')
     \<Longrightarrow> hooks_behave R view (H\<lparr>setOtherModulePolicy := g\<rparr>)"
  unfolding hooks_behave_def by simp_all


lemma keeps_written:
  assumes "queries_answer R" "p \<in> plugin_written" "PolicyManager_SetPolicy R a p av mv u s = (err, s')"
  shows "keeps R view s s'"
  unfolding keeps_def
proof (intro impI conjI allI)
  assume ag: "pm_agrees R view s"
  note sp = PolicyManager_SetPolicy_spec [of R view "fst s" "snd s" a p av mv u err "fst s'" "snd s'"]
  show "pm_agrees R view s'" using sp(1) ag assms(1,3) by simp
  show "coherent R view s'" if "writes_succeed R" "coherent R view s"
    by (rule stableD(4) [OF stable_coherent [OF that(1)] that(2) assms(3)])
  fix n assume n: "n \<notin> plugin_written"
  show "adm_look (R, view, snd s') (v, b, n) = adm_look (R, view, snd s) (v, b, n)" for v b
    using sp(2) ag assms n by auto
  show "comb_look (R, view, snd s') (v, n) = comb_look (R, view, snd s) (v, n)" for v
    using sp(3) ag assms n by (auto split: if_splits)
qed

lemma keeps_clear_collaboration:
  assumes "queries_answer R"
  shows "keeps R view s (clear_collaboration R u m s)"
proof (induction m arbitrary: s)
  case (Cons av m)
  obtain a v where av: "av = (a, v)" by (rule prod.exhaust)
  let ?set = "PolicyManager_SetPolicy R a POLICY_ALLOWED_COLLABORATION_SERVICE_BUNDLES [] [] u s"
  have "keeps R view s (snd ?set)"
    by (rule keeps_written [OF assms _ prod.collapse [symmetric]]) (simp add: plugin_written_def)
  then show ?case using Cons.IH [of "snd ?set"] keeps_trans by (simp add: av)
qed simp

lemma keeps_mtp_client_conflict:
  assumes "queries_answer R"
  shows "mtp_client_conflict R us s = (err, s') \<Longrightarrow> keeps R view s s'"
proof (induction us arbitrary: s)
  case (Cons u us)
  obtain e v s1 where g: "PolicyManager_GetPolicy R [] POLICY_DISABLED_USER_MTP_CLIENT [] u s = (e, v, s1)" by (metis prod.exhaust)
  have "s' = s1 \<or> mtp_client_conflict R us s1 = (err, s')" using Cons.prems by (auto simp: g split: if_splits)
  then show ?case using Cons.IH keeps_GetPolicy [OF assms g] keeps_trans by blast
qed simp

text \<open>What the conflict checks and the other overridden methods do to the policies.\<close>

lemma overridden_keep:
  assumes "queries_answer R"
  shows "DisallowedDeviceSudoPlugin_CheckConflictPolicy R u (s, w) = (err, s', w') \<Longrightarrow> keeps R view s s'"
    "DisableSudoPlugin_CheckConflictPolicy R u (s, w) = (err, s', w') \<Longrightarrow> keeps R view s s'"
    "DisallowDistributedTransmissionFullPlugin_CheckConflictPolicy R u (s, w) = (err, s', w') \<Longrightarrow> keeps R view s s'"
    "DisallowDistributedTransmissionPlugin_CheckConflictPolicy R u (s, w) = (err, s', w') \<Longrightarrow> keeps R view s s'"
    "DisallowUsbSerialPlugin_CheckConflictPolicy R u (s, w) = (err, s', w') \<Longrightarrow> keeps R view s s'"
    "DisableMtpClientPlugin_CheckConflictPolicy R S u (s, w) = (err, s', w') \<Longrightarrow> keeps R view s s'"
    "DisallowDistributedTransmissionPlugin_SetOtherModulePolicy R S b u (s, w) = (err, s', w') \<Longrightarrow> keeps R view s s'"
proof -
  note g = keeps_GetPolicy [OF assms]
  show "DisallowedDeviceSudoPlugin_CheckConflictPolicy R u (s, w) = (err, s', w') \<Longrightarrow> keeps R view s s'"
    "DisableSudoPlugin_CheckConflictPolicy R u (s, w) = (err, s', w') \<Longrightarrow> keeps R view s s'"
    "DisallowDistributedTransmissionFullPlugin_CheckConflictPolicy R u (s, w) = (err, s', w') \<Longrightarrow> keeps R view s s'"
    "DisallowDistributedTransmissionPlugin_CheckConflictPolicy R u (s, w) = (err, s', w') \<Longrightarrow> keeps R view s s'"
    by (auto simp: DisallowedDeviceSudoPlugin_CheckConflictPolicy_def DisableSudoPlugin_CheckConflictPolicy_def
        DisallowDistributedTransmissionFullPlugin_CheckConflictPolicy_def
        DisallowDistributedTransmissionPlugin_CheckConflictPolicy_def split: prod.splits dest: g)
  show "DisallowUsbSerialPlugin_CheckConflictPolicy R u (s, w) = (err, s', w') \<Longrightarrow> keeps R view s s'"
    by (auto simp: DisallowUsbSerialPlugin_CheckConflictPolicy_def split: prod.splits if_splits
        dest: g intro: keeps_trans [OF g g])
  show "DisableMtpClientPlugin_CheckConflictPolicy R S u (s, w) = (err, s', w') \<Longrightarrow> keeps R view s s'"
    by (auto simp: DisableMtpClientPlugin_CheckConflictPolicy_def split: prod.splits if_splits
        dest: keeps_mtp_client_conflict [OF assms])
  have "keeps R view s (snd (ClearAllowedCollaborationServiceBundles R u s))"
  proof -
    obtain e m s1 where l: "PolicyManager_GetAdminByPolicyName R POLICY_ALLOWED_COLLABORATION_SERVICE_BUNDLES [] u s = (e, m, s1)"
      by (metis prod.exhaust)
    then show ?thesis
      using keeps_GetAdminByPolicyName [OF assms l] keeps_trans [OF _ keeps_clear_collaboration [OF assms, of view s1 u m]]
      by (simp add: ClearAllowedCollaborationServiceBundles_def)
  qed
  then show "DisallowDistributedTransmissionPlugin_SetOtherModulePolicy R S b u (s, w) = (err, s', w') \<Longrightarrow> keeps R view s s'"
    by (auto simp: DisallowDistributedTransmissionPlugin_SetOtherModulePolicy_def split: prod.splits if_splits)
qed


lemmas on_world_defs = DisallowPowerLongPressPlugin_SetOtherModulePolicy_def DisallowRs232Plugin_SetOtherModulePolicy_def
  DisallowVirtualServicePlugin_SetOtherModulePolicy_def DisallowVPNPlugin_SetOtherModulePolicy_def
  DisallowXKeyPlugin_SetOtherModulePolicy_def DisableSudoPlugin_SetOtherModulePolicy_def
  DisablePrintPlugin_SetOtherModulePolicy_def DisallowExportRecoveryKeyPlugin_SetOtherModulePolicy_def
  DisableModifyWallpaperPlugin_SetOtherModulePolicy_def
  DisallowMultiWindowPlugin_SetOtherModulePolicy_def
  DisallowOpenFileBoostPlugin_SetOtherModulePolicy_def
  DisallowDistributedTransmissionFullPlugin_SetOtherModulePolicy_def
  DisableUserMtpClientPlugin_SetOtherModulePolicy_def
  DisableUserMtpClientPlugin_CheckConflictPolicy_def
  DisallowAddLocalAccountPlugin_SetOtherModulePolicy_def
  DisableBluetoothPlugin_SetOtherModulePolicy_def DisableCameraPlugin_SetOtherModulePolicy_def
  DisableHdcPlugin_SetOtherModulePolicy_def DisableMicrophonePlugin_SetOtherModulePolicy_def
  DisallowRandomMacAddressPlugin_SetOtherModulePolicy_def
  DisallowUsbSerialPlugin_SetOtherModulePolicy_def
  DisallowedAirplaneModePlugin_SetOtherModulePolicy_def DisallowedP2PPlugin_SetOtherModulePolicy_def
  DisallowedPacketFilteringPlugin_SetOtherModulePolicy_def
  DisallowedTrafficRedirectionPlugin_SetOtherModulePolicy_def
  SetWifiDisabledPlugin_SetOtherModulePolicy_def DisallowUInputPlugin_SetOtherModulePolicy_def

lemma well_behaved_upd:
  "well_behaved R view p \<Longrightarrow> (\<And>s w s' w'. f (s, w) = (s', w') \<Longrightarrow> keeps R view s s') \<Longrightarrow> well_behaved R view (p\<lparr>subscribeEvent := f\<rparr>)"
  "well_behaved R view p \<Longrightarrow> (\<And>s w s' w'. f (s, w) = (s', w') \<Longrightarrow> keeps R view s s') \<Longrightarrow> well_behaved R view (p\<lparr>unsubscribeEvent := f\<rparr>)"
  "well_behaved R view p \<Longrightarrow> (\<And>a pd u s w pd' s' w'. g a pd u (s, w) = (pd', s', w') \<Longrightarrow> keeps R view s s')
     \<Longrightarrow> well_behaved R view (p\<lparr>onPluginEvent := g\<rparr>)"
  unfolding well_behaved_def by simp_all

lemma uinput_keeps:
  "DisallowUInputPlugin_SubscribeEvent S (s, w) = (s', w') \<Longrightarrow> keeps R view s s'"
  "DisallowUInputPlugin_UnsubscribeEvent S (s, w) = (s', w') \<Longrightarrow> keeps R view s s'"
  "DisallowUInputPlugin_OnPluginEvent S a pd u (s, w) = (pd', s', w') \<Longrightarrow> keeps R view s s'"
proof -
  show "DisallowUInputPlugin_OnPluginEvent S a pd u (s, w) = (pd', s', w') \<Longrightarrow> keeps R view s s'"
    by (cases "DisallowUInputPlugin_SetOtherModulePolicy S False u (s, w)")
      (auto simp: DisallowUInputPlugin_OnPluginEvent_def Let_def DisallowUInputPlugin_SetOtherModulePolicy_def
        dest!: on_world_keeps split: if_splits)
qed (simp_all add: DisallowUInputPlugin_SubscribeEvent_def DisallowUInputPlugin_UnsubscribeEvent_def)

lemma switches_behave:
  assumes "queries_answer R" "p \<in> set (switch_plugins R S)"
  shows "well_behaved R view p"
proof -
  have "list_all (well_behaved R view) (switch_plugins R S)"
    unfolding switch_plugins_def list.pred_inject
      DisallModifyDateTimePlugin_def SetAutoUnlockAfterRebootPlugin_def DisableAppClonePlugin_def
  DisableBackupAndRestorePlugin_def DisableHdcRemotePlugin_def DisableMaintenanceModePlugin_def
  DisableMtpServerPlugin_def DisablePrinterPlugin_def DisablePrivateSpacePlugin_def
  DisableSambaClientPlugin_def DisableSambaServerPlugin_def DisableSataOddBurnPlugin_def
  DisableSetBiometricsAndScreenLockPlugin_def DisableSetDeviceNamePlugin_def DisallowCoreDumpPlugin_def
  DisallowModifyAPNPlugin_def DisallowModifyEthernetIpPlugin_def DisallowUnmuteDevicePlugin_def
  DisallowedMMSPlugin_def DisallowedSMSPlugin_def DisallowedTelephonyCallPlugin_def
  InactiveUserFreezePlugin_def DisallowPowerLongPressPlugin_def DisallowRs232Plugin_def
  DisallowVirtualServicePlugin_def DisallowVPNPlugin_def DisallowXKeyPlugin_def
  DisallowedDeviceSudoPlugin_def DisableSudoPlugin_def DisablePrintPlugin_def
  DisallowExportRecoveryKeyPlugin_def DisableModifyWallpaperPlugin_def DisallowMultiWindowPlugin_def
  DisallowOpenFileBoostPlugin_def DisallowDistributedTransmissionFullPlugin_def
  DisableUserMtpClientPlugin_def DisallowAddLocalAccountPlugin_def DisableBluetoothPlugin_def
  DisableCameraPlugin_def DisableHdcPlugin_def DisableMicrophonePlugin_def
  DisallowRandomMacAddressPlugin_def DisallowUsbSerialPlugin_def DisallowedAirplaneModePlugin_def
  DisallowedP2PPlugin_def DisallowedPacketFilteringPlugin_def DisallowedTrafficRedirectionPlugin_def
  SetWifiDisabledPlugin_def DisableMtpClientPlugin_def DisallowUInputPlugin_def
  DisallowDistributedTransmissionPlugin_def
    by (intro conjI TrueI well_behaved_switch hooks_behave_upd hooks_behave_switch well_behaved_upd;
      (simp add: well_behaved_IPlugin | erule uinput_keeps | erule overridden_keep [OF assms(1)]
        | (simp only: on_world_defs, drule on_world_keeps, simp)))
  then show ?thesis using assms(2) by (simp add: list_all_iff)
qed

end
