(* ===== verification/Switch_Policies.thy ===== *)
theory Switch_Policies
  imports Combined_Policy Switch_Plugins
begin

text \<open>
  The properties of policy updates, and a service with the switches of \<open>Switch_Plugins\<close> on which they
  are evaluated.
\<close>

subsection \<open>A service with the switches\<close>

text \<open>Each library offers the plugins of the list whose codes it is loaded for.\<close>

definition switch_env :: "('s, 'w) plugin list \<Rightarrow> int \<Rightarrow> ('s, 'w) plugin_env" where
  "switch_env ps t = \<lparr> dlopen = (\<lambda>so. Some (map RegisterPlugin
       (filter (\<lambda>p. GetSoNameByCode (GetCode p) = Some so) ps))),
     pluginDir = None, now = t \<rparr>"

lemma switch_plugins_fresh: "p \<in> set (switch_plugins R S) \<Longrightarrow> extensionPlugin p = None"
proof -
  have "list_all (\<lambda>p. extensionPlugin p = None) (switch_plugins R S)" by code_simp
  then show "p \<in> set (switch_plugins R S) \<Longrightarrow> extensionPlugin p = None" by (simp add: list_all_iff)
qed

lemma switch_env_libraries:
  assumes "\<And>p. p \<in> set ps \<Longrightarrow> P p"
  shows "libraries_ok P (switch_env ps t)"
  using assms by (auto simp: libraries_ok_def switch_env_def list_all_iff)

lemma switch_env_ok:
  assumes "queries_answer R" "set ps \<subseteq> set (switch_plugins R S)"
  shows "libs_ok R view (switch_env ps t)"
proof -
  have "fresh_libraries (switch_env ps t)"
    using switch_plugins_fresh [of _ R S] assms(2) by (auto simp: fresh_libraries_def switch_env_def list_all_iff)
  moreover have "libraries_ok (well_behaved R view) (switch_env ps t)"
    by (rule switch_env_libraries) (use switches_behave [OF assms(1)] assms(2) in blast)
  ultimately show ?thesis by (simp add: libs_ok_def)
qed

text \<open>Services that succeed: the world is the list of the switch positions in the parcels to come.\<close>

definition calm :: "bool list services" where
  "calm = \<lparr>
     svc_ReadBool = (\<lambda>w. (hd w, tl w)), svc_WriteBool = (\<lambda>_ _ w. w), svc_SetParameter = (\<lambda>_ _ w. (True, w)),
     svc_GetParameter = (\<lambda>_ v _. v), svc_UpdateSettingsData = (\<lambda>_ _ w. (ERR_OK, w)),
     svc_SetSpecificOsAccountConstraints = (\<lambda>_ _ _ _ _ w. (ERR_OK, w)),
     svc_SetGlobalOsAccountConstraints = (\<lambda>_ _ _ _ w. (ERR_OK, w)),
     svc_QueryActiveOsAccountIds = (\<lambda>_. (ERR_OK, [100])), svc_QueryAllCreatedOsAccounts = (\<lambda>_. (ERR_OK, [100, 101])),
     svc_DestroyVpn = (\<lambda>w. (0, w)), svc_DisableBt = (\<lambda>w. (True, w)), svc_SetDisablePolicy = (\<lambda>_ _ w. (0, w)),
     svc_SetMicrophoneMutePersistent = (\<lambda>_ w. (Some 0, w)), svc_SetRandomMacDisabled = (\<lambda>_ w. (Some ERR_OK, w)),
     svc_DisableWifi = (\<lambda>w. (Some ERR_OK, w)), svc_HasP2p = (\<lambda>_. True), svc_RemoveGroup = (\<lambda>w. w),
     svc_GlobalDisablePacketFilter = (\<lambda>w. (0, w)), svc_GlobalEnablePacketFilter = (\<lambda>w. (0, w)),
     svc_GlobalDisableTrafficFilter = (\<lambda>w. (0, w)), svc_GlobalEnableTrafficFilter = (\<lambda>w. (0, w)),
     svc_SetAirplaneMode = (\<lambda>_ w. w), svc_DisableInputEventDispatch = (\<lambda>_ w. (Some 0, w)),
     svc_HasRouter = (\<lambda>_. True), svc_SubscribeEvent = (\<lambda>_ _ _ _ _ w. w), svc_UnsubscribeEvent = (\<lambda>_ _ w. w) \<rparr>"

text \<open>Two switches of a library, the service over an empty database with the parcels \<open>w\<close> to come, and
  its operations.\<close>

definition sudo_switches :: "(string \<Rightarrow> db_row list, bool list) plugin list" where
  "sudo_switches = [DisableSudoPlugin reliable_rdb calm, DisallowedDeviceSudoPlugin reliable_rdb calm]"

definition switch_start :: "bool list \<Rightarrow> (string \<Rightarrow> db_row list, bool list) edm_state" where
  "switch_start w = (PluginManager, (policy_mgr0, edm_db0 (\<lambda>_. [])), w)"

definition switch_update :: "u32 \<Rightarrow> string \<Rightarrow> user_id \<Rightarrow> (string \<Rightarrow> db_row list, bool list) edm_state
    \<Rightarrow> err_code \<times> (string \<Rightarrow> db_row list, bool list) edm_state" where
  "switch_update code a u st = UpdateDevicePolicy reliable_rdb (switch_env sudo_switches 0) (set_code code) a u st"

definition switch_get :: "u32 \<Rightarrow> string \<Rightarrow> user_id \<Rightarrow> (string \<Rightarrow> db_row list, bool list) edm_state
    \<Rightarrow> err_code \<times> (string \<Rightarrow> db_row list, bool list) edm_state" where
  "switch_get code a u st = PluginManager_GetPolicy reliable_rdb (switch_env sudo_switches 0) (set_code code) a u st"

definition switch_value :: "string \<Rightarrow> string \<Rightarrow> user_id \<Rightarrow> (string \<Rightarrow> db_row list, bool list) edm_state \<Rightarrow> err_code \<times> string" where
  "switch_value a name u st = policy_answer reliable_rdb (fst (snd st)) a name u"

lemma sudo_env_ok: "libs_ok reliable_rdb (\<lambda>s. s) (switch_env sudo_switches t)"
  by (rule switch_env_ok [OF writes_answer [OF reliable_rdb_writes], of _ calm]) (simp add: sudo_switches_def switch_plugins_def)

lemma switch_update_step: "edm_step reliable_rdb (\<lambda>s. s) st (snd (switch_update code a u st))"
proof -
  have "UpdateDevicePolicy reliable_rdb (switch_env sudo_switches 0) (set_code code) a u st
      = (fst (switch_update code a u st), snd (switch_update code a u st))" by (simp add: switch_update_def)
  then show ?thesis by (rule step_update [OF sudo_env_ok])
qed

lemma switch_start_reachable:
  "edm_reachable reliable_rdb (\<lambda>s. s) (edm_db0 (\<lambda>_. [])) (switch_start w)"
  using policies_ok_empty [OF reliable_rdb_laws, of "edm_db0 (\<lambda>_. [])"]
  by (auto simp: edm_reachable_def switch_start_def edm_db0_def)

lemma switch_update_reachable:
  "edm_reachable reliable_rdb (\<lambda>s. s) d st \<Longrightarrow> edm_reachable reliable_rdb (\<lambda>s. s) d (snd (switch_update code a u st))"
  unfolding edm_reachable_def using switch_update_step by (meson rtranclp.rtrancl_into_rtrancl)

definition sudo_on :: "(string \<Rightarrow> db_row list, bool list) edm_state" where
  "sudo_on = snd (switch_update IC_DISALLOWED_SUDO ''com.a'' 100 (switch_start [True, True]))"

lemma sudo_on_reachable: "edm_reachable reliable_rdb (\<lambda>s. s) (edm_db0 (\<lambda>_. [])) sudo_on"
  unfolding sudo_on_def by (rule switch_update_reachable [OF switch_start_reachable])







end
