(* ===== verification/List_Policies.thy ===== *)
theory List_Policies
  imports Combined_Policy List_Plugins Switch_Policies
begin

text \<open>
  What the list plugins make of the administrators' lists: the combined value is the text of their union, in every
  state the service can reach.
\<close>

subsection \<open>Lists and their texts\<close>

definition list_of :: "cjson \<Rightarrow> string \<Rightarrow> string list" where
  "list_of J t = snd (ArrayString_Deserialize J t [])"

definition text_of :: "cjson \<Rightarrow> string list \<Rightarrow> string" where
  "text_of J l = snd (ArrayString_Serialize J l [])"

text \<open>What an administrator may have stored, and the merge of such texts.\<close>

definition list_text :: "cjson \<Rightarrow> string \<Rightarrow> bool" where
  "list_text J v = (v \<noteq> [] \<and> strict (list_of J v) \<and> text_of J (list_of J v) = v)"

definition list_merge :: "cjson \<Rightarrow> string set \<Rightarrow> string" where
  "list_merge J V = text_of J (sorted_list_of_set (\<Union>v\<in>V. set (list_of J v)))"

lemma texts:
  assumes "cjson_laws J"
  shows "ArrayString_Serialize J l t = (True, text_of J l)" "ArrayString_Deserialize J (text_of J l) d = (True, l)"
    "text_of J l = [] \<longleftrightarrow> l = []"
proof -
  obtain s where s: "ArrayString_Serialize J l [] = (True, s)" "ArrayString_Deserialize J s d = (True, l)" "s = [] \<longleftrightarrow> l = []"
    by (rule ArrayString_roundtrip [OF assms])
  obtain s' where "ArrayString_Serialize J l t = (True, s')" by (rule ArrayString_roundtrip [OF assms])
  then have "s' = s" using s(1) by (auto simp: ArrayString_Serialize_def split: if_splits option.splits)
  then show "ArrayString_Serialize J l t = (True, text_of J l)" "ArrayString_Deserialize J (text_of J l) d = (True, l)"
    "text_of J l = [] \<longleftrightarrow> l = []" using s \<open>ArrayString_Serialize J l t = (True, s')\<close> by (simp_all add: text_of_def)
qed

lemma list_of_text [simp]: "cjson_laws J \<Longrightarrow> list_of J (text_of J l) = l"
  by (simp add: list_of_def texts)

lemma list_of_Nil [simp]: "list_of J [] = []"
  by (simp add: list_of_def ArrayString_Deserialize_def)

lemma list_textI: "cjson_laws J \<Longrightarrow> strict l \<Longrightarrow> l \<noteq> [] \<Longrightarrow> list_text J (text_of J l)"
  by (simp add: list_text_def texts)

lemma read_list_text:
  assumes "cjson_laws J" "v = [] \<or> list_text J v"
  shows "ArrayString_Deserialize J v d = (True, list_of J v)" "strict (list_of J v)"
proof -
  show "strict (list_of J v)" using assms(2) by (auto simp: list_text_def)
  show "ArrayString_Deserialize J v d = (True, list_of J v)"
    using assms texts(2) [of J "list_of J v" d] by (auto simp: list_text_def ArrayString_Deserialize_def)
qed

lemma list_of_empty:
  assumes "cjson_laws J" "v = [] \<or> list_text J v"
  shows "list_of J v = [] \<longleftrightarrow> v = []"
  using assms(2)
proof
  assume v: "list_text J v"
  then have "text_of J (list_of J v) = v" by (simp add: list_text_def)
  then show ?thesis using texts(3) [OF assms(1), of "list_of J v"] by (simp only:)
qed simp

lemma strict_sorted_list: "finite A \<Longrightarrow> strict (sorted_list_of_set A)"
  by (simp add: strict_def)

lemma merge_finite: "finite V \<Longrightarrow> finite (\<Union>v\<in>V. set (list_of J v))"
  by simp

lemma list_merge_spec:
  assumes "cjson_laws J" "finite V"
  shows "list_of J (list_merge J V) = sorted_list_of_set (\<Union>v\<in>V. set (list_of J v))"
    "list_merge J V = [] \<longleftrightarrow> (\<Union>v\<in>V. set (list_of J v)) = {}"
  using assms merge_finite [OF assms(2), of J] by (simp_all add: list_merge_def texts)

lemma list_merge_text:
  assumes "cjson_laws J" "finite V"
  shows "list_merge J V = [] \<or> list_text J (list_merge J V)"
  using strict_sorted_list [OF merge_finite [OF assms(2), of J]] list_textI [OF assms(1)]
  by (cases "sorted_list_of_set (\<Union>v\<in>V. set (list_of J v)) = []") (simp_all add: list_merge_def texts [OF assms(1)])

lemma list_mergeI:
  assumes "strict l" "set l = (\<Union>v\<in>V. set (list_of J v))"
  shows "text_of J l = list_merge J V"
  using strict_unique [OF assms(1) strict_sorted_list, of "set l"] assms(2)
  by (simp add: list_merge_def) (metis List.finite_set set_sorted_list_of_set)

subsection \<open>Handlers of lists\<close>

text \<open>A handler keeps the lists sorted; when it changes the administrator's list, the merge it returns is the union of
  the others' with it.\<close>

definition list_handler :: "(string list \<Rightarrow> string list \<Rightarrow> string list \<Rightarrow> user_id \<Rightarrow> 'v \<Rightarrow> err_code \<times> string list \<times> string list \<times> 'v) \<Rightarrow> bool" where
  "list_handler f = (\<forall>data cur others u x cur' merged y. f data cur others u x = (ERR_OK, cur', merged, y) \<longrightarrow>
     strict data \<longrightarrow> strict cur \<longrightarrow> strict others \<longrightarrow>
     strict cur' \<and> strict merged \<and> (cur' \<noteq> cur \<longrightarrow> set merged = set others \<union> set cur'))"

text \<open>A hook reports failed elements among those it was given, in their order.\<close>

definition reports_failed :: "('a::linorder, 'v) array_hooks \<Rightarrow> bool" where
  "reports_failed H = (\<forall>data u x err failed y. setOtherModule H data u x = (err, failed, y) \<longrightarrow> strict data \<longrightarrow>
     strict failed \<and> set failed \<subseteq> set data)"

lemma OnBasicSetPolicy_handler:
  assumes "reports_failed H"
  shows "list_handler (OnBasicSetPolicy H)"
  unfolding list_handler_def
proof (intro allI impI)
  fix data cur others cur' merged :: "string list" and u x y
  assume h: "OnBasicSetPolicy H data cur others u x = (ERR_OK, cur', merged, y)" and s: "strict data" "strict cur" "strict others"
  let ?add = "data_difference cur data" and ?after = "data_union cur (data_difference cur data)"
  obtain ret failed z where m: "(if data_difference others ?add \<noteq> [] then setOtherModule H (data_difference others ?add) u x
      else (ERR_OK, [], x)) = (ret, failed, z)" by (metis prod.exhaust)
  have f: "strict failed" "set failed \<subseteq> set data - set cur - set others"
  proof -
    have d: "strict (data_difference others ?add)" "set (data_difference others ?add) = set data - set cur - set others"
      using s by simp_all
    show "strict failed" "set failed \<subseteq> set data - set cur - set others"
      using assms m d unfolding reports_failed_def by (metis prod.inject strict_Nil empty_set empty_subsetI)+
  qed
  have sets: "set ?after = set cur \<union> set data" "set (data_union others ?after) = set others \<union> set cur \<union> set data"
    using s by auto
  have "(cur' = cur \<and> merged = others) \<or> (cur' = ?after \<and> merged = data_union others ?after)
    \<or> (cur' = data_difference failed ?after \<and> merged = data_difference failed (data_union others ?after))"
    using h m by (auto simp: OnBasicSetPolicy_def Let_def split: if_splits prod.splits)
  then show "strict cur' \<and> strict merged \<and> (cur' \<noteq> cur \<longrightarrow> set merged = set others \<union> set cur')"
    using s f(1) sets by (elim disjE conjE) (auto dest: subsetD [OF f(2)])
qed

lemma OnBasicRemovePolicy_handler: "list_handler (OnBasicRemovePolicy H)"
  unfolding list_handler_def
proof (intro allI impI)
  fix data cur others cur' merged :: "string list" and u x y
  assume h: "OnBasicRemovePolicy H data cur others u x = (ERR_OK, cur', merged, y)" and s: "strict data" "strict cur" "strict others"
  obtain ret failed z where m: "(if data_difference others (data_intersection data cur) \<noteq> []
      then removeOtherModule H (data_difference others (data_intersection data cur)) u x else (ERR_OK, [], x)) = (ret, failed, z)"
    by (metis prod.exhaust)
  have "(cur' = cur \<and> merged = others) \<or> (\<exists>l. cur' = data_difference l cur \<and> merged = data_union others cur')"
    using h m by (auto simp: OnBasicRemovePolicy_def Let_def split: if_splits prod.splits)
  then show "strict cur' \<and> strict merged \<and> (cur' \<noteq> cur \<longrightarrow> set merged = set others \<union> set cur')"
    using s by auto
qed

lemma Printer_handlers: "list_handler (Printer_OnSetPolicy R type n e)" "list_handler (Printer_OnRemovePolicy n e)"
  by (auto simp: list_handler_def Printer_OnSetPolicy_def Printer_OnRemovePolicy_def data_operations Let_def
      split: if_splits prod.splits)

subsection \<open>Templates of lists\<close>

definition list_template :: "cjson \<Rightarrow> (string list, 'v) template \<Rightarrow> bool" where
  "list_template J T = (tDeserialize T = ArrayString_Deserialize J \<and> tSerialize T = ArrayString_Serialize J
     \<and> tMergePolicy T = ArrayString_MergePolicy \<and> uninit T = []
     \<and> (\<forall>x ok d y. tGetPolicy T [] x = (ok, d, y) \<longrightarrow> strict d)
     \<and> (\<forall>(op, h)\<in>set (handlePolicyFuncMap T). \<exists>f. h = HandleBiFunction f \<and> list_handler f))"

lemma list_templateD:
  assumes "list_template J T"
  shows "tDeserialize T = ArrayString_Deserialize J" "tSerialize T = ArrayString_Serialize J"
    "tMergePolicy T = ArrayString_MergePolicy" "uninit T = []" "tGetPolicy T [] x = (ok, d, y) \<Longrightarrow> strict d"
    "map_of (handlePolicyFuncMap T) op = Some h \<Longrightarrow> \<exists>f. h = HandleBiFunction f \<and> list_handler f"
  using assms unfolding list_template_def by (blast dest: map_of_SomeD)+

text \<open>What the others' values are merged to.\<close>

lemma deserialize_values_texts:
  assumes "cjson_laws J" "list_template J T"
  shows "\<forall>v\<in>set vs. list_text J v \<Longrightarrow> deserialize_values T vs = Some (map (list_of J) vs)"
proof (induction vs)
  case (Cons v vs)
  then show ?case
    using read_list_text(1) [OF assms(1), of v "[]"] by (simp add: list_templateD [OF assms(2)] list_text_def)
qed simp

lemma template_others:
  assumes "cjson_laws J" "list_template J T" "\<forall>v\<in>snd ` set items. list_text J v"
  shows "snd (Template_GetOthersMergePolicyData T a items []) = list_merge J (snd ` set (AList.delete a items))"
proof (cases "AList.delete a items = []")
  case True
  have e: "list_merge J {} = []" using list_merge_spec(2) [OF assms(1), of "{}"] by simp
  show ?thesis by (simp only: Template_GetOthersMergePolicyData_def True Let_def) (simp add: e)
next
  case False
  let ?vs = "map snd (AList.delete a items)"
  have "\<forall>v\<in>set ?vs. list_text J v" using assms(3) by (auto simp: AList.delete_eq)
  note d = deserialize_values_texts [OF assms(1,2) this]
  have "set (ordered_set (map (list_of J) ?vs)) = (\<Union>v\<in>snd ` set (AList.delete a items). set (list_of J v))" by simp
  then have "text_of J (ordered_set (map (list_of J) ?vs)) = list_merge J (snd ` set (AList.delete a items))"
    by (intro list_mergeI) simp_all
  moreover have "items \<noteq> []" using False by auto
  ultimately show ?thesis
    using False d by (simp add: Template_GetOthersMergePolicyData_def ArrayString_MergePolicy_def Let_def
        list_templateD [OF assms(2)] texts [OF assms(1)])
qed

text \<open>What an administrator's change makes of its own value and the merge.\<close>

lemma template_handle:
  assumes "cjson_laws J" "list_template J T"
    and "Template_OnHandlePolicy T c \<lparr> policyData = own, mergePolicyData = list_merge J V, isChanged = False \<rparr> u x = (ERR_OK, pd, y)"
    and "isChanged pd" "own = [] \<or> list_text J own" "finite V"
  shows "(policyData pd = [] \<and> mergePolicyData pd = list_merge J V)
    \<or> (list_text J (policyData pd) \<and> policyData pd \<noteq> [] \<and> mergePolicyData pd = list_merge J (insert (policyData pd) V))"
proof -
  note T = list_templateD [OF assms(2)]
  note own = read_list_text [OF assms(1,5)] and mer = read_list_text [OF assms(1) list_merge_text [OF assms(1,6)]]
  let ?c = "list_of J own" and ?o = "list_of J (list_merge J V)"
  have none: "?c = [] \<longleftrightarrow> own = []" "?o = [] \<longleftrightarrow> list_merge J V = []"
    by (rule list_of_empty [OF assms(1,5)]) (rule list_of_empty [OF assms(1) list_merge_text [OF assms(1,6)]])
  obtain h where h: "map_of (handlePolicyFuncMap T) (ConvertOperateType (FUNC_TO_OPERATE c)) = Some h"
    using assms(3,4) by (cases "map_of (handlePolicyFuncMap T) (ConvertOperateType (FUNC_TO_OPERATE c))")
      (auto simp: Template_OnHandlePolicy_def)
  obtain f where f: "h = HandleBiFunction f" "list_handler f" using T(6) [OF h] by blast
  obtain ok data z where g: "tGetPolicy T [] x = (ok, data, z)" by (metis prod.exhaust)
  obtain r cur' merged z' where r: "f data ?c ?o u z = (r, cur', merged, z')" by (metis prod.exhaust)
  have pd: "r = ERR_OK" "policyData pd = text_of J cur'" "mergePolicyData pd = text_of J merged" "own \<noteq> text_of J cur'"
    using assms(3,4) h g r own(1) mer(1) none
    by (auto simp: Template_OnHandlePolicy_def f(1) HandlePolicy_BiFunction_def T(1,2,4) Let_def texts(1) [OF assms(1)]
        split: if_splits)
  have "text_of J ?c = own"
    using assms(5) texts(3) [OF assms(1), of "[]"] by (elim disjE) (simp_all add: list_text_def)
  then have "cur' \<noteq> ?c" using pd(4) by metis
  then have l: "strict cur'" "strict merged" "set merged = set ?o \<union> set cur'"
    using f(2) r pd(1) T(5) [OF g] own(2) mer(2) unfolding list_handler_def by blast+
  have o: "set ?o = (\<Union>v\<in>V. set (list_of J v))" using list_merge_spec(1) [OF assms(1,6)] merge_finite [OF assms(6), of J] by simp
  show ?thesis
  proof (cases "cur' = []")
    case True
    have "text_of J merged = list_merge J V" by (rule list_mergeI) (use l o True in simp_all)
    then show ?thesis using pd True by (simp add: texts(3) [OF assms(1)])
  next
    case False
    have "text_of J merged = list_merge J (insert (text_of J cur') V)"
      by (rule list_mergeI) (use l o assms(1) in auto)
    then show ?thesis using pd False l(1) by (simp add: texts(3) [OF assms(1)] list_textI [OF assms(1)])
  qed
qed

lemma list_plugin_merges:
  assumes "cjson_laws J" "list_template J T"
  shows "merging_plugin (list_text J) (list_merge J) (IPluginTemplate R T base)"
proof
  show "list_merge J {} = []" using list_merge_spec(2) [OF assms(1), of "{}"] by simp
next
  fix items :: "(string, string) amap" and a
  assume "\<forall>v\<in>snd ` set items. list_text J v"
  then show "\<exists>f. othersMerge (IPluginTemplate R T base) = Some f \<and> snd (f a items []) = list_merge J (snd ` set (AList.delete a items))"
    by (simp add: IPluginTemplate_def template_others [OF assms])
next
  fix c own V u x pd y
  assume "onHandlePolicy (IPluginTemplate R T base) c \<lparr> policyData = own, mergePolicyData = list_merge J V, isChanged = False \<rparr> u x
      = (ERR_OK, pd, y)" "isChanged pd" "own = [] \<or> list_text J own" "finite V"
  then show "(policyData pd = [] \<and> mergePolicyData pd = list_merge J V)
    \<or> (list_text J (policyData pd) \<and> policyData pd \<noteq> [] \<and> mergePolicyData pd = list_merge J (insert (policyData pd) V))"
    by (intro template_handle [OF assms]) (simp_all add: IPluginTemplate_def)
qed


subsection \<open>The list plugins keep the contract\<close>

lemma reports_failed_hooks:
  "reports_failed (list_hooks n)"
  "reports_failed H \<Longrightarrow> reports_failed (H\<lparr>removeOtherModule := g\<rparr>)" "reports_failed H \<Longrightarrow> reports_failed (H\<lparr>overMaxReturnErrCode := e\<rparr>)"
  "(\<And>d u s w. \<exists>P err y. f d u (s, w) = (err, filter P d, y)) \<Longrightarrow> reports_failed (H'\<lparr>setOtherModule := f\<rparr>)"
proof -
  assume f: "\<And>d u s w. \<exists>P err y. f d u (s, w) = (err, filter P d, y)"
  have "strict failed \<and> set failed \<subseteq> set d" if "f d u x = (err, failed, y)" "strict d" for d u x err failed y
    using f [of d u "fst x" "snd x"] that by (auto simp: strict_def sorted_wrt_filter)
  then show "reports_failed (H'\<lparr>setOtherModule := f\<rparr>)" unfolding reports_failed_def by simp
qed (auto simp: reports_failed_def list_hooks_def Array_SetOtherModulePolicy_def)

lemma ordered_insert_subset: "set (ordered_insert k v m) \<subseteq> insert (k, v) (set m)"
  by (induction k v m rule: ordered_insert.induct) auto

lemma list_template_setters:
  "list_template J (string_lists J S)"
  "list_template J T \<Longrightarrow> list_handler f \<Longrightarrow> list_template J (SetOnHandlePolicyListener (HandleBiFunction f) op T)"
  "list_template J T \<Longrightarrow> list_template J (SetOnHandlePolicyDoneListener d op T)"
  "list_template J T \<Longrightarrow> list_template J (SetOnAdminRemoveListener r T)"
  "list_template J T \<Longrightarrow> list_template J (SetOnAdminRemoveDoneListener rd T)"
  "list_template J T \<Longrightarrow> reports_failed H \<Longrightarrow> list_template J (basic_handlers H T)"
proof -
  show h: "list_template J T \<Longrightarrow> list_handler f \<Longrightarrow> list_template J (SetOnHandlePolicyListener (HandleBiFunction f) op T)" for f op T
    using ordered_insert_subset [of op "HandleBiFunction f" "handlePolicyFuncMap T"]
    by (auto simp: list_template_def SetOnHandlePolicyListener_def)
  show "list_template J T \<Longrightarrow> reports_failed H \<Longrightarrow> list_template J (basic_handlers H T)"
    unfolding basic_handlers_def by (intro h OnBasicSetPolicy_handler OnBasicRemovePolicy_handler)
  show "list_template J (string_lists J S)"
    by (auto simp: list_template_def string_lists_def ArrayString_GetPolicy_def split: option.splits prod.splits)
qed (simp_all add: list_template_def SetOnHandlePolicyDoneListener_def SetOnAdminRemoveListener_def SetOnAdminRemoveDoneListener_def)

text \<open>What the overridden hooks report as failed.\<close>

lemma overridden_failed:
  "\<exists>P err y. AllowedRunningBundles_SetOtherModulePolicy R S d u (s, w) = (err, filter P d, y)"
  "\<exists>P err y. DisallowedRunningBundles_SetOtherModulePolicy R S d u (s, w) = (err, filter P d, y)"
  "\<exists>P err y. BundleInstall_SetOtherModulePolicy S rule d u (s, w) = (err, filter P d, y)"
  "\<exists>P err y. AllowedBluetoothDevices_SetOtherModulePolicy R S d u (s, w) = (err, filter P d, y)"
  "\<exists>P err y. DisallowedBluetoothDevices_SetOtherModulePolicy R S d u (s, w) = (err, filter P d, y)"
  "\<exists>P err y. AllowedCollaborationServiceBundles_SetOtherModulePolicy R d u (s, w) = (err, filter P d, y)"
  "\<exists>P err y. DisallowedPermission_SetOtherModulePolicy S d u (s, w) = (err, filter P d, y)"
proof -
  have none: "filter (\<lambda>_. False) d = []" by simp
  note defs = AllowedRunningBundles_SetOtherModulePolicy_def DisallowedRunningBundles_SetOtherModulePolicy_def
    BundleInstall_SetOtherModulePolicy_def AllowedBluetoothDevices_SetOtherModulePolicy_def
    DisallowedBluetoothDevices_SetOtherModulePolicy_def AllowedCollaborationServiceBundles_SetOtherModulePolicy_def
    DisallowedPermission_SetOtherModulePolicy_def
  show "\<exists>P err y. AllowedBluetoothDevices_SetOtherModulePolicy R S d u (s, w) = (err, filter P d, y)"
    "\<exists>P err y. DisallowedBluetoothDevices_SetOtherModulePolicy R S d u (s, w) = (err, filter P d, y)"
    by (rule exI [of _ "\<lambda>item. \<not> device_id_match item"], simp add: defs Let_def split: prod.split)+
  show "\<exists>P err y. AllowedRunningBundles_SetOtherModulePolicy R S d u (s, w) = (err, filter P d, y)"
    "\<exists>P err y. DisallowedRunningBundles_SetOtherModulePolicy R S d u (s, w) = (err, filter P d, y)"
    "\<exists>P err y. BundleInstall_SetOtherModulePolicy S rule d u (s, w) = (err, filter P d, y)"
    "\<exists>P err y. AllowedCollaborationServiceBundles_SetOtherModulePolicy R d u (s, w) = (err, filter P d, y)"
    "\<exists>P err y. DisallowedPermission_SetOtherModulePolicy S d u (s, w) = (err, filter P d, y)"
    by (rule exI [of _ "\<lambda>_. False"], simp add: defs Let_def split: prod.split)+
qed

lemmas list_plugin_defs = AllowedRunningBundlesPlugin_def DisallowedRunningBundlesPlugin_def AllowedInstallBundlesPlugin_def
  DisallowedInstallBundlesPlugin_def DisallowedUninstallBundlesPlugin_def AllowedBluetoothDevicesPlugin_def
  DisallowedBluetoothDevicesPlugin_def AllowedCollaborationServiceBundlesPlugin_def DisallowedPermissionPlugin_def
  AllowedPrinterIPAddressesPlugin_def AllowedPrinterIPAddressesForAccountPlugin_def

definition keeps_lists :: "'s rdb \<Rightarrow> cjson \<Rightarrow> ('s, 'w) plugin \<Rightarrow> bool" where
  "keeps_lists R J p = (\<exists>T base. p = IPluginTemplate R T base \<and> list_template J T)"

lemma keeps_listsI: "list_template J T \<Longrightarrow> keeps_lists R J (IPluginTemplate R T base)"
  unfolding keeps_lists_def by blast

lemma list_plugins_keep_lists:
  assumes "p \<in> set (list_plugins R J S)"
  shows "keeps_lists R J p"
proof -
  have "list_all (keeps_lists R J) (list_plugins R J S)"
    unfolding list_plugins_def list.pred_inject list_plugin_defs Let_def install_hooks_def
    by (intro conjI list.pred_inject(1) keeps_listsI list_template_setters reports_failed_hooks Printer_handlers overridden_failed)
  then show ?thesis using assms by (simp add: list_all_iff)
qed


subsection \<open>The list plugins leave other policies alone\<close>

text \<open>The hooks of a list, and the functions a template is given, change no policies but the two that plugins write.\<close>

definition array_hooks_keep :: "'s rdb \<Rightarrow> 's db_viewer \<Rightarrow> ('a, 's pm_state \<times> 'w) array_hooks \<Rightarrow> bool" where
  "array_hooks_keep R view H =
     ((\<forall>d u s w err l s' w'. setOtherModule H d u (s, w) = (err, l, s', w') \<longrightarrow> keeps R view s s')
     \<and> (\<forall>d u s w err l s' w'. removeOtherModule H d u (s, w) = (err, l, s', w') \<longrightarrow> keeps R view s s'))"

lemma array_hooks_keepD:
  assumes "array_hooks_keep R view H"
  shows "setOtherModule H d u (s, w) = (err, l, s', w') \<Longrightarrow> keeps R view s s'"
    "removeOtherModule H d u (s, w) = (err, l, s', w') \<Longrightarrow> keeps R view s s'"
  using assms unfolding array_hooks_keep_def by blast+

fun handle_keeps :: "'s rdb \<Rightarrow> 's db_viewer \<Rightarrow> ('d, 's pm_state \<times> 'w) handle_listener \<Rightarrow> bool" where
  "handle_keeps R view (HandleBiFunction f) =
     (\<forall>d c m u x. keeps R view (fst x) (fst (snd (snd (snd (f d c m u x))))))"
| "handle_keeps R view _ = False"

fun done_keeps :: "'s rdb \<Rightarrow> 's db_viewer \<Rightarrow> ('d, 's pm_state \<times> 'w) done_listener \<Rightarrow> bool" where
  "done_keeps R view (DoneBoolConsumer f) = (\<forall>g x. keeps R view (fst x) (fst (f g x)))"
| "done_keeps R view (DoneBiBoolConsumer f) = (\<forall>d g u x. keeps R view (fst x) (fst (f d g u x)))"

fun remove_keeps :: "'s rdb \<Rightarrow> 's db_viewer \<Rightarrow> ('d, 's pm_state \<times> 'w) remove_listener \<Rightarrow> bool" where
  "remove_keeps R view (RemoveSupplier f) = (\<forall>x. keeps R view (fst x) (fst (snd (f x))))"
| "remove_keeps R view (RemoveBiFunction f) = (\<forall>a d m u x. keeps R view (fst x) (fst (snd (f a d m u x))))"

fun remove_done_keeps :: "'s rdb \<Rightarrow> 's db_viewer \<Rightarrow> ('d, 's pm_state \<times> 'w) remove_done_listener \<Rightarrow> bool" where
  "remove_done_keeps R view (RemoveDoneRunner f) = (\<forall>x. keeps R view (fst x) (fst (f x)))"
| "remove_done_keeps R view (RemoveDoneBiConsumer f) = (\<forall>a d u x. keeps R view (fst x) (fst (f a d u x)))"

lemma listener_keepsD:
  "handle_keeps R view (HandleBiFunction f) \<Longrightarrow> f d c m u (s, w) = (err, c', m', s', w') \<Longrightarrow> keeps R view s s'"
  "done_keeps R view (DoneBoolConsumer g) \<Longrightarrow> g b (s, w) = (s', w') \<Longrightarrow> keeps R view s s'"
  "done_keeps R view (DoneBiBoolConsumer h) \<Longrightarrow> h d b u (s, w) = (s', w') \<Longrightarrow> keeps R view s s'"
  "remove_keeps R view (RemoveSupplier i) \<Longrightarrow> i (s, w) = (err, s', w') \<Longrightarrow> keeps R view s s'"
  "remove_keeps R view (RemoveBiFunction j) \<Longrightarrow> j a d m u (s, w) = (err, s', w') \<Longrightarrow> keeps R view s s'"
  "remove_done_keeps R view (RemoveDoneRunner k) \<Longrightarrow> k (s, w) = (s', w') \<Longrightarrow> keeps R view s s'"
  "remove_done_keeps R view (RemoveDoneBiConsumer l) \<Longrightarrow> l a d u (s, w) = (s', w') \<Longrightarrow> keeps R view s s'"
  by (simp_all only: handle_keeps.simps done_keeps.simps remove_keeps.simps remove_done_keeps.simps) (metis fst_conv snd_conv)+

definition template_keeps :: "'s rdb \<Rightarrow> 's db_viewer \<Rightarrow> ('d, 's pm_state \<times> 'w) template \<Rightarrow> bool" where
  "template_keeps R view T =
     ((\<forall>d s w ok d' s' w'. tGetPolicy T d (s, w) = (ok, d', s', w') \<longrightarrow> keeps R view s s')
     \<and> (\<forall>(op, h)\<in>set (handlePolicyFuncMap T). handle_keeps R view h)
     \<and> (\<forall>(op, h)\<in>set (handlePolicyDoneFuncMap T). done_keeps R view h)
     \<and> (\<forall>f. adminRemoveFunc T = Some f \<longrightarrow> remove_keeps R view f)
     \<and> (\<forall>f. adminRemoveDoneFunc T = Some f \<longrightarrow> remove_done_keeps R view f))"

lemma template_keepsD:
  assumes "template_keeps R view T"
  shows "tGetPolicy T d (s, w) = (ok, d', s', w') \<Longrightarrow> keeps R view s s'"
    "map_of (handlePolicyFuncMap T) op = Some h \<Longrightarrow> handle_keeps R view h"
    "map_of (handlePolicyDoneFuncMap T) op = Some k \<Longrightarrow> done_keeps R view k"
    "adminRemoveFunc T = Some f \<Longrightarrow> remove_keeps R view f" "adminRemoveDoneFunc T = Some g \<Longrightarrow> remove_done_keeps R view g"
  using assms unfolding template_keeps_def by (blast dest: map_of_SomeD)+

lemma template_handle_keeps:
  assumes "template_keeps R view T" "Template_OnHandlePolicy T c pd u (s, w) = (err, pd', s', w')"
  shows "keeps R view s s'"
proof (cases "map_of (handlePolicyFuncMap T) (ConvertOperateType (FUNC_TO_OPERATE c))")
  case None
  then show ?thesis using assms(2) by (simp add: Template_OnHandlePolicy_def)
next
  case (Some h)
  note k = template_keepsD [OF assms(1)]
  obtain f where f: "h = HandleBiFunction f" using k(2) [OF Some] by (cases h) simp_all
  note fk = listener_keepsD(1) [OF k(2) [OF Some, unfolded f]]
  obtain ok d s1 w1 where g: "tGetPolicy T (uninit T) (s, w) = (ok, d, s1, w1)" by (metis prod.exhaust)
  have "s' = s1 \<or> (\<exists>cur mer err' cur' mer' w2. f d cur mer u (s1, w1) = (err', cur', mer', s', w2))"
    using assms(2) Some g
    by (auto simp: Template_OnHandlePolicy_def f(1) HandlePolicy_BiFunction_def Let_def split: prod.splits if_splits)
  then show ?thesis using k(1) [OF g] fk keeps_trans by blast
qed

lemma template_done_keeps:
  assumes "template_keeps R view T" "queries_answer R"
    "Template_OnHandlePolicyDone R T n save c a g u (s, w) = (s', w')"
  shows "keeps R view s s'"
proof (cases "map_of (handlePolicyDoneFuncMap T) (ConvertOperateType (FUNC_TO_OPERATE c))")
  case None
  then show ?thesis using assms(3) by (simp add: Template_OnHandlePolicyDone_def)
next
  case (Some k)
  note d = template_keepsD(3) [OF assms(1) Some]
  obtain ok data s1 where m: "GetMergePolicyData R T n (uninit T) s = (ok, data, s1)" by (metis prod.exhaust)
  obtain e items s2 where l: "PolicyManager_GetAdminByPolicyName R n [] DEFAULT_USER_ID s = (e, items, s2)" by (metis prod.exhaust)
  have "s1 = s2" using m l by (auto simp: GetMergePolicyData_def split: list.splits option.splits prod.splits)
  then have "keeps R view s s1" using keeps_GetAdminByPolicyName [OF assms(2) l] by simp
  then show ?thesis
    using assms(3) Some d m
    by (cases k) (auto simp: Template_OnHandlePolicyDone_def simp del: done_keeps.simps split: if_splits
        dest: listener_keepsD elim: keeps_trans)
qed

lemma well_behaved_template:
  assumes "template_keeps R view T" "well_behaved R view base" "queries_answer R"
  shows "well_behaved R view (IPluginTemplate R T base)"
proof -
  have "keeps R view s s'" if "Template_OnAdminRemove T a v m u (s, w) = (err, s', w')" for a v m u s w err s' w'
  proof (cases "adminRemoveFunc T")
    case None
    then show ?thesis using that by (simp add: Template_OnAdminRemove_def)
  next
    case (Some f)
    then show ?thesis
      using that template_keepsD(4) [OF assms(1) Some]
      by (cases f) (auto simp: Template_OnAdminRemove_def simp del: remove_keeps.simps split: prod.splits if_splits dest: listener_keepsD)
  qed
  moreover have "keeps R view s s'" if "Template_OnAdminRemoveDone T a v u (s, w) = (s', w')" for a v u s w s' w'
  proof (cases "adminRemoveDoneFunc T")
    case None
    then show ?thesis using that by (simp add: Template_OnAdminRemoveDone_def)
  next
    case (Some f)
    then show ?thesis
      using that template_keepsD(5) [OF assms(1) Some]
      by (cases f) (auto simp: Template_OnAdminRemoveDone_def simp del: remove_done_keeps.simps split: prod.splits if_splits
        dest: listener_keepsD)
  qed
  ultimately show ?thesis
    using assms(2) template_handle_keeps [OF assms(1)] template_done_keeps [OF assms(1,3)]
    unfolding well_behaved_def IPluginTemplate_def by simp
qed


lemma template_keeps_setters:
  "template_keeps R view (string_lists J S)"
  "template_keeps R view T \<Longrightarrow> handle_keeps R view h \<Longrightarrow> template_keeps R view (SetOnHandlePolicyListener h op T)"
  "template_keeps R view T \<Longrightarrow> done_keeps R view d \<Longrightarrow> template_keeps R view (SetOnHandlePolicyDoneListener d op T)"
  "template_keeps R view T \<Longrightarrow> remove_keeps R view r \<Longrightarrow> template_keeps R view (SetOnAdminRemoveListener r T)"
  "template_keeps R view T \<Longrightarrow> remove_done_keeps R view rd \<Longrightarrow> template_keeps R view (SetOnAdminRemoveDoneListener rd T)"
proof -
  show "template_keeps R view (string_lists J S)"
    by (auto simp: template_keeps_def string_lists_def split: prod.splits)
  show "template_keeps R view T \<Longrightarrow> handle_keeps R view h \<Longrightarrow> template_keeps R view (SetOnHandlePolicyListener h op T)"
    using ordered_insert_subset [of op h "handlePolicyFuncMap T"]
    by (fastforce simp: template_keeps_def SetOnHandlePolicyListener_def)
  show "template_keeps R view T \<Longrightarrow> done_keeps R view d \<Longrightarrow> template_keeps R view (SetOnHandlePolicyDoneListener d op T)"
    using ordered_insert_subset [of op d "handlePolicyDoneFuncMap T"]
    by (fastforce simp: template_keeps_def SetOnHandlePolicyDoneListener_def)
qed (simp_all add: template_keeps_def SetOnAdminRemoveListener_def SetOnAdminRemoveDoneListener_def)

lemma basic_keeps:
  assumes "array_hooks_keep R view H"
  shows "handle_keeps R view (HandleBiFunction (OnBasicSetPolicy H))" "handle_keeps R view (HandleBiFunction (OnBasicRemovePolicy H))"
    "remove_keeps R view (RemoveBiFunction (OnBasicAdminRemove H))"
    "template_keeps R view T \<Longrightarrow> template_keeps R view (basic_handlers H T)"
proof -
  note h = array_hooks_keepD [OF assms]
  show s: "handle_keeps R view (HandleBiFunction (OnBasicSetPolicy H))"
    by (auto simp: OnBasicSetPolicy_def Let_def split: prod.split if_split dest: h(1))
  show r: "handle_keeps R view (HandleBiFunction (OnBasicRemovePolicy H))"
    by (auto simp: OnBasicRemovePolicy_def Let_def split: prod.split if_split dest: h(2))
  show "remove_keeps R view (RemoveBiFunction (OnBasicAdminRemove H))"
    by (auto simp: OnBasicAdminRemove_def split: prod.split dest: h(2))
  show "template_keeps R view T \<Longrightarrow> template_keeps R view (basic_handlers H T)"
    unfolding basic_handlers_def by (intro template_keeps_setters s r)
qed


lemma array_hooks_keep_setters:
  "array_hooks_keep R view (list_hooks n)" "array_hooks_keep R view H \<Longrightarrow> array_hooks_keep R view (H\<lparr>overMaxReturnErrCode := e\<rparr>)"
  "array_hooks_keep R view H \<Longrightarrow> (\<And>d u s w err l s' w'. f d u (s, w) = (err, l, s', w') \<Longrightarrow> keeps R view s s')
     \<Longrightarrow> array_hooks_keep R view (H\<lparr>setOtherModule := f\<rparr>)"
  "array_hooks_keep R view H \<Longrightarrow> (\<And>d u s w err l s' w'. g d u (s, w) = (err, l, s', w') \<Longrightarrow> keeps R view s s')
     \<Longrightarrow> array_hooks_keep R view (H\<lparr>removeOtherModule := g\<rparr>)"
  unfolding array_hooks_keep_def
  by (simp_all add: list_hooks_def Array_SetOtherModulePolicy_def Array_RemoveOtherModulePolicy_def)

lemma keeps_clear_permission:
  assumes "queries_answer R"
  shows "keeps R view s (clear_permission R J n u c m s)"
proof (induction m arbitrary: s)
  case (Cons av m)
  obtain a v where av: "av = (a, v)" by (rule prod.exhaust)
  have set: "keeps R view s (snd (PolicyManager_SetPolicy R a POLICY_ALLOWED_PERMISSION_BUNDLE v' c u s))" for v'
    by (rule keeps_written [OF assms _ prod.collapse [symmetric]]) (simp add: plugin_written_def)
  have "clear_permission R J n u c (av # m) s = clear_permission R J n u c m s
    \<or> (\<exists>v'. clear_permission R J n u c (av # m) s
        = clear_permission R J n u c m (snd (PolicyManager_SetPolicy R a POLICY_ALLOWED_PERMISSION_BUNDLE v' c u s)))"
    by (cases "PermissionBundles_Deserialize J v []") (auto simp: av Let_def)
  then show ?case
  proof (elim disjE exE)
    fix v'
    assume "clear_permission R J n u c (av # m) s
      = clear_permission R J n u c m (snd (PolicyManager_SetPolicy R a POLICY_ALLOWED_PERMISSION_BUNDLE v' c u s))"
    then show ?case by (simp only: keeps_trans [OF set Cons.IH])
  qed (simp only: Cons.IH)
qed simp

lemma keeps_clean_permissions:
  assumes "queries_answer R"
  shows "keeps R view s (clean_permissions R J ns u s)"
proof (induction ns arbitrary: s)
  case (Cons n ns)
  obtain c s1 where 1: "DisallowedPermission_GetCombinedPolicy R J n u s = (c, s1)" by (rule prod.exhaust)
  have k1: "keeps R view s s1"
    using 1 keeps_GetPolicy [OF assms] by (auto simp: DisallowedPermission_GetCombinedPolicy_def split: prod.splits if_splits)
  obtain e m s2 where 2: "PolicyManager_GetAdminByPolicyName R POLICY_ALLOWED_PERMISSION_BUNDLE [] u s1 = (e, m, s2)"
    by (metis prod.exhaust)
  have "keeps R view s1 (snd (CleanAdminAllowedPermissionBundle R J n u c s1))"
    using keeps_GetAdminByPolicyName [OF assms 2] keeps_trans [OF _ keeps_clear_permission [OF assms, of view s2]]
    by (auto simp: CleanAdminAllowedPermissionBundle_def 2)
  from keeps_trans [OF keeps_trans [OF k1 this] Cons.IH] show ?case by (simp add: 1)
qed simp

text \<open>What the overridden hooks do to the policies.\<close>

lemma list_hooks_keep:
  assumes "queries_answer R"
  shows "AllowedRunningBundles_SetOtherModulePolicy R S d u (s, w) = (err, l, s', w') \<Longrightarrow> keeps R view s s'"
    "AllowedRunningBundles_RemoveOtherModulePolicy S d u (s, w) = (err, l, s', w') \<Longrightarrow> keeps R view s s'"
    "DisallowedRunningBundles_SetOtherModulePolicy R S d u (s, w) = (err, l, s', w') \<Longrightarrow> keeps R view s s'"
    "DisallowedRunningBundles_RemoveOtherModulePolicy S d u (s, w) = (err, l, s', w') \<Longrightarrow> keeps R view s s'"
    "BundleInstall_SetOtherModulePolicy S rule d u (s, w) = (err, l, s', w') \<Longrightarrow> keeps R view s s'"
    "BundleInstall_RemoveOtherModulePolicy S rule d u (s, w) = (err, l, s', w') \<Longrightarrow> keeps R view s s'"
    "AllowedBluetoothDevices_SetOtherModulePolicy R S d u (s, w) = (err, l, s', w') \<Longrightarrow> keeps R view s s'"
    "DisallowedBluetoothDevices_SetOtherModulePolicy R S d u (s, w) = (err, l, s', w') \<Longrightarrow> keeps R view s s'"
    "AllowedCollaborationServiceBundles_SetOtherModulePolicy R d u (s, w) = (err, l, s', w') \<Longrightarrow> keeps R view s s'"
    "DisallowedPermission_SetOtherModulePolicy S d u (s, w) = (err, l, s', w') \<Longrightarrow> keeps R view s s'"
    "DisallowedPermission_RemoveOtherModulePolicy R J S d u (s, w) = (err, l, s', w') \<Longrightarrow> keeps R view s s'"
proof -
  note g = keeps_GetPolicy [OF assms]
  show "AllowedRunningBundles_SetOtherModulePolicy R S d u (s, w) = (err, l, s', w') \<Longrightarrow> keeps R view s s'"
    by (auto simp: AllowedRunningBundles_SetOtherModulePolicy_def AllowedRunningBundles_HasConflictPolicy_def
        split: prod.splits if_splits dest: g)
  show "DisallowedRunningBundles_SetOtherModulePolicy R S d u (s, w) = (err, l, s', w') \<Longrightarrow> keeps R view s s'"
    by (auto simp: DisallowedRunningBundles_SetOtherModulePolicy_def DisallowedRunningBundles_HasConflictPolicy_def
        split: prod.splits if_splits dest: g)
  show "AllowedBluetoothDevices_SetOtherModulePolicy R S d u (s, w) = (err, l, s', w') \<Longrightarrow> keeps R view s s'"
    by (auto simp: AllowedBluetoothDevices_SetOtherModulePolicy_def Let_def split: prod.splits if_splits dest: g)
  show "DisallowedBluetoothDevices_SetOtherModulePolicy R S d u (s, w) = (err, l, s', w') \<Longrightarrow> keeps R view s s'"
    by (auto simp: DisallowedBluetoothDevices_SetOtherModulePolicy_def Let_def split: prod.splits if_splits dest: g)
  show "AllowedCollaborationServiceBundles_SetOtherModulePolicy R d u (s, w) = (err, l, s', w') \<Longrightarrow> keeps R view s s'"
    by (auto simp: AllowedCollaborationServiceBundles_SetOtherModulePolicy_def split: prod.splits dest: g)
  show "DisallowedPermission_RemoveOtherModulePolicy R J S d u (s, w) = (err, l, s', w') \<Longrightarrow> keeps R view s s'"
    using keeps_clean_permissions [OF assms, of view s J d u]
    by (auto simp: DisallowedPermission_RemoveOtherModulePolicy_def split: prod.splits if_splits)
qed (auto simp: AllowedRunningBundles_RemoveOtherModulePolicy_def DisallowedRunningBundles_RemoveOtherModulePolicy_def
    BundleInstall_SetOtherModulePolicy_def BundleInstall_RemoveOtherModulePolicy_def DisallowedPermission_SetOtherModulePolicy_def
    split: prod.splits if_splits)

lemma keeps_any_user_printers:
  assumes "queries_answer R"
  shows "any_user_printers R us s = (b, s') \<Longrightarrow> keeps R view s s'"
proof (induction us arbitrary: s)
  case (Cons u us)
  obtain e v s1 where g: "PolicyManager_GetPolicy R [] POLICY_ALLOWED_PRINTER_IP_ADDRESSES_FOR_ACCOUNT [] u s = (e, v, s1)"
    by (metis prod.exhaust)
  have "s' = s1 \<or> any_user_printers R us s1 = (b, s')" using Cons.prems by (auto simp: g split: if_splits)
  then show ?case using Cons.IH keeps_GetPolicy [OF assms g] keeps_trans by blast
qed simp

lemma printer_keeps:
  assumes "queries_answer R"
  shows "handle_keeps R view (HandleBiFunction (Printer_OnSetPolicy R type n e))"
    "handle_keeps R view (HandleBiFunction (Printer_OnRemovePolicy n e))"
proof -
  have c: "keeps R view s s'" if "Printer_CheckPolicyConflict R type s = (err, s')" for s err s'
  proof (cases type)
    case DEVICE_TYPE
    obtain e v s1 where g: "PolicyManager_GetPolicy R [] POLICY_ALLOWED_PRINTER_IP_ADDRESSES_FOR_ACCOUNT [] DEFAULT_USER_ID s = (e, v, s1)"
      by (metis prod.exhaust)
    show ?thesis
      using that DEVICE_TYPE keeps_GetPolicy [OF assms g] keeps_trans [OF keeps_GetPolicy [OF assms g] keeps_any_user_printers [OF assms]]
      by (auto simp: Printer_CheckPolicyConflict_def IsAnyUserLevelPolicySet_def g split: prod.splits if_splits)
  next
    case USER_TYPE
    then show ?thesis
      using that keeps_GetPolicy [OF assms]
      by (auto simp: Printer_CheckPolicyConflict_def IsDeviceLevelPolicySet_def split: prod.splits)
  qed
  show "handle_keeps R view (HandleBiFunction (Printer_OnSetPolicy R type n e))"
    by (auto simp: Printer_OnSetPolicy_def Let_def split: prod.split dest: c)
qed (simp add: Printer_OnRemovePolicy_def Let_def)

lemma list_done_keeps:
  "done_keeps R view (DoneBoolConsumer (AllowedBluetoothDevices_OnChangedPolicyDone S))"
  "done_keeps R view (DoneBoolConsumer (DisallowedBluetoothDevices_OnChangedPolicyDone S))"
  "done_keeps R view (DoneBoolConsumer (AllowedPrinterIPAddresses_OnChangedPolicyDone S))"
  "done_keeps R view (DoneBiBoolConsumer (AllowedPrinterIPAddressesForAccount_OnChangedPolicyDone S))"
  "remove_done_keeps R view (RemoveDoneRunner (AllowedBluetoothDevices_NotifyBluetoothDevicesChanged S))"
  "remove_done_keeps R view (RemoveDoneRunner (DisallowedBluetoothDevices_NotifyBluetoothDevicesChanged S))"
  "remove_done_keeps R view (RemoveDoneRunner (NotifyPrintPolicyChanged S u type))"
  "remove_done_keeps R view (RemoveDoneBiConsumer (AllowedPrinterIPAddressesForAccount_OnAdminRemoveDone S))"
  by (auto simp: AllowedBluetoothDevices_OnChangedPolicyDone_def DisallowedBluetoothDevices_OnChangedPolicyDone_def
      AllowedPrinterIPAddresses_OnChangedPolicyDone_def AllowedPrinterIPAddressesForAccount_OnChangedPolicyDone_def
      AllowedPrinterIPAddressesForAccount_OnAdminRemoveDone_def NotifyPrintPolicyChanged_def
      AllowedBluetoothDevices_NotifyBluetoothDevicesChanged_def DisallowedBluetoothDevices_NotifyBluetoothDevicesChanged_def)

lemma list_plugins_behave:
  assumes "queries_answer R" "p \<in> set (list_plugins R J S)"
  shows "well_behaved R view p"
proof -
  have "list_all (well_behaved R view) (list_plugins R J S)"
    unfolding list_plugins_def list_plugin_defs Let_def install_hooks_def list.pred_inject(2) list_attribute_def
    by (intro conjI list.pred_inject(1) well_behaved_template [OF _ _ assms(1)] template_keeps_setters basic_keeps
        array_hooks_keep_setters printer_keeps [OF assms(1)] list_done_keeps)
      (simp_all add: well_behaved_IPlugin list_hooks_keep [OF assms(1)])
  then show ?thesis using assms(2) by (simp add: list_all_iff)
qed


subsection \<open>The combined list\<close>

definition list_libs :: "'s rdb \<Rightarrow> 's db_viewer \<Rightarrow> cjson \<Rightarrow> string \<Rightarrow> ('s, 'w) plugin_env \<Rightarrow> bool" where
  "list_libs R view J n E = (libs_ok R view E \<and> libraries_ok (\<lambda>p. policyName p = n \<longrightarrow> keeps_lists R J p) E)"

lemma list_libs_merge:
  "cjson_laws J \<Longrightarrow> list_libs R view J n E \<Longrightarrow> merge_libs R view n (list_text J) (list_merge J) E"
  using list_plugin_merges
  by (auto simp: list_libs_def merge_libs_def merges_for_def keeps_lists_def elim!: libraries_ok_mono)

text \<open>The list somebody asks the policy manager for; \<open>[]\<close> for \<open>a\<close> means the combined one.\<close>

definition stored_list :: "'s rdb \<Rightarrow> cjson \<Rightarrow> 's pm_state \<Rightarrow> string \<Rightarrow> string \<Rightarrow> user_id \<Rightarrow> string list" where
  "stored_list R J s a n u = list_of J (snd (policy_answer R s a n u))"

text \<open>A service with list plugins; the world is the list of the parcels to come.\<close>

definition calm_lists :: "string list list list_services" where
  "calm_lists = \<lparr> ls_ReadStrings = (\<lambda>w. (Some (hd w), tl w)), ls_BundleManager = (\<lambda>_. True), ls_AppControlProxy = (\<lambda>_. True),
     ls_AddAppRunningControlRule = (\<lambda>_ _ w. (ERR_OK, w)), ls_DeleteAppRunningControlRule = (\<lambda>_ _ w. (ERR_OK, w)),
     ls_AddAppInstallControlRule = (\<lambda>_ _ _ w. (ERR_OK, w)), ls_DeleteAppInstallControlRule = (\<lambda>_ _ _ w. (ERR_OK, w)),
     ls_GetBoolParameter = (\<lambda>_ b _. b), ls_PublishCommonEvent = (\<lambda>_ _ w. (True, w)),
     ls_GetDefPermission = (\<lambda>_ _. (ERR_OK, APL_NORMAL)), ls_SetUserPolicy = (\<lambda>_ w. (ERR_OK, w)) \<rparr>"

definition install_lists :: "(string \<Rightarrow> db_row list, string list list) plugin list" where
  "install_lists = [AllowedInstallBundlesPlugin reliable_rdb plain_cjson calm_lists,
     DisallowedInstallBundlesPlugin reliable_rdb plain_cjson calm_lists]"

definition list_update :: "func_operate_type \<Rightarrow> u32 \<Rightarrow> string \<Rightarrow> user_id \<Rightarrow> (string \<Rightarrow> db_row list, string list list) edm_state
    \<Rightarrow> err_code \<times> (string \<Rightarrow> db_row list, string list list) edm_state" where
  "list_update op code a u st = UpdateDevicePolicy reliable_rdb (switch_env install_lists 0) (POLICY_FUNC_CODE (operate_type_code op) code) a u st"


lemma install_env_libs: "list_libs reliable_rdb (\<lambda>s. s) plain_cjson n (switch_env install_lists t)"
proof -
  have sub: "p \<in> set install_lists \<Longrightarrow> p \<in> set (list_plugins reliable_rdb plain_cjson calm_lists)" for p
    by (auto simp: install_lists_def list_plugins_def)
  have "list_all (\<lambda>p. extensionPlugin p = None) install_lists" by code_simp
  then have "fresh_libraries (switch_env install_lists t)" by (auto simp: fresh_libraries_def switch_env_def list_all_iff)
  moreover have "libraries_ok (well_behaved reliable_rdb (\<lambda>s. s)) (switch_env install_lists t)"
    by (rule switch_env_libraries) (use list_plugins_behave [OF writes_answer [OF reliable_rdb_writes]] sub in blast)
  moreover have "libraries_ok (\<lambda>p. policyName p = n \<longrightarrow> keeps_lists reliable_rdb plain_cjson p) (switch_env install_lists t)"
    by (rule switch_env_libraries) (use list_plugins_keep_lists sub in blast)
  ultimately show ?thesis by (simp add: list_libs_def libs_ok_def)
qed

text \<open>Two administrators allow applications; then the first withdraws one that the second has allowed, too.\<close>

definition install_start :: "(string \<Rightarrow> db_row list, string list list) edm_state" where
  "install_start = (PluginManager, (policy_mgr0, edm_db0 (\<lambda>_. [])), [[''y'', ''x''], [''z'', ''x''], [''x'']])"

definition install_first :: "(string \<Rightarrow> db_row list, string list list) edm_state" where
  "install_first = snd (list_update OP_SET IC_ALLOWED_INSTALL_BUNDLES ''a'' 100 install_start)"

definition install_second :: "(string \<Rightarrow> db_row list, string list list) edm_state" where
  "install_second = snd (list_update OP_SET IC_ALLOWED_INSTALL_BUNDLES ''b'' 100 install_first)"

definition installs :: "(string \<Rightarrow> db_row list, string list list) edm_state" where
  "installs = snd (list_update OP_REMOVE IC_ALLOWED_INSTALL_BUNDLES ''a'' 100 install_second)"

definition alone :: "func_operate_type \<Rightarrow> (string \<Rightarrow> db_row list, string list list) edm_state \<Rightarrow> bool" where
  "alone op st = runs_alone POLICY_ALLOWED_INSTALL_BUNDLES (switch_env install_lists 0)
     (POLICY_FUNC_CODE (operate_type_code op) IC_ALLOWED_INSTALL_BUNDLES) (fst st)"

lemma list_update_step:
  assumes "alone op st" "a \<noteq> []"
  shows "admin_step reliable_rdb (list_libs reliable_rdb (\<lambda>s. s) plain_cjson POLICY_ALLOWED_INSTALL_BUNDLES) POLICY_ALLOWED_INSTALL_BUNDLES
    st (snd (list_update op IC_ALLOWED_INSTALL_BUNDLES a 100 st))"
proof -
  obtain M s w where st: "st = (M, s, w)" by (metis prod.exhaust)
  obtain err M' s' w' where u: "list_update op IC_ALLOWED_INSTALL_BUNDLES a 100 (M, s, w) = (err, M', s', w')" by (metis prod.exhaust)
  show ?thesis
    using as_update [of "list_libs reliable_rdb (\<lambda>s. s) plain_cjson POLICY_ALLOWED_INSTALL_BUNDLES", OF install_env_libs _ assms(2)
      u [unfolded list_update_def]] assms(1) u by (simp add: st alone_def)
qed

lemma installs_reachable:
  "(admin_step reliable_rdb (list_libs reliable_rdb (\<lambda>s. s) plain_cjson POLICY_ALLOWED_INSTALL_BUNDLES) POLICY_ALLOWED_INSTALL_BUNDLES)\<^sup>*\<^sup>*
     (PluginManager, (policy_mgr0, edm_db0 (\<lambda>_. [])), [[''y'', ''x''], [''z'', ''x''], [''x'']]) installs"
proof -
  have "alone OP_SET install_start" by code_simp
  note 1 = list_update_step [OF this, of "''a''", folded install_first_def]
  have "alone OP_SET install_first" by code_simp
  note 2 = list_update_step [OF this, of "''b''", folded install_second_def]
  have "alone OP_REMOVE install_second" by code_simp
  note 3 = list_update_step [OF this, of "''a''", folded installs_def]
  show ?thesis
    using 1 2 3 rtranclp.rtrancl_into_rtrancl [OF rtranclp.rtrancl_into_rtrancl [OF r_into_rtranclp]]
    unfolding install_start_def by simp
qed



end
