(* ===== verification/System_Timers.thy ===== *)
theory System_Timers
  imports Edm_Codes
begin

text \<open>
  \<open>services/edm/src/system_manager/system_timer_manager.cpp\<close>: the timers administrators run on the
  device. The manager keeps who owns which timer of the time service, and a death recipient for every
  client object that is called back. The time service, the client objects and the parcels are
  functions on the outside world; allocations succeed.
\<close>

subsection \<open>State\<close>

type_synonym u64 = "64 word"

text \<open>A \<open>sptr<IRemoteObject>\<close> is the identity of the object; \<open>None\<close> is a null pointer.\<close>

type_synonym remote = nat

record timer_options =
  optRepeat :: bool
  optInterval :: u64
  optName :: string
  optCallback :: "remote option"

record timer_entry =
  timerAdmin :: string
  timerName :: string
  timerCallback :: "remote option"

text \<open>The \<open>std::map\<close>s in the order of their keys; the recipients by the objects they are for.\<close>

record timer_mgr =
  timerMap :: "(u64, timer_entry) amap"
  recipientMap :: "remote list"

record 'w time_service =
  ts_present :: "'w \<Rightarrow> bool"
  ts_CreateTimer :: "timer_options \<Rightarrow> 'w \<Rightarrow> u64 \<times> 'w"
  ts_CreateTimerV9 :: "timer_options \<Rightarrow> u64 \<Rightarrow> 'w \<Rightarrow> int \<times> u64 \<times> 'w"
  ts_StartTimerV9 :: "u64 \<Rightarrow> u64 \<Rightarrow> 'w \<Rightarrow> int \<times> 'w"
  ts_StopTimerV9 :: "u64 \<Rightarrow> 'w \<Rightarrow> int \<times> 'w"
  ts_DestroyTimerV9 :: "u64 \<Rightarrow> 'w \<Rightarrow> 'w"
  rm_AddDeathRecipient :: "remote \<Rightarrow> 'w \<Rightarrow> 'w"
  rm_RemoveDeathRecipient :: "remote \<Rightarrow> 'w \<Rightarrow> 'w"
  rm_IsObjectDead :: "remote \<Rightarrow> 'w \<Rightarrow> bool"
  rm_SendTriggered :: "remote \<Rightarrow> u64 \<Rightarrow> 'w \<Rightarrow> 'w"
  pr_ReadInt32 :: "'w \<Rightarrow> int option \<times> 'w"
  pr_ReadBool :: "'w \<Rightarrow> bool \<times> 'w"
  pr_ReadUint64 :: "'w \<Rightarrow> u64 \<times> 'w"
  pr_ReadString :: "'w \<Rightarrow> string \<times> 'w"
  pr_ReadRemoteObject :: "'w \<Rightarrow> remote option \<times> 'w"
  pr_WriteInt32 :: "int \<Rightarrow> 'w \<Rightarrow> 'w"
  pr_WriteUint64 :: "u64 \<Rightarrow> 'w \<Rightarrow> 'w"

abbreviation (input) EXECUTE_TIME_OUT :: err_code where "EXECUTE_TIME_OUT \<equiv> 9200016"
abbreviation (input) SYSTEM_TIMER_MAX_COUNT_REACHED :: err_code where "SYSTEM_TIMER_MAX_COUNT_REACHED \<equiv> 9201053"
abbreviation (input) SYSTEM_TIMER_NOT_FOUND :: err_code where "SYSTEM_TIMER_NOT_FOUND \<equiv> 9201054"
abbreviation (input) TIMER_NAME_MAX_LEN :: nat where "TIMER_NAME_MAX_LEN \<equiv> 64"
abbreviation (input) TIMER_INTERVAL_MIN_MS :: u64 where "TIMER_INTERVAL_MIN_MS \<equiv> 1000"
abbreviation (input) TIMER_INTERVAL_MAX_MS :: u64 where "TIMER_INTERVAL_MAX_MS \<equiv> 86400000"
abbreviation (input) TIMER_MAX_COUNT_PER_ADMIN :: u32 where "TIMER_MAX_COUNT_PER_ADMIN \<equiv> 5"

text \<open>\<open>m[k] = v\<close> of an ordered map.\<close>

fun ordered_update :: "'k::linorder \<Rightarrow> 'v \<Rightarrow> ('k, 'v) amap \<Rightarrow> ('k, 'v) amap" where
  "ordered_update k v [] = [(k, v)]"
| "ordered_update k v ((k', v') # m) =
     (if k < k' then (k, v) # (k', v') # m else if k = k' then (k, v) # m else (k', v') # ordered_update k v m)"

definition timers0 :: timer_mgr where
  "timers0 = \<lparr> timerMap = [], recipientMap = [] \<rparr>"

subsection \<open>Entries and death recipients\<close>

definition IsTimerOwner :: "u64 \<Rightarrow> string \<Rightarrow> timer_mgr \<Rightarrow> bool" where
  "IsTimerOwner timerId adminBundleName t =
     (case map_of (timerMap t) timerId of None \<Rightarrow> False | Some e \<Rightarrow> timerAdmin e = adminBundleName)"

definition CountTimersByAdminLocked :: "string \<Rightarrow> timer_mgr \<Rightarrow> u32" where
  "CountTimersByAdminLocked adminBundleName t =
     fold (\<lambda>(_, e) count. if timerAdmin e = adminBundleName then count + 1 else count) (timerMap t) 0"

definition ReleaseRecipientIfUnusedLocked :: "'w time_service \<Rightarrow> remote option \<Rightarrow> timer_mgr \<times> 'w \<Rightarrow> timer_mgr \<times> 'w" where
  "ReleaseRecipientIfUnusedLocked S clientCallback = (\<lambda>(t, w).
     (case clientCallback of
        None \<Rightarrow> (t, w)
      | Some r \<Rightarrow>
          (if list_ex (\<lambda>(_, e). timerCallback e = Some r) (timerMap t) then (t, w)
           else if r \<notin> set (recipientMap t) then (t, w)
           else (t\<lparr>recipientMap := removeAll r (recipientMap t)\<rparr>, rm_RemoveDeathRecipient S r w))))"

definition CleanupTimerLocked :: "'w time_service \<Rightarrow> u64 \<Rightarrow> timer_mgr \<times> 'w \<Rightarrow> timer_mgr \<times> 'w" where
  "CleanupTimerLocked S timerId = (\<lambda>(t, w).
     (case map_of (timerMap t) timerId of
        None \<Rightarrow> (t, w)
      | Some e \<Rightarrow> ReleaseRecipientIfUnusedLocked S (timerCallback e)
          (t\<lparr>timerMap := AList.delete timerId (timerMap t)\<rparr>, w)))"

definition CleanupSameNameTimerLocked :: "'w time_service \<Rightarrow> string \<Rightarrow> u64 \<Rightarrow> timer_mgr \<times> 'w \<Rightarrow> timer_mgr \<times> 'w" where
  "CleanupSameNameTimerLocked S name excludeTimerId = (\<lambda>(t, w).
     (if name = [] then (t, w)
      else (case find (\<lambda>(i, e). i \<noteq> excludeTimerId \<and> timerName e = name) (timerMap t) of
              None \<Rightarrow> (t, w)
            | Some (i, _) \<Rightarrow> CleanupTimerLocked S i (t, w))))"

definition GetOrCreateDeathRecipientLocked :: "'w time_service \<Rightarrow> remote \<Rightarrow> timer_mgr \<times> 'w \<Rightarrow> timer_mgr \<times> 'w" where
  "GetOrCreateDeathRecipientLocked S r = (\<lambda>(t, w).
     (if r \<in> set (recipientMap t) then (t, w)
      else (t\<lparr>recipientMap := r # recipientMap t\<rparr>, rm_AddDeathRecipient S r w)))"

definition InsertTimerEntryLocked :: "'w time_service \<Rightarrow> u64 \<Rightarrow> timer_options \<Rightarrow> string \<Rightarrow> timer_mgr \<times> 'w \<Rightarrow> timer_mgr \<times> 'w" where
  "InsertTimerEntryLocked S timerId options adminBundleName = (\<lambda>(t, w).
     (let entry = \<lparr> timerAdmin = adminBundleName, timerName = optName options, timerCallback = optCallback options \<rparr>;
          (t, w) = (case optCallback options of None \<Rightarrow> (t, w) | Some r \<Rightarrow> GetOrCreateDeathRecipientLocked S r (t, w))
      in (t\<lparr>timerMap := ordered_update timerId entry (timerMap t)\<rparr>, w)))"

subsection \<open>Operations\<close>

text \<open>The new id is an output parameter that keeps its value on the early returns.\<close>

definition CreateTimer :: "'w time_service \<Rightarrow> timer_options \<Rightarrow> string \<Rightarrow> u64 \<Rightarrow> timer_mgr \<times> 'w
    \<Rightarrow> err_code \<times> u64 \<times> timer_mgr \<times> 'w" where
  "CreateTimer S options adminBundleName timerId = (\<lambda>(t, w).
     (if CountTimersByAdminLocked adminBundleName t \<ge> TIMER_MAX_COUNT_PER_ADMIN
      then (SYSTEM_TIMER_MAX_COUNT_REACHED, timerId, t, w)
      else if \<not> ts_present S w then (EXECUTE_TIME_OUT, timerId, t, w)
      else
        (let (timerId, w) = ts_CreateTimer S options w in
         if timerId = 0 then (EXECUTE_TIME_OUT, timerId, t, w)
         else (ERR_OK, timerId,
                 InsertTimerEntryLocked S timerId options adminBundleName
                   (CleanupSameNameTimerLocked S (optName options) 0 (t, w))))))"

definition StartTimer :: "'w time_service \<Rightarrow> u64 \<Rightarrow> u64 \<Rightarrow> string \<Rightarrow> timer_mgr \<times> 'w \<Rightarrow> err_code \<times> timer_mgr \<times> 'w" where
  "StartTimer S timerId triggerTime adminBundleName = (\<lambda>(t, w).
     (if \<not> IsTimerOwner timerId adminBundleName t then (SYSTEM_TIMER_NOT_FOUND, t, w)
      else if \<not> ts_present S w then (EXECUTE_TIME_OUT, t, w)
      else (let (ret, w) = ts_StartTimerV9 S timerId triggerTime w in
            (if ret \<noteq> 0 then EXECUTE_TIME_OUT else ERR_OK, t, w))))"

definition StopTimer :: "'w time_service \<Rightarrow> u64 \<Rightarrow> string \<Rightarrow> timer_mgr \<times> 'w \<Rightarrow> err_code \<times> timer_mgr \<times> 'w" where
  "StopTimer S timerId adminBundleName = (\<lambda>(t, w).
     (if \<not> IsTimerOwner timerId adminBundleName t then (SYSTEM_TIMER_NOT_FOUND, t, w)
      else if \<not> ts_present S w then (EXECUTE_TIME_OUT, t, w)
      else (let (ret, w) = ts_StopTimerV9 S timerId w in
            (if ret \<noteq> 0 then EXECUTE_TIME_OUT else ERR_OK, t, w))))"

definition DestroyTimer :: "'w time_service \<Rightarrow> u64 \<Rightarrow> string \<Rightarrow> timer_mgr \<times> 'w \<Rightarrow> err_code \<times> timer_mgr \<times> 'w" where
  "DestroyTimer S timerId adminBundleName = (\<lambda>(t, w).
     (if \<not> IsTimerOwner timerId adminBundleName t then (SYSTEM_TIMER_NOT_FOUND, t, w)
      else (ERR_OK, CleanupTimerLocked S timerId (t, if ts_present S w then ts_DestroyTimerV9 S timerId w else w))))"

definition destroy_timers :: "'w time_service \<Rightarrow> u64 list \<Rightarrow> 'w \<Rightarrow> 'w" where
  "destroy_timers S ids w = fold (\<lambda>i w. if ts_present S w then ts_DestroyTimerV9 S i w else w) ids w"

definition OnTimerTriggered :: "'w time_service \<Rightarrow> u64 \<Rightarrow> timer_mgr \<times> 'w \<Rightarrow> timer_mgr \<times> 'w" where
  "OnTimerTriggered S timerId = (\<lambda>(t, w).
     (case map_of (timerMap t) timerId of
        None \<Rightarrow> (t, w)
      | Some e \<Rightarrow>
          (if (case timerCallback e of None \<Rightarrow> True | Some r \<Rightarrow> rm_IsObjectDead S r w)
           then (let (t, w) = CleanupTimerLocked S timerId (t, w) in (t, destroy_timers S [timerId] w))
           else (case timerCallback e of None \<Rightarrow> (t, w) | Some r \<Rightarrow> (t, rm_SendTriggered S r timerId w)))))"

definition OnRemoteDied :: "'w time_service \<Rightarrow> remote option \<Rightarrow> timer_mgr \<times> 'w \<Rightarrow> timer_mgr \<times> 'w" where
  "OnRemoteDied S remoteObject = (\<lambda>(t, w).
     (case remoteObject of
        None \<Rightarrow> (t, w)
      | Some r \<Rightarrow>
          (let timerIds = map fst (filter (\<lambda>(_, e). timerCallback e = Some r) (timerMap t))
           in (t\<lparr>timerMap := erase_loop (\<lambda>(_, e). timerCallback e = Some r) (timerMap t),
                 recipientMap := removeAll r (recipientMap t)\<rparr>, destroy_timers S timerIds w))))"

definition Timers_OnAdminRemove :: "'w time_service \<Rightarrow> string \<Rightarrow> timer_mgr \<times> 'w \<Rightarrow> timer_mgr \<times> 'w" where
  "Timers_OnAdminRemove S adminBundleName = (\<lambda>(t, w).
     (let mine = filter (\<lambda>(_, e). timerAdmin e = adminBundleName) (timerMap t);
          t = t\<lparr>timerMap := erase_loop (\<lambda>(_, e). timerAdmin e = adminBundleName) (timerMap t)\<rparr>;
          (t, w) = fold (\<lambda>(_, e). ReleaseRecipientIfUnusedLocked S (timerCallback e)) mine (t, w)
      in (t, destroy_timers S (map fst mine) w)))"

definition ResyncTimer :: "'w time_service \<Rightarrow> timer_options \<Rightarrow> string \<Rightarrow> u64 \<Rightarrow> u64 \<Rightarrow> timer_mgr \<times> 'w
    \<Rightarrow> err_code \<times> timer_mgr \<times> 'w" where
  "ResyncTimer S options adminBundleName timerId triggerTime = (\<lambda>(t, w).
     (if \<not> ts_present S w then (EXECUTE_TIME_OUT, t, w)
      else
        (let w = ts_DestroyTimerV9 S timerId w;
             (ret, newId, w) = ts_CreateTimerV9 S options timerId w
         in if ret \<noteq> 0 \<or> newId \<noteq> timerId then (EXECUTE_TIME_OUT, t, w)
            else
              (let (t, w) = InsertTimerEntryLocked S timerId options adminBundleName
                     (CleanupSameNameTimerLocked S (optName options) timerId (t, w))
               in (ERR_OK, t, if triggerTime > 0 then snd (ts_StartTimerV9 S timerId triggerTime w) else w)))))"

subsection \<open>Requests\<close>

definition HandleCreateTimerOperation :: "'w time_service \<Rightarrow> string \<Rightarrow> timer_mgr \<times> 'w \<Rightarrow> err_code \<times> timer_mgr \<times> 'w" where
  "HandleCreateTimerOperation S adminBundleName = (\<lambda>(t, w).
     (let (repeat, w) = pr_ReadBool S w;
          (interval, w) = pr_ReadUint64 S w;
          (name, w) = pr_ReadString S w
      in if name = [] \<or> length name > TIMER_NAME_MAX_LEN then (PARAMETER_VERIFICATION_FAILED, t, w)
         else if repeat \<and> (interval < TIMER_INTERVAL_MIN_MS \<or> interval > TIMER_INTERVAL_MAX_MS)
         then (PARAMETER_VERIFICATION_FAILED, t, w)
         else
           (let (clientCallback, w) = pr_ReadRemoteObject S w in
            if clientCallback = None then (EXECUTE_TIME_OUT, t, w)
            else
              (let (ret, timerId, t, w) = CreateTimer S \<lparr> optRepeat = repeat, optInterval = interval, optName = name,
                     optCallback = clientCallback \<rparr> adminBundleName 0 (t, w)
               in if FAILED ret then (ret, t, w)
                  else (ERR_OK, t, pr_WriteUint64 S timerId (pr_WriteInt32 S ERR_OK w))))))"

definition HandleResyncTimerOperation :: "'w time_service \<Rightarrow> string \<Rightarrow> timer_mgr \<times> 'w \<Rightarrow> err_code \<times> timer_mgr \<times> 'w" where
  "HandleResyncTimerOperation S adminBundleName = (\<lambda>(t, w).
     (let (timerId, w) = pr_ReadUint64 S w;
          (repeat, w) = pr_ReadBool S w;
          (interval, w) = pr_ReadUint64 S w;
          (name, w) = pr_ReadString S w;
          (triggerTime, w) = pr_ReadUint64 S w;
          (clientCallback, w) = pr_ReadRemoteObject S w
      in if clientCallback = None then (EXECUTE_TIME_OUT, t, w)
         else ResyncTimer S \<lparr> optRepeat = repeat, optInterval = interval, optName = name, optCallback = clientCallback \<rparr>
           adminBundleName timerId triggerTime (t, w)))"

definition HandleTimerOperation :: "'w time_service \<Rightarrow> string \<Rightarrow> timer_mgr \<times> 'w \<Rightarrow> err_code \<times> timer_mgr \<times> 'w" where
  "HandleTimerOperation S adminBundleName = (\<lambda>(t, w).
     (let (opTypeRaw, w) = pr_ReadInt32 S w in
      case opTypeRaw of
        None \<Rightarrow> (EXECUTE_TIME_OUT, t, w)
      | Some opType \<Rightarrow>
          (if opType = 0 then HandleCreateTimerOperation S adminBundleName (t, w)
           else if opType = 1 then
             (let (timerId, w) = pr_ReadUint64 S w; (triggerTime, w) = pr_ReadUint64 S w in
              if triggerTime = 0 then (PARAMETER_VERIFICATION_FAILED, t, w)
              else StartTimer S timerId triggerTime adminBundleName (t, w))
           else if opType = 2 then (let (timerId, w) = pr_ReadUint64 S w in StopTimer S timerId adminBundleName (t, w))
           else if opType = 3 then (let (timerId, w) = pr_ReadUint64 S w in DestroyTimer S timerId adminBundleName (t, w))
           else if opType = 4 then HandleResyncTimerOperation S adminBundleName (t, w)
           else (PARAMETER_VERIFICATION_FAILED, t, w))))"

subsection \<open>What the operations keep\<close>

text \<open>The entries are in order, and every client object with a timer has a death recipient.\<close>

definition entry_watched :: "remote list \<Rightarrow> u64 \<times> timer_entry \<Rightarrow> bool" where
  "entry_watched rs ie = (\<forall>r. timerCallback (snd ie) = Some r \<longrightarrow> r \<in> set rs)"

definition timers_ok :: "timer_mgr \<Rightarrow> bool" where
  "timers_ok t = (sorted_wrt (<) (map fst (timerMap t)) \<and> distinct (recipientMap t)
     \<and> (\<forall>ie \<in> set (timerMap t). entry_watched (recipientMap t) ie))"

definition timers_of :: "string \<Rightarrow> timer_mgr \<Rightarrow> (u64 \<times> timer_entry) list" where
  "timers_of a t = filter (\<lambda>(_, e). timerAdmin e = a) (timerMap t)"

lemma map_of_ordered_update [simp]: "map_of (ordered_update k v m) = (map_of m)(k \<mapsto> v)"
  by (induction m) (auto simp: fun_eq_iff)

lemma set_ordered_update: "set (ordered_update k v m) \<subseteq> insert (k, v) (set m)"
  by (induction m) (auto split: if_splits)

lemma sorted_ordered_update: "sorted_wrt (<) (map fst m) \<Longrightarrow> sorted_wrt (<) (map fst (ordered_update k v m))"
proof (induction m)
  case (Cons kv m)
  obtain k' v' where kv: "kv = (k', v')" by (rule prod.exhaust)
  have "\<forall>x \<in> fst ` set (ordered_update k v m). k' < x" if "k' < k"
    using Cons.prems that set_ordered_update [of k v m] by (auto simp: kv)
  then show ?case using Cons by (auto simp: kv)
qed simp

lemma filter_ordered_update:
  "length (filter P (ordered_update k v m)) \<le> length (filter P m) + (if P (k, v) then 1 else 0)"
  by (induction m) auto

lemma sorted_keys_filter: "sorted_wrt (<) (map fst m) \<Longrightarrow> sorted_wrt (<) (map fst (filter P m))"
  by (simp add: sorted_wrt_map sorted_wrt_filter)

lemma sorted_keys_map_of_filter:
  "sorted_wrt (<) (map fst m) \<Longrightarrow>
   map_of (filter (\<lambda>(_, e). P e) m) (k::'k::linorder) = (case map_of m k of Some e \<Rightarrow> if P e then Some e else None | None \<Rightarrow> None)"
proof (induction m)
  case (Cons kv m)
  obtain k' v' where kv: "kv = (k', v')" by (rule prod.exhaust)
  have "map_of m k' = None" using Cons.prems by (auto simp: kv map_of_eq_None_iff)
  then show ?case using Cons by (auto simp: kv split: option.splits)
qed simp

lemma delete_filter: "AList.delete k m = filter (\<lambda>(k', _). k' \<noteq> k) m"
  by (auto simp: AList.delete_eq intro: filter_cong)

lemma watched_mono: "entry_watched rs ie \<Longrightarrow> set rs \<subseteq> set rs' \<Longrightarrow> entry_watched rs' ie"
  by (auto simp: entry_watched_def)

lemma Release_map [simp]: "timerMap (fst (ReleaseRecipientIfUnusedLocked S c (t, w))) = timerMap t"
  by (auto simp: ReleaseRecipientIfUnusedLocked_def split: option.splits)


lemma timers_okD:
  assumes "timers_ok t"
  shows "sorted_wrt (<) (map fst (timerMap t))" "distinct (recipientMap t)"
    "ie \<in> set (timerMap t) \<Longrightarrow> entry_watched (recipientMap t) ie"
  using assms by (auto simp: timers_ok_def)

text \<open>Dropping entries, and the recipients that no entry needs, is safe.\<close>

lemma timers_ok_drop:
  assumes "timers_ok t" "set rs \<subseteq> set (recipientMap t)" "distinct rs"
    and "\<And>i e r. (i, e) \<in> set (timerMap t) \<Longrightarrow> P (i, e) \<Longrightarrow> timerCallback e = Some r \<Longrightarrow> r \<in> set rs"
  shows "timers_ok (t\<lparr>timerMap := filter P (timerMap t), recipientMap := rs\<rparr>)"
  using assms sorted_keys_filter [OF timers_okD(1) [OF assms(1)]] by (auto simp: timers_ok_def entry_watched_def)

lemma Release_ok:
  assumes "timers_ok t"
  shows "timers_ok (fst (ReleaseRecipientIfUnusedLocked S c (t, w)))"
proof (cases c)
  case (Some r)
  have "timers_ok (t\<lparr>recipientMap := removeAll r (recipientMap t)\<rparr>)" if "\<not> list_ex (\<lambda>(_, e). timerCallback e = Some r) (timerMap t)"
    using assms that by (fastforce simp: timers_ok_def entry_watched_def list_ex_iff distinct_removeAll)
  then show ?thesis using assms by (simp add: ReleaseRecipientIfUnusedLocked_def Some)
qed (simp add: ReleaseRecipientIfUnusedLocked_def assms)

lemma timers_ok_filter: "timers_ok t \<Longrightarrow> timers_ok (t\<lparr>timerMap := filter P (timerMap t)\<rparr>)"
  using timers_ok_drop [of t "recipientMap t" P] by (auto simp: timers_ok_def entry_watched_def)

lemma Cleanup_map: "timerMap (fst (CleanupTimerLocked S i (t, w))) = AList.delete i (timerMap t)"
proof (cases "map_of (timerMap t) i")
  case None
  then have "AList.delete i (timerMap t) = timerMap t" by (simp add: map_of_eq_None_iff delete_idem)
  then show ?thesis by (simp add: CleanupTimerLocked_def None)
qed (simp add: CleanupTimerLocked_def)

lemma Cleanup_ok: "timers_ok t \<Longrightarrow> timers_ok (fst (CleanupTimerLocked S i (t, w)))"
  by (auto simp: CleanupTimerLocked_def delete_filter intro!: Release_ok timers_ok_filter split: option.split)

text \<open>The entry that gives way to a new one of the same name.\<close>

definition same_name :: "string \<Rightarrow> u64 \<Rightarrow> timer_mgr \<Rightarrow> u64 option" where
  "same_name name x t = (if name = [] then None
     else map_option fst (find (\<lambda>(i, e). i \<noteq> x \<and> timerName e = name) (timerMap t)))"

lemma SameName_map:
  "timerMap (fst (CleanupSameNameTimerLocked S name x (t, w)))
     = (case same_name name x t of None \<Rightarrow> timerMap t | Some i \<Rightarrow> AList.delete i (timerMap t))"
  by (auto simp: CleanupSameNameTimerLocked_def same_name_def Cleanup_map split: option.split)

lemma SameName_ok: "timers_ok t \<Longrightarrow> timers_ok (fst (CleanupSameNameTimerLocked S name x (t, w)))"
  by (auto simp: CleanupSameNameTimerLocked_def intro: Cleanup_ok split: option.split)

lemma Insert_map:
  "timerMap (fst (InsertTimerEntryLocked S i opt a (t, w)))
     = ordered_update i \<lparr> timerAdmin = a, timerName = optName opt, timerCallback = optCallback opt \<rparr> (timerMap t)"
  by (auto simp: InsertTimerEntryLocked_def GetOrCreateDeathRecipientLocked_def Let_def split: option.split)

lemma Insert_recipients:
  "set (recipientMap (fst (InsertTimerEntryLocked S i opt a (t, w)))) = set (recipientMap t) \<union> set_option (optCallback opt)"
  "distinct (recipientMap t) \<Longrightarrow> distinct (recipientMap (fst (InsertTimerEntryLocked S i opt a (t, w))))"
  by (auto simp: InsertTimerEntryLocked_def GetOrCreateDeathRecipientLocked_def Let_def split: option.split)

lemma Insert_ok:
  assumes "timers_ok t"
  shows "timers_ok (fst (InsertTimerEntryLocked S i opt a (t, w)))"
  unfolding timers_ok_def Insert_map
proof (intro conjI ballI)
  show "sorted_wrt (<) (map fst (ordered_update i \<lparr> timerAdmin = a, timerName = optName opt, timerCallback = optCallback opt \<rparr> (timerMap t)))"
    using sorted_ordered_update timers_okD(1) [OF assms] .
  show "distinct (recipientMap (fst (InsertTimerEntryLocked S i opt a (t, w))))"
    using Insert_recipients(2) timers_okD(2) [OF assms] .
  fix ie
  assume "ie \<in> set (ordered_update i \<lparr> timerAdmin = a, timerName = optName opt, timerCallback = optCallback opt \<rparr> (timerMap t))"
  then have "ie = (i, \<lparr> timerAdmin = a, timerName = optName opt, timerCallback = optCallback opt \<rparr>) \<or> ie \<in> set (timerMap t)"
    using set_ordered_update by fastforce
  then show "entry_watched (recipientMap (fst (InsertTimerEntryLocked S i opt a (t, w)))) ie"
    using timers_okD(3) [OF assms, of ie] by (auto simp: entry_watched_def Insert_recipients(1))
qed

text \<open>A new timer, with the one of the same name dropped: \<open>CreateTimer\<close> and \<open>ResyncTimer\<close>.\<close>

definition put_timer :: "'w time_service \<Rightarrow> u64 \<Rightarrow> u64 \<Rightarrow> timer_options \<Rightarrow> string \<Rightarrow> timer_mgr \<times> 'w \<Rightarrow> timer_mgr \<times> 'w" where
  "put_timer S i x opt a tw = InsertTimerEntryLocked S i opt a (CleanupSameNameTimerLocked S (optName opt) x tw)"

lemma put_ok: "timers_ok t \<Longrightarrow> timers_ok (fst (put_timer S i x opt a (t, w)))"
  unfolding put_timer_def by (metis Insert_ok SameName_ok prod.collapse)

lemma put_map:
  "timerMap (fst (put_timer S i x opt a (t, w)))
     = ordered_update i \<lparr> timerAdmin = a, timerName = optName opt, timerCallback = optCallback opt \<rparr>
         (case same_name (optName opt) x t of None \<Rightarrow> timerMap t | Some i \<Rightarrow> AList.delete i (timerMap t))"
  by (metis Insert_map SameName_map put_timer_def prod.collapse)

lemma CreateTimer_result:
  assumes "CreateTimer S opt a i0 (t, w) = (err, i, t', w')"
  shows "err = ERR_OK \<and> CountTimersByAdminLocked a t < TIMER_MAX_COUNT_PER_ADMIN \<and> i \<noteq> 0
      \<and> (\<exists>w1. (t', w') = put_timer S i 0 opt a (t, w1) \<and> ts_CreateTimer S opt w = (i, w1))
    \<or> err \<noteq> ERR_OK \<and> t' = t"
  using assms by (auto simp: CreateTimer_def put_timer_def Let_def not_le split: if_splits prod.splits)

lemma ResyncTimer_result:
  assumes "ResyncTimer S opt a i tr (t, w) = (err, t', w')"
  shows "err = ERR_OK \<and> (\<exists>w1. t' = fst (put_timer S i i opt a (t, w1))) \<or> err \<noteq> ERR_OK \<and> t' = t"
  using assms by (auto simp: ResyncTimer_def put_timer_def Let_def split: if_splits prod.splits) (metis fst_conv)+

lemma others_keep_map:
  "StartTimer S i tr a (t, w) = (err, t', w') \<Longrightarrow> t' = t" "StopTimer S i a (t, w) = (err, t', w') \<Longrightarrow> t' = t"
  by (auto simp: StartTimer_def StopTimer_def split: if_splits prod.splits)

lemma DestroyTimer_result:
  assumes "DestroyTimer S i a (t, w) = (err, t', w')"
  shows "err = ERR_OK \<and> IsTimerOwner i a t \<and> (\<exists>w1. t' = fst (CleanupTimerLocked S i (t, w1)))
    \<or> err = SYSTEM_TIMER_NOT_FOUND \<and> \<not> IsTimerOwner i a t \<and> t' = t \<and> w' = w"
  using assms unfolding DestroyTimer_def by (auto split: if_splits) (metis fst_conv)+

lemma Trigger_result:
  assumes "OnTimerTriggered S i (t, w) = (t', w')"
  shows "t' = t \<or> (\<exists>w1. t' = fst (CleanupTimerLocked S i (t, w1)))"
  using assms by (auto simp: OnTimerTriggered_def Let_def split: if_splits option.splits prod.splits) (metis fst_conv)+

lemma erase_filter_entries: "erase_loop (\<lambda>(_, e). P e) m = filter (\<lambda>(_, e). \<not> P e) m"
  by (induction m) auto

lemma Died_ok: "timers_ok t \<Longrightarrow> timers_ok (fst (OnRemoteDied S r (t, w)))"
  by (auto simp: OnRemoteDied_def Let_def erase_filter_entries distinct_removeAll
      timers_okD(2) intro!: timers_ok_drop dest: timers_okD(3) split: option.split)
    (auto simp: entry_watched_def dest!: timers_okD(3))

lemma fold_Release_map:
  "timerMap (fst (fold (\<lambda>(_, e). ReleaseRecipientIfUnusedLocked S (timerCallback e)) xs (t, w))) = timerMap t"
proof (induction xs arbitrary: t w)
  case (Cons x xs)
  obtain t1 w1 where r: "ReleaseRecipientIfUnusedLocked S (timerCallback (snd x)) (t, w) = (t1, w1)" by (rule prod.exhaust)
  then show ?case using Cons [of t1 w1] Release_map [of S "timerCallback (snd x)" t w] by (simp add: case_prod_beta)
qed simp

lemma fold_Release_ok:
  "timers_ok t \<Longrightarrow> timers_ok (fst (fold (\<lambda>(_, e). ReleaseRecipientIfUnusedLocked S (timerCallback e)) xs (t, w)))"
proof (induction xs arbitrary: t w)
  case (Cons x xs)
  obtain t1 w1 where r: "ReleaseRecipientIfUnusedLocked S (timerCallback (snd x)) (t, w) = (t1, w1)" by (rule prod.exhaust)
  then show ?case using Cons.IH [of t1 w1] Release_ok [OF Cons.prems, of S "timerCallback (snd x)" w]
    by (simp add: case_prod_beta)
qed simp

lemma AdminRemove_map:
  "timerMap (fst (Timers_OnAdminRemove S a (t, w))) = filter (\<lambda>(_, e). timerAdmin e \<noteq> a) (timerMap t)"
proof -
  obtain mine where m: "mine = filter (\<lambda>(_, e). timerAdmin e = a) (timerMap t)" by simp
  obtain t1 where t1: "t1 = t\<lparr>timerMap := filter (\<lambda>(_, e). timerAdmin e \<noteq> a) (timerMap t)\<rparr>" by simp
  have "fst (Timers_OnAdminRemove S a (t, w))
      = fst (fold (\<lambda>(_, e). ReleaseRecipientIfUnusedLocked S (timerCallback e)) mine (t1, w))"
    unfolding Timers_OnAdminRemove_def m t1 Let_def erase_filter_entries by (simp split: prod.split)
  then show ?thesis using fold_Release_map [of S mine t1 w] by (simp add: t1)
qed

lemma AdminRemove_ok:
  assumes "timers_ok t"
  shows "timers_ok (fst (Timers_OnAdminRemove S a (t, w)))"
proof -
  obtain t1 where t1: "t1 = t\<lparr>timerMap := filter (\<lambda>(_, e). timerAdmin e \<noteq> a) (timerMap t)\<rparr>" by simp
  have "fst (Timers_OnAdminRemove S a (t, w)) = fst (fold (\<lambda>(_, e). ReleaseRecipientIfUnusedLocked S (timerCallback e))
      (filter (\<lambda>(_, e). timerAdmin e = a) (timerMap t)) (t1, w))"
    unfolding Timers_OnAdminRemove_def t1 Let_def erase_filter_entries by (simp split: prod.split)
  moreover have "timers_ok t1" unfolding t1 by (rule timers_ok_filter [OF assms])
  ultimately show ?thesis using fold_Release_ok by simp
qed

subsection \<open>Runs\<close>

text \<open>Requests whose operation satisfies \<open>P\<close>, timers going off, clients dying and administrators being removed,
  in any order; outside, anything may happen in between.\<close>

inductive timer_step :: "'w time_service \<Rightarrow> (int option \<Rightarrow> bool) \<Rightarrow> timer_mgr \<times> 'w \<Rightarrow> timer_mgr \<times> 'w \<Rightarrow> bool" for S P where
  request: "P (fst (pr_ReadInt32 S w)) \<Longrightarrow> HandleTimerOperation S a (t, w) = (err, tw') \<Longrightarrow> timer_step S P (t, w) tw'"
| trigger: "OnTimerTriggered S i (t, w) = tw' \<Longrightarrow> timer_step S P (t, w) tw'"
| died: "OnRemoteDied S r (t, w) = tw' \<Longrightarrow> timer_step S P (t, w) tw'"
| removed: "Timers_OnAdminRemove S a (t, w) = tw' \<Longrightarrow> timer_step S P (t, w) tw'"
| outside: "timer_step S P (t, w) (t, w')"

lemma request_run:
  assumes "HandleTimerOperation S a (t, w) = (err, t', w')"
  obtains (unchanged) "t' = t"
  | (create) i opt w1 where "CountTimersByAdminLocked a t < TIMER_MAX_COUNT_PER_ADMIN" "t' = fst (put_timer S i 0 opt a (t, w1))"
  | (destroy) i w1 where "IsTimerOwner i a t" "t' = fst (CleanupTimerLocked S i (t, w1))"
  | (resync) i opt w1 where "fst (pr_ReadInt32 S w) = Some 4" "t' = fst (put_timer S i i opt a (t, w1))"
proof -
  obtain op v where op: "pr_ReadInt32 S w = (op, v)" by (rule prod.exhaust)
  consider "op = Some 0" | "op = Some 1" | "op = Some 2" | "op = Some 3" | "op = Some 4"
    | "t' = t"
    using assms by (auto simp: HandleTimerOperation_def op split: option.splits if_splits)
  then show ?thesis
  proof cases
    case 1
    have h: "HandleCreateTimerOperation S a (t, v) = (err, t', w')" using assms by (simp add: HandleTimerOperation_def op 1)
    show ?thesis
    proof (cases "t' = t")
      case False
      then obtain opt i w2 w3 where c: "CreateTimer S opt a 0 (t, w2) = (ERR_OK, i, t', w3)"
        using h CreateTimer_result
        by (fastforce simp: HandleCreateTimerOperation_def Let_def split: prod.splits if_splits)
      show ?thesis using CreateTimer_result [OF c] create by (metis fst_conv)
    qed (rule unchanged)
  next
    case 2
    then have "t' = t" using assms others_keep_map(1)
      by (auto simp: HandleTimerOperation_def op split: prod.splits if_splits)
    then show ?thesis by (rule unchanged)
  next
    case 3
    then have "t' = t" using assms others_keep_map(2)
      by (auto simp: HandleTimerOperation_def op split: prod.splits if_splits)
    then show ?thesis by (rule unchanged)
  next
    case 4
    then obtain i w2 where "DestroyTimer S i a (t, w2) = (err, t', w')"
      using assms by (auto simp: HandleTimerOperation_def op split: prod.splits)
    from DestroyTimer_result [OF this] show ?thesis using unchanged destroy by blast
  next
    case 5
    have h: "HandleResyncTimerOperation S a (t, v) = (err, t', w')" using assms by (simp add: HandleTimerOperation_def op 5)
    show ?thesis
    proof (cases "t' = t")
      case False
      then obtain opt i tr w2 where c: "ResyncTimer S opt a i tr (t, w2) = (err, t', w')"
        using h by (auto simp: HandleResyncTimerOperation_def Let_def split: prod.splits if_splits)
      show ?thesis using ResyncTimer_result [OF c] False resync by (auto simp: op 5)
    qed (rule unchanged)
  qed (rule unchanged)
qed

lemma timer_step_ok: "timer_step S P (t, w) (t', w') \<Longrightarrow> timers_ok t \<Longrightarrow> timers_ok t'"
proof (induction "(t, w)" "(t', w')" rule: timer_step.induct)
  case (request a err)
  show ?case
    by (cases rule: request_run [OF request(2)]) (auto intro: put_ok Cleanup_ok request(3))
next
  case (trigger i)
  then show ?case using Trigger_result Cleanup_ok by metis
next
  case (died r)
  then show ?case using Died_ok by (metis fst_conv)
next
  case (removed a)
  then show ?case using AdminRemove_ok by (metis fst_conv)
qed auto

lemma timers_reachable_ok: "(timer_step S P)\<^sup>*\<^sup>* (timers0, w0) tw \<Longrightarrow> timers_ok (fst tw)"
proof (induction rule: rtranclp_induct)
  case base
  show ?case by (simp add: timers_ok_def timers0_def)
next
  case (step y z)
  then show ?case using timer_step_ok by (metis prod.collapse)
qed

lemma count_word: "CountTimersByAdminLocked a t = of_nat (length (timers_of a t))"
proof -
  have "fold (\<lambda>(_, e) count. if timerAdmin e = a then count + 1 else count) m c
      = c + of_nat (length (filter (\<lambda>(_, e). timerAdmin e = a) m))" for m :: "(u64, timer_entry) amap" and c :: u32
    by (induction m arbitrary: c) auto
  then show ?thesis by (simp add: CountTimersByAdminLocked_def timers_of_def)
qed

lemma count_below:
  assumes "length (timers_of a t) \<le> 5" "CountTimersByAdminLocked a t < TIMER_MAX_COUNT_PER_ADMIN"
  shows "length (timers_of a t) < 5"
  using assms(2) unfolding count_word word_less_nat_alt using assms(1) by (simp add: unat_of_nat)

lemma filter_less: "length (filter P (filter Q m)) \<le> length (filter P m)"
  by (induction m) auto

lemma timers_of_put:
  "length (timers_of b (fst (put_timer S i x opt a (t, w)))) \<le> length (timers_of b t) + (if b = a then 1 else 0)"
proof -
  define m where "m = (case same_name (optName opt) x t of None \<Rightarrow> timerMap t | Some i \<Rightarrow> AList.delete i (timerMap t))"
  have "length (filter (\<lambda>(_, e). timerAdmin e = b) m) \<le> length (timers_of b t)"
    by (auto simp: m_def timers_of_def delete_filter filter_less simp del: filter_filter split: option.split)
  then show ?thesis
    using filter_ordered_update [of "\<lambda>(_, e). timerAdmin e = b" i
        "\<lparr> timerAdmin = a, timerName = optName opt, timerCallback = optCallback opt \<rparr>" m]
    by (auto simp: timers_of_def put_map m_def [symmetric] split: if_splits)
qed

lemma timers_of_step:
  assumes "timer_step S P (t, w) (t', w')" "\<not> P (Some 4)" "length (timers_of b t) \<le> 5"
  shows "length (timers_of b t') \<le> 5"
  using assms
proof (induction "(t, w)" "(t', w')" rule: timer_step.induct)
  case (request a err)
  show ?case
  proof (cases rule: request_run [OF request(2), case_names unchanged create destroy resync])
    case (create i opt w1)
    show ?thesis using timers_of_put [of b S i 0 opt a t w1] count_below [of a t] create request(4)
      by (auto split: if_splits)
  next
    case (destroy i w1)
    have "timers_of b t' = filter (\<lambda>(_, e). timerAdmin e = b) (filter (\<lambda>(k, _). k \<noteq> i) (timerMap t))"
      by (simp add: destroy(2) timers_of_def Cleanup_map delete_filter)
    then show ?thesis
      using request(4) filter_less [of "\<lambda>(_, e). timerAdmin e = b" "\<lambda>(k, _). k \<noteq> i" "timerMap t"]
      by (simp add: timers_of_def)
  next
    case (resync i opt w1)
    then show ?thesis using request(1,3) by simp
  qed (use request in simp)
next
  case (trigger i)
  have "length (timers_of b t') \<le> length (timers_of b t)"
    using Trigger_result [OF trigger(1)] by (auto simp: timers_of_def Cleanup_map delete_filter filter_less simp del: filter_filter)
  then show ?case using trigger by simp
next
  case (died r)
  have "t' = fst (OnRemoteDied S r (t, w))" using died(1) by simp
  then have "length (timers_of b t') \<le> length (timers_of b t)"
    by (auto simp: timers_of_def OnRemoteDied_def Let_def erase_filter_entries filter_less simp del: filter_filter split: option.split)
  then show ?case using died by simp
next
  case (removed a)
  have "t' = fst (Timers_OnAdminRemove S a (t, w))" using removed(1) by simp
  then have "length (timers_of b t') \<le> length (timers_of b t)"
    by (simp add: timers_of_def AdminRemove_map filter_less del: filter_filter)
  then show ?case using removed by simp
qed auto

subsection \<open>A time service\<close>

text \<open>Parcels are lists of values and the service hands out the ids from 1; the world is the parcel to read
  and the last id.\<close>

datatype parcel_value = PInt int | PBool bool | PU64 u64 | PString string | PRemote remote

definition sample_time :: "(parcel_value list \<times> u64) time_service" where
  "sample_time = \<lparr>
     ts_present = (\<lambda>_. True), ts_CreateTimer = (\<lambda>_ (p, n). (n + 1, p, n + 1)),
     ts_CreateTimerV9 = (\<lambda>_ i w. (0, i, w)), ts_StartTimerV9 = (\<lambda>_ _ w. (0, w)), ts_StopTimerV9 = (\<lambda>_ w. (0, w)),
     ts_DestroyTimerV9 = (\<lambda>_ w. w), rm_AddDeathRecipient = (\<lambda>_ w. w), rm_RemoveDeathRecipient = (\<lambda>_ w. w),
     rm_IsObjectDead = (\<lambda>_ _. False), rm_SendTriggered = (\<lambda>_ _ w. w),
     pr_ReadInt32 = (\<lambda>(p, n). case p of PInt i # p \<Rightarrow> (Some i, p, n) | _ \<Rightarrow> (None, p, n)),
     pr_ReadBool = (\<lambda>(p, n). case p of PBool b # p \<Rightarrow> (b, p, n) | _ \<Rightarrow> (False, p, n)),
     pr_ReadUint64 = (\<lambda>(p, n). case p of PU64 i # p \<Rightarrow> (i, p, n) | _ \<Rightarrow> (0, p, n)),
     pr_ReadString = (\<lambda>(p, n). case p of PString x # p \<Rightarrow> (x, p, n) | _ \<Rightarrow> ([], p, n)),
     pr_ReadRemoteObject = (\<lambda>(p, n). case p of PRemote r # p \<Rightarrow> (Some r, p, n) | _ \<Rightarrow> (None, p, n)),
     pr_WriteInt32 = (\<lambda>_ w. w), pr_WriteUint64 = (\<lambda>_ w. w) \<rparr>"

definition timer_request :: "string \<Rightarrow> parcel_value list \<Rightarrow> timer_mgr \<times> parcel_value list \<times> u64
    \<Rightarrow> err_code \<times> timer_mgr \<times> parcel_value list \<times> u64" where
  "timer_request a p = (\<lambda>(t, _, n). HandleTimerOperation sample_time a (t, p, n))"

definition create_parcel :: "string \<Rightarrow> remote \<Rightarrow> parcel_value list" where
  "create_parcel name r = [PInt 0, PBool False, PU64 0, PString name, PRemote r]"

definition two_admins :: "timer_mgr \<times> parcel_value list \<times> u64" where
  "two_admins = snd (timer_request ''com.b'' (create_parcel ''backup'' 8)
     (snd (timer_request ''com.a'' (create_parcel ''scan'' 7) (timers0, [], 0))))"

definition only_create :: "int option \<Rightarrow> bool" where "only_create op = (op = Some 0)"

lemma timer_request_steps:
  assumes "P (fst (pr_ReadInt32 sample_time (p, snd (snd tw))))"
  shows "(timer_step sample_time P)\<^sup>*\<^sup>* tw (snd (timer_request a p tw))"
proof -
  obtain t q n where tw: "tw = (t, q, n)" by (metis prod.exhaust)
  obtain err t' w' where h: "HandleTimerOperation sample_time a (t, p, n) = (err, t', w')" by (metis prod.exhaust)
  have "timer_step sample_time P (t, q, n) (t, p, n)" by (rule outside)
  moreover have "timer_step sample_time P (t, p, n) (t', w')"
    using request [OF _ h, of P] assms by (simp add: tw)
  ultimately show ?thesis by (simp add: tw timer_request_def h)
qed

lemma two_admins_reachable:
  "P (Some 0) \<Longrightarrow> (timer_step sample_time P)\<^sup>*\<^sup>* (timers0, [], 0) two_admins"
  unfolding two_admins_def create_parcel_def
  by (rule rtranclp_trans [OF timer_request_steps timer_request_steps]) (simp_all add: sample_time_def)

subsection \<open>Properties\<close>

text \<open>C19: Timers die with their client. In every state reached by requests, timers going off, clients dying and
  administrators being removed, a death recipient is registered for the client object of every
  timer, and when that object dies, its timers are removed and no others.\<close>

theorem timers_die_with_client:
  assumes "(timer_step S P)\<^sup>*\<^sup>* (timers0, w0) (t, w)" "map_of (timerMap t) i = Some e" "timerCallback e = Some r"
  shows "r \<in> set (recipientMap t)
    \<and> map_of (timerMap (fst (OnRemoteDied S (Some r) (t, w)))) j
      = (case map_of (timerMap t) j of None \<Rightarrow> None | Some e' \<Rightarrow> if timerCallback e' = Some r then None else Some e')"
proof -
  have ok: "timers_ok t" using timers_reachable_ok [OF assms(1)] by simp
  have "(i, e) \<in> set (timerMap t)" using assms(2) by (rule map_of_SomeD)
  then have "r \<in> set (recipientMap t)" using timers_okD(3) [OF ok] assms(3) by (auto simp: entry_watched_def)
  then show ?thesis
    using sorted_keys_map_of_filter [OF timers_okD(1) [OF ok], of "\<lambda>e. timerCallback e \<noteq> Some r" j]
    by (auto simp: OnRemoteDied_def Let_def erase_filter_entries simp del: erase_loop_filter split: option.split)
qed

theorem timers_die_with_client_witness:
  "map_of (timerMap (fst two_admins)) 1 \<noteq> None \<and> 7 \<in> set (recipientMap (fst two_admins))
   \<and> map_of (timerMap (fst (OnRemoteDied sample_time (Some 7) two_admins))) 1 = None
   \<and> map_of (timerMap (fst (OnRemoteDied sample_time (Some 7) two_admins))) 2 = map_of (timerMap (fst two_admins)) 2"
proof -
  let ?e = "\<lparr> timerAdmin = ''com.a'', timerName = ''scan'', timerCallback = Some 7 \<rparr>"
  have e: "map_of (timerMap (fst two_admins)) 1 = Some ?e" by code_simp
  have b: "map_of (timerMap (fst two_admins)) 2 = Some \<lparr> timerAdmin = ''com.b'', timerName = ''backup'', timerCallback = Some 8 \<rparr>"
    by code_simp
  note r = two_admins_reachable [of "\<lambda>_. True", OF TrueI]
  note all = timers_die_with_client [of sample_time _ _ "fst two_admins" "snd two_admins" 1 ?e 7, simplified, OF r e [simplified], simplified]
  show ?thesis using all [of 1] all [of 2] e b by simp
qed



text \<open>C21: At most five timers. Without \<open>RESYNC\<close> requests no administrator ever has more than
  \<open>TIMER_MAX_COUNT_PER_ADMIN\<close> timers.\<close>

theorem timer_count_bounded:
  assumes "(timer_step S P)\<^sup>*\<^sup>* (timers0, w0) (t, w)" "\<not> P (Some 4)"
  shows "length (timers_of a t) \<le> 5 \<and> unat (CountTimersByAdminLocked a t) = length (timers_of a t)"
proof -
  have "length (timers_of a (fst tw)) \<le> 5" if "(timer_step S P)\<^sup>*\<^sup>* (timers0, w0) tw" for tw
    using that
  proof (induction rule: rtranclp_induct)
    case base
    show ?case by (simp add: timers_of_def timers0_def)
  next
    case (step y z)
    then show ?case using timers_of_step [of S P "fst y" "snd y" "fst z" "snd z" a] assms(2) by simp
  qed
  from this [OF assms(1)] show ?thesis by (simp add: count_word unat_of_nat)
qed

theorem timer_count_bounded_witness:
  "length (timers_of ''com.a'' (fst two_admins)) \<le> 5 \<and> length (timers_of ''com.a'' (fst two_admins)) = 1"
proof
  show "length (timers_of ''com.a'' (fst two_admins)) \<le> 5"
    using timer_count_bounded [of sample_time only_create _ "fst two_admins" "snd two_admins" "''com.a''"]
      two_admins_reachable [of only_create]
    by (simp add: only_create_def)
  show "length (timers_of ''com.a'' (fst two_admins)) = 1" by code_simp
qed

text \<open>C22: A \<open>RESYNC\<close> request takes a timer away. \<open>ResyncTimer\<close> does not look at the owner of the timer: when it
  succeeds, the timer belongs to the caller, and its former owner can no longer start, stop or
  destroy it.\<close>

theorem resync_takes_timer_over:
  assumes "IsTimerOwner i a t" "b \<noteq> a" "ResyncTimer S opt b i tr (t, w) = (ERR_OK, t', w')"
  shows "IsTimerOwner i b t' \<and> StartTimer S i tr' a (t', w'') = (SYSTEM_TIMER_NOT_FOUND, t', w'')
    \<and> StopTimer S i a (t', w'') = (SYSTEM_TIMER_NOT_FOUND, t', w'')
    \<and> DestroyTimer S i a (t', w'') = (SYSTEM_TIMER_NOT_FOUND, t', w'')"
proof -
  obtain w1 where "t' = fst (put_timer S i i opt b (t, w1))" using ResyncTimer_result [OF assms(3)] by auto
  then have "map_of (timerMap t') i = Some \<lparr> timerAdmin = b, timerName = optName opt, timerCallback = optCallback opt \<rparr>"
    by (simp add: put_map)
  then show ?thesis using assms(2) by (simp add: IsTimerOwner_def StartTimer_def StopTimer_def DestroyTimer_def)
qed

theorem resync_takes_timer_over_witness:
  "fst (timer_request ''com.b'' [PInt 4, PU64 1, PBool False, PU64 0, PString ''mine'', PU64 0, PRemote 8] two_admins) = ERR_OK
   \<and> IsTimerOwner 1 ''com.a'' (fst two_admins)
   \<and> fst (StopTimer sample_time 1 ''com.a'' (snd (timer_request ''com.b''
        [PInt 4, PU64 1, PBool False, PU64 0, PString ''mine'', PU64 0, PRemote 8] two_admins))) = SYSTEM_TIMER_NOT_FOUND"
proof (intro conjI)
  let ?p = "[PInt 4, PU64 1, PBool False, PU64 0, PString ''mine'', PU64 0, PRemote 8]"
  let ?opt = "\<lparr> optRepeat = False, optInterval = 0, optName = ''mine'', optCallback = Some 8 \<rparr>"
  show ok: "fst (timer_request ''com.b'' ?p two_admins) = ERR_OK" by code_simp
  show a: "IsTimerOwner 1 ''com.a'' (fst two_admins)" by code_simp
  obtain t q n where tw: "two_admins = (t, q, n)" by (metis prod.exhaust)
  obtain err t' w' where r: "ResyncTimer sample_time ?opt ''com.b'' 1 0 (t, [], n) = (err, t', w')" by (metis prod.exhaust)
  have req: "timer_request ''com.b'' ?p two_admins = (err, t', w')"
    unfolding r [symmetric] by (simp add: tw timer_request_def HandleTimerOperation_def HandleResyncTimerOperation_def sample_time_def)
  then show "fst (StopTimer sample_time 1 ''com.a'' (snd (timer_request ''com.b'' ?p two_admins))) = SYSTEM_TIMER_NOT_FOUND"
    using resync_takes_timer_over [of 1 "''com.a''" t "''com.b''" sample_time ?opt 0 "([], n)" t' w' _ w'] a ok r
    by (simp add: tw)
qed

text \<open>C23: Names of timers are shared by all administrators. Creating a timer drops the first entry of that
  name whoever owns it, and leaves the timer service's timer running: the owner of the dropped one
  can no longer start, stop or destroy it.\<close>

theorem same_name_drops_other_admins_timer:
  assumes "IsTimerOwner i a t" "same_name (optName opt) 0 t = Some i"
    and "CreateTimer S opt b i0 (t, w) = (ERR_OK, j, t', w')" "j \<noteq> i"
  shows "\<not> IsTimerOwner i a t' \<and> IsTimerOwner j b t' \<and> StopTimer S i a (t', w'') = (SYSTEM_TIMER_NOT_FOUND, t', w'')
    \<and> DestroyTimer S i a (t', w'') = (SYSTEM_TIMER_NOT_FOUND, t', w'')"
proof -
  obtain w1 where "(t', w') = put_timer S j 0 opt b (t, w1)" using CreateTimer_result [OF assms(3)] by auto
  then have "timerMap t' = ordered_update j \<lparr> timerAdmin = b, timerName = optName opt, timerCallback = optCallback opt \<rparr>
      (AList.delete i (timerMap t))"
    using put_map [of S j 0 opt b t w1] by (simp add: assms(2)) (metis fst_conv)
  then show ?thesis using assms(4) by (simp add: IsTimerOwner_def StopTimer_def DestroyTimer_def)
qed

theorem same_name_drops_other_admins_timer_witness:
  "fst (timer_request ''com.b'' (create_parcel ''scan'' 8) two_admins) = ERR_OK
   \<and> IsTimerOwner 1 ''com.a'' (fst two_admins)
   \<and> \<not> IsTimerOwner 1 ''com.a'' (fst (snd (timer_request ''com.b'' (create_parcel ''scan'' 8) two_admins)))"
proof (intro conjI)
  let ?opt = "\<lparr> optRepeat = False, optInterval = 0, optName = ''scan'', optCallback = Some 8 \<rparr>"
  show ok: "fst (timer_request ''com.b'' (create_parcel ''scan'' 8) two_admins) = ERR_OK" by code_simp
  show a: "IsTimerOwner 1 ''com.a'' (fst two_admins)" by code_simp
  have n: "same_name ''scan'' 0 (fst two_admins) = Some 1" "snd (snd two_admins) = 2" by code_simp+
  obtain t q m where tw: "two_admins = (t, q, m)" by (metis prod.exhaust)
  obtain err j t' w' where r: "CreateTimer sample_time ?opt ''com.b'' 0 (t, [], m) = (err, j, t', w')" by (metis prod.exhaust)
  have req: "timer_request ''com.b'' (create_parcel ''scan'' 8) two_admins = (err, t', w')"
    using r by (simp add: tw timer_request_def create_parcel_def HandleTimerOperation_def HandleCreateTimerOperation_def sample_time_def)
  have j: "err = ERR_OK \<Longrightarrow> j = 3" using CreateTimer_result [OF r] n(2) by (simp add: tw sample_time_def)
  show "\<not> IsTimerOwner 1 ''com.a'' (fst (snd (timer_request ''com.b'' (create_parcel ''scan'' 8) two_admins)))"
    using same_name_drops_other_admins_timer [of 1 "''com.a''" t ?opt sample_time "''com.b''" 0 "([], m)" j t' w'] a n(1) ok r req j
    by (simp add: tw)
qed

end
