(* ===== verification/Event_Subscriptions.thy ===== *)
theory Event_Subscriptions
  imports Admin_Manager
begin

text \<open>
  \<open>services/edm/src/event_management/*.cpp\<close>: who is called for which system event. The subscription manager
  counts the subscriptions of each group of events and holds the adapter that listens for it; the
  relayer subscribes administrators, the plugin router subscribes policies, and the service itself
  subscribes its own handlers. A handle is released by its destructor, which is the call of
  \<open>Unsubscribe\<close> written out.
\<close>

subsection \<open>Events and callbacks\<close>

type_synonym event_id = u32

abbreviation (input) EV_BUNDLE_ADDED :: event_id where "EV_BUNDLE_ADDED \<equiv> 0"
abbreviation (input) EV_BUNDLE_REMOVED :: event_id where "EV_BUNDLE_REMOVED \<equiv> 1"
abbreviation (input) EV_APP_START :: event_id where "EV_APP_START \<equiv> 2"
abbreviation (input) EV_APP_STOP :: event_id where "EV_APP_STOP \<equiv> 3"
abbreviation (input) EV_SYSTEM_UPDATE :: event_id where "EV_SYSTEM_UPDATE \<equiv> 4"
abbreviation (input) EV_USER_ADDED :: event_id where "EV_USER_ADDED \<equiv> 5"
abbreviation (input) EV_USER_SWITCHED :: event_id where "EV_USER_SWITCHED \<equiv> 6"
abbreviation (input) EV_USER_REMOVED :: event_id where "EV_USER_REMOVED \<equiv> 7"
abbreviation (input) EV_STARTUP_GUIDE_COMPLETED :: event_id where "EV_STARTUP_GUIDE_COMPLETED \<equiv> 8"
abbreviation (input) EV_BOOT_COMPLETED :: event_id where "EV_BOOT_COMPLETED \<equiv> 9"
abbreviation (input) EV_BUNDLE_UPDATED :: event_id where "EV_BUNDLE_UPDATED \<equiv> 10"
abbreviation (input) EV_BMS_READY :: event_id where "EV_BMS_READY \<equiv> 101"
abbreviation (input) EV_KIOSK_MODE_ON :: event_id where "EV_KIOSK_MODE_ON \<equiv> 102"
abbreviation (input) EV_KIOSK_MODE_OFF :: event_id where "EV_KIOSK_MODE_OFF \<equiv> 103"
abbreviation (input) EV_SIM_STATE_CHANGED :: event_id where "EV_SIM_STATE_CHANGED \<equiv> 104"
abbreviation (input) EV_APP_MARKET_DOWNLOAD :: event_id where "EV_APP_MARKET_DOWNLOAD \<equiv> 105"
abbreviation (input) EV_APP_MARKET_INSTALL :: event_id where "EV_APP_MARKET_INSTALL \<equiv> 106"
abbreviation (input) EV_UNMOUNT_EXTERNAL_STORAGE_DEVICE :: event_id where "EV_UNMOUNT_EXTERNAL_STORAGE_DEVICE \<equiv> 107"

record storage_device =
  sdType :: int
  sdPath :: string
  sdVolumeId :: string
  sdMountStatus :: bool
  sdVendorId :: int
  sdProductId :: int
  sdSerial :: string

text \<open>What an event carries: the parameters the code reads from its \<open>Want\<close>, its code, the process, and the
  device.\<close>

record event_data =
  edEvent :: event_id
  edBundleName :: string
  edUserId :: "user_id option"
  edType :: "int option"
  edCode :: int
  edOta :: bool
  edFirstBoot :: bool
  edSubUserScene :: bool
  edVersion :: string
  edFirstReceivedTime :: int
  edPackageType :: string
  edProcessBundle :: string
  edStorageDevice :: storage_device

abbreviation (input) INVALID_USERID :: user_id where "INVALID_USERID \<equiv> -1"

text \<open>The callback strategies of \<open>connection/callback_strategies.h\<close>; the first argument is the command.\<close>

datatype callback_strategy =
    StartStrategy
  | AdminStrategy nat
  | DeviceAdminStrategy nat string
  | BundleStrategy nat string user_id
  | AppStrategy nat string
  | SystemUpdateStrategy string int string
  | AccountStrategy nat int
  | KioskModeStrategy nat string user_id
  | MarketAppsInstallStatusChangedStrategy string int
  | LogCollectedStrategy bool
  | KeyEventStrategy string
  | StartupGuideCompletedStrategy u32
  | DeviceBootCompletedStrategy
  | AdminPolicyChangedStrategy string string string int
  | UnmountExternalStorageDeviceStrategy storage_device

text \<open>The callbacks: a handler of the service, an administrator's ability, or the policies' plugins. (The
  second is the closure of \<open>OnAdminSubscribe\<close> with the strategy factory of its event.)\<close>

datatype sa_handler = OnUserSwitched | OnUserRemoved | OnPackageRemoved | OnMarketApps int | OnPackageChanged
  | OnBmsReady | OnKioskMode bool | OnSimStateChanged

datatype event_callback = SaCore sa_handler | RelayToAdmin string string user_id event_id | RouteToPlugins event_id

datatype subscriber_type = SA_CORE | MDM_RELAY | POLICY_BOUND

text \<open>The events of the common event service, by the names of its constants.\<close>

datatype common_event = COMMON_EVENT_PACKAGE_ADDED | COMMON_EVENT_PACKAGE_REMOVED | COMMON_EVENT_USER_ADDED
  | COMMON_EVENT_USER_SWITCHED | COMMON_EVENT_USER_REMOVED | COMMON_EVENT_BOOT_COMPLETED | COMMON_EVENT_PACKAGE_CHANGED
  | COMMON_EVENT_BUNDLE_SCAN_FINISHED | COMMON_EVENT_KIOSK_MODE_ON | COMMON_EVENT_KIOSK_MODE_OFF
  | COMMON_EVENT_SIM_STATE_CHANGED | CustomEvent string

datatype adapter = CommonEventAdapter common_event string event_id | AppLifecycleAdapter | NullEventAdapter

datatype adapter_type = COMMON_EVENT | APP_LIFECYCLE

definition GetAdapterType :: "adapter \<Rightarrow> adapter_type" where
  "GetAdapterType a = (case a of AppLifecycleAdapter \<Rightarrow> APP_LIFECYCLE | _ \<Rightarrow> COMMON_EVENT)"

text \<open>The calls of the common event service and the application manager.\<close>

record 'w event_sources =
  ces_Subscribe :: "common_event \<Rightarrow> string \<Rightarrow> event_id \<Rightarrow> 'w \<Rightarrow> err_code \<times> 'w"
  ces_Unsubscribe :: "common_event \<Rightarrow> string \<Rightarrow> event_id \<Rightarrow> 'w \<Rightarrow> err_code \<times> 'w"
  app_RegisterObserver :: "'w \<Rightarrow> err_code \<times> 'w"
  app_UnregisterObserver :: "'w \<Rightarrow> err_code \<times> 'w"

definition Adapter_SubscribeEvent :: "'w event_sources \<Rightarrow> adapter \<Rightarrow> 'w \<Rightarrow> bool \<times> 'w" where
  "Adapter_SubscribeEvent E a w = (case a of
       CommonEventAdapter e p g \<Rightarrow> (let (r, w) = ces_Subscribe E e p g w in (r = ERR_OK, w))
     | AppLifecycleAdapter \<Rightarrow> (let (r, w) = app_RegisterObserver E w in (r = 0, w))
     | NullEventAdapter \<Rightarrow> (True, w))"

definition Adapter_UnsubscribeEvent :: "'w event_sources \<Rightarrow> adapter \<Rightarrow> 'w \<Rightarrow> bool \<times> 'w" where
  "Adapter_UnsubscribeEvent E a w = (case a of
       CommonEventAdapter e p g \<Rightarrow> (let (r, w) = ces_Unsubscribe E e p g w in (r = ERR_OK, w))
     | AppLifecycleAdapter \<Rightarrow> (let (r, w) = app_UnregisterObserver E w in (r = 0, w))
     | NullEventAdapter \<Rightarrow> (True, w))"

subsection \<open>Adapters\<close>

definition ConvertToCommonEvent :: "event_id \<Rightarrow> common_event option" where
  "ConvertToCommonEvent e =
     (if e = EV_BUNDLE_ADDED then Some COMMON_EVENT_PACKAGE_ADDED
      else if e = EV_BUNDLE_REMOVED then Some COMMON_EVENT_PACKAGE_REMOVED
      else if e = EV_USER_ADDED then Some COMMON_EVENT_USER_ADDED
      else if e = EV_USER_SWITCHED then Some COMMON_EVENT_USER_SWITCHED
      else if e = EV_USER_REMOVED then Some COMMON_EVENT_USER_REMOVED
      else if e = EV_BOOT_COMPLETED then Some COMMON_EVENT_BOOT_COMPLETED
      else if e = EV_BUNDLE_UPDATED then Some COMMON_EVENT_PACKAGE_CHANGED
      else if e = EV_BMS_READY then Some COMMON_EVENT_BUNDLE_SCAN_FINISHED
      else if e = EV_KIOSK_MODE_ON then Some COMMON_EVENT_KIOSK_MODE_ON
      else if e = EV_KIOSK_MODE_OFF then Some COMMON_EVENT_KIOSK_MODE_OFF
      else if e = EV_SIM_STATE_CHANGED then Some COMMON_EVENT_SIM_STATE_CHANGED
      else None)"

definition CreateCommonEventAdapter :: "event_id \<Rightarrow> string \<Rightarrow> string \<Rightarrow> adapter option" where
  "CreateCommonEventAdapter groupId commonEvent publisherPermission =
     (if commonEvent = [] then
        (case ConvertToCommonEvent groupId of
           None \<Rightarrow> None
         | Some e \<Rightarrow> Some (CommonEventAdapter e publisherPermission groupId))
      else Some (CommonEventAdapter (CustomEvent commonEvent) publisherPermission groupId))"

definition CreateAdapter :: "event_id \<Rightarrow> string \<Rightarrow> string \<Rightarrow> adapter option" where
  "CreateAdapter groupId eventName eventPermission =
     (if groupId \<in> set [EV_BUNDLE_ADDED, EV_BUNDLE_REMOVED, EV_BUNDLE_UPDATED, EV_USER_ADDED, EV_USER_SWITCHED,
           EV_USER_REMOVED, EV_BOOT_COMPLETED, EV_BMS_READY, EV_KIOSK_MODE_ON, EV_KIOSK_MODE_OFF, EV_SIM_STATE_CHANGED]
      then CreateCommonEventAdapter groupId [] []
      else if groupId = EV_APP_START then Some AppLifecycleAdapter
      else if groupId = EV_SYSTEM_UPDATE
      then CreateCommonEventAdapter groupId ''usual.event.DUE_SA_FIRMWARE_UPDATE_FOR_POLICY'' ''ohos.permission.UPDATE_SYSTEM''
      else if groupId = EV_STARTUP_GUIDE_COMPLETED
      then CreateCommonEventAdapter groupId ''custom.event.OOBE.HWSTARTUPGUIDE.FINISHED'' ''ohos.permission.ACCESS_STARTUPGUIDE''
      else if groupId = EV_UNMOUNT_EXTERNAL_STORAGE_DEVICE then Some NullEventAdapter
      else if eventName \<noteq> [] then CreateCommonEventAdapter groupId eventName eventPermission
      else None)"

subsection \<open>The subscription manager\<close>

record subscription =
  subscriberId :: string
  subscriberType :: subscriber_type
  subEvent :: event_id
  subCallback :: event_callback

text \<open>\<open>timer\<close> is the \<open>DelayCancelTimer\<close>, when there is one, and whether it is running.\<close>

record event_group =
  groupAdapter :: "adapter option"
  refCount :: int
  isSubscribed :: bool
  groupTimer :: "bool option"
  groupEventName :: string
  groupPermission :: string

record event_mgr =
  nextHandleId :: u32
  subscriptions :: "(u32, subscription) amap"
  eventGroups :: "(event_id, event_group) amap"

definition event_mgr0 :: event_mgr where
  "event_mgr0 = \<lparr> nextHandleId = 1, subscriptions = [], eventGroups = [] \<rparr>"

definition GetEventGroupId :: "event_id \<Rightarrow> event_id" where
  "GetEventGroupId e = (if e = EV_APP_START \<or> e = EV_APP_STOP then EV_APP_START else e)"

definition EnsureGroupState :: "event_id \<Rightarrow> string \<Rightarrow> string \<Rightarrow> event_mgr \<Rightarrow> (event_group \<times> adapter) option \<times> event_mgr" where
  "EnsureGroupState groupId eventName eventPermission m =
     (case map_of (eventGroups m) groupId of
        None \<Rightarrow>
          (case CreateAdapter groupId eventName eventPermission of
             None \<Rightarrow> (None, m)
           | Some a \<Rightarrow>
               (let g = \<lparr> groupAdapter = Some a, refCount = 0, isSubscribed = False, groupTimer = None,
                          groupEventName = eventName, groupPermission = eventPermission \<rparr>
                in (Some (g, a), m\<lparr>eventGroups := AList.update groupId g (eventGroups m)\<rparr>)))
      | Some g \<Rightarrow>
          (case groupAdapter g of
             Some a \<Rightarrow> (Some (g, a), m)
           | None \<Rightarrow>
               (case CreateAdapter groupId (groupEventName g) (groupPermission g) of
                  None \<Rightarrow> (None, m)
                | Some a \<Rightarrow>
                    (let g = g\<lparr>groupAdapter := Some a, isSubscribed := False\<rparr>
                     in (Some (g, a), m\<lparr>eventGroups := AList.update groupId g (eventGroups m)\<rparr>)))))"

definition Subscribe :: "'w event_sources \<Rightarrow> string \<Rightarrow> subscriber_type \<Rightarrow> event_id \<Rightarrow> event_callback option \<Rightarrow> string \<Rightarrow> string
    \<Rightarrow> event_mgr \<times> 'w \<Rightarrow> u32 option \<times> event_mgr \<times> 'w" where
  "Subscribe E subscriber type eventId callback eventName eventPermission = (\<lambda>(m, w).
     (case callback of
        None \<Rightarrow> (None, m, w)
      | Some cb \<Rightarrow>
          (let groupId = GetEventGroupId eventId;
               (state, m) = EnsureGroupState groupId eventName eventPermission m
           in case state of
                None \<Rightarrow> (None, m, w)
              | Some (g, a) \<Rightarrow>
                  (let cancel = (groupTimer g = Some True);
                       (ok, w) = (if isSubscribed g then (True, w) else Adapter_SubscribeEvent E a w);
                       g = g\<lparr>isSubscribed := ok, refCount := refCount g + 1,
                             groupTimer := (if cancel then Some False else groupTimer g)\<rparr>;
                       handleId = nextHandleId m;
                       m = m\<lparr>nextHandleId := handleId + 1,
                             subscriptions := AList.update handleId \<lparr> subscriberId = subscriber, subscriberType = type,
                               subEvent = eventId, subCallback = cb \<rparr> (subscriptions m),
                             eventGroups := AList.update groupId g (eventGroups m)\<rparr>
                   in (Some handleId, m, w)))))"

definition Unsubscribe :: "u32 \<Rightarrow> event_mgr \<Rightarrow> event_mgr" where
  "Unsubscribe handleId m =
     (case map_of (subscriptions m) handleId of
        None \<Rightarrow> m
      | Some s \<Rightarrow>
          (let groupId = GetEventGroupId (subEvent s);
               m = m\<lparr>subscriptions := AList.delete handleId (subscriptions m)\<rparr>
           in case map_of (eventGroups m) groupId of
                None \<Rightarrow> m
              | Some g \<Rightarrow>
                  (let prevCount = refCount g;
                       g = g\<lparr>refCount := prevCount - 1\<rparr>;
                       g = (if prevCount = 1 then g\<lparr>groupTimer := Some True\<rparr> else g)
                   in m\<lparr>eventGroups := AList.update groupId g (eventGroups m)\<rparr>)))"

text \<open>The task of the timer that \<open>StartDelayedUnsubscribe\<close> starts. A group state is never replaced in the
  map, so the check for a replaced one always passes.\<close>

definition delayed_unsubscribe :: "'w event_sources \<Rightarrow> event_id \<Rightarrow> event_mgr \<times> 'w \<Rightarrow> event_mgr \<times> 'w" where
  "delayed_unsubscribe E groupId = (\<lambda>(m, w).
     (case map_of (eventGroups m) groupId of
        None \<Rightarrow> (m, w)
      | Some g \<Rightarrow>
          (let g = g\<lparr>groupTimer := map_option (\<lambda>_. False) (groupTimer g)\<rparr>;
               (g, w) = (if refCount g = 0 \<and> isSubscribed g then
                           (case groupAdapter g of
                              None \<Rightarrow> (g\<lparr>isSubscribed := False\<rparr>, w)
                            | Some a \<Rightarrow>
                                (let (ok, w) = Adapter_UnsubscribeEvent E a w
                                 in (if ok then g\<lparr>isSubscribed := False, groupAdapter := None\<rparr> else g\<lparr>isSubscribed := False\<rparr>, w)))
                         else (g, w))
           in (m\<lparr>eventGroups := AList.update groupId g (eventGroups m)\<rparr>, w))))"

definition DispatchEvent :: "event_id \<Rightarrow> event_mgr \<Rightarrow> event_callback list" where
  "DispatchEvent eventId m = map (subCallback \<circ> snd) (filter (\<lambda>(_, s). subEvent s = eventId) (subscriptions m))"

definition ResetAdapterSubscribedState :: "event_id \<Rightarrow> event_mgr \<Rightarrow> event_mgr" where
  "ResetAdapterSubscribedState groupId m =
     (case map_of (eventGroups m) groupId of
        None \<Rightarrow> m
      | Some g \<Rightarrow> m\<lparr>eventGroups := AList.update groupId (g\<lparr>isSubscribed := False\<rparr>) (eventGroups m)\<rparr>)"

definition ResetCommonEventAdapterStates :: "event_mgr \<Rightarrow> event_mgr" where
  "ResetCommonEventAdapterStates m =
     m\<lparr>eventGroups := map (\<lambda>(i, g). (i, case groupAdapter g of
          None \<Rightarrow> g
        | Some a \<Rightarrow> if GetAdapterType a = COMMON_EVENT then g\<lparr>isSubscribed := False\<rparr> else g)) (eventGroups m)\<rparr>"

fun retry_groups :: "'w event_sources \<Rightarrow> adapter_type \<Rightarrow> (event_id, event_group) amap \<Rightarrow> 'w \<Rightarrow> (event_id, event_group) amap \<times> 'w" where
  "retry_groups E type [] w = ([], w)"
| "retry_groups E type ((i, g) # gs) w =
     (let (g, w) = (case groupAdapter g of
            None \<Rightarrow> (g, w)
          | Some a \<Rightarrow> if isSubscribed g \<or> GetAdapterType a \<noteq> type then (g, w)
                      else (let (ok, w) = Adapter_SubscribeEvent E a w in (if ok then g\<lparr>isSubscribed := True\<rparr> else g, w)));
          (gs, w) = retry_groups E type gs w
      in ((i, g) # gs, w))"

definition RetryFailedAdapters :: "'w event_sources \<Rightarrow> adapter_type \<Rightarrow> event_mgr \<times> 'w \<Rightarrow> event_mgr \<times> 'w" where
  "RetryFailedAdapters E type = (\<lambda>(m, w).
     (let (gs, w) = retry_groups E type (eventGroups m) w in (m\<lparr>eventGroups := gs\<rparr>, w)))"

end
