(* ===== verification/Event_Routing.thy ===== *)
theory Event_Routing
  imports Event_Subscriptions Policy_Manager
begin

text \<open>
  \<open>mdm_event_relayer.cpp\<close>, \<open>plugin_event_router.cpp\<close> and the subscriptions of the service itself
  (\<open>OnCommonEventServiceStart\<close> of \<open>enterprise_device_mgr_ability.cpp\<close>) over the subscription manager.
\<close>

subsection \<open>State\<close>

record plugin_entry =
  pePolicyCode :: u32
  peNeedAdminIteration :: bool
  peUseEventUserId :: bool

record router_group =
  routerHandle :: "u32 option"
  registeredKeys :: "string list"

record event_state =
  eventMgr :: event_mgr
  adminSubscriptionHandles :: "(string, (event_id, u32) amap) amap"
  routerEntries :: "(string, plugin_entry) amap"
  routerGroups :: "(event_id, router_group) amap"
  saCoreHandles :: "u32 option list"

definition event_state0 :: event_state where
  "event_state0 = \<lparr> eventMgr = event_mgr0, adminSubscriptionHandles = [], routerEntries = [], routerGroups = [],
     saCoreHandles = [] \<rparr>"

text \<open>\<open>SubscriptionHandle::Release\<close>.\<close>

definition Release :: "u32 \<Rightarrow> event_state \<Rightarrow> event_state" where
  "Release h st = (if h \<noteq> 0 then st\<lparr>eventMgr := Unsubscribe h (eventMgr st)\<rparr> else st)"

subsection \<open>Administrators\<close>

definition MakeAdminKey :: "string \<Rightarrow> user_id \<Rightarrow> string" where
  "MakeAdminKey adminName userId = adminName @ ''_'' @ int_to_string userId"

text \<open>The keys of \<open>strategyFactories_\<close>, and what its factories make of an event.\<close>

definition strategy_events :: "event_id list" where
  "strategy_events = [EV_APP_START, EV_APP_STOP, EV_BUNDLE_ADDED, EV_BUNDLE_REMOVED, EV_BUNDLE_UPDATED, EV_USER_ADDED,
     EV_USER_SWITCHED, EV_USER_REMOVED, EV_BOOT_COMPLETED, EV_STARTUP_GUIDE_COMPLETED, EV_SYSTEM_UPDATE,
     EV_UNMOUNT_EXTERNAL_STORAGE_DEVICE]"

definition event_user :: "event_data \<Rightarrow> user_id" where
  "event_user d = (case edUserId d of None \<Rightarrow> INVALID_USERID | Some u \<Rightarrow> u)"

definition AppLifecycleStrategies :: "event_id \<Rightarrow> event_data \<Rightarrow> callback_strategy option" where
  "AppLifecycleStrategies e d =
     (if e = EV_APP_START then Some (AppStrategy 5 (edProcessBundle d))
      else if e = EV_APP_STOP then Some (AppStrategy 6 (edProcessBundle d)) else None)"

definition BundleStrategies :: "event_id \<Rightarrow> event_data \<Rightarrow> callback_strategy option" where
  "BundleStrategies e d =
     (if e = EV_BUNDLE_ADDED then Some (BundleStrategy 3 (edBundleName d) (event_user d))
      else if e = EV_BUNDLE_REMOVED then Some (BundleStrategy 4 (edBundleName d) (event_user d))
      else if e = EV_BUNDLE_UPDATED then
        (if (case edType d of None \<Rightarrow> -1 | Some t \<Rightarrow> t) \<noteq> 2 then None
         else Some (BundleStrategy 20 (edBundleName d) (event_user d)))
      else None)"

definition AccountStrategies :: "event_id \<Rightarrow> event_data \<Rightarrow> callback_strategy option" where
  "AccountStrategies e d =
     (if e = EV_USER_ADDED then Some (AccountStrategy 8 (edCode d))
      else if e = EV_USER_SWITCHED then Some (AccountStrategy 9 (edCode d))
      else if e = EV_USER_REMOVED then Some (AccountStrategy 10 (edCode d)) else None)"

definition startup_type :: "event_data \<Rightarrow> u32" where
  "startup_type d =
     (let type = (if edSubUserScene d then 0 OR push_bit 0 1 else 0);
          type = (if edOta d then type OR push_bit 1 1 else type)
      in if edFirstBoot d then type OR push_bit 2 1 else type)"

definition DeviceStrategies :: "event_id \<Rightarrow> event_data \<Rightarrow> callback_strategy option" where
  "DeviceStrategies e d =
     (if e = EV_BOOT_COMPLETED then Some DeviceBootCompletedStrategy
      else if e = EV_STARTUP_GUIDE_COMPLETED then
        (if startup_type d = 0 then None else Some (StartupGuideCompletedStrategy (startup_type d)))
      else if e = EV_SYSTEM_UPDATE
      then Some (SystemUpdateStrategy (edVersion d) (edFirstReceivedTime d) (edPackageType d)) else None)"

definition make_strategy :: "event_id \<Rightarrow> event_data \<Rightarrow> callback_strategy option" where
  "make_strategy e d =
     (if e \<in> set [EV_APP_START, EV_APP_STOP] then AppLifecycleStrategies e d
      else if e \<in> set [EV_BUNDLE_ADDED, EV_BUNDLE_REMOVED, EV_BUNDLE_UPDATED] then BundleStrategies e d
      else if e \<in> set [EV_USER_ADDED, EV_USER_SWITCHED, EV_USER_REMOVED] then AccountStrategies e d
      else if e \<in> set [EV_BOOT_COMPLETED, EV_STARTUP_GUIDE_COMPLETED, EV_SYSTEM_UPDATE] then DeviceStrategies e d
      else if e = EV_UNMOUNT_EXTERNAL_STORAGE_DEVICE then Some (UnmountExternalStorageDeviceStrategy (edStorageDevice d))
      else None)"

definition OnAdminSubscribe :: "'w event_sources \<Rightarrow> container \<Rightarrow> string \<Rightarrow> user_id \<Rightarrow> event_id
    \<Rightarrow> event_state \<times> 'w \<Rightarrow> event_state \<times> 'w" where
  "OnAdminSubscribe E c adminName userId event = (\<lambda>(st, w).
     (let className = (case GetAdminByPkgName adminName userId c of None \<Rightarrow> [] | Some a \<Rightarrow> className (adminInfo a));
          key = MakeAdminKey adminName userId;
          handles = (case map_of (adminSubscriptionHandles st) key of None \<Rightarrow> [] | Some hs \<Rightarrow> hs)
      in if map_of handles event \<noteq> None then (st, w)
         else if event \<notin> set strategy_events then (st, w)
         else
           (let (handle, m, w) = Subscribe E key MDM_RELAY event (Some (RelayToAdmin adminName className userId event)) [] []
                  (eventMgr st, w);
                st = st\<lparr>eventMgr := m\<rparr>
            in case handle of
                 None \<Rightarrow> (st, w)
               | Some h \<Rightarrow> (st\<lparr>adminSubscriptionHandles :=
                   AList.update key (AList.update event h handles) (adminSubscriptionHandles st)\<rparr>, w))))"

definition OnAdminUnsubscribe :: "string \<Rightarrow> user_id \<Rightarrow> event_id \<Rightarrow> event_state \<Rightarrow> event_state" where
  "OnAdminUnsubscribe adminName userId event st =
     (let key = MakeAdminKey adminName userId in
      case map_of (adminSubscriptionHandles st) key of
        None \<Rightarrow> st
      | Some handles \<Rightarrow>
          (case map_of handles event of
             None \<Rightarrow> st
           | Some h \<Rightarrow>
               (let handles = AList.delete event handles
                in Release h (st\<lparr>adminSubscriptionHandles :=
                     (if handles = [] then AList.delete key (adminSubscriptionHandles st)
                      else AList.update key handles (adminSubscriptionHandles st))\<rparr>))))"

definition OnAdminRemoved :: "string \<Rightarrow> user_id \<Rightarrow> event_state \<Rightarrow> event_state" where
  "OnAdminRemoved adminName userId st =
     (let key = MakeAdminKey adminName userId in
      case map_of (adminSubscriptionHandles st) key of
        None \<Rightarrow> st
      | Some handles \<Rightarrow>
          fold (\<lambda>(_, h). Release h) handles
            (st\<lparr>adminSubscriptionHandles := AList.delete key (adminSubscriptionHandles st)\<rparr>))"

definition RestoreAdminEvents :: "'w event_sources \<Rightarrow> container \<Rightarrow> string \<Rightarrow> user_id \<Rightarrow> bool
    \<Rightarrow> event_state \<times> 'w \<Rightarrow> event_state \<times> 'w" where
  "RestoreAdminEvents E c adminName userId appLifecycleOnly s =
     (case GetAdminByPkgName adminName userId c of
        None \<Rightarrow> s
      | Some a \<Rightarrow>
          fold (\<lambda>event s. if (event = EV_APP_START \<or> event = EV_APP_STOP) \<noteq> appLifecycleOnly then s
                           else OnAdminSubscribe E c adminName userId event s) (managedEvents (adminInfo a)) s)"

definition RestoreSubscriptions :: "'w event_sources \<Rightarrow> container \<Rightarrow> bool \<Rightarrow> event_state \<times> 'w \<Rightarrow> event_state \<times> 'w" where
  "RestoreSubscriptions E c appLifecycleOnly s =
     fold (\<lambda>(userId, admins) s.
       fold (\<lambda>admin s. RestoreAdminEvents E c (packageName (adminInfo admin)) userId appLifecycleOnly s) admins s)
       (GetAllAdmins [] c) s"

subsection \<open>Policies\<close>

definition MakeKey :: "string \<Rightarrow> event_id \<Rightarrow> string" where
  "MakeKey name eventId = name @ '':'' @ nat_to_string (unat eventId)"

definition Router_SubscribeEvent :: "'w event_sources \<Rightarrow> string \<Rightarrow> event_id \<Rightarrow> u32 \<Rightarrow> bool \<Rightarrow> bool
    \<Rightarrow> event_state \<times> 'w \<Rightarrow> bool \<times> event_state \<times> 'w" where
  "Router_SubscribeEvent E name eventId policyCode needAdminIteration useEventUserId = (\<lambda>(st, w).
     (let key = MakeKey name eventId in
      if map_of (routerEntries st) key \<noteq> None then (True, st, w)
      else
        (let entry = \<lparr> pePolicyCode = policyCode, peNeedAdminIteration = needAdminIteration,
                       peUseEventUserId = useEventUserId \<rparr>;
             g = (case map_of (routerGroups st) eventId of
                    None \<Rightarrow> \<lparr> routerHandle = None, registeredKeys = [] \<rparr> | Some g \<Rightarrow> g);
             g' = g\<lparr>registeredKeys := registeredKeys g @ [key]\<rparr>;
             st' = st\<lparr>routerEntries := AList.update key entry (routerEntries st),
                      routerGroups := AList.update eventId g' (routerGroups st)\<rparr>
         in case routerHandle g of
              Some _ \<Rightarrow> (True, st', w)
            | None \<Rightarrow>
                (let (handle, m, w) = Subscribe E ''PLUGIN_ROUTER'' POLICY_BOUND eventId (Some (RouteToPlugins eventId)) [] []
                       (eventMgr st', w);
                     st' = st'\<lparr>eventMgr := m\<rparr>
                 in case handle of
                      Some h \<Rightarrow> (True, st'\<lparr>routerGroups := AList.update eventId (g'\<lparr>routerHandle := Some h\<rparr>) (routerGroups st')\<rparr>, w)
                    | None \<Rightarrow>
                        (False, st'\<lparr>routerEntries := AList.delete key (routerEntries st'),
                           routerGroups := (if registeredKeys g = [] then AList.delete eventId (routerGroups st')
                             else AList.update eventId g (routerGroups st'))\<rparr>, w)))))"

definition Router_UnsubscribeEvent :: "string \<Rightarrow> event_id \<Rightarrow> event_state \<Rightarrow> bool \<times> event_state" where
  "Router_UnsubscribeEvent name eventId st =
     (let key = MakeKey name eventId in
      if map_of (routerEntries st) key = None then (True, st)
      else
        (let st = st\<lparr>routerEntries := AList.delete key (routerEntries st)\<rparr> in
         case map_of (routerGroups st) eventId of
           None \<Rightarrow> (True, st)
         | Some g \<Rightarrow>
             (let keys = removeAll key (registeredKeys g) in
              if keys = [] then
                (let st = st\<lparr>routerGroups := AList.delete eventId (routerGroups st)\<rparr>
                 in (True, case routerHandle g of None \<Rightarrow> st | Some h \<Rightarrow> Release h st))
              else (True, st\<lparr>routerGroups := AList.update eventId (g\<lparr>registeredKeys := keys\<rparr>) (routerGroups st)\<rparr>))))"

definition CollectDispatchEntries :: "event_id \<Rightarrow> event_state \<Rightarrow> plugin_entry list" where
  "CollectDispatchEntries eventId st =
     (case map_of (routerGroups st) eventId of
        None \<Rightarrow> []
      | Some g \<Rightarrow> List.map_filter (\<lambda>key. map_of (routerEntries st) key) (registeredKeys g))"

subsection \<open>The service\<close>

definition sa_events :: "(event_id \<times> sa_handler) list" where
  "sa_events = [(EV_USER_SWITCHED, OnUserSwitched), (EV_USER_REMOVED, OnUserRemoved), (EV_BUNDLE_REMOVED, OnPackageRemoved),
     (EV_BUNDLE_ADDED, OnMarketApps 2), (EV_BUNDLE_UPDATED, OnPackageChanged), (EV_BMS_READY, OnBmsReady),
     (EV_KIOSK_MODE_ON, OnKioskMode True), (EV_KIOSK_MODE_OFF, OnKioskMode False), (EV_SIM_STATE_CHANGED, OnSimStateChanged)]"

definition sa_subscribe :: "'w event_sources \<Rightarrow> event_id \<Rightarrow> sa_handler \<Rightarrow> string \<Rightarrow> string \<Rightarrow> event_state \<times> 'w \<Rightarrow> event_state \<times> 'w" where
  "sa_subscribe E e h name perm = (\<lambda>(st, w).
     (let (handle, m, w) = Subscribe E ''EDM_SA'' SA_CORE e (Some (SaCore h)) name perm (eventMgr st, w)
      in (st\<lparr>eventMgr := m, saCoreHandles := saCoreHandles st @ [handle]\<rparr>, w)))"

text \<open>The first part of \<open>OnCommonEventServiceStart\<close>; \<open>agEvents\<close> is the answer of
  \<open>ExtInfoManager::GetAgCommonEventName\<close>. The restoring calls at its end follow in \<open>OnCommonEventServiceStart\<close>.\<close>

definition sa_restart :: "'w event_sources \<Rightarrow> string list \<Rightarrow> event_state \<times> 'w \<Rightarrow> event_state \<times> 'w" where
  "sa_restart E agEvents = (\<lambda>(st, w).
     (let st = fold (\<lambda>h. case h of None \<Rightarrow> (\<lambda>st. st) | Some h \<Rightarrow> Release h) (saCoreHandles st) (st\<lparr>saCoreHandles := []\<rparr>);
          st = st\<lparr>eventMgr := ResetCommonEventAdapterStates (eventMgr st)\<rparr>;
          s = fold (\<lambda>(e, h). sa_subscribe E e h [] []) sa_events (st, w)
      in if length agEvents = 3
         then sa_subscribe E EV_APP_MARKET_INSTALL (OnMarketApps 1) (agEvents ! 1) (agEvents ! 2)
                (sa_subscribe E EV_APP_MARKET_DOWNLOAD (OnMarketApps 1) (agEvents ! 0) (agEvents ! 2) s)
         else s))"

end
