(* ===== verification/Event_Delivery.thy ===== *)
theory Event_Delivery
  imports Event_Routing
begin

text \<open>
  What the routing of events keeps: the reference counts of the groups are the numbers of their
  subscriptions, and the handles kept by the relayer, the plugin router and the service are exactly the
  live subscriptions. So an event reaches the administrators and policies that subscribed it,
  each once, and nobody else.
\<close>

subsection \<open>Keys\<close>

lemma append_sep_inj:
  assumes "c \<notin> set y1" "c \<notin> set y2"
  shows "x1 @ c # y1 = x2 @ c # y2 \<longleftrightarrow> x1 = x2 \<and> y1 = y2"
  using assms by (auto simp: append_eq_append_conv2 append_eq_Cons_conv Cons_eq_append_conv)

lemma no_digit: "char_digit c = None \<Longrightarrow> c \<notin> set (nat_to_string n)"
  using digits_nat_to_string [of n] by (auto simp: digits_def list_all_iff)

lemma int_to_string_chars: "c \<in> set (int_to_string i) \<Longrightarrow> char_digit c \<noteq> None \<or> c = CHR ''-''"
  using no_digit by (auto simp: int_to_string_def split: if_splits)

lemma separators: "char_digit CHR ''_'' = None" "char_digit CHR '':'' = None"
  by code_simp+

lemma MakeAdminKey_inj [simp]: "MakeAdminKey a u = MakeAdminKey b v \<longleftrightarrow> a = b \<and> u = v"
proof -
  have "CHR ''_'' \<notin> set (int_to_string i)" for i using int_to_string_chars [of "CHR ''_''" i] separators(1) by auto
  then show ?thesis by (simp add: MakeAdminKey_def append_sep_inj)
qed

lemma MakeKey_inj [simp]: "MakeKey n e = MakeKey n' e' \<longleftrightarrow> n = n' \<and> e = e'"
  using no_digit [OF separators(2)] by (auto simp: MakeKey_def append_sep_inj word_unat_eq_iff)

subsection \<open>The subscription manager\<close>

definition in_group :: "event_id \<Rightarrow> u32 \<times> subscription \<Rightarrow> bool" where
  "in_group g hs = (GetEventGroupId (subEvent (snd hs)) = g)"

definition subscribers :: "event_id \<Rightarrow> event_mgr \<Rightarrow> nat" where
  "subscribers g m = length (filter (in_group g) (subscriptions m))"

text \<open>A group counts its subscriptions, and has an adapter as long as there are any.\<close>

definition group_ok :: "event_mgr \<Rightarrow> event_id \<Rightarrow> bool" where
  "group_ok m g = (case map_of (eventGroups m) g of
       None \<Rightarrow> subscribers g m = 0
     | Some s \<Rightarrow> refCount s = int (subscribers g m) \<and> (subscribers g m > 0 \<longrightarrow> groupAdapter s \<noteq> None))"

definition events_ok :: "event_mgr \<Rightarrow> bool" where
  "events_ok m = (al_keys_distinct (subscriptions m) \<and> al_keys_distinct (eventGroups m)
     \<and> 0 < nextHandleId m \<and> (\<forall>(h, s) \<in> set (subscriptions m). 0 < h \<and> h < nextHandleId m) \<and> (\<forall>g. group_ok m g))"

lemma events_okD:
  assumes "events_ok m"
  shows "al_keys_distinct (subscriptions m)" "al_keys_distinct (eventGroups m)" "0 < nextHandleId m" "group_ok m g"
    "map_of (subscriptions m) h = Some s \<Longrightarrow> 0 < h \<and> h < nextHandleId m"
  using assms by (auto simp: events_ok_def dest: map_of_SomeD)

lemma subscribers_groups [simp]: "subscribers g (m\<lparr>eventGroups := x\<rparr>) = subscribers g m"
  by (simp add: subscribers_def)

text \<open>Room for a step's new handles: the counter of handle ids does not wrap around.\<close>

definition room :: "event_mgr \<Rightarrow> bool" where
  "room m = (unat (nextHandleId m) + 16 < 2 ^ 32)"

lemma update_fresh: "map_of m k = None \<Longrightarrow> AList.update k v m = m @ [(k, v)]"
  by (induction m) (auto split: if_splits)

lemma delete_length:
  "al_keys_distinct m \<Longrightarrow> map_of m k = Some v \<Longrightarrow>
   length (filter P m) = length (filter P (AList.delete k m)) + (if P (k, v) then 1 else 0)"
proof (induction m)
  case (Cons kv m)
  obtain k' v' where kv: "kv = (k', v')" by (rule prod.exhaust)
  show ?case
  proof (cases "k' = k")
    case True
    then have "AList.delete k m = m" using Cons.prems(1) by (simp add: kv al_keys_distinct_def delete_idem)
    then show ?thesis using Cons.prems(2) True by (simp add: kv)
  next
    case False
    then show ?thesis using Cons by (simp add: kv al_keys_distinct_def)
  qed
qed simp

lemma subscribers_update:
  "map_of (subscriptions m) h = None \<Longrightarrow> subscribers g (m\<lparr>subscriptions := AList.update h s (subscriptions m)\<rparr>)
     = subscribers g m + (if GetEventGroupId (subEvent s) = g then 1 else 0)"
  by (simp add: subscribers_def update_fresh in_group_def)

lemma subscribers_delete:
  "events_ok m \<Longrightarrow> map_of (subscriptions m) h = Some s \<Longrightarrow>
   subscribers g m = subscribers g (m\<lparr>subscriptions := AList.delete h (subscriptions m)\<rparr>)
     + (if GetEventGroupId (subEvent s) = g then 1 else 0)"
  using delete_length [OF events_okD(1), of m h s "in_group g"] by (simp add: subscribers_def in_group_def)

lemma subscribers_cong: "subscriptions m' = subscriptions m \<Longrightarrow> subscribers g m' = subscribers g m"
  by (simp add: subscribers_def)

lemma events_ok_group_update:
  assumes "events_ok m" "refCount s = int (subscribers g m)" "subscribers g m > 0 \<longrightarrow> groupAdapter s \<noteq> None"
  shows "events_ok (m\<lparr>eventGroups := AList.update g s (eventGroups m)\<rparr>)"
proof -
  have "group_ok (m\<lparr>eventGroups := AList.update g s (eventGroups m)\<rparr>) g'" for g'
    using events_okD(4) [OF assms(1), of g'] assms(2,3) by (auto simp: group_ok_def split: option.splits)
  then show ?thesis using assms(1) by (auto simp: events_ok_def)
qed

lemma group_counts:
  "events_ok m \<Longrightarrow> map_of (eventGroups m) g = Some s \<Longrightarrow>
   refCount s = int (subscribers g m) \<and> (subscribers g m > 0 \<longrightarrow> groupAdapter s \<noteq> None)"
  using events_okD(4) [of m g] by (simp add: group_ok_def)

lemma no_group: "events_ok m \<Longrightarrow> map_of (eventGroups m) g = None \<Longrightarrow> subscribers g m = 0"
  using events_okD(4) [of m g] by (simp add: group_ok_def)

lemma Ensure_result:
  assumes "events_ok m" "EnsureGroupState g n p m = (r, m')"
  shows "events_ok m' \<and> subscriptions m' = subscriptions m \<and> nextHandleId m' = nextHandleId m
    \<and> (case r of None \<Rightarrow> True | Some (s, a) \<Rightarrow> map_of (eventGroups m') g = Some s \<and> groupAdapter s = Some a)"
proof (cases "map_of (eventGroups m) g")
  case None
  then show ?thesis
    using assms no_group [OF assms(1) None] events_ok_group_update [OF assms(1), of _ g]
    by (auto simp: EnsureGroupState_def Let_def split: option.splits)
next
  case (Some s)
  then show ?thesis
    using assms group_counts [OF assms(1) Some] events_ok_group_update [OF assms(1), of _ g]
    by (auto simp: EnsureGroupState_def Let_def split: option.splits)
qed

lemma Subscribe_result:
  assumes "events_ok m" "room m" "Subscribe E sid ty e cb n p (m, w) = (r, m', w')"
  shows "events_ok m' \<and> (case r of
      None \<Rightarrow> subscriptions m' = subscriptions m \<and> nextHandleId m' = nextHandleId m
    | Some h \<Rightarrow> h = nextHandleId m \<and> nextHandleId m' = h + 1 \<and> map_of (subscriptions m) h = None
        \<and> (\<exists>c. cb = Some c \<and> subscriptions m'
             = AList.update h \<lparr> subscriberId = sid, subscriberType = ty, subEvent = e, subCallback = c \<rparr> (subscriptions m)))"
proof (cases cb)
  case None
  then show ?thesis using assms by (auto simp: Subscribe_def)
next
  case (Some c)
  let ?g = "GetEventGroupId e"
  obtain st m1 where 1: "EnsureGroupState ?g n p m = (st, m1)" by (rule prod.exhaust)
  note e = Ensure_result [OF assms(1) 1]
  show ?thesis
  proof (cases st)
    case None
    then show ?thesis using assms(3) e by (auto simp: Subscribe_def Some 1)
  next
    case st: (Some ga)
    obtain g a where ga: "ga = (g, a)" by (rule prod.exhaust)
    define h where "h = nextHandleId m1"
    define s where "s = \<lparr> subscriberId = sid, subscriberType = ty, subEvent = e, subCallback = c \<rparr>"
    obtain ok w1 where ok: "(if isSubscribed g then (True, w) else Adapter_SubscribeEvent E a w) = (ok, w1)" by (rule prod.exhaust)
    define g' where "g' = g\<lparr>isSubscribed := ok, refCount := refCount g + 1,
        groupTimer := (if groupTimer g = Some True then Some False else groupTimer g)\<rparr>"
    define m2 where "m2 = m1\<lparr>nextHandleId := h + 1, subscriptions := AList.update h s (subscriptions m1)\<rparr>"
    have res: "r = Some h" "m' = m2\<lparr>eventGroups := AList.update ?g g' (eventGroups m2)\<rparr>"
      using assms(3) by (simp_all add: Subscribe_def Some 1 st ga ok Let_def g'_def m2_def h_def s_def)
    have h: "h = nextHandleId m" "subscriptions m1 = subscriptions m" "events_ok m1" using e by (simp_all add: h_def)
    have fresh: "map_of (subscriptions m1) h = None"
      using events_okD(5) [OF h(3), of h] by (cases "map_of (subscriptions m1) h") (auto simp: h_def)
    have n: "h < h + 1" using assms(2) by (simp add: room_def h(1) word_less_nat_alt unat_word_ariths)
    have counts: "refCount g = int (subscribers ?g m1)" "groupAdapter g = Some a" "map_of (eventGroups m1) ?g = Some g"
      using group_counts [OF h(3), of ?g g] e by (simp_all add: st ga)
    have subs: "subscribers x m2 = subscribers x m1 + (if ?g = x then 1 else 0)" for x
      using subscribers_update [OF fresh, of x s] by (simp add: m2_def s_def subscribers_def)
    have groups: "eventGroups m2 = eventGroups m1" by (simp add: m2_def)
    have "group_ok (m2\<lparr>eventGroups := AList.update ?g g' (eventGroups m2)\<rparr>) x" for x
      using events_okD(4) [OF h(3), of x] counts
      by (cases "x = ?g") (auto simp: group_ok_def subs g'_def groups split: option.splits)
    moreover have "\<forall>(k, v) \<in> set (subscriptions m2). 0 < k \<and> k < nextHandleId m2"
      using events_okD(3) [OF h(3)] events_okD(5) [OF h(3)] events_okD(1) [OF h(3)] n fresh
      by (auto simp: m2_def update_fresh h_def [symmetric] al_in_set_conv intro: less_trans [OF _ n])
    ultimately have "events_ok m'"
      using events_okD(1,2,3) [OF h(3)] n less_trans [of 0 h "h + 1"] by (auto simp: res(2) events_ok_def m2_def h_def)
    then show ?thesis using res h fresh by (auto simp: Some m2_def s_def h_def)
  qed
qed

lemma Unsubscribe_result:
  assumes "events_ok m"
  shows "events_ok (Unsubscribe h m) \<and> map_of (subscriptions (Unsubscribe h m)) = (map_of (subscriptions m))(h := None)
    \<and> nextHandleId (Unsubscribe h m) = nextHandleId m"
proof (cases "map_of (subscriptions m) h")
  case None
  then have "map_of (subscriptions m) = (map_of (subscriptions m))(h := None)" by (auto simp: fun_eq_iff)
  then show ?thesis using assms None by (simp add: Unsubscribe_def)
next
  case (Some s)
  let ?g = "GetEventGroupId (subEvent s)"
  define m1 where "m1 = m\<lparr>subscriptions := AList.delete h (subscriptions m)\<rparr>"
  have subs: "subscribers x m = subscribers x m1 + (if ?g = x then 1 else 0)" for x
    using subscribers_delete [OF assms Some, of x] by (simp add: m1_def)
  then have "subscribers ?g m > 0" by simp
  then obtain g where g: "map_of (eventGroups m) ?g = Some g" using no_group [OF assms, of ?g] by fastforce
  have c: "refCount g = int (subscribers ?g m)" "groupAdapter g \<noteq> None"
    using group_counts [OF assms g] subs [of ?g] by auto
  define g' where "g' = (if refCount g = 1 then g\<lparr>refCount := refCount g - 1, groupTimer := Some True\<rparr> else g\<lparr>refCount := refCount g - 1\<rparr>)"
  have u: "Unsubscribe h m = m1\<lparr>eventGroups := AList.update ?g g' (eventGroups m1)\<rparr>"
    by (simp add: Unsubscribe_def Some g m1_def g'_def Let_def)
  have groups: "eventGroups m1 = eventGroups m" "nextHandleId m1 = nextHandleId m" by (simp_all add: m1_def)
  have "group_ok (m1\<lparr>eventGroups := AList.update ?g g' (eventGroups m1)\<rparr>) x" for x
    using events_okD(4) [OF assms, of x] c subs [of x]
    by (cases "x = ?g") (auto simp: group_ok_def g'_def groups split: option.splits)
  moreover have "\<forall>(k, v) \<in> set (subscriptions m1). 0 < k \<and> k < nextHandleId m1"
    using assms by (auto simp: m1_def events_ok_def AList.delete_eq)
  ultimately show ?thesis using events_okD(1,2,3) [OF assms] by (auto simp: u events_ok_def m1_def)
qed

lemma delayed_result:
  assumes "events_ok m" "delayed_unsubscribe E g (m, w) = (m', w')"
  shows "events_ok m' \<and> subscriptions m' = subscriptions m \<and> nextHandleId m' = nextHandleId m
    \<and> (subscribers g m > 0 \<longrightarrow> w' = w \<and> map_option isSubscribed (map_of (eventGroups m') g)
         = map_option isSubscribed (map_of (eventGroups m) g))"
proof (cases "map_of (eventGroups m) g")
  case None
  then show ?thesis using assms by (simp add: delayed_unsubscribe_def)
next
  case (Some s)
  note c = group_counts [OF assms(1) Some]
  obtain s' where s': "m' = m\<lparr>eventGroups := AList.update g s' (eventGroups m)\<rparr>" "refCount s' = refCount s"
    "refCount s \<noteq> 0 \<longrightarrow> w' = w \<and> isSubscribed s' = isSubscribed s \<and> groupAdapter s' = groupAdapter s"
    using assms(2) by (auto simp: delayed_unsubscribe_def Some Let_def split: if_splits option.splits prod.splits)
  have "events_ok m'" unfolding s'(1) by (rule events_ok_group_update [OF assms(1)]) (use c s' in auto)
  then show ?thesis using c s' Some by auto
qed

text \<open>Changing only which groups are subscribed.\<close>

definition same_counts :: "event_group \<Rightarrow> event_group \<Rightarrow> bool" where
  "same_counts g g' = (refCount g' = refCount g \<and> groupAdapter g' = groupAdapter g)"

lemma events_ok_groups:
  assumes "events_ok m" "map fst gs = map fst (eventGroups m)" "list_all2 (\<lambda>a b. same_counts (snd a) (snd b)) (eventGroups m) gs"
  shows "events_ok (m\<lparr>eventGroups := gs\<rparr>)"
proof -
  have "(case (map_of xs x, map_of ys x) of (None, None) \<Rightarrow> True | (Some a, Some b) \<Rightarrow> same_counts a b | _ \<Rightarrow> False)"
    if "list_all2 (\<lambda>a b. same_counts (snd a) (snd b)) xs ys" "map fst ys = map fst xs" for x and xs ys :: "(event_id, event_group) amap"
    using that by (induction rule: list_all2_induct) auto
  note look = this [OF assms(3,2)]
  have "group_ok (m\<lparr>eventGroups := gs\<rparr>) x" for x
    using look [of x] events_okD(4) [OF assms(1), of x] by (auto simp: group_ok_def same_counts_def split: option.splits)
  moreover have "al_keys_distinct gs" using events_okD(2) [OF assms(1)] assms(2) by (simp add: al_keys_distinct_def)
  ultimately show ?thesis using assms(1) by (auto simp: events_ok_def)
qed

lemma Reset_ok: "events_ok m \<Longrightarrow> events_ok (ResetAdapterSubscribedState g m)"
  by (auto simp: ResetAdapterSubscribedState_def dest: group_counts intro!: events_ok_group_update split: option.split)

lemma ResetCommon_ok: "events_ok m \<Longrightarrow> events_ok (ResetCommonEventAdapterStates m)"
  unfolding ResetCommonEventAdapterStates_def
  by (rule events_ok_groups) (auto simp: list_all2_conv_all_nth same_counts_def split: option.split prod.split)

lemma retry_groups_counts:
  "retry_groups E ty gs w = (gs', w') \<Longrightarrow> map fst gs' = map fst gs \<and> list_all2 (\<lambda>a b. same_counts (snd a) (snd b)) gs gs'"
proof (induction gs arbitrary: w gs' w')
  case (Cons ig gs)
  obtain i g where ig: "ig = (i, g)" by (rule prod.exhaust)
  obtain g1 w1 where 1: "(case groupAdapter g of None \<Rightarrow> (g, w)
      | Some a \<Rightarrow> if isSubscribed g \<or> GetAdapterType a \<noteq> ty then (g, w)
          else (let (ok, w) = Adapter_SubscribeEvent E a w in (if ok then g\<lparr>isSubscribed := True\<rparr> else g, w))) = (g1, w1)"
    by (rule prod.exhaust)
  obtain gs2 w2 where 2: "retry_groups E ty gs w1 = (gs2, w2)" by (rule prod.exhaust)
  have "same_counts g g1" using 1 by (auto simp: same_counts_def split: option.splits if_splits prod.splits)
  moreover have "gs' = (i, g1) # gs2" using Cons.prems unfolding ig retry_groups.simps 1 by (simp add: 2)
  ultimately show ?case using Cons.IH [OF 2] by (simp add: ig)
qed simp

lemma Retry_ok: "events_ok m \<Longrightarrow> RetryFailedAdapters E ty (m, w) = (m', w') \<Longrightarrow> events_ok m' \<and> subscriptions m' = subscriptions m
    \<and> nextHandleId m' = nextHandleId m"
  by (auto simp: RetryFailedAdapters_def dest!: retry_groups_counts intro: events_ok_groups split: prod.splits)

lemma Reset_subscriptions [simp]:
  "subscriptions (ResetAdapterSubscribedState g m) = subscriptions m" "nextHandleId (ResetAdapterSubscribedState g m) = nextHandleId m"
  "subscriptions (ResetCommonEventAdapterStates m) = subscriptions m" "nextHandleId (ResetCommonEventAdapterStates m) = nextHandleId m"
  by (simp_all add: ResetAdapterSubscribedState_def ResetCommonEventAdapterStates_def split: option.split)

subsection \<open>Handles\<close>

text \<open>Who holds a subscription: an administrator for an event, the policies of an event, or the service.\<close>

datatype owner = ByAdmin string event_id | ByPolicies event_id | ByService

definition owner_of :: "subscription \<Rightarrow> owner" where
  "owner_of s = (case subscriberType s of
       MDM_RELAY \<Rightarrow> ByAdmin (subscriberId s) (subEvent s)
     | POLICY_BOUND \<Rightarrow> ByPolicies (subEvent s)
     | SA_CORE \<Rightarrow> ByService)"

definition sub_ok :: "subscription \<Rightarrow> bool" where
  "sub_ok s = (case subCallback s of
       RelayToAdmin a _ u e \<Rightarrow> subscriberType s = MDM_RELAY \<and> subscriberId s = MakeAdminKey a u \<and> subEvent s = e
     | RouteToPlugins e \<Rightarrow> subscriberType s = POLICY_BOUND \<and> subEvent s = e
     | SaCore _ \<Rightarrow> subscriberType s = SA_CORE)"

definition relay_handle :: "event_state \<Rightarrow> string \<Rightarrow> event_id \<Rightarrow> u32 option" where
  "relay_handle st key e = (case map_of (adminSubscriptionHandles st) key of None \<Rightarrow> None | Some hs \<Rightarrow> map_of hs e)"

definition router_handle :: "event_state \<Rightarrow> event_id \<Rightarrow> u32 option" where
  "router_handle st e = (case map_of (routerGroups st) e of None \<Rightarrow> None | Some g \<Rightarrow> routerHandle g)"

fun holds :: "event_state \<Rightarrow> owner \<Rightarrow> u32 \<Rightarrow> bool" where
  "holds st (ByAdmin k e) h = (relay_handle st k e = Some h)"
| "holds st (ByPolicies e) h = (router_handle st e = Some h)"
| "holds st ByService h = (Some h \<in> set (saCoreHandles st))"

definition owned :: "event_mgr \<Rightarrow> owner \<Rightarrow> u32 \<Rightarrow> bool" where
  "owned m own h = (case map_of (subscriptions m) h of None \<Rightarrow> False | Some s \<Rightarrow> owner_of s = own)"

lemma owned_unique: "owned m x h \<Longrightarrow> owned m y h \<Longrightarrow> x = y"
  by (auto simp: owned_def split: option.splits)

text \<open>The router: every group has a handle, names, and an entry for each of them.\<close>

definition group_keys_ok :: "(string, plugin_entry) amap \<Rightarrow> event_id \<Rightarrow> router_group \<Rightarrow> bool" where
  "group_keys_ok entries e g = (routerHandle g \<noteq> None \<and> registeredKeys g \<noteq> [] \<and> distinct (registeredKeys g)
     \<and> (\<forall>k \<in> set (registeredKeys g). \<exists>n. k = MakeKey n e) \<and> (\<forall>n. MakeKey n e \<in> set (registeredKeys g) \<longleftrightarrow> map_of entries (MakeKey n e) \<noteq> None))"

definition router_ok :: "event_state \<Rightarrow> bool" where
  "router_ok st = (\<forall>e. case map_of (routerGroups st) e of
       None \<Rightarrow> \<forall>n. map_of (routerEntries st) (MakeKey n e) = None
     | Some g \<Rightarrow> group_keys_ok (routerEntries st) e g)"

definition handles_ok :: "event_state \<Rightarrow> bool" where
  "handles_ok st = (\<forall>own h. holds st own h \<longleftrightarrow> owned (eventMgr st) own h)"

definition subs_ok :: "event_mgr \<Rightarrow> bool" where
  "subs_ok m = (\<forall>h s. map_of (subscriptions m) h = Some s \<longrightarrow> sub_ok s)"

definition admins_ok :: "event_state \<Rightarrow> bool" where
  "admins_ok st = (\<forall>k hs. map_of (adminSubscriptionHandles st) k = Some hs \<longrightarrow> al_keys_distinct hs)"

definition routing_ok :: "event_state \<Rightarrow> bool" where
  "routing_ok st = (events_ok (eventMgr st) \<and> subs_ok (eventMgr st) \<and> handles_ok st
     \<and> admins_ok st \<and> router_ok st)"

lemma routing_okD:
  assumes "routing_ok st"
  shows "events_ok (eventMgr st)" "subs_ok (eventMgr st)" "handles_ok st" "admins_ok st" "router_ok st"
  using assms by (simp_all add: routing_ok_def)

lemma handles_okD: "handles_ok st \<Longrightarrow> holds st own h \<longleftrightarrow> owned (eventMgr st) own h"
  by (simp add: handles_ok_def)

lemma routing_ok0: "routing_ok event_state0"
  by (auto simp: routing_ok_def event_state0_def event_mgr0_def events_ok_def subs_ok_def handles_ok_def router_ok_def owned_def
      group_ok_def subscribers_def relay_handle_def router_handle_def admins_ok_def al_keys_distinct_def elim!: holds.elims)

text \<open>Releasing handles.\<close>

lemma Release_result:
  assumes "events_ok (eventMgr st)"
  shows "events_ok (eventMgr (Release h st)) \<and> map_of (subscriptions (eventMgr (Release h st))) = (map_of (subscriptions (eventMgr st)))(h := None)
    \<and> nextHandleId (eventMgr (Release h st)) = nextHandleId (eventMgr st)"
proof (cases "h = 0")
  case True
  then have "map_of (subscriptions (eventMgr st)) h = None"
    using events_okD(5) [OF assms, of h] by (cases "map_of (subscriptions (eventMgr st)) h") auto
  then show ?thesis using assms True by (auto simp: Release_def fun_eq_iff)
next
  case False
  then show ?thesis using Unsubscribe_result [OF assms] by (simp add: Release_def)
qed

lemma Release_same [simp]:
  "adminSubscriptionHandles (Release h st) = adminSubscriptionHandles st" "routerEntries (Release h st) = routerEntries st"
  "routerGroups (Release h st) = routerGroups st" "saCoreHandles (Release h st) = saCoreHandles st"
  by (simp_all add: Release_def)

lemma Release_all:
  assumes "events_ok (eventMgr st)"
  shows "events_ok (eventMgr (fold Release hs st)) \<and> map_of (subscriptions (eventMgr (fold Release hs st))) = map_of (subscriptions (eventMgr st)) |` (- set hs)
    \<and> nextHandleId (eventMgr (fold Release hs st)) = nextHandleId (eventMgr st)
    \<and> adminSubscriptionHandles (fold Release hs st) = adminSubscriptionHandles st \<and> routerEntries (fold Release hs st) = routerEntries st
    \<and> routerGroups (fold Release hs st) = routerGroups st \<and> saCoreHandles (fold Release hs st) = saCoreHandles st"
  using assms
proof (induction hs arbitrary: st)
  case (Cons h hs)
  note r = Release_result [OF Cons.prems, of h]
  have "events_ok (eventMgr (Release h st))" using r by blast
  note i = Cons.IH [OF this]
  show ?case using i r by (auto simp: fun_eq_iff restrict_map_def)
qed (simp add: restrict_map_def)

lemma fold_snd: "fold (\<lambda>(_, h). Release h) hs st = fold Release (map snd hs) st"
  by (induction hs arbitrary: st) auto

lemma fold_handles: "fold (\<lambda>h. case h of None \<Rightarrow> (\<lambda>st. st) | Some h \<Rightarrow> Release h) hs st = fold Release (List.map_filter (\<lambda>h. h) hs) st"
  by (induction hs arbitrary: st) (auto simp: List.map_filter_simps split: option.splits)

text \<open>When every holder of the released handles lets go of them, the handles stay exact.\<close>

lemma released_ok:
  assumes ok: "routing_ok st" and m: "events_ok (eventMgr st')" "map_of (subscriptions (eventMgr st')) = map_of (subscriptions (eventMgr st)) |` (- H)"
    and held: "\<And>own h. holds st' own h \<longleftrightarrow> holds st own h \<and> h \<notin> H"
    and rest: "admins_ok st'" "router_ok st'"
  shows "routing_ok st'"
  unfolding routing_ok_def
proof (intro conjI rest m(1))
  show "subs_ok (eventMgr st')" using routing_okD(2) [OF ok] by (auto simp: subs_ok_def m(2) restrict_map_def split: if_splits)
  show "handles_ok st'"
    using routing_okD(3) [OF ok] held by (auto simp: handles_ok_def owned_def m(2) restrict_map_def)
qed

text \<open>When the owner of a new handle keeps it, too.\<close>

lemma kept_ok:
  assumes ok: "routing_ok st" and m: "events_ok (eventMgr st')" "map_of (subscriptions (eventMgr st')) = (map_of (subscriptions (eventMgr st)))(h \<mapsto> s)"
    and s: "sub_ok s" "map_of (subscriptions (eventMgr st)) h = None"
    and held: "\<And>own h'. holds st' own h' \<longleftrightarrow> holds st own h' \<or> (own = owner_of s \<and> h' = h)"
    and rest: "admins_ok st'" "router_ok st'"
  shows "routing_ok st'"
  unfolding routing_ok_def
proof (intro conjI rest m(1))
  show "subs_ok (eventMgr st')" using routing_okD(2) [OF ok] s(1) by (auto simp: subs_ok_def m(2) split: if_splits)
  show "handles_ok st'" using handles_okD [OF routing_okD(3) [OF ok]] held s(2) by (auto simp: handles_ok_def owned_def m(2))
qed

lemma same_ok:
  assumes ok: "routing_ok st" and m: "events_ok (eventMgr st')" "subscriptions (eventMgr st') = subscriptions (eventMgr st)"
    and held: "\<And>own h. holds st' own h \<longleftrightarrow> holds st own h"
    and rest: "admins_ok st'" "router_ok st'"
  shows "routing_ok st'"
  by (rule released_ok [OF ok m(1), of "{}"]) (use held rest m(2) in \<open>auto simp: restrict_map_def\<close>)

subsection \<open>What the routing promises\<close>

definition admin_subscribed :: "event_state \<Rightarrow> string \<Rightarrow> user_id \<Rightarrow> event_id \<Rightarrow> bool" where
  "admin_subscribed st a u e = (relay_handle st (MakeAdminKey a u) e \<noteq> None)"

definition policy_subscribed :: "event_state \<Rightarrow> string \<Rightarrow> event_id \<Rightarrow> plugin_entry option" where
  "policy_subscribed st n e = map_of (routerEntries st) (MakeKey n e)"

lemma strategy_adapter: "e \<in> set strategy_events \<Longrightarrow> CreateAdapter (GetEventGroupId e) n p \<noteq> None"
  by (auto simp: strategy_events_def CreateAdapter_def GetEventGroupId_def CreateCommonEventAdapter_def ConvertToCommonEvent_def)

lemma Ensure_strategy:
  assumes "e \<in> set strategy_events"
  shows "fst (EnsureGroupState (GetEventGroupId e) n p m) \<noteq> None"
proof -
  have ne: "CreateAdapter (GetEventGroupId e) n p = None \<longleftrightarrow> False" for n p using strategy_adapter [OF assms] by simp
  show ?thesis by (auto simp: EnsureGroupState_def Let_def ne split: option.split)
qed

lemma Subscribe_strategy:
  assumes "e \<in> set strategy_events" "Subscribe E sid ty e (Some c) n p (m, w) = (r, m', w')"
  shows "r \<noteq> None"
  using assms(2) Ensure_strategy [OF assms(1), of n p m]
  by (cases "EnsureGroupState (GetEventGroupId e) n p m") (auto simp: Subscribe_def Let_def split: option.splits prod.splits)

lemma router_ok_cong: "routerGroups st' = routerGroups st \<Longrightarrow> routerEntries st' = routerEntries st \<Longrightarrow> router_ok st' = router_ok st"
  by (simp add: router_ok_def split: option.split)

lemma OnAdminSubscribe_result:
  assumes ok: "routing_ok st" and r: "room (eventMgr st)" and run: "OnAdminSubscribe E c a u e (st, w) = (st', w')"
  shows "routing_ok st'"
    "admin_subscribed st' b v e' \<longleftrightarrow> admin_subscribed st b v e' \<or> (b = a \<and> v = u \<and> e' = e \<and> e \<in> set strategy_events)"
    "routerEntries st' = routerEntries st"
proof -
  define k where "k = MakeAdminKey a u"
  define hs where "hs = (case map_of (adminSubscriptionHandles st) k of None \<Rightarrow> [] | Some hs \<Rightarrow> hs)"
  have hs: "relay_handle st k e = map_of hs e" for e by (simp add: relay_handle_def hs_def split: option.split)
  have "routing_ok st' \<and> (admin_subscribed st' b v e' \<longleftrightarrow> admin_subscribed st b v e' \<or> (b = a \<and> v = u \<and> e' = e \<and> e \<in> set strategy_events))
    \<and> routerEntries st' = routerEntries st"
  proof (cases "map_of hs e = None \<and> e \<in> set strategy_events")
    case False
    then have "map_of hs e \<noteq> None \<or> e \<notin> set strategy_events" by (simp add: de_Morgan_conj)
    then have "OnAdminSubscribe E c a u e (st, w) = (st, w)"
      by (elim disjE) (simp_all add: OnAdminSubscribe_def Let_def k_def [symmetric] hs_def [symmetric])
    then have "st' = st" using run by simp
    then show ?thesis using ok False hs [of e] by (auto simp: admin_subscribed_def k_def)
  next
    case True
    define cb where "cb = RelayToAdmin a (case GetAdminByPkgName a u c of None \<Rightarrow> [] | Some a \<Rightarrow> className (adminInfo a)) u e"
    obtain ho m w1 where sub: "Subscribe E k MDM_RELAY e (Some cb) [] [] (eventMgr st, w) = (ho, m, w1)" by (rule prod_cases3)
    obtain h where h: "ho = Some h" using Subscribe_strategy [OF _ sub] True by blast
    define s where "s = \<lparr> subscriberId = k, subscriberType = MDM_RELAY, subEvent = e, subCallback = cb \<rparr>"
    note sr = Subscribe_result [OF routing_okD(1) [OF ok] r sub]
    have st': "st' = st\<lparr>eventMgr := m, adminSubscriptionHandles := AList.update k (AList.update e h hs) (adminSubscriptionHandles st)\<rparr>"
      using run True sub h by (simp add: OnAdminSubscribe_def Let_def k_def [symmetric] hs_def [symmetric] cb_def [symmetric])
    have rel: "relay_handle st' k' e' = (if k' = k \<and> e' = e then Some h else relay_handle st k' e')" for k' e'
      by (auto simp: relay_handle_def st' hs_def split: option.split)
    have none: "relay_handle st k e = None" using True hs by simp
    have "routing_ok st'"
    proof (rule kept_ok [OF ok, of st' h s])
      show "events_ok (eventMgr st')" "map_of (subscriptions (eventMgr st)) h = None"
        "map_of (subscriptions (eventMgr st')) = (map_of (subscriptions (eventMgr st)))(h \<mapsto> s)"
        using sr by (auto simp: st' h s_def)
      show "sub_ok s" by (simp add: sub_ok_def s_def cb_def k_def)
      show "holds st' own h' \<longleftrightarrow> holds st own h' \<or> (own = owner_of s \<and> h' = h)" for own h'
        using none rel by (cases own) (auto simp: owner_of_def s_def st' router_handle_def)
      have "al_keys_distinct hs" using routing_okD(4) [OF ok] by (simp add: admins_ok_def hs_def split: option.split)
      then show "admins_ok st'" using routing_okD(4) [OF ok] by (auto simp: admins_ok_def st')
      show "router_ok st'" using routing_okD(5) [OF ok] router_ok_cong [of st' st] by (simp add: st')
    qed
    moreover have "routerEntries st' = routerEntries st" by (simp add: st')
    ultimately show ?thesis using True by (auto simp: admin_subscribed_def rel k_def)
  qed
  then show "routing_ok st'" "admin_subscribed st' b v e' \<longleftrightarrow> admin_subscribed st b v e' \<or> (b = a \<and> v = u \<and> e' = e \<and> e \<in> set strategy_events)"
    "routerEntries st' = routerEntries st" by auto
qed

lemma OnAdminUnsubscribe_result:
  assumes ok: "routing_ok st"
  shows "routing_ok (OnAdminUnsubscribe a u e st)"
    "admin_subscribed (OnAdminUnsubscribe a u e st) b v e' \<longleftrightarrow> admin_subscribed st b v e' \<and> \<not> (b = a \<and> v = u \<and> e' = e)"
    "routerEntries (OnAdminUnsubscribe a u e st) = routerEntries st"
proof -
  define k where "k = MakeAdminKey a u"
  let ?st = "OnAdminUnsubscribe a u e st"
  have "routing_ok ?st \<and> (admin_subscribed ?st b v e' \<longleftrightarrow> admin_subscribed st b v e' \<and> \<not> (b = a \<and> v = u \<and> e' = e))
    \<and> routerEntries ?st = routerEntries st"
  proof (cases "relay_handle st k e")
    case None
    then have "?st = st" by (auto simp: OnAdminUnsubscribe_def relay_handle_def k_def Let_def split: option.splits)
    then show ?thesis using ok None by (auto simp: admin_subscribed_def k_def)
  next
    case (Some h)
    obtain hs where hs: "map_of (adminSubscriptionHandles st) k = Some hs" "map_of hs e = Some h"
      using Some by (auto simp: relay_handle_def split: option.splits)
    define st1 where "st1 = st\<lparr>adminSubscriptionHandles := (if AList.delete e hs = [] then AList.delete k (adminSubscriptionHandles st)
        else AList.update k (AList.delete e hs) (adminSubscriptionHandles st))\<rparr>"
    have st': "?st = Release h st1" using hs by (simp add: OnAdminUnsubscribe_def k_def [symmetric] st1_def Let_def)
    have dele: "map_of hs e' = None" if "AList.delete e hs = []" "e' \<noteq> e" for e'
      using arg_cong [OF that(1), of map_of] that(2) by (auto simp: AList.delete_conv' fun_eq_iff split: if_splits)
    have rel: "relay_handle ?st k' e' = (if k' = k \<and> e' = e then None else relay_handle st k' e')" for k' e'
      using dele [of e'] by (auto simp: relay_handle_def st' st1_def hs AList.delete_conv')
    have own: "owned (eventMgr st) (ByAdmin k e) h" using handles_okD [OF routing_okD(3) [OF ok], of "ByAdmin k e" h] Some by simp
    note rr = Release_result [of st1 h]
    have m1: "eventMgr st1 = eventMgr st" by (simp add: st1_def)
    have "routing_ok ?st"
    proof (rule released_ok [OF ok, of ?st "{h}"])
      show "events_ok (eventMgr ?st)" "map_of (subscriptions (eventMgr ?st)) = map_of (subscriptions (eventMgr st)) |` (- {h})"
        using rr routing_okD(1) [OF ok] by (auto simp: st' m1 restrict_map_def fun_eq_iff)
      show "holds ?st o' h' \<longleftrightarrow> holds st o' h' \<and> h' \<notin> {h}" for o' h'
      proof -
        have u: "holds st o' h \<Longrightarrow> o' = ByAdmin k e" for o'
          using handles_okD [OF routing_okD(3) [OF ok], of o' h] own owned_unique by blast
        have same: "router_handle ?st = router_handle st" "saCoreHandles ?st = saCoreHandles st"
          by (simp_all add: router_handle_def st' st1_def fun_eq_iff)
        show ?thesis
        proof (cases o')
          case (ByAdmin x y)
          show ?thesis
          proof (cases "x = k \<and> y = e")
            case True
            then show ?thesis using Some by (simp add: ByAdmin rel)
          next
            case False
            then have "relay_handle st x y \<noteq> Some h" using u [of "ByAdmin x y"] by (metis holds.simps(1) owner.inject(1))
            then show ?thesis using False unfolding ByAdmin holds.simps rel by (metis singletonD singletonI)
          qed
        next
          case (ByPolicies x)
          show ?thesis using u [of "ByPolicies x"] by (simp add: ByPolicies same) blast
        next
          case ByService
          show ?thesis using u [of ByService] by (simp add: ByService same) blast
        qed
      qed
      have "al_keys_distinct hs" using routing_okD(4) [OF ok] hs(1) by (simp add: admins_ok_def)
      then show "admins_ok ?st" using routing_okD(4) [OF ok] by (auto simp: admins_ok_def st' st1_def split: if_splits)
      show "router_ok ?st" using routing_okD(5) [OF ok] router_ok_cong [of ?st st] by (simp add: st' st1_def)
    qed
    moreover have "routerEntries ?st = routerEntries st" by (simp add: st' st1_def)
    ultimately show ?thesis by (auto simp: admin_subscribed_def rel k_def)
  qed
  then show "routing_ok ?st" "admin_subscribed ?st b v e' \<longleftrightarrow> admin_subscribed st b v e' \<and> \<not> (b = a \<and> v = u \<and> e' = e)"
    "routerEntries ?st = routerEntries st" by auto
qed

lemma OnAdminRemoved_result:
  assumes ok: "routing_ok st"
  shows "routing_ok (OnAdminRemoved a u st)"
    "admin_subscribed (OnAdminRemoved a u st) b v e \<longleftrightarrow> admin_subscribed st b v e \<and> \<not> (b = a \<and> v = u)"
    "routerEntries (OnAdminRemoved a u st) = routerEntries st"
proof -
  define k where "k = MakeAdminKey a u"
  let ?st = "OnAdminRemoved a u st"
  have "routing_ok ?st \<and> (admin_subscribed ?st b v e \<longleftrightarrow> admin_subscribed st b v e \<and> \<not> (b = a \<and> v = u))
    \<and> routerEntries ?st = routerEntries st"
  proof (cases "map_of (adminSubscriptionHandles st) k")
    case None
    then have "?st = st" by (simp add: OnAdminRemoved_def k_def Let_def)
    then show ?thesis using ok None by (auto simp: admin_subscribed_def relay_handle_def k_def split: option.splits)
  next
    case (Some hs)
    define st1 where "st1 = st\<lparr>adminSubscriptionHandles := AList.delete k (adminSubscriptionHandles st)\<rparr>"
    have st': "?st = fold Release (map snd hs) st1"
      using Some by (simp add: OnAdminRemoved_def k_def [symmetric] st1_def Let_def fold_snd)
    have m1: "eventMgr st1 = eventMgr st" by (simp add: st1_def)
    note ra = Release_all [of st1 "map snd hs", unfolded m1, OF routing_okD(1) [OF ok], folded st']
    have rel: "relay_handle ?st k' e' = (if k' = k then None else relay_handle st k' e')" for k' e'
      using ra by (simp add: relay_handle_def st1_def)
    have same: "router_handle ?st = router_handle st" "saCoreHandles ?st = saCoreHandles st" "routerEntries ?st = routerEntries st"
      "routerGroups ?st = routerGroups st"
      using ra by (simp_all add: router_handle_def st1_def fun_eq_iff)
    have dist: "al_keys_distinct hs" using routing_okD(4) [OF ok] Some by (simp add: admins_ok_def)
    have wit: "h \<in> set (map snd hs) \<longleftrightarrow> (\<exists>e'. relay_handle st k e' = Some h)" for h
      using al_in_set_conv [OF dist] by (force simp: relay_handle_def Some)
    have "routing_ok ?st"
    proof (rule released_ok [OF ok, of ?st "set (map snd hs)"])
      show "events_ok (eventMgr ?st)" "map_of (subscriptions (eventMgr ?st)) = map_of (subscriptions (eventMgr st)) |` (- set (map snd hs))"
        using ra by auto
      show "holds ?st o' h' \<longleftrightarrow> holds st o' h' \<and> h' \<notin> set (map snd hs)" for o' h'
      proof -
        have u: "holds st o' h' \<Longrightarrow> relay_handle st k e' = Some h' \<Longrightarrow> o' = ByAdmin k e'" for e'
          using handles_okD [OF routing_okD(3) [OF ok]] owned_unique holds.simps(1) [of st k e' h'] by blast
        show ?thesis
        proof (cases o')
          case (ByAdmin x y)
          show ?thesis
          proof (cases "x = k")
            case True
            then show ?thesis unfolding wit ByAdmin holds.simps rel by auto
          next
            case False
            then have "holds st o' h' \<Longrightarrow> relay_handle st k e' \<noteq> Some h'" for e' using u [of e'] ByAdmin by blast
            then show ?thesis using False unfolding wit ByAdmin holds.simps rel by auto
          qed
        next
          case (ByPolicies x)
          show ?thesis using u unfolding wit ByPolicies holds.simps same by blast
        next
          case ByService
          show ?thesis using u unfolding wit ByService holds.simps same by blast
        qed
      qed
      show "admins_ok ?st" using routing_okD(4) [OF ok] ra by (auto simp: admins_ok_def st1_def split: if_splits)
      show "router_ok ?st" using routing_okD(5) [OF ok] router_ok_cong [of ?st st] by (simp add: same)
    qed
    then show ?thesis using same by (auto simp: admin_subscribed_def rel k_def)
  qed
  then show "routing_ok ?st" "admin_subscribed ?st b v e \<longleftrightarrow> admin_subscribed st b v e \<and> \<not> (b = a \<and> v = u)"
    "routerEntries ?st = routerEntries st" by auto
qed

lemma router_okD:
  assumes "router_ok st"
  shows "map_of (routerGroups st) e = None \<Longrightarrow> map_of (routerEntries st) (MakeKey n e) = None"
    "map_of (routerGroups st) e = Some g \<Longrightarrow> group_keys_ok (routerEntries st) e g"
  using spec [OF assms [unfolded router_ok_def], of e] by simp_all

lemma router_okI:
  assumes "\<And>e n. map_of (routerGroups st) e = None \<Longrightarrow> map_of (routerEntries st) (MakeKey n e) = None"
    "\<And>e g. map_of (routerGroups st) e = Some g \<Longrightarrow> group_keys_ok (routerEntries st) e g"
  shows "router_ok st"
  using assms by (simp add: router_ok_def split: option.split)

lemma group_keys_other:
  "(\<And>n. map_of es' (MakeKey n e) = map_of es (MakeKey n e)) \<Longrightarrow> group_keys_ok es' e g = group_keys_ok es e g"
  by (simp add: group_keys_ok_def)

definition add_entry :: "string \<Rightarrow> event_id \<Rightarrow> plugin_entry \<Rightarrow> router_group \<Rightarrow> event_state \<Rightarrow> event_state" where
  "add_entry n e x g st = st\<lparr>routerEntries := AList.update (MakeKey n e) x (routerEntries st),
     routerGroups := AList.update e (g\<lparr>registeredKeys := registeredKeys g @ [MakeKey n e]\<rparr>) (routerGroups st)\<rparr>"

lemma add_entry_router_ok:
  assumes ok: "router_ok st" and new: "map_of (routerEntries st) (MakeKey n e) = None"
    and g: "map_of (routerGroups st) e = Some g \<or> map_of (routerGroups st) e = None \<and> registeredKeys g = [] \<and> routerHandle g \<noteq> None"
  shows "router_ok (add_entry n e x g st)"
proof (rule router_okI)
  show "map_of (routerEntries (add_entry n e x g st)) (MakeKey n' e') = None" if "map_of (routerGroups (add_entry n e x g st)) e' = None" for n' e'
    using that router_okD(1) [OF ok, of e' n'] by (auto simp: add_entry_def split: if_splits)
  show "group_keys_ok (routerEntries (add_entry n e x g st)) e' g'" if g': "map_of (routerGroups (add_entry n e x g st)) e' = Some g'" for e' g'
  proof (cases "e' = e")
    case False
    then have "map_of (routerGroups st) e' = Some g'" using g' by (simp add: add_entry_def)
    from router_okD(2) [OF ok this] show ?thesis
      by (subst group_keys_other [where es = "routerEntries st"]) (use False in \<open>simp_all add: add_entry_def\<close>)
  next
    case True
    have g'_eq: "g' = g\<lparr>registeredKeys := registeredKeys g @ [MakeKey n e]\<rparr>" using g' True by (simp add: add_entry_def)
    from g show ?thesis
    proof
      assume "map_of (routerGroups st) e = Some g"
      from router_okD(2) [OF ok this] new show ?thesis
        by (auto simp: group_keys_ok_def g'_eq True add_entry_def)
    next
      assume a: "map_of (routerGroups st) e = None \<and> registeredKeys g = [] \<and> routerHandle g \<noteq> None"
      then have "map_of (routerEntries st) (MakeKey n' e) = None" for n' using router_okD(1) [OF ok] by blast
      then show ?thesis using a by (auto simp: group_keys_ok_def g'_eq True add_entry_def)
    qed
  qed
qed

lemma add_entry_same [simp]:
  "eventMgr (add_entry n e x g st) = eventMgr st" "adminSubscriptionHandles (add_entry n e x g st) = adminSubscriptionHandles st"
  "saCoreHandles (add_entry n e x g st) = saCoreHandles st"
  "routerEntries (add_entry n e x g st) = AList.update (MakeKey n e) x (routerEntries st)"
  "router_handle (add_entry n e x g st) e' = (if e' = e then routerHandle g else router_handle st e')"
  "relay_handle (add_entry n e x g st) = relay_handle st"
  by (simp_all add: add_entry_def router_handle_def relay_handle_def fun_eq_iff)

lemma delete_fresh: "map_of m k = None \<Longrightarrow> AList.delete k (AList.update k v m) = m"
  by (induction m) (auto split: if_splits)

lemma update_twice: "AList.update k v (AList.update k v' m) = AList.update k v m"
  by (induction m) auto

lemma Router_Subscribe_run:
  assumes ok: "routing_ok st" and r: "room (eventMgr st)"
    and run: "Router_SubscribeEvent E n e c ni ue (st, w) = (res, st', w')"
  obtains (old) "policy_subscribed st n e \<noteq> None" "res" "st' = st"
  | (known) g x where "policy_subscribed st n e = None" "map_of (routerGroups st) e = Some g" "res"
      "x = \<lparr> pePolicyCode = c, peNeedAdminIteration = ni, peUseEventUserId = ue \<rparr>" "st' = add_entry n e x g st"
  | (first) m h x s where "policy_subscribed st n e = None" "map_of (routerGroups st) e = None" "res"
      "events_ok m" "map_of (subscriptions m) = (map_of (subscriptions (eventMgr st)))(h \<mapsto> s)" "map_of (subscriptions (eventMgr st)) h = None"
      "sub_ok s" "owner_of s = ByPolicies e"
      "x = \<lparr> pePolicyCode = c, peNeedAdminIteration = ni, peUseEventUserId = ue \<rparr>"
      "st' = add_entry n e x \<lparr> routerHandle = Some h, registeredKeys = [] \<rparr> (st\<lparr>eventMgr := m\<rparr>)"
  | (failed) m where "policy_subscribed st n e = None" "\<not> res" "map_of (routerGroups st) e = None"
      "events_ok m" "subscriptions m = subscriptions (eventMgr st)"
      "st' = st\<lparr>eventMgr := m\<rparr>"
proof -
  let ?k = "MakeKey n e"
  define x where "x = \<lparr> pePolicyCode = c, peNeedAdminIteration = ni, peUseEventUserId = ue \<rparr>"
  consider (a) "map_of (routerEntries st) ?k \<noteq> None"
    | (b) g where "map_of (routerEntries st) ?k = None" "map_of (routerGroups st) e = Some g"
    | (c) "map_of (routerEntries st) ?k = None" "map_of (routerGroups st) e = None"
    by blast
  then show ?thesis
  proof cases
    case a
    then show ?thesis using run by (intro old) (auto simp: Router_SubscribeEvent_def policy_subscribed_def)
  next
    case (b g)
    then obtain h where h: "routerHandle g = Some h"
      using router_okD(2) [OF routing_okD(5) [OF ok] b(2)] by (auto simp: group_keys_ok_def)
    show ?thesis
    proof (rule known [OF _ b(2) _ x_def])
      show "policy_subscribed st n e = None" using b(1) by (simp add: policy_subscribed_def)
      show "res" "st' = add_entry n e x g st"
        using run b h by (simp_all add: Router_SubscribeEvent_def Let_def x_def add_entry_def)
    qed
  next
    case c
    have p: "policy_subscribed st n e = None" using c by (simp add: policy_subscribed_def)
    define g where "g = \<lparr> routerHandle = None, registeredKeys = [?k] \<rparr>"
    define st1 where "st1 = st\<lparr>routerEntries := AList.update ?k x (routerEntries st), routerGroups := AList.update e g (routerGroups st)\<rparr>"
    obtain ho m w1 where sub: "Subscribe E ''PLUGIN_ROUTER'' POLICY_BOUND e (Some (RouteToPlugins e)) [] [] (eventMgr st, w) = (ho, m, w1)"
      by (rule prod_cases3)
    note sr = Subscribe_result [OF routing_okD(1) [OF ok] r sub]
    show ?thesis
    proof (cases ho)
      case None
      show ?thesis
      proof (rule failed [OF p _ c(2)])
        show "\<not> res" "st' = st\<lparr>eventMgr := m\<rparr>"
          using run c sub None by (simp_all add: Router_SubscribeEvent_def Let_def delete_fresh)
        show "events_ok m" "subscriptions m = subscriptions (eventMgr st)" using sr None by auto
      qed
    next
      case (Some h)
      define s where "s = \<lparr> subscriberId = ''PLUGIN_ROUTER'', subscriberType = POLICY_BOUND, subEvent = e, subCallback = RouteToPlugins e \<rparr>"
      show ?thesis
      proof (rule first [OF p c(2) _ _ _ _ _ _ x_def, of m h s])
        show res "st' = add_entry n e x \<lparr> routerHandle = Some h, registeredKeys = [] \<rparr> (st\<lparr>eventMgr := m\<rparr>)"
          using run c sub Some by (auto simp: Router_SubscribeEvent_def Let_def x_def add_entry_def update_twice)
        show "events_ok m" "map_of (subscriptions m) = (map_of (subscriptions (eventMgr st)))(h \<mapsto> s)"
          "map_of (subscriptions (eventMgr st)) h = None"
          using sr Some by (auto simp: s_def)
        show "sub_ok s" "owner_of s = ByPolicies e" by (simp_all add: s_def sub_ok_def owner_of_def)
      qed
    qed
  qed
qed

lemma Router_Subscribe_result:
  assumes ok: "routing_ok st" and r: "room (eventMgr st)"
    and run: "Router_SubscribeEvent E n e c ni ue (st, w) = (res, st', w')"
  shows "routing_ok st'" "adminSubscriptionHandles st' = adminSubscriptionHandles st"
    "policy_subscribed st' n' e' = (if res \<and> n' = n \<and> e' = e \<and> policy_subscribed st n e = None
       then Some \<lparr> pePolicyCode = c, peNeedAdminIteration = ni, peUseEventUserId = ue \<rparr> else policy_subscribed st n' e')"
proof -
  have "routing_ok st' \<and> adminSubscriptionHandles st' = adminSubscriptionHandles st
    \<and> policy_subscribed st' n' e' = (if res \<and> n' = n \<and> e' = e \<and> policy_subscribed st n e = None
       then Some \<lparr> pePolicyCode = c, peNeedAdminIteration = ni, peUseEventUserId = ue \<rparr> else policy_subscribed st n' e')"
  proof (cases rule: Router_Subscribe_run [OF ok r run, case_names old known first failed])
    case old
    then show ?thesis using ok by auto
  next
    case (known g x)
    have "routing_ok st'"
    proof (rule same_ok [OF ok])
      have "router_handle st e = routerHandle g" using known(2) by (simp add: router_handle_def)
      then show "holds st' own h = holds st own h" for own h
        unfolding known(5) by (cases own) auto
      show "admins_ok st'" using routing_okD(4) [OF ok] known by (simp add: admins_ok_def)
      show "router_ok st'"
        using add_entry_router_ok [OF routing_okD(5) [OF ok]] known by (simp add: policy_subscribed_def)
    qed (use known routing_okD(1) [OF ok] in simp_all)
    then show ?thesis using known by (simp add: policy_subscribed_def)
  next
    case (first m h x s)
    have "routing_ok st'"
    proof (rule kept_ok [OF ok _ _ first(7,6)])
      have "router_handle (st\<lparr>eventMgr := m\<rparr>) = router_handle st" "relay_handle (st\<lparr>eventMgr := m\<rparr>) = relay_handle st"
        "router_handle st e = None" using first(2) by (simp_all add: router_handle_def relay_handle_def fun_eq_iff)
      then show "holds st' own h' \<longleftrightarrow> holds st own h' \<or> (own = owner_of s \<and> h' = h)" for own h'
        unfolding first(8,10) by (cases own) auto
      show "admins_ok st'" using routing_okD(4) [OF ok] first(10) by (simp add: admins_ok_def)
      have "router_ok (st\<lparr>eventMgr := m\<rparr>)" using routing_okD(5) [OF ok] router_ok_cong [of "st\<lparr>eventMgr := m\<rparr>" st] by simp
      from add_entry_router_ok [OF this] show "router_ok st'" using first(1,2,10) by (simp add: policy_subscribed_def)
    qed (use first in simp_all)
    then show ?thesis using first by (simp add: policy_subscribed_def)
  next
    case (failed m)
    have "routing_ok st'"
    proof (rule same_ok [OF ok])
      show "holds st' own h = holds st own h" for own h
        using failed by (cases own) (auto simp: router_handle_def relay_handle_def)
      show "admins_ok st'" using routing_okD(4) [OF ok] failed by (simp add: admins_ok_def)
      show "router_ok st'" using routing_okD(5) [OF ok] router_ok_cong [of st' st] failed by simp
    qed (use failed in simp_all)
    then show ?thesis using failed by (simp add: policy_subscribed_def)
  qed
  then show "routing_ok st'" "adminSubscriptionHandles st' = adminSubscriptionHandles st"
    "policy_subscribed st' n' e' = (if res \<and> n' = n \<and> e' = e \<and> policy_subscribed st n e = None
       then Some \<lparr> pePolicyCode = c, peNeedAdminIteration = ni, peUseEventUserId = ue \<rparr> else policy_subscribed st n' e')"
    by blast+
qed

end
