(* ===== verification/Event_Service.thy ===== *)
theory Event_Service
  imports Event_Delivery
begin

text \<open>
  Whole runs of the event routing: the steps that administrators, policies, the service and timers
  take, the invariant over all of them, and what every event reaches.
\<close>

lemma Router_Unsubscribe_result:
  assumes ok: "routing_ok st" and run: "Router_UnsubscribeEvent n e st = (res, st')"
  shows "routing_ok st'" "adminSubscriptionHandles st' = adminSubscriptionHandles st" "res"
    "policy_subscribed st' n' e' = (if n' = n \<and> e' = e then None else policy_subscribed st n' e')"
proof -
  let ?k = "MakeKey n e"
  have "routing_ok st' \<and> adminSubscriptionHandles st' = adminSubscriptionHandles st \<and> res
    \<and> policy_subscribed st' n' e' = (if n' = n \<and> e' = e then None else policy_subscribed st n' e')"
  proof (cases "map_of (routerEntries st) ?k")
    case None
    then show ?thesis using run ok by (auto simp: Router_UnsubscribeEvent_def policy_subscribed_def)
  next
    case (Some x)
    obtain g where g: "map_of (routerGroups st) e = Some g"
      using router_okD(1) [OF routing_okD(5) [OF ok], of e n] Some by fastforce
    note gk = router_okD(2) [OF routing_okD(5) [OF ok] g]
    obtain h where h: "routerHandle g = Some h" using gk by (auto simp: group_keys_ok_def)
    define keys where "keys = removeAll ?k (registeredKeys g)"
    have keys: "MakeKey n'' e \<in> set keys \<longleftrightarrow> n'' \<noteq> n \<and> map_of (routerEntries st) (MakeKey n'' e) \<noteq> None" for n''
      using gk by (auto simp: group_keys_ok_def keys_def)
    define gs where "gs = (if keys = [] then AList.delete e (routerGroups st) else AList.update e (g\<lparr>registeredKeys := keys\<rparr>) (routerGroups st))"
    define st1 where "st1 = st\<lparr>routerEntries := AList.delete ?k (routerEntries st), routerGroups := gs\<rparr>"
    have st': "st' = (if keys = [] then Release h st1 else st1)" "res"
      using run Some g h by (cases "keys = []"; auto simp: Router_UnsubscribeEvent_def Let_def keys_def [symmetric] st1_def gs_def)+
    have fields: "routerEntries st' = routerEntries st1" "routerGroups st' = gs" "saCoreHandles st' = saCoreHandles st"
      "adminSubscriptionHandles st' = adminSubscriptionHandles st"
      by (simp_all add: st' st1_def)
    have r: "router_ok st'"
    proof (rule router_okI)
      show "map_of (routerEntries st') (MakeKey n'' e'') = None" if "map_of (routerGroups st') e'' = None" for n'' e''
        using that keys [of n''] router_okD(1) [OF routing_okD(5) [OF ok], of e'' n'']
        by (auto simp: fields st1_def gs_def split: if_splits)
      show "group_keys_ok (routerEntries st') e'' g''" if g'': "map_of (routerGroups st') e'' = Some g''" for e'' g''
      proof (cases "e'' = e")
        case True
        then have "keys \<noteq> []" "g'' = g\<lparr>registeredKeys := keys\<rparr>" using g'' by (auto simp: fields gs_def split: if_splits)
        then show ?thesis using gk keys True by (auto simp: group_keys_ok_def fields st1_def keys_def distinct_removeAll)
      next
        case False
        then have "map_of (routerGroups st) e'' = Some g''" using g'' by (auto simp: fields gs_def split: if_splits)
        from router_okD(2) [OF routing_okD(5) [OF ok] this] show ?thesis
          by (subst group_keys_other [where es = "routerEntries st"]) (use False in \<open>simp_all add: fields st1_def\<close>)
      qed
    qed
    have own: "owned (eventMgr st) (ByPolicies e) h"
      using handles_okD [OF routing_okD(3) [OF ok], of "ByPolicies e" h] g h by (simp add: router_handle_def)
    have u: "o' = ByPolicies e" if "holds st o' h" for o'
      using handles_okD [OF routing_okD(3) [OF ok], of o' h] own owned_unique that by blast
    have rel: "relay_handle st' = relay_handle st" by (simp add: relay_handle_def fields fun_eq_iff)
    have rout: "router_handle st' e' = (if e' = e \<and> keys = [] then None else router_handle st e')" for e'
      by (simp add: router_handle_def fields gs_def g)
    have a: "admins_ok st'" using routing_okD(4) [OF ok] by (simp add: admins_ok_def fields)
    have "routing_ok st'"
    proof (cases "keys = []")
      case True
      have m1: "eventMgr st1 = eventMgr st" by (simp add: st1_def)
      show ?thesis
      proof (rule released_ok [OF ok _ _ _ a r, of "{h}"])
        show "events_ok (eventMgr st')" "map_of (subscriptions (eventMgr st')) = map_of (subscriptions (eventMgr st)) |` (- {h})"
          using Release_result [of st1 h] routing_okD(1) [OF ok] True by (auto simp: st' m1 restrict_map_def fun_eq_iff)
        show "holds st' o' h' \<longleftrightarrow> holds st o' h' \<and> h' \<notin> {h}" for o' h'
        proof (cases "o' = ByPolicies e")
          case a: True
          moreover have "router_handle st e = Some h" using g h by (simp add: router_handle_def)
          ultimately show ?thesis using True rout [of e] by simp
        next
          case False
          then have "\<not> holds st o' h" using u by blast
          then show ?thesis using False by (cases o') (auto simp: rel rout fields)
        qed
      qed
    next
      case False
      have m: "events_ok (eventMgr st')" "subscriptions (eventMgr st') = subscriptions (eventMgr st)"
        using False routing_okD(1) [OF ok] by (simp_all add: st'(1) st1_def)
      have "holds st' o' h' = holds st o' h'" for o' h'
        using False by (cases o') (simp_all add: rel rout fields)
      then show ?thesis by (rule same_ok [OF ok m _ a r])
    qed
    then show ?thesis using st'(2) by (auto simp: fields policy_subscribed_def st1_def)
  qed
  then show "routing_ok st'" "adminSubscriptionHandles st' = adminSubscriptionHandles st" "res"
    "policy_subscribed st' n' e' = (if n' = n \<and> e' = e then None else policy_subscribed st n' e')"
    by blast+
qed

subsection \<open>The service's own subscriptions\<close>

lemma router_step_ok:
  assumes ok: "routing_ok st" and m: "events_ok m" "subscriptions m = subscriptions (eventMgr st)"
  shows "routing_ok (st\<lparr>eventMgr := m\<rparr>)"
proof (rule same_ok [OF ok])
  show "holds (st\<lparr>eventMgr := m\<rparr>) own h = holds st own h" for own h
    by (cases own) (auto simp: relay_handle_def router_handle_def)
  show "admins_ok (st\<lparr>eventMgr := m\<rparr>)" using routing_okD(4) [OF ok] by (simp add: admins_ok_def)
  show "router_ok (st\<lparr>eventMgr := m\<rparr>)" using routing_okD(5) [OF ok] router_ok_cong [of "st\<lparr>eventMgr := m\<rparr>" st] by simp
qed (use m in simp_all)

lemma sa_subscribe_result:
  assumes ok: "routing_ok st" and r: "room (eventMgr st)" and run: "sa_subscribe E e sh n p (st, w) = (st', w')"
  shows "routing_ok st' \<and> adminSubscriptionHandles st' = adminSubscriptionHandles st \<and> routerEntries st' = routerEntries st
    \<and> unat (nextHandleId (eventMgr st')) \<le> Suc (unat (nextHandleId (eventMgr st)))"
proof -
  obtain ho m w1 where sub: "Subscribe E ''EDM_SA'' SA_CORE e (Some (SaCore sh)) n p (eventMgr st, w) = (ho, m, w1)"
    by (rule prod_cases3)
  note sr = Subscribe_result [OF routing_okD(1) [OF ok] r sub]
  have st': "st' = st\<lparr>eventMgr := m, saCoreHandles := saCoreHandles st @ [ho]\<rparr>" using run sub by (simp add: sa_subscribe_def)
  have same: "relay_handle st' = relay_handle st" "router_handle st' = router_handle st"
    by (simp_all add: st' relay_handle_def router_handle_def fun_eq_iff)
  have rest: "admins_ok st'" "router_ok st'"
    using routing_okD(4,5) [OF ok] router_ok_cong [of st' st] by (simp_all add: admins_ok_def st')
  have "routing_ok st'"
  proof (cases ho)
    case None
    show ?thesis
    proof (rule same_ok [OF ok _ _ _ rest])
      show "holds st' own h = holds st own h" for own h
        using None by (cases own) (auto simp: same, simp_all add: st')
    qed (use sr None in \<open>auto simp: st'\<close>)
  next
    case (Some h)
    define s where "s = \<lparr> subscriberId = ''EDM_SA'', subscriberType = SA_CORE, subEvent = e, subCallback = SaCore sh \<rparr>"
    show ?thesis
    proof (rule kept_ok [OF ok _ _ _ _ _ rest, of h s])
      show "holds st' own h' \<longleftrightarrow> holds st own h' \<or> (own = owner_of s \<and> h' = h)" for own h'
        using Some by (cases own) (auto simp: same owner_of_def s_def, simp_all add: st')
      show "sub_ok s" by (simp add: sub_ok_def s_def)
    qed (use sr Some in \<open>auto simp: st' s_def\<close>)
  qed
  moreover have "unat (nextHandleId m) \<le> Suc (unat (nextHandleId (eventMgr st)))"
    using sr by (cases ho) (auto simp: unat_word_ariths)
  ultimately show ?thesis by (simp add: st')
qed

definition has_room :: "nat \<Rightarrow> event_mgr \<Rightarrow> bool" where
  "has_room n m = (unat (nextHandleId m) + n < 2 ^ 32)"

lemma room_has: "room m \<longleftrightarrow> has_room 16 m"
  by (simp add: room_def has_room_def)

definition sa_frame :: "event_state \<Rightarrow> event_state \<Rightarrow> nat \<Rightarrow> bool" where
  "sa_frame st st' n = (routing_ok st' \<and> adminSubscriptionHandles st' = adminSubscriptionHandles st
     \<and> routerEntries st' = routerEntries st \<and> unat (nextHandleId (eventMgr st')) \<le> unat (nextHandleId (eventMgr st)) + n)"

lemma sa_fold_result:
  assumes "routing_ok st" "has_room (16 + length evs) (eventMgr st)"
    "fold (\<lambda>(e, h). sa_subscribe E e h [] []) evs (st, w) = (st', w')"
  shows "sa_frame st st' (length evs)"
  using assms
proof (induction evs arbitrary: st w)
  case (Cons eh evs)
  obtain e h where eh: "eh = (e, h)" by (rule prod.exhaust)
  obtain st1 w1 where 1: "sa_subscribe E e h [] [] (st, w) = (st1, w1)" by (rule prod.exhaust)
  have "room (eventMgr st)" using Cons.prems(2) by (simp add: room_def has_room_def)
  note r = sa_subscribe_result [OF Cons.prems(1) this 1]
  have "has_room (16 + length evs) (eventMgr st1)" using r Cons.prems(2) by (simp add: has_room_def)
  moreover have "fold (\<lambda>(e, h). sa_subscribe E e h [] []) evs (st1, w1) = (st', w')"
    using Cons.prems(3) by (simp add: eh 1)
  ultimately have "sa_frame st1 st' (length evs)" using Cons.IH r by blast
  then show ?case using r by (simp add: sa_frame_def)
qed (simp add: sa_frame_def)

lemma sa_released:
  assumes ok: "routing_ok st"
  defines "st' \<equiv> fold Release (List.map_filter (\<lambda>h. h) (saCoreHandles st)) (st\<lparr>saCoreHandles := []\<rparr>)"
  shows "routing_ok st' \<and> adminSubscriptionHandles st' = adminSubscriptionHandles st \<and> routerEntries st' = routerEntries st
    \<and> nextHandleId (eventMgr st') = nextHandleId (eventMgr st)"
proof -
  let ?hs = "List.map_filter (\<lambda>h. h) (saCoreHandles st)" and ?st1 = "st\<lparr>saCoreHandles := []\<rparr>"
  have m1: "eventMgr ?st1 = eventMgr st" by simp
  note ra = Release_all [of ?st1 ?hs, unfolded m1, OF routing_okD(1) [OF ok], folded st'_def]
  have hs: "h \<in> set ?hs \<longleftrightarrow> Some h \<in> set (saCoreHandles st)" for h
    by (force simp: List.map_filter_def)
  have same: "relay_handle st' = relay_handle st" "router_handle st' = router_handle st" "saCoreHandles st' = []"
    using ra by (simp_all add: relay_handle_def router_handle_def fun_eq_iff)
  have "routing_ok st'"
  proof (rule released_ok [OF ok, of st' "set ?hs"])
    show "events_ok (eventMgr st')" "map_of (subscriptions (eventMgr st')) = map_of (subscriptions (eventMgr st)) |` (- set ?hs)"
      using ra by auto
    show "holds st' o' h \<longleftrightarrow> holds st o' h \<and> h \<notin> set ?hs" for o' h
    proof (cases "o' = ByService")
      case True
      then show ?thesis using hs by (simp add: same)
    next
      case False
      have "\<not> holds st o' h" if "Some h \<in> set (saCoreHandles st)"
        using that False handles_okD [OF routing_okD(3) [OF ok]] owned_unique holds.simps(3) [of st h] by blast
      then show ?thesis using False hs by (cases o') (auto simp: same)
    qed
    show "admins_ok st'" using routing_okD(4) [OF ok] ra by (simp add: admins_ok_def)
    show "router_ok st'" using routing_okD(5) [OF ok] router_ok_cong [of st' st] ra by simp
  qed
  then show ?thesis using ra by simp
qed

lemma sa_restart_result:
  assumes ok: "routing_ok st" and r: "has_room 32 (eventMgr st)" and run: "sa_restart E ags (st, w) = (st', w')"
  shows "routing_ok st' \<and> adminSubscriptionHandles st' = adminSubscriptionHandles st \<and> routerEntries st' = routerEntries st"
proof -
  define st1 where "st1 = fold Release (List.map_filter (\<lambda>h. h) (saCoreHandles st)) (st\<lparr>saCoreHandles := []\<rparr>)"
  note 1 = sa_released [OF ok, folded st1_def]
  define st2 where "st2 = st1\<lparr>eventMgr := ResetCommonEventAdapterStates (eventMgr st1)\<rparr>"
  have ok2: "routing_ok st2" unfolding st2_def
    by (rule router_step_ok) (use 1 in \<open>auto intro: ResetCommon_ok dest: routing_okD(1)\<close>)
  obtain st3 w3 where 3: "fold (\<lambda>(e, h). sa_subscribe E e h [] []) sa_events (st2, w) = (st3, w3)" by (rule prod.exhaust)
  have len: "length sa_events = 9" by (simp add: sa_events_def)
  have "has_room (16 + length sa_events) (eventMgr st2)" using r 1 by (simp add: has_room_def st2_def len)
  from sa_fold_result [OF ok2 this 3] have f: "sa_frame st2 st3 9" unfolding len .
  have base: "adminSubscriptionHandles st2 = adminSubscriptionHandles st" "routerEntries st2 = routerEntries st"
    "nextHandleId (eventMgr st2) = nextHandleId (eventMgr st)"
    using 1 by (simp_all add: st2_def)
  show ?thesis
  proof (cases "length ags = 3")
    case False
    then have "st' = st3" using run by (simp add: sa_restart_def fold_handles st1_def [symmetric] st2_def [symmetric] Let_def 3)
    then show ?thesis using f base by (simp add: sa_frame_def)
  next
    case True
    obtain st4 w4 where 4: "sa_subscribe E EV_APP_MARKET_DOWNLOAD (OnMarketApps 1) (ags ! 0) (ags ! 2) (st3, w3) = (st4, w4)"
      by (rule prod.exhaust)
    have 5: "sa_subscribe E EV_APP_MARKET_INSTALL (OnMarketApps 1) (ags ! 1) (ags ! 2) (st4, w4) = (st', w')"
      using run True by (simp add: sa_restart_def fold_handles st1_def [symmetric] st2_def [symmetric] Let_def 3 4)
    have r3: "room (eventMgr st3)" "has_room 17 (eventMgr st3)" using f r by (auto simp: room_def has_room_def sa_frame_def base)
    have "routing_ok st3" using f by (simp add: sa_frame_def)
    note s4 = sa_subscribe_result [OF this r3(1) 4]
    have "room (eventMgr st4)" using s4 r3(2) by (simp add: room_def has_room_def)
    note s5 = sa_subscribe_result [OF conjunct1 [OF s4] this 5]
    show ?thesis using s4 s5 f base by (simp add: sa_frame_def)
  qed
qed

subsection \<open>Runs\<close>

text \<open>The calls that change the routing. \<open>ResetAdapter\<close>, \<open>RetryAdapters\<close> and \<open>SaStart\<close> are made when the application
  manager and the common event service start.\<close>

datatype event_op =
    AdminSubscribe container string user_id event_id
  | AdminUnsubscribe string user_id event_id
  | AdminRemoved string user_id
  | PolicySubscribe string event_id u32 bool bool
  | PolicyUnsubscribe string event_id
  | DelayedUnsubscribe event_id
  | ResetAdapter event_id
  | RetryAdapters adapter_type
  | SaStart "string list"

definition event_step :: "'w event_sources \<Rightarrow> event_op \<Rightarrow> event_state \<times> 'w \<Rightarrow> event_state \<times> 'w" where
  "event_step E op = (\<lambda>(st, w). case op of
       AdminSubscribe c a u e \<Rightarrow> OnAdminSubscribe E c a u e (st, w)
     | AdminUnsubscribe a u e \<Rightarrow> (OnAdminUnsubscribe a u e st, w)
     | AdminRemoved a u \<Rightarrow> (OnAdminRemoved a u st, w)
     | PolicySubscribe n e c ni ue \<Rightarrow> snd (Router_SubscribeEvent E n e c ni ue (st, w))
     | PolicyUnsubscribe n e \<Rightarrow> (snd (Router_UnsubscribeEvent n e st), w)
     | DelayedUnsubscribe g \<Rightarrow> (let (m, w) = delayed_unsubscribe E g (eventMgr st, w) in (st\<lparr>eventMgr := m\<rparr>, w))
     | ResetAdapter g \<Rightarrow> (st\<lparr>eventMgr := ResetAdapterSubscribedState g (eventMgr st)\<rparr>, w)
     | RetryAdapters ty \<Rightarrow> (let (m, w) = RetryFailedAdapters E ty (eventMgr st, w) in (st\<lparr>eventMgr := m\<rparr>, w))
     | SaStart ags \<Rightarrow> sa_restart E ags (st, w))"

text \<open>\<open>OnAppManagerServiceStart\<close> up to the connections it makes, and \<open>OnCommonEventServiceStart\<close>, with the policies
  that \<open>RestorePluginSubscriptions\<close> finds set.\<close>

definition OnAppManagerServiceStart :: "'w event_sources \<Rightarrow> container \<Rightarrow> event_state \<times> 'w \<Rightarrow> event_state \<times> 'w" where
  "OnAppManagerServiceStart E c s =
     event_step E (RetryAdapters APP_LIFECYCLE) (RestoreSubscriptions E c True (event_step E (ResetAdapter EV_APP_START) s))"

definition OnCommonEventServiceStart :: "'w event_sources \<Rightarrow> container \<Rightarrow> string list \<Rightarrow> (event_state \<times> 'w \<Rightarrow> event_state \<times> 'w)
    \<Rightarrow> event_state \<times> 'w \<Rightarrow> event_state \<times> 'w" where
  "OnCommonEventServiceStart E c agEvents restorePlugins s =
     event_step E (RetryAdapters COMMON_EVENT) (restorePlugins (RestoreSubscriptions E c False (sa_restart E agEvents s)))"

text \<open>Handle ids are 32 bit words that are never reused: runs are followed as long as the counter has not wrapped around.\<close>

inductive event_run :: "'w event_sources \<Rightarrow> event_state \<times> 'w \<Rightarrow> bool" for E where
  start: "event_run E (event_state0, w)"
| step: "event_run E (st, w) \<Longrightarrow> has_room 32 (eventMgr st) \<Longrightarrow> event_run E (event_step E op (st, w))"
| outside: "event_run E (st, w) \<Longrightarrow> event_run E (st, w')"

lemma has_room_room: "has_room 32 m \<Longrightarrow> room m"
  by (simp add: has_room_def room_def)

text \<open>What each step does to the subscriptions: only its own operation changes them.\<close>

definition admin_effect :: "event_op \<Rightarrow> string \<Rightarrow> user_id \<Rightarrow> event_id \<Rightarrow> bool \<Rightarrow> bool" where
  "admin_effect op a u e p = (case op of
       AdminSubscribe _ b v e' \<Rightarrow> p \<or> (b = a \<and> v = u \<and> e' = e \<and> e \<in> set strategy_events)
     | AdminUnsubscribe b v e' \<Rightarrow> p \<and> \<not> (b = a \<and> v = u \<and> e' = e)
     | AdminRemoved b v \<Rightarrow> p \<and> \<not> (b = a \<and> v = u)
     | _ \<Rightarrow> p)"

definition policy_effect :: "bool \<Rightarrow> event_op \<Rightarrow> string \<Rightarrow> event_id \<Rightarrow> plugin_entry option \<Rightarrow> plugin_entry option" where
  "policy_effect accepted op n e x = (case op of
       PolicySubscribe n' e' c ni ue \<Rightarrow>
         if accepted \<and> n' = n \<and> e' = e \<and> x = None
         then Some \<lparr> pePolicyCode = c, peNeedAdminIteration = ni, peUseEventUserId = ue \<rparr> else x
     | PolicyUnsubscribe n' e' \<Rightarrow> if n' = n \<and> e' = e then None else x
     | _ \<Rightarrow> x)"

definition accepts :: "'w event_sources \<Rightarrow> event_op \<Rightarrow> event_state \<times> 'w \<Rightarrow> bool" where
  "accepts E op s = (case op of PolicySubscribe n e c ni ue \<Rightarrow> fst (Router_SubscribeEvent E n e c ni ue s) | _ \<Rightarrow> True)"

lemma subscribed_cong:
  "adminSubscriptionHandles st' = adminSubscriptionHandles st \<Longrightarrow> admin_subscribed st' = admin_subscribed st"
  "routerEntries st' = routerEntries st \<Longrightarrow> policy_subscribed st' = policy_subscribed st"
  by (simp_all add: admin_subscribed_def policy_subscribed_def relay_handle_def fun_eq_iff)

lemma event_step_effect:
  assumes ok: "routing_ok st" and r: "has_room 32 (eventMgr st)" and run: "event_step E op (st, w) = (st', w')"
  shows "routing_ok st' \<and> admin_subscribed st' a u e = admin_effect op a u e (admin_subscribed st a u e)
    \<and> policy_subscribed st' n e = policy_effect (accepts E op (st, w)) op n e (policy_subscribed st n e)"
proof (cases op)
  case (AdminSubscribe c b v e')
  have "OnAdminSubscribe E c b v e' (st, w) = (st', w')" using run by (simp add: AdminSubscribe event_step_def)
  note x = OnAdminSubscribe_result [OF ok has_room_room [OF r] this]
  show ?thesis using x(1) x(2) [of a u e] subscribed_cong(2) [OF x(3)]
    by (auto simp: AdminSubscribe admin_effect_def policy_effect_def)
next
  case (AdminUnsubscribe b v e')
  have st': "st' = OnAdminUnsubscribe b v e' st" using run by (simp add: AdminUnsubscribe event_step_def)
  note x = OnAdminUnsubscribe_result [OF ok, where a = b and u = v and e = e', folded st']
  show ?thesis using x(1) x(2) [of a u e] subscribed_cong(2) [OF x(3)]
    by (auto simp: AdminUnsubscribe admin_effect_def policy_effect_def)
next
  case (AdminRemoved b v)
  have st': "st' = OnAdminRemoved b v st" using run by (simp add: AdminRemoved event_step_def)
  note x = OnAdminRemoved_result [OF ok, where a = b and u = v, folded st']
  show ?thesis using x(1) x(2) [of a u e] subscribed_cong(2) [OF x(3)]
    by (auto simp: AdminRemoved admin_effect_def policy_effect_def)
next
  case (PolicySubscribe n' e' c ni ue)
  obtain res where "Router_SubscribeEvent E n' e' c ni ue (st, w) = (res, st', w')"
    using run by (cases "Router_SubscribeEvent E n' e' c ni ue (st, w)") (simp add: PolicySubscribe event_step_def)
  note x = Router_Subscribe_result [OF ok has_room_room [OF r] this] this
  show ?thesis using x(1) x(3) [of n e] x(4) subscribed_cong(1) [OF x(2)]
    by (auto simp: PolicySubscribe admin_effect_def policy_effect_def accepts_def)
next
  case (PolicyUnsubscribe n' e')
  obtain res where "Router_UnsubscribeEvent n' e' st = (res, st')"
    using run by (cases "Router_UnsubscribeEvent n' e' st") (simp add: PolicyUnsubscribe event_step_def)
  note x = Router_Unsubscribe_result [OF ok this]
  show ?thesis using x(1) x(4) [of n e] subscribed_cong(1) [OF x(2)]
    by (auto simp: PolicyUnsubscribe admin_effect_def policy_effect_def)
next
  case (DelayedUnsubscribe g)
  obtain m where m: "delayed_unsubscribe E g (eventMgr st, w) = (m, w')" "st' = st\<lparr>eventMgr := m\<rparr>"
    using run by (auto simp: DelayedUnsubscribe event_step_def split: prod.splits)
  have "routing_ok st'" using delayed_result [OF routing_okD(1) [OF ok] m(1)] unfolding m(2) by (intro router_step_ok [OF ok]) auto
  then show ?thesis using m(2) subscribed_cong [of st' st] by (simp add: DelayedUnsubscribe admin_effect_def policy_effect_def)
next
  case (ResetAdapter g)
  have st': "st' = st\<lparr>eventMgr := ResetAdapterSubscribedState g (eventMgr st)\<rparr>" using run by (simp add: ResetAdapter event_step_def)
  have "routing_ok st'" unfolding st' by (rule router_step_ok [OF ok Reset_ok [OF routing_okD(1) [OF ok]]]) simp
  then show ?thesis using st' subscribed_cong [of st' st] by (simp add: ResetAdapter admin_effect_def policy_effect_def)
next
  case (RetryAdapters ty)
  obtain m where m: "RetryFailedAdapters E ty (eventMgr st, w) = (m, w')" "st' = st\<lparr>eventMgr := m\<rparr>"
    using run by (auto simp: RetryAdapters event_step_def split: prod.splits)
  have "routing_ok st'" using Retry_ok [OF routing_okD(1) [OF ok] m(1)] unfolding m(2) by (intro router_step_ok [OF ok]) auto
  then show ?thesis using m(2) subscribed_cong [of st' st] by (simp add: RetryAdapters admin_effect_def policy_effect_def)
next
  case (SaStart ags)
  have "sa_restart E ags (st, w) = (st', w')" using run by (simp add: SaStart event_step_def)
  note x = sa_restart_result [OF ok r this]
  then show ?thesis using subscribed_cong [of st' st] by (simp add: SaStart admin_effect_def policy_effect_def)
qed

lemma event_run_ok: "event_run E s \<Longrightarrow> routing_ok (fst s)"
proof (induction rule: event_run.induct)
  case (start w)
  then show ?case by (simp add: routing_ok0)
next
  case (step st w op)
  obtain st' w' where "event_step E op (st, w) = (st', w')" by (rule prod.exhaust)
  then show ?case using event_step_effect [OF _ step.hyps(2)] step.IH by fastforce
qed simp

end
