(* ===== verification/Event_Properties.thy ===== *)
theory Event_Properties
  imports Event_Service
begin

text \<open>What the routing of events promises over whole runs.\<close>

subsection \<open>Delivery\<close>

lemma one_of:
  assumes "al_keys_distinct m"
  shows "length (filter P (map (subCallback \<circ> snd) (filter (\<lambda>(_, s). subEvent s = e) m)))
    = card {h. \<exists>s. map_of m h = Some s \<and> subEvent s = e \<and> P (subCallback s)}"
proof -
  have "filter P (map (subCallback \<circ> snd) (filter (\<lambda>(_, s). subEvent s = e) m))
      = map (subCallback \<circ> snd) (filter (\<lambda>(_, s). subEvent s = e \<and> P (subCallback s)) m)"
    by (induction m) auto
  moreover have "length (filter Q m) = card (fst ` set (filter Q m))" for Q
    using assms distinct_card [of "map fst (filter Q m)"] distinct_map_filter [of fst m Q]
    by (simp add: al_keys_distinct_def)
  moreover have "fst ` set (filter (\<lambda>(_, s). subEvent s = e \<and> P (subCallback s)) m)
      = {h. \<exists>s. map_of m h = Some s \<and> subEvent s = e \<and> P (subCallback s)}"
    using al_in_set_conv [OF assms] by force
  ultimately show ?thesis by simp
qed

lemma deliveries:
  assumes "routing_ok st" "\<And>h s. map_of (subscriptions (eventMgr st)) h = Some s \<Longrightarrow> sub_ok s \<Longrightarrow>
      subEvent s = e \<and> P (subCallback s) \<longleftrightarrow> owner_of s = own \<and> Q"
    "\<And>h h'. holds st own h \<Longrightarrow> holds st own h' \<Longrightarrow> h = h'"
  shows "length (filter P (DispatchEvent e (eventMgr st))) = (if Q \<and> (\<exists>h. holds st own h) then 1 else 0)"
proof -
  note ok = routing_okD(1-3) [OF assms(1)]
  have "{h. \<exists>s. map_of (subscriptions (eventMgr st)) h = Some s \<and> subEvent s = e \<and> P (subCallback s)}
      = {h. Q \<and> holds st own h}"
  proof (rule Collect_cong)
    fix h
    show "(\<exists>s. map_of (subscriptions (eventMgr st)) h = Some s \<and> subEvent s = e \<and> P (subCallback s)) \<longleftrightarrow> Q \<and> holds st own h"
    proof (cases "map_of (subscriptions (eventMgr st)) h")
      case (Some s)
      then have "sub_ok s" using ok(2) by (simp add: subs_ok_def)
      then show ?thesis using assms(2) [OF Some] handles_okD [OF ok(3), of own h] Some by (auto simp: owned_def)
    qed (simp add: handles_okD [OF ok(3)] owned_def)
  qed
  also have "card \<dots> = (if Q \<and> (\<exists>h. holds st own h) then 1 else 0)"
  proof (cases "Q \<and> (\<exists>h. holds st own h)")
    case True
    then obtain h where "holds st own h" by blast
    then have "{h. Q \<and> holds st own h} = {h}" using True assms(3) by blast
    then show ?thesis using True by simp
  next
    case False
    then have "{h. Q \<and> holds st own h} = {}" by blast
    then show ?thesis using False by simp
  qed
  finally show ?thesis unfolding DispatchEvent_def one_of [OF events_okD(1) [OF ok(1)]] .
qed

definition relayed :: "string \<Rightarrow> user_id \<Rightarrow> event_callback \<Rightarrow> bool" where
  "relayed a u cb = (case cb of RelayToAdmin b _ v _ \<Rightarrow> b = a \<and> v = u | _ \<Rightarrow> False)"

definition routed :: "event_callback \<Rightarrow> bool" where
  "routed cb = (case cb of RouteToPlugins _ \<Rightarrow> True | _ \<Rightarrow> False)"

lemma admin_deliveries:
  assumes "routing_ok st"
  shows "length (filter (relayed a u) (DispatchEvent e (eventMgr st))) = (if admin_subscribed st a u e then 1 else 0)"
proof -
  have "length (filter (relayed a u) (DispatchEvent e (eventMgr st)))
      = (if True \<and> (\<exists>h. holds st (ByAdmin (MakeAdminKey a u) e) h) then 1 else 0)"
    by (rule deliveries [OF assms])
      (auto simp: sub_ok_def owner_of_def relayed_def split: event_callback.splits subscriber_type.splits)
  then show ?thesis by (auto simp: admin_subscribed_def)
qed

lemma policy_keys:
  assumes "routing_ok st"
  shows "(\<exists>h. router_handle st e = Some h) \<longleftrightarrow> (\<exists>n. policy_subscribed st n e \<noteq> None)"
proof (cases "map_of (routerGroups st) e")
  case None
  then show ?thesis using router_okD(1) [OF routing_okD(5) [OF assms] None] by (simp add: router_handle_def policy_subscribed_def)
next
  case (Some g)
  have g: "group_keys_ok (routerEntries st) e g" by (rule router_okD(2) [OF routing_okD(5) [OF assms] Some])
  then have "registeredKeys g \<noteq> []" by (simp add: group_keys_ok_def)
  then obtain k where k: "k \<in> set (registeredKeys g)" by (cases "registeredKeys g") auto
  then obtain n where "k = MakeKey n e" using g by (auto simp: group_keys_ok_def)
  then have "policy_subscribed st n e \<noteq> None" using g k by (auto simp: group_keys_ok_def policy_subscribed_def)
  moreover have "\<exists>h. router_handle st e = Some h" using g Some by (auto simp: router_handle_def group_keys_ok_def)
  ultimately show ?thesis by blast
qed

lemma policy_deliveries:
  assumes "routing_ok st"
  shows "length (filter routed (DispatchEvent e (eventMgr st))) = (if \<exists>n. policy_subscribed st n e \<noteq> None then 1 else 0)"
proof -
  have "length (filter routed (DispatchEvent e (eventMgr st)))
      = (if True \<and> (\<exists>h. holds st (ByPolicies e) h) then 1 else 0)"
    by (rule deliveries [OF assms])
      (auto simp: sub_ok_def owner_of_def routed_def split: event_callback.splits subscriber_type.splits)
  then show ?thesis using policy_keys [OF assms, of e] by simp
qed

text \<open>The plugins' entries that an event reaches: one for each policy that subscribed it.\<close>

lemma policy_entries:
  assumes "routing_ok st"
  shows "\<exists>ns. distinct ns \<and> (\<forall>n. n \<in> set ns \<longleftrightarrow> policy_subscribed st n e \<noteq> None)
    \<and> CollectDispatchEntries e st = map (\<lambda>n. the (policy_subscribed st n e)) ns"
proof (cases "map_of (routerGroups st) e")
  case None
  then show ?thesis
    using router_okD(1) [OF routing_okD(5) [OF assms] None]
    by (intro exI [of _ "[]"]) (simp add: policy_subscribed_def CollectDispatchEntries_def)
next
  case (Some g)
  have g: "group_keys_ok (routerEntries st) e g" by (rule router_okD(2) [OF routing_okD(5) [OF assms] Some])
  have "\<exists>ns. ks = map (\<lambda>n. MakeKey n e) ns" if "set ks \<subseteq> set (registeredKeys g)" for ks
    using that g by (induction ks) (auto simp: group_keys_ok_def Cons_eq_map_conv)
  then obtain ns where ns: "registeredKeys g = map (\<lambda>n. MakeKey n e) ns" by blast
  have "distinct ns" using g by (auto simp: group_keys_ok_def ns distinct_map)
  moreover have mem: "n \<in> set ns \<longleftrightarrow> policy_subscribed st n e \<noteq> None" for n
    using g by (auto simp: group_keys_ok_def ns policy_subscribed_def)
  moreover have "List.map_filter (\<lambda>k. map_of (routerEntries st) k) (map (\<lambda>n. MakeKey n e) xs) = map (\<lambda>n. the (policy_subscribed st n e)) xs"
    if "set xs \<subseteq> set ns" for xs
    using that mem by (induction xs) (auto simp: List.map_filter_simps policy_subscribed_def split: option.split)
  ultimately show ?thesis using Some by (intro exI [of _ ns]) (simp add: CollectDispatchEntries_def ns)
qed

text \<open>C24: An event reaches exactly its subscribers: in every run of the routing, an administrator is called once
  for an event it has subscribed and never for another, the plugin router is called once exactly if
  some policy has subscribed the event, and it calls each of these policies once, with its registered entry.\<close>

theorem events_reach_their_subscribers:
  assumes "event_run E (st, w)"
  shows "length (filter (relayed a u) (DispatchEvent e (eventMgr st))) = (if admin_subscribed st a u e then 1 else 0)
    \<and> length (filter routed (DispatchEvent e (eventMgr st))) = (if \<exists>n. policy_subscribed st n e \<noteq> None then 1 else 0)
    \<and> (\<exists>ns. distinct ns \<and> (\<forall>n. n \<in> set ns \<longleftrightarrow> policy_subscribed st n e \<noteq> None)
         \<and> CollectDispatchEntries e st = map (\<lambda>n. the (policy_subscribed st n e)) ns)"
proof -
  have ok: "routing_ok st" using event_run_ok [OF assms] by simp
  show ?thesis using admin_deliveries [OF ok] policy_deliveries [OF ok] policy_entries [OF ok] by blast
qed

text \<open>C25: Every call changes only the subscriptions it names: subscribing adds one (for the events that have a
  strategy), unsubscribing removes one, removing an administrator removes all of its own and leaves
  those of every other administrator and of the policies, and the restarts, the delayed
  unsubscribing and the retries of adapters change none.\<close>

theorem event_calls_keep_other_subscriptions:
  assumes "event_run E (st, w)" "has_room 32 (eventMgr st)" "event_step E op (st, w) = (st', w')"
  shows "admin_subscribed st' a u e = admin_effect op a u e (admin_subscribed st a u e)
    \<and> policy_subscribed st' n e = policy_effect (accepts E op (st, w)) op n e (policy_subscribed st n e)"
  using event_step_effect [OF _ assms(2,3)] event_run_ok [OF assms(1)] by simp

text \<open>C26: The count of a group of events is the number of its subscriptions, a group with subscriptions keeps its
  adapter, and the timer of a delayed unsubscribing does not stop the adapter of a group that has
  got subscribers again in the meantime.\<close>

theorem delayed_unsubscribe_spares_subscribed_groups:
  assumes "event_run E (st, w)"
  shows "(case map_of (eventGroups (eventMgr st)) g of
       None \<Rightarrow> subscribers g (eventMgr st) = 0
     | Some s \<Rightarrow> refCount s = int (subscribers g (eventMgr st)) \<and> (subscribers g (eventMgr st) > 0 \<longrightarrow> groupAdapter s \<noteq> None))
    \<and> (delayed_unsubscribe E g (eventMgr st, w) = (m, w') \<and> subscribers g (eventMgr st) > 0 \<longrightarrow>
         w' = w \<and> map_option isSubscribed (map_of (eventGroups m) g) = map_option isSubscribed (map_of (eventGroups (eventMgr st)) g))"
proof -
  have "events_ok (eventMgr st)" using event_run_ok [OF assms] routing_okD(1) by fastforce
  then show ?thesis using events_okD(4) [of "eventMgr st" g] delayed_result [of "eventMgr st" E g w m w']
    by (simp add: group_ok_def)
qed

subsection \<open>Restoring the subscriptions of administrators\<close>

definition to_restore :: "container \<Rightarrow> bool \<Rightarrow> string \<Rightarrow> user_id \<Rightarrow> event_id list" where
  "to_restore c appLifecycleOnly a u = filter (\<lambda>e. (e = EV_APP_START \<or> e = EV_APP_STOP) = appLifecycleOnly)
     (case GetAdminByPkgName a u c of None \<Rightarrow> [] | Some a \<Rightarrow> managedEvents (adminInfo a))"

definition restore_list :: "container \<Rightarrow> bool \<Rightarrow> (string \<times> user_id \<times> event_id) list" where
  "restore_list c appLifecycleOnly = concat (map (\<lambda>(u, admins). concat (map (\<lambda>admin.
     map (\<lambda>e. (packageName (adminInfo admin), u, e)) (to_restore c appLifecycleOnly (packageName (adminInfo admin)) u)) admins))
     (GetAllAdmins [] c))"

lemma RestoreAdminEvents_fold:
  "RestoreAdminEvents E c a u only s = fold (\<lambda>e. OnAdminSubscribe E c a u e) (to_restore c only a u) s"
proof -
  have "fold (\<lambda>e s. if P e \<noteq> only then s else f e s) es s = fold f (filter (\<lambda>e. P e = only) es) s" for P f es and s :: "event_state \<times> 'a"
    by (induction es arbitrary: s) auto
  from this [of "\<lambda>e. e = EV_APP_START \<or> e = EV_APP_STOP"] show ?thesis
    by (simp add: RestoreAdminEvents_def to_restore_def split: option.split)
qed

lemma fold_concat_map: "fold f (concat (map g xs)) s = fold (\<lambda>x. fold f (g x)) xs s"
  by (induction xs arbitrary: s) auto

lemma RestoreSubscriptions_fold:
  "RestoreSubscriptions E c only s = fold (\<lambda>(a, u, e). OnAdminSubscribe E c a u e) (restore_list c only) s"
proof -
  let ?f = "\<lambda>(a, u, e). OnAdminSubscribe E c a u e"
  have es: "fold ?f (map (\<lambda>e. (a, u, e)) es) = fold (OnAdminSubscribe E c a u) es" for a u es
    by (induction es) auto
  have admins: "fold ?f (concat (map (\<lambda>admin. map (\<lambda>e. (packageName (adminInfo admin), u, e))
        (to_restore c only (packageName (adminInfo admin)) u)) as))
      = fold (\<lambda>admin. RestoreAdminEvents E c (packageName (adminInfo admin)) u only) as" for u as
    by (rule ext) (simp add: fold_concat_map es RestoreAdminEvents_fold [abs_def])
  have "fold ?f (restore_list c only) = fold (\<lambda>(u, as). fold (\<lambda>admin. RestoreAdminEvents E c (packageName (adminInfo admin)) u only) as)
      (GetAllAdmins [] c)"
    unfolding restore_list_def
    by (rule ext) (simp only: fold_concat_map split_def admins [unfolded split_def])
  then show ?thesis by (simp add: RestoreSubscriptions_def split_def)
qed

lemma OnAdminSubscribe_ids:
  assumes "routing_ok st" "room (eventMgr st)" "OnAdminSubscribe E c a u e (st, w) = (st', w')"
  shows "unat (nextHandleId (eventMgr st')) \<le> Suc (unat (nextHandleId (eventMgr st)))"
proof -
  define cb where "cb = RelayToAdmin a (case GetAdminByPkgName a u c of None \<Rightarrow> [] | Some a \<Rightarrow> className (adminInfo a)) u e"
  obtain ho m w1 where sub: "Subscribe E (MakeAdminKey a u) MDM_RELAY e (Some cb) [] [] (eventMgr st, w) = (ho, m, w1)"
    by (rule prod_cases3)
  have "eventMgr st' = eventMgr st \<or> eventMgr st' = m"
    using assms(3) sub by (auto simp: OnAdminSubscribe_def Let_def cb_def [symmetric] split: if_splits option.splits)
  then show ?thesis using Subscribe_result [OF routing_okD(1) [OF assms(1)] assms(2) sub]
    by (cases ho) (auto simp: unat_word_ariths)
qed

lemma restore_fold_result:
  assumes "routing_ok st" "has_room (16 + length xs) (eventMgr st)"
    "fold (\<lambda>(a, u, e). OnAdminSubscribe E c a u e) xs (st, w) = (st', w')"
  shows "routing_ok st' \<and> routerEntries st' = routerEntries st
    \<and> (\<forall>a u e. admin_subscribed st' a u e \<longleftrightarrow> admin_subscribed st a u e \<or> (a, u, e) \<in> set xs \<and> e \<in> set strategy_events)"
  using assms
proof (induction xs arbitrary: st w)
  case (Cons x xs)
  obtain a u e where x: "x = (a, u, e)" by (rule prod_cases3)
  obtain st1 w1 where 1: "OnAdminSubscribe E c a u e (st, w) = (st1, w1)" by (rule prod.exhaust)
  have r: "room (eventMgr st)" using Cons.prems(2) by (simp add: room_def has_room_def)
  note o = OnAdminSubscribe_result [OF Cons.prems(1) r 1]
  have "has_room (16 + length xs) (eventMgr st1)"
    using OnAdminSubscribe_ids [OF Cons.prems(1) r 1] Cons.prems(2) by (simp add: has_room_def)
  moreover have "fold (\<lambda>(a, u, e). OnAdminSubscribe E c a u e) xs (st1, w1) = (st', w')"
    using Cons.prems(3) by (simp add: x 1)
  ultimately show ?case using Cons.IH [OF o(1)] o(2,3) by (auto simp: x)
qed simp

lemma restore_result:
  assumes "routing_ok st" "has_room (16 + length (restore_list c only)) (eventMgr st)"
    "RestoreSubscriptions E c only (st, w) = (st', w')"
  shows "routing_ok st'" "policy_subscribed st' = policy_subscribed st"
    "admin_subscribed st' a u e \<longleftrightarrow> admin_subscribed st a u e \<or> (a, u, e) \<in> set (restore_list c only) \<and> e \<in> set strategy_events"
  using restore_fold_result [OF assms(1,2) assms(3) [unfolded RestoreSubscriptions_fold]] subscribed_cong(2) [of st' st] by auto

lemma in_restore_list:
  "(a, u, e) \<in> set (restore_list c only) \<longleftrightarrow> (\<exists>admins. (u, admins) \<in> set (GetAllAdmins [] c)
     \<and> a \<in> set (map (\<lambda>x. packageName (adminInfo x)) admins)) \<and> e \<in> set (to_restore c only a u)"
proof -
  let ?A = "\<exists>admins. (u, admins) \<in> set (GetAllAdmins [] c) \<and> a \<in> set (map (\<lambda>x. packageName (adminInfo x)) admins)"
  have "(a, u, e) \<in> set (restore_list c only) \<longleftrightarrow> (\<exists>admins. (u, admins) \<in> set (GetAllAdmins [] c)
      \<and> (\<exists>x \<in> set admins. a = packageName (adminInfo x) \<and> e \<in> set (to_restore c only (packageName (adminInfo x)) u)))"
    unfolding restore_list_def set_concat set_map by (simp add: image_iff split_def Bex_def) blast
  also have "\<dots> \<longleftrightarrow> ?A \<and> e \<in> set (to_restore c only a u)" by (auto simp: image_iff)
  finally show ?thesis .
qed

text \<open>C27: When the application manager has started, the administrators are subscribed again for the application
  events they have saved: after it, every administrator of the container is subscribed for each of its
  managed events \<open>APP_START\<close> and \<open>APP_STOP\<close>, besides the subscriptions there already were, and no
  policy's subscription has changed.\<close>

theorem app_manager_start_restores_saved_events:
  assumes "event_run E (st, w)" "has_room (32 + length (restore_list c True)) (eventMgr st)"
    "OnAppManagerServiceStart E c (st, w) = (st', w')"
  shows "(admin_subscribed st' a u e \<longleftrightarrow> admin_subscribed st a u e
      \<or> (e = EV_APP_START \<or> e = EV_APP_STOP)
        \<and> (\<exists>admins. (u, admins) \<in> set (GetAllAdmins [] c) \<and> a \<in> set (map (\<lambda>x. packageName (adminInfo x)) admins))
        \<and> (\<exists>admin. GetAdminByPkgName a u c = Some admin \<and> e \<in> set (managedEvents (adminInfo admin))))
    \<and> policy_subscribed st' n e = policy_subscribed st n e"
proof -
  have ok: "routing_ok st" using event_run_ok [OF assms(1)] by simp
  have r: "has_room 32 (eventMgr st)" using assms(2) by (simp add: has_room_def)
  obtain st1 w1 where 1: "event_step E (ResetAdapter EV_APP_START) (st, w) = (st1, w1)" by (rule prod.exhaust)
  note e1 = event_step_effect [OF ok r 1]
  have ids1: "nextHandleId (eventMgr st1) = nextHandleId (eventMgr st)" using 1 by (auto simp: event_step_def)
  obtain st2 w2 where 2: "RestoreSubscriptions E c True (st1, w1) = (st2, w2)" by (rule prod.exhaust)
  have r1: "has_room (16 + length (restore_list c True)) (eventMgr st1)" using assms(2) by (simp add: has_room_def ids1)
  note e2 = restore_result [OF conjunct1 [OF e1] r1 2]
  have st': "event_step E (RetryAdapters APP_LIFECYCLE) (st2, w2) = (st', w')"
    using assms(3) 1 2 by (simp add: OnAppManagerServiceStart_def)
  have same: "admin_subscribed st' = admin_subscribed st2" "policy_subscribed st' = policy_subscribed st2"
    using st' by (auto simp: event_step_def split: prod.splits intro!: subscribed_cong)
  have app: "e \<in> set strategy_events" if "e = EV_APP_START \<or> e = EV_APP_STOP" using that by (auto simp: strategy_events_def)
  have "admin_subscribed st1 a u e = admin_subscribed st a u e" "policy_subscribed st1 n e = policy_subscribed st n e"
    using e1 [of a u e n] by (simp_all add: admin_effect_def policy_effect_def)
  moreover have "(a, u, e) \<in> set (restore_list c True) \<and> e \<in> set strategy_events \<longleftrightarrow> (e = EV_APP_START \<or> e = EV_APP_STOP)
        \<and> (\<exists>admins. (u, admins) \<in> set (GetAllAdmins [] c) \<and> a \<in> set (map (\<lambda>x. packageName (adminInfo x)) admins))
        \<and> (\<exists>admin. GetAdminByPkgName a u c = Some admin \<and> e \<in> set (managedEvents (adminInfo admin)))"
    unfolding in_restore_list using app by (cases "GetAdminByPkgName a u c") (auto simp: to_restore_def)
  ultimately show ?thesis unfolding same e2(3) using e2(2) by simp
qed

subsection \<open>Listening without subscribers\<close>

text \<open>C28: A retry listens for events that nobody subscribes: when the adapter could not be registered for an
  administrator's first subscription, the administrator unsubscribes and the delayed unsubscribing has
  run, the adapter is kept, and the start of the application manager registers it, with no subscription left and
  no timer running that would unregister it.\<close>

theorem idle_group_is_registered_again:
  assumes "fst (app_RegisterObserver E w) \<noteq> 0" "fst (app_RegisterObserver E w') = 0"
  shows "\<exists>st s. fst (event_step E (DelayedUnsubscribe EV_APP_START) (event_step E (AdminUnsubscribe a u EV_APP_START)
        (event_step E (AdminSubscribe c a u EV_APP_START) (event_state0, w)))) = st
    \<and> map_of (eventGroups (eventMgr (fst (event_step E (RetryAdapters APP_LIFECYCLE) (st, w'))))) EV_APP_START = Some s
    \<and> isSubscribed s \<and> refCount s = 0 \<and> groupTimer s = Some False"
proof -
  obtain r w1 where 1: "app_RegisterObserver E w = (r, w1)" "r \<noteq> 0" using assms(1) by (cases "app_RegisterObserver E w") simp
  obtain w2 where 2: "app_RegisterObserver E w' = (0, w2)" using assms(2) by (cases "app_RegisterObserver E w'") simp
  show ?thesis
    by (simp add: event_step_def OnAdminSubscribe_def OnAdminUnsubscribe_def event_state0_def event_mgr0_def strategy_events_def
        Subscribe_def EnsureGroupState_def GetEventGroupId_def CreateAdapter_def Adapter_SubscribeEvent_def 1 2 Let_def
        Release_def Unsubscribe_def delayed_unsubscribe_def RetryFailedAdapters_def GetAdapterType_def)
qed

subsection \<open>A run\<close>

text \<open>Event sources that always answer, and a service in which two administrators and two policies have
  subscribed.\<close>

definition quiet_sources :: "unit event_sources" where
  "quiet_sources = \<lparr> ces_Subscribe = (\<lambda>_ _ _ w. (ERR_OK, w)), ces_Unsubscribe = (\<lambda>_ _ _ w. (ERR_OK, w)),
     app_RegisterObserver = (\<lambda>w. (0, w)), app_UnregisterObserver = (\<lambda>w. (0, w)) \<rparr>"

definition kiosk_admin :: admin where
  "kiosk_admin = DeviceAdmin (AdminInfo0\<lparr>packageName := ''com.kiosk'', className := ''Kiosk'', managedEvents := [EV_APP_STOP, EV_USER_ADDED]\<rparr>)"

definition kiosk_admins :: container where
  "kiosk_admins = [(100, [kiosk_admin])]"

definition kiosk_state :: event_state where
  "kiosk_state = fst (event_step quiet_sources (PolicySubscribe ''disallow_uinput'' EV_BOOT_COMPLETED 1051 True False)
     (event_step quiet_sources (AdminSubscribe kiosk_admins ''com.kiosk'' 100 EV_APP_START) (event_state0, ())))"

lemma event_run_step': "event_run E s \<Longrightarrow> has_room 32 (eventMgr (fst s)) \<Longrightarrow> event_run E (event_step E op s)"
  by (cases s) (auto intro: event_run.step)

lemma kiosk_run: "event_run quiet_sources (kiosk_state, ())"
proof -
  let ?s1 = "event_step quiet_sources (AdminSubscribe kiosk_admins ''com.kiosk'' 100 EV_APP_START) (event_state0, ())"
  have "event_run quiet_sources ?s1"
    by (rule event_run.step [OF event_run.start]) (simp add: has_room_def event_state0_def event_mgr0_def)
  moreover have "nextHandleId (eventMgr (fst ?s1)) = 2" by code_simp
  then have "has_room 32 (eventMgr (fst ?s1))" by (simp add: has_room_def)
  ultimately have "event_run quiet_sources (event_step quiet_sources (PolicySubscribe ''disallow_uinput'' EV_BOOT_COMPLETED 1051 True False) ?s1)"
    by (rule event_run_step')
  moreover have "s = (fst s, ())" for s :: "event_state \<times> unit" by (cases s) simp
  ultimately show ?thesis unfolding kiosk_state_def by metis
qed

lemma kiosk_facts:
  "nextHandleId (eventMgr kiosk_state) = 3" "admin_subscribed kiosk_state ''com.kiosk'' 100 EV_APP_START"
  "\<not> admin_subscribed kiosk_state ''com.kiosk'' 100 EV_APP_STOP"
  "policy_subscribed kiosk_state ''disallow_uinput'' EV_BOOT_COMPLETED \<noteq> None"
  by code_simp+

lemma kiosk_room: "has_room 32 (eventMgr kiosk_state)" "has_room 33 (eventMgr kiosk_state)"
  by (simp_all add: has_room_def kiosk_facts(1))

lemma events_reach_their_subscribers_witness:
  "length (filter (relayed ''com.kiosk'' 100) (DispatchEvent EV_APP_START (eventMgr kiosk_state))) = 1
   \<and> length (filter routed (DispatchEvent EV_BOOT_COMPLETED (eventMgr kiosk_state))) = 1"
proof -
  show ?thesis
    using kiosk_facts events_reach_their_subscribers [OF kiosk_run, of "''com.kiosk''" 100 EV_APP_START]
      events_reach_their_subscribers [OF kiosk_run, of "''com.kiosk''" 100 EV_BOOT_COMPLETED] by auto
qed

lemma event_calls_keep_other_subscriptions_witness:
  "admin_subscribed (fst (event_step quiet_sources (AdminRemoved ''com.other'' 100) (kiosk_state, ()))) ''com.kiosk'' 100 EV_APP_START"
proof -
  show ?thesis
    using kiosk_facts(2) kiosk_room(1) event_calls_keep_other_subscriptions [OF kiosk_run, of "AdminRemoved ''com.other'' 100" _ _ "''com.kiosk''" 100 EV_APP_START]
    by (cases "event_step quiet_sources (AdminRemoved ''com.other'' 100) (kiosk_state, ())") (simp add: admin_effect_def)
qed

lemma delayed_unsubscribe_spares_subscribed_groups_witness:
  "subscribers EV_APP_START (eventMgr kiosk_state) > 0
   \<and> map_option isSubscribed (map_of (eventGroups (fst (delayed_unsubscribe quiet_sources EV_APP_START (eventMgr kiosk_state, ())))) EV_APP_START) = Some True"
proof -
  have "subscribers EV_APP_START (eventMgr kiosk_state) > 0" by code_simp
  moreover have "map_option isSubscribed (map_of (eventGroups (eventMgr kiosk_state)) EV_APP_START) = Some True" by code_simp
  ultimately show ?thesis
    using delayed_unsubscribe_spares_subscribed_groups [OF kiosk_run, of EV_APP_START]
    by (cases "delayed_unsubscribe quiet_sources EV_APP_START (eventMgr kiosk_state, ())") simp
qed

lemma app_manager_start_restores_saved_events_witness:
  "\<not> admin_subscribed kiosk_state ''com.kiosk'' 100 EV_APP_STOP
   \<and> admin_subscribed (fst (OnAppManagerServiceStart quiet_sources kiosk_admins (kiosk_state, ()))) ''com.kiosk'' 100 EV_APP_STOP"
proof -
  have "length (restore_list kiosk_admins True) = 1" by code_simp
  then have "has_room (32 + length (restore_list kiosk_admins True)) (eventMgr kiosk_state)" using kiosk_room(2) by simp
  moreover have "(100, [kiosk_admin]) \<in> set (GetAllAdmins [] kiosk_admins) \<and> ''com.kiosk'' = packageName (adminInfo kiosk_admin)
    \<and> GetAdminByPkgName ''com.kiosk'' 100 kiosk_admins = Some kiosk_admin \<and> EV_APP_STOP \<in> set (managedEvents (adminInfo kiosk_admin))"
    by code_simp
  ultimately show ?thesis
    using kiosk_facts(3) app_manager_start_restores_saved_events [OF kiosk_run, of kiosk_admins _ _ "''com.kiosk''" 100 EV_APP_STOP]
    by (cases "OnAppManagerServiceStart quiet_sources kiosk_admins (kiosk_state, ())") force
qed

text \<open>An application manager that can be reached in the world \<open>True\<close> only.\<close>

definition late_sources :: "bool event_sources" where
  "late_sources = \<lparr> ces_Subscribe = (\<lambda>_ _ _ w. (ERR_OK, w)), ces_Unsubscribe = (\<lambda>_ _ _ w. (ERR_OK, w)),
     app_RegisterObserver = (\<lambda>w. (if w then 0 else 1, w)), app_UnregisterObserver = (\<lambda>w. (0, w)) \<rparr>"

lemma idle_group_is_registered_again_witness:
  "\<exists>st s. map_of (eventGroups (eventMgr (fst (event_step late_sources (RetryAdapters APP_LIFECYCLE) (st, True))))) EV_APP_START = Some s
    \<and> isSubscribed s \<and> refCount s = 0"
proof -
  have "fst (app_RegisterObserver late_sources False) \<noteq> 0" "fst (app_RegisterObserver late_sources True) = 0"
    by (simp_all add: late_sources_def)
  from idle_group_is_registered_again [OF this, of "''com.kiosk''" 100 kiosk_admins] show ?thesis by blast
qed

end
