(* ===== verification/Connections.thy ===== *)
theory Connections
  imports Event_Routing
begin

text \<open>
  \<open>services/edm/src/connection/*.cpp\<close>: how the service calls an administrator's ability. A connection is
  made when a callback is to be executed and there is none; until the ability has connected the
  callbacks wait in a queue, and the connected proxy executes them in their order.
\<close>

subsection \<open>State\<close>

text \<open>A remote object, and a connection callback, are their identities; a callback's fields are kept in the table
  of all that were created.\<close>

type_synonym remote_object = nat
type_synonym callback_id = nat

record conn_callback =
  cbBundleName :: string
  cbUserId :: user_id
  isStale :: bool

record connection_info =
  connProxy :: "remote_object option"
  connCallback :: "callback_id option"
  pendingCallbacks :: "callback_strategy list"
  isPending :: bool
  createTime :: int

record conn_mgr =
  connectionMap :: "(string, connection_info) amap"
  connCallbacks :: "conn_callback list"

definition conn_mgr0 :: conn_mgr where
  "conn_mgr0 = \<lparr> connectionMap = [], connCallbacks = [] \<rparr>"

datatype parcel_item = WString string | WInt32 int | WInt64 int | WBool bool | WStrings "string list"

text \<open>The ability manager, the clock, and what a remote object answers.\<close>

record 'w extension_service =
  ext_NowMs :: "'w \<Rightarrow> int"
  ext_TimeoutRatio :: "'w \<Rightarrow> int"
  ext_Connect :: "string \<Rightarrow> string \<Rightarrow> callback_id \<Rightarrow> user_id \<Rightarrow> 'w \<Rightarrow> err_code \<times> 'w"
  ext_Disconnect :: "callback_id \<Rightarrow> 'w \<Rightarrow> 'w"
  ext_IsObjectDead :: "remote_object \<Rightarrow> 'w \<Rightarrow> bool"
  ext_WriteInterfaceToken :: "'w \<Rightarrow> bool"
  ext_SendRequest :: "remote_object \<Rightarrow> u32 \<Rightarrow> parcel_item list \<Rightarrow> 'w \<Rightarrow> err_code \<times> 'w"

subsection \<open>The proxy and the strategies\<close>

definition proxy_send :: "'w extension_service \<Rightarrow> remote_object \<Rightarrow> u32 \<Rightarrow> parcel_item list \<Rightarrow> 'w \<Rightarrow> bool \<times> 'w" where
  "proxy_send X r code items w =
     (if \<not> ext_WriteInterfaceToken X w then (False, w)
      else (let (result, w) = ext_SendRequest X r code items w in (result = ERR_OK, w)))"

definition IsValid :: "'w extension_service \<Rightarrow> remote_object \<Rightarrow> 'w \<Rightarrow> bool" where
  "IsValid X r w = (\<not> ext_IsObjectDead X r w)"

text \<open>The codes of \<open>ienterprise_admin.h\<close> the proxy fixes itself.\<close>

abbreviation COMMAND_ON_SYSTEM_UPDATE :: u32 where "COMMAND_ON_SYSTEM_UPDATE \<equiv> 7"
abbreviation COMMAND_ON_MARKET_INSTALL_STATUS_CHANGED :: u32 where "COMMAND_ON_MARKET_INSTALL_STATUS_CHANGED \<equiv> 13"
abbreviation COMMAND_ON_LOG_COLLECTED :: u32 where "COMMAND_ON_LOG_COLLECTED \<equiv> 16"
abbreviation COMMAND_ON_KEY_EVENT :: u32 where "COMMAND_ON_KEY_EVENT \<equiv> 17"
abbreviation COMMAND_ON_STARTUP_GUIDE_COMPLETED :: u32 where "COMMAND_ON_STARTUP_GUIDE_COMPLETED \<equiv> 18"
abbreviation COMMAND_ON_DEVICE_BOOT_COMPLETED :: u32 where "COMMAND_ON_DEVICE_BOOT_COMPLETED \<equiv> 19"
abbreviation COMMAND_ON_POLICIES_CHANGED :: u32 where "COMMAND_ON_POLICIES_CHANGED \<equiv> 21"
abbreviation COMMAND_ON_UNMOUNT_EXTERNAL_STORAGE_DEVICE :: u32 where "COMMAND_ON_UNMOUNT_EXTERNAL_STORAGE_DEVICE \<equiv> 22"

definition OnAdmin :: "'w extension_service \<Rightarrow> remote_object \<Rightarrow> u32 \<Rightarrow> 'w \<Rightarrow> bool \<times> 'w" where
  "OnAdmin X r code = proxy_send X r code []"

definition OnDeviceBootCompleted :: "'w extension_service \<Rightarrow> remote_object \<Rightarrow> 'w \<Rightarrow> bool \<times> 'w" where
  "OnDeviceBootCompleted X r = proxy_send X r COMMAND_ON_DEVICE_BOOT_COMPLETED []"

definition OnDeviceAdmin :: "'w extension_service \<Rightarrow> remote_object \<Rightarrow> u32 \<Rightarrow> string \<Rightarrow> 'w \<Rightarrow> bool \<times> 'w" where
  "OnDeviceAdmin X r code bundleName = proxy_send X r code [WString bundleName]"

definition OnApp :: "'w extension_service \<Rightarrow> remote_object \<Rightarrow> u32 \<Rightarrow> string \<Rightarrow> 'w \<Rightarrow> bool \<times> 'w" where
  "OnApp X r code bundleName = proxy_send X r code [WString bundleName]"

definition OnKeyEvent :: "'w extension_service \<Rightarrow> remote_object \<Rightarrow> string \<Rightarrow> 'w \<Rightarrow> bool \<times> 'w" where
  "OnKeyEvent X r keyEvent = proxy_send X r COMMAND_ON_KEY_EVENT [WString keyEvent]"

definition OnBundle :: "'w extension_service \<Rightarrow> remote_object \<Rightarrow> u32 \<Rightarrow> string \<Rightarrow> int \<Rightarrow> 'w \<Rightarrow> bool \<times> 'w" where
  "OnBundle X r code bundleName accountId = proxy_send X r code [WString bundleName, WInt32 accountId]"

definition Proxy_OnKioskMode :: "'w extension_service \<Rightarrow> remote_object \<Rightarrow> u32 \<Rightarrow> string \<Rightarrow> int \<Rightarrow> 'w \<Rightarrow> bool \<times> 'w" where
  "Proxy_OnKioskMode X r code bundleName accountId = proxy_send X r code [WString bundleName, WInt32 accountId]"

definition OnMarketAppsInstallStatusChanged :: "'w extension_service \<Rightarrow> remote_object \<Rightarrow> string \<Rightarrow> int \<Rightarrow> 'w \<Rightarrow> bool \<times> 'w" where
  "OnMarketAppsInstallStatusChanged X r bundleName status =
     proxy_send X r COMMAND_ON_MARKET_INSTALL_STATUS_CHANGED [WString bundleName, WInt32 status]"

definition OnAccount :: "'w extension_service \<Rightarrow> remote_object \<Rightarrow> u32 \<Rightarrow> int \<Rightarrow> 'w \<Rightarrow> bool \<times> 'w" where
  "OnAccount X r code accountId = proxy_send X r code [WInt32 accountId]"

definition OnStartupGuideCompleted :: "'w extension_service \<Rightarrow> remote_object \<Rightarrow> int \<Rightarrow> 'w \<Rightarrow> bool \<times> 'w" where
  "OnStartupGuideCompleted X r type = proxy_send X r COMMAND_ON_STARTUP_GUIDE_COMPLETED [WInt32 type]"

definition OnLogCollected :: "'w extension_service \<Rightarrow> remote_object \<Rightarrow> bool \<Rightarrow> 'w \<Rightarrow> bool \<times> 'w" where
  "OnLogCollected X r isSuccess = proxy_send X r COMMAND_ON_LOG_COLLECTED [WBool isSuccess]"

definition OnSystemUpdate :: "'w extension_service \<Rightarrow> remote_object \<Rightarrow> string \<Rightarrow> int \<Rightarrow> string \<Rightarrow> 'w \<Rightarrow> bool \<times> 'w" where
  "OnSystemUpdate X r version firstReceivedTime packageType =
     proxy_send X r COMMAND_ON_SYSTEM_UPDATE [WString version, WInt64 firstReceivedTime, WString packageType]"

text \<open>The marshalling of a changed policy, and of a storage device.\<close>

definition OnAdminPolicyChanged :: "'w extension_service \<Rightarrow> remote_object \<Rightarrow> string \<Rightarrow> string \<Rightarrow> string \<Rightarrow> int \<Rightarrow> 'w \<Rightarrow> bool \<times> 'w" where
  "OnAdminPolicyChanged X r interfaceName adminName params time =
     proxy_send X r COMMAND_ON_POLICIES_CHANGED [WString interfaceName, WString adminName, WString params, WInt64 time]"

definition storage_device_items :: "storage_device \<Rightarrow> parcel_item list" where
  "storage_device_items d = [WInt32 (sdType d), WString (sdPath d), WString (sdVolumeId d), WBool (sdMountStatus d),
     WInt32 (sdVendorId d), WInt32 (sdProductId d), WString (sdSerial d)]"

definition OnUnmountExternalStorageDevice :: "'w extension_service \<Rightarrow> remote_object \<Rightarrow> storage_device \<Rightarrow> 'w \<Rightarrow> bool \<times> 'w" where
  "OnUnmountExternalStorageDevice X r d =
     proxy_send X r COMMAND_ON_UNMOUNT_EXTERNAL_STORAGE_DEVICE (storage_device_items d)"

definition Execute :: "'w extension_service \<Rightarrow> callback_strategy \<Rightarrow> remote_object \<Rightarrow> 'w \<Rightarrow> bool \<times> 'w" where
  "Execute X cb r w = (case cb of
       StartStrategy \<Rightarrow> (True, w)
     | AdminStrategy code \<Rightarrow> OnAdmin X r (of_nat code) w
     | DeviceAdminStrategy code b \<Rightarrow> OnDeviceAdmin X r (of_nat code) b w
     | BundleStrategy code b u \<Rightarrow> OnBundle X r (of_nat code) b u w
     | AppStrategy code b \<Rightarrow> OnApp X r (of_nat code) b w
     | SystemUpdateStrategy v t p \<Rightarrow> OnSystemUpdate X r v t p w
     | AccountStrategy code u \<Rightarrow> OnAccount X r (of_nat code) u w
     | KioskModeStrategy code b u \<Rightarrow> Proxy_OnKioskMode X r (of_nat code) b u w
     | MarketAppsInstallStatusChangedStrategy b st \<Rightarrow> OnMarketAppsInstallStatusChanged X r b st w
     | LogCollectedStrategy ok \<Rightarrow> OnLogCollected X r ok w
     | KeyEventStrategy k \<Rightarrow> OnKeyEvent X r k w
     | StartupGuideCompletedStrategy t \<Rightarrow> OnStartupGuideCompleted X r (sint t) w
     | DeviceBootCompletedStrategy \<Rightarrow> OnDeviceBootCompleted X r w
     | AdminPolicyChangedStrategy i a ps t \<Rightarrow> OnAdminPolicyChanged X r i a ps t w
     | UnmountExternalStorageDeviceStrategy d \<Rightarrow> OnUnmountExternalStorageDevice X r d w)"

subsection \<open>The connection manager\<close>

definition GenerateConnectionKey :: "string \<Rightarrow> user_id \<Rightarrow> string" where
  "GenerateConnectionKey bundleName userId = bundleName @ ''_'' @ int_to_string userId"

definition IsConnectionTimeout :: "'w extension_service \<Rightarrow> connection_info \<Rightarrow> 'w \<Rightarrow> bool" where
  "IsConnectionTimeout X info w =
     (if \<not> isPending info then False
      else (let elapsed = ext_NowMs X w - createTime info; timeoutMs = 10000 * ext_TimeoutRatio X w in elapsed > timeoutMs))"

definition MarkStale :: "callback_id \<Rightarrow> conn_mgr \<Rightarrow> conn_mgr" where
  "MarkStale i m = m\<lparr>connCallbacks := (connCallbacks m)[i := (connCallbacks m ! i)\<lparr>isStale := True\<rparr>]\<rparr>"

definition DisconnectStaleCallback :: "'w extension_service \<Rightarrow> callback_id option \<Rightarrow> conn_mgr \<times> 'w \<Rightarrow> conn_mgr \<times> 'w" where
  "DisconnectStaleCallback X callback = (\<lambda>(m, w). case callback of
       None \<Rightarrow> (m, w) | Some i \<Rightarrow> (MarkStale i m, ext_Disconnect X i w))"

definition PrepareNewConnection :: "'w extension_service \<Rightarrow> string \<Rightarrow> callback_strategy \<Rightarrow> conn_mgr \<times> 'w \<Rightarrow> conn_mgr" where
  "PrepareNewConnection X key cb = (\<lambda>(m, w).
     (let info = (case map_of (connectionMap m) key of
          Some info \<Rightarrow> info\<lparr>isPending := True, createTime := ext_NowMs X w, pendingCallbacks := pendingCallbacks info @ [cb]\<rparr>
        | None \<Rightarrow> \<lparr> connProxy = None, connCallback = None, pendingCallbacks = [cb], isPending = True, createTime = ext_NowMs X w \<rparr>)
      in m\<lparr>connectionMap := AList.update key info (connectionMap m)\<rparr>))"

text \<open>The answers are the existing proxy, whether a connection has to be made, and the callback of a connection
  that has timed out.\<close>

definition CheckConnectionState :: "'w extension_service \<Rightarrow> string \<Rightarrow> callback_strategy \<Rightarrow> conn_mgr \<times> 'w
    \<Rightarrow> remote_object option \<times> bool \<times> callback_id option \<times> conn_mgr" where
  "CheckConnectionState X key cb = (\<lambda>(m, w).
     (let (stale, m) =
        (case map_of (connectionMap m) key of
           None \<Rightarrow> (None, m)
         | Some info \<Rightarrow>
             (if IsConnectionTimeout X info w
              then (connCallback info,
                    (case connCallback info of None \<Rightarrow> m | Some i \<Rightarrow> MarkStale i m)
                      \<lparr>connectionMap := AList.delete key (connectionMap m)\<rparr>)
              else (None, m)))
      in case map_of (connectionMap m) key of
           Some info \<Rightarrow>
             (case connProxy info of
                Some r \<Rightarrow> (Some r, False, stale, m)
              | None \<Rightarrow>
                  (if isPending info
                   then (None, False, stale, m\<lparr>connectionMap :=
                          AList.update key (info\<lparr>pendingCallbacks := pendingCallbacks info @ [cb]\<rparr>) (connectionMap m)\<rparr>)
                   else (None, True, stale, PrepareNewConnection X key cb (m, w))))
         | None \<Rightarrow> (None, True, stale, PrepareNewConnection X key cb (m, w))))"

definition EstablishConnection :: "'w extension_service \<Rightarrow> string \<Rightarrow> string \<Rightarrow> user_id \<Rightarrow> conn_mgr \<times> 'w \<Rightarrow> bool \<times> conn_mgr \<times> 'w" where
  "EstablishConnection X bundleName abilityName userId = (\<lambda>(m, w).
     (let key = GenerateConnectionKey bundleName userId;
          oldCallback = (case map_of (connectionMap m) key of None \<Rightarrow> None | Some info \<Rightarrow> connCallback info);
          (m, w) = DisconnectStaleCallback X oldCallback (m, w);
          i = length (connCallbacks m);
          m = m\<lparr>connCallbacks := connCallbacks m @ [\<lparr> cbBundleName = bundleName, cbUserId = userId, isStale = False \<rparr>]\<rparr>;
          (ret, w) = ext_Connect X bundleName abilityName i userId w
      in if ret \<noteq> ERR_OK then (False, m\<lparr>connectionMap := AList.delete key (connectionMap m)\<rparr>, w)
         else (True, (case map_of (connectionMap m) key of
                 None \<Rightarrow> m
               | Some info \<Rightarrow> m\<lparr>connectionMap := AList.update key (info\<lparr>connCallback := Some i\<rparr>) (connectionMap m)\<rparr>), w)))"

definition RequeueAndReconnect :: "'w extension_service \<Rightarrow> string \<Rightarrow> string \<Rightarrow> user_id \<Rightarrow> string \<Rightarrow> callback_strategy
    \<Rightarrow> conn_mgr \<times> 'w \<Rightarrow> bool \<times> conn_mgr \<times> 'w" where
  "RequeueAndReconnect X bundleName abilityName userId key cb = (\<lambda>(m, w).
     (case map_of (connectionMap m) key of
        None \<Rightarrow> (False, m, w)
      | Some info \<Rightarrow>
          (let info' = info\<lparr>connProxy := None, isPending := True, createTime := ext_NowMs X w,
                            pendingCallbacks := pendingCallbacks info @ [cb]\<rparr>;
               m = m\<lparr>connectionMap := AList.update key info' (connectionMap m)\<rparr>;
               s = DisconnectStaleCallback X (connCallback info) (m, w)
           in EstablishConnection X bundleName abilityName userId s)))"

definition ExecuteCallback :: "'w extension_service \<Rightarrow> string \<Rightarrow> string \<Rightarrow> user_id \<Rightarrow> callback_strategy option
    \<Rightarrow> conn_mgr \<times> 'w \<Rightarrow> bool \<times> conn_mgr \<times> 'w" where
  "ExecuteCallback X bundleName abilityName userId strategy = (\<lambda>(m, w).
     (case strategy of
        None \<Rightarrow> (False, m, w)
      | Some cb \<Rightarrow>
          (let key = GenerateConnectionKey bundleName userId;
               (existingProxy, needCreateConnection, stale, m) = CheckConnectionState X key cb (m, w);
               (m, w) = DisconnectStaleCallback X stale (m, w)
           in case existingProxy of
                Some r \<Rightarrow>
                  (if \<not> IsValid X r w then RequeueAndReconnect X bundleName abilityName userId key cb (m, w)
                   else (let (ret, w) = Execute X cb r w
                         in if \<not> ret then RequeueAndReconnect X bundleName abilityName userId key cb (m, w) else (True, m, w)))
              | None \<Rightarrow>
                  (if \<not> needCreateConnection then (True, m, w)
                   else EstablishConnection X bundleName abilityName userId (m, w)))))"

fun execute_all :: "'w extension_service \<Rightarrow> remote_object \<Rightarrow> callback_strategy list \<Rightarrow> 'w \<Rightarrow> 'w" where
  "execute_all X r [] w = w"
| "execute_all X r (cb # cbs) w = execute_all X r cbs (snd (Execute X cb r w))"

definition SaveProxy :: "'w extension_service \<Rightarrow> string \<Rightarrow> user_id \<Rightarrow> remote_object option \<Rightarrow> conn_mgr \<times> 'w \<Rightarrow> conn_mgr \<times> 'w" where
  "SaveProxy X bundleName userId proxy = (\<lambda>(m, w).
     (case proxy of
        None \<Rightarrow> (m, w)
      | Some r \<Rightarrow>
          (let key = GenerateConnectionKey bundleName userId in
           case map_of (connectionMap m) key of
             None \<Rightarrow> (m, w)
           | Some info \<Rightarrow>
               (m\<lparr>connectionMap := AList.update key (info\<lparr>connProxy := Some r, isPending := False, pendingCallbacks := []\<rparr>)
                    (connectionMap m)\<rparr>, execute_all X r (pendingCallbacks info) w))))"

definition RemoveRemoteObject :: "string \<Rightarrow> user_id \<Rightarrow> conn_mgr \<Rightarrow> conn_mgr" where
  "RemoveRemoteObject bundleName userId m =
     m\<lparr>connectionMap := AList.delete (GenerateConnectionKey bundleName userId) (connectionMap m)\<rparr>"

definition ClearConnections :: "'w extension_service \<Rightarrow> conn_mgr \<times> 'w \<Rightarrow> conn_mgr \<times> 'w" where
  "ClearConnections X = (\<lambda>(m, w).
     (let stale = List.map_filter (connCallback \<circ> snd) (connectionMap m);
          m = (fold MarkStale stale m)\<lparr>connectionMap := []\<rparr>
      in (m, fold (ext_Disconnect X) stale w)))"

subsection \<open>The callback of a connection\<close>

definition OnAbilityConnectDone :: "'w extension_service \<Rightarrow> callback_id \<Rightarrow> remote_object option \<Rightarrow> err_code
    \<Rightarrow> conn_mgr \<times> 'w \<Rightarrow> conn_mgr \<times> 'w" where
  "OnAbilityConnectDone X i remoteObject resultCode = (\<lambda>(m, w).
     (let cb = connCallbacks m ! i in
      if isStale cb then (m, w)
      else if resultCode \<noteq> ERR_OK \<or> remoteObject = None then (RemoveRemoteObject (cbBundleName cb) (cbUserId cb) m, w)
      else SaveProxy X (cbBundleName cb) (cbUserId cb) remoteObject (m, w)))"

text \<open>\<open>currentUser\<close> is the answer of the account manager; the log directory of the PC build is left out.\<close>

definition OnAbilityDisconnectDone :: "'w extension_service \<Rightarrow> container \<Rightarrow> user_id \<Rightarrow> callback_id \<Rightarrow> conn_mgr \<times> 'w \<Rightarrow> conn_mgr \<times> 'w" where
  "OnAbilityDisconnectDone X c currentUser i = (\<lambda>(m, w).
     (let cb = connCallbacks m ! i in
      if isStale cb then (m, w)
      else
        (let m = RemoveRemoteObject (cbBundleName cb) (cbUserId cb) m in
         if currentUser < 0 then (m, w)
         else (case GetAdminByPkgName (cbBundleName cb) currentUser c of
                 None \<Rightarrow> (m, w)
               | Some a \<Rightarrow>
                   (if IsEnterpriseAdminKeepAlive a
                    then snd (ExecuteCallback X (packageName (adminInfo a)) (className (adminInfo a)) currentUser
                           (Some StartStrategy) (m, w))
                    else (m, w))))))"

end
