(* ===== verification/Connection_Queues.thy ===== *)
theory Connection_Queues
  imports Connections Event_Delivery
begin

text \<open>
  What the connections keep: every entry is either connected and has no callback waiting, or waits for the
  answer of a connection callback that is still valid. So a callback the service accepts is executed at
  once or when the ability connects, in the order of acceptance.
\<close>

subsection \<open>The invariant\<close>

definition callback_key :: "conn_callback \<Rightarrow> string" where
  "callback_key cb = GenerateConnectionKey (cbBundleName cb) (cbUserId cb)"

definition waits_for :: "conn_callback list \<Rightarrow> string \<Rightarrow> callback_id \<Rightarrow> bool" where
  "waits_for cbs key i = (i < length cbs \<and> \<not> isStale (cbs ! i) \<and> callback_key (cbs ! i) = key)"

definition queue_ok :: "connection_info \<Rightarrow> bool" where
  "queue_ok info = (case connProxy info of
       None \<Rightarrow> isPending info \<and> pendingCallbacks info \<noteq> []
     | Some _ \<Rightarrow> \<not> isPending info \<and> pendingCallbacks info = [])"

definition entry_ok :: "conn_callback list \<Rightarrow> string \<Rightarrow> connection_info \<Rightarrow> bool" where
  "entry_ok cbs key info = (queue_ok info \<and> (case connCallback info of None \<Rightarrow> False | Some i \<Rightarrow> waits_for cbs key i))"

definition conn_ok :: "conn_mgr \<Rightarrow> bool" where
  "conn_ok m = (\<forall>key info. map_of (connectionMap m) key = Some info \<longrightarrow> entry_ok (connCallbacks m) key info)"

definition others_ok :: "conn_mgr \<Rightarrow> string \<Rightarrow> bool" where
  "others_ok m key = (\<forall>key' info. key' \<noteq> key \<longrightarrow> map_of (connectionMap m) key' = Some info \<longrightarrow> entry_ok (connCallbacks m) key' info)"

lemma conn_okD: "conn_ok m \<Longrightarrow> map_of (connectionMap m) key = Some info \<Longrightarrow> entry_ok (connCallbacks m) key info"
  by (simp add: conn_ok_def)

lemma conn_ok_iff: "conn_ok m \<longleftrightarrow> others_ok m key \<and> (\<forall>info. map_of (connectionMap m) key = Some info \<longrightarrow> entry_ok (connCallbacks m) key info)"
  by (auto simp: conn_ok_def others_ok_def)

lemma conn_ok_others: "conn_ok m \<Longrightarrow> others_ok m key"
  by (simp add: conn_ok_iff [of m key])

lemma entry_ok_append: "entry_ok cbs key info \<Longrightarrow> entry_ok (cbs @ [c]) key info"
  by (auto simp: entry_ok_def waits_for_def nth_append split: option.splits)

lemma entry_ok_mark:
  assumes "entry_ok cbs key info" "callback_key (cbs ! j) \<noteq> key"
  shows "entry_ok (cbs[j := c]) key info"
proof -
  obtain i where i: "connCallback info = Some i" "waits_for cbs key i" "queue_ok info"
    using assms(1) by (auto simp: entry_ok_def split: option.splits)
  then have "j \<noteq> i" using assms(2) by (auto simp: waits_for_def)
  then show ?thesis using i by (simp add: entry_ok_def waits_for_def)
qed

lemma callback_key_mark: "callback_key (cbs[i := (cbs ! i)\<lparr>isStale := True\<rparr>] ! j) = callback_key (cbs ! j)"
  by (cases "j = i"; cases "i < length cbs") (simp_all add: callback_key_def list_update_beyond)

lemma others_ok_map:
  assumes "others_ok m key" "\<And>key'. key' \<noteq> key \<Longrightarrow> map_of (connectionMap m') key' = map_of (connectionMap m) key'"
    "connCallbacks m' = connCallbacks m"
  shows "others_ok m' key"
  using assms by (simp add: others_ok_def)

lemma others_ok_Mark: "others_ok m key \<Longrightarrow> callback_key (connCallbacks m ! i) = key \<Longrightarrow> others_ok (MarkStale i m) key"
  by (auto simp: others_ok_def MarkStale_def intro!: entry_ok_mark)

lemma others_ok_new: "others_ok m key \<Longrightarrow> others_ok (m\<lparr>connCallbacks := connCallbacks m @ [c]\<rparr>) key"
  by (auto simp: others_ok_def intro: entry_ok_append)

lemma MarkStale_same [simp]:
  "connectionMap (MarkStale i m) = connectionMap m" "length (connCallbacks (MarkStale i m)) = length (connCallbacks m)"
  by (simp_all add: MarkStale_def)

lemma conn_ok0: "conn_ok conn_mgr0"
  by (simp add: conn_ok_def conn_mgr0_def)

subsection \<open>Making a connection\<close>

definition of_key :: "conn_mgr \<Rightarrow> string \<Rightarrow> callback_id option \<Rightarrow> bool" where
  "of_key m key c = (case c of None \<Rightarrow> True | Some i \<Rightarrow> callback_key (connCallbacks m ! i) = key)"

lemma Disconnect_result:
  assumes "others_ok m key" "of_key m key c" "DisconnectStaleCallback X c (m, w) = (m', w')"
  shows "others_ok m' key \<and> connectionMap m' = connectionMap m \<and> length (connCallbacks m') = length (connCallbacks m)
    \<and> (\<forall>i. callback_key (connCallbacks m' ! i) = callback_key (connCallbacks m ! i))"
proof (cases c)
  case None
  then show ?thesis using assms by (simp add: DisconnectStaleCallback_def)
next
  case (Some i)
  then have "m' = MarkStale i m" "callback_key (connCallbacks m ! i) = key"
    using assms(2,3) by (simp_all add: DisconnectStaleCallback_def of_key_def)
  moreover have "callback_key (connCallbacks (MarkStale i m) ! j) = callback_key (connCallbacks m ! j)" for j
    by (simp add: MarkStale_def callback_key_mark)
  ultimately show ?thesis using others_ok_Mark [OF assms(1)] by simp
qed

lemma Establish_result:
  assumes "others_ok m key" "key = GenerateConnectionKey b u" "map_of (connectionMap m) key = Some info" "queue_ok info"
    "of_key m key (connCallback info)" "EstablishConnection X b a u (m, w) = (ok, m', w')"
  shows "conn_ok m' \<and> (ok \<longrightarrow> (\<exists>i. waits_for (connCallbacks m') key i \<and> map_of (connectionMap m') key = Some (info\<lparr>connCallback := Some i\<rparr>)))
    \<and> (\<not> ok \<longrightarrow> map_of (connectionMap m') key = None)"
proof -
  obtain m1 w1 where 1: "DisconnectStaleCallback X (connCallback info) (m, w) = (m1, w1)" by (rule prod.exhaust)
  note d = Disconnect_result [OF assms(1,5) 1]
  define i where "i = length (connCallbacks m1)"
  define c where "c = \<lparr> cbBundleName = b, cbUserId = u, isStale = False \<rparr>"
  define m2 where "m2 = m1\<lparr>connCallbacks := connCallbacks m1 @ [c]\<rparr>"
  have o: "others_ok m2 key" unfolding m2_def using d by (intro others_ok_new) simp
  have look: "map_of (connectionMap m2) key = Some info" using d assms(3) by (simp add: m2_def)
  have i: "waits_for (connCallbacks m2) key i"
    by (simp add: waits_for_def m2_def i_def c_def callback_key_def assms(2))
  obtain ret w2 where 2: "ext_Connect X b a i u w1 = (ret, w2)" by (rule prod.exhaust)
  have res: "(ok, m') = (if ret \<noteq> ERR_OK then (False, m2\<lparr>connectionMap := AList.delete key (connectionMap m2)\<rparr>)
      else (True, m2\<lparr>connectionMap := AList.update key (info\<lparr>connCallback := Some i\<rparr>) (connectionMap m2)\<rparr>))"
    using assms(6) look unfolding EstablishConnection_def
    by (simp add: assms(2) [symmetric] assms(3) 1 i_def [symmetric] c_def [symmetric] m2_def [symmetric] 2 Let_def split: if_splits)
  show ?thesis
  proof (cases "ret = ERR_OK")
    case False
    then have m': "m' = m2\<lparr>connectionMap := AList.delete key (connectionMap m2)\<rparr>" "\<not> ok" using res by simp_all
    have "others_ok m' key" by (rule others_ok_map [OF o]) (simp_all add: m')
    then show ?thesis by (simp add: conn_ok_iff [of m' key]) (simp add: m')
  next
    case True
    then have m': "m' = m2\<lparr>connectionMap := AList.update key (info\<lparr>connCallback := Some i\<rparr>) (connectionMap m2)\<rparr>" "ok" using res by simp_all
    have "others_ok m' key" by (rule others_ok_map [OF o]) (simp_all add: m')
    moreover have "queue_ok (info\<lparr>connCallback := Some i\<rparr>)" using assms(4) by (simp add: queue_ok_def split: option.splits)
    ultimately show ?thesis using i by (simp add: conn_ok_iff [of m' key]) (auto simp: m' entry_ok_def)
  qed
qed

lemma entry_ok_of_key: "entry_ok (connCallbacks m) key info \<Longrightarrow> of_key m key (connCallback info)"
  by (auto simp: entry_ok_def waits_for_def of_key_def split: option.splits)

lemma Requeue_result:
  assumes "conn_ok m" "key = GenerateConnectionKey b u" "map_of (connectionMap m) key = Some info"
    "RequeueAndReconnect X b a u key cb (m, w) = (ok, m', w')"
  shows "conn_ok m' \<and> (ok \<longrightarrow> (\<exists>i info'. waits_for (connCallbacks m') key i \<and> map_of (connectionMap m') key = Some info' \<and>
    connCallback info' = Some i \<and> pendingCallbacks info' = pendingCallbacks info @ [cb]))"
proof -
  define info' where "info' = info\<lparr>connProxy := None, isPending := True, createTime := ext_NowMs X w,
    pendingCallbacks := pendingCallbacks info @ [cb]\<rparr>"
  define m1 where "m1 = m\<lparr>connectionMap := AList.update key info' (connectionMap m)\<rparr>"
  obtain m2 w2 where 2: "DisconnectStaleCallback X (connCallback info) (m1, w) = (m2, w2)" by (rule prod.exhaust)
  have o: "others_ok m1 key" by (rule others_ok_map [OF conn_ok_others [OF assms(1)]]) (simp_all add: m1_def)
  have k: "of_key m1 key (connCallback info)"
    using entry_ok_of_key [OF conn_okD [OF assms(1,3)]] by (simp add: of_key_def m1_def split: option.splits)
  note d = Disconnect_result [OF o k 2]
  have k2: "of_key m2 key (connCallback info')" using d k by (simp add: of_key_def info'_def split: option.splits)
  have q: "queue_ok info'" by (simp add: queue_ok_def info'_def)
  have l: "map_of (connectionMap m2) key = Some info'" using d by (simp add: m1_def)
  have e: "EstablishConnection X b a u (m2, w2) = (ok, m', w')"
    using assms(4) by (simp add: RequeueAndReconnect_def assms(3) info'_def [symmetric] m1_def [symmetric] 2 Let_def)
  have p: "pendingCallbacks (info'\<lparr>connCallback := c\<rparr>) = pendingCallbacks info @ [cb]" for c by (simp add: info'_def)
  show ?thesis
    using Establish_result [OF conjunct1 [OF d] assms(2) l q k2 e] p by (metis connection_info.select_convs(2) connection_info.surjective connection_info.update_convs(2))
qed

subsection \<open>Accepting a callback\<close>

text \<open>The entry the callback goes to: the one of the key, unless it has timed out.\<close>

definition live_entry :: "'w extension_service \<Rightarrow> string \<Rightarrow> conn_mgr \<times> 'w \<Rightarrow> connection_info option" where
  "live_entry X key = (\<lambda>(m, w). case map_of (connectionMap m) key of
       None \<Rightarrow> None | Some info \<Rightarrow> if IsConnectionTimeout X info w then None else Some info)"

lemma conn_ok_delete: "others_ok m key \<Longrightarrow> conn_ok (m\<lparr>connectionMap := AList.delete key (connectionMap m)\<rparr>)"
  by (auto simp: conn_ok_iff [of _ key] others_ok_def)

lemma conn_ok_update:
  assumes "others_ok m key" "entry_ok (connCallbacks m) key info"
  shows "conn_ok (m\<lparr>connectionMap := AList.update key info (connectionMap m)\<rparr>)"
  using assms by (auto simp: conn_ok_iff [of _ key] others_ok_def)

lemma Execute_connected:
  assumes "live_entry X (GenerateConnectionKey b u) (m, w) = Some info" "connProxy info = Some r"
  shows "ExecuteCallback X b a u (Some cb) (m, w) =
    (if IsValid X r w \<and> fst (Execute X cb r w) then (True, m, snd (Execute X cb r w))
     else RequeueAndReconnect X b a u (GenerateConnectionKey b u) cb
       (m, if IsValid X r w then snd (Execute X cb r w) else w))"
  using assms
  by (auto simp: ExecuteCallback_def CheckConnectionState_def live_entry_def DisconnectStaleCallback_def Let_def
      split: option.splits if_splits prod.splits)

lemma Execute_pending:
  assumes "live_entry X (GenerateConnectionKey b u) (m, w) = Some info" "connProxy info = None" "isPending info"
  shows "ExecuteCallback X b a u (Some cb) (m, w) = (True, m\<lparr>connectionMap := AList.update (GenerateConnectionKey b u)
     (info\<lparr>pendingCallbacks := pendingCallbacks info @ [cb]\<rparr>) (connectionMap m)\<rparr>, w)"
  using assms
  by (auto simp: ExecuteCallback_def CheckConnectionState_def live_entry_def DisconnectStaleCallback_def Let_def
      split: option.splits if_splits prod.splits)

definition fresh_entry :: "'w extension_service \<Rightarrow> callback_strategy \<Rightarrow> 'w \<Rightarrow> connection_info" where
  "fresh_entry X cb w = \<lparr> connProxy = None, connCallback = None, pendingCallbacks = [cb], isPending = True, createTime = ext_NowMs X w \<rparr>"

lemma Execute_new:
  assumes "conn_ok m" "key = GenerateConnectionKey b u" "live_entry X key (m, w) = None"
  obtains m1 w1 where "others_ok m1 key" "map_of (connectionMap m1) key = Some (fresh_entry X cb w)"
    "ExecuteCallback X b a u (Some cb) (m, w) = EstablishConnection X b a u (m1, w1)"
proof (cases "map_of (connectionMap m) key")
  case None
  define m1 where "m1 = m\<lparr>connectionMap := AList.update key (fresh_entry X cb w) (connectionMap m)\<rparr>"
  show ?thesis
  proof (rule that [of m1 w])
    show "others_ok m1 key" by (rule others_ok_map [OF conn_ok_others [OF assms(1)]]) (simp_all add: m1_def)
    show "map_of (connectionMap m1) key = Some (fresh_entry X cb w)" by (simp add: m1_def)
    show "ExecuteCallback X b a u (Some cb) (m, w) = EstablishConnection X b a u (m1, w)"
      using None unfolding assms(2)
      by (simp add: ExecuteCallback_def CheckConnectionState_def PrepareNewConnection_def DisconnectStaleCallback_def
          m1_def assms(2) fresh_entry_def Let_def)
  qed
next
  case (Some info)
  then have t: "IsConnectionTimeout X info w" using assms(3) by (simp add: live_entry_def split: if_splits)
  obtain i where i: "connCallback info = Some i" "callback_key (connCallbacks m ! i) = key"
    using conn_okD [OF assms(1) Some] by (auto simp: entry_ok_def waits_for_def split: option.splits)
  define m0 where "m0 = (MarkStale i m)\<lparr>connectionMap := AList.update key (fresh_entry X cb w) (AList.delete key (connectionMap m))\<rparr>"
  obtain m1 w1 where 1: "DisconnectStaleCallback X (Some i) (m0, w) = (m1, w1)" by (rule prod.exhaust)
  have "others_ok (MarkStale i m) key" by (rule others_ok_Mark [OF conn_ok_others [OF assms(1)] i(2)])
  then have o: "others_ok m0 key" by (rule others_ok_map) (simp_all add: m0_def)
  have k: "of_key m0 key (Some i)" using i(2) by (simp add: of_key_def m0_def MarkStale_def callback_key_mark)
  note d = Disconnect_result [OF o k 1]
  show ?thesis
  proof (rule that [of m1 w1])
    show "others_ok m1 key" using d by simp
    show "map_of (connectionMap m1) key = Some (fresh_entry X cb w)" using d by (simp add: m0_def)
    have "CheckConnectionState X key cb (m, w) = (None, True, Some i, m0)"
      by (simp add: CheckConnectionState_def Some t i(1) PrepareNewConnection_def m0_def fresh_entry_def Let_def delete_conv)
    then show "ExecuteCallback X b a u (Some cb) (m, w) = EstablishConnection X b a u (m1, w1)"
      using 1 unfolding assms(2) by (simp add: ExecuteCallback_def Let_def)
  qed
qed

text \<open>The callback waits, after those accepted before it, for the answer of a connection callback that is valid.\<close>

definition waiting_last :: "conn_mgr \<Rightarrow> string \<Rightarrow> callback_strategy \<Rightarrow> callback_id \<Rightarrow> callback_strategy list \<Rightarrow> bool" where
  "waiting_last m key cb i q = (waits_for (connCallbacks m) key i \<and> (\<exists>info. map_of (connectionMap m) key = Some info \<and>
     connCallback info = Some i \<and> pendingCallbacks info = q @ [cb]))"

definition queue_of :: "connection_info option \<Rightarrow> callback_strategy list" where
  "queue_of e = (case e of None \<Rightarrow> [] | Some info \<Rightarrow> pendingCallbacks info)"

lemma Execute_result:
  assumes "conn_ok m" "key = GenerateConnectionKey b u" "ExecuteCallback X b a u (Some cb) (m, w) = (ok, m', w')"
  shows "conn_ok m' \<and> (ok \<longrightarrow>
      (\<exists>info r. live_entry X key (m, w) = Some info \<and> connProxy info = Some r \<and> IsValid X r w \<and> m' = m \<and> Execute X cb r w = (True, w'))
    \<or> (\<exists>i. waiting_last m' key cb i (queue_of (live_entry X key (m, w)))))"
proof (cases "live_entry X key (m, w)")
  case None
  obtain m1 w1 where n: "others_ok m1 key" "map_of (connectionMap m1) key = Some (fresh_entry X cb w)"
    "ExecuteCallback X b a u (Some cb) (m, w) = EstablishConnection X b a u (m1, w1)"
    by (rule Execute_new [OF assms(1,2) None])
  have q: "queue_ok (fresh_entry X cb w)" "of_key m1 key (connCallback (fresh_entry X cb w))"
    by (simp_all add: queue_ok_def fresh_entry_def of_key_def)
  have p: "connCallback (fresh_entry X cb w\<lparr>connCallback := Some i\<rparr>) = Some i"
    "pendingCallbacks (fresh_entry X cb w\<lparr>connCallback := Some i\<rparr>) = queue_of None @ [cb]" for i
    by (simp_all add: fresh_entry_def queue_of_def)
  note r = Establish_result [OF n(1) assms(2) n(2) q assms(3) [unfolded n(3)]]
  have "\<exists>i. waiting_last m' key cb i (queue_of None)" if ok
    using r that p unfolding waiting_last_def by blast
  then show ?thesis using r by (simp add: None)
next
  case (Some info)
  then have look: "map_of (connectionMap m) key = Some info" by (simp add: live_entry_def split: option.splits if_splits)
  note e = conn_okD [OF assms(1) look]
  show ?thesis
  proof (cases "connProxy info")
    case None
    then have pend: "isPending info" using e by (simp add: entry_ok_def queue_ok_def)
    define info' where "info' = info\<lparr>pendingCallbacks := pendingCallbacks info @ [cb]\<rparr>"
    have m': "m' = m\<lparr>connectionMap := AList.update key info' (connectionMap m)\<rparr>" "ok"
      using assms(3) Execute_pending [OF Some [unfolded assms(2)] None pend] by (simp_all add: assms(2) info'_def)
    have e': "entry_ok (connCallbacks m) key info'"
      using e None by (simp add: entry_ok_def queue_ok_def info'_def)
    obtain i where i: "connCallback info = Some i" "waits_for (connCallbacks m) key i"
      using e by (auto simp: entry_ok_def split: option.splits)
    have "waiting_last m' key cb i (pendingCallbacks info)" using i by (simp add: waiting_last_def m'(1) info'_def)
    moreover have "conn_ok m'" unfolding m'(1) by (rule conn_ok_update [OF conn_ok_others [OF assms(1)] e'])
    ultimately show ?thesis by (auto simp: Some queue_of_def)
  next
    case (Some r)
    note ex = Execute_connected [OF \<open>live_entry X key (m, w) = Some info\<close> [unfolded assms(2)] this]
    show ?thesis
    proof (cases "IsValid X r w \<and> fst (Execute X cb r w)")
      case True
      then have "Execute X cb r w = (True, w')" "m' = m" "ok" using ex assms(3) by (auto simp: prod_eq_iff)
      then show ?thesis using True Some \<open>live_entry X key (m, w) = Some info\<close> assms(1) by simp
    next
      case False
      then obtain w0 where "RequeueAndReconnect X b a u key cb (m, w0) = (ok, m', w')" using ex assms(2,3) by metis
      from Requeue_result [OF assms(1,2) look this] show ?thesis
        using \<open>live_entry X key (m, w) = Some info\<close> by (auto simp: waiting_last_def queue_of_def)
    qed
  qed
qed

subsection \<open>The answers of the ability manager\<close>

lemma Execute_none: "ExecuteCallback X b a u None s = (False, s)"
  by (simp add: ExecuteCallback_def split: prod.splits)

lemma Execute_ok: "conn_ok m \<Longrightarrow> ExecuteCallback X b a u cb (m, w) = (ok, m', w') \<Longrightarrow> conn_ok m'"
  by (cases cb) (auto simp: Execute_none dest: Execute_result [OF _ refl])

lemma RemoveRemoteObject_ok: "conn_ok m \<Longrightarrow> conn_ok (RemoveRemoteObject b u m)"
  unfolding RemoveRemoteObject_def by (rule conn_ok_delete) (rule conn_ok_others)

lemma Connected_ok:
  assumes "conn_ok m" "OnAbilityConnectDone X i r ret (m, w) = (m', w')"
  shows "conn_ok m'"
proof -
  define cb where "cb = connCallbacks m ! i"
  define key where "key = GenerateConnectionKey (cbBundleName cb) (cbUserId cb)"
  have save: "conn_ok m'" if "SaveProxy X (cbBundleName cb) (cbUserId cb) (Some x) (m, w) = (m', w')" for x
  proof (cases "map_of (connectionMap m) key")
    case None
    then show ?thesis using that assms(1) by (simp add: SaveProxy_def key_def)
  next
    case (Some info)
    define info' where "info' = info\<lparr>connProxy := Some x, isPending := False, pendingCallbacks := []\<rparr>"
    have m': "m' = m\<lparr>connectionMap := AList.update key info' (connectionMap m)\<rparr>"
      using that Some by (simp add: SaveProxy_def key_def info'_def)
    have "entry_ok (connCallbacks m) key info'"
      using conn_okD [OF assms(1) Some] by (simp add: entry_ok_def queue_ok_def info'_def)
    then show ?thesis unfolding m' by (rule conn_ok_update [OF conn_ok_others [OF assms(1)]])
  qed
  show ?thesis
    using assms(2) save assms(1) RemoveRemoteObject_ok [OF assms(1)]
    by (cases r) (auto simp: OnAbilityConnectDone_def cb_def [symmetric] split: if_splits)
qed

lemma Disconnected_ok:
  assumes "conn_ok m" "OnAbilityDisconnectDone X c cu i (m, w) = (m', w')"
  shows "conn_ok m'"
proof -
  define m1 where "m1 = RemoveRemoteObject (cbBundleName (connCallbacks m ! i)) (cbUserId (connCallbacks m ! i)) m"
  have 1: "conn_ok m1" unfolding m1_def by (rule RemoveRemoteObject_ok) (rule assms(1))
  show ?thesis
  proof (cases "isStale (connCallbacks m ! i) \<or> cu < 0")
    case True
    then show ?thesis using assms 1 by (auto simp: OnAbilityDisconnectDone_def m1_def [symmetric] Let_def split: if_splits)
  next
    case stale: False
    show ?thesis
    proof (cases "GetAdminByPkgName (cbBundleName (connCallbacks m ! i)) cu c")
      case None
      then show ?thesis using stale assms 1 by (simp add: OnAbilityDisconnectDone_def m1_def [symmetric] Let_def)
    next
      case (Some a)
      show ?thesis
      proof (cases "IsEnterpriseAdminKeepAlive a")
        case True
        obtain ok where "ExecuteCallback X (packageName (adminInfo a)) (className (adminInfo a)) cu (Some StartStrategy) (m1, w) = (ok, m', w')"
          using assms(2) stale Some True
          by (cases "ExecuteCallback X (packageName (adminInfo a)) (className (adminInfo a)) cu (Some StartStrategy) (m1, w)")
            (simp add: OnAbilityDisconnectDone_def m1_def [symmetric] Let_def)
        then show ?thesis by (rule Execute_ok [OF 1])
      next
        case False
        then show ?thesis using stale Some assms 1 by (simp add: OnAbilityDisconnectDone_def m1_def [symmetric] Let_def)
      qed
    qed
  qed
qed

lemma Clear_ok: "ClearConnections X (m, w) = (m', w') \<Longrightarrow> conn_ok m'"
  by (auto simp: ClearConnections_def conn_ok_def Let_def)

subsection \<open>Runs\<close>

text \<open>What happens to the connections, in any order: a callback is to be executed, the ability manager answers a
  connection callback it was given, all connections are cleared, and the outside world moves on.\<close>

inductive conn_run :: "'w extension_service \<Rightarrow> conn_mgr \<times> 'w \<Rightarrow> bool" for X :: "'w extension_service" where
  run_start: "conn_run X (conn_mgr0, w)"
| run_execute: "conn_run X s \<Longrightarrow> ExecuteCallback X b a u cb s = (ok, s') \<Longrightarrow> conn_run X s'"
| run_connected: "conn_run X s \<Longrightarrow> i < length (connCallbacks (fst s)) \<Longrightarrow> OnAbilityConnectDone X i r ret s = s' \<Longrightarrow> conn_run X s'"
| run_disconnected: "conn_run X s \<Longrightarrow> i < length (connCallbacks (fst s)) \<Longrightarrow> OnAbilityDisconnectDone X c cu i s = s' \<Longrightarrow> conn_run X s'"
| run_clear: "conn_run X s \<Longrightarrow> ClearConnections X s = s' \<Longrightarrow> conn_run X s'"
| run_world: "conn_run X (m, w) \<Longrightarrow> conn_run X (m, w')"

lemma run_ok: "conn_run X s \<Longrightarrow> conn_ok (fst s)"
proof (induction rule: conn_run.induct)
  case (run_execute s b a u cb ok s')
  then show ?case using Execute_ok [of "fst s" X b a u cb "snd s" ok "fst s'" "snd s'"] by simp
next
  case (run_connected s i r ret s')
  then show ?case using Connected_ok [of "fst s" X i r ret "snd s" "fst s'" "snd s'"] by simp
next
  case (run_disconnected s i c cu s')
  then show ?case using Disconnected_ok [of "fst s" X c cu i "snd s" "fst s'" "snd s'"] by simp
next
  case (run_clear s s')
  then show ?case using Clear_ok [of X "fst s" "snd s" "fst s'" "snd s'"] by simp
qed (simp_all add: conn_ok0)

lemma connect_executes_queue:
  assumes "waits_for (connCallbacks m) key i" "map_of (connectionMap m) key = Some info"
  shows "OnAbilityConnectDone X i (Some r) ERR_OK (m, w) =
    (m\<lparr>connectionMap := AList.update key (info\<lparr>connProxy := Some r, isPending := False, pendingCallbacks := []\<rparr>) (connectionMap m)\<rparr>,
     execute_all X r (pendingCallbacks info) w)"
proof -
  have "GenerateConnectionKey (cbBundleName (connCallbacks m ! i)) (cbUserId (connCallbacks m ! i)) = key"
    using assms(1) by (simp add: waits_for_def callback_key_def)
  then show ?thesis using assms by (simp add: OnAbilityConnectDone_def SaveProxy_def waits_for_def Let_def)
qed


text \<open>An ability manager that accepts every connection; the world is the list of the requests that were sent.\<close>

definition demo_extensions :: "((remote_object \<times> u32) list) extension_service" where
  "demo_extensions = \<lparr> ext_NowMs = (\<lambda>_. 0), ext_TimeoutRatio = (\<lambda>_. 1), ext_Connect = (\<lambda>_ _ _ _ w. (ERR_OK, w)),
     ext_Disconnect = (\<lambda>_ w. w), ext_IsObjectDead = (\<lambda>_ _. False), ext_WriteInterfaceToken = (\<lambda>_. True),
     ext_SendRequest = (\<lambda>r code _ w. (ERR_OK, w @ [(r, code)])) \<rparr>"

definition demo_first :: "conn_mgr \<times> (remote_object \<times> u32) list" where
  "demo_first = snd (ExecuteCallback demo_extensions ''com.a'' ''A'' 100 (Some (AdminStrategy 1)) (conn_mgr0, []))"

definition demo_second :: "bool \<times> conn_mgr \<times> (remote_object \<times> u32) list" where
  "demo_second = ExecuteCallback demo_extensions ''com.a'' ''A'' 100 (Some (BundleStrategy 3 ''com.b'' 100)) demo_first"

lemma demo_second_accepted: "fst demo_second = True" by code_simp

lemma demo_second_queue:
  "map_option pendingCallbacks (map_of (connectionMap (fst (snd demo_second))) ''com.a_100'') =
     Some [AdminStrategy 1, BundleStrategy 3 ''com.b'' 100]"
  by code_simp


end
