(* ===== verification/Ability_State.thy ===== *)
theory Ability_State
  imports Plugin_Dispatch Permission_Checker System_Timers Event_Service Connections
begin

text \<open>
  \<open>services/edm/src/enterprise_device_mgr_ability.cpp\<close>: the service holds every component; a request runs some of them
  one after the other. This theory has the state of the service, what it calls outside of this
  repository, and the embedding of a component's operation into the state of the service.
\<close>

subsection \<open>The outside of the service\<close>

record element_name =
  elBundle :: string
  elAbility :: string

text \<open>The calls that change something outside, by the manager that makes them. A call that answers a truth value
  answers \<open>ERR_OK\<close> for true.\<close>

datatype control_rule = RULE_UNSPECIFIED | RULE_DISALLOWED_UNINSTALL | RULE_ALLOWED_INSTALL | RULE_DISALLOWED_INSTALL

datatype platform_call =
    SetParameter string string
  | PublishCommonEvent string
  | SetDisallowedUninstall string bool
  | AddAppInstallControlRule "string list" control_rule user_id
  | DeleteAppInstallControlRule control_rule "string list" user_id
  | UpdateSettingsData string string
  | ReportEdmEventManagerAdmin string int int string int
  | ReportSecurityInfo string string func_operate_type string string bool
  | SendSystemNotification string string
  | AddNetworkAccessPolicy "string list"
  | RemoveNetworkAccessPolicy "string list"
  | CreateLogDirIfNeed string
  | DeleteLogDirIfNeed string
  | DeleteSubUserLogDirIfNeed user_id
  | AddInstalledBundleInfo string string
  | SetActiveSim int int
  | StartAbility element_name user_id
  | StartExtensionAbility element_name user_id

text \<open>The answers of the bundle manager, the account manager, the parameters and the request's parcel. The extensions of a
  bundle are listed by module, each with whether it is an enterprise administrator; an ability is described by
  whether it is visible, whether it is a page and its permissions; an extension by whether it is visible and whether it
  is an application service. \<open>pf_WriteRequest\<close> makes what the service has written the parcel of a request.\<close>

record 'w platform =
  pf_call :: "platform_call \<Rightarrow> 'w \<Rightarrow> err_code \<times> 'w"
  pf_GetParameter :: "string \<Rightarrow> string \<Rightarrow> 'w \<Rightarrow> string"
  pf_GetBoolParameter :: "string \<Rightarrow> bool \<Rightarrow> 'w \<Rightarrow> bool"
  pf_QueryExtensionAbilityInfos :: "element_name \<Rightarrow> user_id \<Rightarrow> 'w \<Rightarrow> element_name list option"
  pf_GetAppId :: "string \<Rightarrow> user_id \<Rightarrow> 'w \<Rightarrow> string"
  pf_GetBundleExtensions :: "string \<Rightarrow> user_id \<Rightarrow> 'w \<Rightarrow> (bool \<times> string) list list option"
  pf_QueryAbilityInfo :: "element_name \<Rightarrow> user_id \<Rightarrow> 'w \<Rightarrow> (bool \<times> bool \<times> string list) option"
  pf_QueryDefaultExtensions :: "element_name \<Rightarrow> user_id \<Rightarrow> 'w \<Rightarrow> (bool \<times> bool) list option"
  pf_IsBundleInstalled :: "string \<Rightarrow> user_id \<Rightarrow> 'w \<Rightarrow> bool"
  pf_GetApplicationInfo :: "string \<Rightarrow> user_id \<Rightarrow> 'w \<Rightarrow> string"
  pf_IsSystemApp :: "string \<Rightarrow> user_id \<Rightarrow> 'w \<Rightarrow> err_code \<times> bool"
  pf_IsOsAccountExists :: "user_id \<Rightarrow> 'w \<Rightarrow> bool"
  pf_GetSettingsData :: "string \<Rightarrow> 'w \<Rightarrow> string option"
  pf_ReadString :: "'w \<Rightarrow> string \<times> 'w"
  pf_ReadInt32 :: "'w \<Rightarrow> int option \<times> 'w"
  pf_ReadElement :: "'w \<Rightarrow> element_name option \<times> 'w"
  pf_WriteRequest :: "parcel_item list \<Rightarrow> 'w \<Rightarrow> 'w"

text \<open>Everything that is fixed while the service runs, the two build flags last.\<close>

record ('s, 'w) service =
  sv_rdb :: "'s rdb"
  sv_json :: cjson
  sv_plugins :: "('s, 'w) plugin_env"
  sv_time :: "'w time_service"
  sv_extensions :: "'w extension_service"
  sv_sources :: "'w event_sources"
  sv_platform :: "'w platform"
  sv_pc_only :: bool
  sv_log_service :: bool

subsection \<open>State\<close>

text \<open>\<open>abAdmins\<close> holds the database, which the policies use as well. \<open>abObserved\<close> says whether the observer of the
  administrators has been registered.\<close>

record ('s, 'w) ability =
  abAdmins :: "'s admin_mgr"
  abPlugins :: "('s, 'w) plugin_mgr"
  abPolicies :: policy_mgr
  abTimers :: timer_mgr
  abEvents :: event_state
  abConns :: conn_mgr
  abWorld :: 'w
  abObserved :: bool
  adminConnectMap :: "(string, bool) amap"
  isNeedRemoveSettingsMenu :: bool

abbreviation admins_table :: "('s, 'w) ability \<Rightarrow> container" where
  "admins_table A \<equiv> adminTable (abAdmins A)"

subsection \<open>Calls of the components\<close>

definition request :: "('s, 'w) service \<Rightarrow> platform_call \<Rightarrow> ('s, 'w) ability \<Rightarrow> err_code \<times> ('s, 'w) ability" where
  "request V c A = (let (r, w) = pf_call (sv_platform V) c (abWorld A) in (r, A\<lparr>abWorld := w\<rparr>))"

definition perform :: "('s, 'w) service \<Rightarrow> platform_call \<Rightarrow> ('s, 'w) ability \<Rightarrow> ('s, 'w) ability" where
  "perform V c A = snd (request V c A)"

definition on_conns :: "(conn_mgr \<times> 'w \<Rightarrow> bool \<times> conn_mgr \<times> 'w) \<Rightarrow> ('s, 'w) ability \<Rightarrow> bool \<times> ('s, 'w) ability" where
  "on_conns f A = (let (r, m, w) = f (abConns A, abWorld A) in (r, A\<lparr>abConns := m, abWorld := w\<rparr>))"

definition on_timers :: "(timer_mgr \<times> 'w \<Rightarrow> 'x \<times> timer_mgr \<times> 'w) \<Rightarrow> ('s, 'w) ability \<Rightarrow> 'x \<times> ('s, 'w) ability" where
  "on_timers f A = (let (r, t, w) = f (abTimers A, abWorld A) in (r, A\<lparr>abTimers := t, abWorld := w\<rparr>))"

definition on_events :: "(event_state \<times> 'w \<Rightarrow> event_state \<times> 'w) \<Rightarrow> ('s, 'w) ability \<Rightarrow> ('s, 'w) ability" where
  "on_events f A = (let (e, w) = f (abEvents A, abWorld A) in A\<lparr>abEvents := e, abWorld := w\<rparr>)"

definition on_policies :: "('s pm_state \<Rightarrow> 'x \<times> 's pm_state) \<Rightarrow> ('s, 'w) ability \<Rightarrow> 'x \<times> ('s, 'w) ability" where
  "on_policies f A = (let (r, pm, d) = f (abPolicies A, db (abAdmins A)) in (r, A\<lparr>abPolicies := pm, abAdmins := (abAdmins A)\<lparr>db := d\<rparr>\<rparr>))"

definition on_plugin_tables :: "(('s, 'w) plugin_mgr \<Rightarrow> 'x \<times> ('s, 'w) plugin_mgr) \<Rightarrow> ('s, 'w) ability \<Rightarrow> 'x \<times> ('s, 'w) ability" where
  "on_plugin_tables f A = (let (r, M) = f (abPlugins A) in (r, A\<lparr>abPlugins := M\<rparr>))"

definition on_plugins :: "(('s, 'w) edm_state \<Rightarrow> 'x \<times> ('s, 'w) edm_state) \<Rightarrow> ('s, 'w) ability \<Rightarrow> 'x \<times> ('s, 'w) ability" where
  "on_plugins f A =
     (let (r, M, (pm, d), w) = f (abPlugins A, (abPolicies A, db (abAdmins A)), abWorld A)
      in (r, A\<lparr>abPlugins := M, abPolicies := pm, abAdmins := (abAdmins A)\<lparr>db := d\<rparr>, abWorld := w\<rparr>))"

subsection \<open>The observer of the administrators\<close>

text \<open>\<open>services/edm/src/observer/admin_observer.cpp\<close>; the icon of a notification is left out.\<close>

definition SendAdminNotification :: "('s, 'w) service \<Rightarrow> string \<Rightarrow> ('s, 'w) ability \<Rightarrow> ('s, 'w) ability" where
  "SendAdminNotification V text A = perform V (SendSystemNotification ''DeviceManagement'' text) A"

definition SendByodDisableSelfNotification :: "('s, 'w) service \<Rightarrow> caller \<Rightarrow> string \<Rightarrow> ('s, 'w) ability \<Rightarrow> ('s, 'w) ability" where
  "SendByodDisableSelfNotification V ca bundleName A =
     (case nameForUid ca (callingUid ca) of
        None \<Rightarrow> A
      | Some callingBundleName \<Rightarrow>
          (if callingBundleName = bundleName then SendAdminNotification V ''removed_management_notification_tips'' A else A))"

definition Observer_OnAdminAdd :: "('s, 'w) service \<Rightarrow> string \<Rightarrow> bool \<Rightarrow> ('s, 'w) ability \<Rightarrow> ('s, 'w) ability" where
  "Observer_OnAdminAdd V bundleName debug A =
     (let A = perform V (AddNetworkAccessPolicy [bundleName]) A
      in if debug then SendAdminNotification V ''management_notification_tips'' A else A)"

definition Observer_OnAdminRemove :: "('s, 'w) service \<Rightarrow> caller \<Rightarrow> string \<Rightarrow> admin_type \<Rightarrow> ('s, 'w) ability \<Rightarrow> ('s, 'w) ability" where
  "Observer_OnAdminRemove V ca bundleName type A =
     (let A = perform V (RemoveNetworkAccessPolicy [bundleName]) A
      in if type = BYOD then SendByodDisableSelfNotification V ca bundleName A else A)"

fun observe_notice :: "('s, 'w) service \<Rightarrow> caller \<Rightarrow> admin_notice \<Rightarrow> ('s, 'w) ability \<Rightarrow> ('s, 'w) ability" where
  "observe_notice V ca (AdminAdd b u d) A = Observer_OnAdminAdd V b d A"
| "observe_notice V ca (AdminRemove b u t) A = Observer_OnAdminRemove V ca b t A"

text \<open>An operation of the administrators' manager: the observer is told what the operation reports.\<close>

definition on_admins :: "('s, 'w) service \<Rightarrow> caller \<Rightarrow> ('s admin_mgr \<Rightarrow> err_code \<times> 's admin_mgr) \<Rightarrow> ('s, 'w) ability
    \<Rightarrow> err_code \<times> ('s, 'w) ability" where
  "on_admins V ca f A =
     (let (r, s) = f (abAdmins A);
          news = drop (length (notices (abAdmins A))) (notices s);
          A = A\<lparr>abAdmins := s\<rparr>
      in (r, if abObserved A then fold (observe_notice V ca) news A else A))"

subsection \<open>What the calls leave alone\<close>

named_theorems ability_simps

lemma perform_same [ability_simps]:
  "abAdmins (perform V c A) = abAdmins A" "abTimers (perform V c A) = abTimers A" "abEvents (perform V c A) = abEvents A"
  "abPolicies (perform V c A) = abPolicies A" "abPlugins (perform V c A) = abPlugins A" "abConns (perform V c A) = abConns A"
  "abObserved (perform V c A) = abObserved A" "adminConnectMap (perform V c A) = adminConnectMap A"
  "isNeedRemoveSettingsMenu (perform V c A) = isNeedRemoveSettingsMenu A"
  by (simp_all add: perform_def request_def split: prod.splits)

lemma request_same:
  assumes "request V c A = (r, A')"
  shows "abAdmins A' = abAdmins A" "abTimers A' = abTimers A" "abEvents A' = abEvents A" "abPolicies A' = abPolicies A"
    "abPlugins A' = abPlugins A" "abConns A' = abConns A"
  using assms by (auto simp: request_def split: prod.splits)

lemma on_conns_same [ability_simps]:
  "abAdmins (snd (on_conns f A)) = abAdmins A" "abTimers (snd (on_conns f A)) = abTimers A"
  "abEvents (snd (on_conns f A)) = abEvents A" "abPolicies (snd (on_conns f A)) = abPolicies A"
  "abPlugins (snd (on_conns f A)) = abPlugins A" "abObserved (snd (on_conns f A)) = abObserved A"
  by (simp_all add: on_conns_def split: prod.splits)

lemma on_timers_same [ability_simps]:
  "abAdmins (snd (on_timers f A)) = abAdmins A" "abEvents (snd (on_timers f A)) = abEvents A"
  "abPolicies (snd (on_timers f A)) = abPolicies A" "abPlugins (snd (on_timers f A)) = abPlugins A"
  "abConns (snd (on_timers f A)) = abConns A" "abObserved (snd (on_timers f A)) = abObserved A"
  by (simp_all add: on_timers_def split: prod.splits)

lemma on_events_same [ability_simps]:
  "abAdmins (on_events f A) = abAdmins A" "abTimers (on_events f A) = abTimers A"
  "abPolicies (on_events f A) = abPolicies A" "abPlugins (on_events f A) = abPlugins A"
  "abConns (on_events f A) = abConns A" "abObserved (on_events f A) = abObserved A"
  by (simp_all add: on_events_def split: prod.splits)

lemma on_policies_same [ability_simps]:
  "admins_table (snd (on_policies f A)) = admins_table A" "notices (abAdmins (snd (on_policies f A))) = notices (abAdmins A)"
  "abTimers (snd (on_policies f A)) = abTimers A" "abEvents (snd (on_policies f A)) = abEvents A"
  "abPlugins (snd (on_policies f A)) = abPlugins A" "abConns (snd (on_policies f A)) = abConns A"
  "abWorld (snd (on_policies f A)) = abWorld A"
  by (simp_all add: on_policies_def split: prod.splits)

lemma on_plugin_tables_same [ability_simps]:
  "abAdmins (snd (on_plugin_tables f A)) = abAdmins A" "abTimers (snd (on_plugin_tables f A)) = abTimers A"
  "abEvents (snd (on_plugin_tables f A)) = abEvents A" "abPolicies (snd (on_plugin_tables f A)) = abPolicies A"
  "abConns (snd (on_plugin_tables f A)) = abConns A" "abWorld (snd (on_plugin_tables f A)) = abWorld A"
  by (simp_all add: on_plugin_tables_def split: prod.splits)

lemma on_plugins_same [ability_simps]:
  "admins_table (snd (on_plugins f A)) = admins_table A" "abTimers (snd (on_plugins f A)) = abTimers A"
  "abEvents (snd (on_plugins f A)) = abEvents A" "abConns (snd (on_plugins f A)) = abConns A"
  "abObserved (snd (on_plugins f A)) = abObserved A"
  by (simp_all add: on_plugins_def split: prod.splits)

lemma observe_notice_same [ability_simps]:
  "abAdmins (observe_notice V ca n A) = abAdmins A" "abTimers (observe_notice V ca n A) = abTimers A"
  "abEvents (observe_notice V ca n A) = abEvents A" "abPolicies (observe_notice V ca n A) = abPolicies A"
  "abPlugins (observe_notice V ca n A) = abPlugins A" "abConns (observe_notice V ca n A) = abConns A"
  by (cases n; simp add: Observer_OnAdminAdd_def Observer_OnAdminRemove_def SendAdminNotification_def
      SendByodDisableSelfNotification_def ability_simps Let_def split: option.splits)+

lemma observe_notices_same [ability_simps]:
  "abAdmins (fold (observe_notice V ca) ns A) = abAdmins A" "abTimers (fold (observe_notice V ca) ns A) = abTimers A"
  "abEvents (fold (observe_notice V ca) ns A) = abEvents A" "abPolicies (fold (observe_notice V ca) ns A) = abPolicies A"
  "abPlugins (fold (observe_notice V ca) ns A) = abPlugins A" "abConns (fold (observe_notice V ca) ns A) = abConns A"
  by (induction ns arbitrary: A) (simp_all add: ability_simps)

lemma on_admins_same [ability_simps]:
  "fst (on_admins V ca f A) = fst (f (abAdmins A))" "abAdmins (snd (on_admins V ca f A)) = snd (f (abAdmins A))"
  "abTimers (snd (on_admins V ca f A)) = abTimers A" "abEvents (snd (on_admins V ca f A)) = abEvents A"
  "abPolicies (snd (on_admins V ca f A)) = abPolicies A" "abPlugins (snd (on_admins V ca f A)) = abPlugins A"
  "abConns (snd (on_admins V ca f A)) = abConns A"
  by (simp_all add: on_admins_def ability_simps Let_def split: prod.splits)

end
