(* ===== verification/Ability_Admins.thy ===== *)
theory Ability_Admins
  imports Ability_State
begin

text \<open>
  \<open>enterprise_device_mgr_ability.cpp\<close>, the life of an administrator: enabling, replacing and disabling. The
  locks are left out: every request holds \<open>adminLock_\<close> while it changes the administrators.
\<close>

abbreviation (input) PARAM_EDM_ENABLE :: string where "PARAM_EDM_ENABLE \<equiv> ''persist.edm.edm_enable''"
abbreviation (input) PARAM_SECURITY_MODE :: string where "PARAM_SECURITY_MODE \<equiv> ''ohos.boot.advsecmode.state''"
abbreviation (input) PARAM_MAINTENANCE_MODE :: string where "PARAM_MAINTENANCE_MODE \<equiv> ''persist.hiviewcare.maintenancemode''"
abbreviation (input) KEY_EDM_DISPLAY :: string where "KEY_EDM_DISPLAY \<equiv> ''com.enterprise.enterprise_device_manager_display''"
abbreviation (input) EDM_LOG_PATH :: string where "EDM_LOG_PATH \<equiv> ''/data/service/el1/public/edm/log''"
abbreviation (input) MAX_SDA_AND_DA_COUNT :: int where "MAX_SDA_AND_DA_COUNT \<equiv> 10"
abbreviation (input) ENABLE_SOURCE_INTRANET_DEPLOY :: enable_source where "ENABLE_SOURCE_INTRANET_DEPLOY \<equiv> 5"
abbreviation (input) ACTION_ENABLE :: int where "ACTION_ENABLE \<equiv> 0"
abbreviation (input) ACTION_DISABLE :: int where "ACTION_DISABLE \<equiv> 1"
abbreviation (input) ACTION_REPLACE :: int where "ACTION_REPLACE \<equiv> 2"
abbreviation (input) COMMAND_ON_ADMIN_ENABLED :: nat where "COMMAND_ON_ADMIN_ENABLED \<equiv> 1"
abbreviation (input) COMMAND_ON_ADMIN_DISABLED :: nat where "COMMAND_ON_ADMIN_DISABLED \<equiv> 2"
abbreviation (input) COMMAND_ON_DEVICE_ADMIN_ENABLED :: nat where "COMMAND_ON_DEVICE_ADMIN_ENABLED \<equiv> 14"
abbreviation (input) COMMAND_ON_DEVICE_ADMIN_DISABLED :: nat where "COMMAND_ON_DEVICE_ADMIN_DISABLED \<equiv> 15"
abbreviation (input) PERMISSION_ENTERPRISE_ACTIVATE_DEVICE_ADMIN :: string where
  "PERMISSION_ENTERPRISE_ACTIVATE_DEVICE_ADMIN \<equiv> ''ohos.permission.ENTERPRISE_ACTIVATE_DEVICE_ADMIN''"

subsection \<open>Telling the abilities\<close>

definition Ability_OnAdminEnabled :: "('s, 'w) service \<Rightarrow> string \<Rightarrow> string \<Rightarrow> nat \<Rightarrow> user_id \<Rightarrow> ('s, 'w) ability
    \<Rightarrow> bool \<times> ('s, 'w) ability" where
  "Ability_OnAdminEnabled V bundleName abilityName code userId A =
     (if abilityName = [] \<or> userId < 0 then (False, A)
      else on_conns (ExecuteCallback (sv_extensions V) bundleName abilityName userId (Some (AdminStrategy code))) A)"

definition OnDeviceAdminEnabled :: "('s, 'w) service \<Rightarrow> admin_info \<Rightarrow> nat \<Rightarrow> user_id \<Rightarrow> string \<Rightarrow> ('s, 'w) ability
    \<Rightarrow> bool \<times> ('s, 'w) ability" where
  "OnDeviceAdminEnabled V info code userId enabledBundleName A =
     (if className info = [] \<or> userId < 0 then (False, A)
      else on_conns (ExecuteCallback (sv_extensions V) (packageName info) (className info) userId
             (Some (DeviceAdminStrategy code enabledBundleName))) A)"

definition ConnectAbility :: "('s, 'w) service \<Rightarrow> user_id \<Rightarrow> admin \<Rightarrow> ('s, 'w) ability \<Rightarrow> bool \<times> ('s, 'w) ability" where
  "ConnectAbility V accountId a A =
     on_conns (ExecuteCallback (sv_extensions V) (packageName (adminInfo a)) (className (adminInfo a)) accountId
       (Some StartStrategy)) A"

definition NotifyAdminEnabled :: "('s, 'w) service \<Rightarrow> bool \<Rightarrow> ('s, 'w) ability \<Rightarrow> ('s, 'w) ability" where
  "NotifyAdminEnabled V isEnabled A =
     perform V (PublishCommonEvent (if isEnabled then ''com.ohos.edm.edmadminenabled'' else ''com.ohos.edm.edmadmindisabled'')) A"

subsection \<open>Conditions\<close>

definition VerifyEnableAdminConditionCheckExistAdmin :: "element_name \<Rightarrow> admin_type \<Rightarrow> user_id \<Rightarrow> bool \<Rightarrow> container \<Rightarrow> err_code" where
  "VerifyEnableAdminConditionCheckExistAdmin el type userId debug c =
     (case GetAdminByPkgName (elBundle el) userId c of
        None \<Rightarrow> ERR_OK
      | Some existAdmin \<Rightarrow>
          (if GetAdminType existAdmin \<noteq> type then ERR_EDM_ADD_ADMIN_FAILED
           else if debug \<noteq> isDebug (adminInfo existAdmin) then ERR_EDM_ADD_ADMIN_FAILED
           else if className (adminInfo existAdmin) \<noteq> elAbility el then ERR_EDM_ADD_ADMIN_FAILED
           else ERR_OK))"

definition VerifyEnableAdminCondition :: "('s, 'w) service \<Rightarrow> element_name \<Rightarrow> admin_type \<Rightarrow> user_id \<Rightarrow> bool \<Rightarrow> ('s, 'w) ability \<Rightarrow> err_code" where
  "VerifyEnableAdminCondition V el type userId debug A =
     (if type = ENT \<and> userId \<noteq> DEFAULT_USER_ID then ERR_EDM_ADD_ADMIN_FAILED
      else if type \<noteq> ENT \<and> pf_GetBoolParameter (sv_platform V) PARAM_SECURITY_MODE False (abWorld A) then ERR_EDM_ADD_ADMIN_FAILED
      else if Mgr_IsExistTargetAdmin (\<not> debug) (admins_table A) then ERR_EDM_ADD_ADMIN_FAILED
      else if VerifyEnableAdminConditionCheckExistAdmin el type userId debug (admins_table A) \<noteq> ERR_OK then ERR_EDM_ADD_ADMIN_FAILED
      else ERR_OK)"

definition IsInMaintenanceMode :: "('s, 'w) service \<Rightarrow> ('s, 'w) ability \<Rightarrow> bool" where
  "IsInMaintenanceMode V A = (pf_GetParameter (sv_platform V) PARAM_MAINTENANCE_MODE ''false'' (abWorld A) = ''true'')"

definition EnableAdminPreCheck :: "('s, 'w) service \<Rightarrow> admin_type \<Rightarrow> enable_source \<Rightarrow> ('s, 'w) ability \<Rightarrow> err_code" where
  "EnableAdminPreCheck V type source A =
     (if type \<noteq> NORMAL \<and> type \<noteq> ENT \<and> type \<noteq> BYOD then PARAM_ERROR
      else if IsInMaintenanceMode V A then ENABLE_ADMIN_FAILED
      else if source < ENABLE_SOURCE_DEPLOY \<or> source > ENABLE_SOURCE_INTRANET_DEPLOY then PARAM_ERROR
      else if \<not> sv_pc_only V \<and> source \<noteq> ENABLE_SOURCE_DEPLOY \<and> source \<noteq> ENABLE_SOURCE_INTRANET_DEPLOY then PARAM_ERROR
      else ERR_OK)"

text \<open>The extensions of the enterprise administrator that the bundle manager finds for an element: \<open>[]\<close> also when the
  query fails.\<close>

definition query_extensions :: "('s, 'w) service \<Rightarrow> element_name \<Rightarrow> user_id \<Rightarrow> ('s, 'w) ability \<Rightarrow> element_name list" where
  "query_extensions V el userId A =
     (case pf_QueryExtensionAbilityInfos (sv_platform V) el userId (abWorld A) of None \<Rightarrow> [] | Some infos \<Rightarrow> infos)"

definition CheckReplaceAdmins :: "('s, 'w) service \<Rightarrow> caller \<Rightarrow> element_name \<Rightarrow> element_name \<Rightarrow> ('s, 'w) ability
    \<Rightarrow> err_code \<times> element_name list \<times> string list" where
  "CheckReplaceAdmins V ca oldAdmin newAdmin A =
     (if IsInMaintenanceMode V A then (REPLACE_ADMIN_FAILED, [], [])
      else if \<not> VerifyCallingPermission ca PERMISSION_MANAGE_ENTERPRISE_DEVICE_ADMIN then (PERMISSION_DENIED, [], [])
      else (case GetSuperAdmin (admins_table A) of
        None \<Rightarrow> (ADMIN_INACTIVE, [], [])
      | Some edmAdmin \<Rightarrow>
          (if packageName (adminInfo edmAdmin) \<noteq> elBundle oldAdmin \<or> className (adminInfo edmAdmin) \<noteq> elAbility oldAdmin
           then (ADMIN_INACTIVE, [], [])
           else
             (let abilityInfo = query_extensions V newAdmin DEFAULT_USER_ID A in
              if abilityInfo = [] then (COMPONENT_INVALID, [], [])
              else if FAILED (VerifyEnableAdminCondition V newAdmin ENT DEFAULT_USER_ID False A)
              then (REPLACE_ADMIN_FAILED, abilityInfo, [])
              else
                (let (ret, permissionList) = GetAllPermissionsByAdmin ca (elBundle newAdmin) DEFAULT_USER_ID
                 in if FAILED ret then (SYSTEM_ABNORMALLY, abilityInfo, permissionList)
                    else (ERR_OK, abilityInfo, permissionList))))))"

subsection \<open>Uninstalling\<close>

definition AddDisallowUninstallApp :: "('s, 'w) service \<Rightarrow> string \<Rightarrow> ('s, 'w) ability \<Rightarrow> err_code \<times> ('s, 'w) ability" where
  "AddDisallowUninstallApp V bundleName A =
     (let (r, A) = request V (SetDisallowedUninstall bundleName True) A
      in (if r \<noteq> ERR_OK then SYSTEM_ABNORMALLY else ERR_OK, A))"

definition AddDisallowUninstallAppForAccount :: "('s, 'w) service \<Rightarrow> string \<Rightarrow> user_id \<Rightarrow> ('s, 'w) ability \<Rightarrow> err_code \<times> ('s, 'w) ability" where
  "AddDisallowUninstallAppForAccount V bundleName userId A =
     (let appId = pf_GetAppId (sv_platform V) bundleName userId (abWorld A);
          (r, A) = request V (AddAppInstallControlRule [appId] RULE_DISALLOWED_UNINSTALL userId) A
      in (if FAILED r then SYSTEM_ABNORMALLY else ERR_OK, A))"

definition DelDisallowUninstallAppForAccount :: "('s, 'w) service \<Rightarrow> string \<Rightarrow> user_id \<Rightarrow> ('s, 'w) ability \<Rightarrow> err_code \<times> ('s, 'w) ability" where
  "DelDisallowUninstallAppForAccount V bundleName userId A =
     (let appId = pf_GetAppId (sv_platform V) bundleName userId (abWorld A);
          (r, A) = request V (DeleteAppInstallControlRule RULE_DISALLOWED_UNINSTALL [appId] userId) A
      in (if FAILED r then SYSTEM_ABNORMALLY else ERR_OK, A))"

definition active_accounts :: "caller \<Rightarrow> user_id list" where
  "active_accounts ca = (case activeOsAccounts ca of None \<Rightarrow> [] | Some ids \<Rightarrow> ids)"

definition DelDisallowUninstallApp :: "('s, 'w) service \<Rightarrow> caller \<Rightarrow> string \<Rightarrow> ('s, 'w) ability \<Rightarrow> err_code \<times> ('s, 'w) ability" where
  "DelDisallowUninstallApp V ca bundleName A =
     (let (r, A) = request V (SetDisallowedUninstall bundleName False) A
      in if r \<noteq> ERR_OK then (SYSTEM_ABNORMALLY, A)
         else (ERR_OK, fold (\<lambda>u A. snd (DelDisallowUninstallAppForAccount V bundleName u A)) (active_accounts ca) A))"

subsection \<open>Enabling\<close>

definition log_dir :: "user_id \<Rightarrow> string \<Rightarrow> string" where
  "log_dir userId bundleName = EDM_LOG_PATH @ ''/'' @ int_to_string userId @ ''/'' @ bundleName"

text \<open>On a PC with the log service the directory of the log is made for the user that has the ability.\<close>

definition enable_log_dir :: "('s, 'w) service \<Rightarrow> element_name \<Rightarrow> user_id \<Rightarrow> ('s, 'w) ability \<Rightarrow> ('s, 'w) ability" where
  "enable_log_dir V el userId A =
     (if sv_pc_only V \<and> sv_log_service V then
        (let installUserId = (if query_extensions V el 1 A \<noteq> [] then 1 else userId)
         in perform V (CreateLogDirIfNeed (log_dir installUserId (elBundle el))) A)
      else A)"

definition AfterEnableAdmin :: "('s, 'w) service \<Rightarrow> element_name \<Rightarrow> admin_type \<Rightarrow> user_id \<Rightarrow> enable_source
    \<Rightarrow> ('s, 'w) ability \<Rightarrow> ('s, 'w) ability" where
  "AfterEnableAdmin V el type userId source A =
     (let A = enable_log_dir V el userId A;
          A = perform V (SetParameter PARAM_EDM_ENABLE ''true'') A;
          A = NotifyAdminEnabled V True A;
          A = snd (Ability_OnAdminEnabled V (elBundle el) (elAbility el) COMMAND_ON_ADMIN_ENABLED userId A);
          A = (case GetSuperAdmin (admins_table A) of
                 None \<Rightarrow> A
               | Some superAdmin \<Rightarrow>
                   (if type = NORMAL
                    then snd (OnDeviceAdminEnabled V (adminInfo superAdmin) COMMAND_ON_DEVICE_ADMIN_ENABLED userId (elBundle el) A)
                    else A));
          A = perform V (UpdateSettingsData KEY_EDM_DISPLAY ''true'') A;
          A = (case GetAdminByPkgName (elBundle el) userId (admins_table A) of
                 None \<Rightarrow> A
               | Some deviceAdmin \<Rightarrow>
                   (if IsDisallowedUninstall deviceAdmin then
                      (if IsAllowedAcrossAccountSetPolicy deviceAdmin then snd (AddDisallowUninstallApp V (elBundle el) A)
                       else snd (AddDisallowUninstallAppForAccount V (elBundle el) userId A))
                    else A))
      in perform V (ReportEdmEventManagerAdmin (elBundle el) ACTION_ENABLE (admin_type_to_int type) [] source) A)"

definition EnableAdminWithPermission :: "('s, 'w) service \<Rightarrow> caller \<Rightarrow> element_name \<Rightarrow> ent_info \<Rightarrow> admin_type \<Rightarrow> user_id
    \<Rightarrow> string \<Rightarrow> enable_source \<Rightarrow> ('s, 'w) ability \<Rightarrow> err_code \<times> ('s, 'w) ability" where
  "EnableAdminWithPermission V ca el ent type userId perm source A =
     (let res = EnableAdminPreCheck V type source A; debug = CheckIsDebug ca in
      if FAILED res then (res, A)
      else if Mgr_GetSuperDeviceAdminAndDeviceAdminCount (admins_table A) \<ge> MAX_SDA_AND_DA_COUNT then (ENABLE_ADMIN_FAILED, A)
      else if \<not> debug \<and> \<not> VerifyCallingPermission ca perm then (PERMISSION_DENIED, A)
      else
        (let abilityInfo = query_extensions V el userId A in
         if abilityInfo = [] then (COMPONENT_INVALID, A)
         else if FAILED (VerifyEnableAdminCondition V el type userId debug A) then (ENABLE_ADMIN_FAILED, A)
         else if \<not> debug \<and> type = ENT \<and> IsSuperAdminExist (admins_table A)
           \<and> GetAdminByPkgName (elBundle el) userId (admins_table A) = None then (ENABLE_ADMIN_FAILED, A)
         else
           (let (ret, permissionList) = GetAllPermissionsByAdmin ca (elBundle el) userId in
            if FAILED ret then (COMPONENT_INVALID, A)
            else
              (let info = AdminInfo0\<lparr>packageName := elBundle (hd abilityInfo), className := elAbility (hd abilityInfo),
                     entInfo := ent, permission := permissionList, adminType := type, isDebug := debug, enableSource := source\<rparr>;
                   saveUserId = (if type = ENT \<or> type = NORMAL then DEFAULT_USER_ID else userId);
                   (ret, A) = on_admins V ca (SetAdminValue (sv_rdb V) (sv_json V) saveUserId info) A
               in if FAILED ret then (ENABLE_ADMIN_FAILED, A)
                  else (ERR_OK, AfterEnableAdmin V el type userId source A)))))"

definition EnableAdminSelf :: "('s, 'w) service \<Rightarrow> caller \<Rightarrow> element_name \<Rightarrow> ent_info \<Rightarrow> admin_type \<Rightarrow> user_id
    \<Rightarrow> bool \<Rightarrow> enable_source \<Rightarrow> ('s, 'w) ability \<Rightarrow> err_code \<times> ('s, 'w) ability" where
  "EnableAdminSelf V ca el ent type userId enableSelf source A =
     (if sv_pc_only V then
        (if enableSelf then EnableAdminWithPermission V ca el ent type userId PERMISSION_ENTERPRISE_ACTIVATE_DEVICE_ADMIN source A
         else EnableAdminWithPermission V ca el ent type userId PERMISSION_MANAGE_ENTERPRISE_DEVICE_ADMIN source A)
      else (INTERFACE_UNSUPPORTED, A))"

definition EnableAdmin :: "('s, 'w) service \<Rightarrow> caller \<Rightarrow> element_name \<Rightarrow> ent_info \<Rightarrow> admin_type \<Rightarrow> user_id
    \<Rightarrow> enable_source \<Rightarrow> ('s, 'w) ability \<Rightarrow> err_code \<times> ('s, 'w) ability" where
  "EnableAdmin V ca el ent type userId source A =
     EnableAdminWithPermission V ca el ent type userId PERMISSION_MANAGE_ENTERPRISE_DEVICE_ADMIN source A"

definition CheckEnableDeviceAdmin :: "('s, 'w) service \<Rightarrow> caller \<Rightarrow> element_name \<Rightarrow> ('s, 'w) ability \<Rightarrow> err_code" where
  "CheckEnableDeviceAdmin V ca el A =
     (if Mgr_GetSuperDeviceAdminAndDeviceAdminCount (admins_table A) \<ge> MAX_SDA_AND_DA_COUNT then ENABLE_ADMIN_FAILED
      else if \<not> VerifyCallingPermission ca PERMISSION_ENTERPRISE_MANAGE_DEVICE_ADMIN then PERMISSION_DENIED
      else if query_extensions V el (GetCurrentUserId ca) A = [] then COMPONENT_INVALID
      else ERR_OK)"

definition EnableDeviceAdmin :: "('s, 'w) service \<Rightarrow> caller \<Rightarrow> element_name \<Rightarrow> ('s, 'w) ability \<Rightarrow> err_code \<times> ('s, 'w) ability" where
  "EnableDeviceAdmin V ca el A =
     (case GetAdminByPkgName (GetHapTokenBundleName ca) DEFAULT_USER_ID (admins_table A) of
        None \<Rightarrow> (ADMIN_INACTIVE, A)
      | Some superAdmin \<Rightarrow>
          (if \<not> HasPermissionToCallServiceCode (sv_pc_only V) superAdmin IC_ENABLE_DEVICE_ADMIN
           then (ADMIN_EDM_PERMISSION_DENIED, A)
           else
             (let ret = CheckEnableDeviceAdmin V ca el A in
              if FAILED ret then (ret, A)
              else (case GetAdminByPkgName (elBundle el) DEFAULT_USER_ID (admins_table A) of
                Some existAdmin \<Rightarrow>
                  (if adminType (adminInfo existAdmin) = NORMAL then (ERR_OK, A) else (ENABLE_ADMIN_FAILED, A))
              | None \<Rightarrow>
                  (let permissionList = snd (GetAllPermissionsByAdmin ca (elBundle el) DEFAULT_USER_ID);
                       info = AdminInfo0\<lparr>packageName := elBundle el, className := elAbility el, permission := permissionList,
                         adminType := NORMAL, isDebug := isDebug (adminInfo superAdmin), enableSource := ENABLE_SOURCE_SUPER_ADMIN\<rparr>;
                       (ret, A) = on_admins V ca (SetAdminValue (sv_rdb V) (sv_json V) DEFAULT_USER_ID info) A
                   in if FAILED ret then (ENABLE_ADMIN_FAILED, A)
                      else (ERR_OK, AfterEnableAdmin V el NORMAL (GetCurrentUserId ca) ENABLE_SOURCE_SUPER_ADMIN A))))))"

subsection \<open>Removing an administrator and its policies\<close>

fun remove_policies :: "('s, 'w) service \<Rightarrow> string \<Rightarrow> user_id \<Rightarrow> (string \<times> string) list \<Rightarrow> ('s, 'w) ability
    \<Rightarrow> err_code \<times> ('s, 'w) ability" where
  "remove_policies V adminName userId [] A = (ERR_OK, A)"
| "remove_policies V adminName userId ((name, value) # items) A =
     (let (ret, A) = on_plugins (RemoveAdminItem (sv_rdb V) (sv_plugins V) adminName name value userId) A in
      if FAILED ret then (ERR_EDM_DEL_ADMIN_FAILED, A) else remove_policies V adminName userId items A)"

definition RemoveAdminPolicy :: "('s, 'w) service \<Rightarrow> string \<Rightarrow> user_id \<Rightarrow> ('s, 'w) ability \<Rightarrow> err_code \<times> ('s, 'w) ability" where
  "RemoveAdminPolicy V adminName userId A =
     (let (policyItems, A) = on_policies (\<lambda>s. let (_, items, s) = PolicyManager_GetAllPolicyByAdmin (sv_rdb V) adminName [] userId s
            in (items, s)) A
      in remove_policies V adminName userId policyItems A)"

definition RemoveAdmin :: "('s, 'w) service \<Rightarrow> caller \<Rightarrow> string \<Rightarrow> user_id \<Rightarrow> admin_type \<Rightarrow> ('s, 'w) ability
    \<Rightarrow> err_code \<times> ('s, 'w) ability" where
  "RemoveAdmin V ca adminName userId type A =
     (let (ret, A) = on_admins V ca (Mgr_DeleteAdmin (sv_rdb V) adminName userId type) A in
      if ret \<noteq> ERR_OK \<and> ret \<noteq> ERR_EDM_UNKNOWN_ADMIN then (ERR_EDM_DEL_ADMIN_FAILED, A)
      else (ERR_OK, on_events (\<lambda>(e, w). (OnAdminRemoved adminName userId e, w)) A))"

definition RemoveAdminAndAdminPolicy :: "('s, 'w) service \<Rightarrow> caller \<Rightarrow> string \<Rightarrow> user_id \<Rightarrow> admin_type \<Rightarrow> ('s, 'w) ability
    \<Rightarrow> err_code \<times> ('s, 'w) ability" where
  "RemoveAdminAndAdminPolicy V ca adminName userId type A =
     (let A = (if sv_pc_only V then A
               else snd (on_timers (\<lambda>s. ((), Timers_OnAdminRemove (sv_time V) adminName s)) A));
          (ret, A) = RemoveAdminPolicy V adminName userId A
      in if FAILED ret then (ret, A)
         else (let (ret, A) = RemoveAdmin V ca adminName userId type A in if FAILED ret then (ret, A) else (ERR_OK, A)))"

fun RemoveSubOrSuperAdminAndAdminPolicy :: "('s, 'w) service \<Rightarrow> caller \<Rightarrow> string \<Rightarrow> user_id list \<Rightarrow> admin_type \<Rightarrow> ('s, 'w) ability
    \<Rightarrow> err_code \<times> ('s, 'w) ability" where
  "RemoveSubOrSuperAdminAndAdminPolicy V ca bundleName [] type A =
     RemoveAdminAndAdminPolicy V ca bundleName DEFAULT_USER_ID type A"
| "RemoveSubOrSuperAdminAndAdminPolicy V ca bundleName (userId # userIds) type A =
     (let (ret, A) = RemoveAdminAndAdminPolicy V ca bundleName userId type A in
      if ret \<noteq> ERR_OK then (ERR_EDM_DEL_ADMIN_FAILED, A)
      else RemoveSubOrSuperAdminAndAdminPolicy V ca bundleName userIds type A)"

definition RemoveSubSuperAdminAndAdminPolicy :: "('s, 'w) service \<Rightarrow> caller \<Rightarrow> string \<Rightarrow> admin_type \<Rightarrow> ('s, 'w) ability
    \<Rightarrow> err_code \<times> ('s, 'w) ability" where
  "RemoveSubSuperAdminAndAdminPolicy V ca bundleName type A =
     RemoveSubOrSuperAdminAndAdminPolicy V ca bundleName (GetPolicyUserIds [] (abPolicies A)) type A"

fun remove_subs :: "('s, 'w) service \<Rightarrow> caller \<Rightarrow> string list \<Rightarrow> user_id list \<Rightarrow> ('s, 'w) ability \<Rightarrow> err_code \<times> ('s, 'w) ability" where
  "remove_subs V ca [] userIds A = (ERR_OK, A)"
| "remove_subs V ca (sub # subs) userIds A =
     (let (ret, A) = RemoveSubOrSuperAdminAndAdminPolicy V ca sub userIds SUB_SUPER_ADMIN A in
      if ret \<noteq> ERR_OK then (ERR_EDM_DEL_ADMIN_FAILED, A) else remove_subs V ca subs userIds A)"

definition RemoveSuperAdminAndAdminPolicy :: "('s, 'w) service \<Rightarrow> caller \<Rightarrow> string \<Rightarrow> ('s, 'w) ability
    \<Rightarrow> err_code \<times> ('s, 'w) ability" where
  "RemoveSuperAdminAndAdminPolicy V ca bundleName A =
     (let userIds = GetPolicyUserIds [] (abPolicies A);
          subAdmins = snd (GetSubSuperAdminsByParentName bundleName (admins_table A));
          (ret, A) = remove_subs V ca subAdmins userIds A
      in if ret \<noteq> ERR_OK then (ERR_EDM_DEL_ADMIN_FAILED, A)
         else RemoveSubOrSuperAdminAndAdminPolicy V ca bundleName userIds ENT A)"

subsection \<open>Disabling\<close>

definition CheckDisableAdmin :: "('s, 'w) service \<Rightarrow> caller \<Rightarrow> admin \<Rightarrow> admin_type \<Rightarrow> err_code" where
  "CheckDisableAdmin V ca a type =
     (if CheckIsDebug ca then (if \<not> isDebug (adminInfo a) then DISABLE_ADMIN_FAILED else ERR_OK)
      else if adminType (adminInfo a) \<noteq> type then DISABLE_ADMIN_FAILED
      else if VerifyCallingPermission ca PERMISSION_MANAGE_ENTERPRISE_DEVICE_ADMIN then ERR_OK
      else if GetHapTokenBundleName ca \<noteq> packageName (adminInfo a) then PERMISSION_DENIED
      else
        (let requiredPermission = GetDisableSelfPermission (sv_pc_only V) a in
         if requiredPermission = PERMISSION_NAME_DENIED then PERMISSION_DENIED
         else if \<not> VerifyCallingPermission ca requiredPermission then PERMISSION_DENIED
         else ERR_OK))"

text \<open>The records of the administrator: those of a super administrator go with its subordinates.\<close>

definition remove_records :: "('s, 'w) service \<Rightarrow> caller \<Rightarrow> admin \<Rightarrow> user_id \<Rightarrow> admin_type \<Rightarrow> ('s, 'w) ability
    \<Rightarrow> err_code \<times> ('s, 'w) ability" where
  "remove_records V ca a userId type A =
     (let (ret, A) = (if Admin_IsSuperAdmin a then RemoveSuperAdminAndAdminPolicy V ca (packageName (adminInfo a)) A else (ERR_OK, A)) in
      if FAILED ret then (DISABLE_ADMIN_FAILED, A)
      else
        (let (ret, A) = (if \<not> Admin_IsSuperAdmin a \<and> IsAllowedAcrossAccountSetPolicy a
               then RemoveSubSuperAdminAndAdminPolicy V ca (packageName (adminInfo a)) type A else (ERR_OK, A)) in
         if FAILED ret then (DISABLE_ADMIN_FAILED, A)
         else
           (let (ret, A) = (if \<not> IsAllowedAcrossAccountSetPolicy a
                  then RemoveAdminAndAdminPolicy V ca (packageName (adminInfo a)) userId type A else (ERR_OK, A)) in
            if FAILED ret then (DISABLE_ADMIN_FAILED, A) else (ERR_OK, A))))"

definition announce_no_admin :: "('s, 'w) service \<Rightarrow> ('s, 'w) ability \<Rightarrow> ('s, 'w) ability" where
  "announce_no_admin V A =
     (if \<not> IsAdminExist (admins_table A) then
        perform V (UpdateSettingsData KEY_EDM_DISPLAY ''false'')
          (NotifyAdminEnabled V False (perform V (SetParameter PARAM_EDM_ENABLE ''false'') A))
      else A)"

definition DoDisableAdmin :: "('s, 'w) service \<Rightarrow> caller \<Rightarrow> admin \<Rightarrow> user_id \<Rightarrow> admin_type \<Rightarrow> ('s, 'w) ability
    \<Rightarrow> err_code \<times> ('s, 'w) ability" where
  "DoDisableAdmin V ca a userId type A =
     (let (ret, A) = remove_records V ca a userId type A; pkg = packageName (adminInfo a) in
      if FAILED ret then (ret, A)
      else
        (let A = announce_no_admin V A;
             A = snd (Ability_OnAdminEnabled V pkg (className (adminInfo a)) COMMAND_ON_ADMIN_DISABLED userId A);
             A = (case GetSuperAdmin (admins_table A) of
                    None \<Rightarrow> A
                  | Some superAdmin \<Rightarrow>
                      (if type = NORMAL
                       then snd (OnDeviceAdminEnabled V (adminInfo superAdmin) COMMAND_ON_DEVICE_ADMIN_DISABLED userId pkg A)
                       else A));
             A = (if IsDisallowedUninstall a then
                    (if IsAllowedAcrossAccountSetPolicy a then snd (DelDisallowUninstallApp V ca pkg A)
                     else snd (DelDisallowUninstallAppForAccount V pkg userId A))
                  else A);
             A = (if sv_pc_only V \<and> sv_log_service V then perform V (DeleteLogDirIfNeed pkg) A else A)
         in (ERR_OK, perform V (ReportEdmEventManagerAdmin pkg ACTION_DISABLE (admin_type_to_int type) [] 0) A)))"

definition DoDisableAdminByName :: "('s, 'w) service \<Rightarrow> caller \<Rightarrow> string \<Rightarrow> user_id \<Rightarrow> admin_type \<Rightarrow> ('s, 'w) ability
    \<Rightarrow> err_code \<times> ('s, 'w) ability" where
  "DoDisableAdminByName V ca bundleName userId type A =
     (case GetAdminByPkgName bundleName userId (admins_table A) of
        None \<Rightarrow> (DISABLE_ADMIN_FAILED, A)
      | Some deviceAdmin \<Rightarrow>
          (let ret = CheckDisableAdmin V ca deviceAdmin type in
           if FAILED ret then (ret, A)
           else if IsAllowedAcrossAccountSetPolicy deviceAdmin then DoDisableAdmin V ca deviceAdmin DEFAULT_USER_ID type A
           else DoDisableAdmin V ca deviceAdmin userId type A))"

definition DisableAdmin :: "('s, 'w) service \<Rightarrow> caller \<Rightarrow> element_name \<Rightarrow> user_id \<Rightarrow> ('s, 'w) ability \<Rightarrow> err_code \<times> ('s, 'w) ability" where
  "DisableAdmin V ca el userId A =
     (case GetAdminByPkgName (elBundle el) userId (admins_table A) of
        None \<Rightarrow> (DISABLE_ADMIN_FAILED, A)
      | Some deviceAdmin \<Rightarrow>
          (let ret = CheckDisableAdmin V ca deviceAdmin (GetAdminType deviceAdmin) in
           if FAILED ret then (ret, A)
           else
             (let userId = (if IsAllowedAcrossAccountSetPolicy deviceAdmin then DEFAULT_USER_ID else userId)
              in DoDisableAdmin V ca deviceAdmin userId (GetAdminType deviceAdmin) A)))"

definition DisableSuperAdmin :: "('s, 'w) service \<Rightarrow> caller \<Rightarrow> string \<Rightarrow> ('s, 'w) ability \<Rightarrow> err_code \<times> ('s, 'w) ability" where
  "DisableSuperAdmin V ca bundleName A = DoDisableAdminByName V ca bundleName DEFAULT_USER_ID ENT A"

definition CheckDisableDeviceAdmin :: "('s, 'w) service \<Rightarrow> caller \<Rightarrow> admin \<Rightarrow> ('s, 'w) ability \<Rightarrow> err_code" where
  "CheckDisableDeviceAdmin V ca deviceAdmin A =
     (case GetAdminByPkgName (GetHapTokenBundleName ca) DEFAULT_USER_ID (admins_table A) of
        None \<Rightarrow> ADMIN_INACTIVE
      | Some superAdmin \<Rightarrow>
          (if \<not> HasPermissionToCallServiceCode (sv_pc_only V) superAdmin IC_DISABLE_DEVICE_ADMIN then ADMIN_EDM_PERMISSION_DENIED
           else if \<not> VerifyCallingPermission ca PERMISSION_ENTERPRISE_MANAGE_DEVICE_ADMIN then PERMISSION_DENIED
           else if GetAdminType deviceAdmin \<noteq> NORMAL then DISABLE_ADMIN_FAILED
           else ERR_OK))"

definition DisableDeviceAdmin :: "('s, 'w) service \<Rightarrow> caller \<Rightarrow> element_name \<Rightarrow> ('s, 'w) ability \<Rightarrow> err_code \<times> ('s, 'w) ability" where
  "DisableDeviceAdmin V ca el A =
     (case GetAdminByPkgName (elBundle el) DEFAULT_USER_ID (admins_table A) of
        None \<Rightarrow> (DISABLE_ADMIN_FAILED, A)
      | Some deviceAdmin \<Rightarrow>
          (let ret = CheckDisableDeviceAdmin V ca deviceAdmin A in
           if FAILED ret then (ret, A) else DoDisableAdmin V ca deviceAdmin DEFAULT_USER_ID NORMAL A))"

subsection \<open>Replacing the super administrator\<close>

text \<open>\<open>find\<close> of a string in a string, and \<open>s.replace(s.find(old), old.length(), new)\<close>, which throws when there is none.\<close>

fun find_string :: "string \<Rightarrow> string \<Rightarrow> nat option" where
  "find_string old [] = (if old = [] then Some 0 else None)"
| "find_string old (c # cs) = (if take (length old) (c # cs) = old then Some 0 else map_option Suc (find_string old cs))"

definition replace_found :: "string \<Rightarrow> string \<Rightarrow> string \<Rightarrow> string option" where
  "replace_found old new s = map_option (\<lambda>i. take i s @ new @ drop (i + length old) s) (find_string old s)"

definition read_policy :: "('s, 'w) service \<Rightarrow> string \<Rightarrow> string \<Rightarrow> ('s, 'w) ability \<Rightarrow> string \<times> ('s, 'w) ability" where
  "read_policy V adminName name A =
     on_policies (\<lambda>s. let (_, v, s) = PolicyManager_GetPolicy (sv_rdb V) adminName name [] DEFAULT_USER_ID s in (v, s)) A"

definition report_replace :: "('s, 'w) service \<Rightarrow> string \<Rightarrow> string \<Rightarrow> ('s, 'w) ability \<Rightarrow> ('s, 'w) ability" where
  "report_replace V adminName newAdminName A =
     perform V (ReportEdmEventManagerAdmin newAdminName ACTION_REPLACE (admin_type_to_int ENT) adminName ENABLE_SOURCE_REPLACE) A"

text \<open>The protection against uninstalling moves to the new name. \<open>None\<close> is the exception of \<open>std::string::replace\<close>.\<close>

definition keep_uninstall_policy :: "('s, 'w) service \<Rightarrow> caller \<Rightarrow> string \<Rightarrow> string \<Rightarrow> string \<Rightarrow> string \<Rightarrow> ('s, 'w) ability
    \<Rightarrow> err_code option \<times> ('s, 'w) ability" where
  "keep_uninstall_policy V ca adminName newAdminName adminValue combinedValue A =
     (let (ret, A) = DelDisallowUninstallApp V ca adminName A in
      if FAILED ret then (Some SYSTEM_ABNORMALLY, A)
      else
        (let (ret, A) = AddDisallowUninstallApp V newAdminName A in
         if FAILED ret then (Some SYSTEM_ABNORMALLY, A)
         else (case (replace_found adminName newAdminName adminValue, replace_found adminName newAdminName combinedValue) of
             (Some adminValue, Some combinedValue) \<Rightarrow>
               (let (ret, A) = on_policies (PolicyManager_SetPolicy (sv_rdb V) newAdminName POLICY_DISALLOWED_UNINSTALL_BUNDLES
                      adminValue combinedValue DEFAULT_USER_ID) A
                in (Some (if FAILED ret then SYSTEM_ABNORMALLY else ERR_OK), A))
           | _ \<Rightarrow> (None, A))))"

definition HandleKeepPolicy :: "('s, 'w) service \<Rightarrow> caller \<Rightarrow> string \<Rightarrow> string \<Rightarrow> admin_info \<Rightarrow> admin_info \<Rightarrow> ('s, 'w) ability
    \<Rightarrow> err_code option \<times> ('s, 'w) ability" where
  "HandleKeepPolicy V ca adminName newAdminName newInfo oldInfo A =
     (let (ret, A) = on_admins V ca (ReplaceSuperAdminByPackageName (sv_rdb V) (sv_json V) adminName newInfo) A in
      if FAILED ret then (Some REPLACE_ADMIN_FAILED, A)
      else
        (let (adminValue, A) = read_policy V adminName POLICY_DISALLOWED_UNINSTALL_BUNDLES A;
             (combinedValue, A) = read_policy V [] POLICY_DISALLOWED_UNINSTALL_BUNDLES A;
             (ret, A) = on_policies (PolicyManager_ReplaceAllPolicy (sv_rdb V) DEFAULT_USER_ID adminName newAdminName) A
         in if FAILED ret then
              (Some REPLACE_ADMIN_FAILED,
               snd (on_admins V ca (ReplaceSuperAdminByPackageName (sv_rdb V) (sv_json V) newAdminName oldInfo) A))
            else
              (let (ret, A) = (if adminValue \<noteq> [] \<and> find_string adminName adminValue \<noteq> None
                     then keep_uninstall_policy V ca adminName newAdminName adminValue combinedValue A else (Some ERR_OK, A))
               in if ret \<noteq> Some ERR_OK then (ret, A) else (Some ERR_OK, report_replace V adminName newAdminName A))))"

definition AfterEnableAdminReportEdmEvent :: "('s, 'w) service \<Rightarrow> caller \<Rightarrow> element_name \<Rightarrow> element_name \<Rightarrow> ('s, 'w) ability
    \<Rightarrow> ('s, 'w) ability" where
  "AfterEnableAdminReportEdmEvent V ca newAdmin oldAdmin A =
     (let A = snd (DelDisallowUninstallApp V ca (elBundle oldAdmin) A);
          A = snd (AddDisallowUninstallApp V (elBundle newAdmin) A);
          A = perform V (UpdateSettingsData KEY_EDM_DISPLAY ''true'') A
      in report_replace V (elBundle oldAdmin) (elBundle newAdmin) A)"

definition after_replace :: "('s, 'w) service \<Rightarrow> caller \<Rightarrow> element_name \<Rightarrow> element_name \<Rightarrow> ('s, 'w) ability \<Rightarrow> ('s, 'w) ability" where
  "after_replace V ca oldAdmin newAdmin A =
     (let A = perform V (SetParameter PARAM_EDM_ENABLE ''true'') A;
          A = NotifyAdminEnabled V True A;
          A = snd (Ability_OnAdminEnabled V (elBundle newAdmin) (elAbility newAdmin) COMMAND_ON_ADMIN_ENABLED DEFAULT_USER_ID A)
      in AfterEnableAdminReportEdmEvent V ca newAdmin oldAdmin A)"

text \<open>The result of \<open>HandleKeepPolicy\<close> is not looked at, only its exception ends the request.\<close>

definition ReplaceSuperAdmin :: "('s, 'w) service \<Rightarrow> caller \<Rightarrow> element_name \<Rightarrow> element_name \<Rightarrow> bool \<Rightarrow> ('s, 'w) ability
    \<Rightarrow> err_code option \<times> ('s, 'w) ability" where
  "ReplaceSuperAdmin V ca oldAdmin newAdmin keepPolicy A =
     (let (ret, abilityInfo, permissionList) = CheckReplaceAdmins V ca oldAdmin newAdmin A in
      if FAILED ret then (Some ret, A)
      else if (case GetSuperAdmin (admins_table A) of None \<Rightarrow> False | Some a \<Rightarrow> runningMode (adminInfo a) = RUNNING_MODE_MULTI_USER)
      then (Some REPLACE_ADMIN_FAILED, A)
      else (case GetAdminByPkgName (elBundle oldAdmin) DEFAULT_USER_ID (admins_table A) of
        None \<Rightarrow> (Some ADMIN_INACTIVE, A)
      | Some adminPtr \<Rightarrow>
          (let info = AdminInfo0\<lparr>packageName := elBundle (hd abilityInfo), className := elAbility (hd abilityInfo),
                 entInfo := entInfo (adminInfo adminPtr), permission := permissionList, adminType := ENT, isDebug := False,
                 enableSource := ENABLE_SOURCE_REPLACE\<rparr>
           in if keepPolicy then
                (let (r, A) = HandleKeepPolicy V ca (elBundle oldAdmin) (elBundle newAdmin) info (adminInfo adminPtr) A
                 in if r = None then (None, A) else (Some ERR_OK, after_replace V ca oldAdmin newAdmin A))
              else
                (let (ret, A) = DoDisableAdmin V ca adminPtr DEFAULT_USER_ID ENT A in
                 if ret \<noteq> ERR_OK then (Some REPLACE_ADMIN_FAILED, A)
                 else
                   (let (ret, A) = on_admins V ca (SetAdminValue (sv_rdb V) (sv_json V) DEFAULT_USER_ID info) A in
                    if FAILED ret then (Some REPLACE_ADMIN_FAILED, A)
                    else (Some ERR_OK, after_replace V ca oldAdmin newAdmin A))))))"

end
