(* ===== verification/Ability_Requests.thy ===== *)
theory Ability_Requests
  imports Ability_Admins
begin

text \<open>
  \<open>enterprise_device_mgr_ability.cpp\<close>, the requests about administrators that are enabled: what they are, which events
  and which policies they delegate.
\<close>

abbreviation (input) POLICIES_MAX_SIZE :: nat where "POLICIES_MAX_SIZE \<equiv> 200"
abbreviation (input) EDM_UID :: int where "EDM_UID \<equiv> 3057"
abbreviation (input) EDC_UID :: int where "EDC_UID \<equiv> 7200"
abbreviation (input) MAX_POLICY_TYPE :: int where "MAX_POLICY_TYPE \<equiv> 3"
abbreviation (input) ABILITY_NOT_EXIST :: err_code where "ABILITY_NOT_EXIST \<equiv> 9200015"
abbreviation (input) PERMISSION_ENTERPRISE_START_ABILITIES :: string where
  "PERMISSION_ENTERPRISE_START_ABILITIES \<equiv> ''ohos.permission.ENTERPRISE_START_ABILITIES''"

subsection \<open>Who is an administrator\<close>

definition Ability_IsSuperAdmin :: "string \<Rightarrow> ('s, 'w) ability \<Rightarrow> err_code \<times> bool" where
  "Ability_IsSuperAdmin bundleName A = (ERR_OK, IsSuperAdmin bundleName (admins_table A))"

definition IsSelfSuperAdmin :: "caller \<Rightarrow> ('s, 'w) ability \<Rightarrow> err_code \<times> bool" where
  "IsSelfSuperAdmin ca A = (ERR_OK, IsSuperAdmin (GetHapTokenBundleName ca) (admins_table A))"

definition Ability_IsByodAdmin :: "caller \<Rightarrow> element_name \<Rightarrow> ('s, 'w) ability \<Rightarrow> err_code \<times> bool" where
  "Ability_IsByodAdmin ca el A =
     (if \<not> VerifyCallingPermission ca PERMISSION_GET_ADMINPROVISION_INFO then (PERMISSION_DENIED, False)
      else if hapBundleName ca \<noteq> Some (elBundle el) then (PARAMETER_VERIFICATION_FAILED, False)
      else (ERR_OK, IsByodAdmin (elBundle el) (GetCurrentUserId ca) (admins_table A)))"

definition IsAdminEnabled :: "element_name \<Rightarrow> user_id \<Rightarrow> ('s, 'w) ability \<Rightarrow> err_code \<times> bool" where
  "IsAdminEnabled el userId A = (ERR_OK, GetAdminByPkgName (elBundle el) userId (admins_table A) \<noteq> None)"

definition Ability_GetEnabledAdmin :: "caller \<Rightarrow> admin_type \<Rightarrow> string list \<Rightarrow> ('s, 'w) ability \<Rightarrow> err_code \<times> string list" where
  "Ability_GetEnabledAdmin ca type enabledAdminList A =
     (let c = admins_table A in
      case type of
        NORMAL \<Rightarrow> (ERR_OK, GetEnabledAdmin NORMAL (GetCurrentUserId ca) c @ GetEnabledAdmin ENT DEFAULT_USER_ID c @ enabledAdminList)
      | ENT \<Rightarrow> (ERR_OK, GetEnabledAdmin ENT DEFAULT_USER_ID c @ enabledAdminList)
      | BYOD \<Rightarrow> (ERR_OK, GetEnabledAdmin BYOD DEFAULT_USER_ID c @ enabledAdminList)
      | ADMIN_TYPE_UNKNOWN \<Rightarrow> (ERR_OK, enabledAdminList)
      | _ \<Rightarrow> (ERR_EDM_PARAM_ERROR, enabledAdminList))"

definition Ability_GetSuperAdmin :: "('s, 'w) ability \<Rightarrow> err_code \<times> string \<times> string" where
  "Ability_GetSuperAdmin A =
     (case GetSuperAdmin (admins_table A) of
        None \<Rightarrow> (ERR_OK, [], [])
      | Some a \<Rightarrow> (ERR_OK, packageName (adminInfo a), className (adminInfo a)))"

text \<open>A want carries the bundle name, the ability name, the type, and the last two fields only in \<open>GetAdmins\<close>.\<close>

record admin_want =
  wantBundle :: string
  wantAbility :: string
  wantType :: int
  wantDebugAndSource :: "(bool \<times> enable_source) option"

definition Ability_GetAdmins :: "caller \<Rightarrow> ('s, 'w) ability \<Rightarrow> err_code \<times> admin_want list" where
  "Ability_GetAdmins ca A =
     (ERR_OK, map (\<lambda>a. \<lparr> wantBundle = packageName (adminInfo a), wantAbility = className (adminInfo a),
        wantType = admin_type_to_int (adminType (adminInfo a)),
        wantDebugAndSource = Some (isDebug (adminInfo a), enableSource (adminInfo a)) \<rparr>)
        (GetAdmins [] (GetCurrentUserId ca) (admins_table A)))"

definition GetAdminInfos :: "caller \<Rightarrow> ('s, 'w) ability \<Rightarrow> err_code \<times> admin_want list" where
  "GetAdminInfos ca A =
     (if \<not> VerifyCallingPermission ca PERMISSION_ENTERPRISE_MANAGE_DEVICE_ADMIN then (PERMISSION_DENIED, [])
      else (case GetAdminByPkgName (GetHapTokenBundleName ca) DEFAULT_USER_ID (admins_table A) of
        None \<Rightarrow> (ADMIN_INACTIVE, [])
      | Some a \<Rightarrow>
          (if GetAdminType a \<noteq> ENT then (ADMIN_EDM_PERMISSION_DENIED, [])
           else (ERR_OK, map (\<lambda>a. \<lparr> wantBundle = packageName (adminInfo a), wantAbility = className (adminInfo a),
                  wantType = admin_type_to_int (adminType (adminInfo a)), wantDebugAndSource = None \<rparr>)
                (filter (\<lambda>a. \<not> (adminType (adminInfo a) \<noteq> NORMAL \<and> adminType (adminInfo a) \<noteq> ENT))
                  (GetAdmins [] DEFAULT_USER_ID (admins_table A)))))))"

definition GetEnterpriseInfo :: "caller \<Rightarrow> element_name \<Rightarrow> ('s, 'w) ability \<Rightarrow> err_code \<times> ent_info option" where
  "GetEnterpriseInfo ca el A =
     (case GetAdminByPkgName (elBundle el) (GetCurrentUserId ca) (admins_table A) of
        None \<Rightarrow> (ADMIN_INACTIVE, None) | Some a \<Rightarrow> (ERR_OK, Some (entInfo (adminInfo a))))"

subsection \<open>Changing an administrator\<close>

definition SetEnterpriseInfo :: "('s, 'w) service \<Rightarrow> caller \<Rightarrow> element_name \<Rightarrow> ent_info \<Rightarrow> ('s, 'w) ability
    \<Rightarrow> err_code \<times> ('s, 'w) ability" where
  "SetEnterpriseInfo V ca el ent A =
     (let userId = GetCurrentUserId ca in
      case GetAdminByPkgName (elBundle el) userId (admins_table A) of
        None \<Rightarrow> (ADMIN_INACTIVE, A)
      | Some adminItem \<Rightarrow>
          (if \<not> CheckCallerPermission ca (packageName (adminInfo adminItem)) PERMISSION_SET_ENTERPRISE_INFO then (PERMISSION_DENIED, A)
           else
             (let userId = (if IsAllowedAcrossAccountSetPolicy adminItem then DEFAULT_USER_ID else userId);
                  (code, A) = on_admins V ca (Mgr_SetEntInfo (sv_rdb V) adminItem ent userId) A
              in (if code \<noteq> ERR_OK then ADMIN_INACTIVE else ERR_OK, A))))"

definition CheckRunningMode :: "u32 \<Rightarrow> bool" where
  "CheckRunningMode mode = (mode \<ge> 0 \<and> mode \<le> 1)"

definition SetAdminRunningMode :: "('s, 'w) service \<Rightarrow> caller \<Rightarrow> element_name \<Rightarrow> u32 \<Rightarrow> ('s, 'w) ability
    \<Rightarrow> err_code \<times> ('s, 'w) ability" where
  "SetAdminRunningMode V ca el mode A =
     (case GetAdminByPkgName (elBundle el) (GetCurrentUserId ca) (admins_table A) of
        None \<Rightarrow> (ADMIN_INACTIVE, A)
      | Some adminItem \<Rightarrow>
          (if \<not> VerifyCallingPermission ca PERMISSION_MANAGE_ENTERPRISE_DEVICE_ADMIN then (PERMISSION_DENIED, A)
           else if \<not> CheckRunningMode mode then (PARAM_ERROR, A)
           else on_admins V ca (SetAdminValue (sv_rdb V) (sv_json V) DEFAULT_USER_ID
                  ((adminInfo adminItem)\<lparr>runningMode := int (unat mode)\<rparr>)) A))"

subsection \<open>Events\<close>

definition CheckManagedEvent :: "u32 \<Rightarrow> bool" where
  "CheckManagedEvent event = (event \<ge> EV_BUNDLE_ADDED \<and> event \<le> EVENT_POLICIES_CHANGED)"

definition VerifyManagedEvent :: "('s, 'w) service \<Rightarrow> caller \<Rightarrow> element_name \<Rightarrow> u32 list \<Rightarrow> ('s, 'w) ability \<Rightarrow> err_code" where
  "VerifyManagedEvent V ca el events A =
     (case GetAdminByPkgName (elBundle el) (GetCurrentUserId ca) (admins_table A) of
        None \<Rightarrow> ADMIN_INACTIVE
      | Some adminItem \<Rightarrow>
          (if \<not> HasPermissionToCallServiceCode (sv_pc_only V) adminItem IC_SUBSCRIBE_MANAGED_EVENT then ADMIN_EDM_PERMISSION_DENIED
           else if \<not> CheckCallerPermission ca (packageName (adminInfo adminItem)) PERMISSION_ENTERPRISE_SUBSCRIBE_MANAGED_EVENT
           then PERMISSION_DENIED
           else if events = [] then MANAGED_EVENTS_INVALID
           else if \<not> HasPermissionSubscribeManagedEvents adminItem events then ADMIN_EDM_PERMISSION_DENIED
           else if list_ex (\<lambda>e. \<not> CheckManagedEvent e) events then MANAGED_EVENTS_INVALID
           else ERR_OK))"

text \<open>The user whose table holds the administrator.\<close>

definition subscribing_user :: "caller \<Rightarrow> element_name \<Rightarrow> ('s, 'w) ability \<Rightarrow> user_id" where
  "subscribing_user ca el A =
     (case GetAdminByPkgName (elBundle el) (GetCurrentUserId ca) (admins_table A) of
        None \<Rightarrow> DEFAULT_USER_ID
      | Some a \<Rightarrow> if \<not> IsAllowedAcrossAccountSetPolicy a then GetCurrentUserId ca else DEFAULT_USER_ID)"

definition SubscribeManagedEvent :: "('s, 'w) service \<Rightarrow> caller \<Rightarrow> element_name \<Rightarrow> u32 list \<Rightarrow> ('s, 'w) ability
    \<Rightarrow> err_code \<times> ('s, 'w) ability" where
  "SubscribeManagedEvent V ca el events A =
     (let ret = VerifyManagedEvent V ca el events A; userId = subscribing_user ca el A in
      if FAILED ret then (ret, A)
      else
        (let A = snd (on_admins V ca (SaveSubscribeEvents (sv_rdb V) (sv_json V) events (elBundle el) userId) A)
         in (ERR_OK, on_events (fold (OnAdminSubscribe (sv_sources V) (admins_table A) (elBundle el) userId) events) A)))"

definition UnsubscribeManagedEvent :: "('s, 'w) service \<Rightarrow> caller \<Rightarrow> element_name \<Rightarrow> u32 list \<Rightarrow> ('s, 'w) ability
    \<Rightarrow> err_code \<times> ('s, 'w) ability" where
  "UnsubscribeManagedEvent V ca el events A =
     (let ret = VerifyManagedEvent V ca el events A; userId = subscribing_user ca el A in
      if FAILED ret then (ret, A)
      else
        (let A = snd (on_admins V ca (RemoveSubscribeEvents (sv_rdb V) (sv_json V) events (elBundle el) userId) A)
         in (ERR_OK, on_events (\<lambda>(e, w). (fold (OnAdminUnsubscribe (elBundle el) userId) events e, w)) A)))"

end
