(* ===== verification/Ability_Policies.thy ===== *)
theory Ability_Policies
  imports Ability_Requests
begin

text \<open>
  \<open>enterprise_device_mgr_ability.cpp\<close>, the requests about policies: delegating them to other bundles, setting and reading
  one through its plugin, the timers and the abilities an administrator may start.
\<close>

abbreviation (input) PARAM_EDM_ENTERPRISE_CONFIG_ENABLE :: string where
  "PARAM_EDM_ENTERPRISE_CONFIG_ENABLE \<equiv> ''persist.edm.enterprise_config_enable''"
abbreviation (input) PERMISSION_MANAGE_EDM_POLICY :: string where "PERMISSION_MANAGE_EDM_POLICY \<equiv> ''ohos.permission.MANAGE_EDM_POLICY''"
abbreviation (input) APP_TYPE_ENTERPRISE_MDM :: string where "APP_TYPE_ENTERPRISE_MDM \<equiv> ''enterprise_mdm''"
abbreviation (input) APP_TYPE_ENTERPRISE_NORMAL :: string where "APP_TYPE_ENTERPRISE_NORMAL \<equiv> ''enterprise_normal''"

subsection \<open>Delegation\<close>

fun first_extension :: "(bool \<times> string) list \<Rightarrow> string option" where
  "first_extension [] = None"
| "first_extension ((isAdmin, name) # es) = (if isAdmin then Some name else first_extension es)"

definition GetExtensionEnterpriseAdminName :: "('s, 'w) service \<Rightarrow> string \<Rightarrow> user_id \<Rightarrow> ('s, 'w) ability \<Rightarrow> string" where
  "GetExtensionEnterpriseAdminName V bundleName userId A =
     (case pf_GetBundleExtensions (sv_platform V) bundleName userId (abWorld A) of
        None \<Rightarrow> []
      | Some modules \<Rightarrow> (case first_extension (concat modules) of None \<Rightarrow> [] | Some name \<Rightarrow> name))"

definition AuthorizeAdmin :: "('s, 'w) service \<Rightarrow> caller \<Rightarrow> element_name \<Rightarrow> string \<Rightarrow> ('s, 'w) ability \<Rightarrow> err_code \<times> ('s, 'w) ability" where
  "AuthorizeAdmin V ca el bundleName A =
     (case GetAdminByPkgName (elBundle el) (GetCurrentUserId ca) (admins_table A) of
        None \<Rightarrow> (ADMIN_INACTIVE, A)
      | Some adminItem \<Rightarrow>
          (if \<not> HasPermissionToCallServiceCode (sv_pc_only V) adminItem IC_AUTHORIZE_ADMIN then (ADMIN_EDM_PERMISSION_DENIED, A)
           else if \<not> VerifyCallingPermission ca PERMISSION_MANAGE_ENTERPRISE_DEVICE_ADMIN then (PERMISSION_DENIED, A)
           else if (case GetAdminByPkgName bundleName (GetCurrentUserId ca) (admins_table A) of
                      None \<Rightarrow> False | Some subAdmin \<Rightarrow> adminType (adminInfo subAdmin) \<noteq> SUB_SUPER_ADMIN)
           then (ADMIN_EDM_PERMISSION_DENIED, A)
           else
             (let (ret, permissionList) = GetAllPermissionsByAdmin ca bundleName DEFAULT_USER_ID in
              if FAILED ret then (AUTHORIZE_PERMISSION_FAILED, A)
              else
                (let abilityName = GetExtensionEnterpriseAdminName V bundleName DEFAULT_USER_ID A;
                     info = AdminInfo0\<lparr>packageName := bundleName, className := abilityName, permission := permissionList,
                       parentAdminName := elBundle el, adminType := SUB_SUPER_ADMIN, isDebug := isDebug (adminInfo adminItem)\<rparr>;
                     (ret, A) = on_admins V ca (SetAdminValue (sv_rdb V) (sv_json V) DEFAULT_USER_ID info) A
                 in if ret \<noteq> ERR_OK then (ret, A)
                    else
                      (let A = snd (Ability_OnAdminEnabled V bundleName abilityName COMMAND_ON_ADMIN_ENABLED DEFAULT_USER_ID A)
                       in (ret, perform V (ReportEdmEventManagerAdmin bundleName ACTION_ENABLE (admin_type_to_int SUB_SUPER_ADMIN)
                             (elBundle el) ENABLE_SOURCE_SUPER_ADMIN) A))))))"

definition CheckDelegatedBundle :: "('s, 'w) service \<Rightarrow> string \<Rightarrow> user_id \<Rightarrow> ('s, 'w) ability \<Rightarrow> bool" where
  "CheckDelegatedBundle V bundleName userId A =
     (if \<not> pf_IsBundleInstalled (sv_platform V) bundleName userId (abWorld A) then False
      else
        (let t = pf_GetApplicationInfo (sv_platform V) bundleName userId (abWorld A)
         in \<not> (t \<noteq> APP_TYPE_ENTERPRISE_MDM \<and> t \<noteq> APP_TYPE_ENTERPRISE_NORMAL)))"

definition DisableVirtualAdmin :: "('s, 'w) service \<Rightarrow> caller \<Rightarrow> string \<Rightarrow> string \<Rightarrow> ('s, 'w) ability \<Rightarrow> err_code \<times> ('s, 'w) ability" where
  "DisableVirtualAdmin V ca bundleName parentName A =
     (let (res, A) = RemoveSubSuperAdminAndAdminPolicy V ca bundleName VIRTUAL_ADMIN A
      in (res, if res = ERR_OK
               then perform V (ReportEdmEventManagerAdmin bundleName ACTION_DISABLE (admin_type_to_int VIRTUAL_ADMIN) parentName 0) A
               else A))"

text \<open>The delegation by the caller with the permission to manage administrators.\<close>

definition SetDelegatedPoliciesForUser :: "('s, 'w) service \<Rightarrow> caller \<Rightarrow> string \<Rightarrow> string list \<Rightarrow> user_id \<Rightarrow> ('s, 'w) ability
    \<Rightarrow> err_code \<times> ('s, 'w) ability" where
  "SetDelegatedPoliciesForUser V ca bundleName policies userId A =
     (if \<not> VerifyCallingPermission ca PERMISSION_MANAGE_ENTERPRISE_DEVICE_ADMIN then (PERMISSION_DENIED, A)
      else if length policies > POLICIES_MAX_SIZE then (PARAM_ERROR, A)
      else if list_ex (\<lambda>p. \<not> IsAllowDelegatedPolicy p) policies then (PARAM_ERROR, A)
      else if GetAdminByPkgName bundleName userId (admins_table A) \<noteq> None then (AUTHORIZE_PERMISSION_FAILED, A)
      else if \<not> CheckDelegatedBundle V bundleName userId A then (AUTHORIZE_PERMISSION_FAILED, A)
      else
        (let setPolicies = (if POLICY_ALLOW_ALL \<in> set policies then [POLICY_ALLOW_ALL] else policies) in
         case nameForUid ca (callingUid ca) of
           None \<Rightarrow> (ERR_EDM_PERMISSION_ERROR, A)
         | Some callingBundleName \<Rightarrow>
             (let (ret, permissionList) = GetAllPermissionsByAdmin ca bundleName userId in
              if FAILED ret then (AUTHORIZE_PERMISSION_FAILED, A)
              else
                (let info = AdminInfo0\<lparr>packageName := bundleName, permission := permissionList, parentAdminName := callingBundleName,
                       accessiblePolicies := setPolicies, adminType := VIRTUAL_ADMIN, isDebug := False\<rparr>;
                     A = NotifyAdminEnabled V True (perform V (SetParameter PARAM_EDM_ENABLE ''true'') A)
                 in on_admins V ca (SetAdminValue (sv_rdb V) (sv_json V) userId info) A))))"

fun check_delegated :: "('s, 'w) service \<Rightarrow> caller \<Rightarrow> permission_type \<Rightarrow> string list \<Rightarrow> ('s, 'w) ability \<Rightarrow> err_code \<times> ('s, 'w) ability" where
  "check_delegated V ca type [] A = (ERR_OK, A)"
| "check_delegated V ca type (policy # policies) A =
     (if \<not> IsAllowDelegatedPolicy policy then (PARAM_ERROR, A)
      else
        (let (perm, A) = on_plugin_tables (GetPluginPermissionByPolicyName (sv_plugins V) policy type) A in
         if perm = [] \<or> perm = NONE_PERMISSION_MATCH then (SYSTEM_ABNORMALLY, A)
         else if \<not> VerifyCallingPermission ca perm then (PERMISSION_DENIED, A)
         else check_delegated V ca type policies A))"

definition CheckDelegatedPolicies :: "('s, 'w) service \<Rightarrow> caller \<Rightarrow> admin_type \<Rightarrow> string list \<Rightarrow> ('s, 'w) ability \<Rightarrow> err_code \<times> ('s, 'w) ability" where
  "CheckDelegatedPolicies V ca type policies A = check_delegated V ca (AdminTypeToPermissionType type) policies A"

definition SetDelegatedPolicies :: "('s, 'w) service \<Rightarrow> caller \<Rightarrow> element_name \<Rightarrow> string \<Rightarrow> string list \<Rightarrow> ('s, 'w) ability
    \<Rightarrow> err_code \<times> ('s, 'w) ability" where
  "SetDelegatedPolicies V ca parentAdmin bundleName policies A =
     (if length policies > POLICIES_MAX_SIZE then (PARAM_ERROR, A)
      else
        (let parentAdminName = elBundle parentAdmin; userId = GetCurrentUserId ca in
         case GetAdminByPkgName parentAdminName userId (admins_table A) of
           None \<Rightarrow> (ADMIN_INACTIVE, A)
         | Some adminItem \<Rightarrow>
             (if \<not> HasPermissionToCallServiceCode (sv_pc_only V) adminItem IC_SET_DELEGATED_POLICIES
              then (ADMIN_EDM_PERMISSION_DENIED, A)
              else if \<not> CheckCallerPermission ca parentAdminName PERMISSION_ENTERPRISE_MANAGE_DELEGATED_POLICY
              then (PERMISSION_DENIED, A)
              else if parentAdminName = bundleName then (PARAM_ERROR, A)
              else if policies = [] then DisableVirtualAdmin V ca bundleName parentAdminName A
              else
                (let (ret, A) = CheckDelegatedPolicies V ca (GetAdminType adminItem) policies A in
                 if FAILED ret then (ret, A)
                 else if \<not> CheckDelegatedBundle V bundleName userId A then (AUTHORIZE_PERMISSION_FAILED, A)
                 else
                   (let (ret, permissionList) = GetAllPermissionsByAdmin ca bundleName userId in
                    if FAILED ret then (AUTHORIZE_PERMISSION_FAILED, A)
                    else
                      (let info = AdminInfo0\<lparr>packageName := bundleName, permission := permissionList,
                             parentAdminName := parentAdminName, accessiblePolicies := policies, adminType := VIRTUAL_ADMIN,
                             isDebug := isDebug (adminInfo adminItem)\<rparr>;
                           (ret, A) = on_admins V ca (SetAdminValue (sv_rdb V) (sv_json V) userId info) A
                       in (ret, if ret = ERR_OK
                                then perform V (ReportEdmEventManagerAdmin bundleName ACTION_ENABLE (admin_type_to_int VIRTUAL_ADMIN)
                                       parentAdminName 0) A
                                else A)))))))"

definition GetDelegatedPolicies :: "('s, 'w) service \<Rightarrow> caller \<Rightarrow> element_name \<Rightarrow> string \<Rightarrow> ('s, 'w) ability \<Rightarrow> err_code \<times> string list" where
  "GetDelegatedPolicies V ca parentAdmin bundleName A =
     (let parentAdminName = elBundle parentAdmin in
      case GetAdminByPkgName parentAdminName (GetCurrentUserId ca) (admins_table A) of
        None \<Rightarrow> (ADMIN_INACTIVE, [])
      | Some adminItem \<Rightarrow>
          (if \<not> HasPermissionToCallServiceCode (sv_pc_only V) adminItem IC_GET_DELEGATED_POLICIES then (ADMIN_EDM_PERMISSION_DENIED, [])
           else if \<not> CheckCallerPermission ca parentAdminName PERMISSION_ENTERPRISE_MANAGE_DELEGATED_POLICY then (PERMISSION_DENIED, [])
           else GetPoliciesByVirtualAdmin bundleName parentAdminName (admins_table A)))"

definition GetDelegatedBundleNames :: "('s, 'w) service \<Rightarrow> caller \<Rightarrow> element_name \<Rightarrow> string \<Rightarrow> ('s, 'w) ability \<Rightarrow> err_code \<times> string list" where
  "GetDelegatedBundleNames V ca parentAdmin name A =
     (if \<not> IsAllowDelegatedPolicy name then (PARAM_ERROR, [])
      else
        (let parentAdminName = elBundle parentAdmin in
         case GetAdminByPkgName parentAdminName (GetCurrentUserId ca) (admins_table A) of
           None \<Rightarrow> (ADMIN_INACTIVE, [])
         | Some adminItem \<Rightarrow>
             (if \<not> HasPermissionToCallServiceCode (sv_pc_only V) adminItem IC_GET_DELEGATED_BUNDLE_NAMES
              then (ADMIN_EDM_PERMISSION_DENIED, [])
              else if \<not> CheckCallerPermission ca parentAdminName PERMISSION_ENTERPRISE_MANAGE_DELEGATED_POLICY
              then (PERMISSION_DENIED, [])
              else (ERR_OK, GetVirtualAdminsByPolicy name parentAdminName (admins_table A)))))"

subsection \<open>Setting a policy\<close>

definition policy_name_of :: "('s, 'w) service \<Rightarrow> u32 \<Rightarrow> ('s, 'w) ability \<Rightarrow> string \<times> ('s, 'w) ability" where
  "policy_name_of V code A = on_plugin_tables (PluginManager_GetPolicyName (sv_plugins V) code) A"

definition CheckPluginCalling :: "('s, 'w) service \<Rightarrow> caller \<Rightarrow> u32 \<Rightarrow> func_operate_type \<Rightarrow> string \<Rightarrow> ('s, 'w) ability
    \<Rightarrow> err_code \<times> ('s, 'w) ability" where
  "CheckPluginCalling V ca code operateType tag A =
     (let (type, A) = on_plugin_tables (PluginManager_GetPluginType (sv_plugins V) code operateType) A
      in (CheckSystemCalling ca type tag, A))"

text \<open>The permission of the plugin for the type of the administrator, and the check of the caller with it.\<close>

definition CheckAdminPermission :: "('s, 'w) service \<Rightarrow> caller \<Rightarrow> u32 \<Rightarrow> func_operate_type \<Rightarrow> admin \<Rightarrow> string \<Rightarrow> string \<Rightarrow> user_id
    \<Rightarrow> ('s, 'w) ability \<Rightarrow> err_code \<times> ('s, 'w) ability" where
  "CheckAdminPermission V ca code operateType a tag name userId A =
     (let (perm, A) = on_plugin_tables (PluginManager_GetPermission (sv_plugins V) code operateType
            (AdminTypeToPermissionType (GetAdminType a)) tag) A
      in (CheckHandlePolicyPermission (sv_pc_only V) ca operateType (Some a) name perm userId, A))"

definition CheckSetPolicyPermission :: "('s, 'w) service \<Rightarrow> caller \<Rightarrow> u32 \<Rightarrow> string \<Rightarrow> string \<Rightarrow> string \<Rightarrow> user_id
    \<Rightarrow> ('s, 'w) ability \<Rightarrow> err_code \<times> ('s, 'w) ability" where
  "CheckSetPolicyPermission V ca code bundleName tag name userId A =
     (if VerifyCallingPermission ca PERMISSION_MANAGE_EDM_POLICY then (ERR_OK, A)
      else (case GetAdminByPkgName bundleName (GetCurrentUserId ca) (admins_table A) of
        None \<Rightarrow> (ADMIN_INACTIVE, A)
      | Some deviceAdmin \<Rightarrow>
          (if callingUid ca = EDM_UID then (ERR_OK, A)
           else CheckAdminPermission V ca code OP_SET deviceAdmin tag name userId A)))"

definition update_and_report :: "('s, 'w) service \<Rightarrow> u32 \<Rightarrow> string \<Rightarrow> string \<Rightarrow> string \<Rightarrow> user_id \<Rightarrow> ('s, 'w) ability
    \<Rightarrow> err_code \<times> ('s, 'w) ability" where
  "update_and_report V code bundleName abilityName name userId A =
     (let (ret, A) = on_plugins (UpdateDevicePolicy (sv_rdb V) (sv_plugins V) code bundleName userId) A;
          configEnable = pf_GetParameter (sv_platform V) PARAM_EDM_ENTERPRISE_CONFIG_ENABLE ''false'' (abWorld A);
          A = (if ret = ERR_OK \<and> configEnable = ''false''
               then perform V (SetParameter PARAM_EDM_ENTERPRISE_CONFIG_ENABLE ''true'') A else A)
      in (ret, perform V (ReportSecurityInfo bundleName abilityName (GetOperateType code) name (int_to_string ret) False) A))"

definition read_tag :: "('s, 'w) service \<Rightarrow> ('s, 'w) ability \<Rightarrow> string \<times> ('s, 'w) ability" where
  "read_tag V A = (let (tag, w) = pf_ReadString (sv_platform V) (abWorld A) in (tag, A\<lparr>abWorld := w\<rparr>))"

definition HandleDevicePolicy :: "('s, 'w) service \<Rightarrow> caller \<Rightarrow> u32 \<Rightarrow> element_name \<Rightarrow> user_id \<Rightarrow> ('s, 'w) ability
    \<Rightarrow> err_code \<times> ('s, 'w) ability" where
  "HandleDevicePolicy V ca code el userId A =
     (let (name, A) = policy_name_of V code A in
      if name = [] then (INTERFACE_UNSUPPORTED, A)
      else
        (let isUserExist = pf_IsOsAccountExists (sv_platform V) userId (abWorld A);
             (tag, A) = read_tag V A
         in if \<not> isUserExist \<and> tag = PERMISSION_TAG_VERSION_23 then (PARAMETER_VERIFICATION_FAILED, A)
            else if \<not> isUserExist then (PARAM_ERROR, A)
            else
              (let (systemCalling, A) = CheckPluginCalling V ca code OP_SET [] A in
               if FAILED systemCalling then (systemCalling, A)
               else
                 (let (ret, A) = CheckSetPolicyPermission V ca code (elBundle el) tag name userId A in
                  if FAILED ret then (ret, A)
                  else update_and_report V code (elBundle el) (elAbility el) name userId A))))"

abbreviation (input) IC_SYSTEM_TIMER_OPERATION :: u32 where "IC_SYSTEM_TIMER_OPERATION \<equiv> 1178"

definition IsSystemTimerFuncCode :: "u32 \<Rightarrow> bool" where
  "IsSystemTimerFuncCode code = (FUNC_TO_POLICY code = IC_SYSTEM_TIMER_OPERATION)"

definition HandleSystemTimerPolicyNew :: "('s, 'w) service \<Rightarrow> caller \<Rightarrow> ('s, 'w) ability \<Rightarrow> err_code \<times> ('s, 'w) ability" where
  "HandleSystemTimerPolicyNew V ca A =
     (case nameForUid ca (callingUid ca) of
        None \<Rightarrow> (ERR_EDM_PERMISSION_ERROR, A)
      | Some bundleName \<Rightarrow>
          (let permRet = CheckSystemTimerPermission ca (admins_table A) bundleName (GetCurrentUserId ca) in
           if FAILED permRet then (permRet, A)
           else on_timers (HandleTimerOperation (sv_time V) bundleName) A))"

definition CheckHandleDevicePolicyNewPermission :: "('s, 'w) service \<Rightarrow> caller \<Rightarrow> u32 \<Rightarrow> string \<Rightarrow> string \<Rightarrow> user_id
    \<Rightarrow> ('s, 'w) ability \<Rightarrow> err_code \<times> ('s, 'w) ability" where
  "CheckHandleDevicePolicyNewPermission V ca code bundleName name userId A =
     CheckSetPolicyPermission V ca code bundleName [] name userId A"

definition calling_bundle :: "caller \<Rightarrow> string" where
  "calling_bundle ca = (case nameForUid ca (callingUid ca) of None \<Rightarrow> [] | Some n \<Rightarrow> n)"

definition HandleDevicePolicyNew :: "('s, 'w) service \<Rightarrow> caller \<Rightarrow> u32 \<Rightarrow> user_id \<Rightarrow> ('s, 'w) ability \<Rightarrow> err_code \<times> ('s, 'w) ability" where
  "HandleDevicePolicyNew V ca code userId A =
     (if \<not> sv_pc_only V \<and> IsSystemTimerFuncCode code then HandleSystemTimerPolicyNew V ca A
      else
        (let (name, A) = policy_name_of V code A in
         if name = [] then (INTERFACE_UNSUPPORTED, A)
         else if \<not> pf_IsOsAccountExists (sv_platform V) userId (abWorld A) then (UID_INVALID, A)
         else
           (let (systemCalling, A) = CheckPluginCalling V ca code OP_SET [] A in
            if FAILED systemCalling then (systemCalling, A)
            else
              (let (ret, A) = CheckHandleDevicePolicyNewPermission V ca code (calling_bundle ca) name userId A in
               if FAILED ret then (ret, A)
               else update_and_report V code (calling_bundle ca) [] name userId A))))"

text \<open>The credential goes to the plugin in the parcel.\<close>

definition EnableSelfDeviceAdmin :: "('s, 'w) service \<Rightarrow> caller \<Rightarrow> element_name \<Rightarrow> string \<Rightarrow> ('s, 'w) ability
    \<Rightarrow> err_code \<times> ('s, 'w) ability" where
  "EnableSelfDeviceAdmin V ca el credential A =
     (if sv_pc_only V then
        (if \<not> VerifyCallingPermission ca PERMISSION_ENTERPRISE_ACTIVATE_DEVICE_ADMIN then (PERMISSION_DENIED, A)
         else
           (let A = A\<lparr>abWorld := pf_WriteRequest (sv_platform V) [WString (elBundle el), WString (elAbility el), WString credential]
                  (abWorld A)\<rparr>;
                (ret, A) = on_plugins (UpdateDevicePolicy (sv_rdb V) (sv_plugins V)
                  (POLICY_FUNC_CODE (operate_type_code OP_SET) IC_ENABLE_SELF_DEVICE_ADMIN) (elBundle el) DEFAULT_USER_ID) A
            in (ret, if ret = ERR_OK then SendAdminNotification V ''management_notification_tips'' A else A)))
      else (INTERFACE_UNSUPPORTED, A))"

subsection \<open>Reading a policy through its plugin\<close>

definition get_and_report :: "('s, 'w) service \<Rightarrow> u32 \<Rightarrow> string \<Rightarrow> string \<Rightarrow> string \<Rightarrow> user_id \<Rightarrow> ('s, 'w) ability
    \<Rightarrow> err_code \<times> ('s, 'w) ability" where
  "get_and_report V code bundleName abilityName name userId A =
     (let (getRet, A) = on_plugins (PluginManager_GetPolicy (sv_rdb V) (sv_plugins V) code bundleName userId) A
      in (getRet, perform V (ReportSecurityInfo bundleName abilityName (GetOperateType code) name (int_to_string getRet) True) A))"

text \<open>Without an administrator the caller needs the permission of the plugin for one of the two kinds.\<close>

definition CheckElementNull :: "('s, 'w) service \<Rightarrow> (string \<Rightarrow> bool) \<Rightarrow> u32 \<Rightarrow> string \<Rightarrow> ('s, 'w) ability \<Rightarrow> bool \<times> ('s, 'w) ability" where
  "CheckElementNull V check code tag A =
     (let (perm, A) = on_plugin_tables (PluginManager_GetPermission (sv_plugins V) code OP_GET SUPER_DEVICE_ADMIN tag) A;
          (permByod, A) = on_plugin_tables (PluginManager_GetPermission (sv_plugins V) code OP_GET BYOD_DEVICE_ADMIN tag) A
      in (check perm \<or> check permByod, A))"

definition read_int :: "('s, 'w) service \<Rightarrow> ('s, 'w) ability \<Rightarrow> int \<times> ('s, 'w) ability" where
  "read_int V A = (let (n, w) = pf_ReadInt32 (sv_platform V) (abWorld A) in (case n of None \<Rightarrow> 0 | Some n \<Rightarrow> n, A\<lparr>abWorld := w\<rparr>))"

definition read_element :: "('s, 'w) service \<Rightarrow> ('s, 'w) ability \<Rightarrow> element_name option \<times> ('s, 'w) ability" where
  "read_element V A = (let (el, w) = pf_ReadElement (sv_platform V) (abWorld A) in (el, A\<lparr>abWorld := w\<rparr>))"

definition GetDevicePolicyFromPlugin :: "('s, 'w) service \<Rightarrow> caller \<Rightarrow> u32 \<Rightarrow> user_id \<Rightarrow> string \<Rightarrow> ('s, 'w) ability
    \<Rightarrow> err_code \<times> ('s, 'w) ability" where
  "GetDevicePolicyFromPlugin V ca code userId tag A =
     (let (name, A) = policy_name_of V code A in
      if name = [] then (INTERFACE_UNSUPPORTED, A)
      else
        (let (systemCalling, A) = CheckPluginCalling V ca code OP_GET tag A in
         if FAILED systemCalling then (systemCalling, A)
         else
           (let (hasAdmin, A) = read_int V A in
            if hasAdmin = 0 then
              (let (el, A) = read_element V A in
               case el of
                 None \<Rightarrow> (PARAM_ERROR, A)
               | Some el \<Rightarrow>
                   (case GetAdminByPkgName (elBundle el) (GetCurrentUserId ca) (admins_table A) of
                      None \<Rightarrow> (ADMIN_INACTIVE, A)
                    | Some deviceAdmin \<Rightarrow>
                        (let (ret, A) = CheckAdminPermission V ca code OP_GET deviceAdmin tag name userId A in
                         if FAILED ret then (ret, A)
                         else get_and_report V code (elBundle el) (elAbility el) name userId A)))
            else
              (let (ok, A) = CheckElementNull V (CheckElementNullPermission ca code) code tag A in
               if \<not> ok then (PERMISSION_DENIED, A) else get_and_report V code [] [] name userId A))))"

abbreviation (input) QUERY_POLICY_SELF :: int where "QUERY_POLICY_SELF \<equiv> 0"

definition GetDevicePolicyFromPluginNew :: "('s, 'w) service \<Rightarrow> caller \<Rightarrow> u32 \<Rightarrow> user_id \<Rightarrow> int \<Rightarrow> ('s, 'w) ability
    \<Rightarrow> err_code \<times> ('s, 'w) ability" where
  "GetDevicePolicyFromPluginNew V ca code userId queryPolicy A =
     (let (name, A) = policy_name_of V code A in
      if name = [] then (INTERFACE_UNSUPPORTED, A)
      else if queryPolicy = QUERY_POLICY_SELF then
        (case GetAdminByPkgName (calling_bundle ca) (GetCurrentUserId ca) (admins_table A) of
           None \<Rightarrow> (ADMIN_INACTIVE, A)
         | Some deviceAdmin \<Rightarrow>
             (let (ret, A) = CheckAdminPermission V ca code OP_GET deviceAdmin [] name userId A in
              if FAILED ret then (ret, A)
              else get_and_report V code (calling_bundle ca) (className (adminInfo deviceAdmin)) name userId A))
      else
        (let (ok, A) = CheckElementNull V (CheckElementNullPermissionNew ca code) code [] A in
         if \<not> ok then (PERMISSION_DENIED, A) else get_and_report V code [] [] name userId A))"

subsection \<open>Installing, starting, reporting\<close>

definition SetBundleInstallPolicies :: "('s, 'w) service \<Rightarrow> caller \<Rightarrow> string list \<Rightarrow> user_id \<Rightarrow> int \<Rightarrow> ('s, 'w) ability
    \<Rightarrow> err_code \<times> ('s, 'w) ability" where
  "SetBundleInstallPolicies V ca bundles userId policyType A =
     (if policyType < 0 \<or> policyType > MAX_POLICY_TYPE then (PARAM_ERROR, A)
      else if VerifyCallingPermission ca PERMISSION_MANAGE_ENTERPRISE_DEVICE_ADMIN \<and> callingUid ca = EDC_UID then
        request V (AddAppInstallControlRule bundles
          ([RULE_UNSPECIFIED, RULE_DISALLOWED_UNINSTALL, RULE_ALLOWED_INSTALL, RULE_DISALLOWED_INSTALL] ! nat policyType) userId) A
      else (PERMISSION_DENIED, A))"

definition CheckStartAbility :: "('s, 'w) service \<Rightarrow> caller \<Rightarrow> user_id \<Rightarrow> element_name \<Rightarrow> string \<Rightarrow> ('s, 'w) ability \<Rightarrow> err_code" where
  "CheckStartAbility V ca currentUserId el bundleName A =
     (case GetAdminByPkgName (elBundle el) currentUserId (admins_table A) of
        None \<Rightarrow> ADMIN_INACTIVE
      | Some existAdmin \<Rightarrow>
          (if FAILED (CheckCallingUid ca (packageName (adminInfo existAdmin))) then PERMISSION_DENIED
           else
             (let (ret, isSystemApp) = pf_IsSystemApp (sv_platform V) bundleName currentUserId (abWorld A) in
              if FAILED ret then ret
              else if isSystemApp then PERMISSION_DENIED
              else if \<not> VerifyCallingPermission ca PERMISSION_ENTERPRISE_START_ABILITIES then PERMISSION_DENIED
              else ERR_OK)))"

datatype ability_type = AT_UNKNOWN | AT_UNSUPPORT | AT_UI | AT_APP_SERVICE

record edm_ability_info =
  aiType :: ability_type
  aiPermissions :: "string list"
  aiBundleName :: string
  aiVisible :: bool

definition GetAbilityInfo :: "('s, 'w) service \<Rightarrow> element_name \<Rightarrow> user_id \<Rightarrow> ('s, 'w) ability \<Rightarrow> edm_ability_info" where
  "GetAbilityInfo V el userId A =
     (let info = \<lparr> aiType = AT_UNKNOWN, aiPermissions = [], aiBundleName = elBundle el, aiVisible = False \<rparr> in
      case pf_QueryAbilityInfo (sv_platform V) el userId (abWorld A) of
        Some (visible, isPage, perms) \<Rightarrow>
          info\<lparr>aiVisible := visible, aiType := (if isPage then AT_UI else AT_UNSUPPORT), aiPermissions := perms\<rparr>
      | None \<Rightarrow>
          (case pf_QueryDefaultExtensions (sv_platform V) el userId (abWorld A) of
             Some ((visible, isService) # _) \<Rightarrow>
               info\<lparr>aiVisible := visible, aiType := (if isService then AT_APP_SERVICE else AT_UNSUPPORT)\<rparr>
           | _ \<Rightarrow> info))"

datatype ability_controller = UIAbilityController edm_ability_info | AppServiceExtensionController edm_ability_info
  | AbilityController edm_ability_info

definition CreateAbilityController :: "('s, 'w) service \<Rightarrow> element_name \<Rightarrow> user_id \<Rightarrow> ('s, 'w) ability \<Rightarrow> ability_controller option" where
  "CreateAbilityController V el userId A =
     (if elBundle el = [] \<or> elAbility el = [] then None
      else
        (let info = GetAbilityInfo V el userId A in
         if aiType info = AT_UNKNOWN then None
         else if aiType info = AT_UI then Some (UIAbilityController info)
         else if sv_pc_only V \<and> aiType info = AT_APP_SERVICE then Some (AppServiceExtensionController info)
         else Some (AbilityController info)))"

definition UI_VerifyPermission :: "caller \<Rightarrow> edm_ability_info \<Rightarrow> string \<Rightarrow> bool" where
  "UI_VerifyPermission ca info callerName =
     (if callerName = aiBundleName info then True
      else if \<not> aiVisible info then False
      else if aiPermissions info = [] then True
      else list_all (VerifyCallingPermission ca) (aiPermissions info))"

definition AppService_VerifyPermission :: "edm_ability_info \<Rightarrow> string \<Rightarrow> bool" where
  "AppService_VerifyPermission info callerName = (if callerName = aiBundleName info then True else aiVisible info)"

definition Controller_VerifyPermission :: "caller \<Rightarrow> ability_controller \<Rightarrow> string \<Rightarrow> bool" where
  "Controller_VerifyPermission ca ctl callerName = (case ctl of
       UIAbilityController info \<Rightarrow> UI_VerifyPermission ca info callerName
     | AppServiceExtensionController info \<Rightarrow> AppService_VerifyPermission info callerName
     | AbilityController info \<Rightarrow> True)"

definition UI_StartAbility :: "('s, 'w) service \<Rightarrow> element_name \<Rightarrow> user_id \<Rightarrow> ('s, 'w) ability \<Rightarrow> err_code \<times> ('s, 'w) ability" where
  "UI_StartAbility V el userId A =
     (let (ret, A) = request V (StartAbility el userId) A in if FAILED ret then (ret, A) else (ERR_OK, A))"

definition AppService_StartAbility :: "('s, 'w) service \<Rightarrow> element_name \<Rightarrow> user_id \<Rightarrow> ('s, 'w) ability \<Rightarrow> err_code \<times> ('s, 'w) ability" where
  "AppService_StartAbility V el userId A =
     (let (ret, A) = request V (StartExtensionAbility el userId) A in if FAILED ret then (ret, A) else (ERR_OK, A))"

definition Controller_StartAbility :: "('s, 'w) service \<Rightarrow> ability_controller \<Rightarrow> element_name \<Rightarrow> user_id \<Rightarrow> ('s, 'w) ability
    \<Rightarrow> err_code \<times> ('s, 'w) ability" where
  "Controller_StartAbility V ctl el userId A = (case ctl of
       UIAbilityController _ \<Rightarrow> UI_StartAbility V el userId A
     | AppServiceExtensionController _ \<Rightarrow> AppService_StartAbility V el userId A
     | AbilityController _ \<Rightarrow> (INTERFACE_UNSUPPORTED, A))"

definition StartAbilityByAdmin :: "('s, 'w) service \<Rightarrow> caller \<Rightarrow> element_name \<Rightarrow> element_name \<Rightarrow> ('s, 'w) ability
    \<Rightarrow> err_code \<times> ('s, 'w) ability" where
  "StartAbilityByAdmin V ca admin want A =
     (let userId = GetCurrentUserId ca in
      if userId < 0 then (SYSTEM_ABNORMALLY, A)
      else
        (let ret = CheckStartAbility V ca userId admin (elBundle want) A in
         if FAILED ret then (ret, A)
         else (case CreateAbilityController V want userId A of
           None \<Rightarrow> (ABILITY_NOT_EXIST, A)
         | Some ctl \<Rightarrow>
             (if \<not> Controller_VerifyPermission ca ctl (elBundle admin) then (PERMISSION_DENIED, A)
              else Controller_StartAbility V ctl want userId A))))"

text \<open>The callback of one administrator; its result is not looked at.\<close>

definition tell_admin :: "('s, 'w) service \<Rightarrow> user_id \<Rightarrow> callback_strategy \<Rightarrow> admin \<Rightarrow> ('s, 'w) ability \<Rightarrow> ('s, 'w) ability" where
  "tell_admin V userId cb a A =
     snd (on_conns (ExecuteCallback (sv_extensions V) (packageName (adminInfo a)) (className (adminInfo a)) userId (Some cb)) A)"

definition ReportAgInstallStatus :: "('s, 'w) service \<Rightarrow> caller \<Rightarrow> string \<Rightarrow> string \<Rightarrow> int \<Rightarrow> ('s, 'w) ability
    \<Rightarrow> err_code \<times> ('s, 'w) ability" where
  "ReportAgInstallStatus V ca bundleName mediaBundleName status A =
     (if callingUid ca \<noteq> EDM_UID then (PERMISSION_DENIED, A)
      else
        (let currentUserId = GetCurrentUserId ca in
         if currentUserId < 0 then (ERR_OK, A)
         else (ERR_OK, fold (\<lambda>a A.
              if packageName (adminInfo a) \<noteq> mediaBundleName then A
              else
                (let A = tell_admin V currentUserId (MarketAppsInstallStatusChangedStrategy bundleName status) a A
                 in if status = 0 then perform V (AddInstalledBundleInfo mediaBundleName bundleName) A else A))
              (GetAdmins [] currentUserId (admins_table A)) A)))"

definition UnloadInstallMarketAppsPlugin :: "('s, 'w) service \<Rightarrow> caller \<Rightarrow> ('s, 'w) ability \<Rightarrow> err_code \<times> ('s, 'w) ability" where
  "UnloadInstallMarketAppsPlugin V ca A =
     (if callingUid ca \<noteq> EDM_UID then (PERMISSION_DENIED, A)
      else (ERR_OK, snd (on_plugin_tables (SetPluginUnloadFlag (sv_plugins V) 3028 True) A)))"

end
