(* ===== verification/Ability_Events.thy ===== *)
theory Ability_Events
  imports Ability_Policies
begin

text \<open>
  \<open>enterprise_device_mgr_ability.cpp\<close>, the start of the service, of the system abilities it listens for, and its own
  handlers of system events. The plugins keep what they subscribe in their own world.
\<close>

abbreviation (input) COMMAND_ON_KIOSK_MODE_ENTERING :: nat where "COMMAND_ON_KIOSK_MODE_ENTERING \<equiv> 11"
abbreviation (input) COMMAND_ON_KIOSK_MODE_EXITING :: nat where "COMMAND_ON_KIOSK_MODE_EXITING \<equiv> 12"
abbreviation (input) INVALID_SYSTEM_ABILITY_ID :: int where "INVALID_SYSTEM_ABILITY_ID \<equiv> -1"
abbreviation (input) DEVELOP_MODE_STATE :: string where "DEVELOP_MODE_STATE \<equiv> ''const.security.developermode.state''"

subsection \<open>Users\<close>

definition UpdateNetworkAccessPolicy :: "('s, 'w) service \<Rightarrow> user_id \<Rightarrow> user_id \<Rightarrow> ('s, 'w) ability \<Rightarrow> ('s, 'w) ability" where
  "UpdateNetworkAccessPolicy V oldId newId A =
     perform V (AddNetworkAccessPolicy (GetDisallowedCrossAccountAdmins newId (admins_table A)))
       (perform V (RemoveNetworkAccessPolicy (GetDisallowedCrossAccountAdmins oldId (admins_table A))) A)"

definition connect_switched :: "('s, 'w) service \<Rightarrow> user_id \<Rightarrow> admin \<Rightarrow> ('s, 'w) ability \<Rightarrow> ('s, 'w) ability" where
  "connect_switched V userId a A =
     (if IsEnterpriseAdminKeepAlive a then
        (let pkg = packageName (adminInfo a);
             A = (if sv_pc_only V \<and> sv_log_service V \<and> pf_IsBundleInstalled (sv_platform V) pkg userId (abWorld A)
                  then perform V (CreateLogDirIfNeed (log_dir userId pkg)) A else A)
         in snd (ConnectAbility V userId a A))
      else A)"

text \<open>\<open>oldUserId\<close> is the number in the parameter \<open>oldId\<close>, -1 when it has none.\<close>

definition OnCommonEventUserSwitched :: "('s, 'w) service \<Rightarrow> user_id \<Rightarrow> user_id \<Rightarrow> ('s, 'w) ability \<Rightarrow> ('s, 'w) ability" where
  "OnCommonEventUserSwitched V oldUserId userIdToSwitch A =
     (if userIdToSwitch < 0 then A
      else
        (let userAdmin = (if userIdToSwitch \<noteq> DEFAULT_USER_ID then snd (GetAdminByUserId DEFAULT_USER_ID (admins_table A)) else []);
             currentUserAdmins = snd (GetAdminByUserId userIdToSwitch (admins_table A))
         in UpdateNetworkAccessPolicy V oldUserId userIdToSwitch
              (fold (connect_switched V userIdToSwitch) (userAdmin @ currentUserAdmins) A)))"

definition remove_of_user :: "('s, 'w) service \<Rightarrow> caller \<Rightarrow> user_id \<Rightarrow> admin \<Rightarrow> ('s, 'w) ability \<Rightarrow> ('s, 'w) ability" where
  "remove_of_user V ca userId a A =
     snd (RemoveAdminAndAdminPolicy V ca (packageName (adminInfo a)) userId (adminType (adminInfo a)) A)"

definition OnCommonEventUserRemoved :: "('s, 'w) service \<Rightarrow> caller \<Rightarrow> user_id \<Rightarrow> ('s, 'w) ability \<Rightarrow> ('s, 'w) ability" where
  "OnCommonEventUserRemoved V ca userIdToRemove A =
     (if userIdToRemove < 0 then A
      else
        (let A = fold (remove_of_user V ca userIdToRemove) (snd (GetAdminByUserId userIdToRemove (admins_table A))) A;
             A = fold (\<lambda>a A. if IsAllowedAcrossAccountSetPolicy a then remove_of_user V ca userIdToRemove a A else A)
                   (snd (GetAdminByUserId DEFAULT_USER_ID (admins_table A))) A
         in if sv_pc_only V \<and> sv_log_service V then perform V (DeleteSubUserLogDirIfNeed userIdToRemove) A else A))"

subsection \<open>Packages\<close>

definition package_removed :: "('s, 'w) service \<Rightarrow> caller \<Rightarrow> string \<Rightarrow> user_id \<Rightarrow> admin \<Rightarrow> ('s, 'w) ability \<Rightarrow> ('s, 'w) ability" where
  "package_removed V ca bundleName userId a A =
     (let A = (if \<not> IsAllowedAcrossAccountSetPolicy a
               then snd (RemoveAdminAndAdminPolicy V ca bundleName userId (adminType (adminInfo a)) A) else A);
          A = (if \<not> Admin_IsSuperAdmin a \<and> IsAllowedAcrossAccountSetPolicy a \<and> userId = DEFAULT_USER_ID
               then snd (RemoveSubSuperAdminAndAdminPolicy V ca bundleName (adminType (adminInfo a)) A) else A);
          A = (if Admin_IsSuperAdmin a \<and> userId = DEFAULT_USER_ID
               then snd (RemoveSuperAdminAndAdminPolicy V ca bundleName A) else A)
      in if \<not> IsAdminExist (admins_table A)
         then NotifyAdminEnabled V False (perform V (SetParameter PARAM_EDM_ENABLE ''false'') A) else A)"

definition OnCommonEventPackageRemoved :: "('s, 'w) service \<Rightarrow> caller \<Rightarrow> string \<Rightarrow> user_id \<Rightarrow> int \<Rightarrow> ('s, 'w) ability \<Rightarrow> ('s, 'w) ability" where
  "OnCommonEventPackageRemoved V ca bundleName userId appIndex A =
     (if userId = INVALID_USERID then A
      else if appIndex = 0 then
        (case GetAdminByPkgName bundleName userId (admins_table A) of
           None \<Rightarrow> A | Some a \<Rightarrow> package_removed V ca bundleName userId a A)
      else A)"

definition OnCommonEventPackageChanged :: "('s, 'w) service \<Rightarrow> caller \<Rightarrow> string \<Rightarrow> user_id \<Rightarrow> ('s, 'w) ability \<Rightarrow> ('s, 'w) ability" where
  "OnCommonEventPackageChanged V ca bundleName userId A =
     (case GetAdminByPkgName bundleName userId (admins_table A) of
        None \<Rightarrow> A
      | Some a \<Rightarrow>
          (let A = (if IsEnterpriseAdminKeepAlive a then snd (ConnectAbility V userId a A) else A);
               (ret, permissionList) = GetAllPermissionsByAdmin ca bundleName userId
           in if FAILED ret then A
              else snd (on_admins V ca (UpdateAdminPermission (sv_rdb V) (sv_json V) bundleName userId permissionList) A)))"

subsection \<open>Connecting, the kiosk mode, the SIM card and the application market\<close>

definition connect_once :: "('s, 'w) service \<Rightarrow> user_id \<Rightarrow> admin \<Rightarrow> ('s, 'w) ability \<Rightarrow> ('s, 'w) ability" where
  "connect_once V userId a A =
     (let bundleName = packageName (adminInfo a) in
      if IsEnterpriseAdminKeepAlive a \<and> map_of (adminConnectMap A) bundleName \<noteq> Some True then
        (let (ok, A) = ConnectAbility V userId a A in A\<lparr>adminConnectMap := AList.update bundleName ok (adminConnectMap A)\<rparr>)
      else A)"

definition ConnectEnterpriseAbility :: "('s, 'w) service \<Rightarrow> caller \<Rightarrow> ('s, 'w) ability \<Rightarrow> ('s, 'w) ability" where
  "ConnectEnterpriseAbility V ca A =
     (let userId = GetCurrentUserId ca
      in fold (connect_once V userId) (snd (GetAdminByUserId userId (admins_table A))) A)"

definition OnCommonEventBmsReady :: "('s, 'w) service \<Rightarrow> caller \<Rightarrow> ('s, 'w) ability \<Rightarrow> ('s, 'w) ability" where
  "OnCommonEventBmsReady V ca A = ConnectEnterpriseAbility V ca A"

definition OnCommonEventKioskMode :: "('s, 'w) service \<Rightarrow> caller \<Rightarrow> string \<Rightarrow> user_id \<Rightarrow> bool \<Rightarrow> ('s, 'w) ability \<Rightarrow> ('s, 'w) ability" where
  "OnCommonEventKioskMode V ca bundleName paramUserId isModeOn A =
     (let code = (if isModeOn then COMMAND_ON_KIOSK_MODE_ENTERING else COMMAND_ON_KIOSK_MODE_EXITING);
          currentUserId = GetCurrentUserId ca
      in if currentUserId < 0 then A
         else fold (tell_admin V currentUserId (KioskModeStrategy code bundleName paramUserId))
                (GetAdmins [] currentUserId (admins_table A)) A)"

text \<open>\<open>simReady\<close>: the state of the card is loaded or ready.\<close>

definition OnCommonEventSimStateChanged :: "('s, 'w) service \<Rightarrow> int \<Rightarrow> bool \<Rightarrow> ('s, 'w) ability \<Rightarrow> ('s, 'w) ability" where
  "OnCommonEventSimStateChanged V slotId simReady A =
     (if slotId < 0 then A
      else if \<not> simReady then A
      else if pf_GetBoolParameter (sv_platform V) (''persist.edm.disable_slot_'' @ int_to_string slotId) False (abWorld A)
      then perform V (SetActiveSim slotId 0) A else A)"

definition install_market_apps :: "('s, 'w) service \<Rightarrow> caller \<Rightarrow> parcel_item list \<Rightarrow> ('s, 'w) ability \<Rightarrow> ('s, 'w) ability" where
  "install_market_apps V ca items A =
     (case GetSuperAdmin (admins_table A) of
        None \<Rightarrow> A
      | Some superAdmin \<Rightarrow>
          snd (HandleDevicePolicy V ca (POLICY_FUNC_CODE (operate_type_code OP_SET) IC_INSTALL_MARKET_APPS)
            \<lparr> elBundle = packageName (adminInfo superAdmin), elAbility = className (adminInfo superAdmin) \<rparr> DEFAULT_USER_ID
            (A\<lparr>abWorld := pf_WriteRequest (sv_platform V) ([WString [], WStrings []] @ items) (abWorld A)\<rparr>)))"

text \<open>\<open>code\<close>, \<open>bundleName\<close> and \<open>reason\<close> are those of the event.\<close>

definition UpdateMarketAppsState :: "('s, 'w) service \<Rightarrow> caller \<Rightarrow> int \<Rightarrow> int \<Rightarrow> string \<Rightarrow> int \<Rightarrow> ('s, 'w) ability \<Rightarrow> ('s, 'w) ability" where
  "UpdateMarketAppsState V ca event code bundleName reason A =
     install_market_apps V ca [WInt32 event, WInt32 code, WString bundleName, WInt32 reason] A"

definition InitAgTask :: "('s, 'w) service \<Rightarrow> caller \<Rightarrow> ('s, 'w) ability \<Rightarrow> ('s, 'w) ability" where
  "InitAgTask V ca A = install_market_apps V ca [WInt32 3] A"

subsection \<open>The start of the service\<close>

definition InitAllAdmins :: "('s, 'w) service \<Rightarrow> ('s, 'w) ability \<Rightarrow> ('s, 'w) ability" where
  "InitAllAdmins V A = A\<lparr>abAdmins := Mgr_Init (sv_rdb V) (sv_json V) (abAdmins A)\<rparr>"

definition InitAllPolices :: "('s, 'w) service \<Rightarrow> ('s, 'w) ability \<Rightarrow> ('s, 'w) ability" where
  "InitAllPolices V A =
     (let (inst, d) = DevicePolicies_GetInstance (sv_rdb V) (db (abAdmins A)); A = A\<lparr>abAdmins := (abAdmins A)\<lparr>db := d\<rparr>\<rparr> in
      if \<not> inst then A
      else
        (let (_, userIds, d) = QueryAllUserId (sv_rdb V) [] (db (abAdmins A));
             (pm, d) = PolicyManager_Init (sv_rdb V) userIds (abPolicies A, d)
         in A\<lparr>abPolicies := pm, abAdmins := (abAdmins A)\<lparr>db := d\<rparr>\<rparr>))"

definition RemoveAllDebugAdmin :: "('s, 'w) service \<Rightarrow> caller \<Rightarrow> ('s, 'w) ability \<Rightarrow> ('s, 'w) ability" where
  "RemoveAllDebugAdmin V ca A =
     (if \<not> pf_GetBoolParameter (sv_platform V) DEVELOP_MODE_STATE False (abWorld A) then
        fold (\<lambda>a A. if isDebug (adminInfo a)
                    then (snd (RemoveSuperAdminAndAdminPolicy V ca (packageName (adminInfo a)) A))\<lparr>isNeedRemoveSettingsMenu := True\<rparr>
                    else A)
          (snd (GetAdminByUserId DEFAULT_USER_ID (admins_table A))) A
      else A)"

definition CheckAndUpdateByodSettingsData :: "('s, 'w) service \<Rightarrow> ('s, 'w) ability \<Rightarrow> ('s, 'w) ability" where
  "CheckAndUpdateByodSettingsData V A =
     (if IsByodAdminExist (admins_table A) then
        (let d = (case pf_GetSettingsData (sv_platform V) KEY_EDM_DISPLAY (abWorld A) of None \<Rightarrow> ''false'' | Some d \<Rightarrow> d)
         in if d = ''false'' then perform V (UpdateSettingsData KEY_EDM_DISPLAY ''true'') A else A)
      else A)"

text \<open>\<open>published\<close>: the ability is registered, or could be.\<close>

definition OnStart :: "('s, 'w) service \<Rightarrow> caller \<Rightarrow> bool \<Rightarrow> ('s, 'w) ability \<Rightarrow> ('s, 'w) ability" where
  "OnStart V ca published A =
     (let A = RemoveAllDebugAdmin V ca (InitAllPolices V (InitAllAdmins V A)) in
      if \<not> published then A
      else InitAgTask V ca ((CheckAndUpdateByodSettingsData V A)\<lparr>abObserved := True\<rparr>))"

definition Ability_OnStop :: "('s, 'w) ability \<Rightarrow> ('s, 'w) ability" where
  "Ability_OnStop A = A\<lparr>abPlugins := NotifyUnloadAllPlugin (abPlugins A)\<rparr>"

definition OnDistributedKvDataServiceStart :: "('s, 'w) service \<Rightarrow> ('s, 'w) ability \<Rightarrow> ('s, 'w) ability" where
  "OnDistributedKvDataServiceStart V A =
     (if isNeedRemoveSettingsMenu A \<and> \<not> IsAdminExist (admins_table A) then
        perform V (UpdateSettingsData KEY_EDM_DISPLAY ''false'')
          (NotifyAdminEnabled V False (perform V (SetParameter PARAM_EDM_ENABLE ''false'') A))
      else A)"

subsection \<open>The start of the system abilities\<close>

definition on_plugins_plain :: "(('s, 'w) edm_state \<Rightarrow> ('s, 'w) edm_state) \<Rightarrow> ('s, 'w) ability \<Rightarrow> ('s, 'w) ability" where
  "on_plugins_plain f A = snd (on_plugins (\<lambda>s. ((), f s)) A)"

definition OnHandleInitExecute :: "('s, 'w) service \<Rightarrow> caller \<Rightarrow> u32 \<Rightarrow> ('s, 'w) ability \<Rightarrow> ('s, 'w) ability" where
  "OnHandleInitExecute V ca interfaceCode A =
     (let currentUserId = GetCurrentUserId ca in
      if currentUserId < 0 then A
      else on_plugins_plain (PluginManager_OnInitExecute (sv_plugins V) interfaceCode
             (map (packageName \<circ> adminInfo) (GetAdmins [] currentUserId (admins_table A))) currentUserId) A)"

definition OtherServiceStart :: "('s, 'w) service \<Rightarrow> u32 \<Rightarrow> int \<Rightarrow> ('s, 'w) ability \<Rightarrow> ('s, 'w) ability" where
  "OtherServiceStart V interfaceCode systemAbilityId A =
     on_plugins_plain (CallOnOtherServiceStart (sv_plugins V) interfaceCode systemAbilityId) A"

definition CallOnOtherServiceStartForWatermark :: "('s, 'w) service \<Rightarrow> u32 \<Rightarrow> ('s, 'w) ability \<Rightarrow> ('s, 'w) ability" where
  "CallOnOtherServiceStartForWatermark V interfaceCode A =
     (let name = (if interfaceCode = IC_SCREEN_WATERMARK_IMAGE then POLICY_SCREEN_WATERMARK_IMAGE
                  else if interfaceCode = IC_WATERMARK_IMAGE then POLICY_WATERMARK_IMAGE_POLICY else [])
      in if name = [] then A
         else
           (let (value, A) = read_policy V [] name A
            in if value = [] then A else OtherServiceStart V interfaceCode INVALID_SYSTEM_ABILITY_ID A))"

definition Ability_OnAppManagerServiceStart :: "('s, 'w) service \<Rightarrow> caller \<Rightarrow> ('s, 'w) ability \<Rightarrow> ('s, 'w) ability" where
  "Ability_OnAppManagerServiceStart V ca A =
     ConnectEnterpriseAbility V ca (on_events (OnAppManagerServiceStart (sv_sources V) (admins_table A)) A)"

definition OnAbilityManagerServiceStart :: "('s, 'w) service \<Rightarrow> caller \<Rightarrow> ('s, 'w) ability \<Rightarrow> ('s, 'w) ability" where
  "OnAbilityManagerServiceStart V ca A = ConnectEnterpriseAbility V ca A"

text \<open>The policies whose plugins subscribe events.\<close>

definition subscribingPlugins :: "(u32 \<times> string) list" where
  "subscribingPlugins = [
     (IC_DISALLOWED_UINPUT, ''disallow_uinput''), (IC_HIDDEN_SETTINGS_MENU, ''hidden_settings_menu''),
     (IC_SET_KEY_CODE_POLICYS, ''set_key_code''), (IC_NOTIFY_UPGRADE_PACKAGES, POLICY_NOTIFY_UPGRADE_PACKAGES),
     (IC_SET_ABILITY_ENABLED, ''set_ability_enabled''), (IC_MANAGE_USER_NON_STOP_APPS, ''manage_user_non_stop_apps''),
     (IC_MANAGE_KEEP_ALIVE_APPS, ''manage_keep_alive_apps''), (IC_MANAGE_AUTO_START_APPS, POLICY_MANAGE_AUTO_START_APPS),
     (IC_MANAGE_FREEZE_EXEMPTED_APPS, ''manage_freeze_exempted_apps''), (IC_ALLOWED_PERMISSION_BUNDLE, ''allowed_permission_bundle''),
     (IC_CLIPBOARD_POLICY, POLICY_CLIPBOARD_POLICY), (IC_WATERMARK_IMAGE, POLICY_WATERMARK_IMAGE_POLICY)]"

definition RestorePluginSubscriptions :: "('s, 'w) service \<Rightarrow> ('s, 'w) ability \<Rightarrow> ('s, 'w) ability" where
  "RestorePluginSubscriptions V A =
     fold (\<lambda>(code, name) A.
       (let (value, A) = read_policy V [] name A
        in if value = [] then A
           else on_plugins_plain (SubscribePluginEvent (sv_plugins V) code) A)) subscribingPlugins A"

definition Ability_OnCommonEventServiceStart :: "('s, 'w) service \<Rightarrow> string list \<Rightarrow> ('s, 'w) ability \<Rightarrow> ('s, 'w) ability" where
  "Ability_OnCommonEventServiceStart V agEvents A =
     (let A = on_events (\<lambda>s. RestoreSubscriptions (sv_sources V) (admins_table A) False (sa_restart (sv_sources V) agEvents s)) A
      in on_events (event_step (sv_sources V) (RetryAdapters COMMON_EVENT)) (RestorePluginSubscriptions V A))"

text \<open>What the service does when a system ability has started, with every optional part of the build. The network
  policies' \<open>OnNetPolicyManagerStart\<close> is a call of another handler and left out.\<close>

datatype system_ability = SA_BUNDLE_MGR | SA_ABILITY_MGR | SA_WINDOW_MANAGER | SA_RES_SCHED | SA_MULTIMODAL_INPUT | SA_TELEPHONY
  | SA_APP_MGR | SA_COMMON_EVENT | SA_PASTEBOARD | SA_NET_POLICY | SA_USB | SA_USERAUTH | SA_RENDER | SA_KV_DATA | SA_OTHER int

definition start_codes :: "('s, 'w) service \<Rightarrow> u32 list \<Rightarrow> int \<Rightarrow> ('s, 'w) ability \<Rightarrow> ('s, 'w) ability" where
  "start_codes V codes systemAbilityId A = fold (\<lambda>code. OtherServiceStart V code systemAbilityId) codes A"

definition OnAddSystemAbilitySecond :: "('s, 'w) service \<Rightarrow> caller \<Rightarrow> (system_ability \<Rightarrow> int) \<Rightarrow> system_ability
    \<Rightarrow> ('s, 'w) ability \<Rightarrow> ('s, 'w) ability" where
  "OnAddSystemAbilitySecond V ca saId sa A = (case sa of
       SA_BUNDLE_MGR \<Rightarrow> start_codes V [IC_ALLOWED_KIOSK_APPS] (saId sa) A
     | SA_ABILITY_MGR \<Rightarrow> start_codes V [IC_ALLOWED_KIOSK_APPS] (saId sa)
         (OnHandleInitExecute V ca IC_HIDDEN_SETTINGS_MENU (OnAbilityManagerServiceStart V ca A))
     | SA_WINDOW_MANAGER \<Rightarrow> CallOnOtherServiceStartForWatermark V IC_SCREEN_WATERMARK_IMAGE
         (start_codes V [IC_ALLOWED_KIOSK_APPS, IC_MANAGE_USER_NON_STOP_APPS] (saId sa)
           (start_codes V [IC_SNAPSHOT_SKIP] INVALID_SYSTEM_ABILITY_ID A))
     | SA_RES_SCHED \<Rightarrow> start_codes V [IC_MANAGE_FREEZE_EXEMPTED_APPS] (saId sa) A
     | SA_MULTIMODAL_INPUT \<Rightarrow> OnHandleInitExecute V ca IC_SET_KEY_CODE_POLICYS A
     | SA_TELEPHONY \<Rightarrow> start_codes V [IC_TELEPHONY_CALL_POLICY] INVALID_SYSTEM_ABILITY_ID A
     | _ \<Rightarrow> A)"

definition OnAddSystemAbility :: "('s, 'w) service \<Rightarrow> caller \<Rightarrow> string list \<Rightarrow> (system_ability \<Rightarrow> int) \<Rightarrow> system_ability
    \<Rightarrow> ('s, 'w) ability \<Rightarrow> ('s, 'w) ability" where
  "OnAddSystemAbility V ca agEvents saId sa A = (case sa of
       SA_APP_MGR \<Rightarrow> Ability_OnAppManagerServiceStart V ca A
     | SA_COMMON_EVENT \<Rightarrow> Ability_OnCommonEventServiceStart V agEvents A
     | SA_PASTEBOARD \<Rightarrow> start_codes V [IC_CLIPBOARD_POLICY] INVALID_SYSTEM_ABILITY_ID A
     | SA_NET_POLICY \<Rightarrow> start_codes V [IC_DISABLED_NETWORK_INTERFACE] INVALID_SYSTEM_ABILITY_ID A
     | SA_USB \<Rightarrow> start_codes V [IC_DISABLE_USB, IC_ALLOWED_USB_DEVICES, IC_DISALLOWED_USB_DEVICES] INVALID_SYSTEM_ABILITY_ID A
     | SA_USERAUTH \<Rightarrow> start_codes V [IC_PASSWORD_POLICY, IC_FINGERPRINT_AUTH] INVALID_SYSTEM_ABILITY_ID A
     | SA_RENDER \<Rightarrow> CallOnOtherServiceStartForWatermark V IC_WATERMARK_IMAGE A
     | SA_KV_DATA \<Rightarrow> OnDistributedKvDataServiceStart V A
     | _ \<Rightarrow> OnAddSystemAbilitySecond V ca saId sa A)"

subsection \<open>Events\<close>

text \<open>The parameters of an event that only the service's own handlers read.\<close>

record service_params =
  spOldUserId :: user_id
  spAppIndex :: int
  spBundleName :: string
  spReason :: int
  spSlotId :: int
  spSimReady :: bool

definition OnEventDispatch :: "('s, 'w) service \<Rightarrow> event_id \<Rightarrow> event_data \<Rightarrow> ('s, 'w) ability \<Rightarrow> ('s, 'w) ability" where
  "OnEventDispatch V eventId d A =
     fold (\<lambda>entry. on_plugins_plain (DispatchPluginEvent (sv_rdb V) (sv_plugins V) (pePolicyCode entry) (edUserId d)
             (peNeedAdminIteration entry) (peUseEventUserId entry)))
       (CollectDispatchEntries eventId (abEvents A)) A"

definition relay_event :: "('s, 'w) service \<Rightarrow> string \<Rightarrow> string \<Rightarrow> user_id \<Rightarrow> event_id \<Rightarrow> event_data \<Rightarrow> ('s, 'w) ability \<Rightarrow> ('s, 'w) ability" where
  "relay_event V adminName cls userId event d A =
     (case make_strategy event d of
        None \<Rightarrow> A
      | Some cb \<Rightarrow> snd (on_conns (ExecuteCallback (sv_extensions V) adminName cls userId (Some cb)) A))"

definition service_handler :: "('s, 'w) service \<Rightarrow> caller \<Rightarrow> sa_handler \<Rightarrow> event_data \<Rightarrow> service_params \<Rightarrow> ('s, 'w) ability \<Rightarrow> ('s, 'w) ability" where
  "service_handler V ca h d x A = (case h of
       OnUserSwitched \<Rightarrow> OnCommonEventUserSwitched V (spOldUserId x) (edCode d) A
     | OnUserRemoved \<Rightarrow> OnCommonEventUserRemoved V ca (edCode d) A
     | OnPackageRemoved \<Rightarrow> OnCommonEventPackageRemoved V ca (edBundleName d) (event_user d) (spAppIndex x) A
     | OnMarketApps event \<Rightarrow> UpdateMarketAppsState V ca event (edCode d) (spBundleName x) (spReason x) A
     | OnPackageChanged \<Rightarrow> OnCommonEventPackageChanged V ca (edBundleName d) (event_user d) A
     | OnBmsReady \<Rightarrow> OnCommonEventBmsReady V ca A
     | OnKioskMode on \<Rightarrow> OnCommonEventKioskMode V ca (spBundleName x)
         (case edUserId d of None \<Rightarrow> DEFAULT_USER_ID | Some u \<Rightarrow> u) on A
     | OnSimStateChanged \<Rightarrow> OnCommonEventSimStateChanged V (spSlotId x) (spSimReady x) A)"

definition run_callback :: "('s, 'w) service \<Rightarrow> caller \<Rightarrow> event_data \<Rightarrow> service_params \<Rightarrow> event_callback \<Rightarrow> ('s, 'w) ability \<Rightarrow> ('s, 'w) ability" where
  "run_callback V ca d x cb A = (case cb of
       SaCore h \<Rightarrow> service_handler V ca h d x A
     | RelayToAdmin adminName cls userId event \<Rightarrow> relay_event V adminName cls userId event d A
     | RouteToPlugins eventId \<Rightarrow> OnEventDispatch V eventId d A)"

text \<open>\<open>DispatchEvent\<close> of the subscription manager, with the callbacks run.\<close>

definition HandleEvent :: "('s, 'w) service \<Rightarrow> caller \<Rightarrow> event_data \<Rightarrow> service_params \<Rightarrow> ('s, 'w) ability \<Rightarrow> ('s, 'w) ability" where
  "HandleEvent V ca d x A = fold (run_callback V ca d x) (DispatchEvent (edEvent d) (eventMgr (abEvents A))) A"

definition NotifyUnmountExternalStorageDeviceInfo :: "('s, 'w) service \<Rightarrow> caller \<Rightarrow> event_data \<Rightarrow> service_params \<Rightarrow> storage_device
    \<Rightarrow> ('s, 'w) ability \<Rightarrow> err_code \<times> ('s, 'w) ability" where
  "NotifyUnmountExternalStorageDeviceInfo V ca d x info A =
     (ERR_OK, HandleEvent V ca (d\<lparr>edEvent := EV_UNMOUNT_EXTERNAL_STORAGE_DEVICE, edStorageDevice := info\<rparr>) x A)"

end
