(* ===== verification/Ability_Admission.thy ===== *)
theory Ability_Admission
  imports Ability_Events Admin_Lookup
begin

text \<open>
  Which administrators the service admits: every request and event handler is a run of the operations on the
  table of administrators, and whatever it adds has passed the checks of the request.
\<close>

unbundle bit_operations_syntax

subsection \<open>Runs of the table\<close>

text \<open>\<open>G u i c\<close>: the administrator \<open>i\<close> may be added for the user \<open>u\<close> to the table \<open>c\<close>.\<close>

type_synonym guard = "user_id \<Rightarrow> admin_info \<Rightarrow> container \<Rightarrow> bool"

inductive table_run :: "guard \<Rightarrow> container \<Rightarrow> container \<Rightarrow> bool" for G where
  run_refl: "table_run G c c"
| run_add: "table_run G c d \<Longrightarrow> G u i d \<Longrightarrow> table_run G c (SetAdminByUserId u i d)"
| run_update: "table_run G c d \<Longrightarrow> \<not> uc_has code UC_ADMIN_TYPE \<Longrightarrow> \<not> uc_has code UC_IS_DEBUG
    \<Longrightarrow> table_run G c (Container_UpdateAdmin u p code new d)"
| run_parent: "table_run G c d \<Longrightarrow> table_run G c (UpdateParentAdminName u p n d)"
| run_delete: "table_run G c d \<Longrightarrow> table_run G c (snd (Container_DeleteAdmin p u d))"

lemma run_trans: "table_run G c d \<Longrightarrow> table_run G d e \<Longrightarrow> table_run G c e"
  by (rotate_tac, induction rule: table_run.induct) (auto intro: table_run.intros)

lemma run_eq: "c = d \<Longrightarrow> table_run G c d"
  by (simp add: run_refl)

subsection \<open>The invariants\<close>

definition one_kind :: "container \<Rightarrow> bool" where
  "one_kind c = (\<forall>u v a b. a \<in> set (admins_of c u) \<longrightarrow> b \<in> set (admins_of c v) \<longrightarrow> isDebug (adminInfo a) = isDebug (adminInfo b))"

definition official :: "admin \<Rightarrow> bool" where
  "official a = (adminType (adminInfo a) = ENT \<and> \<not> isDebug (adminInfo a))"

definition counted :: "admin_type \<Rightarrow> bool" where
  "counted type = (type = ENT \<or> type = NORMAL)"

definition counted_admins :: "container \<Rightarrow> admin list" where
  "counted_admins c = filter (\<lambda>a. counted (adminType (adminInfo a))) (admins_of c DEFAULT_USER_ID)"

definition official_admins :: "container \<Rightarrow> admin list" where
  "official_admins c = filter official (admins_of c DEFAULT_USER_ID)"

definition homes_ok :: "container \<Rightarrow> bool" where
  "homes_ok c = (\<forall>u a. u \<noteq> DEFAULT_USER_ID \<longrightarrow> a \<in> set (admins_of c u) \<longrightarrow> \<not> counted (adminType (adminInfo a)))"

definition admission_ok :: "bool \<Rightarrow> container \<Rightarrow> bool" where
  "admission_ok strict c = (container_wf c \<and> homes_ok c \<and> length (counted_admins c) \<le> 10 \<and> length (official_admins c) \<le> 1
     \<and> (strict \<longrightarrow> one_kind c))"

definition admitted :: "bool \<Rightarrow> guard" where
  "admitted strict u i c =
     ((counted (adminType i) \<longrightarrow> u = DEFAULT_USER_ID \<and> length (counted_admins c) < 10)
      \<and> (adminType i = ENT \<and> \<not> isDebug i \<longrightarrow> official_admins c = [])
      \<and> (strict \<longrightarrow> (\<forall>v a. a \<in> set (admins_of c v) \<longrightarrow> isDebug (adminInfo a) = isDebug i)))"

lemma count_eq: "Mgr_GetSuperDeviceAdminAndDeviceAdminCount c = int (length (counted_admins c))"
  by (simp add: Mgr_GetSuperDeviceAdminAndDeviceAdminCount_def GetSuperDeviceAdminAndDeviceAdminCount_def counted_admins_def
      counted_def admins_of_def split: option.split)

lemma IsSuperAdminExist_iff: "container_wf c \<Longrightarrow> IsSuperAdminExist c \<longleftrightarrow> official_admins c \<noteq> []"
  using visible_none [of DEFAULT_USER_ID c]
  by (auto simp: IsSuperAdminExist_def GetAdminCopy_pair visible_copies official_admins_def official_def filter_empty_conv
      list_ex_iff simp del: copy_admins_map)

lemma IsExistTarget_iff:
  "container_wf c \<Longrightarrow> Mgr_IsExistTargetAdmin d c \<longleftrightarrow> (\<exists>u a. a \<in> set (admins_of c u) \<and> isDebug (adminInfo a) = d)"
proof
  assume "container_wf c" "Mgr_IsExistTargetAdmin d c"
  then obtain u as a where "(u, as) \<in> set c" "a \<in> set as" "isDebug (adminInfo a) = d"
    by (auto simp: Mgr_IsExistTargetAdmin_def IsExistTargetAdmin_def list_ex_iff)
  moreover from this(1) \<open>container_wf c\<close> have "map_of c u = Some as"
    by (simp add: container_wf_def al_keys_distinct_def)
  ultimately show "\<exists>u a. a \<in> set (admins_of c u) \<and> isDebug (adminInfo a) = d"
    by (intro exI [of _ u] exI [of _ a]) (simp add: admins_of_def)
next
  assume "\<exists>u a. a \<in> set (admins_of c u) \<and> isDebug (adminInfo a) = d"
  then obtain u a where a: "a \<in> set (admins_of c u)" "isDebug (adminInfo a) = d" by blast
  then obtain as where "map_of c u = Some as" "a \<in> set as" by (cases "map_of c u") (auto simp: admins_of_def)
  then show "Mgr_IsExistTargetAdmin d c"
    using map_of_SomeD [of c u as] a(2)
    by (auto simp: Mgr_IsExistTargetAdmin_def IsExistTargetAdmin_def list_ex_iff intro!: bexI [of _ "(u, as)"] bexI [of _ a])
qed

subsection \<open>Runs keep the invariants\<close>

lemma info_update_same:
  "\<not> uc_has code UC_ADMIN_TYPE \<Longrightarrow> \<not> uc_has code UC_IS_DEBUG
    \<Longrightarrow> adminType (update_info code new i) = adminType i \<and> isDebug (update_info code new i) = isDebug i"
  by (simp add: update_info_def Let_def)

text \<open>A change of objects in place that leaves type and debug mark alone.\<close>

lemma admission_ok_map:
  assumes ok: "admission_ok strict c" and wf: "container_wf d"
    and as: "admins_of d = (admins_of c)(u := map f (admins_of c u))"
    and f: "\<And>a. adminType (adminInfo (f a)) = adminType (adminInfo a) \<and> isDebug (adminInfo (f a)) = isDebug (adminInfo a)"
  shows "admission_ok strict d"
proof -
  have len: "length (filter P (admins_of d v)) = length (filter P (admins_of c v))" if "\<And>a. P (f a) = P a" for P v
    by (simp add: as filter_map o_def that)
  have counts: "length (counted_admins d) = length (counted_admins c)" "length (official_admins d) = length (official_admins c)"
    unfolding counted_admins_def official_admins_def by (rule len, simp add: official_def f)+
  have mem: "\<exists>a0 \<in> set (admins_of c v). adminType (adminInfo a) = adminType (adminInfo a0) \<and> isDebug (adminInfo a) = isDebug (adminInfo a0)"
    if "a \<in> set (admins_of d v)" for a v
    using that f by (auto simp: as split: if_splits)
  show ?thesis
    using ok wf counts mem unfolding admission_ok_def homes_ok_def one_kind_def by metis
qed

lemma admission_ok_filter:
  assumes ok: "admission_ok strict c" and wf: "container_wf d" and as: "admins_of d = (admins_of c)(u := filter P (admins_of c u))"
  shows "admission_ok strict d"
proof -
  have len: "length (filter Q (admins_of d v)) \<le> length (filter Q (admins_of c v))" for Q v
  proof -
    have "filter Q (filter P xs) = filter P (filter Q xs)" for xs by (induction xs) auto
    then show ?thesis using length_filter_le [of P "filter Q (admins_of c u)"] by (simp add: as del: filter_filter)
  qed
  have mem: "a \<in> set (admins_of c v)" if "a \<in> set (admins_of d v)" for a v
    using that by (auto simp: as split: if_splits)
  show ?thesis
    using ok wf mem le_trans [OF len] unfolding admission_ok_def homes_ok_def one_kind_def counted_admins_def official_admins_def
    by blast
qed

lemma admission_ok_add:
  assumes ok: "admission_ok strict c" and ad: "admitted strict u i c"
  shows "admission_ok strict (SetAdminByUserId u i c)"
proof (cases "CreateAdmin i")
  case None
  then have "SetAdminByUserId u i c = c" by (simp add: SetAdminByUserId_def Let_def)
  with ok show ?thesis by simp
next
  case (Some a)
  note f = CreateAdmin_fields [OF Some]
  let ?d = "SetAdminByUserId u i c"
  have as: "admins_of ?d = (admins_of c)(u := admins_of c u @ [a])" by (simp add: admins_of_SetAdminByUserId Some)
  have "container_wf ?d" using ok by (simp add: admission_ok_def container_wf_Set)
  moreover have "homes_ok ?d" using ok ad by (auto simp: admission_ok_def homes_ok_def as f admitted_def)
  moreover have "length (counted_admins ?d) \<le> 10" "length (official_admins ?d) \<le> 1"
    using ok ad by (auto simp: admission_ok_def counted_admins_def official_admins_def as f admitted_def official_def counted_def)
  moreover have "strict \<longrightarrow> one_kind ?d"
    using ok ad unfolding admission_ok_def one_kind_def admitted_def as
    by (auto simp: f split: if_splits)
  ultimately show ?thesis by (simp add: admission_ok_def)
qed

lemma run_admission_ok: "table_run (admitted strict) c d \<Longrightarrow> admission_ok strict c \<Longrightarrow> admission_ok strict d"
proof (induction rule: table_run.induct)
  case (run_add c d u i)
  then show ?case by (simp add: admission_ok_add)
next
  case (run_update c d code u p new)
  then have ok: "admission_ok strict d" by simp
  show ?case
    by (rule admission_ok_map [OF ok container_wf_Update admins_of_UpdateAdmin])
      (use ok run_update.hyps in \<open>auto simp: admission_ok_def info_update_same\<close>)
next
  case (run_parent c d u p n)
  then have ok: "admission_ok strict d" by simp
  show ?case
    by (rule admission_ok_map [OF ok container_wf_UpdateParent admins_of_UpdateParentAdminName]) (use ok in \<open>auto simp: admission_ok_def\<close>)
next
  case (run_delete c d p u)
  then have ok: "admission_ok strict d" by simp
  show ?case
    by (rule admission_ok_filter [OF ok container_wf_Delete admins_of_DeleteAdmin]) (use ok in \<open>auto simp: admission_ok_def\<close>)
qed

end
