(* ===== verification/Ability_Runs.thy ===== *)
theory Ability_Runs
  imports Ability_Admission
begin

text \<open>
  Every operation of the service as a run of the table of administrators.
\<close>

unbundle bit_operations_syntax

subsection \<open>Calls that leave the table alone\<close>

lemmas service_unfold = Let_def split_beta

lemma enabled_same [ability_simps]:
  "abAdmins (snd (Ability_OnAdminEnabled V b n k u A)) = abAdmins A"
  "abAdmins (snd (OnDeviceAdminEnabled V i k u b A)) = abAdmins A"
  "abAdmins (snd (ConnectAbility V u a A)) = abAdmins A"
  "abAdmins (NotifyAdminEnabled V x A) = abAdmins A"
  "abAdmins (snd (request V c A)) = abAdmins A"
  by (simp_all add: Ability_OnAdminEnabled_def OnDeviceAdminEnabled_def ConnectAbility_def NotifyAdminEnabled_def service_unfold ability_simps)
    (simp add: request_def split: prod.splits)

lemma uninstall_same [ability_simps]:
  "abAdmins (snd (AddDisallowUninstallApp V b A)) = abAdmins A"
  "abAdmins (snd (AddDisallowUninstallAppForAccount V b u A)) = abAdmins A"
  "abAdmins (snd (DelDisallowUninstallAppForAccount V b u A)) = abAdmins A"
  by (simp_all add: AddDisallowUninstallApp_def AddDisallowUninstallAppForAccount_def DelDisallowUninstallAppForAccount_def service_unfold ability_simps)

lemma fold_same: "(\<And>x A. f (g x A) = f A) \<Longrightarrow> f (fold g xs A) = f A"
  by (induction xs arbitrary: A) simp_all

lemma del_uninstall_same [ability_simps]: "abAdmins (snd (DelDisallowUninstallApp V ca b A)) = abAdmins A"
  by (simp add: DelDisallowUninstallApp_def service_unfold ability_simps fold_same [where f = abAdmins])

text \<open>One rule per construct, for the functions in which simplification would copy the state too often.\<close>

lemma same_let: "abAdmins x = K \<Longrightarrow> (\<And>B. abAdmins B = K \<Longrightarrow> abAdmins (f B) = K) \<Longrightarrow> abAdmins (let B = x in f B) = K"
  by simp

lemma same_option: "(\<And>y. abAdmins (f y) = K) \<Longrightarrow> abAdmins B = K \<Longrightarrow> abAdmins (case x of None \<Rightarrow> B | Some y \<Rightarrow> f y) = K"
  by (cases x) simp_all

lemma same_if: "abAdmins x = K \<Longrightarrow> abAdmins y = K \<Longrightarrow> abAdmins (if b then x else y) = K"
  by simp

lemmas same_rules = same_let same_option same_if

lemma log_dir_same [ability_simps]: "abAdmins (enable_log_dir V el u A) = abAdmins A"
  by (simp add: enable_log_dir_def service_unfold ability_simps)

lemma after_enable_same [ability_simps]: "abAdmins (AfterEnableAdmin V el t u src A) = abAdmins A"
  unfolding AfterEnableAdmin_def by (intro same_rules | simp only: ability_simps)+

lemma after_replace_same [ability_simps]: "abAdmins (after_replace V ca old new A) = abAdmins A"
  by (simp add: after_replace_def AfterEnableAdminReportEdmEvent_def report_replace_def service_unfold ability_simps)

lemma announce_same [ability_simps]: "abAdmins (announce_no_admin V A) = abAdmins A"
  by (simp add: announce_no_admin_def service_unfold ability_simps)

text \<open>The ways through a request, one rule per construct.\<close>

definition ends_in :: "(('s, 'w) ability \<Rightarrow> bool) \<Rightarrow> 'x \<times> ('s, 'w) ability \<Rightarrow> bool" where
  "ends_in Q r = Q (snd r)"

lemma ends_let: "(\<And>y. y = x \<Longrightarrow> ends_in Q (f y)) \<Longrightarrow> ends_in Q (let y = x in f y)"
  by simp

lemma ends_prod: "(\<And>a b. a = fst x \<Longrightarrow> b = snd x \<Longrightarrow> ends_in Q (f a b)) \<Longrightarrow> ends_in Q (case x of (a, b) \<Rightarrow> f a b)"
  by (simp add: split_beta)

lemma ends_if: "(b \<Longrightarrow> ends_in Q x) \<Longrightarrow> (\<not> b \<Longrightarrow> ends_in Q y) \<Longrightarrow> ends_in Q (if b then x else y)"
  by simp

lemma ends_option: "(x = None \<Longrightarrow> ends_in Q y) \<Longrightarrow> (\<And>a. x = Some a \<Longrightarrow> ends_in Q (f a)) \<Longrightarrow> ends_in Q (case x of None \<Rightarrow> y | Some a \<Rightarrow> f a)"
  by (cases x) simp_all

lemma ends_pair: "Q A \<Longrightarrow> ends_in Q (r, A)"
  by (simp add: ends_in_def)

lemma ends_keep: "abAdmins x = K \<Longrightarrow> (\<And>y. abAdmins y = K \<Longrightarrow> ends_in (\<lambda>B. abAdmins B = K) (f y))
    \<Longrightarrow> ends_in (\<lambda>B. abAdmins B = K) (let y = x in f y)"
  by simp

lemmas ends_rules = ends_let ends_prod ends_if ends_option ends_pair

subsection \<open>The manager\<close>

lemma SetAdminValue_run:
  assumes "GetAdminByPkgName (packageName i) u (adminTable s) = None \<Longrightarrow> G u i (adminTable s)"
  shows "table_run G (adminTable s) (adminTable (snd (SetAdminValue R J u i s)))"
  using assms
  by (auto simp: SetAdminValue_def Mgr_UpdateAdmin_def SetAdminValue_code_def notify_def Let_def split_beta
      intro!: run_refl run_add run_update)

lemma UpdateAdminPermission_run: "table_run G (adminTable s) (adminTable (snd (UpdateAdminPermission R J b u ps s)))"
  by (auto simp: UpdateAdminPermission_def Mgr_UpdateAdmin_def Let_def split_beta intro!: run_refl run_update)

lemma Replace_run: "table_run G (adminTable s) (adminTable (snd (ReplaceSuperAdminByPackageName R J p i s)))"
  by (auto simp: ReplaceSuperAdminByPackageName_def notify_def Let_def split_beta intro!: run_refl run_parent run_update)

lemma SetEntInfo_run: "table_run G (adminTable s) (adminTable (snd (Mgr_SetEntInfo R a e u s)))"
  by (auto simp: Mgr_SetEntInfo_def Let_def split_beta intro!: run_refl run_update)

lemma events_run:
  "table_run G (adminTable s) (adminTable (snd (SaveSubscribeEvents R J es b u s)))"
  "table_run G (adminTable s) (adminTable (snd (RemoveSubscribeEvents R J es b u s)))"
  by (auto simp: SaveSubscribeEvents_def RemoveSubscribeEvents_def Let_def split_beta intro!: run_refl run_update split: option.split)

subsection \<open>Removals\<close>

text \<open>A removal only deletes names from the lists of users.\<close>

inductive removes :: "container \<Rightarrow> container \<Rightarrow> bool" where
  removes_refl: "removes c c"
| removes_delete: "removes c d \<Longrightarrow> removes c (snd (Container_DeleteAdmin p u d))"

lemma removes_trans: "removes c d \<Longrightarrow> removes d e \<Longrightarrow> removes c e"
  by (rotate_tac, induction rule: removes.induct) (auto intro: removes.intros)

lemma removes_run: "removes c d \<Longrightarrow> table_run G c d"
  by (induction rule: removes.induct) (auto intro: table_run.intros)

lemma removes_sub: "removes c d \<Longrightarrow> \<exists>P. admins_of d u = filter P (admins_of c u)"
proof (induction rule: removes.induct)
  case (removes_refl c)
  show ?case by (rule exI [of _ "\<lambda>_. True"]) simp
next
  case (removes_delete c d p v)
  then show ?case by (auto simp: admins_of_DeleteAdmin)
qed

definition gone :: "string \<Rightarrow> user_id \<Rightarrow> container \<Rightarrow> bool" where
  "gone p u c = (\<forall>a \<in> set (admins_of c u). packageName (adminInfo a) \<noteq> p)"

lemma removes_gone: "removes c d \<Longrightarrow> gone p u c \<Longrightarrow> gone p u d"
  using removes_sub [of c d u] by (auto simp: gone_def)

lemma Delete_removes: "removes (adminTable s) (adminTable (snd (Mgr_DeleteAdmin R p u t s)))"
  by (auto simp: Mgr_DeleteAdmin_def notify_def Let_def split_beta intro!: removes.intros)

lemma no_admins: "\<not> HasAdmin u c \<Longrightarrow> admins_of c u = []"
  by (auto simp: HasAdmin_def admins_of_def)

lemma Delete_gone:
  "fst (Mgr_DeleteAdmin R p u t s) = ERR_OK \<or> fst (Mgr_DeleteAdmin R p u t s) = ERR_EDM_UNKNOWN_ADMIN
    \<Longrightarrow> gone p u (adminTable (snd (Mgr_DeleteAdmin R p u t s)))"
  by (auto simp: Mgr_DeleteAdmin_def notify_def Let_def split_beta gone_def admins_of_DeleteAdmin no_admins
      split: if_splits)

lemma remove_policies_same [ability_simps]:
  "admins_table (snd (remove_policies V a u ps A)) = admins_table A"
  "abTimers (snd (remove_policies V a u ps A)) = abTimers A"
  "abEvents (snd (remove_policies V a u ps A)) = abEvents A"
  by (induction ps arbitrary: A) (auto simp: service_unfold ability_simps)

lemma RemoveAdminPolicy_same [ability_simps]:
  "admins_table (snd (RemoveAdminPolicy V a u A)) = admins_table A"
  "abTimers (snd (RemoveAdminPolicy V a u A)) = abTimers A"
  "abEvents (snd (RemoveAdminPolicy V a u A)) = abEvents A"
  by (simp_all add: RemoveAdminPolicy_def service_unfold ability_simps)

lemma Remove_removes: "removes (admins_table A) (admins_table (snd (RemoveAdminAndAdminPolicy V ca p u t A)))"
  by (auto simp: RemoveAdminAndAdminPolicy_def RemoveAdmin_def service_unfold ability_simps
      intro!: removes_refl removes_trans [OF _ Delete_removes])

lemma Remove_gone:
  "fst (RemoveAdminAndAdminPolicy V ca p u t A) = ERR_OK \<Longrightarrow> gone p u (admins_table (snd (RemoveAdminAndAdminPolicy V ca p u t A)))"
  by (auto simp: RemoveAdminAndAdminPolicy_def RemoveAdmin_def service_unfold ability_simps intro!: Delete_gone split: if_splits)

lemma SubOrSuper_removes: "removes (admins_table A) (admins_table (snd (RemoveSubOrSuperAdminAndAdminPolicy V ca p us t A)))"
  by (induction us arbitrary: A)
    (auto simp: service_unfold ability_simps Remove_removes intro: removes_trans [OF Remove_removes])

lemma SubOrSuper_gone:
  "fst (RemoveSubOrSuperAdminAndAdminPolicy V ca p us t A) = ERR_OK
    \<Longrightarrow> gone p DEFAULT_USER_ID (admins_table (snd (RemoveSubOrSuperAdminAndAdminPolicy V ca p us t A)))"
  by (induction us arbitrary: A)
    (auto simp: service_unfold ability_simps Remove_gone split: if_splits)

lemma subs_removes: "removes (admins_table A) (admins_table (snd (remove_subs V ca subs us A)))"
  by (induction subs arbitrary: A)
    (auto simp: service_unfold ability_simps intro: removes_refl removes_trans [OF SubOrSuper_removes] SubOrSuper_removes)

lemma Super_removes: "removes (admins_table A) (admins_table (snd (RemoveSuperAdminAndAdminPolicy V ca p A)))"
  by (auto simp: RemoveSuperAdminAndAdminPolicy_def service_unfold ability_simps
      intro: subs_removes removes_trans [OF subs_removes SubOrSuper_removes])

lemma Super_gone:
  "fst (RemoveSuperAdminAndAdminPolicy V ca p A) = ERR_OK
    \<Longrightarrow> gone p DEFAULT_USER_ID (admins_table (snd (RemoveSuperAdminAndAdminPolicy V ca p A)))"
  by (auto simp: RemoveSuperAdminAndAdminPolicy_def service_unfold ability_simps SubOrSuper_gone split: if_splits)

subsection \<open>Enabling\<close>

text \<open>The bundle manager finds extensions of the bundle that is asked for.\<close>

definition extensions_named :: "('s, 'w) service \<Rightarrow> bool" where
  "extensions_named V = (\<forall>el u w infos. pf_QueryExtensionAbilityInfos (sv_platform V) el u w = Some infos
     \<longrightarrow> (\<forall>x \<in> set infos. elBundle x = elBundle el))"

lemma named_hd: "extensions_named V \<Longrightarrow> query_extensions V el u A \<noteq> [] \<Longrightarrow> elBundle (hd (query_extensions V el u A)) = elBundle el"
  by (auto simp: extensions_named_def query_extensions_def split: option.splits)

lemma admission_okD: "admission_ok strict c \<Longrightarrow> container_wf c"
  by (simp add: admission_ok_def)

lemma VerifyEnable_facts:
  assumes wf: "container_wf (admins_table A)" and "\<not> FAILED (VerifyEnableAdminCondition V el type u debug A)"
  shows "type = ENT \<longrightarrow> u = DEFAULT_USER_ID" "a \<in> set (admins_of (admins_table A) v) \<Longrightarrow> isDebug (adminInfo a) = debug"
  using assms(2) IsExistTarget_iff [OF wf, of "\<not> debug"]
  by (auto simp: VerifyEnableAdminCondition_def split: if_splits)

lemma EnableAdminWithPermission_run:
  assumes ok: "admission_ok strict (admins_table A)" and V: "extensions_named V"
  shows "table_run (admitted strict) (admins_table A) (admins_table (snd (EnableAdminWithPermission V ca el ent type u perm src A)))"
proof -
  let ?c = "admins_table A" and ?x = "hd (query_extensions V el u A)"
  let ?save = "if type = ENT \<or> type = NORMAL then DEFAULT_USER_ID else u"
  note wf = admission_okD [OF ok]
  have ad: "admitted strict ?save i ?c"
    if "packageName i = elBundle ?x" "adminType i = type" "isDebug i = CheckIsDebug ca"
      "\<not> FAILED (EnableAdminPreCheck V type src A)" "Mgr_GetSuperDeviceAdminAndDeviceAdminCount ?c < MAX_SDA_AND_DA_COUNT"
      "query_extensions V el u A \<noteq> []" "\<not> FAILED (VerifyEnableAdminCondition V el type u (CheckIsDebug ca) A)"
      "\<not> (\<not> CheckIsDebug ca \<and> type = ENT \<and> IsSuperAdminExist ?c \<and> GetAdminByPkgName (elBundle el) u ?c = None)"
      "GetAdminByPkgName (packageName i) ?save ?c = None" for i
    using that VerifyEnable_facts [OF wf that(7)] named_hd [OF V that(6)]
    by (auto simp: admitted_def counted_def count_eq IsSuperAdminExist_iff [OF wf])
  have st: "table_run (admitted strict) ?c (adminTable (snd (SetAdminValue R J ?save i (abAdmins A))))"
    if "packageName i = elBundle ?x" "adminType i = type" "isDebug i = CheckIsDebug ca"
      "EnableAdminPreCheck V type src A = ERR_OK" "\<not> MAX_SDA_AND_DA_COUNT \<le> Mgr_GetSuperDeviceAdminAndDeviceAdminCount ?c"
      "query_extensions V el u A \<noteq> []" "VerifyEnableAdminCondition V el type u (CheckIsDebug ca) A = ERR_OK"
      "\<not> (\<not> CheckIsDebug ca \<and> type = ENT \<and> IsSuperAdminExist ?c \<and> GetAdminByPkgName (elBundle el) u ?c = None)" for i R J
    by (rule SetAdminValue_run, rule ad) (use that in auto)
  have "ends_in (table_run (admitted strict) ?c \<circ> admins_table) (EnableAdminWithPermission V ca el ent type u perm src A)"
    unfolding EnableAdminWithPermission_def
    by (intro ends_rules) (simp_all add: ability_simps run_refl st split del: if_split)
  then show ?thesis by (simp add: ends_in_def)
qed

lemma EnableAdmin_runs:
  assumes "admission_ok strict (admins_table A)" "extensions_named V"
  shows "table_run (admitted strict) (admins_table A) (admins_table (snd (EnableAdmin V ca el ent type u src A)))"
    "table_run (admitted strict) (admins_table A) (admins_table (snd (EnableAdminSelf V ca el ent type u self src A)))"
  by (simp_all add: EnableAdmin_def EnableAdminSelf_def EnableAdminWithPermission_run assms run_refl)

text \<open>What is found by name is a copy of a stored object.\<close>

lemma found_stored:
  assumes "container_wf c" "GetAdminByPkgName p u c = Some a"
  shows "\<exists>v b. b \<in> set (admins_of c v) \<and> (v = u \<or> v = DEFAULT_USER_ID) \<and> isDebug (adminInfo b) = isDebug (adminInfo a)
    \<and> adminType (adminInfo b) = adminType (adminInfo a) \<and> packageName (adminInfo b) = p"
proof -
  obtain v where v: "a \<in> set (visible c v)" "v = u \<or> v = DEFAULT_USER_ID"
    using assms(2) by (auto simp: GetAdminByPkgName_alt across_def find_Some_iff split: if_splits dest!: nth_mem)
  then obtain b where "b \<in> set (admins_of c v)" "a = copy_admin b" by (auto simp: visible_copies [OF assms(1)])
  with v(2) found_name [OF assms] show ?thesis by (metis copy_admin_simps(1-3))
qed

lemma found_wf: "container_wf c \<Longrightarrow> GetAdminByPkgName p u c = Some a \<Longrightarrow> admin_wf a"
  using visible_wf by (auto simp: GetAdminByPkgName_alt across_def find_Some_iff split: if_splits dest!: nth_mem)

lemma not_found_gone: "container_wf c \<Longrightarrow> GetAdminByPkgName p DEFAULT_USER_ID c = None \<longleftrightarrow> gone p DEFAULT_USER_ID c"
  by (auto simp: GetAdminByPkgName_alt find_None_iff visible_copies gone_def)

text \<open>An administrator with the debug mark of one that is there.\<close>

lemma found_debug:
  assumes "admission_ok strict c" "GetAdminByPkgName p u c = Some a" "strict" "b \<in> set (admins_of c v)"
  shows "isDebug (adminInfo b) = isDebug (adminInfo a)"
  using found_stored [OF admission_okD [OF assms(1)] assms(2)] assms(1,3,4) unfolding admission_ok_def one_kind_def by metis

lemma EnableDeviceAdmin_run:
  assumes ok: "admission_ok strict (admins_table A)"
  shows "table_run (admitted strict) (admins_table A) (admins_table (snd (EnableDeviceAdmin V ca el A)))"
proof -
  let ?c = "admins_table A"
  have st: "table_run (admitted strict) ?c (adminTable (snd (SetAdminValue R J DEFAULT_USER_ID i (abAdmins A))))"
    if "GetAdminByPkgName q DEFAULT_USER_ID ?c = Some a" "isDebug i = isDebug (adminInfo a)" "adminType i = NORMAL"
      "CheckEnableDeviceAdmin V ca el A = ERR_OK" for i q a R J
  proof (intro SetAdminValue_run)
    have "length (counted_admins ?c) < 10" using that(4) by (auto simp: CheckEnableDeviceAdmin_def count_eq split: if_splits)
    moreover have "strict \<longrightarrow> (\<forall>v b. b \<in> set (admins_of ?c v) \<longrightarrow> isDebug (adminInfo b) = isDebug i)"
      using found_debug [OF ok that(1)] unfolding that(2) by metis
    ultimately show "admitted strict DEFAULT_USER_ID i ?c" by (simp add: admitted_def that(3))
  qed
  have "ends_in (table_run (admitted strict) ?c \<circ> admins_table) (EnableDeviceAdmin V ca el A)"
    unfolding EnableDeviceAdmin_def by (intro ends_rules) (simp_all add: ability_simps run_refl st split del: if_split)
  then show ?thesis by (simp add: ends_in_def)
qed

subsection \<open>Disabling\<close>

lemma remove_records_removes: "removes (admins_table A) (admins_table (snd (remove_records V ca a u t A)))"
proof -
  have "ends_in (removes (admins_table A) \<circ> admins_table) (remove_records V ca a u t A)"
    unfolding remove_records_def RemoveSubSuperAdminAndAdminPolicy_def
    by (intro ends_rules) (auto intro: removes_refl Super_removes SubOrSuper_removes Remove_removes removes_trans [OF Super_removes Remove_removes])
  then show ?thesis by (simp add: ends_in_def)
qed

lemma remove_records_gone:
  assumes "fst (remove_records V ca a u t A) = ERR_OK" "IsAllowedAcrossAccountSetPolicy a \<longrightarrow> u = DEFAULT_USER_ID" "admin_wf a"
  shows "gone (packageName (adminInfo a)) u (admins_table (snd (remove_records V ca a u t A)))"
  using assms across_account_iff [OF assms(3)]
  by (auto simp: remove_records_def RemoveSubSuperAdminAndAdminPolicy_def service_unfold Admin_IsSuperAdmin_def
      Remove_gone SubOrSuper_gone Super_gone split: if_splits)

lemma DoDisable_admins: "abAdmins (snd (DoDisableAdmin V ca a u t A)) = abAdmins (snd (remove_records V ca a u t A))"
proof -
  obtain r B where B: "remove_records V ca a u t A = (r, B)" by (rule prod.exhaust)
  have "ends_in (\<lambda>C. abAdmins C = abAdmins B) (DoDisableAdmin V ca a u t A)"
    unfolding DoDisableAdmin_def B Let_def [of "(r, B)"] Let_def [of "packageName (adminInfo a)"] prod.case
    by (intro ends_if ends_keep ends_pair same_rules | simp only: ability_simps)+
  then show ?thesis by (simp add: ends_in_def B)
qed

lemma DoDisable_removes: "removes (admins_table A) (admins_table (snd (DoDisableAdmin V ca a u t A)))"
  by (simp add: DoDisable_admins remove_records_removes)

lemma DoDisable_status: "fst (DoDisableAdmin V ca a u t A) = ERR_OK \<Longrightarrow> fst (remove_records V ca a u t A) = ERR_OK"
  by (auto simp: DoDisableAdmin_def Let_def split: prod.splits if_splits)

lemma disabling_removes:
  "removes (admins_table A) (admins_table (snd (DisableAdmin V ca el u A)))"
  "removes (admins_table A) (admins_table (snd (DoDisableAdminByName V ca b u t A)))"
  "removes (admins_table A) (admins_table (snd (DisableSuperAdmin V ca b A)))"
  "removes (admins_table A) (admins_table (snd (DisableDeviceAdmin V ca el A)))"
  by (auto simp: DisableAdmin_def DoDisableAdminByName_def DisableSuperAdmin_def DisableDeviceAdmin_def Let_def
      intro: removes_refl DoDisable_removes split: option.split)

subsection \<open>Replacing\<close>

lemma on_policies_run: "table_run G c (admins_table A) \<Longrightarrow> table_run G c (admins_table (snd (on_policies f A)))"
  by (simp add: ability_simps)

lemma HandleKeepPolicy_run: "table_run G (admins_table A) (admins_table (snd (HandleKeepPolicy V ca p q new old A)))"
proof -
  have keep: "admins_table (snd (keep_uninstall_policy V ca p q x y B)) = admins_table B" for x y B
    by (simp add: keep_uninstall_policy_def service_unfold ability_simps split: option.split)
  have "ends_in (table_run G (admins_table A) \<circ> admins_table) (HandleKeepPolicy V ca p q new old A)"
    unfolding HandleKeepPolicy_def read_policy_def report_replace_def
    by (intro ends_rules) (auto simp: ability_simps keep intro!: run_trans [OF _ Replace_run] run_refl)
  then show ?thesis by (simp add: ends_in_def)
qed

lemma CheckReplace_facts:
  assumes "container_wf (admins_table A)" "fst (CheckReplaceAdmins V ca old new A) = ERR_OK"
  shows "\<exists>s. s \<in> set (admins_of (admins_table A) DEFAULT_USER_ID) \<and> adminType (adminInfo s) = ENT \<and> packageName (adminInfo s) = elBundle old"
    "a \<in> set (admins_of (admins_table A) v) \<Longrightarrow> \<not> isDebug (adminInfo a)"
proof -
  obtain x where "GetSuperAdmin (admins_table A) = Some x" "packageName (adminInfo x) = elBundle old"
    and v: "VerifyEnableAdminCondition V new ENT DEFAULT_USER_ID False A = ERR_OK"
    using assms(2) by (auto simp: CheckReplaceAdmins_def Let_def split: if_splits option.splits)
  then have "x \<in> set (visible (admins_table A) DEFAULT_USER_ID)" "adminType (adminInfo x) = ENT" "packageName (adminInfo x) = elBundle old"
    by (auto simp: GetSuperAdmin_def GetAdminByUserId_def [symmetric] GetAdminCopy_pair find_Some_iff GetAdminType_def
        split: if_splits dest!: nth_mem)
  then show "\<exists>s. s \<in> set (admins_of (admins_table A) DEFAULT_USER_ID) \<and> adminType (adminInfo s) = ENT \<and> packageName (adminInfo s) = elBundle old"
    by (auto simp: visible_copies [OF assms(1)])
  show "a \<in> set (admins_of (admins_table A) v) \<Longrightarrow> \<not> isDebug (adminInfo a)"
    using VerifyEnable_facts(2) [OF assms(1), of V new ENT DEFAULT_USER_ID False a v] v by simp
qed

text \<open>Without the old super administrator there is room for the new one.\<close>

lemma room_for_super:
  assumes ok: "admission_ok strict c" and rm: "removes c d" and gone: "gone p DEFAULT_USER_ID d"
    and s: "s \<in> set (admins_of c DEFAULT_USER_ID)" "adminType (adminInfo s) = ENT" "packageName (adminInfo s) = p"
    and all: "\<And>a v. a \<in> set (admins_of c v) \<Longrightarrow> \<not> isDebug (adminInfo a)"
    and i: "adminType i = ENT" "\<not> isDebug i"
  shows "admitted strict DEFAULT_USER_ID i d"
proof -
  obtain P where P: "admins_of d DEFAULT_USER_ID = filter P (admins_of c DEFAULT_USER_ID)" using removes_sub [OF rm] by blast
  have lost: "\<not> P s" using gone s(1,3) by (auto simp: gone_def P)
  have swap: "filter Q (filter P xs) = filter P (filter Q xs)" for Q xs by (induction xs) auto
  have "length (counted_admins d) < length (counted_admins c)"
    unfolding counted_admins_def P swap
    by (rule length_filter_less [of s _ P, OF _ lost]) (simp add: s counted_def)
  moreover have fewer: "length (official_admins d) < length (official_admins c)"
    unfolding official_admins_def P swap
    by (rule length_filter_less [of s _ P, OF _ lost]) (simp add: s official_def all [OF s(1)])
  moreover have "\<not> isDebug (adminInfo a)" if "a \<in> set (admins_of d v)" for a v
    using removes_sub [OF rm, of v] that all by auto
  moreover have "length (official_admins d) = 0" using fewer ok unfolding admission_ok_def by linarith
  ultimately show ?thesis using ok i by (auto simp: admitted_def admission_ok_def)
qed

lemma ReplaceSuperAdmin_run:
  assumes ok: "admission_ok strict (admins_table A)" and V: "extensions_named V"
  shows "table_run (admitted strict) (admins_table A) (admins_table (snd (ReplaceSuperAdmin V ca old new keep A)))"
proof -
  let ?c = "admins_table A"
  note wf = admission_okD [OF ok]
  have st: "table_run (admitted strict) ?c (adminTable (snd (SetAdminValue R J DEFAULT_USER_ID i (abAdmins B))))"
    if check: "fst (CheckReplaceAdmins V ca old new A) = ERR_OK"
      and found: "GetAdminByPkgName (elBundle old) DEFAULT_USER_ID ?c = Some a"
      and B: "B = snd (DoDisableAdmin V ca a DEFAULT_USER_ID ENT A)" "fst (DoDisableAdmin V ca a DEFAULT_USER_ID ENT A) = ERR_OK"
      and i: "adminType i = ENT" "\<not> isDebug i" for i a B R J
  proof -
    have rm: "removes ?c (admins_table B)" by (simp add: B(1) DoDisable_removes)
    have "packageName (adminInfo a) = elBundle old" "admin_wf a" using found_name [OF wf found] found_wf [OF wf found] by simp_all
    then have "gone (elBundle old) DEFAULT_USER_ID (admins_table B)"
      using remove_records_gone [OF DoDisable_status [OF B(2)]] by (simp add: B(1) DoDisable_admins)
    with CheckReplace_facts [OF wf check] have "admitted strict DEFAULT_USER_ID i (admins_table B)"
      using room_for_super [OF ok rm _ _ _ _ _ i] by metis
    then show ?thesis by (intro run_trans [OF removes_run [OF rm]] SetAdminValue_run)
  qed
  have "ends_in (table_run (admitted strict) ?c \<circ> admins_table) (ReplaceSuperAdmin V ca old new keep A)"
    unfolding ReplaceSuperAdmin_def
    by (intro ends_rules)
      (simp_all add: ability_simps run_refl HandleKeepPolicy_run removes_run [OF DoDisable_removes] st split del: if_split)
  then show ?thesis by (simp add: ends_in_def)
qed

end
