(* ===== verification/Ability_Steps.thy ===== *)
theory Ability_Steps
  imports Ability_Runs
begin

text \<open>
  The requests and events that change the administrators only in passing, and the service as a machine that runs one
  request or event after the other.
\<close>

unbundle bit_operations_syntax

subsection \<open>Requests that add\<close>

lemma SetAdminRunningMode_run:
  assumes ok: "admission_ok strict (admins_table A)"
  shows "table_run (admitted strict) (admins_table A) (admins_table (snd (SetAdminRunningMode V ca el mode A)))"
proof -
  let ?c = "admins_table A"
  note wf = admission_okD [OF ok]
  have st: "table_run (admitted strict) ?c (adminTable (snd (SetAdminValue R J DEFAULT_USER_ID (adminInfo a\<lparr>runningMode := m\<rparr>) (abAdmins A))))"
    if found: "GetAdminByPkgName (elBundle el) u ?c = Some a" for u a m R J
  proof (intro SetAdminValue_run)
    assume "GetAdminByPkgName (packageName (adminInfo a\<lparr>runningMode := m\<rparr>)) DEFAULT_USER_ID ?c = None"
    then have g: "gone (elBundle el) DEFAULT_USER_ID ?c" using not_found_gone [OF wf] found_name [OF wf found] by simp
    obtain v b where b: "b \<in> set (admins_of ?c v)" "adminType (adminInfo b) = adminType (adminInfo a)" "packageName (adminInfo b) = elBundle el"
      using found_stored [OF wf found] by blast
    with g have "v \<noteq> DEFAULT_USER_ID" by (auto simp: gone_def)
    with b ok have "\<not> counted (adminType (adminInfo a))" unfolding admission_ok_def homes_ok_def by metis
    moreover have "strict \<longrightarrow> (\<forall>v b. b \<in> set (admins_of ?c v) \<longrightarrow> isDebug (adminInfo b) = isDebug (adminInfo a))"
      using found_debug [OF ok found] by metis
    ultimately show "admitted strict DEFAULT_USER_ID (adminInfo a\<lparr>runningMode := m\<rparr>) ?c" by (simp add: admitted_def counted_def)
  qed
  have "ends_in (table_run (admitted strict) ?c \<circ> admins_table) (SetAdminRunningMode V ca el mode A)"
    unfolding SetAdminRunningMode_def
    by (intro ends_rules) (simp_all add: ability_simps run_refl st ends_in_def)
  then show ?thesis by (simp add: ends_in_def)
qed

text \<open>A subordinate takes the debug mark of its parent.\<close>

lemma SetSubordinate_run:
  assumes ok: "admission_ok strict (admins_table A)" and same: "abAdmins B = abAdmins A"
    and found: "GetAdminByPkgName q v (admins_table A) = Some a" and i: "isDebug i = isDebug (adminInfo a)" "\<not> counted (adminType i)"
  shows "table_run (admitted strict) (admins_table A) (adminTable (snd (SetAdminValue R J u i (abAdmins B))))"
proof -
  have "strict \<longrightarrow> (\<forall>v b. b \<in> set (admins_of (admins_table A) v) \<longrightarrow> isDebug (adminInfo b) = isDebug i)"
    using found_debug [OF ok found] i(1) by metis
  with i(2) have "admitted strict u i (admins_table A)" by (simp add: admitted_def counted_def)
  then show ?thesis using SetAdminValue_run [of i u "abAdmins A"] by (simp add: same)
qed

lemma AuthorizeAdmin_run:
  assumes ok: "admission_ok strict (admins_table A)"
  shows "table_run (admitted strict) (admins_table A) (admins_table (snd (AuthorizeAdmin V ca el b A)))"
proof -
  have "ends_in (table_run (admitted strict) (admins_table A) \<circ> admins_table) (AuthorizeAdmin V ca el b A)"
    unfolding AuthorizeAdmin_def
    by (intro ends_rules)
      (simp_all add: ability_simps run_refl SetSubordinate_run [OF ok refl] counted_def split del: if_split)
  then show ?thesis by (simp add: ends_in_def)
qed

lemma DisableVirtualAdmin_removes: "removes (admins_table A) (admins_table (snd (DisableVirtualAdmin V ca b p A)))"
  by (auto simp: DisableVirtualAdmin_def RemoveSubSuperAdminAndAdminPolicy_def service_unfold ability_simps intro: SubOrSuper_removes)

lemma on_plugin_tables_admins [ability_simps]: "abAdmins (snd (on_plugin_tables f A)) = abAdmins A"
  by (simp add: on_plugin_tables_def split: prod.splits)

lemma check_delegated_same [ability_simps]: "abAdmins (snd (check_delegated V ca t ps A)) = abAdmins A"
  by (induction ps arbitrary: A) (auto simp: service_unfold ability_simps)

lemma SetDelegatedPolicies_run:
  assumes ok: "admission_ok strict (admins_table A)"
  shows "table_run (admitted strict) (admins_table A) (admins_table (snd (SetDelegatedPolicies V ca p b ps A)))"
proof -
  have "ends_in (table_run (admitted strict) (admins_table A) \<circ> admins_table) (SetDelegatedPolicies V ca p b ps A)"
    unfolding SetDelegatedPolicies_def CheckDelegatedPolicies_def
    by (intro ends_rules)
      (simp_all add: ability_simps run_refl SetSubordinate_run [OF ok refl] counted_def removes_run [OF DisableVirtualAdmin_removes]
        ends_in_def)
  then show ?thesis by (simp add: ends_in_def)
qed

lemma SetDelegatedPoliciesForUser_run:
  "table_run (admitted False) (admins_table A) (admins_table (snd (SetDelegatedPoliciesForUser V ca b ps u A)))"
proof -
  have st: "table_run (admitted False) (admins_table A) (adminTable (snd (SetAdminValue R J u i (abAdmins A))))"
    if "adminType i = VIRTUAL_ADMIN" for i R J
    by (rule SetAdminValue_run) (simp add: admitted_def counted_def that)
  have "ends_in (table_run (admitted False) (admins_table A) \<circ> admins_table) (SetDelegatedPoliciesForUser V ca b ps u A)"
    unfolding SetDelegatedPoliciesForUser_def
    by (intro ends_rules) (simp_all add: ability_simps run_refl st ends_in_def split del: if_split)
  then show ?thesis by (simp add: ends_in_def)
qed

lemma SetEnterpriseInfo_run: "table_run G (admins_table A) (admins_table (snd (SetEnterpriseInfo V ca el ent A)))"
  by (auto simp: SetEnterpriseInfo_def service_unfold ability_simps intro: run_refl SetEntInfo_run split: option.split)

lemma managed_events_run:
  "table_run G (admins_table A) (admins_table (snd (SubscribeManagedEvent V ca el es A)))"
  "table_run G (admins_table A) (admins_table (snd (UnsubscribeManagedEvent V ca el es A)))"
  by (auto simp: SubscribeManagedEvent_def UnsubscribeManagedEvent_def service_unfold ability_simps intro: run_refl events_run)

subsection \<open>Requests about policies\<close>

lemma set_policy_same [ability_simps]:
  "admins_table (snd (policy_name_of V code A)) = admins_table A"
  "admins_table (snd (CheckPluginCalling V ca code op tag A)) = admins_table A"
  "admins_table (snd (CheckAdminPermission V ca code op a tag n u A)) = admins_table A"
  "admins_table (snd (read_tag V A)) = admins_table A"
  "admins_table (snd (read_int V A)) = admins_table A"
  "admins_table (snd (read_element V A)) = admins_table A"
  "admins_table (snd (CheckElementNull V check code tag A)) = admins_table A"
  "admins_table (snd (update_and_report V code b k n u A)) = admins_table A"
  "admins_table (snd (get_and_report V code b k n u A)) = admins_table A"
  by (simp_all add: policy_name_of_def CheckPluginCalling_def CheckAdminPermission_def read_tag_def read_int_def read_element_def
      CheckElementNull_def update_and_report_def get_and_report_def service_unfold ability_simps)

lemma CheckSetPolicyPermission_same [ability_simps]:
  "admins_table (snd (CheckSetPolicyPermission V ca code b tag n u A)) = admins_table A"
  by (simp add: CheckSetPolicyPermission_def ability_simps split: option.split)

lemma device_policy_same:
  "admins_table (snd (HandleDevicePolicy V ca code el u A)) = admins_table A"
  "admins_table (snd (HandleDevicePolicyNew V ca code u A)) = admins_table A"
  "admins_table (snd (GetDevicePolicyFromPlugin V ca code u tag A)) = admins_table A"
  "admins_table (snd (GetDevicePolicyFromPluginNew V ca code u q A)) = admins_table A"
proof -
  let ?Q = "(\<lambda>c. c = admins_table A) \<circ> admins_table"
  have "ends_in ?Q (HandleDevicePolicy V ca code el u A)"
    unfolding HandleDevicePolicy_def by (intro ends_rules) (simp_all add: ability_simps ends_in_def)
  moreover have "ends_in ?Q (HandleDevicePolicyNew V ca code u A)"
    unfolding HandleDevicePolicyNew_def HandleSystemTimerPolicyNew_def CheckHandleDevicePolicyNewPermission_def
    by (intro ends_rules) (simp_all add: ability_simps ends_in_def)
  moreover have "ends_in ?Q (GetDevicePolicyFromPlugin V ca code u tag A)"
    unfolding GetDevicePolicyFromPlugin_def by (intro ends_rules) (simp_all add: ability_simps ends_in_def)
  moreover have "ends_in ?Q (GetDevicePolicyFromPluginNew V ca code u q A)"
    unfolding GetDevicePolicyFromPluginNew_def by (intro ends_rules) (simp_all add: ability_simps ends_in_def)
  ultimately show "admins_table (snd (HandleDevicePolicy V ca code el u A)) = admins_table A"
    "admins_table (snd (HandleDevicePolicyNew V ca code u A)) = admins_table A"
    "admins_table (snd (GetDevicePolicyFromPlugin V ca code u tag A)) = admins_table A"
    "admins_table (snd (GetDevicePolicyFromPluginNew V ca code u q A)) = admins_table A"
    by (simp_all add: ends_in_def)
qed

lemma other_requests_same:
  "admins_table (snd (EnableSelfDeviceAdmin V ca el credential A)) = admins_table A"
  "admins_table (snd (SetBundleInstallPolicies V ca bs u t A)) = admins_table A"
  "admins_table (snd (StartAbilityByAdmin V ca el want A)) = admins_table A"
  "admins_table (snd (ReportAgInstallStatus V ca b m status A)) = admins_table A"
  "admins_table (snd (UnloadInstallMarketAppsPlugin V ca A)) = admins_table A"
proof -
  show "admins_table (snd (EnableSelfDeviceAdmin V ca el credential A)) = admins_table A"
    by (simp add: EnableSelfDeviceAdmin_def SendAdminNotification_def service_unfold ability_simps)
  show "admins_table (snd (SetBundleInstallPolicies V ca bs u t A)) = admins_table A"
    by (simp add: SetBundleInstallPolicies_def ability_simps)
  show "admins_table (snd (StartAbilityByAdmin V ca el want A)) = admins_table A"
    by (simp add: StartAbilityByAdmin_def Controller_StartAbility_def UI_StartAbility_def AppService_StartAbility_def
        service_unfold ability_simps split: option.split ability_controller.split)
  show "admins_table (snd (ReportAgInstallStatus V ca b m status A)) = admins_table A"
    by (simp add: ReportAgInstallStatus_def tell_admin_def service_unfold ability_simps fold_same [where f = abAdmins])
  show "admins_table (snd (UnloadInstallMarketAppsPlugin V ca A)) = admins_table A"
    by (simp add: UnloadInstallMarketAppsPlugin_def ability_simps)
qed

subsection \<open>Events and the start of system abilities\<close>

lemma fold_run: "(\<And>x A. table_run G (admins_table A) (admins_table (g x A))) \<Longrightarrow> table_run G (admins_table A) (admins_table (fold g xs A))"
  by (induction xs arbitrary: A) (auto intro: run_refl run_trans)

lemma connections_same [ability_simps]:
  "abAdmins (connect_switched V u a A) = abAdmins A"
  "abAdmins (connect_once V u a A) = abAdmins A"
  "abAdmins (tell_admin V u cb a A) = abAdmins A"
  "abAdmins (relay_event V n cls u e d A) = abAdmins A"
  by (simp_all add: connect_switched_def connect_once_def tell_admin_def relay_event_def service_unfold ability_simps split: option.split)

lemma ConnectEnterprise_same [ability_simps]: "abAdmins (ConnectEnterpriseAbility V ca A) = abAdmins A"
  by (simp add: ConnectEnterpriseAbility_def Let_def fold_same [where f = abAdmins] ability_simps)

lemma remove_of_user_run: "table_run G (admins_table A) (admins_table (remove_of_user V ca u a A))"
  by (simp add: remove_of_user_def removes_run [OF Remove_removes])

lemma OnCommonEventUserRemoved_run: "table_run G (admins_table A) (admins_table (OnCommonEventUserRemoved V ca u A))"
proof -
  have 1: "table_run G (admins_table A) (admins_table (fold (remove_of_user V ca u) xs A))" for xs A
    by (rule fold_run) (rule remove_of_user_run)
  have 2: "table_run G (admins_table A) (admins_table (fold (\<lambda>a A. if IsAllowedAcrossAccountSetPolicy a
      then remove_of_user V ca u a A else A) xs A))" for xs A
    by (rule fold_run) (simp add: remove_of_user_run run_refl)
  show ?thesis
    by (auto simp: OnCommonEventUserRemoved_def Let_def ability_simps intro!: run_refl run_trans [OF 1 2])
qed

lemma package_removed_removes: "removes (admins_table A) (admins_table (package_removed V ca b u a A))"
  by (auto simp: package_removed_def RemoveSubSuperAdminAndAdminPolicy_def Let_def ability_simps
      intro!: removes_refl removes_trans [OF _ Super_removes] removes_trans [OF _ SubOrSuper_removes] removes_trans [OF _ Remove_removes])

lemma package_events_run:
  "table_run G (admins_table A) (admins_table (OnCommonEventPackageRemoved V ca b u n A))"
  "table_run G (admins_table A) (admins_table (OnCommonEventPackageChanged V ca b u A))"
  by (auto simp: OnCommonEventPackageRemoved_def OnCommonEventPackageChanged_def service_unfold ability_simps
      intro: run_refl removes_run [OF package_removed_removes] UpdateAdminPermission_run split: option.split)

lemma install_market_apps_same: "admins_table (install_market_apps V ca items A) = admins_table A"
  by (simp add: install_market_apps_def device_policy_same split: option.split)

lemma service_handler_run: "table_run G (admins_table A) (admins_table (service_handler V ca h d x A))"
  by (cases h)
    (simp_all add: service_handler_def OnCommonEventUserSwitched_def UpdateNetworkAccessPolicy_def OnCommonEventUserRemoved_run
      package_events_run UpdateMarketAppsState_def install_market_apps_same OnCommonEventBmsReady_def OnCommonEventKioskMode_def
      OnCommonEventSimStateChanged_def Let_def ability_simps fold_same [where f = abAdmins] run_refl)

lemma on_plugins_plain_same [ability_simps]: "admins_table (on_plugins_plain f A) = admins_table A"
  by (simp add: on_plugins_plain_def ability_simps)

lemma OnEventDispatch_same: "admins_table (OnEventDispatch V e d A) = admins_table A"
  by (simp add: OnEventDispatch_def fold_same [where f = admins_table] ability_simps)

lemma run_callback_run: "table_run G (admins_table A) (admins_table (run_callback V ca d x cb A))"
  by (cases cb) (simp_all add: run_callback_def service_handler_run OnEventDispatch_same ability_simps run_refl)

lemma HandleEvent_run: "table_run G (admins_table A) (admins_table (HandleEvent V ca d x A))"
  unfolding HandleEvent_def by (rule fold_run) (rule run_callback_run)

lemma read_policy_same [ability_simps]: "admins_table (snd (read_policy V a n A)) = admins_table A"
  by (simp add: read_policy_def ability_simps)

lemma start_same [ability_simps]:
  "admins_table (start_codes V codes i A) = admins_table A"
  "admins_table (OnHandleInitExecute V ca code A) = admins_table A"
  "admins_table (OtherServiceStart V code i A) = admins_table A"
  "admins_table (CallOnOtherServiceStartForWatermark V code A) = admins_table A"
  by (simp_all add: start_codes_def OnHandleInitExecute_def OtherServiceStart_def CallOnOtherServiceStartForWatermark_def
      service_unfold ability_simps fold_same [where f = admins_table])

lemma OnAddSystemAbility_same: "admins_table (OnAddSystemAbility V ca ag ids sa A) = admins_table A"
proof -
  have "admins_table (RestorePluginSubscriptions V B) = admins_table B" for B
    by (auto simp: RestorePluginSubscriptions_def service_unfold ability_simps intro!: fold_same [where f = admins_table])
  then show ?thesis
    by (cases sa) (simp_all add: OnAddSystemAbility_def OnAddSystemAbilitySecond_def Ability_OnAppManagerServiceStart_def
        OnAbilityManagerServiceStart_def Ability_OnCommonEventServiceStart_def OnDistributedKvDataServiceStart_def
        Let_def ability_simps)
qed

subsection \<open>The service as a machine\<close>

datatype ability_op =
    OpEnableAdmin element_name ent_info admin_type user_id enable_source
  | OpEnableAdminSelf element_name ent_info admin_type user_id bool enable_source
  | OpEnableDeviceAdmin element_name
  | OpDisableAdmin element_name user_id
  | OpDisableSuperAdmin string
  | OpDisableDeviceAdmin element_name
  | OpReplaceSuperAdmin element_name element_name bool
  | OpSetEnterpriseInfo element_name ent_info
  | OpSetAdminRunningMode element_name u32
  | OpSubscribeManagedEvent element_name "u32 list"
  | OpUnsubscribeManagedEvent element_name "u32 list"
  | OpAuthorizeAdmin element_name string
  | OpSetDelegatedPolicies element_name string "string list"
  | OpSetDelegatedPoliciesForUser string "string list" user_id
  | OpHandleDevicePolicy u32 element_name user_id
  | OpHandleDevicePolicyNew u32 user_id
  | OpGetDevicePolicy u32 user_id string
  | OpGetDevicePolicyNew u32 user_id int
  | OpEnableSelfDeviceAdmin element_name string
  | OpSetBundleInstallPolicies "string list" user_id int
  | OpStartAbilityByAdmin element_name element_name
  | OpReportAgInstallStatus string string int
  | OpUnloadInstallMarketAppsPlugin
  | OpEvent event_data service_params
  | OpUnmountStorage event_data service_params storage_device
  | OpAddSystemAbility "string list" "system_ability \<Rightarrow> int" system_ability
  | OpStop

fun ability_step :: "('s, 'w) service \<Rightarrow> caller \<times> ability_op \<Rightarrow> ('s, 'w) ability \<Rightarrow> ('s, 'w) ability" where
  "ability_step V (ca, OpEnableAdmin el ent t u src) A = snd (EnableAdmin V ca el ent t u src A)"
| "ability_step V (ca, OpEnableAdminSelf el ent t u self src) A = snd (EnableAdminSelf V ca el ent t u self src A)"
| "ability_step V (ca, OpEnableDeviceAdmin el) A = snd (EnableDeviceAdmin V ca el A)"
| "ability_step V (ca, OpDisableAdmin el u) A = snd (DisableAdmin V ca el u A)"
| "ability_step V (ca, OpDisableSuperAdmin b) A = snd (DisableSuperAdmin V ca b A)"
| "ability_step V (ca, OpDisableDeviceAdmin el) A = snd (DisableDeviceAdmin V ca el A)"
| "ability_step V (ca, OpReplaceSuperAdmin old new keep) A = snd (ReplaceSuperAdmin V ca old new keep A)"
| "ability_step V (ca, OpSetEnterpriseInfo el ent) A = snd (SetEnterpriseInfo V ca el ent A)"
| "ability_step V (ca, OpSetAdminRunningMode el mode) A = snd (SetAdminRunningMode V ca el mode A)"
| "ability_step V (ca, OpSubscribeManagedEvent el es) A = snd (SubscribeManagedEvent V ca el es A)"
| "ability_step V (ca, OpUnsubscribeManagedEvent el es) A = snd (UnsubscribeManagedEvent V ca el es A)"
| "ability_step V (ca, OpAuthorizeAdmin el b) A = snd (AuthorizeAdmin V ca el b A)"
| "ability_step V (ca, OpSetDelegatedPolicies el b ps) A = snd (SetDelegatedPolicies V ca el b ps A)"
| "ability_step V (ca, OpSetDelegatedPoliciesForUser b ps u) A = snd (SetDelegatedPoliciesForUser V ca b ps u A)"
| "ability_step V (ca, OpHandleDevicePolicy code el u) A = snd (HandleDevicePolicy V ca code el u A)"
| "ability_step V (ca, OpHandleDevicePolicyNew code u) A = snd (HandleDevicePolicyNew V ca code u A)"
| "ability_step V (ca, OpGetDevicePolicy code u tag) A = snd (GetDevicePolicyFromPlugin V ca code u tag A)"
| "ability_step V (ca, OpGetDevicePolicyNew code u q) A = snd (GetDevicePolicyFromPluginNew V ca code u q A)"
| "ability_step V (ca, OpEnableSelfDeviceAdmin el c) A = snd (EnableSelfDeviceAdmin V ca el c A)"
| "ability_step V (ca, OpSetBundleInstallPolicies bs u t) A = snd (SetBundleInstallPolicies V ca bs u t A)"
| "ability_step V (ca, OpStartAbilityByAdmin el want) A = snd (StartAbilityByAdmin V ca el want A)"
| "ability_step V (ca, OpReportAgInstallStatus b m n) A = snd (ReportAgInstallStatus V ca b m n A)"
| "ability_step V (ca, OpUnloadInstallMarketAppsPlugin) A = snd (UnloadInstallMarketAppsPlugin V ca A)"
| "ability_step V (ca, OpEvent d x) A = HandleEvent V ca d x A"
| "ability_step V (ca, OpUnmountStorage d x info) A = snd (NotifyUnmountExternalStorageDeviceInfo V ca d x info A)"
| "ability_step V (ca, OpAddSystemAbility ag ids sa) A = OnAddSystemAbility V ca ag ids sa A"
| "ability_step V (ca, OpStop) A = Ability_OnStop A"

definition ability_run :: "('s, 'w) service \<Rightarrow> (caller \<times> ability_op) list \<Rightarrow> ('s, 'w) ability \<Rightarrow> ('s, 'w) ability" where
  "ability_run V ops A = fold (ability_step V) ops A"

definition delegates_for_user :: "caller \<times> ability_op \<Rightarrow> bool" where
  "delegates_for_user r = (case snd r of OpSetDelegatedPoliciesForUser _ _ _ \<Rightarrow> True | _ \<Rightarrow> False)"

lemma ability_step_run:
  assumes ok: "admission_ok strict (admins_table A)" and V: "extensions_named V" and s: "strict \<longrightarrow> \<not> delegates_for_user r"
  shows "table_run (admitted strict) (admins_table A) (admins_table (ability_step V r A))"
proof (cases r)
  case (Pair ca c)
  have "strict = False" if "delegates_for_user r" using s that by simp
  then show ?thesis
    using Pair
    by (cases c)
      (simp_all add: EnableAdmin_runs [OF ok V] EnableDeviceAdmin_run [OF ok] removes_run [OF disabling_removes(1)]
        removes_run [OF disabling_removes(3)] removes_run [OF disabling_removes(4)] ReplaceSuperAdmin_run [OF ok V]
        SetEnterpriseInfo_run SetAdminRunningMode_run [OF ok] managed_events_run AuthorizeAdmin_run [OF ok]
        SetDelegatedPolicies_run [OF ok] SetDelegatedPoliciesForUser_run delegates_for_user_def device_policy_same other_requests_same
        HandleEvent_run NotifyUnmountExternalStorageDeviceInfo_def OnAddSystemAbility_same Ability_OnStop_def run_refl)
qed

lemma ability_run_ok:
  assumes "extensions_named V" "admission_ok strict (admins_table A)" "strict \<longrightarrow> \<not> list_ex delegates_for_user ops"
  shows "admission_ok strict (admins_table (ability_run V ops A))"
  using assms(2,3)
  by (induction ops arbitrary: A) (auto simp: ability_run_def intro!: run_admission_ok [OF ability_step_run] assms(1))

lemma admission_ok_empty: "admission_ok strict []"
  by (simp add: admission_ok_def homes_ok_def counted_admins_def official_admins_def one_kind_def admins_of_def)

end
