(* ===== verification/Ability_Disabling.thy ===== *)
theory Ability_Disabling
  imports Ability_Steps
begin

text \<open>
  What is left of an administrator that the service has disabled: no record, no subscribed event, no timer, and no
  subordinate of a super administrator.
\<close>

unbundle bit_operations_syntax

subsection \<open>Calls that leave administrators, timers and events alone\<close>

definition core :: "('s, 'w) ability \<Rightarrow> container \<times> timer_mgr \<times> event_state" where
  "core A = (admins_table A, abTimers A, abEvents A)"

lemma core_same [ability_simps]:
  "core (perform V c A) = core A" "core (snd (request V c A)) = core A" "core (snd (on_conns f A)) = core A"
  "core (snd (on_plugins g A)) = core A" "core (snd (on_policies h A)) = core A" "core (snd (on_plugin_tables k A)) = core A"
  using request_same [of V c A, OF prod.collapse [symmetric]] by (simp_all add: core_def ability_simps)

lemma notify_core [ability_simps]:
  "core (snd (Ability_OnAdminEnabled V b n k u A)) = core A"
  "core (snd (OnDeviceAdminEnabled V i k u b A)) = core A"
  "core (NotifyAdminEnabled V x A) = core A"
  "core (announce_no_admin V A) = core A"
  by (simp_all add: Ability_OnAdminEnabled_def OnDeviceAdminEnabled_def NotifyAdminEnabled_def announce_no_admin_def ability_simps)

lemma uninstall_core [ability_simps]:
  "core (snd (DelDisallowUninstallAppForAccount V b u A)) = core A"
  "core (snd (DelDisallowUninstallApp V ca b A)) = core A"
proof -
  have one: "core (snd (DelDisallowUninstallAppForAccount V b u A)) = core A" for u A
    by (simp add: DelDisallowUninstallAppForAccount_def service_unfold ability_simps)
  then show "core (snd (DelDisallowUninstallAppForAccount V b u A)) = core A" .
  show "core (snd (DelDisallowUninstallApp V ca b A)) = core A"
    by (simp add: DelDisallowUninstallApp_def service_unfold ability_simps one fold_same [where f = core])
qed

lemma core_let: "core x = K \<Longrightarrow> (\<And>B. core B = K \<Longrightarrow> ends_in (\<lambda>C. core C = K) (f B)) \<Longrightarrow> ends_in (\<lambda>C. core C = K) (let B = x in f B)"
  by simp

lemma core_option: "(\<And>y. core (f y) = K) \<Longrightarrow> core B = K \<Longrightarrow> core (case x of None \<Rightarrow> B | Some y \<Rightarrow> f y) = K"
  by (cases x) simp_all

lemma core_if: "core x = K \<Longrightarrow> core y = K \<Longrightarrow> core (if b then x else y) = K"
  by simp

lemma DoDisable_core: "core (snd (DoDisableAdmin V ca a u t A)) = core (snd (remove_records V ca a u t A))"
proof -
  obtain r B where B: "remove_records V ca a u t A = (r, B)" by (rule prod.exhaust)
  have "ends_in (\<lambda>C. core C = core B) (DoDisableAdmin V ca a u t A)"
    unfolding DoDisableAdmin_def B Let_def [of "(r, B)"] Let_def [of "packageName (adminInfo a)"] prod.case
    by (intro ends_if core_let ends_pair core_option core_if | simp only: ability_simps)+
  then show ?thesis by (simp add: ends_in_def B)
qed

lemma DoDisable_succeeds:
  "fst (remove_records V ca a u t A) = ERR_OK \<Longrightarrow> fst (DoDisableAdmin V ca a u t A) = ERR_OK"
  by (simp add: DoDisableAdmin_def service_unfold)

subsection \<open>Nothing left\<close>

definition no_timers :: "string \<Rightarrow> timer_mgr \<Rightarrow> bool" where
  "no_timers p t = (\<forall>i e. (i, e) \<in> set (timerMap t) \<longrightarrow> timerAdmin e \<noteq> p)"

definition no_events :: "string \<Rightarrow> user_id \<Rightarrow> event_state \<Rightarrow> bool" where
  "no_events p u E = (\<forall>e. \<not> admin_subscribed E p u e)"

definition cleared :: "bool \<Rightarrow> string \<Rightarrow> user_id \<Rightarrow> ('s, 'w) ability \<Rightarrow> bool" where
  "cleared pc p u A = (gone p u (admins_table A) \<and> no_events p u (abEvents A) \<and> (\<not> pc \<longrightarrow> no_timers p (abTimers A)))"

lemma cleared_core: "core B = core A \<Longrightarrow> cleared pc p u B = cleared pc p u A"
  by (simp add: cleared_def core_def)

lemma timers_removed: "no_timers q (abTimers (snd (on_timers (\<lambda>s. ((), Timers_OnAdminRemove S p s)) A))) \<longleftrightarrow>
    q = p \<or> no_timers q (abTimers A)"
proof -
  have "timerMap (abTimers (snd (on_timers (\<lambda>s. ((), Timers_OnAdminRemove S p s)) A)))
      = filter (\<lambda>(_, e). timerAdmin e \<noteq> p) (timerMap (abTimers A))"
    using AdminRemove_map [of S p "abTimers A" "abWorld A"] by (simp add: on_timers_def split_beta)
  then show ?thesis by (auto simp: no_timers_def)
qed

lemma RemoveAdmin_effect:
  assumes "routing_ok (abEvents A)"
  shows "routing_ok (abEvents (snd (RemoveAdmin V ca p u t A)))"
    "no_events q v (abEvents A) \<Longrightarrow> no_events q v (abEvents (snd (RemoveAdmin V ca p u t A)))"
    "fst (RemoveAdmin V ca p u t A) = ERR_OK \<Longrightarrow> no_events p u (abEvents (snd (RemoveAdmin V ca p u t A)))"
    "abTimers (snd (RemoveAdmin V ca p u t A)) = abTimers A"
proof -
  have ev: "abEvents (on_events (\<lambda>(e, w). (f e, w)) B) = f (abEvents B)" for f and B :: "('s, 'w) ability"
    by (simp add: on_events_def)
  show "routing_ok (abEvents (snd (RemoveAdmin V ca p u t A)))"
    "no_events q v (abEvents A) \<Longrightarrow> no_events q v (abEvents (snd (RemoveAdmin V ca p u t A)))"
    "fst (RemoveAdmin V ca p u t A) = ERR_OK \<Longrightarrow> no_events p u (abEvents (snd (RemoveAdmin V ca p u t A)))"
    "abTimers (snd (RemoveAdmin V ca p u t A)) = abTimers A"
    using assms by (auto simp: RemoveAdmin_def service_unfold ability_simps ev OnAdminRemoved_result no_events_def split: if_splits)
qed

lemma Remove_effect:
  assumes r: "routing_ok (abEvents A)"
  shows "routing_ok (abEvents (snd (RemoveAdminAndAdminPolicy V ca p u t A)))"
    "cleared (sv_pc_only V) q v A \<Longrightarrow> cleared (sv_pc_only V) q v (snd (RemoveAdminAndAdminPolicy V ca p u t A))"
    "fst (RemoveAdminAndAdminPolicy V ca p u t A) = ERR_OK \<Longrightarrow> cleared (sv_pc_only V) p u (snd (RemoveAdminAndAdminPolicy V ca p u t A))"
proof -
  let ?A1 = "if sv_pc_only V then A else snd (on_timers (\<lambda>s. ((), Timers_OnAdminRemove (sv_time V) p s)) A)"
  let ?A2 = "snd (RemoveAdminPolicy V p u ?A1)"
  let ?B = "snd (RemoveAdminAndAdminPolicy V ca p u t A)"
  have ev: "abEvents ?A2 = abEvents A" and tm: "abTimers ?A2 = abTimers ?A1" by (simp_all add: ability_simps)
  have timers: "\<not> sv_pc_only V \<Longrightarrow> no_timers q (abTimers ?A2) \<longleftrightarrow> q = p \<or> no_timers q (abTimers A)" for q
    unfolding tm by (simp add: timers_removed)
  have B: "?B = ?A2 \<and> FAILED (fst (RemoveAdminAndAdminPolicy V ca p u t A)) \<or> ?B = snd (RemoveAdmin V ca p u t ?A2)
      \<and> (fst (RemoveAdminAndAdminPolicy V ca p u t A) = ERR_OK \<longrightarrow> fst (RemoveAdmin V ca p u t ?A2) = ERR_OK)"
    unfolding RemoveAdminAndAdminPolicy_def Let_def split_beta by auto
  note eff = RemoveAdmin_effect [where A = ?A2 and V = V and ca = ca and p = p and u = u and t = t, unfolded ev, OF r]
  have evs: "routing_ok (abEvents ?B)" "no_events q v (abEvents A) \<Longrightarrow> no_events q v (abEvents ?B)"
    "abTimers ?B = abTimers ?A2" for q v
    using B eff(1,2,4) ev r by (metis, metis, metis)
  show "routing_ok (abEvents ?B)" by (rule evs(1))
  show "cleared (sv_pc_only V) q v ?B" if "cleared (sv_pc_only V) q v A"
    using that evs timers by (auto simp: cleared_def intro: removes_gone [OF Remove_removes])
  show "cleared (sv_pc_only V) p u ?B" if ok: "fst (RemoveAdminAndAdminPolicy V ca p u t A) = ERR_OK"
  proof -
    have "no_events p u (abEvents ?B)" using B eff(3) ok by auto
    then show ?thesis using Remove_gone [OF ok] evs(3) timers by (auto simp: cleared_def)
  qed
qed

text \<open>One removal after the other: what is cleared stays so.\<close>

lemma SubOrSuper_effect:
  assumes "routing_ok (abEvents A)"
  shows "routing_ok (abEvents (snd (RemoveSubOrSuperAdminAndAdminPolicy V ca p us t A)))
    \<and> (cleared (sv_pc_only V) q v A \<longrightarrow> cleared (sv_pc_only V) q v (snd (RemoveSubOrSuperAdminAndAdminPolicy V ca p us t A)))
    \<and> (fst (RemoveSubOrSuperAdminAndAdminPolicy V ca p us t A) = ERR_OK
        \<longrightarrow> cleared (sv_pc_only V) p DEFAULT_USER_ID (snd (RemoveSubOrSuperAdminAndAdminPolicy V ca p us t A)))"
  using assms by (induction us arbitrary: A) (auto simp: service_unfold Remove_effect)

lemma subs_effect:
  assumes "routing_ok (abEvents A)"
  shows "routing_ok (abEvents (snd (remove_subs V ca subs us A)))
    \<and> (cleared (sv_pc_only V) q v A \<longrightarrow> cleared (sv_pc_only V) q v (snd (remove_subs V ca subs us A)))
    \<and> (fst (remove_subs V ca subs us A) = ERR_OK
        \<longrightarrow> (\<forall>p \<in> set subs. cleared (sv_pc_only V) p DEFAULT_USER_ID (snd (remove_subs V ca subs us A))))"
  using assms
proof (induction subs arbitrary: A q v)
  case (Cons p subs)
  let ?B = "snd (RemoveSubOrSuperAdminAndAdminPolicy V ca p us SUB_SUPER_ADMIN A)"
  note one = SubOrSuper_effect [OF Cons.prems, of V ca p us SUB_SUPER_ADMIN]
  note rest = Cons.IH [of ?B]
  show ?case
    using one [of q v] rest [of q v] rest [of p DEFAULT_USER_ID] by (auto simp: service_unfold)
qed simp

lemma subs_named: "q \<in> set (snd (GetSubSuperAdminsByParentName p c)) \<longleftrightarrow>
    (\<exists>a \<in> set (snd (GetAdminByUserId DEFAULT_USER_ID c)). packageName (adminInfo a) = q \<and> GetParentAdminName a = p
      \<and> (GetAdminType a = SUB_SUPER_ADMIN \<or> GetAdminType a = VIRTUAL_ADMIN))"
  using visible_none [of DEFAULT_USER_ID c]
  by (auto simp: GetSubSuperAdminsByParentName_def GetAdminCopy_pair)

lemma Super_effect:
  assumes "routing_ok (abEvents A)" "fst (RemoveSuperAdminAndAdminPolicy V ca p A) = ERR_OK"
    "q = p \<or> q \<in> set (snd (GetSubSuperAdminsByParentName p (admins_table A)))"
  shows "cleared (sv_pc_only V) q DEFAULT_USER_ID (snd (RemoveSuperAdminAndAdminPolicy V ca p A))"
proof -
  let ?us = "GetPolicyUserIds [] (abPolicies A)" and ?subs = "snd (GetSubSuperAdminsByParentName p (admins_table A))"
  let ?B = "snd (remove_subs V ca ?subs ?us A)"
  have ok: "fst (remove_subs V ca ?subs ?us A) = ERR_OK" "fst (RemoveSubOrSuperAdminAndAdminPolicy V ca p ?us ENT ?B) = ERR_OK"
    "snd (RemoveSuperAdminAndAdminPolicy V ca p A) = snd (RemoveSubOrSuperAdminAndAdminPolicy V ca p ?us ENT ?B)"
    using assms(2) by (auto simp: RemoveSuperAdminAndAdminPolicy_def service_unfold split: if_splits)
  have "routing_ok (abEvents ?B)" "q \<in> set ?subs \<Longrightarrow> cleared (sv_pc_only V) q DEFAULT_USER_ID ?B"
    using subs_effect [OF assms(1), of V ca ?subs ?us q DEFAULT_USER_ID] ok(1) by auto
  then show ?thesis
    using SubOrSuper_effect [of ?B V ca p ?us ENT q DEFAULT_USER_ID] ok(2,3) assms(3) by auto
qed

lemma remove_records_cleared:
  assumes r: "routing_ok (abEvents A)" and ok: "fst (remove_records V ca a u t A) = ERR_OK"
    and u: "IsAllowedAcrossAccountSetPolicy a \<longrightarrow> u = DEFAULT_USER_ID" and wf: "admin_wf a"
  shows "cleared (sv_pc_only V) (packageName (adminInfo a)) u (snd (remove_records V ca a u t A))"
    "Admin_IsSuperAdmin a \<Longrightarrow> q \<in> set (snd (GetSubSuperAdminsByParentName (packageName (adminInfo a)) (admins_table A)))
      \<Longrightarrow> cleared (sv_pc_only V) q DEFAULT_USER_ID (snd (remove_records V ca a u t A))"
proof -
  have across: "Admin_IsSuperAdmin a \<Longrightarrow> IsAllowedAcrossAccountSetPolicy a"
    using across_account_iff [OF wf] by (simp add: Admin_IsSuperAdmin_def)
  let ?B = "snd (remove_records V ca a u t A)" and ?p = "packageName (adminInfo a)"
  consider (super) "Admin_IsSuperAdmin a" "u = DEFAULT_USER_ID" "?B = snd (RemoveSuperAdminAndAdminPolicy V ca ?p A)"
      "fst (RemoveSuperAdminAndAdminPolicy V ca ?p A) = ERR_OK"
    | (shared) "\<not> Admin_IsSuperAdmin a" "u = DEFAULT_USER_ID" "?B = snd (RemoveSubSuperAdminAndAdminPolicy V ca ?p t A)"
      "fst (RemoveSubSuperAdminAndAdminPolicy V ca ?p t A) = ERR_OK"
    | (own) "\<not> Admin_IsSuperAdmin a" "?B = snd (RemoveAdminAndAdminPolicy V ca ?p u t A)"
      "fst (RemoveAdminAndAdminPolicy V ca ?p u t A) = ERR_OK"
    using ok u across by (auto simp: remove_records_def service_unfold split: if_splits)
  then show "cleared (sv_pc_only V) ?p u ?B"
    by cases (use r in \<open>auto simp: Super_effect Remove_effect RemoveSubSuperAdminAndAdminPolicy_def SubOrSuper_effect\<close>)
  show "cleared (sv_pc_only V) q DEFAULT_USER_ID ?B"
    if "Admin_IsSuperAdmin a" "q \<in> set (snd (GetSubSuperAdminsByParentName ?p (admins_table A)))"
    using \<open>Admin_IsSuperAdmin a\<close> across ok Super_effect [OF r _ disjI2 [OF that(2)]] by (auto simp: remove_records_def service_unfold split: if_splits)
qed

subsection \<open>The others\<close>

definition kept :: "string \<Rightarrow> ('s, 'w) ability \<Rightarrow> ('s, 'w) ability \<Rightarrow> bool" where
  "kept q A B = (\<forall>w. filter (\<lambda>a. packageName (adminInfo a) = q) (admins_of (admins_table B) w)
     = filter (\<lambda>a. packageName (adminInfo a) = q) (admins_of (admins_table A) w))"

lemma kept_refl: "kept q A A"
  by (simp add: kept_def)

lemma kept_trans: "kept q A B \<Longrightarrow> kept q B C \<Longrightarrow> kept q A C"
  by (simp add: kept_def)

lemma kept_same: "admins_table B = admins_table A \<Longrightarrow> kept q A B"
  by (simp add: kept_def)

lemma RemoveAdmin_kept:
  assumes "q \<noteq> p"
  shows "kept q A (snd (RemoveAdmin V ca p u t A))"
proof -
  have "filter (\<lambda>a. packageName (adminInfo a) = q) (filter (\<lambda>a. packageName (adminInfo a) \<noteq> p) as)
      = filter (\<lambda>a. packageName (adminInfo a) = q) as" for as
    using assms by (induction as) auto
  then show ?thesis
    by (auto simp: kept_def RemoveAdmin_def service_unfold ability_simps Mgr_DeleteAdmin_def notify_def admins_of_DeleteAdmin)
qed

lemma Remove_kept: "q \<noteq> p \<Longrightarrow> kept q A (snd (RemoveAdminAndAdminPolicy V ca p u t A))"
  by (auto simp: RemoveAdminAndAdminPolicy_def service_unfold ability_simps
      intro: kept_same kept_trans [OF kept_same RemoveAdmin_kept])

lemma SubOrSuper_kept: "q \<noteq> p \<Longrightarrow> kept q A (snd (RemoveSubOrSuperAdminAndAdminPolicy V ca p us t A))"
  by (induction us arbitrary: A) (auto simp: service_unfold Remove_kept intro: kept_trans [OF Remove_kept])

lemma subs_kept: "q \<notin> set subs \<Longrightarrow> kept q A (snd (remove_subs V ca subs us A))"
  by (induction subs arbitrary: A) (auto simp: service_unfold kept_refl SubOrSuper_kept intro: kept_trans [OF SubOrSuper_kept])

lemma Super_kept:
  "q \<noteq> p \<Longrightarrow> q \<notin> set (snd (GetSubSuperAdminsByParentName p (admins_table A))) \<Longrightarrow> kept q A (snd (RemoveSuperAdminAndAdminPolicy V ca p A))"
  by (auto simp: RemoveSuperAdminAndAdminPolicy_def service_unfold subs_kept intro: kept_trans [OF subs_kept SubOrSuper_kept])

lemma remove_records_kept:
  assumes "q \<noteq> packageName (adminInfo a)" "admin_wf a"
    "Admin_IsSuperAdmin a \<longrightarrow> q \<notin> set (snd (GetSubSuperAdminsByParentName (packageName (adminInfo a)) (admins_table A)))"
  shows "kept q A (snd (remove_records V ca a u t A))"
  using assms(1,3) across_account_iff [OF assms(2)]
  by (auto simp: remove_records_def service_unfold Admin_IsSuperAdmin_def RemoveSubSuperAdminAndAdminPolicy_def
      kept_refl Super_kept SubOrSuper_kept Remove_kept)

lemma kept_core: "core B = core C \<Longrightarrow> kept q A B = kept q A C"
  by (simp add: kept_def core_def)

subsection \<open>Removing a user\<close>

lemma table_run_wf: "table_run G c d \<Longrightarrow> container_wf c \<Longrightarrow> container_wf d"
  by (induction rule: table_run.induct) (auto intro: container_wf_intros)

lemma remove_of_user_effect:
  "no_timers q (abTimers (remove_of_user V ca u a A)) \<longleftrightarrow> no_timers q (abTimers A) \<or> \<not> sv_pc_only V \<and> q = packageName (adminInfo a)"
  "v \<noteq> u \<Longrightarrow> admins_of (admins_table (remove_of_user V ca u a A)) v = admins_of (admins_table A) v"
proof -
  let ?p = "packageName (adminInfo a)" and ?t = "adminType (adminInfo a)"
  let ?A1 = "if sv_pc_only V then A else snd (on_timers (\<lambda>s. ((), Timers_OnAdminRemove (sv_time V) ?p s)) A)"
  let ?A2 = "snd (RemoveAdminPolicy V ?p u ?A1)"
  have B: "remove_of_user V ca u a A = ?A2 \<or> remove_of_user V ca u a A = snd (RemoveAdmin V ca ?p u ?t ?A2)"
    unfolding remove_of_user_def RemoveAdminAndAdminPolicy_def Let_def split_beta by auto
  have "abTimers (remove_of_user V ca u a A) = abTimers ?A1"
    using B by (elim disjE) (simp_all add: RemoveAdmin_def service_unfold ability_simps)
  then show "no_timers q (abTimers (remove_of_user V ca u a A)) \<longleftrightarrow> no_timers q (abTimers A) \<or> \<not> sv_pc_only V \<and> q = ?p"
    by (simp add: timers_removed disj_commute)
  show "admins_of (admins_table (remove_of_user V ca u a A)) v = admins_of (admins_table A) v" if "v \<noteq> u"
    using B that by (elim disjE) (auto simp: RemoveAdmin_def Mgr_DeleteAdmin_def notify_def admins_of_DeleteAdmin service_unfold ability_simps)
qed

lemma remove_of_users_effect:
  assumes "v \<noteq> u" "f = (\<lambda>a A. if P a then remove_of_user V ca u a A else A)"
  shows "admins_of (admins_table (fold f as A)) v = admins_of (admins_table A) v"
    "a \<in> set as \<Longrightarrow> P a \<Longrightarrow> \<not> sv_pc_only V \<Longrightarrow> no_timers (packageName (adminInfo a)) (abTimers (fold f as A))"
proof -
  have keep: "no_timers q (abTimers A) \<Longrightarrow> no_timers q (abTimers (fold f as A))" for q as A
    by (induction as arbitrary: A) (auto simp: assms(2) remove_of_user_effect(1))
  show "admins_of (admins_table (fold f as A)) v = admins_of (admins_table A) v"
    by (induction as arbitrary: A) (auto simp: assms remove_of_user_effect(2))
  show "no_timers (packageName (adminInfo a)) (abTimers (fold f as A))" if "a \<in> set as" "P a" "\<not> sv_pc_only V"
    using that
  proof (induction as arbitrary: A)
    case (Cons b as)
    show ?case
    proof (cases "a = b")
      case True
      then have "no_timers (packageName (adminInfo a)) (abTimers (f b A))"
        using Cons.prems by (simp add: assms(2) remove_of_user_effect(1))
      from keep [OF this] show ?thesis by simp
    next
      case False
      then show ?thesis using Cons by simp
    qed
  qed simp
qed

text \<open>Removing another user takes the timers of every administrator that acts across accounts, although it stays.\<close>

lemma user_removal_destroys_timers:
  assumes "u \<noteq> DEFAULT_USER_ID" "u \<ge> 0" "\<not> sv_pc_only V" "container_wf (admins_table A)"
    "a \<in> set (snd (GetAdminByUserId DEFAULT_USER_ID (admins_table A)))" "IsAllowedAcrossAccountSetPolicy a"
  shows "let B = OnCommonEventUserRemoved V ca u A in a \<in> set (snd (GetAdminByUserId DEFAULT_USER_ID (admins_table B)))
    \<and> no_timers (packageName (adminInfo a)) (abTimers B)"
proof -
  let ?f = "\<lambda>a A. if IsAllowedAcrossAccountSetPolicy a then remove_of_user V ca u a A else A"
  let ?A1 = "fold (remove_of_user V ca u) (snd (GetAdminByUserId u (admins_table A))) A"
  let ?as = "snd (GetAdminByUserId DEFAULT_USER_ID (admins_table ?A1))"
  let ?A2 = "fold ?f ?as ?A1" and ?B = "OnCommonEventUserRemoved V ca u A"
  have B: "?B = (if sv_pc_only V \<and> sv_log_service V then perform V (DeleteSubUserLogDirIfNeed u) ?A2 else ?A2)"
    using assms(2) by (simp add: OnCommonEventUserRemoved_def Let_def)
  have d: "DEFAULT_USER_ID \<noteq> u" using assms(1) by simp
  have one: "admins_of (admins_table ?A1) DEFAULT_USER_ID = admins_of (admins_table A) DEFAULT_USER_ID"
    using remove_of_users_effect(1) [OF d, where P = "\<lambda>_. True" and f = "remove_of_user V ca u"] by simp
  have two: "admins_of (admins_table ?A2) DEFAULT_USER_ID = admins_of (admins_table ?A1) DEFAULT_USER_ID"
    by (rule remove_of_users_effect(1) [OF d refl])
  have wf1: "container_wf (admins_table ?A1)"
    by (rule table_run_wf [OF fold_run [OF remove_of_user_run [of "\<lambda>_ _ _. False"]] assms(4)])
  have wfB: "container_wf (admins_table ?B)"
    by (rule table_run_wf [OF OnCommonEventUserRemoved_run [of "\<lambda>_ _ _. False"] assms(4)])
  have vis: "snd (GetAdminByUserId DEFAULT_USER_ID c) = map copy_admin (admins_of c DEFAULT_USER_ID)" if "container_wf c" for c
    by (simp add: visible_eq visible_copies [OF that])
  have "snd (GetAdminByUserId DEFAULT_USER_ID (admins_table ?A1)) = snd (GetAdminByUserId DEFAULT_USER_ID (admins_table A))"
    by (simp only: vis [OF wf1] vis [OF assms(4)] one)
  moreover have "snd (GetAdminByUserId DEFAULT_USER_ID (admins_table ?B)) = snd (GetAdminByUserId DEFAULT_USER_ID (admins_table A))"
    by (simp only: vis [OF wfB] vis [OF assms(4)]) (simp add: B ability_simps two one)
  moreover have "no_timers (packageName (adminInfo a)) (abTimers ?A2)" if "a \<in> set ?as"
    by (rule remove_of_users_effect(2) [OF d refl that]) (use assms(3,6) in auto)
  ultimately show ?thesis using assms(5) by (simp add: Let_def B ability_simps)
qed

end
