(* ===== verification/Ability_Properties.thy ===== *)
theory Ability_Properties
  imports Ability_Disabling Switch_Policies Event_Properties Connection_Queues
begin

text \<open>
  What the service guarantees about administrators and policies whatever requests and events come, and a sample
  service on which the guarantees are tried.
\<close>

unbundle bit_operations_syntax

subsection \<open>A sample service\<close>

text \<open>Every call outside succeeds and changes nothing; every bundle has the extension that is asked for.\<close>

definition calm_platform :: "'w platform" where
  "calm_platform = \<lparr> pf_call = (\<lambda>_ w. (ERR_OK, w)), pf_GetParameter = (\<lambda>_ d _. d), pf_GetBoolParameter = (\<lambda>_ d _. d),
     pf_QueryExtensionAbilityInfos = (\<lambda>el _ _. Some [el]), pf_GetAppId = (\<lambda>b _ _. b), pf_GetBundleExtensions = (\<lambda>_ _ _. None),
     pf_QueryAbilityInfo = (\<lambda>_ _ _. None), pf_QueryDefaultExtensions = (\<lambda>_ _ _. None), pf_IsBundleInstalled = (\<lambda>_ _ _. True),
     pf_GetApplicationInfo = (\<lambda>_ _ _. APP_TYPE_ENTERPRISE_NORMAL), pf_IsSystemApp = (\<lambda>_ _ _. (ERR_OK, False)),
     pf_IsOsAccountExists = (\<lambda>_ _. True), pf_GetSettingsData = (\<lambda>_ _. None), pf_ReadString = (\<lambda>w. ([], w)),
     pf_ReadInt32 = (\<lambda>w. (None, w)), pf_ReadElement = (\<lambda>w. (None, w)), pf_WriteRequest = (\<lambda>_ w. w) \<rparr>"

definition calm_time :: "'w time_service" where
  "calm_time = \<lparr> ts_present = (\<lambda>_. False), ts_CreateTimer = (\<lambda>_ w. (0, w)), ts_CreateTimerV9 = (\<lambda>_ i w. (0, i, w)),
     ts_StartTimerV9 = (\<lambda>_ _ w. (0, w)), ts_StopTimerV9 = (\<lambda>_ w. (0, w)), ts_DestroyTimerV9 = (\<lambda>_ w. w),
     rm_AddDeathRecipient = (\<lambda>_ w. w), rm_RemoveDeathRecipient = (\<lambda>_ w. w), rm_IsObjectDead = (\<lambda>_ _. False),
     rm_SendTriggered = (\<lambda>_ _ w. w), pr_ReadInt32 = (\<lambda>w. (None, w)), pr_ReadBool = (\<lambda>w. (False, w)), pr_ReadUint64 = (\<lambda>w. (0, w)),
     pr_ReadString = (\<lambda>w. ([], w)), pr_ReadRemoteObject = (\<lambda>w. (None, w)), pr_WriteInt32 = (\<lambda>_ w. w), pr_WriteUint64 = (\<lambda>_ w. w) \<rparr>"

definition calm_extensions :: "'w extension_service" where
  "calm_extensions = \<lparr> ext_NowMs = (\<lambda>_. 0), ext_TimeoutRatio = (\<lambda>_. 1), ext_Connect = (\<lambda>_ _ _ _ w. (ERR_OK, w)),
     ext_Disconnect = (\<lambda>_ w. w), ext_IsObjectDead = (\<lambda>_ _. False), ext_WriteInterfaceToken = (\<lambda>_. True),
     ext_SendRequest = (\<lambda>_ _ _ w. (ERR_OK, w)) \<rparr>"

definition calm_sources :: "'w event_sources" where
  "calm_sources = \<lparr> ces_Subscribe = (\<lambda>_ _ _ w. (ERR_OK, w)), ces_Unsubscribe = (\<lambda>_ _ _ w. (ERR_OK, w)),
     app_RegisterObserver = (\<lambda>w. (0, w)), app_UnregisterObserver = (\<lambda>w. (0, w)) \<rparr>"

definition calm_service :: "(string \<Rightarrow> db_row list, bool list) service" where
  "calm_service = \<lparr> sv_rdb = reliable_rdb, sv_json = plain_cjson, sv_plugins = switch_env sudo_switches 0, sv_time = calm_time,
     sv_extensions = calm_extensions, sv_sources = calm_sources, sv_platform = calm_platform, sv_pc_only = False, sv_log_service = False \<rparr>"

definition calm_ability :: "bool list \<Rightarrow> (string \<Rightarrow> db_row list, bool list) ability" where
  "calm_ability w = \<lparr> abAdmins = mgr0 (\<lambda>_. []), abPlugins = PluginManager, abPolicies = policy_mgr0, abTimers = timers0,
     abEvents = event_state0, abConns = conn_mgr0, abWorld = w, abObserved = True, adminConnectMap = [], isNeedRemoveSettingsMenu = False \<rparr>"

text \<open>The settings application, which may manage administrators, and an application of the user.\<close>

definition settings_app :: caller where
  "settings_app = \<lparr> callingUid = 1000, callingTokenType = TOKEN_HAP, systemAppToken = True, developerMode = False,
     granted = (\<lambda>p. p = PERMISSION_MANAGE_ENTERPRISE_DEVICE_ADMIN), nameForUid = (\<lambda>u. if u = 1000 then Some ''settings'' else None),
     hapBundleName = Some ''settings'', activeOsAccounts = Some [100], requestedPermissions = (\<lambda>_ _. Some []) \<rparr>"

lemma calm_named: "extensions_named calm_service"
  by (simp add: extensions_named_def calm_service_def calm_platform_def)

definition no_info :: ent_info where
  "no_info = \<lparr> enterpriseName = [], description = [] \<rparr>"

definition sample_ops :: "(caller \<times> ability_op) list" where
  "sample_ops = [
     (settings_app, OpEnableAdmin \<lparr> elBundle = ''com.a'', elAbility = ''A'' \<rparr> no_info ENT 100 0),
     (settings_app, OpEnableAdmin \<lparr> elBundle = ''com.b'', elAbility = ''B'' \<rparr> no_info ENT 100 0),
     (settings_app, OpAuthorizeAdmin \<lparr> elBundle = ''com.a'', elAbility = ''A'' \<rparr> ''com.sub'')]"

subsection \<open>Admission\<close>

text \<open>C30: The number of administrators is bounded and there is at most one official super administrator. Start with a
  table in which both hold, at most ten super and device administrators of the default user and one of them an official super
  administrator, and none of other users (an empty table is one). Then both hold after every sequence of requests, events and
  starts of system abilities, from any callers and whatever the database and the outside answer, and other users still have neither
  super nor device administrators. The bundle manager is relied on to list extensions of the bundle it is asked for.\<close>

theorem one_official_super_admin:
  assumes "extensions_named V" "admission_ok False (admins_table A)"
  shows "Mgr_GetSuperDeviceAdminAndDeviceAdminCount (admins_table (ability_run V ops A)) \<le> 10
    \<and> length (filter (\<lambda>a. adminType (adminInfo a) = ENT \<and> \<not> isDebug (adminInfo a))
        (snd (GetAdminByUserId DEFAULT_USER_ID (admins_table (ability_run V ops A))))) \<le> 1
    \<and> (u \<noteq> DEFAULT_USER_ID \<longrightarrow> (\<forall>a \<in> set (snd (GetAdminByUserId u (admins_table (ability_run V ops A)))).
        adminType (adminInfo a) \<noteq> ENT \<and> adminType (adminInfo a) \<noteq> NORMAL))"
proof -
  let ?c = "admins_table (ability_run V ops A)"
  have ok: "admission_ok False ?c" by (rule ability_run_ok [OF assms]) simp
  note copies = visible_copies [OF admission_okD [OF ok], folded visible_eq]
  have "filter (\<lambda>a. adminType (adminInfo a) = ENT \<and> \<not> isDebug (adminInfo a)) (snd (GetAdminByUserId DEFAULT_USER_ID ?c))
      = map copy_admin (official_admins ?c)"
    by (simp add: copies official_admins_def official_def [abs_def] filter_map o_def)
  then show ?thesis
    using ok by (auto simp: admission_ok_def count_eq homes_ok_def counted_def copies)
qed

theorem one_official_super_admin_witness:
  "length (filter (\<lambda>a. adminType (adminInfo a) = ENT \<and> \<not> isDebug (adminInfo a))
     (snd (GetAdminByUserId 100 (admins_table (ability_run calm_service sample_ops (calm_ability [])))))) \<le> 1"
  using one_official_super_admin [OF calm_named, of "calm_ability []" sample_ops 101] admission_ok_empty
  by (simp add: calm_ability_def mgr0_def)

text \<open>C31: Debug and official administrators are never enabled together. Start with a table in which all administrators have the same
  debug mark, as well as the bounds of the property before. Then after every sequence of requests and events without
  the delegation for a user (\<open>SetDelegatedPolicies\<close> without a parent, which does not look at the other administrators)
  \<open>IsExistTargetAdmin\<close> does not find both a debug and an official administrator in the table.\<close>

theorem debug_and_official_exclude_each_other:
  assumes "extensions_named V" "admission_ok True (admins_table A)" "\<not> list_ex delegates_for_user ops"
  shows "\<not> (Mgr_IsExistTargetAdmin True (admins_table (ability_run V ops A))
    \<and> Mgr_IsExistTargetAdmin False (admins_table (ability_run V ops A)))"
proof -
  have ok: "admission_ok True (admins_table (ability_run V ops A))" by (rule ability_run_ok [OF assms(1,2)]) (simp add: assms(3))
  show ?thesis
    using ok unfolding IsExistTarget_iff [OF admission_okD [OF ok]] admission_ok_def one_kind_def by metis
qed

theorem debug_and_official_exclude_each_other_witness:
  "\<not> (Mgr_IsExistTargetAdmin True (admins_table (ability_run calm_service sample_ops (calm_ability [])))
    \<and> Mgr_IsExistTargetAdmin False (admins_table (ability_run calm_service sample_ops (calm_ability []))))"
  by (rule debug_and_official_exclude_each_other [OF calm_named])
    (simp_all add: calm_ability_def mgr0_def admission_ok_empty sample_ops_def delegates_for_user_def)

text \<open>The delegation for a user puts an official virtual administrator beside a debug super administrator.\<close>

definition tested_ability :: "(string \<Rightarrow> db_row list, bool list) ability" where
  "tested_ability = (calm_ability [])\<lparr>abAdmins := (mgr0 (\<lambda>_. []))\<lparr>adminTable :=
     [(100, [SuperDeviceAdmin (AdminInfo0\<lparr>packageName := ''com.a'', isDebug := True\<rparr>)])]\<rparr>\<rparr>"

lemma delegation_for_user_mixes:
  "let A = ability_step calm_service (settings_app, OpSetDelegatedPoliciesForUser ''com.v'' [''disallow_add_local_account''] 100) tested_ability
   in Mgr_IsExistTargetAdmin True (admins_table A) \<and> Mgr_IsExistTargetAdmin False (admins_table A)"
  by code_simp


subsection \<open>Setting policies\<close>

text \<open>Who may set the policy of a plugin in the name of the bundle \<open>b\<close> for the user \<open>u\<close>: a caller that manages policies, or, for an
  active administrator, the service itself, or the application of the administrator with a permission of the plugin, within
  its own user and its own policies.\<close>

definition may_set_policy :: "('s, 'w) service \<Rightarrow> caller \<Rightarrow> u32 \<Rightarrow> string \<Rightarrow> user_id \<Rightarrow> ('s, 'w) ability \<Rightarrow> bool" where
  "may_set_policy V ca code b u A =
     (VerifyCallingPermission ca PERMISSION_MANAGE_EDM_POLICY
      \<or> (\<exists>a. GetAdminByPkgName b (GetCurrentUserId ca) (admins_table A) = Some a
          \<and> (callingUid ca = EDM_UID
             \<or> nameForUid ca (callingUid ca) = Some (packageName (adminInfo a))
               \<and> (IsAllowedAcrossAccountSetPolicy a \<or> u = GetCurrentUserId ca)
               \<and> HasPermissionToHandlePolicy (sv_pc_only V) a (fst (policy_name_of V code A)) OP_SET
               \<and> (\<exists>tag M. let perm = fst (PluginManager_GetPermission (sv_plugins V) code OP_SET (AdminTypeToPermissionType (GetAdminType a)) tag M)
                    in perm \<noteq> [] \<and> perm \<noteq> NONE_PERMISSION_MATCH \<and> VerifyCallingPermission ca perm))))"

definition same_policies :: "('s, 'w) ability \<Rightarrow> ('s, 'w) ability \<Rightarrow> bool" where
  "same_policies A B = (abPolicies B = abPolicies A \<and> abAdmins B = abAdmins A)"

lemma CheckSetPolicyPermission_same_policies:
  "abPolicies (snd (CheckSetPolicyPermission V ca code b tag n u A)) = abPolicies A"
  "abAdmins (snd (CheckSetPolicyPermission V ca code b tag n u A)) = abAdmins A"
  by (simp_all add: CheckSetPolicyPermission_def CheckAdminPermission_def service_unfold ability_simps split: option.split)

lemma CheckSetPolicyPermission_ok:
  assumes "fst (CheckSetPolicyPermission V ca code b tag (fst (policy_name_of V code A)) u B) = ERR_OK" "admins_table B = admins_table A"
  shows "may_set_policy V ca code b u A"
  using assms
  by (auto simp: CheckSetPolicyPermission_def CheckAdminPermission_def CheckHandlePolicyPermission_def CheckCallingUid_def
      may_set_policy_def on_plugin_tables_def Let_def split_beta split: option.splits if_splits)

lemma set_policy_same_policies [ability_simps]:
  "abPolicies (snd (policy_name_of V code A)) = abPolicies A" "abAdmins (snd (policy_name_of V code A)) = abAdmins A"
  "abPolicies (snd (CheckPluginCalling V ca code op tag A)) = abPolicies A" "abAdmins (snd (CheckPluginCalling V ca code op tag A)) = abAdmins A"
  "abPolicies (snd (read_tag V A)) = abPolicies A" "abAdmins (snd (read_tag V A)) = abAdmins A"
  by (simp_all add: policy_name_of_def CheckPluginCalling_def read_tag_def on_plugin_tables_def service_unfold)



subsection \<open>A device administrator with a subscribed event is disabled\<close>

definition kiosk_ability :: "(string \<Rightarrow> db_row list, bool list) ability" where
  "kiosk_ability = (calm_ability [])\<lparr>abAdmins := (mgr0 (\<lambda>_. []))\<lparr>adminTable := kiosk_admins\<rparr>, abEvents := kiosk_state\<rparr>"

lemma kiosk_disabled: "fst (DisableAdmin calm_service settings_app \<lparr> elBundle = ''com.kiosk'', elAbility = ''Kiosk'' \<rparr> 100 kiosk_ability) = ERR_OK"
proof -
  have found: "GetAdminByPkgName ''com.kiosk'' 100 (admins_table kiosk_ability) = Some kiosk_admin" by code_simp
  have check: "CheckDisableAdmin calm_service settings_app kiosk_admin (GetAdminType kiosk_admin) = ERR_OK" by code_simp
  have "fst (remove_records calm_service settings_app kiosk_admin 100 (GetAdminType kiosk_admin) kiosk_ability) = ERR_OK" by code_simp
  then show ?thesis by (simp add: DisableAdmin_def found check DoDisable_succeeds)
qed


end
