(* ===== verification/Policy_Query_Config.thy ===== *)
theory Policy_Query_Config
  imports Query_Codes Permission_Checker
begin

text \<open>
  \<open>services/edm/src/query_policy/policy_query_config.cpp\<close> and \<open>policy_query_config_table.cpp\<close>: which policies are read without
  loading their plugin, and under which permission. \<open>FindConfig\<close> is a binary search, so the order of the entries
  matters. The build flags are the argument \<open>F\<close>.
\<close>

subsection \<open>Permissions\<close>

datatype policy_data_type = DT_BOOL | DT_ARRAY_STRING | DT_INT | DT_STRING | DT_CUSTOM

datatype permission_pattern = PATTERN_RESTRICTION | PATTERN_SPECIFIC | PATTERN_TAG

text \<open>A null pointer is \<open>None\<close>.\<close>

record query_permission =
  permPattern :: permission_pattern
  hasByod :: bool
  specificPermission :: "string option"
  tagPermission :: "string option"
  byodPermission :: "string option"

definition c_string :: "string option \<Rightarrow> string" where
  "c_string p = (case p of None \<Rightarrow> [] | Some s \<Rightarrow> s)"

definition Config_GetPermission :: "query_permission \<Rightarrow> permission_type \<Rightarrow> string \<Rightarrow> string" where
  "Config_GetPermission C type permissionTag =
     (case permPattern C of
        PATTERN_RESTRICTION \<Rightarrow>
          (if hasByod C \<and> type = BYOD_DEVICE_ADMIN then PERMISSION_PERSONAL_MANAGE_RESTRICTIONS
           else PERMISSION_ENTERPRISE_MANAGE_RESTRICTIONS)
      | PATTERN_SPECIFIC \<Rightarrow> c_string (specificPermission C)
      | PATTERN_TAG \<Rightarrow>
          (if permissionTag \<noteq> [] \<and> type = SUPER_DEVICE_ADMIN then c_string (tagPermission C)
           else if type = BYOD_DEVICE_ADMIN then
             (case byodPermission C of Some s \<Rightarrow> s | None \<Rightarrow> c_string (specificPermission C))
           else c_string (specificPermission C)))"

definition RestrictionPermission :: "bool \<Rightarrow> query_permission" where
  "RestrictionPermission byod = \<lparr> permPattern = PATTERN_RESTRICTION, hasByod = byod, specificPermission = None,
     tagPermission = None, byodPermission = None \<rparr>"

definition SpecificPermission :: "string \<Rightarrow> query_permission" where
  "SpecificPermission perm = \<lparr> permPattern = PATTERN_SPECIFIC, hasByod = False, specificPermission = Some perm,
     tagPermission = None, byodPermission = None \<rparr>"

definition TagPermission :: "string \<Rightarrow> string \<Rightarrow> string option \<Rightarrow> query_permission" where
  "TagPermission tagPerm defaultPerm byodPerm = \<lparr> permPattern = PATTERN_TAG, hasByod = False,
     specificPermission = Some defaultPerm, tagPermission = Some tagPerm, byodPermission = byodPerm \<rparr>"

subsection \<open>The table\<close>

record query_config =
  cfPolicyName :: string
  cfDataType :: policy_data_type
  cfPermission :: query_permission
  cfPolicySaved :: bool
  cfApiType :: api_type
  cfFeatureEnabled :: bool

record config_entry =
  entryCode :: u32
  entryConfig :: query_config

type_synonym build_flags = "string \<Rightarrow> bool"

definition entry :: "u32 \<Rightarrow> string \<Rightarrow> policy_data_type \<Rightarrow> query_permission \<Rightarrow> bool \<Rightarrow> api_type \<Rightarrow> bool \<Rightarrow> config_entry" where
  "entry code name type perm saved api enabled = \<lparr> entryCode = code, entryConfig =
     \<lparr> cfPolicyName = name, cfDataType = type, cfPermission = perm, cfPolicySaved = saved, cfApiType = api,
       cfFeatureEnabled = enabled \<rparr> \<rparr>"

definition CONFIG_TABLE :: "build_flags \<Rightarrow> config_entry list" where
  "CONFIG_TABLE F = [
    entry IC_GET_DISPLAY_VERSION POLICY_GET_DISPLAY_VERSION DT_CUSTOM (SpecificPermission PERMISSION_ENTERPRISE_GET_DEVICE_INFO) True API_SYSTEM True,
    entry IC_DISALLOW_ADD_LOCAL_ACCOUNT POLICY_DISALLOW_ADD_LOCAL_ACCOUNT DT_BOOL (SpecificPermission PERMISSION_ENTERPRISE_SET_ACCOUNT_POLICY) True API_PUBLIC (F ''OS_ACCOUNT_EDM_ENABLE''),
    entry IC_ALLOWED_INSTALL_BUNDLES POLICY_ALLOWED_INSTALL_BUNDLES DT_ARRAY_STRING (SpecificPermission PERMISSION_ENTERPRISE_SET_BUNDLE_INSTALL_POLICY) True API_PUBLIC True,
    entry IC_DISALLOW_MODIFY_DATETIME POLICY_DISALLOW_MODIFY_DATETIME DT_BOOL (TagPermission PERMISSION_ENTERPRISE_SET_DATETIME PERMISSION_ENTERPRISE_MANAGE_RESTRICTIONS None) True API_PUBLIC True,
    entry IC_DISALLOW_RUNNING_BUNDLES POLICY_DISALLOW_RUNNING_BUNDLES DT_ARRAY_STRING (TagPermission PERMISSION_ENTERPRISE_MANAGE_SET_APP_RUNNING_POLICY PERMISSION_ENTERPRISE_MANAGE_APPLICATION None) True API_PUBLIC (F ''ABILITY_RUNTIME_EDM_ENABLE''),
    entry IC_DISALLOWED_INSTALL_BUNDLES POLICY_DISALLOWED_INSTALL_BUNDLES DT_ARRAY_STRING (SpecificPermission PERMISSION_ENTERPRISE_SET_BUNDLE_INSTALL_POLICY) True API_PUBLIC True,
    entry IC_DISALLOWED_UNINSTALL_BUNDLES POLICY_DISALLOWED_UNINSTALL_BUNDLES DT_ARRAY_STRING (SpecificPermission PERMISSION_ENTERPRISE_SET_BUNDLE_INSTALL_POLICY) True API_PUBLIC True,
    entry IC_DISABLED_PRINTER POLICY_DISABLED_PRINTER DT_BOOL (TagPermission PERMISSION_ENTERPRISE_RESTRICT_POLICY PERMISSION_ENTERPRISE_MANAGE_RESTRICTIONS None) True API_PUBLIC (F ''AUDIO_FRAMEWORK_EDM_ENABLE''),
    entry IC_DISABLED_HDC POLICY_DISABLED_HDC DT_BOOL (TagPermission PERMISSION_ENTERPRISE_RESTRICT_POLICY PERMISSION_ENTERPRISE_MANAGE_RESTRICTIONS (Some PERMISSION_PERSONAL_MANAGE_RESTRICTIONS)) True API_PUBLIC (F ''AUDIO_FRAMEWORK_EDM_ENABLE''),
    entry IC_SET_BROWSER_POLICIES POLICY_SET_BROWSER_POLICIES DT_CUSTOM (SpecificPermission '''') True API_PUBLIC True,
    entry IC_USB_READ_ONLY POLICY_USB_READ_ONLY DT_INT (TagPermission PERMISSION_ENTERPRISE_MANAGE_USB PERMISSION_ENTERPRISE_MANAGE_USB (Some PERMISSION_PERSONAL_MANAGE_RESTRICTIONS)) True API_PUBLIC (F ''USB_DISK_MANAGER_EDM_ENABLE''),
    entry IC_NTP_SERVER POLICY_NTP_SERVER DT_CUSTOM (SpecificPermission PERMISSION_ENTERPRISE_MANAGE_SYSTEM) True API_PUBLIC True,
    entry IC_GET_SECURITY_PATCH_TAG POLICY_GET_SECURITY_PATCH_TAG DT_CUSTOM (SpecificPermission PERMISSION_ENTERPRISE_MANAGE_SECURITY) True API_PUBLIC True,
    entry IC_GET_DEVICE_ENCRYPTION_STATUS POLICY_GET_DEVICE_ENCRYPTION_STATUS DT_CUSTOM (SpecificPermission PERMISSION_ENTERPRISE_MANAGE_SECURITY) True API_PUBLIC True,
    entry IC_LOCATION_POLICY POLICY_LOCATION_POLICY DT_CUSTOM (SpecificPermission PERMISSION_ENTERPRISE_MANAGE_LOCATION) True API_PUBLIC (F ''LOCATION_EDM_ENABLE''),
    entry IC_DISABLE_USB POLICY_DISABLE_USB DT_BOOL (TagPermission PERMISSION_ENTERPRISE_MANAGE_USB PERMISSION_ENTERPRISE_MANAGE_RESTRICTIONS (Some PERMISSION_PERSONAL_MANAGE_RESTRICTIONS)) True API_PUBLIC (F ''USB_SERVICE_EDM_ENABLE''),
    entry IC_ALLOWED_USB_DEVICES POLICY_ALLOWED_USB_DEVICES DT_CUSTOM (SpecificPermission PERMISSION_ENTERPRISE_MANAGE_USB) True API_PUBLIC (F ''USB_SERVICE_EDM_ENABLE''),
    entry IC_DISABLE_WIFI POLICY_DISABLE_WIFI DT_BOOL (TagPermission PERMISSION_ENTERPRISE_MANAGE_WIFI PERMISSION_ENTERPRISE_MANAGE_RESTRICTIONS (Some PERMISSION_PERSONAL_MANAGE_RESTRICTIONS)) True API_PUBLIC (F ''WIFI_EDM_ENABLE''),
    entry IC_DISABLE_MICROPHONE POLICY_DISABLE_MICROPHONE DT_BOOL (RestrictionPermission True) True API_PUBLIC (F ''AUDIO_FRAMEWORK_EDM_ENABLE''),
    entry IC_DISABLE_BLUETOOTH POLICY_DISABLED_BLUETOOTH DT_BOOL (TagPermission PERMISSION_ENTERPRISE_MANAGE_BLUETOOTH PERMISSION_ENTERPRISE_MANAGE_RESTRICTIONS (Some PERMISSION_PERSONAL_MANAGE_RESTRICTIONS)) True API_PUBLIC (F ''BLUETOOTH_EDM_ENABLE''),
    entry IC_FINGERPRINT_AUTH POLICY_FINGERPRINT_AUTH DT_CUSTOM (RestrictionPermission False) True API_PUBLIC (F ''USERIAM_EDM_ENABLE''),
    entry IC_PASSWORD_POLICY POLICY_PASSWORD_POLICY DT_CUSTOM (TagPermission '''' PERMISSION_ENTERPRISE_MANAGE_SECURITY None) True API_PUBLIC (F ''USERIAM_EDM_ENABLE''),
    entry IC_ALLOWED_BLUETOOTH_DEVICES POLICY_ALLOWED_BLUETOOTH_DEVICES DT_ARRAY_STRING (SpecificPermission PERMISSION_ENTERPRISE_MANAGE_BLUETOOTH) True API_PUBLIC (F ''BLUETOOTH_EDM_ENABLE''),
    entry IC_CLIPBOARD_POLICY POLICY_CLIPBOARD_POLICY DT_CUSTOM (RestrictionPermission True) True API_PUBLIC (F ''PASTEBOARD_EDM_ENABLE''),
    entry IC_DISALLOWED_TETHERING POLICY_DISALLOWED_TETHERING DT_BOOL (RestrictionPermission True) True API_PUBLIC True,
    entry IC_INACTIVE_USER_FREEZE POLICY_INACTIVE_USER_FREEZE DT_BOOL (RestrictionPermission False) True API_PUBLIC True,
    entry IC_SNAPSHOT_SKIP POLICY_SNAPSHOT_SKIP DT_ARRAY_STRING (RestrictionPermission False) True API_PUBLIC True,
    entry IC_WATERMARK_IMAGE POLICY_WATERMARK_IMAGE_POLICY DT_CUSTOM (SpecificPermission PERMISSION_ENTERPRISE_MANAGE_SECURITY) True API_PUBLIC True,
    entry IC_DISABLE_CAMERA POLICY_DISABLE_CAMERA DT_BOOL (RestrictionPermission True) True API_PUBLIC (F ''CAMERA_FRAMEWORK_EDM_ENABLE''),
    entry IC_DISABLE_MTP_CLIENT POLICY_DISABLED_MTP_CLIENT DT_BOOL (RestrictionPermission False) True API_PUBLIC True,
    entry IC_DISABLE_MTP_SERVER POLICY_DISABLED_MTP_SERVER DT_BOOL (RestrictionPermission True) True API_PUBLIC True,
    entry IC_DISABLE_MAINTENANCE_MODE POLICY_DISABLED_MAINTENANCE_MODE DT_BOOL (RestrictionPermission False) True API_PUBLIC True,
    entry IC_ALLOWED_WIFI_LIST POLICY_ALLOWED_WIFI_LIST DT_CUSTOM (SpecificPermission PERMISSION_ENTERPRISE_MANAGE_WIFI) True API_PUBLIC (F ''WIFI_EDM_ENABLE''),
    entry IC_DISALLOWED_WIFI_LIST POLICY_DISALLOWED_WIFI_LIST DT_CUSTOM (SpecificPermission PERMISSION_ENTERPRISE_MANAGE_WIFI) True API_PUBLIC (F ''WIFI_EDM_ENABLE''),
    entry IC_DISALLOWED_SMS POLICY_DISALLOWED_SMS DT_BOOL (RestrictionPermission False) True API_PUBLIC (F ''SMS_EDM_ENABLE''),
    entry IC_DISALLOWED_MMS POLICY_DISALLOWED_MMS DT_BOOL (RestrictionPermission False) True API_PUBLIC (F ''MMS_EDM_ENABLE''),
    entry IC_GET_BUNDLE_INFO_LIST POLICY_INSTALLED_BUNDLE_INFO_LIST DT_CUSTOM (SpecificPermission PERMISSION_ENTERPRISE_GET_ALL_BUNDLE_INFO) True API_PUBLIC True,
    entry IC_DISABLE_BACKUP_AND_RESTORE POLICY_DISABLE_BACKUP_AND_RESTORE DT_BOOL (RestrictionPermission False) True API_PUBLIC (F ''BACKUP_AND_RESTORE_EDM_ENABLE''),
    entry IC_DISALLOWED_BLUETOOTH_DEVICES POLICY_DISALLOWED_BLUETOOTH_DEVICES DT_ARRAY_STRING (SpecificPermission PERMISSION_ENTERPRISE_MANAGE_BLUETOOTH) True API_PUBLIC (F ''BLUETOOTH_EDM_ENABLE''),
    entry IC_DISALLOW_MODIFY_APN POLICY_DISALLOW_MODIFY_APN DT_BOOL (SpecificPermission PERMISSION_ENTERPRISE_SET_USER_RESTRICTION) True API_PUBLIC (F ''APN_EDM_ENABLE''),
    entry IC_DISABLE_USER_MTP_CLIENT POLICY_DISABLED_USER_MTP_CLIENT DT_BOOL (RestrictionPermission False) True API_PUBLIC True,
    entry IC_DISALLOWED_MOBILE_DATA POLICY_DISALLOW_MOBILE_DATA DT_BOOL (SpecificPermission PERMISSION_ENTERPRISE_MANAGE_NETWORK) True API_PUBLIC (F ''MOBILE_DATA_ENABLE''),
    entry IC_DISALLOW_MODIFY_ETHERNET_IP POLICY_DISALLOW_MODIFY_ETHERNET_IP DT_BOOL (SpecificPermission PERMISSION_ENTERPRISE_SET_USER_RESTRICTION) True API_PUBLIC (F ''FEATURE_PC_ONLY''),
    entry IC_DISABLE_SET_BIOMETRICS_AND_SCREENLOCK POLICY_SET_BIOMETRICS_AND_SCREENLOCK DT_BOOL (SpecificPermission PERMISSION_ENTERPRISE_SET_USER_RESTRICTION) True API_PUBLIC True,
    entry IC_DISABLE_SET_DEVICE_NAME POLICY_SET_DEVICE_NAME DT_BOOL (SpecificPermission PERMISSION_ENTERPRISE_SET_USER_RESTRICTION) True API_PUBLIC True,
    entry IC_DISABLE_SAMBA_CLIENT POLICY_DISABLED_SAMBA_CLIENT DT_BOOL (RestrictionPermission False) True API_PUBLIC (F ''SAMBA_EDM_ENABLE''),
    entry IC_DISABLE_SAMBA_SERVER POLICY_DISABLED_SAMBA_SERVER DT_BOOL (RestrictionPermission False) True API_PUBLIC (F ''SAMBA_EDM_ENABLE''),
    entry IC_DISALLOW_POWER_LONG_PRESS POLICY_DISALLOW_POWER_LONG_PRESS DT_BOOL (SpecificPermission PERMISSION_ENTERPRISE_SET_USER_RESTRICTION) True API_PUBLIC (F ''POWER_MANAGER_EDM_ENABLE''),
    entry IC_IS_APP_KIOSK_ALLOWED POLICY_ALLOWED_KIOSK_APPS DT_CUSTOM (SpecificPermission '''') True API_PUBLIC True,
    entry IC_DISALLOWED_AIRPLANE_MODE POLICY_DISALLOWED_AIRPLANE_MODE DT_BOOL (SpecificPermission PERMISSION_ENTERPRISE_MANAGE_NETWORK) True API_PUBLIC (F ''NET_MANAGER_BASE_EDM_ENABLE''),
    entry IC_ALLOWED_INSTALL_APP_TYPE POLICY_ALLOWED_INSTALL_APP_TYPE DT_CUSTOM (SpecificPermission PERMISSION_ENTERPRISE_SET_BUNDLE_INSTALL_POLICY) True API_PUBLIC True,
    entry IC_DISALLOW_VPN POLICY_DISALLOW_VPN DT_BOOL (RestrictionPermission False) True API_PUBLIC (F ''NETMANAGER_EXT_EDM_ENABLE''),
    entry IC_SET_AUTO_UNLOCK_AFTER_REBOOT POLICY_SET_AUTO_UNLOCK_AFTER_REBOOT DT_CUSTOM (SpecificPermission PERMISSION_ENTERPRISE_MANAGE_SYSTEM) True API_PUBLIC (F ''FEATURE_PC_ONLY''),
    entry IC_DISALLOWED_USB_STORAGE_DEVICE_WRITE POLICY_DISALLOWED_USB_STORAGE_DEVICE_WRITE DT_BOOL (RestrictionPermission False) True API_PUBLIC (F ''FEATURE_PC_ONLY''),
    entry IC_DISALLOWED_DISTRIBUTED_TRANSMISSION POLICY_DISALLOWED_DISTRIBUTED_TRANSMISSION DT_BOOL (RestrictionPermission False) True API_PUBLIC True,
    entry IC_DISALLOWED_SUDO POLICY_DISABLED_SUDO DT_BOOL (RestrictionPermission False) True API_PUBLIC (F ''SUDO_EDM_ENABLE''),
    entry IC_SET_INSTALL_LOCAL_ENTERPRISE_APP_ENABLED POLICY_SET_INSTALL_LOCAL_ENTERPRISE_APP_ENABLED DT_CUSTOM (SpecificPermission PERMISSION_ENTERPRISE_MANAGE_SYSTEM) True API_PUBLIC (F ''FEATURE_PC_ONLY''),
    entry IC_DISALLOWED_NOTIFICATION POLICY_DISALLOWED_NOTIFICATION DT_BOOL (RestrictionPermission False) True API_PUBLIC (F ''NOTIFICATION_EDM_ENABLE''),
    entry IC_TELEPHONY_CALL_POLICY POLICY_TELEPHONY_CALL_POLICY DT_CUSTOM (SpecificPermission PERMISSION_ENTERPRISE_MANAGE_TELEPHONY) True API_PUBLIC (F ''TELEPHONY_EDM_ENABLE''),
    entry IC_DISALLOWED_TELEPHONY_CALL POLICY_DISALLOWED_TELEPHONY_CALL DT_BOOL (RestrictionPermission False) True API_PUBLIC (F ''TELEPHONY_EDM_ENABLE''),
    entry IC_DISABLE_PRIVATE_SPACE POLICY_DISABLED_PRIVATE_SPACE DT_BOOL (RestrictionPermission False) True API_PUBLIC (F ''PRIVATE_SPACE_EDM_ENABLE''),
    entry IC_DISALLOWED_EXPORT_RECOVERY_KEY POLICY_DISALLOWED_EXPORT_RECOVERY_KEY DT_BOOL (RestrictionPermission False) True API_PUBLIC (F ''FEATURE_PC_ONLY''),
    entry IC_DISABLED_PRINT POLICY_DISABLED_PRINT DT_BOOL (RestrictionPermission False) True API_PUBLIC (F ''OS_ACCOUNT_EDM_ENABLE''),
    entry IC_PERMISSION_MANAGED_STATE POLICY_PERMISSION_MANAGED_STATE_POLICY DT_CUSTOM (SpecificPermission PERMISSION_ENTERPRISE_MANAGE_USER_GRANT_PERMISSION) True API_PUBLIC True,
    entry IC_DISABLED_APP_CLONE POLICY_DISABLED_APP_CLONE DT_BOOL (RestrictionPermission False) True API_PUBLIC True,
    entry IC_DISALLOWED_RANDOM_MAC_ADDRESS POLICY_DISALLOWED_RANDOM_MAC_ADDRESS DT_BOOL (RestrictionPermission False) True API_PUBLIC (F ''WIFI_EDM_ENABLE''),
    entry IC_DISALLOWED_EXTERNAL_STORAGE_CARD POLICY_DISALLOWED_EXTERNAL_STORAGE_CARD DT_BOOL (RestrictionPermission False) True API_PUBLIC (F ''EXTERNAL_DISK_MANAGER_EDM_ENABLE''),
    entry IC_ALLOW_RUNNING_BUNDLES POLICY_ALLOW_RUNNING_BUNDLES DT_ARRAY_STRING (SpecificPermission PERMISSION_ENTERPRISE_MANAGE_APPLICATION) True API_PUBLIC (F ''ABILITY_RUNTIME_EDM_ENABLE''),
    entry IC_DISALLOW_UNMUTE_DEVICE POLICY_DISALLOW_UNMUTE_DEVICE DT_BOOL (RestrictionPermission False) True API_PUBLIC True,
    entry IC_DISABLED_HDC_REMOTE POLICY_DISABLED_HDC_REMOTE DT_BOOL (RestrictionPermission False) True API_PUBLIC (F ''FEATURE_PC_ONLY''),
    entry IC_DISABLE_RUNNING_BINARY_APP POLICY_DISABLE_RUNNING_BINARY_APP DT_INT (SpecificPermission PERMISSION_ENTERPRISE_MANAGE_SECURITY) True API_PUBLIC (F ''FEATURE_PC_ONLY''),
    entry IC_DISALLOW_VIRTUAL_SERVICE POLICY_DISALLOW_VIRTUAL_SERVICE DT_BOOL (RestrictionPermission False) True API_PUBLIC True,
    entry IC_DISALLOWED_FILEBOOST_OPEN POLICY_DISALLOWED_OPEN_FILE_BOOST DT_BOOL (RestrictionPermission False) True API_PUBLIC (F ''FEATURE_PC_ONLY''),
    entry IC_DISALLOW_MODIFY_WALLPAPER POLICY_DISALLOW_MODIFY_WALLPAPER DT_BOOL (RestrictionPermission False) True API_PUBLIC (F ''OS_ACCOUNT_EDM_ENABLE''),
    entry IC_DISALLOW_USB_SERIAL POLICY_DISALLOW_USB_SERIAL DT_BOOL (RestrictionPermission False) True API_PUBLIC True,
    entry IC_INSTALL_LOCAL_ENTERPRISE_APP_ENABLED_FOR_ACCOUNT POLICY_INSTALL_LOCAL_ENTERPRISE_APP_ENABLED_FOR_ACCOUNT DT_CUSTOM (SpecificPermission PERMISSION_ENTERPRISE_MANAGE_SYSTEM) True API_PUBLIC (F ''FEATURE_PC_ONLY''),
    entry IC_ALLOWED_NOTIFICATION_BUNDLES POLICY_ALLOWED_NOTIFICATION_BUNDLES DT_CUSTOM (SpecificPermission PERMISSION_ENTERPRISE_MANAGE_APPLICATION) True API_PUBLIC True,
    entry IC_DISALLOWED_P2P POLICY_DISALLOWED_P2P DT_BOOL (RestrictionPermission True) True API_PUBLIC True,
    entry IC_DISALLOWED_MULTI_WINDOW POLICY_DISALLOWED_MULTI_WINDOW DT_BOOL (RestrictionPermission False) True API_PUBLIC (F ''MULTI_WINDOW_EDM_ENABLE''),
    entry IC_GET_BUNDLE_STORAGE_STATS POLICY_BUNDLE_STORAGE_STATS DT_CUSTOM (SpecificPermission PERMISSION_ENTERPRISE_GET_ALL_BUNDLE_INFO) True API_PUBLIC True,
    entry IC_QUERY_BUNDLE_STATS_INFOS POLICY_QUERY_BUNDLE_STATS_INFOS DT_CUSTOM (SpecificPermission PERMISSION_ENTERPRISE_MANAGE_APPLICATION) True API_PUBLIC True,
    entry IC_DISALLOWED_UINPUT POLICY_DISALLOW_UINPUT DT_BOOL (RestrictionPermission False) True API_PUBLIC True,
    entry IC_DISALLOW_CORE_DUMP POLICY_DISALLOW_CORE_DUMP DT_BOOL (RestrictionPermission False) True API_PUBLIC True,
    entry IC_DISALLOWED_DISTRIBUTED_TRANSMISSION_FULL POLICY_DISALLOWED_DISTRIBUTED_TRANSMISSION_FULL DT_BOOL (RestrictionPermission False) True API_PUBLIC True,
    entry IC_DISALLOWED_DEVICE_SUDO POLICY_DISALLOWED_DEVICE_SUDO DT_BOOL (RestrictionPermission False) True API_PUBLIC True,
    entry IC_ALLOWED_COLLABORATION_SERVICE_BUNDLES POLICY_ALLOWED_COLLABORATION_SERVICE_BUNDLES DT_ARRAY_STRING (SpecificPermission PERMISSION_ENTERPRISE_MANAGE_APPLICATION) True API_PUBLIC True,
    entry IC_DISALLOW_RS232 POLICY_DISALLOW_RS232 DT_BOOL (RestrictionPermission False) True API_PUBLIC True,
    entry IC_DISALLOWED_TRAFFIC_REDIRECTION POLICY_DISALLOWED_TRAFFIC_REDIRECTION DT_BOOL (RestrictionPermission False) True API_PUBLIC True,
    entry IC_DISALLOWED_PERMISSION POLICY_DISALLOWED_PERMISSION DT_ARRAY_STRING (SpecificPermission PERMISSION_ENTERPRISE_MANAGE_SECURITY) True API_PUBLIC True,
    entry IC_ALLOWED_PERMISSION_BUNDLE POLICY_ALLOWED_PERMISSION_BUNDLE DT_CUSTOM (SpecificPermission PERMISSION_ENTERPRISE_MANAGE_SECURITY) True API_PUBLIC True,
    entry IC_DEVICE_SECURITY_LEVEL_POLICY POLICY_DEVICE_SECURITY_LEVEL_POLICY DT_CUSTOM (SpecificPermission PERMISSION_ENTERPRISE_MANAGE_SECURITY) True API_PUBLIC True,
    entry IC_DISALLOW_X_KEY POLICY_DISALLOW_X_KEY DT_BOOL (RestrictionPermission False) True API_PUBLIC True,
    entry IC_ALLOWED_PRINTER_IP_ADDRESS_FOR_DEVICE POLICY_ALLOWED_PRINTER_IP_ADDRESSES_FOR_DEVICE DT_ARRAY_STRING (SpecificPermission PERMISSION_ENTERPRISE_MANAGE_SYSTEM) True API_PUBLIC True,
    entry IC_ALLOWED_PRINTER_IP_ADDRESS_FOR_ACCOUNT POLICY_ALLOWED_PRINTER_IP_ADDRESSES_FOR_ACCOUNT DT_ARRAY_STRING (SpecificPermission PERMISSION_ENTERPRISE_MANAGE_SYSTEM) True API_PUBLIC True,
    entry IC_DISABLE_SATA_ODD_BURN POLICY_DISABLE_SATA_ODD_BURN DT_BOOL (RestrictionPermission False) True API_PUBLIC (F ''FEATURE_PC_ONLY''),
    entry IC_ALLOWED_ODD_BURN_USB_DEVICES POLICY_ALLOWED_ODD_BURN_USB_DEVICES DT_CUSTOM (SpecificPermission PERMISSION_ENTERPRISE_MANAGE_USB) True API_PUBLIC (F ''FEATURE_PC_ONLY''),
    entry IC_EXTERNAL_STORAGE_INTERCEPT_ENABLE POLICY_EXTERNAL_STORAGE_INTERCEPT_ENABLE DT_BOOL (SpecificPermission PERMISSION_ENTERPRISE_MANAGE_USB) True API_PUBLIC True,
    entry IC_DISALLOWED_PACKET_FILTERING POLICY_DISALLOWED_PACKET_FILTERING DT_BOOL (RestrictionPermission False) True API_PUBLIC (F ''NETMANAGER_EXT_EDM_ENABLE'' \<and> F ''FEATURE_PC_ONLY''),
    entry IC_IS_ALLOWED_ODD_BURN POLICY_ALLOWED_ODD_BURN_USB_DEVICES DT_CUSTOM (SpecificPermission PERMISSION_ENTERPRISE_MANAGE_USB) True API_PUBLIC (F ''FEATURE_PC_ONLY''),
    entry (IC_POLICY_CODE_END + PC_HIDE_LAUNCHER_ICON) POLICY_HIDE_LAUNCHER_ICON DT_CUSTOM (SpecificPermission PERMISSION_ENTERPRISE_MANAGE_APPLICATION) True API_PUBLIC (\<not> F ''FEATURE_PC_ONLY''),
    entry (IC_POLICY_CODE_END + PC_DISABLE_SUPER_PRIVACY) POLICY_DISABLE_SUPER_PRIVACY_MODE DT_BOOL (RestrictionPermission False) True API_PUBLIC (\<not> F ''FEATURE_PC_ONLY'')]"

subsection \<open>Looking a code up\<close>

text \<open>\<open>std::lower_bound\<close>: the half-open range shrinks to the position of the first entry whose code is not below the value.\<close>

function lower_bound :: "config_entry list \<Rightarrow> u32 \<Rightarrow> nat \<Rightarrow> nat \<Rightarrow> nat" where
  "lower_bound T code first len =
     (if len = 0 then first
      else if entryCode (T ! (first + len div 2)) < code
      then lower_bound T code (first + len div 2 + 1) (len - len div 2 - 1)
      else lower_bound T code first (len div 2))"
  by pat_completeness auto
termination by (relation "measure (\<lambda>(T, code, first, len). len)") auto

declare lower_bound.simps [simp del]

definition FindConfig :: "build_flags \<Rightarrow> u32 \<Rightarrow> config_entry option" where
  "FindConfig F code =
     (let T = CONFIG_TABLE F; it = lower_bound T code 0 (length T)
      in if it \<noteq> length T \<and> entryCode (T ! it) = code then Some (T ! it) else None)"

definition CheckFeatureEnabled :: "build_flags \<Rightarrow> u32 \<Rightarrow> err_code" where
  "CheckFeatureEnabled F policyCode =
     (case FindConfig F policyCode of
        None \<Rightarrow> ERR_CANNOT_FIND_QUERY_FAILED
      | Some e \<Rightarrow> (if cfFeatureEnabled (entryConfig e) then ERR_OK else INTERFACE_UNSUPPORTED))"

subsection \<open>The search finds every entry\<close>

definition below :: "config_entry list \<Rightarrow> u32 \<Rightarrow> nat \<Rightarrow> bool" where
  "below T code n = (\<forall>i < n. entryCode (T ! i) < code)"

definition not_below :: "config_entry list \<Rightarrow> u32 \<Rightarrow> nat \<Rightarrow> bool" where
  "not_below T code n = (\<forall>i. n \<le> i \<longrightarrow> i < length T \<longrightarrow> \<not> entryCode (T ! i) < code)"

lemma sorted_codes: "sorted (map entryCode T) \<Longrightarrow> i \<le> j \<Longrightarrow> j < length T \<Longrightarrow> entryCode (T ! i) \<le> entryCode (T ! j)"
  using sorted_nth_mono [of "map entryCode T" i j] by simp

lemma below_Suc:
  assumes "sorted (map entryCode T)" "m < length T" "entryCode (T ! m) < code"
  shows "below T code (Suc m)"
  unfolding below_def using le_less_trans [OF sorted_codes [OF assms(1) _ assms(2)] assms(3)] by simp

lemma not_below_at:
  assumes "sorted (map entryCode T)" "\<not> entryCode (T ! m) < code"
  shows "not_below T code m"
  unfolding not_below_def using le_less_trans [OF sorted_codes [OF assms(1)], of m] assms(2) by blast

lemma lower_bound_spec:
  assumes "sorted (map entryCode T)" "first + len \<le> length T" "below T code first" "not_below T code (first + len)"
  shows "lower_bound T code first len \<le> length T \<and> below T code (lower_bound T code first len)
    \<and> not_below T code (lower_bound T code first len)"
  using assms
proof (induction T code first len rule: lower_bound.induct)
  case (1 T code first len)
  show ?case
  proof (cases "len = 0")
    case True
    then show ?thesis using "1.prems" by (simp add: lower_bound.simps [of T code first 0])
  next
    case False
    then have m: "first + len div 2 < length T" "first + len div 2 + 1 + (len - len div 2 - 1) = first + len"
      using "1.prems"(2) by auto
    show ?thesis
    proof (cases "entryCode (T ! (first + len div 2)) < code")
      case True
      show ?thesis
        unfolding lower_bound.simps [of T code first len] if_not_P [OF False] if_P [OF True]
        by (rule "1.IH"(1) [OF False True "1.prems"(1)])
          (use "1.prems"(2,4) m below_Suc [OF "1.prems"(1) m(1) True] in simp_all)
    next
      case ge: False
      show ?thesis
        unfolding lower_bound.simps [of T code first len] if_not_P [OF False] if_not_P [OF ge]
        by (rule "1.IH"(2) [OF False ge "1.prems"(1) _ "1.prems"(3) not_below_at [OF "1.prems"(1) ge]])
          (use m in simp)
    qed
  qed
qed

lemma find_distinct:
  "distinct (map f xs) \<Longrightarrow> List.find (\<lambda>e. f e = k) xs = Some e \<longleftrightarrow> e \<in> set xs \<and> f e = k"
  by (induction xs) auto

lemma sorted_lookup:
  assumes "sorted (map entryCode T)" "distinct (map entryCode T)"
  shows "(let it = lower_bound T code 0 (length T)
      in if it \<noteq> length T \<and> entryCode (T ! it) = code then Some (T ! it) else None)
    = List.find (\<lambda>e. entryCode e = code) T"
proof -
  let ?it = "lower_bound T code 0 (length T)"
  have it: "?it \<le> length T" "below T code ?it" "not_below T code ?it"
    using lower_bound_spec [OF assms(1), of 0 "length T" code] by (simp_all add: below_def [of _ _ 0] not_below_def [of _ _ "length T"])
  show ?thesis
  proof (cases "?it \<noteq> length T \<and> entryCode (T ! ?it) = code")
    case True
    then have "T ! ?it \<in> set T" using it(1) by simp
    then have "List.find (\<lambda>e. entryCode e = code) T = Some (T ! ?it)" using True by (simp add: find_distinct [OF assms(2)])
    then show ?thesis using True by simp
  next
    case False
    have "entryCode e \<noteq> code" if e: "e \<in> set T" for e
    proof
      assume c: "entryCode e = code"
      obtain i where i: "i < length T" "entryCode (T ! i) = code" using e c by (auto simp: in_set_conv_nth)
      then have le: "?it \<le> i" using it(2) unfolding below_def by (metis not_le order_less_irrefl)
      then have "entryCode (T ! ?it) \<le> code"
        using sorted_nth_mono [OF assms(1), of ?it i] i by simp
      moreover have "\<not> entryCode (T ! ?it) < code" using it(3) le i unfolding not_below_def by (meson le_less_trans order_refl)
      ultimately have "entryCode (T ! ?it) = code" by (simp add: order_less_le)
      then show False using False le i by simp
    qed
    then have "List.find (\<lambda>e. entryCode e = code) T = None" by (auto simp: find_None_iff)
    then show ?thesis using False by (simp add: Let_def)
  qed
qed

definition config_codes :: "u32 list" where
  "config_codes = map entryCode (CONFIG_TABLE (\<lambda>_. True))"

lemma entryCode_entry [simp]: "entryCode (entry c n t p s a f) = c"
  by (simp add: entry_def)

lemma config_codes_any: "map entryCode (CONFIG_TABLE F) = config_codes"
  unfolding config_codes_def CONFIG_TABLE_def list.map entryCode_entry by (rule refl)

lemma config_codes_ordered: "sorted config_codes \<and> distinct config_codes"
proof -
  have "successively (<) config_codes" by code_simp
  then have "sorted_wrt (<) config_codes" by (simp add: successively_conv_sorted_wrt transp_on_less)
  then show ?thesis by (simp add: strict_sorted_iff)
qed

lemma FindConfig_find: "FindConfig F code = List.find (\<lambda>e. entryCode e = code) (CONFIG_TABLE F)"
  using sorted_lookup [of "CONFIG_TABLE F" code] config_codes_ordered
  by (simp add: FindConfig_def config_codes_any Let_def)

lemma FindConfig_Some_iff: "FindConfig F code = Some e \<longleftrightarrow> e \<in> set (CONFIG_TABLE F) \<and> entryCode e = code"
  using config_codes_ordered by (simp add: FindConfig_find config_codes_any find_distinct)

lemma FindConfig_None_iff: "FindConfig F code = None \<longleftrightarrow> code \<notin> set config_codes"
  unfolding FindConfig_find find_None_iff config_codes_any [of F, symmetric] by auto

end
