(* ===== verification/Bundle_Queries.thy ===== *)
theory Bundle_Queries
  imports Query_Serializers
begin

text \<open>
  \<open>installed_bundle_info_list_query.cpp\<close>: what the bundle manager knows of the installed bundles, converted for the
  administrator. The structures of the bundle manager are records with the fields that are read.
\<close>

unbundle bit_operations_syntax

subsection \<open>The structures\<close>

record bundle_resource =
  rsId :: int
  rsBundleName :: string
  rsModuleName :: string

record app_flags =
  apRemovable :: bool
  apIsSystemApp :: bool
  apDebug :: bool
  apUserDataClearable :: bool
  apEnabled :: bool

record app_numbers =
  apAccessTokenId :: int
  apIconId :: int
  apLabelId :: int
  apDescriptionId :: int
  apUid :: int
  apAppIndex :: int

record app_texts =
  apName :: string
  apDescription :: string
  apLabel :: string
  apIcon :: string
  apProcess :: string
  apCodePath :: string
  apAppDistributionType :: string
  apAppProvisionType :: string
  apNativeLibraryPath :: string
  apInstallSource :: string
  apApiReleaseType :: string

text \<open>The fields of \<open>ApplicationInfo\<close> and \<open>EdmApplicationInfo\<close> by type; \<open>apIcon\<close> is \<open>iconPath\<close> in the first. Only the second
  has the data of the icon.\<close>

record bms_application =
  bmFlags :: app_flags
  bmNumbers :: app_numbers
  bmTexts :: app_texts
  bmIconResource :: bundle_resource
  bmLabelResource :: bundle_resource
  bmDescriptionResource :: bundle_resource

record edm_application = bms_application +
  bmIconData :: string

record signature_info =
  sgAppId :: string
  sgFingerprint :: string
  sgAppIdentifier :: string
  sgCertificate :: string

record bundle_head =
  bdVersionCode :: u32
  bdMinCompatibleVersionCode :: u32
  bdTargetVersion :: u32
  bdAppIndex :: int
  bdInstallTime :: int
  bdUpdateTime :: int
  bdFirstInstallTime :: int
  bdName :: string
  bdVendor :: string
  bdVersionName :: string

record bms_bundle =
  bbHead :: bundle_head
  bbSignature :: signature_info
  bbApplication :: bms_application

record edm_bundle =
  ebHead :: bundle_head
  ebSignature :: signature_info
  ebApplication :: edm_application

record bundle_resource_info =
  brBundleName :: string
  brAppIndex :: int
  brLabel :: string
  brIcon :: string

text \<open>Default-constructed values.\<close>

definition EdmSignatureInfo0 :: signature_info where
  "EdmSignatureInfo0 = \<lparr> sgAppId = [], sgFingerprint = [], sgAppIdentifier = [], sgCertificate = [] \<rparr>"

definition EdmResource0 :: bundle_resource where
  "EdmResource0 = \<lparr> rsId = 0, rsBundleName = [], rsModuleName = [] \<rparr>"

definition EdmApplicationInfo0 :: edm_application where
  "EdmApplicationInfo0 = \<lparr>
     bmFlags = \<lparr> apRemovable = True, apIsSystemApp = False, apDebug = False, apUserDataClearable = True, apEnabled = False \<rparr>,
     bmNumbers = \<lparr> apAccessTokenId = 0, apIconId = 0, apLabelId = 0, apDescriptionId = 0, apUid = -1, apAppIndex = 0 \<rparr>,
     bmTexts = \<lparr> apName = [], apDescription = [], apLabel = [], apIcon = [], apProcess = [], apCodePath = [],
       apAppDistributionType = ''none'', apAppProvisionType = ''release'', apNativeLibraryPath = [], apInstallSource = [],
       apApiReleaseType = [] \<rparr>,
     bmIconResource = EdmResource0, bmLabelResource = EdmResource0, bmDescriptionResource = EdmResource0, bmIconData = [] \<rparr>"

subsection \<open>Conversion\<close>

abbreviation (input) WITH_APPLICATION_INFO :: u32 where "WITH_APPLICATION_INFO \<equiv> 1"
abbreviation (input) WITH_SIGNATURE_INFO :: u32 where "WITH_SIGNATURE_INFO \<equiv> 2"
abbreviation (input) WITH_APPLICATION_ICON_INFO :: u32 where "WITH_APPLICATION_ICON_INFO \<equiv> 4"

definition ConvertResourceInfo :: "bundle_resource \<Rightarrow> bundle_resource" where
  "ConvertResourceInfo r = \<lparr> rsId = rsId r, rsBundleName = rsBundleName r, rsModuleName = rsModuleName r \<rparr>"

definition ConvertSignatureInfo :: "signature_info \<Rightarrow> signature_info" where
  "ConvertSignatureInfo s = \<lparr> sgAppId = sgAppId s, sgFingerprint = sgFingerprint s, sgAppIdentifier = sgAppIdentifier s,
     sgCertificate = sgCertificate s \<rparr>"

definition ConvertApplicationInfo :: "bms_application \<Rightarrow> edm_application" where
  "ConvertApplicationInfo a = \<lparr> bmFlags = bmFlags a, bmNumbers = bmNumbers a, bmTexts = bmTexts a,
     bmIconResource = ConvertResourceInfo (bmIconResource a), bmLabelResource = ConvertResourceInfo (bmLabelResource a),
     bmDescriptionResource = ConvertResourceInfo (bmDescriptionResource a), bmIconData = [] \<rparr>"

definition ConvertBundleInfoListItem :: "u32 \<Rightarrow> bms_bundle \<Rightarrow> edm_bundle" where
  "ConvertBundleInfoListItem flag b = \<lparr> ebHead = bbHead b,
     ebSignature = (if flag AND WITH_SIGNATURE_INFO \<noteq> 0 then ConvertSignatureInfo (bbSignature b) else EdmSignatureInfo0),
     ebApplication = (if flag AND WITH_APPLICATION_INFO \<noteq> 0 then ConvertApplicationInfo (bbApplication b) else EdmApplicationInfo0) \<rparr>"

definition ConvertBundleInfoListData :: "u32 \<Rightarrow> bms_bundle list \<Rightarrow> edm_bundle list" where
  "ConvertBundleInfoListData flag bs = map (ConvertBundleInfoListItem flag) bs"

definition resource_key :: "string \<Rightarrow> int \<Rightarrow> string" where
  "resource_key name i = name @ ''_'' @ int_to_string i"

text \<open>\<open>sourceMap\<close> keeps the last resource of a key.\<close>

definition AssembleBundleResourceInfo :: "bundle_resource_info list \<Rightarrow> edm_bundle list \<Rightarrow> edm_bundle list" where
  "AssembleBundleResourceInfo resources bundles =
     (let sourceMap = map_of (rev (map (\<lambda>r. (resource_key (brBundleName r) (brAppIndex r), (brLabel r, brIcon r))) resources))
      in map (\<lambda>b. case sourceMap (resource_key (bdName (ebHead b)) (bdAppIndex (ebHead b))) of
           None \<Rightarrow> b
         | Some (label, icon) \<Rightarrow> b\<lparr>ebApplication := (ebApplication b)\<lparr>bmTexts := (bmTexts (ebApplication b))\<lparr>apLabel := label\<rparr>,
              bmIconData := icon\<rparr>\<rparr>) bundles)"

end
