(* ===== verification/Policy_Queries.thy ===== *)
theory Policy_Queries
  imports Policy_Query_Config Bundle_Queries
begin

text \<open>
  The query classes of \<open>services/edm/src/query_policy\<close>: how a stored policy, or a value of the system, becomes the reply of a
  query. A query object is the record of its virtual methods.
\<close>

subsection \<open>The outside of a query\<close>

datatype reply_item = RInt32 int | RUint32 nat | RInt64 int | RBool bool | RString string | RStrings "string list"
  | RInt32s "int list" | RRawData string | RBundles "edm_bundle list" | RAshmem "edm_bundle list"

datatype permission_state = PERMISSION_GRANTED | PERMISSION_DENIED_STATE | PERMISSION_OPER

text \<open>Reading the request, writing the reply and asking the system. A read that fails is \<open>None\<close>; where the code
  ignores that, the value is 0 or the empty string. \<open>qs_ERR_INVALID_VALUE\<close> is the error of the base headers.\<close>

record 'w query_services =
  qs_ReadInt32 :: "'w \<Rightarrow> int option \<times> 'w"
  qs_ReadUint32 :: "'w \<Rightarrow> nat option \<times> 'w"
  qs_ReadInt64 :: "'w \<Rightarrow> int option \<times> 'w"
  qs_ReadString :: "'w \<Rightarrow> string option \<times> 'w"
  qs_ReadStringVector :: "'w \<Rightarrow> string list option \<times> 'w"
  qs_Write :: "reply_item \<Rightarrow> 'w \<Rightarrow> bool \<times> 'w"
  qs_GetParameter :: "string \<Rightarrow> string \<Rightarrow> 'w \<Rightarrow> string"
  qs_StrToInt :: "string \<Rightarrow> int option"
  qs_GetDisplayVersion :: "'w \<Rightarrow> string option"
  qs_GetSecurityPatchTag :: "'w \<Rightarrow> string option"
  qs_GetCurrentUserId :: "'w \<Rightarrow> user_id"
  qs_GetTokenId :: "string \<Rightarrow> user_id \<Rightarrow> 'w \<Rightarrow> int"
  qs_GetSettingsData :: "string \<Rightarrow> string \<Rightarrow> 'w \<Rightarrow> string option"
  qs_IsOsAccountConstraintEnable :: "user_id \<Rightarrow> string \<Rightarrow> 'w \<Rightarrow> bool option"
  qs_ConstraintByDeviceOwner :: "user_id \<Rightarrow> string \<Rightarrow> 'w \<Rightarrow> bool list option"
  qs_BatchGetBundleStats :: "string list \<Rightarrow> user_id \<Rightarrow> 'w \<Rightarrow> (string \<times> int list) list option"
  qs_GetAccessTokenId :: "user_id \<Rightarrow> string \<Rightarrow> int \<Rightarrow> 'w \<Rightarrow> int option"
  qs_GetPermissionFlag :: "int \<Rightarrow> string \<Rightarrow> 'w \<Rightarrow> u32 option"
  qs_VerifyAccessToken :: "int \<Rightarrow> string \<Rightarrow> 'w \<Rightarrow> permission_state"
  qs_QueryBundleStats :: "int \<Rightarrow> int \<Rightarrow> user_id \<Rightarrow> 'w \<Rightarrow> (string \<times> int \<times> int) list option"
  qs_GetAppIdByCallingUid :: "'w \<Rightarrow> string option"
  qs_EnsurePasswordDir :: "'w \<Rightarrow> 'w"
  qs_LoadPasswordConfig :: "'w \<Rightarrow> string option"
  qs_GetBundleInfos :: "u32 \<Rightarrow> user_id \<Rightarrow> 'w \<Rightarrow> bms_bundle list option"
  qs_GetBundleResources :: "u32 \<Rightarrow> 'w \<Rightarrow> bundle_resource_info list option"
  qs_ParcelSize :: "edm_bundle list \<Rightarrow> nat option"
  qs_ERR_INVALID_VALUE :: err_code
  qs_json :: cjson

definition read_or_zero :: "('w \<Rightarrow> int option \<times> 'w) \<Rightarrow> 'w \<Rightarrow> int \<times> 'w" where
  "read_or_zero f w = (let (v, w) = f w in (case v of None \<Rightarrow> 0 | Some n \<Rightarrow> n, w))"

definition read_or_empty :: "('w \<Rightarrow> string option \<times> 'w) \<Rightarrow> 'w \<Rightarrow> string \<times> 'w" where
  "read_or_empty f w = (let (v, w) = f w in (case v of None \<Rightarrow> [] | Some s \<Rightarrow> s, w))"

text \<open>Writes whose result is ignored, and writes that stop at the first failure.\<close>

definition reply :: "'w query_services \<Rightarrow> reply_item list \<Rightarrow> 'w \<Rightarrow> 'w" where
  "reply Q items w = fold (\<lambda>i w. snd (qs_Write Q i w)) items w"

fun write_all :: "'w query_services \<Rightarrow> reply_item list \<Rightarrow> 'w \<Rightarrow> bool \<times> 'w" where
  "write_all Q [] w = (True, w)"
| "write_all Q (i # is) w = (let (ok, w) = qs_Write Q i w in if ok then write_all Q is w else (False, w))"

subsection \<open>The interface\<close>

text \<open>\<open>qQueryPolicy\<close> gets the stored policy, the user and whether no administrator is named.\<close>

record 'w policy_query =
  qApiType :: api_type
  qPolicyName :: string
  qPermission :: "permission_type \<Rightarrow> string \<Rightarrow> string"
  qPolicySaved :: bool
  qQueryPolicy :: "string \<Rightarrow> user_id \<Rightarrow> bool \<Rightarrow> 'w \<Rightarrow> err_code \<times> 'w"

text \<open>A class that overrides neither \<open>GetApiType\<close> nor \<open>IsPolicySaved\<close>.\<close>

definition IPolicyQuery :: "string \<Rightarrow> string \<Rightarrow> (string \<Rightarrow> user_id \<Rightarrow> bool \<Rightarrow> 'w \<Rightarrow> err_code \<times> 'w) \<Rightarrow> 'w policy_query" where
  "IPolicyQuery name perm query = \<lparr> qApiType = API_PUBLIC, qPolicyName = name, qPermission = (\<lambda>_ _. perm), qPolicySaved = True,
     qQueryPolicy = query \<rparr>"

definition GetBoolPolicy :: "'w query_services \<Rightarrow> string \<Rightarrow> 'w \<Rightarrow> err_code \<times> 'w" where
  "GetBoolPolicy Q polText w = (ERR_OK, reply Q [RInt32 ERR_OK, RBool (polText = ''true'')] w)"

definition GetIntPolicy :: "'w query_services \<Rightarrow> string \<Rightarrow> 'w \<Rightarrow> err_code \<times> 'w" where
  "GetIntPolicy Q polText w =
     (let (_, policy) = Int_Deserialize polText 0
      in (ERR_OK, reply Q [RInt32 ERR_OK, RInt32 (sint policy)] w))"

definition GetArrayStringPolicy :: "'w query_services \<Rightarrow> string \<Rightarrow> 'w \<Rightarrow> err_code \<times> 'w" where
  "GetArrayStringPolicy Q polText w =
     (let (_, policy) = ArrayString_Deserialize (qs_json Q) polText []
      in (ERR_OK, reply Q [RInt32 ERR_OK, RStrings policy] w))"

subsection \<open>Queries that are configured only\<close>

definition Generic_QueryPolicy :: "'w query_services \<Rightarrow> policy_data_type \<Rightarrow> string \<Rightarrow> 'w \<Rightarrow> err_code \<times> 'w" where
  "Generic_QueryPolicy Q dataType polText w =
     (case dataType of
        DT_BOOL \<Rightarrow> GetBoolPolicy Q polText w
      | DT_ARRAY_STRING \<Rightarrow> GetArrayStringPolicy Q polText w
      | DT_INT \<Rightarrow> GetIntPolicy Q polText w
      | DT_STRING \<Rightarrow> (ERR_OK, reply Q [RInt32 ERR_OK, RString polText] w)
      | DT_CUSTOM \<Rightarrow> (qs_ERR_INVALID_VALUE Q, w))"

definition GenericPolicyQuery :: "'w query_services \<Rightarrow> query_config \<Rightarrow> 'w policy_query" where
  "GenericPolicyQuery Q config = \<lparr> qApiType = cfApiType config, qPolicyName = cfPolicyName config,
     qPermission = Config_GetPermission (cfPermission config), qPolicySaved = cfPolicySaved config,
     qQueryPolicy = (\<lambda>polText _ _. Generic_QueryPolicy Q (cfDataType config) polText) \<rparr>"

subsection \<open>Lists\<close>

definition AllowedAppDistributionTypesQuery :: "'w query_services \<Rightarrow> 'w policy_query" where
  "AllowedAppDistributionTypesQuery Q = IPolicyQuery POLICY_ALLOWED_INSTALL_APP_TYPE PERMISSION_ENTERPRISE_SET_BUNDLE_INSTALL_POLICY
     (\<lambda>polText _ _ w. let (_, policy) = ArrayInt_Deserialize (qs_json Q) polText []
        in (ERR_OK, reply Q [RInt32 ERR_OK, RInt32s policy] w))"

text \<open>Without an entry for the account no vector is written.\<close>

definition AllowedNotificationBundlesQuery :: "'w query_services \<Rightarrow> 'w policy_query" where
  "AllowedNotificationBundlesQuery Q = IPolicyQuery POLICY_ALLOWED_NOTIFICATION_BUNDLES PERMISSION_ENTERPRISE_MANAGE_APPLICATION
     (\<lambda>polText _ _ w.
        let (ok, policies) = NotificationBundles_Deserialize (qs_json Q) polText [] in
        if \<not> ok then (SYSTEM_ABNORMALLY, w)
        else (let (accountId, w) = read_or_zero (qs_ReadInt32 Q) w in
              if accountId < 0 then (PARAMETER_VERIFICATION_FAILED, w)
              else (ERR_OK, reply Q (RInt32 ERR_OK # (case List.find (\<lambda>b. nbUserId b = accountId) policies of
                None \<Rightarrow> [] | Some b \<Rightarrow> [RStrings (trustList b)])) w)))"

definition WriteRawDataToParcel :: "'w query_services \<Rightarrow> odd_burn_device list \<Rightarrow> 'w \<Rightarrow> bool \<times> 'w" where
  "WriteRawDataToParcel Q devices w =
     (let (ok, text) = ArrayOddBurn_Serialize (qs_json Q) devices [] in
      if \<not> ok then (False, w)
      else write_all Q (RInt32 (int (length text)) # (if text = [] then [] else [RRawData text])) w)"

definition AllowedOddBurnUsbDevicesQuery :: "'w query_services \<Rightarrow> 'w policy_query" where
  "AllowedOddBurnUsbDevicesQuery Q = IPolicyQuery POLICY_ALLOWED_ODD_BURN_USB_DEVICES PERMISSION_ENTERPRISE_MANAGE_USB
     (\<lambda>polText _ _ w.
        let (ok, devices) = ArrayOddBurn_Deserialize (qs_json Q) polText in
        if \<not> ok then (EXECUTE_TIME_OUT, w)
        else (let (ok, w) = WriteRawDataToParcel Q devices (reply Q [RInt32 ERR_OK] w)
              in (if ok then ERR_OK else EXECUTE_TIME_OUT, w)))"

definition IsAllowedOddBurnQuery :: "'w query_services \<Rightarrow> 'w policy_query" where
  "IsAllowedOddBurnQuery Q = IPolicyQuery POLICY_ALLOWED_ODD_BURN_USB_DEVICES PERMISSION_ENTERPRISE_MANAGE_USB
     (\<lambda>polText _ _ w.
        let (vendorId, w) = read_or_zero (qs_ReadInt32 Q) w;
            (productId, w) = read_or_zero (qs_ReadInt32 Q) w;
            (serial, w) = read_or_empty (qs_ReadString Q) w;
            (ok, devices) = ArrayOddBurn_Deserialize (qs_json Q) polText in
        if \<not> ok then (SYSTEM_ABNORMALLY, reply Q [RInt32 SYSTEM_ABNORMALLY] w)
        else (ERR_OK, reply Q [RInt32 ERR_OK, RBool (devices = [] \<or>
          list_ex (\<lambda>(v, p, s). v = vendorId \<and> p = productId \<and> (s = [] \<or> s = serial)) devices)] w))"

definition WriteApplicationInstance :: "application_instance \<Rightarrow> reply_item list" where
  "WriteApplicationInstance a = [RString (apIdentifier a), RString (apBundleName a), RInt32 (apAccountId a), RInt32 (apIndex a)]"

text \<open>The write of the vector stops at the first failure, which the query ignores; so does it a text that is not accepted.\<close>

definition AllowedPermissionBundleQuery :: "'w query_services \<Rightarrow> 'w policy_query" where
  "AllowedPermissionBundleQuery Q = IPolicyQuery POLICY_ALLOWED_PERMISSION_BUNDLE PERMISSION_ENTERPRISE_MANAGE_SECURITY
     (\<lambda>polText _ _ w.
        let (permissionName, w) = qs_ReadString Q w in
        if permissionName = None \<or> permissionName = Some [] then (PARAMETER_VERIFICATION_FAILED, w)
        else (let (_, policyMap) = PermissionBundles_Deserialize (qs_json Q) polText [];
                  appList = (case map_of policyMap (the permissionName) of None \<Rightarrow> [] | Some l \<Rightarrow> l)
              in (ERR_OK, snd (write_all Q (RUint32 (length appList) # concat (map WriteApplicationInstance appList))
                   (reply Q [RInt32 ERR_OK] w)))))"

definition AllowedUsbDevicesQuery :: "'w query_services \<Rightarrow> 'w policy_query" where
  "AllowedUsbDevicesQuery Q = IPolicyQuery POLICY_ALLOWED_USB_DEVICES PERMISSION_ENTERPRISE_MANAGE_USB
     (\<lambda>polText _ _ w.
        let (ok, devices) = ArrayUsbDeviceId_Deserialize (qs_json Q) polText in
        if \<not> ok then (SYSTEM_ABNORMALLY, w)
        else (let (ok, w) = write_all Q (concat (map (\<lambda>(v, p). [RInt32 v, RInt32 p]) devices))
                    (reply Q [RInt32 ERR_OK, RUint32 (length devices)] w)
              in (if ok then ERR_OK else SYSTEM_ABNORMALLY, w)))"

definition QueryWifiListPolicy :: "'w query_services \<Rightarrow> string \<Rightarrow> 'w \<Rightarrow> err_code \<times> 'w" where
  "QueryWifiListPolicy Q polText w =
     (let (ok, wifiIds) = ArrayWifiId_Deserialize (qs_json Q) polText [] in
      if \<not> ok then (SYSTEM_ABNORMALLY, w)
      else (let (ok, w) = write_all Q (concat (map (\<lambda>(s, b). [RString s, RString b]) wifiIds))
                  (reply Q [RInt32 ERR_OK, RUint32 (length wifiIds)] w)
            in (if ok then ERR_OK else SYSTEM_ABNORMALLY, w)))"

definition AllowedWifiListQuery :: "'w query_services \<Rightarrow> 'w policy_query" where
  "AllowedWifiListQuery Q = IPolicyQuery POLICY_ALLOWED_WIFI_LIST PERMISSION_ENTERPRISE_MANAGE_WIFI
     (\<lambda>polText _ _. QueryWifiListPolicy Q polText)"

definition DisallowedWifiListQuery :: "'w query_services \<Rightarrow> 'w policy_query" where
  "DisallowedWifiListQuery Q = IPolicyQuery POLICY_DISALLOWED_WIFI_LIST PERMISSION_ENTERPRISE_MANAGE_WIFI
     (\<lambda>polText _ _. QueryWifiListPolicy Q polText)"

definition IsAppKioskAllowedQuery :: "'w query_services \<Rightarrow> 'w policy_query" where
  "IsAppKioskAllowedQuery Q = IPolicyQuery POLICY_ALLOWED_KIOSK_APPS []
     (\<lambda>polText _ _ w.
        let (appIdentifier, w) = read_or_empty (qs_ReadString Q) w;
            (_, appIdentifierList) = ArrayString_Deserialize (qs_json Q) polText []
        in (ERR_OK, reply Q [RInt32 ERR_OK, RBool (appIdentifier \<in> set appIdentifierList)] w))"

definition GetWatermarkImageAppsQuery :: "'w query_services \<Rightarrow> 'w policy_query" where
  "GetWatermarkImageAppsQuery Q = IPolicyQuery POLICY_WATERMARK_IMAGE_POLICY PERMISSION_ENTERPRISE_MANAGE_SECURITY
     (\<lambda>polText _ _ w.
        let (ok, watermarkData) = Watermark_Deserialize (qs_json Q) polText [] in
        if \<not> ok then (PARAMETER_VERIFICATION_FAILED, reply Q [RInt32 PARAMETER_VERIFICATION_FAILED] w)
        else (let (accountId, w) = read_or_zero (qs_ReadInt32 Q) w in
              if accountId \<le> 0 then (PARAMETER_VERIFICATION_FAILED, reply Q [RInt32 PARAMETER_VERIFICATION_FAILED] w)
              else (ERR_OK, reply Q [RInt32 ERR_OK,
                RStrings (map (\<lambda>((b, _), _). b) (filter (\<lambda>((_, a), _). a = accountId) watermarkData))] w)))"

definition TelephonyCallPolicyQuery :: "'w query_services \<Rightarrow> 'w policy_query" where
  "TelephonyCallPolicyQuery Q = IPolicyQuery POLICY_TELEPHONY_CALL_POLICY PERMISSION_ENTERPRISE_MANAGE_TELEPHONY
     (\<lambda>polText _ _ w.
        let (callType, w) = read_or_empty (qs_ReadString Q) w;
            (flag, w) = read_or_zero (qs_ReadInt32 Q) w;
            (ok, policies) = Telephony_Deserialize (qs_json Q) polText [] in
        if \<not> ok then (SYSTEM_ABNORMALLY, w)
        else (ERR_OK, reply Q [RInt32 ERR_OK, (case map_of policies callType of
            None \<Rightarrow> RInt32 0
          | Some p \<Rightarrow> (if flag = tpPolicyFlag p then RStrings (tpNumberList p) else RInt32 0))] w))"

end
