(* ===== verification/System_Queries.thy ===== *)
theory System_Queries
  imports Policy_Queries
begin

text \<open>
  The query classes of \<open>services/edm/src/query_policy\<close> that look beyond the stored policy: the tokens of the clipboard, the
  configuration of the device, the bundles, their permissions and their use.
\<close>

unbundle bit_operations_syntax

subsection \<open>Clipboard and fingerprints\<close>

abbreviation (input) CLIPBOARD_GET_HAS_TOKEN_ID :: int where "CLIPBOARD_GET_HAS_TOKEN_ID \<equiv> 3"
abbreviation (input) CLIPBOARD_GET_HAS_BUNDLE_NAME :: int where "CLIPBOARD_GET_HAS_BUNDLE_NAME \<equiv> 4"

text \<open>The entry of one token, under the key of the reply; the default one keeps the request's bundle and user.\<close>

definition clipboard_entry :: "'w query_services \<Rightarrow> (int, clipboard_info) amap \<Rightarrow> int \<Rightarrow> int \<Rightarrow> clipboard_info \<Rightarrow> string \<Rightarrow> string" where
  "clipboard_entry Q policyMap tokenId key info polText =
     snd (Clipboard_Serialize (qs_json Q) [(key, case map_of policyMap tokenId of None \<Rightarrow> info\<lparr>cbPolicy := 0\<rparr> | Some i \<Rightarrow> i)] polText)"

definition ClipboardPolicyQuery :: "'w query_services \<Rightarrow> 'w policy_query" where
  "ClipboardPolicyQuery Q = IPolicyQuery POLICY_CLIPBOARD_POLICY PERMISSION_ENTERPRISE_MANAGE_SECURITY
     (\<lambda>polText _ _ w.
        let (ok, policyMap) = Clipboard_Deserialize (qs_json Q) polText [] in
        if \<not> ok then (SYSTEM_ABNORMALLY, w)
        else (let (flag, w) = read_or_zero (qs_ReadInt32 Q) w;
                  (policy, w) =
                    (if flag = CLIPBOARD_GET_HAS_TOKEN_ID then
                       (let (tokenId, w) = read_or_zero (qs_ReadInt32 Q) w
                        in (clipboard_entry Q policyMap tokenId tokenId ClipboardInfo0 polText, w))
                     else if flag = CLIPBOARD_GET_HAS_BUNDLE_NAME then
                       (let (bundleName, w) = read_or_empty (qs_ReadString Q) w;
                            (user, w) = read_or_zero (qs_ReadInt32 Q) w;
                            tokenId = qs_GetTokenId Q bundleName user w
                        in (clipboard_entry Q policyMap tokenId (-1)
                              (ClipboardInfo0\<lparr>cbBundleName := bundleName, cbUserId := user\<rparr>) polText, w))
                     else (polText, w))
              in (ERR_OK, reply Q [RInt32 ERR_OK, RString policy] w)))"

definition FingerprintPolicy0 :: fingerprint_policy where
  "FingerprintPolicy0 = \<lparr> globalDisallow = False, fpAccountIds = [] \<rparr>"

definition FingerprintAuthQuery :: "'w query_services \<Rightarrow> 'w policy_query" where
  "FingerprintAuthQuery Q = IPolicyQuery POLICY_FINGERPRINT_AUTH PERMISSION_ENTERPRISE_MANAGE_RESTRICTIONS
     (\<lambda>polText _ _ w.
        let (_, policy) = Fingerprint_Deserialize (qs_json Q) polText FingerprintPolicy0;
            (type, w) = read_or_empty (qs_ReadString Q) w;
            (isDisallow, w) =
              (if type = ''fingerprintAuth'' then (globalDisallow policy, w)
               else if type = ''disallowForAccount'' then
                 (let (accountId, w) = read_or_zero (qs_ReadInt32 Q) w in (accountId \<in> set (fpAccountIds policy), w))
               else (False, w))
        in (ERR_OK, reply Q [RInt32 ERR_OK, RBool isDisallow] w))"

subsection \<open>The device\<close>

definition DeviceSecurityLevelPolicyQuery :: "'w query_services \<Rightarrow> 'w policy_query" where
  "DeviceSecurityLevelPolicyQuery Q = IPolicyQuery POLICY_DEVICE_SECURITY_LEVEL_POLICY PERMISSION_ENTERPRISE_MANAGE_SECURITY
     (\<lambda>_ _ _ w. case qs_StrToInt Q (qs_GetParameter Q ''persist.edm.dsl.config'' ''0'' w) of
        None \<Rightarrow> (PARAMETER_VERIFICATION_FAILED, w)
      | Some policy \<Rightarrow> (ERR_OK, reply Q [RInt32 ERR_OK, RInt32 (if policy < 0 \<or> policy > 2 then 0 else policy)] w))"

definition GetAutoUnlockAfterRebootQuery :: "'w query_services \<Rightarrow> 'w policy_query" where
  "GetAutoUnlockAfterRebootQuery Q = IPolicyQuery POLICY_SET_AUTO_UNLOCK_AFTER_REBOOT PERMISSION_ENTERPRISE_MANAGE_SYSTEM
     (\<lambda>polText _ _. GetBoolPolicy Q polText)"

definition GetDeviceEncryptionStatusQuery :: "'w query_services \<Rightarrow> 'w policy_query" where
  "GetDeviceEncryptionStatusQuery Q = IPolicyQuery POLICY_GET_DEVICE_ENCRYPTION_STATUS PERMISSION_ENTERPRISE_MANAGE_SECURITY
     (\<lambda>_ _ _ w. (ERR_OK, reply Q [RInt32 ERR_OK, RBool (qs_GetParameter Q ''fscrypt.policy.config'' [] w \<noteq> [])] w))"

text \<open>A string of the system, a null pointer where it is missing.\<close>

definition reply_text :: "'w query_services \<Rightarrow> string option \<Rightarrow> 'w \<Rightarrow> err_code \<times> 'w" where
  "reply_text Q text w =
     (case text of None \<Rightarrow> (SYSTEM_ABNORMALLY, w) | Some t \<Rightarrow> (ERR_OK, reply Q [RInt32 ERR_OK, RString t] w))"

definition GetDisplayVersionQuery :: "'w query_services \<Rightarrow> 'w policy_query" where
  "GetDisplayVersionQuery Q = (IPolicyQuery POLICY_GET_DISPLAY_VERSION PERMISSION_ENTERPRISE_GET_DEVICE_INFO
     (\<lambda>_ _ _ w. reply_text Q (qs_GetDisplayVersion Q w) w))\<lparr>qApiType := API_SYSTEM\<rparr>"

definition GetSecurityPatchTagQuery :: "'w query_services \<Rightarrow> 'w policy_query" where
  "GetSecurityPatchTagQuery Q = IPolicyQuery POLICY_GET_SECURITY_PATCH_TAG PERMISSION_ENTERPRISE_MANAGE_SECURITY
     (\<lambda>_ _ _ w. reply_text Q (qs_GetSecurityPatchTag Q w) w)"

definition LocationPolicyQuery :: "'w query_services \<Rightarrow> 'w policy_query" where
  "LocationPolicyQuery Q = IPolicyQuery POLICY_LOCATION_POLICY PERMISSION_ENTERPRISE_MANAGE_LOCATION
     (\<lambda>_ _ _ w. let res = qs_GetParameter Q ''persist.edm.location_policy'' [] w in
        if res = ''none'' then (ERR_OK, reply Q [RInt32 ERR_OK, RInt32 0] w)
        else if res = ''disallow'' then (ERR_OK, reply Q [RInt32 ERR_OK, RInt32 1] w)
        else if res = ''force_open'' then (ERR_OK, reply Q [RInt32 ERR_OK, RInt32 2] w)
        else (SYSTEM_ABNORMALLY, reply Q [RInt32 SYSTEM_ABNORMALLY] w))"

definition NTPServerQuery :: "'w query_services \<Rightarrow> 'w policy_query" where
  "NTPServerQuery Q = IPolicyQuery POLICY_NTP_SERVER PERMISSION_ENTERPRISE_MANAGE_SYSTEM
     (\<lambda>_ _ _ w. (ERR_OK, reply Q [RInt32 ERR_OK, RString (qs_GetParameter Q ''persist.time.ntpserver_specific'' [] w)] w))"

subsection \<open>Passwords\<close>

text \<open>The configuration is read when the helper is made and, where that gave nothing, once more.\<close>

definition GetPasswordPolicy :: "'w query_services \<Rightarrow> 'w \<Rightarrow> bool \<times> password_policy" where
  "GetPasswordPolicy Q w =
     (case qs_LoadPasswordConfig Q w of
        None \<Rightarrow> (True, PasswordPolicy0)
      | Some text \<Rightarrow>
          (case cj_parse (qs_json Q) text of
             None \<Rightarrow> (False, PasswordPolicy0)
           | Some root \<Rightarrow> (True, \<lparr> complexityReg = (case StringItem root ''complexityReg'' of Some c \<Rightarrow> c | None \<Rightarrow> []),
               validityPeriod = (case NumberItem root ''validityPeriod'' of Some v \<Rightarrow> v | None \<Rightarrow> 0),
               additionalDescription = (case StringItem root ''additionalDescription'' of Some d \<Rightarrow> d | None \<Rightarrow> []),
               passwordAlgs = (case NumberItem root ''pinAlgoType'' of Some a \<Rightarrow> a | None \<Rightarrow> -1) \<rparr>)))"

definition PasswordPolicyQuery :: "'w query_services \<Rightarrow> 'w policy_query" where
  "PasswordPolicyQuery Q = (IPolicyQuery POLICY_PASSWORD_POLICY []
     (\<lambda>polText _ _ w.
        let (without, w) = read_or_zero (qs_ReadInt32 Q) w;
            ((ok, policy), w) =
              (if without = 1 then (let w = qs_EnsurePasswordDir Q w in (GetPasswordPolicy Q w, w))
               else (Password_Deserialize (qs_json Q) polText PasswordPolicy0, w)) in
        if \<not> ok then (SYSTEM_ABNORMALLY, w)
        else (ERR_OK, reply Q [RInt32 ERR_OK, RString (complexityReg policy), RInt64 (validityPeriod policy),
               RString (additionalDescription policy), RInt32 (passwordAlgs policy)] w)))
     \<lparr>qPermission := (\<lambda>_ tag. if tag = ''system'' then [] else PERMISSION_ENTERPRISE_MANAGE_SECURITY)\<rparr>"

subsection \<open>Bundles\<close>

abbreviation (input) POLICIES_MAX_SIZE :: nat where "POLICIES_MAX_SIZE \<equiv> 200"

definition Marshalling_BundleStorageInfo :: "string \<Rightarrow> int \<Rightarrow> int \<Rightarrow> reply_item list" where
  "Marshalling_BundleStorageInfo bundleName appSize dataSize = [RString bundleName, RInt64 appSize, RInt64 dataSize]"

definition AddResultToReply :: "'w query_services \<Rightarrow> (string \<times> int list) list \<Rightarrow> 'w \<Rightarrow> err_code \<times> 'w" where
  "AddResultToReply Q bundleStats w =
     (if length bundleStats > POLICIES_MAX_SIZE then (SYSTEM_ABNORMALLY, w)
      else (ERR_OK, fold (\<lambda>(name, stats) w. snd (write_all Q (case stats of
                appSize # dataSize # _ \<Rightarrow> Marshalling_BundleStorageInfo name appSize dataSize
              | _ \<Rightarrow> Marshalling_BundleStorageInfo name 0 0) w))
            bundleStats (reply Q [RInt32 ERR_OK, RUint32 (length bundleStats)] w)))"

definition GetInstalledBundleStorageStatsQuery :: "'w query_services \<Rightarrow> 'w policy_query" where
  "GetInstalledBundleStorageStatsQuery Q = IPolicyQuery POLICY_BUNDLE_STORAGE_STATS PERMISSION_ENTERPRISE_GET_ALL_BUNDLE_INFO
     (\<lambda>_ userId _ w.
        let (dataSize, w) = qs_ReadUint32 Q w in
        if (case dataSize of None \<Rightarrow> 0 | Some n \<Rightarrow> n) > POLICIES_MAX_SIZE then (PARAMETER_VERIFICATION_FAILED, w)
        else (let (bundles, w) = qs_ReadStringVector Q w in
          case bundles of
            None \<Rightarrow> (PARAMETER_VERIFICATION_FAILED, w)
          | Some bundles \<Rightarrow>
              (if length bundles > POLICIES_MAX_SIZE then (PARAMETER_VERIFICATION_FAILED, w)
               else (case qs_BatchGetBundleStats Q bundles userId w of
                   None \<Rightarrow> (PARAMETER_VERIFICATION_FAILED, w)
                 | Some bundleStats \<Rightarrow> AddResultToReply Q bundleStats w))))"

text \<open>\<open>std::getline\<close> until it fails: no item after the last delimiter.\<close>

fun getlines :: "char \<Rightarrow> string \<Rightarrow> string list" where
  "getlines d [] = []"
| "getlines d (c # cs) =
     (if c = d then [] # getlines d cs
      else if cs = [] then [[c]]
      else if hd cs = d then [c] # getlines d (tl cs)
      else (case getlines d cs of [] \<Rightarrow> [[c]] | l # ls \<Rightarrow> (c # l) # ls))"

definition HideLauncherIcon_QueryPolicy :: "'w query_services \<Rightarrow> string \<Rightarrow> user_id \<Rightarrow> bool \<Rightarrow> 'w \<Rightarrow> err_code \<times> 'w" where
  "HideLauncherIcon_QueryPolicy Q polText userId isAdminNull w =
     (if qs_GetCurrentUserId Q w < 0 then (SYSTEM_ABNORMALLY, reply Q [RInt32 SYSTEM_ABNORMALLY] w)
      else if userId \<noteq> qs_GetCurrentUserId Q w then (PARAMETER_VERIFICATION_FAILED, w)
      else if isAdminNull then
        (case qs_GetSettingsData Q (''datashare:///com.ohos.settingsdata/entry/settingsdata/USER_SETTINGSDATA_''
                @ int_to_string userId @ ''?Proxy=true'') ''com.enterprise.custom_hide_app_list'' w of
           None \<Rightarrow> (SYSTEM_ABNORMALLY, reply Q [RInt32 SYSTEM_ABNORMALLY] w)
         | Some result \<Rightarrow> (ERR_OK, reply Q [RInt32 ERR_OK, RStrings (getlines CHR '','' result)] w))
      else GetArrayStringPolicy Q polText w)"

definition HideLauncherIconQuery :: "'w query_services \<Rightarrow> 'w policy_query" where
  "HideLauncherIconQuery Q = IPolicyQuery POLICY_HIDE_LAUNCHER_ICON PERMISSION_ENTERPRISE_MANAGE_APPLICATION
     (HideLauncherIcon_QueryPolicy Q)"

definition InstallLocalEnterpriceAppEnabledForAccountQuery :: "'w query_services \<Rightarrow> 'w policy_query" where
  "InstallLocalEnterpriceAppEnabledForAccountQuery Q =
     IPolicyQuery POLICY_INSTALL_LOCAL_ENTERPRISE_APP_ENABLED_FOR_ACCOUNT PERMISSION_ENTERPRISE_MANAGE_SYSTEM
     (\<lambda>polText userId isAdminNull w.
        if \<not> isAdminNull then GetBoolPolicy Q polText w
        else (case qs_IsOsAccountConstraintEnable Q userId ''constraint.enterprise.bundles.local.install.disallow'' w of
            None \<Rightarrow> (SYSTEM_ABNORMALLY, reply Q [RInt32 SYSTEM_ABNORMALLY] w)
          | Some False \<Rightarrow> (ERR_OK, reply Q [RInt32 ERR_OK, RBool False] w)
          | Some True \<Rightarrow>
              (case qs_ConstraintByDeviceOwner Q userId ''constraint.enterprise.bundles.local.install.disallow'' w of
                 None \<Rightarrow> (SYSTEM_ABNORMALLY, reply Q [RInt32 SYSTEM_ABNORMALLY] w)
               | Some types \<Rightarrow> (ERR_OK, reply Q [RInt32 ERR_OK, RBool (True \<in> set types)] w))))"

definition InstallLocalEnterpriceAppEnabledQuery :: "'w query_services \<Rightarrow> 'w policy_query" where
  "InstallLocalEnterpriceAppEnabledQuery Q = IPolicyQuery POLICY_SET_INSTALL_LOCAL_ENTERPRISE_APP_ENABLED PERMISSION_ENTERPRISE_MANAGE_SYSTEM
     (\<lambda>polText _ isAdminNull w.
        if \<not> isAdminNull then GetBoolPolicy Q polText w
        else (ERR_OK, reply Q [RInt32 ERR_OK,
               RBool (qs_GetParameter Q ''persist.edm.is_local_install_enable'' ''false'' w = ''true'')] w))"

abbreviation (input) MAX_IPC_RAWDATA_SIZE :: nat where "MAX_IPC_RAWDATA_SIZE \<equiv> 120 * 1024 * 1024"

text \<open>\<open>qs_ParcelSize\<close> is the size of the temporary parcel, \<open>None\<close> when a write to it fails; \<open>RAshmem\<close> stands for the shared memory
  with its creation.\<close>

definition WriteVectorToParcelIntelligent :: "'w query_services \<Rightarrow> edm_bundle list \<Rightarrow> 'w \<Rightarrow> bool \<times> 'w" where
  "WriteVectorToParcelIntelligent Q bundles w =
     (case qs_ParcelSize Q bundles of
        None \<Rightarrow> (False, w)
      | Some dataSize \<Rightarrow> write_all Q [RInt32 (int dataSize), if dataSize > MAX_IPC_RAWDATA_SIZE then RAshmem bundles else RBundles bundles]
          (reply Q [RInt32 ERR_OK] w))"

text \<open>The flags of the bundle manager and of its resources are named by the flags of the request they are derived from.\<close>

definition GetAdditionalResourceInfosData :: "'w query_services \<Rightarrow> u32 \<Rightarrow> edm_bundle list \<Rightarrow> 'w \<Rightarrow> edm_bundle list option" where
  "GetAdditionalResourceInfosData Q flag bundles w =
     (if flag AND WITH_APPLICATION_INFO \<noteq> 0 \<or> flag AND WITH_APPLICATION_ICON_INFO \<noteq> 0 then
        (case qs_GetBundleResources Q (flag AND (WITH_APPLICATION_INFO OR WITH_APPLICATION_ICON_INFO)) w of
           None \<Rightarrow> None | Some resources \<Rightarrow> Some (AssembleBundleResourceInfo resources bundles))
      else Some bundles)"

definition InstalledBundleInfoListQuery :: "'w query_services \<Rightarrow> 'w policy_query" where
  "InstalledBundleInfoListQuery Q = IPolicyQuery POLICY_INSTALLED_BUNDLE_INFO_LIST PERMISSION_ENTERPRISE_GET_ALL_BUNDLE_INFO
     (\<lambda>_ userId _ w.
        let (flag, w) = qs_ReadUint32 Q w;
            flag = (case flag of None \<Rightarrow> 0 | Some n \<Rightarrow> word_of_nat n) in
        case qs_GetBundleInfos Q (flag AND (WITH_APPLICATION_INFO OR WITH_SIGNATURE_INFO)) userId w of
          None \<Rightarrow> (SYSTEM_ABNORMALLY, w)
        | Some [] \<Rightarrow> (ERR_OK, w)
        | Some bundleInfos \<Rightarrow>
            (case GetAdditionalResourceInfosData Q flag (ConvertBundleInfoListData flag bundleInfos) w of
               None \<Rightarrow> (SYSTEM_ABNORMALLY, w)
             | Some bundles \<Rightarrow>
                 (let (ok, w) = WriteVectorToParcelIntelligent Q bundles w in (if ok then ERR_OK else SYSTEM_ABNORMALLY, w))))"

definition PermissionManagedStateQuery :: "'w query_services \<Rightarrow> 'w policy_query" where
  "PermissionManagedStateQuery Q = IPolicyQuery POLICY_PERMISSION_MANAGED_STATE_POLICY PERMISSION_ENTERPRISE_MANAGE_USER_GRANT_PERMISSION
     (\<lambda>_ _ _ w.
        let (appIdentifier, w) = read_or_empty (qs_ReadString Q) w;
            (accountId, w) = read_or_zero (qs_ReadInt32 Q) w;
            (appIndex, w) = read_or_zero (qs_ReadInt32 Q) w;
            (permissionName, w) = read_or_empty (qs_ReadString Q) w in
        case qs_GetAccessTokenId Q accountId appIdentifier appIndex w of
          None \<Rightarrow> (PARAMETER_VERIFICATION_FAILED, w)
        | Some tokenId \<Rightarrow>
            (case qs_GetPermissionFlag Q tokenId permissionName w of
               None \<Rightarrow> (SYSTEM_ABNORMALLY, w)
             | Some flag \<Rightarrow>
                 (if flag AND 128 \<noteq> 0 then
                    (let permissionState = qs_VerifyAccessToken Q tokenId permissionName w in
                     if permissionState = PERMISSION_GRANTED then (ERR_OK, reply Q [RInt32 ERR_OK, RInt32 0] w)
                     else if permissionState = PERMISSION_DENIED_STATE then (ERR_OK, reply Q [RInt32 ERR_OK, RInt32 (-1)] w)
                     else (SYSTEM_ABNORMALLY, w))
                  else (ERR_OK, reply Q [RInt32 ERR_OK, RInt32 1] w))))"

abbreviation (input) ONE_HOUR_MS :: int where "ONE_HOUR_MS \<equiv> 3600000"

definition QueryBundleStatsInfosQuery :: "'w query_services \<Rightarrow> 'w policy_query" where
  "QueryBundleStatsInfosQuery Q = IPolicyQuery POLICY_QUERY_BUNDLE_STATS_INFOS PERMISSION_ENTERPRISE_MANAGE_APPLICATION
     (\<lambda>_ userId _ w.
        let (startTime, w) = qs_ReadInt64 Q w in
        case startTime of None \<Rightarrow> (SYSTEM_ABNORMALLY, w) | Some startTime \<Rightarrow>
        (let (endTime, w) = qs_ReadInt64 Q w in
         case endTime of None \<Rightarrow> (SYSTEM_ABNORMALLY, w) | Some endTime \<Rightarrow>
           (if startTime < 0 \<or> endTime < 0 \<or> startTime > endTime then (PARAMETER_VERIFICATION_FAILED, w)
            else if endTime - startTime < ONE_HOUR_MS then (PARAMETER_VERIFICATION_FAILED, w)
            else (case qs_QueryBundleStats Q startTime endTime userId w of
                None \<Rightarrow> (SYSTEM_ABNORMALLY, w)
              | Some stats \<Rightarrow> (ERR_OK, reply Q (RInt32 ERR_OK # RUint32 (length stats)
                  # concat (map (\<lambda>(name, front, index). [RString name, RInt64 front, RInt32 index]) stats)) w)))))"

definition SetBrowserPoliciesQuery :: "'w query_services \<Rightarrow> 'w policy_query" where
  "SetBrowserPoliciesQuery Q = IPolicyQuery POLICY_SET_BROWSER_POLICIES []
     (\<lambda>polText _ _ w.
        let (appId, w) = read_or_empty (qs_ReadString Q) w in
        case (if appId = [] then qs_GetAppIdByCallingUid Q w else Some appId) of
          None \<Rightarrow> (PARAM_ERROR, reply Q [RInt32 PARAM_ERROR] w)
        | Some appId \<Rightarrow>
            (let (ok, policies) = Cjson_Deserialize (qs_json Q) (if polText = [] then ''{}'' else polText) None in
             if \<not> ok then (SYSTEM_ABNORMALLY, w)
             else (let policy = (case policies of None \<Rightarrow> None | Some j \<Rightarrow> GetObjectItem j appId);
                       retString = (if policy = None then [] else snd (Cjson_Serialize (qs_json Q) policy []))
                   in (ERR_OK, reply Q [RInt32 ERR_OK, RString retString] w))))"

end
