(* ===== verification/Query_Requests.thy ===== *)
theory Query_Requests
  imports System_Queries Ability_Policies
begin

text \<open>
  From the request to the reply: the factory of the queries with its cache (\<open>policy_query_factory.cpp\<close>), the reader
  (\<open>plugin_policy_reader.cpp\<close>), the checks every query shares (\<open>ipolicy_query.cpp\<close>) and the two entries of the service ability.
\<close>

subsection \<open>The factory\<close>

definition CreateGenericQuery :: "'w query_services \<Rightarrow> query_config \<Rightarrow> 'w policy_query" where
  "CreateGenericQuery Q config = GenericPolicyQuery Q config"

definition CreateCustomDeviceInfoQuery :: "'w query_services \<Rightarrow> u32 \<Rightarrow> 'w policy_query option" where
  "CreateCustomDeviceInfoQuery Q code =
     (if code = IC_GET_DISPLAY_VERSION then Some (GetDisplayVersionQuery Q)
      else if code = IC_GET_SECURITY_PATCH_TAG then Some (GetSecurityPatchTagQuery Q)
      else if code = IC_GET_DEVICE_ENCRYPTION_STATUS then Some (GetDeviceEncryptionStatusQuery Q)
      else None)"

text \<open>A case the build leaves out is as if the code were another one.\<close>

definition CreateCustomSecurityQuery :: "build_flags \<Rightarrow> 'w query_services \<Rightarrow> u32 \<Rightarrow> 'w policy_query option" where
  "CreateCustomSecurityQuery F Q code =
     (if code = IC_PASSWORD_POLICY \<and> F ''USERIAM_EDM_ENABLE'' then Some (PasswordPolicyQuery Q)
      else if code = IC_FINGERPRINT_AUTH \<and> F ''USERIAM_EDM_ENABLE'' then Some (FingerprintAuthQuery Q)
      else if code = IC_WATERMARK_IMAGE then Some (GetWatermarkImageAppsQuery Q)
      else if code = IC_PERMISSION_MANAGED_STATE then Some (PermissionManagedStateQuery Q)
      else if code = IC_ALLOWED_PERMISSION_BUNDLE then Some (AllowedPermissionBundleQuery Q)
      else if code = IC_ALLOWED_USB_DEVICES \<and> F ''USB_SERVICE_EDM_ENABLE'' then Some (AllowedUsbDevicesQuery Q)
      else if code = IC_ALLOWED_ODD_BURN_USB_DEVICES \<and> F ''FEATURE_PC_ONLY'' then Some (AllowedOddBurnUsbDevicesQuery Q)
      else if code = IC_IS_ALLOWED_ODD_BURN \<and> F ''FEATURE_PC_ONLY'' then Some (IsAllowedOddBurnQuery Q)
      else if code = IC_DEVICE_SECURITY_LEVEL_POLICY then Some (DeviceSecurityLevelPolicyQuery Q)
      else None)"

definition CreateCustomAppManageQuery :: "build_flags \<Rightarrow> 'w query_services \<Rightarrow> u32 \<Rightarrow> 'w policy_query option" where
  "CreateCustomAppManageQuery F Q code =
     (if code = IC_LOCATION_POLICY \<and> F ''LOCATION_EDM_ENABLE'' then Some (LocationPolicyQuery Q)
      else if code = IC_CLIPBOARD_POLICY \<and> F ''PASTEBOARD_EDM_ENABLE'' then Some (ClipboardPolicyQuery Q)
      else if code = IC_SET_BROWSER_POLICIES then Some (SetBrowserPoliciesQuery Q)
      else if code = IC_TELEPHONY_CALL_POLICY \<and> F ''TELEPHONY_EDM_ENABLE'' then Some (TelephonyCallPolicyQuery Q)
      else if code = IC_GET_BUNDLE_INFO_LIST then Some (InstalledBundleInfoListQuery Q)
      else if code = IC_ALLOWED_INSTALL_APP_TYPE then Some (AllowedAppDistributionTypesQuery Q)
      else if code = IC_ALLOWED_NOTIFICATION_BUNDLES then Some (AllowedNotificationBundlesQuery Q)
      else if code = IC_NTP_SERVER then Some (NTPServerQuery Q)
      else if code = IC_GET_BUNDLE_STORAGE_STATS then Some (GetInstalledBundleStorageStatsQuery Q)
      else if code = IC_QUERY_BUNDLE_STATS_INFOS then Some (QueryBundleStatsInfosQuery Q)
      else if code = IC_ALLOWED_WIFI_LIST \<and> F ''WIFI_EDM_ENABLE'' then Some (AllowedWifiListQuery Q)
      else if code = IC_DISALLOWED_WIFI_LIST \<and> F ''WIFI_EDM_ENABLE'' then Some (DisallowedWifiListQuery Q)
      else None)"

definition CreateCustomOtherQuery :: "build_flags \<Rightarrow> 'w query_services \<Rightarrow> u32 \<Rightarrow> 'w policy_query option" where
  "CreateCustomOtherQuery F Q code =
     (if code = IC_SET_INSTALL_LOCAL_ENTERPRISE_APP_ENABLED \<and> F ''FEATURE_PC_ONLY''
      then Some (InstallLocalEnterpriceAppEnabledQuery Q)
      else if code = IC_INSTALL_LOCAL_ENTERPRISE_APP_ENABLED_FOR_ACCOUNT \<and> F ''FEATURE_PC_ONLY''
      then Some (InstallLocalEnterpriceAppEnabledForAccountQuery Q)
      else if code = IC_SET_AUTO_UNLOCK_AFTER_REBOOT \<and> F ''FEATURE_PC_ONLY'' then Some (GetAutoUnlockAfterRebootQuery Q)
      else if code = IC_POLICY_CODE_END + PC_HIDE_LAUNCHER_ICON \<and> \<not> F ''FEATURE_PC_ONLY'' then Some (HideLauncherIconQuery Q)
      else if code = IC_IS_APP_KIOSK_ALLOWED then Some (IsAppKioskAllowedQuery Q)
      else None)"

definition CreateCustomQuery :: "build_flags \<Rightarrow> 'w query_services \<Rightarrow> u32 \<Rightarrow> 'w policy_query option" where
  "CreateCustomQuery F Q code =
     (case CreateCustomDeviceInfoQuery Q code of Some q \<Rightarrow> Some q | None \<Rightarrow>
     (case CreateCustomSecurityQuery F Q code of Some q \<Rightarrow> Some q | None \<Rightarrow>
     (case CreateCustomAppManageQuery F Q code of Some q \<Rightarrow> Some q | None \<Rightarrow> CreateCustomOtherQuery F Q code)))"

text \<open>The queries that have been made are kept.\<close>

type_synonym 'w query_cache = "u32 \<rightharpoonup> 'w policy_query"

definition CreateQuery :: "build_flags \<Rightarrow> 'w query_services \<Rightarrow> u32 \<Rightarrow> 'w query_cache \<Rightarrow> 'w policy_query option \<times> 'w query_cache" where
  "CreateQuery F Q code queryCache =
     (case queryCache code of
        Some q \<Rightarrow> (Some q, queryCache)
      | None \<Rightarrow>
          (case FindConfig F code of
             None \<Rightarrow> (None, queryCache)
           | Some e \<Rightarrow>
               (let query = (if cfDataType (entryConfig e) = DT_CUSTOM then CreateCustomQuery F Q code
                             else Some (CreateGenericQuery Q (entryConfig e)))
                in (query, case query of None \<Rightarrow> queryCache | Some q \<Rightarrow> queryCache(code \<mapsto> q)))))"

subsection \<open>The checks\<close>

text \<open>The stored policy of an administrator, or the combined one; empty for a query that stores none.\<close>

definition read_stored_policy :: "('s, 'w) service \<Rightarrow> 'w policy_query \<Rightarrow> string \<Rightarrow> user_id \<Rightarrow> ('s, 'w) ability \<Rightarrow> string \<times> ('s, 'w) ability" where
  "read_stored_policy V q bundleName userId A =
     (if qPolicySaved q
      then on_policies (\<lambda>s. let (_, v, s) = PolicyManager_GetPolicy (sv_rdb V) bundleName (qPolicyName q) [] userId s in (v, s)) A
      else ([], A))"

text \<open>Everything after the permission: the stored policy, the query, the report.\<close>

definition query_and_report :: "('s, 'w) service \<Rightarrow> 'w policy_query \<Rightarrow> u32 \<Rightarrow> string \<Rightarrow> string \<Rightarrow> user_id \<Rightarrow> bool \<Rightarrow> ('s, 'w) ability
    \<Rightarrow> err_code \<times> ('s, 'w) ability" where
  "query_and_report V q code bundleName abilityName userId isAdminNull A =
     (let (policyValue, A) = read_stored_policy V q bundleName userId A;
          (getRet, w) = qQueryPolicy q policyValue userId isAdminNull (abWorld A);
          A = A\<lparr>abWorld := w\<rparr>
      in (getRet, perform V (ReportSecurityInfo bundleName abilityName (GetOperateType code) (qPolicyName q)
            (int_to_string getRet) True) A))"

definition IPolicyQuery_GetPolicy :: "('s, 'w) service \<Rightarrow> caller \<Rightarrow> 'w policy_query \<Rightarrow> u32 \<Rightarrow> user_id \<Rightarrow> string \<Rightarrow> ('s, 'w) ability
    \<Rightarrow> err_code \<times> ('s, 'w) ability" where
  "IPolicyQuery_GetPolicy V ca q code userId tag A =
     (let systemCallingCheck = CheckSystemCalling ca (qApiType q) tag in
      if FAILED systemCallingCheck then (systemCallingCheck, A)
      else
        (let (hasAdmin, A) = read_int V A in
         if hasAdmin = 0 then
           (let (el, A) = read_element V A in
            case el of
              None \<Rightarrow> (PARAM_ERROR, A)
            | Some el \<Rightarrow>
                (case GetAdminByPkgName (elBundle el) (GetCurrentUserId ca) (admins_table A) of
                   None \<Rightarrow> (ADMIN_INACTIVE, A)
                 | Some deviceAdmin \<Rightarrow>
                     (let ret = CheckHandlePolicyPermission (sv_pc_only V) ca OP_GET (Some deviceAdmin) (qPolicyName q)
                            (qPermission q (AdminTypeToPermissionType (GetAdminType deviceAdmin)) tag) userId in
                      if FAILED ret then (ret, A)
                      else query_and_report V q code (elBundle el) (elAbility el) userId False A)))
         else if \<not> (CheckElementNullPermission ca code (qPermission q SUPER_DEVICE_ADMIN tag)
                  \<or> CheckElementNullPermission ca code (qPermission q BYOD_DEVICE_ADMIN tag)) then (PERMISSION_DENIED, A)
         else query_and_report V q code [] [] userId True A))"

text \<open>\<open>queryPolicy\<close> is passed on as the boolean \<open>isAdminNull\<close>.\<close>

definition IPolicyQuery_GetPolicyNew :: "('s, 'w) service \<Rightarrow> caller \<Rightarrow> 'w policy_query \<Rightarrow> u32 \<Rightarrow> user_id \<Rightarrow> int \<Rightarrow> ('s, 'w) ability
    \<Rightarrow> err_code \<times> ('s, 'w) ability" where
  "IPolicyQuery_GetPolicyNew V ca q code userId queryPolicy A =
     (if queryPolicy = QUERY_POLICY_SELF then
        (case GetAdminByPkgName (calling_bundle ca) (GetCurrentUserId ca) (admins_table A) of
           None \<Rightarrow> (ADMIN_INACTIVE, A)
         | Some deviceAdmin \<Rightarrow>
             (let ret = CheckHandlePolicyPermission (sv_pc_only V) ca OP_GET (Some deviceAdmin) (qPolicyName q)
                    (qPermission q (AdminTypeToPermissionType (GetAdminType deviceAdmin)) []) userId in
              if FAILED ret then (ret, A)
              else query_and_report V q code (calling_bundle ca) (className (adminInfo deviceAdmin)) userId (queryPolicy \<noteq> 0) A))
      else if \<not> (CheckElementNullPermissionNew ca code (qPermission q SUPER_DEVICE_ADMIN [])
               \<or> CheckElementNullPermissionNew ca code (qPermission q BYOD_DEVICE_ADMIN [])) then (PERMISSION_DENIED, A)
      else query_and_report V q code [] [] userId (queryPolicy \<noteq> 0) A)"

subsection \<open>The reader\<close>

text \<open>The query of a policy code, and what is done with it.\<close>

definition with_query :: "build_flags \<Rightarrow> 'w query_services \<Rightarrow> u32
    \<Rightarrow> ('w policy_query \<Rightarrow> u32 \<Rightarrow> ('s, 'w) ability \<Rightarrow> err_code \<times> ('s, 'w) ability)
    \<Rightarrow> 'w query_cache \<Rightarrow> ('s, 'w) ability \<Rightarrow> err_code \<times> 'w query_cache \<times> ('s, 'w) ability" where
  "with_query F Q code get queryCache A =
     (let featureCheck = CheckFeatureEnabled F code in
      if FAILED featureCheck then (featureCheck, queryCache, A)
      else (let (obj, queryCache) = CreateQuery F Q code queryCache in
            case obj of
              None \<Rightarrow> (ERR_CANNOT_FIND_QUERY_FAILED, queryCache, A)
            | Some q \<Rightarrow> (let (ret, A) = get q code A in (ret, queryCache, A))))"

definition GetPolicyByCode :: "build_flags \<Rightarrow> 'w query_services \<Rightarrow> ('s, 'w) service \<Rightarrow> caller \<Rightarrow> u32 \<Rightarrow> user_id \<Rightarrow> string
    \<Rightarrow> 'w query_cache \<Rightarrow> ('s, 'w) ability \<Rightarrow> err_code \<times> 'w query_cache \<times> ('s, 'w) ability" where
  "GetPolicyByCode F Q V ca funcCode userId tag queryCache A =
     (if GetSystemFlag funcCode \<noteq> POLICY_FLAG then (INTERFACE_UNSUPPORTED, queryCache, A)
      else with_query F Q (GetPolicyCode funcCode) (\<lambda>q code. IPolicyQuery_GetPolicy V ca q code userId tag) queryCache A)"

definition GetPolicyByCodeNew :: "build_flags \<Rightarrow> 'w query_services \<Rightarrow> ('s, 'w) service \<Rightarrow> caller \<Rightarrow> u32 \<Rightarrow> user_id \<Rightarrow> int
    \<Rightarrow> 'w query_cache \<Rightarrow> ('s, 'w) ability \<Rightarrow> err_code \<times> 'w query_cache \<times> ('s, 'w) ability" where
  "GetPolicyByCodeNew F Q V ca funcCode userId queryPolicy queryCache A =
     (if GetSystemFlag funcCode \<noteq> POLICY_FLAG then (INTERFACE_UNSUPPORTED, queryCache, A)
      else with_query F Q (GetPolicyCode funcCode) (\<lambda>q code. IPolicyQuery_GetPolicyNew V ca q code userId queryPolicy) queryCache A)"

subsection \<open>The service ability\<close>

definition GetDevicePolicy :: "build_flags \<Rightarrow> 'w query_services \<Rightarrow> ('s, 'w) service \<Rightarrow> caller \<Rightarrow> u32 \<Rightarrow> user_id \<Rightarrow> bool
    \<Rightarrow> 'w query_cache \<Rightarrow> ('s, 'w) ability \<Rightarrow> err_code \<times> 'w query_cache \<times> ('s, 'w) ability" where
  "GetDevicePolicy F Q V ca code userId hasUserId queryCache A =
     (let (tag, A) = read_tag V A in
      if hasUserId \<and> \<not> pf_IsOsAccountExists (sv_platform V) userId (abWorld A) then
        (if tag = PERMISSION_TAG_VERSION_23 then PARAMETER_VERIFICATION_FAILED else PARAM_ERROR, queryCache, A)
      else
        (let (errCode, queryCache, A) = GetPolicyByCode F Q V ca code userId tag queryCache A in
         if errCode = INTERFACE_UNSUPPORTED then (errCode, queryCache, A)
         else if errCode = ERR_CANNOT_FIND_QUERY_FAILED then
           (let (ret, A) = GetDevicePolicyFromPlugin V ca code userId tag A in (ret, queryCache, A))
         else (errCode, queryCache, A)))"

definition GetDevicePolicyNew :: "build_flags \<Rightarrow> 'w query_services \<Rightarrow> ('s, 'w) service \<Rightarrow> caller \<Rightarrow> u32 \<Rightarrow> user_id
    \<Rightarrow> 'w query_cache \<Rightarrow> ('s, 'w) ability \<Rightarrow> err_code \<times> 'w query_cache \<times> ('s, 'w) ability" where
  "GetDevicePolicyNew F Q V ca code userId queryCache A =
     (if \<not> pf_IsOsAccountExists (sv_platform V) userId (abWorld A) then (UID_INVALID, queryCache, A)
      else
        (let (n, w) = pf_ReadInt32 (sv_platform V) (abWorld A);
             queryPolicy = (case n of None \<Rightarrow> QUERY_POLICY_SELF | Some n \<Rightarrow> n);
             (errCode, queryCache, A) = GetPolicyByCodeNew F Q V ca code userId queryPolicy queryCache (A\<lparr>abWorld := w\<rparr>) in
         if errCode = INTERFACE_UNSUPPORTED then (errCode, queryCache, A)
         else if errCode = ERR_CANNOT_FIND_QUERY_FAILED then
           (let (ret, A) = GetDevicePolicyFromPluginNew V ca code userId queryPolicy A in (ret, queryCache, A))
         else (errCode, queryCache, A)))"

end
