(* ===== verification/Cjson_Objects.thy ===== *)
theory Cjson_Objects
  imports Cjson
begin

text \<open>
  What the serializers of nested values rely on: the library parses every text that it printed to the item it was
  printed from. \<open>tree_cjson\<close> is a concrete printer and parser of whole items for which this holds.
\<close>

subsection \<open>A concrete library for nested items\<close>

text \<open>The digits of a number end with a semicolon, arrays and objects with their closing bracket.\<close>

fun print_tree :: "json \<Rightarrow> string" where
  "print_tree JNull = ''n''"
| "print_tree (JBool b) = [if b then CHR ''t'' else CHR ''f'']"
| "print_tree (JNumber n) = CHR ''#'' # int_to_string n @ '';''"
| "print_tree (JString s) = quote # escape s"
| "print_tree (JArray xs) = CHR ''['' # concat (map print_tree xs) @ '']''"
| "print_tree (JObject kvs) = CHR ''{'' # concat (map (\<lambda>(k, j). quote # escape k @ print_tree j) kvs) @ ''}''"

definition parse_number :: "string \<Rightarrow> (json \<times> string) option" where
  "parse_number s = (let (neg, s) = (case s of c # cs \<Rightarrow> if c = CHR ''-'' then (True, cs) else (False, s) | [] \<Rightarrow> (False, s));
                         (n, r) = read_digits 0 s
                     in (case r of c # r \<Rightarrow> if c = CHR '';'' then Some (JNumber (if neg then - int n else int n), r) else None | [] \<Rightarrow> None))"

text \<open>Fuel: a call on an item consumes one character at least.\<close>

fun parse_tree :: "nat \<Rightarrow> string \<Rightarrow> (json \<times> string) option"
  and parse_trees :: "nat \<Rightarrow> string \<Rightarrow> (json list \<times> string) option"
  and parse_pairs :: "nat \<Rightarrow> string \<Rightarrow> ((string \<times> json) list \<times> string) option" where
  "parse_tree 0 s = None"
| "parse_tree (Suc k) s =
     (case s of [] \<Rightarrow> None
      | c # cs \<Rightarrow>
          if c = CHR ''n'' then Some (JNull, cs)
          else if c = CHR ''t'' then Some (JBool True, cs)
          else if c = CHR ''f'' then Some (JBool False, cs)
          else if c = CHR ''#'' then parse_number cs
          else if c = quote then map_option (\<lambda>(t, r). (JString t, r)) (unescape cs)
          else if c = CHR ''['' then map_option (\<lambda>(xs, r). (JArray xs, r)) (parse_trees k cs)
          else if c = CHR ''{'' then map_option (\<lambda>(kvs, r). (JObject kvs, r)) (parse_pairs k cs)
          else None)"
| "parse_trees 0 s = None"
| "parse_trees (Suc k) s =
     (case s of [] \<Rightarrow> None
      | c # cs \<Rightarrow>
          if c = CHR '']'' then Some ([], cs)
          else (case parse_tree k s of None \<Rightarrow> None
                | Some (j, r) \<Rightarrow> map_option (\<lambda>(js, r). (j # js, r)) (parse_trees k r)))"
| "parse_pairs 0 s = None"
| "parse_pairs (Suc k) s =
     (case s of [] \<Rightarrow> None
      | c # cs \<Rightarrow>
          if c = CHR ''}'' then Some ([], cs)
          else if c = quote then
            (case unescape cs of None \<Rightarrow> None
             | Some (key, r) \<Rightarrow> (case parse_tree k r of None \<Rightarrow> None
                 | Some (j, r) \<Rightarrow> map_option (\<lambda>(kvs, r). ((key, j) # kvs, r)) (parse_pairs k r)))
          else None)"

definition tree_cjson :: cjson where
  "tree_cjson = \<lparr> cj_create_array = True, cj_create_object = True, cj_create_string = (\<lambda>s. Some (JString s)),
     cj_create_number = (\<lambda>n. Some (JNumber n)), cj_print = (\<lambda>j. Some (print_tree j)),
     cj_parse = (\<lambda>s. case parse_tree (length s) s of Some (j, []) \<Rightarrow> Some j | _ \<Rightarrow> None) \<rparr>"

lemma semicolon_not_digit [simp]: "char_digit CHR '';'' = None"
  by (simp add: char_digit_def)

lemma parse_number_print: "parse_number (int_to_string n @ CHR '';'' # r) = Some (JNumber n, r)"
proof -
  obtain c cs where c: "nat_to_string (nat \<bar>n\<bar>) = c # cs" "char_digit c \<noteq> None" by (rule nat_to_string_hd)
  have "c \<noteq> CHR ''-''" using c(2) by (auto simp: char_digit_def)
  moreover have "read_digits 0 (c # cs @ CHR '';'' # r) = (nat \<bar>n\<bar>, CHR '';'' # r)"
    using read_nat_to_string_acc [of 0 "nat \<bar>n\<bar>" "CHR '';'' # r"] by (simp add: c(1))
  ultimately show ?thesis
    using c by (auto simp: parse_number_def int_to_string_def simp del: read_digits.simps)
qed

lemma print_tree_hd:
  obtains c cs where "print_tree j = c # cs" "c \<noteq> CHR '']''" "c \<noteq> CHR ''}''"
  by (cases j) (auto split: if_splits)

lemma parse_trees_print:
  assumes "\<And>j r k. j \<in> set xs \<Longrightarrow> length (print_tree j) \<le> k \<Longrightarrow> parse_tree k (print_tree j @ r) = Some (j, r)"
    "length (concat (map print_tree xs)) < k"
  shows "parse_trees k (concat (map print_tree xs) @ CHR '']'' # r) = Some (xs, r)"
  using assms
proof (induction xs arbitrary: k)
  case Nil
  then show ?case by (cases k) simp_all
next
  case (Cons x xs)
  obtain k' where k: "k = Suc k'" using Cons.prems(2) by (cases k) simp_all
  obtain c cs where c: "print_tree x = c # cs" "c \<noteq> CHR '']''" by (rule print_tree_hd [of x])
  have "parse_tree k' (print_tree x @ concat (map print_tree xs) @ CHR '']'' # r)
      = Some (x, concat (map print_tree xs) @ CHR '']'' # r)"
    by (rule Cons.prems(1)) (use Cons.prems(2) k in simp_all)
  moreover have "parse_trees k' (concat (map print_tree xs) @ CHR '']'' # r) = Some (xs, r)"
    by (rule Cons.IH) (use Cons.prems k c in auto)
  ultimately show ?case using c by (simp add: k)
qed

lemma parse_pairs_print:
  assumes "\<And>q j r k. (q, j) \<in> set kvs \<Longrightarrow> length (print_tree j) \<le> k \<Longrightarrow> parse_tree k (print_tree j @ r) = Some (j, r)"
    "length (concat (map (\<lambda>(q, j). quote # escape q @ print_tree j) kvs)) < k"
  shows "parse_pairs k (concat (map (\<lambda>(q, j). quote # escape q @ print_tree j) kvs) @ CHR ''}'' # r) = Some (kvs, r)"
  using assms
proof (induction kvs arbitrary: k)
  case Nil
  then show ?case by (cases k) simp_all
next
  case (Cons kv kvs)
  let ?r = "concat (map (\<lambda>(q, j). quote # escape q @ print_tree j) kvs) @ CHR ''}'' # r"
  obtain q j where kv: "kv = (q, j)" by (rule prod.exhaust)
  obtain k' where k: "k = Suc k'" using Cons.prems(2) by (cases k) simp_all
  have "parse_tree k' (print_tree j @ ?r) = Some (j, ?r)"
    by (rule Cons.prems(1) [of q]) (use Cons.prems(2) k kv in simp_all)
  moreover have "parse_pairs k' ?r = Some (kvs, r)"
    by (rule Cons.IH) (use Cons.prems k kv in auto)
  ultimately show ?case by (simp add: k kv unescape_escape)
qed

lemma parse_tree_print: "length (print_tree j) \<le> k \<Longrightarrow> parse_tree k (print_tree j @ r) = Some (j, r)"
proof (induction j arbitrary: k r)
  case (JArray xs)
  then obtain k' where k: "k = Suc k'" by (cases k) simp_all
  have "parse_trees k' (concat (map print_tree xs) @ CHR '']'' # r) = Some (xs, r)"
    by (rule parse_trees_print) (use JArray k in auto)
  then show ?case by (simp add: k)
next
  case (JObject kvs)
  then obtain k' where k: "k = Suc k'" by (cases k) simp_all
  have "parse_pairs k' (concat (map (\<lambda>(q, j). quote # escape q @ print_tree j) kvs) @ CHR ''}'' # r) = Some (kvs, r)"
  proof (rule parse_pairs_print)
    show "parse_tree n (print_tree j @ r) = Some (j, r)" if "(q, j) \<in> set kvs" "length (print_tree j) \<le> n" for q j r n
      by (rule JObject.IH [OF that(1) _ that(2)]) simp
  qed (use JObject k in auto)
  then show ?case by (simp add: k)
next
  case (JNumber n)
  then obtain k' where "k = Suc k'" by (cases k) simp_all
  then show ?case by (simp add: parse_number_print)
next
  case (JString s)
  then obtain k' where "k = Suc k'" by (cases k) simp_all
  then show ?case by (simp add: unescape_escape)
next
  case JNull
  then obtain k' where "k = Suc k'" by (cases k) simp_all
  then show ?case by simp
next
  case (JBool b)
  then obtain k' where "k = Suc k'" by (cases k) (simp_all split: if_splits)
  then show ?case by simp
qed

subsection \<open>The interface\<close>

definition faithful_cjson :: "cjson \<Rightarrow> bool" where
  "faithful_cjson J \<longleftrightarrow> cj_create_array J \<and> cj_create_object J \<and> (\<forall>s. cj_create_string J s = Some (JString s))
     \<and> (\<forall>n. int_range n \<longrightarrow> cj_create_number J n = Some (JNumber n))
     \<and> (\<forall>j t. cj_print J j = Some t \<longrightarrow> cj_parse J t = Some j \<and> t \<noteq> [])"

locale object_library =
  fixes J :: cjson
  assumes creates: "cj_create_array J" "cj_create_object J" "cj_create_string J s = Some (JString s)"
      "int_range n \<Longrightarrow> cj_create_number J n = Some (JNumber n)"
    and printed: "cj_print J j = Some t \<Longrightarrow> cj_parse J t = Some j \<and> t \<noteq> []"

lemma object_library_iff: "object_library J \<longleftrightarrow> faithful_cjson J"
  by (auto simp: object_library_def faithful_cjson_def)

interpretation tree: object_library tree_cjson
proof
  fix j t assume "cj_print tree_cjson j = Some t"
  then have t: "t = print_tree j" by (simp add: tree_cjson_def)
  show "cj_parse tree_cjson t = Some j \<and> t \<noteq> []"
    using parse_tree_print [of j "length t" "[]"] by (cases j rule: print_tree_hd) (simp add: t tree_cjson_def)
qed (simp_all add: tree_cjson_def)

lemma tree_cjson_faithful: "faithful_cjson tree_cjson"
  using tree.object_library_axioms by (simp add: object_library_iff)

end
