(* ===== verification/Query_Roundtrips.thy ===== *)
theory Query_Roundtrips
  imports Query_Serializers Cjson_Objects
begin

text \<open>
  The serializers of \<open>Query_Serializers\<close> read back what they have written. A serializer may refuse (a null pointer of the
  library); what it did write is read to the same value.
\<close>

subsection \<open>The interface\<close>

text \<open>\<open>dom\<close> are the values the class stores: numbers in range, map keys in order.\<close>

locale policy_serializer =
  fixes des :: "cjson \<Rightarrow> string \<Rightarrow> 'd \<Rightarrow> bool \<times> 'd"
    and ser :: "cjson \<Rightarrow> 'd \<Rightarrow> string \<Rightarrow> bool \<times> string"
    and dom :: "'d \<Rightarrow> bool"
    and empty :: 'd
  assumes reads_back: "faithful_cjson J \<Longrightarrow> dom d \<Longrightarrow> d \<noteq> empty \<Longrightarrow> ser J d [] = (True, t) \<Longrightarrow> des J t empty = (True, d)"
begin

lemma text_determines_value:
  assumes "faithful_cjson J" "dom d" "dom e" "d \<noteq> empty" "e \<noteq> empty" "ser J d [] = (True, t)" "ser J e [] = (True, t)"
  shows "d = e"
  using reads_back [OF assms(1,2,4,6)] reads_back [OF assms(1,3,5,7)] by simp

end

subsection \<open>Members and items\<close>

lemma faithfulD:
  assumes "faithful_cjson J"
  shows "cj_create_array J" "cj_create_object J" "cj_create_string J s = Some (JString s)"
    "int_range n \<Longrightarrow> cj_create_number J n = Some (JNumber n)"
    "cj_print J j = Some t \<Longrightarrow> cj_parse J t = Some j" "cj_print J j = Some t \<Longrightarrow> t \<noteq> []"
  using assms by (auto simp: faithful_cjson_def)

lemma faithful_members [simp]:
  assumes "faithful_cjson J"
  shows "AddString J k s = [(k, JString s)]" "int_range n \<Longrightarrow> AddNumber J k n = [(k, JNumber n)]"
    "object_with J kvs = Some (JObject kvs)"
  using assms by (simp_all add: AddString_def AddNumber_def object_with_def faithfulD)

lemma get_member:
  "GetObjectItem (JObject ((k', j) # kvs)) k = (if map to_lower k' = map to_lower k then Some j else GetObjectItem (JObject kvs) k)"
  "GetObjectItem (JObject []) k = None"
  by (simp_all add: GetObjectItem_def)

lemma each_item_map:
  assumes "\<And>x d. x \<in> set xs \<Longrightarrow> f (g x) d = Some (h x d)"
  shows "each_item f (map g xs) d = (True, fold h xs d)"
  using assms by (induction xs arbitrary: d) simp_all

lemma each_item_append: "each_item (\<lambda>x d. Some (d @ [g x])) xs d = (True, d @ map g xs)"
  by (induction xs arbitrary: d) simp_all

lemma fold_append: "fold (\<lambda>x d. d @ [g x]) xs d = d @ map g xs"
  by (induction xs arbitrary: d) simp_all

lemma print_array_text:
  assumes "faithful_cjson J" "\<And>x. x \<in> set xs \<Longrightarrow> f x = Some (g x)" "print_array J f xs s = (True, t)"
  shows "cj_parse J t = Some (JArray (map g xs))" "t \<noteq> []"
proof -
  have "cj_print J (JArray (map g xs)) = Some t"
    using assms create_all_Some [of xs f g] by (simp add: print_array_def faithfulD split: option.splits)
  then show "cj_parse J t = Some (JArray (map g xs))" "t \<noteq> []" using faithfulD(5,6) [OF assms(1)] by blast+
qed

text \<open>Storing the entries of an ordered map one after the other rebuilds it.\<close>

definition ordered_map :: "('k::linorder, 'v) amap \<Rightarrow> bool" where
  "ordered_map m = (sorted (map fst m) \<and> distinct (map fst m))"

lemma ordered_insert_last: "\<forall>k' \<in> set (map fst m). k' < k \<Longrightarrow> ordered_insert k v m = m @ [(k, v)]"
  by (induction k v m rule: ordered_insert.induct) auto

lemma ordered_map_snoc: "ordered_map (m @ [(k, v)]) \<longleftrightarrow> ordered_map m \<and> (\<forall>k' \<in> set (map fst m). k' < k)"
  by (auto simp: ordered_map_def sorted_append order_le_less)

lemma fold_ordered_insert: "ordered_map m \<Longrightarrow> fold (\<lambda>(k, v). ordered_insert k v) m [] = m"
proof (induction m rule: rev_induct)
  case (snoc kv m)
  obtain k v where "kv = (k, v)" by (rule prod.exhaust)
  then show ?case using snoc by (simp add: ordered_map_snoc ordered_insert_last)
qed simp

lemma fold_map_put: "ordered_map m \<Longrightarrow> fold (\<lambda>(k, v). map_put k v) m [] = m"
proof (induction m rule: rev_induct)
  case (snoc kv m)
  obtain k v where kv: "kv = (k, v)" by (rule prod.exhaust)
  then have "AList.delete k m = m" using snoc.prems by (intro delete_id) (auto simp: ordered_map_snoc)
  then show ?case using snoc kv by (simp add: ordered_map_snoc ordered_insert_last map_put_def)
qed simp

lemma sort_unique_strict: "sorted xs \<Longrightarrow> distinct xs \<Longrightarrow> sort_unique xs = xs"
  by (simp add: sort_unique_def sorted_sort_id remdups_adj_distinct)

named_theorems serializer_simps

lemmas [serializer_simps] = StringItem_def NumberItem_def get_member to_lower_def valueint_in_range

subsection \<open>The serializers\<close>

lemma wifi_reads_back:
  assumes "faithful_cjson J" "d \<noteq> []" "ArrayWifiId_Serialize J d [] = (True, t)"
  shows "ArrayWifiId_Deserialize J t [] = (True, d)"
proof -
  let ?g = "\<lambda>(s, b). JObject [(''ssid'', JString s), (''bssid'', JString b)]"
  have "cj_parse J t = Some (JArray (map ?g d))"
    by (rule print_array_text(1) [OF assms(1)]) (use assms in \<open>auto simp: ArrayWifiId_Serialize_def\<close>)
  moreover have "each_item WifiId_item (map ?g d) [] = (True, fold (\<lambda>x d. d @ [x]) d [])"
    by (rule each_item_map) (auto simp: WifiId_item_def serializer_simps)
  ultimately show ?thesis by (simp add: ArrayWifiId_Deserialize_def json_children_def fold_append [of "\<lambda>x. x"])
qed

interpretation wifi_ids: policy_serializer ArrayWifiId_Deserialize ArrayWifiId_Serialize "\<lambda>_. True" "[]"
  by unfold_locales (rule wifi_reads_back)

definition usb_in_range :: "usb_device_id list \<Rightarrow> bool" where
  "usb_in_range d = (list_all (\<lambda>(v, p). int_range v \<and> int_range p) d \<and> length d \<le> ALLOWED_USB_DEVICES_MAX_SIZE)"

lemma usb_reads_back:
  assumes "faithful_cjson J" "usb_in_range d" "d \<noteq> []" "ArrayUsbDeviceId_Serialize J d [] = (True, t)"
  shows "ArrayUsbDeviceId_Deserialize J t = (True, d)"
proof -
  let ?g = "\<lambda>(v, p). JObject [(''vendorId'', JNumber v), (''productId'', JNumber p)]"
  let ?f = "\<lambda>(v, p). if cj_create_number J v = None \<or> cj_create_number J p = None then None
        else object_with J (AddNumber J ''vendorId'' v @ AddNumber J ''productId'' p)"
  have pr: "print_array J ?f d [] = (True, t)" using assms(3,4) by (simp add: ArrayUsbDeviceId_Serialize_def)
  have f: "?f x = Some (?g x)" if "x \<in> set d" for x
    using that assms(1,2) by (auto simp: usb_in_range_def list_all_iff faithfulD)
  have "cj_parse J t = Some (JArray (map ?g d))" "t \<noteq> []" by (rule print_array_text(1) [OF assms(1) f pr], assumption)
    (rule print_array_text(2) [OF assms(1) f pr], assumption)
  moreover have "each_item UsbDeviceId_item (map ?g d) [] = (True, fold (\<lambda>x d. d @ [x]) d [])"
    by (rule each_item_map) (use assms(2) in \<open>auto simp: UsbDeviceId_item_def serializer_simps usb_in_range_def list_all_iff\<close>)
  ultimately show ?thesis
    using assms(2) by (simp add: ArrayUsbDeviceId_Deserialize_def fold_append [of "\<lambda>x. x"] usb_in_range_def)
qed

interpretation usb_ids: policy_serializer "\<lambda>J t _. ArrayUsbDeviceId_Deserialize J t" ArrayUsbDeviceId_Serialize usb_in_range "[]"
  by unfold_locales (rule usb_reads_back)

definition burners_in_range :: "odd_burn_device list \<Rightarrow> bool" where
  "burners_in_range d = list_all (\<lambda>(v, p, s). int_range v \<and> int_range p) d"

lemma burners_read_back:
  assumes "faithful_cjson J" "burners_in_range d" "d \<noteq> []" "ArrayOddBurn_Serialize J d [] = (True, t)"
  shows "ArrayOddBurn_Deserialize J t = (True, d)"
proof -
  let ?g = "\<lambda>(v, p, s). JObject [(''vendorId'', JNumber v), (''productId'', JNumber p), (''serial'', JString s)]"
  let ?f = "\<lambda>(v, p, s). if cj_create_number J v = None \<or> cj_create_number J p = None \<or> cj_create_string J s = None then None
        else object_with J (AddNumber J ''vendorId'' v @ AddNumber J ''productId'' p @ AddString J ''serial'' s)"
  have pr: "print_array J ?f d [] = (True, t)" using assms(3,4) by (simp add: ArrayOddBurn_Serialize_def)
  have f: "?f x = Some (?g x)" if "x \<in> set d" for x
    using that assms(1,2) by (auto simp: burners_in_range_def list_all_iff faithfulD)
  have "cj_parse J t = Some (JArray (map ?g d))" "t \<noteq> []" by (rule print_array_text(1) [OF assms(1) f pr], assumption)
    (rule print_array_text(2) [OF assms(1) f pr], assumption)
  moreover have "each_item OddBurn_item (map ?g d) [] = (True, fold (\<lambda>x d. d @ [x]) d [])"
    by (rule each_item_map) (use assms(2) in \<open>auto simp: OddBurn_item_def serializer_simps burners_in_range_def list_all_iff\<close>)
  ultimately show ?thesis
    by (simp add: ArrayOddBurn_Deserialize_def fold_append [of "\<lambda>x. x"])
qed

interpretation burners: policy_serializer "\<lambda>J t _. ArrayOddBurn_Deserialize J t" ArrayOddBurn_Serialize burners_in_range "[]"
  by unfold_locales (rule burners_read_back)

text \<open>The texts of the methods that print an array of objects.\<close>

lemma array_reads_back:
  assumes "faithful_cjson J" "\<And>x. x \<in> set d \<Longrightarrow> f x = Some (g x)" "print_array J f d [] = (True, t)"
    "\<And>x r. x \<in> set d \<Longrightarrow> item (g x) r = Some (h x r)" "fold h d [] = d"
  shows "cj_parse J t = Some (JArray (map g d))" "t \<noteq> []" "each_item item (map g d) [] = (True, d)"
proof -
  show "cj_parse J t = Some (JArray (map g d))" "t \<noteq> []" using print_array_text [OF assms(1,2,3)] by blast+
  show "each_item item (map g d) [] = (True, d)"
    using each_item_map [of d item g h "[]"] assms(4,5) by simp
qed

definition trusted_in_range :: "notification_bundles list \<Rightarrow> bool" where
  "trusted_in_range d = list_all (\<lambda>b. int_range (nbUserId b) \<and> sorted (trustList b) \<and> distinct (trustList b)) d"

lemma notifications_read_back:
  assumes "faithful_cjson J" "trusted_in_range d" "d \<noteq> []" "NotificationBundles_Serialize J d [] = (True, t)"
  shows "NotificationBundles_Deserialize J t [] = (True, d)"
proof -
  let ?g = "\<lambda>b. JObject [(''userId'', JNumber (nbUserId b)), (''trustList'', JArray (map JString (trustList b)))]"
  let ?f = "\<lambda>b. case CreateTrustListArray J (trustList b) of
          None \<Rightarrow> None
        | Some js \<Rightarrow> object_with J (AddNumber J ''userId'' (nbUserId b) @ [(''trustList'', js)])"
  have strings: "List.map_filter (\<lambda>b. case b of JString s \<Rightarrow> Some s | _ \<Rightarrow> None) (map JString xs) = xs" for xs
    by (induction xs) (simp_all add: map_filter_simps)
  have create: "create_all (cj_create_string J) xs = Some (map JString xs)" for xs
    by (rule create_all_Some) (rule faithfulD(3) [OF assms(1)])
  have pr: "print_array J ?f d [] = (True, t)" using assms(3,4) by (simp add: NotificationBundles_Serialize_def)
  have f: "?f x = Some (?g x)" if "x \<in> set d" for x
    using that assms(1,2) by (auto simp: trusted_in_range_def list_all_iff CreateTrustListArray_def faithfulD create)
  have item: "NotificationBundles_item (?g x) r = Some (r @ [x])" if "x \<in> set d" for x r
    using that assms(2) by (simp add: NotificationBundles_item_def serializer_simps strings trusted_in_range_def list_all_iff
        sort_unique_strict)
  have "fold (\<lambda>x r. r @ [x]) d [] = d" by (simp add: fold_append [of "\<lambda>x. x"])
  note A = array_reads_back [where f = ?f and g = ?g and h = "\<lambda>x r. r @ [x]" and item = NotificationBundles_item,
      OF assms(1) f pr item this]
  show ?thesis using A by (simp add: NotificationBundles_Deserialize_def json_children_def)
qed

interpretation notifications: policy_serializer NotificationBundles_Deserialize NotificationBundles_Serialize trusted_in_range "[]"
  by unfold_locales (rule notifications_read_back)

definition clipboard_in_range :: "(int, clipboard_info) amap \<Rightarrow> bool" where
  "clipboard_in_range d = (ordered_map d
     \<and> list_all (\<lambda>(t, i). int_range t \<and> int_range (cbUserId i) \<and> cbPolicy i \<in> {0, 1, 2, 3, 99}) d)"

lemma clipboard_reads_back:
  assumes "faithful_cjson J" "clipboard_in_range d" "d \<noteq> []" "Clipboard_Serialize J d [] = (True, t)"
  shows "Clipboard_Deserialize J t [] = (True, d)"
proof -
  let ?g = "\<lambda>(t, i). JObject [(''tokenId'', JNumber t), (''userId'', JNumber (cbUserId i)),
    (''bundleName'', JString (cbBundleName i)), (''clipboardPolicy'', JNumber (cbPolicy i))]"
  let ?f = "\<lambda>(t, i). object_with J (AddNumber J ''tokenId'' t @ AddNumber J ''userId'' (cbUserId i)
        @ AddString J ''bundleName'' (cbBundleName i) @ AddNumber J ''clipboardPolicy'' (cbPolicy i))"
  have pr: "print_array J ?f d [] = (True, t)" using assms(3,4) by (simp add: Clipboard_Serialize_def)
  have pol: "int_range p \<and> ConvertToClipboardPolicy p = p" if "p \<in> {0, 1, 2, 3, 99}" for p
    using that by (auto simp: int_range_def ConvertToClipboardPolicy_def)
  have range: "int_range t \<and> int_range (cbUserId i) \<and> int_range (cbPolicy i) \<and> ConvertToClipboardPolicy (cbPolicy i) = cbPolicy i"
    if "(t, i) \<in> set d" for t i
  proof -
    have "int_range t \<and> int_range (cbUserId i) \<and> cbPolicy i \<in> {0, 1, 2, 3, 99}"
      using bspec [OF assms(2) [unfolded clipboard_in_range_def list_all_iff, THEN conjunct2] that] by simp
    with pol [of "cbPolicy i"] show ?thesis by simp
  qed
  have f: "?f x = Some (?g x)" if "x \<in> set d" for x
  proof (cases x)
    case (Pair t i)
    with range that have "int_range t" "int_range (cbUserId i)" "int_range (cbPolicy i)" by auto
    then show ?thesis using assms(1) by (simp add: Pair)
  qed
  have item: "Clipboard_item (?g x) r = Some ((\<lambda>(t, i). ordered_insert t i) x r)" if "x \<in> set d" for x r
  proof (cases x)
    case (Pair t i)
    with range that have "int_range t" "int_range (cbUserId i)" "int_range (cbPolicy i)"
      "ConvertToClipboardPolicy (cbPolicy i) = cbPolicy i" by auto
    then show ?thesis by (cases i) (simp add: Pair Clipboard_item_def serializer_simps ClipboardInfo0_def)
  qed
  have "fold (\<lambda>(t, i). ordered_insert t i) d [] = d"
    using assms(2) by (simp add: clipboard_in_range_def fold_ordered_insert)
  note A = array_reads_back [where f = ?f and g = ?g and h = "\<lambda>(t, i). ordered_insert t i" and item = Clipboard_item,
      OF assms(1) f pr item this]
  show ?thesis using A by (simp add: Clipboard_Deserialize_def json_children_def)
qed

interpretation clipboard: policy_serializer Clipboard_Deserialize Clipboard_Serialize clipboard_in_range "[]"
  by unfold_locales (rule clipboard_reads_back)

definition watermarks_in_range :: "watermarks \<Rightarrow> bool" where
  "watermarks_in_range d = (ordered_map d \<and> list_all (\<lambda>((b, a), i). int_range a \<and> int_range (wmWidth i) \<and> int_range (wmHeight i)
     \<and> int_range (wmIntervalsRow i) \<and> int_range (wmIntervalsCol i)) d)"

lemma watermarks_read_back:
  assumes "faithful_cjson J" "watermarks_in_range d" "d \<noteq> []" "Watermark_Serialize J d [] = (True, t)"
  shows "Watermark_Deserialize J t [] = (True, d)"
proof -
  let ?g = "\<lambda>((b, a), i). JObject [(''bundleName'', JString b), (''accountId'', JNumber a), (''fileName'', JString (wmFileName i)),
    (''width'', JNumber (wmWidth i)), (''height'', JNumber (wmHeight i)), (''intervalsRow'', JNumber (wmIntervalsRow i)),
    (''intervalsCol'', JNumber (wmIntervalsCol i))]"
  let ?f = "\<lambda>((b, a), i). object_with J (AddString J ''bundleName'' b @ AddNumber J ''accountId'' a
        @ AddString J ''fileName'' (wmFileName i) @ AddNumber J ''width'' (wmWidth i) @ AddNumber J ''height'' (wmHeight i)
        @ AddNumber J ''intervalsRow'' (wmIntervalsRow i) @ AddNumber J ''intervalsCol'' (wmIntervalsCol i))"
  have pr: "print_array J ?f d [] = (True, t)" using assms(3,4) by (simp add: Watermark_Serialize_def)
  have range: "int_range a \<and> int_range (wmWidth i) \<and> int_range (wmHeight i) \<and> int_range (wmIntervalsRow i) \<and> int_range (wmIntervalsCol i)"
    if "((b, a), i) \<in> set d" for b a i
    using bspec [OF assms(2) [unfolded watermarks_in_range_def list_all_iff, THEN conjunct2] that] by simp
  have f: "?f x = Some (?g x)" if "x \<in> set d" for x
  proof -
    obtain b a i where x: "x = ((b, a), i)" by (metis surj_pair)
    with range that have "int_range a" "int_range (wmWidth i)" "int_range (wmHeight i)" "int_range (wmIntervalsRow i)"
      "int_range (wmIntervalsCol i)" by auto
    then show ?thesis using assms(1) by (simp add: x)
  qed
  have item: "Watermark_item (?g x) r = Some ((\<lambda>(k, i). ordered_insert k i) x r)" if "x \<in> set d" for x r
  proof -
    obtain b a i where x: "x = ((b, a), i)" by (metis surj_pair)
    with range that have "int_range a" "int_range (wmWidth i)" "int_range (wmHeight i)" "int_range (wmIntervalsRow i)"
      "int_range (wmIntervalsCol i)" by auto
    then show ?thesis by (cases i) (simp add: x Watermark_item_def serializer_simps)
  qed
  have "fold (\<lambda>(k, i). ordered_insert k i) d [] = d"
    using assms(2) by (simp add: watermarks_in_range_def fold_ordered_insert)
  note A = array_reads_back [where f = ?f and g = ?g and h = "\<lambda>(k, i). ordered_insert k i" and item = Watermark_item,
      OF assms(1) f pr item this]
  show ?thesis using A by (simp add: Watermark_Deserialize_def json_children_def)
qed

interpretation watermarks: policy_serializer Watermark_Deserialize Watermark_Serialize watermarks_in_range "[]"
  by unfold_locales (rule watermarks_read_back)

text \<open>Objects with a member per entry.\<close>

lemma members_text:
  assumes "faithful_cjson J" "\<And>x. x \<in> set d \<Longrightarrow> f x = Some (g x)" "None \<notin> set (map f d)"
    "cj_print J (JObject (List.map_filter (\<lambda>m. m) (map f d))) = Some t"
  shows "cj_parse J t = Some (JObject (map g d))" "t \<noteq> []"
proof -
  have "List.map_filter (\<lambda>m. m) (map f d) = map g d"
    using assms(2) by (induction d) (simp_all add: map_filter_simps)
  with assms(4) have "cj_print J (JObject (map g d)) = Some t" by simp
  then show "cj_parse J t = Some (JObject (map g d))" "t \<noteq> []" using faithfulD(5,6) [OF assms(1)] by blast+
qed

definition calls_in_range :: "(string, telephony_policy) amap \<Rightarrow> bool" where
  "calls_in_range d = (ordered_map d \<and> list_all (\<lambda>(k, p). int_range (tpPolicyFlag p)) d)"

lemma calls_read_back:
  assumes "faithful_cjson J" "calls_in_range d" "Telephony_Serialize J d [] = (True, t)"
  shows "Telephony_Deserialize J t [] = (True, d)"
proof -
  let ?g = "\<lambda>(k, p). (k, JObject [(''policyFlag'', JNumber (tpPolicyFlag p)), (''numberList'', JArray (map JString (tpNumberList p)))])"
  have range: "int_range (tpPolicyFlag p)" if "(k, p) \<in> set d" for k p
    using bspec [OF assms(2) [unfolded calls_in_range_def list_all_iff, THEN conjunct2] that] by simp
  have create: "create_all (cj_create_string J) xs = Some (map JString xs)" for xs
    by (rule create_all_Some) (rule faithfulD(3) [OF assms(1)])
  have strings: "all_strings (map JString xs) = Some xs" for xs
  proof -
    have "List.map_filter (\<lambda>x. case x of JString s \<Rightarrow> Some s | _ \<Rightarrow> None) (map JString xs) = xs"
      by (induction xs) (simp_all add: map_filter_simps)
    then show ?thesis by (simp add: all_strings_def list_all_iff)
  qed
  have f: "Telephony_member J x = Some (?g x)" if "x \<in> set d" for x
  proof (cases x)
    case (Pair k p)
    with range that have "int_range (tpPolicyFlag p)" by auto
    then show ?thesis using assms(1) by (simp add: Pair Telephony_member_def Telephony_CreateArray_def faithfulD create)
  qed
  have "None \<notin> set (map (Telephony_member J) d)" using f by auto
  then have "cj_print J (JObject (List.map_filter (\<lambda>m. m) (map (Telephony_member J) d))) = Some t"
    using assms(1,3) by (simp add: Telephony_Serialize_def Let_def faithfulD split: option.splits if_splits)
  note M = members_text [OF assms(1) f \<open>None \<notin> set (map (Telephony_member J) d)\<close> this]
  have item: "Telephony_item (?g x) r = Some ((\<lambda>(k, p). map_put k p) x r)" if "x \<in> set d" for x r
  proof (cases x)
    case (Pair k p)
    with range that have "int_range (tpPolicyFlag p)" by auto
    then show ?thesis by (cases p) (simp add: Pair Telephony_item_def serializer_simps strings)
  qed
  have "each_item Telephony_item (map ?g d) [] = (True, d)"
    using each_item_map [where f = Telephony_item and g = ?g and h = "\<lambda>(k, p). map_put k p" and xs = d and d = "[]", OF item]
      assms(2) by (simp add: calls_in_range_def fold_map_put)
  with M show ?thesis by (simp add: Telephony_Deserialize_def json_members_def)
qed

interpretation calls: policy_serializer Telephony_Deserialize Telephony_Serialize calls_in_range "[]"
  by unfold_locales (rule calls_read_back)

text \<open>An entry without an application is not written.\<close>

definition permissions_in_range :: "permission_bundles \<Rightarrow> bool" where
  "permissions_in_range d = (ordered_map d
     \<and> list_all (\<lambda>(k, l). l \<noteq> [] \<and> list_all (\<lambda>a. int_range (apAccountId a) \<and> int_range (apIndex a)) l) d)"

lemma permissions_read_back:
  assumes "faithful_cjson J" "permissions_in_range d" "d \<noteq> []" "PermissionBundles_Serialize J d [] = (True, t)" "t \<noteq> []"
  shows "PermissionBundles_Deserialize J t [] = (True, d)"
proof -
  let ?a = "\<lambda>a. JObject [(''appIdentifier'', JString (apIdentifier a)), (''accountId'', JNumber (apAccountId a)),
    (''appIndex'', JNumber (apIndex a)), (''bundleName'', JString (apBundleName a))]"
  let ?g = "\<lambda>(k, l). (k, JArray (map ?a l))"
  have range: "l \<noteq> [] \<and> list_all (\<lambda>a. int_range (apAccountId a) \<and> int_range (apIndex a)) l" if "(k, l) \<in> set d" for k l
    using bspec [OF assms(2) [unfolded permissions_in_range_def list_all_iff [of _ d], THEN conjunct2] that] by simp
  have create: "create_all (CreateAppObject J) l = Some (map ?a l)"
    if "list_all (\<lambda>a. int_range (apAccountId a) \<and> int_range (apIndex a)) l" for l
    by (rule create_all_Some) (use assms(1) that in \<open>simp add: CreateAppObject_def list_all_iff\<close>)
  have f: "SerializePermissionApps J x = Some (?g x)" if "x \<in> set d" for x
  proof (cases x)
    case (Pair k l)
    then show ?thesis using that range create assms(1) by (simp add: SerializePermissionApps_def faithfulD)
  qed
  have all: "filter (\<lambda>(perm, l). l \<noteq> []) d = d" using range by (force simp: filter_id_conv)
  have none: "None \<notin> set (map (SerializePermissionApps J) d)" using f by auto
  then have "cj_print J (JObject (List.map_filter (\<lambda>m. m) (map (SerializePermissionApps J) d))) = Some t"
    using assms by (simp add: PermissionBundles_Serialize_def all Let_def faithfulD split: option.splits)
  note M = members_text [OF assms(1) f none this]
  have app: "ParseAppItem (?a a) = Some a" if "int_range (apAccountId a)" "int_range (apIndex a)" for a
    using that by (cases a) (simp add: ParseAppItem_def serializer_simps)
  have apps: "ParsePermissionArray (JArray (map ?a l)) = Some l"
    if "list_all (\<lambda>a. int_range (apAccountId a) \<and> int_range (apIndex a)) l" for l
  proof -
    have "each_item (\<lambda>x l. map_option (\<lambda>a. l @ [a]) (ParseAppItem x)) (map ?a l) [] = (True, fold (\<lambda>x r. r @ [x]) l [])"
      by (rule each_item_map) (use app that in \<open>simp add: list_all_iff\<close>)
    then show ?thesis by (simp add: ParsePermissionArray_def fold_append [of "\<lambda>x. x"])
  qed
  have item: "PermissionBundles_item (?g x) r = Some ((\<lambda>(k, l). map_put k l) x r)" if "x \<in> set d" for x r
  proof (cases x)
    case (Pair k l)
    then show ?thesis using that range apps by (simp add: PermissionBundles_item_def)
  qed
  have "each_item PermissionBundles_item (map ?g d) [] = (True, d)"
    using each_item_map [where f = PermissionBundles_item and g = ?g and h = "\<lambda>(k, l). map_put k l" and xs = d and d = "[]", OF item]
      assms(2) by (simp add: permissions_in_range_def fold_map_put)
  with M show ?thesis by (simp add: PermissionBundles_Deserialize_def)
qed

definition password_in_range :: "password_policy \<Rightarrow> bool" where
  "password_in_range p = (int_range (validityPeriod p) \<and> int_range (passwordAlgs p))"

lemma password_reads_back:
  assumes "faithful_cjson J" "password_in_range d" "Password_Serialize J d [] = (True, t)" "t \<noteq> []"
  shows "Password_Deserialize J t PasswordPolicy0 = (True, d)"
proof -
  let ?o = "JObject ([(''complexityReg'', JString (complexityReg d)), (''validityPeriod'', JNumber (validityPeriod d)),
    (''additionalDescription'', JString (additionalDescription d))]
    @ (if passwordAlgs d \<noteq> -1 then [(''pinAlgoType'', JNumber (passwordAlgs d))] else []))"
  have "cj_print J ?o = Some t"
    using assms by (cases "passwordAlgs d = -1")
      (simp_all add: Password_Serialize_def password_in_range_def faithfulD split: option.splits)
  then have "cj_parse J t = Some ?o" "t \<noteq> []" using faithfulD(5,6) [OF assms(1)] by blast+
  then show ?thesis
    by (cases d) (simp add: Password_Deserialize_def serializer_simps PasswordPolicy0_def)
qed

end
