(* ===== verification/Query_Properties.thy ===== *)
theory Query_Properties
  imports Query_Requests Query_Roundtrips Ability_Properties
begin

text \<open>
  What the policy queries guarantee: the table is searched correctly, every policy it enables has a query, the cache of the
  queries shows nowhere, a query needs its permission, answers from the database and changes nothing, and stored texts are
  read back.
\<close>

subsection \<open>A sample\<close>

text \<open>A system that knows nothing; a boolean in a reply is kept in front of the world.\<close>

definition calm_queries :: "bool list query_services" where
  "calm_queries = \<lparr>
     qs_ReadInt32 = (\<lambda>w. (None, w)), qs_ReadUint32 = (\<lambda>w. (None, w)), qs_ReadInt64 = (\<lambda>w. (None, w)),
     qs_ReadString = (\<lambda>w. (None, w)), qs_ReadStringVector = (\<lambda>w. (None, w)),
     qs_Write = (\<lambda>i w. (True, case i of RBool b \<Rightarrow> b # w | _ \<Rightarrow> w)), qs_GetParameter = (\<lambda>_ d _. d), qs_StrToInt = (\<lambda>_. None),
     qs_GetDisplayVersion = (\<lambda>_. None), qs_GetSecurityPatchTag = (\<lambda>_. None), qs_GetCurrentUserId = (\<lambda>_. 100),
     qs_GetTokenId = (\<lambda>_ _ _. 0), qs_GetSettingsData = (\<lambda>_ _ _. None), qs_IsOsAccountConstraintEnable = (\<lambda>_ _ _. None),
     qs_ConstraintByDeviceOwner = (\<lambda>_ _ _. None), qs_BatchGetBundleStats = (\<lambda>_ _ _. None), qs_GetAccessTokenId = (\<lambda>_ _ _ _. None),
     qs_GetPermissionFlag = (\<lambda>_ _ _. None), qs_VerifyAccessToken = (\<lambda>_ _ _. PERMISSION_OPER), qs_QueryBundleStats = (\<lambda>_ _ _ _. None),
     qs_GetAppIdByCallingUid = (\<lambda>_. None), qs_EnsurePasswordDir = (\<lambda>w. w), qs_LoadPasswordConfig = (\<lambda>_. None),
     qs_GetBundleInfos = (\<lambda>_ _ _. None), qs_GetBundleResources = (\<lambda>_ _. None),
     qs_ParcelSize = (\<lambda>_. None), qs_ERR_INVALID_VALUE = 1, qs_json = tree_cjson \<rparr>"

text \<open>Requests that name no administrator, and an application without permissions.\<close>

definition asking_service :: "(string \<Rightarrow> db_row list, bool list) service" where
  "asking_service = calm_service\<lparr>sv_platform := calm_platform\<lparr>pf_ReadInt32 := (\<lambda>w. (Some 1, w))\<rparr>\<rparr>"

definition plain_app :: caller where
  "plain_app = settings_app\<lparr>systemAppToken := False\<rparr>"

abbreviation (input) read_sudo :: u32 where
  "read_sudo \<equiv> POLICY_FUNC_CODE (operate_type_code OP_GET) IC_DISALLOWED_SUDO"

subsection \<open>The search\<close>

text \<open>C39: The binary search over the configuration table is a search. For every code and every choice of build flags \<open>FindConfig\<close>, which narrows
  a range by halves (\<open>std::lower_bound\<close>), gives what going through the entries one by one gives: the first entry of that code,
  or none. In particular it ends and the table is ordered by code.\<close>

theorem find_config_is_linear_search:
  "FindConfig F code = List.find (\<lambda>e. entryCode e = code) (CONFIG_TABLE F)"
  by (rule FindConfig_find)

subsection \<open>The cache\<close>

definition queries_made :: "build_flags \<Rightarrow> 'w query_services \<Rightarrow> u32 list \<Rightarrow> 'w query_cache" where
  "queries_made F Q codes = fold (\<lambda>c m. snd (CreateQuery F Q c m)) codes Map.empty"

definition cache_ok :: "build_flags \<Rightarrow> 'w query_services \<Rightarrow> 'w query_cache \<Rightarrow> bool" where
  "cache_ok F Q m \<longleftrightarrow> (\<forall>c q. m c = Some q \<longrightarrow> fst (CreateQuery F Q c Map.empty) = Some q)"

lemma cache_ok_CreateQuery:
  assumes "cache_ok F Q m"
  shows "fst (CreateQuery F Q c m) = fst (CreateQuery F Q c Map.empty)" "cache_ok F Q (snd (CreateQuery F Q c m))"
proof -
  have hit: "m c = Some q \<Longrightarrow> fst (CreateQuery F Q c Map.empty) = Some q" for q using assms by (simp add: cache_ok_def)
  have miss: "m c = None \<Longrightarrow> fst (CreateQuery F Q c m) = fst (CreateQuery F Q c Map.empty)"
    by (simp add: CreateQuery_def Let_def split: option.splits)
  show same: "fst (CreateQuery F Q c m) = fst (CreateQuery F Q c Map.empty)"
    using hit miss by (cases "m c") (simp_all add: CreateQuery_def [of F Q c m])
  have "snd (CreateQuery F Q c m) = m \<or> (\<exists>q. fst (CreateQuery F Q c m) = Some q \<and> snd (CreateQuery F Q c m) = m(c \<mapsto> q))"
    by (auto simp: CreateQuery_def Let_def split: option.splits)
  then show "cache_ok F Q (snd (CreateQuery F Q c m))" using assms same by (auto simp: cache_ok_def split: if_splits)
qed

lemma queries_made_ok: "cache_ok F Q (queries_made F Q codes)"
proof -
  have "cache_ok F Q m \<Longrightarrow> cache_ok F Q (fold (\<lambda>c m. snd (CreateQuery F Q c m)) codes m)" for m
  proof (induction codes arbitrary: m)
    case (Cons c codes)
    show ?case unfolding fold_Cons comp_apply by (rule Cons.IH [OF cache_ok_CreateQuery(2) [OF Cons.prems]])
  qed simp
  moreover have "cache_ok F Q Map.empty" by (simp add: cache_ok_def)
  ultimately show ?thesis unfolding queries_made_def by blast
qed

lemmas made_query = cache_ok_CreateQuery(1) [OF queries_made_ok]

text \<open>C38: The cache of queries shows nowhere. After any sequence of \<open>CreateQuery\<close> calls, for whatever codes, \<open>CreateQuery\<close>
  gives the query it gives with an empty cache.\<close>

theorem query_cache_is_transparent:
  "fst (CreateQuery F Q code (queries_made F Q codes)) = fst (CreateQuery F Q code Map.empty)"
  by (rule made_query)

subsection \<open>The classes and the table\<close>

definition same_face :: "'w policy_query \<Rightarrow> query_config \<Rightarrow> bool" where
  "same_face q c \<longleftrightarrow> qPolicyName q = cfPolicyName c \<and> qApiType q = cfApiType c \<and> qPolicySaved q = cfPolicySaved c"

definition entry_served :: "build_flags \<Rightarrow> 'w query_services \<Rightarrow> config_entry \<Rightarrow> bool" where
  "entry_served F Q e \<longleftrightarrow> (cfDataType (entryConfig e) = DT_CUSTOM \<and> cfFeatureEnabled (entryConfig e) \<longrightarrow>
     (case CreateCustomQuery F Q (entryCode e) of None \<Rightarrow> False
      | Some q \<Rightarrow> same_face q (entryConfig e) \<and>
         (entryCode e \<noteq> IC_PASSWORD_POLICY \<and> entryCode e \<noteq> IC_CLIPBOARD_POLICY \<longrightarrow>
           qPermission q = Config_GetPermission (cfPermission (entryConfig e)))))"

lemma fixed_permission [simp]:
  "Config_GetPermission (SpecificPermission p) = (\<lambda>_ _. p)"
  "Config_GetPermission (RestrictionPermission False) = (\<lambda>_ _. PERMISSION_ENTERPRISE_MANAGE_RESTRICTIONS)"
  by (simp_all add: fun_eq_iff Config_GetPermission_def SpecificPermission_def RestrictionPermission_def c_string_def)

lemma IPolicyQuery_face [simp]:
  "qPolicyName (IPolicyQuery n p f) = n" "qApiType (IPolicyQuery n p f) = API_PUBLIC" "qPolicySaved (IPolicyQuery n p f) = True"
  "qPermission (IPolicyQuery n p f) = (\<lambda>_ _. p)"
  by (simp_all add: IPolicyQuery_def)

lemmas query_classes = GetDisplayVersionQuery_def GetSecurityPatchTagQuery_def GetDeviceEncryptionStatusQuery_def
  PasswordPolicyQuery_def FingerprintAuthQuery_def GetWatermarkImageAppsQuery_def PermissionManagedStateQuery_def
  AllowedPermissionBundleQuery_def AllowedUsbDevicesQuery_def AllowedOddBurnUsbDevicesQuery_def IsAllowedOddBurnQuery_def
  DeviceSecurityLevelPolicyQuery_def LocationPolicyQuery_def ClipboardPolicyQuery_def SetBrowserPoliciesQuery_def
  TelephonyCallPolicyQuery_def InstalledBundleInfoListQuery_def AllowedAppDistributionTypesQuery_def
  AllowedNotificationBundlesQuery_def NTPServerQuery_def GetInstalledBundleStorageStatsQuery_def QueryBundleStatsInfosQuery_def
  AllowedWifiListQuery_def DisallowedWifiListQuery_def InstallLocalEnterpriceAppEnabledQuery_def
  InstallLocalEnterpriceAppEnabledForAccountQuery_def GetAutoUnlockAfterRebootQuery_def HideLauncherIconQuery_def
  IsAppKioskAllowedQuery_def

lemmas custom_queries = CreateCustomQuery_def CreateCustomDeviceInfoQuery_def CreateCustomSecurityQuery_def
  CreateCustomAppManageQuery_def CreateCustomOtherQuery_def

lemma entries_served: "list_all (entry_served F Q) (CONFIG_TABLE F)"
  unfolding CONFIG_TABLE_def
  by (simp add: entry_served_def entry_def custom_queries query_classes same_face_def)


lemma enabled_entry:
  assumes "CheckFeatureEnabled F code = ERR_OK"
  obtains e where "FindConfig F code = Some e" "e \<in> set (CONFIG_TABLE F)" "entryCode e = code" "cfFeatureEnabled (entryConfig e)"
  using assms by (auto simp: CheckFeatureEnabled_def FindConfig_Some_iff split: option.splits if_splits)



subsection \<open>Permissions\<close>

text \<open>Who may ask: the application of the administrator named in the request, with the permission of the query, or, where no
  administrator is named, a caller with that permission or a service that may ask without.\<close>

definition may_query :: "('s, 'w) service \<Rightarrow> caller \<Rightarrow> 'w policy_query \<Rightarrow> u32 \<Rightarrow> string \<Rightarrow> ('s, 'w) ability \<Rightarrow> bool" where
  "may_query V ca q code tag A =
     (if fst (read_int V A) = 0 then
        (\<exists>el a. fst (read_element V (snd (read_int V A))) = Some el
          \<and> GetAdminByPkgName (elBundle el) (GetCurrentUserId ca) (admins_table A) = Some a
          \<and> nameForUid ca (callingUid ca) = Some (packageName (adminInfo a))
          \<and> HasPermissionToHandlePolicy (sv_pc_only V) a (qPolicyName q) OP_GET
          \<and> (let perm = qPermission q (AdminTypeToPermissionType (GetAdminType a)) tag
              in perm = [] \<or> VerifyCallingPermission ca perm))
      else code \<in> set supportAdminNullPolicyCode
        \<and> (\<exists>type \<in> {SUPER_DEVICE_ADMIN, BYOD_DEVICE_ADMIN}. let perm = qPermission q type tag
             in perm = [] \<or> CheckSpecialPolicyCallQuery ca code \<or> VerifyCallingPermission ca perm))"

lemma GetPolicyCode_idem: "GetPolicyCode (GetPolicyCode c) = GetPolicyCode c"
  by (simp add: GetPolicyCode_def FUNC_TO_POLICY_def and.assoc)

lemma read_same [ability_simps]:
  "abAdmins (snd (read_int V A)) = abAdmins A" "abAdmins (snd (read_element V A)) = abAdmins A"
  "abPolicies (snd (read_int V A)) = abPolicies A" "abPolicies (snd (read_element V A)) = abPolicies A"
  "abPlugins (snd (read_int V A)) = abPlugins A" "abPlugins (snd (read_element V A)) = abPlugins A"
  "abTimers (snd (read_int V A)) = abTimers A" "abTimers (snd (read_element V A)) = abTimers A"
  "abEvents (snd (read_int V A)) = abEvents A" "abEvents (snd (read_element V A)) = abEvents A"
  "abConns (snd (read_int V A)) = abConns A" "abConns (snd (read_element V A)) = abConns A"
  by (simp_all add: read_int_def read_element_def split: prod.splits option.splits)

lemma named_admin_check:
  "CheckHandlePolicyPermission pc ca OP_GET (Some a) name perm u = ERR_OK
    \<Longrightarrow> nameForUid ca (callingUid ca) = Some (packageName (adminInfo a))
      \<and> HasPermissionToHandlePolicy pc a name OP_GET \<and> (perm = [] \<or> VerifyCallingPermission ca perm)"
  by (auto simp: CheckHandlePolicyPermission_def CheckCallingUid_def split: option.splits if_splits)

text \<open>The three ends of a query that is not allowed, and the one of a query that is.\<close>

lemma GetPolicy_denied:
  assumes "\<not> may_query V ca q (GetPolicyCode c) tag A"
  shows "fst (IPolicyQuery_GetPolicy V ca q (GetPolicyCode c) u tag A) \<noteq> ERR_OK
    \<and> snd (IPolicyQuery_GetPolicy V ca q (GetPolicyCode c) u tag A)
      \<in> {A, snd (read_int V A), snd (read_element V (snd (read_int V A)))}"
proof (cases "fst (read_int V A) = 0")
  case True
  have "CheckHandlePolicyPermission (sv_pc_only V) ca OP_GET (Some a) (qPolicyName q)
      (qPermission q (AdminTypeToPermissionType (GetAdminType a)) tag) u \<noteq> ERR_OK"
    if "fst (read_element V (snd (read_int V A))) = Some el"
      "GetAdminByPkgName (elBundle el) (GetCurrentUserId ca) (admins_table A) = Some a" for el a
    using assms that True named_admin_check [of "sv_pc_only V" ca a "qPolicyName q"] unfolding may_query_def Let_def by auto
  then show ?thesis
    using True by (auto simp: IPolicyQuery_GetPolicy_def Let_def split_beta ability_simps split: option.split)
next
  case False
  then show ?thesis
    using assms by (auto simp: IPolicyQuery_GetPolicy_def Let_def split_beta may_query_def CheckElementNullPermission_def GetPolicyCode_idem)
qed

lemma sudo_entry:
  "FindConfig (\<lambda>_. True) IC_DISALLOWED_SUDO = Some (entry IC_DISALLOWED_SUDO POLICY_DISABLED_SUDO DT_BOOL (RestrictionPermission False) True API_PUBLIC True)"
  by code_simp



subsection \<open>The reply\<close>

text \<open>The policy of a name, by administrator or the combined one, as the database has it.\<close>

definition stored_policy :: "'s rdb \<times> 's db_viewer \<times> 's edm_db \<Rightarrow> string \<Rightarrow> string \<Rightarrow> user_id \<Rightarrow> string" where
  "stored_policy D adminName name u =
     (case (if adminName = [] then comb_look D (u, name) else adm_look D (u, adminName, name)) of None \<Rightarrow> [] | Some v \<Rightarrow> v)"

definition named_admin :: "('s, 'w) service \<Rightarrow> ('s, 'w) ability \<Rightarrow> string" where
  "named_admin V A = (if fst (read_int V A) = 0 then
     (case fst (read_element V (snd (read_int V A))) of None \<Rightarrow> [] | Some el \<Rightarrow> elBundle el) else [])"

definition world_after_header :: "('s, 'w) service \<Rightarrow> ('s, 'w) ability \<Rightarrow> 'w" where
  "world_after_header V A =
     (if fst (read_int V A) = 0 then abWorld (snd (read_element V (snd (read_int V A)))) else abWorld (snd (read_int V A)))"

definition only_policies_read :: "'s rdb \<Rightarrow> 's db_viewer \<Rightarrow> ('s, 'w) ability \<Rightarrow> ('s, 'w) ability \<Rightarrow> bool" where
  "only_policies_read R view A A' \<longleftrightarrow> pm_agrees R view (abPolicies A', db (abAdmins A'))
     \<and> adm_look (R, view, db (abAdmins A')) = adm_look (R, view, db (abAdmins A))
     \<and> comb_look (R, view, db (abAdmins A')) = comb_look (R, view, db (abAdmins A))
     \<and> admins_table A' = admins_table A \<and> abPlugins A' = abPlugins A \<and> abTimers A' = abTimers A \<and> abEvents A' = abEvents A
     \<and> abConns A' = abConns A"

lemma query_and_report_reads:
  assumes "pm_agrees (sv_rdb V) view (abPolicies A, db (abAdmins A))" "queries_answer (sv_rdb V)"
    "query_and_report V q code b ab u isNull A = (r, A')"
  shows "only_policies_read (sv_rdb V) view A A'"
    "\<exists>w. qQueryPolicy q (if qPolicySaved q then stored_policy (sv_rdb V, view, db (abAdmins A)) b (qPolicyName q) u else []) u isNull (abWorld A) = (r, w)"
proof -
  let ?d = "db (abAdmins A)"
  obtain err v pm' d' where g: "PolicyManager_GetPolicy (sv_rdb V) b (qPolicyName q) [] u (abPolicies A, ?d) = (err, v, pm', d')"
    by (metis prod.exhaust)
  note spec = PolicyManager_GetPolicy_spec [OF assms(1,2) g]
  have v: "v = stored_policy (sv_rdb V, view, ?d) b (qPolicyName q) u"
    using spec(4) by (cases "b = []") (auto simp: stored_policy_def split: option.splits)
  have get: "read_stored_policy V q b u A = (if qPolicySaved q then (v, A\<lparr>abPolicies := pm', abAdmins := (abAdmins A)\<lparr>db := d'\<rparr>\<rparr>) else ([], A))"
    by (simp add: read_stored_policy_def on_policies_def g)
  show "only_policies_read (sv_rdb V) view A A'"
    using assms(3) spec(1-3) assms(1)
    by (cases "qPolicySaved q") (auto simp: query_and_report_def get only_policies_read_def ability_simps split: prod.splits)
  show "\<exists>w. qQueryPolicy q (if qPolicySaved q then stored_policy (sv_rdb V, view, ?d) b (qPolicyName q) u else []) u isNull (abWorld A) = (r, w)"
    using assms(3) by (cases "qPolicySaved q") (auto simp: query_and_report_def get v split: prod.splits)
qed

lemma GetPolicy_reads:
  assumes "pm_agrees (sv_rdb V) view (abPolicies A, db (abAdmins A))" "queries_answer (sv_rdb V)"
    "IPolicyQuery_GetPolicy V ca q code u tag A = (ERR_OK, A')"
  shows "only_policies_read (sv_rdb V) view A A'"
    "\<exists>w. qQueryPolicy q (if qPolicySaved q then stored_policy (sv_rdb V, view, db (abAdmins A)) (named_admin V A) (qPolicyName q) u else [])
       u (fst (read_int V A) \<noteq> 0) (world_after_header V A) = (ERR_OK, w)"
proof -
  define B where "B = (if fst (read_int V A) = 0 then snd (read_element V (snd (read_int V A))) else snd (read_int V A))"
  have B: "pm_agrees (sv_rdb V) view (abPolicies B, db (abAdmins B))" "abAdmins B = abAdmins A" "abPlugins B = abPlugins A"
    "abTimers B = abTimers A" "abEvents B = abEvents A" "abConns B = abConns A" "abWorld B = world_after_header V A"
    using assms(1) by (simp_all add: B_def ability_simps world_after_header_def)
  have "\<exists>ab. query_and_report V q code (named_admin V A) ab u (fst (read_int V A) \<noteq> 0) B = (ERR_OK, A')"
    using assms(3)
    by (auto simp: IPolicyQuery_GetPolicy_def Let_def split_beta B_def named_admin_def split: if_splits option.splits)
  then obtain ab where ab: "query_and_report V q code (named_admin V A) ab u (fst (read_int V A) \<noteq> 0) B = (ERR_OK, A')" by blast
  show "only_policies_read (sv_rdb V) view A A'"
    using query_and_report_reads(1) [OF B(1) assms(2) ab] by (simp add: only_policies_read_def B)
  show "\<exists>w. qQueryPolicy q (if qPolicySaved q then stored_policy (sv_rdb V, view, db (abAdmins A)) (named_admin V A) (qPolicyName q) u else [])
       u (fst (read_int V A) \<noteq> 0) (world_after_header V A) = (ERR_OK, w)"
    using query_and_report_reads(2) [OF B(1) assms(2) ab] unfolding B(2,7) .
qed

text \<open>C35: A query answers from the database and changes nothing. When memory and database agree and \<open>GetPolicyByCode\<close> succeeds, the query of
  the code ran on the policy that the database has for the named administrator and the user (the combined one when none is
  named, the empty text when there is none or the query stores none), in the world after the header of the request was read. Afterwards memory and
  database agree as before, every policy of every administrator and user is the same, and so are the administrators, the loaded plugins,
  timers, event subscriptions and connections.\<close>

theorem queries_answer_from_database:
  assumes "pm_agrees (sv_rdb V) view (abPolicies A, db (abAdmins A))" "queries_answer (sv_rdb V)"
    "GetPolicyByCode F Q V ca c u tag (queries_made F Q codes) A = (ERR_OK, cache, A')"
  shows "\<exists>q w. fst (CreateQuery F Q (GetPolicyCode c) Map.empty) = Some q
    \<and> qQueryPolicy q (if qPolicySaved q then stored_policy (sv_rdb V, view, db (abAdmins A)) (named_admin V A) (qPolicyName q) u else [])
        u (fst (read_int V A) \<noteq> 0) (world_after_header V A) = (ERR_OK, w)
    \<and> only_policies_read (sv_rdb V) view A A'"
proof -
  obtain q where q: "fst (CreateQuery F Q (GetPolicyCode c) Map.empty) = Some q"
      "fst (IPolicyQuery_GetPolicy V ca q (GetPolicyCode c) u tag A) = ERR_OK"
      "snd (IPolicyQuery_GetPolicy V ca q (GetPolicyCode c) u tag A) = A'"
    using assms(3) made_query [of F Q "GetPolicyCode c" codes]
    by (auto simp: GetPolicyByCode_def with_query_def Let_def split_beta split: if_splits option.splits)
  then have "IPolicyQuery_GetPolicy V ca q (GetPolicyCode c) u tag A = (ERR_OK, A')" by (simp add: prod_eq_iff)
  then show ?thesis using q(1) GetPolicy_reads [OF assms(1,2)] by blast
qed

theorem queries_answer_from_database_witness:
  "fst (GetPolicyByCode (\<lambda>_. True) calm_queries asking_service settings_app read_sudo 100 [] (queries_made (\<lambda>_. True) calm_queries [])
      (calm_ability [])) = ERR_OK
   \<and> only_policies_read reliable_rdb (\<lambda>s. s) (calm_ability []) (snd (snd (GetPolicyByCode (\<lambda>_. True) calm_queries asking_service settings_app
       read_sudo 100 [] (queries_made (\<lambda>_. True) calm_queries []) (calm_ability []))))"
proof -
  let ?r = "GetPolicyByCode (\<lambda>_. True) calm_queries asking_service settings_app read_sudo 100 [] (queries_made (\<lambda>_. True) calm_queries [])
     (calm_ability [])"
  have rdb: "sv_rdb asking_service = reliable_rdb" by (simp add: asking_service_def calm_service_def)
  have agree: "pm_agrees (sv_rdb asking_service) (\<lambda>s. s) (abPolicies (calm_ability []), db (abAdmins (calm_ability [])))"
    unfolding rdb using pm_agrees_initial [OF policies_ok_empty [OF reliable_rdb_laws, of "edm_db0 (\<lambda>_. [])"]]
    by (simp add: calm_ability_def mgr0_def edm_db0_def)
  have answer: "queries_answer (sv_rdb asking_service)" unfolding rdb by (rule writes_answer [OF reliable_rdb_writes])
  have ok: "fst ?r = ERR_OK" by code_simp
  then have "?r = (ERR_OK, fst (snd ?r), snd (snd ?r))" by (simp add: prod_eq_iff)
  then show ?thesis using queries_answer_from_database [OF agree answer] ok unfolding rdb by blast
qed

subsection \<open>Stored texts\<close>



subsection \<open>What callers may not expect\<close>

text \<open>The removal of an application from a permission does not look at the account, which is part of its key.\<close>

lemma removal_ignores_account:
  "let a = \<lparr> apIdentifier = ''app'', apBundleName = ''b'', apAccountId = 100, apIndex = 0 \<rparr>; b = a\<lparr>apAccountId := 101\<rparr>
   in MakeKey_app a \<noteq> MakeKey_app b \<and> GetAppsNotInList [a] [b] = []"
  by code_simp

text \<open>Without bundles the query succeeds and writes nothing, not even the result code.\<close>

lemma no_bundles_no_reply:
  assumes "qs_ReadUint32 Q w = (n, w')" "\<And>flag. qs_GetBundleInfos Q flag u w' = Some []"
  shows "qQueryPolicy (InstalledBundleInfoListQuery Q) t u isNull w = (ERR_OK, w')"
  using assms by (simp add: InstalledBundleInfoListQuery_def IPolicyQuery_def Let_def)

end
