(* ===== verification/Query_Agreement.thy ===== *)
theory Query_Agreement
  imports Query_Requests Switch_Policies
begin

text \<open>
  A switch can be read through its plugin and, without loading it, through the table of the queries. The two say the same
  about the policy, with exceptions that are named.
\<close>

subsection \<open>Two lists in the order of their codes\<close>

text \<open>One pass over both: \<open>P\<close> holds wherever the codes meet.\<close>

fun joined :: "('a \<Rightarrow> u32) \<Rightarrow> ('b \<Rightarrow> u32) \<Rightarrow> ('a \<Rightarrow> 'b \<Rightarrow> bool) \<Rightarrow> 'a list \<Rightarrow> 'b list \<Rightarrow> bool" where
  "joined k l P [] es = True"
| "joined k l P (p # ps) [] = True"
| "joined k l P (p # ps) (e # es) =
     (if k p = l e then P p e \<and> joined k l P ps (e # es) else if l e < k p then joined k l P (p # ps) es else joined k l P ps (e # es))"

lemma joined_all:
  assumes "joined k l P ps es" "sorted (map k ps)" "sorted_wrt (<) (map l es)" "p \<in> set ps" "e \<in> set es" "k p = l e"
  shows "P p e"
  using assms
proof (induction k l P ps es rule: joined.induct)
  case (3 k l P p' ps e' es)
  show ?case
  proof (cases "k p' = l e'")
    case True
    have "P p' e" if "p = p'" using that "3.prems" True by (auto split: if_splits)
    then show ?thesis using "3" True by (auto split: if_splits)
  next
    case False
    show ?thesis
    proof (cases "l e' < k p'")
      case True
      then have "e \<noteq> e'" using "3.prems" by (auto simp: less_le_not_le)
      then show ?thesis using "3.IH"(2) "3.prems" False True by auto
    next
      case ge: False
      then have "k p' < l e'" using False by (simp add: order_less_le)
      then have "p \<noteq> p'" using "3.prems" by (auto dest: order_less_trans)
      then show ?thesis using "3.IH"(3) "3.prems" False ge by auto
    qed
  qed
qed simp_all

subsection \<open>What is said about a policy\<close>

text \<open>Code, name, interface type, whether it is saved, and the permissions of the two kinds of administrators for a read without
  a tag.\<close>

type_synonym read_face = "u32 \<times> string \<times> api_type \<times> bool \<times> string \<times> string"

definition plugin_face :: "('s, 'w) plugin \<Rightarrow> read_face" where
  "plugin_face p = (GetCode p, Plugin_GetPolicyName p, GetApiType OP_GET p, NeedSavePolicy p,
     Plugin_GetPermission OP_GET SUPER_DEVICE_ADMIN [] p, Plugin_GetPermission OP_GET BYOD_DEVICE_ADMIN [] p)"

definition entry_face :: "config_entry \<Rightarrow> read_face" where
  "entry_face e = (let c = entryConfig e in (entryCode e, cfPolicyName c, cfApiType c, cfPolicySaved c,
     Config_GetPermission (cfPermission c) SUPER_DEVICE_ADMIN [], Config_GetPermission (cfPermission c) BYOD_DEVICE_ADMIN []))"

text \<open>Switches whose plugin has permissions for tags only, and the one of the wallpaper.\<close>

definition tagged_switches :: "u32 list" where
  "tagged_switches = [IC_DISABLED_HDC, IC_DISABLED_PRINTER, IC_DISALLOW_MODIFY_DATETIME, IC_DISABLE_BLUETOOTH, IC_DISABLE_WIFI,
     IC_DISALLOW_MODIFY_WALLPAPER, IC_DISALLOWED_AIRPLANE_MODE]"

definition faces_agree :: "read_face \<Rightarrow> read_face \<Rightarrow> bool" where
  "faces_agree p e \<longleftrightarrow> (case (p, e) of ((c, n, a, s, ps, pb), (_, n', a', s', ps', pb')) \<Rightarrow>
     n = n' \<and> a = a' \<and> s = s' \<and> (c \<notin> set tagged_switches \<longrightarrow> ps = ps' \<and> pb = pb'))"

lemma switch_faces:
  "let fs = sort_key fst (map plugin_face (switch_plugins R S)) in joined fst fst faces_agree fs (map entry_face (CONFIG_TABLE F))"
  by code_simp

lemma plugins_meet_entries:
  assumes "p \<in> set (switch_plugins R S)" "e \<in> set (CONFIG_TABLE F)" "GetCode p = entryCode e"
  shows "faces_agree (plugin_face p) (entry_face e)"
proof -
  let ?fs = "sort_key fst (map plugin_face (switch_plugins R S))"
  have codes: "map fst (map entry_face (CONFIG_TABLE F)) = config_codes"
    by (simp add: entry_face_def Let_def comp_def config_codes_any [of F, symmetric])
  have "sorted_wrt (<) (map fst (map entry_face (CONFIG_TABLE F)))"
    unfolding codes strict_sorted_iff using config_codes_ordered by simp
  moreover have "fst (plugin_face p) = fst (entry_face e)" using assms(3) by (simp add: plugin_face_def entry_face_def Let_def)
  ultimately show ?thesis
    using joined_all [of fst fst faces_agree ?fs "map entry_face (CONFIG_TABLE F)" "plugin_face p" "entry_face e"]
      switch_faces [of R S F] assms(1,2)
    by (metis (no_types, lifting) Let_def image_eqI list.set_map set_sort sorted_sort_key)
qed



subsection \<open>Two exceptions\<close>

text \<open>A read with the newer tag of the interface needs the permission of the older one, and the plugin the permission of the newer.\<close>

lemma newer_tag_selects_older_permission:
  "Plugin_GetPermission OP_GET SUPER_DEVICE_ADMIN ''version_12'' (DisallModifyDateTimePlugin S) = PERMISSION_ENTERPRISE_MANAGE_RESTRICTIONS
   \<and> map_option (\<lambda>e. Config_GetPermission (cfPermission (entryConfig e)) SUPER_DEVICE_ADMIN ''version_12'')
       (FindConfig (\<lambda>_. True) (GetCode (DisallModifyDateTimePlugin S))) = Some PERMISSION_ENTERPRISE_SET_DATETIME"
  by code_simp

lemma wallpaper_read_needs_another_permission:
  "Plugin_GetPermission OP_GET SUPER_DEVICE_ADMIN [] (DisableModifyWallpaperPlugin S) = PERMISSION_ENTERPRISE_SET_USER_RESTRICTION
   \<and> map_option (\<lambda>e. Config_GetPermission (cfPermission (entryConfig e)) SUPER_DEVICE_ADMIN [])
       (FindConfig (\<lambda>_. True) (GetCode (DisableModifyWallpaperPlugin S))) = Some PERMISSION_ENTERPRISE_MANAGE_RESTRICTIONS"
  by code_simp

end
