(* ===== verification/Spec2Isabelle.thy ===== *)
theory Spec2Isabelle
  imports Func_Code Admin_Lookup List_Policies System_Timers Event_Properties Connection_Queues Ability_Properties Query_Properties Query_Agreement
begin

text \<open>
  Verification development for the enterprise device management service (EDM) of OpenHarmony:
  \<open>services/edm\<close>, the plugins of \<open>services/edm_plugin\<close> as far as named below, and the classes plugins
  are built from in \<open>interfaces/inner_api/plugin_kits\<close>.

  \<^bold>\<open>The program.\<close> Administrators (applications with an administrator ability) are enabled by
  the system; they then send requests that set or read policies. \<open>EnterpriseDeviceMgrAbility\<close> receives a
  request, asks the permission checker whether the caller may send it, and runs the plugin of the policy
  that the request's function code names. Plugins live in libraries that the plugin manager loads on demand
  and unloads when they are idle. A policy has a value per administrator and one combined value per user,
  both kept by the policy manager in memory and in a database; administrators are kept the same way by the
  administrator manager. Policies that are only read are answered by small query classes, without loading
  a library. Events of the system reach administrators through connections to their abilities, and
  plugins through the event router.

  \<^bold>\<open>How the theories read.\<close> A class is a record of its fields, an enumeration a datatype or
  a number with its width, a \<open>std::vector\<close> a list, a \<open>std::map\<close> an association list in key order, or a map
  where the order shows nowhere. A member function is a definition of the same name that takes and returns
  the state it reads and writes; every early return is a branch and errors are the codes of
  \<open>edm_errors.h\<close>. What the repository only calls (the relational store, cJSON, the time service, the
  bundle and account managers, remote objects) is a record of functions, an argument of the definitions.
  What is proved about it rests on named laws, each with a concrete instance that satisfies them.

  \<^bold>\<open>Basics.\<close>
  \<^item> \<open>Edm_Prelude\<close>: names of the base types, association lists, the shared collections of rules.
  \<^item> \<open>Edm_Codes\<close>, \<open>Plugin_Codes\<close>, \<open>Query_Codes\<close>: constants of the headers (\<open>edm_errors.h\<close>,
    \<open>edm_ipc_interface_code.h\<close>, \<open>edm_constants.h\<close>, the names of permissions, policies and tags).
  \<^item> \<open>Decimal\<close>: \<open>std::to_string\<close> and \<open>strtol\<close>; what is printed is read back.
  \<^item> \<open>Sorted_Sets\<close>: the algorithms of the standard library on sorted ranges, against sets.
  \<^item> \<open>Cjson\<close>, \<open>Cjson_Objects\<close>: the JSON library as a parameter, \<open>cjson_laws\<close> and
    \<open>faithful_cjson\<close>, the printers \<open>plain_cjson\<close> and \<open>tree_cjson\<close> that satisfy them.
  \<^item> \<open>Func_Code\<close> (\<open>func_code.h\<close>, \<open>func_code_utils.cpp\<close>): the bit layout of request codes.

  \<^bold>\<open>Administrators and their database.\<close>
  \<^item> \<open>Admin\<close> (\<open>admin/*.cpp\<close>): the administrator record, its five classes and their virtual functions.
  \<^item> \<open>Admin_Container\<close> (\<open>admin_container.cpp\<close>): the table of administrators per user. Locale
    \<open>admin_table\<close> is what the manager needs of it, interpreted on the code's container.
  \<^item> \<open>Rdb\<close> (\<open>edm_rdb_data_manager.cpp\<close>): statements over the store; \<open>rdb_laws\<close> and its instance
    \<open>list_rdb\<close>. A statement may fail at any time; the laws then leave the tables alone.
  \<^item> \<open>Admin_Policies_Storage\<close>, \<open>Device_Policies_Storage\<close> (\<open>*_storage_rdb.cpp\<close>): the tables. Locale
    \<open>value_table\<close>, a table of values under keys, is interpreted for the administrators' values and for the
    combined ones.
  \<^item> \<open>Admin_Manager\<close> (\<open>admin_manager.cpp\<close>), with \<open>Admin_Agreement\<close> (memory agrees with the database after
    every sequence of calls, so a restart brings the administrators back) and \<open>Admin_Lookup\<close> (what a name
    means across accounts).

  \<^bold>\<open>Policies.\<close>
  \<^item> \<open>User_Policy_Manager\<close>, \<open>Policy_Manager\<close> (the files of these names): the three indexes of one user
    and the managers of all users; what is set is read, and a restart shows nowhere.
  \<^item> \<open>Reliable_Policies\<close>: the same over a database whose writes succeed, where the per-policy index is exact.
  \<^item> \<open>Permission_Checker\<close> (\<open>permission_checker.cpp\<close>): who may send a request.

  \<^bold>\<open>Plugins.\<close>
  \<^item> \<open>Serializers\<close> (\<open>plugin_kits/src/utils\<close>): locale \<open>serializer\<close> (what is written is read back), interpreted
    for numbers, and through \<open>json_library\<close> for arrays.
  \<^item> \<open>Plugin\<close> (\<open>iplugin.h\<close>, \<open>iplugin.cpp\<close>), \<open>Plugin_Template\<close> (\<open>iplugin_template.tpp\<close>), \<open>Basic_Plugins\<close>
    (\<open>basic_*_plugin.cpp\<close>): a plugin is the record of its virtual functions; the template builds it from a
    serializer and the member functions that a subclass registers.
  \<^item> \<open>Conflict_Groups\<close>, \<open>Plugin_Manager\<close>, \<open>Plugin_Registry\<close>, \<open>Plugin_Dispatch\<close>
    (\<open>conflict_group_registry.cpp\<close>, \<open>plugin_manager.cpp\<close>, \<open>strategy/*.cpp\<close>): loading, registration and
    unloading, the execute strategies and the update of a policy. The registry is a step relation with the
    invariant that a plugin which is found exists, has the code and has a strategy.
  \<^item> \<open>Policy_Updates\<close>, \<open>Update_Policy\<close>, \<open>Combined_Policy\<close>: what updates do to the policy manager. Locale
    \<open>merging_plugin\<close> is the contract of a plugin whose combined value is a function of the set of the
    administrators' values.
  \<^item> \<open>Switch_Plugins\<close> (51 subclasses of \<open>BasicBoolPlugin\<close> in \<open>services/edm_plugin\<close>) and
    \<open>Switch_Policies\<close>: the contract holds for each of them, so that a switch is on exactly when some
    administrator has turned it on.
  \<^item> \<open>List_Plugins\<close> (11 subclasses of \<open>BasicArrayStringPlugin\<close>) and \<open>List_Policies\<close>: the contract holds for each
    of them, so that a list is the union of the administrators' lists.

  \<^bold>\<open>Queries.\<close>
  \<^item> \<open>Policy_Query_Config\<close> (\<open>policy_query_config*.cpp\<close>): the table and its binary search.
  \<^item> \<open>Query_Serializers\<close>, \<open>Query_Roundtrips\<close> (serializers under \<open>interfaces/inner_api\<close>): locale
    \<open>policy_serializer\<close>, interpreted for seven of them.
  \<^item> \<open>Bundle_Queries\<close>, \<open>Policy_Queries\<close>, \<open>System_Queries\<close>, \<open>Query_Requests\<close> (\<open>services/edm/src/query_policy\<close>): each
    query class, the factory with its cache, the reader and its checks. \<open>query_services\<close> is the system a query asks.
  \<^item> \<open>Query_Properties\<close>: permission, the source of the answer, the cache. \<open>Query_Agreement\<close>: reading a switch
    through the table or its plugin needs the same attributes, with the exceptions named there.

  \<^bold>\<open>The service.\<close>
  \<^item> \<open>System_Timers\<close> (\<open>system_timer_manager.cpp\<close>): timers of administrators.
  \<^item> \<open>Event_Subscriptions\<close>, \<open>Event_Routing\<close> (\<open>event_management/*.cpp\<close>): adapters, reference counted groups and
    routers. \<open>Event_Delivery\<close>, \<open>Event_Service\<close>, \<open>Event_Properties\<close>: runs of the routing, and who is reached.
  \<^item> \<open>Connections\<close>, \<open>Connection_Queues\<close> (\<open>connection/*.cpp\<close>): callbacks wait for their ability in order.
  \<^item> \<open>Ability_State\<close>, \<open>Ability_Admins\<close>, \<open>Ability_Requests\<close>, \<open>Ability_Policies\<close>, \<open>Ability_Events\<close>
    (\<open>enterprise_device_mgr_ability.cpp\<close>): the service holds all components above; its requests and its
    handlers of system events are functions on that state.
  \<^item> \<open>Ability_Runs\<close>, \<open>Ability_Steps\<close>, \<open>Ability_Admission\<close>: each of them is a run of the table of administrators, whose
    invariants bound the administrators. \<open>Ability_Disabling\<close>: what is left of a disabled one.
    \<open>Ability_Properties\<close>: the guarantees over all requests and events, and a service to try them on.

  \<^bold>\<open>Bounds and fuel.\<close> The limits are those of the code: ten super and device administrators
  together, five timers for an administrator, 200 bundles, 1000 bluetooth devices or 100 printers in a list
  policy, ids of timers and users at their width. All loops are structural or have a measure (the binary search
  halves its range). Only the readers of \<open>plain_cjson\<close> and \<open>tree_cjson\<close> take fuel, the length of their text, which is
  proved enough for every text that they print.

  \<^bold>\<open>What modelling showed.\<close> Theorems whose comment says so state behaviour that the code can
  hardly intend: resetting the running mode is lost at a restart, a replaced administrator keeps its old
  fields in memory, an extension is lost when its basic library is reloaded, unloading one extra library
  drops the plugins of the others, a timer can be taken over through a RESYNC request or by its name, a group
  without subscribers can be registered again, a number outside of 32 bits is read as another number, an
  application is removed for every account. They are stated beside the guarantees they limit.

  \<^bold>\<open>Not modelled.\<close>
  \<^item> Client interfaces (\<open>interfaces/kits\<close>, the proxies in \<open>interfaces/inner_api\<close>): bindings that convert JavaScript
    or C arguments and fill a parcel; their contents are those of the runtime's types.
  \<^item> Locks and singletons: every operation runs alone, as the locks enforce. The threads that unload
    libraries and cancel subscriptions are steps of their own, in any order; the body of \<open>DelayCancelTimer\<close> is
    its effect.
  \<^item> Dumps, log directories, provisioning information and tips: they write text for people.
  \<^item> Parcels of policy data: what a plugin reads from a parcel is an argument. The parcels of the system timers
    and the replies of queries are modelled as sequences of values.
  \<^item> \<open>TelephonyPolicySerializer\<close>'s merge, whose order is that of a hash set.
  \<^item> The other plugins of \<open>services/edm_plugin\<close>: each reads its own structure from a parcel and hands it to one
    service of the system. \<open>HiddenSettingsMenu\<close> is a list whose combined value is computed from the combined value
    itself.
\<close>

end
